(* ===== verification/Prelude.thy ===== *)
theory Prelude
  imports
    Complex_Main
    "HOL-Library.AList"
    "HOL-Library.List_Lexorder"
    "HOL-Library.Char_ord"
    "HOL-Library.Product_Lexorder"
begin

text \<open>
  What the components share: Python strings, identifiers and instants, fallible
  results, and database tables as lists of rows.

  A Python \<open>str\<close> is the list of its UTF-8 bytes. Slices and lengths count code
  points (\<open>py_take\<close>, \<open>py_len\<close>), so limits such as \<open>error[:2000]\<close> mean what the
  source means. Byte order and code point order agree, so \<open>sorted\<close> on strings is
  the library's lexicographic order. \<open>lower\<close> and \<open>strip\<close> are exact on ASCII
  letters and white space and leave all other bytes alone.
\<close>

named_theorems step_defs
  \<open>definitions of the handlers, unfolded together when one handler is analysed\<close>
named_theorems row_simps
  \<open>how table updates and lookups interact\<close>

type_synonym uuid = nat
type_synonym instant = int

section \<open>Strings\<close>

definition is_continuation :: "char \<Rightarrow> bool" where
  "is_continuation c \<longleftrightarrow> 128 \<le> (of_char c :: nat) \<and> (of_char c :: nat) < 192"

definition py_len :: "string \<Rightarrow> nat" where
  "py_len s = length (filter (\<lambda>c. \<not> is_continuation c) s)"

fun py_take :: "nat \<Rightarrow> string \<Rightarrow> string" where
  "py_take n [] = []"
| "py_take n (c # cs) =
     (if is_continuation c then c # py_take n cs
      else (case n of 0 \<Rightarrow> [] | Suc m \<Rightarrow> c # py_take m cs))"

lemma py_len_Nil [simp]: "py_len [] = 0"
  by (simp add: py_len_def)

lemma py_len_Cons [simp]:
  "py_len (c # cs) = (if is_continuation c then py_len cs else Suc (py_len cs))"
  by (simp add: py_len_def)

lemma py_len_py_take [simp]: "py_len (py_take n s) = min n (py_len s)"
  by (induction n s rule: py_take.induct) (auto split: nat.splits)

lemma py_take_id: "py_len s \<le> n \<Longrightarrow> py_take n s = s"
  by (induction n s rule: py_take.induct) (auto split: nat.splits if_splits)

definition utf8 :: "nat list \<Rightarrow> string" where
  "utf8 = map char_of"

definition lower_char :: "char \<Rightarrow> char" where
  "lower_char c =
     (let n = of_char c :: nat in if 65 \<le> n \<and> n \<le> 90 then char_of (n + 32) else c)"

definition lower :: "string \<Rightarrow> string" where
  "lower = map lower_char"

definition upper_char :: "char \<Rightarrow> char" where
  "upper_char c =
     (let n = of_char c :: nat in if 97 \<le> n \<and> n \<le> 122 then char_of (n - 32) else c)"

definition upper :: "string \<Rightarrow> string" where
  "upper = map upper_char"

definition is_space :: "char \<Rightarrow> bool" where
  "is_space c \<longleftrightarrow> (of_char c :: nat) \<in> {9, 10, 11, 12, 13, 28, 29, 30, 31, 32}"

definition strip :: "string \<Rightarrow> string" where
  "strip s = rev (dropWhile is_space (rev (dropWhile is_space s)))"

definition starts_with :: "string \<Rightarrow> string \<Rightarrow> bool" where
  "starts_with p s \<longleftrightarrow> take (length p) s = p"

definition ends_with :: "string \<Rightarrow> string \<Rightarrow> bool" where
  "ends_with p s \<longleftrightarrow> starts_with (rev p) (rev s)"

fun join :: "string \<Rightarrow> string list \<Rightarrow> string" where
  "join sep [] = []"
| "join sep [x] = x"
| "join sep (x # y # ys) = x @ sep @ join sep (y # ys)"

text \<open>\<open>p in s\<close>, and \<open>s.split(c)\<close> for a character.\<close>

fun has_substring :: "string \<Rightarrow> string \<Rightarrow> bool" where
  "has_substring p [] = (p = [])"
| "has_substring p (c # cs) = (starts_with p (c # cs) \<or> has_substring p cs)"

fun split_on :: "char \<Rightarrow> string \<Rightarrow> string list" where
  "split_on d [] = [[]]"
| "split_on d (c # cs) =
     (case split_on d cs of
        w # ws \<Rightarrow> if c = d then [] # w # ws else (c # w) # ws
      | [] \<Rightarrow> [])"

lemma split_on_not_Nil [simp]: "split_on c s \<noteq> []"
  by (induction s) (auto split: list.splits)

lemma join_split_on: "join [c] (split_on c s) = s"
proof (induction s)
  case (Cons x s)
  obtain p ps where "split_on c s = p # ps" by (cases "split_on c s") auto
  with Cons show ?case by (cases ps) auto
qed simp

definition newline :: string where
  "newline = [CHR 0x0A]"

definition is_digit :: "char \<Rightarrow> bool" where
  "is_digit c \<longleftrightarrow> 48 \<le> (of_char c :: nat) \<and> (of_char c :: nat) \<le> 57"

definition is_lower :: "char \<Rightarrow> bool" where
  "is_lower c \<longleftrightarrow> 97 \<le> (of_char c :: nat) \<and> (of_char c :: nat) \<le> 122"

definition is_upper :: "char \<Rightarrow> bool" where
  "is_upper c \<longleftrightarrow> 65 \<le> (of_char c :: nat) \<and> (of_char c :: nat) \<le> 90"

definition digit_char :: "nat \<Rightarrow> char" where
  "digit_char d = char_of (48 + d)"

fun nat_str :: "nat \<Rightarrow> string" where
  "nat_str n = (if n < 10 then [digit_char n] else nat_str (n div 10) @ [digit_char (n mod 10)])"

declare nat_str.simps [simp del]

definition int_str :: "int \<Rightarrow> string" where
  "int_str i = (if i < 0 then CHR ''-'' # nat_str (nat (- i)) else nat_str (nat i))"

definition hex_digit :: "nat \<Rightarrow> char" where
  "hex_digit d = (if d < 10 then char_of (48 + d) else char_of (87 + d))"

text \<open>\<open>UUID.hex\<close> and \<open>str(UUID)\<close> of a 128-bit value.\<close>

definition uuid_hex :: "uuid \<Rightarrow> string" where
  "uuid_hex u = map (\<lambda>i. hex_digit ((u div 16 ^ (31 - i)) mod 16)) [0..<32]"

definition uuid_str :: "uuid \<Rightarrow> string" where
  "uuid_str u =
     (let h = uuid_hex u in
      take 8 h @ ''-'' @ take 4 (drop 8 h) @ ''-'' @ take 4 (drop 12 h) @ ''-'' @
      take 4 (drop 16 h) @ ''-'' @ drop 20 h)"

lemma digits_unique:
  fixes u v :: nat
  assumes "u < 16 ^ n" and "v < 16 ^ n"
    and "\<And>i. i < n \<Longrightarrow> u div 16 ^ i mod 16 = v div 16 ^ i mod 16"
  shows "u = v"
  using assms
proof (induction n arbitrary: u v)
  case (Suc n)
  have "u div 16 = v div 16"
  proof (rule Suc.IH)
    show "u div 16 < 16 ^ n" "v div 16 < 16 ^ n" using Suc.prems(1,2) by auto
    fix i assume "i < n"
    then show "u div 16 div 16 ^ i mod 16 = v div 16 div 16 ^ i mod 16"
      using Suc.prems(3) [of "Suc i"] by (simp add: div_mult2_eq)
  qed
  moreover have "u mod 16 = v mod 16" using Suc.prems(3) [of 0] by simp
  ultimately show ?case by (metis div_mult_mod_eq)
qed simp

lemma hex_digit_inj: "a < 16 \<Longrightarrow> b < 16 \<Longrightarrow> hex_digit a = hex_digit b \<Longrightarrow> a = b"
  by (auto simp: hex_digit_def split: if_splits dest!: arg_cong [where f = "of_char :: char \<Rightarrow> nat"])

lemma uuid_hex_nth: "i < 32 \<Longrightarrow> uuid_hex u ! (31 - i) = hex_digit (u div 16 ^ i mod 16)"
proof -
  assume "i < 32"
  then have "31 - i < 32" "31 - (31 - i) = i" by simp_all
  then show ?thesis unfolding uuid_hex_def by (subst nth_map) (simp_all del: upt_rec_numeral)
qed

lemma uuid_hex_inj:
  assumes "u < 2 ^ 128" and "v < 2 ^ 128" and "uuid_hex u = uuid_hex v"
  shows "u = v"
proof (rule digits_unique [of _ 32])
  show "u < 16 ^ 32" "v < 16 ^ 32" using assms(1,2) by simp_all
  fix i :: nat assume "i < 32"
  then have "uuid_hex u ! (31 - i) = uuid_hex v ! (31 - i)" using assms(3) by simp
  with \<open>i < 32\<close> have "hex_digit (u div 16 ^ i mod 16) = hex_digit (v div 16 ^ i mod 16)"
    by (simp only: uuid_hex_nth)
  then show "u div 16 ^ i mod 16 = v div 16 ^ i mod 16" by (rule hex_digit_inj [rotated 2]) simp_all
qed

lemma length_uuid_hex [simp]: "length (uuid_hex u) = 32"
  by (simp add: uuid_hex_def)

lemma length_uuid_str [simp]: "length (uuid_str u) = 36"
  by (simp add: uuid_str_def Let_def)

lemma uuid_str_inj:
  assumes "u < 2 ^ 128" and "v < 2 ^ 128" and "uuid_str u = uuid_str v"
  shows "u = v"
proof -
  have parts: "take 8 (uuid_str w) = take 8 (uuid_hex w)"
    "take 4 (drop 9 (uuid_str w)) = take 4 (drop 8 (uuid_hex w))"
    "take 4 (drop 14 (uuid_str w)) = take 4 (drop 12 (uuid_hex w))"
    "take 4 (drop 19 (uuid_str w)) = take 4 (drop 16 (uuid_hex w))"
    "drop 24 (uuid_str w) = drop 20 (uuid_hex w)" for w
    by (simp_all add: uuid_str_def Let_def)
  have whole: "uuid_hex w = take 8 (uuid_str w) @ take 4 (drop 9 (uuid_str w)) @
    take 4 (drop 14 (uuid_str w)) @ take 4 (drop 19 (uuid_str w)) @ drop 24 (uuid_str w)" for w
  proof -
    have "take 8 h @ take 4 (drop 8 h) @ take 4 (drop 12 h) @ take 4 (drop 16 h) @ drop 20 h = h"
      for h :: string
      using take_add [of 8 4 h] take_add [of 12 4 h] take_add [of 16 4 h]
        append_take_drop_id [of 20 h] by simp
    then show ?thesis unfolding parts by simp
  qed
  have "uuid_hex u = uuid_hex v" by (simp only: whole assms(3))
  with assms(1,2) show ?thesis by (rule uuid_hex_inj)
qed

definition is_hex_or_dash :: "char \<Rightarrow> bool" where
  "is_hex_or_dash c \<longleftrightarrow> is_digit c \<or> is_lower c \<or> c = CHR ''-''"

lemma hex_digit_hex: "d < 16 \<Longrightarrow> is_hex_or_dash (hex_digit d)"
  by (auto simp: hex_digit_def is_hex_or_dash_def is_digit_def is_lower_def)

lemma uuid_hex_chars: "list_all is_hex_or_dash (uuid_hex u)"
  by (simp add: uuid_hex_def list_all_iff hex_digit_hex)

lemma uuid_str_chars: "list_all is_hex_or_dash (uuid_str u)"
  using uuid_hex_chars [of u]
  by (auto simp: uuid_str_def Let_def list_all_iff is_hex_or_dash_def
      dest!: in_set_takeD in_set_dropD)

section \<open>Fallible results\<close>

definition rbind :: "'e + 'a \<Rightarrow> ('a \<Rightarrow> 'e + 'b) \<Rightarrow> 'e + 'b" where
  "rbind r f = (case r of Inl e \<Rightarrow> Inl e | Inr x \<Rightarrow> f x)"

lemma rbind_simps [simp]:
  "rbind (Inl e) f = Inl e"
  "rbind (Inr x) f = f x"
  by (simp_all add: rbind_def)

lemma rbind_Inr: "rbind r f = Inr y \<longleftrightarrow> (\<exists>x. r = Inr x \<and> f x = Inr y)"
  by (cases r) auto

lemma rbind_Inl: "rbind r f = Inl e \<longleftrightarrow> r = Inl e \<or> (\<exists>x. r = Inr x \<and> f x = Inl e)"
  by (cases r) auto

definition require :: "bool \<Rightarrow> 'e \<Rightarrow> 'e + unit" where
  "require b e = (if b then Inr () else Inl e)"

lemma require_Inr [simp]: "require b e = Inr u \<longleftrightarrow> b"
  by (auto simp: require_def)

lemma require_Inl [simp]: "require b e = Inl x \<longleftrightarrow> \<not> b \<and> x = e"
  by (auto simp: require_def)

section \<open>Effects\<close>

text \<open>
  A handler reads and changes a world and ends with a value or an exception. What it
  changed before an exception stays changed: a commit is not undone by a later failure.
\<close>

definition aret :: "'a \<Rightarrow> 'w \<Rightarrow> ('e + 'a) \<times> 'w" where
  "aret x w = (Inr x, w)"

definition araise :: "'e \<Rightarrow> 'w \<Rightarrow> ('e + 'a) \<times> 'w" where
  "araise e w = (Inl e, w)"

definition abind :: "('w \<Rightarrow> ('e + 'a) \<times> 'w) \<Rightarrow> ('a \<Rightarrow> 'w \<Rightarrow> ('e + 'b) \<times> 'w) \<Rightarrow> 'w \<Rightarrow> ('e + 'b) \<times> 'w" where
  "abind m f w = (case m w of (Inl e, w') \<Rightarrow> (Inl e, w') | (Inr x, w') \<Rightarrow> f x w')"

text \<open>\<open>for x in xs: f(x)\<close>, ended by the first exception; \<open>amap\<close> collects the results.\<close>

fun afor :: "('x \<Rightarrow> 'w \<Rightarrow> ('e + 'a) \<times> 'w) \<Rightarrow> 'x list \<Rightarrow> 'w \<Rightarrow> ('e + unit) \<times> 'w" where
  "afor f [] w = (Inr (), w)"
| "afor f (x # xs) w = (case f x w of (Inl e, w') \<Rightarrow> (Inl e, w') | (Inr _, w') \<Rightarrow> afor f xs w')"

fun amap :: "('x \<Rightarrow> 'w \<Rightarrow> ('e + 'a) \<times> 'w) \<Rightarrow> 'x list \<Rightarrow> 'w \<Rightarrow> ('e + 'a list) \<times> 'w" where
  "amap f [] w = (Inr [], w)"
| "amap f (x # xs) w =
     (case f x w of
        (Inl e, w') \<Rightarrow> (Inl e, w')
      | (Inr y, w') \<Rightarrow>
          (case amap f xs w' of (Inl e, w'') \<Rightarrow> (Inl e, w'') | (Inr ys, w'') \<Rightarrow> (Inr (y # ys), w'')))"

lemma abind_simps [simp]:
  "m w = (Inl e, w') \<Longrightarrow> abind m f w = (Inl e, w')"
  "m w = (Inr x, w') \<Longrightarrow> abind m f w = f x w'"
  "abind (aret x) f w = f x w"
  by (simp_all add: abind_def aret_def)

lemma abind_Inr:
  "abind m f w = (Inr y, w2) \<longleftrightarrow> (\<exists>x w1. m w = (Inr x, w1) \<and> f x w1 = (Inr y, w2))"
  by (auto simp: abind_def split: prod.splits sum.splits)

lemma afor_inv:
  assumes "afor f xs w = (r, w')" and "P w"
    and "\<And>x w r w'. x \<in> set xs \<Longrightarrow> P w \<Longrightarrow> f x w = (r, w') \<Longrightarrow> P w'"
  shows "P w'"
  using assms
proof (induction xs arbitrary: w)
  case (Cons x xs)
  obtain r1 w1 where f: "f x w = (r1, w1)" by (cases "f x w")
  have p: "P w1" by (rule Cons.prems(3) [OF _ Cons.prems(2) f]) simp
  show ?case
  proof (cases r1)
    case (Inl e)
    with Cons.prems(1) f p show ?thesis by simp
  next
    case (Inr y)
    with Cons.prems(1) f have "afor f xs w1 = (r, w')" by simp
    then show ?thesis by (rule Cons.IH [OF _ p]) (rule Cons.prems(3), simp_all)
  qed
qed simp

lemma amap_inv:
  assumes "amap f xs w = (r, w')" and "P w"
    and "\<And>x w r w'. x \<in> set xs \<Longrightarrow> P w \<Longrightarrow> f x w = (r, w') \<Longrightarrow> P w'"
  shows "P w'"
  using assms
proof (induction xs arbitrary: w r w')
  case (Cons x xs)
  obtain r1 w1 where f: "f x w = (r1, w1)" by (cases "f x w")
  have p: "P w1" by (rule Cons.prems(3) [OF _ Cons.prems(2) f]) simp
  show ?case
  proof (cases r1)
    case (Inl e)
    with Cons.prems(1) f p show ?thesis by simp
  next
    case (Inr y)
    obtain r2 w2 where m: "amap f xs w1 = (r2, w2)" by (cases "amap f xs w1")
    have "P w2" by (rule Cons.IH [OF m p]) (rule Cons.prems(3), simp_all)
    with Cons.prems(1) f Inr m show ?thesis by (cases r2) simp_all
  qed
qed simp

section \<open>Elapsed time\<close>

text \<open>
  Instants are microseconds. \<open>max(0, int((b - a).total_seconds() * 1000))\<close> is the
  whole milliseconds from \<open>a\<close> to \<open>b\<close>, and 0 when the clock went backwards.
\<close>

definition elapsed_ms :: "instant \<Rightarrow> instant \<Rightarrow> int" where
  "elapsed_ms a b = max 0 ((b - a) div 1000)"

lemma elapsed_ms_nonneg [simp]: "0 \<le> elapsed_ms a b"
  by (simp add: elapsed_ms_def)

section \<open>Tables\<close>

text \<open>
  A table is the list of its rows in insertion order; \<open>key\<close> reads a row's primary
  key. An update of a missing row changes nothing, as a SQL \<open>UPDATE\<close> does.
\<close>

definition row_get :: "('r \<Rightarrow> 'k) \<Rightarrow> 'k \<Rightarrow> 'r list \<Rightarrow> 'r option" where
  "row_get key k rows = find (\<lambda>r. key r = k) rows"

definition row_upd :: "('r \<Rightarrow> 'k) \<Rightarrow> 'k \<Rightarrow> ('r \<Rightarrow> 'r) \<Rightarrow> 'r list \<Rightarrow> 'r list" where
  "row_upd key k f rows = map (\<lambda>r. if key r = k then f r else r) rows"

definition first_row :: "('r \<Rightarrow> bool) \<Rightarrow> 'r list \<Rightarrow> 'r option" where
  "first_row p rows = find p rows"

lemma row_get_Nil [simp, row_simps]: "row_get key k [] = None"
  by (simp add: row_get_def)

lemma row_get_Cons [row_simps]:
  "row_get key k (r # rows) = (if key r = k then Some r else row_get key k rows)"
  by (simp add: row_get_def)

lemma row_get_Some: "row_get key k rows = Some r \<Longrightarrow> r \<in> set rows \<and> key r = k"
  by (auto simp: row_get_def find_Some_iff)

lemma row_get_None: "row_get key k rows = None \<longleftrightarrow> k \<notin> key ` set rows"
  by (auto simp: row_get_def find_None_iff)

lemma row_get_in:
  "distinct (map key rows) \<Longrightarrow> r \<in> set rows \<Longrightarrow> row_get key (key r) rows = Some r"
  by (induction rows) (auto simp: row_get_Cons rev_image_eqI)

lemma row_get_append_new [row_simps]:
  "row_get key k (rows @ [r]) =
     (case row_get key k rows of Some x \<Rightarrow> Some x | None \<Rightarrow> if key r = k then Some r else None)"
  by (induction rows) (auto simp: row_get_Cons)

lemma set_row_upd [row_simps]:
  "set (row_upd key k f rows) = (\<lambda>r. if key r = k then f r else r) ` set rows"
  by (simp add: row_upd_def)

lemma length_row_upd [simp]: "length (row_upd key k f rows) = length rows"
  by (simp add: row_upd_def)

lemma first_row_Some: "first_row p rows = Some r \<Longrightarrow> r \<in> set rows \<and> p r"
  by (auto simp: first_row_def find_Some_iff)

lemma first_row_None: "first_row p rows = None \<longleftrightarrow> (\<forall>r\<in>set rows. \<not> p r)"
  by (auto simp: first_row_def find_None_iff)

subsection \<open>The table interface\<close>

text \<open>
  What a component that keeps rows by primary key relies on: an update in place
  keeps the keys, changes the row it names and no other row. Every handler that
  mutates ORM objects goes through this interface; each table of the platform's
  store interprets it.
\<close>

locale keyed_rows =
  fixes key :: "'r \<Rightarrow> 'k"
    and get :: "'k \<Rightarrow> 'r list \<Rightarrow> 'r option"
    and upd :: "'k \<Rightarrow> ('r \<Rightarrow> 'r) \<Rightarrow> 'r list \<Rightarrow> 'r list"
  assumes get_sound: "get k rows = Some r \<Longrightarrow> r \<in> set rows \<and> key r = k"
    and get_none: "get k rows = None \<longleftrightarrow> k \<notin> key ` set rows"
    and keys_upd: "(\<And>r. key (f r) = key r) \<Longrightarrow> map key (upd k f rows) = map key rows"
    and get_upd_same:
      "(\<And>r. key (f r) = key r) \<Longrightarrow> get k (upd k f rows) = map_option f (get k rows)"
    and get_upd_other:
      "(\<And>r. key (f r) = key r) \<Longrightarrow> k \<noteq> j \<Longrightarrow> get j (upd k f rows) = get j rows"
begin

lemma get_upd:
  assumes "\<And>r. key (f r) = key r"
  shows "get j (upd k f rows) = (if j = k then map_option f (get j rows) else get j rows)"
  using assms by (simp add: get_upd_same get_upd_other)

lemma get_missing_upd:
  assumes "\<And>r. key (f r) = key r" and "get j rows = None"
  shows "get j (upd k f rows) = None"
  using assms(2) by (auto simp: get_upd [OF assms(1)])

lemma get_upd_inv:
  assumes "\<And>r. key (f r) = key r" and "get j (upd k f rows) = Some r"
  shows "\<exists>r0. get j rows = Some r0 \<and> r = (if j = k then f r0 else r0)"
  using assms by (auto simp: get_upd split: if_splits)

text \<open>A whole batch of updates keeps the keys, and leaves alone what it does not name.\<close>

lemma keys_fold_upd:
  assumes "\<And>k r. key (f k r) = key r"
  shows "map key (fold (\<lambda>k. upd k (f k)) ks rows) = map key rows"
  using assms by (induction ks arbitrary: rows) (auto simp: keys_upd)

lemma get_fold_upd_notin:
  assumes "\<And>k r. key (f k r) = key r" and "j \<notin> set ks"
  shows "get j (fold (\<lambda>k. upd k (f k)) ks rows) = get j rows"
  using assms(2)
proof (induction ks arbitrary: rows)
  case (Cons k ks)
  then have "k \<noteq> j" by auto
  with Cons show ?case by (simp add: get_upd_other assms(1))
qed simp

end

lemma row_get_row_upd:
  "(\<And>r. key (f r) = key r) \<Longrightarrow>
     row_get key j (row_upd key k f rows) =
       (if j = k then map_option f (row_get key j rows) else row_get key j rows)"
  by (induction rows) (auto simp: row_upd_def row_get_Cons)

lemma keyed_rows_list: "keyed_rows key (row_get key) (row_upd key)"
proof (unfold_locales, goal_cases)
  case 1 then show ?case by (rule row_get_Some)
next
  case 2 show ?case by (rule row_get_None)
next
  case (3 f k rows) then show ?case by (simp add: row_upd_def)
next
  case 4 then show ?case by (simp add: row_get_row_upd)
next
  case 5 then show ?case by (simp add: row_get_row_upd)
qed

section \<open>Lists\<close>

lemma find_filter: "find p (filter q xs) = find (\<lambda>x. q x \<and> p x) xs"
  by (induction xs) auto

lemma distinct_map_filter: "distinct (map f xs) \<Longrightarrow> distinct (map f (filter p xs))"
  by (induction xs) auto

lemma set_sort_key [simp]: "set (sort_key f xs) = set xs"
  by simp

text \<open>\<open>list(dict.fromkeys(xs))\<close>: the first occurrence of each element, in order.\<close>

definition dedupe :: "'a list \<Rightarrow> 'a list" where
  "dedupe xs = rev (remdups (rev xs))"

lemma set_dedupe [simp]: "set (dedupe xs) = set xs"
  by (simp add: dedupe_def)

lemma distinct_dedupe [simp]: "distinct (dedupe xs)"
  by (simp add: dedupe_def)

lemma dedupe_id: "distinct xs \<Longrightarrow> dedupe xs = xs"
  by (simp add: dedupe_def distinct_remdups_id)

section \<open>Numbers as decimal texts\<close>

fun parse_nat :: "nat \<Rightarrow> string \<Rightarrow> nat option" where
  "parse_nat acc [] = Some acc"
| "parse_nat acc (c # cs) =
     (if is_digit c then parse_nat (acc * 10 + (of_char c - 48)) cs else None)"

lemma parse_nat_append:
  "parse_nat acc (xs @ ys) = (case parse_nat acc xs of None \<Rightarrow> None | Some a \<Rightarrow> parse_nat a ys)"
  by (induction xs arbitrary: acc) auto

lemma digit_char: "d < 10 \<Longrightarrow> is_digit (digit_char d) \<and> of_char (digit_char d) = 48 + d"
  by (simp add: digit_char_def is_digit_def)

lemma parse_nat_str: "parse_nat 0 (nat_str n) = Some n"
proof (induction n rule: nat_str.induct)
  case (1 n)
  show ?case
  proof (cases "n < 10")
    case True
    then show ?thesis using digit_char [of n] by (simp add: nat_str.simps [of n])
  next
    case False
    then show ?thesis
      using 1 digit_char [of "n mod 10"] by (simp add: nat_str.simps [of n] parse_nat_append)
  qed
qed

lemma nat_str_digits: "c \<in> set (nat_str n) \<Longrightarrow> is_digit c"
  by (induction n rule: nat_str.induct)
     (subst (asm) (2) nat_str.simps, auto simp: digit_char split: if_splits)

lemma nat_str_neq_Nil [simp]: "nat_str n \<noteq> []"
  by (subst nat_str.simps) simp

end
