(* ===== verification/Models.thy ===== *)
theory Models
  imports Json
begin

text \<open>
  The rows of the platform's database (\<open>backend/app/db/models.py\<close>) that the
  components below read and write. The status columns, which a \<open>CHECK\<close> constraint
  limits to a few words, are datatypes; the bookkeeping columns \<open>created_at\<close> and
  \<open>updated_at\<close> are kept where a query orders by them. A relationship of the ORM
  (\<open>task.session\<close>) is a lookup by the foreign key. Every primary key that the code
  draws with \<open>uuid4()\<close> comes from the counter \<open>db_next_id\<close>, so it is fresh.
\<close>

section \<open>Status columns\<close>

datatype task_status =
    Pending | Running | Waiting_child | Human_review | Retrying | Succeeded | Failed | Cancelled

datatype exec_status = X_queued | X_running | X_succeeded | X_failed | X_cancelled

datatype run_status = R_pending | R_running | R_human_review | R_succeeded | R_failed | R_cancelled

datatype agent_status = A_active | A_inactive | A_archived

datatype workflow_status = W_draft | W_active | W_inactive | W_archived

datatype version_status =
    V_development | V_testing | V_release_candidate | V_published | V_deprecated

datatype contract_status = C_draft | C_testing | C_published | C_deprecated | C_disabled

datatype publication_status = B_draft | B_testing | B_published | B_disabled

datatype client_status = K_active | K_suspended | K_revoked

datatype audit_status = U_succeeded | U_failed | U_rejected

datatype step_status =
    P_pending | P_running | P_succeeded | P_failed | P_skipped | P_cancelled

fun task_status_str :: "task_status \<Rightarrow> string" where
  "task_status_str Pending = ''pending''"
| "task_status_str Running = ''running''"
| "task_status_str Waiting_child = ''waiting_child''"
| "task_status_str Human_review = ''human_review''"
| "task_status_str Retrying = ''retrying''"
| "task_status_str Succeeded = ''succeeded''"
| "task_status_str Failed = ''failed''"
| "task_status_str Cancelled = ''cancelled''"

section \<open>Rows\<close>

record agent =
  ag_id :: string
  ag_name :: string
  ag_description :: "string option"
  ag_agent_type :: string
  ag_role :: string
  ag_system_prompt :: string
  ag_model_settings :: json
  ag_model :: string
  ag_prompt_template :: string
  ag_model_adapter :: string
  ag_runtime_type :: string
  ag_runtime_id :: "uuid option"
  ag_runtime_config :: json
  ag_capability_profile :: json
  ag_api_enabled :: bool
  ag_status :: agent_status
  ag_response_mode :: string
  ag_input_schema :: json
  ag_output_schema :: json
  ag_current_version_id :: "uuid option"

record agent_team =
  tm_id :: uuid
  tm_name :: string
  tm_description :: "string option"
  tm_owner_agent_id :: string
  tm_status :: agent_status
  tm_created_at :: instant

record team_member =
  mb_team_id :: uuid
  mb_agent_id :: string
  mb_role :: string
  mb_priority :: int

record workflow =
  wf_id :: uuid
  wf_team_id :: uuid
  wf_name :: string
  wf_description :: "string option"
  wf_definition :: json
  wf_status :: workflow_status
  wf_created_at :: instant

record workflow_run =
  wr_id :: uuid
  wr_workflow_id :: "uuid option"
  wr_team_id :: uuid
  wr_session_id :: "string option"
  wr_status :: run_status
  wr_input :: string
  wr_output :: "string option"
  wr_error :: "string option"
  wr_created_at :: instant
  wr_started_at :: "instant option"
  wr_finished_at :: "instant option"

record execution_log =
  ex_id :: uuid
  ex_agent_id :: string
  ex_session_id :: "uuid option"
  ex_status :: exec_status
  ex_input :: string
  ex_input_json :: json
  ex_output :: "string option"
  ex_output_json :: json
  ex_error :: "string option"
  ex_details :: json
  ex_response_mode :: string
  ex_priority :: "int option"
  ex_duration_ms :: "int option"
  ex_token_usage :: "int option"
  ex_runtime_type :: string
  ex_runtime_id :: "uuid option"
  ex_runtime_version :: "string option"
  ex_retry_of_execution_id :: "uuid option"
  ex_agent_version_id :: "uuid option"
  ex_started_at :: instant
  ex_finished_at :: "instant option"

record execution_step =
  sp_id :: uuid
  sp_execution_id :: uuid
  sp_step_key :: string
  sp_sequence :: int
  sp_step_type :: string
  sp_step_name :: string
  sp_status :: step_status
  sp_input_data :: json
  sp_output_data :: json
  sp_error :: "string option"
  sp_latency_ms :: "int option"
  sp_started_at :: "instant option"
  sp_finished_at :: "instant option"

record agent_session =
  ss_id :: uuid
  ss_agent_id :: string
  ss_user_id :: "string option"
  ss_memory_session_id :: string
  ss_runtime_type :: string
  ss_runtime_session_id :: "string option"
  ss_workspace_type :: string
  ss_status :: exec_status
  ss_input :: string
  ss_output :: "string option"
  ss_workspace_path :: string
  ss_created_at :: instant
  ss_started_at :: "instant option"
  ss_finished_at :: "instant option"

record agent_task =
  tk_id :: uuid
  tk_parent_task_id :: "uuid option"
  tk_workflow_id :: "uuid option"
  tk_workflow_run_id :: "uuid option"
  tk_node_key :: "string option"
  tk_node_type :: string
  tk_depends_on :: "string list"
  tk_input_data :: dict
  tk_output_data :: dict
  tk_agent_id :: string
  tk_session_id :: uuid
  tk_execution_id :: "uuid option"
  tk_priority :: int
  tk_status :: task_status
  tk_attempt :: nat
  tk_max_attempts :: nat
  tk_worker_id :: "string option"
  tk_error :: "string option"
  tk_created_at :: instant
  tk_started_at :: "instant option"
  tk_finished_at :: "instant option"

record artifact =
  ar_id :: uuid
  ar_agent_id :: string
  ar_session_id :: uuid
  ar_filename :: string
  ar_storage_type :: string
  ar_storage_path :: string
  ar_content_type :: string
  ar_artifact_type :: string
  ar_runtime_source :: string
  ar_size_bytes :: int
  ar_sha256 :: string
  ar_created_at :: instant

text \<open>
  The public side: versions of an Agent, its contracts, publications, API clients with
  their keys and bindings, the audit log and the daily counters. Skills and MCP servers
  appear by their ids. The only permission of a binding is \<open>invoke\<close>.
\<close>

record agent_version =
  av_id :: uuid
  av_agent_id :: string
  av_version :: string
  av_snapshot :: dict
  av_snapshot_format_version :: int
  av_resolution_digest :: "string option"
  av_status :: version_status
  av_description :: "string option"
  av_created_by :: string
  av_created_at :: instant
  av_updated_at :: instant
  av_published_at :: "instant option"
  av_deprecated_at :: "instant option"

record schema_version =
  sv_id :: uuid
  sv_agent_id :: string
  sv_version :: string
  sv_input_schema :: json
  sv_output_schema :: json
  sv_status :: contract_status
  sv_created_at :: instant
  sv_published_at :: "instant option"

record api_version =
  aw_id :: uuid
  aw_agent_id :: string
  aw_api_version :: string
  aw_schema_version_id :: uuid
  aw_status :: contract_status
  aw_created_at :: instant
  aw_published_at :: "instant option"

record publication =
  pb_agent_id :: string
  pb_status :: publication_status
  pb_api_key_hash :: "string option"
  pb_api_key_prefix :: "string option"
  pb_call_count :: int
  pb_last_called_at :: "instant option"
  pb_created_at :: instant

record api_client =
  cl_id :: uuid
  cl_name :: string
  cl_owner :: string
  cl_status :: client_status
  cl_rate_limit_per_minute :: int
  cl_created_at :: instant

record api_binding =
  bd_client_id :: uuid
  bd_agent_id :: string
  bd_created_at :: instant

record api_key =
  ky_id :: uuid
  ky_client_id :: uuid
  ky_name :: string
  ky_key_hash :: string
  ky_prefix :: string
  ky_active :: bool
  ky_expires_at :: "instant option"
  ky_last_used_at :: "instant option"
  ky_revoked_at :: "instant option"
  ky_created_at :: instant

record audit_log =
  au_id :: uuid
  au_request_id :: string
  au_client_id :: "uuid option"
  au_api_key_id :: "uuid option"
  au_agent_id :: "string option"
  au_status :: audit_status
  au_latency_ms :: int
  au_token_usage :: "int option"
  au_mcp_call_count :: int
  au_error_code :: "string option"
  au_created_at :: instant

record agent_metric =
  mt_id :: uuid
  mt_agent_id :: string
  mt_metric_date :: int
  mt_call_count :: int
  mt_success_count :: int
  mt_failure_count :: int
  mt_total_latency_ms :: int
  mt_total_token_usage :: int
  mt_token_usage_observed_count :: int
  mt_mcp_call_count :: int
  mt_updated_at :: instant

record registry =
  rg_versions :: "agent_version list"
  rg_schemas :: "schema_version list"
  rg_apis :: "api_version list"
  rg_publications :: "publication list"
  rg_clients :: "api_client list"
  rg_bindings :: "api_binding list"
  rg_keys :: "api_key list"
  rg_audits :: "audit_log list"
  rg_metrics :: "agent_metric list"
  rg_skills :: "string list"
  rg_mcp_servers :: "string list"
  rg_runtimes :: "uuid list"
  rg_agent_skills :: "(string \<times> string) list"
  rg_agent_mcps :: "(string \<times> string) list"

definition empty_registry :: registry where
  "empty_registry =
     \<lparr>rg_versions = [], rg_schemas = [], rg_apis = [], rg_publications = [], rg_clients = [],
      rg_bindings = [], rg_keys = [], rg_audits = [], rg_metrics = [], rg_skills = [],
      rg_mcp_servers = [], rg_runtimes = [], rg_agent_skills = [], rg_agent_mcps = []\<rparr>"

record store =
  db_agents :: "agent list"
  db_teams :: "agent_team list"
  db_members :: "team_member list"
  db_workflows :: "workflow list"
  db_runs :: "workflow_run list"
  db_tasks :: "agent_task list"
  db_sessions :: "agent_session list"
  db_executions :: "execution_log list"
  db_steps :: "execution_step list"
  db_artifacts :: "artifact list"
  db_execution_artifacts :: "(uuid \<times> uuid) list"
  db_registry :: registry
  db_next_id :: uuid

definition empty_store :: store where
  "empty_store = \<lparr>db_agents = [], db_teams = [], db_members = [], db_workflows = [], db_runs = [],
     db_tasks = [], db_sessions = [], db_executions = [], db_steps = [], db_artifacts = [],
     db_execution_artifacts = [], db_registry = empty_registry, db_next_id = 1\<rparr>"

section \<open>Access by primary key\<close>

abbreviation get_task :: "uuid \<Rightarrow> store \<Rightarrow> agent_task option" where
  "get_task k db \<equiv> row_get tk_id k (db_tasks db)"

abbreviation get_session :: "uuid \<Rightarrow> store \<Rightarrow> agent_session option" where
  "get_session k db \<equiv> row_get ss_id k (db_sessions db)"

abbreviation get_execution :: "uuid \<Rightarrow> store \<Rightarrow> execution_log option" where
  "get_execution k db \<equiv> row_get ex_id k (db_executions db)"

abbreviation get_run :: "uuid \<Rightarrow> store \<Rightarrow> workflow_run option" where
  "get_run k db \<equiv> row_get wr_id k (db_runs db)"

abbreviation get_agent :: "string \<Rightarrow> store \<Rightarrow> agent option" where
  "get_agent k db \<equiv> row_get ag_id k (db_agents db)"

abbreviation get_workflow :: "uuid \<Rightarrow> store \<Rightarrow> workflow option" where
  "get_workflow k db \<equiv> row_get wf_id k (db_workflows db)"

abbreviation get_team_row :: "uuid \<Rightarrow> store \<Rightarrow> agent_team option" where
  "get_team_row k db \<equiv> row_get tm_id k (db_teams db)"

definition upd_task :: "uuid \<Rightarrow> (agent_task \<Rightarrow> agent_task) \<Rightarrow> store \<Rightarrow> store" where
  "upd_task k f db = db\<lparr>db_tasks := row_upd tk_id k f (db_tasks db)\<rparr>"

definition upd_session :: "uuid \<Rightarrow> (agent_session \<Rightarrow> agent_session) \<Rightarrow> store \<Rightarrow> store" where
  "upd_session k f db = db\<lparr>db_sessions := row_upd ss_id k f (db_sessions db)\<rparr>"

definition upd_execution :: "uuid \<Rightarrow> (execution_log \<Rightarrow> execution_log) \<Rightarrow> store \<Rightarrow> store" where
  "upd_execution k f db = db\<lparr>db_executions := row_upd ex_id k f (db_executions db)\<rparr>"

definition upd_run :: "uuid \<Rightarrow> (workflow_run \<Rightarrow> workflow_run) \<Rightarrow> store \<Rightarrow> store" where
  "upd_run k f db = db\<lparr>db_runs := row_upd wr_id k f (db_runs db)\<rparr>"

text \<open>\<open>if task.execution_id: execution = await session.get(...); if execution is not None: ...\<close>\<close>

definition upd_task_execution ::
  "agent_task \<Rightarrow> (execution_log \<Rightarrow> execution_log) \<Rightarrow> store \<Rightarrow> store" where
  "upd_task_execution t f db =
     (case tk_execution_id t of None \<Rightarrow> db | Some e \<Rightarrow> upd_execution e f db)"

interpretation task_rows: keyed_rows tk_id "row_get tk_id" "row_upd tk_id"
  by (rule keyed_rows_list)

interpretation session_rows: keyed_rows ss_id "row_get ss_id" "row_upd ss_id"
  by (rule keyed_rows_list)

interpretation execution_rows: keyed_rows ex_id "row_get ex_id" "row_upd ex_id"
  by (rule keyed_rows_list)

interpretation run_rows: keyed_rows wr_id "row_get wr_id" "row_upd wr_id"
  by (rule keyed_rows_list)

text \<open>
  Updates of one table leave the others alone; these frame facts and the lookups
  below are the interface the handlers' proofs use.
\<close>

lemma upd_task_frame [simp, row_simps]:
  "db_sessions (upd_task k f db) = db_sessions db"
  "db_executions (upd_task k f db) = db_executions db"
  "db_runs (upd_task k f db) = db_runs db"
  "db_agents (upd_task k f db) = db_agents db"
  "db_teams (upd_task k f db) = db_teams db"
  "db_members (upd_task k f db) = db_members db"
  "db_workflows (upd_task k f db) = db_workflows db"
  "db_steps (upd_task k f db) = db_steps db"
  "db_artifacts (upd_task k f db) = db_artifacts db"
  "db_execution_artifacts (upd_task k f db) = db_execution_artifacts db"
  "db_registry (upd_task k f db) = db_registry db"
  "db_next_id (upd_task k f db) = db_next_id db"
  "db_tasks (upd_task k f db) = row_upd tk_id k f (db_tasks db)"
  by (simp_all add: upd_task_def)

lemma upd_session_frame [simp, row_simps]:
  "db_tasks (upd_session k f db) = db_tasks db"
  "db_executions (upd_session k f db) = db_executions db"
  "db_runs (upd_session k f db) = db_runs db"
  "db_agents (upd_session k f db) = db_agents db"
  "db_teams (upd_session k f db) = db_teams db"
  "db_members (upd_session k f db) = db_members db"
  "db_workflows (upd_session k f db) = db_workflows db"
  "db_steps (upd_session k f db) = db_steps db"
  "db_artifacts (upd_session k f db) = db_artifacts db"
  "db_execution_artifacts (upd_session k f db) = db_execution_artifacts db"
  "db_registry (upd_session k f db) = db_registry db"
  "db_next_id (upd_session k f db) = db_next_id db"
  "db_sessions (upd_session k f db) = row_upd ss_id k f (db_sessions db)"
  by (simp_all add: upd_session_def)

lemma upd_execution_frame [simp, row_simps]:
  "db_tasks (upd_execution k f db) = db_tasks db"
  "db_sessions (upd_execution k f db) = db_sessions db"
  "db_runs (upd_execution k f db) = db_runs db"
  "db_agents (upd_execution k f db) = db_agents db"
  "db_teams (upd_execution k f db) = db_teams db"
  "db_members (upd_execution k f db) = db_members db"
  "db_workflows (upd_execution k f db) = db_workflows db"
  "db_steps (upd_execution k f db) = db_steps db"
  "db_artifacts (upd_execution k f db) = db_artifacts db"
  "db_execution_artifacts (upd_execution k f db) = db_execution_artifacts db"
  "db_registry (upd_execution k f db) = db_registry db"
  "db_next_id (upd_execution k f db) = db_next_id db"
  "db_executions (upd_execution k f db) = row_upd ex_id k f (db_executions db)"
  by (simp_all add: upd_execution_def)

lemma upd_run_frame [simp, row_simps]:
  "db_tasks (upd_run k f db) = db_tasks db"
  "db_sessions (upd_run k f db) = db_sessions db"
  "db_executions (upd_run k f db) = db_executions db"
  "db_agents (upd_run k f db) = db_agents db"
  "db_teams (upd_run k f db) = db_teams db"
  "db_members (upd_run k f db) = db_members db"
  "db_workflows (upd_run k f db) = db_workflows db"
  "db_steps (upd_run k f db) = db_steps db"
  "db_artifacts (upd_run k f db) = db_artifacts db"
  "db_execution_artifacts (upd_run k f db) = db_execution_artifacts db"
  "db_registry (upd_run k f db) = db_registry db"
  "db_next_id (upd_run k f db) = db_next_id db"
  "db_runs (upd_run k f db) = row_upd wr_id k f (db_runs db)"
  by (simp_all add: upd_run_def)

lemma upd_task_execution_frame [simp, row_simps]:
  "db_tasks (upd_task_execution t f db) = db_tasks db"
  "db_sessions (upd_task_execution t f db) = db_sessions db"
  "db_runs (upd_task_execution t f db) = db_runs db"
  "db_next_id (upd_task_execution t f db) = db_next_id db"
  "db_agents (upd_task_execution t f db) = db_agents db"
  by (simp_all add: upd_task_execution_def split: option.splits)

lemmas task_get_upd = task_rows.get_upd
lemmas session_get_upd = session_rows.get_upd
lemmas execution_get_upd = execution_rows.get_upd
lemmas run_get_upd = run_rows.get_upd

end
