(* ===== verification/Python_Conversions.thy ===== *)
theory Python_Conversions
  imports Json
begin

text \<open>
  What the code uses of Python's conversions and of the class \<open>UUID\<close>, with the errors they
  raise. Digits other than the ASCII ones are not modelled.
\<close>

datatype py_error = Value_error string | Type_error | Attribute_error

section \<open>Python conversions\<close>

text \<open>\<open>int(text, base)\<close>: white space around, a sign, a prefix 0x in base 16, and single
  underscores between digits.\<close>

definition digit_value :: "char \<Rightarrow> nat option" where
  "digit_value c =
     (let n = of_char c :: nat in
      if is_digit c then Some (n - 48)
      else if is_lower c then Some (n - 87)
      else if is_upper c then Some (n - 55)
      else None)"

fun digits_value :: "nat \<Rightarrow> nat \<Rightarrow> bool \<Rightarrow> string \<Rightarrow> nat option" where
  "digits_value base acc after_digit [] = (if after_digit then Some acc else None)"
| "digits_value base acc after_digit (c # cs) =
     (if c = CHR ''_'' then (if after_digit then digits_value base acc False cs else None)
      else case digit_value c of
        None \<Rightarrow> None
      | Some d \<Rightarrow> if d < base then digits_value base (acc * base + d) True cs else None)"

definition drop_hex_prefix :: "string \<Rightarrow> string" where
  "drop_hex_prefix s =
     (if starts_with ''0x'' s \<or> starts_with ''0X'' s
      then (case drop 2 s of c # cs \<Rightarrow> (if c = CHR ''_'' then cs else c # cs) | [] \<Rightarrow> [])
      else s)"

definition parse_int :: "nat \<Rightarrow> string \<Rightarrow> int option" where
  "parse_int base s =
     (let t = strip s;
          (neg, u) = (case t of c # cs \<Rightarrow> (if c = CHR ''-'' then (True, cs)
                                          else if c = CHR ''+'' then (False, cs) else (False, t))
                             | [] \<Rightarrow> (False, []));
          v = (if base = 16 then drop_hex_prefix u else u)
      in map_option (\<lambda>n. if neg then - int n else int n) (digits_value base 0 False v))"

text \<open>
  \<open>int(v)\<close> of a JSON value. A float is truncated towards zero.
\<close>

definition py_int :: "(json \<Rightarrow> string) \<Rightarrow> json \<Rightarrow> py_error + int" where
  "py_int rep v =
     (case v of
        JInt i \<Rightarrow> Inr i
      | JBool b \<Rightarrow> Inr (if b then 1 else 0)
      | JFloat r \<Rightarrow> Inr (if 0 \<le> r then \<lfloor>r\<rfloor> else - \<lfloor>- r\<rfloor>)
      | JStr s \<Rightarrow>
          (case parse_int 10 s of
             Some i \<Rightarrow> Inr i
           | None \<Rightarrow> Inl (Value_error (''invalid literal for int() with base 10: '' @ rep v)))
      | _ \<Rightarrow> Inl Type_error)"

text \<open>\<open>v in {...}\<close> for a set of strings: lists and dicts are not hashable.\<close>

definition in_set :: "json \<Rightarrow> string list \<Rightarrow> py_error + bool" where
  "in_set v xs = (if is_arr v \<or> is_obj v then Inl Type_error else Inr (v \<in> JStr ` set xs))"

text \<open>\<open>for item in v\<close>: a text gives its characters, a dict its keys.\<close>

definition json_items :: "json \<Rightarrow> py_error + json list" where
  "json_items v =
     (case v of
        JArr xs \<Rightarrow> Inr xs
      | JObj ps \<Rightarrow> Inr (map (\<lambda>p. JStr (fst p)) ps)
      | JStr s \<Rightarrow> Inr (map (\<lambda>c. JStr [c]) s)
      | _ \<Rightarrow> Inl Type_error)"

text \<open>\<open>v.items()\<close>.\<close>

definition json_pairs :: "json \<Rightarrow> py_error + dict" where
  "json_pairs v = (case v of JObj d \<Rightarrow> Inr d | _ \<Rightarrow> Inl Attribute_error)"

text \<open>
  \<open>a == b\<close>: integers, floats and booleans compare by value, dicts without regard to order.
  Equal values have the same normal form.
\<close>

fun py_norm :: "json \<Rightarrow> json" where
  "py_norm (JBool b) = JFloat (if b then 1 else 0)"
| "py_norm (JInt i) = JFloat (of_int i)"
| "py_norm (JArr xs) = JArr (map py_norm xs)"
| "py_norm (JObj d) = JObj (sort_key fst (map (\<lambda>(k, v). (k, py_norm v)) d))"
| "py_norm v = v"

definition py_eq :: "json \<Rightarrow> json \<Rightarrow> bool" where
  "py_eq a b \<longleftrightarrow> py_norm a = py_norm b"

fun as_number :: "json \<Rightarrow> rat option" where
  "as_number (JInt i) = Some (of_int i)"
| "as_number (JBool b) = Some (if b then 1 else 0)"
| "as_number (JFloat r) = Some r"
| "as_number _ = None"

text \<open>\<open>a < b\<close>: numbers, texts and lists are ordered, anything else raises \<open>TypeError\<close>.\<close>

fun py_less :: "json \<Rightarrow> json \<Rightarrow> py_error + bool"
  and py_less_list :: "json list \<Rightarrow> json list \<Rightarrow> py_error + bool"
where
  "py_less a b =
     (case (a, b) of
        (JStr x, JStr y) \<Rightarrow> Inr (x < y)
      | (JArr xs, JArr ys) \<Rightarrow> py_less_list xs ys
      | _ \<Rightarrow> (case (as_number a, as_number b) of
                 (Some x, Some y) \<Rightarrow> Inr (x < y)
               | _ \<Rightarrow> Inl Type_error))"
| "py_less_list xs ys =
     (case (xs, ys) of
        (_, []) \<Rightarrow> Inr False
      | ([], _ # _) \<Rightarrow> Inr True
      | (x # xs', y # ys') \<Rightarrow> if py_eq x y then py_less_list xs' ys' else py_less x y)"

declare py_less.simps [simp del] py_less_list.simps [simp del]

text \<open>\<open>a in b\<close>.\<close>

definition py_in :: "json \<Rightarrow> json \<Rightarrow> py_error + bool" where
  "py_in a b =
     (case b of
        JArr xs \<Rightarrow> Inr (list_ex (py_eq a) xs)
      | JStr s \<Rightarrow> (case a of JStr t \<Rightarrow> Inr (has_substring t s) | _ \<Rightarrow> Inl Type_error)
      | JObj d \<Rightarrow> if is_arr a \<or> is_obj a then Inl Type_error
                  else Inr (case a of JStr t \<Rightarrow> dhas d t | _ \<Rightarrow> False)
      | _ \<Rightarrow> Inl Type_error)"

text \<open>\<open>UUID(text)\<close>: the words urn: and uuid:, braces around and hyphens are dropped.\<close>

function drop_all :: "string \<Rightarrow> string \<Rightarrow> string" where
  "drop_all p [] = []"
| "drop_all p (c # cs) =
     (if p \<noteq> [] \<and> starts_with p (c # cs) then drop_all p (drop (length p) (c # cs))
      else c # drop_all p cs)"
  by pat_completeness auto
termination by (relation "measure (\<lambda>(p, s). length s)") (auto simp: neq_Nil_conv)

definition strip_chars :: "(char \<Rightarrow> bool) \<Rightarrow> string \<Rightarrow> string" where
  "strip_chars p s = rev (dropWhile p (rev (dropWhile p s)))"

definition parse_uuid :: "string \<Rightarrow> uuid option" where
  "parse_uuid s =
     (let h = filter (\<lambda>c. c \<noteq> CHR ''-'')
                (strip_chars (\<lambda>c. c \<in> {CHR ''{'', CHR ''}''})
                  (drop_all ''uuid:'' (drop_all ''urn:'' s)))
      in if py_len h \<noteq> 32 then None
         else case parse_int 16 h of
           None \<Rightarrow> None
         | Some i \<Rightarrow> if 0 \<le> i then Some (nat i) else None)"

section \<open>UUIDs as text\<close>

lemma digit_value_hex: "d < 16 \<Longrightarrow> digit_value (hex_digit d) = Some d"
  by (auto simp: digit_value_def hex_digit_def is_digit_def is_lower_def Let_def)

definition hex_char :: "char \<Rightarrow> bool" where
  "hex_char c \<longleftrightarrow> c \<in> set ''0123456789abcdef''"

lemma hex_char_facts:
  "hex_char c \<Longrightarrow> \<not> is_space c"
  "hex_char c \<Longrightarrow> c \<notin> {CHR ''-'', CHR ''+'', CHR ''_'', CHR '':'', CHR ''x'', CHR ''X'', CHR ''{'', CHR ''}''}"
  "hex_char c \<Longrightarrow> \<not> is_continuation c"
proof -
  have "list_all (\<lambda>c. \<not> is_space c \<and> \<not> is_continuation c \<and>
      c \<notin> {CHR ''-'', CHR ''+'', CHR ''_'', CHR '':'', CHR ''x'', CHR ''X'', CHR ''{'', CHR ''}''}) ''0123456789abcdef''"
    by code_simp
  then show "hex_char c \<Longrightarrow> \<not> is_space c"
    "hex_char c \<Longrightarrow> c \<notin> {CHR ''-'', CHR ''+'', CHR ''_'', CHR '':'', CHR ''x'', CHR ''X'', CHR ''{'', CHR ''}''}"
    "hex_char c \<Longrightarrow> \<not> is_continuation c"
    unfolding list_all_iff hex_char_def by blast+
qed

lemma hex_char_digit: "d < 16 \<Longrightarrow> hex_char (hex_digit d)"
proof -
  have "list_all (\<lambda>d. hex_char (hex_digit d)) [0..<16]" by code_simp
  then show "d < 16 \<Longrightarrow> hex_char (hex_digit d)" unfolding list_all_iff by simp
qed

lemma digits_value_hex:
  "list_all (\<lambda>d. d < 16) ds \<Longrightarrow> b \<or> ds \<noteq> [] \<Longrightarrow>
     digits_value 16 acc b (map hex_digit ds) = Some (foldl (\<lambda>a d. a * 16 + d) acc ds)"
proof (induction ds arbitrary: acc b)
  case (Cons d ds)
  have "hex_digit d \<noteq> CHR ''_''" using hex_char_facts(2) [OF hex_char_digit [of d]] Cons.prems(1) by auto
  then show ?case using Cons by (simp add: digit_value_hex)
qed simp

lemma foldl_digits: "foldl (\<lambda>a d. a * 16 + d) 0 (map (\<lambda>i. u div 16 ^ (n - i) mod 16) [0..<Suc n]) = u mod 16 ^ Suc n"
  for u :: nat
proof (induction n arbitrary: u)
  case (Suc n)
  have e: "map (\<lambda>i. u div 16 ^ (Suc n - i) mod 16) [0..<Suc n] =
      map (\<lambda>i. u div 16 div 16 ^ (n - i) mod 16) [0..<Suc n]"
    by (rule map_cong) (auto simp: Suc_diff_le div_mult2_eq)
  have "foldl (\<lambda>a d. a * 16 + d) 0 (map (\<lambda>i. u div 16 ^ (Suc n - i) mod 16) [0..<Suc (Suc n)]) =
      foldl (\<lambda>a d. a * 16 + d) 0 (map (\<lambda>i. u div 16 ^ (Suc n - i) mod 16) [0..<Suc n]) * 16 + u mod 16"
    by (simp del: upt.simps add: upt_Suc_append)
  also have "\<dots> = (u div 16 mod 16 ^ Suc n) * 16 + u mod 16"
    unfolding e Suc.IH by simp
  also have "\<dots> = u mod 16 ^ Suc (Suc n)"
    using mod_mult2_eq [of u 16 "16 ^ Suc n"] by (simp add: mult.commute)
  finally show ?case .
qed simp

lemma uuid_hex_digits: "uuid_hex u = map hex_digit (map (\<lambda>i. u div 16 ^ (31 - i) mod 16) [0..<Suc 31])"
  by (simp add: uuid_hex_def comp_def)

lemma uuid_hex_hex: "c \<in> set (uuid_hex u) \<Longrightarrow> hex_char c"
  by (auto simp: uuid_hex_def intro!: hex_char_digit)

lemma dropWhile_none: "\<forall>c\<in>set s. \<not> p c \<Longrightarrow> dropWhile p s = s"
  by (cases s) auto

lemma drop_all_none: "c \<in> set p \<Longrightarrow> c \<notin> set s \<Longrightarrow> drop_all p s = s"
proof (induction p s rule: drop_all.induct)
  case (2 p a s)
  have "\<not> starts_with p (a # s)"
    using 2(3,4) in_set_takeD [of c "length p" "a # s"] unfolding starts_with_def by metis
  with 2 show ?case by simp
qed simp

lemma parse_hex: "parse_int 16 (uuid_hex u) = Some (int (u mod 16 ^ 32))"
proof -
  have chars: "\<forall>c\<in>set (uuid_hex u). \<not> is_space c"
    "CHR ''x'' \<notin> set (uuid_hex u)" "CHR ''X'' \<notin> set (uuid_hex u)"
    using uuid_hex_hex hex_char_facts by blast+
  have strip: "strip (uuid_hex u) = uuid_hex u"
    using chars(1) by (simp add: strip_def dropWhile_none)
  have prefix: "drop_hex_prefix (uuid_hex u) = uuid_hex u"
  proof -
    have "\<not> starts_with [CHR ''0'', x] (uuid_hex u)" if "x \<notin> set (uuid_hex u)" for x
      using that by (auto simp: starts_with_def) (metis in_set_takeD list.set_intros)
    then show ?thesis using chars(2,3) by (simp add: drop_hex_prefix_def)
  qed
  obtain c cs where h: "uuid_hex u = c # cs"
    using length_uuid_hex [of u] by (cases "uuid_hex u") auto
  have "hex_char c" using uuid_hex_hex [of c u] h by simp
  then have "c \<noteq> CHR ''-''" "c \<noteq> CHR ''+''" using hex_char_facts(2) [of c] by auto
  then have "parse_int 16 (uuid_hex u) = map_option int (digits_value 16 0 False (uuid_hex u))"
    using prefix strip h by (simp add: parse_int_def Let_def)
  also have "digits_value 16 0 False (uuid_hex u) = Some (u mod 16 ^ Suc 31)"
    unfolding uuid_hex_digits by (subst digits_value_hex) (simp_all only: foldl_digits, simp_all add: list_all_iff)
  finally show ?thesis by simp
qed

lemma filter_uuid_str: "filter (\<lambda>c. c \<noteq> CHR ''-'') (uuid_str u) = uuid_hex u"
proof -
  define h where "h = uuid_hex u"
  have all: "filter (\<lambda>c. c \<noteq> CHR ''-'') xs = xs" if "set xs \<subseteq> set h" for xs
    using that uuid_hex_hex hex_char_facts(2) by (intro filter_True) (auto simp: h_def)
  have sub: "set (take m (drop n h)) \<subseteq> set h" "set (drop n h) \<subseteq> set h" "set (take n h) \<subseteq> set h" for m n
    using set_take_subset set_drop_subset order_trans by metis+
  have "filter (\<lambda>c. c \<noteq> CHR ''-'') (uuid_str u) =
      take 8 h @ take 4 (drop 8 h) @ take 4 (drop 12 h) @ take 4 (drop 16 h) @ drop 20 h"
    by (simp add: uuid_str_def h_def [symmetric] Let_def all sub)
  also have "\<dots> = h"
    using take_add [of 8 4 h] take_add [of 12 4 h] take_add [of 16 4 h] append_take_drop_id [of 20 h] by simp
  finally show ?thesis by (simp add: h_def)
qed

lemma parse_uuid_str: "u < 2 ^ 128 \<Longrightarrow> parse_uuid (uuid_str u) = Some u"
proof -
  assume u: "u < 2 ^ 128"
  have chars: "c \<in> set (uuid_str u) \<Longrightarrow> c = CHR ''-'' \<or> hex_char c" for c
    using filter_set [of "\<lambda>c. c \<noteq> CHR ''-''" "uuid_str u", symmetric] uuid_hex_hex [of c u]
    by (auto simp: filter_uuid_str)
  then have "CHR '':'' \<notin> set (uuid_str u)" "\<forall>c\<in>set (uuid_str u). c \<notin> {CHR ''{'', CHR ''}''}"
    using hex_char_facts(2) by fastforce+
  then have same: "strip_chars (\<lambda>c. c \<in> {CHR ''{'', CHR ''}''}) (drop_all ''uuid:'' (drop_all ''urn:'' (uuid_str u))) = uuid_str u"
    by (simp add: drop_all_none [where c = "CHR '':''"] strip_chars_def dropWhile_none)
  have len: "py_len (uuid_hex u) = 32"
    using uuid_hex_hex hex_char_facts(3) by (simp add: py_len_def filter_True)
  have "u mod 16 ^ 32 = u" using u by simp
  then show ?thesis
    unfolding parse_uuid_def same filter_uuid_str Let_def by (simp add: len parse_hex)
qed


end
