(* ===== verification/Capability_Profile.thy ===== *)
theory Capability_Profile
  imports Json
begin

text \<open>
  The capability profile of an Agent (\<open>backend/app/runtime/capabilities.py\<close>): the
  defaults per runtime type, the normalisation every stored or restored profile goes
  through, and the check of a profile against the tools a runtime offers.
\<close>

definition runtime_types :: "string list" where
  "runtime_types = [''hermes'', ''pi'', ''deepseek'']"

definition workspace_types :: "string list" where
  "workspace_types = [''document'', ''repository'']"

definition capability_names :: "string list" where
  "capability_names = [''filesystem'', ''database'']"

definition artifact_type_names :: "string list" where
  "artifact_type_names =
     [''text'', ''json'', ''markdown'', ''pdf'', ''xlsx'', ''code_patch'', ''git_diff'', ''test_report'']"

datatype profile_error =
    Unsupported_runtime string
  | Profile_not_object
  | Unsupported_fields "string list"
  | Bad_workspace_type
  | Deepseek_needs_repository
  | Not_string_array string
  | Unsupported_tools "string list"
  | Unsupported_artifacts "string list"
  | Tools_unavailable "string list"

text \<open>The messages of the exceptions.\<close>

fun profile_message :: "profile_error \<Rightarrow> string" where
  "profile_message (Unsupported_runtime t) = ''unsupported Runtime type: '' @ t"
| "profile_message Profile_not_object = ''capability_profile must be an object''"
| "profile_message (Unsupported_fields fs) = ''capability_profile contains unsupported fields: '' @ join '', '' fs"
| "profile_message Bad_workspace_type = ''capability_profile.workspace_type must be document or repository''"
| "profile_message Deepseek_needs_repository = ''DeepSeek Runtime requires a repository workspace''"
| "profile_message (Not_string_array f) = ''capability_profile.'' @ f @ '' must be a string array''"
| "profile_message (Unsupported_tools ts) = ''capability_profile contains unsupported tools: '' @ join '', '' ts"
| "profile_message (Unsupported_artifacts ts) =
     ''capability_profile contains unsupported artifact types: '' @ join '', '' ts"
| "profile_message (Tools_unavailable ts) = ''Runtime capabilities are unavailable: '' @ join '', '' ts"

record profile =
  pr_workspace_type :: string
  pr_required_tools :: "string list"
  pr_artifact_types :: "string list"

definition profile_json :: "profile \<Rightarrow> json" where
  "profile_json p = JObj
     [(''workspace_type'', JStr (pr_workspace_type p)),
      (''required_tools'', str_list (pr_required_tools p)),
      (''artifact_types'', str_list (pr_artifact_types p))]"

definition default_capability_profile :: "string \<Rightarrow> profile" where
  "default_capability_profile runtime_type =
     (if runtime_type = ''deepseek''
      then \<lparr>pr_workspace_type = ''repository'', pr_required_tools = [],
            pr_artifact_types = [''code_patch'', ''git_diff'', ''test_report'']\<rparr>
      else \<lparr>pr_workspace_type = ''document'', pr_required_tools = [],
            pr_artifact_types = [''text'', ''json'', ''markdown'', ''pdf'', ''xlsx'']\<rparr>)"

text \<open>\<open>_string_list\<close>: blank items are dropped, the others trimmed and lowered.\<close>

fun string_list :: "json \<Rightarrow> string \<Rightarrow> profile_error + string list" where
  "string_list (JArr xs) field =
     (if list_all is_str xs
      then Inr (map (\<lambda>x. lower (strip (as_str x))) (filter (\<lambda>x. strip (as_str x) \<noteq> []) xs))
      else Inl (Not_string_array field))"
| "string_list _ field = Inl (Not_string_array field)"

definition sorted_diff :: "string list \<Rightarrow> string list \<Rightarrow> string list" where
  "sorted_diff xs ys = sort (remdups (filter (\<lambda>x. x \<notin> set ys) xs))"

lemma sorted_diff_Nil [simp]: "sorted_diff xs ys = [] \<longleftrightarrow> set xs \<subseteq> set ys"
proof -
  have "sorted_diff xs ys = [] \<longleftrightarrow> set (sorted_diff xs ys) = {}" by simp
  also have "\<dots> \<longleftrightarrow> set xs \<subseteq> set ys" by (auto simp: sorted_diff_def)
  finally show ?thesis .
qed

definition normalize_capability_profile :: "json \<Rightarrow> string \<Rightarrow> profile_error + profile" where
  "normalize_capability_profile value runtime_type =
     (if runtime_type \<notin> set runtime_types then Inl (Unsupported_runtime runtime_type)
      else if truthy value \<and> \<not> is_obj value then Inl Profile_not_object
      else
        let source = as_obj value;
            unknown = sorted_diff (map fst source) [''workspace_type'', ''required_tools'', ''artifact_types''];
            defaults = default_capability_profile runtime_type;
            workspace_type = dget_default source ''workspace_type'' (JStr (pr_workspace_type defaults))
        in if unknown \<noteq> [] then Inl (Unsupported_fields unknown)
           else if workspace_type \<notin> JStr ` set workspace_types then Inl Bad_workspace_type
           else if runtime_type = ''deepseek'' \<and> workspace_type \<noteq> JStr ''repository''
             then Inl Deepseek_needs_repository
           else rbind (string_list (dget_default source ''required_tools''
                                      (str_list (pr_required_tools defaults))) ''required_tools'') (\<lambda>tools.
                if sorted_diff tools capability_names \<noteq> []
                then Inl (Unsupported_tools (sorted_diff tools capability_names))
                else rbind (string_list (dget_default source ''artifact_types''
                                           (str_list (pr_artifact_types defaults))) ''artifact_types'') (\<lambda>artifacts.
                  if sorted_diff artifacts artifact_type_names \<noteq> []
                  then Inl (Unsupported_artifacts (sorted_diff artifacts artifact_type_names))
                  else Inr \<lparr>pr_workspace_type = as_str workspace_type,
                            pr_required_tools = dedupe tools,
                            pr_artifact_types = dedupe artifacts\<rparr>)))"

definition validate_required_tools :: "profile \<Rightarrow> string list \<Rightarrow> profile_error + unit" where
  "validate_required_tools p available =
     (let missing = sorted_diff (pr_required_tools p) available
      in if missing \<noteq> [] then Inl (Tools_unavailable missing) else Inr ())"

text \<open>What a normalised profile guarantees to the code that uses it.\<close>

definition valid_profile :: "string \<Rightarrow> profile \<Rightarrow> bool" where
  "valid_profile runtime_type p \<longleftrightarrow>
     runtime_type \<in> set runtime_types \<and>
     pr_workspace_type p \<in> set workspace_types \<and>
     (runtime_type = ''deepseek'' \<longrightarrow> pr_workspace_type p = ''repository'') \<and>
     set (pr_required_tools p) \<subseteq> set capability_names \<and> distinct (pr_required_tools p) \<and>
     set (pr_artifact_types p) \<subseteq> set artifact_type_names \<and> distinct (pr_artifact_types p)"

lemma normalize_valid:
  "normalize_capability_profile value runtime_type = Inr p \<Longrightarrow> valid_profile runtime_type p"
  by (auto simp: normalize_capability_profile_def Let_def rbind_Inr valid_profile_def
      split: if_splits)

subsection \<open>Normalising a normalised profile\<close>

lemma clean_tools:
  "set xs \<subseteq> set capability_names \<Longrightarrow>
     filter (\<lambda>x. strip (as_str x) \<noteq> []) (map JStr xs) = map JStr xs \<and>
     map (\<lambda>x. lower (strip x)) xs = xs"
  by (induction xs) (auto simp: capability_names_def strip_def is_space_def lower_def lower_char_def)

lemma clean_artifacts:
  "set xs \<subseteq> set artifact_type_names \<Longrightarrow>
     filter (\<lambda>x. strip (as_str x) \<noteq> []) (map JStr xs) = map JStr xs \<and>
     map (\<lambda>x. lower (strip x)) xs = xs"
  by (induction xs) (auto simp: artifact_type_names_def strip_def is_space_def lower_def lower_char_def)

lemma string_list_clean:
  assumes "filter (\<lambda>x. strip (as_str x) \<noteq> []) (map JStr xs) = map JStr xs"
    and "map (\<lambda>x. lower (strip x)) xs = xs"
  shows "string_list (str_list xs) field = Inr xs"
  using assms by (simp add: str_list_def list_all_iff comp_def)

lemma normalize_profile_json:
  assumes "valid_profile runtime_type p"
  shows "normalize_capability_profile (profile_json p) runtime_type = Inr p"
proof -
  have tools: "string_list (str_list (pr_required_tools p)) f = Inr (pr_required_tools p)" for f
    using assms clean_tools by (intro string_list_clean) (auto simp: valid_profile_def)
  have arts: "string_list (str_list (pr_artifact_types p)) f = Inr (pr_artifact_types p)" for f
    using assms clean_artifacts by (intro string_list_clean) (auto simp: valid_profile_def)
  show ?thesis
    using assms
    by (auto simp: normalize_capability_profile_def profile_json_def Let_def dget_default_def
        tools arts valid_profile_def dedupe_id)
qed

text \<open>
  Normalising the stored form of a normalised profile gives the profile back: the
  normal form is a fixed point, so storing a profile in a Version snapshot and
  restoring it any number of times never changes it, and every normal form names only
  tools and artifact types the platform supports, without repetition, with a
  repository workspace for DeepSeek.
\<close>

theorem normalize_capability_profile_stable:
  assumes "normalize_capability_profile value runtime_type = Inr p"
  shows "valid_profile runtime_type p \<and>
         normalize_capability_profile (profile_json p) runtime_type = Inr p"
  using normalize_valid [OF assms] normalize_profile_json by blast

lemma sample_profile:
  "normalize_capability_profile
     (JObj [(''required_tools'', JArr [JStr '' Database '', JStr ''database''])]) ''pi'' =
   Inr \<lparr>pr_workspace_type = ''document'', pr_required_tools = [''database''],
        pr_artifact_types = [''text'', ''json'', ''markdown'', ''pdf'', ''xlsx'']\<rparr>"
  by code_simp

theorem normalize_capability_profile_stable_witness:
  "valid_profile ''pi'' \<lparr>pr_workspace_type = ''document'', pr_required_tools = [''database''],
        pr_artifact_types = [''text'', ''json'', ''markdown'', ''pdf'', ''xlsx'']\<rparr>"
  using normalize_capability_profile_stable [OF sample_profile] by blast

end
