(* ===== verification/Agent_Versions.thy ===== *)
theory Agent_Versions
  imports Models Agent_Contract Capability_Profile
begin

text \<open>
  The versions of an Agent (\<open>backend/app/repositories/production.py\<close>): a version holds a
  snapshot of the Agent's configuration; it is edited and tested, becomes a release
  candidate, is published and later deprecated, and a deprecated one can be brought back.
  A function works on the rows as they were read (\<open>a\<close>, \<open>v\<close>) and on the database; an
  exception leaves the database as it was, for the transaction is rolled back. \<open>rep\<close> is
  Python's \<open>repr\<close>, \<open>check\<close> the check of a schema against the meta schema. Row locks are not
  modelled: each function is one step.
\<close>

datatype version_error =
    Python_error py_error
  | Profile_error profile_error
  | Constraint_error

type_synonym 'a tx = "version_error + ('a \<times> store)"

definition value_error :: "string \<Rightarrow> version_error + 'a" where
  "value_error m = Inl (Python_error (Value_error m))"

definition lift_py :: "py_error + 'a \<Rightarrow> version_error + 'a" where
  "lift_py r = (case r of Inl e \<Rightarrow> Inl (Python_error e) | Inr x \<Rightarrow> Inr x)"

definition lift_profile :: "profile_error + 'a \<Rightarrow> version_error + 'a" where
  "lift_profile r = (case r of Inl e \<Rightarrow> Inl (Profile_error e) | Inr x \<Rightarrow> Inr x)"

definition check_that :: "bool \<Rightarrow> string \<Rightarrow> version_error + unit" where
  "check_that b m = (if b then Inr () else value_error m)"

lemma lift_py_Inr [simp]: "lift_py r = Inr x \<longleftrightarrow> r = Inr x"
  by (auto simp: lift_py_def split: sum.splits)

lemma lift_profile_Inr [simp]: "lift_profile r = Inr x \<longleftrightarrow> r = Inr x"
  by (auto simp: lift_profile_def split: sum.splits)

lemma check_that_Inr [simp]: "check_that b m = Inr u \<longleftrightarrow> b"
  by (auto simp: check_that_def value_error_def)

section \<open>Access\<close>

definition upd_version :: "uuid \<Rightarrow> (agent_version \<Rightarrow> agent_version) \<Rightarrow> store \<Rightarrow> store" where
  "upd_version k f db =
     db\<lparr>db_registry := (db_registry db)\<lparr>rg_versions := row_upd av_id k f (rg_versions (db_registry db))\<rparr>\<rparr>"

definition upd_agent :: "string \<Rightarrow> (agent \<Rightarrow> agent) \<Rightarrow> store \<Rightarrow> store" where
  "upd_agent k f db = db\<lparr>db_agents := row_upd ag_id k f (db_agents db)\<rparr>"

definition upd_registry :: "(registry \<Rightarrow> registry) \<Rightarrow> store \<Rightarrow> store" where
  "upd_registry f db = db\<lparr>db_registry := f (db_registry db)\<rparr>"

definition new_id :: "store \<Rightarrow> uuid \<times> store" where
  "new_id db = (db_next_id db, db\<lparr>db_next_id := Suc (db_next_id db)\<rparr>)"

definition get_agent_version :: "string \<Rightarrow> string \<Rightarrow> store \<Rightarrow> agent_version option" where
  "get_agent_version agent_id version db =
     first_row (\<lambda>v. av_agent_id v = agent_id \<and> av_version v = version) (rg_versions (db_registry db))"

definition get_agent_version_by_id :: "string \<Rightarrow> uuid \<Rightarrow> store \<Rightarrow> agent_version option" where
  "get_agent_version_by_id agent_id version_id db =
     first_row (\<lambda>v. av_agent_id v = agent_id \<and> av_id v = version_id) (rg_versions (db_registry db))"

definition list_agent_versions :: "string \<Rightarrow> store \<Rightarrow> agent_version list" where
  "list_agent_versions agent_id db =
     rev (sort_key (\<lambda>v. (av_created_at v, av_version v))
       (rev (filter (\<lambda>v. av_agent_id v = agent_id) (rg_versions (db_registry db)))))"

definition find_schema :: "string \<Rightarrow> string \<Rightarrow> store \<Rightarrow> schema_version option" where
  "find_schema agent_id version db =
     first_row (\<lambda>s. sv_agent_id s = agent_id \<and> sv_version s = version) (rg_schemas (db_registry db))"

definition find_api :: "string \<Rightarrow> string \<Rightarrow> store \<Rightarrow> api_version option" where
  "find_api agent_id api_version db =
     first_row (\<lambda>s. aw_agent_id s = agent_id \<and> aw_api_version s = api_version) (rg_apis (db_registry db))"

text \<open>\<open>while await get_agent_version(...) is not None: candidate += 1\<close>; at most one round
  per version of the Agent, plus one.\<close>

fun first_free :: "nat \<Rightarrow> (nat \<Rightarrow> bool) \<Rightarrow> nat \<Rightarrow> nat option" where
  "first_free 0 taken candidate = None"
| "first_free (Suc fuel) taken candidate =
     (if taken candidate then first_free fuel taken (Suc candidate) else Some candidate)"

definition next_agent_version :: "string \<Rightarrow> store \<Rightarrow> string option" where
  "next_agent_version agent_id db =
     (let count = length (filter (\<lambda>v. av_agent_id v = agent_id) (rg_versions (db_registry db)));
          taken = (\<lambda>c. get_agent_version agent_id (CHR ''v'' # nat_str c) db \<noteq> None)
      in map_option (\<lambda>c. CHR ''v'' # nat_str c) (first_free (Suc count) taken (Suc count)))"

section \<open>Snapshots\<close>

definition agent_skill_ids :: "string \<Rightarrow> store \<Rightarrow> string list" where
  "agent_skill_ids agent_id db =
     sort (map snd (filter (\<lambda>p. fst p = agent_id) (rg_agent_skills (db_registry db))))"

definition agent_mcp_ids :: "string \<Rightarrow> store \<Rightarrow> string list" where
  "agent_mcp_ids agent_id db =
     sort (map snd (filter (\<lambda>p. fst p = agent_id) (rg_agent_mcps (db_registry db))))"

text \<open>The order of the fallback: published first, then by publication (missing last) and creation.\<close>

definition schema_order :: "schema_version \<Rightarrow> (nat \<times> nat) \<times> (int \<times> int)" where
  "schema_order s =
     ((if sv_status s = C_published then 0 else 1, if sv_published_at s = None then 1 else 0),
      (case sv_published_at s of None \<Rightarrow> 0 | Some t \<Rightarrow> - t, - sv_created_at s))"

definition snapshot_schema :: "string \<Rightarrow> store \<Rightarrow> schema_version option" where
  "snapshot_schema agent_id db =
     (let bound = (case find_api agent_id ''v1'' db of
                     None \<Rightarrow> None
                   | Some b \<Rightarrow> row_get sv_id (aw_schema_version_id b) (rg_schemas (db_registry db)))
      in case bound of
           Some s \<Rightarrow> Some s
         | None \<Rightarrow>
             (case sort_key schema_order (filter (\<lambda>s. sv_agent_id s = agent_id) (rg_schemas (db_registry db))) of
                [] \<Rightarrow> None | s # _ \<Rightarrow> Some s))"

fun contract_status_str :: "contract_status \<Rightarrow> string" where
  "contract_status_str C_draft = ''draft''"
| "contract_status_str C_testing = ''testing''"
| "contract_status_str C_published = ''published''"
| "contract_status_str C_deprecated = ''deprecated''"
| "contract_status_str C_disabled = ''disabled''"

definition build_agent_snapshot :: "agent \<Rightarrow> store \<Rightarrow> dict" where
  "build_agent_snapshot a db =
     (let schema = snapshot_schema (ag_id a) db; api = find_api (ag_id a) ''v1'' db in
      [(''format_version'', JInt 1),
       (''prompt'', JObj [(''role'', JStr (ag_role a)), (''system_prompt'', JStr (ag_system_prompt a)),
                          (''prompt_template'', JStr (ag_prompt_template a))]),
       (''model'', JObj [(''name'', JStr (ag_model a)), (''adapter'', JStr (ag_model_adapter a)),
                         (''config'', ag_model_settings a)]),
       (''skill_ids'', str_list (agent_skill_ids (ag_id a) db)),
       (''mcp_ids'', str_list (agent_mcp_ids (ag_id a) db)),
       (''schema'', JObj
          [(''version'', opt_str (map_option sv_version schema)),
           (''input_schema'', case schema of Some s \<Rightarrow> sv_input_schema s | None \<Rightarrow> ag_input_schema a),
           (''output_schema'', case schema of Some s \<Rightarrow> sv_output_schema s | None \<Rightarrow> ag_output_schema a)]),
       (''api'', JObj
          [(''version'', JStr (case api of Some b \<Rightarrow> aw_api_version b | None \<Rightarrow> ''v1'')),
           (''status'', opt_str (map_option (\<lambda>b. contract_status_str (aw_status b)) api))]),
       (''runtime'', JObj
          [(''response_mode'', JStr (ag_response_mode a)), (''runtime_type'', JStr (ag_runtime_type a)),
           (''runtime_id'', opt_str (map_option uuid_str (ag_runtime_id a))),
           (''runtime_config'', py_or (ag_runtime_config a) (JObj [])),
           (''capability_profile'', py_or (ag_capability_profile a) (JObj []))])])"

definition adapters :: "string list" where
  "adapters = [''hermes'', ''qwen'', ''deepseek'', ''gpt'', ''claude'']"

definition response_modes :: "string list" where
  "response_modes = [''sync'', ''stream'']"

fun check_fields :: "(json \<Rightarrow> bool) \<Rightarrow> string \<Rightarrow> dict \<Rightarrow> string list \<Rightarrow> version_error + unit" where
  "check_fields ok what snapshot [] = Inr ()"
| "check_fields ok what snapshot (f # fs) =
     (if ok (dget snapshot f) then check_fields ok what snapshot fs
      else value_error (''Agent Version snapshot '' @ f @ what))"

definition is_str_array :: "json \<Rightarrow> bool" where
  "is_str_array v \<longleftrightarrow> is_arr v \<and> list_all is_str (as_arr v)"

definition check_format_2 :: "dict \<Rightarrow> version_error + unit" where
  "check_format_2 snapshot =
     rbind (check_fields (\<lambda>v. is_arr v) '' must be an array''
              (dupdate [(''skills'', JArr []), (''capability_bindings'', JArr []),
                        (''resource_scope_revisions'', JArr []), (''policy_set_revisions'', JArr [])] snapshot)
              [''skills'', ''capability_bindings'', ''resource_scope_revisions'', ''policy_set_revisions'']) (\<lambda>_.
     rbind (check_that (is_str_array (dget_default (as_obj (dget snapshot ''runtime'')) ''required_features'' (JArr [])))
              ''Agent Version runtime.required_features must be a string array'') (\<lambda>_.
     let digest = dget snapshot ''resolution_digest'' in
     check_that (digest = JNull \<or> is_str digest \<and> starts_with ''sha256:'' (as_str digest))
       ''Agent Version resolution_digest is invalid''))"

text \<open>\<open>str(d.get(key) or "").strip()\<close> must not be empty.\<close>

definition has_text :: "(json \<Rightarrow> string) \<Rightarrow> dict \<Rightarrow> string \<Rightarrow> bool" where
  "has_text rep d key \<longleftrightarrow> strip (py_str rep (py_or (dget d key) (JStr []))) \<noteq> []"

definition check_runtime :: "(json \<Rightarrow> string) \<Rightarrow> dict \<Rightarrow> version_error + unit" where
  "check_runtime rep runtime =
     rbind (lift_py (in_set (dget runtime ''response_mode'') response_modes)) (\<lambda>known_mode.
     rbind (check_that known_mode ''Agent Version response_mode is invalid'') (\<lambda>_.
     rbind (lift_py (in_set (dget_default runtime ''runtime_type'' (JStr ''hermes'')) runtime_types)) (\<lambda>known_type.
     rbind (check_that known_type ''Agent Version runtime_type is invalid'') (\<lambda>_.
     rbind (check_that (dget runtime ''runtime_id'' = JNull \<or>
                        parse_uuid (py_str rep (dget runtime ''runtime_id'')) \<noteq> None)
              ''Agent Version runtime_id is invalid'') (\<lambda>_.
     let config = dget_default runtime ''runtime_config'' (JObj []) in
     rbind (check_that (is_obj config) ''Agent Version runtime_config is invalid'') (\<lambda>_.
     rbind (lift_py (validate_runtime_config rep (as_obj config))) (\<lambda>_.
     rbind (lift_profile (normalize_capability_profile
              (dget_default runtime ''capability_profile'' (JObj []))
              (as_str (dget_default runtime ''runtime_type'' (JStr ''hermes''))))) (\<lambda>_. Inr ()))))))))"

definition validate_agent_snapshot ::
  "(json \<Rightarrow> string) \<Rightarrow> (json \<Rightarrow> string option) \<Rightarrow> dict \<Rightarrow> version_error + unit"
where
  "validate_agent_snapshot rep check snapshot =
     rbind (lift_py (py_int rep (py_or (dget snapshot ''format_version'') (JInt 0)))) (\<lambda>format_version.
     rbind (check_that (format_version \<in> {1, 2}) ''Agent Version snapshot format_version must be 1 or 2'') (\<lambda>_.
     rbind (check_fields is_obj '' must be an object'' snapshot [''prompt'', ''model'', ''schema'', ''runtime'']) (\<lambda>_.
     rbind (check_fields is_str_array '' must be a string array'' snapshot [''skill_ids'', ''mcp_ids'']) (\<lambda>_.
     rbind (if format_version = 2 then check_format_2 snapshot else Inr ()) (\<lambda>_.
     let prompt = as_obj (dget snapshot ''prompt''); model = as_obj (dget snapshot ''model'');
         schema = as_obj (dget snapshot ''schema'') in
     rbind (check_that (has_text rep prompt ''system_prompt'') ''Agent Version system_prompt is required'') (\<lambda>_.
     rbind (check_that (has_text rep prompt ''prompt_template'') ''Agent Version prompt_template is required'') (\<lambda>_.
     rbind (check_that (has_text rep model ''name'') ''Agent Version model name is required'') (\<lambda>_.
     rbind (lift_py (in_set (dget model ''adapter'') adapters)) (\<lambda>known_adapter.
     rbind (check_that known_adapter ''Agent Version model adapter is invalid'') (\<lambda>_.
     rbind (check_runtime rep (as_obj (dget snapshot ''runtime''))) (\<lambda>_.
     rbind (lift_py (normalize_schema check (as_obj (dget schema ''input_schema'')))) (\<lambda>_.
     rbind (lift_py (normalize_schema check (as_obj (dget schema ''output_schema'')))) (\<lambda>_.
     lift_py (validate_prompt_template (py_str rep (dget prompt ''prompt_template''))
                (as_obj (dget schema ''input_schema''))))))))))))))))"

section \<open>Editing\<close>

fun agent_status_str :: "agent_status \<Rightarrow> string" where
  "agent_status_str A_active = ''active''"
| "agent_status_str A_inactive = ''inactive''"
| "agent_status_str A_archived = ''archived''"

fun version_status_str :: "version_status \<Rightarrow> string" where
  "version_status_str V_development = ''development''"
| "version_status_str V_testing = ''testing''"
| "version_status_str V_release_candidate = ''release_candidate''"
| "version_status_str V_published = ''published''"
| "version_status_str V_deprecated = ''deprecated''"

definition transition_agent :: "agent \<Rightarrow> agent_status \<Rightarrow> store \<Rightarrow> agent tx" where
  "transition_agent a target db =
     (let allowed = (case ag_status a of
            A_active \<Rightarrow> {A_inactive, A_archived} | A_inactive \<Rightarrow> {A_active, A_archived} | A_archived \<Rightarrow> {});
          f = (\<lambda>r. r\<lparr>ag_status := target,
                       ag_api_enabled := (target = A_active \<and> ag_current_version_id a \<noteq> None)\<rparr>)
      in rbind (check_that (target = ag_status a \<or> target \<in> allowed) (''invalid Agent lifecycle transition: '' @ agent_status_str (ag_status a) @ '' -> '' @ agent_status_str target)) (\<lambda>_.
         Inr (f a, upd_agent (ag_id a) f db)))"

definition new_version ::
  "instant \<Rightarrow> uuid \<Rightarrow> agent \<Rightarrow> string \<Rightarrow> dict \<Rightarrow> string option \<Rightarrow> string \<Rightarrow> agent_version"
where
  "new_version t i a version snapshot description created_by =
     \<lparr>av_id = i, av_agent_id = ag_id a, av_version = version, av_snapshot = snapshot,
      av_snapshot_format_version = 1, av_resolution_digest = None, av_status = V_development,
      av_description = description, av_created_by = created_by, av_created_at = t, av_updated_at = t,
      av_published_at = None, av_deprecated_at = None\<rparr>"

definition create_agent_version ::
  "instant \<Rightarrow> agent \<Rightarrow> string \<Rightarrow> string option \<Rightarrow> string \<Rightarrow> store \<Rightarrow> agent_version tx"
where
  "create_agent_version t a version description created_by db =
     (if get_agent_version (ag_id a) version db \<noteq> None then Inl Constraint_error
      else let (i, db1) = new_id db;
               v = new_version t i a version (build_agent_snapshot a db) description created_by
           in Inr (v, upd_registry (\<lambda>r. r\<lparr>rg_versions := rg_versions r @ [v]\<rparr>) db1))"

definition update_agent_version ::
  "(json \<Rightarrow> string) \<Rightarrow> (json \<Rightarrow> string option) \<Rightarrow> instant \<Rightarrow> agent_version \<Rightarrow> dict option \<Rightarrow>
     string option \<Rightarrow> bool \<Rightarrow> store \<Rightarrow> agent_version tx"
where
  "update_agent_version rep check t v snapshot description description_set db =
     rbind (check_that (av_status v \<in> {V_development, V_testing, V_release_candidate})
              ''published and deprecated Agent versions are immutable'') (\<lambda>_.
     rbind (case snapshot of
              None \<Rightarrow> Inr (\<lambda>r. r)
            | Some s \<Rightarrow>
                rbind (validate_agent_snapshot rep check s) (\<lambda>_.
                rbind (lift_py (py_int rep (py_or (dget s ''format_version'') (JInt 1)))) (\<lambda>n.
                Inr (\<lambda>r. r\<lparr>av_snapshot := s, av_snapshot_format_version := n,
                             av_resolution_digest :=
                               (let d = dget s ''resolution_digest'' in
                                if truthy d then Some (py_str rep d) else None)\<rparr>)))) (\<lambda>edit.
     let f = (\<lambda>r. (edit r)\<lparr>av_description := (if description_set then description else av_description r),
                           av_updated_at := t\<rparr>)
     in Inr (f v, upd_version (av_id v) f db)))"

fun version_moves :: "version_status \<Rightarrow> version_status set" where
  "version_moves V_development = {V_testing}"
| "version_moves V_testing = {V_development, V_release_candidate}"
| "version_moves V_release_candidate = {V_testing}"
| "version_moves V_published = {}"
| "version_moves V_deprecated = {}"

definition transition_agent_version ::
  "instant \<Rightarrow> agent_version \<Rightarrow> version_status \<Rightarrow> store \<Rightarrow> agent_version tx"
where
  "transition_agent_version t v target db =
     rbind (check_that (target = av_status v \<or> target \<in> version_moves (av_status v))
              (''invalid Agent Version transition: '' @ version_status_str (av_status v) @ '' -> '' @ version_status_str target)) (\<lambda>_.
     let f = (\<lambda>r. r\<lparr>av_status := target, av_updated_at := t\<rparr>)
     in Inr (f v, upd_version (av_id v) f db))"

section \<open>Materialising a version\<close>

record runtime_agent =
  ra_id :: string
  ra_name :: string
  ra_description :: "string option"
  ra_role :: string
  ra_system_prompt :: string
  ra_prompt_template :: string
  ra_model :: string
  ra_model_adapter :: string
  ra_model_settings :: json
  ra_response_mode :: string
  ra_runtime_type :: string
  ra_runtime_id :: "uuid option"
  ra_runtime_config :: json
  ra_capability_profile :: profile
  ra_input_schema :: json
  ra_output_schema :: json
  ra_skills :: "string list"
  ra_mcp_servers :: "string list"
  ra_status :: agent_status
  ra_current_version_id :: "uuid option"

definition missing_text :: "string \<Rightarrow> string list \<Rightarrow> string list \<Rightarrow> string" where
  "missing_text what skills mcps =
     ''Agent '' @ what @ '' dependencies are missing ('' @
     join ''; '' ((if skills = [] then [] else [''Skills: '' @ join '', '' skills]) @
                (if mcps = [] then [] else [''MCP servers: '' @ join '', '' mcps])) @ '')''"

definition str_or :: "(json \<Rightarrow> string) \<Rightarrow> dict \<Rightarrow> string \<Rightarrow> string \<Rightarrow> string" where
  "str_or rep d key fallback = py_str rep (py_or (dget d key) (JStr fallback))"

definition obj_field :: "dict \<Rightarrow> string \<Rightarrow> json" where
  "obj_field d key = JObj (as_obj (dget d key))"

text \<open>
  A snapshot of format 2 names its skills in \<open>skills\<close>, and an empty list there wins over
  \<open>skill_ids\<close>. The profile is normalised for the runtime type of the result.
\<close>

definition snapshot_skill_ids :: "(json \<Rightarrow> string) \<Rightarrow> int \<Rightarrow> dict \<Rightarrow> string list" where
  "snapshot_skill_ids rep format_version s =
     (if format_version = 2 \<and> is_arr (dget s ''skills'')
      then map (\<lambda>x. py_str rep (dget (as_obj x) ''skill_id''))
             (filter (\<lambda>x. is_obj x \<and> truthy (dget (as_obj x) ''skill_id'')) (as_arr (dget s ''skills'')))
      else map (py_str rep) (as_arr (dget s ''skill_ids'')))"

definition build_version_runtime_agent ::
  "(json \<Rightarrow> string) \<Rightarrow> (json \<Rightarrow> string option) \<Rightarrow> agent \<Rightarrow> agent_version \<Rightarrow> store \<Rightarrow>
     version_error + runtime_agent \<times> (string option \<times> json \<times> json)"
where
  "build_version_runtime_agent rep check a v db =
     (let s = av_snapshot v;
          prompt = as_obj (dget s ''prompt''); model = as_obj (dget s ''model'');
          schema = as_obj (dget s ''schema''); runtime = as_obj (dget s ''runtime'') in
      rbind (validate_agent_snapshot rep check s) (\<lambda>_.
      rbind (lift_py (py_int rep (py_or (dget s ''format_version'') (JInt 1)))) (\<lambda>format_version.
      let skill_ids = snapshot_skill_ids rep format_version s;
          mcp_ids = map (py_str rep) (as_arr (dget s ''mcp_ids''));
          missing_skills = sorted_diff skill_ids (rg_skills (db_registry db));
          missing_mcps = sorted_diff mcp_ids (rg_mcp_servers (db_registry db));
          runtime_type = (if dget runtime ''runtime_type'' \<in> JStr ` set runtime_types
                          then as_str (dget runtime ''runtime_type'') else ag_runtime_type a)
      in
      rbind (check_that (missing_skills = [] \<and> missing_mcps = []) (missing_text ''Version'' missing_skills missing_mcps)) (\<lambda>_.
      rbind (lift_profile (normalize_capability_profile
               (dget_default runtime ''capability_profile'' (ag_capability_profile a)) runtime_type)) (\<lambda>profile.
      Inr (\<lparr>ra_id = ag_id a, ra_name = ag_name a, ra_description = ag_description a,
            ra_role = str_or rep prompt ''role'' (ag_role a),
            ra_system_prompt = str_or rep prompt ''system_prompt'' [],
            ra_prompt_template = str_or rep prompt ''prompt_template'' ''{{input}}'',
            ra_model = str_or rep model ''name'' (ag_model a),
            ra_model_adapter = str_or rep model ''adapter'' (ag_model_adapter a),
            ra_model_settings = obj_field model ''config'',
            ra_response_mode = (if dget runtime ''response_mode'' \<in> JStr ` set response_modes
                                then as_str (dget runtime ''response_mode'') else ''sync''),
            ra_runtime_type = runtime_type,
            ra_runtime_id = (if truthy (dget runtime ''runtime_id'')
                             then parse_uuid (py_str rep (dget runtime ''runtime_id'')) else ag_runtime_id a),
            ra_runtime_config = (if is_obj (dget runtime ''runtime_config'')
                                 then dget runtime ''runtime_config'' else ag_runtime_config a),
            ra_capability_profile = profile,
            ra_input_schema = obj_field schema ''input_schema'',
            ra_output_schema = obj_field schema ''output_schema'',
            ra_skills = sort (filter (\<lambda>i. i \<in> set skill_ids) (rg_skills (db_registry db))),
            ra_mcp_servers = sort (filter (\<lambda>i. i \<in> set mcp_ids) (rg_mcp_servers (db_registry db))),
            ra_status = ag_status a, ra_current_version_id = ag_current_version_id a\<rparr>,
           ((if truthy (dget schema ''version'') then Some (py_str rep (dget schema ''version'')) else None),
            obj_field schema ''input_schema'', obj_field schema ''output_schema'')))))))"

section \<open>Restoring a configuration\<close>

text \<open>\<open>snapshot.get(key) or {}\<close>, whose \<open>get\<close> fails on a value that is not a dict, and the
  iteration over \<open>snapshot.get(key, [])\<close>.\<close>

definition section_of :: "dict \<Rightarrow> string \<Rightarrow> version_error + dict" where
  "section_of s key =
     (case py_or (dget s key) (JObj []) of JObj d \<Rightarrow> Inr d | _ \<Rightarrow> Inl (Python_error Attribute_error))"

definition py_iter :: "json \<Rightarrow> version_error + json list" where
  "py_iter v = lift_py (json_items v)"

definition restored_runtime_id :: "(json \<Rightarrow> string) \<Rightarrow> dict \<Rightarrow> agent \<Rightarrow> version_error + agent" where
  "restored_runtime_id rep runtime a =
     (if \<not> dhas runtime ''runtime_id'' then Inr a
      else if \<not> truthy (dget runtime ''runtime_id'') then Inr (a\<lparr>ag_runtime_id := None\<rparr>)
      else case parse_uuid (py_str rep (dget runtime ''runtime_id'')) of
             None \<Rightarrow> value_error ''badly formed hexadecimal UUID string''
           | Some i \<Rightarrow> Inr (a\<lparr>ag_runtime_id := Some i\<rparr>))"

definition restored_profile :: "dict \<Rightarrow> agent \<Rightarrow> version_error + agent" where
  "restored_profile runtime a =
     (let b = (if is_obj (dget runtime ''runtime_config'')
               then a\<lparr>ag_runtime_config := dget runtime ''runtime_config''\<rparr> else a)
      in if is_obj (dget runtime ''capability_profile'')
         then rbind (lift_profile (normalize_capability_profile (dget runtime ''capability_profile'') (ag_runtime_type b)))
                (\<lambda>p. Inr (b\<lparr>ag_capability_profile := profile_json p\<rparr>))
         else Inr b)"

definition restored_runtime :: "(json \<Rightarrow> string) \<Rightarrow> dict \<Rightarrow> agent \<Rightarrow> version_error + agent" where
  "restored_runtime rep runtime a =
     rbind (lift_py (in_set (dget runtime ''response_mode'') response_modes)) (\<lambda>known_mode.
     rbind (lift_py (in_set (dget runtime ''runtime_type'') runtime_types)) (\<lambda>known_type.
     rbind (restored_runtime_id rep runtime
       (a\<lparr>ag_response_mode := (if known_mode then as_str (dget runtime ''response_mode'') else ag_response_mode a),
          ag_runtime_type := (if known_type then as_str (dget runtime ''runtime_type'') else ag_runtime_type a)\<rparr>))
       (restored_profile runtime)))"

definition restored_agent ::
  "(json \<Rightarrow> string) \<Rightarrow> dict \<Rightarrow> dict \<Rightarrow> dict \<Rightarrow> dict \<Rightarrow> agent \<Rightarrow> version_error + agent"
where
  "restored_agent rep prompt model schema runtime a =
     restored_runtime rep runtime
       (a\<lparr>ag_role := str_or rep prompt ''role'' (ag_role a),
          ag_system_prompt := str_or rep prompt ''system_prompt'' (ag_system_prompt a),
          ag_prompt_template := str_or rep prompt ''prompt_template'' (ag_prompt_template a),
          ag_model := str_or rep model ''name'' (ag_model a),
          ag_model_adapter := str_or rep model ''adapter'' (ag_model_adapter a),
          ag_model_settings := obj_field model ''config'',
          ag_input_schema := obj_field schema ''input_schema'',
          ag_output_schema := obj_field schema ''output_schema''\<rparr>)"

text \<open>The rows of an association table: a repeated id violates its primary key.\<close>

definition replace_links ::
  "string \<Rightarrow> string list \<Rightarrow> (string \<times> string) list \<Rightarrow> version_error + (string \<times> string) list"
where
  "replace_links agent_id ids links =
     (if distinct ids then Inr (filter (\<lambda>p. fst p \<noteq> agent_id) links @ map (Pair agent_id) ids)
      else Inl Constraint_error)"

definition upd_schema :: "uuid \<Rightarrow> (schema_version \<Rightarrow> schema_version) \<Rightarrow> store \<Rightarrow> store" where
  "upd_schema k f = upd_registry (\<lambda>r. r\<lparr>rg_schemas := row_upd sv_id k f (rg_schemas r)\<rparr>)"

definition upd_api :: "uuid \<Rightarrow> (api_version \<Rightarrow> api_version) \<Rightarrow> store \<Rightarrow> store" where
  "upd_api k f = upd_registry (\<lambda>r. r\<lparr>rg_apis := row_upd aw_id k f (rg_apis r)\<rparr>)"

definition first_time :: "instant \<Rightarrow> instant option \<Rightarrow> instant option" where
  "first_time t old = (case old of None \<Rightarrow> Some t | Some x \<Rightarrow> Some x)"

text \<open>The schema version that a snapshot names is created or overwritten with its schemas.\<close>

definition restore_schema ::
  "instant \<Rightarrow> agent \<Rightarrow> string \<Rightarrow> bool \<Rightarrow> store \<Rightarrow> uuid \<times> store"
where
  "restore_schema t a version publish_contract db =
     (let status = (if publish_contract then C_published else C_testing) in
      case find_schema (ag_id a) version db of
        None \<Rightarrow>
          (let (i, db1) = new_id db;
               s = \<lparr>sv_id = i, sv_agent_id = ag_id a, sv_version = version,
                    sv_input_schema = ag_input_schema a, sv_output_schema = ag_output_schema a,
                    sv_status = status, sv_created_at = t,
                    sv_published_at = (if publish_contract then Some t else None)\<rparr>
           in (i, upd_registry (\<lambda>r. r\<lparr>rg_schemas := rg_schemas r @ [s]\<rparr>) db1))
      | Some s \<Rightarrow>
          (sv_id s, upd_schema (sv_id s)
             (\<lambda>r. r\<lparr>sv_input_schema := ag_input_schema a, sv_output_schema := ag_output_schema a,
                     sv_status := status,
                     sv_published_at := (if publish_contract then first_time t (sv_published_at r)
                                         else sv_published_at r)\<rparr>) db))"

definition bind_api :: "instant \<Rightarrow> string \<Rightarrow> string \<Rightarrow> uuid \<Rightarrow> store \<Rightarrow> store" where
  "bind_api t agent_id api_version schema_id db =
     (case find_api agent_id api_version db of
        None \<Rightarrow>
          (let (i, db1) = new_id db in
           upd_registry (\<lambda>r. r\<lparr>rg_apis := rg_apis r @
             [\<lparr>aw_id = i, aw_agent_id = agent_id, aw_api_version = api_version,
               aw_schema_version_id = schema_id, aw_status = C_published, aw_created_at = t,
               aw_published_at = Some t\<rparr>]\<rparr>) db1)
      | Some b \<Rightarrow>
          upd_api (aw_id b) (\<lambda>r. r\<lparr>aw_schema_version_id := schema_id, aw_status := C_published,
             aw_published_at := first_time t (aw_published_at r)\<rparr>) db)"

definition snapshot_api_version :: "(json \<Rightarrow> string) \<Rightarrow> dict \<Rightarrow> string" where
  "snapshot_api_version rep s = str_or rep (as_obj (dget s ''api'')) ''version'' ''v1''"

text \<open>
  The adapter must satisfy the table's check constraint and the runtime must exist, or the
  flush of the changed Agent row fails.
\<close>

definition restore_contract ::
  "(json \<Rightarrow> string) \<Rightarrow> instant \<Rightarrow> agent \<Rightarrow> dict \<Rightarrow> dict \<Rightarrow> bool \<Rightarrow> store \<Rightarrow> store"
where
  "restore_contract rep t a s schema publish_contract db =
     (let schema_version = strip (str_or rep schema ''version'' []) in
      if schema_version = [] then db
      else let (i, db1) = restore_schema t a schema_version publish_contract db in
           if publish_contract then bind_api t (ag_id a) (snapshot_api_version rep s) i db1 else db1)"

definition restore_links ::
  "agent \<Rightarrow> string list \<Rightarrow> string list \<Rightarrow> store \<Rightarrow> version_error + store" where
  "restore_links a skill_ids mcp_ids db =
     (if ag_model_adapter a \<notin> set adapters \<or>
         (case ag_runtime_id a of None \<Rightarrow> False | Some i \<Rightarrow> i \<notin> set (rg_runtimes (db_registry db)))
      then Inl Constraint_error
      else
      rbind (replace_links (ag_id a) skill_ids (rg_agent_skills (db_registry db))) (\<lambda>skill_links.
      rbind (replace_links (ag_id a) mcp_ids (rg_agent_mcps (db_registry db))) (\<lambda>mcp_links.
      Inr (upd_registry (\<lambda>r. r\<lparr>rg_agent_skills := skill_links, rg_agent_mcps := mcp_links\<rparr>)
             (upd_agent (ag_id a) (\<lambda>_. a) db)))))"

definition restore_agent_version ::
  "(json \<Rightarrow> string) \<Rightarrow> instant \<Rightarrow> agent \<Rightarrow> agent_version \<Rightarrow> bool \<Rightarrow> store \<Rightarrow> agent tx"
where
  "restore_agent_version rep t a v publish_contract db =
     (let s = av_snapshot v in
      rbind (section_of s ''prompt'') (\<lambda>prompt. rbind (section_of s ''model'') (\<lambda>model.
      rbind (section_of s ''schema'') (\<lambda>schema. rbind (section_of s ''runtime'') (\<lambda>runtime.
      rbind (py_iter (dget_default s ''skill_ids'' (JArr []))) (\<lambda>skill_items.
      rbind (py_iter (dget_default s ''mcp_ids'' (JArr []))) (\<lambda>mcp_items.
      let skill_ids = map (py_str rep) skill_items; mcp_ids = map (py_str rep) mcp_items;
          missing_skills = sorted_diff skill_ids (rg_skills (db_registry db));
          missing_mcps = sorted_diff mcp_ids (rg_mcp_servers (db_registry db)) in
      rbind (check_that (missing_skills = [] \<and> missing_mcps = []) (missing_text ''rollback'' missing_skills missing_mcps)) (\<lambda>_.
      rbind (restored_agent rep prompt model schema runtime a) (\<lambda>a1.
      rbind (restore_links a1 skill_ids mcp_ids db) (\<lambda>db1.
      Inr (a1, restore_contract rep t a1 s schema publish_contract db1)))))))))))"

section \<open>Publishing and rolling back\<close>

definition deprecate_others :: "instant \<Rightarrow> string \<Rightarrow> uuid \<Rightarrow> store \<Rightarrow> store" where
  "deprecate_others t agent_id version_id =
     upd_registry (\<lambda>r. r\<lparr>rg_versions := map (\<lambda>v.
        if av_agent_id v = agent_id \<and> av_id v \<noteq> version_id \<and> av_status v = V_published
        then v\<lparr>av_status := V_deprecated, av_deprecated_at := Some t\<rparr> else v) (rg_versions r)\<rparr>)"

definition published :: "instant \<Rightarrow> agent_version \<Rightarrow> agent_version" where
  "published t v =
     v\<lparr>av_status := V_published, av_published_at := Some t, av_deprecated_at := None, av_updated_at := t\<rparr>"

definition activated :: "uuid \<Rightarrow> agent \<Rightarrow> agent" where
  "activated version_id a =
     a\<lparr>ag_current_version_id := Some version_id, ag_status := A_active, ag_api_enabled := True\<rparr>"

definition set_publication_status :: "instant \<Rightarrow> string \<Rightarrow> publication_status \<Rightarrow> store \<Rightarrow> store" where
  "set_publication_status t agent_id status db =
     (case row_get pb_agent_id agent_id (rg_publications (db_registry db)) of
        None \<Rightarrow> upd_registry (\<lambda>r. r\<lparr>rg_publications := rg_publications r @
          [\<lparr>pb_agent_id = agent_id, pb_status = status, pb_api_key_hash = None, pb_api_key_prefix = None,
            pb_call_count = 0, pb_last_called_at = None, pb_created_at = t\<rparr>]\<rparr>) db
      | Some _ \<Rightarrow> upd_registry (\<lambda>r. r\<lparr>rg_publications :=
          row_upd pb_agent_id agent_id (\<lambda>p. p\<lparr>pb_status := status\<rparr>) (rg_publications r)\<rparr>) db)"

text \<open>The contract that is published with a version: its schema version must exist.\<close>

definition publish_contract ::
  "(json \<Rightarrow> string) \<Rightarrow> instant \<Rightarrow> agent \<Rightarrow> dict \<Rightarrow> store \<Rightarrow> unit tx"
where
  "publish_contract rep t a s db =
     (let schema_version = str_or rep (as_obj (dget s ''schema'')) ''version'' ''v1'';
          api_name = snapshot_api_version rep s in
      case find_schema (ag_id a) schema_version db of
        None \<Rightarrow> value_error (''Agent '' @ schema_version @ '' Schema version is missing'')
      | Some schema \<Rightarrow>
          rbind (if sv_status schema \<in> {C_draft, C_testing}
                 then Inr (upd_schema (sv_id schema) (\<lambda>r. r\<lparr>sv_status := C_published,
                        sv_published_at := first_time t (sv_published_at r)\<rparr>) db)
                 else if sv_status schema \<in> {C_published, C_deprecated} then Inr db
                 else value_error ''Agent v1 Schema version is unavailable'') (\<lambda>db1.
          case find_api (ag_id a) api_name db1 of
            Some b \<Rightarrow>
              if aw_status b = C_disabled then value_error ''Agent v1 API version is unavailable''
              else Inr ((), set_publication_status t (ag_id a) B_published (bind_api t (ag_id a) api_name (sv_id schema) db1))
          | None \<Rightarrow>
              Inr ((), set_publication_status t (ag_id a) B_published (bind_api t (ag_id a) api_name (sv_id schema) db1))))"

definition publish_agent ::
  "(json \<Rightarrow> string) \<Rightarrow> instant \<Rightarrow> agent \<Rightarrow> agent_version \<Rightarrow> store \<Rightarrow> agent_version tx"
where
  "publish_agent rep t a v db =
     rbind (check_that (av_status v = V_release_candidate)
              ''only a Release Candidate Agent version can be published'') (\<lambda>_.
     rbind (publish_contract rep t a (av_snapshot v) db) (\<lambda>(_, db1).
     rbind (restore_agent_version rep t a v True (deprecate_others t (ag_id a) (av_id v) db1)) (\<lambda>(a1, db2).
     Inr (published t v,
          upd_agent (ag_id a) (\<lambda>_. activated (av_id v) a1) (upd_version (av_id v) (published t) db2)))))"

definition rolled_back :: "instant \<Rightarrow> agent_version \<Rightarrow> agent_version" where
  "rolled_back t v =
     v\<lparr>av_status := V_published, av_deprecated_at := None, av_updated_at := t,
       av_published_at := first_time t (av_published_at v)\<rparr>"

definition rollback_agent_version ::
  "(json \<Rightarrow> string) \<Rightarrow> instant \<Rightarrow> agent \<Rightarrow> agent_version \<Rightarrow> store \<Rightarrow> agent tx"
where
  "rollback_agent_version rep t a v db =
     rbind (check_that (av_status v = V_deprecated)
              ''only a deprecated Agent version can be rolled back'') (\<lambda>_.
     rbind (restore_agent_version rep t a v True db) (\<lambda>(a1, db1).
     Inr (activated (av_id v) a1,
          set_publication_status t (ag_id a) B_published
            (upd_agent (ag_id a) (\<lambda>_. activated (av_id v) a1)
              (upd_version (av_id v) (rolled_back t) (deprecate_others t (ag_id a) (av_id v) db1))))))"

definition publish_agent_version ::
  "instant \<Rightarrow> agent \<Rightarrow> agent_version \<Rightarrow> store \<Rightarrow> agent_version \<times> store"
where
  "publish_agent_version t a v db =
     (published t v,
      upd_agent (ag_id a) (activated (av_id v))
        (upd_version (av_id v) (published t) (deprecate_others t (ag_id a) (av_id v) db)))"

end
