(* ===== verification/Task_Queue.thy ===== *)
theory Task_Queue
  imports Python_Conversions "HOL-Library.DAList"
begin

text \<open>
  The priority queue of task ids (\<open>backend/app/task_queue.py\<close>). Redis is not part of
  the program: its sorted-set commands are parameters, their documented behaviour the
  locale \<open>redis_zset\<close>, in which \<open>view\<close> is the set's content. On top of it the queue
  offers the contract \<open>work_queue\<close> that the orchestrator and the workers rely on. The
  score is computed as the code does, rounding to IEEE doubles included.
\<close>

section \<open>Scores\<close>

text \<open>Rounding to nearest, ties to even, to 53 significant bits, for numbers from 1.\<close>

definition round_even :: "rat \<Rightarrow> int" where
  "round_even x =
     (let f = \<lfloor>x\<rfloor>; r = x - of_int f in
      if r < 1 / 2 then f else if 1 / 2 < r then f + 1 else if even f then f else f + 1)"

fun binary_exponent :: "nat \<Rightarrow> nat" where
  "binary_exponent n = (if n < 2 then 0 else Suc (binary_exponent (n div 2)))"

declare binary_exponent.simps [simp del]

definition to_double :: "rat \<Rightarrow> rat" where
  "to_double x =
     (let k = binary_exponent (nat \<lfloor>x\<rfloor>)
      in of_int (round_even (x * 2 ^ 52 / 2 ^ k)) * 2 ^ k / 2 ^ 52)"

lemma round_even_close: "\<bar>of_int (round_even x) - x\<bar> \<le> 1 / 2"
proof -
  let ?r = "x - of_int \<lfloor>x\<rfloor>"
  have "0 \<le> ?r" "?r < 1" by linarith+
  then show ?thesis by (simp add: round_even_def Let_def)
qed

lemma binary_exponent_le: "1 \<le> n \<Longrightarrow> 2 ^ binary_exponent n \<le> n"
proof (induction n rule: binary_exponent.induct)
  case (1 n)
  show ?case
  proof (cases "n < 2")
    case True
    with 1 show ?thesis by (simp add: binary_exponent.simps)
  next
    case False
    with 1 have "2 ^ binary_exponent (n div 2) \<le> n div 2" by simp
    with False show ?thesis by (subst binary_exponent.simps) simp
  qed
qed

lemma to_double_close:
  assumes "1 \<le> x"
  shows "\<bar>to_double x - x\<bar> \<le> x / 2 ^ 53"
proof -
  let ?k = "binary_exponent (nat \<lfloor>x\<rfloor>)"
  let ?y = "x * 2 ^ 52 / 2 ^ ?k"
  have "1 \<le> nat \<lfloor>x\<rfloor>" using assms by linarith
  then have "2 ^ ?k \<le> nat \<lfloor>x\<rfloor>" by (rule binary_exponent_le)
  then have "(of_nat (2 ^ ?k) :: rat) \<le> of_nat (nat \<lfloor>x\<rfloor>)" by (simp only: of_nat_le_iff)
  also have "\<dots> \<le> x" using assms by (simp add: of_nat_nat)
  finally have k: "2 ^ ?k \<le> x" by simp
  have "to_double x - x = (of_int (round_even ?y) - ?y) * (2 ^ ?k / 2 ^ 52)"
    by (simp add: to_double_def Let_def field_simps)
  also have "\<bar>\<dots>\<bar> = \<bar>of_int (round_even ?y) - ?y\<bar> * (2 ^ ?k / 2 ^ 52)"
    by (simp add: abs_mult)
  also have "\<dots> \<le> 1 / 2 * (2 ^ ?k / 2 ^ 52)"
    by (rule mult_right_mono [OF round_even_close]) simp
  also have "\<dots> \<le> x / 2 ^ 53" using k by simp
  finally show ?thesis .
qed

lemma to_double_close_small:
  assumes "s < 2"
  shows "\<bar>to_double s - s\<bar> \<le> 1 / 2 ^ 53"
proof -
  have "nat \<lfloor>s\<rfloor> < 2" using assms by linarith
  then have k: "binary_exponent (nat \<lfloor>s\<rfloor>) = 0" by (simp add: binary_exponent.simps)
  have "to_double s - s = (of_int (round_even (s * 2 ^ 52)) - s * 2 ^ 52) / 2 ^ 52"
    by (simp add: to_double_def k field_simps)
  also have "\<bar>\<dots>\<bar> = \<bar>of_int (round_even (s * 2 ^ 52)) - s * 2 ^ 52\<bar> / 2 ^ 52" by simp
  also have "\<dots> \<le> (1 / 2) / 2 ^ 52" by (rule divide_right_mono [OF round_even_close]) simp
  finally show ?thesis by simp
qed

text \<open>\<open>(9 - priority) * 10_000_000_000_000 + time.time_ns() / 1_000_000\<close>\<close>

definition task_score :: "int \<Rightarrow> nat \<Rightarrow> rat" where
  "task_score priority time_ns =
     to_double (of_int ((9 - priority) * 10000000000000) + to_double (of_nat time_ns / 1000000))"

text \<open>Clock readings for which the bands do not overlap: from 1970 to the year 2286.\<close>

definition clock_ok :: "nat \<Rightarrow> bool" where
  "clock_ok t \<longleftrightarrow> 1000000 \<le> t \<and> t \<le> 9999999 * 10 ^ 12"

definition raw_score :: "int \<Rightarrow> nat \<Rightarrow> rat" where
  "raw_score priority t = of_int ((9 - priority) * 10000000000000) + of_nat t / 1000000"

lemma error_sum:
  fixes x y b m :: rat
  shows "\<bar>x - (b + y)\<bar> \<le> 1 / 20 \<Longrightarrow> \<bar>y - m\<bar> \<le> 1 / 100 \<Longrightarrow> \<bar>x - (b + m)\<bar> \<le> 1 / 8"
proof -
  assume a: "\<bar>x - (b + y)\<bar> \<le> 1 / 20" "\<bar>y - m\<bar> \<le> 1 / 100"
  have "x - (b + m) = (x - (b + y)) + (y - m)" by simp
  then have "\<bar>x - (b + m)\<bar> \<le> \<bar>x - (b + y)\<bar> + \<bar>y - m\<bar>" by (simp only: abs_triangle_ineq)
  with a show ?thesis by linarith
qed

lemma task_score_close:
  assumes "clock_ok t" and "0 \<le> p" and "p \<le> 9"
  shows "\<bar>task_score p t - raw_score p t\<bar> \<le> 1 / 8"
proof -
  let ?b = "of_int ((9 - p) * 10000000000000) :: rat"
  let ?m = "of_nat t / 1000000 :: rat"
  have m: "1 \<le> ?m" "?m \<le> 10 ^ 13" using assms(1) by (simp_all add: clock_ok_def)
  have b: "0 \<le> ?b" "?b \<le> 9 * 10 ^ 13"
    using assms(2,3) of_int_le_iff [of "(9 - p) * 10000000000000" "90000000000000", where 'a = rat]
    by simp_all
  have d1: "\<bar>to_double ?m - ?m\<bar> \<le> ?m / 2 ^ 53" using m(1) by (rule to_double_close)
  also have "?m / 2 ^ 53 \<le> 1 / 100" using m(2) by simp
  finally have d1': "\<bar>to_double ?m - ?m\<bar> \<le> 1 / 100" .
  with m(1) have lo: "3 / 4 \<le> to_double ?m" by (simp only: abs_le_iff) linarith
  show ?thesis
  proof (cases "1 \<le> ?b + to_double ?m")
    case True
    have up: "?b + to_double ?m \<le> 2 * 10 ^ 14"
    proof -
      have "x \<le> 9 * 10 ^ 13 \<Longrightarrow> \<bar>y - z\<bar> \<le> 1 / 100 \<Longrightarrow> z \<le> 10 ^ 13 \<Longrightarrow> x + y \<le> 2 * 10 ^ 14"
        for x y z :: rat
        using abs_ge_self [of "y - z"] by simp
      then show ?thesis using b(2) d1' m(2) by blast
    qed
    have "\<bar>to_double s - s\<bar> \<le> 1 / 20" if "1 \<le> s" "s \<le> 2 * 10 ^ 14" for s
      using to_double_close [OF that(1)] divide_right_mono [OF that(2), of "2 ^ 53"] by simp
    from this [OF True up] show ?thesis
      unfolding raw_score_def task_score_def using d1' by (rule error_sum)
  next
    case False
    then have "?b + to_double ?m < 2" by simp
    from to_double_close_small [OF this] have "\<bar>to_double (?b + to_double ?m) - (?b + to_double ?m)\<bar> \<le> 1 / 20"
      by simp
    then show ?thesis unfolding raw_score_def task_score_def using d1' by (rule error_sum)
  qed
qed

lemma task_score_less:
  assumes "clock_ok t1" "clock_ok t2" "0 \<le> p1" "p1 \<le> 9" "0 \<le> p2" "p2 \<le> 9"
    and "p2 < p1 \<or> (p1 = p2 \<and> t1 + 1000000 \<le> t2)"
  shows "task_score p1 t1 < task_score p2 t2"
proof -
  have "raw_score p1 t1 + 1 \<le> raw_score p2 t2"
  proof (cases "p2 < p1")
    case True
    then have "(9 - p1) * 10000000000000 + 10000000000000 \<le> (9 - p2) * 10000000000000" by simp
    then have "(of_int ((9 - p1) * 10000000000000 + 10000000000000) :: rat)
        \<le> of_int ((9 - p2) * 10000000000000)"
      by (simp only: of_int_le_iff)
    moreover have "of_nat t1 / 1000000 \<le> (9999999 * 10 ^ 6 :: rat)" "0 \<le> (of_nat t2 / 1000000 :: rat)"
      using assms(1) by (simp_all add: clock_ok_def)
    ultimately show ?thesis by (simp add: raw_score_def)
  next
    case False
    with assms(7) have "p1 = p2" "(of_nat (t1 + 1000000) :: rat) \<le> of_nat t2"
      by (simp_all only: of_nat_le_iff) simp_all
    then show ?thesis by (simp add: raw_score_def field_simps)
  qed
  moreover have "\<bar>task_score p1 t1 - raw_score p1 t1\<bar> \<le> 1 / 8"
    "\<bar>task_score p2 t2 - raw_score p2 t2\<bar> \<le> 1 / 8"
    using assms by (blast intro: task_score_close)+
  ultimately show ?thesis by (simp only: abs_le_iff) linarith
qed

section \<open>Redis sorted sets\<close>

text \<open>
  \<open>zadd\<close> is \<open>ZADD key NX\<close>, \<open>zpopmin\<close> is \<open>ZPOPMIN key 1\<close> and \<open>zrem\<close> is \<open>ZREM\<close>; \<open>None\<close> is a
  \<open>RedisError\<close>, after which the set is as before.
\<close>

locale redis_zset =
  fixes zadd :: "string \<Rightarrow> rat \<Rightarrow> 'q \<Rightarrow> 'q option"
    and zpopmin :: "'q \<Rightarrow> ((string \<times> rat) option \<times> 'q) option"
    and zrem :: "string \<Rightarrow> 'q \<Rightarrow> 'q option"
    and view :: "'q \<Rightarrow> string \<Rightarrow> rat option"
  assumes view_zadd:
      "zadd m s q = Some q' \<Longrightarrow> view q' = (if view q m = None then (view q)(m \<mapsto> s) else view q)"
    and view_zpopmin_None: "zpopmin q = Some (None, q') \<Longrightarrow> view q = (\<lambda>_. None) \<and> view q' = view q"
    and view_zpopmin_Some:
      "zpopmin q = Some (Some (m, s), q') \<Longrightarrow>
         view q m = Some s \<and> (\<forall>n t. view q n = Some t \<longrightarrow> s \<le> t) \<and> view q' = (view q)(m := None)"
    and view_zrem: "zrem m q = Some q' \<Longrightarrow> view q' = (view q)(m := None)"

section \<open>The queue\<close>

datatype queue_error = Queue_unavailable | Priority_out_of_range | Invalid_task_id

definition enqueue ::
  "(string \<Rightarrow> rat \<Rightarrow> 'q \<Rightarrow> 'q option) \<Rightarrow> uuid \<Rightarrow> int \<Rightarrow> nat \<Rightarrow> 'q \<Rightarrow> (queue_error + unit) \<times> 'q"
where
  "enqueue zadd task_id priority time_ns q =
     (if \<not> (0 \<le> priority \<and> priority \<le> 9) then (Inl Priority_out_of_range, q)
      else (case zadd (uuid_str task_id) (task_score priority time_ns) q of
              None \<Rightarrow> (Inl Queue_unavailable, q)
            | Some q' \<Rightarrow> (Inr (), q')))"

definition dequeue ::
  "('q \<Rightarrow> ((string \<times> rat) option \<times> 'q) option) \<Rightarrow> 'q \<Rightarrow> (queue_error + uuid option) \<times> 'q"
where
  "dequeue zpopmin q =
     (case zpopmin q of
        None \<Rightarrow> (Inl Queue_unavailable, q)
      | Some (None, q') \<Rightarrow> (Inr None, q')
      | Some (Some (m, _), q') \<Rightarrow>
          (case parse_uuid m of None \<Rightarrow> (Inl Invalid_task_id, q') | Some u \<Rightarrow> (Inr (Some u), q')))"

definition queue_remove ::
  "(string \<Rightarrow> 'q \<Rightarrow> 'q option) \<Rightarrow> uuid \<Rightarrow> 'q \<Rightarrow> (queue_error + unit) \<times> 'q"
where
  "queue_remove zrem task_id q =
     (case zrem (uuid_str task_id) q of None \<Rightarrow> (Inl Queue_unavailable, q) | Some q' \<Rightarrow> (Inr (), q'))"

section \<open>The contract the platform relies on\<close>

text \<open>
  \<open>members\<close> is the set of queued ids, as text: accepting a task queues it and keeps the
  others, a task handed out was queued and is no longer.
\<close>

locale work_queue =
  fixes enq :: "uuid \<Rightarrow> int \<Rightarrow> nat \<Rightarrow> 'q \<Rightarrow> (queue_error + unit) \<times> 'q"
    and deq :: "'q \<Rightarrow> (queue_error + uuid option) \<times> 'q"
    and rem :: "uuid \<Rightarrow> 'q \<Rightarrow> (queue_error + unit) \<times> 'q"
    and members :: "'q \<Rightarrow> string set"
  assumes members_enq: "enq u p t q = (Inr (), q') \<Longrightarrow> members q' = insert (uuid_str u) (members q)"
    and members_enq_fail: "enq u p t q = (Inl e, q') \<Longrightarrow> members q' = members q"
    and members_deq: "deq q = (r, q') \<Longrightarrow> members q' \<subseteq> members q"
    and members_deq_one: "deq q = (Inr (Some u), q') \<Longrightarrow>
      \<exists>m\<in>members q. parse_uuid m = Some u \<and> members q' = members q - {m}"
    and members_deq_none: "deq q = (Inr None, q') \<Longrightarrow> members q = {}"
    and members_rem: "rem u q = (Inr (), q') \<Longrightarrow> members q' = members q - {uuid_str u}"
    and members_rem_fail: "rem u q = (Inl e, q') \<Longrightarrow> members q' = members q"
begin

lemma enq_mono: "enq u p t q = (r, q') \<Longrightarrow> members q \<subseteq> members q'"
  using members_enq [of u p t q q'] members_enq_fail [of u p t q _ q'] by (cases r) auto

lemma enq_members:
  "enq u p t q = (r, q') \<Longrightarrow> members q' \<subseteq> insert (uuid_str u) (members q)"
  using members_enq [of u p t q q'] members_enq_fail [of u p t q _ q'] by (cases r) auto

lemma deq_keeps:
  assumes "deq q = (Inr (Some u), q')" and "uuid_str v \<in> members q" and "v < 2 ^ 128" and "v \<noteq> u"
  shows "uuid_str v \<in> members q'"
proof -
  obtain m where "parse_uuid m = Some u" "members q' = members q - {m}"
    using members_deq_one [OF assms(1)] by blast
  moreover have "uuid_str v \<noteq> m" using calculation(1) parse_uuid_str [OF assms(3)] assms(4) by auto
  ultimately show ?thesis using assms(2) by simp
qed

end

context redis_zset
begin

lemma enqueue_cases:
  assumes "enqueue zadd u p t q = (r, q')"
  shows "(\<exists>e. r = Inl e \<and> q' = q) \<or>
    (r = Inr () \<and> 0 \<le> p \<and> p \<le> 9 \<and>
     view q' = (if view q (uuid_str u) = None then (view q)(uuid_str u \<mapsto> task_score p t) else view q))"
  using assms by (auto simp: enqueue_def view_zadd split: if_splits option.splits)

lemma dequeue_cases:
  assumes "dequeue zpopmin q = (r, q')"
  shows "(r = Inl Queue_unavailable \<and> q' = q) \<or>
    (r = Inr None \<and> view q = (\<lambda>_. None) \<and> view q' = view q) \<or>
    (\<exists>m s. view q m = Some s \<and> (\<forall>n t. view q n = Some t \<longrightarrow> s \<le> t) \<and> view q' = (view q)(m := None) \<and>
       r = (case parse_uuid m of None \<Rightarrow> Inl Invalid_task_id | Some u \<Rightarrow> Inr (Some u)))"
proof (cases "zpopmin q")
  case None
  with assms show ?thesis by (simp add: dequeue_def)
next
  case (Some a)
  show ?thesis
  proof (cases "fst a")
    case None
    with Some assms show ?thesis using view_zpopmin_None [of q q']
      by (cases a) (auto simp: dequeue_def)
  next
    case (Some b)
    obtain m s where "zpopmin q = Some (Some (m, s), snd a)" using Some \<open>zpopmin q = Some a\<close>
      by (cases a, cases b) auto
    then have z: "zpopmin q = Some (Some (m, s), snd a)" .
    have "r = (case parse_uuid m of None \<Rightarrow> Inl Invalid_task_id | Some u \<Rightarrow> Inr (Some u)) \<and> q' = snd a"
      using assms z by (auto simp: dequeue_def split: option.splits)
    then show ?thesis using view_zpopmin_Some [OF z] by blast
  qed
qed

text \<open>Every member is the text of an id; \<open>enqueue\<close> and \<open>dequeue\<close> keep it so.\<close>

definition canonical :: "'q \<Rightarrow> bool" where
  "canonical q \<longleftrightarrow> (\<forall>m. view q m \<noteq> None \<longrightarrow> (\<exists>u. u < 2 ^ 128 \<and> m = uuid_str u))"

lemma canonical_enqueue:
  "canonical q \<Longrightarrow> u < 2 ^ 128 \<Longrightarrow> enqueue zadd u p t q = (r, q') \<Longrightarrow> canonical q'"
  by (drule enqueue_cases) (auto simp: canonical_def split: if_splits)

lemma canonical_dequeue: "canonical q \<Longrightarrow> dequeue zpopmin q = (r, q') \<Longrightarrow> canonical q'"
  by (drule dequeue_cases) (auto simp: canonical_def split: if_splits)

text \<open>The head of the queue has the least score.\<close>

lemma dequeue_least:
  assumes "canonical q" and "dequeue zpopmin q = (Inr (Some u), q')"
    and "view q (uuid_str a) = Some s" and "view q (uuid_str b) = Some t" and "s < t"
    and "b < 2 ^ 128"
  shows "u \<noteq> b"
proof
  assume ub: "u = b"
  from dequeue_cases [OF assms(2)] obtain m r where m: "view q m = Some r"
      "\<forall>n t. view q n = Some t \<longrightarrow> r \<le> t" "parse_uuid m = Some u"
    by (auto split: option.splits)
  obtain v where v: "v < 2 ^ 128" "m = uuid_str v" using assms(1) m(1) by (auto simp: canonical_def)
  have "v = u" using m(3) parse_uuid_str [OF v(1)] v(2) by simp
  then have "r = t" using m(1) assms(4) v(2) ub by simp
  moreover have "r \<le> s" using m(2) assms(3) by blast
  ultimately show False using assms(5) by simp
qed

lemma zset_work_queue:
  "work_queue (enqueue zadd) (dequeue zpopmin) (queue_remove zrem) (\<lambda>q. dom (view q))"
proof (unfold_locales, goal_cases)
  case (1 u p t q q')
  then show ?case using enqueue_cases [OF 1] by (auto split: if_splits)
next
  case (2 u p t q e q')
  then show ?case using enqueue_cases [OF 2] by auto
next
  case (3 q r q')
  then show ?case using dequeue_cases [OF 3] by (auto split: if_splits)
next
  case (4 q u q')
  from dequeue_cases [OF 4] obtain m s where "view q m = Some s" "view q' = (view q)(m := None)"
      "parse_uuid m = Some u"
    by (auto split: option.splits)
  then show ?case by (intro bexI [of _ m]) auto
next
  case (5 q q')
  then show ?case using dequeue_cases [OF 5] by (auto split: option.splits)
next
  case (6 u q q')
  then show ?case by (auto simp: queue_remove_def view_zrem split: option.splits if_splits)
next
  case (7 u q e q')
  then show ?case by (auto simp: queue_remove_def split: option.splits)
qed

end

sublocale redis_zset \<subseteq>
  wq: work_queue "enqueue zadd" "dequeue zpopmin" "queue_remove zrem" "\<lambda>q. dom (view q)"
  by (rule zset_work_queue)

subsection \<open>A sorted set as an association list\<close>

text \<open>
  The documented commands over the library's association lists: the laws of the
  contract hold together, and the properties are applied to this instance.
\<close>

type_synonym zset = "(string, rat) alist"

definition alist_zadd :: "string \<Rightarrow> rat \<Rightarrow> zset \<Rightarrow> zset option" where
  "alist_zadd m s q = (if DAList.lookup q m = None then Some (DAList.update m s q) else Some q)"

definition least_entry :: "string \<times> rat \<Rightarrow> (string \<times> rat) list \<Rightarrow> string \<times> rat" where
  "least_entry x xs = fold (\<lambda>a b. if snd a < snd b then a else b) xs x"

definition alist_zpopmin :: "zset \<Rightarrow> ((string \<times> rat) option \<times> zset) option" where
  "alist_zpopmin q =
     (case DAList.impl_of q of
        [] \<Rightarrow> Some (None, q)
      | x # xs \<Rightarrow> Some (Some (least_entry x xs), DAList.delete (fst (least_entry x xs)) q))"

definition alist_zrem :: "string \<Rightarrow> zset \<Rightarrow> zset option" where
  "alist_zrem m q = Some (DAList.delete m q)"

lemma least_entry:
  "least_entry x xs \<in> set (x # xs) \<and> (\<forall>a\<in>set (x # xs). snd (least_entry x xs) \<le> snd a)"
proof (induction xs arbitrary: x)
  case Nil
  then show ?case by (simp add: least_entry_def)
next
  case (Cons y ys)
  have "least_entry x (y # ys) = least_entry (if snd y < snd x then y else x) ys"
    by (simp add: least_entry_def)
  then show ?case using Cons.IH [of x] Cons.IH [of y] by (auto split: if_splits)
qed

lemma alist_lookup_in: "DAList.lookup q m = Some s \<longleftrightarrow> (m, s) \<in> set (DAList.impl_of q)"
  using impl_of [of q] by (simp add: DAList.lookup_def map_of_eq_Some_iff)

lemma alist_delete_lookup: "DAList.lookup (DAList.delete m q) = (DAList.lookup q)(m := None)"
  by (rule ext) (simp add: lookup_delete)

interpretation alist_queue: redis_zset alist_zadd alist_zpopmin alist_zrem DAList.lookup
proof (unfold_locales, goal_cases)
  case (1 m s q q')
  then show ?case by (auto simp: alist_zadd_def split: if_splits)
next
  case (2 q q')
  then have "DAList.impl_of q = []" "q' = q" by (auto simp: alist_zpopmin_def split: list.splits)
  then show ?case by (auto simp: DAList.lookup_def)
next
  case (3 q m s q')
  then obtain x xs where q: "DAList.impl_of q = x # xs" "least_entry x xs = (m, s)"
      "q' = DAList.delete m q"
    by (auto simp: alist_zpopmin_def split: list.splits)
  have "DAList.lookup q m = Some s"
    unfolding alist_lookup_in q(1) using least_entry [of x xs] q(2) by simp
  moreover have "s \<le> t" if "DAList.lookup q n = Some t" for n t
    using that least_entry [of x xs] q(2) unfolding alist_lookup_in q(1) by fastforce
  ultimately show ?case using q(3) by (simp add: alist_delete_lookup)
next
  case (4 m q q')
  then show ?case by (auto simp: alist_zrem_def alist_delete_lookup)
qed

section \<open>Properties\<close>

text \<open>
  C5. Priority and order of arrival. For any sorted set that behaves as Redis documents:
  while a task is queued, no task of lower priority, and none of the same priority
  queued a millisecond or more after it, is handed out by \<open>dequeue\<close>. The rounding of the
  score to a double is part of the statement.
\<close>

theorem dequeue_priority_order:
  assumes "redis_zset zadd zpopmin zrem view"
    and "\<forall>m. view q m \<noteq> None \<longrightarrow> (\<exists>u. u < 2 ^ 128 \<and> m = uuid_str u)"
    and "view q (uuid_str a) = Some (task_score pa ta)"
    and "view q (uuid_str b) = Some (task_score pb tb)"
    and "clock_ok ta" "clock_ok tb" "0 \<le> pa" "pa \<le> 9" "0 \<le> pb" "pb \<le> 9"
    and "pb < pa \<or> (pa = pb \<and> ta + 1000000 \<le> tb)" and "b < 2 ^ 128"
    and "dequeue zpopmin q = (Inr (Some u), q')"
  shows "u \<noteq> b"
proof -
  note z = assms(1)
  have "task_score pa ta < task_score pb tb"
    using assms(5-11) by (rule task_score_less)
  then show ?thesis
    using redis_zset.dequeue_least [OF z _ assms(13,3,4) _ assms(12)] assms(2)
      redis_zset.canonical_def [OF z] by blast
qed

definition sample_queue :: zset where
  "sample_queue =
     DAList.update (uuid_str 3) (task_score 7 (1700000000 * 10 ^ 9))
       (DAList.update (uuid_str 2) (task_score 5 (1600000000 * 10 ^ 9)) DAList.empty)"

lemma sample_queue_lookup:
  "DAList.lookup sample_queue (uuid_str 3) = Some (task_score 7 (1700000000 * 10 ^ 9))"
  "DAList.lookup sample_queue (uuid_str 2) = Some (task_score 5 (1600000000 * 10 ^ 9))"
  "DAList.lookup sample_queue m \<noteq> None \<Longrightarrow> m = uuid_str 3 \<or> m = uuid_str 2"
proof -
  have "uuid_str 3 \<noteq> uuid_str 2" using uuid_str_inj [of 3 2] by auto
  then show "DAList.lookup sample_queue (uuid_str 3) = Some (task_score 7 (1700000000 * 10 ^ 9))"
    "DAList.lookup sample_queue (uuid_str 2) = Some (task_score 5 (1600000000 * 10 ^ 9))"
    "DAList.lookup sample_queue m \<noteq> None \<Longrightarrow> m = uuid_str 3 \<or> m = uuid_str 2"
    by (auto simp: sample_queue_def lookup_update split: if_splits)
qed

lemma sample_queue_dequeue: "\<exists>u q'. dequeue alist_zpopmin sample_queue = (Inr (Some u), q')"
proof -
  have "DAList.impl_of sample_queue \<noteq> []"
    using sample_queue_lookup(1) by (auto simp: DAList.lookup_def)
  then obtain m s q' where z: "alist_zpopmin sample_queue = Some (Some (m, s), q')"
    by (cases "DAList.impl_of sample_queue") (auto simp: alist_zpopmin_def intro: prod.exhaust)
  then have "DAList.lookup sample_queue m = Some s" using alist_queue.view_zpopmin_Some by blast
  then have "m = uuid_str 3 \<or> m = uuid_str 2" using sample_queue_lookup(3) [of m] by simp
  then have "\<exists>u. parse_uuid m = Some u" using parse_uuid_str [of 3] parse_uuid_str [of 2] by auto
  with z show ?thesis by (auto simp: dequeue_def)
qed

theorem dequeue_priority_order_witness:
  "\<exists>u q'. dequeue alist_zpopmin sample_queue = (Inr (Some u), q') \<and> u \<noteq> 2"
proof -
  obtain u q' where d: "dequeue alist_zpopmin sample_queue = (Inr (Some u), q')"
    using sample_queue_dequeue by blast
  have canon: "\<forall>m. DAList.lookup sample_queue m \<noteq> None \<longrightarrow> (\<exists>u. u < 2 ^ 128 \<and> m = uuid_str u)"
  proof (intro allI impI)
    fix m assume "DAList.lookup sample_queue m \<noteq> None"
    then have "m = uuid_str 3 \<or> m = uuid_str 2" by (rule sample_queue_lookup(3))
    moreover have "(3 :: nat) < 2 ^ 128" "(2 :: nat) < 2 ^ 128" by simp_all
    ultimately show "\<exists>u. u < 2 ^ 128 \<and> m = uuid_str u" by blast
  qed
  have "u \<noteq> 2"
    by (rule dequeue_priority_order [OF alist_queue.redis_zset_axioms canon sample_queue_lookup(1,2) _ _ _ _ _ _ _ _ d])
       (simp_all add: clock_ok_def)
  with d show ?thesis by blast
qed

end
