(* ===== verification/Message_Bus.thy ===== *)
theory Message_Bus
  imports Json
begin

text \<open>
  The Agent message bus (\<open>backend/app/message_bus.py\<close>), a Redis stream. \<open>XADD\<close> with its
  approximate length limit and \<open>XRANGE\<close> are parameters with their documented behaviour
  as the locale \<open>redis_stream\<close>; \<open>json.dumps\<close> and \<open>json.loads\<close> are parameters too.
\<close>

type_synonym fields = "(string \<times> string) list"

definition fget :: "fields \<Rightarrow> string \<Rightarrow> string option" where
  "fget = map_of"

text \<open>\<open>str(fields.get(k) or d)\<close>: a missing and an empty field are the same.\<close>

definition fget_or :: "fields \<Rightarrow> string \<Rightarrow> string \<Rightarrow> string" where
  "fget_or fs k d = (case map_of fs k of None \<Rightarrow> d | Some v \<Rightarrow> if v = [] then d else v)"

record bus_message =
  bm_id :: string
  bm_from_agent :: string
  bm_to_agent :: string
  bm_message_type :: string
  bm_payload :: dict
  bm_task_id :: "string option"
  bm_created_at :: instant

datatype bus_error = Bus_unavailable | Bad_message_id

definition message_fields ::
  "(json \<Rightarrow> string) \<Rightarrow> string \<Rightarrow> string \<Rightarrow> string \<Rightarrow> dict \<Rightarrow> string option \<Rightarrow> fields" where
  "message_fields dumps from_agent to_agent message_type payload task_id =
     [(''from'', from_agent), (''to'', to_agent), (''type'', message_type),
      (''payload'', dumps (JObj payload)),
      (''task_id'', case task_id of None \<Rightarrow> [] | Some t \<Rightarrow> t)]"

definition publish ::
  "(fields \<Rightarrow> 'b \<Rightarrow> (string \<times> 'b) option) \<Rightarrow> (json \<Rightarrow> string) \<Rightarrow>
     string \<Rightarrow> string \<Rightarrow> string \<Rightarrow> dict \<Rightarrow> string option \<Rightarrow> 'b \<Rightarrow> (bus_error + string) \<times> 'b"
where
  "publish xadd dumps from_agent to_agent message_type payload task_id b =
     (case xadd (message_fields dumps from_agent to_agent message_type payload task_id) b of
        None \<Rightarrow> (Inl Bus_unavailable, b)
      | Some (i, b') \<Rightarrow> (Inr i, b'))"

text \<open>\<open>int(str(message_id).split("-", 1)[0])\<close>\<close>

definition message_timestamp :: "string \<Rightarrow> nat option" where
  "message_timestamp i =
     (let t = takeWhile (\<lambda>c. c \<noteq> CHR ''-'') i in if t = [] then None else parse_nat 0 t)"

definition read_payload :: "(string \<Rightarrow> json option) \<Rightarrow> fields \<Rightarrow> dict" where
  "read_payload loads fs =
     (case loads (fget_or fs ''payload'' ''{}'') of
        None \<Rightarrow> [(''raw'', opt_str (fget fs ''payload''))]
      | Some (JObj d) \<Rightarrow> d
      | Some v \<Rightarrow> [(''value'', v)])"

definition read_message :: "(string \<Rightarrow> json option) \<Rightarrow> string \<times> fields \<Rightarrow> bus_error + bus_message" where
  "read_message loads e =
     (case message_timestamp (fst e) of
        None \<Rightarrow> Inl Bad_message_id
      | Some ms \<Rightarrow> Inr
          \<lparr>bm_id = fst e,
           bm_from_agent = fget_or (snd e) ''from'' [],
           bm_to_agent = fget_or (snd e) ''to'' [],
           bm_message_type = fget_or (snd e) ''type'' ''event'',
           bm_payload = read_payload loads (snd e),
           bm_task_id = (case fget (snd e) ''task_id'' of Some t \<Rightarrow> if t = [] then None else Some t | None \<Rightarrow> None),
           bm_created_at = int ms * 1000\<rparr>)"

text \<open>\<open>if to_agent and fields.get("to") != to_agent: continue\<close>\<close>

definition addressed :: "string option \<Rightarrow> string \<times> fields \<Rightarrow> bool" where
  "addressed to_agent e \<longleftrightarrow>
     to_agent = None \<or> to_agent = Some [] \<or> fget (snd e) ''to'' = to_agent"

fun read_messages ::
  "(string \<Rightarrow> json option) \<Rightarrow> string option \<Rightarrow> (string \<times> fields) list \<Rightarrow> bus_error + bus_message list"
where
  "read_messages loads to_agent [] = Inr []"
| "read_messages loads to_agent (e # es) =
     (if \<not> addressed to_agent e
      then read_messages loads to_agent es
      else rbind (read_message loads e) (\<lambda>m.
           rbind (read_messages loads to_agent es) (\<lambda>ms. Inr (m # ms))))"

definition list_messages ::
  "(string \<Rightarrow> nat \<Rightarrow> 'b \<Rightarrow> (string \<times> fields) list option) \<Rightarrow> (string \<Rightarrow> json option) \<Rightarrow>
     string \<Rightarrow> string option \<Rightarrow> nat \<Rightarrow> 'b \<Rightarrow> bus_error + bus_message list"
where
  "list_messages xrange loads after_id to_agent count b =
     (let start = (if after_id = ''-'' then ''-'' else ''('' @ after_id) in
      case xrange start count b of
        None \<Rightarrow> Inl Bus_unavailable
      | Some es \<Rightarrow> read_messages loads to_agent es)"

section \<open>Redis streams\<close>

locale redis_stream =
  fixes xadd :: "fields \<Rightarrow> 'b \<Rightarrow> (string \<times> 'b) option"
    and xrange :: "string \<Rightarrow> nat \<Rightarrow> 'b \<Rightarrow> (string \<times> fields) list option"
    and entries :: "'b \<Rightarrow> (string \<times> fields) list"
  assumes entries_xadd: "xadd fs b = Some (i, b') \<Longrightarrow>
      \<exists>n. entries b' = drop n (entries b) @ [(i, fs)]"
    and id_xadd: "xadd fs b = Some (i, b') \<Longrightarrow> message_timestamp i \<noteq> None"
    and xrange_all: "xrange ''-'' n b = Some es \<Longrightarrow> es = take n (entries b)"
    and xrange_after: "xrange (''('' @ i) n b = Some es \<Longrightarrow> entries b = pre @ (i, fs) # post \<Longrightarrow>
      i \<notin> fst ` set pre \<Longrightarrow> es = take n post"
begin

text \<open>The last entry is what was published, in the words of the reader.\<close>

lemma published_entry:
  assumes "publish xadd dumps f t ty p tid b = (Inr i, b')"
  shows "\<exists>n. entries b' = drop n (entries b) @ [(i, message_fields dumps f t ty p tid)]"
    and "message_timestamp i \<noteq> None"
  using assms entries_xadd id_xadd by (auto simp: publish_def split: option.splits)

end

lemma read_messages_append:
  "read_messages loads a (xs @ ys) =
     rbind (read_messages loads a xs) (\<lambda>ms. rbind (read_messages loads a ys) (\<lambda>ns. Inr (ms @ ns)))"
proof (induction xs)
  case Nil
  then show ?case by (cases "read_messages loads a ys") simp_all
next
  case (Cons e xs)
  then show ?case
    by (cases "read_message loads e"; cases "read_messages loads a xs"; cases "read_messages loads a ys")
       simp_all
qed

lemma read_messages_other:
  assumes "\<forall>e\<in>set es. fget (snd e) ''to'' \<noteq> Some a" and "a \<noteq> []"
  shows "read_messages loads (Some a) es = Inr []"
  using assms by (induction es) (auto simp: addressed_def)

text \<open>
  Publish and read back. If \<open>loads\<close> inverts \<open>dumps\<close> on the payload, a reader that
  asks for the messages of the addressee, with a count that covers the stream, gets the
  published message last, with sender, type, payload and task id as they were sent.
\<close>

theorem published_message_is_read:
  assumes "redis_stream xadd xrange entries"
    and "publish xadd dumps f t ty p tid b = (Inr i, b')"
    and "list_messages xrange loads ''-'' (Some t) n b' = Inr ms"
    and "loads (dumps (JObj p)) = Some (JObj p)" and "dumps (JObj p) \<noteq> []"
    and "length (entries b') \<le> n" and "ty \<noteq> []"
  shows "ms \<noteq> [] \<and> bm_id (last ms) = i \<and> bm_from_agent (last ms) = f \<and> bm_to_agent (last ms) = t \<and>
         bm_message_type (last ms) = ty \<and> bm_payload (last ms) = p \<and>
         bm_task_id (last ms) = (if tid = Some [] then None else tid)"
proof -
  obtain k where e: "entries b' = drop k (entries b) @ [(i, message_fields dumps f t ty p tid)]"
    using redis_stream.published_entry(1) [OF assms(1,2)] by blast
  obtain ts where ts: "message_timestamp i = Some ts"
    using redis_stream.published_entry(2) [OF assms(1,2)] by blast
  obtain es where x: "xrange ''-'' n b' = Some es" "read_messages loads (Some t) es = Inr ms"
    using assms(3) by (auto simp: list_messages_def split: option.splits)
  have "es = entries b'"
    using redis_stream.xrange_all [OF assms(1) x(1)] assms(6) by simp
  with x(2) e obtain ms1 ms2 where
    "read_messages loads (Some t) [(i, message_fields dumps f t ty p tid)] = Inr ms2" "ms = ms1 @ ms2"
    by (auto simp: read_messages_append rbind_Inr)
  then show ?thesis
    using ts assms(4,5,7)
    by (auto simp: message_fields_def addressed_def fget_def read_message_def fget_or_def read_payload_def
        split: option.splits if_splits)
qed

text \<open>
  The count limits what is read, not what is returned: when the entries read are all for
  other Agents, an Agent's page is empty though messages for it may follow, and it has no
  id to continue after.
\<close>

lemma page_without_own_messages:
  assumes "redis_stream xadd xrange entries" and "a \<noteq> []"
    and "\<forall>e\<in>set (take n (entries b)). fget (snd e) ''to'' \<noteq> Some a"
    and "xrange ''-'' n b \<noteq> None"
  shows "list_messages xrange loads ''-'' (Some a) n b = Inr []"
proof -
  obtain es where x: "xrange ''-'' n b = Some es" using assms(4) by blast
  then have "es = take n (entries b)" by (rule redis_stream.xrange_all [OF assms(1)])
  then show ?thesis
    using x assms(2,3) by (simp add: list_messages_def read_messages_other)
qed

section \<open>A stream as a list\<close>

text \<open>A stream that keeps the last \<open>k\<close> entries and numbers them.\<close>

type_synonym list_stream = "nat \<times> (string \<times> fields) list"

definition list_xadd :: "nat \<Rightarrow> fields \<Rightarrow> list_stream \<Rightarrow> (string \<times> list_stream) option" where
  "list_xadd k fs b =
     (let i = nat_str (fst b) @ ''-0''; es = snd b @ [(i, fs)]
      in Some (i, (Suc (fst b), drop (min (length (snd b)) (length es - k)) es)))"

definition list_xrange :: "string \<Rightarrow> nat \<Rightarrow> list_stream \<Rightarrow> (string \<times> fields) list option" where
  "list_xrange start n b =
     (if start = ''-'' then Some (take n (snd b))
      else Some (take n (tl (dropWhile (\<lambda>e. ''('' @ fst e \<noteq> start) (snd b)))))"

lemma nat_str_timestamp: "message_timestamp (nat_str n @ ''-0'') = Some n"
proof -
  have "takeWhile (\<lambda>c. c \<noteq> CHR ''-'') (nat_str n @ ''-0'') = nat_str n"
    by (subst takeWhile_append2) (auto dest!: nat_str_digits simp: is_digit_def)
  then show ?thesis by (simp add: message_timestamp_def parse_nat_str)
qed

interpretation list_stream: redis_stream "list_xadd k" list_xrange snd
proof (unfold_locales, goal_cases)
  case (1 fs b i b')
  then show ?case
    by (auto simp: list_xadd_def Let_def intro!: exI [of _ "min (length (snd b)) (Suc (length (snd b)) - k)"])
next
  case (2 fs b i b')
  then show ?case by (auto simp: list_xadd_def Let_def nat_str_timestamp)
next
  case (3 n b es)
  then show ?case by (simp add: list_xrange_def)
next
  case (4 i n b es pre fs post)
  then have "dropWhile (\<lambda>e. ''('' @ fst e \<noteq> ''('' @ i) (snd b) = (i, fs) # post"
    by (auto simp: dropWhile_append)
  with 4(1) show ?case by (simp add: list_xrange_def)
qed

theorem published_message_is_read_witness:
  "\<exists>ms b'. list_messages list_xrange (\<lambda>_. Some (JObj [])) ''-'' (Some ''worker'') 10 b' = Inr ms \<and>
     ms \<noteq> [] \<and> bm_to_agent (last ms) = ''worker''"
proof -
  let ?dumps = "\<lambda>_ :: json. ''{}''"
  obtain i b' where p: "publish (list_xadd 5) ?dumps ''manager'' ''worker'' ''task'' [] None (0, []) = (Inr i, b')"
    by (auto simp: publish_def list_xadd_def Let_def)
  then have b: "snd b' = [(i, message_fields ?dumps ''manager'' ''worker'' ''task'' [] None)]"
      "message_timestamp i = Some 0"
    using nat_str_timestamp [of 0] by (auto simp: publish_def list_xadd_def Let_def)
  then obtain ms where
    l: "list_messages list_xrange (\<lambda>_. Some (JObj [])) ''-'' (Some ''worker'') 10 b' = Inr ms"
    by (simp add: list_messages_def list_xrange_def message_fields_def fget_def read_message_def addressed_def)
  have "ms \<noteq> [] \<and> bm_to_agent (last ms) = ''worker''"
    using published_message_is_read [OF list_stream.redis_stream_axioms p l] b by simp
  with l show ?thesis by blast
qed

end
