(* ===== verification/File_System.thy ===== *)
theory File_System
  imports Prelude
begin

text \<open>
  The part of \<open>pathlib\<close> and of the operating system that the workspace manager and the
  artifact storage use: lexical paths, symbolic links, \<open>Path.resolve\<close>, and the calls
  \<open>mkdir\<close>, \<open>write_bytes\<close>, \<open>read_bytes\<close>, \<open>replace\<close>, \<open>unlink\<close>. Modes and ownership are not
  modelled. A path is the list of its components below \<open>/\<close>.
\<close>

type_synonym path = "string list"
type_synonym bytes = string

text \<open>A link's target: absolute or relative to the link's directory.\<close>

datatype link = Link (link_absolute: bool) (link_target: path)

record filesystem =
  fs_files :: "path \<Rightarrow> bytes option"
  fs_dirs :: "path \<Rightarrow> bool"
  fs_links :: "path \<Rightarrow> link option"
  fs_max_links :: nat

datatype fs_error =
    Boundary_error string
  | File_not_found
  | Os_error
  | Symlink_loop
  | Artifact_error string

section \<open>Lexical paths\<close>

fun split_slash :: "string \<Rightarrow> string \<Rightarrow> string list" where
  "split_slash cur [] = [cur]"
| "split_slash cur (c # cs) =
     (if c = CHR ''/'' then cur # split_slash [] cs else split_slash (cur @ [c]) cs)"

text \<open>\<open>PurePosixPath(s).parts\<close> without the root: empty and \<open>.\<close> components vanish.\<close>

definition path_parts :: "string \<Rightarrow> path" where
  "path_parts s = filter (\<lambda>c. c \<noteq> [] \<and> c \<noteq> ''.'') (split_slash [] s)"

definition is_absolute :: "string \<Rightarrow> bool" where
  "is_absolute s \<longleftrightarrow> starts_with ''/'' s"

text \<open>\<open>base / s\<close>: an absolute right operand replaces the left one.\<close>

definition path_join :: "path \<Rightarrow> string \<Rightarrow> path" where
  "path_join base s = (if is_absolute s then path_parts s else base @ path_parts s)"

text \<open>\<open>p.relative_to(base)\<close> succeeds.\<close>

definition under :: "path \<Rightarrow> path \<Rightarrow> bool" where
  "under base p \<longleftrightarrow> take (length base) p = base"

lemma under_append [simp]: "under base (base @ p)"
  by (simp add: under_def)

lemma under_iff: "under base p \<longleftrightarrow> (\<exists>q. p = base @ q)"
  unfolding under_def by (metis append_eq_conv_conj append_take_drop_id)

lemma under_trans: "under a b \<Longrightarrow> under b c \<Longrightarrow> under a c"
  by (auto simp: under_iff)

lemma split_slash_plain: "CHR ''/'' \<notin> set s \<Longrightarrow> split_slash cur s = [cur @ s]"
  by (induction s arbitrary: cur) auto

lemma split_slash_join:
  "CHR ''/'' \<notin> set s \<Longrightarrow> split_slash cur (s @ CHR ''/'' # t) = (cur @ s) # split_slash [] t"
  by (induction s arbitrary: cur) auto

section \<open>Resolution\<close>

text \<open>
  \<open>Path.resolve()\<close> (not strict): components are followed one by one, a link is replaced
  by its target, \<open>..\<close> goes to the parent. The number of links followed is limited, a
  longer chain is reported as a loop.
\<close>

function walk :: "(path \<Rightarrow> link option) \<Rightarrow> nat \<Rightarrow> path \<Rightarrow> path \<Rightarrow> path option" where
  "walk links n acc [] = Some acc"
| "walk links n acc (c # cs) =
     (if c = ''..'' then walk links n (butlast acc) cs
      else (case links (acc @ [c]) of
              None \<Rightarrow> walk links n (acc @ [c]) cs
            | Some l \<Rightarrow>
                (case n of
                   0 \<Rightarrow> None
                 | Suc m \<Rightarrow> walk links m (if link_absolute l then [] else acc) (link_target l @ cs))))"
  by pat_completeness auto

termination
  by (relation "measures [\<lambda>(_, n, _, _). n, \<lambda>(_, _, _, cs). length cs]") auto

definition resolve :: "filesystem \<Rightarrow> path \<Rightarrow> fs_error + path" where
  "resolve fs p =
     (case walk (fs_links fs) (fs_max_links fs) [] p of None \<Rightarrow> Inl Symlink_loop | Some q \<Rightarrow> Inr q)"

text \<open>A real path has no \<open>..\<close> and no link among its prefixes.\<close>

definition real_path :: "(path \<Rightarrow> link option) \<Rightarrow> path \<Rightarrow> bool" where
  "real_path links p \<longleftrightarrow> (\<forall>i < length p. p ! i \<noteq> ''..'' \<and> links (take (Suc i) p) = None)"

lemma real_path_Nil [simp]: "real_path links []"
  by (simp add: real_path_def)

lemma real_path_snoc:
  "real_path links (p @ [c]) \<longleftrightarrow> real_path links p \<and> c \<noteq> ''..'' \<and> links (p @ [c]) = None"
  by (auto simp: real_path_def nth_append less_Suc_eq)

lemma real_path_append: "real_path links (p @ q) \<Longrightarrow> real_path links p"
  by (induction q rule: rev_induct) (auto simp: real_path_snoc simp flip: append_assoc)

lemma real_path_butlast: "real_path links p \<Longrightarrow> real_path links (butlast p)"
  by (cases p rule: rev_cases) (auto simp: real_path_snoc)

lemma walk_real: "walk links n acc p = Some q \<Longrightarrow> real_path links acc \<Longrightarrow> real_path links q"
  by (induction links n acc p rule: walk.induct)
     (auto simp: real_path_snoc real_path_butlast split: if_splits option.splits nat.splits)

lemma walk_id: "real_path links (acc @ p) \<Longrightarrow> walk links n acc p = Some (acc @ p)"
proof (induction p arbitrary: acc)
  case (Cons c p)
  then have "real_path links (acc @ [c])"
    using real_path_append [of links "acc @ [c]" p] by simp
  then have "c \<noteq> ''..''" "links (acc @ [c]) = None" by (simp_all add: real_path_snoc)
  with Cons.IH [of "acc @ [c]"] Cons.prems show ?case by simp
qed simp

lemma resolve_real: "resolve fs p = Inr q \<Longrightarrow> real_path (fs_links fs) q"
  by (auto simp: resolve_def split: option.splits intro: walk_real)

lemma resolve_id: "real_path (fs_links fs) p \<Longrightarrow> resolve fs p = Inr p"
  using walk_id [of "fs_links fs" "[]" p] by (simp add: resolve_def)

lemma resolve_idem: "resolve fs p = Inr q \<Longrightarrow> resolve fs q = Inr q"
  by (rule resolve_id) (rule resolve_real)

text \<open>No link at or below a directory.\<close>

definition no_links_below :: "filesystem \<Rightarrow> path \<Rightarrow> bool" where
  "no_links_below fs base \<longleftrightarrow> (\<forall>p. under base p \<longrightarrow> fs_links fs p = None)"

lemma real_path_below:
  assumes "real_path (fs_links fs) base" and "no_links_below fs base" and "''..'' \<notin> set p"
  shows "real_path (fs_links fs) (base @ p)"
  using assms(3)
proof (induction p rule: rev_induct)
  case (snoc c p)
  have "fs_links fs ((base @ p) @ [c]) = None"
    using assms(2) by (simp add: no_links_below_def)
  with snoc show ?case
    using real_path_snoc [of "fs_links fs" "base @ p" c] by auto
qed (simp add: assms(1))

section \<open>Calls of the operating system\<close>

text \<open>\<open>p.mkdir(parents=True, exist_ok=True)\<close>; no prefix may be a regular file.\<close>

definition prefixes_of :: "path \<Rightarrow> path list" where
  "prefixes_of p = map (\<lambda>i. take i p) [0..<Suc (length p)]"

definition os_mkdirs :: "path \<Rightarrow> filesystem \<Rightarrow> fs_error + filesystem" where
  "os_mkdirs p fs =
     (if list_ex (\<lambda>q. fs_files fs q \<noteq> None) (prefixes_of p) then Inl Os_error
      else Inr (fs\<lparr>fs_dirs := \<lambda>q. fs_dirs fs q \<or> q \<in> set (prefixes_of p)\<rparr>))"

text \<open>
  \<open>p.write_bytes(b)\<close> follows a link that stands at \<open>p\<close>; the directory must exist and the
  file written must not be a directory.
\<close>

definition os_write :: "path \<Rightarrow> bytes \<Rightarrow> filesystem \<Rightarrow> fs_error + filesystem" where
  "os_write p b fs =
     (case walk (fs_links fs) (fs_max_links fs) [] p of
        None \<Rightarrow> Inl Os_error
      | Some q \<Rightarrow>
          if fs_dirs fs q \<or> \<not> fs_dirs fs (butlast q) then Inl Os_error
          else Inr (fs\<lparr>fs_files := (fs_files fs)(q \<mapsto> b)\<rparr>))"

text \<open>\<open>src.replace(dst)\<close> renames the directory entry, a link as a link.\<close>

definition os_replace :: "path \<Rightarrow> path \<Rightarrow> filesystem \<Rightarrow> fs_error + filesystem" where
  "os_replace src dst fs =
     (if fs_dirs fs dst \<or> fs_dirs fs src then Inl Os_error
      else if fs_links fs src \<noteq> None
      then Inr (fs\<lparr>fs_links := (fs_links fs)(dst := fs_links fs src, src := None),
                  fs_files := (fs_files fs)(dst := None)\<rparr>)
      else if fs_files fs src = None then Inl Os_error
      else Inr (fs\<lparr>fs_links := (fs_links fs)(dst := None),
                  fs_files := (fs_files fs)(dst := fs_files fs src, src := None)\<rparr>))"

definition os_read :: "path \<Rightarrow> filesystem \<Rightarrow> fs_error + bytes" where
  "os_read p fs =
     (if fs_dirs fs p then Inl Os_error
      else (case fs_files fs p of None \<Rightarrow> Inl File_not_found | Some b \<Rightarrow> Inr b))"

definition os_unlink :: "path \<Rightarrow> filesystem \<Rightarrow> fs_error + filesystem" where
  "os_unlink p fs =
     (if fs_dirs fs p then Inl Os_error
      else if fs_files fs p = None then Inl File_not_found
      else Inr (fs\<lparr>fs_files := (fs_files fs)(p := None)\<rparr>))"

text \<open>\<open>target.with_name(f".{target.name}.tmp")\<close>\<close>

definition temporary_name :: "path \<Rightarrow> path" where
  "temporary_name p = butlast p @ [''.'' @ last p @ ''.tmp'']"

text \<open>The write-then-rename sequence both writers of the source use.\<close>

definition atomic_write :: "path \<Rightarrow> bytes \<Rightarrow> filesystem \<Rightarrow> fs_error + filesystem" where
  "atomic_write target b fs =
     rbind (os_write (temporary_name target) b fs) (os_replace (temporary_name target) target)"

lemma temporary_name_neq: "p \<noteq> [] \<Longrightarrow> temporary_name p \<noteq> p"
proof
  assume "p \<noteq> []" and "temporary_name p = p"
  then have "last (temporary_name p) = last p" by simp
  then have "length (''.'' @ last p @ ''.tmp'') = length (last p)"
    by (simp add: temporary_name_def)
  then show False by simp
qed

lemma atomic_write_Inr:
  assumes "atomic_write p b fs = Inr fs'" and "real_path (fs_links fs) p" and "p \<noteq> []"
    and "fs_links fs (temporary_name p) = None"
  shows "fs' = fs\<lparr>fs_files := (fs_files fs)(p \<mapsto> b, temporary_name p := None)\<rparr>
    \<and> \<not> fs_dirs fs p"
proof -
  have "real_path (fs_links fs) (butlast p)" using assms(2) by (rule real_path_butlast)
  then have "real_path (fs_links fs) (temporary_name p)"
    using assms(4) by (simp add: temporary_name_def real_path_snoc)
  then have w: "walk (fs_links fs) (fs_max_links fs) [] (temporary_name p) = Some (temporary_name p)"
    using walk_id [of _ "[]"] by simp
  have "fs_links fs p = None"
    using assms(2,3) by (cases p rule: rev_cases) (auto simp: real_path_snoc)
  then have l: "(fs_links fs)(p := None) = fs_links fs" by (simp add: fun_upd_idem)
  show ?thesis
    using assms(1) temporary_name_neq [OF assms(3)] assms(4) w
    by (auto simp: atomic_write_def rbind_Inr os_write_def os_replace_def l fun_upd_twist
        split: if_splits)
qed

lemma atomic_write_ok:
  assumes "real_path (fs_links fs) p" and "p \<noteq> []"
    and "fs_links fs (temporary_name p) = None"
    and "fs_dirs fs (butlast p)" and "\<not> fs_dirs fs p" and "\<not> fs_dirs fs (temporary_name p)"
  shows "\<exists>fs'. atomic_write p b fs = Inr fs'"
proof -
  have "real_path (fs_links fs) (butlast p)" using assms(1) by (rule real_path_butlast)
  then have "real_path (fs_links fs) (temporary_name p)"
    using assms(3) by (simp add: temporary_name_def real_path_snoc)
  then have "walk (fs_links fs) (fs_max_links fs) [] (temporary_name p) = Some (temporary_name p)"
    using walk_id [of _ "[]"] by simp
  moreover have "butlast (temporary_name p) = butlast p" by (simp add: temporary_name_def)
  ultimately show ?thesis
    using assms(3-6) by (simp add: atomic_write_def os_write_def os_replace_def)
qed

end
