(* ===== verification/Workspace.thy ===== *)
theory Workspace
  imports File_System
begin

text \<open>
  Session workspaces (\<open>backend/app/workspace.py\<close>): the directories of one session, the
  guarded writers of its input and output files, and the resolution of registered
  artifact paths. Every path is resolved and checked to lie under the workspace root
  before it is used; what that check is worth is proved for any layout of links, and
  sessions are proved to be isolated from one another.
\<close>

section \<open>Names\<close>

text \<open>\<open>^[a-z0-9][a-z0-9-]{1,62}[a-z0-9]$\<close> with \<open>fullmatch\<close>\<close>

definition alnum_lower :: "char \<Rightarrow> bool" where
  "alnum_lower c \<longleftrightarrow> is_lower c \<or> is_digit c"

definition agent_id_pattern :: "string \<Rightarrow> bool" where
  "agent_id_pattern s \<longleftrightarrow>
     3 \<le> length s \<and> length s \<le> 64 \<and> alnum_lower (hd s) \<and> alnum_lower (last s) \<and>
     list_all (\<lambda>c. alnum_lower c \<or> c = CHR ''-'') s"

text \<open>\<open>^[A-Za-z0-9][A-Za-z0-9._-]{0,254}$\<close>\<close>

definition filename_char :: "char \<Rightarrow> bool" where
  "filename_char c \<longleftrightarrow>
     is_lower c \<or> is_upper c \<or> is_digit c \<or> c = CHR ''.'' \<or> c = CHR ''_'' \<or> c = CHR ''-''"

definition safe_filename :: "string \<Rightarrow> bool" where
  "safe_filename s =
     (case s of [] \<Rightarrow> False
      | c # cs \<Rightarrow> (is_lower c \<or> is_upper c \<or> is_digit c) \<and> length cs \<le> 254 \<and>
          list_all filename_char cs)"

lemma filename_char_no_slash: "filename_char c \<Longrightarrow> c \<noteq> CHR ''/''"
  by (auto simp: filename_char_def is_lower_def is_upper_def is_digit_def)

lemma safe_filename_facts:
  assumes "safe_filename s"
  shows "CHR ''/'' \<notin> set s" and "s \<noteq> []" and "hd s \<noteq> CHR ''.''"
proof -
  obtain c cs where s: "s = c # cs" using assms by (auto simp: safe_filename_def split: list.splits)
  have "filename_char d" if "d \<in> set s" for d
    using assms that by (auto simp: s safe_filename_def filename_char_def list_all_iff)
  then show "CHR ''/'' \<notin> set s" using filename_char_no_slash by blast
  show "s \<noteq> []" by (simp add: s)
  show "hd s \<noteq> CHR ''.''"
    using assms by (auto simp: s safe_filename_def is_lower_def is_upper_def is_digit_def)
qed

lemma agent_id_facts:
  assumes "agent_id_pattern s"
  shows "CHR ''/'' \<notin> set s" and "s \<noteq> []" and "CHR ''.'' \<notin> set s"
  using assms by (auto simp: agent_id_pattern_def alnum_lower_def is_lower_def is_digit_def list_all_iff)

lemma plain_component:
  "CHR ''/'' \<notin> set s \<Longrightarrow> s \<noteq> [] \<Longrightarrow> s \<noteq> ''.'' \<Longrightarrow> path_parts s = [s] \<and> \<not> is_absolute s"
  by (cases s) (auto simp: path_parts_def split_slash_plain is_absolute_def starts_with_def)

lemma path_join_filename [simp]: "safe_filename s \<Longrightarrow> path_join p s = p @ [s]"
proof -
  assume a: "safe_filename s"
  then have "s \<noteq> ''.''" using safe_filename_facts(3) [of s] by force
  with a show ?thesis
    using safe_filename_facts [of s] plain_component [of s] by (simp add: path_join_def)
qed

lemma path_join_agent [simp]: "agent_id_pattern s \<Longrightarrow> path_join p s = p @ [s]"
proof -
  assume a: "agent_id_pattern s"
  then have "s \<noteq> ''.''" using agent_id_facts(3) [of s] by force
  with a show ?thesis
    using agent_id_facts [of s] plain_component [of s] by (simp add: path_join_def)
qed

lemma uuid_str_plain: "CHR ''/'' \<notin> set (uuid_str u)" "CHR ''.'' \<notin> set (uuid_str u)"
  using uuid_str_chars [of u]
  by (auto simp: list_all_iff is_hex_or_dash_def is_digit_def is_lower_def)

lemma path_join_uuid [simp]: "path_join p (uuid_str u) = p @ [uuid_str u]"
proof -
  have "uuid_str u \<noteq> []" using length_uuid_str [of u] by force
  moreover have "uuid_str u \<noteq> ''.''" using uuid_str_plain(2) [of u] by force
  ultimately show ?thesis
    using plain_component uuid_str_plain(1) by (auto simp: path_join_def)
qed

lemma path_join_literals [simp]:
  "path_join p ''sessions'' = p @ [''sessions'']"
  "path_join p ''input'' = p @ [''input'']"
  "path_join p ''output'' = p @ [''output'']"
  "path_join p ''temp'' = p @ [''temp'']"
  "path_join p ''repository'' = p @ [''repository'']"
  by (simp_all add: path_join_def is_absolute_def starts_with_def path_parts_def)

section \<open>The manager\<close>

record session_workspace =
  ws_root :: path
  ws_input :: path
  ws_output :: path
  ws_temp :: path
  ws_workspace_type :: string
  ws_repository :: "path option"

text \<open>\<open>_inside\<close>; the manager's own root is resolved when it is constructed.\<close>

definition inside :: "path \<Rightarrow> filesystem \<Rightarrow> path \<Rightarrow> fs_error + path" where
  "inside base fs p =
     rbind (resolve fs p) (\<lambda>q.
       if under base q then Inr q else Inl (Boundary_error ''path escapes the workspace root''))"

fun make_dirs :: "path list \<Rightarrow> filesystem \<Rightarrow> fs_error + filesystem" where
  "make_dirs [] fs = Inr fs"
| "make_dirs (p # ps) fs = rbind (os_mkdirs p fs) (make_dirs ps)"

definition create_session ::
  "path \<Rightarrow> string \<Rightarrow> uuid \<Rightarrow> string \<Rightarrow> filesystem \<Rightarrow> fs_error + session_workspace \<times> filesystem"
where
  "create_session base agent_id session_id workspace_type fs =
     (if \<not> agent_id_pattern agent_id
      then Inl (Boundary_error ''invalid Agent id for workspace'')
      else if workspace_type \<notin> {''document'', ''repository''}
      then Inl (Boundary_error ''workspace type must be document or repository'')
      else
        rbind (inside base fs (path_join base agent_id)) (\<lambda>agent_root.
        rbind (inside base fs (path_join agent_root ''sessions'')) (\<lambda>sessions_root.
        rbind (inside base fs (path_join sessions_root (uuid_str session_id))) (\<lambda>target.
        rbind (inside base fs (path_join target ''input'')) (\<lambda>input_path.
        rbind (inside base fs (path_join target ''output'')) (\<lambda>output_path.
        rbind (inside base fs (path_join target ''temp'')) (\<lambda>temp_path.
        rbind (if workspace_type = ''repository''
               then rbind (inside base fs (path_join target ''repository'')) (\<lambda>r. Inr (Some r))
               else Inr None) (\<lambda>repository_path.
        rbind (make_dirs
                ([agent_root, sessions_root, target, input_path, output_path, temp_path] @
                 (case repository_path of None \<Rightarrow> [] | Some r \<Rightarrow> [r])) fs) (\<lambda>fs'.
          Inr (\<lparr>ws_root = target, ws_input = input_path, ws_output = output_path,
                ws_temp = temp_path, ws_workspace_type = workspace_type,
                ws_repository = repository_path\<rparr>, fs'))))))))))"

definition write_output ::
  "path \<Rightarrow> session_workspace \<Rightarrow> string \<Rightarrow> bytes \<Rightarrow> filesystem \<Rightarrow> fs_error + path \<times> filesystem"
where
  "write_output base ws filename content fs =
     (if \<not> safe_filename filename \<or> filename \<in> {''.'', ''..''}
      then Inl (Boundary_error ''artifact filename must be a single safe path component'')
      else
        rbind (inside base fs (ws_output ws)) (\<lambda>output_root.
        rbind (inside base fs (path_join output_root filename)) (\<lambda>target.
          if \<not> under output_root target
          then Inl (Boundary_error ''artifact path escapes the Session output directory'')
          else rbind (atomic_write target content fs) (\<lambda>fs'. Inr (target, fs')))))"

definition write_input ::
  "path \<Rightarrow> session_workspace \<Rightarrow> string \<Rightarrow> bytes \<Rightarrow> filesystem \<Rightarrow> fs_error + path \<times> filesystem"
where
  "write_input base ws filename content fs =
     (if \<not> safe_filename filename \<or> filename \<in> {''.'', ''..''}
      then Inl (Boundary_error ''input filename must be a single safe path component'')
      else
        rbind (inside base fs (ws_input ws)) (\<lambda>input_root.
        rbind (inside base fs (path_join input_root filename)) (\<lambda>target.
          if \<not> under input_root target
          then Inl (Boundary_error ''input path escapes the Session input directory'')
          else rbind (atomic_write target content fs) (\<lambda>fs'. Inr (target, fs')))))"

definition resolve_registered :: "path \<Rightarrow> string \<Rightarrow> filesystem \<Rightarrow> fs_error + path" where
  "resolve_registered base relative_path fs =
     (if is_absolute relative_path
      then Inl (Boundary_error ''registered artifact path must be relative'')
      else rbind (inside base fs (path_join base relative_path)) (\<lambda>q.
             if fs_files fs q = None then Inl File_not_found else Inr q))"

text \<open>\<open>resolved.relative_to(self.root).as_posix()\<close>\<close>

definition as_posix :: "path \<Rightarrow> string" where
  "as_posix p = (if p = [] then ''.'' else join ''/'' p)"

definition relative :: "path \<Rightarrow> filesystem \<Rightarrow> path \<Rightarrow> fs_error + string" where
  "relative base fs p = rbind (inside base fs p) (\<lambda>q. Inr (as_posix (drop (length base) q)))"

section \<open>What the boundary check guarantees\<close>

lemma inside_Inr:
  "inside base fs p = Inr q \<Longrightarrow> under base q \<and> real_path (fs_links fs) q"
  by (auto simp: inside_def rbind_Inr dest: resolve_real split: if_splits)

lemma inside_id:
  "real_path (fs_links fs) p \<Longrightarrow> under base p \<Longrightarrow> inside base fs p = Inr p"
  by (simp add: inside_def resolve_id)

lemma fs_links_make_dirs: "make_dirs ps fs = Inr fs' \<Longrightarrow> fs_links fs' = fs_links fs"
  by (induction ps arbitrary: fs) (auto simp: rbind_Inr os_mkdirs_def split: if_splits)

lemma fs_files_make_dirs: "make_dirs ps fs = Inr fs' \<Longrightarrow> fs_files fs' = fs_files fs"
  by (induction ps arbitrary: fs) (auto simp: rbind_Inr os_mkdirs_def split: if_splits)

lemma fs_dirs_make_dirs:
  "make_dirs ps fs = Inr fs' \<Longrightarrow>
     fs_dirs fs' q \<longleftrightarrow> fs_dirs fs q \<or> (\<exists>p\<in>set ps. q \<in> set (prefixes_of p))"
  by (induction ps arbitrary: fs) (auto simp: rbind_Inr os_mkdirs_def split: if_splits)

lemma prefixes_of_self: "p \<in> set (prefixes_of p)"
  by (auto simp: prefixes_of_def image_iff intro: bexI [of _ "length p"])

text \<open>Without links below the root, a session gets the directory named after it.\<close>

definition session_root :: "path \<Rightarrow> string \<Rightarrow> uuid \<Rightarrow> path" where
  "session_root base agent_id session_id = base @ [agent_id, ''sessions'', uuid_str session_id]"

lemma inside_below:
  assumes "real_path (fs_links fs) base" and "no_links_below fs base" and "''..'' \<notin> set p"
  shows "inside base fs (base @ p) = Inr (base @ p)"
  by (rule inside_id) (simp_all add: real_path_below assms)

lemma create_session_paths:
  assumes "real_path (fs_links fs) base" and "no_links_below fs base"
    and ok: "create_session base a s wt fs = Inr (ws, fs')"
  shows "agent_id_pattern a" and "ws_root ws = session_root base a s"
    and "ws_input ws = session_root base a s @ [''input'']"
    and "ws_output ws = session_root base a s @ [''output'']"
    and "ws_temp ws = session_root base a s @ [''temp'']"
    and "fs_links fs' = fs_links fs" and "fs_files fs' = fs_files fs"
    and "fs_dirs fs' (ws_output ws)" and "fs_dirs fs' (ws_input ws)"
proof -
  have a: "agent_id_pattern a" using ok by (auto simp: create_session_def split: if_splits)
  show "agent_id_pattern a" by (rule a)
  have names: "a \<noteq> ''..''" "uuid_str s \<noteq> ''..''"
    using agent_id_facts(3) [OF a] uuid_str_plain(2) [of s] by force+
  have go: "inside base fs (base @ p) = Inr (base @ p)" if "''..'' \<notin> set p" for p
    using assms(1,2) that by (rule inside_below)
  obtain r where ws: "ws = \<lparr>ws_root = session_root base a s,
        ws_input = session_root base a s @ [''input''],
        ws_output = session_root base a s @ [''output''],
        ws_temp = session_root base a s @ [''temp''],
        ws_workspace_type = wt, ws_repository = r\<rparr>"
    and dirs: "make_dirs ([base @ [a], base @ [a, ''sessions''], session_root base a s,
        session_root base a s @ [''input''], session_root base a s @ [''output''],
        session_root base a s @ [''temp'']] @ (case r of None \<Rightarrow> [] | Some r \<Rightarrow> [r])) fs = Inr fs'"
    using ok a names
    by (auto simp: create_session_def go rbind_Inr session_root_def split: if_splits)
  show "ws_root ws = session_root base a s" "ws_input ws = session_root base a s @ [''input'']"
    "ws_output ws = session_root base a s @ [''output'']"
    "ws_temp ws = session_root base a s @ [''temp'']"
    by (simp_all add: ws)
  show "fs_links fs' = fs_links fs" using dirs by (rule fs_links_make_dirs)
  show "fs_files fs' = fs_files fs" using dirs by (rule fs_files_make_dirs)
  show "fs_dirs fs' (ws_output ws)" "fs_dirs fs' (ws_input ws)"
    using fs_dirs_make_dirs [OF dirs] prefixes_of_self by (auto simp: ws)
qed

lemma length_prefixes_of: "q \<in> set (prefixes_of p) \<Longrightarrow> length q \<le> length p"
  by (auto simp: prefixes_of_def)

lemma create_session_dirs:
  assumes "real_path (fs_links fs) base" and "no_links_below fs base"
    and ok: "create_session base a s wt fs = Inr (ws, fs')" and "fs_dirs fs' q"
  shows "fs_dirs fs q \<or> length q \<le> length base + 4"
proof -
  have a: "agent_id_pattern a" using ok by (auto simp: create_session_def split: if_splits)
  have names: "a \<noteq> ''..''" "uuid_str s \<noteq> ''..''"
    using agent_id_facts(3) [OF a] uuid_str_plain(2) [of s] by force+
  have go: "inside base fs (base @ p) = Inr (base @ p)" if "''..'' \<notin> set p" for p
    using assms(1,2) that by (rule inside_below)
  obtain ps where ps: "make_dirs ps fs = Inr fs'" "\<forall>p\<in>set ps. length p \<le> length base + 4"
    using ok a names
    by (auto simp: create_session_def go rbind_Inr simp del: make_dirs.simps split: if_splits)
  from fs_dirs_make_dirs [OF ps(1), of q] assms(4) ps(2) length_prefixes_of
  show ?thesis by (meson order_trans)
qed

lemma session_roots_differ:
  assumes "s1 < 2 ^ 128" and "s2 < 2 ^ 128" and "(a1, s1) \<noteq> (a2, s2)"
    and "under (session_root base a1 s1) p" and "under (session_root base a2 s2) q"
  shows "p \<noteq> q"
  using assms uuid_str_inj [of s1 s2]
  by (auto simp: under_iff session_root_def)

text \<open>A session whose directory is not obstructed by a file is always created.\<close>

lemma make_dirs_ok:
  "\<forall>p\<in>set ps. \<forall>q\<in>set (prefixes_of p). fs_files fs q = None \<Longrightarrow> \<exists>fs'. make_dirs ps fs = Inr fs'"
proof (induction ps arbitrary: fs)
  case (Cons p ps)
  then have "\<exists>fs1. os_mkdirs p fs = Inr fs1 \<and> fs_files fs1 = fs_files fs"
    by (auto simp: os_mkdirs_def list_ex_iff)
  then obtain fs1 where "os_mkdirs p fs = Inr fs1" "fs_files fs1 = fs_files fs" by blast
  with Cons show ?case by simp
qed simp

lemma prefixes_of_near:
  assumes "q \<in> set (prefixes_of p)" and "under r p \<or> under p r"
  shows "under q r \<or> under r q"
proof -
  obtain i where q: "q = take i p" using assms(1) by (auto simp: prefixes_of_def simp del: upt_Suc)
  consider t where "p = r @ t" | t where "r = p @ t" using assms(2) by (auto simp: under_iff)
  then show ?thesis
  proof cases
    case 1
    then show ?thesis by (cases "i \<le> length r") (auto simp: q under_def min_def)
  next
    case 2
    then show ?thesis by (auto simp: q under_def min_def)
  qed
qed

lemma create_session_ok:
  assumes "real_path (fs_links fs) base" and "no_links_below fs base"
    and a: "agent_id_pattern a" and wt: "wt \<in> set [''document'', ''repository'']"
    and free: "\<forall>q. under q (session_root base a s) \<or> under (session_root base a s) q \<longrightarrow> fs_files fs q = None"
  shows "\<exists>ws fs'. create_session base a s wt fs = Inr (ws, fs')"
proof -
  have names: "a \<noteq> ''..''" "uuid_str s \<noteq> ''..''"
    using agent_id_facts(3) [OF a] uuid_str_plain(2) [of s] by force+
  have go: "inside base fs (base @ p) = Inr (base @ p)" if "''..'' \<notin> set p" for p
    using assms(1,2) that by (rule inside_below)
  have "\<exists>fs'. make_dirs ps fs = Inr fs'"
    if "\<forall>p\<in>set ps. under p (session_root base a s) \<or> under (session_root base a s) p" for ps
    using that free prefixes_of_near [of _ _ "session_root base a s"] by (intro make_dirs_ok) blast
  then have dirs: "\<exists>fs'. make_dirs ps fs = Inr fs'"
    if "\<forall>p\<in>set ps. p \<in> {base @ [a], base @ [a, ''sessions'']} \<or> under (session_root base a s) p" for ps
    using that by (fastforce simp: session_root_def under_def)
  let ?d = "session_root base a s"
  let ?ps = "[base @ [a], base @ [a, ''sessions''], ?d, ?d @ [''input''], ?d @ [''output''], ?d @ [''temp'']]"
  have "\<exists>fs'. make_dirs ?ps fs = Inr fs'" by (rule dirs) (simp add: under_def)
  moreover have "\<exists>fs'. make_dirs (?ps @ [?d @ [''repository'']]) fs = Inr fs'"
    by (rule dirs) (simp add: under_def)
  ultimately obtain f1 f2 where "make_dirs ?ps fs = Inr f1"
      "make_dirs (?ps @ [?d @ [''repository'']]) fs = Inr f2" by blast
  then show ?thesis
    using a wt names by (auto simp: create_session_def go session_root_def simp del: make_dirs.simps)
qed

lemma write_output_ok:
  assumes "real_path (fs_links fs) base" and "no_links_below fs base" and "''..'' \<notin> set d"
    and "ws_output ws = base @ d" and f: "safe_filename f" and "fs_dirs fs (base @ d)"
    and "\<not> fs_dirs fs (base @ d @ [f])" and "\<not> fs_dirs fs (temporary_name (base @ d @ [f]))"
  shows "\<exists>fs'. write_output base ws f content fs = Inr (base @ d @ [f], fs')"
proof -
  have go: "inside base fs (base @ p) = Inr (base @ p)" if "''..'' \<notin> set p" for p
    using assms(1,2) that by (rule inside_below)
  have dots: "f \<noteq> ''.''" "f \<noteq> ''..''" using safe_filename_facts(3) [OF f] by force+
  have real: "real_path (fs_links fs) (base @ d @ [f])"
    using real_path_below [OF assms(1,2), of "d @ [f]"] assms(3) dots by simp
  have "fs_links fs (temporary_name (base @ d @ [f])) = None"
    using assms(2) by (simp add: no_links_below_def temporary_name_def butlast_append)
  then obtain fs' where "atomic_write (base @ d @ [f]) content fs = Inr fs'"
    using atomic_write_ok [OF real] assms(6-8) by (auto simp: butlast_append)
  then show ?thesis
    using assms(3,4) f dots go [of d] go [of "d @ [f]"]
    by (simp add: write_output_def under_def)
qed

section \<open>Properties\<close>

text \<open>
  Session isolation. With no symbolic link below the workspace root, the
  workspaces of two different (Agent, session) pairs have no path in common: no file
  one session's input, output or temp directory holds lies in the other's.
\<close>

theorem session_workspaces_disjoint:
  assumes "real_path (fs_links fs) base" and "no_links_below fs base"
    and "create_session base a1 s1 wt1 fs = Inr (w1, fs1)"
    and "create_session base a2 s2 wt2 fs1 = Inr (w2, fs2)"
    and "s1 < 2 ^ 128" and "s2 < 2 ^ 128" and "(a1, s1) \<noteq> (a2, s2)"
    and "under (ws_root w1) p" and "under (ws_root w2) q"
  shows "p \<noteq> q"
proof -
  note w1 = create_session_paths [OF assms(1-3)]
  have "real_path (fs_links fs1) base" "no_links_below fs1 base"
    using assms(1,2) w1(6) by (simp_all add: no_links_below_def)
  note w2 = create_session_paths [OF this assms(4)]
  show ?thesis
    using session_roots_differ [OF assms(5-7)] assms(8,9) w1(2) w2(2) by simp
qed

lemma write_output_Inr:
  assumes "write_output base ws filename content fs = Inr (target, fs')"
  obtains output_root where "safe_filename filename"
    "inside base fs (ws_output ws) = Inr output_root"
    "inside base fs (output_root @ [filename]) = Inr target"
    "under output_root target" "atomic_write target content fs = Inr fs'"
  using assms by (auto simp: write_output_def rbind_Inr split: if_splits)


subsection \<open>A stored file can be found again\<close>

lemma path_parts_join_Cons:
  "CHR ''/'' \<notin> set s \<Longrightarrow> s \<noteq> [] \<Longrightarrow> s \<noteq> ''.'' \<Longrightarrow> p \<noteq> [] \<Longrightarrow>
     path_parts (join ''/'' (s # p)) = s # path_parts (join ''/'' p)"
  by (cases p) (auto simp: path_parts_def split_slash_join)

lemma path_parts_join:
  assumes "\<forall>s\<in>set p. CHR ''/'' \<notin> set s \<and> s \<noteq> [] \<and> s \<noteq> ''.''" and "p \<noteq> []"
  shows "path_parts (join ''/'' p) = p"
  using assms
proof (induction p)
  case (Cons s p)
  show ?case
  proof (cases "p = []")
    case True
    with Cons.prems show ?thesis by (simp add: path_parts_def split_slash_plain)
  next
    case False
    with Cons show ?thesis using path_parts_join_Cons [of s p] by simp
  qed
qed simp

lemma join_not_absolute:
  "\<forall>s\<in>set p. CHR ''/'' \<notin> set s \<and> s \<noteq> [] \<Longrightarrow> \<not> is_absolute (join ''/'' p)"
proof (cases p)
  case (Cons s q)
  assume "\<forall>s\<in>set p. CHR ''/'' \<notin> set s \<and> s \<noteq> []"
  then obtain c cs where "s = c # cs" "c \<noteq> CHR ''/''" using Cons by (cases s) auto
  then show ?thesis by (cases q) (auto simp: Cons is_absolute_def starts_with_def)
qed (simp add: is_absolute_def starts_with_def)

lemma resolve_registered_relative:
  assumes p: "\<forall>s\<in>set p. CHR ''/'' \<notin> set s \<and> s \<noteq> [] \<and> s \<noteq> ''.'' \<and> s \<noteq> ''..''" and "p \<noteq> []"
    and "real_path (fs_links fs) base" and "no_links_below fs base"
    and "fs_files fs (base @ p) \<noteq> None"
  shows "relative base fs (base @ p) = Inr (join ''/'' p) \<and>
         resolve_registered base (join ''/'' p) fs = Inr (base @ p)"
proof -
  have i: "inside base fs (base @ p) = Inr (base @ p)"
    using assms(3,4) p by (intro inside_below) auto
  moreover have "path_join base (join ''/'' p) = base @ p"
    using path_parts_join [of p] join_not_absolute [of p] p assms(2) by (simp add: path_join_def)
  moreover have "\<not> is_absolute (join ''/'' p)" using join_not_absolute [of p] p by simp
  ultimately show ?thesis
    using assms(2,5) by (simp add: relative_def as_posix_def resolve_registered_def)
qed

lemma output_components:
  assumes "agent_id_pattern a" and "safe_filename f"
    and "c \<in> {a, ''sessions'', uuid_str s, ''output'', f}"
  shows "CHR ''/'' \<notin> set c \<and> c \<noteq> [] \<and> c \<noteq> ''.'' \<and> c \<noteq> ''..''"
proof -
  have "uuid_str s \<noteq> []" using length_uuid_str [of s] by force
  moreover have "hd f \<noteq> CHR ''.''" "f \<noteq> []" "CHR ''/'' \<notin> set f"
    using safe_filename_facts [OF assms(2)] by auto
  moreover have "CHR ''.'' \<notin> set a" "a \<noteq> []" "CHR ''/'' \<notin> set a"
    using agent_id_facts [OF assms(1)] by auto
  moreover have "CHR ''.'' \<notin> set (uuid_str s)" "CHR ''/'' \<notin> set (uuid_str s)"
    using uuid_str_plain by auto
  ultimately show ?thesis using assms(3) by force
qed

lemma output_round_trip:
  assumes base: "real_path (fs_links fs) base" "no_links_below fs base"
    and "create_session base a s wt fs = Inr (ws, fs1)"
    and "write_output base ws filename content fs1 = Inr (target, fs2)"
  shows "\<exists>rel. relative base fs2 target = Inr rel \<and> resolve_registered base rel fs2 = Inr target \<and>
           fs_files fs2 target = Some content"
proof -
  note c = create_session_paths [OF assms(1-3)]
  have base1: "real_path (fs_links fs1) base" "no_links_below fs1 base"
    using base c(6) by (simp_all add: no_links_below_def)
  obtain output_root where w: "safe_filename filename"
      "inside base fs1 (ws_output ws) = Inr output_root"
      "inside base fs1 (output_root @ [filename]) = Inr target"
      "atomic_write target content fs1 = Inr fs2"
    using assms(4) by (rule write_output_Inr)
  let ?p = "[a, ''sessions'', uuid_str s, ''output'', filename]"
  note comp = output_components [OF c(1) w(1)]
  have out: "ws_output ws = base @ [a, ''sessions'', uuid_str s, ''output'']"
    using c(4) by (simp add: session_root_def)
  have dots: "''..'' \<notin> set ?p" using comp [of "''..''"] by auto
  then have r: "output_root = base @ [a, ''sessions'', uuid_str s, ''output'']"
    using w(2) out inside_below [OF base1, of "[a, ''sessions'', uuid_str s, ''output'']"] by auto
  have t: "target = base @ ?p"
    using w(3) dots inside_below [OF base1, of ?p] by (auto simp: r)
  have real: "real_path (fs_links fs1) target" using inside_Inr [OF w(3)] by simp
  have "under base (temporary_name target)"
    by (simp add: t temporary_name_def butlast_append)
  then have "fs_links fs1 (temporary_name target) = None"
    using base1(2) by (simp add: no_links_below_def)
  from atomic_write_Inr [OF w(4) real _ this]
  have fs2: "fs2 = fs1\<lparr>fs_files := (fs_files fs1)(target \<mapsto> content, temporary_name target := None)\<rparr>"
    by (simp add: t)
  have neq: "target \<noteq> temporary_name target" using temporary_name_neq [of target] by (auto simp: t)
  have content: "fs_files fs2 target = Some content" using neq by (simp add: fs2)
  have "relative base fs2 (base @ ?p) = Inr (join ''/'' ?p) \<and>
        resolve_registered base (join ''/'' ?p) fs2 = Inr (base @ ?p)"
  proof (rule resolve_registered_relative)
    show "\<forall>c\<in>set ?p. CHR ''/'' \<notin> set c \<and> c \<noteq> [] \<and> c \<noteq> ''.'' \<and> c \<noteq> ''..''"
      using comp by auto
    show "real_path (fs_links fs2) base" "no_links_below fs2 base"
      using base1 by (simp_all add: fs2 no_links_below_def)
    show "fs_files fs2 (base @ ?p) \<noteq> None" using content by (simp only: t option.simps) simp
  qed simp
  then show ?thesis using content by (auto simp only: t intro!: exI [of _ "join ''/'' ?p"])
qed

text \<open>
  Round trip of a registered artifact. The relative path stored for a file written
  by \<open>write_output\<close> resolves to the file again, and the file holds what was written.
\<close>

theorem registered_output_round_trip:
  assumes "real_path (fs_links fs) base" and "no_links_below fs base"
    and "create_session base a s wt fs = Inr (ws, fs1)"
    and "write_output base ws filename content fs1 = Inr (target, fs2)"
  shows "\<exists>rel. relative base fs2 target = Inr rel \<and> resolve_registered base rel fs2 = Inr target \<and>
           fs_files fs2 target = Some content"
  by (rule output_round_trip [OF assms])

section \<open>A sample run\<close>

text \<open>
  An empty workspace root \<open>/srv\<close> in which an Agent's session is created, a file
  written, and a second session created; the properties are applied to this run.
\<close>

definition sample_base :: path where
  "sample_base = [''srv'']"

definition sample_fs :: filesystem where
  "sample_fs = \<lparr>fs_files = (\<lambda>p. None), fs_dirs = (\<lambda>p. p \<in> {[], [''srv'']}),
                fs_links = (\<lambda>p. None), fs_max_links = 40\<rparr>"

lemma sample_base_ok:
  "real_path (fs_links sample_fs) sample_base" "no_links_below sample_fs sample_base"
  by (simp_all add: sample_fs_def sample_base_def real_path_def no_links_below_def)

lemma sample_run:
  "\<exists>w1 fs1 w2 fs2 fs3.
     create_session sample_base ''writer'' 5 ''document'' sample_fs = Inr (w1, fs1) \<and>
     create_session sample_base ''reader'' 2 ''document'' fs1 = Inr (w2, fs2) \<and>
     write_output sample_base w1 ''a.txt'' ''hi'' fs1 =
       Inr (session_root sample_base ''writer'' 5 @ [''output'', ''a.txt''], fs3) \<and>
     fs_links fs1 = fs_links sample_fs"
proof -
  have names: "agent_id_pattern ''writer''" "agent_id_pattern ''reader''" "safe_filename ''a.txt''"
    by code_simp+
  have empty: "fs_files sample_fs = (\<lambda>p. None)" by (simp add: sample_fs_def)
  obtain w1 fs1 where c1:
    "create_session sample_base ''writer'' 5 ''document'' sample_fs = Inr (w1, fs1)"
    using create_session_ok [where s = 5 and wt = "''document''", OF sample_base_ok names(1)] empty by auto
  note f1 = create_session_paths [OF sample_base_ok c1]
  have base1: "real_path (fs_links fs1) sample_base" "no_links_below fs1 sample_base"
    using sample_base_ok f1(6) by (simp_all add: no_links_below_def)
  obtain w2 fs2 where c2: "create_session sample_base ''reader'' 2 ''document'' fs1 = Inr (w2, fs2)"
    using create_session_ok [where s = 2 and wt = "''document''", OF base1 names(2)] empty f1(7) by auto
  let ?d = "[''writer'', ''sessions'', uuid_str 5, ''output'']"
  have out: "ws_output w1 = sample_base @ ?d" using f1(4) by (simp add: session_root_def)
  have dirs: "\<not> fs_dirs fs1 p" if "length p > 5" for p
    using create_session_dirs [OF sample_base_ok c1, of p] that
    by (auto simp: sample_fs_def sample_base_def)
  obtain fs3 where "write_output sample_base w1 ''a.txt'' ''hi'' fs1 = Inr (sample_base @ ?d @ [''a.txt''], fs3)"
  proof -
    have "uuid_str u \<noteq> ''..''" for u using uuid_str_plain(2) [of u] by force
    from this [of 5] have "''..'' \<notin> set ?d" by simp
    from write_output_ok [OF base1 this out names(3)]
    show ?thesis using that f1(8) out dirs by (auto simp: sample_base_def temporary_name_def)
  qed
  with c1 c2 f1(6) show ?thesis by (auto simp: session_root_def)
qed

theorem session_workspaces_disjoint_witness:
  "\<exists>w1 fs1 w2 fs2.
     create_session sample_base ''writer'' 5 ''document'' sample_fs = Inr (w1, fs1) \<and>
     create_session sample_base ''reader'' 2 ''document'' fs1 = Inr (w2, fs2) \<and>
     ws_root w1 \<noteq> ws_root w2"
proof -
  obtain w1 fs1 w2 fs2 where
    c1: "create_session sample_base ''writer'' 5 ''document'' sample_fs = Inr (w1, fs1)" and
    c2: "create_session sample_base ''reader'' 2 ''document'' fs1 = Inr (w2, fs2)"
    using sample_run by blast
  have "ws_root w1 \<noteq> ws_root w2"
    by (rule session_workspaces_disjoint [OF sample_base_ok c1 c2]) (simp_all add: under_def)
  with c1 c2 show ?thesis by blast
qed


theorem registered_output_round_trip_witness:
  "\<exists>rel fs3.
     resolve_registered sample_base rel fs3 =
       Inr (session_root sample_base ''writer'' 5 @ [''output'', ''a.txt'']) \<and>
     fs_files fs3 (session_root sample_base ''writer'' 5 @ [''output'', ''a.txt'']) = Some ''hi''"
proof -
  obtain w1 fs1 fs3 where
    c: "create_session sample_base ''writer'' 5 ''document'' sample_fs = Inr (w1, fs1)" and
    w: "write_output sample_base w1 ''a.txt'' ''hi'' fs1 =
       Inr (session_root sample_base ''writer'' 5 @ [''output'', ''a.txt''], fs3)"
    using sample_run by blast
  show ?thesis using registered_output_round_trip [OF sample_base_ok c w] by blast
qed

section \<open>The temporary name is not checked\<close>

text \<open>
  The boundary check resolves the target, but not the temporary name the content is
  written to first. When a link of that name stands in the directory, the content goes
  to the file the link names, wherever that is.
\<close>

lemma atomic_write_follows_temporary_link:
  assumes "fs_links fs (temporary_name p) = Some l"
    and "walk (fs_links fs) (fs_max_links fs) [] (temporary_name p) = Some q"
    and "fs_dirs fs (butlast q)" and "\<not> fs_dirs fs q" and "q \<noteq> p"
    and "\<not> fs_dirs fs p" and "\<not> fs_dirs fs (temporary_name p)"
  shows "\<exists>fs'. atomic_write p b fs = Inr fs' \<and> fs_files fs' q = Some b"
  using assms by (simp add: atomic_write_def os_write_def os_replace_def)

definition linked_fs :: filesystem where
  "linked_fs = \<lparr>fs_files = (\<lambda>p. None),
     fs_dirs = (\<lambda>p. p \<in> {[], [''srv''], [''srv'', ''output''], [''etc'']}),
     fs_links = (\<lambda>p. if p = [''srv'', ''output'', ''.a.txt.tmp'']
                     then Some (Link True [''etc'', ''passwd'']) else None),
     fs_max_links = 40\<rparr>"

definition linked_ws :: session_workspace where
  "linked_ws = \<lparr>ws_root = [''srv''], ws_input = [''srv'', ''input''],
     ws_output = [''srv'', ''output''], ws_temp = [''srv'', ''temp''],
     ws_workspace_type = ''document'', ws_repository = None\<rparr>"

lemma write_output_escapes_through_temporary_link:
  "\<exists>fs'. write_output [''srv''] linked_ws ''a.txt'' ''hi'' linked_fs =
           Inr ([''srv'', ''output'', ''a.txt''], fs') \<and>
         fs_files fs' [''etc'', ''passwd''] = Some ''hi'' \<and>
         \<not> under [''srv''] [''etc'', ''passwd'']"
proof -
  have "safe_filename ''a.txt''" by code_simp
  moreover have "\<exists>fs'. atomic_write [''srv'', ''output'', ''a.txt''] ''hi'' linked_fs = Inr fs' \<and>
      fs_files fs' [''etc'', ''passwd''] = Some ''hi''"
    by (rule atomic_write_follows_temporary_link) (simp_all add: linked_fs_def temporary_name_def)
  ultimately show ?thesis
    by (auto simp: write_output_def linked_ws_def inside_def resolve_def linked_fs_def under_def)
qed

end
