(* ===== verification/Artifact_Storage.thy ===== *)
theory Artifact_Storage
  imports Workspace
begin

text \<open>
  Artifact storage (\<open>backend/app/storage/artifacts.py\<close>): the provider protocol as a
  locale, the file system and MinIO providers, and \<open>ArtifactStorage\<close>, the client that
  adds the naming scheme, the size limit and the integrity check. A provider's state is
  passed explicitly. The MinIO client library is a parameter of its provider, SHA-256 a
  parameter of the storage.
\<close>

section \<open>The provider protocol\<close>

text \<open>
  What \<open>ArtifactStorage\<close> relies on: on the paths it forms, a saved object is read back
  and saving one object leaves the others alone.
\<close>

locale storage_provider =
  fixes ok_path :: "string \<Rightarrow> 's \<Rightarrow> bool"
    and save :: "string \<Rightarrow> bytes \<Rightarrow> string \<Rightarrow> 's \<Rightarrow> fs_error + 's"
    and get :: "string \<Rightarrow> 's \<Rightarrow> fs_error + bytes"
  assumes get_save: "ok_path p s \<Longrightarrow> save p b t s = Inr s' \<Longrightarrow> get p s' = Inr b"
    and get_other:
      "ok_path p s \<Longrightarrow> ok_path q s \<Longrightarrow> p \<noteq> q \<Longrightarrow> save p b t s = Inr s' \<Longrightarrow> get q s' = get q s"
    and ok_save: "ok_path p s \<Longrightarrow> ok_path q s \<Longrightarrow> save p b t s = Inr s' \<Longrightarrow> ok_path q s'"

section \<open>The storage\<close>

record stored_artifact =
  sa_storage_type :: string
  sa_storage_path :: string
  sa_content :: bytes
  sa_sha256 :: string

definition size_bytes :: "stored_artifact \<Rightarrow> nat" where
  "size_bytes a = length (sa_content a)"

definition artifact_path :: "string \<Rightarrow> uuid \<Rightarrow> string \<Rightarrow> fs_error + string" where
  "artifact_path agent_id session_id filename =
     (if \<not> agent_id_pattern agent_id
      then Inl (Artifact_error ''invalid Agent id for artifact storage'')
      else if \<not> safe_filename filename \<or> filename \<in> {''.'', ''..''}
      then Inl (Artifact_error ''artifact filename must be a single safe path component'')
      else Inr (agent_id @ ''/'' @ uuid_str session_id @ ''/'' @ filename))"

definition storage_save ::
  "(string \<Rightarrow> bytes \<Rightarrow> string \<Rightarrow> 's \<Rightarrow> fs_error + 's) \<Rightarrow> string \<Rightarrow> nat \<Rightarrow> (bytes \<Rightarrow> string) \<Rightarrow>
     string \<Rightarrow> uuid \<Rightarrow> string \<Rightarrow> bytes \<Rightarrow> string \<Rightarrow> 's \<Rightarrow> fs_error + stored_artifact \<times> 's"
where
  "storage_save save storage_type max_bytes sha256 agent_id session_id filename content content_type s =
     rbind (artifact_path agent_id session_id filename) (\<lambda>path.
       if length content > max_bytes
       then Inl (Artifact_error ''artifact exceeds the configured size limit'')
       else rbind (save path content content_type s) (\<lambda>s'.
         Inr (\<lparr>sa_storage_type = storage_type, sa_storage_path = path,
               sa_content = content, sa_sha256 = sha256 content\<rparr>, s')))"

text \<open>An empty expected digest counts as none given.\<close>

definition storage_get ::
  "(string \<Rightarrow> 's \<Rightarrow> fs_error + bytes) \<Rightarrow> nat \<Rightarrow> (bytes \<Rightarrow> string) \<Rightarrow>
     string \<Rightarrow> string option \<Rightarrow> 's \<Rightarrow> fs_error + bytes"
where
  "storage_get get max_bytes sha256 path expected s =
     rbind (get path s) (\<lambda>content.
       if length content > max_bytes
       then Inl (Artifact_error ''stored artifact exceeds the configured size limit'')
       else if expected \<noteq> None \<and> expected \<noteq> Some [] \<and> Some (sha256 content) \<noteq> expected
       then Inl (Artifact_error ''artifact integrity check failed'')
       else Inr content)"

lemma storage_save_Inr:
  "storage_save save ty mx sha a u f b t s = Inr (art, s') \<longleftrightarrow>
     (\<exists>p. artifact_path a u f = Inr p \<and> length b \<le> mx \<and> save p b t s = Inr s' \<and>
        art = \<lparr>sa_storage_type = ty, sa_storage_path = p, sa_content = b, sa_sha256 = sha b\<rparr>)"
  by (auto simp: storage_save_def rbind_Inr)

lemma storage_get_Inr:
  "storage_get get mx sha p e s = Inr b \<longleftrightarrow>
     get p s = Inr b \<and> length b \<le> mx \<and> (e = None \<or> e = Some [] \<or> e = Some (sha b))"
  by (cases "get p s") (auto simp: storage_get_def)

context storage_provider
begin

lemma stored_round_trip:
  assumes "storage_save save ty mx sha a u f b t s = Inr (art, s')"
    and "ok_path (sa_storage_path art) s"
  shows "storage_get get mx sha (sa_storage_path art) (Some (sa_sha256 art)) s' = Inr b"
  using assms by (auto simp: storage_save_Inr storage_get_Inr get_save)

lemma stored_others:
  assumes "storage_save save ty mx sha a u f b t s = Inr (art, s')"
    and "ok_path (sa_storage_path art) s" and "ok_path q s" and "q \<noteq> sa_storage_path art"
  shows "storage_get get mx sha q e s' = storage_get get mx sha q e s"
  using assms get_other [of "sa_storage_path art" s q]
  by (auto simp: storage_save_Inr storage_get_def)

lemma stored_twice:
  assumes "storage_save save ty mx sha a u f b t s = Inr (art, s')"
    and "storage_save save ty mx sha a2 u2 f2 b2 t2 s' = Inr (art2, s'')"
    and "ok_path (sa_storage_path art) s" and "ok_path (sa_storage_path art2) s"
    and "sa_storage_path art2 \<noteq> sa_storage_path art"
  shows "storage_get get mx sha (sa_storage_path art) (Some (sa_sha256 art)) s'' = Inr b"
proof -
  have "save (sa_storage_path art) b t s = Inr s'" using assms(1) by (auto simp: storage_save_Inr)
  then have "ok_path (sa_storage_path art) s'" "ok_path (sa_storage_path art2) s'"
    using ok_save assms(3,4) by blast+
  then show ?thesis
    using stored_others [OF assms(2)] stored_round_trip [OF assms(1,3)] assms(5) by simp
qed

end

text \<open>Different artifacts have different storage paths.\<close>

lemma artifact_path_Inr:
  "artifact_path a u f = Inr p \<longleftrightarrow>
     agent_id_pattern a \<and> safe_filename f \<and> p = join ''/'' [a, uuid_str u, f]"
  using safe_filename_facts(3) [of f]
  by (auto simp: artifact_path_def dest!: arg_cong [of f _ hd])

lemma artifact_path_parts:
  assumes "artifact_path a u f = Inr p"
  shows "path_parts p = [a, uuid_str u, f]" and "\<not> is_absolute p"
    and "''..'' \<notin> set [a, uuid_str u, f]"
proof -
  have p: "agent_id_pattern a" "safe_filename f" "p = join ''/'' [a, uuid_str u, f]"
    using assms by (simp_all only: artifact_path_Inr)
  have c: "\<forall>c\<in>set [a, uuid_str u, f]. CHR ''/'' \<notin> set c \<and> c \<noteq> [] \<and> c \<noteq> ''.'' \<and> c \<noteq> ''..''"
    using output_components [OF p(1,2), of _ u] by auto
  show "path_parts p = [a, uuid_str u, f]" unfolding p(3) using c by (intro path_parts_join) auto
  show "\<not> is_absolute p" unfolding p(3) using c by (intro join_not_absolute) auto
  show "''..'' \<notin> set [a, uuid_str u, f]" using c by blast
qed

text \<open>
  Storage paths are collision-free: two artifacts get the same storage path only if
  Agent, session and filename all agree.
\<close>

theorem artifact_path_injective:
  assumes "artifact_path a1 u1 f1 = Inr p" and "artifact_path a2 u2 f2 = Inr p"
    and "u1 < 2 ^ 128" and "u2 < 2 ^ 128"
  shows "a1 = a2 \<and> u1 = u2 \<and> f1 = f2"
  using artifact_path_parts(1) [OF assms(1)] artifact_path_parts(1) [OF assms(2)] uuid_str_inj assms(3,4)
  by auto

section \<open>The file system provider\<close>

definition fs_resolve :: "path \<Rightarrow> string \<Rightarrow> filesystem \<Rightarrow> fs_error + path" where
  "fs_resolve base p fs =
     (if is_absolute p then Inl (Artifact_error ''artifact storage path must be relative'')
      else rbind (resolve fs (path_join base p)) (\<lambda>q.
        if under base q then Inr q
        else Inl (Artifact_error ''artifact storage path escapes provider root'')))"

definition fs_save :: "path \<Rightarrow> string \<Rightarrow> bytes \<Rightarrow> string \<Rightarrow> filesystem \<Rightarrow> fs_error + filesystem" where
  "fs_save base p content content_type fs =
     rbind (fs_resolve base p fs) (\<lambda>target.
     rbind (os_mkdirs (butlast target) fs) (\<lambda>fs1. atomic_write target content fs1))"

definition fs_get :: "path \<Rightarrow> string \<Rightarrow> filesystem \<Rightarrow> fs_error + bytes" where
  "fs_get base p fs =
     rbind (fs_resolve base p fs) (\<lambda>target.
       case os_read target fs of
         Inl File_not_found \<Rightarrow> Inl (Artifact_error ''artifact object does not exist'')
       | r \<Rightarrow> r)"

definition fs_delete :: "path \<Rightarrow> string \<Rightarrow> filesystem \<Rightarrow> fs_error + filesystem" where
  "fs_delete base p fs =
     rbind (fs_resolve base p fs) (\<lambda>target.
       case os_unlink target fs of Inl File_not_found \<Rightarrow> Inr fs | r \<Rightarrow> r)"

definition fs_exists :: "path \<Rightarrow> string \<Rightarrow> filesystem \<Rightarrow> fs_error + bool" where
  "fs_exists base p fs = rbind (fs_resolve base p fs) (\<lambda>target. Inr (fs_files fs target \<noteq> None))"

definition fs_ping :: "path \<Rightarrow> filesystem \<Rightarrow> fs_error + filesystem" where
  "fs_ping base fs =
     rbind (os_mkdirs base fs) (\<lambda>fs'.
       if fs_dirs fs' base then Inr fs'
       else Inl (Artifact_error ''artifact filesystem root is unavailable''))"

text \<open>The states and paths for which the provider keeps its contract.\<close>

definition fs_ok :: "path \<Rightarrow> string \<Rightarrow> filesystem \<Rightarrow> bool" where
  "fs_ok base p fs \<longleftrightarrow>
     real_path (fs_links fs) base \<and> no_links_below fs base \<and>
     (\<exists>a u f. artifact_path a u f = Inr p)"

lemma fs_resolve_ok:
  assumes "fs_ok base p fs"
  obtains a u f where "agent_id_pattern a" "safe_filename f"
    "fs_resolve base p fs = Inr (base @ [a, uuid_str u, f])" "path_parts p = [a, uuid_str u, f]"
    "p = join ''/'' [a, uuid_str u, f]" "real_path (fs_links fs) (base @ [a, uuid_str u, f])"
proof -
  obtain a u f where p: "artifact_path a u f = Inr p" using assms by (auto simp: fs_ok_def)
  note parts = artifact_path_parts [OF p]
  have real: "real_path (fs_links fs) (base @ [a, uuid_str u, f])"
    using assms parts(3) by (intro real_path_below) (auto simp: fs_ok_def)
  show ?thesis
    using that [of a f u] p parts real
    by (simp add: fs_resolve_def path_join_def resolve_id artifact_path_Inr)
qed

lemma fs_save_Inr:
  assumes ok: "fs_ok base p fs" and save: "fs_save base p b t fs = Inr fs'"
    and r: "fs_resolve base p fs = Inr q"
  shows "fs_files fs' = (fs_files fs)(q \<mapsto> b, temporary_name q := None)"
    and "fs_links fs' = fs_links fs"
    and "fs_dirs fs' = (\<lambda>d. fs_dirs fs d \<or> d \<in> set (prefixes_of (butlast q)))"
    and "\<not> fs_dirs fs' q"
proof -
  obtain a u f where q: "q = base @ [a, uuid_str u, f]" "real_path (fs_links fs) q"
    using fs_resolve_ok [OF ok] r by (metis sum.inject(2))
  obtain fs1 where fs1: "os_mkdirs (butlast q) fs = Inr fs1" "atomic_write q b fs1 = Inr fs'"
    using save r by (auto simp: fs_save_def rbind_Inr)
  have eq: "fs1 = fs\<lparr>fs_dirs := \<lambda>d. fs_dirs fs d \<or> d \<in> set (prefixes_of (butlast q))\<rparr>"
    using fs1(1) by (auto simp: os_mkdirs_def split: if_splits)
  have "under base (temporary_name q)" by (simp add: q temporary_name_def butlast_append)
  then have t: "fs_links fs1 (temporary_name q) = None"
    using ok by (simp add: eq fs_ok_def no_links_below_def)
  have real: "real_path (fs_links fs1) q" using q(2) by (simp add: eq)
  have "q \<noteq> []" by (simp add: q)
  from atomic_write_Inr [OF fs1(2) real this t]
  show "fs_files fs' = (fs_files fs)(q \<mapsto> b, temporary_name q := None)"
    "fs_links fs' = fs_links fs"
    "fs_dirs fs' = (\<lambda>d. fs_dirs fs d \<or> d \<in> set (prefixes_of (butlast q)))"
    "\<not> fs_dirs fs' q"
    by (auto simp: eq)
qed

lemma fs_resolve_links: "fs_links fs' = fs_links fs \<Longrightarrow> fs_max_links fs' = fs_max_links fs \<Longrightarrow>
    fs_resolve base p fs' = fs_resolve base p fs"
  by (simp add: fs_resolve_def resolve_def)

lemma fs_ok_links: "fs_links fs' = fs_links fs \<Longrightarrow> fs_ok base p fs' = fs_ok base p fs"
  by (simp add: fs_ok_def no_links_below_def)

lemma not_temporary:
  "safe_filename f \<Longrightarrow> base @ [a, u, f] \<noteq> temporary_name (base @ [a', u', f'])"
  using safe_filename_facts(3) [of f] by (auto simp: temporary_name_def butlast_append)

lemma fs_get_after_save:
  assumes p: "fs_ok base p fs" and q: "fs_ok base q fs" and s: "fs_save base p b t fs = Inr fs'"
  shows "fs_get base q fs' = (if q = p then Inr b else fs_get base q fs)"
proof -
  obtain a u f where pq: "safe_filename f" "fs_resolve base p fs = Inr (base @ [a, uuid_str u, f])"
      "p = join ''/'' [a, uuid_str u, f]" "path_parts p = [a, uuid_str u, f]"
    using p by (rule fs_resolve_ok)
  obtain a2 u2 f2 where qq: "safe_filename f2"
      "fs_resolve base q fs = Inr (base @ [a2, uuid_str u2, f2])"
      "q = join ''/'' [a2, uuid_str u2, f2]" "path_parts q = [a2, uuid_str u2, f2]"
    using q by (rule fs_resolve_ok)
  note w = fs_save_Inr [OF p s pq(2)]
  have links: "fs_links fs' = fs_links fs" by (rule w(2))
  have "fs_ok base q fs'" using q fs_ok_links [OF links] by blast
  then obtain a3 u3 f3 where q3: "fs_resolve base q fs' = Inr (base @ [a3, uuid_str u3, f3])"
      "path_parts q = [a3, uuid_str u3, f3]"
    by (rule fs_resolve_ok)
  then have res: "fs_resolve base q fs' = Inr (base @ [a2, uuid_str u2, f2])" using qq(4) by simp
  have dirs: "fs_dirs fs' (base @ [a2, uuid_str u2, f2]) \<longleftrightarrow> fs_dirs fs (base @ [a2, uuid_str u2, f2])"
    using length_prefixes_of [of "base @ [a2, uuid_str u2, f2]" "butlast (base @ [a, uuid_str u, f])"]
    by (auto simp: w(3))
  show ?thesis
  proof (cases "q = p")
    case True
    then have "base @ [a2, uuid_str u2, f2] = base @ [a, uuid_str u, f]" using pq(4) qq(4) by simp
    then show ?thesis
      using True res w(1,4) not_temporary [OF pq(1), of base a "uuid_str u" a "uuid_str u" f]
      by (simp add: fs_get_def os_read_def)
  next
    case False
    then have "\<not> (a2 = a \<and> uuid_str u2 = uuid_str u \<and> f2 = f)" using pq(3) qq(3) by auto
    then have "base @ [a2, uuid_str u2, f2] \<noteq> base @ [a, uuid_str u, f]" by simp
    then have "fs_files fs' (base @ [a2, uuid_str u2, f2]) = fs_files fs (base @ [a2, uuid_str u2, f2])"
      unfolding w(1) using not_temporary [OF qq(1)] by (metis fun_upd_other)
    then show ?thesis using False res qq(2) dirs by (simp add: fs_get_def os_read_def)
  qed
qed

interpretation fs_provider: storage_provider "fs_ok base" "fs_save base" "fs_get base"
proof (unfold_locales, goal_cases)
  case (1 p s b t s')
  then show ?case using fs_get_after_save [of base p s p] by simp
next
  case (2 p s q b t s')
  then show ?case using fs_get_after_save [of base p s q] by simp
next
  case (3 p s q b t s')
  then obtain r where "fs_resolve base p s = Inr r" by (auto elim: fs_resolve_ok)
  from fs_ok_links [OF fs_save_Inr(2) [OF 3(1,3) this]] 3(2) show ?case by blast
qed

lemma fs_ok_path:
  "artifact_path a u f = Inr p \<Longrightarrow> real_path (fs_links fs) base \<Longrightarrow> no_links_below fs base \<Longrightarrow> fs_ok base p fs"
  by (auto simp: fs_ok_def)

text \<open>
  Artifact round trip on the file system provider (local, NAS and workspace
  storage): an artifact saved through \<open>ArtifactStorage\<close> is returned by \<open>get\<close> with its
  integrity check against the recorded digest, even after another artifact with a
  different path has been saved.
\<close>

theorem fs_artifact_round_trip:
  assumes "real_path (fs_links fs) base" and "no_links_below fs base"
    and "storage_save (fs_save base) ty mx sha a u f b t fs = Inr (art, fs1)"
    and "storage_save (fs_save base) ty mx sha a2 u2 f2 b2 t2 fs1 = Inr (art2, fs2)"
    and "sa_storage_path art2 \<noteq> sa_storage_path art"
  shows "storage_get (fs_get base) mx sha (sa_storage_path art) (Some (sa_sha256 art)) fs1 = Inr b \<and>
         storage_get (fs_get base) mx sha (sa_storage_path art) (Some (sa_sha256 art)) fs2 = Inr b"
proof -
  have "fs_ok base (sa_storage_path art) fs" "fs_ok base (sa_storage_path art2) fs"
    using assms(1-4) by (auto simp: storage_save_Inr intro: fs_ok_path)
  then show ?thesis
    using fs_provider.stored_round_trip [OF assms(3)] fs_provider.stored_twice [OF assms(3,4) _ _ assms(5)]
    by blast
qed

section \<open>The MinIO provider\<close>

text \<open>
  The client library is the parameters \<open>put_object\<close>, \<open>get_object\<close>, \<open>remove_object\<close>,
  \<open>stat_object\<close>, \<open>bucket_exists\<close> and \<open>make_bucket\<close> over a server state; an exception is
  an \<open>Inl\<close> with the S3 code where it is an \<open>S3Error\<close>. The provider turns every exception
  into its own error.
\<close>

type_synonym s3_error = "string option"

definition minio_save ::
  "(string \<Rightarrow> string \<Rightarrow> bytes \<Rightarrow> string \<Rightarrow> 's \<Rightarrow> s3_error + 's) \<Rightarrow> string \<Rightarrow>
     string \<Rightarrow> bytes \<Rightarrow> string \<Rightarrow> 's \<Rightarrow> fs_error + 's"
where
  "minio_save put_object bucket path content content_type s =
     (case put_object bucket path content content_type s of
        Inl _ \<Rightarrow> Inl (Artifact_error ''artifact could not be saved to MinIO'')
      | Inr s' \<Rightarrow> Inr s')"

definition minio_get ::
  "(string \<Rightarrow> string \<Rightarrow> 's \<Rightarrow> s3_error + bytes) \<Rightarrow> string \<Rightarrow> string \<Rightarrow> 's \<Rightarrow> fs_error + bytes"
where
  "minio_get get_object bucket path s =
     (case get_object bucket path s of
        Inl _ \<Rightarrow> Inl (Artifact_error ''artifact object is unavailable in MinIO'')
      | Inr b \<Rightarrow> Inr b)"

definition minio_delete ::
  "(string \<Rightarrow> string \<Rightarrow> 's \<Rightarrow> s3_error + 's) \<Rightarrow> string \<Rightarrow> string \<Rightarrow> 's \<Rightarrow> fs_error + 's"
where
  "minio_delete remove_object bucket path s =
     (case remove_object bucket path s of
        Inl _ \<Rightarrow> Inl (Artifact_error ''artifact object could not be deleted from MinIO'')
      | Inr s' \<Rightarrow> Inr s')"

definition minio_exists ::
  "(string \<Rightarrow> string \<Rightarrow> 's \<Rightarrow> s3_error + unit) \<Rightarrow> string \<Rightarrow> string \<Rightarrow> 's \<Rightarrow> fs_error + bool"
where
  "minio_exists stat_object bucket path s =
     (case stat_object bucket path s of
        Inr _ \<Rightarrow> Inr True
      | Inl code \<Rightarrow>
          if code \<in> Some ` set [''NoSuchKey'', ''NoSuchObject'', ''NoSuchBucket''] then Inr False
          else Inl (Artifact_error ''artifact object status could not be read from MinIO''))"

definition minio_ping ::
  "(string \<Rightarrow> 's \<Rightarrow> s3_error + bool) \<Rightarrow> (string \<Rightarrow> 's \<Rightarrow> s3_error + 's) \<Rightarrow> string \<Rightarrow> 's \<Rightarrow> fs_error + 's"
where
  "minio_ping bucket_exists make_bucket bucket s =
     (case bucket_exists bucket s of
        Inl _ \<Rightarrow> Inl (Artifact_error ''artifact MinIO bucket is unavailable'')
      | Inr True \<Rightarrow> Inr s
      | Inr False \<Rightarrow>
          (case make_bucket bucket s of
             Inl _ \<Rightarrow> Inl (Artifact_error ''artifact MinIO bucket is unavailable'')
           | Inr s' \<Rightarrow> Inr s'))"

text \<open>The documented behaviour of an object store: an object is read back as it was put.\<close>

definition s3_contract ::
  "(string \<Rightarrow> string \<Rightarrow> bytes \<Rightarrow> string \<Rightarrow> 's \<Rightarrow> s3_error + 's) \<Rightarrow>
     (string \<Rightarrow> string \<Rightarrow> 's \<Rightarrow> s3_error + bytes) \<Rightarrow> string \<Rightarrow> bool"
where
  "s3_contract put_object get_object bucket \<longleftrightarrow>
     (\<forall>p b t s s'. put_object bucket p b t s = Inr s' \<longrightarrow>
        get_object bucket p s' = Inr b \<and> (\<forall>q. q \<noteq> p \<longrightarrow> get_object bucket q s' = get_object bucket q s))"

lemma minio_storage_provider:
  assumes "s3_contract put_object get_object bucket"
  shows "storage_provider (\<lambda>p s. True) (minio_save put_object bucket) (minio_get get_object bucket)"
proof (unfold_locales, goal_cases)
  case (1 p s b t s')
  then show ?case using assms by (auto simp: s3_contract_def minio_save_def minio_get_def split: sum.splits)
next
  case (2 p s q b t s')
  then have "get_object bucket q s' = get_object bucket q s"
    using assms by (auto simp: s3_contract_def minio_save_def split: sum.splits)
  then show ?case by (simp add: minio_get_def)
qed

text \<open>\<open>get_artifact_storage\<close>: which provider a storage type names.\<close>

datatype storage_kind = Minio_storage | Filesystem_storage path string

definition select_storage ::
  "string option \<Rightarrow> string \<Rightarrow> path \<Rightarrow> path \<Rightarrow> path \<Rightarrow> fs_error + storage_kind"
where
  "select_storage storage_type configured nas_root workspace_root local_root =
     (let selected = (case storage_type of None \<Rightarrow> configured | Some [] \<Rightarrow> configured | Some t \<Rightarrow> t) in
      if selected = ''minio'' then Inr Minio_storage
      else if selected = ''nas'' then Inr (Filesystem_storage nas_root ''nas'')
      else if selected = ''workspace'' then Inr (Filesystem_storage workspace_root ''workspace'')
      else if selected = ''local'' then Inr (Filesystem_storage local_root ''local'')
      else Inl (Artifact_error (''unsupported artifact storage provider: '' @ selected)))"

section \<open>A sample run\<close>

lemma sample_artifact_paths:
  "artifact_path ''writer'' u ''a.txt'' = Inr (join ''/'' [''writer'', uuid_str u, ''a.txt''])"
proof -
  have "agent_id_pattern ''writer''" "safe_filename ''a.txt''" by code_simp+
  then show ?thesis by (simp add: artifact_path_Inr)
qed

lemma fs_save_ok:
  assumes "fs_ok base p fs" and "fs_resolve base p fs = Inr (base @ [a, b, f])"
    and "\<forall>q. fs_files fs q \<noteq> None \<longrightarrow> length q > length base + 2"
    and "\<forall>q. fs_dirs fs q \<longrightarrow> length q \<le> length base + 2"
    and "real_path (fs_links fs) (base @ [a, b, f])"
  shows "\<exists>fs'. fs_save base p c t fs = Inr fs' \<and> (\<forall>q. fs_dirs fs' q \<longrightarrow> length q \<le> length base + 2) \<and>
    (\<forall>q. fs_files fs' q \<noteq> None \<longrightarrow> length q > length base + 2) \<and> fs_links fs' = fs_links fs \<and>
    fs_max_links fs' = fs_max_links fs"
proof -
  let ?q = "base @ [a, b, f]"
  have "\<forall>q\<in>set (prefixes_of (butlast ?q)). fs_files fs q = None"
    using assms(3) length_prefixes_of [of _ "butlast ?q"] by fastforce
  then obtain fs1 where fs1: "os_mkdirs (butlast ?q) fs = Inr fs1"
      "fs1 = fs\<lparr>fs_dirs := \<lambda>d. fs_dirs fs d \<or> d \<in> set (prefixes_of (butlast ?q))\<rparr>"
    by (auto simp: os_mkdirs_def list_ex_iff)
  have d: "fs_dirs fs1 d \<Longrightarrow> length d \<le> length base + 2" for d
    using assms(4) length_prefixes_of [of d "butlast ?q"] by (auto simp: fs1(2))
  have "fs_dirs fs1 (butlast ?q)" using prefixes_of_self [of "butlast ?q"] by (simp add: fs1(2))
  moreover have "\<not> fs_dirs fs1 ?q" "\<not> fs_dirs fs1 (temporary_name ?q)"
    using d [of ?q] d [of "temporary_name ?q"] by (auto simp: temporary_name_def butlast_append)
  moreover have "fs_links fs1 (temporary_name ?q) = None"
    using assms(1) by (simp add: fs1(2) fs_ok_def no_links_below_def temporary_name_def butlast_append)
  moreover have "real_path (fs_links fs1) ?q" using assms(5) by (simp add: fs1(2))
  ultimately obtain fs' where w: "atomic_write ?q c fs1 = Inr fs'"
    using atomic_write_ok [of fs1 ?q c] by auto
  have eq: "fs' = fs1\<lparr>fs_files := (fs_files fs1)(?q \<mapsto> c, temporary_name ?q := None)\<rparr>"
    using atomic_write_Inr [OF w \<open>real_path (fs_links fs1) ?q\<close> _ \<open>fs_links fs1 (temporary_name ?q) = None\<close>]
    by simp
  have s: "fs_save base p c t fs = Inr fs'" by (simp add: fs_save_def assms(2) fs1(1) w)
  have l: "fs_links fs' = fs_links fs" "fs_max_links fs' = fs_max_links fs" by (simp_all add: eq fs1(2))
  have "\<forall>q. fs_dirs fs' q \<longrightarrow> length q \<le> length base + 2" using d by (simp add: eq)
  moreover have "\<forall>q. fs_files fs' q \<noteq> None \<longrightarrow> length q > length base + 2"
    using assms(3) by (simp add: eq fs1(2))
  ultimately show ?thesis using s l by blast
qed

lemma sample_saves:
  "\<exists>art art2 fs1 fs2.
     storage_save (fs_save sample_base) ''local'' 10 id ''writer'' 5 ''a.txt'' ''hi'' ''text/plain'' sample_fs
       = Inr (art, fs1) \<and>
     storage_save (fs_save sample_base) ''local'' 10 id ''writer'' 6 ''a.txt'' ''ho'' ''text/plain'' fs1
       = Inr (art2, fs2) \<and>
     sa_storage_path art2 \<noteq> sa_storage_path art"
proof -
  let ?p = "\<lambda>u. join ''/'' [''writer'', uuid_str u, ''a.txt'']"
  have len: "length sample_base + 2 = 3" by (simp add: sample_base_def)
  have ok: "fs_ok sample_base (?p u) fs" if "fs_links fs = fs_links sample_fs" for u fs
    using that sample_base_ok sample_artifact_paths [of u]
    by (intro fs_ok_path) (simp_all add: no_links_below_def)
  have go: "\<exists>fs'. fs_save sample_base (?p u) c t fs = Inr fs' \<and> (\<forall>q. fs_dirs fs' q \<longrightarrow> length q \<le> 3) \<and>
      (\<forall>q. fs_files fs' q \<noteq> None \<longrightarrow> length q > 3) \<and> fs_links fs' = fs_links fs \<and>
      fs_max_links fs' = fs_max_links fs"
    if l: "fs_links fs = fs_links sample_fs" and "\<forall>q. fs_dirs fs q \<longrightarrow> length q \<le> 3"
      and "\<forall>q. fs_files fs q \<noteq> None \<longrightarrow> length q > 3" for u c t fs
  proof -
    obtain a v f where "fs_resolve sample_base (?p u) fs = Inr (sample_base @ [a, uuid_str v, f])"
        "real_path (fs_links fs) (sample_base @ [a, uuid_str v, f])"
      by (rule fs_resolve_ok [OF ok [OF l, of u]])
    note save_ok = fs_save_ok [OF ok [OF l, of u] this(1) _ _ this(2), of c t, unfolded len]
    show ?thesis by (rule save_ok) (fact that(3) that(2))+
  qed
  have "\<forall>q. fs_dirs sample_fs q \<longrightarrow> length q \<le> 3" "\<forall>q. fs_files sample_fs q \<noteq> None \<longrightarrow> length q > 3"
    by (auto simp: sample_fs_def)
  from go [OF refl this, of 5 "''hi''" "''text/plain''"] obtain fs1 where
    1: "fs_save sample_base (?p 5) ''hi'' ''text/plain'' sample_fs = Inr fs1"
      "\<forall>q. fs_dirs fs1 q \<longrightarrow> length q \<le> 3" "\<forall>q. fs_files fs1 q \<noteq> None \<longrightarrow> length q > 3"
      "fs_links fs1 = fs_links sample_fs" by blast
  from go [OF 1(4,2,3), of 6 "''ho''" "''text/plain''"] obtain fs2 where
    2: "fs_save sample_base (?p 6) ''ho'' ''text/plain'' fs1 = Inr fs2" by blast
  have "uuid_str 6 \<noteq> uuid_str 5" using uuid_str_inj [of 6 5] by auto
  with 1(1) 2 show ?thesis
    by (simp add: storage_save_Inr sample_artifact_paths)
qed

theorem artifact_path_injective_witness:
  "artifact_path ''writer'' 5 ''a.txt'' = Inr (join ''/'' [''writer'', uuid_str 5, ''a.txt'']) \<and>
   ''a.txt'' = ''a.txt''"
  using artifact_path_injective [OF sample_artifact_paths sample_artifact_paths, of 5]
    sample_artifact_paths [of 5] by simp

theorem fs_artifact_round_trip_witness:
  "\<exists>path digest fs2. storage_get (fs_get sample_base) 10 id path (Some digest) fs2 = Inr ''hi''"
  using sample_saves fs_artifact_round_trip [OF sample_base_ok] by blast

end
