(* ===== verification/Workflow_Dag.thy ===== *)
theory Workflow_Dag
  imports Json
begin

text \<open>
  Workflow definitions (\<open>backend/app/schemas/multi_agent.py\<close>): the node contract the
  request models enforce and the depth-first search \<open>validate_workflow_dag\<close> that
  accepts a definition. The search is proved to decide exactly what it is for: keys
  are unique, dependencies are known and the dependency graph has no cycle.
\<close>

section \<open>Nodes\<close>

datatype node_type = Agent_node | Tool_node | Skill_node | Condition_node | Human_approval

fun node_type_str :: "node_type \<Rightarrow> string" where
  "node_type_str Agent_node = ''agent''"
| "node_type_str Tool_node = ''tool''"
| "node_type_str Skill_node = ''skill''"
| "node_type_str Condition_node = ''condition''"
| "node_type_str Human_approval = ''human_approval''"

record node_spec =
  nd_key :: string
  nd_type :: node_type
  nd_name :: string
  nd_agent_id :: "string option"
  nd_depends_on :: "string list"
  nd_config :: dict

text \<open>\<open>^[a-z][a-z0-9_-]{0,63}$\<close>\<close>

definition node_key_pattern :: "string \<Rightarrow> bool" where
  "node_key_pattern s =
     (case s of [] \<Rightarrow> False
      | c # cs \<Rightarrow> is_lower c \<and> length cs \<le> 63 \<and>
          list_all (\<lambda>d. is_lower d \<or> is_digit d \<or> d = CHR ''_'' \<or> d = CHR ''-'') cs)"

definition node_fields_ok :: "node_spec \<Rightarrow> bool" where
  "node_fields_ok n \<longleftrightarrow>
     node_key_pattern (nd_key n) \<and>
     1 \<le> py_len (nd_name n) \<and> py_len (nd_name n) \<le> 255 \<and>
     (case nd_agent_id n of None \<Rightarrow> True | Some a \<Rightarrow> 3 \<le> py_len a \<and> py_len a \<le> 64) \<and>
     length (nd_depends_on n) \<le> 64"

datatype dag_error =
    Agent_node_without_agent
  | Self_dependency string
  | Field_constraint
  | Duplicate_keys
  | Unknown_dependencies string "string list"
  | Graph_cycle
  | Missing_key string

definition validate_node_contract :: "node_spec \<Rightarrow> dag_error + unit" where
  "validate_node_contract n =
     (if nd_type n = Agent_node \<and> (nd_agent_id n = None \<or> nd_agent_id n = Some [])
      then Inl Agent_node_without_agent
      else if nd_key n \<in> set (nd_depends_on n) then Inl (Self_dependency (nd_key n))
      else Inr ())"

section \<open>The search\<close>

text \<open>\<open>by_key = {node.key: node for node in nodes}\<close>: the last node with a key wins.\<close>

definition by_key :: "node_spec list \<Rightarrow> string \<Rightarrow> node_spec option" where
  "by_key nodes = map_of (rev (map (\<lambda>n. (nd_key n, n)) nodes))"

definition node_keys :: "node_spec list \<Rightarrow> string set" where
  "node_keys nodes = set (map nd_key nodes)"

lemma by_key_in: "by_key nodes k = Some n \<Longrightarrow> n \<in> set nodes \<and> nd_key n = k"
  by (auto simp: by_key_def dest!: map_of_SomeD)

lemma by_key_None: "by_key nodes k = None \<longleftrightarrow> k \<notin> node_keys nodes"
  by (auto simp: by_key_def node_keys_def map_of_eq_None_iff image_iff)

lemma by_key_keys: "by_key nodes k = Some n \<Longrightarrow> k \<in> node_keys nodes"
  by (metis by_key_None option.distinct(1))

lemma by_key_obtain:
  assumes "k \<in> node_keys nodes"
  obtains n where "by_key nodes k = Some n"
  using assms by (metis by_key_None option.exhaust)

lemma finite_node_keys [simp]: "finite (node_keys nodes)"
  by (simp add: node_keys_def)

lemma stack_grows:
  assumes "by_key nodes k = Some n" and "k \<notin> visiting"
  shows "card (node_keys nodes - insert k visiting) < card (node_keys nodes - visiting)"
proof (rule psubset_card_mono)
  have "k \<in> node_keys nodes" using assms(1) by (rule by_key_keys)
  then show "node_keys nodes - insert k visiting \<subset> node_keys nodes - visiting"
    using assms(2) by blast
qed simp

text \<open>
  \<open>visit\<close> is the source's inner function and \<open>visit_all\<close> its loop over a list of
  keys. The set \<open>visiting\<close>, which the source extends before the loop and restores
  after it, is the set of keys on the call stack and is passed down; \<open>visited\<close> is
  threaded through. Each nested call has a longer stack, so the search ends.
\<close>

function visit :: "node_spec list \<Rightarrow> string set \<Rightarrow> string set \<Rightarrow> string \<Rightarrow> dag_error + string set"
  and visit_all ::
    "node_spec list \<Rightarrow> string set \<Rightarrow> string set \<Rightarrow> string list \<Rightarrow> dag_error + string set"
where
  "visit nodes visiting visited k =
     (if k \<in> visited then Inr visited
      else if k \<in> visiting then Inl Graph_cycle
      else (case by_key nodes k of
              None \<Rightarrow> Inl (Missing_key k)
            | Some n \<Rightarrow>
                (case visit_all nodes (insert k visiting) visited (nd_depends_on n) of
                   Inl e \<Rightarrow> Inl e
                 | Inr visited' \<Rightarrow> Inr (insert k visited'))))"
| "visit_all nodes visiting visited [] = Inr visited"
| "visit_all nodes visiting visited (d # ds) =
     (case visit nodes visiting visited d of
        Inl e \<Rightarrow> Inl e
      | Inr visited' \<Rightarrow> visit_all nodes visiting visited' ds)"
  by pat_completeness auto

termination
  by (relation "measures
        [\<lambda>x. case x of Inl (nodes, vg, vd, k) \<Rightarrow> card (node_keys nodes - vg)
                     | Inr (nodes, vg, vd, ks) \<Rightarrow> card (node_keys nodes - vg),
         \<lambda>x. case x of Inl _ \<Rightarrow> 0 | Inr (nodes, vg, vd, ks) \<Rightarrow> Suc (length ks)]")
     (auto intro: stack_grows)

declare visit.simps [simp del]

fun check_dependencies :: "node_spec list \<Rightarrow> node_spec list \<Rightarrow> dag_error + unit" where
  "check_dependencies nodes [] = Inr ()"
| "check_dependencies nodes (n # ns) =
     (let missing = filter (\<lambda>k. by_key nodes k = None) (nd_depends_on n)
      in if missing \<noteq> [] then Inl (Unknown_dependencies (nd_key n) missing)
         else check_dependencies nodes ns)"

text \<open>
  \<open>len(by_key) != len(nodes)\<close>; the final loop \<open>for key in by_key: visit(key)\<close>, whose
  stack is empty before every call, runs over the keys in insertion order.
\<close>

definition validate_workflow_dag :: "node_spec list \<Rightarrow> dag_error + unit" where
  "validate_workflow_dag nodes =
     (if card (node_keys nodes) \<noteq> length nodes then Inl Duplicate_keys
      else rbind (check_dependencies nodes nodes) (\<lambda>_.
           rbind (visit_all nodes {} {} (dedupe (map nd_key nodes))) (\<lambda>_. Inr ())))"

text \<open>\<open>WorkflowCreate\<close>: 1 to 100 nodes, each with its own contract, then the graph.\<close>

fun check_nodes :: "node_spec list \<Rightarrow> dag_error + unit" where
  "check_nodes [] = Inr ()"
| "check_nodes (n # ns) =
     (if \<not> node_fields_ok n then Inl Field_constraint
      else rbind (validate_node_contract n) (\<lambda>_. check_nodes ns))"

definition validate_workflow_create :: "string \<Rightarrow> node_spec list \<Rightarrow> dag_error + unit" where
  "validate_workflow_create name nodes =
     rbind (check_nodes nodes) (\<lambda>_.
       if 1 \<le> py_len name \<and> py_len name \<le> 255 \<and> 1 \<le> length nodes \<and> length nodes \<le> 100
       then validate_workflow_dag nodes
       else Inl Field_constraint)"

section \<open>The graph the definition describes\<close>

definition depends :: "node_spec list \<Rightarrow> (string \<times> string) set" where
  "depends nodes = {(k, d). \<exists>n. by_key nodes k = Some n \<and> d \<in> set (nd_depends_on n)}"

definition known_dependencies :: "node_spec list \<Rightarrow> bool" where
  "known_dependencies nodes \<longleftrightarrow>
     (\<forall>n\<in>set nodes. \<forall>d\<in>set (nd_depends_on n). d \<in> node_keys nodes)"

lemma dependsI: "by_key nodes k = Some n \<Longrightarrow> d \<in> set (nd_depends_on n) \<Longrightarrow> (k, d) \<in> depends nodes"
  by (auto simp: depends_def)

lemma check_dependencies_Inr:
  "check_dependencies nodes ns = Inr () \<longleftrightarrow>
     (\<forall>n\<in>set ns. \<forall>d\<in>set (nd_depends_on n). d \<in> node_keys nodes)"
  by (induction ns) (auto simp: Let_def filter_empty_conv by_key_None)

lemma depends_known:
  "known_dependencies nodes \<Longrightarrow> (k, d) \<in> depends nodes \<Longrightarrow> d \<in> node_keys nodes"
  by (auto simp: depends_def known_dependencies_def dest: by_key_in)

subsection \<open>An accepted graph has no cycle\<close>

text \<open>
  The keys the search has finished form a set closed under dependency through which
  no cycle passes.
\<close>

definition settled :: "node_spec list \<Rightarrow> string set \<Rightarrow> bool" where
  "settled nodes V \<longleftrightarrow> depends nodes `` V \<subseteq> V \<and> (\<forall>v\<in>V. (v, v) \<notin> (depends nodes)\<^sup>+)"

lemma settled_empty [simp]: "settled nodes {}"
  by (simp add: settled_def)

lemma closed_rtrancl:
  assumes "(v, w) \<in> r\<^sup>*" and "r `` V \<subseteq> V" and "v \<in> V"
  shows "w \<in> V"
  using assms by (induction rule: rtrancl_induct) auto

lemma settled_insert:
  assumes V: "settled nodes V" and k: "k \<notin> V"
    and n: "by_key nodes k = Some n" and deps: "set (nd_depends_on n) \<subseteq> V"
  shows "settled nodes (insert k V)"
proof -
  have succ: "depends nodes `` {k} \<subseteq> V"
    using n deps by (auto simp: depends_def)
  have "(k, k) \<notin> (depends nodes)\<^sup>+"
  proof
    assume "(k, k) \<in> (depends nodes)\<^sup>+"
    then obtain d where d: "(k, d) \<in> depends nodes" "(d, k) \<in> (depends nodes)\<^sup>*"
      by (blast dest: tranclD)
    have "d \<in> V" using d(1) succ by blast
    with d(2) have "k \<in> V"
      using V closed_rtrancl [OF d(2)] by (simp add: settled_def)
    with k show False ..
  qed
  then show ?thesis using V succ by (auto simp: settled_def)
qed

lemma visit_sound:
  "visit nodes visiting visited k = Inr V \<Longrightarrow> settled nodes visited \<Longrightarrow> visited \<inter> visiting = {} \<Longrightarrow>
     settled nodes V \<and> visited \<subseteq> V \<and> k \<in> V \<and> V \<inter> visiting = {}"
  "visit_all nodes visiting visited ks = Inr V \<Longrightarrow> settled nodes visited \<Longrightarrow>
     visited \<inter> visiting = {} \<Longrightarrow>
     settled nodes V \<and> visited \<subseteq> V \<and> set ks \<subseteq> V \<and> V \<inter> visiting = {}"
proof (induction nodes visiting visited k and nodes visiting visited ks
       arbitrary: V and V rule: visit_visit_all.induct)
  case (1 nodes visiting visited k)
  show ?case
  proof (cases "k \<in> visited")
    case True
    then show ?thesis using "1.prems" by (simp add: visit.simps)
  next
    case False
    with "1.prems"(1) obtain n V' where step: "k \<notin> visiting" "by_key nodes k = Some n"
        "visit_all nodes (insert k visiting) visited (nd_depends_on n) = Inr V'" "V = insert k V'"
      by (auto simp: visit.simps [of nodes visiting visited k]
               split: if_splits option.splits sum.splits)
    have "settled nodes V' \<and> visited \<subseteq> V' \<and> set (nd_depends_on n) \<subseteq> V' \<and> V' \<inter> insert k visiting = {}"
      using "1.IH" [OF False step(1,2,3)] "1.prems"(2,3) False by auto
    then show ?thesis using settled_insert step by auto
  qed
next
  case (2 nodes visiting visited)
  then show ?case by simp
next
  case (3 nodes visiting visited d ds)
  then obtain W where W: "visit nodes visiting visited d = Inr W"
    and rest: "visit_all nodes visiting W ds = Inr V"
    by (auto split: sum.splits)
  have "settled nodes W \<and> visited \<subseteq> W \<and> d \<in> W \<and> W \<inter> visiting = {}"
    using "3.IH"(1) [OF W] "3.prems"(2,3) by simp
  then show ?case using "3.IH"(2) [OF W rest] by auto
qed

subsection \<open>A graph without cycles is accepted\<close>

lemma visit_complete:
  assumes "acyclic (depends nodes)" and "known_dependencies nodes"
  shows "k \<in> node_keys nodes \<Longrightarrow> \<forall>u\<in>visiting. (u, k) \<in> (depends nodes)\<^sup>+ \<Longrightarrow>
           \<exists>V. visit nodes visiting visited k = Inr V"
    and "set ks \<subseteq> node_keys nodes \<Longrightarrow> \<forall>d\<in>set ks. \<forall>u\<in>visiting. (u, d) \<in> (depends nodes)\<^sup>+ \<Longrightarrow>
           \<exists>V. visit_all nodes visiting visited ks = Inr V"
  using assms
proof (induction nodes visiting visited k and nodes visiting visited ks
       rule: visit_visit_all.induct)
  case (1 nodes visiting visited k)
  show ?case
  proof (cases "k \<in> visited")
    case True
    then show ?thesis by (simp add: visit.simps)
  next
    case False
    have fresh: "k \<notin> visiting"
      using "1.prems"(2,3) by (auto simp: acyclic_def)
    obtain n where n: "by_key nodes k = Some n"
      using "1.prems"(1) by (rule by_key_obtain)
    have known: "set (nd_depends_on n) \<subseteq> node_keys nodes"
      using n "1.prems"(4) by (auto simp: known_dependencies_def dest: by_key_in)
    have "\<forall>d\<in>set (nd_depends_on n). \<forall>u\<in>insert k visiting. (u, d) \<in> (depends nodes)\<^sup>+"
      using dependsI [OF n] "1.prems"(2) by (auto intro: trancl_into_trancl)
    from "1.IH" [OF False fresh n known this "1.prems"(3,4)]
    show ?thesis using False fresh n by (auto simp: visit.simps [of nodes visiting visited k])
  qed
next
  case (2 nodes visiting visited)
  then show ?case by simp
next
  case (3 nodes visiting visited d ds)
  then obtain W where W: "visit nodes visiting visited d = Inr W" by auto
  then show ?case using "3.IH"(2) [OF W] "3.prems" by auto
qed

section \<open>The decision\<close>

lemma card_node_keys: "card (node_keys nodes) = length nodes \<longleftrightarrow> distinct (map nd_key nodes)"
  unfolding node_keys_def by (metis card_distinct distinct_card length_map)

lemma acyclic_iff_no_key_cycle:
  "acyclic (depends nodes) \<longleftrightarrow> (\<forall>k\<in>node_keys nodes. (k, k) \<notin> (depends nodes)\<^sup>+)"
proof -
  have "k \<in> node_keys nodes" if "(k, k) \<in> (depends nodes)\<^sup>+" for k
    using tranclD [OF that] by (auto simp: depends_def intro: by_key_keys)
  then show ?thesis by (auto simp: acyclic_def)
qed

lemma validate_workflow_dag_iff:
  "validate_workflow_dag nodes = Inr () \<longleftrightarrow>
     distinct (map nd_key nodes) \<and> known_dependencies nodes \<and> acyclic (depends nodes)"
proof -
  have "acyclic (depends nodes) \<longleftrightarrow> (\<exists>V. visit_all nodes {} {} (dedupe (map nd_key nodes)) = Inr V)"
    if known: "known_dependencies nodes"
  proof
    assume "acyclic (depends nodes)"
    from visit_complete(2) [OF this known, of "dedupe (map nd_key nodes)" "{}" "{}"]
    show "\<exists>V. visit_all nodes {} {} (dedupe (map nd_key nodes)) = Inr V"
      by (simp add: node_keys_def)
  next
    assume "\<exists>V. visit_all nodes {} {} (dedupe (map nd_key nodes)) = Inr V"
    then obtain V where "visit_all nodes {} {} (dedupe (map nd_key nodes)) = Inr V" ..
    from visit_sound(2) [OF this] have "settled nodes V" "node_keys nodes \<subseteq> V"
      by (simp_all add: node_keys_def)
    then show "acyclic (depends nodes)"
      by (auto simp: acyclic_iff_no_key_cycle settled_def)
  qed
  then show ?thesis
    by (auto simp: validate_workflow_dag_def card_node_keys rbind_Inr check_dependencies_Inr
        known_dependencies_def)
qed

text \<open>
  C1. \<open>validate_workflow_dag\<close> accepts a workflow definition exactly when its node keys
  are unique, every dependency names a node of the definition, and the dependency
  relation is acyclic: the depth-first search neither misses a cycle nor rejects a
  graph without one.
\<close>

theorem validate_workflow_dag_correct:
  "validate_workflow_dag nodes = Inr () \<longleftrightarrow>
     distinct (map nd_key nodes) \<and> known_dependencies nodes \<and> acyclic (depends nodes)"
  by (rule validate_workflow_dag_iff)

text \<open>
  An order in which the nodes can run: an accepted definition has a node outside any
  set of finished nodes whose dependencies are all finished.
\<close>

lemma acyclic_has_ready_node:
  assumes "acyclic (depends nodes)" and "known_dependencies nodes"
    and "finished \<subset> node_keys nodes"
  shows "\<exists>k\<in>node_keys nodes - finished. \<exists>n. by_key nodes k = Some n \<and> set (nd_depends_on n) \<subseteq> finished"
proof -
  let ?E = "converse (depends nodes)"
  have "depends nodes \<subseteq> node_keys nodes \<times> node_keys nodes"
    using depends_known [OF assms(2)] by (auto simp: depends_def intro: by_key_keys)
  then have "finite (depends nodes)" by (rule finite_subset) simp
  then have "wf ?E"
    using assms(1) by (simp add: finite_acyclic_wf_converse)
  moreover obtain x where "x \<in> node_keys nodes - finished" using assms(3) by blast
  ultimately obtain k where k: "k \<in> node_keys nodes - finished"
    and min: "\<And>d. (d, k) \<in> ?E \<Longrightarrow> d \<notin> node_keys nodes - finished"
    by (rule wfE_min) blast
  obtain n where n: "by_key nodes k = Some n"
    using k by (auto elim: by_key_obtain)
  have "set (nd_depends_on n) \<subseteq> finished"
  proof
    fix d assume "d \<in> set (nd_depends_on n)"
    with n have e: "(k, d) \<in> depends nodes" by (rule dependsI)
    then show "d \<in> finished" using min depends_known [OF assms(2) e] by auto
  qed
  with k n show ?thesis by blast
qed

lemma validate_workflow_create_Inr:
  "validate_workflow_create name nodes = Inr () \<Longrightarrow>
     validate_workflow_dag nodes = Inr () \<and> list_all node_fields_ok nodes \<and>
     nodes \<noteq> [] \<and> length nodes \<le> 100"
proof -
  have "check_nodes ns = Inr () \<Longrightarrow> list_all node_fields_ok ns" for ns
    by (induction ns) (auto simp: rbind_Inr split: if_splits)
  then show "validate_workflow_create name nodes = Inr () \<Longrightarrow> ?thesis"
    by (auto simp: validate_workflow_create_def rbind_Inr split: if_splits)
qed

section \<open>Stored definitions\<close>

text \<open>
  \<open>model_dump(by_alias=True)\<close>, the form in which a workflow stores a node, and
  \<open>WorkflowNodeSpec.model_validate\<close>, which reads it again when a run is submitted.
\<close>

definition node_json :: "node_spec \<Rightarrow> json" where
  "node_json n = JObj
     [(''key'', JStr (nd_key n)), (''type'', JStr (node_type_str (nd_type n))),
      (''name'', JStr (nd_name n)), (''agent_id'', opt_str (nd_agent_id n)),
      (''depends_on'', str_list (nd_depends_on n)), (''config'', JObj (nd_config n))]"

definition node_type_of :: "json \<Rightarrow> node_type option" where
  "node_type_of v =
     (case v of
        JStr s \<Rightarrow> find (\<lambda>t. node_type_str t = s)
                   [Agent_node, Tool_node, Skill_node, Condition_node, Human_approval]
      | _ \<Rightarrow> None)"

fun strings_of :: "json list \<Rightarrow> string list option" where
  "strings_of [] = Some []"
| "strings_of (JStr s # xs) = map_option ((#) s) (strings_of xs)"
| "strings_of (_ # xs) = None"

definition node_of_json :: "json \<Rightarrow> dag_error + node_spec" where
  "node_of_json v =
     (case v of
        JObj d \<Rightarrow>
          (case (dget d ''key'', node_type_of (if dhas d ''type'' then dget d ''type'' else dget d ''node_type''),
                 dget d ''name'',
                 dget_default d ''depends_on'' (JArr []), dget_default d ''config'' (JObj [])) of
             (JStr k, Some t, JStr n, JArr ds, JObj c) \<Rightarrow>
               (case strings_of ds of
                  None \<Rightarrow> Inl Field_constraint
                | Some deps \<Rightarrow>
                    if \<not> (dget d ''agent_id'' = JNull \<or> is_str (dget d ''agent_id'')) then Inl Field_constraint
                    else
                      let node = \<lparr>nd_key = k, nd_type = t, nd_name = n,
                                  nd_agent_id = as_str_option (dget d ''agent_id''),
                                  nd_depends_on = deps, nd_config = c\<rparr>
                      in if \<not> node_fields_ok node then Inl Field_constraint
                         else rbind (validate_node_contract node) (\<lambda>_. Inr node))
           | _ \<Rightarrow> Inl Field_constraint)
      | _ \<Rightarrow> Inl Field_constraint)"

fun nodes_of_json :: "json list \<Rightarrow> dag_error + node_spec list" where
  "nodes_of_json [] = Inr []"
| "nodes_of_json (v # vs) =
     rbind (node_of_json v) (\<lambda>n. rbind (nodes_of_json vs) (\<lambda>ns. Inr (n # ns)))"

lemma strings_of_map [simp]: "strings_of (map JStr xs) = Some xs"
  by (induction xs) auto

lemma node_type_of_str [simp]: "node_type_of (JStr (node_type_str t)) = Some t"
  by (cases t) (simp_all add: node_type_of_def)

lemma node_round_trip:
  assumes "node_fields_ok n" and "validate_node_contract n = Inr ()"
  shows "node_of_json (node_json n) = Inr n"
  using assms
proof -
  have "n = \<lparr>nd_key = nd_key n, nd_type = nd_type n, nd_name = nd_name n,
      nd_agent_id = as_str_option (opt_str (nd_agent_id n)),
      nd_depends_on = nd_depends_on n, nd_config = nd_config n\<rparr>"
    by (cases "nd_agent_id n") (simp_all add: opt_str_def)
  moreover have "opt_str (nd_agent_id n) = JNull \<or> is_str (opt_str (nd_agent_id n))"
    by (cases "nd_agent_id n") (simp_all add: opt_str_def)
  ultimately show ?thesis
    using assms
    by (simp add: node_of_json_def node_json_def dget_def dget_default_def dhas_def str_list_def Let_def)
qed

lemma check_nodes_each:
  "check_nodes ns = Inr () \<Longrightarrow> n \<in> set ns \<Longrightarrow> node_fields_ok n \<and> validate_node_contract n = Inr ()"
  by (induction ns) (auto simp: rbind_Inr split: if_splits)

lemma nodes_round_trip:
  assumes "check_nodes ns = Inr ()"
  shows "nodes_of_json (map node_json ns) = Inr ns"
  using assms by (induction ns) (auto simp: rbind_Inr node_round_trip split: if_splits)

text \<open>\<open>WorkflowUpdate\<close>: the fields that are given, with the same conditions.\<close>

definition validate_workflow_update :: "string option \<Rightarrow> node_spec list option \<Rightarrow> dag_error + unit" where
  "validate_workflow_update name nodes =
     (if \<not> (case name of None \<Rightarrow> True | Some n \<Rightarrow> 1 \<le> py_len n \<and> py_len n \<le> 255) then Inl Field_constraint
      else (case nodes of
              None \<Rightarrow> Inr ()
            | Some ns \<Rightarrow> rbind (check_nodes ns) (\<lambda>_.
                if 1 \<le> length ns \<and> length ns \<le> 100 then validate_workflow_dag ns else Inl Field_constraint)))"

end
