(* ===== verification/World.thy ===== *)
theory World
  imports Agent_Versions Task_Queue Message_Bus Artifact_Storage Workflow_Dag
begin

text \<open>
  What a handler of the platform works on: the database, the task queue, the message
  bus, the workspace file system and a clock, with the external services and the
  settings as an environment. Every handler is a function from a world to a result and
  the world it leaves behind. One reading of the clock serves all the timestamps of a
  handler; each \<open>enqueue\<close> moves it on, so that successive ones differ. \<open>Missing_row\<close> is
  an access through a relationship whose row is missing, which foreign keys exclude;
  \<open>Python_exc\<close> is any other exception, with its text, and \<open>Cancelled_exc\<close> the cancellation of
  the running coroutine, which is no \<open>Exception\<close>.
\<close>

datatype exc =
    Orchestrator_exc string
  | Profile_exc profile_error
  | Queue_exc queue_error
  | Bus_exc bus_error
  | Dag_exc dag_error
  | Fs_exc fs_error
  | Integrity_exc
  | Missing_row
  | Version_exc version_error
  | Python_exc string
  | Cancelled_exc
  | Http_exc nat string

record ('q, 'b) env =
  env_zadd :: "string \<Rightarrow> rat \<Rightarrow> 'q \<Rightarrow> 'q option"
  env_zpopmin :: "'q \<Rightarrow> ((string \<times> rat) option \<times> 'q) option"
  env_zrem :: "string \<Rightarrow> 'q \<Rightarrow> 'q option"
  env_xadd :: "fields \<Rightarrow> 'b \<Rightarrow> (string \<times> 'b) option"
  env_dumps :: "json \<Rightarrow> string"
  env_rep :: "json \<Rightarrow> string"
  env_check_schema :: "json \<Rightarrow> string option"
  env_sha256 :: "string \<Rightarrow> string"
  env_workspace_root :: path
  env_task_max_attempts :: nat
  env_task_stale_seconds :: nat
  env_worker_id :: string

record ('q, 'b) world =
  w_db :: store
  w_queue :: 'q
  w_bus :: 'b
  w_fs :: filesystem
  w_clock :: nat

type_synonym ('q, 'b, 'a) act = "('q, 'b) world \<Rightarrow> (exc + 'a) \<times> ('q, 'b) world"

definition now :: "('q, 'b) world \<Rightarrow> instant" where
  "now w = int (w_clock w div 1000)"

definition upd_db :: "(store \<Rightarrow> store) \<Rightarrow> ('q, 'b) world \<Rightarrow> ('q, 'b) world" where
  "upd_db f w = w\<lparr>w_db := f (w_db w)\<rparr>"

text \<open>A statement that changes rows, and a database call that may fail.\<close>

definition change :: "(store \<Rightarrow> store) \<Rightarrow> ('q, 'b, unit) act" where
  "change f w = (Inr (), upd_db f w)"

definition db_call :: "(store \<Rightarrow> (exc + 'a) \<times> store) \<Rightarrow> ('q, 'b, 'a) act" where
  "db_call f w = (case f (w_db w) of (r, db) \<Rightarrow> (r, w\<lparr>w_db := db\<rparr>))"

definition enqueue_task :: "('q, 'b) env \<Rightarrow> uuid \<Rightarrow> int \<Rightarrow> ('q, 'b, unit) act" where
  "enqueue_task E u p w =
     (case enqueue (env_zadd E) u p (w_clock w) (w_queue w) of
        (Inl e, q) \<Rightarrow> (Inl (Queue_exc e), w\<lparr>w_queue := q, w_clock := Suc (w_clock w)\<rparr>)
      | (Inr _, q) \<Rightarrow> (Inr (), w\<lparr>w_queue := q, w_clock := Suc (w_clock w)\<rparr>))"

definition remove_task :: "('q, 'b) env \<Rightarrow> uuid \<Rightarrow> ('q, 'b, unit) act" where
  "remove_task E u w =
     (case queue_remove (env_zrem E) u (w_queue w) of
        (Inl e, q) \<Rightarrow> (Inl (Queue_exc e), w\<lparr>w_queue := q\<rparr>)
      | (Inr _, q) \<Rightarrow> (Inr (), w\<lparr>w_queue := q\<rparr>))"

definition publish_message ::
  "('q, 'b) env \<Rightarrow> string \<Rightarrow> string \<Rightarrow> string \<Rightarrow> dict \<Rightarrow> string option \<Rightarrow> ('q, 'b, string) act"
where
  "publish_message E f t ty p tid w =
     (case publish (env_xadd E) (env_dumps E) f t ty p tid (w_bus w) of
        (Inl e, b) \<Rightarrow> (Inl (Bus_exc e), w\<lparr>w_bus := b\<rparr>)
      | (Inr i, b) \<Rightarrow> (Inr i, w\<lparr>w_bus := b\<rparr>))"

lemma w_db_frames:
  "enqueue_task E u p w = (r, w') \<Longrightarrow> w_db w' = w_db w"
  "remove_task E u w = (r, w') \<Longrightarrow> w_db w' = w_db w"
  "publish_message E f t ty d tid w = (s, w') \<Longrightarrow> w_db w' = w_db w"
  by (auto simp: enqueue_task_def remove_task_def publish_message_def split: prod.splits sum.splits)

lemma w_queue_frames:
  "publish_message E f t ty d tid w = (s, w') \<Longrightarrow> w_queue w' = w_queue w"
  "w_queue (upd_db g w) = w_queue w"
  by (auto simp: publish_message_def upd_db_def split: prod.splits sum.splits)

lemma upd_db_simps [simp]:
  "w_db (upd_db f w) = f (w_db w)"
  "w_bus (upd_db f w) = w_bus w" "w_fs (upd_db f w) = w_fs w"
  "w_clock (upd_db f w) = w_clock w" "now (upd_db f w) = now w"
  by (simp_all add: upd_db_def now_def)

lemma change_simps [simp]:
  "change f w = (Inr (), upd_db f w)"
  by (simp add: change_def)

lemma enqueue_task_queue:
  assumes "work_queue (enqueue (env_zadd E)) deq rm members"
    and "enqueue_task E u p w = (r, w')"
  shows "members (w_queue w) \<subseteq> members (w_queue w')"
    and "r = Inr () \<Longrightarrow> uuid_str u \<in> members (w_queue w')"
    and "members (w_queue w') \<subseteq> insert (uuid_str u) (members (w_queue w))"
proof -
  obtain r1 q where e: "enqueue (env_zadd E) u p (w_clock w) (w_queue w) = (r1, q)"
    by (cases "enqueue (env_zadd E) u p (w_clock w) (w_queue w)")
  then have q: "w_queue w' = q" "r = Inr () \<Longrightarrow> r1 = Inr ()"
    using assms(2) by (auto simp: enqueue_task_def split: sum.splits)
  show "members (w_queue w) \<subseteq> members (w_queue w')"
    using work_queue.enq_mono [OF assms(1) e] q by simp
  show "members (w_queue w') \<subseteq> insert (uuid_str u) (members (w_queue w))"
    using work_queue.enq_members [OF assms(1) e] q by simp
  show "uuid_str u \<in> members (w_queue w')" if "r = Inr ()"
    using work_queue.members_enq [OF assms(1)] e q that by auto
qed

end
