(* ===== verification/Task_Store.thy ===== *)
theory Task_Store
  imports World
begin

text \<open>
  The rows of single tasks (\<open>backend/app/repositories/orchestration.py\<close>): the creation
  of a task with its session and execution, and the queries the handlers, the worker and
  the recovery loop use.
\<close>

section \<open>Creating a task\<close>

record new_task =
  nt_agent_id :: string
  nt_input_text :: string
  nt_memory_session_id :: string
  nt_user_id :: "string option"
  nt_priority :: int
  nt_max_attempts :: nat
  nt_workspace_path :: string
  nt_session_id :: uuid
  nt_input_json :: json
  nt_retry_of_execution_id :: "uuid option"
  nt_agent_version_id :: "uuid option"
  nt_runtime_type :: string
  nt_workspace_type :: string
  nt_parent_task_id :: "uuid option"
  nt_workflow_id :: "uuid option"
  nt_workflow_run_id :: "uuid option"
  nt_node_key :: "string option"
  nt_node_type :: string
  nt_depends_on :: "string list"
  nt_task_input_data :: dict
  nt_initial_status :: task_status

definition new_session :: "instant \<Rightarrow> new_task \<Rightarrow> agent_session" where
  "new_session t r =
     \<lparr>ss_id = nt_session_id r, ss_agent_id = nt_agent_id r, ss_user_id = nt_user_id r,
      ss_memory_session_id = nt_memory_session_id r, ss_runtime_type = nt_runtime_type r,
      ss_runtime_session_id = None, ss_workspace_type = nt_workspace_type r,
      ss_status = X_queued, ss_input = nt_input_text r, ss_output = None,
      ss_workspace_path = nt_workspace_path r, ss_created_at = t, ss_started_at = None,
      ss_finished_at = None\<rparr>"

definition new_execution :: "instant \<Rightarrow> uuid \<Rightarrow> new_task \<Rightarrow> execution_log" where
  "new_execution t i r =
     \<lparr>ex_id = i, ex_agent_id = nt_agent_id r, ex_session_id = Some (nt_session_id r),
      ex_status = X_queued, ex_input = nt_input_text r,
      ex_input_json = py_or (nt_input_json r)
        (JObj [(''task'', JStr (nt_input_text r)), (''parameters'', JObj [])]),
      ex_output = None, ex_output_json = JNull, ex_error = None,
      ex_details = JObj [(''phase'', JStr ''queued''), (''queue_priority'', JInt (nt_priority r))],
      ex_response_mode = ''async'', ex_priority = Some (nt_priority r), ex_duration_ms = None,
      ex_token_usage = None, ex_runtime_type = nt_runtime_type r, ex_runtime_id = None,
      ex_runtime_version = None, ex_retry_of_execution_id = nt_retry_of_execution_id r,
      ex_agent_version_id = nt_agent_version_id r, ex_started_at = t, ex_finished_at = None\<rparr>"

definition new_agent_task :: "instant \<Rightarrow> uuid \<Rightarrow> uuid \<Rightarrow> new_task \<Rightarrow> agent_task" where
  "new_agent_task t i e r =
     \<lparr>tk_id = i, tk_parent_task_id = nt_parent_task_id r, tk_workflow_id = nt_workflow_id r,
      tk_workflow_run_id = nt_workflow_run_id r, tk_node_key = nt_node_key r,
      tk_node_type = nt_node_type r, tk_depends_on = nt_depends_on r,
      tk_input_data = nt_task_input_data r, tk_output_data = [], tk_agent_id = nt_agent_id r,
      tk_session_id = nt_session_id r, tk_execution_id = Some e, tk_priority = nt_priority r,
      tk_status = nt_initial_status r, tk_attempt = 0, tk_max_attempts = nt_max_attempts r,
      tk_worker_id = None, tk_error = None, tk_created_at = t, tk_started_at = None,
      tk_finished_at = None\<rparr>"

text \<open>
  The check constraints on \<open>priority\<close> and \<open>max_attempts\<close> refuse the transaction as a whole.
\<close>

definition create_task :: "instant \<Rightarrow> new_task \<Rightarrow> store \<Rightarrow> (exc + agent_task) \<times> store" where
  "create_task t r db =
     (let e = db_next_id db; task = new_agent_task t (Suc e) e r in
      if \<not> (0 \<le> nt_priority r \<and> nt_priority r \<le> 9 \<and> 1 \<le> nt_max_attempts r)
      then (Inl Integrity_exc, db)
      else (Inr task,
            db\<lparr>db_sessions := db_sessions db @ [new_session t r],
               db_executions := db_executions db @ [new_execution t e r],
               db_tasks := db_tasks db @ [task],
               db_next_id := Suc (Suc e)\<rparr>))"

section \<open>Queries\<close>

definition list_tasks ::
  "string option \<Rightarrow> task_status option \<Rightarrow> uuid option \<Rightarrow> uuid option \<Rightarrow> nat \<Rightarrow> store \<Rightarrow> agent_task list"
where
  "list_tasks agent_id status run_id parent_id limit db =
     take limit (sort_key (\<lambda>t. - tk_created_at t)
       (filter (\<lambda>t. (agent_id = None \<or> agent_id = Some [] \<or> agent_id = Some (tk_agent_id t)) \<and>
                   (status = None \<or> status = Some (tk_status t)) \<and>
                   (run_id = None \<or> run_id = tk_workflow_run_id t) \<and>
                   (parent_id = None \<or> parent_id = tk_parent_task_id t)) (db_tasks db)))"

definition list_sessions ::
  "string option \<Rightarrow> exec_status option \<Rightarrow> nat \<Rightarrow> store \<Rightarrow> agent_session list"
where
  "list_sessions agent_id status limit db =
     take limit (sort_key (\<lambda>s. - ss_created_at s)
       (filter (\<lambda>s. (agent_id = None \<or> agent_id = Some [] \<or> agent_id = Some (ss_agent_id s)) \<and>
                   (status = None \<or> status = Some (ss_status s))) (db_sessions db)))"

definition get_artifact :: "uuid \<Rightarrow> store \<Rightarrow> artifact option" where
  "get_artifact i db = row_get ar_id i (db_artifacts db)"

definition delete_artifact :: "uuid \<Rightarrow> store \<Rightarrow> store" where
  "delete_artifact i db =
     db\<lparr>db_artifacts := filter (\<lambda>a. ar_id a \<noteq> i) (db_artifacts db),
        db_execution_artifacts := filter (\<lambda>p. snd p \<noteq> i) (db_execution_artifacts db)\<rparr>"

definition list_artifacts ::
  "string option \<Rightarrow> uuid option \<Rightarrow> nat \<Rightarrow> store \<Rightarrow> artifact list"
where
  "list_artifacts agent_id session_id limit db =
     take limit (sort_key (\<lambda>a. - ar_created_at a)
       (filter (\<lambda>a. (agent_id = None \<or> agent_id = Some [] \<or> agent_id = Some (ar_agent_id a)) \<and>
                   (session_id = None \<or> session_id = Some (ar_session_id a))) (db_artifacts db)))"

definition workspace_summary :: "string \<Rightarrow> store \<Rightarrow> nat \<times> nat \<times> int" where
  "workspace_summary agent_id db =
     (let arts = filter (\<lambda>a. ar_agent_id a = agent_id) (db_artifacts db) in
      (length (filter (\<lambda>s. ss_agent_id s = agent_id) (db_sessions db)),
       length arts, sum_list (map ar_size_bytes arts)))"

text \<open>\<open>pending_tasks\<close>: what the recovery loop puts back on the queue, at most 500.\<close>

definition pending_tasks :: "store \<Rightarrow> agent_task list" where
  "pending_tasks db =
     take 500 (sort_key (\<lambda>t. (- tk_priority t, tk_created_at t))
       (filter (\<lambda>t. tk_status t \<in> {Pending, Retrying}) (db_tasks db)))"

definition stale_running_tasks :: "instant \<Rightarrow> nat \<Rightarrow> store \<Rightarrow> agent_task list" where
  "stale_running_tasks t stale_seconds db =
     filter (\<lambda>k. tk_status k = Running \<and>
                (case tk_started_at k of None \<Rightarrow> False | Some s \<Rightarrow> s < t - int stale_seconds * 1000000))
       (db_tasks db)"

definition list_run_tasks :: "uuid \<Rightarrow> store \<Rightarrow> agent_task list" where
  "list_run_tasks run_id db =
     sort_key (\<lambda>t. (tk_created_at t, tk_id t))
       (filter (\<lambda>t. tk_workflow_run_id t = Some run_id) (db_tasks db))"

section \<open>Well-formed stores\<close>

text \<open>
  Primary keys are unique and below the counter, every task has its session, and the
  attempts of a task stay within its limit.
\<close>

definition keys_ok :: "store \<Rightarrow> bool" where
  "keys_ok db \<longleftrightarrow>
     distinct (map tk_id (db_tasks db)) \<and> distinct (map ss_id (db_sessions db)) \<and>
     distinct (map ex_id (db_executions db)) \<and>
     (\<forall>t\<in>set (db_tasks db). tk_id t < db_next_id db) \<and>
     (\<forall>s\<in>set (db_sessions db). ss_id s < db_next_id db) \<and>
     (\<forall>x\<in>set (db_executions db). ex_id x < db_next_id db)"

definition tasks_ok :: "store \<Rightarrow> bool" where
  "tasks_ok db \<longleftrightarrow>
     (\<forall>t\<in>set (db_tasks db). tk_session_id t \<in> ss_id ` set (db_sessions db) \<and>
        (\<forall>e. tk_execution_id t = Some e \<longrightarrow> e \<in> ex_id ` set (db_executions db)) \<and>
        tk_attempt t \<le> tk_max_attempts t \<and> 1 \<le> tk_max_attempts t \<and>
        0 \<le> tk_priority t \<and> tk_priority t \<le> 9)"

lemma create_task_Inr:
  "create_task t r db = (Inr k, db') \<Longrightarrow>
     k = new_agent_task t (Suc (db_next_id db)) (db_next_id db) r \<and>
     db_tasks db' = db_tasks db @ [k] \<and> db_next_id db' = Suc (Suc (db_next_id db)) \<and>
     db_runs db' = db_runs db \<and> 0 \<le> nt_priority r \<and> nt_priority r \<le> 9"
  by (auto simp: create_task_def Let_def split: if_splits)

lemma create_task_Inl: "create_task t r db = (Inl e, db') \<Longrightarrow> db' = db"
  by (auto simp: create_task_def Let_def split: if_splits)

lemma create_task_keys_ok:
  assumes "keys_ok db" and "nt_session_id r < db_next_id db"
    and "nt_session_id r \<notin> ss_id ` set (db_sessions db)" and "create_task t r db = (k, db')"
  shows "keys_ok db'"
proof (cases "0 \<le> nt_priority r \<and> nt_priority r \<le> 9 \<and> 1 \<le> nt_max_attempts r")
  case True
  define i where "i = db_next_id db"
  have fresh: "i \<notin> ex_id ` set (db_executions db)" "Suc i \<notin> tk_id ` set (db_tasks db)"
    using assms(1) by (fastforce simp: keys_ok_def i_def)+
  have le: "\<forall>t\<in>set (db_tasks db). tk_id t < Suc (Suc i)" "\<forall>s\<in>set (db_sessions db). ss_id s < Suc (Suc i)"
    "\<forall>x\<in>set (db_executions db). ex_id x < Suc (Suc i)"
    using assms(1) by (auto simp: keys_ok_def i_def intro: less_SucI)
  show ?thesis
    using assms True fresh le
    by (auto simp: create_task_def Let_def keys_ok_def new_session_def new_execution_def
        new_agent_task_def i_def)
next
  case False
  then show ?thesis using assms by (auto simp: create_task_def Let_def)
qed

lemma create_task_tasks_ok:
  assumes "tasks_ok db" and "create_task t r db = (k, db')"
  shows "tasks_ok db'"
proof (cases "0 \<le> nt_priority r \<and> nt_priority r \<le> 9 \<and> 1 \<le> nt_max_attempts r")
  case True
  then show ?thesis
    using assms
    by (auto simp: create_task_def Let_def tasks_ok_def new_session_def new_execution_def
        new_agent_task_def)
next
  case False
  then show ?thesis using assms by (auto simp: create_task_def Let_def)
qed

lemma pending_tasks_set: "t \<in> set (pending_tasks db) \<Longrightarrow> t \<in> set (db_tasks db) \<and> tk_status t \<in> {Pending, Retrying}"
  by (auto simp: pending_tasks_def dest!: in_set_takeD)

lemma set_list_run_tasks:
  "set (list_run_tasks i db) = {t \<in> set (db_tasks db). tk_workflow_run_id t = Some i}"
  by (auto simp: list_run_tasks_def)

lemma distinct_list_run_tasks:
  "distinct (map tk_id (db_tasks db)) \<Longrightarrow> distinct (map tk_id (list_run_tasks i db))"
proof -
  assume "distinct (map tk_id (db_tasks db))"
  then have d: "distinct (map tk_id (filter (\<lambda>t. tk_workflow_run_id t = Some i) (db_tasks db)))"
    by (rule distinct_map_filter)
  then show ?thesis by (simp add: list_run_tasks_def distinct_map)
qed

section \<open>How the tasks of a store change\<close>

text \<open>
  Every task of the first store is in the second one, related by \<open>R\<close>; sessions and
  executions likewise. The handlers are analysed by composing such steps.
\<close>

definition tasks_rel :: "(agent_task \<Rightarrow> agent_task \<Rightarrow> bool) \<Rightarrow> store \<Rightarrow> store \<Rightarrow> bool" where
  "tasks_rel R db db' \<longleftrightarrow> (\<forall>k t. get_task k db = Some t \<longrightarrow> (\<exists>t'. get_task k db' = Some t' \<and> R t t'))"

lemma tasks_rel_refl: "(\<And>t. R t t) \<Longrightarrow> tasks_rel R db db"
  by (auto simp: tasks_rel_def)

lemma tasks_rel_same: "(\<And>t. R t t) \<Longrightarrow> db_tasks db' = db_tasks db \<Longrightarrow> tasks_rel R db db'"
  by (auto simp: tasks_rel_def)

lemma tasks_rel_trans:
  assumes "tasks_rel R a b" and "tasks_rel S b c" and "\<And>x y z. R x y \<Longrightarrow> S y z \<Longrightarrow> T x z"
  shows "tasks_rel T a c"
  unfolding tasks_rel_def
proof (intro allI impI)
  fix k x assume "get_task k a = Some x"
  then obtain y where "get_task k b = Some y" "R x y" using assms(1) by (auto simp: tasks_rel_def)
  moreover then obtain z where "get_task k c = Some z" "S y z"
    using assms(2) by (auto simp: tasks_rel_def)
  ultimately show "\<exists>z. get_task k c = Some z \<and> T x z" using assms(3) by blast
qed

lemma tasks_rel_mono: "tasks_rel R a b \<Longrightarrow> (\<And>x y. R x y \<Longrightarrow> S x y) \<Longrightarrow> tasks_rel S a b"
  by (fastforce simp: tasks_rel_def)

lemma tasks_rel_upd:
  assumes "\<And>t. tk_id (f t) = tk_id t" and "\<And>t. R t t"
    and "\<And>t. get_task k db = Some t \<Longrightarrow> R t (f t)"
  shows "tasks_rel R db (upd_task k f db)"
  unfolding tasks_rel_def
proof (intro allI impI)
  fix j t assume "get_task j db = Some t"
  then show "\<exists>t'. get_task j (upd_task k f db) = Some t' \<and> R t t'"
    using assms by (auto simp: task_get_upd)
qed

lemma tasks_rel_create: "(\<And>t. R t t) \<Longrightarrow> create_task i r db = (k, db') \<Longrightarrow> tasks_rel R db db'"
  by (auto simp: tasks_rel_def create_task_def Let_def row_get_append_new split: if_splits)

text \<open>
  The moves of a task's status the platform is designed for. A task that has succeeded,
  failed or been cancelled stays so.
\<close>

fun lifecycle :: "task_status \<Rightarrow> task_status \<Rightarrow> bool" where
  "lifecycle Waiting_child s \<longleftrightarrow> s \<in> {Waiting_child, Pending, Human_review, Cancelled, Failed}"
| "lifecycle Pending s \<longleftrightarrow> s \<in> {Pending, Running, Succeeded, Failed, Cancelled}"
| "lifecycle Retrying s \<longleftrightarrow> s \<in> {Retrying, Running, Succeeded, Failed, Cancelled}"
| "lifecycle Running s \<longleftrightarrow> s \<in> {Running, Succeeded, Retrying, Failed, Cancelled}"
| "lifecycle Human_review s \<longleftrightarrow> s \<in> {Human_review, Succeeded, Failed, Cancelled}"
| "lifecycle Succeeded s \<longleftrightarrow> s = Succeeded"
| "lifecycle Failed s \<longleftrightarrow> s = Failed"
| "lifecycle Cancelled s \<longleftrightarrow> s = Cancelled"

definition terminal :: "task_status \<Rightarrow> bool" where
  "terminal s \<longleftrightarrow> s \<in> {Succeeded, Failed, Cancelled}"

lemma lifecycle_refl [simp]: "lifecycle s s"
  by (cases s) simp_all

lemma lifecycle_terminal: "terminal s \<Longrightarrow> lifecycle s s' \<longleftrightarrow> s' = s"
  by (auto simp: terminal_def)

text \<open>Any number of moves.\<close>

definition evolves :: "task_status \<Rightarrow> task_status \<Rightarrow> bool" where
  "evolves = lifecycle\<^sup>*\<^sup>*"

lemma evolves_refl [simp]: "evolves s s"
  by (simp add: evolves_def)

lemma evolves_step: "lifecycle s s' \<Longrightarrow> evolves s s'"
  by (auto simp: evolves_def)

lemma evolves_trans: "evolves a b \<Longrightarrow> evolves b c \<Longrightarrow> evolves a c"
  by (simp add: evolves_def)

lemma evolves_terminal: "evolves s s' \<Longrightarrow> terminal s \<Longrightarrow> s' = s"
  unfolding evolves_def
  by (induction rule: rtranclp_induct) (auto simp: lifecycle_terminal)

text \<open>What no handler changes about a task.\<close>

definition same_task :: "agent_task \<Rightarrow> agent_task \<Rightarrow> bool" where
  "same_task t t' \<longleftrightarrow>
     tk_id t' = tk_id t \<and> tk_parent_task_id t' = tk_parent_task_id t \<and>
     tk_workflow_run_id t' = tk_workflow_run_id t \<and> tk_node_key t' = tk_node_key t \<and>
     tk_node_type t' = tk_node_type t \<and> tk_depends_on t' = tk_depends_on t \<and>
     tk_session_id t' = tk_session_id t \<and> tk_execution_id t' = tk_execution_id t \<and>
     tk_agent_id t' = tk_agent_id t \<and> tk_priority t' = tk_priority t \<and>
     tk_max_attempts t' = tk_max_attempts t \<and> tk_created_at t' = tk_created_at t"

definition lifecycle_step :: "agent_task \<Rightarrow> agent_task \<Rightarrow> bool" where
  "lifecycle_step t t' \<longleftrightarrow> same_task t t' \<and> evolves (tk_status t) (tk_status t')"

lemma same_task_refl [simp]: "same_task t t"
  by (simp add: same_task_def)

lemma lifecycle_step_refl [simp]: "lifecycle_step t t"
  by (simp add: lifecycle_step_def)

lemma lifecycle_step_trans: "lifecycle_step a b \<Longrightarrow> lifecycle_step b c \<Longrightarrow> lifecycle_step a c"
  by (auto simp: lifecycle_step_def same_task_def intro: evolves_trans)

lemmas lifecycle_rel_trans = tasks_rel_trans [where R = lifecycle_step and S = lifecycle_step
    and T = lifecycle_step, OF _ _ lifecycle_step_trans]

end
