(* ===== verification/Team_Store.thy ===== *)
theory Team_Store
  imports Task_Store
begin

text \<open>
  The rows of teams, workflows and runs (\<open>backend/app/repositories/multi_agent.py\<close>), with
  the constraints of the tables: unique team names, unique workflow names in a team, and
  at most one active run per team and conversation, a partial unique index that is
  proved to hold in every store the operations can produce.
\<close>

section \<open>Teams and members\<close>

definition create_team ::
  "instant \<Rightarrow> string \<Rightarrow> string option \<Rightarrow> string \<Rightarrow> agent_status \<Rightarrow> store \<Rightarrow> (exc + uuid) \<times> store"
where
  "create_team t name description owner status db =
     (if name \<in> tm_name ` set (db_teams db) then (Inl Integrity_exc, db)
      else
        let i = db_next_id db in
        (Inr i, db\<lparr>db_teams := db_teams db @
                     [\<lparr>tm_id = i, tm_name = name, tm_description = description,
                       tm_owner_agent_id = owner, tm_status = status, tm_created_at = t\<rparr>],
                   db_members := db_members db @
                     [\<lparr>mb_team_id = i, mb_agent_id = owner, mb_role = ''manager'', mb_priority = 100\<rparr>],
                   db_next_id := Suc i\<rparr>))"

definition team_members :: "uuid \<Rightarrow> store \<Rightarrow> team_member list" where
  "team_members i db = filter (\<lambda>m. mb_team_id m = i) (db_members db)"

definition list_teams :: "store \<Rightarrow> agent_team list" where
  "list_teams db = sort_key (\<lambda>t. - tm_created_at t) (db_teams db)"

text \<open>
  \<open>model_dump(exclude_unset=True)\<close>: \<open>None\<close> is a field left out, \<open>Some None\<close> an explicit
  null, which the columns \<open>name\<close> and \<open>status\<close> refuse.
\<close>

record team_update =
  tu_name :: "string option option"
  tu_description :: "string option option"
  tu_status :: "agent_status option option"

definition given :: "'a option option \<Rightarrow> 'a \<Rightarrow> 'a" where
  "given v old = (case v of Some (Some x) \<Rightarrow> x | _ \<Rightarrow> old)"

definition given_null :: "'a option option \<Rightarrow> 'a option \<Rightarrow> 'a option" where
  "given_null v old = (case v of Some x \<Rightarrow> x | None \<Rightarrow> old)"

definition update_team :: "uuid \<Rightarrow> team_update \<Rightarrow> store \<Rightarrow> (exc + unit) \<times> store" where
  "update_team i u db =
     (if tu_name u = Some None \<or> tu_status u = Some None then (Inl Integrity_exc, db)
      else if (\<exists>t\<in>set (db_teams db). tm_id t \<noteq> i \<and> tu_name u = Some (Some (tm_name t)))
      then (Inl Integrity_exc, db)
      else (Inr (), db\<lparr>db_teams := row_upd tm_id i (\<lambda>t. t\<lparr>
              tm_name := given (tu_name u) (tm_name t),
              tm_description := given_null (tu_description u) (tm_description t),
              tm_status := given (tu_status u) (tm_status t)\<rparr>) (db_teams db)\<rparr>))"

text \<open>Members and workflows go with the team; a run restricts the deletion.\<close>

definition delete_team :: "uuid \<Rightarrow> store \<Rightarrow> (exc + unit) \<times> store" where
  "delete_team i db =
     (if i \<in> wr_team_id ` set (db_runs db) then (Inl Integrity_exc, db)
      else (Inr (), db\<lparr>db_teams := filter (\<lambda>t. tm_id t \<noteq> i) (db_teams db),
                      db_members := filter (\<lambda>m. mb_team_id m \<noteq> i) (db_members db),
                      db_workflows := filter (\<lambda>w. wf_team_id w \<noteq> i) (db_workflows db)\<rparr>))"

definition upsert_member :: "uuid \<Rightarrow> string \<Rightarrow> string \<Rightarrow> int \<Rightarrow> store \<Rightarrow> store" where
  "upsert_member i agent_id role priority db =
     (if (i, agent_id) \<in> (\<lambda>m. (mb_team_id m, mb_agent_id m)) ` set (db_members db)
      then db\<lparr>db_members := row_upd (\<lambda>m. (mb_team_id m, mb_agent_id m)) (i, agent_id)
                (\<lambda>m. m\<lparr>mb_role := role, mb_priority := priority\<rparr>) (db_members db)\<rparr>
      else db\<lparr>db_members := db_members db @
                [\<lparr>mb_team_id = i, mb_agent_id = agent_id, mb_role = role, mb_priority = priority\<rparr>]\<rparr>)"

definition remove_member :: "uuid \<Rightarrow> string \<Rightarrow> store \<Rightarrow> bool \<times> store" where
  "remove_member i agent_id db =
     ((i, agent_id) \<in> (\<lambda>m. (mb_team_id m, mb_agent_id m)) ` set (db_members db),
      db\<lparr>db_members := filter (\<lambda>m. \<not> (mb_team_id m = i \<and> mb_agent_id m = agent_id)) (db_members db)\<rparr>)"

definition agents_share_team :: "string \<Rightarrow> string \<Rightarrow> store \<Rightarrow> bool" where
  "agents_share_team a b db \<longleftrightarrow>
     (\<exists>m\<in>set (db_members db). \<exists>n\<in>set (db_members db).
        mb_agent_id m = a \<and> mb_agent_id n = b \<and> mb_team_id m = mb_team_id n)"

section \<open>Workflows\<close>

definition create_workflow ::
  "instant \<Rightarrow> uuid \<Rightarrow> string \<Rightarrow> string option \<Rightarrow> workflow_status \<Rightarrow> node_spec list \<Rightarrow> store \<Rightarrow>
     (exc + uuid) \<times> store"
where
  "create_workflow t team name description status nodes db =
     (if (team, name) \<in> (\<lambda>w. (wf_team_id w, wf_name w)) ` set (db_workflows db)
      then (Inl Integrity_exc, db)
      else
        let i = db_next_id db in
        (Inr i, db\<lparr>db_workflows := db_workflows db @
                     [\<lparr>wf_id = i, wf_team_id = team, wf_name = name, wf_description = description,
                       wf_definition = JObj [(''nodes'', JArr (map node_json nodes))],
                       wf_status = status, wf_created_at = t\<rparr>],
                   db_next_id := Suc i\<rparr>))"

definition list_workflows :: "uuid option \<Rightarrow> store \<Rightarrow> workflow list" where
  "list_workflows team db =
     sort_key (\<lambda>w. - wf_created_at w)
       (filter (\<lambda>w. team = None \<or> team = Some (wf_team_id w)) (db_workflows db))"

record workflow_update =
  wu_name :: "string option option"
  wu_description :: "string option option"
  wu_status :: "workflow_status option option"
  wu_nodes :: "node_spec list option option"

definition update_workflow :: "uuid \<Rightarrow> workflow_update \<Rightarrow> store \<Rightarrow> (exc + unit) \<times> store" where
  "update_workflow i u db =
     (if wu_name u = Some None \<or> wu_status u = Some None then (Inl Integrity_exc, db)
      else if (\<exists>w\<in>set (db_workflows db). \<exists>v\<in>set (db_workflows db).
                 wf_id w = i \<and> wf_id v \<noteq> i \<and> wf_team_id v = wf_team_id w \<and> wu_name u = Some (Some (wf_name v)))
      then (Inl Integrity_exc, db)
      else (Inr (), db\<lparr>db_workflows := row_upd wf_id i (\<lambda>w. w\<lparr>
              wf_name := given (wu_name u) (wf_name w),
              wf_description := given_null (wu_description u) (wf_description w),
              wf_status := given (wu_status u) (wf_status w),
              wf_definition := (case wu_nodes u of
                 Some (Some ns) \<Rightarrow> JObj [(''nodes'', JArr (map node_json ns))]
               | _ \<Rightarrow> wf_definition w)\<rparr>) (db_workflows db)\<rparr>))"

text \<open>Runs and tasks outlive the definition: their reference is set to null.\<close>

definition delete_workflow :: "uuid \<Rightarrow> store \<Rightarrow> store" where
  "delete_workflow i db =
     db\<lparr>db_workflows := filter (\<lambda>w. wf_id w \<noteq> i) (db_workflows db),
        db_runs := map (\<lambda>r. if wr_workflow_id r = Some i then r\<lparr>wr_workflow_id := None\<rparr> else r) (db_runs db),
        db_tasks := map (\<lambda>t. if tk_workflow_id t = Some i then t\<lparr>tk_workflow_id := None\<rparr> else t) (db_tasks db)\<rparr>"

section \<open>Runs\<close>

definition active_run :: "workflow_run \<Rightarrow> bool" where
  "active_run r \<longleftrightarrow> wr_status r \<in> {R_pending, R_running, R_human_review}"

text \<open>The partial unique index \<open>uq_workflow_runs_active_team_session\<close>.\<close>

definition active_index_ok :: "workflow_run list \<Rightarrow> bool" where
  "active_index_ok rs \<longleftrightarrow>
     distinct (map (\<lambda>r. (wr_team_id r, wr_session_id r))
       (filter (\<lambda>r. active_run r \<and> wr_session_id r \<noteq> None) rs))"

definition create_run ::
  "instant \<Rightarrow> uuid \<Rightarrow> uuid option \<Rightarrow> string \<Rightarrow> string \<Rightarrow> store \<Rightarrow> (exc + uuid) \<times> store"
where
  "create_run t team workflow_id session_id input db =
     (let i = db_next_id db;
          r = \<lparr>wr_id = i, wr_workflow_id = workflow_id, wr_team_id = team,
               wr_session_id = Some session_id, wr_status = R_pending, wr_input = input,
               wr_output = None, wr_error = None, wr_created_at = t, wr_started_at = None,
               wr_finished_at = None\<rparr> in
      if list_ex (\<lambda>q. active_run q \<and> wr_team_id q = team \<and> wr_session_id q = Some session_id) (db_runs db)
      then (Inl Integrity_exc, db)
      else (Inr i, db\<lparr>db_runs := db_runs db @ [r], db_next_id := Suc i\<rparr>))"

definition list_runs ::
  "uuid option \<Rightarrow> uuid option \<Rightarrow> string option \<Rightarrow> bool \<Rightarrow> store \<Rightarrow> workflow_run list"
where
  "list_runs team workflow_id session_id active_only db =
     sort_key (\<lambda>r. - wr_created_at r)
       (filter (\<lambda>r. (team = None \<or> team = Some (wr_team_id r)) \<and>
                   (workflow_id = None \<or> workflow_id = wr_workflow_id r) \<and>
                   (session_id = None \<or> session_id = wr_session_id r) \<and>
                   (active_only \<longrightarrow> active_run r)) (db_runs db))"

text \<open>Whether the conversation exists, and the workflow its first run fixed.\<close>

definition conversation_mode :: "uuid \<Rightarrow> string \<Rightarrow> store \<Rightarrow> bool \<times> uuid option" where
  "conversation_mode team session_id db =
     (case sort_key wr_created_at
             (filter (\<lambda>r. wr_team_id r = team \<and> wr_session_id r = Some session_id) (db_runs db)) of
        [] \<Rightarrow> (False, None)
      | r # _ \<Rightarrow> (True, wr_workflow_id r))"

definition list_conversation_runs ::
  "uuid \<Rightarrow> string \<Rightarrow> nat \<Rightarrow> nat \<Rightarrow> store \<Rightarrow> workflow_run list \<times> nat"
where
  "list_conversation_runs team session_id limit offset db =
     (let rs = filter (\<lambda>r. wr_team_id r = team \<and> wr_session_id r = Some session_id) (db_runs db)
      in (take limit (drop offset (sort_key wr_created_at rs)), length rs))"

record conversation_summary =
  cv_team_id :: uuid
  cv_session_id :: string
  cv_workflow_id :: "uuid option"
  cv_workflow_name :: "string option"
  cv_title :: string
  cv_latest_run_id :: uuid
  cv_latest_status :: run_status
  cv_run_count :: nat
  cv_created_at :: instant
  cv_updated_at :: instant

definition conversation_summary_of :: "uuid \<Rightarrow> store \<Rightarrow> string \<Rightarrow> conversation_summary option" where
  "conversation_summary_of team db session_id =
     (let rs = sort_key wr_created_at
                 (filter (\<lambda>r. wr_team_id r = team \<and> wr_session_id r = Some session_id) (db_runs db)) in
      if rs = [] then None
      else Some
        \<lparr>cv_team_id = team, cv_session_id = session_id,
         cv_workflow_id = wr_workflow_id (hd rs),
         cv_workflow_name = (case wr_workflow_id (hd rs) of None \<Rightarrow> None
            | Some w \<Rightarrow> map_option wf_name (get_workflow w db)),
         cv_title = wr_input (hd rs), cv_latest_run_id = wr_id (last rs),
         cv_latest_status = wr_status (last rs), cv_run_count = length rs,
         cv_created_at = Min (set (map wr_created_at rs)),
         cv_updated_at = Max (set (map wr_created_at rs))\<rparr>)"

definition list_conversations ::
  "uuid \<Rightarrow> nat \<Rightarrow> nat \<Rightarrow> store \<Rightarrow> conversation_summary list \<times> nat"
where
  "list_conversations team limit offset db =
     (let rs = filter (\<lambda>r. wr_team_id r = team \<and> wr_session_id r \<noteq> None) (db_runs db);
          sessions = dedupe (map (\<lambda>r. the (wr_session_id r)) rs);
          updated = (\<lambda>s. Max (set (map wr_created_at (filter (\<lambda>r. wr_session_id r = Some s) rs))));
          page = take limit (drop offset (sort_key (\<lambda>s. - updated s) sessions))
      in (List.map_filter (conversation_summary_of team db) page, length sessions))"

section \<open>What the operations keep\<close>

lemma create_run_Inr:
  "create_run t team w s i db = (Inr k, db') \<Longrightarrow>
     k = db_next_id db \<and> db_next_id db' = Suc k \<and> db_tasks db' = db_tasks db \<and>
     db_sessions db' = db_sessions db \<and> db_executions db' = db_executions db \<and>
     db_agents db' = db_agents db \<and>
     (\<exists>r. db_runs db' = db_runs db @ [r] \<and> wr_id r = k \<and> wr_team_id r = team \<and>
        wr_session_id r = Some s \<and> wr_status r = R_pending \<and> wr_input r = i \<and> wr_workflow_id r = w)"
  by (auto simp: create_run_def Let_def split: if_splits)

lemma create_run_tasks: "create_run t team w s i db = (r, db') \<Longrightarrow> db_tasks db' = db_tasks db"
  by (auto simp: create_run_def Let_def split: if_splits)

lemma create_run_active_index:
  assumes "active_index_ok (db_runs db)" and "create_run t team w s i db = (k, db')"
  shows "active_index_ok (db_runs db')"
  using assms
  by (auto simp: create_run_def active_index_ok_def Let_def list_ex_iff split: if_splits)

lemma create_run_refused:
  "create_run t team w s i db = (Inl e, db') \<longleftrightarrow>
     e = Integrity_exc \<and> db' = db \<and>
     (\<exists>r\<in>set (db_runs db). active_run r \<and> wr_team_id r = team \<and> wr_session_id r = Some s)"
  by (auto simp: create_run_def Let_def list_ex_iff)

text \<open>Ending a run, or moving an active run to another active status, keeps the index.\<close>

lemma active_index_upd:
  assumes "active_index_ok rs" and "distinct (map wr_id rs)"
    and "\<And>r. wr_id (f r) = wr_id r" and "\<And>r. wr_team_id (f r) = wr_team_id r"
    and "\<And>r. wr_session_id (f r) = wr_session_id r"
    and "\<And>r. r \<in> set rs \<Longrightarrow> wr_id r = k \<Longrightarrow> active_run (f r) \<Longrightarrow> active_run r"
  shows "active_index_ok (row_upd wr_id k f rs)"
  using assms(1,2,6)
proof (induction rs)
  case (Cons r rs)
  have sub: "set (map (\<lambda>r. (wr_team_id r, wr_session_id r))
        (filter (\<lambda>r. active_run r \<and> wr_session_id r \<noteq> None) (row_upd wr_id k f rs)))
      \<subseteq> set (map (\<lambda>r. (wr_team_id r, wr_session_id r))
        (filter (\<lambda>r. active_run r \<and> wr_session_id r \<noteq> None) rs))"
    using Cons.prems(3) assms(3-5) by (fastforce simp: row_upd_def)
  have ih: "active_index_ok (row_upd wr_id k f rs)"
    using Cons by (auto simp: active_index_ok_def split: if_splits)
  then show ?case
    using Cons.prems sub assms(3-5)
    by (auto simp: active_index_ok_def row_upd_def split: if_splits)
qed (simp add: row_upd_def)



text \<open>\<open>upsert_member\<close> keeps one row per member.\<close>

lemma upsert_member_keys:
  assumes "distinct (map (\<lambda>m. (mb_team_id m, mb_agent_id m)) (db_members db))"
  shows "distinct (map (\<lambda>m. (mb_team_id m, mb_agent_id m)) (db_members (upsert_member i a r p db)))"
proof -
  have "map (\<lambda>m. (mb_team_id m, mb_agent_id m)) (row_upd (\<lambda>m. (mb_team_id m, mb_agent_id m)) (i, a)
      (\<lambda>m. m\<lparr>mb_role := r, mb_priority := p\<rparr>) (db_members db)) =
    map (\<lambda>m. (mb_team_id m, mb_agent_id m)) (db_members db)"
    by (simp add: row_upd_def)
  with assms show ?thesis by (auto simp: upsert_member_def image_iff)
qed

lemma create_workflow_stored:
  assumes "create_workflow t team name d st ns db = (Inr i, db')" and "check_nodes ns = Inr ()"
    and "i \<notin> wf_id ` set (db_workflows db)"
  shows "\<exists>w. get_workflow i db' = Some w \<and> wf_definition w = JObj [(''nodes'', JArr (map node_json ns))] \<and>
    nodes_of_json (map node_json ns) = Inr ns"
proof -
  have "row_get wf_id i (db_workflows db) = None" using assms(3) by (simp add: row_get_None)
  then show ?thesis
    using assms(1) nodes_round_trip [OF assms(2)]
    by (auto simp: create_workflow_def Let_def row_get_append_new split: if_splits)
qed

end
