(* ===== verification/Orchestrator.thy ===== *)
theory Orchestrator
  imports Team_Store
begin

text \<open>
  The orchestrator (\<open>backend/app/orchestrator.py\<close>): a run of a team or of a workflow is a
  manager task and its children; \<open>reconcile_run\<close> releases the children whose dependencies
  have succeeded, then the manager, and settles the run. Children are visited one by one
  on the live rows, as the loop over ORM objects does.
\<close>

section \<open>Texts\<close>

text \<open>The Chinese phrases of the prompts, as UTF-8.\<close>

definition txt_requirement :: string where
  "txt_requirement = utf8 [232, 138, 130, 231, 130, 185, 232, 166, 129, 230, 177, 130, 239, 188, 154]"

definition txt_team_task :: string where
  "txt_team_task = utf8 [229, 155, 162, 233, 152, 159, 230, 128, 187, 228, 187, 187, 229, 138, 161, 239, 188, 154]"

definition txt_your_role :: string where
  "txt_your_role = utf8 [228, 189, 160, 231, 154, 132, 232, 129, 140, 232, 180, 163, 239, 188, 154]"

definition txt_node_type :: string where
  "txt_node_type = utf8 [232, 138, 130, 231, 130, 185, 231, 177, 187, 229, 158, 139, 239, 188, 154]"

definition txt_summarise :: string where
  "txt_summarise = utf8 [232, 175, 183, 228, 189, 156, 228, 184, 186, 32, 77, 97, 110, 97, 103, 101, 114, 32,
     65, 103, 101, 110, 116, 32, 230, 177, 135, 230, 128, 187, 229, 185, 182, 230, 160, 161, 233, 170, 140,
     229, 155, 162, 233, 152, 159, 231, 187, 147, 230, 158, 156, 227, 128, 130]"

definition txt_original :: string where
  "txt_original = utf8 [229, 142, 159, 229, 167, 139, 228, 187, 187, 229, 138, 161, 239, 188, 154]"

definition txt_no_output :: string where
  "txt_no_output = utf8 [40, 230, 151, 160, 232, 190, 147, 229, 135, 186, 41]"

definition orchestration_memory_session_id ::
  "(string \<Rightarrow> string) \<Rightarrow> string \<Rightarrow> uuid \<Rightarrow> string \<Rightarrow> string" where
  "orchestration_memory_session_id sha256 client_session_id team_id node_key =
     ''ma-'' @ take 16 (uuid_hex team_id) @ ''-'' @
     take 40 (sha256 (uuid_str team_id @ '':'' @ client_session_id @ '':'' @ node_key))"

definition manager_execution_input :: "json \<Rightarrow> string \<Rightarrow> uuid \<Rightarrow> json" where
  "manager_execution_input existing task run_id =
     JObj (dset ''orchestration_run_id'' (JStr (uuid_str run_id)) (dset ''task'' (JStr task) (as_obj existing)))"

definition node_prompt :: "(json \<Rightarrow> string) \<Rightarrow> string \<Rightarrow> string \<Rightarrow> string \<Rightarrow> dict \<Rightarrow> string" where
  "node_prompt rep original role node_type config =
     (let instruction = strip (py_str rep (py_or (dget config ''instruction'') (JStr [])));
          suffix = (if instruction = [] then [] else newline @ txt_requirement @ instruction)
      in txt_team_task @ original @ newline @ txt_your_role @ role @ newline @ txt_node_type @ node_type @ suffix)"

definition task_output :: "store \<Rightarrow> agent_task \<Rightarrow> string option" where
  "task_output db t = (case get_session (tk_session_id t) db of None \<Rightarrow> None | Some s \<Rightarrow> ss_output s)"

definition child_results :: "store \<Rightarrow> agent_task list \<Rightarrow> json list" where
  "child_results db children =
     map (\<lambda>t. JObj [(''node_key'', opt_str (tk_node_key t)), (''agent_id'', JStr (tk_agent_id t)),
                   (''output'', opt_str (task_output db t))]) children"

text \<open>\<open>f"{task.node_key}"\<close> of a missing key is \<open>None\<close>.\<close>

definition key_text :: "string option \<Rightarrow> string" where
  "key_text k = (case k of None \<Rightarrow> ''None'' | Some s \<Rightarrow> s)"

definition manager_prompt :: "store \<Rightarrow> string \<Rightarrow> agent_task list \<Rightarrow> string" where
  "manager_prompt db original children =
     join newline ([txt_summarise, txt_original @ original] @
       map (\<lambda>t. newline @ ''['' @ key_text (tk_node_key t) @ '' / '' @ tk_agent_id t @ '']'' @ newline @
                (case task_output db t of None \<Rightarrow> txt_no_output | Some [] \<Rightarrow> txt_no_output | Some s \<Rightarrow> s))
         children)"

section \<open>Creating the tasks of a run\<close>

record run_request =
  rq_input :: string
  rq_session_id :: string
  rq_user_id :: "string option"
  rq_priority :: int
  rq_parameters :: dict

definition orch_create_task ::
  "('q, 'b) env \<Rightarrow> agent \<Rightarrow> workflow_run \<Rightarrow> run_request \<Rightarrow> string \<Rightarrow> string \<Rightarrow> uuid option \<Rightarrow> string \<Rightarrow>
     task_status \<Rightarrow> uuid option \<Rightarrow> string list \<Rightarrow> dict \<Rightarrow> ('q, 'b, agent_task) act"
where
  "orch_create_task E agent run payload node_key node_type parent role status workflow_id depends_on config w =
     (let sid = db_next_id (w_db w);
          w1 = upd_db (\<lambda>db. db\<lparr>db_next_id := Suc sid\<rparr>) w in
      case normalize_capability_profile (ag_capability_profile agent) (ag_runtime_type agent) of
        Inl e \<Rightarrow> (Inl (Profile_exc e), w1)
      | Inr profile \<Rightarrow>
        (case create_session (env_workspace_root E) (ag_id agent) sid (pr_workspace_type profile) (w_fs w1) of
           Inl Symlink_loop \<Rightarrow> (Inl (Fs_exc Symlink_loop), w1)
         | Inl _ \<Rightarrow> (Inl (Orchestrator_exc ''task workspace creation failed''), w1)
         | Inr (ws, fs) \<Rightarrow>
           (let w2 = w1\<lparr>w_fs := fs\<rparr>;
                task_input = node_prompt (env_rep E) (rq_input payload) role node_type config in
            case relative (env_workspace_root E) fs (ws_root ws) of
              Inl e \<Rightarrow> (Inl (Fs_exc e), w2)
            | Inr workspace_path \<Rightarrow>
                db_call (create_task (now w2)
                  \<lparr>nt_agent_id = ag_id agent, nt_input_text = task_input,
                   nt_memory_session_id = orchestration_memory_session_id (env_sha256 E)
                     (rq_session_id payload) (wr_team_id run) node_key,
                   nt_user_id = rq_user_id payload, nt_priority = rq_priority payload,
                   nt_max_attempts = env_task_max_attempts E, nt_workspace_path = workspace_path,
                   nt_session_id = sid,
                   nt_input_json = JObj
                     [(''task'', JStr task_input), (''parameters'', JObj (rq_parameters payload)),
                      (''orchestration_run_id'', JStr (uuid_str (wr_id run))),
                      (''team_conversation_session_id'', JStr (rq_session_id payload)),
                      (''node_key'', JStr node_key), (''node_type'', JStr node_type)],
                   nt_retry_of_execution_id = None,
                   nt_agent_version_id = ag_current_version_id agent,
                   nt_runtime_type = ag_runtime_type agent,
                   nt_workspace_type = pr_workspace_type profile,
                   nt_parent_task_id = parent, nt_workflow_id = workflow_id,
                   nt_workflow_run_id = Some (wr_id run), nt_node_key = Some node_key,
                   nt_node_type = node_type, nt_depends_on = depends_on,
                   nt_task_input_data = [(''role'', JStr role), (''config'', JObj config),
                     (''original_input'', JStr (rq_input payload))],
                   nt_initial_status = status\<rparr>) w2)))"

text \<open>\<open>_publish_task\<close>: an unavailable bus is ignored.\<close>

definition publish_task ::
  "('q, 'b) env \<Rightarrow> agent_task \<Rightarrow> agent_task \<Rightarrow> string \<Rightarrow> ('q, 'b, unit) act"
where
  "publish_task E rt task input_text w =
     (case publish_message E (tk_agent_id rt) (tk_agent_id task) ''task''
             [(''input'', JStr input_text), (''node_key'', opt_str (tk_node_key task))]
             (Some (uuid_str (tk_id task))) w of
        (_, w') \<Rightarrow> (Inr (), w'))"

definition announce ::
  "('q, 'b) env \<Rightarrow> agent_task \<Rightarrow> string \<Rightarrow> agent_task \<Rightarrow> ('q, 'b, unit) act"
where
  "announce E rt input_text task =
     abind (enqueue_task E (tk_id task) (tk_priority task)) (\<lambda>_. publish_task E rt task input_text)"

definition start_run :: "run_status \<Rightarrow> uuid \<Rightarrow> ('q, 'b, unit) act" where
  "start_run s i w =
     change (upd_run i (\<lambda>r. r\<lparr>wr_status := s, wr_started_at := Some (now w)\<rparr>)) w"

section \<open>Team runs\<close>

text \<open>The active members but the owner, by falling priority, then by id.\<close>

fun active_members ::
  "store \<Rightarrow> string \<Rightarrow> team_member list \<Rightarrow> exc + (team_member \<times> agent) list"
where
  "active_members db owner [] = Inr []"
| "active_members db owner (m # ms) =
     (if mb_agent_id m = owner then active_members db owner ms
      else (case get_agent (mb_agent_id m) db of
              None \<Rightarrow> Inl Missing_row
            | Some a \<Rightarrow>
                if ag_status a \<noteq> A_active then active_members db owner ms
                else rbind (active_members db owner ms) (\<lambda>rest. Inr ((m, a) # rest))))"

definition sorted_members :: "uuid \<Rightarrow> store \<Rightarrow> team_member list" where
  "sorted_members team db = sort_key (\<lambda>m. (- mb_priority m, mb_agent_id m)) (team_members team db)"

definition submit_team_run ::
  "('q, 'b) env \<Rightarrow> agent_team \<Rightarrow> run_request \<Rightarrow> ('q, 'b, uuid) act"
where
  "submit_team_run E team payload w0 =
     (abind (db_call (create_run (now w0) (tm_id team) None (rq_session_id payload) (rq_input payload))) (\<lambda>i w.
        case (get_run i (w_db w), get_agent (tm_owner_agent_id team) (w_db w)) of
          (Some run, Some owner) \<Rightarrow>
            abind (orch_create_task E owner run payload ''__manager__'' ''agent'' None ''manager''
                     Waiting_child None [] []) (\<lambda>rt w.
              case active_members (w_db w) (tm_owner_agent_id team) (sorted_members (tm_id team) (w_db w)) of
                Inl e \<Rightarrow> (Inl e, w)
              | Inr members \<Rightarrow>
                  abind (amap (\<lambda>(m, a). orch_create_task E a run payload (''member-'' @ mb_agent_id m)
                               ''agent'' (Some (tk_id rt)) (mb_role m) Pending None [] []) members) (\<lambda>children.
                  abind (start_run R_running i) (\<lambda>_.
                    if children = []
                    then abind (change (upd_task (tk_id rt) (\<lambda>t. t\<lparr>tk_status := Pending\<rparr>))) (\<lambda>_.
                         abind (enqueue_task E (tk_id rt) (tk_priority rt)) (\<lambda>_. aret i))
                    else abind (afor (announce E rt (rq_input payload)) children) (\<lambda>_. aret i))) w) w
        | _ \<Rightarrow> (Inl Missing_row, w))) w0"

section \<open>Workflow runs\<close>

fun resolve_agents ::
  "agent_team \<Rightarrow> (string \<Rightarrow> agent option) \<Rightarrow> node_spec list \<Rightarrow> exc + (string \<times> agent) list"
where
  "resolve_agents team members [] = Inr []"
| "resolve_agents team members (n # ns) =
     (let agent_id = (case nd_agent_id n of None \<Rightarrow> tm_owner_agent_id team
                        | Some [] \<Rightarrow> tm_owner_agent_id team | Some a \<Rightarrow> a) in
      case members agent_id of
        None \<Rightarrow> Inl (Orchestrator_exc (''workflow node '' @ nd_key n @ '' references an unavailable team Agent''))
      | Some a \<Rightarrow>
          if ag_status a \<noteq> A_active
          then Inl (Orchestrator_exc (''workflow node '' @ nd_key n @ '' references an unavailable team Agent''))
          else rbind (resolve_agents team members ns) (\<lambda>rest. Inr ((nd_key n, a) # rest)))"

definition initial_status :: "node_spec \<Rightarrow> task_status" where
  "initial_status n =
     (if nd_type n = Human_approval \<and> nd_depends_on n = [] then Human_review
      else if nd_depends_on n \<noteq> [] then Waiting_child
      else Pending)"

definition member_agent :: "uuid \<Rightarrow> store \<Rightarrow> string \<Rightarrow> agent option" where
  "member_agent team db a =
     (if a \<in> mb_agent_id ` set (team_members team db) then get_agent a db else None)"

definition create_node_task ::
  "('q, 'b) env \<Rightarrow> (string \<Rightarrow> agent option) \<Rightarrow> workflow_run \<Rightarrow> run_request \<Rightarrow> uuid \<Rightarrow> uuid \<Rightarrow> node_spec \<Rightarrow>
     ('q, 'b, agent_task) act"
where
  "create_node_task E resolved run payload root_id workflow_id n w =
     (case resolved (nd_key n) of
        None \<Rightarrow> (Inl Missing_row, w)
      | Some a \<Rightarrow> orch_create_task E a run payload (nd_key n) (node_type_str (nd_type n)) (Some root_id)
                   (nd_name n) (initial_status n) (Some workflow_id) (nd_depends_on n) (nd_config n) w)"

definition submit_workflow_run ::
  "('q, 'b) env \<Rightarrow> agent_team \<Rightarrow> workflow \<Rightarrow> run_request \<Rightarrow> ('q, 'b, uuid) act"
where
  "submit_workflow_run E team flow payload w0 =
     (case nodes_of_json (as_arr (dget_default (as_obj (wf_definition flow)) ''nodes'' (JArr []))) of
        Inl e \<Rightarrow> (Inl (Dag_exc e), w0)
      | Inr nodes \<Rightarrow>
        if nodes = [] then (Inl (Orchestrator_exc ''workflow has no executable nodes''), w0)
        else (case resolve_agents team (member_agent (tm_id team) (w_db w0)) nodes of
          Inl e \<Rightarrow> (Inl e, w0)
        | Inr pairs \<Rightarrow>
          (let resolved = map_of (rev pairs) in
           abind (db_call (create_run (now w0) (tm_id team) (Some (wf_id flow))
                    (rq_session_id payload) (rq_input payload))) (\<lambda>i w.
             case (get_run i (w_db w), get_agent (tm_owner_agent_id team) (w_db w)) of
               (Some run, Some owner) \<Rightarrow>
                 abind (orch_create_task E owner run payload ''__manager__'' ''agent'' None ''manager''
                          Waiting_child (Some (wf_id flow)) [] []) (\<lambda>rt.
                 abind (amap (create_node_task E resolved run payload (tk_id rt) (wf_id flow)) nodes) (\<lambda>children.
                 abind (start_run (if list_ex (\<lambda>n. nd_type n = Human_approval \<and> nd_depends_on n = []) nodes
                                   then R_human_review else R_running) i) (\<lambda>_.
                 abind (afor (announce E rt (rq_input payload))
                          (filter (\<lambda>t. tk_status t = Pending) children)) (\<lambda>_. aret i)))) w
             | _ \<Rightarrow> (Inl Missing_row, w)) w0)))"

section \<open>Reconciliation\<close>

definition py_truncate :: "nat \<Rightarrow> string \<Rightarrow> string" where
  "py_truncate = py_take"

definition fail_run :: "instant \<Rightarrow> uuid \<Rightarrow> uuid \<Rightarrow> string \<Rightarrow> store \<Rightarrow> store" where
  "fail_run t run_id root_id msg db =
     (let db1 = upd_run run_id (\<lambda>r. r\<lparr>wr_status := R_failed, wr_error := Some (py_truncate 2000 msg),
                                    wr_finished_at := Some t\<rparr>) db in
      case get_task root_id db1 of
        None \<Rightarrow> db1
      | Some rt \<Rightarrow>
          if tk_status rt \<in> {Waiting_child, Pending}
          then upd_session (tk_session_id rt) (\<lambda>s. s\<lparr>ss_status := X_failed, ss_finished_at := Some t\<rparr>)
                 (upd_task root_id (\<lambda>k. k\<lparr>tk_status := Failed, tk_error := Some (py_truncate 2000 msg),
                                         tk_finished_at := Some t\<rparr>) db1)
          else db1)"

text \<open>\<open>{task.node_key: task for task in children if task.node_key}\<close>; the last one wins.\<close>

definition children_by_key :: "agent_task list \<Rightarrow> string \<Rightarrow> uuid option" where
  "children_by_key children =
     map_of (rev (map (\<lambda>t. (the (tk_node_key t), tk_id t))
                    (filter (\<lambda>t. tk_node_key t \<noteq> None \<and> tk_node_key t \<noteq> Some []) children)))"

definition status_of :: "store \<Rightarrow> uuid \<Rightarrow> task_status option" where
  "status_of db i = map_option tk_status (get_task i db)"

text \<open>
  The loop over the waiting children, with the list of released ids; an unknown
  dependency ends it with the message the run fails with.
\<close>

definition release_one ::
  "instant \<Rightarrow> agent_task \<Rightarrow> uuid list \<Rightarrow> store \<Rightarrow> bool \<times> store"
where
  "release_one t task deps db =
     (if list_ex (\<lambda>d. status_of db d \<in> {Some Failed, Some Cancelled}) deps
      then (False, upd_task (tk_id task) (\<lambda>k. k\<lparr>tk_status := Cancelled,
              tk_error := Some ''dependency failed or was cancelled'', tk_finished_at := Some t\<rparr>) db)
      else if deps \<noteq> [] \<and> list_all (\<lambda>d. status_of db d = Some Succeeded) deps
      then (if tk_node_type task = ''human_approval''
            then (False, upd_task (tk_id task) (\<lambda>k. k\<lparr>tk_status := Human_review\<rparr>) db)
            else (True, upd_task (tk_id task) (\<lambda>k. k\<lparr>tk_status := Pending\<rparr>) db))
      else (False, db))"

fun release_children ::
  "instant \<Rightarrow> (string \<Rightarrow> uuid option) \<Rightarrow> uuid list \<Rightarrow> store \<Rightarrow> (string + uuid list) \<times> store"
where
  "release_children t keys [] db = (Inr [], db)"
| "release_children t keys (i # is) db =
     (case get_task i db of
        None \<Rightarrow> release_children t keys is db
      | Some task \<Rightarrow>
          if tk_status task \<noteq> Waiting_child then release_children t keys is db
          else if list_ex (\<lambda>k. keys k = None) (tk_depends_on task)
          then (Inl (''task '' @ key_text (tk_node_key task) @ '' dependency is missing''), db)
          else (case release_one t task (map (\<lambda>k. the (keys k)) (tk_depends_on task)) db of
                  (released, db') \<Rightarrow>
                    (case release_children t keys is db' of
                       (Inl m, db'') \<Rightarrow> (Inl m, db'')
                     | (Inr rs, db'') \<Rightarrow> (Inr (if released then i # rs else rs), db''))))"

definition find_root :: "agent_task list \<Rightarrow> agent_task option" where
  "find_root tasks = find (\<lambda>t. tk_parent_task_id t = None) tasks"

definition children_of :: "agent_task \<Rightarrow> agent_task list \<Rightarrow> agent_task list" where
  "children_of rt tasks = filter (\<lambda>t. tk_parent_task_id t = Some (tk_id rt)) tasks"

text \<open>The manager task gets the children's results and becomes pending.\<close>

definition release_root :: "uuid \<Rightarrow> agent_task \<Rightarrow> workflow_run \<Rightarrow> agent_task list \<Rightarrow> store \<Rightarrow> store" where
  "release_root run_id rt run children db =
     (let prompt = manager_prompt db (wr_input run) children;
          results = child_results db children;
          db1 = upd_session (tk_session_id rt) (\<lambda>s. s\<lparr>ss_input := prompt\<rparr>) db;
          db2 = upd_task (tk_id rt) (\<lambda>k. k\<lparr>tk_input_data := dset ''child_results'' (JArr results) (tk_input_data k)\<rparr>) db1;
          db3 = upd_task_execution rt (\<lambda>x. x\<lparr>ex_input := prompt,
                   ex_input_json := manager_execution_input (ex_input_json x) prompt run_id\<rparr>) db2
      in upd_task (tk_id rt) (\<lambda>k. k\<lparr>tk_status := Pending\<rparr>) db3)"

definition or_text :: "string option \<Rightarrow> string \<Rightarrow> string" where
  "or_text v d = (case v of None \<Rightarrow> d | Some s \<Rightarrow> if s = [] then d else s)"

text \<open>The second half of \<open>reconcile_run\<close>, on the tasks as the loop left them.\<close>

definition settle_run :: "('q, 'b) env \<Rightarrow> uuid \<Rightarrow> ('q, 'b, unit) act" where
  "settle_run E run_id w =
     (let tasks = list_run_tasks run_id (w_db w) in
      case (get_run run_id (w_db w), find_root tasks) of
        (Some run, Some rt) \<Rightarrow>
          (let children = children_of rt tasks in
           if list_ex (\<lambda>t. tk_status t = Human_review) children
           then change (upd_run run_id (\<lambda>r. r\<lparr>wr_status := R_human_review\<rparr>)) w
           else
             let w1 = upd_db (upd_run run_id (\<lambda>r. r\<lparr>wr_status := R_running\<rparr>)) w in
             if children \<noteq> [] \<and> list_all (\<lambda>t. tk_status t = Succeeded) children \<and> tk_status rt = Waiting_child
             then abind (change (release_root run_id rt run children)) (\<lambda>_.
                    enqueue_task E (tk_id rt) (tk_priority rt)) w1
             else if tk_status rt = Succeeded
             then change (upd_run run_id (\<lambda>r. r\<lparr>wr_status := R_succeeded, wr_output := task_output (w_db w1) rt,
                    wr_error := None,
                    wr_finished_at := Some (case tk_finished_at rt of Some f \<Rightarrow> f | None \<Rightarrow> now w)\<rparr>)) w1
             else if tk_status rt = Failed
             then change (fail_run (now w) run_id (tk_id rt) (or_text (tk_error rt) ''manager Agent failed'')) w1
             else (Inr (), w1))
      | _ \<Rightarrow> (Inl Missing_row, w))"

definition reconcile_run :: "('q, 'b) env \<Rightarrow> uuid \<Rightarrow> ('q, 'b, unit) act" where
  "reconcile_run E run_id w =
     (let tasks = list_run_tasks run_id (w_db w) in
      case find_root tasks of
        None \<Rightarrow> change (upd_run run_id (\<lambda>r. r\<lparr>wr_status := R_failed,
                  wr_error := Some ''orchestration root task is missing'', wr_finished_at := Some (now w)\<rparr>)) w
      | Some rt \<Rightarrow>
        (let children = children_of rt tasks in
         case find (\<lambda>t. tk_status t = Failed) children of
           Some f \<Rightarrow> change (fail_run (now w) run_id (tk_id rt)
                       (or_text (tk_error f) (''task '' @ key_text (tk_node_key f) @ '' failed''))) w
         | None \<Rightarrow>
           (case release_children (now w) (children_by_key children) (map tk_id children) (w_db w) of
              (Inl msg, db) \<Rightarrow> change (fail_run (now w) run_id (tk_id rt) msg) (w\<lparr>w_db := db\<rparr>)
            | (Inr changed, db) \<Rightarrow>
                abind (afor (\<lambda>i w. case (get_task i (w_db w), get_run run_id (w_db w)) of
                               (Some task, Some run) \<Rightarrow> announce E rt (wr_input run) task w
                             | _ \<Rightarrow> (Inl Missing_row, w)) changed)
                      (\<lambda>_. settle_run E run_id) (w\<lparr>w_db := db\<rparr>))))"

text \<open>One pass of \<open>OrchestratorWorker\<close> over the active runs; an exception ends the pass.\<close>

definition orchestrator_pass :: "('q, 'b) env \<Rightarrow> ('q, 'b, unit) act" where
  "orchestrator_pass E w =
     afor (reconcile_run E) (map wr_id (list_runs None None None True (w_db w))) w"

end
