(* ===== verification/Orchestrator_Correct.thy ===== *)
theory Orchestrator_Correct
  imports Orchestrator
begin

text \<open>
  What a reconciliation does to a run: it moves tasks only along the designed lifecycle,
  releases a child only when its dependencies have succeeded and the manager only when
  all children have, fails the run when a child has failed, and, for a workflow accepted
  by the graph check, always finds something to release while the finished children have
  succeeded.
\<close>

section \<open>Task tables of equal length\<close>

text \<open>A step that creates no task relates the two tables row by row.\<close>

definition tasks_step :: "(agent_task \<Rightarrow> agent_task \<Rightarrow> bool) \<Rightarrow> store \<Rightarrow> store \<Rightarrow> bool" where
  "tasks_step R db db' \<longleftrightarrow> list_all2 (\<lambda>t t'. same_task t t' \<and> R t t') (db_tasks db) (db_tasks db')"

lemma same_task_trans: "same_task a b \<Longrightarrow> same_task b c \<Longrightarrow> same_task a c"
  by (simp add: same_task_def)

lemma tasks_step_refl: "(\<And>t. R t t) \<Longrightarrow> db_tasks db' = db_tasks db \<Longrightarrow> tasks_step R db db'"
  by (simp add: tasks_step_def list.rel_refl)

lemma tasks_step_trans:
  assumes "tasks_step R a b" and "tasks_step S b c"
    and "\<And>x y z. same_task x y \<Longrightarrow> R x y \<Longrightarrow> same_task y z \<Longrightarrow> S y z \<Longrightarrow> T x z"
  shows "tasks_step T a c"
  using assms(1,2) unfolding tasks_step_def
  by (rule list_all2_trans [rotated]) (use assms(3) same_task_trans in blast)

lemma tasks_step_mono:
  "tasks_step R a b \<Longrightarrow> (\<And>x y. same_task x y \<Longrightarrow> R x y \<Longrightarrow> S x y) \<Longrightarrow> tasks_step S a b"
  unfolding tasks_step_def by (erule list_all2_mono) blast

lemma tasks_step_upd:
  assumes "\<And>t. same_task t (f t)" and "\<And>t. R t t"
    and "\<And>t. t \<in> set (db_tasks db) \<Longrightarrow> tk_id t = k \<Longrightarrow> R t (f t)"
  shows "tasks_step R db (upd_task k f db)"
  using assms by (auto simp: tasks_step_def row_upd_def list_all2_conv_all_nth)

lemma list_all2_keys: "list_all2 (\<lambda>t t'. same_task t t' \<and> R t t') xs ys \<Longrightarrow> map tk_id ys = map tk_id xs"
  by (induction rule: list_all2_induct) (auto simp: same_task_def)

lemma tasks_step_keys: "tasks_step R db db' \<Longrightarrow> map tk_id (db_tasks db') = map tk_id (db_tasks db)"
  unfolding tasks_step_def by (rule list_all2_keys)

lemma list_all2_row_get:
  "list_all2 (\<lambda>t t'. same_task t t' \<and> R t t') xs ys \<Longrightarrow>
     (row_get tk_id k xs = None \<and> row_get tk_id k ys = None) \<or>
     (\<exists>t t'. row_get tk_id k xs = Some t \<and> row_get tk_id k ys = Some t' \<and> same_task t t' \<and> R t t')"
  by (induction rule: list_all2_induct) (auto simp: row_get_Cons same_task_def)

lemma tasks_step_get:
  assumes "tasks_step R db db'" and "get_task k db = Some t"
  obtains t' where "get_task k db' = Some t'" "same_task t t'" "R t t'"
  using list_all2_row_get [OF assms(1) [unfolded tasks_step_def], of k] assms(2) by auto

lemma tasks_step_get_back:
  assumes "tasks_step R db db'" and "get_task k db' = Some t'"
  obtains t where "get_task k db = Some t" "same_task t t'" "R t t'"
  using list_all2_row_get [OF assms(1) [unfolded tasks_step_def], of k] assms(2) by auto

lemma tasks_step_rel:
  assumes "tasks_step R db db'"
  shows "tasks_rel (\<lambda>t t'. same_task t t' \<and> R t t') db db'"
  unfolding tasks_rel_def
proof (intro allI impI)
  fix k t assume "get_task k db = Some t"
  with assms obtain t' where "get_task k db' = Some t'" "same_task t t'" "R t t'"
    by (rule tasks_step_get)
  then show "\<exists>t'. get_task k db' = Some t' \<and> same_task t t' \<and> R t t'" by blast
qed

text \<open>The query of a run's tasks respects such steps.\<close>

lemma list_all2_insort:
  assumes "list_all2 R xs ys" and "R x y" and "\<And>a b. R a b \<Longrightarrow> f b = f a"
  shows "list_all2 R (insort_key f x xs) (insort_key f y ys)"
  using assms by (induction rule: list_all2_induct) auto

lemma list_all2_sort:
  assumes "list_all2 R xs ys" and "\<And>a b. R a b \<Longrightarrow> f b = f a"
  shows "list_all2 R (sort_key f xs) (sort_key f ys)"
  using assms by (induction rule: list_all2_induct) (auto intro: list_all2_insort)

lemma list_all2_filter:
  assumes "list_all2 R xs ys" and "\<And>a b. R a b \<Longrightarrow> p b = p a"
  shows "list_all2 R (filter p xs) (filter p ys)"
  using assms by (induction rule: list_all2_induct) auto

lemma run_tasks_step:
  assumes "tasks_step R db db'"
  shows "list_all2 (\<lambda>t t'. same_task t t' \<and> R t t') (list_run_tasks i db) (list_run_tasks i db')"
  unfolding list_run_tasks_def
  using assms [unfolded tasks_step_def]
  by (intro list_all2_sort list_all2_filter) (auto simp: same_task_def)

lemma list_all2_all:
  assumes "list_all2 R xs ys" and "\<forall>y\<in>set ys. Q y" and "\<And>x y. R x y \<Longrightarrow> Q y \<Longrightarrow> P x"
  shows "\<forall>x\<in>set xs. P x"
  using assms by (induction rule: list_all2_induct) auto

lemma list_all2_find:
  assumes "list_all2 R xs ys" and "\<And>a b. R a b \<Longrightarrow> p b = p a"
  shows "(find p xs = None \<and> find p ys = None) \<or> (\<exists>a b. find p xs = Some a \<and> find p ys = Some b \<and> R a b)"
  using assms by (induction rule: list_all2_induct) auto

lemma find_root_step:
  assumes "tasks_step R db db'" and "find_root (list_run_tasks i db) = Some rt"
  obtains rt' where "find_root (list_run_tasks i db') = Some rt'" "same_task rt rt'" "R rt rt'"
  using list_all2_find [OF run_tasks_step [OF assms(1)], of "\<lambda>t. tk_parent_task_id t = None" i] assms(2)
  by (auto simp: find_root_def same_task_def)

lemma children_step:
  assumes "tasks_step R db db'" and "same_task rt rt'"
  shows "list_all2 (\<lambda>t t'. same_task t t' \<and> R t t')
    (children_of rt (list_run_tasks i db)) (children_of rt' (list_run_tasks i db'))"
proof -
  have "tk_id rt' = tk_id rt" using assms(2) by (simp add: same_task_def)
  then show ?thesis
    unfolding children_of_def
    by (simp only:) (intro list_all2_filter run_tasks_step [OF assms(1)], simp add: same_task_def)
qed

lemma find_root_in:
  "find_root (list_run_tasks i db) = Some rt \<Longrightarrow>
     rt \<in> set (db_tasks db) \<and> tk_workflow_run_id rt = Some i \<and> tk_parent_task_id rt = None"
proof -
  assume "find_root (list_run_tasks i db) = Some rt"
  then have "rt \<in> set (list_run_tasks i db) \<and> tk_parent_task_id rt = None"
    by (auto simp: find_root_def find_Some_iff)
  then show ?thesis by (auto simp: set_list_run_tasks)
qed

lemma set_children_of:
  "c \<in> set (children_of rt (list_run_tasks i db)) \<longleftrightarrow>
     c \<in> set (db_tasks db) \<and> tk_workflow_run_id c = Some i \<and> tk_parent_task_id c = Some (tk_id rt)"
  by (auto simp: children_of_def set_list_run_tasks)

lemma status_of_step:
  assumes "tasks_step R db db'"
  shows "status_of db k = None \<longleftrightarrow> status_of db' k = None"
  using list_all2_row_get [OF assms [unfolded tasks_step_def], of k] by (auto simp: status_of_def)

section \<open>Releasing children\<close>

text \<open>
  What the loop may do to a task: nothing, or, if it was waiting, cancel it, or release
  it with all dependencies succeeded.
\<close>

definition released_with ::
  "(string \<Rightarrow> uuid option) \<Rightarrow> store \<Rightarrow> agent_task \<Rightarrow> bool" where
  "released_with keys db t \<longleftrightarrow>
     tk_depends_on t \<noteq> [] \<and>
     (\<forall>d\<in>set (tk_depends_on t). \<exists>i. keys d = Some i \<and> status_of db i = Some Succeeded)"

definition release_move ::
  "(string \<Rightarrow> uuid option) \<Rightarrow> store \<Rightarrow> agent_task \<Rightarrow> agent_task \<Rightarrow> bool" where
  "release_move keys db t t' \<longleftrightarrow>
     tk_status t' = tk_status t \<or>
     (tk_status t = Waiting_child \<and>
      (tk_status t' = Cancelled \<or> (tk_status t' \<in> {Pending, Human_review} \<and> released_with keys db t)))"

lemma release_move_refl [simp]: "release_move keys db t t"
  by (simp add: release_move_def)

lemma release_move_trans:
  "same_task a b \<Longrightarrow> release_move keys db a b \<Longrightarrow> release_move keys db b c \<Longrightarrow> release_move keys db a c"
  by (auto simp: release_move_def released_with_def same_task_def)

text \<open>Whether a task has succeeded is not changed by the loop.\<close>

definition same_succeeded :: "store \<Rightarrow> store \<Rightarrow> bool" where
  "same_succeeded db db' \<longleftrightarrow> (\<forall>k. status_of db' k = Some Succeeded \<longleftrightarrow> status_of db k = Some Succeeded)"

lemma release_move_same:
  "same_succeeded db db' \<Longrightarrow> release_move keys db' = release_move keys db"
  by (intro ext) (simp add: release_move_def released_with_def same_succeeded_def)

lemma release_move_succeeded:
  assumes "tasks_step (release_move keys d) db db'"
  shows "same_succeeded db db'"
  unfolding same_succeeded_def
proof
  fix k
  from list_all2_row_get [OF assms [unfolded tasks_step_def], of k]
  show "status_of db' k = Some Succeeded \<longleftrightarrow> status_of db k = Some Succeeded"
    by (auto simp: status_of_def release_move_def)
qed

lemma row_get_unique:
  "distinct (map tk_id (db_tasks db)) \<Longrightarrow> get_task i db = Some t \<Longrightarrow> u \<in> set (db_tasks db) \<Longrightarrow>
     tk_id u = i \<Longrightarrow> u = t"
  using row_get_in [of tk_id "db_tasks db" u] by auto

lemma release_one_step:
  assumes "distinct (map tk_id (db_tasks db))" and "get_task i db = Some task"
    and "tk_status task = Waiting_child" and "\<not> list_ex (\<lambda>k. keys k = None) (tk_depends_on task)"
    and "release_one t task (map (\<lambda>k. the (keys k)) (tk_depends_on task)) db = (b, db')"
  shows "tasks_step (release_move keys db) db db'"
proof -
  have id: "tk_id task = i" using row_get_Some [OF assms(2)] by simp
  have same: "u = task" if "u \<in> set (db_tasks db)" "tk_id u = i" for u
    using row_get_unique [OF assms(1,2)] that by blast
  have st: "tasks_step (release_move keys db) db (upd_task i f db)"
    if "\<And>u. same_task u (f u)" "release_move keys db task (f task)" for f
    using that same by (intro tasks_step_upd) auto
  have keys: "keys d = Some (the (keys d))" if "d \<in> set (tk_depends_on task)" for d
    using assms(4) that by (auto simp: list_ex_iff)
  let ?deps = "map (\<lambda>k. the (keys k)) (tk_depends_on task)"
  have rel: "released_with keys db task"
    if "?deps \<noteq> []" "list_all (\<lambda>d. status_of db d = Some Succeeded) ?deps"
    using that keys by (auto simp: released_with_def list_all_iff)
  consider "db' = db"
    | "db' = upd_task i (\<lambda>k. k\<lparr>tk_status := Cancelled,
              tk_error := Some ''dependency failed or was cancelled'', tk_finished_at := Some t\<rparr>) db"
    | "db' = upd_task i (\<lambda>k. k\<lparr>tk_status := Human_review\<rparr>) db" "released_with keys db task"
    | "db' = upd_task i (\<lambda>k. k\<lparr>tk_status := Pending\<rparr>) db" "released_with keys db task"
    using assms(5) rel unfolding release_one_def id by (auto split: if_splits)
  then show ?thesis
  proof cases
    case 1
    then show ?thesis by (simp add: tasks_step_refl)
  next
    case 2
    show ?thesis unfolding 2 using assms(3) by (intro st) (simp_all add: same_task_def release_move_def)
  next
    case 3
    show ?thesis unfolding 3(1) using assms(3) 3(2)
      by (intro st) (simp_all add: same_task_def release_move_def)
  next
    case 4
    show ?thesis unfolding 4(1) using assms(3) 4(2)
      by (intro st) (simp_all add: same_task_def release_move_def)
  qed
qed

lemma release_children_step:
  assumes "release_children t keys is db = (r, db')" and "distinct (map tk_id (db_tasks db))"
  shows "tasks_step (release_move keys db) db db'"
  using assms
proof (induction "is" arbitrary: db r db')
  case Nil
  then show ?case by (auto intro: tasks_step_refl)
next
  case (Cons i js)
  show ?case
  proof (cases "get_task i db")
    case None
    with Cons show ?thesis by auto
  next
    case (Some task)
    show ?thesis
    proof (cases "tk_status task = Waiting_child \<and> \<not> list_ex (\<lambda>k. keys k = None) (tk_depends_on task)")
      case False
      with Cons Some show ?thesis by (auto intro: tasks_step_refl split: if_splits)
    next
      case True
      obtain b db1 where one:
        "release_one t task (map (\<lambda>k. the (keys k)) (tk_depends_on task)) db = (b, db1)"
        by (cases "release_one t task (map (\<lambda>k. the (keys k)) (tk_depends_on task)) db")
      obtain r1 db2 where rest: "release_children t keys js db1 = (r1, db2)"
        by (cases "release_children t keys js db1")
      have "db' = db2" using Cons.prems(1) Some True one rest by (auto split: sum.splits)
      have s1: "tasks_step (release_move keys db) db db1"
        using release_one_step [OF Cons.prems(2) Some _ _ one] True by blast
      have "distinct (map tk_id (db_tasks db1))"
        using tasks_step_keys [OF s1] Cons.prems(2) by simp
      from Cons.IH [OF rest this] have s2: "tasks_step (release_move keys db) db1 db'"
        using release_move_same [OF release_move_succeeded [OF s1]] \<open>db' = db2\<close> by simp
      show ?thesis
        using s1 [unfolded tasks_step_def] s2 [unfolded tasks_step_def]
        unfolding tasks_step_def
        by (rule list_all2_trans [rotated]) (auto intro: same_task_trans release_move_trans)
    qed
  qed
qed

lemma release_children_frame:
  "release_children t keys is db = (r, db') \<Longrightarrow>
     db_runs db' = db_runs db \<and> db_sessions db' = db_sessions db \<and> db_executions db' = db_executions db \<and>
     db_agents db' = db_agents db \<and> db_next_id db' = db_next_id db"
proof (induction "is" arbitrary: db r db')
  case (Cons i js)
  have one: "release_one t task deps db = (b, d1) \<Longrightarrow>
     db_runs d1 = db_runs db \<and> db_sessions d1 = db_sessions db \<and> db_executions d1 = db_executions db \<and>
     db_agents d1 = db_agents db \<and> db_next_id d1 = db_next_id db" for task deps b d1
    by (auto simp: release_one_def split: if_splits)
  show ?case
    using Cons.prems Cons.IH one
    by (fastforce split: option.splits if_splits prod.splits sum.splits)
qed simp

text \<open>A waiting child whose dependencies have all succeeded is released.\<close>

lemma release_one_other:
  "release_one t task deps db = (b, db') \<Longrightarrow> j \<noteq> tk_id task \<Longrightarrow> get_task j db' = get_task j db"
  by (auto simp: release_one_def task_get_upd split: if_splits)

lemma release_one_ready:
  assumes "get_task i db = Some task" and "deps \<noteq> []"
    and "\<forall>d\<in>set deps. status_of db d = Some Succeeded" and "release_one t task deps db = (b, db')"
  shows "status_of db' i = Some (if tk_node_type task = ''human_approval'' then Human_review else Pending)"
    and "b \<longleftrightarrow> tk_node_type task \<noteq> ''human_approval''"
proof -
  have id: "tk_id task = i" using row_get_Some [OF assms(1)] by simp
  have "\<not> list_ex (\<lambda>d. status_of db d \<in> {Some Failed, Some Cancelled}) deps"
    using assms(3) by (auto simp: list_ex_iff)
  moreover have "list_all (\<lambda>d. status_of db d = Some Succeeded) deps"
    using assms(3) by (simp add: list_all_iff)
  ultimately show "status_of db' i = Some (if tk_node_type task = ''human_approval'' then Human_review else Pending)"
    "b \<longleftrightarrow> tk_node_type task \<noteq> ''human_approval''"
    using assms(1,2,4) id by (auto simp: release_one_def status_of_def task_get_upd)
qed

lemma release_children_ready:
  assumes "release_children t keys is db = (Inr rs, db')" and "distinct (map tk_id (db_tasks db))"
    and "i \<in> set is" and "get_task i db = Some task" and "tk_status task = Waiting_child"
    and "released_with keys db task"
  shows "status_of db' i = Some (if tk_node_type task = ''human_approval'' then Human_review else Pending)"
  using assms
proof (induction "is" arbitrary: db rs db')
  case (Cons j js)
  show ?case
  proof (cases "get_task j db")
    case None
    with Cons show ?thesis by auto
  next
    case (Some k)
    show ?thesis
    proof (cases "tk_status k = Waiting_child")
      case False
      with Some Cons show ?thesis by (auto split: if_splits)
    next
      case True
      obtain b db1 where one:
        "release_one t k (map (\<lambda>d. the (keys d)) (tk_depends_on k)) db = (b, db1)"
        by (cases "release_one t k (map (\<lambda>d. the (keys d)) (tk_depends_on k)) db")
      have known: "\<not> list_ex (\<lambda>d. keys d = None) (tk_depends_on k)"
        and rest: "\<exists>rs'. release_children t keys js db1 = (Inr rs', db')"
        using Cons.prems(1) Some True one by (auto split: if_splits sum.splits prod.splits)
      then obtain rs' where rest: "release_children t keys js db1 = (Inr rs', db')" by blast
      have s1: "tasks_step (release_move keys db) db db1"
        by (rule release_one_step [OF Cons.prems(2) Some True known one])
      have d1: "distinct (map tk_id (db_tasks db1))"
        using tasks_step_keys [OF s1] Cons.prems(2) by simp
      show ?thesis
      proof (cases "j = i")
        case True
        have deps: "\<forall>d\<in>set (map (\<lambda>d. the (keys d)) (tk_depends_on k)). status_of db d = Some Succeeded"
          "map (\<lambda>d. the (keys d)) (tk_depends_on k) \<noteq> []"
          using Cons.prems(4,6) Some True by (auto simp: released_with_def)
        have "status_of db1 i = Some (if tk_node_type task = ''human_approval'' then Human_review else Pending)"
          using release_one_ready(1) [OF _ deps(2,1) one, of i] Cons.prems(4) Some True by auto
        then show ?thesis
        proof -
          assume a: "status_of db1 i = Some (if tk_node_type task = ''human_approval'' then Human_review else Pending)"
          have "tasks_step (release_move keys db1) db1 db'" by (rule release_children_step [OF rest d1])
          from list_all2_row_get [OF this [unfolded tasks_step_def], of i] a
          show ?thesis by (auto simp: status_of_def release_move_def split: if_splits)
        qed
      next
        case False
        have "tk_id k = j" using row_get_Some [OF Some] by simp
        then have same: "get_task i db1 = get_task i db"
          using release_one_other [OF one] False by simp
        have "released_with keys db1 task"
          using Cons.prems(6) release_move_succeeded [OF s1]
          by (simp add: released_with_def same_succeeded_def)
        then show ?thesis
          using Cons.IH [OF rest d1 _ _ Cons.prems(5)] Cons.prems(3,4) same False by auto
      qed
    qed
  qed
qed simp

section \<open>The shape of a reconciliation\<close>

lemma announce_db: "announce E rt m t w = (r, w') \<Longrightarrow> w_db w' = w_db w"
  by (auto simp: announce_def abind_def publish_task_def split: prod.splits sum.splits
      dest!: w_db_frames(1) w_db_frames(3))

lemma announce_all_db:
  assumes "afor (\<lambda>i w. case (get_task i (w_db w), get_run j (w_db w)) of
               (Some task, Some run) \<Rightarrow> announce E rt (wr_input run) task w
             | _ \<Rightarrow> (Inl Missing_row, w)) is w = (r, w')"
  shows "w_db w' = w_db w"
  using assms
  by (rule afor_inv [where P = "\<lambda>v. w_db v = w_db w"])
     (auto split: option.splits dest: announce_db)

lemma reconcile_cases [consumes 2, case_names failed_child missing_dependency queue settle]:
  assumes "reconcile_run E i w = (r, w')" and "find_root (list_run_tasks i (w_db w)) = Some rt"
  obtains f msg where "f \<in> set (children_of rt (list_run_tasks i (w_db w)))" "tk_status f = Failed"
      "r = Inr ()" "w' = upd_db (fail_run (now w) i (tk_id rt) msg) w"
  | msg db1 where
      "release_children (now w) (children_by_key (children_of rt (list_run_tasks i (w_db w))))
         (map tk_id (children_of rt (list_run_tasks i (w_db w)))) (w_db w) = (Inl msg, db1)"
      "r = Inr ()" "w_db w' = fail_run (now w) i (tk_id rt) msg db1"
  | e changed where
      "release_children (now w) (children_by_key (children_of rt (list_run_tasks i (w_db w))))
         (map tk_id (children_of rt (list_run_tasks i (w_db w)))) (w_db w) = (Inr changed, w_db w')"
      "r = Inl e"
  | changed w1 where
      "release_children (now w) (children_by_key (children_of rt (list_run_tasks i (w_db w))))
         (map tk_id (children_of rt (list_run_tasks i (w_db w)))) (w_db w) = (Inr changed, w_db w1)"
      "settle_run E i w1 = (r, w')"
proof -
  let ?cs = "children_of rt (list_run_tasks i (w_db w))"
  show ?thesis
  proof (cases "find (\<lambda>t. tk_status t = Failed) ?cs")
    case (Some f)
    then have "f \<in> set ?cs" "tk_status f = Failed" by (auto simp: find_Some_iff)
    then show ?thesis using that(1) assms Some by (auto simp: reconcile_run_def Let_def)
  next
    case None
    obtain q db1 where rel: "release_children (now w) (children_by_key ?cs) (map tk_id ?cs) (w_db w) = (q, db1)"
      by (cases "release_children (now w) (children_by_key ?cs) (map tk_id ?cs) (w_db w)")
    show ?thesis
    proof (cases q)
      case (Inl msg)
      have "r = Inr ()" "w_db w' = fail_run (now w) i (tk_id rt) msg db1"
        using assms None rel Inl by (auto simp: reconcile_run_def Let_def)
      then show ?thesis using that(2) rel Inl by blast
    next
      case (Inr changed)
      let ?f = "\<lambda>j w. case (get_task j (w_db w), get_run i (w_db w)) of
                  (Some task, Some run) \<Rightarrow> announce E rt (wr_input run) task w
                | _ \<Rightarrow> (Inl Missing_row, w)"
      obtain s w1 where loop: "afor ?f changed (w\<lparr>w_db := db1\<rparr>) = (s, w1)"
        by (cases "afor ?f changed (w\<lparr>w_db := db1\<rparr>)")
      have d1: "w_db w1 = db1" using announce_all_db [OF loop] by simp
      have rest: "abind (afor ?f changed) (\<lambda>_. settle_run E i) (w\<lparr>w_db := db1\<rparr>) = (r, w')"
        using assms None rel Inr by (simp add: reconcile_run_def Let_def)
      show ?thesis
      proof (cases s)
        case (Inl e)
        then have "r = Inl e" "w' = w1" using rest loop by (auto simp: abind_def)
        then show ?thesis using that(3) [of changed e] rel Inr d1 by simp
      next
        case (Inr u)
        then have "settle_run E i w1 = (r, w')" using rest loop by (auto simp: abind_def)
        then show ?thesis using that(4) [of changed w1] rel \<open>q = Inr changed\<close> d1 by simp
      qed
    qed
  qed
qed

lemma reconcile_no_root:
  assumes "find_root (list_run_tasks i (w_db w)) = None"
  shows "reconcile_run E i w = (Inr (), upd_db (upd_run i (\<lambda>r. r\<lparr>wr_status := R_failed,
           wr_error := Some ''orchestration root task is missing'', wr_finished_at := Some (now w)\<rparr>)) w)"
  using assms by (simp add: reconcile_run_def)

lemma settle_cases [consumes 1, case_names missing review release_manager success failure waiting]:
  assumes "settle_run E i w = (r, w')"
  obtains "r = Inl Missing_row" "w' = w"
  | rt where "find_root (list_run_tasks i (w_db w)) = Some rt"
      "\<exists>c\<in>set (children_of rt (list_run_tasks i (w_db w))). tk_status c = Human_review"
      "r = Inr ()" "w_db w' = upd_run i (\<lambda>r. r\<lparr>wr_status := R_human_review\<rparr>) (w_db w)"
  | rt run where "find_root (list_run_tasks i (w_db w)) = Some rt" "get_run i (w_db w) = Some run"
      "tk_status rt = Waiting_child" "children_of rt (list_run_tasks i (w_db w)) \<noteq> []"
      "\<forall>c\<in>set (children_of rt (list_run_tasks i (w_db w))). tk_status c = Succeeded"
      "w_db w' = release_root i rt run (children_of rt (list_run_tasks i (w_db w)))
         (upd_run i (\<lambda>r. r\<lparr>wr_status := R_running\<rparr>) (w_db w))"
      "enqueue_task E (tk_id rt) (tk_priority rt)
         (upd_db (release_root i rt run (children_of rt (list_run_tasks i (w_db w))))
            (upd_db (upd_run i (\<lambda>r. r\<lparr>wr_status := R_running\<rparr>)) w)) = (r, w')"
  | rt where "find_root (list_run_tasks i (w_db w)) = Some rt" "tk_status rt = Succeeded" "r = Inr ()"
      "w_db w' = upd_run i (\<lambda>r. r\<lparr>wr_status := R_succeeded, wr_output := task_output (w_db w) rt,
                    wr_error := None,
                    wr_finished_at := Some (case tk_finished_at rt of Some f \<Rightarrow> f | None \<Rightarrow> now w)\<rparr>)
                  (upd_run i (\<lambda>r. r\<lparr>wr_status := R_running\<rparr>) (w_db w))"
  | rt where "find_root (list_run_tasks i (w_db w)) = Some rt" "tk_status rt = Failed" "r = Inr ()"
      "w_db w' = fail_run (now w) i (tk_id rt) (or_text (tk_error rt) ''manager Agent failed'')
                  (upd_run i (\<lambda>r. r\<lparr>wr_status := R_running\<rparr>) (w_db w))"
  | rt where "find_root (list_run_tasks i (w_db w)) = Some rt"
      "\<not> (\<exists>c\<in>set (children_of rt (list_run_tasks i (w_db w))). tk_status c = Human_review)"
      "tk_status rt \<notin> {Succeeded, Failed}" "r = Inr ()"
      "w_db w' = upd_run i (\<lambda>r. r\<lparr>wr_status := R_running\<rparr>) (w_db w)"
proof (cases "get_run i (w_db w)")
  case None
  with assms that(1) show ?thesis by (auto simp: settle_run_def Let_def split: option.splits)
next
  case (Some run)
  show ?thesis
  proof (cases "find_root (list_run_tasks i (w_db w))")
    case None
    with assms that(1) Some show ?thesis by (auto simp: settle_run_def Let_def)
  next
    case (Some rt)
    let ?cs = "children_of rt (list_run_tasks i (w_db w))"
    let ?w1 = "upd_db (upd_run i (\<lambda>r. r\<lparr>wr_status := R_running\<rparr>)) w"
    have out: "task_output (upd_run i f (w_db w)) rt = task_output (w_db w) rt" for f
      by (simp add: task_output_def)
    note unf = settle_run_def Let_def \<open>get_run i (w_db w) = Some run\<close> Some
    consider (1) "\<exists>c\<in>set ?cs. tk_status c = Human_review"
      | (2) "\<not> (\<exists>c\<in>set ?cs. tk_status c = Human_review)" "?cs \<noteq> []" "\<forall>c\<in>set ?cs. tk_status c = Succeeded"
          "tk_status rt = Waiting_child"
      | (3) "\<not> (\<exists>c\<in>set ?cs. tk_status c = Human_review)" "tk_status rt = Succeeded"
      | (4) "\<not> (\<exists>c\<in>set ?cs. tk_status c = Human_review)" "tk_status rt = Failed"
      | (5) "\<not> (\<exists>c\<in>set ?cs. tk_status c = Human_review)" "tk_status rt \<notin> {Succeeded, Failed}"
          "\<not> (?cs \<noteq> [] \<and> (\<forall>c\<in>set ?cs. tk_status c = Succeeded) \<and> tk_status rt = Waiting_child)"
      by blast
    then show ?thesis
    proof cases
      case 1
      with assms that(2) [OF Some] show ?thesis by (auto simp: unf list_ex_iff)
    next
      case 2
      have e: "enqueue_task E (tk_id rt) (tk_priority rt) (upd_db (release_root i rt run ?cs) ?w1) = (r, w')"
        using assms 2 by (auto simp: unf list_ex_iff list_all_iff abind_def)
      then have "w_db w' = release_root i rt run ?cs (upd_run i (\<lambda>r. r\<lparr>wr_status := R_running\<rparr>) (w_db w))"
        by (auto dest: w_db_frames)
      then show ?thesis using that(3) Some \<open>get_run i (w_db w) = Some run\<close> 2 e by blast
    next
      case 3
      with assms that(4) [OF Some] show ?thesis by (auto simp: unf list_ex_iff list_all_iff out)
    next
      case 4
      with assms that(5) [OF Some] show ?thesis by (auto simp: unf list_ex_iff list_all_iff)
    next
      case 5
      have "r = Inr () \<and> w' = ?w1"
        using assms 5 by (auto simp: unf list_ex_iff list_all_iff split: if_splits)
      then show ?thesis using that(6) [OF Some 5(1,2)] by simp
    qed
  qed
qed

section \<open>The moves of a reconciliation\<close>

lemma tasks_step_conj:
  "tasks_step R a b \<Longrightarrow> tasks_step S a b \<Longrightarrow> tasks_step (\<lambda>t t'. R t t' \<and> S t t') a b"
  by (auto simp: tasks_step_def list_all2_conv_all_nth)

lemma tasks_step_in:
  assumes "tasks_step R a b"
  shows "tasks_step (\<lambda>t t'. R t t' \<and> t \<in> set (db_tasks a)) a b"
  using assms by (auto simp: tasks_step_def list_all2_conv_all_nth)

lemma release_one_only:
  assumes "release_one t task deps db = (b, db')"
  shows "tasks_step (\<lambda>u u'. tk_id u = tk_id task \<or> tk_status u' = tk_status u) db db'"
proof -
  have "db' = db \<or> (\<exists>f. db' = upd_task (tk_id task) f db \<and> (\<forall>u. same_task u (f u)))"
    using assms by (auto simp: release_one_def same_task_def split: if_splits)
  then show ?thesis by (auto intro: tasks_step_refl tasks_step_upd)
qed

lemma release_children_only:
  "release_children t keys is db = (r, db') \<Longrightarrow>
     tasks_step (\<lambda>u u'. tk_id u \<in> set is \<or> tk_status u' = tk_status u) db db'"
proof (induction "is" arbitrary: db r db')
  case Nil
  then show ?case by (auto intro: tasks_step_refl)
next
  case (Cons j js)
  have weaken: "tasks_step (\<lambda>u u'. tk_id u \<in> set (j # js) \<or> tk_status u' = tk_status u) db d"
    if "tasks_step (\<lambda>u u'. tk_id u \<in> set js \<or> tk_status u' = tk_status u) db d" for d
    using that by (rule tasks_step_mono) auto
  show ?case
  proof (cases "get_task j db")
    case None
    then have "release_children t keys js db = (r, db')" using Cons.prems by simp
    then show ?thesis by (rule weaken [OF Cons.IH])
  next
    case (Some k)
    then have id: "tk_id k = j" by (auto dest: row_get_Some)
    show ?thesis
    proof (cases "tk_status k = Waiting_child \<and> \<not> list_ex (\<lambda>d. keys d = None) (tk_depends_on k)")
      case False
      then have "release_children t keys js db = (r, db') \<or> db' = db"
        using Some Cons.prems by (auto split: if_splits)
      then show ?thesis
      proof
        assume "release_children t keys js db = (r, db')"
        then show ?thesis by (rule weaken [OF Cons.IH])
      qed (simp add: tasks_step_refl)
    next
      case True
      obtain b db1 where one:
        "release_one t k (map (\<lambda>d. the (keys d)) (tk_depends_on k)) db = (b, db1)"
        by (cases "release_one t k (map (\<lambda>d. the (keys d)) (tk_depends_on k)) db")
      obtain r1 db2 where rest: "release_children t keys js db1 = (r1, db2)"
        by (cases "release_children t keys js db1")
      have "db' = db2" using Cons.prems Some True one rest by (auto split: sum.splits)
      show ?thesis
        unfolding \<open>db' = db2\<close>
        by (rule tasks_step_trans [OF release_one_only [OF one] Cons.IH [OF rest]])
           (auto simp: id same_task_def)
    qed
  qed
qed

lemma fail_run_step:
  assumes "distinct (map tk_id (db_tasks db))"
  shows "tasks_step (\<lambda>u u'. tk_status u' = tk_status u \<or>
     (tk_id u = k \<and> tk_status u \<in> {Waiting_child, Pending} \<and> tk_status u' = Failed)) db (fail_run t i k m db)"
proof (cases "get_task k db")
  case None
  then show ?thesis by (auto simp: fail_run_def Let_def intro: tasks_step_refl)
next
  case (Some rt)
  let ?f = "\<lambda>u. u\<lparr>tk_status := Failed, tk_error := Some (py_truncate 2000 m), tk_finished_at := Some t\<rparr>"
  have st: "tasks_step (\<lambda>u u'. tk_status u' = tk_status u \<or>
     (tk_id u = k \<and> tk_status u \<in> {Waiting_child, Pending} \<and> tk_status u' = Failed)) db (upd_task k ?f db)"
    if "tk_status rt \<in> {Waiting_child, Pending}"
    using that row_get_unique [OF assms Some] by (intro tasks_step_upd) (auto simp: same_task_def)
  have "db_tasks (fail_run t i k m db) =
      (if tk_status rt \<in> {Waiting_child, Pending} then db_tasks (upd_task k ?f db) else db_tasks db)"
    using Some by (simp add: fail_run_def Let_def)
  then show ?thesis
    using st by (cases "tk_status rt \<in> {Waiting_child, Pending}") (auto simp: tasks_step_def list.rel_refl)
qed

lemma release_root_step:
  "tasks_step (\<lambda>u u'. tk_status u' = tk_status u \<or> (tk_id u = tk_id rt \<and> tk_status u' = Pending)) db
     (release_root i rt run cs db)"
proof -
  let ?R = "\<lambda>u u'. tk_status u' = tk_status u \<or> (tk_id u = tk_id rt \<and> tk_status u' = Pending)"
  let ?g = "\<lambda>k. k\<lparr>tk_input_data := dset ''child_results'' (JArr (child_results db cs)) (tk_input_data k)\<rparr>"
  have a: "tasks_step ?R db (upd_task (tk_id rt) ?g db)"
    by (rule tasks_step_upd) (simp_all add: same_task_def)
  have b: "tasks_step ?R (upd_task (tk_id rt) ?g db)
      (upd_task (tk_id rt) (\<lambda>k. k\<lparr>tk_status := Pending\<rparr>) (upd_task (tk_id rt) ?g db))"
    by (rule tasks_step_upd) (auto simp: same_task_def)
  have "tasks_step (\<lambda>u u'. True) db (release_root i rt run cs db)"
    by (auto simp: release_root_def Let_def tasks_step_def row_upd_def same_task_def list_all2_conv_all_nth)
  have "db_tasks (release_root i rt run cs db) =
      db_tasks (upd_task (tk_id rt) (\<lambda>k. k\<lparr>tk_status := Pending\<rparr>) (upd_task (tk_id rt) ?g db))"
    by (simp add: release_root_def Let_def)
  then show ?thesis
    by (auto simp: tasks_step_def row_upd_def same_task_def list_all2_conv_all_nth)
qed

definition reconcile_move :: "uuid \<Rightarrow> store \<Rightarrow> agent_task \<Rightarrow> agent_task \<Rightarrow> bool" where
  "reconcile_move i db t t' \<longleftrightarrow>
     tk_status t' = tk_status t \<or>
     (tk_status t = Waiting_child \<and> tk_status t' = Cancelled) \<or>
     (tk_status t \<in> {Waiting_child, Pending} \<and> tk_status t' = Failed) \<or>
     (tk_status t = Waiting_child \<and> tk_status t' \<in> {Pending, Human_review} \<and>
      (\<exists>rt. find_root (list_run_tasks i db) = Some rt \<and>
         (t \<in> set (children_of rt (list_run_tasks i db)) \<and>
            released_with (children_by_key (children_of rt (list_run_tasks i db))) db t \<or>
          t = rt \<and> tk_status t' = Pending \<and> children_of rt (list_run_tasks i db) \<noteq> [] \<and>
            (\<forall>c\<in>set (children_of rt (list_run_tasks i db)). tk_status c = Succeeded))))"

lemma reconcile_move_status:
  "reconcile_move i db t u \<Longrightarrow> tk_status v = tk_status u \<Longrightarrow> reconcile_move i db t v"
  by (simp add: reconcile_move_def)

text \<open>What the loop did, and that the settling part still sees the same manager and children.\<close>

lemma loop_move:
  assumes "distinct (map tk_id (db_tasks db))" and "find_root (list_run_tasks i db) = Some rt"
    and "release_children t (children_by_key (children_of rt (list_run_tasks i db)))
           (map tk_id (children_of rt (list_run_tasks i db))) db = (q, db1)"
  shows "tasks_step (\<lambda>u u'. reconcile_move i db u u' \<and> (u = rt \<longrightarrow> tk_status u' = tk_status u) \<and>
      (tk_status u' = Succeeded \<longleftrightarrow> tk_status u = Succeeded)) db db1"
proof -
  let ?cs = "children_of rt (list_run_tasks i db)"
  have root: "tk_id rt \<notin> set (map tk_id ?cs)"
  proof
    assume "tk_id rt \<in> set (map tk_id ?cs)"
    then obtain c where c: "c \<in> set ?cs" "tk_id c = tk_id rt" by auto
    then have "c = rt"
      using find_root_in [OF assms(2)] assms(1) by (auto simp: set_children_of dest: inj_onD simp: distinct_map)
    then show False using c find_root_in [OF assms(2)] by (auto simp: set_children_of)
  qed
  have child: "u \<in> set ?cs" if u: "u \<in> set (db_tasks db)" "tk_id u \<in> set (map tk_id ?cs)" for u
  proof -
    obtain c where c: "c \<in> set ?cs" "tk_id c = tk_id u" using u(2) by auto
    then have "c = u" using u(1) assms(1) by (auto simp: set_children_of distinct_map dest: inj_onD)
    with c show ?thesis by simp
  qed
  from tasks_step_conj [OF tasks_step_in [OF release_children_step [OF assms(3,1)]] release_children_only [OF assms(3)]]
  show ?thesis
    by (rule tasks_step_mono)
       (use assms(2) root child in \<open>auto simp: reconcile_move_def release_move_def\<close>)
qed

lemma reconcile_step:
  assumes "distinct (map tk_id (db_tasks (w_db w)))" and "reconcile_run E i w = (r, w')"
  shows "tasks_step (reconcile_move i (w_db w)) (w_db w) (w_db w')"
proof (cases "find_root (list_run_tasks i (w_db w))")
  case None
  then have "db_tasks (w_db w') = db_tasks (w_db w)" using assms(2) by (auto simp: reconcile_no_root)
  then show ?thesis by (intro tasks_step_refl) (simp_all add: reconcile_move_def)
next
  case (Some rt)
  let ?db = "w_db w"
  let ?cs = "children_of rt (list_run_tasks i ?db)"
  have fail: "tasks_step (reconcile_move i ?db) ?db (fail_run t i k m d)"
    if "tasks_step (\<lambda>u u'. reconcile_move i ?db u u' \<and> (u = rt \<longrightarrow> tk_status u' = tk_status u) \<and>
      (tk_status u' = Succeeded \<longleftrightarrow> tk_status u = Succeeded)) ?db d" "k = tk_id rt" for d t k m
  proof -
    have keys: "distinct (map tk_id (db_tasks d))" using tasks_step_keys [OF that(1)] assms(1) by simp
    have uniq: "u = rt" if "u \<in> set (db_tasks ?db)" "tk_id u = tk_id rt" for u
      using that find_root_in [OF Some] assms(1) by (auto simp: distinct_map dest: inj_onD)
    have root: "reconcile_move i ?db rt z"
      if "tk_status rt \<in> {Waiting_child, Pending}" "tk_status z = Failed" for z :: agent_task
      using that by (simp add: reconcile_move_def)
    show ?thesis
    proof (rule tasks_step_trans [OF tasks_step_in [OF that(1)] fail_run_step [OF keys]])
      fix x y z :: agent_task
      assume xy: "same_task x y" "(reconcile_move i ?db x y \<and> (x = rt \<longrightarrow> tk_status y = tk_status x) \<and>
          (tk_status y = Succeeded \<longleftrightarrow> tk_status x = Succeeded)) \<and> x \<in> set (db_tasks ?db)"
        and yz: "tk_status z = tk_status y \<or>
          (tk_id y = k \<and> tk_status y \<in> {Waiting_child, Pending} \<and> tk_status z = Failed)"
      from yz show "reconcile_move i ?db x z"
      proof
        assume "tk_status z = tk_status y"
        then show ?thesis using xy(2) reconcile_move_status by blast
      next
        assume z: "tk_id y = k \<and> tk_status y \<in> {Waiting_child, Pending} \<and> tk_status z = Failed"
        then have "tk_id x = tk_id rt" using xy(1) that(2) by (simp add: same_task_def)
        then have "x = rt" using uniq xy(2) by blast
        then show ?thesis using root z xy(2) by auto
      qed
    qed
  qed
  have weak: "tasks_step (reconcile_move i ?db) ?db d"
    if "tasks_step (\<lambda>u u'. reconcile_move i ?db u u' \<and> (u = rt \<longrightarrow> tk_status u' = tk_status u) \<and>
      (tk_status u' = Succeeded \<longleftrightarrow> tk_status u = Succeeded)) ?db d" for d
    using that by (rule tasks_step_mono) blast
  from assms(2) Some show ?thesis
  proof (cases rule: reconcile_cases)
    case (failed_child f msg)
    show ?thesis unfolding failed_child(4) upd_db_simps
      by (rule fail [OF tasks_step_refl refl]) (simp_all add: reconcile_move_def)
  next
    case (missing_dependency msg db1)
    show ?thesis unfolding missing_dependency(3)
      by (rule fail [OF loop_move [OF assms(1) Some missing_dependency(1)] refl])
  next
    case (queue e changed)
    show ?thesis by (rule weak [OF loop_move [OF assms(1) Some queue(1)]])
  next
    case (settle changed w1)
    note l = loop_move [OF assms(1) Some settle(1)]
    have same: "tasks_step (reconcile_move i ?db) ?db d" if "db_tasks d = db_tasks (w_db w1)" for d
      using weak [OF l] that by (simp add: tasks_step_def)
    obtain rt1 where rt1: "find_root (list_run_tasks i (w_db w1)) = Some rt1" "same_task rt rt1"
        "tk_status rt1 = tk_status rt"
      using find_root_step [OF l Some] by auto
    from settle(2) show ?thesis
    proof (cases rule: settle_cases)
      case missing
      then show ?thesis by (auto intro: same)
    next
      case (review rt')
      then show ?thesis by (auto intro: same)
    next
      case (release_manager rt' run)
      have "rt' = rt1" using release_manager(1) rt1(1) by simp
      have cs: "list_all2 (\<lambda>t t'. same_task t t' \<and> (tk_status t' = Succeeded \<longleftrightarrow> tk_status t = Succeeded))
          (children_of rt (list_run_tasks i ?db)) (children_of rt1 (list_run_tasks i (w_db w1)))"
        using children_step [OF l rt1(2), of i] by (rule list_all2_mono) blast
      have ready: "children_of rt (list_run_tasks i ?db) \<noteq> []"
        "\<forall>c\<in>set (children_of rt (list_run_tasks i ?db)). tk_status c = Succeeded"
        using release_manager(4,5) \<open>rt' = rt1\<close> list_all2_lengthD [OF cs]
          list_all2_all [OF cs, of "\<lambda>c. tk_status c = Succeeded" "\<lambda>c. tk_status c = Succeeded"]
        by auto
      have root: "u = rt" if u: "u \<in> set (db_tasks ?db)" "tk_id u = tk_id rt1" for u
        using u rt1(2) find_root_in [OF Some] assms(1)
        by (auto simp: distinct_map same_task_def dest: inj_onD)
      have waiting: "tk_status rt = Waiting_child"
        using release_manager(3) rt1(3) \<open>rt' = rt1\<close> by simp
      have two: "tasks_step (\<lambda>u u'. tk_status u' = tk_status u \<or> (tk_id u = tk_id rt1 \<and> tk_status u' = Pending))
          (w_db w1) (w_db w')"
        using release_root_step [of rt1 "upd_run i (\<lambda>r. r\<lparr>wr_status := R_running\<rparr>) (w_db w1)"]
        unfolding release_manager(6) \<open>rt' = rt1\<close> by (simp add: tasks_step_def)
      have manager: "reconcile_move i ?db rt z" if "tk_status z = Pending" for z
        using that waiting Some ready by (simp add: reconcile_move_def)
      show ?thesis
      proof (rule tasks_step_trans [OF tasks_step_in [OF l] two])
        fix x y z :: agent_task
        assume xy: "same_task x y" "(reconcile_move i ?db x y \<and> (x = rt \<longrightarrow> tk_status y = tk_status x) \<and>
            (tk_status y = Succeeded \<longleftrightarrow> tk_status x = Succeeded)) \<and> x \<in> set (db_tasks ?db)"
          and yz: "tk_status z = tk_status y \<or> (tk_id y = tk_id rt1 \<and> tk_status z = Pending)"
        from yz show "reconcile_move i ?db x z"
        proof
          assume "tk_status z = tk_status y"
          then show ?thesis using xy(2) reconcile_move_status by blast
        next
          assume z: "tk_id y = tk_id rt1 \<and> tk_status z = Pending"
          then have "tk_id x = tk_id rt1" using xy(1) by (simp add: same_task_def)
          then have "x = rt" using root xy(2) by blast
          then show ?thesis using manager z by blast
        qed
      qed
    next
      case (success rt')
      then show ?thesis by (auto intro: same)
    next
      case (failure rt')
      have "rt' = rt1" using failure(1) rt1(1) by simp
      have "tasks_step (\<lambda>u u'. reconcile_move i ?db u u' \<and> (u = rt \<longrightarrow> tk_status u' = tk_status u) \<and>
        (tk_status u' = Succeeded \<longleftrightarrow> tk_status u = Succeeded)) ?db
        (upd_run i (\<lambda>r. r\<lparr>wr_status := R_running\<rparr>) (w_db w1))"
        using l by (simp add: tasks_step_def)
      then show ?thesis unfolding failure(4)
        by (rule fail) (use \<open>rt' = rt1\<close> rt1(2) in \<open>simp add: same_task_def\<close>)
    next
      case (waiting rt')
      then show ?thesis by (auto intro: same)
    qed
  qed
qed

section \<open>Properties of a reconciliation\<close>

text \<open>
  C3. Nothing runs too early. When a reconciliation makes a waiting task pending (or
  asks for its human review), the task is either a child of the run whose dependencies
  are all children that have succeeded, or the manager of a run with children that have
  all succeeded.
\<close>

theorem reconcile_releases_only_ready_tasks:
  assumes "distinct (map tk_id (db_tasks (w_db w)))" and "reconcile_run E i w = (r, w')"
    and "get_task k (w_db w) = Some t" and "get_task k (w_db w') = Some t'"
    and "tk_status t = Waiting_child" and "tk_status t' \<in> {Pending, Human_review}"
  shows "\<exists>rt. find_root (list_run_tasks i (w_db w)) = Some rt \<and>
      (let children = children_of rt (list_run_tasks i (w_db w)) in
       t \<in> set children \<and> released_with (children_by_key children) (w_db w) t \<or>
       t = rt \<and> children \<noteq> [] \<and> (\<forall>c\<in>set children. tk_status c = Succeeded))"
proof -
  obtain u where "get_task k (w_db w') = Some u" "reconcile_move i (w_db w) t u"
    using tasks_step_get [OF reconcile_step [OF assms(1,2)] assms(3)] by blast
  then have "reconcile_move i (w_db w) t t'" using assms(4) by simp
  then show ?thesis using assms(5,6) by (auto simp: reconcile_move_def Let_def)
qed

lemma reconcile_lifecycle:
  assumes "distinct (map tk_id (db_tasks (w_db w)))" and "reconcile_run E i w = (r, w')"
  shows "tasks_step (\<lambda>t t'. lifecycle (tk_status t) (tk_status t')) (w_db w) (w_db w')"
  by (rule tasks_step_mono [OF reconcile_step [OF assms]])
     (auto simp: reconcile_move_def)

text \<open>A failed child fails the run.\<close>

lemma fail_run_effects:
  assumes "get_run i db = Some run"
  shows "\<exists>run'. get_run i (fail_run t i k m db) = Some run' \<and> wr_status run' = R_failed \<and>
           wr_error run' = Some (py_truncate 2000 m) \<and> wr_finished_at run' = Some t"
    and "j \<noteq> k \<Longrightarrow> get_task j (fail_run t i k m db) = get_task j db"
    and "get_task k db = Some rt \<Longrightarrow> tk_status rt \<in> {Waiting_child, Pending} \<Longrightarrow>
           status_of (fail_run t i k m db) k = Some Failed"
  using assms
  by (auto simp: fail_run_def Let_def run_get_upd task_get_upd status_of_def split: option.splits)

lemma reconcile_failed_child:
  assumes "find_root (list_run_tasks i (w_db w)) = Some rt"
    and "f \<in> set (children_of rt (list_run_tasks i (w_db w)))" and "tk_status f = Failed"
  shows "\<exists>msg. reconcile_run E i w = (Inr (), upd_db (fail_run (now w) i (tk_id rt) msg) w)"
proof -
  have "find (\<lambda>t. tk_status t = Failed) (children_of rt (list_run_tasks i (w_db w))) \<noteq> None"
    using assms(2,3) by (auto simp: find_None_iff)
  then show ?thesis using assms(1) by (auto simp: reconcile_run_def Let_def)
qed


text \<open>The run as a reconciliation leaves it.\<close>

lemma reconcile_success_cause:
  assumes "distinct (map tk_id (db_tasks (w_db w)))" and "reconcile_run E i w = (r, w')"
    and "get_run i (w_db w) = Some run" and "wr_status run \<noteq> R_succeeded"
    and "get_run i (w_db w') = Some run'" and "wr_status run' = R_succeeded"
  shows "\<exists>rt. find_root (list_run_tasks i (w_db w)) = Some rt \<and> tk_status rt = Succeeded \<and>
      (\<forall>c\<in>set (children_of rt (list_run_tasks i (w_db w))). tk_status c \<noteq> Failed) \<and>
      wr_output run' = task_output (w_db w) rt \<and> wr_error run' = None"
proof (cases "find_root (list_run_tasks i (w_db w))")
  case None
  with assms show ?thesis by (auto simp: reconcile_no_root run_get_upd)
next
  case (Some rt)
  from assms(2) Some show ?thesis
  proof (cases rule: reconcile_cases)
    case (failed_child f msg)
    then show ?thesis using fail_run_effects(1) [OF assms(3), of "now w" "tk_id rt" msg] assms(5,6) by auto
  next
    case (missing_dependency msg db1)
    have "get_run i db1 = Some run" using release_children_frame [OF missing_dependency(1)] assms(3) by simp
    then show ?thesis
      using missing_dependency(3) fail_run_effects(1) [of i db1 run "now w" "tk_id rt" msg] assms(5,6) by auto
  next
    case (queue e changed)
    then show ?thesis using release_children_frame [OF queue(1)] assms(3-6) by simp
  next
    case (settle changed w1)
    note fr = release_children_frame [OF settle(1)]
    have run1: "get_run i (w_db w1) = Some run" using fr assms(3) by simp
    note l = loop_move [OF assms(1) Some settle(1)]
    obtain rt1 where rt1: "find_root (list_run_tasks i (w_db w1)) = Some rt1" "same_task rt rt1"
        "tk_status rt1 = tk_status rt"
      using find_root_step [OF l Some] by auto
    have no_failed: "\<forall>c\<in>set (children_of rt (list_run_tasks i (w_db w))). tk_status c \<noteq> Failed"
    proof
      fix c assume "c \<in> set (children_of rt (list_run_tasks i (w_db w)))"
      show "tk_status c \<noteq> Failed"
      proof
        assume "tk_status c = Failed"
        then obtain m where "reconcile_run E i w = (Inr (), upd_db (fail_run (now w) i (tk_id rt) m) w)"
          using reconcile_failed_child [OF Some \<open>c \<in> _\<close>] by blast
        then show False
          using assms(2,5,6) fail_run_effects(1) [OF assms(3), of "now w" "tk_id rt" m] by auto
      qed
    qed
    from settle(2) show ?thesis
    proof (cases rule: settle_cases)
      case missing
      then show ?thesis using run1 assms(4-6) by simp
    next
      case (review rt')
      then show ?thesis using run1 assms(5,6) by (auto simp: run_get_upd)
    next
      case (release_manager rt' run0)
      have "wr_status run' = R_running"
        using release_manager(6) run1 assms(5)
        by (auto simp: release_root_def Let_def upd_task_execution_def run_get_upd split: option.splits)
      then show ?thesis using assms(6) by simp
    next
      case (success rt')
      have "rt' = rt1" using success(1) rt1(1) by simp
      have "task_output (w_db w1) rt1 = task_output (w_db w) rt"
        using fr rt1(2) by (simp add: task_output_def same_task_def)
      then show ?thesis
        using success(2,4) run1 assms(5) Some rt1(3) no_failed \<open>rt' = rt1\<close>
        by (auto simp: run_get_upd)
    next
      case (failure rt')
      have "get_run i (upd_run i (\<lambda>r. r\<lparr>wr_status := R_running\<rparr>) (w_db w1)) =
          Some (run\<lparr>wr_status := R_running\<rparr>)"
        using run1 by (simp add: run_get_upd)
      from fail_run_effects(1) [OF this, of "now w1" "tk_id rt'" "or_text (tk_error rt') ''manager Agent failed''"]
      show ?thesis using failure(4) assms(5,6) by auto
    next
      case (waiting rt')
      then show ?thesis using run1 assms(5,6) by (auto simp: run_get_upd)
    qed
  qed
qed

text \<open>
  A run succeeds only through its manager. If a reconciliation turns a run into a
  succeeded one, its manager task had succeeded, no child had failed, the output of the
  run is the output of the manager's session, and no error is left on it.
\<close>

theorem reconcile_success_only_through_manager:
  assumes "distinct (map tk_id (db_tasks (w_db w)))" and "reconcile_run E i w = (r, w')"
    and "get_run i (w_db w) = Some run" and "wr_status run \<noteq> R_succeeded"
    and "get_run i (w_db w') = Some run'" and "wr_status run' = R_succeeded"
  shows "\<exists>rt. find_root (list_run_tasks i (w_db w)) = Some rt \<and> tk_status rt = Succeeded \<and>
      (\<forall>c\<in>set (children_of rt (list_run_tasks i (w_db w))). tk_status c \<noteq> Failed) \<and>
      wr_output run' = task_output (w_db w) rt \<and> wr_error run' = None"
  by (rule reconcile_success_cause [OF assms])

section \<open>Progress\<close>

text \<open>
  The children of a run are the nodes of its definition: same keys, same dependencies,
  one child for each key.
\<close>

definition children_match :: "node_spec list \<Rightarrow> agent_task list \<Rightarrow> bool" where
  "children_match nodes children \<longleftrightarrow>
     distinct (map tk_node_key children) \<and>
     (\<forall>n\<in>set nodes. \<exists>t\<in>set children. tk_node_key t = Some (nd_key n) \<and> tk_depends_on t = nd_depends_on n) \<and>
     (\<forall>t\<in>set children. \<exists>n\<in>set nodes. tk_node_key t = Some (nd_key n) \<and> tk_depends_on t = nd_depends_on n)"

lemma children_by_key_in:
  assumes "distinct (map tk_node_key cs)" and "t \<in> set cs" and "tk_node_key t = Some k" and "k \<noteq> []"
  shows "children_by_key cs k = Some (tk_id t)"
proof -
  let ?fs = "filter (\<lambda>t. tk_node_key t \<noteq> None \<and> tk_node_key t \<noteq> Some []) cs"
  have "distinct (map tk_node_key ?fs)" using assms(1) by (rule distinct_map_filter)
  moreover have "map Some (map (\<lambda>t. the (tk_node_key t)) ?fs) = map tk_node_key ?fs" by auto
  ultimately have "distinct (map Some (map (\<lambda>t. the (tk_node_key t)) ?fs))" by (simp only:)
  then have "distinct (map (\<lambda>t. the (tk_node_key t)) ?fs)" by (simp only: distinct_map [of Some])
  then have "distinct (map fst (rev (map (\<lambda>t. (the (tk_node_key t), tk_id t)) ?fs)))"
    by (simp add: comp_def rev_map [symmetric])
  moreover have "(k, tk_id t) \<in> set (rev (map (\<lambda>t. (the (tk_node_key t), tk_id t)) ?fs))"
    using assms(2-4) by force
  ultimately show ?thesis unfolding children_by_key_def by (rule map_of_is_SomeI)
qed

lemma release_children_Inr:
  assumes "\<And>j t. j \<in> set is \<Longrightarrow> get_task j db = Some t \<Longrightarrow> \<forall>d\<in>set (tk_depends_on t). keys d \<noteq> None"
  shows "\<exists>rs db'. release_children t keys is db = (Inr rs, db')"
  using assms
proof (induction "is" arbitrary: db)
  case (Cons j js)
  have deps: "\<exists>rs db'. release_children t keys js d = (Inr rs, db')"
    if keep: "\<And>i u. get_task i d = Some u \<Longrightarrow> \<exists>v. get_task i db = Some v \<and> tk_depends_on u = tk_depends_on v" for d
  proof (rule Cons.IH)
    fix i u assume "i \<in> set js" "get_task i d = Some u"
    then obtain v where "get_task i db = Some v" "tk_depends_on u = tk_depends_on v" using keep by blast
    then show "\<forall>d\<in>set (tk_depends_on u). keys d \<noteq> None"
      using Cons.prems [of i v] \<open>i \<in> set js\<close> by simp
  qed
  show ?case
  proof (cases "get_task j db")
    case None
    then show ?thesis using deps [of db] by simp
  next
    case (Some k)
    then have known: "\<not> list_ex (\<lambda>d. keys d = None) (tk_depends_on k)"
      using Cons.prems [of j k] by (simp add: list_ex_iff)
    obtain b db1 where one:
      "release_one t k (map (\<lambda>d. the (keys d)) (tk_depends_on k)) db = (b, db1)"
      by (cases "release_one t k (map (\<lambda>d. the (keys d)) (tk_depends_on k)) db")
    have "\<exists>v. get_task i db = Some v \<and> tk_depends_on u = tk_depends_on v" if "get_task i db1 = Some u" for i u
      using tasks_step_get_back [OF release_one_only [OF one] that] unfolding same_task_def by metis
    then obtain rs db' where "release_children t keys js db1 = (Inr rs, db')" using deps [of db1] by blast
    moreover obtain rs0 db0 where "release_children t keys js db = (Inr rs0, db0)" using deps [of db] by blast
    ultimately show ?thesis using Some known one by simp
  qed
qed simp

lemma settle_other:
  assumes "settle_run E i w = (r, w')" and "find_root (list_run_tasks i (w_db w)) = Some rt" and "k \<noteq> tk_id rt"
  shows "get_task k (w_db w') = get_task k (w_db w)"
  using assms(1)
proof (cases rule: settle_cases)
  case (release_manager rt' run)
  then have "rt' = rt" using assms(2) by simp
  then show ?thesis
    using release_manager(6) assms(3) by (simp add: release_root_def Let_def task_get_upd)
next
  case (failure rt')
  then have "rt' = rt" using assms(2) by simp
  then show ?thesis
    using failure(4) assms(3)
    by (simp add: fail_run_def Let_def task_get_upd split: option.splits)
qed simp_all

lemma progress:
  assumes ok: "validate_workflow_dag nodes = Inr ()" "\<forall>n\<in>set nodes. node_fields_ok n"
    and ids: "distinct (map tk_id (db_tasks (w_db w)))"
    and root: "find_root (list_run_tasks i (w_db w)) = Some rt"
    and cs: "children_of rt (list_run_tasks i (w_db w)) = children" and m: "children_match nodes children"
    and st: "\<forall>t\<in>set children. tk_status t \<in> {Waiting_child, Succeeded}"
    and start: "\<forall>t\<in>set children. tk_depends_on t = [] \<longrightarrow> tk_status t \<noteq> Waiting_child"
    and waiting: "\<exists>t\<in>set children. tk_status t = Waiting_child"
    and run: "reconcile_run E i w = (r, w')"
  shows "\<exists>t\<in>set children. tk_status t = Waiting_child \<and>
           status_of (w_db w') (tk_id t) \<in> {Some Pending, Some Human_review}"
proof -
  define fin where "fin = {k. \<exists>t\<in>set children. tk_node_key t = Some k \<and> tk_status t = Succeeded}"
  note dag = ok(1) [unfolded validate_workflow_dag_iff]
  have key_ok: "k \<noteq> []" if "k \<in> node_keys nodes" for k
    using that ok(2) by (auto simp: node_keys_def node_fields_ok_def node_key_pattern_def)
  have child_key: "\<exists>n\<in>set nodes. tk_node_key t = Some (nd_key n) \<and> tk_depends_on t = nd_depends_on n"
    if "t \<in> set children" for t using m that by (auto simp: children_match_def)
  have "fin \<subseteq> node_keys nodes" unfolding fin_def using child_key by (force simp: node_keys_def)
  moreover have "fin \<noteq> node_keys nodes"
  proof
    assume eq: "fin = node_keys nodes"
    obtain t where t: "t \<in> set children" "tk_status t = Waiting_child" using waiting by blast
    then obtain n where n: "n \<in> set nodes" "tk_node_key t = Some (nd_key n)" using child_key by blast
    then have "nd_key n \<in> fin" unfolding eq by (simp add: node_keys_def)
    then obtain u where "u \<in> set children" "tk_node_key u = tk_node_key t" "tk_status u = Succeeded"
      using n(2) by (auto simp: fin_def)
    then have "u = t" using t(1) m by (auto simp: children_match_def distinct_map dest: inj_onD)
    then show False using t(2) \<open>tk_status u = Succeeded\<close> by simp
  qed
  ultimately have "fin \<subset> node_keys nodes" by blast
  with dag obtain k n where kn: "k \<in> node_keys nodes" "k \<notin> fin" "by_key nodes k = Some n"
      "set (nd_depends_on n) \<subseteq> fin"
    using acyclic_has_ready_node [of nodes fin] by blast
  obtain t where t: "t \<in> set children" "tk_node_key t = Some k" "tk_depends_on t = nd_depends_on n"
    using m by_key_in [OF kn(3)] by (auto simp: children_match_def)
  have tw: "tk_status t = Waiting_child" using st t(1,2) kn(2) by (auto simp: fin_def)
  have get: "get_task (tk_id u) (w_db w) = Some u" if "u \<in> set children" for u
  proof -
    have "u \<in> set (db_tasks (w_db w))" using that unfolding cs [symmetric] set_children_of by blast
    then show ?thesis using row_get_in [OF ids] by blast
  qed
  have rel: "released_with (children_by_key children) (w_db w) t"
    unfolding released_with_def
  proof (intro conjI ballI)
    show "tk_depends_on t \<noteq> []" using start t(1) tw by blast
    fix d assume "d \<in> set (tk_depends_on t)"
    then have "d \<in> fin" using kn(4) t(3) by auto
    then obtain u where u: "u \<in> set children" "tk_node_key u = Some d" "tk_status u = Succeeded"
      by (auto simp: fin_def)
    have "d \<noteq> []" using \<open>d \<in> fin\<close> \<open>fin \<subseteq> _\<close> key_ok by blast
    then have "children_by_key children d = Some (tk_id u)"
      using children_by_key_in [OF _ u(1,2)] m by (simp add: children_match_def)
    then show "\<exists>i. children_by_key children d = Some i \<and> status_of (w_db w) i = Some Succeeded"
      using get [OF u(1)] u(3) by (simp add: status_of_def)
  qed
  have known: "\<forall>d\<in>set (tk_depends_on u). children_by_key children d \<noteq> None"
    if j: "j \<in> set (map tk_id children)" "get_task j (w_db w) = Some u" for j u
  proof
    fix d assume d: "d \<in> set (tk_depends_on u)"
    obtain c where c: "c \<in> set children" "tk_id c = j" using j(1) by auto
    then have "u = c" using j(2) get [OF c(1)] by simp
    then obtain nn where "nn \<in> set nodes" "tk_depends_on u = nd_depends_on nn" using child_key [OF c(1)] by blast
    then have dk: "d \<in> node_keys nodes" using dag d by (auto simp: known_dependencies_def)
    then obtain nd where "nd \<in> set nodes" "nd_key nd = d" by (auto simp: node_keys_def)
    then obtain v where "v \<in> set children" "tk_node_key v = Some d" using m by (auto simp: children_match_def)
    then show "children_by_key children d \<noteq> None"
      using children_by_key_in [of children v d] m key_ok [OF dk] by (simp add: children_match_def)
  qed
  have rt: "tk_id t \<noteq> tk_id rt"
  proof
    assume e: "tk_id t = tk_id rt"
    have "t = rt" using e find_root_in [OF root] t(1) ids
      unfolding cs [symmetric] set_children_of by (auto simp: distinct_map dest: inj_onD)
    then show False using t(1) find_root_in [OF root] unfolding cs [symmetric] set_children_of by simp
  qed
  have released: "status_of db1 (tk_id t) \<in> {Some Pending, Some Human_review}"
    if "release_children (now w) (children_by_key children) (map tk_id children) (w_db w) = (Inr rs, db1)" for rs db1
    using release_children_ready [OF that ids _ get [OF t(1)] tw rel] t(1) by auto
  from run root have "status_of (w_db w') (tk_id t) \<in> {Some Pending, Some Human_review}"
  proof (cases rule: reconcile_cases)
    case (failed_child f msg)
    then show ?thesis using st unfolding cs by auto
  next
    case (missing_dependency msg db1)
    then show ?thesis
      using release_children_Inr [of "map tk_id children" "w_db w" "children_by_key children" "now w"] known
      unfolding cs by fastforce
  next
    case (queue e changed)
    then show ?thesis using released unfolding cs by blast
  next
    case (settle changed w1)
    note l = loop_move [OF ids root settle(1)]
    obtain rt1 where "find_root (list_run_tasks i (w_db w1)) = Some rt1" "same_task rt rt1"
      using find_root_step [OF l root] by auto
    then have "get_task (tk_id t) (w_db w') = get_task (tk_id t) (w_db w1)"
      using settle_other [OF settle(2)] rt by (simp add: same_task_def)
    then show ?thesis using released settle(1) unfolding cs status_of_def by simp
  qed
  then show ?thesis using t(1) tw by blast
qed


section \<open>A run that cannot end\<close>

text \<open>No child waits: the loop does nothing.\<close>

lemma release_children_idle:
  assumes "\<And>j t. j \<in> set is \<Longrightarrow> get_task j db = Some t \<Longrightarrow> tk_status t \<noteq> Waiting_child"
  shows "release_children t keys is db = (Inr [], db)"
  using assms by (induction "is") (auto split: option.splits)

lemma reconcile_stuck:
  assumes "distinct (map tk_id (db_tasks (w_db w)))"
    and "find_root (list_run_tasks i (w_db w)) = Some rt" and "get_run i (w_db w) = Some run"
    and "tk_status rt \<notin> {Succeeded, Failed}"
    and "\<forall>c\<in>set (children_of rt (list_run_tasks i (w_db w))). tk_status c \<in> {Succeeded, Cancelled}"
    and "(\<exists>c\<in>set (children_of rt (list_run_tasks i (w_db w))). tk_status c = Cancelled) \<or>
         tk_status rt \<noteq> Waiting_child"
  shows "reconcile_run E i w = (Inr (), upd_db (upd_run i (\<lambda>r. r\<lparr>wr_status := R_running\<rparr>)) w)"
proof -
  let ?cs = "children_of rt (list_run_tasks i (w_db w))"
  have get: "get_task (tk_id u) (w_db w) = Some u" if "u \<in> set ?cs" for u
    using that row_get_in [OF assms(1)] by (auto simp: set_children_of)
  have "find (\<lambda>t. tk_status t = Failed) ?cs = None" using assms(5) by (auto simp: find_None_iff)
  moreover have "release_children (now w) (children_by_key ?cs) (map tk_id ?cs) (w_db w) = (Inr [], w_db w)"
    by (rule release_children_idle) (use get assms(5) in force)
  ultimately have "reconcile_run E i w = settle_run E i w"
    using assms(2) by (simp add: reconcile_run_def Let_def abind_def)
  moreover have "\<not> list_ex (\<lambda>t. tk_status t = Human_review) ?cs" using assms(5) by (auto simp: list_ex_iff)
  moreover have "\<not> (list_all (\<lambda>t. tk_status t = Succeeded) ?cs \<and> tk_status rt = Waiting_child)"
    using assms(6) by (auto simp: list_all_iff)
  ultimately show ?thesis using assms(2-4) by (auto simp: settle_run_def Let_def)
qed

text \<open>
  A cancelled child is not propagated. When a child was cancelled and the others
  have succeeded, a reconciliation leaves every task as it is and the run running, so the
  same holds at the next one: such a run never ends by itself, and no reconciliation
  lets its manager start.
\<close>

theorem reconcile_ignores_cancelled_child:
  assumes "distinct (map tk_id (db_tasks (w_db w)))"
    and "find_root (list_run_tasks i (w_db w)) = Some rt" and "get_run i (w_db w) = Some run"
    and "tk_status rt = Waiting_child"
    and "\<forall>c\<in>set (children_of rt (list_run_tasks i (w_db w))). tk_status c \<in> {Succeeded, Cancelled}"
    and "\<exists>c\<in>set (children_of rt (list_run_tasks i (w_db w))). tk_status c = Cancelled"
  shows "\<exists>w'. reconcile_run E i w = (Inr (), w') \<and> db_tasks (w_db w') = db_tasks (w_db w) \<and>
     w_queue w' = w_queue w \<and> map_option wr_status (get_run i (w_db w')) = Some R_running"
  using reconcile_stuck [OF assms(1-3) _ assms(5)] assms(3,4,6)
  by (simp add: run_get_upd w_queue_frames)

text \<open>The status of the run is not looked at: a cancelled run becomes running again.\<close>

lemma reconcile_revives_cancelled_run:
  assumes "distinct (map tk_id (db_tasks (w_db w)))"
    and "find_root (list_run_tasks i (w_db w)) = Some rt" and "get_run i (w_db w) = Some run"
    and "wr_status run = R_cancelled" and "tk_status rt = Cancelled"
    and "\<forall>c\<in>set (children_of rt (list_run_tasks i (w_db w))). tk_status c \<in> {Succeeded, Cancelled}"
  shows "\<exists>w'. reconcile_run E i w = (Inr (), w') \<and>
     map_option wr_status (get_run i (w_db w')) = Some R_running"
  using reconcile_stuck [OF assms(1-3) _ assms(6)] assms(3,5) by (simp add: run_get_upd)

section \<open>A sample run\<close>

text \<open>A manager with three children \<open>a\<close>, \<open>b\<close> and \<open>c\<close>, \<open>b\<close> depending on \<open>a\<close>, \<open>c\<close> on \<open>b\<close>.\<close>

definition sample_task ::
  "uuid \<Rightarrow> uuid option \<Rightarrow> string \<Rightarrow> string list \<Rightarrow> task_status \<Rightarrow> agent_task" where
  "sample_task i parent key deps st =
     \<lparr>tk_id = i, tk_parent_task_id = parent, tk_workflow_id = None, tk_workflow_run_id = Some 9,
      tk_node_key = Some key, tk_node_type = ''agent'', tk_depends_on = deps, tk_input_data = [],
      tk_output_data = [], tk_agent_id = ''writer'', tk_session_id = 100 + i, tk_execution_id = None,
      tk_priority = 5, tk_status = st, tk_attempt = 0, tk_max_attempts = 3, tk_worker_id = None,
      tk_error = None, tk_created_at = 0, tk_started_at = None, tk_finished_at = None\<rparr>"

definition sample_session :: "uuid \<Rightarrow> agent_session" where
  "sample_session i =
     \<lparr>ss_id = i, ss_agent_id = ''writer'', ss_user_id = None, ss_memory_session_id = ''s'',
      ss_runtime_type = ''pi'', ss_runtime_session_id = None, ss_workspace_type = ''document'',
      ss_status = X_queued, ss_input = ''go'', ss_output = Some ''done'', ss_workspace_path = ''p'',
      ss_created_at = 0, ss_started_at = None, ss_finished_at = None\<rparr>"

definition sample_run :: "run_status \<Rightarrow> workflow_run" where
  "sample_run st =
     \<lparr>wr_id = 9, wr_workflow_id = None, wr_team_id = 7, wr_session_id = Some ''chat'',
      wr_status = st, wr_input = ''go'', wr_output = None, wr_error = None, wr_created_at = 0,
      wr_started_at = None, wr_finished_at = None\<rparr>"

definition sample_root :: "task_status \<Rightarrow> agent_task" where
  "sample_root st = sample_task 10 None ''__manager__'' [] st"

definition sample_children :: "task_status \<Rightarrow> task_status \<Rightarrow> task_status \<Rightarrow> agent_task list" where
  "sample_children sa sb sc =
     [sample_task 11 (Some 10) ''a'' [] sa, sample_task 12 (Some 10) ''b'' [''a''] sb,
      sample_task 13 (Some 10) ''c'' [''b''] sc]"

definition sample_db :: "task_status \<Rightarrow> task_status \<Rightarrow> task_status \<Rightarrow> task_status \<Rightarrow> store" where
  "sample_db sr sa sb sc = empty_store\<lparr>
     db_runs := [sample_run R_running], db_tasks := sample_root sr # sample_children sa sb sc,
     db_sessions := map sample_session [110, 111, 112, 113], db_next_id := 200\<rparr>"

definition sample_env :: "(zset, list_stream) env" where
  "sample_env = \<lparr>env_zadd = alist_zadd, env_zpopmin = alist_zpopmin, env_zrem = alist_zrem,
     env_xadd = list_xadd 100, env_dumps = (\<lambda>_. ''{}''), env_rep = (\<lambda>_. []), env_check_schema = \<lambda>_. None, env_sha256 = id,
     env_workspace_root = sample_base, env_task_max_attempts = 3, env_task_stale_seconds = 600,
     env_worker_id = ''worker''\<rparr>"

definition sample_world :: "store \<Rightarrow> (zset, list_stream) world" where
  "sample_world db = \<lparr>w_db = db, w_queue = DAList.empty, w_bus = (0, []), w_fs = sample_fs,
     w_clock = 1700000000 * 10 ^ 9\<rparr>"

definition sample_nodes :: "node_spec list" where
  "sample_nodes = map (\<lambda>(k, ds). \<lparr>nd_key = k, nd_type = Agent_node, nd_name = k,
     nd_agent_id = Some ''writer'', nd_depends_on = ds, nd_config = []\<rparr>)
     [(''a'', []), (''b'', [''a'']), (''c'', [''b''])]"

lemma sample_list:
  "list_run_tasks 9 (sample_db sr sa sb sc) = sample_root sr # sample_children sa sb sc"
  by (simp add: list_run_tasks_def sample_db_def sample_root_def sample_children_def sample_task_def)

lemma sample_shape:
  "find_root (list_run_tasks 9 (sample_db sr sa sb sc)) = Some (sample_root sr)"
  "children_of (sample_root sr) (list_run_tasks 9 (sample_db sr sa sb sc)) = sample_children sa sb sc"
  "distinct (map tk_id (db_tasks (sample_db sr sa sb sc)))"
  "get_run 9 (sample_db sr sa sb sc) = Some (sample_run R_running)"
  "get_task 10 (sample_db sr sa sb sc) = Some (sample_root sr)"
  "get_task 12 (sample_db sr sa sb sc) = Some (sample_task 12 (Some 10) ''b'' [''a''] sb)"
  unfolding sample_list
  by (simp_all add: find_root_def children_of_def sample_root_def sample_children_def sample_task_def
      sample_db_def sample_run_def row_get_def)

lemma sample_w_db [simp]: "w_db (sample_world db) = db"
  by (simp add: sample_world_def)



lemma sample_shape_w:
  "find_root (list_run_tasks 9 (w_db (sample_world (sample_db sr sa sb sc)))) = Some (sample_root sr)"
  "children_of (sample_root sr) (list_run_tasks 9 (w_db (sample_world (sample_db sr sa sb sc)))) =
     sample_children sa sb sc"
  "distinct (map tk_id (db_tasks (w_db (sample_world (sample_db sr sa sb sc)))))"
  "get_run 9 (w_db (sample_world (sample_db sr sa sb sc))) = Some (sample_run R_running)"
  by (simp_all only: sample_w_db sample_shape)

lemma sample_nodes_ok:
  "validate_workflow_dag sample_nodes = Inr ()" "\<forall>n\<in>set sample_nodes. node_fields_ok n"
  by (code_simp, code_simp)

lemma sample_match: "children_match sample_nodes (sample_children sa sb sc)"
  by (simp add: children_match_def sample_nodes_def sample_children_def sample_task_def)


theorem reconcile_releases_only_ready_tasks_witness:
  "\<exists>r w'. reconcile_run sample_env 9 (sample_world (sample_db Waiting_child Succeeded Waiting_child Waiting_child)) = (r, w') \<and>
     released_with (children_by_key (sample_children Succeeded Waiting_child Waiting_child))
       (sample_db Waiting_child Succeeded Waiting_child Waiting_child) (sample_task 12 (Some 10) ''b'' [''a''] Waiting_child)"
proof -
  let ?db = "sample_db Waiting_child Succeeded Waiting_child Waiting_child"
  let ?w = "sample_world ?db"
  let ?cs = "sample_children Succeeded Waiting_child Waiting_child"
  let ?t = "sample_task 12 (Some 10) ''b'' [''a''] Waiting_child"
  obtain r w' where r: "reconcile_run sample_env 9 ?w = (r, w')" by (cases "reconcile_run sample_env 9 ?w")
  have "\<exists>t\<in>set ?cs. tk_status t = Waiting_child \<and>
      status_of (w_db w') (tk_id t) \<in> {Some Pending, Some Human_review}"
    by (rule progress [OF sample_nodes_ok sample_shape_w(3,1,2) sample_match _ _ _ r])
       (simp_all add: sample_children_def sample_task_def)
  then consider t' where "get_task 12 (w_db w') = Some t'" "tk_status t' \<in> {Pending, Human_review}"
    | t' where "get_task 13 (w_db w') = Some t'" "tk_status t' \<in> {Pending, Human_review}"
    by (auto simp: sample_children_def sample_task_def status_of_def)
  then show ?thesis
  proof cases
    case 1
    have "get_task 12 (w_db ?w) = Some ?t" by (simp add: sample_shape)
    from reconcile_releases_only_ready_tasks [OF _ r this 1(1) _ 1(2)]
    have "?t = sample_root Waiting_child \<or> released_with (children_by_key ?cs) ?db ?t"
      by (simp add: sample_shape Let_def) (auto simp: sample_task_def)
    then show ?thesis using r by (auto simp: sample_root_def sample_task_def)
  next
    case 2
    let ?u = "sample_task 13 (Some 10) ''c'' [''b''] Waiting_child"
    have "get_task 13 (w_db ?w) = Some ?u"
      by (simp add: sample_db_def sample_root_def sample_children_def sample_task_def row_get_def)
    from reconcile_releases_only_ready_tasks [OF _ r this 2(1) _ 2(2)]
    have "?u = sample_root Waiting_child \<or> released_with (children_by_key ?cs) ?db ?u"
      by (simp add: sample_shape Let_def) (auto simp: sample_task_def)
    then show ?thesis
      by (auto simp: sample_root_def sample_task_def released_with_def children_by_key_def sample_children_def
          status_of_def sample_db_def row_get_def)
  qed
qed


theorem reconcile_success_only_through_manager_witness:
  "\<exists>r w' run'. reconcile_run sample_env 9 (sample_world (sample_db Succeeded Succeeded Succeeded Succeeded)) = (r, w') \<and>
     get_run 9 (w_db w') = Some run' \<and> wr_status run' = R_succeeded \<and> wr_output run' = Some ''done''"
proof -
  let ?w = "sample_world (sample_db Succeeded Succeeded Succeeded Succeeded)"
  obtain r w' where r: "reconcile_run sample_env 9 ?w = (r, w')" by (cases "reconcile_run sample_env 9 ?w")
  have "find (\<lambda>t. tk_status t = Failed) (sample_children Succeeded Succeeded Succeeded) = None"
    "release_children (now ?w) k (map tk_id (sample_children Succeeded Succeeded Succeeded)) (w_db ?w) = (Inr [], w_db ?w)" for k
    by (simp_all add: sample_children_def sample_task_def sample_db_def sample_root_def row_get_def)
  then have "settle_run sample_env 9 ?w = (r, w')"
    using r by (simp add: reconcile_run_def Let_def sample_shape abind_def) (simp add: sample_world_def)
  then have "map_option wr_status (get_run 9 (w_db w')) = Some R_succeeded"
    by (simp add: settle_run_def sample_shape list_ex_iff Let_def)
       (auto simp: sample_children_def sample_task_def sample_root_def sample_db_def sample_run_def
          row_get_def row_upd_def upd_db_def upd_run_def)
  then obtain run' where run': "get_run 9 (w_db w') = Some run'" "wr_status run' = R_succeeded"
    by auto
  have "wr_output run' = task_output (w_db ?w) (sample_root Succeeded)"
    using reconcile_success_only_through_manager [OF _ r _ _ run', of "sample_run R_running"]
    by (simp add: sample_shape) (simp add: sample_run_def)
  then show ?thesis
    using r run' by (auto simp: task_output_def sample_root_def sample_task_def sample_db_def row_get_def sample_session_def)
qed

theorem reconcile_ignores_cancelled_child_witness:
  "\<exists>w'. reconcile_run sample_env 9 (sample_world (sample_db Waiting_child Succeeded Succeeded Cancelled)) = (Inr (), w') \<and>
     map_option wr_status (get_run 9 (w_db w')) = Some R_running"
proof -
  let ?w = "sample_world (sample_db Waiting_child Succeeded Succeeded Cancelled)"
  have "\<forall>c\<in>set (sample_children Succeeded Succeeded Cancelled). tk_status c \<in> {Succeeded, Cancelled}"
    "\<exists>c\<in>set (sample_children Succeeded Succeeded Cancelled). tk_status c = Cancelled"
    by (simp_all add: sample_children_def sample_task_def)
  then show ?thesis
    using reconcile_ignores_cancelled_child [of ?w 9 "sample_root Waiting_child" "sample_run R_running" sample_env]
    by (simp add: sample_shape) (auto simp: sample_root_def sample_task_def)
qed

end
