(* ===== verification/Execution_Steps.thy ===== *)
theory Execution_Steps
  imports World
begin

text \<open>
  The trace of an execution (\<open>backend/app/repositories/executions.py\<close>): its steps, one row
  per step key, the listing of executions with PostgreSQL's \<open>ILIKE\<close>, and the counters.
\<close>

section \<open>Queries\<close>

text \<open>
  \<open>s ILIKE pattern\<close> on text already in lower case: percent stands for any text, an
  underscore for one character, a backslash makes the next character literal.
\<close>

function like :: "string \<Rightarrow> string \<Rightarrow> bool" where
  "like [] s = (s = [])"
| "like (c # p) s =
     (if c = CHR ''%'' then like p s \<or> (case s of [] \<Rightarrow> False | _ # t \<Rightarrow> like (c # p) t)
      else case s of
        [] \<Rightarrow> False
      | x # t \<Rightarrow>
          if c = CHR ''_'' then like p (dropWhile is_continuation t)
          else if c = CHR 0x5C then (case p of [] \<Rightarrow> False | d # q \<Rightarrow> x = d \<and> like q t)
          else x = c \<and> like p t)"
  by pat_completeness auto
termination by (relation "measures [\<lambda>(p, s). length p + length s]") (auto simp: less_Suc_eq_le intro: le_SucI length_dropWhile_le)

record execution_filter =
  xf_agent_id :: "string option"
  xf_status :: "exec_status option"
  xf_search :: "string option"
  xf_started_from :: "instant option"
  xf_started_to :: "instant option"

definition ilike :: "string \<Rightarrow> string \<Rightarrow> bool" where
  "ilike s pattern = like (lower pattern) (lower s)"

definition execution_filters :: "execution_filter \<Rightarrow> agent \<Rightarrow> execution_log \<Rightarrow> bool" where
  "execution_filters f a x \<longleftrightarrow>
     (xf_agent_id f \<in> {None, Some []} \<or> xf_agent_id f = Some (ex_agent_id x)) \<and>
     (xf_status f = None \<or> xf_status f = Some (ex_status x)) \<and>
     (case xf_search f of
        None \<Rightarrow> True
      | Some s \<Rightarrow> s = [] \<or>
          (let pattern = ''%'' @ strip s @ ''%'' in
           ilike (uuid_str (ex_id x)) pattern \<or> ilike (ex_input x) pattern \<or> ilike (ag_name a) pattern)) \<and>
     (case xf_started_from f of None \<Rightarrow> True | Some t \<Rightarrow> t \<le> ex_started_at x) \<and>
     (case xf_started_to f of None \<Rightarrow> True | Some t \<Rightarrow> ex_started_at x \<le> t)"

text \<open>The join with the Agent of the execution drops executions without one.\<close>

definition matching_executions :: "execution_filter \<Rightarrow> store \<Rightarrow> execution_log list" where
  "matching_executions f db =
     filter (\<lambda>x. case get_agent (ex_agent_id x) db of None \<Rightarrow> False | Some a \<Rightarrow> execution_filters f a x)
       (db_executions db)"

definition list_executions ::
  "execution_filter \<Rightarrow> nat \<Rightarrow> nat \<Rightarrow> store \<Rightarrow> execution_log list \<times> nat" where
  "list_executions f limit offset db =
     (let xs = matching_executions f db in
      (take limit (drop offset (sort_key (\<lambda>x. (- ex_started_at x, - int (ex_id x))) xs)), length xs))"

record execution_counts =
  xc_total :: nat
  xc_running :: nat
  xc_succeeded :: nat
  xc_failed :: nat
  xc_cancelled :: nat

definition get_execution_metrics :: "execution_filter \<Rightarrow> store \<Rightarrow> execution_counts" where
  "get_execution_metrics f db =
     (let xs = matching_executions f db; count = (\<lambda>s. length (filter (\<lambda>x. ex_status x = s) xs)) in
      \<lparr>xc_total = length xs, xc_running = count X_running, xc_succeeded = count X_succeeded,
       xc_failed = count X_failed, xc_cancelled = count X_cancelled\<rparr>)"

definition get_task_for_execution :: "uuid \<Rightarrow> store \<Rightarrow> agent_task option" where
  "get_task_for_execution x db = first_row (\<lambda>t. tk_execution_id t = Some x) (db_tasks db)"

definition count_retries :: "uuid \<Rightarrow> store \<Rightarrow> nat" where
  "count_retries x db = length (filter (\<lambda>e. ex_retry_of_execution_id e = Some x) (db_executions db))"

section \<open>Steps\<close>

abbreviation step_key :: "execution_step \<Rightarrow> uuid \<times> string" where
  "step_key s \<equiv> (sp_execution_id s, sp_step_key s)"

interpretation step_rows: keyed_rows step_key "row_get step_key" "row_upd step_key"
  by (rule keyed_rows_list)

text \<open>
  \<open>input_data or {}\<close>. The insertion is an upsert on the unique pair of execution and
  key; with \<open>preserve_existing\<close> a row that exists is left as it is.
\<close>

definition obj_or_empty :: "dict option \<Rightarrow> json" where
  "obj_or_empty d = JObj (case d of None \<Rightarrow> [] | Some x \<Rightarrow> x)"

definition new_step ::
  "instant \<Rightarrow> uuid \<Rightarrow> uuid \<Rightarrow> string \<Rightarrow> int \<Rightarrow> string \<Rightarrow> string \<Rightarrow> dict option \<Rightarrow> execution_step"
where
  "new_step t i x key sequence ty name input_data =
     \<lparr>sp_id = i, sp_execution_id = x, sp_step_key = key, sp_sequence = sequence, sp_step_type = ty,
      sp_step_name = name, sp_status = P_running, sp_input_data = obj_or_empty input_data,
      sp_output_data = JObj [], sp_error = None, sp_latency_ms = None, sp_started_at = Some t,
      sp_finished_at = None\<rparr>"

definition restart_step ::
  "instant \<Rightarrow> int \<Rightarrow> string \<Rightarrow> string \<Rightarrow> dict option \<Rightarrow> execution_step \<Rightarrow> execution_step"
where
  "restart_step t sequence ty name input_data s =
     s\<lparr>sp_sequence := sequence, sp_step_type := ty, sp_step_name := name, sp_status := P_running,
       sp_input_data := obj_or_empty input_data, sp_output_data := JObj [], sp_error := None,
       sp_latency_ms := None, sp_started_at := Some t, sp_finished_at := None\<rparr>"

definition upd_step ::
  "uuid \<times> string \<Rightarrow> (execution_step \<Rightarrow> execution_step) \<Rightarrow> store \<Rightarrow> store" where
  "upd_step k f db = db\<lparr>db_steps := row_upd step_key k f (db_steps db)\<rparr>"

definition start_step ::
  "instant \<Rightarrow> uuid \<Rightarrow> string \<Rightarrow> int \<Rightarrow> string \<Rightarrow> string \<Rightarrow> dict option \<Rightarrow> bool \<Rightarrow> store \<Rightarrow>
     execution_step \<times> store"
where
  "start_step t x key sequence ty name input_data preserve_existing db =
     (case row_get step_key (x, key) (db_steps db) of
        None \<Rightarrow>
          (let s = new_step t (db_next_id db) x key sequence ty name input_data in
           (s, db\<lparr>db_steps := db_steps db @ [s], db_next_id := Suc (db_next_id db)\<rparr>))
      | Some s \<Rightarrow>
          if preserve_existing then (s, db)
          else (restart_step t sequence ty name input_data s,
                upd_step (x, key) (restart_step t sequence ty name input_data) db))"

definition latency_from :: "instant \<Rightarrow> execution_step \<Rightarrow> int option" where
  "latency_from t s =
     (case sp_started_at s of None \<Rightarrow> sp_latency_ms s | Some a \<Rightarrow> Some (elapsed_ms a t))"

definition finished_step ::
  "instant \<Rightarrow> step_status \<Rightarrow> dict option \<Rightarrow> string option \<Rightarrow> execution_step \<Rightarrow> execution_step" where
  "finished_step t status output_data err s =
     s\<lparr>sp_status := status, sp_output_data := obj_or_empty output_data,
       sp_error := (case err of None \<Rightarrow> None | Some e \<Rightarrow> if e = [] then None else Some (py_take 2000 e)),
       sp_finished_at := Some t, sp_latency_ms := latency_from t s\<rparr>"

definition finish_step ::
  "instant \<Rightarrow> execution_step \<Rightarrow> step_status \<Rightarrow> dict option \<Rightarrow> string option \<Rightarrow> store \<Rightarrow>
     execution_step \<times> store"
where
  "finish_step t s status output_data err db =
     (finished_step t status output_data err s,
      upd_step (step_key s) (finished_step t status output_data err) db)"

definition record_step ::
  "instant \<Rightarrow> uuid \<Rightarrow> string \<Rightarrow> int \<Rightarrow> string \<Rightarrow> string \<Rightarrow> step_status \<Rightarrow> dict option \<Rightarrow> dict option \<Rightarrow>
     string option \<Rightarrow> int option \<Rightarrow> store \<Rightarrow> execution_step \<times> store"
where
  "record_step t x key sequence ty name status input_data output_data err latency db =
     (let (s, db1) = start_step t x key sequence ty name input_data False db;
          (s2, db2) = finish_step t s status output_data err db1 in
      case latency of
        None \<Rightarrow> (s2, db2)
      | Some l \<Rightarrow>
          (s2\<lparr>sp_latency_ms := Some (max 0 l)\<rparr>,
           upd_step (step_key s2) (\<lambda>r. r\<lparr>sp_latency_ms := Some (max 0 l)\<rparr>) db2))"

definition end_running_steps ::
  "uuid \<Rightarrow> (execution_step \<Rightarrow> execution_step) \<Rightarrow> execution_step list \<Rightarrow> execution_step list" where
  "end_running_steps x f =
     map (\<lambda>s. if sp_execution_id s = x \<and> sp_status s = P_running then f s else s)"

definition failed_step :: "instant \<Rightarrow> string \<Rightarrow> execution_step \<Rightarrow> execution_step" where
  "failed_step t err s =
     s\<lparr>sp_status := P_failed, sp_error := Some (py_take 2000 err), sp_finished_at := Some t,
       sp_latency_ms := latency_from t s\<rparr>"

definition cancelled_step :: "instant \<Rightarrow> execution_step \<Rightarrow> execution_step" where
  "cancelled_step t s =
     s\<lparr>sp_status := P_cancelled, sp_error := None, sp_finished_at := Some t,
       sp_latency_ms := latency_from t s\<rparr>"

definition fail_running_steps :: "instant \<Rightarrow> uuid \<Rightarrow> string \<Rightarrow> store \<Rightarrow> store" where
  "fail_running_steps t x err db =
     db\<lparr>db_steps := end_running_steps x (failed_step t err) (db_steps db)\<rparr>"

definition cancel_running_steps :: "instant \<Rightarrow> uuid \<Rightarrow> store \<Rightarrow> store" where
  "cancel_running_steps t x db =
     db\<lparr>db_steps := end_running_steps x (cancelled_step t) (db_steps db)\<rparr>"

definition link_artifact :: "uuid \<Rightarrow> uuid \<Rightarrow> store \<Rightarrow> store" where
  "link_artifact x a db =
     (if (x, a) \<in> set (db_execution_artifacts db) then db
      else db\<lparr>db_execution_artifacts := db_execution_artifacts db @ [(x, a)]\<rparr>)"

section \<open>What the trace guarantees\<close>

text \<open>
  One row per execution and key, and a row is running exactly when it has no end; a
  finished row that was started has a latency, never a negative one.
\<close>

definition step_ok :: "execution_step \<Rightarrow> bool" where
  "step_ok s \<longleftrightarrow>
     (sp_status s = P_running \<longleftrightarrow> sp_finished_at s = None) \<and>
     (sp_status s = P_running \<longrightarrow> sp_started_at s \<noteq> None) \<and>
     (\<forall>l. sp_latency_ms s = Some l \<longrightarrow> 0 \<le> l)"

definition steps_ok :: "store \<Rightarrow> bool" where
  "steps_ok db \<longleftrightarrow> distinct (map step_key (db_steps db)) \<and> list_all step_ok (db_steps db)"

lemma steps_ok_upd:
  assumes "steps_ok db" and "\<And>s. step_key (f s) = step_key s" and "\<And>s. step_ok s \<Longrightarrow> step_ok (f s)"
  shows "steps_ok (upd_step k f db)"
  using assms step_rows.keys_upd [of f k "db_steps db"]
  by (auto simp: steps_ok_def upd_step_def list_all_iff set_row_upd)

lemma step_ok_facts:
  "step_ok (new_step t i x key sequence ty name d)"
  "step_ok (restart_step t sequence ty name d s)"
  "step_ok s \<Longrightarrow> status \<noteq> P_running \<Longrightarrow> step_ok (finished_step t status od err s)"
  by (auto simp: step_ok_def new_step_def restart_step_def finished_step_def latency_from_def
      split: option.splits)

lemma step_key_facts [simp]:
  "sp_execution_id (restart_step t sequence ty name d s) = sp_execution_id s"
  "sp_step_key (restart_step t sequence ty name d s) = sp_step_key s"
  "sp_execution_id (finished_step t status od err s) = sp_execution_id s"
  "sp_step_key (finished_step t status od err s) = sp_step_key s"
  by (simp_all add: restart_step_def finished_step_def)

lemma start_step_ok:
  assumes "steps_ok db" and "start_step t x key sequence ty name d preserve db = (s, db')"
  shows "steps_ok db' \<and> row_get step_key (x, key) (db_steps db') = Some s"
proof (cases "row_get step_key (x, key) (db_steps db)")
  case None
  have s: "s = new_step t (db_next_id db) x key sequence ty name d"
    and db': "db_steps db' = db_steps db @ [s]"
    using assms(2) None by (auto simp: start_step_def Let_def)
  have k: "step_key s = (x, key)" by (simp add: s new_step_def)
  then have "step_key s \<notin> step_key ` set (db_steps db)"
    using None step_rows.get_none [of "(x, key)" "db_steps db"] by simp
  moreover have "step_ok s" unfolding s by (rule step_ok_facts(1))
  ultimately have "steps_ok db'" using assms(1) unfolding steps_ok_def db' by (simp add: list_all_iff)
  moreover have "row_get step_key (x, key) (db_steps db') = Some s"
    using None k by (simp add: db' row_get_append_new)
  ultimately show ?thesis ..
next
  case (Some s0)
  show ?thesis
  proof (cases preserve)
    case True
    then show ?thesis using assms Some by (simp add: start_step_def)
  next
    case False
    define f where "f = restart_step t sequence ty name d"
    have e: "s = f s0" "db' = upd_step (x, key) f db"
      using assms(2) Some False by (simp_all add: start_step_def f_def)
    have key: "\<And>r. step_key (f r) = step_key r" by (simp add: f_def)
    have "steps_ok db'"
      unfolding e by (rule steps_ok_upd [OF assms(1) key]) (simp add: f_def step_ok_facts)
    moreover have "row_get step_key (x, key) (db_steps db') = Some s"
      using Some step_rows.get_upd_same [OF key, of "(x, key)" "db_steps db"]
      by (simp add: e upd_step_def)
    ultimately show ?thesis ..
  qed
qed

lemma finish_step_ok:
  assumes "steps_ok db" and "status \<noteq> P_running" and "finish_step t s status od err db = (s', db')"
  shows "steps_ok db'"
proof -
  have "db' = upd_step (step_key s) (finished_step t status od err) db"
    using assms(3) by (simp add: finish_step_def)
  then show ?thesis
    using steps_ok_upd [OF assms(1), of "finished_step t status od err"] assms(2) step_ok_facts(3)
    by auto
qed

definition not_running :: "uuid \<Rightarrow> execution_step \<Rightarrow> bool" where
  "not_running x s \<longleftrightarrow> \<not> (sp_execution_id s = x \<and> sp_status s = P_running)"

lemma end_running_steps_rows:
  assumes "\<And>s. step_key (f s) = step_key s" and "\<And>s. sp_status (f s) \<noteq> P_running"
  shows "list_all (not_running x) (end_running_steps x f ss)"
    and "list_all2 (\<lambda>s s'. step_key s' = step_key s \<and> (not_running x s \<longrightarrow> s' = s)) ss
           (end_running_steps x f ss)"
    and "map step_key (end_running_steps x f ss) = map step_key ss"
proof -
  have key: "sp_execution_id (f s) = sp_execution_id s" "sp_step_key (f s) = sp_step_key s" for s
    using assms(1) [of s] by simp_all
  show "list_all (not_running x) (end_running_steps x f ss)"
    by (induction ss) (simp_all add: end_running_steps_def not_running_def assms(2))
  show "list_all2 (\<lambda>s s'. step_key s' = step_key s \<and> (not_running x s \<longrightarrow> s' = s)) ss
           (end_running_steps x f ss)"
    by (induction ss) (simp_all add: end_running_steps_def key not_running_def)
  show "map step_key (end_running_steps x f ss) = map step_key ss"
    by (induction ss) (simp_all add: end_running_steps_def key)
qed

lemma end_running_steps_ok:
  assumes "list_all step_ok ss" and "\<And>s. step_ok s \<Longrightarrow> step_ok (f s)"
  shows "list_all step_ok (end_running_steps x f ss)"
  using assms by (induction ss) (auto simp: end_running_steps_def)

lemma ended_step_facts:
  "step_key (failed_step t err s) = step_key s" "step_key (cancelled_step t s) = step_key s"
  "sp_status (failed_step t err s) = P_failed" "sp_status (cancelled_step t s) = P_cancelled"
  "step_ok s \<Longrightarrow> step_ok (failed_step t err s)" "step_ok s \<Longrightarrow> step_ok (cancelled_step t s)"
  by (auto simp: failed_step_def cancelled_step_def step_ok_def latency_from_def split: option.splits)

lemma fail_or_cancel:
  assumes "db' = fail_running_steps t x err db \<or> db' = cancel_running_steps t x db"
  obtains f where "db' = db\<lparr>db_steps := end_running_steps x f (db_steps db)\<rparr>"
    and "\<And>s. step_key (f s) = step_key s" and "\<And>s. sp_status (f s) \<noteq> P_running"
    and "\<And>s. step_ok s \<Longrightarrow> step_ok (f s)"
proof (rule disjE [OF assms])
  assume "db' = fail_running_steps t x err db"
  then show thesis
    by (intro that [of "failed_step t err"]) (simp_all add: fail_running_steps_def ended_step_facts)
next
  assume "db' = cancel_running_steps t x db"
  then show thesis
    by (intro that [of "cancelled_step t"]) (simp_all add: cancel_running_steps_def ended_step_facts)
qed

lemma running_steps_end_parts:
  assumes "steps_ok db"
    and "db' = fail_running_steps t x err db \<or> db' = cancel_running_steps t x db"
  shows "steps_ok db'"
    and "list_all (not_running x) (db_steps db')"
    and "list_all2 (\<lambda>s s'. step_key s' = step_key s \<and> (not_running x s \<longrightarrow> s' = s)) (db_steps db) (db_steps db')"
proof -
  obtain f where f: "db' = db\<lparr>db_steps := end_running_steps x f (db_steps db)\<rparr>"
    "\<And>s. step_key (f s) = step_key s" "\<And>s. sp_status (f s) \<noteq> P_running"
    "\<And>s. step_ok s \<Longrightarrow> step_ok (f s)"
    using fail_or_cancel [OF assms(2)] by blast
  note rows = end_running_steps_rows [OF f(2,3), where x = x and ss = "db_steps db"]
  show "steps_ok db'"
    using assms(1) end_running_steps_ok [OF _ f(4)] rows(3) by (simp add: f(1) steps_ok_def)
  show "list_all (not_running x) (db_steps db')"
    "list_all2 (\<lambda>s s'. step_key s' = step_key s \<and> (not_running x s \<longrightarrow> s' = s)) (db_steps db) (db_steps db')"
    using rows(1,2) by (simp_all add: f(1))
qed

text \<open>Ending the running steps of an execution, by failure or by cancellation,
  leaves none of them running, touches no step of another execution and no step that had
  ended, and keeps the trace well formed.\<close>

theorem running_steps_end:
  assumes "steps_ok db"
    and "db' = fail_running_steps t x err db \<or> db' = cancel_running_steps t x db"
  shows "steps_ok db' \<and> list_all (not_running x) (db_steps db') \<and>
     list_all2 (\<lambda>s s'. step_key s' = step_key s \<and> (not_running x s \<longrightarrow> s' = s)) (db_steps db) (db_steps db')"
  by (intro conjI, (rule running_steps_end_parts [OF assms])+)

definition sample_steps :: store where
  "sample_steps =
     \<lparr>db_agents = [], db_teams = [], db_members = [], db_workflows = [], db_runs = [], db_tasks = [],
      db_sessions = [], db_executions = [],
      db_steps = [new_step 1000 5 9 ''model'' 2 ''model'' ''call'' None,
                  new_step 2000 6 8 ''model'' 2 ''model'' ''call'' None],
      db_artifacts = [], db_execution_artifacts = [], db_registry = empty_registry, db_next_id = 20\<rparr>"

lemma sample_steps_ok: "steps_ok sample_steps"
  by (simp add: steps_ok_def sample_steps_def step_ok_facts new_step_def step_ok_def)

theorem running_steps_end_witness:
  "steps_ok (cancel_running_steps 5000 9 sample_steps) \<and>
   map sp_status (db_steps (cancel_running_steps 5000 9 sample_steps)) = [P_cancelled, P_running]"
  using running_steps_end [OF sample_steps_ok, of "cancel_running_steps 5000 9 sample_steps" 5000 9 "[]"]
  by (simp add: sample_steps_def cancel_running_steps_def end_running_steps_def cancelled_step_def new_step_def)

text \<open>
  A recorded step is the row of its key, finished with the given status and a latency that
  is never negative, whatever that row held before; all other rows stay.
\<close>

lemma record_step_row:
  assumes "steps_ok db" and "status \<noteq> P_running"
    and "record_step t x key sequence ty name status d od err latency db = (s, db')"
  shows "steps_ok db'" and "row_get step_key (x, key) (db_steps db') = Some s"
    and "sp_status s = status" and "sp_finished_at s = Some t"
    and "\<And>k. k \<noteq> (x, key) \<Longrightarrow> row_get step_key k (db_steps db') = row_get step_key k (db_steps db)"
proof -
  obtain s1 db1 where s1: "start_step t x key sequence ty name d False db = (s1, db1)"
    by (cases "start_step t x key sequence ty name d False db")
  have ok1: "steps_ok db1" and row1: "row_get step_key (x, key) (db_steps db1) = Some s1"
    using start_step_ok [OF assms(1) s1] by auto
  have key1: "step_key s1 = (x, key)" using step_rows.get_sound [OF row1] by simp
  define f where "f = finished_step t status od err"
  define g where "g = (\<lambda>r :: execution_step. case latency of None \<Rightarrow> r | Some l \<Rightarrow> r\<lparr>sp_latency_ms := Some (max 0 l)\<rparr>)"
  have kf: "\<And>r. step_key (f r) = step_key r" and kg: "\<And>r. step_key (g r) = step_key r"
    by (auto simp: f_def g_def split: option.splits)
  have og: "\<And>r. step_ok r \<Longrightarrow> step_ok (g r)"
    by (auto simp: g_def step_ok_def split: option.splits)
  have of: "\<And>r. step_ok r \<Longrightarrow> step_ok (f r)" using assms(2) by (simp add: f_def step_ok_facts)
  have s: "s = g (f s1)"
    and db': "db_steps db' = row_upd step_key (x, key) g (row_upd step_key (x, key) f (db_steps db1))"
    using assms(3) s1 key1 kf [of s1]
    by (auto simp: record_step_def finish_step_def g_def f_def upd_step_def row_upd_def
        split: option.splits)
  have db'': "steps_ok db' \<longleftrightarrow> steps_ok (upd_step (x, key) g (upd_step (x, key) f db1))"
    by (simp add: steps_ok_def db' upd_step_def)
  show "steps_ok db'" unfolding db'' by (intro steps_ok_upd ok1 kf kg of og)
  show "row_get step_key (x, key) (db_steps db') = Some s"
    unfolding db' step_rows.get_upd_same [OF kg] step_rows.get_upd_same [OF kf] row1 s by simp
  show "sp_status s = status" "sp_finished_at s = Some t"
    by (auto simp: s g_def f_def finished_step_def split: option.splits)
  show "row_get step_key k (db_steps db') = row_get step_key k (db_steps db)" if a: "k \<noteq> (x, key)" for k
  proof -
    have "row_get step_key k (db_steps db') = row_get step_key k (db_steps db1)"
      unfolding db' using a by (simp add: step_rows.get_upd_other kf kg)
    also have "\<dots> = row_get step_key k (db_steps db)"
      using s1 a
      by (auto simp: start_step_def Let_def new_step_def upd_step_def row_get_append_new
          step_rows.get_upd_other split: option.splits)
    finally show ?thesis .
  qed
qed

section \<open>Search\<close>

lemma like_literal:
  assumes "set p \<inter> {CHR ''%'', CHR ''_'', CHR 0x5C} = {}"
  shows "like (p @ q) s \<longleftrightarrow> (\<exists>t. s = p @ t \<and> like q t)"
  using assms
proof (induction p arbitrary: s)
  case (Cons c p)
  then show ?case by (cases s) auto
qed simp

lemma like_any: "like [CHR ''%''] s"
  by (induction s) auto

lemma like_percent: "like (CHR ''%'' # p) s \<longleftrightarrow> (\<exists>a b. s = a @ b \<and> like p b)"
proof (induction s)
  case Nil
  show ?case by simp
next
  case (Cons x s)
  have "like (CHR ''%'' # p) (x # s) \<longleftrightarrow> like p (x # s) \<or> like (CHR ''%'' # p) s" by simp
  also have "\<dots> \<longleftrightarrow> (\<exists>a b. x # s = a @ b \<and> like p b)"
    unfolding Cons.IH by (auto simp: Cons_eq_append_conv)
  finally show ?case .
qed

text \<open>A search text without \<open>ILIKE\<close>'s special characters finds exactly the texts that
  contain it, letter case aside.\<close>

theorem ilike_search:
  assumes "set (lower p) \<inter> {CHR ''%'', CHR ''_'', CHR 0x5C} = {}"
  shows "ilike s (''%'' @ p @ ''%'') \<longleftrightarrow> (\<exists>a b. lower s = a @ lower p @ b)"
proof -
  have l: "lower (''%'' @ p @ ''%'') = CHR ''%'' # lower p @ ''%''"
    by (simp add: lower_def lower_char_def)
  show ?thesis
    unfolding ilike_def l like_percent like_literal [OF assms] by (auto simp: like_any)
qed

theorem ilike_search_witness:
  "ilike ''Quarterly Report'' (''%'' @ ''REPORT'' @ ''%'')"
proof -
  have l: "lower ''Quarterly Report'' = ''quarterly '' @ lower ''REPORT'' @ []"
    by code_simp
  have "set (lower ''REPORT'') \<inter> {CHR ''%'', CHR ''_'', CHR 0x5C} = {}"
    by code_simp
  from ilike_search [OF this] l show ?thesis by blast
qed

end
