(* ===== verification/Agent_Versions_Correct.thy ===== *)
theory Agent_Versions_Correct
  imports Agent_Versions
begin

text \<open>
  What the versions of an Agent guarantee: at most one published version per Agent, to
  which the live Agent points; released versions never change; restoring a snapshot brings
  the configuration back; new version names are free.
\<close>

abbreviation versions :: "store \<Rightarrow> agent_version list" where
  "versions db \<equiv> rg_versions (db_registry db)"

interpretation version_rows: keyed_rows av_id "row_get av_id" "row_upd av_id"
  by (rule keyed_rows_list)

interpretation agent_rows: keyed_rows ag_id "row_get ag_id" "row_upd ag_id"
  by (rule keyed_rows_list)

section \<open>What each operation leaves alone\<close>

lemma version_frames [simp]:
  "versions (upd_schema i f db) = versions db"
  "versions (upd_api i g db) = versions db"
  "versions (upd_agent k h db) = versions db"
  "versions (snd (new_id db)) = versions db"
  "versions (bind_api t x n s db) = versions db"
  "versions (set_publication_status t x st db) = versions db"
  "versions (upd_version j e db) = row_upd av_id j e (versions db)"
  by (auto simp: upd_schema_def upd_api_def upd_registry_def upd_agent_def new_id_def bind_api_def
      set_publication_status_def upd_version_def Let_def split: option.splits)

lemma agent_frames [simp]:
  "db_agents (upd_schema i f db) = db_agents db"
  "db_agents (upd_api i g db) = db_agents db"
  "db_agents (upd_agent k h db) = row_upd ag_id k h (db_agents db)"
  "db_agents (upd_registry q db) = db_agents db"
  "db_agents (bind_api t x n s db) = db_agents db"
  "db_agents (set_publication_status t x st db) = db_agents db"
  "db_agents (upd_version j e db) = db_agents db"
  "db_agents (deprecate_others t x i db) = db_agents db"
  by (auto simp: upd_schema_def upd_api_def upd_registry_def upd_agent_def new_id_def bind_api_def
      set_publication_status_def upd_version_def deprecate_others_def Let_def split: option.splits)

lemma id_frames [simp]:
  "db_next_id (upd_schema i f db) = db_next_id db"
  "db_next_id (upd_api i g db) = db_next_id db"
  "db_next_id (upd_agent k h db) = db_next_id db"
  "db_next_id (upd_registry q db) = db_next_id db"
  "db_next_id (set_publication_status t x st db) = db_next_id db"
  "db_next_id (upd_version j e db) = db_next_id db"
  "db_next_id (deprecate_others t x i db) = db_next_id db"
  "db_next_id db \<le> db_next_id (bind_api t x n s db)"
  by (auto simp: upd_schema_def upd_api_def upd_registry_def upd_agent_def new_id_def bind_api_def
      set_publication_status_def upd_version_def deprecate_others_def Let_def split: option.splits)

lemma restore_schema_frame:
  assumes "restore_schema t a version p db = (i, db')"
  shows "versions db' = versions db" and "db_agents db' = db_agents db"
    and "db_next_id db \<le> db_next_id db'"
  using assms
  by (auto simp: restore_schema_def upd_registry_def new_id_def Let_def split: option.splits)

lemma rbind_InrE:
  assumes "rbind r f = Inr y"
  obtains x where "r = Inr x" and "f x = Inr y"
  using assms by (auto simp: rbind_Inr)

lemma restored_runtime_id_same:
  "restored_runtime_id rep runtime a = Inr b \<Longrightarrow> \<exists>i. b = a\<lparr>ag_runtime_id := i\<rparr>"
  by (auto simp: restored_runtime_id_def value_error_def split: if_splits option.splits
      intro: exI [of _ "ag_runtime_id a"])

lemma restored_profile_same:
  "restored_profile runtime a = Inr b \<Longrightarrow>
     \<exists>c p. b = a\<lparr>ag_runtime_config := c, ag_capability_profile := p\<rparr>"
  by (cases a) (auto simp: restored_profile_def Let_def rbind_Inr split: if_splits)

lemma restored_agent_same:
  assumes "restored_agent rep prompt model schema runtime a = Inr b"
  shows "ag_id b = ag_id a" and "ag_current_version_id b = ag_current_version_id a"
  using assms unfolding restored_agent_def restored_runtime_def
  by (auto elim!: rbind_InrE dest!: restored_runtime_id_same restored_profile_same)

lemma restore_contract_frame:
  "versions (restore_contract rep t a s schema p db) = versions db"
  "db_agents (restore_contract rep t a s schema p db) = db_agents db"
  "db_next_id db \<le> db_next_id (restore_contract rep t a s schema p db)"
proof -
  obtain i db1 where r: "restore_schema t a (strip (str_or rep schema ''version'' [])) p db = (i, db1)"
    by (cases "restore_schema t a (strip (str_or rep schema ''version'' [])) p db")
  have "restore_contract rep t a s schema p db \<in> {db, db1, bind_api t (ag_id a) (snapshot_api_version rep s) i db1}"
    using r by (simp add: restore_contract_def Let_def)
  then show "versions (restore_contract rep t a s schema p db) = versions db"
    "db_agents (restore_contract rep t a s schema p db) = db_agents db"
    "db_next_id db \<le> db_next_id (restore_contract rep t a s schema p db)"
    using restore_schema_frame [OF r] order_trans [OF _ id_frames(8)] by auto
qed

lemma restore_links_frame:
  assumes "restore_links a skill_ids mcp_ids db = Inr db'"
  shows "versions db' = versions db" and "db_agents db' = row_upd ag_id (ag_id a) (\<lambda>_. a) (db_agents db)"
    and "db_next_id db' = db_next_id db"
  using assms unfolding restore_links_def
  by (auto elim!: rbind_InrE simp: upd_registry_def upd_agent_def split: if_splits)

lemma restore_agent_version_E:
  assumes "restore_agent_version rep t a v p db = Inr (b, db')"
  obtains prompt model schema runtime skills mcps db1
  where "section_of (av_snapshot v) ''prompt'' = Inr prompt" "section_of (av_snapshot v) ''model'' = Inr model"
    and "section_of (av_snapshot v) ''schema'' = Inr schema" "section_of (av_snapshot v) ''runtime'' = Inr runtime"
    and "restored_agent rep prompt model schema runtime a = Inr b"
    and "restore_links b skills mcps db = Inr db1"
    and "db' = restore_contract rep t b (av_snapshot v) schema p db1"
  using assms unfolding restore_agent_version_def Let_def
  by (elim rbind_InrE) simp

lemma restore_agent_version_frame:
  assumes "restore_agent_version rep t a v p db = Inr (b, db')"
  shows "versions db' = versions db"
    and "db_agents db' = row_upd ag_id (ag_id a) (\<lambda>_. b) (db_agents db)"
    and "ag_id b = ag_id a" and "ag_current_version_id b = ag_current_version_id a"
    and "db_next_id db \<le> db_next_id db'"
proof -
  obtain prompt model schema runtime skills mcps db1 where
    b: "restored_agent rep prompt model schema runtime a = Inr b"
    and l: "restore_links b skills mcps db = Inr db1"
    and d: "db' = restore_contract rep t b (av_snapshot v) schema p db1"
    using assms by (rule restore_agent_version_E)
  show "ag_id b = ag_id a" "ag_current_version_id b = ag_current_version_id a"
    using restored_agent_same [OF b] by auto
  then show "versions db' = versions db" "db_agents db' = row_upd ag_id (ag_id a) (\<lambda>_. b) (db_agents db)"
    using restore_links_frame [OF l] by (simp_all add: d restore_contract_frame)
  show "db_next_id db \<le> db_next_id db'"
    unfolding d restore_links_frame(3) [OF l, symmetric] by (rule restore_contract_frame(3))
qed

lemma publish_contract_E:
  assumes "publish_contract rep t a s db = Inr (u, db')"
  obtains db1 n sid where "db1 = db \<or> (\<exists>i f. db1 = upd_schema i f db)"
    and "db' = set_publication_status t (ag_id a) B_published (bind_api t (ag_id a) n sid db1)"
proof -
  obtain sch where sch: "find_schema (ag_id a) (str_or rep (as_obj (dget s ''schema'')) ''version'' ''v1'') db = Some sch"
    using assms by (auto simp: publish_contract_def Let_def value_error_def split: option.splits)
  define n where "n = snapshot_api_version rep s"
  from assms sch obtain db1 where
    db1: "db1 = db \<or> (\<exists>i f. db1 = upd_schema i f db)"
    and rest: "(case find_api (ag_id a) n db1 of
            Some b \<Rightarrow>
              if aw_status b = C_disabled then value_error ''Agent v1 API version is unavailable''
              else Inr ((), set_publication_status t (ag_id a) B_published (bind_api t (ag_id a) n (sv_id sch) db1))
          | None \<Rightarrow>
              Inr ((), set_publication_status t (ag_id a) B_published (bind_api t (ag_id a) n (sv_id sch) db1)))
          = Inr (u, db')"
    unfolding publish_contract_def Let_def n_def
    by (auto elim!: rbind_InrE simp: value_error_def split: if_splits)
  then show thesis
    using that [OF db1] by (auto simp: value_error_def split: option.splits if_splits)
qed

lemma publish_contract_frame:
  assumes "publish_contract rep t a s db = Inr (u, db')"
  shows "versions db' = versions db" and "db_agents db' = db_agents db"
    and "db_next_id db \<le> db_next_id db'"
proof -
  obtain db1 n sid where d1: "db1 = db \<or> (\<exists>i f. db1 = upd_schema i f db)"
    and d: "db' = set_publication_status t (ag_id a) B_published (bind_api t (ag_id a) n sid db1)"
    using assms by (rule publish_contract_E)
  have e: "versions db1 = versions db" "db_agents db1 = db_agents db" "db_next_id db1 = db_next_id db"
    using d1 by auto
  show "versions db' = versions db" "db_agents db' = db_agents db" by (simp_all add: d e)
  show "db_next_id db \<le> db_next_id db'" unfolding d id_frames(5) e(3) [symmetric] by (rule id_frames(8))
qed

section \<open>One published version\<close>

definition single_published :: "agent_version list \<Rightarrow> bool" where
  "single_published vs \<longleftrightarrow>
     (\<forall>v\<in>set vs. \<forall>w\<in>set vs. av_status v = V_published \<and> av_status w = V_published \<and>
        av_agent_id v = av_agent_id w \<longrightarrow> av_id v = av_id w)"

definition current_published :: "agent_version list \<Rightarrow> agent list \<Rightarrow> bool" where
  "current_published vs ags \<longleftrightarrow>
     (\<forall>a\<in>set ags. \<forall>i. ag_current_version_id a = Some i \<longrightarrow>
        (\<exists>v\<in>set vs. av_id v = i \<and> av_agent_id v = ag_id a \<and> av_status v = V_published))"

definition versions_ok :: "store \<Rightarrow> bool" where
  "versions_ok db \<longleftrightarrow>
     distinct (map av_id (versions db)) \<and> (\<forall>v\<in>set (versions db). av_id v < db_next_id db) \<and>
     single_published (versions db) \<and> current_published (versions db) (db_agents db)"

text \<open>Releasing version \<open>i\<close> of Agent \<open>x\<close>: every other published version of \<open>x\<close> is deprecated.\<close>

definition release ::
  "instant \<Rightarrow> string \<Rightarrow> uuid \<Rightarrow> (agent_version \<Rightarrow> agent_version) \<Rightarrow> agent_version \<Rightarrow> agent_version" where
  "release t x i g v =
     (if av_id v = i then g v
      else if av_agent_id v = x \<and> av_status v = V_published
      then v\<lparr>av_status := V_deprecated, av_deprecated_at := Some t\<rparr> else v)"

definition keeps_version :: "(agent_version \<Rightarrow> agent_version) \<Rightarrow> bool" where
  "keeps_version g \<longleftrightarrow> (\<forall>v. av_id (g v) = av_id v \<and> av_agent_id (g v) = av_agent_id v \<and>
     av_version (g v) = av_version v \<and> av_snapshot (g v) = av_snapshot v \<and>
     av_snapshot_format_version (g v) = av_snapshot_format_version v \<and>
     av_resolution_digest (g v) = av_resolution_digest v)"

lemma released_facts:
  "keeps_version (published t)" "keeps_version (rolled_back t)"
  "av_status (published t v) = V_published" "av_status (rolled_back t v) = V_published"
  by (simp_all add: keeps_version_def published_def rolled_back_def)

lemma deprecate_others_release:
  "row_upd av_id i g (versions (deprecate_others t x i db)) = map (release t x i g) (versions db)"
  by (auto simp: deprecate_others_def upd_registry_def row_upd_def release_def)

lemma release_keeps: "keeps_version g \<Longrightarrow> keeps_version (release t x i g)"
  by (auto simp: keeps_version_def release_def)

lemma release_status:
  assumes "\<And>v. av_status (g v) = V_published"
  shows "av_status (release t x i g v) = V_published \<longleftrightarrow>
     av_id v = i \<or> av_status v = V_published \<and> av_agent_id v \<noteq> x"
  using assms by (auto simp: release_def)

lemma keeps_versionD:
  "keeps_version g \<Longrightarrow> av_id (g v) = av_id v" "keeps_version g \<Longrightarrow> av_agent_id (g v) = av_agent_id v"
  by (simp_all add: keeps_version_def)

lemma distinct_ids_eq:
  "distinct (map av_id vs) \<Longrightarrow> v \<in> set vs \<Longrightarrow> w \<in> set vs \<Longrightarrow> av_id v = av_id w \<Longrightarrow> v = w"
  by (metis distinct_map inj_on_eq_iff)

lemma release_versions_ok:
  assumes ok: "versions_ok db"
    and v: "v \<in> set (versions db)" "av_id v = i" "av_agent_id v = x"
    and g: "keeps_version g" "\<And>v. av_status (g v) = V_published"
    and vs: "versions db' = map (release t x i g) (versions db)"
    and ags: "set (db_agents db') \<subseteq> insert b {a \<in> set (db_agents db). ag_id a \<noteq> x}"
    and b: "ag_id b = x" "ag_current_version_id b = Some i"
    and n: "db_next_id db \<le> db_next_id db'"
  shows "versions_ok db'"
proof -
  let ?r = "release t x i g"
  note keep = keeps_versionD [OF release_keeps [OF g(1)]]
  note status = release_status [of g t x i, OF g(2)]
  have ids: "map av_id (versions db') = map av_id (versions db)" by (simp add: vs keep)
  have owner: "av_agent_id w = x" if "w \<in> set (versions db)" "av_id w = i" for w
    using distinct_ids_eq [of "versions db" w v] that ok v by (auto simp: versions_ok_def)
  have "single_published (versions db')"
    unfolding single_published_def vs
  proof (intro ballI impI)
    fix v' w' assume m: "v' \<in> set (map ?r (versions db))" "w' \<in> set (map ?r (versions db))"
      and a: "av_status v' = V_published \<and> av_status w' = V_published \<and> av_agent_id v' = av_agent_id w'"
    obtain p q where p: "p \<in> set (versions db)" "v' = ?r p" and q: "q \<in> set (versions db)" "w' = ?r q"
      using m by auto
    have same: "av_agent_id p = av_agent_id q" using a by (simp add: p q keep)
    have "av_id p = i \<or> av_status p = V_published \<and> av_agent_id p \<noteq> x"
      "av_id q = i \<or> av_status q = V_published \<and> av_agent_id q \<noteq> x"
      using a by (auto simp: p q status)
    then have "av_id p = av_id q"
      using owner p(1) q(1) same ok unfolding versions_ok_def single_published_def by metis
    then show "av_id v' = av_id w'" by (simp add: p q keep)
  qed
  moreover have "current_published (versions db') (db_agents db')"
    unfolding current_published_def
  proof (intro ballI allI impI)
    fix a j assume a: "a \<in> set (db_agents db')" "ag_current_version_id a = Some j"
    show "\<exists>w\<in>set (versions db'). av_id w = j \<and> av_agent_id w = ag_id a \<and> av_status w = V_published"
    proof (cases "a = b")
      case True
      have "?r v \<in> set (versions db')" using v(1) by (simp add: vs)
      moreover have "av_id (?r v) = j \<and> av_agent_id (?r v) = ag_id a \<and> av_status (?r v) = V_published"
        using a(2) b v(2,3) status [where v = v] keep [where v = v] unfolding True by auto
      ultimately show ?thesis by blast
    next
      case False
      then have "a \<in> set (db_agents db)" "ag_id a \<noteq> x" using a(1) ags by auto
      then obtain w where w: "w \<in> set (versions db)" "av_id w = j" "av_agent_id w = ag_id a"
        "av_status w = V_published"
        using ok a(2) unfolding versions_ok_def current_published_def by blast
      have "av_id (?r w) = j \<and> av_agent_id (?r w) = ag_id a \<and> av_status (?r w) = V_published"
        using w \<open>ag_id a \<noteq> x\<close> by (simp add: keep status)
      moreover have "?r w \<in> set (versions db')" using w(1) by (simp add: vs)
      ultimately show ?thesis by blast
    qed
  qed
  moreover have "\<forall>w\<in>set (versions db'). av_id w < db_next_id db'"
    using ok n by (auto simp: vs keep versions_ok_def)
  ultimately show ?thesis using ok ids by (simp add: versions_ok_def)
qed

lemma get_agent_version_by_id_Some:
  "get_agent_version_by_id x i db = Some v \<Longrightarrow> v \<in> set (versions db) \<and> av_id v = i \<and> av_agent_id v = x"
  by (auto simp: get_agent_version_by_id_def dest: first_row_Some)

lemma set_row_upd_const:
  "set (row_upd ag_id x (\<lambda>_. b) (row_upd ag_id x (\<lambda>_. a) ags)) \<subseteq> insert b {c \<in> set ags. ag_id c \<noteq> x}"
  if "ag_id a = x"
  using that by (auto simp: row_upd_def)

lemma row_get_upd_const:
  "ag_id b = x \<Longrightarrow> row_get ag_id x ags \<noteq> None \<Longrightarrow> row_get ag_id x (row_upd ag_id x (\<lambda>_. b) ags) = Some b"
  by (induction ags) (auto simp: row_upd_def row_get_Cons)

lemma publish_agent_E:
  assumes "publish_agent rep t a v db = Inr (w, db')"
  obtains b db1 db2 where "av_status v = V_release_candidate"
    and "publish_contract rep t a (av_snapshot v) db = Inr ((), db1)"
    and "restore_agent_version rep t a v True (deprecate_others t (ag_id a) (av_id v) db1) = Inr (b, db2)"
    and "w = published t v"
    and "db' = upd_agent (ag_id a) (\<lambda>_. activated (av_id v) b) (upd_version (av_id v) (published t) db2)"
  using assms unfolding publish_agent_def
  by (auto elim!: rbind_InrE)

lemma publish_agent_effect:
  assumes "publish_agent rep t a v db = Inr (w, db')"
  shows "versions db' = map (release t (ag_id a) (av_id v) (published t)) (versions db)"
    and "\<exists>b. ag_id b = ag_id a \<and> ag_current_version_id b = Some (av_id v) \<and> ag_status b = A_active \<and>
           ag_api_enabled b \<and> set (db_agents db') \<subseteq> insert b {c \<in> set (db_agents db). ag_id c \<noteq> ag_id a} \<and>
           (get_agent (ag_id a) db \<noteq> None \<longrightarrow> get_agent (ag_id a) db' = Some b)"
    and "db_next_id db \<le> db_next_id db'"
proof -
  obtain b db1 db2 where c: "publish_contract rep t a (av_snapshot v) db = Inr ((), db1)"
    and r: "restore_agent_version rep t a v True (deprecate_others t (ag_id a) (av_id v) db1) = Inr (b, db2)"
    and d: "db' = upd_agent (ag_id a) (\<lambda>_. activated (av_id v) b) (upd_version (av_id v) (published t) db2)"
    using assms by (rule publish_agent_E)
  note fc = publish_contract_frame [OF c] and fr = restore_agent_version_frame [OF r]
  have "versions (deprecate_others t (ag_id a) (av_id v) db1) = versions (deprecate_others t (ag_id a) (av_id v) db)"
    using fc(1) by (simp add: deprecate_others_def upd_registry_def)
  then show "versions db' = map (release t (ag_id a) (av_id v) (published t)) (versions db)"
    by (simp add: d fr(1) deprecate_others_release)
  have ags: "db_agents db' = row_upd ag_id (ag_id a) (\<lambda>_. activated (av_id v) b)
      (row_upd ag_id (ag_id a) (\<lambda>_. b) (db_agents db))"
    by (simp add: d fr(2) fc(2))
  have "get_agent (ag_id a) db' = Some (activated (av_id v) b)" if "get_agent (ag_id a) db \<noteq> None"
    unfolding ags using that fr(3)
    by (intro row_get_upd_const) (auto simp: activated_def row_get_upd_const)
  then show "\<exists>b. ag_id b = ag_id a \<and> ag_current_version_id b = Some (av_id v) \<and> ag_status b = A_active \<and>
           ag_api_enabled b \<and> set (db_agents db') \<subseteq> insert b {c \<in> set (db_agents db). ag_id c \<noteq> ag_id a} \<and>
           (get_agent (ag_id a) db \<noteq> None \<longrightarrow> get_agent (ag_id a) db' = Some b)"
    using set_row_upd_const [OF fr(3), of "activated (av_id v) b" "db_agents db"] fr(3)
    by (intro exI [of _ "activated (av_id v) b"]) (simp add: ags activated_def)
  show "db_next_id db \<le> db_next_id db'" using fc(3) fr(5) by (simp add: d)
qed

lemma publish_agent_versions_ok:
  assumes "versions_ok db" and "get_agent_version_by_id (ag_id a) (av_id v) db = Some v"
    and "publish_agent rep t a v db = Inr (w, db')"
  shows "versions_ok db'"
proof -
  note e = publish_agent_effect [OF assms(3)]
  note m = get_agent_version_by_id_Some [OF assms(2)]
  obtain b where b: "ag_id b = ag_id a" "ag_current_version_id b = Some (av_id v)"
    "set (db_agents db') \<subseteq> insert b {c \<in> set (db_agents db). ag_id c \<noteq> ag_id a}"
    using e(2) by blast
  show ?thesis
    by (rule release_versions_ok [OF assms(1) _ refl _ released_facts(1,3) e(1) b(3) b(1,2) e(3)])
       (use m in auto)
qed

lemma rollback_agent_version_effect:
  assumes "rollback_agent_version rep t a v db = Inr (b, db')"
  shows "versions db' = map (release t (ag_id a) (av_id v) (rolled_back t)) (versions db)"
    and "ag_id b = ag_id a" and "ag_current_version_id b = Some (av_id v)"
    and "set (db_agents db') \<subseteq> insert b {c \<in> set (db_agents db). ag_id c \<noteq> ag_id a}"
    and "db_next_id db \<le> db_next_id db'"
proof -
  obtain b0 db1 where r: "restore_agent_version rep t a v True db = Inr (b0, db1)"
    and b: "b = activated (av_id v) b0"
    and d: "db' = set_publication_status t (ag_id a) B_published
            (upd_agent (ag_id a) (\<lambda>_. b)
              (upd_version (av_id v) (rolled_back t) (deprecate_others t (ag_id a) (av_id v) db1)))"
    using assms unfolding rollback_agent_version_def by (auto elim!: rbind_InrE)
  note fr = restore_agent_version_frame [OF r]
  have "versions (deprecate_others t (ag_id a) (av_id v) db1) = versions (deprecate_others t (ag_id a) (av_id v) db)"
    using fr(1) by (simp add: deprecate_others_def upd_registry_def)
  then show "versions db' = map (release t (ag_id a) (av_id v) (rolled_back t)) (versions db)"
    by (simp add: d deprecate_others_release)
  show "ag_id b = ag_id a" "ag_current_version_id b = Some (av_id v)"
    using fr(3) by (simp_all add: b activated_def)
  show "set (db_agents db') \<subseteq> insert b {c \<in> set (db_agents db). ag_id c \<noteq> ag_id a}"
    using set_row_upd_const [OF fr(3), of b "db_agents db"] by (simp add: d fr(2))
  show "db_next_id db \<le> db_next_id db'" using fr(5) by (simp add: d)
qed

lemma rollback_agent_version_ok:
  assumes "versions_ok db" and "get_agent_version_by_id (ag_id a) (av_id v) db = Some v"
    and "rollback_agent_version rep t a v db = Inr (b, db')"
  shows "versions_ok db'"
proof -
  note e = rollback_agent_version_effect [OF assms(3)]
  note m = get_agent_version_by_id_Some [OF assms(2)]
  show ?thesis
    by (rule release_versions_ok [OF assms(1) _ refl _ released_facts(2,4) e(1) e(4) e(2,3) e(5)])
       (use m in auto)
qed

text \<open>An edit of a version that is not published, and one that does not publish it.\<close>

lemma unpublished_edit_ok:
  assumes ok: "versions_ok db" and vs: "versions db' = row_upd av_id i f (versions db)"
    and rest: "db_agents db' = db_agents db" "db_next_id db' = db_next_id db"
    and f: "\<And>v. av_id (f v) = av_id v" "\<And>v. av_agent_id (f v) = av_agent_id v"
    and "\<And>v. v \<in> set (versions db) \<Longrightarrow> av_id v = i \<Longrightarrow> av_status v \<noteq> V_published"
    and "\<And>v. v \<in> set (versions db) \<Longrightarrow> av_id v = i \<Longrightarrow> av_status (f v) \<noteq> V_published"
  shows "versions_ok db'"
proof -
  have ids: "map av_id (versions db') = map av_id (versions db)"
    unfolding vs by (rule version_rows.keys_upd) (rule f(1))
  have pub: "w \<in> set (versions db') \<and> av_status w = V_published \<longleftrightarrow> w \<in> set (versions db) \<and> av_status w = V_published"
    for w
  proof
    assume w: "w \<in> set (versions db') \<and> av_status w = V_published"
    then obtain u where "u \<in> set (versions db)" "w = (if av_id u = i then f u else u)"
      by (auto simp: vs row_upd_def)
    with w assms(8) show "w \<in> set (versions db) \<and> av_status w = V_published" by (cases "av_id u = i") auto
  next
    assume w: "w \<in> set (versions db) \<and> av_status w = V_published"
    then have "av_id w \<noteq> i" using assms(7) by blast
    with w show "w \<in> set (versions db') \<and> av_status w = V_published" by (force simp: vs row_upd_def)
  qed
  have "single_published (versions db')"
    using ok pub unfolding versions_ok_def single_published_def by metis
  moreover have "current_published (versions db') (db_agents db')"
    using ok pub unfolding versions_ok_def current_published_def rest by metis
  moreover have "\<forall>w\<in>set (versions db'). av_id w < db_next_id db'"
    using ok by (auto simp: vs row_upd_def versions_ok_def rest f)
  ultimately show ?thesis using ok ids by (simp add: versions_ok_def)
qed

lemma get_version_fresh:
  assumes "versions_ok db" and "get_agent_version_by_id x i db = Some v" and "w \<in> set (versions db)"
    and "av_id w = av_id v"
  shows "w = v"
  using assms distinct_ids_eq get_agent_version_by_id_Some by (metis versions_ok_def)

lemma update_agent_version_E:
  assumes "update_agent_version rep check t v s d ds db = Inr (w, db')"
  obtains f where "av_status v \<in> {V_development, V_testing, V_release_candidate}"
    and "w = f v" and "db' = upd_version (av_id v) f db"
    and "\<forall>r. av_id (f r) = av_id r \<and> av_agent_id (f r) = av_agent_id r \<and> av_status (f r) = av_status r"
proof -
  obtain edit where e: "av_status v \<in> {V_development, V_testing, V_release_candidate}"
    "(case s of
              None \<Rightarrow> Inr (\<lambda>r. r)
            | Some s \<Rightarrow>
                rbind (validate_agent_snapshot rep check s) (\<lambda>_.
                rbind (lift_py (py_int rep (py_or (dget s ''format_version'') (JInt 1)))) (\<lambda>n.
                Inr (\<lambda>r. r\<lparr>av_snapshot := s, av_snapshot_format_version := n,
                             av_resolution_digest :=
                               (let d = dget s ''resolution_digest'' in
                                if truthy d then Some (py_str rep d) else None)\<rparr>)))) = (Inr edit :: version_error + (agent_version \<Rightarrow> agent_version))"
    "w = (edit v)\<lparr>av_description := (if ds then d else av_description v), av_updated_at := t\<rparr>"
    "db' = upd_version (av_id v) (\<lambda>r. (edit r)\<lparr>av_description := (if ds then d else av_description r), av_updated_at := t\<rparr>) db"
    using assms unfolding update_agent_version_def Let_def by (auto elim!: rbind_InrE)
  have "\<And>r. av_id (edit r) = av_id r \<and> av_agent_id (edit r) = av_agent_id r \<and> av_status (edit r) = av_status r"
    using e(2) by (auto elim!: rbind_InrE split: option.splits)
  then show thesis
    by (intro that [OF e(1) _ e(4)]) (simp_all add: e(3))
qed

lemma update_agent_version_ok:
  assumes "versions_ok db" and "get_agent_version_by_id x i db = Some v"
    and "update_agent_version rep check t v s d ds db = Inr (w, db')"
  shows "versions_ok db'"
proof -
  obtain f where st: "av_status v \<in> {V_development, V_testing, V_release_candidate}"
    and w: "w = f v" and d: "db' = upd_version (av_id v) f db"
    and f: "\<forall>r. av_id (f r) = av_id r \<and> av_agent_id (f r) = av_agent_id r \<and> av_status (f r) = av_status r"
    using assms(3) by (rule update_agent_version_E)
  show ?thesis
  proof (rule unpublished_edit_ok [OF assms(1), where i = "av_id v" and f = f])
    fix u assume "u \<in> set (versions db)" "av_id u = av_id v"
    then have "u = v" by (rule get_version_fresh [OF assms(1,2)])
    then show "av_status u \<noteq> V_published" "av_status (f u) \<noteq> V_published" using st f by auto
  qed (simp_all add: d f)
qed

lemma transition_agent_version_ok:
  assumes "versions_ok db" and "get_agent_version_by_id x i db = Some v"
    and "transition_agent_version t v target db = Inr (w, db')"
  shows "versions_ok db'"
proof (cases "target = av_status v")
  case True
  have d: "db' = upd_version (av_id v) (\<lambda>r. r\<lparr>av_status := target, av_updated_at := t\<rparr>) db"
    using assms(3) by (auto simp: transition_agent_version_def Let_def elim!: rbind_InrE)
  have same: "\<And>u. u \<in> set (versions db) \<Longrightarrow> av_id u = av_id v \<Longrightarrow> u = v"
    by (rule get_version_fresh [OF assms(1,2)])
  have vs: "versions db' = map (\<lambda>u. if av_id u = av_id v then v\<lparr>av_updated_at := t\<rparr> else u) (versions db)"
  proof -
    have "u\<lparr>av_status := target, av_updated_at := t\<rparr> = v\<lparr>av_updated_at := t\<rparr>"
      if "u \<in> set (versions db)" "av_id u = av_id v" for u
      unfolding same [OF that] True by simp
    then show ?thesis by (simp add: d row_upd_def)
  qed
  have ids: "map av_id (versions db') = map av_id (versions db)"
    by (simp add: d row_upd_def)
  have rows: "\<exists>u\<in>set (versions db). av_id u = av_id u' \<and> av_agent_id u = av_agent_id u' \<and> av_status u = av_status u'"
    if "u' \<in> set (versions db')" for u'
    using that get_agent_version_by_id_Some [OF assms(2)] by (auto simp: vs split: if_splits)
  have rows': "\<exists>u'\<in>set (versions db'). av_id u = av_id u' \<and> av_agent_id u = av_agent_id u' \<and> av_status u = av_status u'"
    if "u \<in> set (versions db)" for u
  proof
    show "(if av_id u = av_id v then v\<lparr>av_updated_at := t\<rparr> else u) \<in> set (versions db')"
      using that by (simp add: vs)
  qed (use same [OF that] in auto)
  have "single_published (versions db')"
    using assms(1) rows unfolding versions_ok_def single_published_def by metis
  moreover have "current_published (versions db') (db_agents db')"
    using assms(1) rows' unfolding versions_ok_def current_published_def d agent_frames by metis
  moreover have "\<forall>u\<in>set (versions db'). av_id u < db_next_id db'"
    using assms(1) rows unfolding versions_ok_def by (metis d id_frames(6))
  ultimately show ?thesis using assms(1) ids by (simp add: versions_ok_def)
next
  case False
  then have move: "target \<in> version_moves (av_status v)"
    and d: "db' = upd_version (av_id v) (\<lambda>r. r\<lparr>av_status := target, av_updated_at := t\<rparr>) db"
    using assms(3) by (auto simp: transition_agent_version_def Let_def elim!: rbind_InrE)
  show ?thesis
  proof (rule unpublished_edit_ok [OF assms(1), where i = "av_id v"
        and f = "\<lambda>r. r\<lparr>av_status := target, av_updated_at := t\<rparr>"])
    fix u assume "u \<in> set (versions db)" "av_id u = av_id v"
    then have "u = v" by (rule get_version_fresh [OF assms(1,2)])
    then show "av_status u \<noteq> V_published" using move by (cases "av_status v") auto
    show "av_status (u\<lparr>av_status := target, av_updated_at := t\<rparr>) \<noteq> V_published"
      using move by (cases "av_status v") auto
  qed (simp_all add: d)
qed

lemma create_agent_version_ok:
  assumes "versions_ok db" and "create_agent_version t a version d by db = Inr (v, db')"
  shows "versions_ok db'"
proof -
  have vs: "versions db' = versions db @ [v]" and v: "av_id v = db_next_id db" "av_status v = V_development"
    and rest: "db_agents db' = db_agents db" "db_next_id db' = Suc (db_next_id db)"
    using assms(2)
    by (auto simp: create_agent_version_def new_id_def upd_registry_def new_version_def Let_def split: if_splits)
  have fresh: "\<forall>u\<in>set (versions db). av_id u < db_next_id db" using assms(1) by (simp add: versions_ok_def)
  have "single_published (versions db')"
    using assms(1) v(2) unfolding versions_ok_def single_published_def vs
    by (metis UnE set_append set_ConsD empty_iff list.set(1) version_status.distinct(5))
  moreover have "current_published (versions db') (db_agents db')"
    using assms(1) unfolding versions_ok_def current_published_def vs rest set_append by blast
  moreover note fresh
  ultimately show ?thesis using assms(1) by (auto simp: versions_ok_def vs v(1) rest less_Suc_eq)
qed

lemma transition_agent_ok:
  assumes "versions_ok db" and "transition_agent a target db = Inr (b, db')"
  shows "versions_ok db'"
proof -
  define f where "f = (\<lambda>r :: agent. r\<lparr>ag_status := target,
      ag_api_enabled := (target = A_active \<and> ag_current_version_id a \<noteq> None)\<rparr>)"
  have d: "db' = upd_agent (ag_id a) f db"
    using assms(2) unfolding transition_agent_def Let_def f_def by (elim rbind_InrE) simp
  have f: "ag_id (f r) = ag_id r \<and> ag_current_version_id (f r) = ag_current_version_id r" for r
    by (simp add: f_def)
  have "current_published (versions db) (row_upd ag_id (ag_id a) f (db_agents db))"
    unfolding current_published_def
  proof (intro ballI allI impI)
    fix b i assume "b \<in> set (row_upd ag_id (ag_id a) f (db_agents db))" and i: "ag_current_version_id b = Some i"
    then obtain c where c: "c \<in> set (db_agents db)" "b = (if ag_id c = ag_id a then f c else c)"
      by (auto simp: row_upd_def)
    then have "ag_id c = ag_id b" "ag_current_version_id c = Some i" using i f [of c] by (auto split: if_splits)
    then show "\<exists>v\<in>set (versions db). av_id v = i \<and> av_agent_id v = ag_id b \<and> av_status v = V_published"
      using assms(1) c(1) unfolding versions_ok_def current_published_def by metis
  qed
  then show ?thesis using assms(1) by (simp add: versions_ok_def d)
qed

section \<open>Steps\<close>

text \<open>Every function, applied to rows as they are in the database.\<close>

inductive version_step ::
  "(json \<Rightarrow> string) \<Rightarrow> (json \<Rightarrow> string option) \<Rightarrow> store \<Rightarrow> store \<Rightarrow> bool"
  for rep check
where
  create: "get_agent x db = Some a \<Longrightarrow> create_agent_version t a version d by db = Inr (v, db') \<Longrightarrow>
     version_step rep check db db'"
| edit: "get_agent_version_by_id x i db = Some v \<Longrightarrow>
     update_agent_version rep check t v s d ds db = Inr (w, db') \<Longrightarrow> version_step rep check db db'"
| move: "get_agent_version_by_id x i db = Some v \<Longrightarrow>
     transition_agent_version t v target db = Inr (w, db') \<Longrightarrow> version_step rep check db db'"
| publish: "get_agent x db = Some a \<Longrightarrow> get_agent_version_by_id (ag_id a) (av_id v) db = Some v \<Longrightarrow>
     publish_agent rep t a v db = Inr (w, db') \<Longrightarrow> version_step rep check db db'"
| rollback: "get_agent x db = Some a \<Longrightarrow> get_agent_version_by_id (ag_id a) (av_id v) db = Some v \<Longrightarrow>
     rollback_agent_version rep t a v db = Inr (b, db') \<Longrightarrow> version_step rep check db db'"
| lifecycle: "get_agent x db = Some a \<Longrightarrow> transition_agent a status db = Inr (b, db') \<Longrightarrow>
     version_step rep check db db'"

lemma version_step_ok: "version_step rep check db db' \<Longrightarrow> versions_ok db \<Longrightarrow> versions_ok db'"
  by (induction rule: version_step.induct)
     (blast intro: create_agent_version_ok update_agent_version_ok transition_agent_version_ok
        publish_agent_versions_ok rollback_agent_version_ok transition_agent_ok)+

text \<open>What a released version keeps.\<close>

definition same_release :: "agent_version \<Rightarrow> agent_version \<Rightarrow> bool" where
  "same_release v w \<longleftrightarrow>
     av_id w = av_id v \<and> av_agent_id w = av_agent_id v \<and> av_version w = av_version v \<and>
     av_snapshot w = av_snapshot v \<and> av_snapshot_format_version w = av_snapshot_format_version v \<and>
     av_resolution_digest w = av_resolution_digest v \<and> av_status w \<in> {V_published, V_deprecated}"

definition released :: "agent_version \<Rightarrow> bool" where
  "released v \<longleftrightarrow> av_status v \<in> {V_published, V_deprecated}"

lemma release_same:
  assumes "keeps_version g" and "\<And>v. av_status (g v) = V_published" and "released v"
  shows "same_release v (release t x i g v)"
  using assms by (auto simp: same_release_def release_def keeps_version_def released_def)

definition releases_kept :: "store \<Rightarrow> store \<Rightarrow> bool" where
  "releases_kept db db' \<longleftrightarrow>
     (\<forall>v\<in>set (versions db). released v \<longrightarrow> (\<exists>w\<in>set (versions db'). same_release v w))"

lemma same_release_refl: "released v \<Longrightarrow> same_release v v"
  by (simp add: same_release_def released_def)

lemma releases_kept_refl: "releases_kept db db"
  by (auto simp: releases_kept_def intro: same_release_refl)

lemma releases_kept_trans: "releases_kept a b \<Longrightarrow> releases_kept b c \<Longrightarrow> releases_kept a c"
  unfolding releases_kept_def released_def same_release_def by (metis (no_types, lifting))

lemma releases_kept_superset: "set (versions db) \<subseteq> set (versions db') \<Longrightarrow> releases_kept db db'"
  by (auto simp: releases_kept_def intro: same_release_refl)

lemma releases_kept_map:
  "versions db' = map f (versions db) \<Longrightarrow>
     (\<And>v. v \<in> set (versions db) \<Longrightarrow> released v \<Longrightarrow> same_release v (f v)) \<Longrightarrow> releases_kept db db'"
  by (auto simp: releases_kept_def)

lemma version_step_keeps:
  assumes "version_step rep check db db'" and "versions_ok db"
  shows "releases_kept db db'"
  using assms
proof (induction rule: version_step.induct)
  case (create x db a t version d "by" v db')
  then have "versions db' = versions db @ [v]"
    by (auto simp: create_agent_version_def new_id_def upd_registry_def Let_def split: if_splits)
  then show ?case by (intro releases_kept_superset) auto
next
  case (edit x i db v t s d ds w db')
  obtain f where st: "av_status v \<in> {V_development, V_testing, V_release_candidate}"
    and w: "w = f v" and d: "db' = upd_version (av_id v) f db"
    and f: "\<forall>r. av_id (f r) = av_id r \<and> av_agent_id (f r) = av_agent_id r \<and> av_status (f r) = av_status r"
    using edit(2) by (rule update_agent_version_E)
  have "same_release u (if av_id u = av_id v then f u else u)"
    if "u \<in> set (versions db)" "released u" for u
  proof (cases "av_id u = av_id v")
    case True
    then have "u = v" using that(1) get_version_fresh [OF edit(3,1)] by blast
    then show ?thesis using st that(2) by (auto simp: released_def)
  qed (simp add: same_release_refl that)
  then show ?case by (intro releases_kept_map [where f = "\<lambda>u. if av_id u = av_id v then f u else u"])
      (simp_all add: d row_upd_def)
next
  case (move x i db v t target w db')
  define f where "f = (\<lambda>r :: agent_version. r\<lparr>av_status := target, av_updated_at := t\<rparr>)"
  have d: "db' = upd_version (av_id v) f db"
    and m: "target = av_status v \<or> target \<in> version_moves (av_status v)"
    using move(2) by (auto simp: transition_agent_version_def f_def Let_def elim!: rbind_InrE)
  have "same_release u (if av_id u = av_id v then f u else u)"
    if "u \<in> set (versions db)" "released u" for u
  proof (cases "av_id u = av_id v")
    case True
    then have "u = v" using that(1) get_version_fresh [OF move(3,1)] by blast
    then have "target = av_status u" using m that(2) by (auto simp: released_def)
    then show ?thesis using that(2) by (simp add: f_def same_release_def released_def)
  qed (simp add: same_release_refl that)
  then show ?case by (intro releases_kept_map [where f = "\<lambda>u. if av_id u = av_id v then f u else u"])
      (simp_all add: d row_upd_def)
next
  case (publish x db a v t w db')
  show ?case
    by (rule releases_kept_map [OF publish_agent_effect(1) [OF publish(3)]])
       (rule release_same [OF released_facts(1,3)])
next
  case (rollback x db a v t b db')
  show ?case
    by (rule releases_kept_map [OF rollback_agent_version_effect(1) [OF rollback(3)]])
       (rule release_same [OF released_facts(2,4)])
next
  case (lifecycle x db a status b db')
  then have "versions db' = versions db"
    by (auto simp: transition_agent_def Let_def elim!: rbind_InrE)
  then show ?case by (intro releases_kept_superset) simp
qed

lemma version_steps_ok:
  assumes "(version_step rep check)\<^sup>*\<^sup>* db db'" and "versions_ok db"
  shows "versions_ok db' \<and> releases_kept db db'"
  using assms
proof (induction rule: rtranclp_induct)
  case base
  then show ?case by (simp add: releases_kept_refl)
next
  case (step b c)
  then show ?case using version_step_ok version_step_keeps releases_kept_trans by blast
qed

text \<open>C8. However versions are created, edited, moved, published and rolled back: an Agent has
  at most one published version, the version that the live Agent names is its published
  one, and the content of a version never changes again once it was published.\<close>

theorem version_history:
  assumes "versions_ok db" and "(version_step rep check)\<^sup>*\<^sup>* db db'"
  shows "single_published (versions db') \<and> current_published (versions db') (db_agents db') \<and>
     releases_kept db db'"
  using version_steps_ok [OF assms(2,1)] by (simp add: versions_ok_def)

subsection \<open>A sample store\<close>

text \<open>Agent \<open>helper\<close> with a published version 5 and a release candidate 7 whose snapshot names
  the published schema version v1.\<close>

definition sample_agent :: agent where
  "sample_agent =
     \<lparr>ag_id = ''helper'', ag_name = ''Helper'', ag_description = None, ag_agent_type = ''worker'',
      ag_role = ''r'', ag_system_prompt = ''old'', ag_model_settings = JObj [], ag_model = ''m'',
      ag_prompt_template = ''t'', ag_model_adapter = ''hermes'', ag_runtime_type = ''hermes'',
      ag_runtime_id = None, ag_runtime_config = JObj [], ag_capability_profile = JObj [],
      ag_api_enabled = True, ag_status = A_active, ag_response_mode = ''sync'',
      ag_input_schema = JObj [], ag_output_schema = JObj [], ag_current_version_id = Some 5\<rparr>"

definition sample_snapshot :: dict where
  "sample_snapshot =
     [(''format_version'', JInt 1),
      (''prompt'', JObj [(''system_prompt'', JStr ''new''), (''prompt_template'', JStr ''t'')]),
      (''model'', JObj [(''name'', JStr ''m''), (''adapter'', JStr ''hermes'')]),
      (''skill_ids'', JArr []), (''mcp_ids'', JArr []),
      (''schema'', JObj [(''version'', JStr ''v1''), (''input_schema'', JObj [(''type'', JStr ''object'')])]),
      (''runtime'', JObj [(''response_mode'', JStr ''sync'')])]"

definition sample_version :: "uuid \<Rightarrow> string \<Rightarrow> version_status \<Rightarrow> agent_version" where
  "sample_version i name st =
     (new_version 10 i sample_agent name sample_snapshot None ''me'')\<lparr>av_status := st\<rparr>"

definition sample_schema :: schema_version where
  "sample_schema =
     \<lparr>sv_id = 9, sv_agent_id = ''helper'', sv_version = ''v1'', sv_input_schema = JObj [],
      sv_output_schema = JObj [], sv_status = C_published, sv_created_at = 1, sv_published_at = Some 2\<rparr>"

definition sample_registry :: store where
  "sample_registry =
     \<lparr>db_agents = [sample_agent], db_teams = [], db_members = [], db_workflows = [], db_runs = [],
      db_tasks = [], db_sessions = [], db_executions = [], db_steps = [], db_artifacts = [],
      db_execution_artifacts = [],
      db_registry = empty_registry\<lparr>rg_versions := [sample_version 5 ''v1'' V_published,
                                                   sample_version 7 ''v2'' V_release_candidate],
                                   rg_schemas := [sample_schema]\<rparr>,
      db_next_id = 20\<rparr>"

lemma sample_registry_ok: "versions_ok sample_registry"
  by (simp add: versions_ok_def sample_registry_def single_published_def current_published_def
      sample_version_def new_version_def empty_registry_def sample_agent_def)

definition sample_published :: store where
  "sample_published =
     (case publish_agent (\<lambda>_. []) 100 sample_agent (sample_version 7 ''v2'' V_release_candidate) sample_registry of
        Inr (_, db) \<Rightarrow> db | Inl _ \<Rightarrow> sample_registry)"

lemma sample_publish:
  "publish_agent (\<lambda>_. []) 100 sample_agent (sample_version 7 ''v2'' V_release_candidate) sample_registry =
     Inr (published 100 (sample_version 7 ''v2'' V_release_candidate), sample_published)"
proof -
  let ?p = "publish_agent (\<lambda>_. []) 100 sample_agent (sample_version 7 ''v2'' V_release_candidate) sample_registry"
  have "\<not> isl ?p" by code_simp
  then obtain w db where p: "?p = Inr (w, db)" by (cases ?p) auto
  have "w = published 100 (sample_version 7 ''v2'' V_release_candidate)"
    using p by (rule publish_agent_E)
  with p show ?thesis by (simp add: sample_published_def)
qed

theorem version_history_witness:
  "single_published (versions sample_published) \<and>
   current_published (versions sample_published) (db_agents sample_published) \<and>
   releases_kept sample_registry sample_published"
proof (rule version_history [where rep = "\<lambda>_. []" and check = "\<lambda>_. None"])
  show "versions_ok sample_registry" by (rule sample_registry_ok)
  have "version_step (\<lambda>_. []) (\<lambda>_. None) sample_registry sample_published"
  proof (rule version_step.publish [where x = "''helper''"])
    show "get_agent ''helper'' sample_registry = Some sample_agent"
      by (simp add: sample_registry_def row_get_Cons sample_agent_def)
    show "get_agent_version_by_id (ag_id sample_agent) (av_id (sample_version 7 ''v2'' V_release_candidate))
        sample_registry = Some (sample_version 7 ''v2'' V_release_candidate)"
      by (simp add: get_agent_version_by_id_def first_row_def sample_registry_def empty_registry_def
          sample_version_def new_version_def)
  qed (rule sample_publish)
  then show "(version_step (\<lambda>_. []) (\<lambda>_. None))\<^sup>*\<^sup>* sample_registry sample_published" by (rule r_into_rtranclp)
qed

section \<open>The effect of a publication\<close>

lemma map_release_get:
  assumes "distinct (map av_id vs)" and "v \<in> set vs" and "av_id v = i" and "keeps_version g"
  shows "g v \<in> set (map (release t x i g) vs)"
  using assms by (force simp: release_def)

lemma publish_agent_effects_parts:
  assumes "versions_ok db" and "get_agent (ag_id a) db = Some a"
    and "get_agent_version_by_id (ag_id a) (av_id v) db = Some v"
    and "publish_agent rep t a v db = Inr (w, db')"
  shows "w \<in> set (versions db') \<and> av_id w = av_id v \<and> av_status w = V_published"
    and "\<exists>b. get_agent (ag_id a) db' = Some b \<and> ag_current_version_id b = Some (av_id v) \<and>
           ag_status b = A_active \<and> ag_api_enabled b"
    and "\<forall>u\<in>set (versions db'). av_agent_id u = ag_id a \<longrightarrow> av_id u \<noteq> av_id v \<longrightarrow> av_status u \<noteq> V_published"
    and "\<forall>u\<in>set (versions db). av_agent_id u \<noteq> ag_id a \<longrightarrow> u \<in> set (versions db')"
proof -
  note e = publish_agent_effect [OF assms(4)]
  note m = get_agent_version_by_id_Some [OF assms(3)]
  have w: "w = published t v" using assms(4) by (rule publish_agent_E)
  have "published t v \<in> set (versions db')"
    unfolding e(1) using assms(1) m
    by (intro map_release_get) (auto simp: versions_ok_def released_facts)
  then show "w \<in> set (versions db') \<and> av_id w = av_id v \<and> av_status w = V_published"
    by (simp add: w published_def)
  show "\<exists>b. get_agent (ag_id a) db' = Some b \<and> ag_current_version_id b = Some (av_id v) \<and>
           ag_status b = A_active \<and> ag_api_enabled b"
    using e(2) assms(2) by auto
  show "\<forall>u\<in>set (versions db'). av_agent_id u = ag_id a \<longrightarrow> av_id u \<noteq> av_id v \<longrightarrow> av_status u \<noteq> V_published"
    by (auto simp: e(1) release_def published_def)
  show "\<forall>u\<in>set (versions db). av_agent_id u \<noteq> ag_id a \<longrightarrow> u \<in> set (versions db')"
  proof (intro ballI impI)
    fix u assume u: "u \<in> set (versions db)" "av_agent_id u \<noteq> ag_id a"
    then have "av_id u \<noteq> av_id v" using distinct_ids_eq [of "versions db" u v] assms(1) m
      by (auto simp: versions_ok_def)
    then have "release t (ag_id a) (av_id v) (published t) u = u" using u(2) by (simp add: release_def)
    then show "u \<in> set (versions db')" unfolding e(1) using u(1) by (metis image_eqI set_map)
  qed
qed

text \<open>A publication leaves the Agent active, enabled for the API and pointing to the version,
  which is now its published one; every version that was published before is deprecated,
  and no version of another Agent changes.\<close>

theorem publish_agent_effects:
  assumes "versions_ok db" and "get_agent (ag_id a) db = Some a"
    and "get_agent_version_by_id (ag_id a) (av_id v) db = Some v"
    and "publish_agent rep t a v db = Inr (w, db')"
  shows "(w \<in> set (versions db') \<and> av_id w = av_id v \<and> av_status w = V_published) \<and>
     (\<exists>b. get_agent (ag_id a) db' = Some b \<and> ag_current_version_id b = Some (av_id v) \<and>
           ag_status b = A_active \<and> ag_api_enabled b) \<and>
     (\<forall>u\<in>set (versions db'). av_agent_id u = ag_id a \<longrightarrow> av_id u \<noteq> av_id v \<longrightarrow> av_status u \<noteq> V_published) \<and>
     (\<forall>u\<in>set (versions db). av_agent_id u \<noteq> ag_id a \<longrightarrow> u \<in> set (versions db'))"
  using publish_agent_effects_parts [OF assms] by (elim conjE, intro conjI)


theorem publish_agent_effects_witness:
  "\<exists>b. get_agent ''helper'' sample_published = Some b \<and> ag_current_version_id b = Some 7 \<and>
     ag_status b = A_active \<and> ag_api_enabled b"
proof -
  have "get_agent (ag_id sample_agent) sample_registry = Some sample_agent"
    "get_agent_version_by_id (ag_id sample_agent) (av_id (sample_version 7 ''v2'' V_release_candidate))
        sample_registry = Some (sample_version 7 ''v2'' V_release_candidate)"
    by (simp_all add: get_agent_version_by_id_def first_row_def sample_registry_def empty_registry_def
        sample_version_def new_version_def row_get_Cons sample_agent_def)
  from publish_agent_effects [OF sample_registry_ok this sample_publish] show ?thesis
    by (simp add: sample_agent_def sample_version_def new_version_def)
qed

section \<open>Restoring a snapshot\<close>

text \<open>The configuration of an Agent that a snapshot records, and when it is complete.\<close>

definition configuration_of :: "agent \<Rightarrow> agent \<Rightarrow> agent" where
  "configuration_of a b =
     b\<lparr>ag_role := ag_role a, ag_system_prompt := ag_system_prompt a,
       ag_prompt_template := ag_prompt_template a, ag_model := ag_model a,
       ag_model_adapter := ag_model_adapter a, ag_model_settings := ag_model_settings a,
       ag_input_schema := ag_input_schema a, ag_output_schema := ag_output_schema a,
       ag_response_mode := ag_response_mode a, ag_runtime_type := ag_runtime_type a,
       ag_runtime_id := ag_runtime_id a, ag_runtime_config := ag_runtime_config a,
       ag_capability_profile := ag_capability_profile a\<rparr>"

definition complete_agent :: "agent \<Rightarrow> bool" where
  "complete_agent a \<longleftrightarrow>
     ag_role a \<noteq> [] \<and> ag_system_prompt a \<noteq> [] \<and> ag_prompt_template a \<noteq> [] \<and> ag_model a \<noteq> [] \<and>
     ag_model_adapter a \<noteq> [] \<and> is_obj (ag_model_settings a) \<and> is_obj (ag_input_schema a) \<and>
     is_obj (ag_output_schema a) \<and> ag_response_mode a \<in> set response_modes \<and>
     (\<forall>i. ag_runtime_id a = Some i \<longrightarrow> i < 2 ^ 128) \<and> is_obj (ag_runtime_config a) \<and>
     (\<exists>p. ag_capability_profile a = profile_json p \<and> valid_profile (ag_runtime_type a) p)"

lemma is_obj_as_obj: "is_obj v \<Longrightarrow> JObj (as_obj v) = v"
  by (cases v) auto

lemma py_or_obj: "is_obj v \<Longrightarrow> py_or v (JObj []) = v"
  by (cases v) (auto simp: py_or_def)

lemma is_obj_profile: "is_obj (profile_json p)"
  by (simp add: profile_json_def)

lemma restored_runtime_snapshot:
  assumes "complete_agent a"
    and "runtime = [(''response_mode'', JStr (ag_response_mode a)), (''runtime_type'', JStr (ag_runtime_type a)),
           (''runtime_id'', opt_str (map_option uuid_str (ag_runtime_id a))),
           (''runtime_config'', py_or (ag_runtime_config a) (JObj [])),
           (''capability_profile'', py_or (ag_capability_profile a) (JObj []))]"
  shows "restored_runtime rep runtime b =
     Inr (b\<lparr>ag_response_mode := ag_response_mode a, ag_runtime_type := ag_runtime_type a,
            ag_runtime_id := ag_runtime_id a, ag_runtime_config := ag_runtime_config a,
            ag_capability_profile := ag_capability_profile a\<rparr>)"
proof -
  obtain p where p: "ag_capability_profile a = profile_json p" "valid_profile (ag_runtime_type a) p"
    using assms(1) by (auto simp: complete_agent_def)
  have get: "dget runtime ''response_mode'' = JStr (ag_response_mode a)"
    "dget runtime ''runtime_type'' = JStr (ag_runtime_type a)"
    "dget runtime ''runtime_id'' = opt_str (map_option uuid_str (ag_runtime_id a))"
    "dget runtime ''runtime_config'' = ag_runtime_config a"
    "dget runtime ''capability_profile'' = profile_json p" "dhas runtime ''runtime_id''"
    using assms(1) p(1) is_obj_profile [of p]
    by (simp_all add: assms(2) dget_def dhas_def py_or_obj complete_agent_def)
  have mode: "in_set (JStr (ag_response_mode a)) response_modes = Inr True"
    "in_set (JStr (ag_runtime_type a)) runtime_types = Inr True"
    using assms(1) p(2) by (simp_all add: in_set_def complete_agent_def valid_profile_def image_iff)
  define c where "c = b\<lparr>ag_response_mode := ag_response_mode a, ag_runtime_type := ag_runtime_type a\<rparr>"
  have id: "restored_runtime_id rep runtime c = Inr (c\<lparr>ag_runtime_id := ag_runtime_id a\<rparr>)"
  proof (cases "ag_runtime_id a")
    case None
    then show ?thesis by (simp add: restored_runtime_id_def get opt_str_def)
  next
    case (Some i)
    then have "parse_uuid (uuid_str i) = Some i" using assms(1) by (intro parse_uuid_str) (simp add: complete_agent_def)
    moreover have "uuid_str i \<noteq> []" using length_uuid_str [of i] by (metis list.size(3) zero_neq_numeral)
    ultimately show ?thesis using Some by (simp add: restored_runtime_id_def get opt_str_def)
  qed
  have "restored_runtime rep runtime b = rbind (restored_runtime_id rep runtime c) (restored_profile runtime)"
    by (simp add: restored_runtime_def mode lift_py_def get c_def)
  also have "\<dots> = restored_profile runtime (c\<lparr>ag_runtime_id := ag_runtime_id a\<rparr>)" by (simp add: id)
  also have "\<dots> = Inr (c\<lparr>ag_runtime_id := ag_runtime_id a, ag_runtime_config := ag_runtime_config a,
            ag_capability_profile := ag_capability_profile a\<rparr>)"
    using assms(1) normalize_profile_json [OF p(2)] is_obj_profile [of p]
    by (simp add: restored_profile_def get c_def complete_agent_def lift_profile_def p(1))
  finally show ?thesis by (simp add: c_def)
qed

lemma restored_snapshot:
  assumes "complete_agent a"
    and "\<forall>s. snapshot_schema (ag_id a) db = Some s \<longrightarrow>
           sv_input_schema s = ag_input_schema a \<and> sv_output_schema s = ag_output_schema a"
    and "prompt = as_obj (dget (build_agent_snapshot a db) ''prompt'')"
    and "model = as_obj (dget (build_agent_snapshot a db) ''model'')"
    and "schema = as_obj (dget (build_agent_snapshot a db) ''schema'')"
    and "runtime = as_obj (dget (build_agent_snapshot a db) ''runtime'')"
  shows "restored_agent rep prompt model schema runtime b = Inr (configuration_of a b)"
proof -
  have parts: "prompt = [(''role'', JStr (ag_role a)), (''system_prompt'', JStr (ag_system_prompt a)),
                          (''prompt_template'', JStr (ag_prompt_template a))]"
    "model = [(''name'', JStr (ag_model a)), (''adapter'', JStr (ag_model_adapter a)), (''config'', ag_model_settings a)]"
    "schema = [(''version'', opt_str (map_option sv_version (snapshot_schema (ag_id a) db))), (''input_schema'', ag_input_schema a), (''output_schema'', ag_output_schema a)]"
    "runtime = [(''response_mode'', JStr (ag_response_mode a)), (''runtime_type'', JStr (ag_runtime_type a)),
           (''runtime_id'', opt_str (map_option uuid_str (ag_runtime_id a))),
           (''runtime_config'', py_or (ag_runtime_config a) (JObj [])),
           (''capability_profile'', py_or (ag_capability_profile a) (JObj []))]"
    unfolding assms(3-6) using assms(2)
    by (simp_all add: build_agent_snapshot_def Let_def dget_def split: option.splits)
  show ?thesis
    unfolding restored_agent_def restored_runtime_snapshot [OF assms(1) parts(4)]
    using assms(1)
    by (simp add: parts(1-3) str_or_def py_or_def dget_def obj_field_def is_obj_as_obj complete_agent_def
        configuration_of_def)
qed

lemma snapshot_sections:
  "section_of (build_agent_snapshot a db) k = Inr (as_obj (dget (build_agent_snapshot a db) k))"
  if "k \<in> {''prompt'', ''model'', ''schema'', ''runtime''}"
  using that by (auto simp: section_of_def build_agent_snapshot_def Let_def dget_def py_or_def)


definition sample_complete :: agent where
  "sample_complete = sample_agent\<lparr>ag_capability_profile := profile_json (default_capability_profile ''hermes''),
     ag_runtime_id := None\<rparr>"

definition sample_recorded :: agent_version where
  "sample_recorded = new_version 10 8 sample_complete ''v3'' (build_agent_snapshot sample_complete sample_registry) None ''me''"


section \<open>Names of new versions\<close>

lemma digit_char_inj: "a < 10 \<Longrightarrow> b < 10 \<Longrightarrow> digit_char a = digit_char b \<Longrightarrow> a = b"
  by (auto simp: digit_char_def dest!: arg_cong [where f = "of_char :: char \<Rightarrow> nat"])

lemma nat_str_inj: "nat_str m = nat_str n \<Longrightarrow> m = n"
proof (induction m arbitrary: n rule: less_induct)
  case (less m)
  have last: "last (nat_str k) = digit_char (k mod 10)" for k by (subst nat_str.simps) simp
  have butlast: "butlast (nat_str k) = (if k < 10 then [] else nat_str (k div 10))" for k
    by (subst nat_str.simps) simp
  have mod: "m mod 10 = n mod 10" using less.prems last [of m] last [of n] by (intro digit_char_inj) simp_all
  show ?case
  proof (cases "m < 10 \<or> n < 10")
    case True
    then have "m < 10" "n < 10"
      using less.prems butlast [of m] butlast [of n] nat_str_neq_Nil [of "m div 10", symmetric] nat_str_neq_Nil [of "n div 10", symmetric]
      by (auto split: if_splits simp del: nat_str_neq_Nil)
    with mod show ?thesis by simp
  next
    case False
    then have "nat_str (m div 10) = nat_str (n div 10)" using less.prems butlast [of m] butlast [of n] by simp
    then have "m div 10 = n div 10" using False by (intro less.IH) auto
    with mod show ?thesis by (metis div_mult_mod_eq)
  qed
qed

lemma first_free_None: "first_free fuel taken c = None \<Longrightarrow> i < fuel \<Longrightarrow> taken (c + i)"
  by (induction fuel taken c arbitrary: i rule: first_free.induct)
     (auto split: if_splits simp: less_Suc_eq_0_disj)

lemma first_free_Some: "first_free fuel taken c = Some d \<Longrightarrow> \<not> taken d"
  by (induction fuel taken c rule: first_free.induct) (auto split: if_splits)

text \<open>C10. The search for the name of a new version always ends, after at most one round more
  than the Agent has versions, with a name that is free.\<close>

theorem next_agent_version_free:
  "\<exists>name. next_agent_version x db = Some name \<and> get_agent_version x name db = None"
proof -
  define vs where "vs = filter (\<lambda>v. av_agent_id v = x) (versions db)"
  define taken where "taken = (\<lambda>c. get_agent_version x (CHR ''v'' # nat_str c) db \<noteq> None)"
  define n where "n = length vs"
  have "first_free (Suc n) taken (Suc n) \<noteq> None"
  proof
    assume none: "first_free (Suc n) taken (Suc n) = None"
    have "(\<lambda>i. CHR ''v'' # nat_str (Suc n + i)) ` {..n} \<subseteq> av_version ` set vs"
    proof
      fix name assume "name \<in> (\<lambda>i. CHR ''v'' # nat_str (Suc n + i)) ` {..n}"
      then obtain i where "name = CHR ''v'' # nat_str (Suc n + i)" "i < Suc n" by auto
      with first_free_None [OF none, of i] show "name \<in> av_version ` set vs"
        by (force simp: taken_def get_agent_version_def vs_def dest!: first_row_Some)
    qed
    then have "card ((\<lambda>i. CHR ''v'' # nat_str (Suc n + i)) ` {..n}) \<le> card (av_version ` set vs)"
      by (intro card_mono) auto
    moreover have "inj_on (\<lambda>i. CHR ''v'' # nat_str (Suc n + i)) {..n}"
      by (intro inj_onI) (auto dest: nat_str_inj)
    ultimately have "Suc n \<le> card (av_version ` set vs)" by (simp add: card_image)
    also have "\<dots> \<le> n" unfolding n_def by (metis List.finite_set card_image_le card_length le_trans)
    finally show False by simp
  qed
  then obtain c where c: "first_free (Suc n) taken (Suc n) = Some c" by auto
  have "next_agent_version x db = Some (CHR ''v'' # nat_str c)"
    using c by (simp add: next_agent_version_def Let_def n_def vs_def taken_def)
  moreover have "get_agent_version x (CHR ''v'' # nat_str c) db = None"
    using first_free_Some [OF c] by (simp add: taken_def)
  ultimately show ?thesis by blast
qed

section \<open>The contract of a published version\<close>

text \<open>
  The API refuses to change a published schema version, but publishing a version whose
  snapshot names it writes the snapshot's schemas into it.
\<close>

lemma publish_rewrites_published_schema:
  "map sv_input_schema (rg_schemas (db_registry sample_registry)) = [JObj []] \<and>
   map sv_status (rg_schemas (db_registry sample_registry)) = [C_published] \<and>
   map sv_input_schema (rg_schemas (db_registry sample_published)) = [JObj [(''type'', JStr ''object'')]]"
  by code_simp


end
