(* ===== verification/Api_Keys.thy ===== *)
theory Api_Keys
  imports Agent_Versions Task_Queue
begin

text \<open>
  API clients, their keys and the Agents they may call, the audit of public calls with the
  daily counters, and the rate limit (\<open>backend/app/repositories/production.py\<close>). SHA-256,
  the random tokens and the counter script run by Redis are parameters. A join is the list
  of matching rows; \<open>first()\<close> takes one of them.
\<close>

section \<open>Clients\<close>

definition clients :: "store \<Rightarrow> api_client list" where
  "clients db = rg_clients (db_registry db)"

definition keys :: "store \<Rightarrow> api_key list" where
  "keys db = rg_keys (db_registry db)"

definition bindings :: "store \<Rightarrow> api_binding list" where
  "bindings db = rg_bindings (db_registry db)"

definition create_api_client :: "instant \<Rightarrow> string \<Rightarrow> string \<Rightarrow> int \<Rightarrow> store \<Rightarrow> api_client tx" where
  "create_api_client t name owner rate_limit db =
     (if name \<in> cl_name ` set (clients db) \<or> rate_limit \<le> 0 then Inl Constraint_error
      else let (i, db1) = new_id db;
               c = \<lparr>cl_id = i, cl_name = name, cl_owner = owner, cl_status = K_active,
                    cl_rate_limit_per_minute = rate_limit, cl_created_at = t\<rparr>
           in Inr (c, upd_registry (\<lambda>r. r\<lparr>rg_clients := rg_clients r @ [c]\<rparr>) db1))"

definition get_api_client :: "uuid \<Rightarrow> store \<Rightarrow> api_client option" where
  "get_api_client i db = row_get cl_id i (clients db)"

definition list_api_clients :: "store \<Rightarrow> api_client list" where
  "list_api_clients db = sort_key (\<lambda>c. (cl_created_at c, cl_id c)) (clients db)"

record client_update =
  cu_name :: "string option"
  cu_owner :: "string option"
  cu_status :: "client_status option"
  cu_rate_limit :: "int option"

definition or_else :: "'a option \<Rightarrow> 'a \<Rightarrow> 'a" where
  "or_else v x = (case v of None \<Rightarrow> x | Some y \<Rightarrow> y)"

definition update_api_client :: "api_client \<Rightarrow> client_update \<Rightarrow> store \<Rightarrow> api_client tx" where
  "update_api_client c u db =
     (let f = (\<lambda>r. r\<lparr>cl_name := or_else (cu_name u) (cl_name r), cl_owner := or_else (cu_owner u) (cl_owner r),
                     cl_status := or_else (cu_status u) (cl_status r),
                     cl_rate_limit_per_minute := or_else (cu_rate_limit u) (cl_rate_limit_per_minute r)\<rparr>) in
      if cl_name (f c) \<in> cl_name ` {x \<in> set (clients db). cl_id x \<noteq> cl_id c} \<or>
         cl_rate_limit_per_minute (f c) \<le> 0
      then Inl Constraint_error
      else Inr (f c, upd_registry (\<lambda>r. r\<lparr>rg_clients := row_upd cl_id (cl_id c) f (rg_clients r)\<rparr>) db))"

text \<open>The keys and bindings go with the client; the audit log keeps its rows without the ids.\<close>

definition delete_api_client :: "api_client \<Rightarrow> store \<Rightarrow> store" where
  "delete_api_client c db =
     (let gone = set (map ky_id (filter (\<lambda>k. ky_client_id k = cl_id c) (keys db))) in
      upd_registry (\<lambda>r. r\<lparr>
        rg_clients := filter (\<lambda>x. cl_id x \<noteq> cl_id c) (rg_clients r),
        rg_keys := filter (\<lambda>k. ky_client_id k \<noteq> cl_id c) (rg_keys r),
        rg_bindings := filter (\<lambda>b. bd_client_id b \<noteq> cl_id c) (rg_bindings r),
        rg_audits := map (\<lambda>u. u\<lparr>
          au_client_id := (if au_client_id u = Some (cl_id c) then None else au_client_id u),
          au_api_key_id := (case au_api_key_id u of
                              None \<Rightarrow> None | Some k \<Rightarrow> if k \<in> gone then None else Some k)\<rparr>) (rg_audits r)\<rparr>) db)"

record client_counts =
  cc_key_count :: nat
  cc_agent_count :: nat
  cc_call_count :: nat
  cc_last_called_at :: "instant option"

definition latest_instant :: "instant list \<Rightarrow> instant option" where
  "latest_instant ts = (if ts = [] then None else Some (foldl max (hd ts) ts))"

definition api_client_counts :: "uuid \<Rightarrow> store \<Rightarrow> client_counts" where
  "api_client_counts i db =
     (let calls = filter (\<lambda>u. au_client_id u = Some i) (rg_audits (db_registry db)) in
      \<lparr>cc_key_count = length (filter (\<lambda>k. ky_client_id k = i) (keys db)),
       cc_agent_count = length (filter (\<lambda>b. bd_client_id b = i) (bindings db)),
       cc_call_count = length calls, cc_last_called_at = latest_instant (map au_created_at calls)\<rparr>)"

section \<open>Keys\<close>

definition hash_api_key :: "(string \<Rightarrow> string) \<Rightarrow> string \<Rightarrow> string" where
  "hash_api_key sha256 value = sha256 value"

definition plaintext_key :: "string \<Rightarrow> string" where
  "plaintext_key token = ''hap_'' @ token"

definition new_key ::
  "(string \<Rightarrow> string) \<Rightarrow> string \<Rightarrow> instant \<Rightarrow> uuid \<Rightarrow> uuid \<Rightarrow> string \<Rightarrow> instant option \<Rightarrow> api_key" where
  "new_key sha256 token t i client_id name expires_at =
     \<lparr>ky_id = i, ky_client_id = client_id, ky_name = name,
      ky_key_hash = hash_api_key sha256 (plaintext_key token),
      ky_prefix = take 12 (plaintext_key token), ky_active = True, ky_expires_at = expires_at,
      ky_last_used_at = None, ky_revoked_at = None, ky_created_at = t\<rparr>"

definition create_api_key ::
  "(string \<Rightarrow> string) \<Rightarrow> string \<Rightarrow> instant \<Rightarrow> api_client \<Rightarrow> string \<Rightarrow> instant option \<Rightarrow> store \<Rightarrow>
     (api_key \<times> string) tx"
where
  "create_api_key sha256 token t c name expires_at db =
     (let (i, db1) = new_id db; k = new_key sha256 token t i (cl_id c) name expires_at in
      if ky_key_hash k \<in> ky_key_hash ` set (keys db) then Inl Constraint_error
      else Inr ((k, plaintext_key token), upd_registry (\<lambda>r. r\<lparr>rg_keys := rg_keys r @ [k]\<rparr>) db1))"

definition get_api_key :: "uuid \<Rightarrow> uuid \<Rightarrow> store \<Rightarrow> api_key option" where
  "get_api_key client_id key_id db = first_row (\<lambda>k. ky_client_id k = client_id \<and> ky_id k = key_id) (keys db)"

definition list_api_keys :: "uuid \<Rightarrow> store \<Rightarrow> api_key list" where
  "list_api_keys client_id db =
     sort_key (\<lambda>k. (ky_created_at k, ky_id k)) (filter (\<lambda>k. ky_client_id k = client_id) (keys db))"

definition api_key_call_count :: "uuid \<Rightarrow> store \<Rightarrow> nat" where
  "api_key_call_count key_id db =
     length (filter (\<lambda>u. au_api_key_id u = Some key_id) (rg_audits (db_registry db)))"

definition revoked :: "instant \<Rightarrow> api_key \<Rightarrow> api_key" where
  "revoked t k = k\<lparr>ky_active := False, ky_revoked_at := Some t\<rparr>"

definition revoke_api_key :: "instant \<Rightarrow> api_key \<Rightarrow> store \<Rightarrow> api_key \<times> store" where
  "revoke_api_key t k db =
     (revoked t k, upd_registry (\<lambda>r. r\<lparr>rg_keys := row_upd ky_id (ky_id k) (revoked t) (rg_keys r)\<rparr>) db)"

section \<open>Bindings\<close>

abbreviation binding_key :: "api_binding \<Rightarrow> uuid \<times> string" where
  "binding_key b \<equiv> (bd_client_id b, bd_agent_id b)"

text \<open>The permission of a binding is always \<open>invoke\<close>, by the table's check constraint.\<close>

definition bind_agent :: "instant \<Rightarrow> uuid \<Rightarrow> string \<Rightarrow> store \<Rightarrow> api_binding \<times> store" where
  "bind_agent t client_id agent_id db =
     (case row_get binding_key (client_id, agent_id) (bindings db) of
        Some b \<Rightarrow> (b, db)
      | None \<Rightarrow>
          (let b = \<lparr>bd_client_id = client_id, bd_agent_id = agent_id, bd_created_at = t\<rparr> in
           (b, upd_registry (\<lambda>r. r\<lparr>rg_bindings := rg_bindings r @ [b]\<rparr>) db)))"

definition list_agent_bindings :: "uuid \<Rightarrow> store \<Rightarrow> api_binding list" where
  "list_agent_bindings client_id db =
     sort_key (\<lambda>b. (bd_created_at b, bd_agent_id b)) (filter (\<lambda>b. bd_client_id b = client_id) (bindings db))"

definition unbind_agent :: "uuid \<Rightarrow> string \<Rightarrow> store \<Rightarrow> bool \<times> store" where
  "unbind_agent client_id agent_id db =
     ((client_id, agent_id) \<in> binding_key ` set (bindings db),
      upd_registry (\<lambda>r. r\<lparr>rg_bindings := filter (\<lambda>b. binding_key b \<noteq> (client_id, agent_id)) (rg_bindings r)\<rparr>) db)"

section \<open>The key of a publication\<close>

definition legacy_client :: "instant \<Rightarrow> string \<Rightarrow> store \<Rightarrow> api_client tx" where
  "legacy_client t agent_id db =
     (case first_row (\<lambda>c. cl_name c = ''legacy-'' @ agent_id) (clients db) of
        None \<Rightarrow>
          (let (i, db1) = new_id db;
               c = \<lparr>cl_id = i, cl_name = ''legacy-'' @ agent_id, cl_owner = ''legacy-publication'',
                    cl_status = K_active, cl_rate_limit_per_minute = 60, cl_created_at = t\<rparr>
           in Inr (c, upd_registry (\<lambda>r. r\<lparr>rg_clients := rg_clients r @ [c]\<rparr>) db1))
      | Some c \<Rightarrow>
          if cl_status c \<noteq> K_active then value_error ''legacy API Client is not active'' else Inr (c, db))"

definition revoke_active_keys :: "instant \<Rightarrow> uuid \<Rightarrow> store \<Rightarrow> store" where
  "revoke_active_keys t client_id =
     upd_registry (\<lambda>r. r\<lparr>rg_keys := map (\<lambda>k.
        if ky_client_id k = client_id \<and> ky_active k then revoked t k else k) (rg_keys r)\<rparr>)"

definition rotate_legacy_publication_key ::
  "(string \<Rightarrow> string) \<Rightarrow> string \<Rightarrow> instant \<Rightarrow> string \<Rightarrow> store \<Rightarrow> (publication \<times> api_key \<times> string) tx"
where
  "rotate_legacy_publication_key sha256 token t agent_id db =
     (let db1 = (case row_get pb_agent_id agent_id (rg_publications (db_registry db)) of
                   None \<Rightarrow> set_publication_status t agent_id B_draft db | Some _ \<Rightarrow> db) in
      rbind (legacy_client t agent_id db1) (\<lambda>(c, db2).
      let db3 = revoke_active_keys t (cl_id c) (snd (bind_agent t (cl_id c) agent_id db2)) in
      rbind (create_api_key sha256 token t c ''legacy-publication-key'' None db3) (\<lambda>((k, plain), db4).
      let f = (\<lambda>p. p\<lparr>pb_api_key_hash := Some (ky_key_hash k), pb_api_key_prefix := Some (ky_prefix k)\<rparr>);
          db5 = upd_registry (\<lambda>r. r\<lparr>rg_publications := row_upd pb_agent_id agent_id f (rg_publications r)\<rparr>) db4 in
      case row_get pb_agent_id agent_id (rg_publications (db_registry db5)) of
        None \<Rightarrow> Inl Constraint_error
      | Some p \<Rightarrow> Inr ((p, k, plain), db5))))"

section \<open>Authentication\<close>

definition callable :: "agent \<Rightarrow> bool" where
  "callable a \<longleftrightarrow> ag_status a = A_active \<and> ag_current_version_id a \<noteq> None \<and> ag_api_enabled a"

definition key_valid :: "(string \<Rightarrow> string) \<Rightarrow> instant \<Rightarrow> string \<Rightarrow> api_client \<Rightarrow> api_key \<Rightarrow> bool" where
  "key_valid sha256 t presented c k \<longleftrightarrow>
     ky_client_id k = cl_id c \<and> ky_key_hash k = hash_api_key sha256 presented \<and> ky_active k \<and>
     cl_status c = K_active \<and> (case ky_expires_at k of None \<Rightarrow> True | Some e \<Rightarrow> t < e)"

definition has_invoke_permission :: "uuid \<Rightarrow> string \<Rightarrow> store \<Rightarrow> bool" where
  "has_invoke_permission client_id agent_id db \<longleftrightarrow>
     list_ex (\<lambda>b. binding_key b = (client_id, agent_id)) (bindings db) \<and>
     list_ex (\<lambda>a. ag_id a = agent_id \<and> callable a) (db_agents db)"

definition valid_pairs :: "(string \<Rightarrow> string) \<Rightarrow> instant \<Rightarrow> string \<Rightarrow> store \<Rightarrow> (api_client \<times> api_key) list" where
  "valid_pairs sha256 t presented db =
     filter (\<lambda>(c, k). key_valid sha256 t presented c k) (List.product (clients db) (keys db))"

definition authenticate_client_key ::
  "(string \<Rightarrow> string) \<Rightarrow> instant \<Rightarrow> string \<Rightarrow> store \<Rightarrow> (api_client \<times> api_key) option" where
  "authenticate_client_key sha256 t presented db =
     (case valid_pairs sha256 t presented db of [] \<Rightarrow> None | p # _ \<Rightarrow> Some p)"

definition authenticate_api_key ::
  "(string \<Rightarrow> string) \<Rightarrow> instant \<Rightarrow> string \<Rightarrow> string \<Rightarrow> store \<Rightarrow> (api_client \<times> api_key) option \<times> store"
where
  "authenticate_api_key sha256 t agent_id presented db =
     (case filter (\<lambda>(c, k). has_invoke_permission (cl_id c) agent_id db) (valid_pairs sha256 t presented db) of
        [] \<Rightarrow> (None, db)
      | (c, k) # _ \<Rightarrow>
          (let f = (\<lambda>r. r\<lparr>ky_last_used_at := Some t\<rparr>) in
           (Some (c, f k), upd_registry (\<lambda>r. r\<lparr>rg_keys := row_upd ky_id (ky_id k) f (rg_keys r)\<rparr>) db)))"

section \<open>Public calls\<close>

record public_call =
  pc_request_id :: string
  pc_client_id :: "uuid option"
  pc_agent_id :: "string option"
  pc_status :: audit_status
  pc_latency_ms :: int
  pc_token_usage :: "int option"
  pc_mcp_call_count :: int
  pc_api_key_id :: "uuid option"
  pc_error_code :: "string option"
  pc_increment_publication :: bool

definition audits :: "store \<Rightarrow> audit_log list" where
  "audits db = rg_audits (db_registry db)"

definition metrics :: "store \<Rightarrow> agent_metric list" where
  "metrics db = rg_metrics (db_registry db)"

definition date_of :: "instant \<Rightarrow> int" where
  "date_of t = t div 86400000000"

definition new_audit :: "instant \<Rightarrow> uuid \<Rightarrow> public_call \<Rightarrow> audit_log" where
  "new_audit t i p =
     \<lparr>au_id = i, au_request_id = pc_request_id p, au_client_id = pc_client_id p,
      au_api_key_id = pc_api_key_id p, au_agent_id = pc_agent_id p, au_status = pc_status p,
      au_latency_ms = max 0 (pc_latency_ms p), au_token_usage = pc_token_usage p,
      au_mcp_call_count = max 0 (pc_mcp_call_count p), au_error_code = pc_error_code p,
      au_created_at = t\<rparr>"

abbreviation metric_key :: "agent_metric \<Rightarrow> string \<times> int" where
  "metric_key m \<equiv> (mt_agent_id m, mt_metric_date m)"

definition success_of :: "public_call \<Rightarrow> int" where
  "success_of p = (if pc_status p = U_succeeded then 1 else 0)"

definition tokens_of :: "public_call \<Rightarrow> int" where
  "tokens_of p = (case pc_token_usage p of None \<Rightarrow> 0 | Some n \<Rightarrow> n)"

definition observed_of :: "public_call \<Rightarrow> int" where
  "observed_of p = (if pc_token_usage p = None then 0 else 1)"

definition new_metric :: "instant \<Rightarrow> uuid \<Rightarrow> string \<Rightarrow> public_call \<Rightarrow> agent_metric" where
  "new_metric t i x p =
     \<lparr>mt_id = i, mt_agent_id = x, mt_metric_date = date_of t, mt_call_count = 1,
      mt_success_count = success_of p, mt_failure_count = 1 - success_of p,
      mt_total_latency_ms = max 0 (pc_latency_ms p), mt_total_token_usage = tokens_of p,
      mt_token_usage_observed_count = observed_of p, mt_mcp_call_count = max 0 (pc_mcp_call_count p),
      mt_updated_at = t\<rparr>"

definition add_call :: "instant \<Rightarrow> public_call \<Rightarrow> agent_metric \<Rightarrow> agent_metric" where
  "add_call t p m =
     m\<lparr>mt_call_count := mt_call_count m + 1, mt_success_count := mt_success_count m + success_of p,
       mt_failure_count := mt_failure_count m + (1 - success_of p),
       mt_total_latency_ms := mt_total_latency_ms m + max 0 (pc_latency_ms p),
       mt_total_token_usage := mt_total_token_usage m + tokens_of p,
       mt_token_usage_observed_count := mt_token_usage_observed_count m + observed_of p,
       mt_mcp_call_count := mt_mcp_call_count m + max 0 (pc_mcp_call_count p), mt_updated_at := t\<rparr>"

text \<open>The upsert of the counters of a day.\<close>

definition count_call :: "instant \<Rightarrow> string \<Rightarrow> public_call \<Rightarrow> store \<Rightarrow> store" where
  "count_call t x p db =
     (case row_get metric_key (x, date_of t) (metrics db) of
        None \<Rightarrow>
          (let (i, db1) = new_id db in
           upd_registry (\<lambda>r. r\<lparr>rg_metrics := rg_metrics r @ [new_metric t i x p]\<rparr>) db1)
      | Some _ \<Rightarrow>
          upd_registry (\<lambda>r. r\<lparr>rg_metrics := row_upd metric_key (x, date_of t) (add_call t p) (rg_metrics r)\<rparr>) db)"

text \<open>Ids must exist, the request id be new and the token usage not negative: the constraints of
  the two tables.\<close>

definition call_rows_ok :: "public_call \<Rightarrow> store \<Rightarrow> bool" where
  "call_rows_ok p db \<longleftrightarrow>
     pc_request_id p \<notin> au_request_id ` set (audits db) \<and> 0 \<le> tokens_of p \<and>
     (case pc_agent_id p of None \<Rightarrow> True | Some x \<Rightarrow> x \<in> ag_id ` set (db_agents db)) \<and>
     (case pc_client_id p of None \<Rightarrow> True | Some c \<Rightarrow> c \<in> cl_id ` set (clients db)) \<and>
     (case pc_api_key_id p of None \<Rightarrow> True | Some k \<Rightarrow> k \<in> ky_id ` set (keys db))"

definition record_public_call :: "instant \<Rightarrow> public_call \<Rightarrow> store \<Rightarrow> audit_log tx" where
  "record_public_call t p db =
     (if \<not> call_rows_ok p db then Inl Constraint_error
      else
        let (i, db1) = new_id db; u = new_audit t i p;
            db2 = upd_registry (\<lambda>r. r\<lparr>rg_audits := rg_audits r @ [u]\<rparr>) db1;
            db3 = (case pc_agent_id p of None \<Rightarrow> db2 | Some x \<Rightarrow> count_call t x p db2)
        in if \<not> pc_increment_publication p then Inr (u, db3)
           else case pc_agent_id p of
             None \<Rightarrow> value_error ''publication calls can only be incremented for a successful Agent call''
           | Some x \<Rightarrow>
               if pc_status p \<noteq> U_succeeded
               then value_error ''publication calls can only be incremented for a successful Agent call''
               else Inr (u, upd_registry (\<lambda>r. r\<lparr>rg_publications :=
                      row_upd pb_agent_id x (\<lambda>q. q\<lparr>pb_call_count := pb_call_count q + 1,
                                                   pb_last_called_at := Some t\<rparr>) (rg_publications r)\<rparr>) db3))"

definition list_audit_logs ::
  "string option \<Rightarrow> uuid option \<Rightarrow> audit_status option \<Rightarrow> nat \<Rightarrow> nat \<Rightarrow> store \<Rightarrow> audit_log list"
where
  "list_audit_logs agent_id client_id status limit offset db =
     take limit (drop offset (sort_key (\<lambda>u. (- au_created_at u, - int (au_id u)))
       (filter (\<lambda>u. (agent_id = None \<or> au_agent_id u = agent_id) \<and>
                   (client_id = None \<or> au_client_id u = client_id) \<and>
                   (status = None \<or> Some (au_status u) = status)) (audits db))))"

section \<open>Counters\<close>

text \<open>
  \<open>round(a / b, n)\<close>: the quotient as a double, rounded half to even at the \<open>n\<close>-th decimal,
  and the result as a double again.
\<close>

function lift_up :: "rat \<Rightarrow> nat" where
  "lift_up x = (if 0 < x \<and> x < 1 then Suc (lift_up (2 * x)) else 0)"
  by pat_completeness auto
termination
proof (relation "measure (\<lambda>x. nat \<lceil>1 / x\<rceil>)", goal_cases)
  case (2 x)
  then have y: "0 < x" "1 < 1 / x" "1 / (2 * x) = 1 / x / 2" by simp_all
  have "\<lceil>1 / x / 2\<rceil> < \<lceil>1 / x\<rceil>"
  proof (cases "1 / x \<le> 2")
    case True
    then have "\<lceil>1 / x / 2\<rceil> \<le> 1" "1 < \<lceil>1 / x\<rceil>" using y(2) by (simp_all add: ceiling_le_iff less_ceiling_iff)
    then show ?thesis by linarith
  next
    case False
    then have "1 / x / 2 \<le> 1 / x - 1" by simp
    then have "\<lceil>1 / x / 2\<rceil> \<le> \<lceil>1 / x - 1\<rceil>" by (rule ceiling_mono)
    then show ?thesis by simp
  qed
  then have "\<lceil>1 / (2 * x)\<rceil> < \<lceil>1 / x\<rceil>" by (simp only: y(3))
  moreover have "0 < \<lceil>1 / x\<rceil>" using y(1) by simp
  ultimately show ?case by simp
qed simp

declare lift_up.simps [simp del]

definition double_of :: "rat \<Rightarrow> rat" where
  "double_of x = (if x \<le> 0 then 0 else to_double (x * 2 ^ lift_up x) / 2 ^ lift_up x)"

definition py_round :: "nat \<Rightarrow> rat \<Rightarrow> rat" where
  "py_round n x = double_of (of_int (round_even (x * 10 ^ n)) / 10 ^ n)"

definition ratio :: "nat \<Rightarrow> int \<Rightarrow> int \<Rightarrow> rat option" where
  "ratio n a b = (if b = 0 then None else Some (py_round n (double_of (of_int a / of_int b))))"

record metric_read =
  mr_agent_id :: string
  mr_agent_name :: string
  mr_call_count :: int
  mr_success_count :: int
  mr_failure_count :: int
  mr_success_rate :: "rat option"
  mr_average_latency_ms :: "rat option"
  mr_token_usage :: "int option"
  mr_mcp_call_count :: int

definition total :: "(agent_metric \<Rightarrow> int) \<Rightarrow> agent_metric list \<Rightarrow> int" where
  "total f ms = sum_list (map f ms)"

definition metric_read_of :: "string \<Rightarrow> string \<Rightarrow> agent_metric list \<Rightarrow> metric_read" where
  "metric_read_of x name ms =
     (let calls = total mt_call_count ms in
      \<lparr>mr_agent_id = x, mr_agent_name = name, mr_call_count = calls,
       mr_success_count = total mt_success_count ms, mr_failure_count = total mt_failure_count ms,
       mr_success_rate = ratio 6 (total mt_success_count ms) calls,
       mr_average_latency_ms = ratio 2 (total mt_total_latency_ms ms) calls,
       mr_token_usage = (if total mt_token_usage_observed_count ms = calls \<and> calls \<noteq> 0
                         then Some (total mt_total_token_usage ms) else None),
       mr_mcp_call_count = total mt_mcp_call_count ms\<rparr>)"

definition agent_metrics :: "string \<Rightarrow> store \<Rightarrow> agent_metric list" where
  "agent_metrics x db = filter (\<lambda>m. mt_agent_id m = x) (metrics db)"

definition list_agent_metrics :: "store \<Rightarrow> metric_read list" where
  "list_agent_metrics db =
     map (\<lambda>a. metric_read_of (ag_id a) (ag_name a) (agent_metrics (ag_id a) db))
       (sort_key (\<lambda>a. (ag_name a, ag_id a)) (db_agents db))"

definition get_agent_metrics :: "string \<Rightarrow> store \<Rightarrow> metric_read option" where
  "get_agent_metrics x db = find (\<lambda>m. mr_agent_id m = x) (list_agent_metrics db)"

definition latest_agent_metric :: "string \<Rightarrow> store \<Rightarrow> agent_metric option" where
  "latest_agent_metric x db =
     (case sort_key (\<lambda>m. - mt_metric_date m) (agent_metrics x db) of [] \<Rightarrow> None | m # _ \<Rightarrow> Some m)"

record metrics_totals =
  ms_agent_count :: nat
  ms_published_agent_count :: nat
  ms_call_count :: int
  ms_success_count :: int
  ms_failure_count :: int
  ms_success_rate :: "rat option"
  ms_error_rate :: "rat option"
  ms_average_latency_ms :: "rat option"
  ms_token_usage :: "int option"
  ms_mcp_call_count :: int
  ms_updated_at :: instant

definition metrics_summary :: "instant \<Rightarrow> store \<Rightarrow> metrics_totals" where
  "metrics_summary t db =
     (let reads = list_agent_metrics db; ms = metrics db;
          calls = sum_list (map mr_call_count reads); successes = sum_list (map mr_success_count reads);
          failures = sum_list (map mr_failure_count reads)
      in \<lparr>ms_agent_count = length reads,
          ms_published_agent_count = length (filter callable (db_agents db)),
          ms_call_count = calls, ms_success_count = successes, ms_failure_count = failures,
          ms_success_rate = ratio 6 successes calls, ms_error_rate = ratio 6 failures calls,
          ms_average_latency_ms = ratio 2 (total mt_total_latency_ms ms) calls,
          ms_token_usage = (if total mt_token_usage_observed_count ms = calls \<and> calls \<noteq> 0
                            then Some (total mt_total_token_usage ms) else None),
          ms_mcp_call_count = total mt_mcp_call_count ms,
          ms_updated_at = or_else (latest_instant (map mt_updated_at ms)) t\<rparr>)"

section \<open>Rate limit\<close>

text \<open>\<open>incr\<close> is the script: it increments the counter of the key and returns the new count. The
  key names the client and the minute; instants are microseconds.\<close>

definition rate_window :: "instant \<Rightarrow> int" where
  "rate_window t = t div 1000000 div 60"

definition rate_key :: "uuid \<Rightarrow> instant \<Rightarrow> string" where
  "rate_key client_id t =
     ''hermes:api-rate-limit:v1:'' @ uuid_str client_id @ '':'' @ int_str (rate_window t)"

definition enforce_rate_limit ::
  "(string \<Rightarrow> 'r \<Rightarrow> nat \<times> 'r) \<Rightarrow> uuid \<Rightarrow> int \<Rightarrow> instant \<Rightarrow> 'r \<Rightarrow> (bool \<times> int \<times> int) \<times> 'r"
where
  "enforce_rate_limit incr client_id limit t r =
     (let (count, r') = incr (rate_key client_id t) r in
      ((int count \<le> limit, max 0 (limit - int count), max 1 (60 - (t div 1000000) mod 60)), r'))"

end
