(* ===== verification/Api_Keys_Correct.thy ===== *)
theory Api_Keys_Correct
  imports Api_Keys
begin

text \<open>
  What API keys guarantee: who can authenticate, what revocation and rotation do, that the
  counters agree with the audit log, and how many calls a minute admits.
\<close>

lemma registry_frames [simp]:
  "clients (upd_registry (\<lambda>r. r\<lparr>rg_keys := f (rg_keys r)\<rparr>) db) = clients db"
  "keys (upd_registry (\<lambda>r. r\<lparr>rg_keys := f (rg_keys r)\<rparr>) db) = f (keys db)"
  "bindings (upd_registry (\<lambda>r. r\<lparr>rg_keys := f (rg_keys r)\<rparr>) db) = bindings db"
  "db_agents (upd_registry g db) = db_agents db"
  by (simp_all add: upd_registry_def clients_def keys_def bindings_def)

section \<open>Authentication\<close>

lemma set_valid_pairs:
  "set (valid_pairs sha256 t p db) = {(c, k). c \<in> set (clients db) \<and> k \<in> set (keys db) \<and> key_valid sha256 t p c k}"
  by (auto simp: valid_pairs_def)

lemma key_valid_iff:
  "key_valid sha256 t p c k \<longleftrightarrow> ky_client_id k = cl_id c \<and> ky_key_hash k = sha256 p \<and> ky_active k \<and>
     cl_status c = K_active \<and> (ky_expires_at k = None \<or> (\<exists>e. ky_expires_at k = Some e \<and> t < e))"
  by (cases "ky_expires_at k") (auto simp: key_valid_def hash_api_key_def)

lemma has_invoke_permission_iff:
  "has_invoke_permission c x db \<longleftrightarrow> (c, x) \<in> binding_key ` set (bindings db) \<and>
     (\<exists>a\<in>set (db_agents db). ag_id a = x \<and> ag_status a = A_active \<and> ag_current_version_id a \<noteq> None \<and>
        ag_api_enabled a)"
  unfolding has_invoke_permission_def list_ex_iff callable_def image_iff by metis

text \<open>C11. A presented key gives access to an Agent exactly when it is the key of an active client,
  active itself and not expired, the client is bound to the Agent and the Agent is active,
  published and enabled for the API.\<close>

theorem authenticate_api_key_iff:
  "fst (authenticate_api_key sha256 t x p db) \<noteq> None \<longleftrightarrow>
     (\<exists>c\<in>set (clients db). \<exists>k\<in>set (keys db).
        ky_client_id k = cl_id c \<and> ky_key_hash k = sha256 p \<and> ky_active k \<and> cl_status c = K_active \<and>
        (ky_expires_at k = None \<or> (\<exists>e. ky_expires_at k = Some e \<and> t < e)) \<and>
        (cl_id c, x) \<in> binding_key ` set (bindings db) \<and>
        (\<exists>a\<in>set (db_agents db). ag_id a = x \<and> ag_status a = A_active \<and> ag_current_version_id a \<noteq> None \<and>
           ag_api_enabled a))"
proof -
  let ?ps = "filter (\<lambda>(c, k). has_invoke_permission (cl_id c) x db) (valid_pairs sha256 t p db)"
  have "fst (authenticate_api_key sha256 t x p db) \<noteq> None \<longleftrightarrow> ?ps \<noteq> []"
    by (auto simp: authenticate_api_key_def Let_def split: list.split)
  also have "\<dots> \<longleftrightarrow> (\<exists>c\<in>set (clients db). \<exists>k\<in>set (keys db).
      key_valid sha256 t p c k \<and> has_invoke_permission (cl_id c) x db)"
    by (auto simp: filter_empty_conv set_valid_pairs)
  finally show ?thesis
    unfolding key_valid_iff has_invoke_permission_iff by blast
qed

lemma no_active_key_no_access:
  assumes "\<And>k. k \<in> set (keys db) \<Longrightarrow> ky_key_hash k = sha256 p \<Longrightarrow> \<not> ky_active k"
  shows "fst (authenticate_api_key sha256 t x p db) = None"
    and "authenticate_client_key sha256 t p db = None"
proof -
  have "valid_pairs sha256 t p db = []"
    using assms by (auto simp: valid_pairs_def filter_empty_conv key_valid_def hash_api_key_def)
  then show "fst (authenticate_api_key sha256 t x p db) = None" "authenticate_client_key sha256 t p db = None"
    by (simp_all add: authenticate_api_key_def authenticate_client_key_def)
qed

text \<open>A revoked key is refused at once and for every Agent, by both authentications.\<close>

theorem revoked_key_refused:
  assumes "distinct (map ky_key_hash (keys db))" and "k \<in> set (keys db)" and "ky_key_hash k = sha256 p"
    and "revoke_api_key t k db = (k', db')"
  shows "fst (authenticate_api_key sha256 t' x p db') = None \<and> authenticate_client_key sha256 t' p db' = None"
proof -
  have keys: "keys db' = row_upd ky_id (ky_id k) (revoked t) (keys db)"
    using assms(4) by (auto simp: revoke_api_key_def)
  have "\<not> ky_active r" if r: "r \<in> set (keys db')" "ky_key_hash r = sha256 p" for r
  proof -
    obtain s where s: "s \<in> set (keys db)" "r = (if ky_id s = ky_id k then revoked t s else s)"
      using r(1) by (auto simp: keys row_upd_def)
    then have "ky_key_hash s = ky_key_hash k" using r(2) assms(3) by (auto simp: revoked_def split: if_splits)
    then have "s = k" using assms(1,2) s(1) by (metis distinct_map inj_on_eq_iff)
    then show ?thesis by (simp add: s(2) revoked_def)
  qed
  then show ?thesis using no_active_key_no_access [of db' sha256 p] by auto
qed

definition sample_keys :: store where
  "sample_keys =
     \<lparr>db_agents = [], db_teams = [], db_members = [], db_workflows = [], db_runs = [], db_tasks = [],
      db_sessions = [], db_executions = [], db_steps = [], db_artifacts = [], db_execution_artifacts = [],
      db_registry = empty_registry\<lparr>rg_keys := [new_key (\<lambda>s. s) ''abc'' 5 7 6 ''main'' None]\<rparr>,
      db_next_id = 20\<rparr>"

theorem revoked_key_refused_witness:
  "fst (authenticate_api_key (\<lambda>s. s) 9 ''helper'' ''hap_abc''
      (snd (revoke_api_key 8 (new_key (\<lambda>s. s) ''abc'' 5 7 6 ''main'' None) sample_keys))) = None"
proof -
  have k: "keys sample_keys = [new_key (\<lambda>s. s) ''abc'' 5 7 6 ''main'' None]"
    by (simp add: keys_def sample_keys_def)
  have h: "ky_key_hash (new_key (\<lambda>s. s) ''abc'' 5 7 6 ''main'' None) = ''hap_abc''"
    by (simp add: new_key_def hash_api_key_def plaintext_key_def)
  show ?thesis
    using revoked_key_refused [of sample_keys "new_key (\<lambda>s. s) ''abc'' 5 7 6 ''main'' None" "\<lambda>s. s" "''hap_abc''" 8
        "fst (revoke_api_key 8 (new_key (\<lambda>s. s) ''abc'' 5 7 6 ''main'' None) sample_keys)"
        "snd (revoke_api_key 8 (new_key (\<lambda>s. s) ''abc'' 5 7 6 ''main'' None) sample_keys)" 9 "''helper''"]
    by (simp add: k h)
qed

section \<open>Rotation\<close>

lemma rbind_pair_E:
  assumes "rbind r f = Inr y"
  obtains x where "r = Inr x" and "f x = Inr y"
  using assms by (auto simp: rbind_Inr)

lemma key_frames [simp]:
  "keys (upd_registry (\<lambda>r. r\<lparr>rg_publications := g (rg_publications r)\<rparr>) db) = keys db"
  "keys (upd_registry (\<lambda>r. r\<lparr>rg_clients := h (rg_clients r)\<rparr>) db) = keys db"
  "keys (upd_registry (\<lambda>r. r\<lparr>rg_bindings := b (rg_bindings r)\<rparr>) db) = keys db"
  "keys (set_publication_status t x st db) = keys db"
  "keys (snd (new_id db)) = keys db"
  "keys (snd (bind_agent t c x db)) = keys db"
  by (auto simp: upd_registry_def keys_def set_publication_status_def new_id_def bind_agent_def Let_def
      split: option.splits)

lemma legacy_client_keys: "legacy_client t x db = Inr (c, db') \<Longrightarrow> keys db' = keys db"
  by (auto simp: legacy_client_def new_id_def upd_registry_def keys_def value_error_def Let_def
      split: option.splits if_splits)

lemma create_api_key_keys:
  assumes "create_api_key sha256 token t c name e db = Inr ((k, plain), db')"
  shows "keys db' = keys db @ [k]" and "ky_client_id k = cl_id c" and "ky_active k"
    and "ky_key_hash k = sha256 plain" and "plain = ''hap_'' @ token"
    and "ky_key_hash k \<notin> ky_key_hash ` set (keys db)"
  using assms
  by (auto simp: create_api_key_def new_id_def upd_registry_def keys_def new_key_def hash_api_key_def
      plaintext_key_def Let_def split: if_splits)

lemma rotate_E:
  assumes "rotate_legacy_publication_key sha256 token t x db = Inr ((p, k, plain), db')"
  obtains db1 c db2 db3 db4 where "keys db1 = keys db" and "legacy_client t x db1 = Inr (c, db2)"
    and "db3 = revoke_active_keys t (cl_id c) (snd (bind_agent t (cl_id c) x db2))"
    and "create_api_key sha256 token t c ''legacy-publication-key'' None db3 = Inr ((k, plain), db4)"
    and "keys db' = keys db4"
    and "row_get pb_agent_id x (rg_publications (db_registry db')) = Some p"
    and "db' = upd_registry (\<lambda>r. r\<lparr>rg_publications := row_upd pb_agent_id x
           (\<lambda>q. q\<lparr>pb_api_key_hash := Some (ky_key_hash k), pb_api_key_prefix := Some (ky_prefix k)\<rparr>)
           (rg_publications r)\<rparr>) db4"
proof -
  define db1 where "db1 = (case row_get pb_agent_id x (rg_publications (db_registry db)) of
                   None \<Rightarrow> set_publication_status t x B_draft db | Some _ \<Rightarrow> db)"
  have "keys db1 = keys db" by (simp add: db1_def split: option.split)
  moreover obtain c db2 where l: "legacy_client t x db1 = Inr (c, db2)"
    using assms unfolding rotate_legacy_publication_key_def Let_def db1_def [symmetric]
    by (elim rbind_pair_E) auto
  moreover define db3 where "db3 = revoke_active_keys t (cl_id c) (snd (bind_agent t (cl_id c) x db2))"
  moreover obtain k' plain' db4 where n: "create_api_key sha256 token t c ''legacy-publication-key'' None db3 = Inr ((k', plain'), db4)"
    using assms l unfolding rotate_legacy_publication_key_def Let_def db1_def [symmetric]
    by (auto simp: db3_def elim!: rbind_pair_E)
  moreover have "k' = k" "plain' = plain"
    and d: "db' = upd_registry (\<lambda>r. r\<lparr>rg_publications := row_upd pb_agent_id x
           (\<lambda>q. q\<lparr>pb_api_key_hash := Some (ky_key_hash k), pb_api_key_prefix := Some (ky_prefix k)\<rparr>)
           (rg_publications r)\<rparr>) db4"
    and "row_get pb_agent_id x (rg_publications (db_registry db')) = Some p"
    using assms l n unfolding rotate_legacy_publication_key_def Let_def db1_def [symmetric]
    by (auto simp: db3_def split: option.splits)
  moreover have "keys db' = keys db4" by (simp add: d)
  ultimately show thesis using that by blast
qed

lemma rotation_keys:
  assumes "rotate_legacy_publication_key sha256 token t x db = Inr ((p, k, plain), db')"
  shows "k \<in> set (keys db')" and "ky_active k" and "plain = ''hap_'' @ token" and "ky_key_hash k = sha256 plain"
    and "\<And>r. r \<in> set (keys db') \<Longrightarrow> ky_client_id r = ky_client_id k \<Longrightarrow> ky_active r \<Longrightarrow> r = k"
    and "\<And>r. r \<in> set (keys db) \<Longrightarrow> ky_client_id r \<noteq> ky_client_id k \<Longrightarrow> r \<in> set (keys db')"
    and "pb_api_key_hash p = Some (sha256 plain)"
proof -
  obtain db1 c db2 db3 db4 where k1: "keys db1 = keys db" and l: "legacy_client t x db1 = Inr (c, db2)"
    and d3: "db3 = revoke_active_keys t (cl_id c) (snd (bind_agent t (cl_id c) x db2))"
    and n: "create_api_key sha256 token t c ''legacy-publication-key'' None db3 = Inr ((k, plain), db4)"
    and d4: "keys db' = keys db4" and p: "row_get pb_agent_id x (rg_publications (db_registry db')) = Some p"
    and d': "db' = upd_registry (\<lambda>r. r\<lparr>rg_publications := row_upd pb_agent_id x
           (\<lambda>q. q\<lparr>pb_api_key_hash := Some (ky_key_hash k), pb_api_key_prefix := Some (ky_prefix k)\<rparr>)
           (rg_publications r)\<rparr>) db4"
    using assms by (rule rotate_E)
  note new = create_api_key_keys [OF n]
  have k3: "keys db3 = map (\<lambda>r. if ky_client_id r = cl_id c \<and> ky_active r then revoked t r else r) (keys db)"
  proof -
    have "keys (revoke_active_keys t i d) = map (\<lambda>r. if ky_client_id r = i \<and> ky_active r then revoked t r else r) (keys d)" for i d
      by (simp add: revoke_active_keys_def keys_def upd_registry_def)
    then show ?thesis by (simp add: d3 legacy_client_keys [OF l] k1)
  qed
  show "k \<in> set (keys db')" "ky_active k" "plain = ''hap_'' @ token" "ky_key_hash k = sha256 plain"
    using new by (simp_all add: d4)
  show "r = k" if r: "r \<in> set (keys db')" "ky_client_id r = ky_client_id k" "ky_active r" for r
    using r new(1,2) by (auto simp: d4 k3 revoked_def split: if_splits)
  show "r \<in> set (keys db')" if r: "r \<in> set (keys db)" "ky_client_id r \<noteq> ky_client_id k" for r
  proof -
    have "(if ky_client_id r = cl_id c \<and> ky_active r then revoked t r else r) \<in> set (keys db3)"
      unfolding k3 using r(1) by simp
    then show ?thesis using r(2) new(1,2) by (simp add: d4)
  qed
  define f where "f = (\<lambda>q :: publication. q\<lparr>pb_api_key_hash := Some (ky_key_hash k), pb_api_key_prefix := Some (ky_prefix k)\<rparr>)"
  have "row_get pb_agent_id x (row_upd pb_agent_id x f (rg_publications (db_registry db4))) = Some p"
    using p by (simp add: d' upd_registry_def f_def)
  moreover have "\<And>q. pb_agent_id (f q) = pb_agent_id q" by (simp add: f_def)
  ultimately obtain q where "p = f q" by (auto simp: row_get_row_upd)
  then show "pb_api_key_hash p = Some (sha256 plain)" using new(4) by (simp add: f_def)
qed

lemma rotation_leaves_one_key_parts:
  assumes "rotate_legacy_publication_key sha256 token t x db = Inr ((p, k, plain), db')"
  shows "\<forall>r\<in>set (keys db'). ky_client_id r = ky_client_id k \<and> ky_active r \<longleftrightarrow> r = k"
    and "\<forall>r\<in>set (keys db). ky_client_id r \<noteq> ky_client_id k \<longrightarrow> r \<in> set (keys db')"
    and "ky_key_hash k = sha256 plain \<and> pb_api_key_hash p = Some (sha256 plain)"
  using rotation_keys [OF assms] by blast+

text \<open>After a rotation the new key is the only active key of the legacy client: all its former
  keys are refused, the keys of other clients are as before.\<close>

theorem rotation_leaves_one_key:
  assumes "rotate_legacy_publication_key sha256 token t x db = Inr ((p, k, plain), db')"
  shows "(\<forall>r\<in>set (keys db'). ky_client_id r = ky_client_id k \<and> ky_active r \<longleftrightarrow> r = k) \<and>
     (\<forall>r\<in>set (keys db). ky_client_id r \<noteq> ky_client_id k \<longrightarrow> r \<in> set (keys db')) \<and>
     (ky_key_hash k = sha256 plain \<and> pb_api_key_hash p = Some (sha256 plain))"
  using rotation_leaves_one_key_parts [OF assms] by (elim conjE, intro conjI)

theorem rotation_leaves_one_key_witness:
  "\<exists>p k plain db'. rotate_legacy_publication_key (\<lambda>s. s) ''xyz'' 9 ''helper'' sample_keys = Inr ((p, k, plain), db') \<and>
     (\<forall>r\<in>set (keys db'). ky_client_id r = ky_client_id k \<and> ky_active r \<longleftrightarrow> r = k)"
proof -
  let ?r = "rotate_legacy_publication_key (\<lambda>s. s) ''xyz'' 9 ''helper'' sample_keys"
  have "\<not> isl ?r" by code_simp
  then obtain p k plain db' where r: "?r = Inr ((p, k, plain), db')" by (cases ?r) auto
  from rotation_leaves_one_key [OF this] r show ?thesis by blast
qed


section \<open>Counters and audit log\<close>

text \<open>
  The counters of an Agent are the sums over its calls in the audit log; \<open>calls_of\<close> is the
  abstraction the counters implement.
\<close>

definition calls_of :: "string \<Rightarrow> store \<Rightarrow> audit_log list" where
  "calls_of x db = filter (\<lambda>u. au_agent_id u = Some x) (audits db)"

definition sum_calls :: "(audit_log \<Rightarrow> int) \<Rightarrow> string \<Rightarrow> store \<Rightarrow> int" where
  "sum_calls f x db = sum_list (map f (calls_of x db))"

definition counters_ok :: "store \<Rightarrow> bool" where
  "counters_ok db \<longleftrightarrow> distinct (map metric_key (metrics db)) \<and>
     (\<forall>x. total mt_call_count (agent_metrics x db) = sum_calls (\<lambda>_. 1) x db \<and>
          total mt_success_count (agent_metrics x db) = sum_calls (\<lambda>u. if au_status u = U_succeeded then 1 else 0) x db \<and>
          total mt_failure_count (agent_metrics x db) = sum_calls (\<lambda>u. if au_status u = U_succeeded then 0 else 1) x db \<and>
          total mt_total_latency_ms (agent_metrics x db) = sum_calls au_latency_ms x db \<and>
          total mt_total_token_usage (agent_metrics x db) = sum_calls (\<lambda>u. or_else (au_token_usage u) 0) x db \<and>
          total mt_token_usage_observed_count (agent_metrics x db) =
            sum_calls (\<lambda>u. if au_token_usage u = None then 0 else 1) x db \<and>
          total mt_mcp_call_count (agent_metrics x db) = sum_calls au_mcp_call_count x db)"

interpretation metric_rows: keyed_rows metric_key "row_get metric_key" "row_upd metric_key"
  by (rule keyed_rows_list)

lemma total_upd:
  assumes "distinct (map metric_key ms)" and "row_get metric_key k ms = Some m"
    and "\<And>r. metric_key (g r) = metric_key r"
  shows "total f (filter (\<lambda>r. mt_agent_id r = x) (row_upd metric_key k g ms)) =
     total f (filter (\<lambda>r. mt_agent_id r = x) ms) + (if fst k = x then f (g m) - f m else 0)"
  using assms(1,2)
proof (induction ms)
  case (Cons r ms)
  have key: "mt_agent_id (g r) = mt_agent_id r" using assms(3) [of r] by simp
  show ?case
  proof (cases "metric_key r = k")
    case True
    then have m: "m = r" using Cons.prems(2) by (simp add: row_get_Cons)
    have "row_upd metric_key k g ms = ms"
      unfolding row_upd_def
    proof (rule map_idI)
      fix q assume "q \<in> set ms"
      then have "metric_key q \<in> metric_key ` set ms" by (rule imageI)
      moreover have "k \<notin> metric_key ` set ms" using Cons.prems(1) unfolding True [symmetric] by simp
      ultimately have "metric_key q \<noteq> k" by blast
      then show "(if metric_key q = k then g q else q) = q" by simp
    qed
    then show ?thesis using True key by (auto simp: row_upd_def total_def m)
  next
    case False
    then have "row_get metric_key k ms = Some m" using Cons.prems(2) by (simp add: row_get_Cons)
    with Cons.IH Cons.prems(1) have
      "total f (filter (\<lambda>r. mt_agent_id r = x) (row_upd metric_key k g ms)) =
       total f (filter (\<lambda>r. mt_agent_id r = x) ms) + (if fst k = x then f (g m) - f m else 0)" by simp
    moreover have "row_upd metric_key k g (r # ms) = r # row_upd metric_key k g ms" using False by (simp add: row_upd_def)
    ultimately show ?thesis by (simp add: total_def)
  qed
qed simp

lemma add_call_key: "metric_key (add_call t p r) = metric_key r"
  by (simp add: add_call_def)

lemma count_call_total:
  assumes "distinct (map metric_key (metrics db))"
    and "f (new_metric t (db_next_id db) y p) = d" and "\<And>m. f (add_call t p m) = f m + d"
  shows "total f (agent_metrics x (count_call t y p db)) = total f (agent_metrics x db) + (if x = y then d else 0)"
proof (cases "row_get metric_key (y, date_of t) (metrics db)")
  case None
  have "agent_metrics x (count_call t y p db) =
      agent_metrics x db @ (if x = y then [new_metric t (db_next_id db) y p] else [])"
    using None by (auto simp: count_call_def new_id_def upd_registry_def metrics_def agent_metrics_def new_metric_def)
  then show ?thesis using assms(2) by (simp add: total_def)
next
  case (Some m)
  have "agent_metrics x (count_call t y p db) =
      filter (\<lambda>r. mt_agent_id r = x) (row_upd metric_key (y, date_of t) (add_call t p) (metrics db))"
    using Some by (simp add: count_call_def upd_registry_def metrics_def agent_metrics_def)
  then show ?thesis
    using total_upd [OF assms(1) Some, of "add_call t p" f x] assms(3) [of m] add_call_key
    by (simp add: agent_metrics_def)
qed

lemma count_call_distinct:
  assumes "distinct (map metric_key (metrics db))"
  shows "distinct (map metric_key (metrics (count_call t y p db)))"
proof (cases "row_get metric_key (y, date_of t) (metrics db)")
  case None
  then have "(y, date_of t) \<notin> metric_key ` set (metrics db)" by (simp add: metric_rows.get_none)
  moreover have "metrics (count_call t y p db) = metrics db @ [new_metric t (db_next_id db) y p]"
    using None by (simp add: count_call_def new_id_def upd_registry_def metrics_def)
  ultimately show ?thesis using assms by (auto simp: new_metric_def)
next
  case (Some m)
  then have "metrics (count_call t y p db) = row_upd metric_key (y, date_of t) (add_call t p) (metrics db)"
    by (simp add: count_call_def upd_registry_def metrics_def)
  then show ?thesis using assms metric_rows.keys_upd [of "add_call t p", OF add_call_key] by simp
qed

lemma count_call_audits: "audits (count_call t y p db) = audits db"
  by (auto simp: count_call_def new_id_def upd_registry_def audits_def Let_def split: option.split)

lemma record_public_call_E:
  assumes "record_public_call t p db = Inr (u, db')"
  obtains db2 where "metrics db2 = metrics db" and "audits db2 = audits db @ [u]"
    and "db_next_id db2 = Suc (db_next_id db)" and "u = new_audit t (db_next_id db) p"
    and "metrics db' = metrics (case pc_agent_id p of None \<Rightarrow> db2 | Some x \<Rightarrow> count_call t x p db2)"
    and "audits db' = audits db @ [u]"
proof -
  define u' where "u' = new_audit t (db_next_id db) p"
  define db2 where "db2 = upd_registry (\<lambda>r. r\<lparr>rg_audits := rg_audits r @ [u']\<rparr>) (snd (new_id db))"
  define db3 where "db3 = (case pc_agent_id p of None \<Rightarrow> db2 | Some x \<Rightarrow> count_call t x p db2)"
  have d2: "metrics db2 = metrics db" "audits db2 = audits db @ [u']" "db_next_id db2 = Suc (db_next_id db)"
    by (simp_all add: db2_def new_id_def upd_registry_def metrics_def audits_def)
  have frame: "metrics (upd_registry (\<lambda>r. r\<lparr>rg_publications := g (rg_publications r)\<rparr>) d) = metrics d"
    "audits (upd_registry (\<lambda>r. r\<lparr>rg_publications := g (rg_publications r)\<rparr>) d) = audits d" for g d
    by (simp_all add: upd_registry_def metrics_def audits_def)
  have "u = u' \<and> metrics db' = metrics db3 \<and> audits db' = audits db3"
    using assms frame
    by (auto simp: record_public_call_def new_id_def Let_def u'_def [symmetric] db2_def [symmetric, unfolded new_id_def, simplified]
        db3_def value_error_def split: if_splits option.splits)
  moreover have "audits db3 = audits db2" by (simp add: db3_def count_call_audits split: option.split)
  ultimately show thesis using that [of db2] d2 by (simp add: db3_def u'_def)
qed

lemma record_total:
  assumes "counters_ok db" and "record_public_call t p db = Inr (u, db')"
    and "\<And>i x. f (new_metric t i x p) = g u" and "\<And>m. f (add_call t p m) = f m + g u"
    and "total f (agent_metrics x db) = sum_calls g x db"
  shows "total f (agent_metrics x db') = sum_calls g x db'"
proof -
  obtain db2 where d: "metrics db2 = metrics db" "audits db2 = audits db @ [u]"
    "db_next_id db2 = Suc (db_next_id db)" and u: "u = new_audit t (db_next_id db) p"
    and d': "metrics db' = metrics (case pc_agent_id p of None \<Rightarrow> db2 | Some x \<Rightarrow> count_call t x p db2)"
      "audits db' = audits db @ [u]"
    using assms(2) by (rule record_public_call_E)
  have am: "agent_metrics x a = agent_metrics x b" if "metrics a = metrics b" for a b
    using that by (simp add: agent_metrics_def)
  have owner: "au_agent_id u = pc_agent_id p" by (simp add: u new_audit_def)
  have s: "sum_calls g x db' = sum_calls g x db + (if pc_agent_id p = Some x then g u else 0)"
    using d'(2) owner by (simp add: sum_calls_def calls_of_def)
  show ?thesis
  proof (cases "pc_agent_id p")
    case None
    then have "agent_metrics x db' = agent_metrics x db" using d'(1) d(1) by (intro am) simp
    then show ?thesis using s None assms(5) by simp
  next
    case (Some y)
    then have "agent_metrics x db' = agent_metrics x (count_call t y p db2)" using d'(1) by (intro am) simp
    moreover have "total f (agent_metrics x (count_call t y p db2)) =
        total f (agent_metrics x db2) + (if x = y then g u else 0)"
      using assms(1) d(1) by (intro count_call_total assms(3,4)) (simp add: counters_ok_def)
    ultimately show ?thesis using s Some assms(5) am [OF d(1)] by auto
  qed
qed

lemma counters_preserved:
  assumes "counters_ok db" and "record_public_call t p db = Inr (u, db')"
  shows "counters_ok db'"
proof -
  have u: "u = new_audit t (db_next_id db) p" using assms(2) by (rule record_public_call_E)
  note step = record_total [OF assms]
  have "distinct (map metric_key (metrics db'))"
    using assms(2)
  proof (rule record_public_call_E)
    fix db2 assume m: "metrics db2 = metrics db"
      and d: "metrics db' = metrics (case pc_agent_id p of None \<Rightarrow> db2 | Some x \<Rightarrow> count_call t x p db2)"
    then show ?thesis
      using assms(1) count_call_distinct [of db2] by (simp add: counters_ok_def split: option.splits)
  qed
  moreover have "total mt_call_count (agent_metrics x db') = sum_calls (\<lambda>_. 1) x db'"
    "total mt_success_count (agent_metrics x db') = sum_calls (\<lambda>u. if au_status u = U_succeeded then 1 else 0) x db'"
    "total mt_failure_count (agent_metrics x db') = sum_calls (\<lambda>u. if au_status u = U_succeeded then 0 else 1) x db'"
    "total mt_total_latency_ms (agent_metrics x db') = sum_calls au_latency_ms x db'"
    "total mt_total_token_usage (agent_metrics x db') = sum_calls (\<lambda>u. or_else (au_token_usage u) 0) x db'"
    "total mt_token_usage_observed_count (agent_metrics x db') =
       sum_calls (\<lambda>u. if au_token_usage u = None then 0 else 1) x db'"
    "total mt_mcp_call_count (agent_metrics x db') = sum_calls au_mcp_call_count x db'" for x
    using assms(1)
    by (intro step; simp add: u new_metric_def add_call_def new_audit_def success_of_def tokens_of_def
        observed_of_def or_else_def counters_ok_def split: option.split)+
  ultimately show ?thesis by (simp add: counters_ok_def)
qed

text \<open>A sequence of calls; a refused one leaves no trace.\<close>

lemma sum_split:
  "sum_list (map (\<lambda>_. 1) us) = sum_list (map (\<lambda>u. if P u then 1 else 0) us) +
     sum_list (map (\<lambda>u. if P u then 0 else (1 :: int)) us)"
  by (induction us) auto

fun record_calls :: "(instant \<times> public_call) list \<Rightarrow> store \<Rightarrow> store" where
  "record_calls [] db = db"
| "record_calls ((t, p) # ps) db =
     (case record_public_call t p db of Inl _ \<Rightarrow> record_calls ps db | Inr (_, db') \<Rightarrow> record_calls ps db')"

lemma counters_refine_audit_log_parts:
  assumes "counters_ok db" and "db' = record_calls ps db"
  shows "counters_ok db'"
    and "\<forall>x. total mt_call_count (agent_metrics x db') =
           total mt_success_count (agent_metrics x db') + total mt_failure_count (agent_metrics x db')"
proof -
  have "counters_ok (record_calls ps db)"
    using assms(1) by (induction ps db rule: record_calls.induct) (auto simp: counters_preserved split: sum.split)
  then show ok: "counters_ok db'" by (simp add: assms(2))
  have "sum_calls (\<lambda>_. 1) x db' = sum_calls (\<lambda>u. if au_status u = U_succeeded then 1 else 0) x db' +
      sum_calls (\<lambda>u. if au_status u = U_succeeded then 0 else 1) x db'" for x
    unfolding sum_calls_def by (rule sum_split)
  then show "\<forall>x. total mt_call_count (agent_metrics x db') =
           total mt_success_count (agent_metrics x db') + total mt_failure_count (agent_metrics x db')"
    using ok by (simp add: counters_ok_def)
qed


definition sample_calls :: "(instant \<times> public_call) list" where
  "sample_calls = map (\<lambda>(t, r, st).
     (t, \<lparr>pc_request_id = r, pc_client_id = None, pc_agent_id = None, pc_status = st, pc_latency_ms = 5,
          pc_token_usage = Some 3, pc_mcp_call_count = 0, pc_api_key_id = None, pc_error_code = None,
          pc_increment_publication = False\<rparr>\<lparr>pc_agent_id := Some ''helper''\<rparr>))
     [(10, ''a'', U_succeeded), (20, ''b'', U_failed), (30, ''a'', U_succeeded)]"

definition sample_callee :: store where
  "sample_callee = sample_keys\<lparr>db_agents := [
     \<lparr>ag_id = ''helper'', ag_name = ''Helper'', ag_description = None, ag_agent_type = ''worker'',
      ag_role = ''r'', ag_system_prompt = ''s'', ag_model_settings = JObj [], ag_model = ''m'',
      ag_prompt_template = ''t'', ag_model_adapter = ''hermes'', ag_runtime_type = ''hermes'',
      ag_runtime_id = None, ag_runtime_config = JObj [], ag_capability_profile = JObj [],
      ag_api_enabled = True, ag_status = A_active, ag_response_mode = ''sync'',
      ag_input_schema = JObj [], ag_output_schema = JObj [], ag_current_version_id = Some 5\<rparr>]\<rparr>"


section \<open>Rate limit\<close>

fun rate_calls ::
  "(string \<Rightarrow> 'r \<Rightarrow> nat \<times> 'r) \<Rightarrow> uuid \<Rightarrow> int \<Rightarrow> instant list \<Rightarrow> 'r \<Rightarrow> bool list" where
  "rate_calls incr c limit [] r = []"
| "rate_calls incr c limit (t # ts) r =
     (case enforce_rate_limit incr c limit t r of ((allowed, _), r') \<Rightarrow> allowed # rate_calls incr c limit ts r')"

lemma rate_calls_window:
  assumes "\<And>k r n r'. incr k r = (n, r') \<Longrightarrow> n = Suc (view r k) \<and> view r' = (view r)(k := n)"
    and "\<forall>t\<in>set ts. rate_window t = w"
  shows "rate_calls incr c limit ts r =
     map (\<lambda>i. int (view r (''hermes:api-rate-limit:v1:'' @ uuid_str c @ '':'' @ int_str w) + Suc i) \<le> limit)
       [0..<length ts]"
  using assms(2)
proof (induction ts arbitrary: r)
  case (Cons t ts)
  define k where "k = ''hermes:api-rate-limit:v1:'' @ uuid_str c @ '':'' @ int_str w"
  have k: "rate_key c t = k" using Cons.prems by (simp add: rate_key_def k_def)
  obtain n r' where i: "incr k r = (n, r')" by (cases "incr k r")
  have n: "n = Suc (view r k)" and v: "view r' k = Suc (view r k)" using assms(1) [OF i] by simp_all
  have "rate_calls incr c limit (t # ts) r = (int n \<le> limit) # rate_calls incr c limit ts r'"
    by (simp add: enforce_rate_limit_def k i)
  also have "rate_calls incr c limit ts r' = map (\<lambda>i. int (view r' k + Suc i) \<le> limit) [0..<length ts]"
    using Cons by (simp add: k_def)
  also have "(int n \<le> limit) # \<dots> = map (\<lambda>i. int (view r k + Suc i) \<le> limit) [0..<length (t # ts)]"
    by (simp add: n v map_upt_Suc del: upt_Suc)
  finally show ?case by (simp add: k_def)
qed simp

lemma rate_limit_admits_first_calls_parts:
  assumes "\<And>k r n r'. incr k r = (n, r') \<Longrightarrow> n = Suc (view r k) \<and> view r' = (view r)(k := n)"
    and "\<forall>t\<in>set ts. rate_window t = w" and "\<And>k. view r k = 0"
  shows "rate_calls incr c limit ts r = map (\<lambda>i. int (Suc i) \<le> limit) [0..<length ts]"
    and "length (filter id (rate_calls incr c (int limit_nat) ts r)) = min limit_nat (length ts)"
proof -
  note all = rate_calls_window [where incr = incr and view = view, OF assms(1) assms(2)]
  show "rate_calls incr c limit ts r = map (\<lambda>i. int (Suc i) \<le> limit) [0..<length ts]"
    by (simp add: all assms(3))
  have "length (filter id (map (\<lambda>i. int (Suc i) \<le> int m) [0..<n])) = min m n" for m n :: nat
    by (induction n) (auto simp: min_def)
  then show "length (filter id (rate_calls incr c (int limit_nat) ts r)) = min limit_nat (length ts)"
    by (simp add: all assms(3))
qed


text \<open>A counter service as an association list.\<close>

definition alist_incr :: "string \<Rightarrow> (string \<times> nat) list \<Rightarrow> nat \<times> (string \<times> nat) list" where
  "alist_incr k r = (let n = Suc (or_else (map_of r k) 0) in (n, AList.update k n r))"



end
