(* ===== verification/Worker.thy ===== *)
theory Worker
  imports Task_Store
begin

text \<open>
  The worker (\<open>backend/app/worker.py\<close>): it takes a task id off the queue, claims the task,
  lets \<open>execute_agent_sync\<close> run the Agent and settles the task; a recovery loop brings back
  tasks whose worker died and tasks that are not on the queue. \<open>execute_agent_sync\<close> talks
  to the runtimes and is the parameter \<open>run\<close>, an arbitrary handler; what is proved holds for
  every behaviour of it unless a hypothesis says otherwise. The waits between rounds and
  retries are not modelled, nor the row locks: each phase is one step.
\<close>

section \<open>Errors\<close>

fun py_error_text :: "py_error \<Rightarrow> string" where
  "py_error_text (Value_error m) = m"
| "py_error_text Type_error = ''TypeError''"
| "py_error_text Attribute_error = ''AttributeError''"

fun version_error_text :: "version_error \<Rightarrow> string" where
  "version_error_text (Python_error e) = py_error_text e"
| "version_error_text (Profile_error e) = profile_message e"
| "version_error_text Constraint_error = ''IntegrityError''"

text \<open>Which errors of a version are a \<open>ValueError\<close>.\<close>

fun is_value_error :: "version_error \<Rightarrow> bool" where
  "is_value_error (Python_error (Value_error _)) = True"
| "is_value_error (Profile_error _) = True"
| "is_value_error _ = False"

text \<open>\<open>str(exc)\<close>, with the detail of an \<open>HTTPException\<close>. The texts of the exceptions that the
  model has as values only appear in the column \<open>error\<close>.\<close>

fun error_message :: "exc \<Rightarrow> string" where
  "error_message (Http_exc _ detail) = detail"
| "error_message (Python_exc m) = m"
| "error_message (Orchestrator_exc m) = m"
| "error_message (Version_exc e) = version_error_text e"
| "error_message (Profile_exc e) = profile_message e"
| "error_message _ = ''error''"

definition is_runtime_cancellation :: "exc \<Rightarrow> bool" where
  "is_runtime_cancellation e \<longleftrightarrow> e = Http_exc 409 ''Agent Runtime execution cancelled''"

section \<open>Ending a task\<close>

definition publish_result :: "('q, 'b) env \<Rightarrow> uuid \<Rightarrow> ('q, 'b, unit) act" where
  "publish_result E task_id w =
     (case get_task task_id (w_db w) of
        None \<Rightarrow> (Inl Missing_row, w)
      | Some task \<Rightarrow>
          (case tk_parent_task_id task of
             None \<Rightarrow> (Inr (), w)
           | Some p \<Rightarrow>
               (case get_task p (w_db w) of
                  None \<Rightarrow> (Inr (), w)
                | Some parent \<Rightarrow>
                    (case publish_message E (tk_agent_id task) (tk_agent_id parent) ''result''
                            [(''status'', JStr (task_status_str (tk_status task))),
                             (''node_key'', opt_str (tk_node_key task)),
                             (''output'', opt_str (case get_session (tk_session_id task) (w_db w) of
                                                     None \<Rightarrow> None | Some s \<Rightarrow> ss_output s)),
                             (''error'', opt_str (tk_error task))]
                            (Some (uuid_str (tk_id task))) w of
                       (_, w') \<Rightarrow> (Inr (), w')))))"

definition failed_execution :: "instant \<Rightarrow> string \<Rightarrow> execution_log \<Rightarrow> execution_log" where
  "failed_execution t message x =
     x\<lparr>ex_status := X_failed, ex_error := Some (py_take 2000 message), ex_finished_at := Some t,
       ex_duration_ms := Some (elapsed_ms (ex_started_at x) t)\<rparr>"

definition terminal_failure :: "('q, 'b) env \<Rightarrow> agent_task \<Rightarrow> string \<Rightarrow> ('q, 'b, unit) act" where
  "terminal_failure E task message w =
     (let t = now w;
          w1 = upd_db (\<lambda>db. upd_task_execution task (failed_execution t message)
                 (upd_session (tk_session_id task) (\<lambda>s. s\<lparr>ss_status := X_failed, ss_finished_at := Some t\<rparr>)
                   (upd_task (tk_id task) (\<lambda>k. k\<lparr>tk_status := Failed, tk_error := Some (py_take 2000 message),
                                               tk_finished_at := Some t\<rparr>) db))) w
      in publish_result E (tk_id task) w1)"

definition or_now :: "instant option \<Rightarrow> instant \<Rightarrow> instant option" where
  "or_now v t = (case v of None \<Rightarrow> Some t | Some x \<Rightarrow> Some x)"

definition worker_cancel_task :: "agent_task \<Rightarrow> ('q, 'b, unit) act" where
  "worker_cancel_task task w =
     (let t = now w; finished = or_now (tk_finished_at task) t in
      change (\<lambda>db.
        upd_session (tk_session_id task)
          (\<lambda>s. s\<lparr>ss_status := X_cancelled,
                 ss_finished_at := (case ss_finished_at s of None \<Rightarrow> finished | Some x \<Rightarrow> Some x)\<rparr>)
          (upd_task (tk_id task) (\<lambda>k. k\<lparr>tk_status := Cancelled, tk_error := None, tk_finished_at := finished\<rparr>) db)) w)"

section \<open>Claiming a task\<close>

definition claimed_execution :: "instant \<Rightarrow> string \<Rightarrow> execution_log \<Rightarrow> execution_log" where
  "claimed_execution t worker_id x =
     x\<lparr>ex_status := X_running, ex_started_at := t, ex_error := None,
       ex_details := JObj (dset ''worker_id'' (JStr worker_id)
         (dset ''phase'' (JStr ''worker_running'') (as_obj (py_or (ex_details x) (JObj [])))))\<rparr>"

definition claimed_task :: "instant \<Rightarrow> string \<Rightarrow> agent_task \<Rightarrow> agent_task" where
  "claimed_task t worker_id k =
     k\<lparr>tk_status := Running, tk_attempt := Suc (tk_attempt k), tk_worker_id := Some worker_id,
       tk_started_at := Some t, tk_error := None\<rparr>"

text \<open>The result names the task and the Agent when the run may start.\<close>

definition claim_task ::
  "('q, 'b) env \<Rightarrow> uuid \<Rightarrow> string \<Rightarrow> ('q, 'b, (agent_task \<times> agent) option) act"
where
  "claim_task E task_id worker_id w =
     (let t = now w in
      case get_task task_id (w_db w) of
        None \<Rightarrow> (Inr None, w)
      | Some task \<Rightarrow>
          if tk_status task \<notin> {Pending, Retrying} then (Inr None, w)
          else case get_session (tk_session_id task) (w_db w) of
            None \<Rightarrow> (Inl Missing_row, w)
          | Some s \<Rightarrow>
              if ss_status s = X_succeeded
              then (Inr None, upd_db (upd_task task_id (\<lambda>k. k\<lparr>tk_status := Succeeded, tk_error := None,
                      tk_finished_at := or_now (ss_finished_at s) t, tk_worker_id := Some worker_id\<rparr>)) w)
              else case get_agent (tk_agent_id task) (w_db w) of
                None \<Rightarrow> abind (terminal_failure E task ''Agent is unavailable'') (\<lambda>_. aret None) w
              | Some a \<Rightarrow>
                  if ag_status a \<noteq> A_active
                  then abind (terminal_failure E task ''Agent is unavailable'') (\<lambda>_. aret None) w
                  else (Inr (Some (task, a)),
                        upd_db (\<lambda>db. upd_task_execution task (claimed_execution t worker_id)
                          (upd_session (tk_session_id task) (\<lambda>s. s\<lparr>ss_status := X_running, ss_started_at := Some t\<rparr>)
                            (upd_task task_id (claimed_task t worker_id) db))) w))"

section \<open>Running it\<close>

record run_input =
  ri_task_id :: uuid
  ri_agent :: agent
  ri_runtime_agent :: "(runtime_agent \<times> (string option \<times> json \<times> json)) option"
  ri_input :: string
  ri_memory_session_id :: string
  ri_parameters :: "dict option"
  ri_temperature :: "rat option"
  ri_retry_attempt :: nat
  ri_agent_version_id :: "uuid option"

definition input_parameters :: "json \<Rightarrow> dict option" where
  "input_parameters j = (case dget (as_obj j) ''parameters'' of JObj d \<Rightarrow> Some d | _ \<Rightarrow> None)"

definition input_temperature :: "json \<Rightarrow> rat option" where
  "input_temperature j = as_number (dget (as_obj (dget (as_obj j) ''runtime_options'')) ''temperature'')"

definition session_id_ok :: "string \<Rightarrow> bool" where
  "session_id_ok s \<longleftrightarrow>
     (case s of
        [] \<Rightarrow> False
      | c # cs \<Rightarrow> is_alpha c \<or> is_digit c) \<and> length s \<le> 128 \<and>
     list_all (\<lambda>c. is_alpha c \<or> is_digit c \<or> c \<in> {CHR ''.'', CHR ''_'', CHR ''-''}) s"

text \<open>The constraints of \<open>AgentRunRequest\<close> in \<open>backend/app/schemas/agent.py\<close>.\<close>

definition run_request_ok :: "run_input \<Rightarrow> bool" where
  "run_request_ok i \<longleftrightarrow>
     1 \<le> py_len (ri_input i) \<and> py_len (ri_input i) \<le> 100000 \<and> session_id_ok (ri_memory_session_id i) \<and>
     (case ri_temperature i of None \<Rightarrow> True | Some t \<Rightarrow> 0 \<le> t \<and> t \<le> 2)"

definition run_input_of ::
  "agent_task \<Rightarrow> agent \<Rightarrow> agent_session \<Rightarrow> execution_log option \<Rightarrow> run_input"
where
  "run_input_of task a s x =
     (let j = (case x of None \<Rightarrow> JNull | Some e \<Rightarrow> ex_input_json e) in
      \<lparr>ri_task_id = tk_id task, ri_agent = a, ri_runtime_agent = None, ri_input = ss_input s,
       ri_memory_session_id = ss_memory_session_id s, ri_parameters = input_parameters j,
       ri_temperature = input_temperature j, ri_retry_attempt = tk_attempt task,
       ri_agent_version_id = (case x of None \<Rightarrow> None | Some e \<Rightarrow> ex_agent_version_id e)\<rparr>)"

text \<open>
  A failed run: cancelled by the runtime, retried while attempts are left, else final. The
  row is read again, so a status written in between is seen; only \<open>cancelled\<close> is respected.
\<close>

definition retry_execution :: "string \<Rightarrow> execution_log \<Rightarrow> execution_log" where
  "retry_execution message x =
     x\<lparr>ex_status := X_queued, ex_error := Some message, ex_finished_at := None\<rparr>"

definition handle_failure :: "('q, 'b) env \<Rightarrow> uuid \<Rightarrow> exc \<Rightarrow> ('q, 'b, unit) act" where
  "handle_failure E task_id e w =
     (case get_task task_id (w_db w) of
        None \<Rightarrow> (Inr (), w)
      | Some task \<Rightarrow>
          if tk_status task = Cancelled then (Inr (), w)
          else if is_runtime_cancellation e then worker_cancel_task task w
          else if tk_attempt task < tk_max_attempts task
          then enqueue_task E (tk_id task) (tk_priority task)
                 (upd_db (\<lambda>db. upd_task_execution task (retry_execution (error_message e))
                   (upd_session (tk_session_id task) (\<lambda>s. s\<lparr>ss_status := X_queued, ss_finished_at := None\<rparr>)
                     (upd_task task_id (\<lambda>k. k\<lparr>tk_status := Retrying, tk_error := Some (error_message e),
                                              tk_worker_id := None\<rparr>) db))) w)
          else terminal_failure E task (error_message e) w)"

text \<open>
  A successful run. \<open>seen\<close> is the status in the session's copy of the task: the refresh of
  the attribute \<open>session\<close> alone does not read the status again, so it is the one of the
  claim.
\<close>

definition finish_task :: "('q, 'b) env \<Rightarrow> uuid \<Rightarrow> string \<Rightarrow> task_status \<Rightarrow> ('q, 'b, unit) act" where
  "finish_task E task_id worker_id seen w =
     (if seen = Cancelled then (Inr (), w)
      else let t = now w in
        publish_result E task_id
          (upd_db (upd_task task_id (\<lambda>k. k\<lparr>tk_status := Succeeded, tk_error := None,
             tk_finished_at := Some t, tk_worker_id := Some worker_id\<rparr>)) w))"

definition settle :: "('q, 'b) env \<Rightarrow> uuid \<Rightarrow> string \<Rightarrow> exc + unit \<Rightarrow> ('q, 'b, unit) act" where
  "settle E task_id worker_id r w =
     (case r of
        Inr _ \<Rightarrow> finish_task E task_id worker_id Running w
      | Inl e \<Rightarrow> if e = Cancelled_exc then (Inl e, w) else handle_failure E task_id e w)"

text \<open>\<open>invalid\<close> is the text of the validation error of a refused request.\<close>

definition execute_claimed ::
  "('q, 'b) env \<Rightarrow> (run_input \<Rightarrow> ('q, 'b, unit) act) \<Rightarrow> (run_input \<Rightarrow> string) \<Rightarrow> string \<Rightarrow> agent_task \<Rightarrow>
     agent \<Rightarrow> ('q, 'b, unit) act"
where
  "execute_claimed E run invalid worker_id task a w =
     (case get_session (tk_session_id task) (w_db w) of
        None \<Rightarrow> (Inl Missing_row, w)
      | Some s \<Rightarrow>
          (let x = (case tk_execution_id task of None \<Rightarrow> None | Some e \<Rightarrow> get_execution e (w_db w));
               i = run_input_of task a s x;
               finish = (\<lambda>i. case run i w of (r, w') \<Rightarrow> settle E (tk_id task) worker_id r w') in
           if \<not> run_request_ok i then settle E (tk_id task) worker_id (Inl (Python_exc (invalid i))) w
           else case ri_agent_version_id i of
             None \<Rightarrow> finish i
           | Some vid \<Rightarrow>
               (case get_agent_version_by_id (ag_id a) vid (w_db w) of
                  None \<Rightarrow> terminal_failure E task ''Agent Version is unavailable'' w
                | Some v \<Rightarrow>
                    (case build_version_runtime_agent (env_rep E) (env_check_schema E) a v (w_db w) of
                       Inr ra \<Rightarrow> finish (i\<lparr>ri_runtime_agent := Some ra\<rparr>)
                     | Inl e \<Rightarrow>
                         if is_value_error e then terminal_failure E task (version_error_text e) w
                         else settle E (tk_id task) worker_id (Inl (Version_exc e)) w))))"

definition worker_execute ::
  "('q, 'b) env \<Rightarrow> (run_input \<Rightarrow> ('q, 'b, unit) act) \<Rightarrow> (run_input \<Rightarrow> string) \<Rightarrow> uuid \<Rightarrow> string \<Rightarrow>
     ('q, 'b, unit) act"
where
  "worker_execute E run invalid task_id worker_id =
     abind (claim_task E task_id worker_id) (\<lambda>c.
       case c of None \<Rightarrow> aret () | Some (task, a) \<Rightarrow> execute_claimed E run invalid worker_id task a)"

text \<open>One round of the consumer: errors of the queue and of the run are logged.\<close>

definition consume ::
  "('q, 'b) env \<Rightarrow> (run_input \<Rightarrow> ('q, 'b, unit) act) \<Rightarrow> (run_input \<Rightarrow> string) \<Rightarrow> nat \<Rightarrow> ('q, 'b, unit) act"
where
  "consume E run invalid index w =
     (case dequeue (env_zpopmin E) (w_queue w) of
        (Inl _, q) \<Rightarrow> (Inr (), w\<lparr>w_queue := q\<rparr>)
      | (Inr None, q) \<Rightarrow> (Inr (), w\<lparr>w_queue := q\<rparr>)
      | (Inr (Some task_id), q) \<Rightarrow>
          (case worker_execute E run invalid task_id (env_worker_id E @ ''-'' @ nat_str index) (w\<lparr>w_queue := q\<rparr>) of
             (Inl Cancelled_exc, w') \<Rightarrow> (Inl Cancelled_exc, w')
           | (_, w') \<Rightarrow> (Inr (), w')))"

section \<open>Recovery\<close>

definition lost_execution :: "instant \<Rightarrow> bool \<Rightarrow> execution_log \<Rightarrow> execution_log" where
  "lost_execution t retry x =
     (let y = x\<lparr>ex_status := (if retry then X_queued else X_failed), ex_error := Some ''worker lease expired''\<rparr> in
      if retry then y
      else y\<lparr>ex_finished_at := Some t, ex_duration_ms := Some (elapsed_ms (ex_started_at x) t)\<rparr>)"

definition lost_task :: "instant \<Rightarrow> agent_task \<Rightarrow> agent_task" where
  "lost_task t k =
     (let retry = tk_attempt k < tk_max_attempts k in
      k\<lparr>tk_status := (if retry then Retrying else Failed), tk_worker_id := None,
        tk_error := Some ''worker lease expired'',
        tk_finished_at := (if retry then tk_finished_at k else Some t)\<rparr>)"

definition recover_task :: "('q, 'b) env \<Rightarrow> agent_task \<Rightarrow> ('q, 'b, unit) act" where
  "recover_task E task w =
     (let t = now w; retry = tk_attempt task < tk_max_attempts task in
      case get_session (tk_session_id task) (w_db w) of
        None \<Rightarrow> (Inl Missing_row, w)
      | Some s \<Rightarrow>
          if ss_status s = X_succeeded
          then change (upd_task (tk_id task) (\<lambda>k. k\<lparr>tk_status := Succeeded, tk_error := None,
                 tk_worker_id := Some (env_worker_id E), tk_finished_at := or_now (ss_finished_at s) t\<rparr>)) w
          else change (\<lambda>db. upd_task_execution task (lost_execution t retry)
                 (upd_session (tk_session_id task)
                   (\<lambda>s. s\<lparr>ss_status := (if retry then X_queued else X_failed),
                          ss_finished_at := (if retry then ss_finished_at s else Some t)\<rparr>)
                   (upd_task (tk_id task) (lost_task t) db))) w)"

definition enqueue_pending :: "('q, 'b) env \<Rightarrow> ('q, 'b, unit) act" where
  "enqueue_pending E w =
     afor (\<lambda>t. enqueue_task E (tk_id t) (tk_priority t)) (pending_tasks (w_db w)) w"

text \<open>The recovered tasks are committed together.\<close>

definition recover_stale :: "('q, 'b) env \<Rightarrow> ('q, 'b, unit) act" where
  "recover_stale E w =
     (case afor (recover_task E) (stale_running_tasks (now w) (env_task_stale_seconds E) (w_db w)) w of
        (Inl e, _) \<Rightarrow> (Inl e, w) | (Inr _, w') \<Rightarrow> (Inr (), w'))"

definition recover :: "('q, 'b) env \<Rightarrow> ('q, 'b, unit) act" where
  "recover E = abind (recover_stale E) (\<lambda>_. enqueue_pending E)"

end
