(* ===== verification/Worker_Correct.thy ===== *)
theory Worker_Correct
  imports Worker Orchestrator_Correct Agent_Versions_Correct
begin

text \<open>
  What the worker guarantees: a task is run at most as often as allowed, recovery loses no
  task, a failed task is failed in all its rows; and two ways in which a late result
  overwrites a task that was settled meanwhile.
\<close>

section \<open>How the phases change the tasks\<close>

lemma publish_result_db [simp]:
  "publish_result E i w = (r, w') \<Longrightarrow> w_db w' = w_db w"
  by (auto simp: publish_result_def split: option.splits prod.splits dest: w_db_frames(3))

lemma upd_task_execution_tasks [simp]: "get_task k (upd_task_execution t f db) = get_task k db"
  by simp

lemma terminal_failure_task:
  assumes "terminal_failure E task m w = (r, w')"
  shows "db_tasks (w_db w') = row_upd tk_id (tk_id task)
    (\<lambda>k. k\<lparr>tk_status := Failed, tk_error := Some (py_take 2000 m), tk_finished_at := Some (now w)\<rparr>) (db_tasks (w_db w))"
  using assms by (auto simp: terminal_failure_def Let_def dest: publish_result_db)

lemma worker_cancel_task_task:
  assumes "worker_cancel_task task w = (r, w')"
  shows "db_tasks (w_db w') = row_upd tk_id (tk_id task)
    (\<lambda>k. k\<lparr>tk_status := Cancelled, tk_error := None, tk_finished_at := or_now (tk_finished_at task) (now w)\<rparr>)
    (db_tasks (w_db w))"
  using assms by (auto simp: worker_cancel_task_def Let_def)

lemma finish_task_task:
  assumes "finish_task E i worker Running w = (r, w')"
  shows "db_tasks (w_db w') = row_upd tk_id i
    (\<lambda>k. k\<lparr>tk_status := Succeeded, tk_error := None, tk_finished_at := Some (now w), tk_worker_id := Some worker\<rparr>)
    (db_tasks (w_db w))"
  using assms by (auto simp: finish_task_def Let_def dest: publish_result_db)

section \<open>Attempts\<close>

text \<open>A queued task has an attempt left, no task has more attempts than allowed.\<close>

definition attempt_ok :: "agent_task \<Rightarrow> bool" where
  "attempt_ok k \<longleftrightarrow> tk_attempt k \<le> tk_max_attempts k \<and>
     (tk_status k \<in> {Pending, Retrying} \<longrightarrow> tk_attempt k < tk_max_attempts k)"

definition attempts_ok :: "store \<Rightarrow> bool" where
  "attempts_ok db \<longleftrightarrow> distinct (map tk_id (db_tasks db)) \<and> list_all attempt_ok (db_tasks db)"

text \<open>
  How a phase changes the attempts: the invariant is kept, the limits stay, the attempts do
  not go down, and the task that the phase claims has one more.
\<close>

definition attempt_rel :: "uuid option \<Rightarrow> agent_task \<Rightarrow> agent_task \<Rightarrow> bool" where
  "attempt_rel c t t' \<longleftrightarrow> tk_id t' = tk_id t \<and> tk_max_attempts t' = tk_max_attempts t \<and>
     tk_attempt t + (if c = Some (tk_id t) then 1 else 0) \<le> tk_attempt t'"

definition attempt_step :: "uuid option \<Rightarrow> store \<Rightarrow> store \<Rightarrow> bool" where
  "attempt_step c db db' \<longleftrightarrow> attempts_ok db' \<and> tasks_rel (attempt_rel c) db db'"

lemma attempt_step_refl: "attempts_ok db \<Longrightarrow> db_tasks db' = db_tasks db \<Longrightarrow> attempt_step None db db'"
  by (simp add: attempt_step_def attempts_ok_def tasks_rel_same attempt_rel_def)

lemma attempt_step_trans:
  assumes "attempt_step c x y" and "attempt_step d y z" and "c = None \<or> d = None"
  shows "attempt_step (case c of None \<Rightarrow> d | Some i \<Rightarrow> Some i) x z"
proof -
  have "tasks_rel (attempt_rel (case c of None \<Rightarrow> d | Some i \<Rightarrow> Some i)) x z"
    using assms unfolding attempt_step_def
    by (intro tasks_rel_trans [of "attempt_rel c" x y "attempt_rel d" z])
       (auto simp: attempt_rel_def split: option.splits if_splits)
  then show ?thesis using assms(2) by (simp add: attempt_step_def)
qed

lemma attempt_step_ok: "attempt_step c db db' \<Longrightarrow> attempts_ok db'"
  by (simp add: attempt_step_def)

lemma get_task_attempt: "attempts_ok db \<Longrightarrow> get_task i db = Some k \<Longrightarrow> attempt_ok k"
  by (auto simp: attempts_ok_def list_all_iff dest: row_get_Some)

lemma attempt_step_upd:
  assumes "attempts_ok db" and "db_tasks db' = row_upd tk_id i f (db_tasks db)"
    and "\<And>k. tk_id (f k) = tk_id k \<and> tk_max_attempts (f k) = tk_max_attempts k \<and> tk_attempt k \<le> tk_attempt (f k)"
    and "\<And>k. get_task i db = Some k \<Longrightarrow> attempt_ok k \<Longrightarrow> attempt_ok (f k)"
    and "\<And>k j. c = Some j \<Longrightarrow> j = i \<and> tk_attempt k < tk_attempt (f k)"
  shows "attempt_step c db db'"
proof -
  have "attempt_ok (f k)" if k: "k \<in> set (db_tasks db)" "tk_id k = i" for k
    using row_get_in [of tk_id "db_tasks db" k] k assms(1) by (auto simp: attempts_ok_def list_all_iff intro: assms(4))
  then have "attempts_ok db'"
    using assms(1,2) task_rows.keys_upd [of f i "db_tasks db"] assms(3)
    by (auto simp: attempts_ok_def list_all_iff set_row_upd)
  moreover have "\<exists>t'. get_task j db' = Some t' \<and> attempt_rel c t t'" if t: "get_task j db = Some t" for j t
  proof -
    have "tk_id t = j" using row_get_Some [OF t] by simp
    then show ?thesis
      using t assms(2,3) assms(5) [of j t] by (cases "j = i") (auto simp: task_get_upd Suc_le_eq attempt_rel_def)
  qed
  ultimately show ?thesis by (simp add: attempt_step_def tasks_rel_def)
qed

lemma ended_attempt_step:
  assumes "attempts_ok db" and "db_tasks db' = row_upd tk_id i f (db_tasks db)"
    and "\<And>k. tk_id (f k) = tk_id k \<and> tk_max_attempts (f k) = tk_max_attempts k \<and> tk_attempt (f k) = tk_attempt k \<and>
      tk_status (f k) \<notin> {Pending, Retrying}"
  shows "attempt_step None db db'"
proof (rule attempt_step_upd [OF assms(1,2)])
  fix k assume "attempt_ok k"
  then show "attempt_ok (f k)" using assms(3) [of k] by (simp add: attempt_ok_def)
qed (use assms(3) in simp_all)

lemma terminal_failure_attempts:
  "terminal_failure E task m w = (r, w') \<Longrightarrow> attempts_ok (w_db w) \<Longrightarrow> attempt_step None (w_db w) (w_db w')"
  by (rule ended_attempt_step [OF _ terminal_failure_task]) simp_all

lemma worker_cancel_attempts:
  "worker_cancel_task task w = (r, w') \<Longrightarrow> attempts_ok (w_db w) \<Longrightarrow> attempt_step None (w_db w) (w_db w')"
  by (rule ended_attempt_step [OF _ worker_cancel_task_task]) simp_all

lemma finish_task_attempts:
  "finish_task E i worker Running w = (r, w') \<Longrightarrow> attempts_ok (w_db w) \<Longrightarrow> attempt_step None (w_db w) (w_db w')"
  by (rule ended_attempt_step [OF _ finish_task_task]) simp_all

lemma handle_failure_attempts:
  assumes "handle_failure E i e w = (r, w')" and ok: "attempts_ok (w_db w)"
  shows "attempt_step None (w_db w) (w_db w')"
proof (cases "get_task i (w_db w)")
  case None
  then show ?thesis using assms by (simp add: handle_failure_def attempt_step_refl)
next
  case t: (Some task)
  consider "tk_status task = Cancelled" | "worker_cancel_task task w = (r, w')"
    | "terminal_failure E task (error_message e) w = (r, w')"
    | w1 where "tk_attempt task < tk_max_attempts task" "enqueue_task E (tk_id task) (tk_priority task) w1 = (r, w')"
        "db_tasks (w_db w1) = row_upd tk_id i (\<lambda>k. k\<lparr>tk_status := Retrying, tk_error := Some (error_message e),
                                              tk_worker_id := None\<rparr>) (db_tasks (w_db w))"
    using assms(1) t by (auto simp: handle_failure_def split: if_splits)
  then show ?thesis
  proof cases
    case 1
    then show ?thesis using assms t by (simp add: handle_failure_def attempt_step_refl)
  next
    case 4
    have "db_tasks (w_db w') = db_tasks (w_db w1)" using w_db_frames(1) [OF 4(2)] by simp
    then show ?thesis
      by (intro attempt_step_upd [OF ok, where i = i, OF trans [OF _ 4(3)]]) (use 4(1) t in \<open>auto simp: attempt_ok_def\<close>)
  qed (use ok worker_cancel_attempts terminal_failure_attempts in blast)+
qed

text \<open>The claim of a task either settles it or takes one attempt.\<close>

lemma claim_task_cases:
  assumes "claim_task E i worker w = (r, w')"
  obtains (ignored) "w_db w' = w_db w" "\<forall>x. r \<noteq> Inr (Some x)"
  | (settled) f where "\<forall>x. r \<noteq> Inr (Some x)" "db_tasks (w_db w') = row_upd tk_id i f (db_tasks (w_db w))"
      "\<forall>k. tk_status (f k) \<in> {Succeeded, Failed} \<and> tk_attempt (f k) = tk_attempt k \<and>
           tk_max_attempts (f k) = tk_max_attempts k \<and> tk_id (f k) = tk_id k"
  | (claimed) task a where "r = Inr (Some (task, a))" "get_task i (w_db w) = Some task"
      "tk_status task \<in> {Pending, Retrying}"
      "db_tasks (w_db w') = row_upd tk_id i (claimed_task (now w) worker) (db_tasks (w_db w))"
      "w_queue w' = w_queue w"
proof (cases "get_task i (w_db w)")
  case None
  then show thesis using assms by (intro ignored) (auto simp: claim_task_def)
next
  case task: (Some task)
  have id: "tk_id task = i" using row_get_Some [OF task] by simp
  show thesis
  proof (cases "tk_status task \<in> {Pending, Retrying}")
    case False
    then show thesis using assms task by (intro ignored) (auto simp: claim_task_def)
  next
    case queued: True
    show thesis
    proof (cases "get_session (tk_session_id task) (w_db w)")
      case None
      then show thesis using assms task queued by (intro ignored) (auto simp: claim_task_def)
    next
      case s: (Some s)
      have failed: thesis if t: "abind (terminal_failure E task ''Agent is unavailable'') (\<lambda>_. aret None) w = (r, w')"
      proof -
        obtain r1 w1 where f: "terminal_failure E task ''Agent is unavailable'' w = (r1, w1)"
          by (cases "terminal_failure E task ''Agent is unavailable'' w")
        then have "w1 = w'" "\<forall>x. r \<noteq> Inr (Some x)" using t by (auto simp: abind_def aret_def split: sum.splits)
        then show thesis using terminal_failure_task [OF f] by (intro settled) (auto simp: id)
      qed
      show thesis
      proof (cases "ss_status s = X_succeeded")
        case True
        then have "db_tasks (w_db w') = row_upd tk_id i (\<lambda>k. k\<lparr>tk_status := Succeeded, tk_error := None,
            tk_finished_at := or_now (ss_finished_at s) (now w), tk_worker_id := Some worker\<rparr>) (db_tasks (w_db w))"
          "\<forall>x. r \<noteq> Inr (Some x)"
          using assms task queued s by (auto simp: claim_task_def Let_def)
        then show thesis by (intro settled) auto
      next
        case going: False
        show thesis
        proof (cases "get_agent (tk_agent_id task) (w_db w)")
          case None
          then show thesis using assms task queued s going failed by (auto simp: claim_task_def Let_def)
        next
          case a: (Some a)
          show thesis
          proof (cases "ag_status a = A_active")
            case False
            then show thesis using assms task queued s going a failed by (auto simp: claim_task_def Let_def)
          next
            case True
            then have "r = Inr (Some (task, a))"
              "w' = upd_db (\<lambda>db. upd_task_execution task (claimed_execution (now w) worker)
                 (upd_session (tk_session_id task) (\<lambda>s. s\<lparr>ss_status := X_running, ss_started_at := Some (now w)\<rparr>)
                   (upd_task i (claimed_task (now w) worker) db))) w"
              using assms task queued s going a by (auto simp: claim_task_def Let_def)
            then show thesis using task queued by (intro claimed) (simp_all add: w_queue_frames)
          qed
        qed
      qed
    qed
  qed
qed

lemma claim_task_attempts:
  assumes "claim_task E i worker w = (r, w')" and ok: "attempts_ok (w_db w)"
  shows "attempt_step (case r of Inr (Some _) \<Rightarrow> Some i | _ \<Rightarrow> None) (w_db w) (w_db w')"
  using assms(1)
proof (cases rule: claim_task_cases)
  case ignored
  then show ?thesis using ok by (auto simp: attempt_step_refl split: sum.splits option.splits)
next
  case (settled f)
  have "tk_status (f k) \<notin> {Pending, Retrying}" for k using settled(3) [rule_format, of k] by auto
  then have "attempt_step None (w_db w) (w_db w')"
    using settled(3) by (intro ended_attempt_step [OF ok settled(2)]) simp
  then show ?thesis using settled(1) by (auto split: sum.splits option.splits)
next
  case (claimed task a)
  then show ?thesis
    by (intro attempt_step_upd [OF ok claimed(4)]) (auto simp: attempt_ok_def claimed_task_def)
qed

text \<open>
  What is assumed of \<open>execute_agent_sync\<close> and of whatever else runs meanwhile: tasks are not
  deleted, and attempts are left to the worker.
\<close>

definition run_keeps_attempts :: "(run_input \<Rightarrow> ('q, 'b, unit) act) \<Rightarrow> bool" where
  "run_keeps_attempts run \<longleftrightarrow>
     (\<forall>i w. attempts_ok (w_db w) \<longrightarrow> attempt_step None (w_db w) (w_db (snd (run i w))))"

lemma settle_attempts:
  assumes "settle E i worker r w = (r', w')" and "attempts_ok (w_db w)"
  shows "attempt_step None (w_db w) (w_db w')"
  using assms finish_task_attempts [of E i worker w r' w'] handle_failure_attempts [of E i _ w r' w']
  by (auto simp: settle_def attempt_step_refl split: sum.splits if_splits)

lemma execute_claimed_attempts:
  assumes "execute_claimed E run invalid worker task a w = (r, w')" and "run_keeps_attempts run"
    and ok: "attempts_ok (w_db w)"
  shows "attempt_step None (w_db w) (w_db w')"
proof -
  consider "w' = w" | m where "terminal_failure E task m w = (r, w')"
    | r1 where "settle E (tk_id task) worker r1 w = (r, w')"
    | i r1 w1 where "run i w = (r1, w1)" "settle E (tk_id task) worker r1 w1 = (r, w')"
    using assms(1)
    by (auto simp: execute_claimed_def Let_def split: option.splits if_splits sum.splits prod.splits)
  then show ?thesis
  proof cases
    case 4
    then have "attempt_step None (w_db w) (w_db w1)"
      using assms(2) ok by (auto simp: run_keeps_attempts_def dest!: spec [of _ i] spec [of _ w])
    then show ?thesis using attempt_step_trans [of None _ _ None] settle_attempts [OF 4(2)] attempt_step_ok by fastforce
  qed (use ok attempt_step_refl terminal_failure_attempts settle_attempts in blast)+
qed

text \<open>The task that a round of the consumer claims, if any.\<close>

definition claimed_in :: "('q, 'b) env \<Rightarrow> uuid \<Rightarrow> string \<Rightarrow> ('q, 'b) world \<Rightarrow> uuid option" where
  "claimed_in E i worker w = (case fst (claim_task E i worker w) of Inr (Some _) \<Rightarrow> Some i | _ \<Rightarrow> None)"

lemma worker_execute_attempts:
  assumes "worker_execute E run invalid i worker w = (r, w')" and "run_keeps_attempts run"
    and ok: "attempts_ok (w_db w)"
  shows "attempt_step (claimed_in E i worker w) (w_db w) (w_db w')"
proof -
  obtain c w1 where c: "claim_task E i worker w = (c, w1)" by (cases "claim_task E i worker w")
  have s: "attempt_step (claimed_in E i worker w) (w_db w) (w_db w1)"
    using claim_task_attempts [OF c ok] c by (simp add: claimed_in_def)
  consider "w' = w1" | task a where "execute_claimed E run invalid worker task a w1 = (r, w')"
    using assms(1) c by (cases c) (auto simp: worker_execute_def abind_def aret_def split: option.splits)
  then show ?thesis
  proof cases
    case 2
    from attempt_step_trans [OF s execute_claimed_attempts [OF this assms(2) attempt_step_ok [OF s]]]
    show ?thesis by (simp split: option.splits)
  qed (use s in simp)
qed

definition consume_claim :: "('q, 'b) env \<Rightarrow> nat \<Rightarrow> ('q, 'b) world \<Rightarrow> uuid option" where
  "consume_claim E index w =
     (case dequeue (env_zpopmin E) (w_queue w) of
        (Inr (Some i), q) \<Rightarrow> claimed_in E i (env_worker_id E @ ''-'' @ nat_str index) (w\<lparr>w_queue := q\<rparr>)
      | _ \<Rightarrow> None)"

lemma consume_attempts:
  assumes "consume E run invalid index w = (r, w')" and "run_keeps_attempts run"
    and ok: "attempts_ok (w_db w)"
  shows "attempt_step (consume_claim E index w) (w_db w) (w_db w')"
proof -
  obtain d q where d: "dequeue (env_zpopmin E) (w_queue w) = (d, q)"
    by (cases "dequeue (env_zpopmin E) (w_queue w)")
  show ?thesis
  proof (cases "\<exists>i. d = Inr (Some i)")
    case True
    then obtain i where i: "d = Inr (Some i)" by blast
    obtain r1 w1 where x: "worker_execute E run invalid i (env_worker_id E @ ''-'' @ nat_str index) (w\<lparr>w_queue := q\<rparr>) = (r1, w1)"
      by (cases "worker_execute E run invalid i (env_worker_id E @ ''-'' @ nat_str index) (w\<lparr>w_queue := q\<rparr>)")
    then have "w' = w1" using assms(1) d i by (auto simp: consume_def split: sum.splits exc.splits)
    then show ?thesis
      using worker_execute_attempts [OF x assms(2)] ok d i by (simp add: consume_claim_def)
  next
    case False
    then have "w_db w' = w_db w" "consume_claim E index w = None"
      using assms(1) d by (auto simp: consume_def consume_claim_def split: sum.splits option.splits)
    then show ?thesis using ok by (simp add: attempt_step_refl)
  qed
qed

lemma recover_task_task:
  assumes "recover_task E k w = (r, w')"
  shows "w_db w' = w_db w \<or> (\<exists>f. db_tasks (w_db w') = row_upd tk_id (tk_id k) f (db_tasks (w_db w)) \<and>
    (f = lost_task (now w) \<or> (\<exists>t. f = (\<lambda>k. k\<lparr>tk_status := Succeeded, tk_error := None,
       tk_worker_id := Some (env_worker_id E), tk_finished_at := t\<rparr>))))"
  using assms by (auto simp: recover_task_def Let_def split: option.splits if_splits)

lemma recover_task_attempts:
  assumes "recover_task E k w = (r, w')" and ok: "attempts_ok (w_db w)"
  shows "attempt_step None (w_db w) (w_db w')"
  using recover_task_task [OF assms(1)]
proof (elim disjE exE conjE)
  fix f assume f: "db_tasks (w_db w') = row_upd tk_id (tk_id k) f (db_tasks (w_db w))" "f = lost_task (now w)"
  show ?thesis by (rule attempt_step_upd [OF ok f(1)]) (auto simp: f(2) lost_task_def Let_def attempt_ok_def)
next
  fix f t assume f: "db_tasks (w_db w') = row_upd tk_id (tk_id k) f (db_tasks (w_db w))"
    "f = (\<lambda>k. k\<lparr>tk_status := Succeeded, tk_error := None, tk_worker_id := Some (env_worker_id E), tk_finished_at := t\<rparr>)"
  show ?thesis by (rule ended_attempt_step [OF ok f(1)]) (auto simp: f(2))
qed (use ok attempt_step_refl in auto)

lemma attempt_step_None_trans:
  "attempt_step None x y \<Longrightarrow> attempt_step None y z \<Longrightarrow> attempt_step None x z"
  using attempt_step_trans [of None x y None z] by simp

lemma enqueue_pending_db: "enqueue_pending E w = (r, w') \<Longrightarrow> w_db w' = w_db w"
  unfolding enqueue_pending_def
  by (rule afor_inv [where P = "\<lambda>w'. w_db w' = w_db w"]) (auto dest: w_db_frames(1))

lemma recover_stale_attempts:
  assumes "recover_stale E w = (r, w')" and ok: "attempts_ok (w_db w)"
  shows "attempt_step None (w_db w) (w_db w')"
proof -
  let ?ks = "stale_running_tasks (now w) (env_task_stale_seconds E) (w_db w)"
  obtain r1 w1 where a: "afor (recover_task E) ?ks w = (r1, w1)" by (cases "afor (recover_task E) ?ks w")
  have "attempt_step None (w_db w) (w_db w1)"
    by (rule afor_inv [OF a, where P = "\<lambda>w'. attempt_step None (w_db w) (w_db w')"])
      (auto intro: attempt_step_refl [OF ok] attempt_step_None_trans dest: recover_task_attempts attempt_step_ok)
  then show ?thesis
    using assms(1) a ok by (cases r1) (auto simp: recover_stale_def attempt_step_refl)
qed

lemma recover_attempts:
  assumes "recover E w = (r, w')" and ok: "attempts_ok (w_db w)"
  shows "attempt_step None (w_db w) (w_db w')"
proof -
  obtain r1 w1 where a: "recover_stale E w = (r1, w1)" by (cases "recover_stale E w")
  then have "w_db w' = w_db w1"
    using assms(1) by (cases r1) (auto simp: recover_def dest: enqueue_pending_db)
  then show ?thesis using recover_stale_attempts [OF a ok] by simp
qed

text \<open>Rounds of the consumers and of the recovery loop in any order, with the tasks they claim.\<close>

datatype worker_round = Consume_round nat | Recover_round

fun worker_rounds ::
  "('q, 'b) env \<Rightarrow> (run_input \<Rightarrow> ('q, 'b, unit) act) \<Rightarrow> (run_input \<Rightarrow> string) \<Rightarrow> worker_round list \<Rightarrow>
     ('q, 'b) world \<Rightarrow> uuid list \<times> ('q, 'b) world"
where
  "worker_rounds E run invalid [] w = ([], w)"
| "worker_rounds E run invalid (Recover_round # rs) w = worker_rounds E run invalid rs (snd (recover E w))"
| "worker_rounds E run invalid (Consume_round i # rs) w =
     (case worker_rounds E run invalid rs (snd (consume E run invalid i w)) of
        (ids, w') \<Rightarrow> ((case consume_claim E i w of None \<Rightarrow> ids | Some t \<Rightarrow> t # ids), w'))"

lemma runs_bounded:
  assumes "run_keeps_attempts run" and "attempts_ok (w_db w)" and "get_task i (w_db w) = Some t"
    and "worker_rounds E run invalid rs w = (ids, w')"
  shows "tk_attempt t + count_list ids i \<le> tk_max_attempts t"
  using assms
proof (induction E run invalid rs w arbitrary: t ids w' rule: worker_rounds.induct)
  case (1 E run invalid w)
  then show ?case using get_task_attempt [OF 1(2,3)] by (simp add: attempt_ok_def)
next
  case (2 E run invalid rs w)
  have s: "attempt_step None (w_db w) (w_db (snd (recover E w)))"
    by (rule recover_attempts [OF prod.collapse [symmetric] 2(3)])
  then obtain t1 where "get_task i (w_db (snd (recover E w))) = Some t1" "attempt_rel None t t1"
    using 2(4) by (auto simp: attempt_step_def tasks_rel_def)
  with 2 attempt_step_ok [OF s] show ?case by (force simp: attempt_rel_def)
next
  case (3 E run invalid j rs w)
  let ?w = "snd (consume E run invalid j w)"
  obtain ids1 where r: "worker_rounds E run invalid rs ?w = (ids1, w')"
    "ids = (case consume_claim E j w of None \<Rightarrow> ids1 | Some t \<Rightarrow> t # ids1)"
    using 3(5) by (auto split: prod.splits)
  have s: "attempt_step (consume_claim E j w) (w_db w) (w_db ?w)"
    by (rule consume_attempts [OF prod.collapse [symmetric] 3(2,3)])
  then obtain t1 where t1: "get_task i (w_db ?w) = Some t1" "attempt_rel (consume_claim E j w) t t1"
    using 3(4) by (auto simp: attempt_step_def tasks_rel_def)
  have "tk_attempt t1 + count_list ids1 i \<le> tk_max_attempts t1"
    by (rule 3(1) [OF 3(2) attempt_step_ok [OF s] t1(1) r(1)])
  then show ?case using t1(2) r(2) row_get_Some [OF 3(4)] by (auto simp: attempt_rel_def split: option.splits if_splits)
qed

text \<open>C14. A task is never run more often than its \<open>max_attempts\<close> allow: over any sequence of rounds
  of the consumers and of the recovery loop, with whatever results of the Agent runs, the
  number of times a task is claimed and the attempts it already had stay within the limit.\<close>

theorem task_runs_bounded:
  assumes "run_keeps_attempts run" and "attempts_ok (w_db w)" and "get_task i (w_db w) = Some t"
    and "worker_rounds E run invalid rs w = (ids, w')"
  shows "tk_attempt t + count_list ids i \<le> tk_max_attempts t"
  using assms by (rule runs_bounded)

section \<open>Recovery\<close>

lemma recover_task_stops:
  assumes "recover_task E k w = (Inr (), w')" and "x \<in> set (db_tasks (w_db w'))" and "tk_status x = Running"
  shows "x \<in> set (db_tasks (w_db w)) \<and> tk_id x \<noteq> tk_id k"
proof -
  have "\<exists>f. db_tasks (w_db w') = row_upd tk_id (tk_id k) f (db_tasks (w_db w)) \<and>
      (\<forall>k. tk_status (f k) \<noteq> Running \<and> tk_id (f k) = tk_id k)"
    using assms(1)
    by (auto simp: recover_task_def Let_def lost_task_def split: option.splits if_splits)
  then show ?thesis using assms(2,3) by (auto simp: set_row_upd)
qed

lemma recover_tasks_stop:
  assumes "afor (recover_task E) ks w = (Inr (), w')" and "x \<in> set (db_tasks (w_db w'))"
    and "tk_status x = Running"
  shows "x \<in> set (db_tasks (w_db w)) \<and> tk_id x \<notin> tk_id ` set ks"
  using assms(1)
proof (induction ks arbitrary: w)
  case (Cons k ks)
  then obtain w1 where r: "recover_task E k w = (Inr (), w1)" "afor (recover_task E) ks w1 = (Inr (), w')"
    by (auto split: prod.splits sum.splits)
  from Cons.IH [OF r(2)] recover_task_stops [OF r(1) _ assms(3)] show ?case by auto
qed (use assms(2) in simp)

lemma enqueue_all:
  assumes "work_queue (enqueue (env_zadd E)) deq rm members"
    and "afor (\<lambda>t. enqueue_task E (tk_id t) (tk_priority t)) ts w = (Inr (), w')"
  shows "members (w_queue w) \<union> (\<lambda>t. uuid_str (tk_id t)) ` set ts \<subseteq> members (w_queue w')"
  using assms(2)
proof (induction ts arbitrary: w)
  case (Cons t ts)
  then obtain w1 where r: "enqueue_task E (tk_id t) (tk_priority t) w = (Inr (), w1)"
    "afor (\<lambda>t. enqueue_task E (tk_id t) (tk_priority t)) ts w1 = (Inr (), w')"
    by (auto split: prod.splits sum.splits)
  from Cons.IH [OF r(2)] enqueue_task_queue(1,2) [OF assms(1) r(1)] show ?case by auto
qed simp

definition waiting_tasks :: "store \<Rightarrow> agent_task list" where
  "waiting_tasks db = filter (\<lambda>t. tk_status t \<in> {Pending, Retrying}) (db_tasks db)"

lemma pending_all: "length (waiting_tasks db) \<le> 500 \<Longrightarrow> set (pending_tasks db) = set (waiting_tasks db)"
  by (simp add: pending_tasks_def waiting_tasks_def)

lemma recovered:
  assumes "work_queue (enqueue (env_zadd E)) deq rm members" and "recover E w = (Inr (), w')"
    and "length (waiting_tasks (w_db w')) \<le> 500"
  shows "\<forall>t\<in>set (waiting_tasks (w_db w')). uuid_str (tk_id t) \<in> members (w_queue w')"
    and "stale_running_tasks (now w) (env_task_stale_seconds E) (w_db w') = []"
proof -
  obtain w1 where r: "recover_stale E w = (Inr (), w1)" "enqueue_pending E w1 = (Inr (), w')"
    using assms(2) by (auto simp: recover_def abind_Inr)
  have db: "w_db w' = w_db w1" by (rule enqueue_pending_db [OF r(2)])
  from r(2) have "afor (\<lambda>t. enqueue_task E (tk_id t) (tk_priority t)) (pending_tasks (w_db w1)) w1 = (Inr (), w')"
    by (simp add: enqueue_pending_def)
  from enqueue_all [OF assms(1) this]
  show "\<forall>t\<in>set (waiting_tasks (w_db w')). uuid_str (tk_id t) \<in> members (w_queue w')"
    using pending_all [OF assms(3)] by (auto simp: db)
  let ?ks = "stale_running_tasks (now w) (env_task_stale_seconds E) (w_db w)"
  from r(1) have a: "afor (recover_task E) ?ks w = (Inr (), w1)"
    by (auto simp: recover_stale_def split: prod.splits sum.splits)
  have "x \<notin> set (stale_running_tasks (now w) (env_task_stale_seconds E) (w_db w1))" for x
    using recover_tasks_stop [OF a, of x] by (auto simp: stale_running_tasks_def)
  then show "stale_running_tasks (now w) (env_task_stale_seconds E) (w_db w') = []"
    using db by (metis list.set_sel(1))
qed

text \<open>Recovery loses no task: after a round of the recovery loop that did not fail, and with at
  most 500 tasks waiting, every task that waits to be run is on the queue, and no task is left
  running whose lease had expired.\<close>

theorem recover_requeues:
  assumes "work_queue (enqueue (env_zadd E)) deq rm members" and "recover E w = (Inr (), w')"
    and "length (waiting_tasks (w_db w')) \<le> 500"
  shows "(\<forall>t\<in>set (db_tasks (w_db w')). tk_status t \<in> {Pending, Retrying} \<longrightarrow>
       uuid_str (tk_id t) \<in> members (w_queue w')) \<and>
     stale_running_tasks (now w) (env_task_stale_seconds E) (w_db w') = []"
  using recovered [OF assms] by (simp add: waiting_tasks_def)

section \<open>Late results\<close>

text \<open>
  A failure that is reported late, when the task was settled by another worker after its
  lease expired, opens the task again: of the settled states only \<open>cancelled\<close> is respected.
\<close>

lemma late_failure_reopens_task:
  assumes "get_task i (w_db w) = Some t" and "tk_status t = Succeeded" and "tk_attempt t < tk_max_attempts t"
    and "\<not> is_runtime_cancellation e" and "handle_failure E i e w = (r, w')"
  shows "map_option tk_status (get_task i (w_db w')) = Some Retrying"
proof -
  obtain w1 where w1: "enqueue_task E (tk_id t) (tk_priority t) w1 = (r, w')"
    "db_tasks (w_db w1) = row_upd tk_id i (\<lambda>k. k\<lparr>tk_status := Retrying, tk_error := Some (error_message e),
                                              tk_worker_id := None\<rparr>) (db_tasks (w_db w))"
    using assms by (auto simp: handle_failure_def)
  show ?thesis using w_db_frames(1) [OF w1(1)] w1(2) assms(1) by (simp add: task_get_upd)
qed

text \<open>
  A success overwrites a cancellation that was written while the Agent ran, since the status
  checked is the one of the claim.
\<close>

lemma success_overwrites_cancellation:
  assumes "get_task i (w_db w) = Some t" and "tk_status t = Cancelled" and "settle E i worker (Inr ()) w = (r, w')"
  shows "map_option tk_status (get_task i (w_db w')) = Some Succeeded"
  using assms finish_task_task [of E i worker w r w'] by (simp add: settle_def task_get_upd)

text \<open>A last failure is written to the task, its session and its execution alike.\<close>

lemma terminal_failure_rows:
  assumes "get_task (tk_id task) (w_db w) = Some t" and "get_session (tk_session_id task) (w_db w) = Some s"
    and "tk_execution_id task = Some e" and "get_execution e (w_db w) = Some x"
    and "terminal_failure E task m w = (r, w')"
  shows "map_option tk_status (get_task (tk_id task) (w_db w')) = Some Failed"
    and "map_option ss_status (get_session (tk_session_id task) (w_db w')) = Some X_failed"
    and "map_option (\<lambda>x. (ex_status x, ex_error x)) (get_execution e (w_db w')) = Some (X_failed, Some (py_take 2000 m))"
proof -
  have "w_db w' = upd_task_execution task (failed_execution (now w) m)
      (upd_session (tk_session_id task) (\<lambda>s. s\<lparr>ss_status := X_failed, ss_finished_at := Some (now w)\<rparr>)
        (upd_task (tk_id task) (\<lambda>k. k\<lparr>tk_status := Failed, tk_error := Some (py_take 2000 m),
           tk_finished_at := Some (now w)\<rparr>) (w_db w)))"
    using assms(5) by (auto simp: terminal_failure_def Let_def dest: publish_result_db)
  then show "map_option tk_status (get_task (tk_id task) (w_db w')) = Some Failed"
    and "map_option ss_status (get_session (tk_session_id task) (w_db w')) = Some X_failed"
    and "map_option (\<lambda>x. (ex_status x, ex_error x)) (get_execution e (w_db w')) = Some (X_failed, Some (py_take 2000 m))"
    using assms(1-4)
    by (simp_all add: task_get_upd session_get_upd execution_get_upd upd_task_execution_def failed_execution_def)
qed

section \<open>A sample worker\<close>

definition failing_run :: "run_input \<Rightarrow> (zset, list_stream, unit) act" where
  "failing_run i = araise (Python_exc ''boom'')"

definition worker_world :: "agent_task \<Rightarrow> (zset, list_stream) world" where
  "worker_world t = sample_world (empty_store\<lparr>db_tasks := [t\<lparr>tk_agent_id := ''helper''\<rparr>],
     db_sessions := [sample_session 112], db_agents := [sample_agent], db_next_id := 200\<rparr>)"

theorem task_runs_bounded_witness:
  "\<exists>ids w'. worker_rounds sample_env failing_run (\<lambda>_. [])
       [Recover_round, Consume_round 0, Consume_round 1, Recover_round, Consume_round 0]
       (worker_world (sample_task 12 None ''b'' [] Pending)) = (ids, w') \<and> count_list ids 12 \<le> 3"
proof -
  let ?t = "sample_task 12 None ''b'' [] Pending"
  let ?r = "worker_rounds sample_env failing_run (\<lambda>_. [])
    [Recover_round, Consume_round 0, Consume_round 1, Recover_round, Consume_round 0] (worker_world ?t)"
  have run: "run_keeps_attempts failing_run"
    by (simp add: run_keeps_attempts_def failing_run_def araise_def attempt_step_refl)
  have "attempts_ok (w_db (worker_world ?t))"
    "get_task 12 (w_db (worker_world ?t)) = Some (?t\<lparr>tk_agent_id := ''helper''\<rparr>)"
    by (simp_all add: worker_world_def attempts_ok_def attempt_ok_def sample_task_def row_get_def)
  from task_runs_bounded [OF run this, of sample_env "\<lambda>_. []" _ "fst ?r" "snd ?r"]
  have "count_list (fst ?r) 12 \<le> 3" by (simp add: sample_task_def del: worker_rounds.simps)
  then show ?thesis by (metis prod.collapse)
qed

lemma alist_enqueue: "0 \<le> p \<Longrightarrow> p \<le> 9 \<Longrightarrow> \<exists>w'. enqueue_task sample_env u p w = (Inr (), w')"
  by (simp add: enqueue_task_def enqueue_def sample_env_def alist_zadd_def)

theorem recover_requeues_witness:
  "\<exists>w'. recover sample_env (worker_world ((sample_task 12 None ''b'' [] Running)\<lparr>tk_started_at := Some 0\<rparr>)) = (Inr (), w') \<and>
     map tk_status (db_tasks (w_db w')) = [Retrying] \<and> uuid_str 12 \<in> dom (DAList.lookup (w_queue w'))"
proof -
  let ?w = "worker_world ((sample_task 12 None ''b'' [] Running)\<lparr>tk_started_at := Some 0\<rparr>)"
  have "now ?w = 1700000000000000" "env_task_stale_seconds sample_env = 600"
    by (simp_all add: worker_world_def sample_world_def now_def sample_env_def)
  then obtain w1 where w1: "recover_stale sample_env ?w = (Inr (), w1)" "map (\<lambda>t. (tk_id t, tk_status t, tk_priority t)) (db_tasks (w_db w1)) = [(12, Retrying, 5)]"
    by (simp add: recover_stale_def stale_running_tasks_def worker_world_def sample_task_def recover_task_def
        sample_session_def row_get_def lost_task_def Let_def upd_task_execution_def row_upd_def)
  obtain t where t: "db_tasks (w_db w1) = [t]" "tk_id t = 12" "tk_status t = Retrying" "tk_priority t = 5"
    using w1(2) by (cases "db_tasks (w_db w1)") auto
  obtain w' where "enqueue_task sample_env 12 5 w1 = (Inr (), w')" using alist_enqueue [of 5 12 w1] by auto
  then have w': "enqueue_pending sample_env w1 = (Inr (), w')"
    using t by (simp add: enqueue_pending_def pending_tasks_def)
  have r: "recover sample_env ?w = (Inr (), w')" using w1(1) w' by (simp add: recover_def)
  have db: "w_db w' = w_db w1" by (rule enqueue_pending_db [OF w'])
  have wq: "work_queue (enqueue (env_zadd sample_env)) (dequeue alist_zpopmin) (queue_remove alist_zrem) (\<lambda>q. dom (DAList.lookup q))"
    using alist_queue.zset_work_queue by (simp add: sample_env_def)
  have "length (waiting_tasks (w_db w')) \<le> 500" by (simp add: db waiting_tasks_def t)
  from recover_requeues [OF wq r this] show ?thesis using r db t by auto
qed

end
