(* ===== verification/Base64.thy ===== *)
theory Base64
  imports Prelude
begin

text \<open>
  What the tokens use of Python's \<open>base64\<close>: URL-safe encoding without padding, and decoding as
  \<open>binascii.a2b_base64\<close> does it, strictly (\<open>validate=True\<close>, in the gateway) or skipping foreign
  characters (in the backend). Both callers compare the decoded bytes, encoded again, with
  the input; therefore both decoders accept exactly the output of the encoder.
\<close>

definition b64_alphabet :: string where
  "b64_alphabet = ''ABCDEFGHIJKLMNOPQRSTUVWXYZabcdefghijklmnopqrstuvwxyz0123456789+/''"

definition b64_digit :: "nat \<Rightarrow> char" where
  "b64_digit n = b64_alphabet ! n"

fun b64encode :: "string \<Rightarrow> string" where
  "b64encode [] = []"
| "b64encode [a] =
     (let x = of_char a :: nat in [b64_digit (x div 4), b64_digit (x mod 4 * 16), CHR ''='', CHR ''=''])"
| "b64encode [a, b] =
     (let x = of_char a :: nat; y = of_char b :: nat in
      [b64_digit (x div 4), b64_digit (x mod 4 * 16 + y div 16), b64_digit (y mod 16 * 4), CHR ''=''])"
| "b64encode (a # b # c # s) =
     (let x = of_char a :: nat; y = of_char b :: nat; z = of_char c :: nat in
      b64_digit (x div 4) # b64_digit (x mod 4 * 16 + y div 16) # b64_digit (y mod 16 * 4 + z div 64) #
      b64_digit (z mod 64) # b64encode s)"

definition url_char :: "char \<Rightarrow> char" where
  "url_char c = (if c = CHR ''+'' then CHR ''-'' else if c = CHR ''/'' then CHR ''_'' else c)"

definition plain_char :: "char \<Rightarrow> char" where
  "plain_char c = (if c = CHR ''-'' then CHR ''+'' else if c = CHR ''_'' then CHR ''/'' else c)"

text \<open>\<open>base64.urlsafe_b64encode(v).rstrip(b"=").decode("ascii")\<close>\<close>

definition rstrip_pad :: "string \<Rightarrow> string" where
  "rstrip_pad s = rev (dropWhile (\<lambda>c. c = CHR ''='') (rev s))"

definition base64url :: "string \<Rightarrow> string" where
  "base64url v = rstrip_pad (map url_char (b64encode v))"

definition b64_value :: "char \<Rightarrow> nat option" where
  "b64_value c = find (\<lambda>n. b64_digit n = c) [0..<64]"

definition is_ascii :: "char \<Rightarrow> bool" where
  "is_ascii c \<longleftrightarrow> \<not> digit7 c"

text \<open>
  The loop of \<open>binascii.a2b_base64\<close>: \<open>q\<close> is the position in a group of four, \<open>left\<close> the bits left
  over, \<open>pads\<close> counts the padding seen, \<open>started\<close> says that there was some.
\<close>

fun a2b_base64 :: "bool \<Rightarrow> bool \<Rightarrow> nat \<Rightarrow> nat \<Rightarrow> nat \<Rightarrow> string \<Rightarrow> string \<Rightarrow> string option" where
  "a2b_base64 strict started q left pads out [] = (if q = 0 then Some out else None)"
| "a2b_base64 strict started q left pads out (c # cs) =
     (if c = CHR ''='' then
        (if strict \<and> q = 0 then None
         else if 2 \<le> q \<and> 4 \<le> q + Suc pads then (if strict \<and> cs \<noteq> [] then None else Some out)
         else a2b_base64 strict True q left (if 2 \<le> q then Suc pads else pads) out cs)
      else case b64_value c of
        None \<Rightarrow> if strict then None else a2b_base64 strict started q left pads out cs
      | Some d \<Rightarrow>
          if strict \<and> started then None
          else if q = 0 then a2b_base64 strict started 1 d 0 out cs
          else if q = 1 then a2b_base64 strict started 2 (d mod 16) 0 (out @ [char_of (left * 4 + d div 16)]) cs
          else if q = 2 then a2b_base64 strict started 3 (d mod 4) 0 (out @ [char_of (left * 16 + d div 4)]) cs
          else a2b_base64 strict started 0 0 0 (out @ [char_of (left * 64 + d)]) cs)"

text \<open>\<open>value + "=" * (-len(value) % 4)\<close>\<close>

definition pad4 :: "string \<Rightarrow> string" where
  "pad4 v = v @ replicate ((4 - length v mod 4) mod 4) (CHR ''='')"

definition base64url_decode :: "bool \<Rightarrow> string \<Rightarrow> string option" where
  "base64url_decode strict v =
     (if \<not> list_all is_ascii v then None
      else case a2b_base64 strict False 0 0 0 [] (map plain_char (pad4 v)) of
        None \<Rightarrow> None
      | Some d \<Rightarrow> if base64url d = v then Some d else None)"

section \<open>Decoding inverts encoding\<close>

lemma alphabet_facts:
  "length b64_alphabet = 64" "distinct b64_alphabet"
  "list_all (\<lambda>c. plain_char (url_char c) = c \<and> url_char c \<notin> {CHR ''='', CHR ''.''} \<and> is_ascii (url_char c)) b64_alphabet"
  by (simp_all add: b64_alphabet_def plain_char_def url_char_def is_ascii_def)

lemma b64_value_digit: "n < 64 \<Longrightarrow> b64_value (b64_digit n) = Some n"
  unfolding b64_value_def b64_digit_def find_Some_iff
  by (intro exI [of _ n]) (auto simp: nth_eq_iff_index_eq [OF alphabet_facts(2)] alphabet_facts(1))

lemma b64_digits:
  assumes "n < 64"
  shows "b64_value (plain_char (url_char (b64_digit n))) = Some n"
    and "url_char (b64_digit n) \<notin> {CHR ''='', CHR ''.''}"
    and "is_ascii (url_char (b64_digit n))"
proof -
  have "b64_digit n \<in> set b64_alphabet"
    using assms by (simp add: b64_digit_def alphabet_facts(1))
  then have c: "plain_char (url_char (b64_digit n)) = b64_digit n" "url_char (b64_digit n) \<notin> {CHR ''='', CHR ''.''}"
    "is_ascii (url_char (b64_digit n))"
    using alphabet_facts(3) unfolding list_all_iff by blast+
  show "b64_value (plain_char (url_char (b64_digit n))) = Some n"
    unfolding c(1) by (rule b64_value_digit [OF assms])
  show "url_char (b64_digit n) \<notin> {CHR ''='', CHR ''.''}" "is_ascii (url_char (b64_digit n))"
    by (rule c(2), rule c(3))
qed

lemma plain_not_pad: "n < 64 \<Longrightarrow> plain_char (url_char (b64_digit n)) \<noteq> CHR ''=''"
  using b64_digits(2) [of n] by (auto simp: plain_char_def split: if_splits)

lemma byte_less: "(of_char c :: nat) < 256"
  by (rule nat_of_char_less_256)

lemma b64_group:
  assumes "x < 256" "y < 256" "z < (256 :: nat)"
  shows "x div 4 < 64" "x mod 4 * 16 + y div 16 < 64" "y mod 16 * 4 + z div 64 < 64" "z mod 64 < 64"
    "x mod 4 * 16 < 64" "y mod 16 * 4 < 64"
    "x div 4 * 4 + (x mod 4 * 16 + y div 16) div 16 = x"
    "(x mod 4 * 16 + y div 16) mod 16 * 16 + (y mod 16 * 4 + z div 64) div 4 = y"
    "(y mod 16 * 4 + z div 64) mod 4 * 64 + z mod 64 = z"
    "x div 4 * 4 + x mod 4 * 16 div 16 = x"
    "(x mod 4 * 16 + y div 16) mod 16 * 16 + y mod 16 * 4 div 4 = y"
    "y div 16 div 16 = 0" "y div 16 mod 16 = y div 16" "z div 64 div 4 = 0" "z div 64 mod 4 = z div 64"
proof -
  have m: "x mod 4 < 4" "y mod 16 < 16" by simp_all
  have q: "y div 16 < 16" "z div 64 < 4" "x div 4 < 64" using assms by simp_all
  show "x div 4 < 64" "x mod 4 * 16 + y div 16 < 64" "y mod 16 * 4 + z div 64 < 64" "z mod 64 < 64"
    "x mod 4 * 16 < 64" "y mod 16 * 4 < 64"
    using m q by simp_all
  show "x div 4 * 4 + (x mod 4 * 16 + y div 16) div 16 = x"
    "(x mod 4 * 16 + y div 16) mod 16 * 16 + (y mod 16 * 4 + z div 64) div 4 = y"
    "(y mod 16 * 4 + z div 64) mod 4 * 64 + z mod 64 = z"
    "x div 4 * 4 + x mod 4 * 16 div 16 = x"
    "(x mod 4 * 16 + y div 16) mod 16 * 16 + y mod 16 * 4 div 4 = y"
    "y div 16 div 16 = 0" "y div 16 mod 16 = y div 16" "z div 64 div 4 = 0" "z div 64 mod 4 = z div 64"
    using q by simp_all
qed

lemma a2b_digit:
  assumes "n < 64"
  shows "a2b_base64 strict False q left pads out (plain_char (url_char (b64_digit n)) # cs) =
     (if q = 0 then a2b_base64 strict False 1 n 0 out cs
      else if q = 1 then a2b_base64 strict False 2 (n mod 16) 0 (out @ [char_of (left * 4 + n div 16)]) cs
      else if q = 2 then a2b_base64 strict False 3 (n mod 4) 0 (out @ [char_of (left * 16 + n div 4)]) cs
      else a2b_base64 strict False 0 0 0 (out @ [char_of (left * 64 + n)]) cs)"
  using b64_digits(1) [OF assms] plain_not_pad [OF assms] by simp

lemma a2b_pad:
  "a2b_base64 strict started q left pads out (CHR ''='' # cs) =
     (if strict \<and> q = 0 then None
      else if 2 \<le> q \<and> 4 \<le> q + Suc pads then (if strict \<and> cs \<noteq> [] then None else Some out)
      else a2b_base64 strict True q left (if 2 \<le> q then Suc pads else pads) out cs)"
  by simp

lemma pad_chars: "url_char (CHR ''='') = CHR ''=''" "plain_char (CHR ''='') = CHR ''=''"
  by (simp_all add: url_char_def plain_char_def)

lemmas a2b_steps = a2b_digit a2b_pad pad_chars

lemma a2b_encoded:
  "a2b_base64 strict False 0 0 0 out (map plain_char (map url_char (b64encode d))) = Some (out @ d)"
proof (induction d arbitrary: out rule: b64encode.induct)
  case (2 a)
  note g = b64_group [of "of_char a" "of_char a" "of_char a", OF byte_less byte_less byte_less]
  show ?case by (simp add: Let_def a2b_steps g del: a2b_base64.simps(2))
next
  case (3 a b)
  note g = b64_group [of "of_char a" "of_char b" "of_char b", OF byte_less byte_less byte_less]
  show ?case by (simp add: Let_def a2b_steps g del: a2b_base64.simps(2))
next
  case (4 a b c s)
  note g = b64_group [of "of_char a" "of_char b" "of_char c", OF byte_less byte_less byte_less]
  show ?case by (simp add: Let_def a2b_steps g 4 [unfolded map_map] del: a2b_base64.simps(2))
qed simp

definition body_char :: "char \<Rightarrow> bool" where
  "body_char c \<longleftrightarrow> c \<notin> {CHR ''='', CHR ''.''} \<and> is_ascii c"

lemma body_digit: "n < 64 \<Longrightarrow> body_char (url_char (b64_digit n))"
  using b64_digits(2,3) by (simp add: body_char_def)

lemma encoded_shape:
  "\<exists>body. map url_char (b64encode d) = body @ replicate ((4 - length body mod 4) mod 4) (CHR ''='') \<and>
     list_all body_char body"
proof (induction d rule: b64encode.induct)
  case 1
  show ?case by (rule exI [of _ "[]"]) simp
next
  case (2 a)
  note g = b64_group [of "of_char a" "of_char a" "of_char a", OF byte_less byte_less byte_less]
  show ?case
    by (rule exI [of _ "[url_char (b64_digit (of_char a div 4)), url_char (b64_digit (of_char a mod 4 * 16))]"])
       (simp add: Let_def numeral_2_eq_2 pad_chars body_digit g)
next
  case (3 a b)
  note g = b64_group [of "of_char a" "of_char b" "of_char b", OF byte_less byte_less byte_less]
  show ?case
    by (rule exI [of _ "[url_char (b64_digit (of_char a div 4)), url_char (b64_digit (of_char a mod 4 * 16 + of_char b div 16)),
          url_char (b64_digit (of_char b mod 16 * 4))]"])
       (simp add: Let_def pad_chars body_digit g)
next
  case (4 a b c s)
  note g = b64_group [of "of_char a" "of_char b" "of_char c", OF byte_less byte_less byte_less]
  obtain body where body: "map url_char (b64encode s) = body @ replicate ((4 - length body mod 4) mod 4) (CHR ''='')"
    "list_all body_char body"
    using 4 by blast
  show ?case
    by (rule exI [of _ "url_char (b64_digit (of_char a div 4)) # url_char (b64_digit (of_char a mod 4 * 16 + of_char b div 16)) #
          url_char (b64_digit (of_char b mod 16 * 4 + of_char c div 64)) # url_char (b64_digit (of_char c mod 64)) # body"])
       (simp add: Let_def body_digit g body)
qed

lemma encoded_body: "map url_char (b64encode d) = pad4 (base64url d)" "list_all body_char (base64url d)"
proof -
  obtain body where body: "map url_char (b64encode d) = body @ replicate ((4 - length body mod 4) mod 4) (CHR ''='')"
    "list_all body_char body"
    using encoded_shape by blast
  have "dropWhile (\<lambda>c. c = CHR ''='') (rev body) = rev body"
    using body(2) by (cases "rev body") (auto simp: body_char_def list_all_iff dest: arg_cong [of _ _ set])
  moreover have "dropWhile (\<lambda>c. c = CHR ''='') (replicate n (CHR ''='') @ xs) = dropWhile (\<lambda>c. c = CHR ''='') xs" for n xs
    by (induction n) simp_all
  ultimately have "base64url d = body"
    by (simp add: base64url_def rstrip_pad_def body(1))
  then show "map url_char (b64encode d) = pad4 (base64url d)" "list_all body_char (base64url d)"
    using body by (simp_all add: pad4_def)
qed

text \<open>Both decoders are the inverse of the encoder: they accept its output and nothing else.\<close>

lemma base64url_decode_iff: "base64url_decode strict v = Some d \<longleftrightarrow> base64url d = v"
proof
  show "base64url_decode strict v = Some d \<Longrightarrow> base64url d = v"
    by (auto simp: base64url_decode_def split: if_splits option.splits)
  assume v: "base64url d = v"
  have "list_all is_ascii v" using encoded_body(2) [of d] v by (auto simp: list_all_iff body_char_def)
  then show "base64url_decode strict v = Some d"
    using a2b_encoded [of strict "[]" d] v by (simp add: base64url_decode_def encoded_body(1))
qed

lemma base64url_no_dot: "CHR ''.'' \<notin> set (base64url d)"
  using encoded_body(2) [of d] by (auto simp: list_all_iff body_char_def)

lemma base64url_ascii: "list_all is_ascii (base64url d)"
  using encoded_body(2) [of d] by (auto simp: list_all_iff body_char_def)

end
