(* ===== verification/Capability_Token.thy ===== *)
theory Capability_Token
  imports Python_Conversions Base64
begin

text \<open>
  The tokens that runtimes carry: the capability token (\<open>backend/app/capabilities/security.py\<close>,
  \<open>services/mcp-gateway/hermes_mcp_gateway/auth.py\<close>), its renewal and revocation
  (\<open>backend/app/capabilities/revocation.py\<close>), and the older MCP access token
  (\<open>backend/app/mcp/access.py\<close>). HMAC, JSON text and the clock are parameters. A token that is
  not ASCII makes \<open>encode("ascii")\<close> raise, which neither verifier turns into its own error.
\<close>

datatype token_error = Token_refused string | Not_ascii

section \<open>Sealed payloads\<close>

text \<open>\<open>f"{prefix}.{encoded}"\<close> with the encoded HMAC of it behind a further dot.\<close>

definition seal :: "(string \<Rightarrow> string \<Rightarrow> string) \<Rightarrow> string \<Rightarrow> string \<Rightarrow> string \<Rightarrow> string" where
  "seal hmac key prefix payload =
     (let signed = prefix @ ''.'' @ base64url payload in signed @ ''.'' @ base64url (hmac key signed))"

text \<open>\<open>token.split(".", 2)\<close>, which must give three parts.\<close>

definition cut_at_dot :: "string \<Rightarrow> (string \<times> string) option" where
  "cut_at_dot s =
     (case dropWhile (\<lambda>c. c \<noteq> CHR ''.'') s of
        [] \<Rightarrow> None
      | _ # r \<Rightarrow> Some (takeWhile (\<lambda>c. c \<noteq> CHR ''.'') s, r))"

definition token_parts :: "string \<Rightarrow> (string \<times> string \<times> string) option" where
  "token_parts token =
     (case cut_at_dot token of
        None \<Rightarrow> None
      | Some (p, r) \<Rightarrow> (case cut_at_dot r of None \<Rightarrow> None | Some (e, s) \<Rightarrow> Some (p, e, s)))"

lemma cut_at_dot_append: "CHR ''.'' \<notin> set a \<Longrightarrow> cut_at_dot (a @ ''.'' @ r) = Some (a, r)"
proof -
  assume a: "CHR ''.'' \<notin> set a"
  then have "dropWhile (\<lambda>c. c \<noteq> CHR ''.'') (a @ ''.'' @ r) = ''.'' @ r"
    "takeWhile (\<lambda>c. c \<noteq> CHR ''.'') (a @ ''.'' @ r) = a"
    by (induction a) auto
  then show ?thesis by (simp add: cut_at_dot_def)
qed

lemma cut_at_dot_Some: "cut_at_dot s = Some (a, r) \<Longrightarrow> CHR ''.'' \<notin> set a \<and> s = a @ ''.'' @ r"
proof -
  assume "cut_at_dot s = Some (a, r)"
  then obtain c where d: "dropWhile (\<lambda>c. c \<noteq> CHR ''.'') s = c # r" "a = takeWhile (\<lambda>c. c \<noteq> CHR ''.'') s"
    by (auto simp: cut_at_dot_def split: list.splits)
  have "c = CHR ''.''" using hd_dropWhile [of "\<lambda>c. c \<noteq> CHR ''.''" s] d(1) by simp
  moreover have "s = a @ c # r" using takeWhile_dropWhile_id [of "\<lambda>c. c \<noteq> CHR ''.''" s] d by simp
  moreover have "CHR ''.'' \<notin> set a" using set_takeWhileD [of _ "\<lambda>c. c \<noteq> CHR ''.''" s] d(2) by auto
  ultimately show ?thesis by simp
qed

lemma token_parts_iff:
  "token_parts token = Some (p, e, s) \<longleftrightarrow>
     CHR ''.'' \<notin> set p \<and> CHR ''.'' \<notin> set e \<and> token = p @ ''.'' @ e @ ''.'' @ s"
proof
  assume "token_parts token = Some (p, e, s)"
  then obtain r where "cut_at_dot token = Some (p, r)" "cut_at_dot r = Some (e, s)"
    by (auto simp: token_parts_def split: option.splits)
  then show "CHR ''.'' \<notin> set p \<and> CHR ''.'' \<notin> set e \<and> token = p @ ''.'' @ e @ ''.'' @ s"
    using cut_at_dot_Some by fastforce
next
  assume "CHR ''.'' \<notin> set p \<and> CHR ''.'' \<notin> set e \<and> token = p @ ''.'' @ e @ ''.'' @ s"
  then show "token_parts token = Some (p, e, s)"
    using cut_at_dot_append [of p "e @ ''.'' @ s"] cut_at_dot_append [of e s] by (simp add: token_parts_def)
qed

section \<open>Capability tokens\<close>

definition execution_claims ::
  "nat \<Rightarrow> string \<Rightarrow> string \<Rightarrow> string \<Rightarrow> string \<Rightarrow> string list \<Rightarrow> string \<Rightarrow> int \<Rightarrow> string \<Rightarrow> dict"
where
  "execution_claims ttl execution_id agent_id agent_version_id runtime_id allowed digest issued_at jti =
     [(''sub'', JStr (''execution:'' @ execution_id)), (''execution_id'', JStr execution_id),
      (''agent_id'', JStr agent_id), (''agent_version_id'', JStr agent_version_id),
      (''runtime_id'', JStr runtime_id), (''allowed_bindings'', str_list (sort (remdups allowed))),
      (''resolution_digest'', JStr digest), (''iat'', JInt issued_at),
      (''exp'', JInt (issued_at + int ttl)), (''jti'', JStr jti)]"

definition issue_execution_capability_token ::
  "(json \<Rightarrow> string) \<Rightarrow> (string \<Rightarrow> string \<Rightarrow> string) \<Rightarrow> string \<Rightarrow> dict \<Rightarrow> string"
where
  "issue_execution_capability_token dumps hmac key claims = seal hmac key ''cap1'' (dumps (JObj claims))"

fun as_int :: "json \<Rightarrow> int" where
  "as_int (JInt i) = i"
| "as_int (JBool b) = (if b then 1 else 0)"
| "as_int _ = 0"

text \<open>What the verifiers ask of the claims: the gateway, and \<open>verify_execution_capability_token\<close>.\<close>

definition check_claims :: "int \<Rightarrow> dict \<Rightarrow> token_error + dict" where
  "check_claims current d =
     (if \<not> is_int (dget d ''exp'') \<or> as_int (dget d ''exp'') \<le> current
      then Inl (Token_refused ''access denied: capability token expired'')
      else if \<not> list_all (\<lambda>f. is_str (dget d f) \<and> dget d f \<noteq> JStr [])
                [''execution_id'', ''agent_id'', ''agent_version_id'', ''resolution_digest'', ''jti'']
      then Inl (Token_refused ''access denied: incomplete capability token claims'')
      else if \<not> (is_arr (dget d ''allowed_bindings'') \<and> list_all is_str (as_arr (dget d ''allowed_bindings'')))
      then Inl (Token_refused ''access denied: invalid capability token bindings'')
      else Inr d)"

definition verify_capability_token ::
  "(string \<Rightarrow> json option) \<Rightarrow> (string \<Rightarrow> string \<Rightarrow> string) \<Rightarrow> string \<Rightarrow> int \<Rightarrow> string \<Rightarrow> token_error + dict"
where
  "verify_capability_token loads hmac key current token =
     (case token_parts token of
        None \<Rightarrow> Inl (Token_refused ''access denied: malformed capability token'')
      | Some (prefix, encoded, signature) \<Rightarrow>
          if prefix \<noteq> ''cap1'' then Inl (Token_refused ''access denied: unsupported capability token'')
          else if \<not> list_all is_ascii encoded then Inl Not_ascii
          else case (base64url_decode True signature, map_option loads (base64url_decode True encoded)) of
            (Some actual, Some (Some payload)) \<Rightarrow>
              if actual \<noteq> hmac key (prefix @ ''.'' @ encoded)
              then Inl (Token_refused ''access denied: invalid capability token signature'')
              else (case payload of
                      JObj d \<Rightarrow> check_claims current d
                    | _ \<Rightarrow> Inl (Token_refused ''access denied: invalid capability token claims''))
          | _ \<Rightarrow> Inl (Token_refused ''access denied: malformed capability token encoding''))"

definition backend_claims_ok :: "dict \<Rightarrow> bool" where
  "backend_claims_ok d \<longleftrightarrow>
     list_all (\<lambda>f. is_str (dget d f))
       [''execution_id'', ''agent_id'', ''agent_version_id'', ''runtime_id'', ''resolution_digest'', ''jti''] \<and>
     is_arr (dget d ''allowed_bindings'') \<and> is_int (dget d ''iat'') \<and> is_int (dget d ''exp'')"

definition verify_execution_capability_token ::
  "(string \<Rightarrow> json option) \<Rightarrow> (string \<Rightarrow> string \<Rightarrow> string) \<Rightarrow> string \<Rightarrow> int \<Rightarrow> string \<Rightarrow> token_error + dict"
where
  "verify_execution_capability_token loads hmac key current token =
     (case token_parts token of
        None \<Rightarrow> Inl (Token_refused ''malformed execution capability token'')
      | Some (prefix, encoded, signature) \<Rightarrow>
          if prefix \<noteq> ''cap1'' then Inl (Token_refused ''unsupported execution capability token'')
          else if \<not> list_all is_ascii encoded then Inl Not_ascii
          else case base64url_decode False signature of
            None \<Rightarrow> Inl (Token_refused ''malformed execution capability token encoding'')
          | Some actual \<Rightarrow>
              if actual \<noteq> hmac key (prefix @ ''.'' @ encoded)
              then Inl (Token_refused ''invalid execution capability token signature'')
              else (case map_option loads (base64url_decode False encoded) of
                Some (Some (JObj d)) \<Rightarrow>
                  if \<not> backend_claims_ok d then Inl (Token_refused ''incomplete execution capability token claims'')
                  else if as_int (dget d ''exp'') \<le> current
                  then Inl (Token_refused ''execution capability token expired'')
                  else Inr d
              | Some (Some _) \<Rightarrow> Inl (Token_refused ''invalid execution capability token claims'')
              | _ \<Rightarrow> Inl (Token_refused ''invalid execution capability token payload'')))"

text \<open>Renewal keeps all claims but the times; the token identity \<open>jti\<close> stays.\<close>

definition renew_capability_token ::
  "(json \<Rightarrow> string) \<Rightarrow> (string \<Rightarrow> string \<Rightarrow> string) \<Rightarrow> string \<Rightarrow> int \<Rightarrow> int \<Rightarrow> dict \<Rightarrow> string"
where
  "renew_capability_token dumps hmac key ttl current claims =
     seal hmac key ''cap1''
       (dumps (JObj (dset ''exp'' (JInt (current + ttl)) (dset ''iat'' (JInt current) claims))))"

section \<open>MCP access tokens\<close>

definition uuid_bytes :: "uuid \<Rightarrow> string" where
  "uuid_bytes u = map (\<lambda>i. char_of (u div 256 ^ (15 - i) mod 256)) [0..<16]"

definition uuid_of_bytes :: "string \<Rightarrow> uuid" where
  "uuid_of_bytes b = foldl (\<lambda>a c. a * 256 + of_char c) 0 b"

definition issue_mcp_access_token :: "(string \<Rightarrow> string \<Rightarrow> string) \<Rightarrow> string \<Rightarrow> uuid \<Rightarrow> string" where
  "issue_mcp_access_token hmac key execution_id =
     seal (\<lambda>k m. take 16 (hmac k m)) key ''mcp2'' (uuid_bytes execution_id)"

definition verify_mcp_access_token :: "(string \<Rightarrow> string \<Rightarrow> string) \<Rightarrow> string \<Rightarrow> string \<Rightarrow> token_error + uuid" where
  "verify_mcp_access_token hmac key token =
     (case token_parts token of
        None \<Rightarrow> Inl (Token_refused ''access denied: malformed MCP access token'')
      | Some (prefix, encoded, signature) \<Rightarrow>
          if prefix \<noteq> ''mcp2'' then Inl (Token_refused ''access denied: unsupported MCP access token'')
          else if \<not> list_all is_ascii encoded then Inl Not_ascii
          else case base64url_decode True signature of
            None \<Rightarrow> Inl (Token_refused ''access denied: malformed MCP signature'')
          | Some actual \<Rightarrow>
              if actual \<noteq> take 16 (hmac key (prefix @ ''.'' @ encoded))
              then Inl (Token_refused ''access denied: invalid MCP signature'')
              else (case base64url_decode True encoded of
                Some raw \<Rightarrow> if length raw = 16 then Inr (uuid_of_bytes raw)
                            else Inl (Token_refused ''access denied: malformed MCP execution id'')
              | None \<Rightarrow> Inl (Token_refused ''access denied: malformed MCP execution id'')))"

text \<open>\<open>MCPAccessClaims.require\<close>: a text is the read-only format of earlier executions.\<close>

definition require_mcp :: "dict \<Rightarrow> string \<Rightarrow> token_error + json" where
  "require_mcp mcp capability =
     (case dget mcp capability of
        JStr s \<Rightarrow> if s \<noteq> [] then Inr (JStr s)
                  else Inl (Token_refused (''access denied: '' @ capability @ '' MCP is not bound to this Agent''))
      | JObj d \<Rightarrow>
          if dget d ''permission'' = JStr ''read_only'' \<and> truthy (dget d ''mcp_id'') then Inr (dget d ''mcp_id'')
          else Inl (Token_refused (''access denied: '' @ capability @ '' MCP is not bound to this Agent''))
      | _ \<Rightarrow> Inl (Token_refused (''access denied: '' @ capability @ '' MCP is not bound to this Agent'')))"

section \<open>Revocation\<close>

text \<open>
  The marks of revoked tokens in Redis: key and instant (microseconds) up to which \<open>exists\<close>
  finds it.
\<close>

type_synonym marks = "(string \<times> int) list"

definition mark_key :: "string \<Rightarrow> string" where
  "mark_key jti = ''hermes:capability-token:revoked:'' @ jti"

definition marked :: "int \<Rightarrow> string \<Rightarrow> marks \<Rightarrow> bool" where
  "marked t k m = (case map_of m k of None \<Rightarrow> False | Some e \<Rightarrow> t < e)"

definition revoke_execution_capability_token :: "nat \<Rightarrow> int \<Rightarrow> json \<Rightarrow> marks \<Rightarrow> bool \<times> marks" where
  "revoke_execution_capability_token ttl t details m =
     (case dget (as_obj details) ''capability_token_jti'' of
        JStr j \<Rightarrow> if j = [] then (False, m) else (True, AList.update (mark_key j) (t + int ttl * 1000000) m)
      | _ \<Rightarrow> (False, m))"

text \<open>\<open>verify_capability_token\<close> followed by \<open>_ensure_not_revoked\<close>, as both endpoints do it.\<close>

definition accept_token ::
  "(string \<Rightarrow> json option) \<Rightarrow> (string \<Rightarrow> string \<Rightarrow> string) \<Rightarrow> string \<Rightarrow> int \<Rightarrow> marks \<Rightarrow> string \<Rightarrow> token_error + dict"
where
  "accept_token loads hmac key t m token =
     rbind (verify_capability_token loads hmac key (t div 1000000) token) (\<lambda>c.
       if marked t (mark_key (as_str (dget c ''jti''))) m
       then Inl (Token_refused (''Execution Token '' @ utf8 [0xE5, 0xB7, 0xB2, 0xE6, 0x92, 0xA4, 0xE9, 0x94, 0x80])) else Inr c)"

section \<open>What a valid token is\<close>

lemma seal_parts:
  "CHR ''.'' \<notin> set prefix \<Longrightarrow>
     token_parts (seal hmac key prefix p) =
       Some (prefix, base64url p, base64url (hmac key (prefix @ ''.'' @ base64url p)))"
  by (simp add: token_parts_iff base64url_no_dot seal_def Let_def)

lemma check_claims_Inr: "check_claims t d = Inr c \<Longrightarrow> c = d"
  by (simp add: check_claims_def split: if_splits)

lemma base64url_inj: "base64url x = base64url y \<Longrightarrow> x = y"
  by (metis base64url_decode_iff option.inject)

lemma verify_iff:
  "verify_capability_token loads hmac key t token = Inr d \<longleftrightarrow>
     (\<exists>p. token = seal hmac key ''cap1'' p \<and> loads p = Some (JObj d) \<and> check_claims t d = Inr d)"
proof
  assume v: "verify_capability_token loads hmac key t token = Inr d"
  then obtain e s where parts: "token_parts token = Some (''cap1'', e, s)"
    by (auto simp: verify_capability_token_def split: option.splits if_splits)
  obtain a p c where c: "base64url_decode True s = Some a" "base64url_decode True e = Some p"
    "a = hmac key (''cap1'' @ ''.'' @ e)" "loads p = Some (JObj c)" "check_claims t c = Inr d"
    using v parts
    by (auto simp: verify_capability_token_def split: option.splits if_splits json.splits)
  have "token = seal hmac key ''cap1'' p"
    using parts c(1-3) by (simp add: token_parts_iff base64url_decode_iff seal_def Let_def)
  then show "\<exists>p. token = seal hmac key ''cap1'' p \<and> loads p = Some (JObj d) \<and> check_claims t d = Inr d"
    using c(4,5) check_claims_Inr [OF c(5)] by blast
next
  assume "\<exists>p. token = seal hmac key ''cap1'' p \<and> loads p = Some (JObj d) \<and> check_claims t d = Inr d"
  then obtain p where p: "token = seal hmac key ''cap1'' p" "loads p = Some (JObj d)" "check_claims t d = Inr d"
    by blast
  have "base64url_decode True (base64url x) = Some x" for x by (simp add: base64url_decode_iff)
  then show "verify_capability_token loads hmac key t token = Inr d"
    using p base64url_ascii by (simp add: verify_capability_token_def seal_parts)
qed

lemma seal_inj: "CHR ''.'' \<notin> set prefix \<Longrightarrow> seal hmac key prefix p = seal hmac key prefix q \<longleftrightarrow> p = q"
  by (metis seal_parts base64url_inj option.inject prod.inject)

lemma verify_sealed:
  assumes "loads p = Some (JObj c)"
  shows "verify_capability_token loads hmac key t (seal hmac key ''cap1'' p) = Inr d \<longleftrightarrow>
     d = c \<and> check_claims t c = Inr c"
  unfolding verify_iff using assms by (auto simp: seal_inj)

lemma backend_verify_seal:
  assumes "loads p = Some (JObj d)"
  shows "verify_execution_capability_token loads hmac key t (seal hmac key ''cap1'' p) =
    (if \<not> backend_claims_ok d then Inl (Token_refused ''incomplete execution capability token claims'')
     else if as_int (dget d ''exp'') \<le> t then Inl (Token_refused ''execution capability token expired'') else Inr d)"
proof -
  have "base64url_decode False (base64url x) = Some x" for x by (simp add: base64url_decode_iff)
  then show ?thesis
    using assms base64url_ascii by (simp add: verify_execution_capability_token_def seal_parts)
qed

text \<open>C39. The gateway accepts exactly the tokens that the holder of the key would make for their
  payload, with complete claims that have not expired: nothing but the key's HMAC of the payload
  opens the gateway, and neither a second encoding of a token nor a changed one is accepted.\<close>

theorem capability_token_accepted_iff:
  "verify_capability_token loads hmac key t token = Inr d \<longleftrightarrow>
     (\<exists>p. token = seal hmac key ''cap1'' p \<and> loads p = Some (JObj d) \<and>
        is_int (dget d ''exp'') \<and> t < as_int (dget d ''exp'') \<and>
        list_all (\<lambda>f. is_str (dget d f) \<and> dget d f \<noteq> JStr [])
          [''execution_id'', ''agent_id'', ''agent_version_id'', ''resolution_digest'', ''jti''] \<and>
        is_arr (dget d ''allowed_bindings'') \<and> list_all is_str (as_arr (dget d ''allowed_bindings'')))"
proof -
  have "check_claims t d = Inr d \<longleftrightarrow>
      is_int (dget d ''exp'') \<and> t < as_int (dget d ''exp'') \<and>
        list_all (\<lambda>f. is_str (dget d f) \<and> dget d f \<noteq> JStr [])
          [''execution_id'', ''agent_id'', ''agent_version_id'', ''resolution_digest'', ''jti''] \<and>
        is_arr (dget d ''allowed_bindings'') \<and> list_all is_str (as_arr (dget d ''allowed_bindings''))"
    unfolding check_claims_def by (auto split: if_splits)
  then show ?thesis unfolding verify_iff by blast
qed

lemma execution_claims_get:
  assumes "c = execution_claims ttl e a v r allowed digest s j"
  shows "dget c ''execution_id'' = JStr e" "dget c ''agent_id'' = JStr a" "dget c ''agent_version_id'' = JStr v"
    "dget c ''runtime_id'' = JStr r" "dget c ''resolution_digest'' = JStr digest" "dget c ''jti'' = JStr j"
    "dget c ''allowed_bindings'' = str_list (sort (remdups allowed))" "dget c ''iat'' = JInt s"
    "dget c ''exp'' = JInt (s + int ttl)"
  by (simp_all add: assms execution_claims_def dget_def)

text \<open>A token that the backend issues is accepted by both verifiers, with the claims it was made
  of, for exactly as long as its time to live.\<close>

theorem issued_token_round_trip:
  assumes "c = execution_claims ttl execution_id agent_id version_id runtime_id allowed digest issued_at jti"
    and "loads (dumps (JObj c)) = Some (JObj c)"
    and "[] \<notin> {execution_id, agent_id, version_id, digest, jti}"
  shows "(verify_capability_token loads hmac key t (issue_execution_capability_token dumps hmac key c) = Inr c
            \<longleftrightarrow> t < issued_at + int ttl) \<and>
     (verify_execution_capability_token loads hmac key t (issue_execution_capability_token dumps hmac key c) = Inr c
            \<longleftrightarrow> t < issued_at + int ttl)"
proof
  note g = execution_claims_get [OF assms(1)]
  have "check_claims t c = Inr c \<longleftrightarrow> t < issued_at + int ttl"
    using assms(3) by (auto simp: check_claims_def g str_list_def list_all_iff)
  then show "verify_capability_token loads hmac key t (issue_execution_capability_token dumps hmac key c) = Inr c
      \<longleftrightarrow> t < issued_at + int ttl"
    using assms(2) by (simp add: issue_execution_capability_token_def verify_sealed)
  have "backend_claims_ok c" by (simp add: backend_claims_ok_def g str_list_def)
  then show "verify_execution_capability_token loads hmac key t (issue_execution_capability_token dumps hmac key c) = Inr c
      \<longleftrightarrow> t < issued_at + int ttl"
    using backend_verify_seal [where loads = loads, OF assms(2), of hmac key t] g(9)
    by (auto simp: issue_execution_capability_token_def)
qed

theorem issued_token_round_trip_witness:
  "verify_capability_token (\<lambda>_. Some (JObj (execution_claims 600 ''e'' ''a'' ''v'' ''r'' [''b''] ''d'' 1000 ''j''))) (\<lambda>k m. k)
       ''key'' 1599 (issue_execution_capability_token (\<lambda>_. ''x'') (\<lambda>k m. k) ''key''
          (execution_claims 600 ''e'' ''a'' ''v'' ''r'' [''b''] ''d'' 1000 ''j'')) =
     Inr (execution_claims 600 ''e'' ''a'' ''v'' ''r'' [''b''] ''d'' 1000 ''j'')"
  using issued_token_round_trip [OF refl, of "\<lambda>_. Some (JObj (execution_claims 600 ''e'' ''a'' ''v'' ''r'' [''b''] ''d'' 1000 ''j''))"
      "\<lambda>_. ''x''" 600 "''e''" "''a''" "''v''" "''r''" "[''b'']" "''d''" 1000 "''j''" "\<lambda>k m. k" "''key''" 1599]
  by simp

text \<open>Renewal: the same claims with new times, accepted again.\<close>

lemma renewed_token:
  assumes "loads (dumps (JObj (dset ''exp'' (JInt (s + ttl)) (dset ''iat'' (JInt s) c)))) =
      Some (JObj (dset ''exp'' (JInt (s + ttl)) (dset ''iat'' (JInt s) c)))"
    and "check_claims t0 c = Inr c" and "t < s + ttl"
  shows "verify_capability_token loads hmac key t (renew_capability_token dumps hmac key ttl s c) =
      Inr (dset ''exp'' (JInt (s + ttl)) (dset ''iat'' (JInt s) c))"
  unfolding verify_iff renew_capability_token_def
  using assms by (auto simp: check_claims_def split: if_splits)

lemma renewed_claims:
  "dget (dset ''exp'' (JInt e) (dset ''iat'' (JInt s) c)) k =
     (if k = ''exp'' then JInt e else if k = ''iat'' then JInt s else dget c k)"
  by simp

section \<open>Revocation is final\<close>

lemma revoked_until_expiry:
  assumes "revoke_execution_capability_token ttl T details m = (True, m')"
    and "dget c ''jti'' = dget (as_obj details) ''capability_token_jti''"
    and "as_int (dget c ''exp'') \<le> T div 1000000 + int ttl" and "t div 1000000 < as_int (dget c ''exp'')"
  shows "marked t (mark_key (as_str (dget c ''jti''))) m'"
proof -
  obtain j where j: "dget (as_obj details) ''capability_token_jti'' = JStr j"
    "m' = AList.update (mark_key j) (T + int ttl * 1000000) m"
    using assms(1) by (auto simp: revoke_execution_capability_token_def split: json.splits if_splits)
  have "t div 1000000 < T div 1000000 + int ttl" using assms(3,4) by simp
  then have "t < (T div 1000000 + int ttl) * 1000000" by (simp add: div_less_iff_less_mult)
  also have "\<dots> \<le> T + int ttl * 1000000"
    using minus_mod_eq_div_mult [of T 1000000] pos_mod_sign [of 1000000 T] by (simp add: algebra_simps)
  finally show ?thesis using assms(2) j by (simp add: marked_def update_conv')
qed

lemma revoked_refused:
  assumes "revoke_execution_capability_token ttl T details m = (True, m')"
    and "loads (dumps (JObj c)) = Some (JObj c)"
    and "dget c ''jti'' = dget (as_obj details) ''capability_token_jti''"
    and "dget c ''exp'' = JInt (s + int life)" and "s \<le> T div 1000000" and "life \<le> ttl"
  shows "\<exists>e. accept_token loads hmac key t m' (seal hmac key ''cap1'' (dumps (JObj c))) = Inl e"
proof (cases "verify_capability_token loads hmac key (t div 1000000) (seal hmac key ''cap1'' (dumps (JObj c)))")
  case (Inr d)
  then have d: "d = c" "check_claims (t div 1000000) c = Inr c"
    using assms(2) by (simp_all add: verify_sealed)
  then have "t div 1000000 < as_int (dget c ''exp'')" by (auto simp: check_claims_def split: if_splits)
  moreover have "as_int (dget c ''exp'') \<le> T div 1000000 + int ttl" using assms(4-6) by simp
  ultimately have "marked t (mark_key (as_str (dget c ''jti''))) m'"
    using revoked_until_expiry [OF assms(1,3)] by blast
  then show ?thesis using Inr d by (simp add: accept_token_def)
qed (simp add: accept_token_def)

text \<open>Revocation is final: a token made or renewed up to the moment of the revocation, with a time
  to live of at most the configured one, is refused at every later moment; the mark that
  revokes it is not forgotten before the token has expired.\<close>

theorem revoked_token_refused:
  assumes "revoke_execution_capability_token ttl T details m = (True, m')"
    and "loads (dumps (JObj c)) = Some (JObj c)"
    and "dget c ''jti'' = dget (as_obj details) ''capability_token_jti''"
    and "dget c ''exp'' = JInt (s + int life)" and "s \<le> T div 1000000" and "life \<le> ttl"
  shows "\<exists>e. accept_token loads hmac key t m' (seal hmac key ''cap1'' (dumps (JObj c))) = Inl e"
  by (rule revoked_refused [where loads = loads and dumps = dumps and c = c, OF assms])

theorem revoked_token_refused_witness:
  "\<exists>e. accept_token (\<lambda>_. Some (JObj (execution_claims 600 ''e'' ''a'' ''v'' ''r'' [''b''] ''d'' 1000 ''j''))) (\<lambda>k m. k)
       ''key'' 1500000000 (snd (revoke_execution_capability_token 600 1200000000
          (JObj [(''capability_token_jti'', JStr ''j'')]) []))
       (seal (\<lambda>k m. k) ''key'' ''cap1''
         ((\<lambda>_. ''x'') (JObj (execution_claims 600 ''e'' ''a'' ''v'' ''r'' [''b''] ''d'' 1000 ''j'')))) = Inl e"
proof (rule revoked_token_refused)
  let ?c = "execution_claims 600 ''e'' ''a'' ''v'' ''r'' [''b''] ''d'' 1000 ''j''"
  let ?r = "revoke_execution_capability_token 600 1200000000 (JObj [(''capability_token_jti'', JStr ''j'')]) []"
  show "?r = (True, snd ?r)" by (simp add: revoke_execution_capability_token_def dget_def)
  show "dget ?c ''jti'' = dget (as_obj (JObj [(''capability_token_jti'', JStr ''j'')])) ''capability_token_jti''"
    "dget ?c ''exp'' = JInt (1000 + int 600)"
    by (simp_all add: execution_claims_def dget_def)
qed simp_all

section \<open>The MCP access token\<close>

lemma digits_back:
  assumes "list_all (\<lambda>d. d < b) ds"
  shows "map (\<lambda>i. foldl (\<lambda>a d. a * b + d) 0 ds div b ^ (length ds - Suc i) mod b) [0..<length ds] = (ds :: nat list)"
  using assms
proof (induction ds rule: rev_induct)
  case (snoc d ds)
  let ?v = "foldl (\<lambda>a d. a * b + d) 0"
  have d: "d < b" using snoc.prems by simp
  have e: "map (\<lambda>i. ?v (ds @ [d]) div b ^ (length (ds @ [d]) - Suc i) mod b) [0..<length ds] =
      map (\<lambda>i. ?v ds div b ^ (length ds - Suc i) mod b) [0..<length ds]"
  proof (rule map_cong [OF refl])
    fix i assume "i \<in> set [0..<length ds]"
    then have "length (ds @ [d]) - Suc i = Suc (length ds - Suc i)" by simp
    then show "?v (ds @ [d]) div b ^ (length (ds @ [d]) - Suc i) mod b = ?v ds div b ^ (length ds - Suc i) mod b"
      using d by (simp add: div_mult2_eq)
  qed
  have "[0..<length (ds @ [d])] = [0..<length ds] @ [length ds]" by simp
  then have "map (\<lambda>i. ?v (ds @ [d]) div b ^ (length (ds @ [d]) - Suc i) mod b) [0..<length (ds @ [d])] =
      ds @ [?v (ds @ [d]) mod b]"
    using e snoc by (simp only: map_append) simp
  then show ?case using d by simp
qed simp

lemma value_below:
  "list_all (\<lambda>d. d < b) ds \<Longrightarrow> foldl (\<lambda>a d. a * b + d) 0 ds < (b :: nat) ^ length ds"
proof (induction ds rule: rev_induct)
  case (snoc d ds)
  then have "foldl (\<lambda>a d. a * b + d) 0 ds + 1 \<le> b ^ length ds" "d < b" by simp_all
  then have "(foldl (\<lambda>a d. a * b + d) 0 ds + 1) * b \<le> b ^ length ds * b" by (intro mult_le_mono1)
  then show ?case using \<open>d < b\<close> by (simp add: algebra_simps)
qed simp

lemma digits_value:
  "foldl (\<lambda>a d. a * b + d) 0 (map (\<lambda>i. u div b ^ (n - Suc i) mod b) [0..<n]) = u mod (b :: nat) ^ n"
proof (induction n arbitrary: u)
  case (Suc n)
  have e: "map (\<lambda>i. u div b ^ (Suc n - Suc i) mod b) [0..<n] = map (\<lambda>i. u div b div b ^ (n - Suc i) mod b) [0..<n]"
  proof (rule map_cong [OF refl])
    fix i assume "i \<in> set [0..<n]"
    then have "Suc n - Suc i = Suc (n - Suc i)" by simp
    then show "u div b ^ (Suc n - Suc i) mod b = u div b div b ^ (n - Suc i) mod b"
      by (simp only: power_Suc div_mult2_eq)
  qed
  have "[0..<Suc n] = [0..<n] @ [n]" by simp
  then have "foldl (\<lambda>a d. a * b + d) 0 (map (\<lambda>i. u div b ^ (Suc n - Suc i) mod b) [0..<Suc n]) =
      foldl (\<lambda>a d. a * b + d) 0 (map (\<lambda>i. u div b div b ^ (n - Suc i) mod b) [0..<n]) * b + u mod b"
    by (simp only: map_append e foldl_append) simp
  also have "\<dots> = u mod b ^ Suc n" by (simp only: Suc.IH) (simp add: mod_mult2_eq mult.commute)
  finally show ?case .
qed simp

lemma uuid_bytes_inverse: "uuid_of_bytes (uuid_bytes u) = u mod 256 ^ 16"
proof -
  have "uuid_of_bytes (uuid_bytes u) =
      foldl (\<lambda>a d. a * 256 + d) 0 (map of_char (uuid_bytes u))"
    by (simp add: uuid_of_bytes_def foldl_map)
  also have "map of_char (uuid_bytes u) = map (\<lambda>i. u div 256 ^ (16 - Suc i) mod 256) [0..<16]"
    by (simp add: uuid_bytes_def comp_def)
  finally show ?thesis by (simp only: digits_value)
qed

lemma uuid_of_bytes_inverse:
  assumes "length raw = 16"
  shows "uuid_bytes (uuid_of_bytes raw) = raw \<and> uuid_of_bytes raw < 256 ^ 16"
proof -
  let ?ds = "map of_char raw :: nat list"
  have v: "uuid_of_bytes raw = foldl (\<lambda>a d. a * 256 + d) 0 ?ds"
    by (simp add: uuid_of_bytes_def foldl_map)
  have b: "list_all (\<lambda>d. d < 256) ?ds" by (simp add: list_all_iff byte_less)
  have "uuid_bytes (uuid_of_bytes raw) = map char_of (map (\<lambda>i. uuid_of_bytes raw div 256 ^ (16 - Suc i) mod 256) [0..<16])"
    by (simp add: uuid_bytes_def comp_def)
  also have "\<dots> = map char_of ?ds"
    using digits_back [OF b] assms by (simp only: v length_map)
  finally show ?thesis using value_below [OF b] v assms by (simp add: comp_def)
qed

text \<open>The MCP access tokens accepted with the key are exactly those issued for an execution: the
  gateway reads back the execution that the backend put in, and no other text is a token.\<close>

theorem mcp_access_token_iff:
  "verify_mcp_access_token hmac key token = Inr u \<longleftrightarrow> token = issue_mcp_access_token hmac key u \<and> u < 2 ^ 128"
proof
  assume v: "verify_mcp_access_token hmac key token = Inr u"
  then obtain e s where parts: "token_parts token = Some (''mcp2'', e, s)"
    by (auto simp: verify_mcp_access_token_def split: option.splits if_splits)
  obtain raw where c: "base64url_decode True s = Some (take 16 (hmac key (''mcp2'' @ ''.'' @ e)))"
    "base64url_decode True e = Some raw" "length raw = 16" "u = uuid_of_bytes raw"
    using v parts by (auto simp: verify_mcp_access_token_def split: option.splits if_splits)
  have "token = issue_mcp_access_token hmac key u \<and> u < 256 ^ 16"
    using parts c uuid_of_bytes_inverse [OF c(3)]
    by (simp add: token_parts_iff base64url_decode_iff issue_mcp_access_token_def seal_def Let_def)
  then show "token = issue_mcp_access_token hmac key u \<and> u < 2 ^ 128" by simp
next
  assume t: "token = issue_mcp_access_token hmac key u \<and> u < 2 ^ 128"
  have "base64url_decode True (base64url x) = Some x" for x by (simp add: base64url_decode_iff)
  then show "verify_mcp_access_token hmac key token = Inr u"
    using t base64url_ascii uuid_bytes_inverse [of u]
    by (simp add: verify_mcp_access_token_def issue_mcp_access_token_def seal_parts uuid_bytes_def)
qed

text \<open>
  A token whose payload part is not ASCII raises \<open>UnicodeEncodeError\<close> in place of the
  refusal that every other malformed token gets.
\<close>

lemma non_ascii_token_not_refused:
  assumes "CHR ''.'' \<notin> set e" and "\<not> list_all is_ascii e"
  shows "verify_capability_token loads hmac key t (''cap1'' @ ''.'' @ e @ ''.'' @ s) = Inl Not_ascii"
proof -
  have "token_parts (''cap1'' @ ''.'' @ e @ ''.'' @ s) = Some (''cap1'', e, s)"
    using assms(1) by (simp only: token_parts_iff) simp
  then show ?thesis using assms(2) by (simp add: verify_capability_token_def)
qed

end
