(* ===== verification/Capability_Models.thy ===== *)
theory Capability_Models
  imports Models Capability_Token
begin

text \<open>
  The rows of the capability platform (\<open>backend/app/db/models.py\<close>, from \<open>Capability\<close> on) that
  the Capability Gateway and the resolver read and write. Text columns that a \<open>CHECK\<close> limits to
  a few words stay texts where the code only compares them; the status of an invocation is a
  datatype. A JSONB column is the JSON value it holds.
\<close>

section \<open>Rows\<close>

record capability =
  cp_id :: uuid
  cp_namespace :: string
  cp_key :: string
  cp_display_name :: string
  cp_description :: "string option"
  cp_risk_level :: string
  cp_status :: string

record capability_version =
  cv_id :: uuid
  cv_capability_id :: uuid
  cv_version :: string
  cv_input_schema :: json
  cv_output_schema :: json
  cv_side_effect :: string
  cv_idempotency :: string
  cv_cache_policy :: json
  cv_default_timeout_ms :: int
  cv_status :: string

record connector_credential =
  cd_id :: uuid
  cd_encrypted_payload :: string
  cd_rotation_status :: string
  cd_last_rotated_at :: instant

record connector =
  cn_id :: uuid
  cn_key :: string
  cn_type :: string
  cn_status :: string

record connector_instance =
  ci_id :: uuid
  ci_connector_id :: uuid
  ci_current_revision_id :: "uuid option"
  ci_health_status :: string
  ci_enabled :: bool

record connector_revision =
  cr_id :: uuid
  cr_connector_instance_id :: uuid
  cr_revision :: int
  cr_endpoint :: string
  cr_auth_type :: string
  cr_credential_ref :: "uuid option"
  cr_network_zone :: string
  cr_connection_config :: json
  cr_timeout_policy :: json
  cr_retry_policy :: json

record connector_operation =
  co_id :: uuid
  co_connector_id :: uuid
  co_operation_key :: string
  co_protocol :: string
  co_method :: "string option"
  co_path_or_tool :: string
  co_request_mapping :: json
  co_response_mapping :: json
  co_error_mapping :: json
  co_side_effect :: string
  co_status :: string

record capability_implementation =
  im_id :: uuid
  im_capability_version_id :: uuid
  im_connector_operation_id :: uuid
  im_connector_instance_revision_id :: uuid
  im_priority :: int
  im_status :: string
  im_created_at :: instant

record scope_revision =
  sr_id :: uuid
  sr_resource_scope_id :: uuid
  sr_revision :: int
  sr_scope_definition :: json

record skill_requirement =
  sq_id :: uuid
  sq_skill_version_id :: uuid
  sq_alias :: string
  sq_capability_key :: string
  sq_version_range :: string
  sq_required :: bool

record agent_runtime =
  rt_id :: uuid
  rt_type :: string
  rt_version :: string
  rt_endpoint :: string
  rt_config :: json
  rt_status :: string
  rt_created_at :: instant

record feature_profile =
  fp_id :: uuid
  fp_runtime_registry_id :: uuid
  fp_runtime_version :: string
  fp_features :: json
  fp_observed_at :: instant

record capability_binding =
  cb_id :: uuid
  cb_agent_version_id :: uuid
  cb_tool_alias :: string
  cb_capability_version_id :: uuid
  cb_implementation_id :: "uuid option"
  cb_resource_scope_revision_id :: "uuid option"
  cb_parameter_policy :: json
  cb_quota_policy :: json
  cb_approval_policy :: json
  cb_enabled :: bool

datatype invocation_status = I_pending | I_succeeded | I_failed | I_denied

record capability_invocation =
  iv_id :: uuid
  iv_execution_id :: uuid
  iv_agent_id :: string
  iv_agent_version_id :: "uuid option"
  iv_binding_id :: "uuid option"
  iv_capability_key :: string
  iv_capability_version :: string
  iv_tool_alias :: string
  iv_connector_instance_revision_id :: "uuid option"
  iv_resource_scope_revision_id :: "uuid option"
  iv_status :: invocation_status
  iv_input_summary :: json
  iv_output_summary :: json
  iv_error_code :: "string option"
  iv_latency_ms :: "int option"
  iv_cache_hit :: bool
  iv_created_at :: instant
  iv_finished_at :: "instant option"

record capability_store =
  cs_capabilities :: "capability list"
  cs_versions :: "capability_version list"
  cs_credentials :: "connector_credential list"
  cs_connectors :: "connector list"
  cs_instances :: "connector_instance list"
  cs_revisions :: "connector_revision list"
  cs_operations :: "connector_operation list"
  cs_implementations :: "capability_implementation list"
  cs_scopes :: "scope_revision list"
  cs_requirements :: "skill_requirement list"
  cs_runtimes :: "agent_runtime list"
  cs_profiles :: "feature_profile list"
  cs_bindings :: "capability_binding list"
  cs_invocations :: "capability_invocation list"
  cs_next_id :: uuid

interpretation invocation_rows: keyed_rows iv_id "row_get iv_id" "row_upd iv_id"
  by (rule keyed_rows_list)

text \<open>The first of the rows by \<open>ORDER BY priority, created_at LIMIT 1\<close>.\<close>

definition first_by :: "('r \<Rightarrow> 'k::linorder) \<Rightarrow> 'r list \<Rightarrow> 'r option" where
  "first_by key rows = (case sort_key key rows of [] \<Rightarrow> None | r # _ \<Rightarrow> Some r)"

lemma first_by_Some: "first_by key rows = Some r \<Longrightarrow> r \<in> set rows \<and> (\<forall>s\<in>set rows. key r \<le> key s)"
proof -
  assume "first_by key rows = Some r"
  then obtain rs where rs: "sort_key key rows = r # rs" by (auto simp: first_by_def split: list.splits)
  then have "sorted (map key (r # rs))" by (metis sorted_sort_key)
  moreover have "set rows = insert r (set rs)" using arg_cong [OF rs, of set] by simp
  ultimately show ?thesis by auto
qed

lemma first_by_None [simp]: "first_by key rows = None \<longleftrightarrow> rows = []"
  by (auto simp: first_by_def split: list.splits) (metis length_sort length_0_conv)

end
