(* ===== verification/Parameter_Policy.thy ===== *)
theory Parameter_Policy
  imports Python_Conversions
begin

text \<open>
  The parameter policy of a capability binding: what the arguments of a call may contain, and
  what the platform puts in. There are two versions, the one of the Capability Gateway
  (\<open>_apply_policy\<close> in \<open>capability_gateway.py\<close>) and that of the backend
  (\<open>capabilities/policy.py\<close>). Arguments are JSON that was parsed before, so that the copy by
  \<open>json.loads(json.dumps(...))\<close> is the identity.
\<close>

definition protected_fields :: "string list" where
  "protected_fields = [''endpoint'', ''credential_ref'', ''connector_instance_id'', ''implementation_id'',
     ''resource_scope'', ''access_token'', ''api_key'']"

text \<open>The paths of forbidden keys at any depth; \<open>forbidden\<close> is in lower case.\<close>

function protected_paths :: "string list \<Rightarrow> json \<Rightarrow> string \<Rightarrow> string list" where
  "protected_paths forbidden (JObj d) prefix =
     concat (map (\<lambda>(k, v).
       let path = (if prefix = [] then k else prefix @ ''.'' @ k) in
       (if lower k \<in> set forbidden then [path] else []) @ protected_paths forbidden v path) d)"
| "protected_paths forbidden (JArr xs) prefix =
     concat (map (\<lambda>(i, v). protected_paths forbidden v (prefix @ ''['' @ nat_str i @ '']''))
       (enumerate 0 xs))"
| "protected_paths forbidden JNull prefix = []"
| "protected_paths forbidden (JBool b) prefix = []"
| "protected_paths forbidden (JInt i) prefix = []"
| "protected_paths forbidden (JFloat r) prefix = []"
| "protected_paths forbidden (JStr s) prefix = []"
  by pat_completeness auto

lemma size_in_dict: "(k, v) \<in> set d \<Longrightarrow> size v < size (JObj d)"
  by (induction d) auto

lemma size_in_enumerate: "(i, v) \<in> set (enumerate n xs) \<Longrightarrow> size v < size (JArr xs)"
  by (induction xs arbitrary: n) (auto, fastforce)

termination protected_paths
  by (relation "measure (\<lambda>(f, v, p). size v)") (auto dest: size_in_dict size_in_enumerate)

text \<open>\<open>for x in xs: f(x)\<close> without effects but errors.\<close>

fun rfor :: "('x \<Rightarrow> 'e + unit) \<Rightarrow> 'x list \<Rightarrow> 'e + unit" where
  "rfor f [] = Inr ()"
| "rfor f (x # xs) = rbind (f x) (\<lambda>_. rfor f xs)"

lemma rfor_Inr: "rfor f xs = Inr u \<longleftrightarrow> (\<forall>x\<in>set xs. f x = Inr ())"
  by (induction xs) (auto simp: rbind_Inr)

lemma rbind_unit_Inr: "rbind r (\<lambda>_. s) = Inr x \<longleftrightarrow> r = Inr () \<and> s = Inr x"
  by (cases r) auto

section \<open>The policy of the gateway\<close>

datatype policy_error =
    Policy_denied string
  | Policy_invalid string
  | Policy_crash py_error

definition lift_crash :: "py_error + 'a \<Rightarrow> policy_error + 'a" where
  "lift_crash r = (case r of Inl e \<Rightarrow> Inl (Policy_crash e) | Inr x \<Rightarrow> Inr x)"

lemma lift_crash_Inr [simp]: "lift_crash r = Inr x \<longleftrightarrow> r = Inr x"
  by (auto simp: lift_crash_def split: sum.splits)

text \<open>
  What \<open>d.update(v)\<close> puts in: the entries of a dict, or the pairs of a list. Of the latter only
  pairs with a text as key are modelled, others are taken as an error.
\<close>

fun pair_of :: "json \<Rightarrow> (string \<times> json) option" where
  "pair_of (JArr [JStr k, v]) = Some (k, v)"
| "pair_of _ = None"

definition as_update :: "json \<Rightarrow> py_error + dict" where
  "as_update v =
     (case v of
        JObj d \<Rightarrow> Inr d
      | JArr xs \<Rightarrow>
          if list_all (\<lambda>x. pair_of x \<noteq> None) xs then Inr (map (\<lambda>x. the (pair_of x)) xs)
          else Inl (Value_error ''dictionary update sequence'')
      | JStr s \<Rightarrow> if s = [] then Inr [] else Inl (Value_error ''dictionary update sequence'')
      | _ \<Rightarrow> Inl Type_error)"

text \<open>\<open>policy.get(key) or {}\<close>.\<close>

definition policy_rules :: "dict \<Rightarrow> string \<Rightarrow> json" where
  "policy_rules policy key = py_or (dget policy key) (JObj [])"

definition denied_unless :: "string \<Rightarrow> py_error + bool \<Rightarrow> policy_error + unit" where
  "denied_unless message r = rbind (lift_crash r) (\<lambda>ok. if ok then Inr () else Inl (Policy_denied message))"

definition field_text :: "string \<Rightarrow> string \<Rightarrow> string" where
  "field_text field tail = utf8 [0xE5, 0x8F, 0x82, 0xE6, 0x95, 0xB0, 0x20] @ field @ tail"

definition gateway_limits :: "dict \<Rightarrow> dict \<Rightarrow> policy_error + unit" where
  "gateway_limits policy value =
     rbind (lift_crash (json_pairs (policy_rules policy ''allowed_values''))) (\<lambda>allowed.
     rbind (rfor (\<lambda>(field, choices).
       if dhas value field
       then denied_unless (field_text field (utf8 [0x20, 0xE4, 0xB8, 0x8D, 0xE5, 0x9C, 0xA8, 0xE5, 0x85, 0x81, 0xE8, 0xAE, 0xB8, 0xE8, 0x8C, 0x83, 0xE5, 0x9B, 0xB4])) (py_in (dget value field) choices)
       else Inr ()) allowed) (\<lambda>_.
     rbind (lift_crash (json_pairs (policy_rules policy ''maximum''))) (\<lambda>maxima.
     rbind (rfor (\<lambda>(field, limit).
       if dhas value field
       then denied_unless (field_text field (utf8 [0x20, 0xE8, 0xB6, 0x85, 0xE8, 0xBF, 0x87, 0xE4, 0xB8, 0x8A, 0xE9, 0x99, 0x90])) (rbind (py_less limit (dget value field)) (\<lambda>b. Inr (\<not> b)))
       else Inr ()) maxima) (\<lambda>_.
     rbind (lift_crash (json_pairs (policy_rules policy ''minimum''))) (\<lambda>minima.
     rfor (\<lambda>(field, limit).
       if dhas value field
       then denied_unless (field_text field (utf8 [0x20, 0xE4, 0xBD, 0x8E, 0xE4, 0xBA, 0x8E, 0xE4, 0xB8, 0x8B, 0xE9, 0x99, 0x90])) (rbind (py_less (dget value field) limit) (\<lambda>b. Inr (\<not> b)))
       else Inr ()) minima)))))"

definition gateway_checks :: "(json \<Rightarrow> string) \<Rightarrow> dict \<Rightarrow> dict \<Rightarrow> policy_error + unit" where
  "gateway_checks rep arguments policy =
     rbind (lift_crash (json_items (dget_default policy ''forbidden_fields'' (JArr [])))) (\<lambda>configured.
     let forbidden = map lower (protected_fields @ map (py_str rep) configured);
         present = sort (remdups (protected_paths forbidden (JObj arguments) [])) in
     if present \<noteq> [] then Inl (Policy_denied (utf8 [0xE7, 0xA6, 0x81, 0xE6, 0xAD, 0xA2, 0xE4, 0xBC, 0xA0, 0xE5, 0x85, 0xA5, 0xE5, 0x8F, 0x82, 0xE6, 0x95, 0xB0, 0xEF, 0xBC, 0x9A] @ join '', '' present))
     else
     rbind (lift_crash (json_items (dget_default policy ''required_fields'' (JArr [])))) (\<lambda>required.
     rbind (rfor (\<lambda>f. if dhas arguments (py_str rep f) then Inr ()
                      else Inl (Policy_invalid (utf8 [0xE7, 0xBC, 0xBA, 0xE5, 0xB0, 0x91, 0xE5, 0xBF, 0x85, 0xE5, 0xA1, 0xAB, 0xE5, 0x8F, 0x82, 0xE6, 0x95, 0xB0, 0x20] @ py_str rep f))) required) (\<lambda>_.
     gateway_limits policy arguments)))"

definition gateway_policy ::
  "(json \<Rightarrow> string) \<Rightarrow> dict \<Rightarrow> dict \<Rightarrow> dict \<Rightarrow> policy_error + dict"
where
  "gateway_policy rep arguments policy scope =
     rbind (gateway_checks rep arguments policy) (\<lambda>_.
     rbind (lift_crash (as_update (policy_rules policy ''fixed''))) (\<lambda>fixed.
     rbind (lift_crash (as_update (policy_rules policy ''injected_fields''))) (\<lambda>injected.
     let value = dupdate (dupdate arguments fixed) injected in
     Inr (if scope \<noteq> [] then dset ''resource_scope'' (JObj scope) value else value))))"

section \<open>The policy of the backend\<close>

text \<open>\<open>fullmatch pattern text\<close> is the regular expression engine; an invalid pattern raises.\<close>

definition measured :: "json \<Rightarrow> nat option" where
  "measured v =
     (case v of JStr s \<Rightarrow> Some (py_len s) | JArr xs \<Rightarrow> Some (length xs) | JObj d \<Rightarrow> Some (length d) | _ \<Rightarrow> None)"

fun is_number :: "json \<Rightarrow> bool" where
  "is_number (JInt _) = True"
| "is_number (JFloat _) = True"
| "is_number _ = False"

definition denied_if :: "bool \<Rightarrow> string \<Rightarrow> policy_error + unit" where
  "denied_if b message = (if b then Inl (Policy_denied message) else Inr ())"

definition backend_limits ::
  "(json \<Rightarrow> string) \<Rightarrow> (string \<Rightarrow> string \<Rightarrow> py_error + bool) \<Rightarrow> dict \<Rightarrow> dict \<Rightarrow> policy_error + unit"
where
  "backend_limits rep fullmatch policy value =
     rbind (rfor (\<lambda>(field, choices).
       denied_if (dhas value field \<and> is_arr choices \<and> \<not> list_ex (py_eq (dget value field)) (as_arr choices))
         (''parameter '' @ field @ '' is not an allowed value'')) (as_obj (dget policy ''allowed_values''))) (\<lambda>_.
     rbind (rfor (\<lambda>(field, limit).
       if dhas value field \<and> is_number (dget value field)
       then rbind (lift_crash (py_less (dget value field) limit)) (\<lambda>b.
              denied_if b (''parameter '' @ field @ '' violates minimum''))
       else Inr ()) (as_obj (dget policy ''minimum''))) (\<lambda>_.
     rbind (rfor (\<lambda>(field, limit).
       if dhas value field \<and> is_number (dget value field)
       then rbind (lift_crash (py_less limit (dget value field))) (\<lambda>b.
              denied_if b (''parameter '' @ field @ '' violates maximum''))
       else Inr ()) (as_obj (dget policy ''maximum''))) (\<lambda>_.
     rbind (rfor (\<lambda>(field, limit).
       case (if dhas value field then measured (dget value field) else None) of
         None \<Rightarrow> Inr ()
       | Some n \<Rightarrow> rbind (lift_crash (py_int rep limit)) (\<lambda>i.
           denied_if (i < int n) (''parameter '' @ field @ '' exceeds max_length'')))
       (as_obj (dget policy ''max_length''))) (\<lambda>_.
     rfor (\<lambda>(field, pattern).
       if \<not> dhas value field then Inr ()
       else case dget value field of
         JStr s \<Rightarrow> rbind (lift_crash (fullmatch (py_str rep pattern) s)) (\<lambda>b.
           denied_if (\<not> b) (''parameter '' @ field @ '' does not match policy''))
       | _ \<Rightarrow> denied_if True (''parameter '' @ field @ '' does not match policy''))
       (as_obj (dget policy ''regex''))))))"

definition apply_parameter_policy ::
  "(json \<Rightarrow> string) \<Rightarrow> (string \<Rightarrow> string \<Rightarrow> py_error + bool) \<Rightarrow> json \<Rightarrow> dict \<Rightarrow> dict \<Rightarrow> policy_error + dict"
where
  "apply_parameter_policy rep fullmatch arguments policy scope =
     (case arguments of
        JObj value \<Rightarrow>
          (let forbidden = map lower (protected_fields @ map (py_str rep) (as_arr (dget policy ''forbidden_fields'')));
               present = sort (remdups (protected_paths forbidden (JObj value) []));
               missing = sort (filter (\<lambda>f. \<not> dhas value f) (map (py_str rep) (as_arr (dget policy ''required_fields'')))) in
           rbind (denied_if (present \<noteq> []) (''forbidden parameters: '' @ join '', '' present)) (\<lambda>_.
           rbind (denied_if (missing \<noteq> []) (''missing required parameters: '' @ join '', '' missing)) (\<lambda>_.
           rbind (backend_limits rep fullmatch policy value) (\<lambda>_.
           let v = dupdate (dupdate value (as_obj (dget policy ''fixed''))) (as_obj (dget policy ''injected_fields'')) in
           Inr (if scope \<noteq> [] then dset ''resource_scope'' (JObj scope) v else v)))))
      | _ \<Rightarrow> Inl (Policy_denied ''arguments must be an object''))"

section \<open>What the paths report\<close>

text \<open>A key occurs somewhere inside a value.\<close>

inductive key_inside :: "string \<Rightarrow> json \<Rightarrow> bool" where
  key_here: "(k, v) \<in> set d \<Longrightarrow> key_inside k (JObj d)"
| key_in_field: "(j, v) \<in> set d \<Longrightarrow> key_inside k v \<Longrightarrow> key_inside k (JObj d)"
| key_in_item: "v \<in> set xs \<Longrightarrow> key_inside k v \<Longrightarrow> key_inside k (JArr xs)"

inductive_simps key_inside_obj: "key_inside k (JObj d)"
inductive_simps key_inside_arr: "key_inside k (JArr xs)"

lemma protected_paths_found:
  "key_inside k v \<Longrightarrow> lower k \<in> set forbidden \<Longrightarrow> protected_paths forbidden v prefix \<noteq> []"
proof (induction arbitrary: prefix rule: key_inside.induct)
  case (key_here k v d)
  then show ?case by (fastforce simp: Let_def)
next
  case (key_in_field j v d k)
  then show ?case by (fastforce simp: Let_def)
next
  case (key_in_item v xs k)
  then obtain i where "i < length xs" "v = xs ! i" by (auto simp: in_set_conv_nth)
  then have "(i, v) \<in> set (enumerate 0 xs)" by (simp add: in_set_enumerate_eq)
  with key_in_item show ?case by fastforce
qed

lemma protected_paths_sound:
  "protected_paths forbidden v prefix \<noteq> [] \<Longrightarrow> \<exists>k. key_inside k v \<and> lower k \<in> set forbidden"
proof (induction forbidden v prefix rule: protected_paths.induct)
  case (1 forbidden d prefix)
  then have "\<exists>p\<in>set d. case p of (k, v) \<Rightarrow>
      lower k \<in> set forbidden \<or> protected_paths forbidden v (if prefix = [] then k else prefix @ ''.'' @ k) \<noteq> []"
    by (fastforce simp: Let_def split: if_splits)
  then obtain k v where kv: "(k, v) \<in> set d"
    "lower k \<in> set forbidden \<or> protected_paths forbidden v (if prefix = [] then k else prefix @ ''.'' @ k) \<noteq> []"
    by blast
  show ?case using kv(2)
  proof
    assume "lower k \<in> set forbidden"
    then show ?thesis using kv(1) by (auto intro: key_here)
  next
    assume "protected_paths forbidden v (if prefix = [] then k else prefix @ ''.'' @ k) \<noteq> []"
    from 1(1) [OF kv(1) refl refl this] show ?thesis using kv(1) by (auto intro: key_in_field)
  qed
next
  case (2 forbidden xs prefix)
  then have "\<exists>p\<in>set (enumerate 0 xs). case p of (i, v) \<Rightarrow> protected_paths forbidden v (prefix @ ''['' @ nat_str i @ '']'') \<noteq> []"
    by fastforce
  then obtain i v where iv: "(i, v) \<in> set (enumerate 0 xs)"
    "protected_paths forbidden v (prefix @ ''['' @ nat_str i @ '']'') \<noteq> []"
    by blast
  then have "v \<in> set xs" by (auto simp: in_set_enumerate_eq)
  then show ?case using 2(1) [OF iv(1) refl iv(2)] by (auto intro: key_in_item)
qed simp_all

lemma protected_paths_Nil:
  "protected_paths forbidden v prefix = [] \<longleftrightarrow> (\<forall>k. key_inside k v \<longrightarrow> lower k \<notin> set forbidden)"
  using protected_paths_found protected_paths_sound by blast

lemma sorted_paths_Nil: "sort (remdups xs) = [] \<longleftrightarrow> xs = ([] :: string list)"
  by (metis set_empty set_remdups set_sort)

lemma missing_Nil:
  "sort (filter (\<lambda>f. \<not> P f) (map h xs)) = ([] :: string list) \<longleftrightarrow> (\<forall>x\<in>set xs. P (h x))"
proof -
  have "sort ys = [] \<longleftrightarrow> ys = []" for ys :: "string list" by (metis set_empty set_sort)
  then show ?thesis by (simp add: filter_empty_conv)
qed

lemma if_error_Inr: "(if b then Inl e else r) = Inr x \<longleftrightarrow> \<not> b \<and> r = Inr x"
  "(if b then r else Inl e) = Inr x \<longleftrightarrow> b \<and> r = Inr x"
  by auto

lemma gateway_checks_Inr:
  "gateway_checks rep a policy = Inr u \<longleftrightarrow>
     (\<exists>configured required.
        json_items (dget_default policy ''forbidden_fields'' (JArr [])) = Inr configured \<and>
        (\<forall>k. key_inside k (JObj a) \<longrightarrow> lower k \<notin> lower ` set (protected_fields @ map (py_str rep) configured)) \<and>
        json_items (dget_default policy ''required_fields'' (JArr [])) = Inr required \<and>
        (\<forall>f\<in>set required. dhas a (py_str rep f)) \<and> gateway_limits policy a = Inr ())"
  unfolding gateway_checks_def Let_def rbind_Inr lift_crash_Inr if_error_Inr not_not sorted_paths_Nil
    protected_paths_Nil rfor_Inr set_map
  by auto

lemma gateway_policy_Inr:
  "gateway_policy rep a policy scope = Inr v \<longleftrightarrow>
     (\<exists>fixed injected. gateway_checks rep a policy = Inr () \<and>
        as_update (policy_rules policy ''fixed'') = Inr fixed \<and>
        as_update (policy_rules policy ''injected_fields'') = Inr injected \<and>
        v = (let value = dupdate (dupdate a fixed) injected in
             if scope \<noteq> [] then dset ''resource_scope'' (JObj scope) value else value))"
  unfolding gateway_policy_def Let_def rbind_unit_Inr
  unfolding rbind_Inr lift_crash_Inr sum.inject eq_commute [of _ v] by blast


definition sample_policy :: dict where
  "sample_policy = [(''forbidden_fields'', JArr [JStr ''sql'']), (''required_fields'', JArr [JStr ''q'']),
     (''allowed_values'', JObj [(''q'', JArr [JStr ''a'', JStr ''b''])]), (''maximum'', JObj [(''top'', JInt 20)]),
     (''fixed'', JObj [(''limit'', JInt 5)]), (''injected_fields'', JObj [(''tenant'', JStr ''t1'')])]"


section \<open>The two versions agree\<close>

text \<open>Policies whose rules have the intended types and use what both versions know.\<close>

definition typed_policy :: "dict \<Rightarrow> bool" where
  "typed_policy p \<longleftrightarrow>
     list_all (\<lambda>k. dhas p k \<longrightarrow> is_arr (dget p k)) [''forbidden_fields'', ''required_fields''] \<and>
     list_all (\<lambda>k. dhas p k \<longrightarrow> is_obj (dget p k)) [''allowed_values'', ''minimum'', ''maximum'', ''fixed'', ''injected_fields''] \<and>
     list_all (\<lambda>(f, c). is_arr c) (as_obj (dget p ''allowed_values'')) \<and>
     list_all (\<lambda>(f, l). is_number l) (as_obj (dget p ''minimum'') @ as_obj (dget p ''maximum'')) \<and>
     \<not> dhas p ''max_length'' \<and> \<not> dhas p ''regex''"

text \<open>Arguments that are numbers where the policy sets a limit.\<close>

definition numeric_arguments :: "dict \<Rightarrow> dict \<Rightarrow> bool" where
  "numeric_arguments p a \<longleftrightarrow>
     list_all (\<lambda>(f, l). dhas a f \<longrightarrow> is_number (dget a f)) (as_obj (dget p ''minimum'') @ as_obj (dget p ''maximum''))"

lemma rules_obj: "(dhas p k \<longrightarrow> is_obj (dget p k)) \<Longrightarrow> policy_rules p k = JObj (as_obj (dget p k))"
  by (cases "dget p k") (auto simp: policy_rules_def py_or_def dhas_def dget_def split: option.splits)

lemma items_arr:
  "(dhas p k \<longrightarrow> is_arr (dget p k)) \<Longrightarrow> json_items (dget_default p k (JArr [])) = Inr (as_arr (dget p k))"
  by (cases "dget p k") (auto simp: json_items_def dget_default_def dhas_def dget_def split: option.splits)

lemma no_rules: "\<not> dhas p k \<Longrightarrow> as_obj (dget p k) = []"
  by (simp add: dhas_def dget_def)

lemma less_numbers: "is_number x \<Longrightarrow> is_number y \<Longrightarrow> \<exists>b. py_less x y = Inr b"
  by (cases x; cases y) (simp_all add: py_less.simps)

lemma py_in_arr: "is_arr c \<Longrightarrow> py_in x c = Inr (list_ex (py_eq x) (as_arr c))"
  by (cases c) (simp_all add: py_in_def)

lemma denied_unless_Inr: "denied_unless m r = Inr u \<longleftrightarrow> r = Inr True"
  by (auto simp: denied_unless_def rbind_Inr)

lemma denied_if_Inr: "denied_if b m = Inr u \<longleftrightarrow> \<not> b"
  by (simp add: denied_if_def)

lemma if_unit_Inr: "(if b then r else Inr ()) = Inr () \<longleftrightarrow> (b \<longrightarrow> r = Inr ())"
  by simp

lemma not_True: "rbind r (\<lambda>b. Inr (\<not> b)) = Inr True \<longleftrightarrow> r = Inr False"
  by (auto simp: rbind_Inr)

lemma less_denied:
  "rbind (lift_crash r) (\<lambda>b. denied_if b m) = Inr u \<longleftrightarrow> r = Inr False"
  by (auto simp: rbind_Inr denied_if_Inr)

lemma gateway_limits_iff:
  assumes "policy_rules p ''allowed_values'' = JObj A" "policy_rules p ''maximum'' = JObj M"
    "policy_rules p ''minimum'' = JObj L"
  shows "gateway_limits p a = Inr u \<longleftrightarrow>
     (\<forall>x\<in>set A. dhas a (fst x) \<longrightarrow> py_in (dget a (fst x)) (snd x) = Inr True) \<and>
     (\<forall>x\<in>set M. dhas a (fst x) \<longrightarrow> py_less (snd x) (dget a (fst x)) = Inr False) \<and>
     (\<forall>x\<in>set L. dhas a (fst x) \<longrightarrow> py_less (dget a (fst x)) (snd x) = Inr False)"
  unfolding gateway_limits_def assms json_pairs_def json.case lift_crash_def sum.case rbind_simps rbind_unit_Inr
    rfor_Inr split_beta if_unit_Inr denied_unless_Inr not_True
  by (rule refl)

lemma backend_limits_iff:
  assumes "as_obj (dget p ''max_length'') = []" "as_obj (dget p ''regex'') = []"
  shows "backend_limits rep fullmatch p a = Inr u \<longleftrightarrow>
     (\<forall>x\<in>set (as_obj (dget p ''allowed_values'')).
        \<not> (dhas a (fst x) \<and> is_arr (snd x) \<and> \<not> list_ex (py_eq (dget a (fst x))) (as_arr (snd x)))) \<and>
     (\<forall>x\<in>set (as_obj (dget p ''minimum'')). dhas a (fst x) \<and> is_number (dget a (fst x)) \<longrightarrow>
        py_less (dget a (fst x)) (snd x) = Inr False) \<and>
     (\<forall>x\<in>set (as_obj (dget p ''maximum'')). dhas a (fst x) \<and> is_number (dget a (fst x)) \<longrightarrow>
        py_less (snd x) (dget a (fst x)) = Inr False)"
  unfolding backend_limits_def assms rfor.simps rbind_unit_Inr rfor_Inr split_beta if_unit_Inr denied_if_Inr less_denied
  by simp

lemma limits_agree:
  assumes "typed_policy p" and "numeric_arguments p a"
  shows "gateway_limits p a = Inr u \<longleftrightarrow> backend_limits rep fullmatch p a = Inr u"
proof -
  have rules: "policy_rules p ''allowed_values'' = JObj (as_obj (dget p ''allowed_values''))"
    "policy_rules p ''maximum'' = JObj (as_obj (dget p ''maximum''))"
    "policy_rules p ''minimum'' = JObj (as_obj (dget p ''minimum''))"
    using assms(1) by (simp_all add: typed_policy_def rules_obj)
  have none: "as_obj (dget p ''max_length'') = []" "as_obj (dget p ''regex'') = []"
    using assms(1) by (simp_all add: typed_policy_def no_rules)
  have arr: "\<forall>x\<in>set (as_obj (dget p ''allowed_values'')). is_arr (snd x)"
    using assms(1) by (auto simp: typed_policy_def list_all_iff split_beta)
  have num: "\<forall>x\<in>set (as_obj (dget p ''minimum'')) \<union> set (as_obj (dget p ''maximum'')).
      dhas a (fst x) \<longrightarrow> is_number (dget a (fst x))"
    using assms(2) by (auto simp: numeric_arguments_def list_all_iff split_beta)
  show ?thesis
    unfolding gateway_limits_iff [OF rules] backend_limits_iff [OF none]
    using arr num py_in_arr by fastforce
qed

text \<open>For policies of the intended types that use no lengths and patterns, and numbers where limits
  are set, the gateway accepts the same calls as the backend's version of the policy and hands
  the same arguments to the provider.\<close>

theorem policy_versions_agree:
  assumes "typed_policy p" and "numeric_arguments p a"
  shows "gateway_policy rep a p scope = Inr v \<longleftrightarrow> apply_parameter_policy rep fullmatch (JObj a) p scope = Inr v"
proof -
  have lists: "json_items (dget_default p ''forbidden_fields'' (JArr [])) = Inr (as_arr (dget p ''forbidden_fields''))"
    "json_items (dget_default p ''required_fields'' (JArr [])) = Inr (as_arr (dget p ''required_fields''))"
    using assms(1) by (simp_all add: typed_policy_def items_arr)
  have updates: "as_update (policy_rules p ''fixed'') = Inr (as_obj (dget p ''fixed''))"
    "as_update (policy_rules p ''injected_fields'') = Inr (as_obj (dget p ''injected_fields''))"
    using assms(1) by (simp_all add: typed_policy_def rules_obj as_update_def)
  have checks: "gateway_checks rep a p = Inr () \<longleftrightarrow>
      protected_paths (map lower (protected_fields @ map (py_str rep) (as_arr (dget p ''forbidden_fields'')))) (JObj a) [] = [] \<and>
      (\<forall>x\<in>set (as_arr (dget p ''required_fields'')). dhas a (py_str rep x)) \<and> backend_limits rep fullmatch p a = Inr ()"
    unfolding gateway_checks_Inr lists protected_paths_Nil limits_agree [OF assms, where rep = rep and fullmatch = fullmatch]
      sum.inject set_map
    by blast
  show ?thesis
    unfolding gateway_policy_Inr updates checks apply_parameter_policy_def json.case Let_def rbind_unit_Inr
      denied_if_Inr sorted_paths_Nil missing_Nil sum.inject not_not
    unfolding conj_assoc eq_commute [of v] by (rule iffI; elim exE conjE; intro exI conjI; simp only: simp_thms)
qed

theorem policy_versions_agree_witness:
  "gateway_policy (\<lambda>_. []) [(''q'', JStr ''a''), (''top'', JInt 7)] sample_policy [] =
     Inr [(''q'', JStr ''a''), (''top'', JInt 7), (''limit'', JInt 5), (''tenant'', JStr ''t1'')] \<longleftrightarrow>
   apply_parameter_policy (\<lambda>_. []) (\<lambda>_ _. Inr True) (JObj [(''q'', JStr ''a''), (''top'', JInt 7)]) sample_policy [] =
     Inr [(''q'', JStr ''a''), (''top'', JInt 7), (''limit'', JInt 5), (''tenant'', JStr ''t1'')]"
  by (rule policy_versions_agree) (code_simp, code_simp)

text \<open>The gateway does not look at the lengths and patterns of a policy.\<close>

lemma gateway_ignores_lengths_and_patterns:
  assumes "k \<in> {''max_length'', ''regex''}"
  shows "gateway_policy rep a (dset k rules policy) scope = gateway_policy rep a policy scope"
proof -
  have other: "map_of (dset k rules policy) j = map_of policy j"
    if "j \<in> {''forbidden_fields'', ''required_fields'', ''allowed_values'', ''maximum'', ''minimum'', ''fixed'', ''injected_fields''}"
    for j using that assms by (elim insertE) simp_all
  show ?thesis
    unfolding gateway_policy_def gateway_checks_def gateway_limits_def policy_rules_def dget_default_def dget_def
    by (simp only: other insert_iff simp_thms)
qed

end
