(* ===== verification/Url.thy ===== *)
theory Url
  imports Prelude "HOL-Library.Word"
begin

text \<open>
  What the gateway uses of Python's \<open>urllib.parse\<close> and \<open>ipaddress\<close>: \<open>urlparse\<close> with the parts
  of the network location, \<open>urljoin\<close>, and the classes of addresses that a check of the target
  of a call looks at. Network locations are ASCII. \<open>ipv6_text\<close> says which texts in brackets are
  IPv6 addresses.
\<close>

section \<open>Cutting texts\<close>

text \<open>\<open>s.partition(c)\<close> and \<open>s.rpartition(c)\<close>.\<close>

definition partition_at :: "char \<Rightarrow> string \<Rightarrow> string \<times> bool \<times> string" where
  "partition_at c s = (let a = takeWhile (\<lambda>x. x \<noteq> c) s in (a, c \<in> set s, drop (Suc (length a)) s))"

definition rpartition_at :: "char \<Rightarrow> string \<Rightarrow> string \<times> bool \<times> string" where
  "rpartition_at c s =
     (if c \<in> set s then (case partition_at c (rev s) of (a, _, b) \<Rightarrow> (rev b, True, rev a)) else ([], False, s))"

section \<open>URLs\<close>

record url =
  u_scheme :: string
  u_netloc :: string
  u_path :: string
  u_params :: string
  u_query :: string
  u_fragment :: string

definition is_alpha :: "char \<Rightarrow> bool" where
  "is_alpha c \<longleftrightarrow> is_lower c \<or> is_upper c"

definition scheme_char :: "char \<Rightarrow> bool" where
  "scheme_char c \<longleftrightarrow> is_alpha c \<or> is_digit c \<or> c \<in> {CHR ''+'', CHR ''-'', CHR ''.''}"

definition uses_relative :: "string list" where
  "uses_relative = [[], ''ftp'', ''http'', ''gopher'', ''nntp'', ''imap'', ''wais'', ''file'', ''https'',
     ''shttp'', ''mms'', ''prospero'', ''rtsp'', ''rtsps'', ''rtspu'', ''sftp'', ''svn'', ''svn+ssh'', ''ws'', ''wss'']"

definition uses_netloc :: "string list" where
  "uses_netloc = [[], ''ftp'', ''http'', ''gopher'', ''nntp'', ''telnet'', ''imap'', ''wais'', ''file'', ''mms'',
     ''https'', ''shttp'', ''snews'', ''prospero'', ''rtsp'', ''rtsps'', ''rtspu'', ''rsync'', ''svn'', ''svn+ssh'',
     ''sftp'', ''nfs'', ''git'', ''git+ssh'', ''ws'', ''wss'']"

definition uses_params :: "string list" where
  "uses_params = [[], ''ftp'', ''hdl'', ''prospero'', ''http'', ''imap'', ''https'', ''shttp'', ''rtsp'', ''rtsps'',
     ''rtspu'', ''sip'', ''sips'', ''mms'', ''sftp'', ''tel'']"

text \<open>The text without control characters and spaces in front, tabs and line ends anywhere.\<close>

definition url_text :: "string \<Rightarrow> string" where
  "url_text s =
     filter (\<lambda>c. c \<notin> {CHR 0x09, CHR 0x0A, CHR 0x0D}) (dropWhile (\<lambda>c. (of_char c :: nat) \<le> 32) s)"

definition url_scheme :: "string \<Rightarrow> string \<Rightarrow> string \<times> string" where
  "url_scheme scheme s =
     (case partition_at (CHR '':'') s of (a, found, rest) \<Rightarrow>
        if found \<and> a \<noteq> [] \<and> is_alpha (hd a) \<and> list_all scheme_char a then (lower a, rest) else (scheme, s))"

text \<open>The network location, \<open>None\<close> for a \<open>ValueError\<close>.\<close>

definition url_netloc :: "(string \<Rightarrow> bool) \<Rightarrow> string \<Rightarrow> (string \<times> string) option" where
  "url_netloc ipv6_text s =
     (if \<not> starts_with ''//'' s then Some ([], s)
      else let netloc = takeWhile (\<lambda>c. c \<notin> {CHR ''/'', CHR ''?'', CHR ''#''}) (drop 2 s);
               host = fst (partition_at (CHR '']'') (snd (snd (partition_at (CHR ''['') netloc)))) in
           if (CHR ''['' \<in> set netloc) \<noteq> (CHR '']'' \<in> set netloc) then None
           else if CHR ''['' \<in> set netloc \<and> \<not> ipv6_text host then None
           else Some (netloc, drop (2 + length netloc) s))"

definition split_params :: "string \<Rightarrow> string \<times> string" where
  "split_params path =
     (case rpartition_at (CHR ''/'') path of (dir, found, name) \<Rightarrow>
        (case partition_at (CHR '';'') name of (a, has, b) \<Rightarrow>
           if has then ((if found then dir @ ''/'' else []) @ a, b) else (path, [])))"

definition urlparse :: "(string \<Rightarrow> bool) \<Rightarrow> string \<Rightarrow> string \<Rightarrow> url option" where
  "urlparse ipv6_text s scheme0 =
     (case url_scheme scheme0 (url_text s) of (scheme, rest) \<Rightarrow>
      (case url_netloc ipv6_text rest of
         None \<Rightarrow> None
       | Some (netloc, rest) \<Rightarrow>
           (case partition_at (CHR ''#'') rest of (rest, _, fragment) \<Rightarrow>
           (case partition_at (CHR ''?'') rest of (path, _, query) \<Rightarrow>
           (case (if scheme \<in> set uses_params then split_params path else (path, [])) of (path, params) \<Rightarrow>
              Some \<lparr>u_scheme = scheme, u_netloc = netloc, u_path = path, u_params = params,
                    u_query = query, u_fragment = fragment\<rparr>)))))"

text \<open>\<open>username\<close>, \<open>password\<close>, \<open>hostname\<close> and \<open>port\<close> of a network location.\<close>

definition userinfo :: "string \<Rightarrow> string option \<times> string option" where
  "userinfo netloc =
     (case rpartition_at (CHR ''@'') netloc of (info, found, _) \<Rightarrow>
        if found then (case partition_at (CHR '':'') info of (user, has, pw) \<Rightarrow> (Some user, if has then Some pw else None))
        else (None, None))"

definition hostinfo :: "string \<Rightarrow> string \<times> string option" where
  "hostinfo netloc =
     (let info = snd (snd (rpartition_at (CHR ''@'') netloc)) in
      case partition_at (CHR ''['') info of (_, bracket, bracketed) \<Rightarrow>
        let (host, port) =
          (if bracket
           then (case partition_at (CHR '']'') bracketed of (h, _, r) \<Rightarrow> (h, snd (snd (partition_at (CHR '':'') r))))
           else (case partition_at (CHR '':'') info of (h, _, p) \<Rightarrow> (h, p)))
        in (host, if port = [] then None else Some port))"

definition url_hostname :: "url \<Rightarrow> string option" where
  "url_hostname u =
     (let h = fst (hostinfo (u_netloc u)) in
      if h = [] then None
      else case partition_at (CHR ''%'') h of (name, found, zone) \<Rightarrow>
        Some (lower name @ (if found then ''%'' @ zone else [])))"

fun digits_nat :: "string \<Rightarrow> nat" where
  "digits_nat s = foldl (\<lambda>n c. n * 10 + (of_char c - 48)) 0 s"

text \<open>\<open>Some None\<close> is no port, \<open>None\<close> a \<open>ValueError\<close>.\<close>

definition url_port :: "url \<Rightarrow> nat option option" where
  "url_port u =
     (case snd (hostinfo (u_netloc u)) of
        None \<Rightarrow> Some None
      | Some p \<Rightarrow> if list_all is_digit p \<and> digits_nat p \<le> 65535 then Some (Some (digits_nat p)) else None)"

definition url_unsplit :: "url \<Rightarrow> string" where
  "url_unsplit u =
     (let path = (if u_params u = [] then u_path u else u_path u @ '';'' @ u_params u);
          body = (if u_netloc u \<noteq> [] \<or> (u_scheme u \<noteq> [] \<and> u_scheme u \<in> set uses_netloc) \<or> starts_with ''//'' path
                  then ''//'' @ u_netloc u @ (if path \<noteq> [] \<and> hd path \<noteq> CHR ''/'' then ''/'' @ path else path)
                  else path) in
      (if u_scheme u = [] then [] else u_scheme u @ '':'') @ body @
      (if u_query u = [] then [] else ''?'' @ u_query u) @
      (if u_fragment u = [] then [] else ''#'' @ u_fragment u))"

section \<open>Joining\<close>

text \<open>The segments \<open>.\<close> and \<open>..\<close> resolved; \<open>path\<close> is the resolved path, last segment first.\<close>

fun resolve_dots :: "string list \<Rightarrow> string list \<Rightarrow> string list" where
  "resolve_dots path [] = rev path"
| "resolve_dots path (s # ss) =
     (if s = ''..'' then resolve_dots (tl path) ss
      else if s = ''.'' then resolve_dots path ss
      else resolve_dots (s # path) ss)"

definition joined_path :: "string \<Rightarrow> string \<Rightarrow> string" where
  "joined_path base path =
     (let base_parts = (let bs = split_on (CHR ''/'') base in if last bs \<noteq> [] then butlast bs else bs);
          segments =
            (if starts_with ''/'' path then split_on (CHR ''/'') path
             else let ss = base_parts @ split_on (CHR ''/'') path in
                  if length ss \<le> 2 then ss
                  else hd ss # filter (\<lambda>s. s \<noteq> []) (butlast (tl ss)) @ [last ss]);
          resolved = resolve_dots [] segments @ (if last segments \<in> {''.'', ''..''} then [[]] else []);
          p = join ''/'' resolved in
      if p = [] then ''/'' else p)"

definition urljoin :: "(string \<Rightarrow> bool) \<Rightarrow> string \<Rightarrow> string \<Rightarrow> string option" where
  "urljoin ipv6_text base target =
     (if base = [] then Some target
      else if target = [] then Some base
      else case urlparse ipv6_text base [] of
        None \<Rightarrow> None
      | Some b \<Rightarrow>
          (case urlparse ipv6_text target (u_scheme b) of
             None \<Rightarrow> None
           | Some u \<Rightarrow>
               if u_scheme u \<noteq> u_scheme b \<or> u_scheme u \<notin> set uses_relative then Some target
               else if u_scheme u \<in> set uses_netloc \<and> u_netloc u \<noteq> [] then Some (url_unsplit u)
               else
                 let v = (if u_scheme u \<in> set uses_netloc then u\<lparr>u_netloc := u_netloc b\<rparr> else u) in
                 if u_path v = [] \<and> u_params v = []
                 then Some (url_unsplit (v\<lparr>u_path := u_path b, u_params := u_params b,
                        u_query := if u_query v = [] then u_query b else u_query v\<rparr>))
                 else Some (url_unsplit (v\<lparr>u_path := joined_path (u_path b) (u_path v)\<rparr>))))"

section \<open>Addresses\<close>

datatype address = V4 "32 word" | V6 "128 word"

text \<open>\<open>in_net n p a\<close>: the address agrees with \<open>p\<close> in its first \<open>n\<close> bits.\<close>

definition in_net :: "nat \<Rightarrow> 'a::len word \<Rightarrow> 'a word \<Rightarrow> bool" where
  "in_net n p a \<longleftrightarrow> drop_bit (LENGTH('a) - n) a = drop_bit (LENGTH('a) - n) p"

fun is_link_local :: "address \<Rightarrow> bool" where
  "is_link_local (V4 a) = in_net 16 0xA9FE0000 a"
| "is_link_local (V6 a) = in_net 10 0xFE800000000000000000000000000000 a"

fun is_multicast :: "address \<Rightarrow> bool" where
  "is_multicast (V4 a) = in_net 4 0xE0000000 a"
| "is_multicast (V6 a) = in_net 8 0xFF000000000000000000000000000000 a"

fun is_unspecified :: "address \<Rightarrow> bool" where
  "is_unspecified (V4 a) = (a = 0)"
| "is_unspecified (V6 a) = (a = 0)"

fun is_loopback :: "address \<Rightarrow> bool" where
  "is_loopback (V4 a) = in_net 8 0x7F000000 a"
| "is_loopback (V6 a) = (a = 1)"

definition private4 :: "32 word \<Rightarrow> bool" where
  "private4 a \<longleftrightarrow>
     (in_net 8 0x00000000 a \<or> in_net 8 0x0A000000 a \<or> in_net 8 0x7F000000 a \<or> in_net 16 0xA9FE0000 a \<or>
      in_net 12 0xAC100000 a \<or> in_net 24 0xC0000000 a \<or> in_net 31 0xC00000AA a \<or> in_net 24 0xC0000200 a \<or>
      in_net 16 0xC0A80000 a \<or> in_net 15 0xC6120000 a \<or> in_net 24 0xC6336400 a \<or> in_net 24 0xCB007100 a \<or>
      in_net 4 0xF0000000 a \<or> in_net 32 0xFFFFFFFF a) \<and>
     a \<notin> {0xC0000009, 0xC000000A}"

definition ipv4_mapped :: "128 word \<Rightarrow> 32 word option" where
  "ipv4_mapped a = (if drop_bit 32 a = 0xFFFF then Some (ucast a) else None)"

definition private6 :: "128 word \<Rightarrow> bool" where
  "private6 a \<longleftrightarrow>
     (a \<in> {0, 1} \<or> in_net 96 0xFFFF00000000 a \<or> in_net 48 0x0064FF9B000100000000000000000000 a \<or>
      in_net 64 0x01000000000000000000000000000000 a \<or> in_net 23 0x20010000000000000000000000000000 a \<or>
      in_net 32 0x20010DB8000000000000000000000000 a \<or> in_net 16 0x20020000000000000000000000000000 a \<or>
      in_net 7 0xFC000000000000000000000000000000 a \<or> in_net 10 0xFE800000000000000000000000000000 a) \<and>
     \<not> (a \<in> {0x20010001000000000000000000000001, 0x20010001000000000000000000000002} \<or>
        in_net 32 0x20010003000000000000000000000000 a \<or> in_net 48 0x20010004011200000000000000000000 a \<or>
        in_net 28 0x20010020000000000000000000000000 a \<or> in_net 28 0x20010030000000000000000000000000 a)"

fun is_private :: "address \<Rightarrow> bool" where
  "is_private (V4 a) = private4 a"
| "is_private (V6 a) = (case ipv4_mapped a of Some b \<Rightarrow> private4 b | None \<Rightarrow> private6 a)"

lemma link_local_private: "is_link_local x \<Longrightarrow> x \<notin> V6 ` UNIV \<Longrightarrow> is_private x"
proof (cases x)
  case (V4 a)
  moreover assume "is_link_local x"
  moreover have "\<not> in_net 16 (0xA9FE0000 :: 32 word) a" if "a \<in> {0xC0000009, 0xC000000A}"
    using that by (auto simp: in_net_def)
  ultimately show ?thesis by (auto simp: private4_def)
qed auto

end
