(* ===== verification/Provider_Call.thy ===== *)
theory Provider_Call
  imports Capability_Models Parameter_Policy Url
begin

text \<open>
  How the Capability Gateway calls a provider (\<open>_invoke_provider\<close> and its helpers in
  \<open>services/mcp-gateway/hermes_mcp_gateway/capability_gateway.py\<close>): the headers, the check of
  the network target, the mapping of requests and responses, the retry loop over HTTP and the
  call of an MCP tool. The other end is a parameter: its answer may depend on all that was sent
  before. A call ends with a value or an exception, and leaves the list of what was sent.
\<close>

section \<open>What the gateway works with\<close>

datatype gateway_exn =
    Access_denied string
  | Gateway_error string string
  | Http_timeout
  | Http_failure
  | Other_exn
  | Task_cancelled

record sent =
  sn_method :: string
  sn_target :: string
  sn_headers :: "(string \<times> string) list"
  sn_timeouts :: "rat \<times> rat"
  sn_body :: dict

text \<open>What the transport may raise: \<open>httpx.TimeoutException\<close>, another \<open>httpx.HTTPError\<close>, any other exception, or
  the cancellation of the request. An HTTP exchange gives no answer, or a status with the content type and the chunks of the body.\<close>

datatype transport_exn = T_timeout | T_failure | T_other | T_cancelled
datatype body_end = Complete | Broken transport_exn
datatype http_outcome = Answer int string "string list" body_end | No_answer transport_exn

text \<open>An MCP call gives content items, of which only texts matter, or raises.\<close>

datatype content_item = Text_item string | Other_item
datatype mcp_outcome = Tool_result bool "content_item list" | Tool_raises transport_exn

fun transport :: "transport_exn \<Rightarrow> gateway_exn" where
  "transport T_timeout = Http_timeout"
| "transport T_failure = Http_failure"
| "transport T_other = Other_exn"
| "transport T_cancelled = Task_cancelled"

datatype validation = Valid | Invalid string | Bad_schema
datatype redis_mode = No_redis | Redis_up | Redis_down

record gateway_env =
  ge_loads :: "string \<Rightarrow> json option"
  ge_dumps :: "json \<Rightarrow> string"
  ge_sorted_dumps :: "json \<Rightarrow> string"
  ge_rep :: "json \<Rightarrow> string"
  ge_float :: "string \<Rightarrow> rat option"
  ge_hmac :: "string \<Rightarrow> string \<Rightarrow> string"
  ge_signing_key :: string
  ge_sha256 :: "string \<Rightarrow> string"
  ge_validate :: "json \<Rightarrow> dict \<Rightarrow> validation"
  ge_cast :: "string \<Rightarrow> uuid option"
  ge_master_key :: "string option"
  ge_decrypt :: "string \<Rightarrow> string \<Rightarrow> string option"
  ge_renew_before :: int
  ge_token_ttl :: int
  ge_max_response :: nat
  ge_redis :: redis_mode
  ge_latency :: int
  ge_isoformat :: "int \<Rightarrow> string"
  ge_ipv6_text :: "string \<Rightarrow> bool"
  ge_resolve :: "string \<Rightarrow> nat \<Rightarrow> address list option"
  ge_http :: "sent list \<Rightarrow> sent \<Rightarrow> http_outcome"
  ge_mcp :: "sent list \<Rightarrow> sent \<Rightarrow> mcp_outcome"

text \<open>
  \<open>_json_object\<close>: a dict is kept, a text parsed, anything else handed to \<open>dict(...)\<close>, which
  takes a list of pairs (here, with texts as keys). A JSONB column arrives as text, so that the value of
  the column \<open>v\<close> gives \<open>as_obj v\<close>.
\<close>

definition json_object :: "gateway_env \<Rightarrow> json \<Rightarrow> dict" where
  "json_object E v =
     (case v of
        JObj d \<Rightarrow> d
      | JStr s \<Rightarrow> (case ge_loads E s of Some w \<Rightarrow> as_obj w | None \<Rightarrow> [])
      | _ \<Rightarrow> (case as_update v of Inr d \<Rightarrow> dupdate [] d | Inl _ \<Rightarrow> []))"

definition py_step :: "py_error + 'a \<Rightarrow> gateway_exn + 'a" where
  "py_step r = (case r of Inl _ \<Rightarrow> Inl Other_exn | Inr x \<Rightarrow> Inr x)"

lemma py_step_Inr [simp]: "py_step r = Inr x \<longleftrightarrow> r = Inr x"
  by (auto simp: py_step_def split: sum.splits)

text \<open>\<open>float(d.get(key) or default)\<close>; a text is read by \<open>ge_float\<close>.\<close>

definition float_setting :: "gateway_env \<Rightarrow> dict \<Rightarrow> string \<Rightarrow> int \<Rightarrow> gateway_exn + rat" where
  "float_setting E d key initial =
     (let v = py_or (dget d key) (JInt initial) in
      case (as_number v, v) of
        (Some r, _) \<Rightarrow> Inr r
      | (None, JStr s) \<Rightarrow> (case ge_float E s of Some r \<Rightarrow> Inr r | None \<Rightarrow> Inl Other_exn)
      | _ \<Rightarrow> Inl Other_exn)"

text \<open>\<open>int(d.get(key) or default)\<close>.\<close>

definition int_setting :: "gateway_env \<Rightarrow> dict \<Rightarrow> string \<Rightarrow> int \<Rightarrow> gateway_exn + int" where
  "int_setting E d key initial = py_step (py_int (ge_rep E) (py_or (dget d key) (JInt initial)))"

text \<open>A row of the join of operation, connector, revision, instance, credential and scope.\<close>

record provider =
  pv_operation :: connector_operation
  pv_connector :: connector
  pv_revision :: connector_revision
  pv_instance :: connector_instance
  pv_credential :: "connector_credential option"
  pv_scope :: "scope_revision option"

definition database_types :: "string list" where
  "database_types = [''postgresql_mcp'', ''database_mcp'']"

section \<open>The target\<close>

definition denied :: "string \<Rightarrow> gateway_exn" where
  "denied m = Gateway_error ''PERMISSION_DENIED'' m"

definition address_refused :: "string \<Rightarrow> address \<Rightarrow> gateway_exn option" where
  "address_refused zone a =
     (if is_link_local a \<or> is_multicast a \<or> is_unspecified a \<or> a = V4 0xA9FEA9FE
      then Some (denied (''Connector '' @ utf8 [0xE5, 0x9C, 0xB0, 0xE5, 0x9D, 0x80, 0xE8, 0xA2, 0xAB, 0x20, 0x53, 0x53, 0x52, 0x46, 0x20, 0xE7, 0xAD, 0x96, 0xE7, 0x95, 0xA5, 0xE6, 0x8B, 0x92, 0xE7, 0xBB, 0x9D]))
      else if zone = ''dmz'' \<and> (is_private a \<or> is_loopback a)
      then Some (denied (''DMZ Connector '' @ utf8 [0xE4, 0xB8, 0x8D, 0xE5, 0x85, 0x81, 0xE8, 0xAE, 0xB8, 0xE8, 0xAE, 0xBF, 0xE9, 0x97, 0xAE, 0xE5, 0x86, 0x85, 0xE7, 0xBD, 0x91, 0xE5, 0x9C, 0xB0, 0xE5, 0x9D, 0x80]))
      else None)"

fun first_refusal :: "string \<Rightarrow> address list \<Rightarrow> gateway_exn + unit" where
  "first_refusal zone [] = Inr ()"
| "first_refusal zone (a # as) =
     (case address_refused zone a of Some e \<Rightarrow> Inl e | None \<Rightarrow> first_refusal zone as)"

definition validate_network :: "gateway_env \<Rightarrow> string \<Rightarrow> string \<Rightarrow> dict \<Rightarrow> gateway_exn + unit" where
  "validate_network E endpoint zone config =
     (case urlparse (ge_ipv6_text E) endpoint [] of
        None \<Rightarrow> Inl Other_exn
      | Some u \<Rightarrow>
          (case (if u_scheme u \<in> {''http'', ''https''} \<and>
                    fst (userinfo (u_netloc u)) \<in> {None, Some []} \<and> snd (userinfo (u_netloc u)) \<in> {None, Some []}
                 then url_hostname u else None) of
             None \<Rightarrow> Inl (Gateway_error ''INVALID_ARGUMENT'' (''Connector Endpoint '' @ utf8 [0xE6, 0x97, 0xA0, 0xE6, 0x95, 0x88]))
           | Some host \<Rightarrow>
               let allowed = as_arr (dget config ''allowed_hosts'') in
               if allowed \<noteq> [] \<and> JStr host \<notin> set allowed
               then Inl (denied (''Connector Host '' @ utf8 [0xE4, 0xB8, 0x8D, 0xE5, 0x9C, 0xA8, 0xE7, 0x99, 0xBD, 0xE5, 0x90, 0x8D, 0xE5, 0x8D, 0x95]))
               else case url_port u of
                 None \<Rightarrow> Inl Other_exn
               | Some port \<Rightarrow>
                   let p = (case port of Some n \<Rightarrow> if n \<noteq> 0 then n else (if u_scheme u = ''https'' then 443 else 80)
                                       | None \<Rightarrow> if u_scheme u = ''https'' then 443 else 80) in
                   (case ge_resolve E host p of
                      None \<Rightarrow> Inl (Gateway_error ''PROVIDER_UNAVAILABLE'' (''Connector DNS '' @ utf8 [0xE8, 0xA7, 0xA3, 0xE6, 0x9E, 0x90, 0xE5, 0xA4, 0xB1, 0xE8, 0xB4, 0xA5]))
                    | Some addresses \<Rightarrow> first_refusal zone addresses)))"

text \<open>The URL of an operation: below the endpoint, on the same scheme, host and port.\<close>

definition operation_url :: "gateway_env \<Rightarrow> string \<Rightarrow> string \<Rightarrow> gateway_exn + string" where
  "operation_url E endpoint path =
     (case urlparse (ge_ipv6_text E) path [] of
        None \<Rightarrow> Inl Other_exn
      | Some op \<Rightarrow>
          if u_scheme op \<noteq> [] \<or> u_netloc op \<noteq> []
          then Inl (denied (''Connector Operation '' @ utf8 [0xE4, 0xB8, 0x8D, 0xE5, 0x85, 0x81, 0xE8, 0xAE, 0xB8, 0xE8, 0xA6, 0x86, 0xE7, 0x9B, 0x96, 0x20, 0x45, 0x6E, 0x64, 0x70, 0x6F, 0x69, 0x6E, 0x74, 0x20, 0x48, 0x6F, 0x73, 0x74]))
          else
            let base = rev (dropWhile (\<lambda>c. c = CHR ''/'') (rev endpoint)) @ ''/'';
                rel = dropWhile (\<lambda>c. c = CHR ''/'') path in
            case urljoin (ge_ipv6_text E) base rel of
              None \<Rightarrow> Inl Other_exn
            | Some url \<Rightarrow>
                (case (urlparse (ge_ipv6_text E) endpoint [], urlparse (ge_ipv6_text E) url []) of
                   (Some b, Some t) \<Rightarrow>
                     (case (url_port t, url_port b) of
                        (Some tp, Some bp) \<Rightarrow>
                          if (u_scheme t, url_hostname t, tp) \<noteq> (u_scheme b, url_hostname b, bp)
                          then Inl (denied (''Connector Operation '' @ utf8 [0xE4, 0xB8, 0x8D, 0xE5, 0x85, 0x81, 0xE8, 0xAE, 0xB8, 0xE8, 0xB7, 0xA8, 0x20, 0x48, 0x6F, 0x73, 0x74])) else Inr url
                      | _ \<Rightarrow> Inl Other_exn)
                 | _ \<Rightarrow> Inl Other_exn))"

section \<open>Headers and mappings\<close>

definition safe_header :: "string \<Rightarrow> bool" where
  "safe_header s \<longleftrightarrow>
     s \<noteq> [] \<and> is_alpha (hd s) \<and> list_all (\<lambda>c. is_alpha c \<or> is_digit c \<or> c = CHR ''-'') (tl s) \<and> length s \<le> 64"

definition provider_headers :: "gateway_env \<Rightarrow> string \<Rightarrow> dict \<Rightarrow> string option \<Rightarrow> gateway_exn + (string \<times> string) list" where
  "provider_headers E auth_type config secret =
     (let headers = [(''Accept'', ''application/json''), (''Content-Type'', ''application/json'')] in
      case secret of
        None \<Rightarrow> Inr headers
      | Some s \<Rightarrow>
          if s \<noteq> [] \<and> auth_type = ''bearer'' then Inr (AList.update ''Authorization'' (''Bearer '' @ s) headers)
          else if s \<noteq> [] \<and> auth_type = ''header''
          then let name = py_str (ge_rep E) (py_or (dget config ''auth_header'') (JStr ''X-API-Key'')) in
               if \<not> safe_header name \<or> lower name \<in> {''host'', ''connection'', ''content-length''}
               then Inl (Gateway_error ''INVALID_ARGUMENT'' (''Connector '' @ utf8 [0xE9, 0x89, 0xB4, 0xE6, 0x9D, 0x83] @ '' Header '' @ utf8 [0xE4, 0xB8, 0x8D, 0xE5, 0xAE, 0x89, 0xE5, 0x85, 0xA8]))
               else Inr (AList.update name s headers)
          else Inr headers)"

definition map_request :: "gateway_env \<Rightarrow> dict \<Rightarrow> dict \<Rightarrow> gateway_exn + dict" where
  "map_request E arguments mapping =
     (let fields = as_obj (dget mapping ''fields'') in
      rbind (py_step (json_items (dget_default mapping ''drop'' (JArr [])))) (\<lambda>dropped.
      let kept = filter (\<lambda>(k, v). k \<noteq> ''resource_scope'' \<and> k \<notin> set (map (py_str (ge_rep E)) dropped)) arguments;
          renamed = dupdate [] (map (\<lambda>(k, v). (py_str (ge_rep E) (py_or (dget fields k) (JStr k)), v)) kept);
          value = dupdate renamed (as_obj (dget mapping ''fixed''));
          target = dget mapping ''scope_target'' in
      Inr (if truthy target \<and> dget arguments ''resource_scope'' \<noteq> JNull
           then dset (py_str (ge_rep E) target) (dget arguments ''resource_scope'') value else value)))"

fun read_parts :: "json \<Rightarrow> string list \<Rightarrow> json" where
  "read_parts v [] = v"
| "read_parts (JObj d) (p # ps) = read_parts (dget d p) ps"
| "read_parts v (p # ps) = JNull"

definition read_path :: "json \<Rightarrow> string \<Rightarrow> json" where
  "read_path v path = read_parts v (split_on CHR ''.'' path)"

definition map_response :: "gateway_env \<Rightarrow> json \<Rightarrow> dict \<Rightarrow> json" where
  "map_response E result mapping =
     (if mapping = [] then result
      else let source = (case dget mapping ''root'' of JStr p \<Rightarrow> read_path result p | _ \<Rightarrow> result);
               fields = as_obj (dget mapping ''fields'') in
           if fields = [] then source
           else JObj (map (\<lambda>(target, path). (target, read_path source (py_str (ge_rep E) path))) fields))"

section \<open>The exchange\<close>

text \<open>\<open>_read_limited_response\<close>.\<close>

fun read_limited :: "nat \<Rightarrow> nat \<Rightarrow> string list \<Rightarrow> body_end \<Rightarrow> gateway_exn + string" where
  "read_limited limit got [] (Broken e) = Inl (transport e)"
| "read_limited limit got [] Complete = Inr []"
| "read_limited limit got (c # cs) b =
     (if limit < got + length c
      then Inl (Gateway_error ''OUTPUT_INVALID'' (''Connector '' @ utf8 [0xE5, 0x93, 0x8D, 0xE5, 0xBA, 0x94, 0xE8, 0xB6, 0x85, 0xE8, 0xBF, 0x87, 0xE5, 0xA4, 0xA7, 0xE5, 0xB0, 0x8F, 0xE9, 0x99, 0x90, 0xE5, 0x88, 0xB6]))
      else rbind (read_limited limit (got + length c) cs b) (\<lambda>rest. Inr (c @ rest)))"

text \<open>
  The loop over the attempts: \<open>n\<close> are left, \<open>a\<close> is the number of the next. What was read of
  the last answer is \<open>None\<close> before the first status.
\<close>

fun http_attempts ::
  "gateway_env \<Rightarrow> sent \<Rightarrow> int \<Rightarrow> nat \<Rightarrow> nat \<Rightarrow> (int \<times> string \<times> string) option \<Rightarrow> sent list \<Rightarrow>
     (gateway_exn + (int \<times> string \<times> string) option) \<times> sent list"
where
  "http_attempts E rq retries a 0 seen hist = (Inr seen, hist)"
| "http_attempts E rq retries a (Suc n) seen hist =
     (case ge_http E hist rq of
        No_answer e \<Rightarrow>
          if e \<noteq> T_timeout \<or> retries \<le> int a then (Inl (transport e), hist @ [rq])
          else http_attempts E rq retries (Suc a) n seen (hist @ [rq])
      | Answer status content_type chunks b \<Rightarrow>
          if (status = 429 \<or> 500 \<le> status) \<and> int a < retries
          then http_attempts E rq retries (Suc a) n (Some (status, content_type, [])) (hist @ [rq])
          else (case read_limited (ge_max_response E) 0 chunks b of
                  Inl e \<Rightarrow>
                    if e \<noteq> Http_timeout \<or> retries \<le> int a then (Inl e, hist @ [rq])
                    else http_attempts E rq retries (Suc a) n (Some (status, content_type, [])) (hist @ [rq])
                | Inr content \<Rightarrow> (Inr (Some (status, content_type, content)), hist @ [rq])))"

definition allowed_retries :: "gateway_env \<Rightarrow> connector_operation \<Rightarrow> dict \<Rightarrow> string \<Rightarrow> gateway_exn + int" where
  "allowed_retries E op policy idempotency =
     rbind (int_setting E policy ''max_retries'' 0) (\<lambda>retries.
     Inr (if co_side_effect op \<noteq> ''READ_ONLY'' \<and> idempotency \<notin> {''SAFE_RETRY'', ''IDEMPOTENT''} then 0 else retries))"

definition has_json :: "string \<Rightarrow> bool" where
  "has_json content_type = has_substring ''json'' (lower content_type)"

text \<open>\<open>status\<close> is \<open>None\<close> when no attempt gave one: the assertion after the loop fails.\<close>

definition http_result :: "gateway_env \<Rightarrow> (int \<times> string \<times> string) option \<Rightarrow> gateway_exn + json" where
  "http_result E answer =
     (case answer of
        None \<Rightarrow> Inl Other_exn
      | Some (status, content_type, content) \<Rightarrow>
          if status = 429 then Inl (Gateway_error ''RATE_LIMITED'' (''Connector '' @ utf8 [0xE8, 0xBF, 0x94, 0xE5, 0x9B, 0x9E, 0xE9, 0x99, 0x90, 0xE6, 0xB5, 0x81]))
          else if 500 \<le> status
          then Inl (Gateway_error ''PROVIDER_UNAVAILABLE'' (''Connector '' @ utf8 [0xE8, 0xBF, 0x94, 0xE5, 0x9B, 0x9E] @ '' HTTP '' @ int_str status))
          else if 400 \<le> status
          then Inl (Gateway_error ''INVALID_ARGUMENT'' (''Connector '' @ utf8 [0xE6, 0x8B, 0x92, 0xE7, 0xBB, 0x9D, 0xE8, 0xAF, 0xB7, 0xE6, 0xB1, 0x82, 0xEF, 0xBC, 0x8C] @ ''HTTP '' @ int_str status))
          else if \<not> has_json content_type
          then Inl (Gateway_error ''OUTPUT_INVALID'' (utf8 [0xE9, 0xA6, 0x96, 0xE7, 0x89, 0x88, 0x20, 0x52, 0x45, 0x53, 0x54, 0x20, 0x41, 0x64, 0x61, 0x70, 0x74, 0x65, 0x72, 0x20, 0xE5, 0x8F, 0xAA, 0xE6, 0x8E, 0xA5, 0xE5, 0x8F, 0x97, 0x20, 0x4A, 0x53, 0x4F, 0x4E, 0x20, 0xE5, 0x93, 0x8D, 0xE5, 0xBA, 0x94]))
          else case ge_loads E content of
            Some v \<Rightarrow> Inr v
          | None \<Rightarrow> Inl (Gateway_error ''OUTPUT_INVALID'' (''Connector '' @ utf8 [0xE8, 0xBF, 0x94, 0xE5, 0x9B, 0x9E, 0xE7, 0x9A, 0x84, 0x20, 0x4A, 0x53, 0x4F, 0x4E, 0x20, 0xE6, 0x97, 0xA0, 0xE6, 0x95, 0x88])))"

section \<open>MCP tools\<close>

text \<open>\<open>MCP_ERROR_MARKER.search\<close>: code and message of the first marker in a text.\<close>

definition line_end :: "char \<Rightarrow> bool" where
  "line_end c \<longleftrightarrow> c \<in> {CHR 0x0A, CHR 0x0D}"

definition marker_message :: "string \<Rightarrow> string option" where
  "marker_message s =
     (let rest = dropWhile is_space s in
      if rest \<noteq> [] then Some (takeWhile (\<lambda>c. \<not> line_end c) rest)
      else case dropWhile line_end (rev s) of [] \<Rightarrow> None | c # _ \<Rightarrow> Some [c])"

definition marker_here :: "string \<Rightarrow> (string \<times> string) option" where
  "marker_here s =
     (if \<not> starts_with ''HERMES_CAPABILITY_ERROR['' s then None
      else let r = drop 24 s;
               code = takeWhile (\<lambda>c. is_upper c \<or> c = CHR ''_'') r;
               rest = drop (length code) r in
           if code = [] \<or> \<not> starts_with '']:'' rest then None
           else map_option (Pair code) (marker_message (drop 2 rest)))"

fun error_marker :: "string \<Rightarrow> (string \<times> string) option" where
  "error_marker [] = None"
| "error_marker (c # s) = (case marker_here (c # s) of Some m \<Rightarrow> Some m | None \<Rightarrow> error_marker s)"

definition standard_errors :: "(string \<times> int) list" where
  "standard_errors =
     [(''INVALID_ARGUMENT'', 422), (''NOT_FOUND'', 404), (''PERMISSION_DENIED'', 403), (''CONFLICT'', 409),
      (''RATE_LIMITED'', 429), (''PROVIDER_UNAVAILABLE'', 502), (''TIMEOUT'', 504), (''OUTPUT_INVALID'', 502),
      (''INTERNAL_ERROR'', 500)]"

definition texts_of :: "content_item list \<Rightarrow> string list" where
  "texts_of items = concat (map (\<lambda>i. case i of Text_item s \<Rightarrow> [s] | Other_item \<Rightarrow> []) items)"

definition mcp_failure :: "content_item list \<Rightarrow> string \<Rightarrow> gateway_exn" where
  "mcp_failure items connector_type =
     (case (if connector_type \<in> set database_types
            then error_marker (join newline (filter (\<lambda>s. s \<noteq> []) (texts_of items))) else None) of
        Some (code, message) \<Rightarrow>
          if code \<in> fst ` set standard_errors then Gateway_error code (py_take 500 (strip message))
          else Gateway_error ''PROVIDER_UNAVAILABLE'' (''MCP Tool '' @ utf8 [0xE8, 0xBF, 0x94, 0xE5, 0x9B, 0x9E, 0xE9, 0x94, 0x99, 0xE8, 0xAF, 0xAF])
      | None \<Rightarrow> Gateway_error ''PROVIDER_UNAVAILABLE'' (''MCP Tool '' @ utf8 [0xE8, 0xBF, 0x94, 0xE5, 0x9B, 0x9E, 0xE9, 0x94, 0x99, 0xE8, 0xAF, 0xAF]))"

definition mcp_result :: "gateway_env \<Rightarrow> string \<Rightarrow> mcp_outcome \<Rightarrow> gateway_exn + json" where
  "mcp_result E connector_type r =
     (case r of
        Tool_raises e \<Rightarrow> Inl (transport e)
      | Tool_result is_error items \<Rightarrow>
          if is_error then Inl (mcp_failure items connector_type)
          else (case texts_of items of
                  [s] \<Rightarrow> (case ge_loads E s of Some v \<Rightarrow> Inr v | None \<Rightarrow> Inr (JObj [(''content'', JStr s)]))
                | texts \<Rightarrow> Inr (JObj [(''content'', str_list texts)])))"

section \<open>The whole call\<close>

record call_context =
  cc_token :: string
  cc_execution_id :: string
  cc_binding_id :: string
  cc_scope_revision_id :: "string option"
  cc_idempotency :: string

definition database_headers :: "call_context \<Rightarrow> connector_revision \<Rightarrow> string \<Rightarrow> (string \<times> string) list" where
  "database_headers C revision scope =
     [(''Authorization'', ''Bearer '' @ cc_token C), (''X-Hermes-Execution-Id'', cc_execution_id C),
      (''X-Hermes-Binding-Id'', cc_binding_id C), (''X-Hermes-Connector-Revision-Id'', uuid_str (cr_id revision)),
      (''X-Hermes-Scope-Revision-Id'', scope)]"

definition mcp_request ::
  "provider \<Rightarrow> call_context \<Rightarrow> (string \<times> string) list \<Rightarrow> rat \<times> rat \<Rightarrow> dict \<Rightarrow> gateway_exn + sent"
where
  "mcp_request p C headers timeouts data =
     (let r = pv_revision p; database = (cn_type (pv_connector p) \<in> set database_types) in
      if database \<and> cc_scope_revision_id C \<in> {None, Some []}
      then Inl (denied (utf8 [0xE6, 0x95, 0xB0, 0xE6, 0x8D, 0xAE, 0xE5, 0xBA, 0x93, 0xE8, 0x83, 0xBD, 0xE5, 0x8A, 0x9B, 0xE7, 0xBC, 0xBA, 0xE5, 0xB0, 0x91] @ '' Resource Scope''))
      else Inr
        \<lparr>sn_method = co_path_or_tool (pv_operation p), sn_target = cr_endpoint r,
         sn_headers =
           (if database then fold (\<lambda>(k, v). AList.update k v) (database_headers C r (the (cc_scope_revision_id C))) headers
            else headers),
         sn_timeouts = timeouts,
         sn_body =
           (if database then AList.delete ''resource_scope'' data
            else if cr_auth_type r = ''execution_capability'' then dset ''access_token'' (JStr (cc_token C)) data
            else data)\<rparr>)"

definition http_request ::
  "gateway_env \<Rightarrow> provider \<Rightarrow> (string \<times> string) list \<Rightarrow> rat \<times> rat \<Rightarrow> dict \<Rightarrow> gateway_exn + sent"
where
  "http_request E p headers timeouts data =
     (let r = pv_revision p in
      rbind (operation_url E (cr_endpoint r) (co_path_or_tool (pv_operation p))) (\<lambda>url.
      rbind (validate_network E url (cr_network_zone r) (as_obj (cr_connection_config r))) (\<lambda>_.
      Inr \<lparr>sn_method = upper (case co_method (pv_operation p) of None \<Rightarrow> ''POST'' | Some m \<Rightarrow> if m = [] then ''POST'' else m),
           sn_target = url, sn_headers = headers, sn_timeouts = timeouts, sn_body = data\<rparr>)))"

text \<open>What is sent, up to the choice of the protocol.\<close>

definition prepare_call ::
  "gateway_env \<Rightarrow> provider \<Rightarrow> dict \<Rightarrow> string option \<Rightarrow> gateway_exn + ((string \<times> string) list \<times> (rat \<times> rat) \<times> dict)"
where
  "prepare_call E p arguments secret =
     (let r = pv_revision p; config = as_obj (cr_connection_config r);
          timeout_policy = as_obj (cr_timeout_policy r) in
      rbind (provider_headers E (cr_auth_type r) config secret) (\<lambda>headers.
      rbind (validate_network E (cr_endpoint r) (cr_network_zone r) config) (\<lambda>_.
      rbind (map_request E arguments (as_obj (co_request_mapping (pv_operation p)))) (\<lambda>data.
      rbind (float_setting E timeout_policy ''read_seconds'' 15) (\<lambda>reading.
      rbind (float_setting E timeout_policy ''connect_seconds'' 5) (\<lambda>connecting.
      Inr (headers, (reading, connecting), data)))))))"

definition invoke_provider ::
  "gateway_env \<Rightarrow> provider \<Rightarrow> dict \<Rightarrow> string option \<Rightarrow> call_context \<Rightarrow> sent list \<Rightarrow> (gateway_exn + json) \<times> sent list"
where
  "invoke_provider E p arguments secret C hist =
     (case prepare_call E p arguments secret of
        Inl e \<Rightarrow> (Inl e, hist)
      | Inr (headers, timeouts, data) \<Rightarrow>
          if co_protocol (pv_operation p) = ''mcp''
          then (case mcp_request p C headers timeouts data of
                  Inl e \<Rightarrow> (Inl e, hist)
                | Inr rq \<Rightarrow> (mcp_result E (cn_type (pv_connector p)) (ge_mcp E hist rq), hist @ [rq]))
          else (case http_request E p headers timeouts data of
                  Inl e \<Rightarrow> (Inl e, hist)
                | Inr rq \<Rightarrow>
                    (case allowed_retries E (pv_operation p) (as_obj (cr_retry_policy (pv_revision p))) (cc_idempotency C) of
                       Inl e \<Rightarrow> (Inl e, hist)
                     | Inr retries \<Rightarrow>
                         (case http_attempts E rq retries 0 (nat (min retries 2 + 1)) None hist of
                            (Inl e, hist') \<Rightarrow> (Inl e, hist')
                          | (Inr answer, hist') \<Rightarrow> (http_result E answer, hist')))))"

section \<open>How often a provider is asked\<close>

lemma http_attempts_log:
  "http_attempts E rq retries a n seen hist = (r, hist') \<Longrightarrow>
     \<exists>k\<le>n. hist' = hist @ replicate k rq \<and> (k \<le> Suc (nat (retries - int a)))"
proof (induction n arbitrary: a seen hist)
  case (Suc n)
  have again: "\<exists>k\<le>Suc n. hist' = hist @ replicate k rq \<and> k \<le> Suc (nat (retries - int a))"
    if "http_attempts E rq retries (Suc a) n seen' (hist @ [rq]) = (r, hist')" and "int a < retries" for seen'
  proof -
    from Suc.IH [OF that(1)] obtain k where "k \<le> n" "hist' = (hist @ [rq]) @ replicate k rq"
      "k \<le> Suc (nat (retries - int (Suc a)))" by blast
    with that(2) show ?thesis by (intro exI [of _ "Suc k"]) auto
  qed
  have one: "\<exists>k\<le>Suc n. hist @ [rq] = hist @ replicate k rq \<and> k \<le> Suc (nat (retries - int a))"
    by (intro exI [of _ 1]) auto
  from Suc.prems show ?case
    by (auto split: http_outcome.splits sum.splits if_splits intro: again one simp: not_le)
qed simp

text \<open>What a call may add to the log: one request, up to three times, and at most once when it is a
  write that may not be repeated.\<close>

definition few_requests :: "provider \<Rightarrow> string \<Rightarrow> sent list \<Rightarrow> sent list \<Rightarrow> bool" where
  "few_requests p idempotency hist hist' \<longleftrightarrow>
     (\<exists>rq k. hist' = hist @ replicate k rq \<and> k \<le> 3 \<and>
        (co_side_effect (pv_operation p) \<noteq> ''READ_ONLY'' \<and> idempotency \<notin> {''SAFE_RETRY'', ''IDEMPOTENT''} \<longrightarrow> k \<le> 1))"

lemma few_requests_none: "few_requests p i hist hist"
  unfolding few_requests_def by (intro exI [of _ 0] exI) auto

lemma few_requests_one: "few_requests p i hist (hist @ [rq])"
  unfolding few_requests_def by (intro exI [of _ rq] exI [of _ 1]) auto

lemma few_requests_loop:
  assumes "http_attempts E rq retries 0 (nat (min retries 2 + 1)) None hist = (a, hist')"
    and "allowed_retries E (pv_operation p) policy i = Inr retries"
  shows "few_requests p i hist hist'"
proof -
  from http_attempts_log [OF assms(1)] obtain k where k: "k \<le> nat (min retries 2 + 1)"
    "hist' = hist @ replicate k rq" by blast
  have "retries = 0" if "co_side_effect (pv_operation p) \<noteq> ''READ_ONLY''" "i \<notin> {''SAFE_RETRY'', ''IDEMPOTENT''}"
    using that assms(2) by (auto simp: allowed_retries_def rbind_Inr)
  with k show ?thesis unfolding few_requests_def by (intro exI [of _ rq] exI [of _ k]) auto
qed

lemma invoke_provider_few_requests:
  assumes "invoke_provider E p arguments secret C hist = (r, hist')"
  shows "few_requests p (cc_idempotency C) hist hist'"
  using assms unfolding invoke_provider_def
  by (auto split: sum.splits prod.splits if_splits intro: few_requests_none few_requests_one few_requests_loop)

section \<open>Which targets are called\<close>

lemma first_refusal_Inr: "first_refusal zone as = Inr u \<longleftrightarrow> list_all (\<lambda>a. address_refused zone a = None) as"
  by (induction as) (auto split: option.split)

lemma validate_network_Inr:
  assumes "validate_network E endpoint zone config = Inr v"
  shows "\<exists>u host port addresses. urlparse (ge_ipv6_text E) endpoint [] = Some u \<and> u_scheme u \<in> {''http'', ''https''} \<and>
    url_hostname u = Some host \<and> ge_resolve E host port = Some addresses \<and>
    list_all (\<lambda>a. address_refused zone a = None) addresses"
  using assms
  by (auto simp: validate_network_def Let_def first_refusal_Inr split: option.splits if_splits)

lemma prepare_call_Inr:
  "prepare_call E p arguments secret = Inr x \<Longrightarrow>
     validate_network E (cr_endpoint (pv_revision p)) (cr_network_zone (pv_revision p)) (as_obj (cr_connection_config (pv_revision p))) = Inr ()"
  by (auto simp: prepare_call_def Let_def rbind_Inr)

lemma mcp_request_target:
  "mcp_request p C headers timeouts data = Inr rq \<Longrightarrow> prepare_call E p arguments secret = Inr x \<Longrightarrow>
     validate_network E (sn_target rq) (cr_network_zone (pv_revision p)) (as_obj (cr_connection_config (pv_revision p))) = Inr ()"
  using prepare_call_Inr [of E p arguments secret x] by (auto simp: mcp_request_def Let_def split: if_splits)

lemma http_request_target:
  "http_request E p headers timeouts data = Inr rq \<Longrightarrow>
     validate_network E (sn_target rq) (cr_network_zone (pv_revision p)) (as_obj (cr_connection_config (pv_revision p))) = Inr ()"
  by (auto simp: http_request_def Let_def rbind_Inr)

lemma invoke_provider_target:
  assumes "invoke_provider E p arguments secret C hist = (r, hist')" and "rq \<in> set hist'" and "rq \<notin> set hist"
  shows "validate_network E (sn_target rq) (cr_network_zone (pv_revision p)) (as_obj (cr_connection_config (pv_revision p))) = Inr ()"
proof -
  have attempts: "rq = q" if "http_attempts E q retries 0 n None hist = (a, hist')" for q retries n a
    using http_attempts_log [OF that] assms(2,3) by auto
  show ?thesis
    using assms unfolding invoke_provider_def
    by (auto split: sum.splits prod.splits if_splits dest: mcp_request_target http_request_target attempts)
qed

lemma address_accepted:
  "address_refused zone a = None \<longleftrightarrow>
     \<not> is_link_local a \<and> \<not> is_multicast a \<and> \<not> is_unspecified a \<and> a \<noteq> V4 0xA9FEA9FE \<and>
     (zone = ''dmz'' \<longrightarrow> \<not> is_private a \<and> \<not> is_loopback a)"
  by (auto simp: address_refused_def)

text \<open>The IPv4-mapped form of the metadata address is not recognised outside the DMZ.\<close>

lemma mapped_metadata_address_accepted:
  "address_refused ''internal'' (V6 0xFFFFA9FEA9FE) = None"
  unfolding address_accepted by (simp add: in_net_def)

text \<open>With three retries or more the loop ends after three timeouts without a status: an internal error.\<close>

lemma many_timeouts_internal:
  assumes "ge_http E = (\<lambda>_ _. No_answer T_timeout)" and "3 \<le> retries"
  shows "fst (http_attempts E rq retries 0 (nat (min retries 2 + 1)) None hist) = Inr None"
    and "http_result E None = Inl Other_exn"
  using assms by (simp_all add: http_result_def eval_nat_numeral)

end
