(* ===== verification/Gateway_Steps.thy ===== *)
theory Gateway_Steps
  imports Provider_Call Execution_Steps
begin

text \<open>
  The parts of a request to the Capability Gateway
  (\<open>services/mcp-gateway/hermes_mcp_gateway/capability_gateway.py\<close>): the state, the checks of
  the caller, bindings and providers, approval, quotas, the cache, the audit log, the trace of the
  execution and the responses. The local variables of \<open>invoke_capability\<close> that its \<open>except\<close>
  clauses read are part of the state, as \<open>gw_vars\<close>. One reading of the clock, \<open>gw_now\<close> in
  microseconds, serves a whole request.
\<close>

section \<open>State\<close>

record bound =
  bb_binding :: capability_binding
  bb_version :: capability_version
  bb_capability :: capability

record call_vars =
  lv_invocation_id :: "uuid option"
  lv_claims :: "dict option"
  lv_binding :: "bound option"
  lv_implementation :: "capability_implementation option"
  lv_arguments :: dict
  lv_execution_id :: string
  lv_tool_name :: string
  lv_authorized :: bool

text \<open>The cache holds texts with the instant up to which Redis keeps them.\<close>

record gateway =
  gw_db :: store
  gw_cap :: capability_store
  gw_cache :: "(string \<times> string \<times> int) list"
  gw_marks :: marks
  gw_sent :: "sent list"
  gw_now :: int
  gw_vars :: call_vars

type_synonym 'a gw = "gateway \<Rightarrow> (gateway_exn + 'a) \<times> gateway"
type_synonym response = "int \<times> json"

definition no_vars :: call_vars where
  "no_vars = \<lparr>lv_invocation_id = None, lv_claims = None, lv_binding = None, lv_implementation = None,
     lv_arguments = [], lv_execution_id = [], lv_tool_name = [], lv_authorized = False\<rparr>"

definition gread :: "(gateway \<Rightarrow> gateway_exn + 'a) \<Rightarrow> 'a gw" where
  "gread f w = (f w, w)"

definition gset :: "(call_vars \<Rightarrow> call_vars) \<Rightarrow> unit gw" where
  "gset f w = (Inr (), w\<lparr>gw_vars := f (gw_vars w)\<rparr>)"

definition gchange :: "(capability_store \<Rightarrow> capability_store) \<Rightarrow> unit gw" where
  "gchange f w = (Inr (), w\<lparr>gw_cap := f (gw_cap w)\<rparr>)"

definition seconds_now :: "gateway \<Rightarrow> int" where
  "seconds_now w = gw_now w div 1000000"

section \<open>The request\<close>

definition bearer :: "string option \<Rightarrow> gateway_exn + string" where
  "bearer header =
     (case header of
        Some h \<Rightarrow> if starts_with ''Bearer '' h then Inr (strip (drop 7 h))
                   else Inl (Access_denied ''access denied: missing bearer token'')
      | None \<Rightarrow> Inl (Access_denied ''access denied: missing bearer token''))"

definition verified_claims :: "gateway_env \<Rightarrow> string \<Rightarrow> gateway \<Rightarrow> gateway_exn + dict" where
  "verified_claims E token w =
     (case verify_capability_token (ge_loads E) (ge_hmac E) (ge_signing_key E) (seconds_now w) token of
        Inl (Token_refused m) \<Rightarrow> Inl (Access_denied m)
      | Inl Not_ascii \<Rightarrow> Inl Other_exn
      | Inr c \<Rightarrow> Inr c)"

definition ensure_not_revoked :: "gateway_env \<Rightarrow> dict \<Rightarrow> gateway \<Rightarrow> gateway_exn + unit" where
  "ensure_not_revoked E claims w =
     (case ge_redis E of
        No_redis \<Rightarrow> Inr ()
      | Redis_down \<Rightarrow> Inl Other_exn
      | Redis_up \<Rightarrow>
          if marked (gw_now w) (mark_key (as_str (dget claims ''jti''))) (gw_marks w)
          then Inl (denied (''Execution Token '' @ utf8 [0xE5, 0xB7, 0xB2, 0xE6, 0x92, 0xA4, 0xE9, 0x94, 0x80])) else Inr ())"

definition request_object :: "json option \<Rightarrow> gateway_exn + dict" where
  "request_object body =
     (case body of
        Some (JObj d) \<Rightarrow> Inr d
      | _ \<Rightarrow> Inl (Gateway_error ''INVALID_ARGUMENT'' (utf8 [0xE8, 0xAF, 0xB7, 0xE6, 0xB1, 0x82, 0xE5, 0xBF, 0x85, 0xE9, 0xA1, 0xBB, 0xE6, 0x98, 0xAF, 0x20, 0x4A, 0x53, 0x4F, 0x4E, 0x20, 0xE5, 0xAF, 0xB9, 0xE8, 0xB1, 0xA1])))"

text \<open>\<open>str(payload.get(key) or "")\<close>.\<close>

definition request_text :: "gateway_env \<Rightarrow> dict \<Rightarrow> string \<Rightarrow> string" where
  "request_text E payload key = py_str (ge_rep E) (py_or (dget payload key) (JStr []))"

definition version_text :: "execution_log \<Rightarrow> string" where
  "version_text e = (case ex_agent_version_id e of None \<Rightarrow> ''None'' | Some v \<Rightarrow> uuid_str v)"

definition execution_digest :: "execution_log \<Rightarrow> store \<Rightarrow> string option" where
  "execution_digest e db =
     Option.bind (ex_agent_version_id e) (\<lambda>v.
       Option.bind (row_get av_id v (rg_versions (db_registry db))) av_resolution_digest)"

definition authorized_execution :: "gateway_env \<Rightarrow> string \<Rightarrow> dict \<Rightarrow> gateway \<Rightarrow> gateway_exn + execution_log" where
  "authorized_execution E execution_id claims w =
     (case ge_cast E execution_id of
        None \<Rightarrow> Inl Other_exn
      | Some u \<Rightarrow>
          (case get_execution u (gw_db w) of
             None \<Rightarrow> Inl (denied (''Execution '' @ utf8 [0xE5, 0xBD, 0x93, 0xE5, 0x89, 0x8D, 0xE4, 0xB8, 0x8D, 0xE5, 0x8F, 0xAF, 0xE8, 0xB0, 0x83, 0xE7, 0x94, 0xA8, 0xE8, 0x83, 0xBD, 0xE5, 0x8A, 0x9B]))
           | Some e \<Rightarrow>
               if ex_status e \<noteq> X_running then Inl (denied (''Execution '' @ utf8 [0xE5, 0xBD, 0x93, 0xE5, 0x89, 0x8D, 0xE4, 0xB8, 0x8D, 0xE5, 0x8F, 0xAF, 0xE8, 0xB0, 0x83, 0xE7, 0x94, 0xA8, 0xE8, 0x83, 0xBD, 0xE5, 0x8A, 0x9B]))
               else if JStr (ex_agent_id e) \<noteq> dget claims ''agent_id'' \<or>
                       JStr (version_text e) \<noteq> dget claims ''agent_version_id'' \<or>
                       map_option JStr (execution_digest e (gw_db w)) \<noteq> Some (dget claims ''resolution_digest'')
               then Inl (denied (''Execution Token '' @ utf8 [0xE4, 0xB8, 0x8E, 0xE6, 0x89, 0xA7, 0xE8, 0xA1, 0x8C, 0xE5, 0xBF, 0xAB, 0xE7, 0x85, 0xA7, 0xE4, 0xB8, 0x8D, 0xE5, 0x8C, 0xB9, 0xE9, 0x85, 0x8D]))
               else Inr e))"

section \<open>Bindings and providers\<close>

definition joined_bindings :: "capability_store \<Rightarrow> bound list" where
  "joined_bindings cs =
     concat (map (\<lambda>b.
       case row_get cv_id (cb_capability_version_id b) (cs_versions cs) of
         None \<Rightarrow> []
       | Some v \<Rightarrow>
           (case row_get cp_id (cv_capability_id v) (cs_capabilities cs) of
              None \<Rightarrow> []
            | Some c \<Rightarrow> [\<lparr>bb_binding = b, bb_version = v, bb_capability = c\<rparr>])) (cs_bindings cs))"

definition binding_allowed :: "dict \<Rightarrow> bound \<Rightarrow> bool" where
  "binding_allowed claims b \<longleftrightarrow> JStr (uuid_str (cb_id (bb_binding b))) \<in> set (as_arr (dget claims ''allowed_bindings''))"

definition find_binding :: "gateway_env \<Rightarrow> dict \<Rightarrow> string \<Rightarrow> gateway \<Rightarrow> gateway_exn + bound option" where
  "find_binding E claims tool w =
     (case ge_cast E (as_str (dget claims ''agent_version_id'')) of
        None \<Rightarrow> Inl Other_exn
      | Some v \<Rightarrow>
          Inr (first_row (\<lambda>b. cb_agent_version_id (bb_binding b) = v \<and> cb_tool_alias (bb_binding b) = tool \<and>
                 cb_enabled (bb_binding b)) (joined_bindings (gw_cap w))))"

definition implementation_of :: "capability_binding \<Rightarrow> capability_store \<Rightarrow> capability_implementation option" where
  "implementation_of b cs =
     (case cb_implementation_id b of
        Some i \<Rightarrow> first_row (\<lambda>m. im_id m = i \<and> im_status m = ''active'') (cs_implementations cs)
      | None \<Rightarrow>
          first_by (\<lambda>m. (im_priority m, im_created_at m))
            (filter (\<lambda>m. im_capability_version_id m = cb_capability_version_id b \<and> im_status m = ''active'')
              (cs_implementations cs)))"

definition provider_of :: "capability_implementation \<Rightarrow> capability_binding \<Rightarrow> capability_store \<Rightarrow> provider option" where
  "provider_of m b cs =
     Option.bind (row_get co_id (im_connector_operation_id m) (cs_operations cs)) (\<lambda>op.
     Option.bind (row_get cn_id (co_connector_id op) (cs_connectors cs)) (\<lambda>c.
     Option.bind (row_get cr_id (im_connector_instance_revision_id m) (cs_revisions cs)) (\<lambda>r.
     Option.bind (row_get ci_id (cr_connector_instance_id r) (cs_instances cs)) (\<lambda>i.
     Some \<lparr>pv_operation = op, pv_connector = c, pv_revision = r, pv_instance = i,
           pv_credential = Option.bind (cr_credential_ref r) (\<lambda>k. row_get cd_id k (cs_credentials cs)),
           pv_scope = Option.bind (cb_resource_scope_revision_id b) (\<lambda>k. row_get sr_id k (cs_scopes cs))\<rparr>))))"

section \<open>Approval\<close>

definition approval_required :: "gateway_env \<Rightarrow> dict \<Rightarrow> bool" where
  "approval_required E policy \<longleftrightarrow>
     (let mode = upper (py_str (ge_rep E)
                   (py_or (py_or (dget policy ''mode'') (dget policy ''type'')) (JStr ''NONE''))) in
      truthy (dget policy ''required'') \<or> mode \<notin> {[], ''NONE'', ''DISABLED''})"

definition approved_id :: "gateway_env \<Rightarrow> json \<Rightarrow> string option" where
  "approved_id E item =
     (case item of
        JStr s \<Rightarrow> Some s
      | JObj d \<Rightarrow>
          if lower (py_str (ge_rep E) (py_or (dget d ''status'') (JStr []))) = ''approved''
          then Some (py_str (ge_rep E) (py_or (dget d ''binding_id'') (JStr []))) else None
      | _ \<Rightarrow> None)"

definition enforce_approval :: "gateway_env \<Rightarrow> capability_binding \<Rightarrow> execution_log \<Rightarrow> gateway_exn + unit" where
  "enforce_approval E b e =
     (if \<not> approval_required E (as_obj (cb_approval_policy b)) then Inr ()
      else let approvals = as_arr (dget (as_obj (ex_details e)) ''capability_approvals'') in
           if Some (uuid_str (cb_id b)) \<in> approved_id E ` set approvals then Inr ()
           else Inl (denied (''Capability '' @ utf8 [0xE8, 0xB0, 0x83, 0xE7, 0x94, 0xA8, 0xE9, 0x9C, 0x80, 0xE8, 0xA6, 0x81, 0xE5, 0x85, 0x88, 0xE5, 0xAE, 0x8C, 0xE6, 0x88, 0x90, 0xE5, 0xAE, 0xA1, 0xE6, 0x89, 0xB9])))"

section \<open>Quotas\<close>

definition count_where :: "('r \<Rightarrow> bool) \<Rightarrow> 'r list \<Rightarrow> int" where
  "count_where p rows = int (length (filter p rows))"

definition last_minute :: "int \<Rightarrow> capability_invocation \<Rightarrow> bool" where
  "last_minute t v \<longleftrightarrow> t - 60000000 \<le> iv_created_at v"

definition enforce_quota ::
  "gateway_env \<Rightarrow> capability_binding \<Rightarrow> provider \<Rightarrow> uuid \<Rightarrow> int \<Rightarrow> capability_invocation list \<Rightarrow> gateway_exn + unit"
where
  "enforce_quota E b p execution t rows =
     (let quota = as_obj (cb_quota_policy b);
          mine = filter (\<lambda>v. iv_binding_id v = Some (cb_id b)) rows;
          instance_quota = json_object E (dget (as_obj (cr_connection_config (pv_revision p))) ''quota_policy'');
          theirs = filter (\<lambda>v. iv_connector_instance_revision_id v = Some (cr_id (pv_revision p))) rows in
      rbind (int_setting E quota ''calls_per_execution'' 20) (\<lambda>per_execution.
      rbind (int_setting E quota ''calls_per_minute'' 60) (\<lambda>per_minute.
      rbind (int_setting E quota ''max_concurrency'' 2) (\<lambda>concurrency.
      if per_execution \<le> count_where (\<lambda>v. iv_execution_id v = execution) mine \<or>
         per_minute \<le> count_where (last_minute t) mine \<or>
         concurrency \<le> count_where (\<lambda>v. iv_status v = I_pending) mine
      then Inl (Gateway_error ''RATE_LIMITED'' (''Capability '' @ utf8 [0xE8, 0xB0, 0x83, 0xE7, 0x94, 0xA8, 0xE8, 0xBE, 0xBE, 0xE5, 0x88, 0xB0, 0xE9, 0x85, 0x8D, 0xE9, 0xA2, 0x9D, 0xE6, 0x88, 0x96, 0xE5, 0xB9, 0xB6, 0xE5, 0x8F, 0x91, 0xE4, 0xB8, 0x8A, 0xE9, 0x99, 0x90]))
      else
      rbind (int_setting E instance_quota ''calls_per_minute'' 600) (\<lambda>instance_minute.
      rbind (int_setting E instance_quota ''max_concurrency'' 20) (\<lambda>instance_concurrency.
      if instance_minute \<le> count_where (last_minute t) theirs \<or>
         instance_concurrency \<le> count_where (\<lambda>v. iv_status v = I_pending) theirs
      then Inl (Gateway_error ''RATE_LIMITED'' (''Connector Instance '' @ utf8 [0xE8, 0xBE, 0xBE, 0xE5, 0x88, 0xB0, 0xE5, 0x85, 0xA8, 0xE5, 0xB1, 0x80, 0xE9, 0x85, 0x8D, 0xE9, 0xA2, 0x9D, 0xE6, 0x88, 0x96, 0xE5, 0xB9, 0xB6, 0xE5, 0x8F, 0x91, 0xE4, 0xB8, 0x8A, 0xE9, 0x99, 0x90]))
      else Inr ()))))))"

section \<open>The cache\<close>

definition opt_id :: "uuid option \<Rightarrow> json" where
  "opt_id v = (case v of None \<Rightarrow> JNull | Some u \<Rightarrow> JStr (uuid_str u))"

definition cache_material :: "bound \<Rightarrow> capability_implementation \<Rightarrow> dict \<Rightarrow> dict \<Rightarrow> json" where
  "cache_material b m claims arguments =
     JObj [(''agent_id'', dget claims ''agent_id''), (''binding_id'', JStr (uuid_str (cb_id (bb_binding b)))),
       (''capability'', JStr (cp_key (bb_capability b))), (''version'', JStr (cv_version (bb_version b))),
       (''connector_revision'', JStr (uuid_str (im_connector_instance_revision_id m))),
       (''scope_revision'', opt_id (cb_resource_scope_revision_id (bb_binding b))), (''arguments'', JObj arguments)]"

definition cache_key :: "gateway_env \<Rightarrow> bound \<Rightarrow> capability_implementation \<Rightarrow> dict \<Rightarrow> dict \<Rightarrow> string" where
  "cache_key E b m claims arguments =
     ''hermes:capability-cache:'' @ ge_sha256 E (ge_sorted_dumps E (cache_material b m claims arguments))"

definition cache_ttl :: "gateway_env \<Rightarrow> capability_version \<Rightarrow> int" where
  "cache_ttl E v =
     (let policy = as_obj (cv_cache_policy v) in
      if cv_side_effect v \<noteq> ''READ_ONLY'' \<or> \<not> truthy (dget policy ''enabled'') then 0
      else case int_setting E policy ''ttl_seconds'' 0 of Inl _ \<Rightarrow> 0 | Inr ttl \<Rightarrow> min (max ttl 0) 3600)"

text \<open>\<open>None\<close> stands for no usable entry: none, an expired one, or the text of \<open>null\<close>.\<close>

definition cache_get :: "gateway_env \<Rightarrow> bound \<Rightarrow> capability_implementation \<Rightarrow> dict \<Rightarrow> dict \<Rightarrow> gateway \<Rightarrow> json option" where
  "cache_get E b m claims arguments w =
     (if ge_redis E \<noteq> Redis_up \<or> cache_ttl E (bb_version b) \<le> 0 then None
      else case map_of (gw_cache w) (cache_key E b m claims arguments) of
        None \<Rightarrow> None
      | Some (s, e) \<Rightarrow>
          if e \<le> gw_now w then None
          else (case ge_loads E s of Some JNull \<Rightarrow> None | v \<Rightarrow> v))"

definition cache_set :: "gateway_env \<Rightarrow> bound \<Rightarrow> capability_implementation \<Rightarrow> dict \<Rightarrow> dict \<Rightarrow> json \<Rightarrow> unit gw" where
  "cache_set E b m claims arguments v w =
     (if ge_redis E \<noteq> Redis_up \<or> cache_ttl E (bb_version b) \<le> 0 then (Inr (), w)
      else (Inr (), w\<lparr>gw_cache := AList.update (cache_key E b m claims arguments)
              (ge_dumps E v, gw_now w + cache_ttl E (bb_version b) * 1000000) (gw_cache w)\<rparr>))"

section \<open>Summaries\<close>

fun bounded :: "json \<Rightarrow> json" where
  "bounded (JStr s) = JStr (py_take 500 s)"
| "bounded (JArr xs) = JArr (take 20 (map bounded xs))"
| "bounded (JObj d) = JObj (take 20 (map (\<lambda>(k, v). (k, bounded v)) d))"
| "bounded v = v"

definition secret_key :: "string \<Rightarrow> bool" where
  "secret_key k \<longleftrightarrow> list_ex (\<lambda>part. has_substring part (lower k)) [''token'', ''secret'', ''password'', ''api_key'']"

definition summary :: "json \<Rightarrow> json" where
  "summary v =
     (case v of
        JObj d \<Rightarrow>
          JObj (map (\<lambda>(k, x). (k, if secret_key k then JStr ''[REDACTED]'' else bounded x))
            (filter (\<lambda>(k, x). k \<noteq> ''resource_scope'') (take 50 d)))
      | _ \<Rightarrow> JObj [(''value'', bounded v)])"

section \<open>The audit log\<close>

definition pending_row ::
  "dict \<Rightarrow> bound \<Rightarrow> capability_implementation \<Rightarrow> uuid \<Rightarrow> string \<Rightarrow> json \<Rightarrow> int \<Rightarrow> uuid \<Rightarrow> capability_invocation"
where
  "pending_row claims b m execution tool input t u =
     \<lparr>iv_id = u, iv_execution_id = execution, iv_agent_id = as_str (dget claims ''agent_id''),
      iv_agent_version_id = Some (cb_agent_version_id (bb_binding b)), iv_binding_id = Some (cb_id (bb_binding b)),
      iv_capability_key = cp_key (bb_capability b), iv_capability_version = cv_version (bb_version b),
      iv_tool_alias = tool, iv_connector_instance_revision_id = Some (im_connector_instance_revision_id m),
      iv_resource_scope_revision_id = cb_resource_scope_revision_id (bb_binding b), iv_status = I_pending,
      iv_input_summary = input, iv_output_summary = JObj [], iv_error_code = None, iv_latency_ms = None,
      iv_cache_hit = False, iv_created_at = t, iv_finished_at = None\<rparr>"

definition add_invocation :: "capability_invocation \<Rightarrow> capability_store \<Rightarrow> capability_store" where
  "add_invocation v cs = cs\<lparr>cs_invocations := cs_invocations cs @ [v]\<rparr>"

definition upd_invocation ::
  "uuid \<Rightarrow> (capability_invocation \<Rightarrow> capability_invocation) \<Rightarrow> capability_store \<Rightarrow> capability_store"
where
  "upd_invocation u f cs = cs\<lparr>cs_invocations := row_upd iv_id u f (cs_invocations cs)\<rparr>"

text \<open>\<open>_finish\<close>.\<close>

definition finished_row ::
  "invocation_status \<Rightarrow> int \<Rightarrow> json \<Rightarrow> string option \<Rightarrow> bool \<Rightarrow> int \<Rightarrow> capability_invocation \<Rightarrow> capability_invocation"
where
  "finished_row s latency output err hit t v =
     v\<lparr>iv_status := s, iv_latency_ms := Some latency, iv_output_summary := output, iv_error_code := err,
       iv_cache_hit := hit, iv_finished_at := Some t\<rparr>"

definition finish ::
  "gateway_env \<Rightarrow> uuid \<Rightarrow> invocation_status \<Rightarrow> json \<Rightarrow> string option \<Rightarrow> bool \<Rightarrow> unit gw"
where
  "finish E u s output err hit w =
     gchange (upd_invocation u (finished_row s (max 0 (ge_latency E)) output err hit (gw_now w))) w"

text \<open>\<open>_audit_failure\<close>: a new row, or the status, code, latency and end of the one there is.\<close>

definition failure_status :: "string \<Rightarrow> invocation_status" where
  "failure_status code = (if code = ''PERMISSION_DENIED'' then I_denied else I_failed)"

definition failure_row :: "call_vars \<Rightarrow> uuid \<Rightarrow> uuid option \<Rightarrow> string \<Rightarrow> int \<Rightarrow> int \<Rightarrow> uuid \<Rightarrow> capability_invocation" where
  "failure_row l execution version code latency t u =
     \<lparr>iv_id = u, iv_execution_id = execution,
      iv_agent_id = (case lv_claims l of None \<Rightarrow> [] | Some c \<Rightarrow> as_str (dget c ''agent_id'')),
      iv_agent_version_id = version, iv_binding_id = map_option (cb_id \<circ> bb_binding) (lv_binding l),
      iv_capability_key = (case lv_binding l of None \<Rightarrow> ''unknown'' | Some b \<Rightarrow> cp_key (bb_capability b)),
      iv_capability_version = (case lv_binding l of None \<Rightarrow> ''unknown'' | Some b \<Rightarrow> cv_version (bb_version b)),
      iv_tool_alias = (if lv_tool_name l = [] then ''unknown'' else lv_tool_name l),
      iv_connector_instance_revision_id = map_option im_connector_instance_revision_id (lv_implementation l),
      iv_resource_scope_revision_id = Option.bind (lv_binding l) (cb_resource_scope_revision_id \<circ> bb_binding),
      iv_status = failure_status code, iv_input_summary = summary (JObj (lv_arguments l)),
      iv_output_summary = JObj [], iv_error_code = Some code, iv_latency_ms = Some latency,
      iv_cache_hit = False, iv_created_at = t, iv_finished_at = Some t\<rparr>"

definition failed_row :: "string \<Rightarrow> int \<Rightarrow> int \<Rightarrow> capability_invocation \<Rightarrow> capability_invocation" where
  "failed_row code latency t v =
     v\<lparr>iv_status := failure_status code, iv_error_code := Some code, iv_latency_ms := Some latency,
       iv_finished_at := Some t\<rparr>"

definition upsert_failure ::
  "call_vars \<Rightarrow> uuid \<Rightarrow> uuid option \<Rightarrow> string \<Rightarrow> int \<Rightarrow> int \<Rightarrow> uuid \<Rightarrow> capability_store \<Rightarrow> capability_store"
where
  "upsert_failure l execution version code latency t u cs =
     (if row_get iv_id u (cs_invocations cs) = None
      then add_invocation (failure_row l execution version code latency t u) cs
      else upd_invocation u (failed_row code latency t) cs)"

definition new_invocation_id :: "uuid gw" where
  "new_invocation_id w =
     (Inr (cs_next_id (gw_cap w)), w\<lparr>gw_cap := (gw_cap w)\<lparr>cs_next_id := Suc (cs_next_id (gw_cap w))\<rparr>\<rparr>)"

definition failure_casts :: "gateway_env \<Rightarrow> gateway \<Rightarrow> (uuid \<times> uuid) option" where
  "failure_casts E w =
     (case (ge_cast E (lv_execution_id (gw_vars w)),
            ge_cast E (case lv_claims (gw_vars w) of None \<Rightarrow> [] | Some c \<Rightarrow> as_str (dget c ''agent_version_id''))) of
        (Some x, Some v) \<Rightarrow> Some (x, v)
      | _ \<Rightarrow> None)"

definition audit_failure :: "gateway_env \<Rightarrow> string \<Rightarrow> uuid gw" where
  "audit_failure E code =
     abind (\<lambda>w. case lv_invocation_id (gw_vars w) of Some u \<Rightarrow> (Inr u, w) | None \<Rightarrow> new_invocation_id w) (\<lambda>u.
     abind (gread (\<lambda>w. case failure_casts E w of None \<Rightarrow> Inl Other_exn | Some y \<Rightarrow> Inr y)) (\<lambda>(x, v) w.
     abind (gchange (upsert_failure (gw_vars w) x (Some v) code (max 0 (ge_latency E)) (gw_now w) u)) (\<lambda>_.
     aret u) w))"

section \<open>The trace of the execution\<close>

definition trace_event :: "gateway_env \<Rightarrow> string \<Rightarrow> uuid \<Rightarrow> bound \<Rightarrow> gateway \<Rightarrow> json" where
  "trace_event E event u b w =
     JObj [(''event'', JStr event), (''invocation_id'', JStr (uuid_str u)), (''capability'', JStr (cp_key (bb_capability b))),
       (''tool_name'', JStr (cb_tool_alias (bb_binding b))), (''status'', JStr ''succeeded''),
       (''latency_ms'', JInt (max 0 (ge_latency E))), (''timestamp'', JStr (ge_isoformat E (gw_now w)))]"

text \<open>
  \<open>jsonb_set(COALESCE(details, '{}'), '{capability_events}', COALESCE(..., '[]') || event)\<close>; a
  JSON null in the column is taken as an SQL null. Setting a key of anything but an object fails.
\<close>

definition append_events :: "json \<Rightarrow> json \<Rightarrow> json option" where
  "append_events details event =
     (case (if details = JNull then JObj [] else details) of
        JObj d \<Rightarrow>
          Some (JObj (dset ''capability_events''
            (case map_of d ''capability_events'' of
               None \<Rightarrow> JArr [event]
             | Some (JArr xs) \<Rightarrow> JArr (xs @ [event])
             | Some v \<Rightarrow> JArr [v, event]) d))
      | _ \<Rightarrow> None)"

definition trace :: "gateway_env \<Rightarrow> string \<Rightarrow> uuid \<Rightarrow> bound \<Rightarrow> unit gw" where
  "trace E event u b w =
     (case ge_cast E (lv_execution_id (gw_vars w)) of
        None \<Rightarrow> (Inl Other_exn, w)
      | Some x \<Rightarrow>
          (case get_execution x (gw_db w) of
             None \<Rightarrow> (Inr (), w)
           | Some e \<Rightarrow>
               (case append_events (ex_details e) (trace_event E event u b w) of
                  None \<Rightarrow> (Inl Other_exn, w)
                | Some d \<Rightarrow> (Inr (), w\<lparr>gw_db := upd_execution x (\<lambda>e. e\<lparr>ex_details := d\<rparr>) (gw_db w)\<rparr>))))"

section \<open>Responses\<close>

definition error_response :: "string \<Rightarrow> string \<Rightarrow> uuid option \<Rightarrow> response" where
  "error_response code message u =
     ((case map_of standard_errors code of Some n \<Rightarrow> n | None \<Rightarrow> 500),
      JObj [(''invocation_id'', opt_id u), (''status'', JStr ''FAILED''),
        (''error'', JObj [(''code'', JStr code), (''message'', JStr message)])])"

definition renewal :: "gateway_env \<Rightarrow> dict \<Rightarrow> gateway \<Rightarrow> json" where
  "renewal E claims w =
     (if ge_renew_before E \<le> as_int (dget claims ''exp'') - seconds_now w then JNull
      else JStr (renew_capability_token (ge_sorted_dumps E) (ge_hmac E) (ge_signing_key E) (ge_token_ttl E)
             (seconds_now w) claims))"

definition success_response ::
  "gateway_env \<Rightarrow> dict \<Rightarrow> bound \<Rightarrow> capability_implementation \<Rightarrow> uuid \<Rightarrow> json \<Rightarrow> bool \<Rightarrow> gateway \<Rightarrow> response"
where
  "success_response E claims b m u v hit w =
     (200, JObj [(''invocation_id'', JStr (uuid_str u)), (''status'', JStr ''SUCCEEDED''), (''data'', v),
        (''metadata'', JObj [(''capability'', JStr (cp_key (bb_capability b))), (''version'', JStr (cv_version (bb_version b))),
           (''latency_ms'', JInt (max 0 (ge_latency E))),
           (''provider_revision'', JStr (uuid_str (im_connector_instance_revision_id m))),
           (''cache_hit'', JBool hit), (''token_renewal'', renewal E claims w)])])"

end
