(* ===== verification/Capability_Resolver.thy ===== *)
theory Capability_Resolver
  imports Gateway_Steps
begin

text \<open>
  The resolution of the capabilities of an Agent version
  (\<open>backend/app/capabilities/resolver.py\<close>): which tools it has, with which implementations, and
  what stands in the way of running it. \<open>rep\<close> is Python's \<open>str\<close> of numbers, lists and dicts; the
  digest is over JSON with sorted keys, with SHA-256 a parameter. The digits of version numbers
  are ASCII.
\<close>

section \<open>Versions and ranges\<close>

definition semver :: "string \<Rightarrow> int \<times> int \<times> int" where
  "semver s =
     (case split_on CHR ''.'' s of
        [a, b, c] \<Rightarrow>
          (if a = [] \<or> b = [] \<or> c = [] then (-1, -1, -1)
           else case (parse_nat 0 a, parse_nat 0 b, parse_nat 0 c) of
             (Some x, Some y, Some z) \<Rightarrow> (int x, int y, int z)
           | _ \<Rightarrow> (-1, -1, -1))
      | _ \<Rightarrow> (-1, -1, -1))"

text \<open>The operator of a token and what follows it.\<close>

definition range_operator :: "string \<Rightarrow> string \<times> string" where
  "range_operator t =
     (if starts_with ''>='' t \<or> starts_with ''<='' t then (take 2 t, drop 2 t)
      else if t \<noteq> [] \<and> hd t \<in> {CHR ''>'', CHR ''<'', CHR ''=''} then (take 1 t, drop 1 t)
      else (''='', t))"

definition token_satisfied :: "int \<times> int \<times> int \<Rightarrow> string \<Rightarrow> bool" where
  "token_satisfied current token =
     (case range_operator token of (operator, text) \<Rightarrow>
        (let target = semver text in
         if target = (-1, -1, -1) then False
         else if operator = ''>='' \<and> \<not> target \<le> current then False
         else if operator = ''<='' \<and> \<not> current \<le> target then False
         else if operator = ''>'' \<and> \<not> target < current then False
         else if operator = ''<'' \<and> \<not> current < target then False
         else if operator = ''='' \<and> current \<noteq> target then False
         else True))"

text \<open>\<open>s.split()\<close>.\<close>

definition py_words :: "string \<Rightarrow> string list" where
  "py_words s = filter (\<lambda>w. w \<noteq> []) (split_on CHR '' '' (map (\<lambda>c. if is_space c then CHR '' '' else c) s))"

definition version_satisfies :: "string \<Rightarrow> string \<Rightarrow> bool" where
  "version_satisfies version version_range =
     (let expression = strip version_range in
      expression \<in> {[], ''*''} \<or> list_all (token_satisfied (semver version)) (py_words expression))"

section \<open>Issues and results\<close>

record preflight_issue =
  pi_code :: string
  pi_path :: string
  pi_message :: string
  pi_severity :: string

definition issue :: "string \<Rightarrow> string \<Rightarrow> string \<Rightarrow> preflight_issue" where
  "issue code path message = \<lparr>pi_code = code, pi_path = path, pi_message = message, pi_severity = ''error''\<rparr>"

record resolved_capability =
  rc_binding_id :: string
  rc_tool_name :: string
  rc_capability_key :: string
  rc_capability_version :: string
  rc_description :: string
  rc_input_schema :: json
  rc_output_schema :: json
  rc_implementation_id :: string
  rc_connector_operation_id :: string
  rc_connector_instance_revision_id :: string
  rc_resource_scope_revision_id :: "string option"
  rc_parameter_policy :: json
  rc_quota_policy :: json
  rc_approval_policy :: json

definition tool_json :: "resolved_capability \<Rightarrow> json" where
  "tool_json t =
     JObj [(''binding_id'', JStr (rc_binding_id t)), (''tool_name'', JStr (rc_tool_name t)),
       (''capability_key'', JStr (rc_capability_key t)), (''capability_version'', JStr (rc_capability_version t)),
       (''description'', JStr (rc_description t)), (''input_schema'', rc_input_schema t),
       (''output_schema'', rc_output_schema t), (''implementation_id'', JStr (rc_implementation_id t)),
       (''connector_operation_id'', JStr (rc_connector_operation_id t)),
       (''connector_instance_revision_id'', JStr (rc_connector_instance_revision_id t)),
       (''resource_scope_revision_id'', opt_str (rc_resource_scope_revision_id t)),
       (''parameter_policy'', rc_parameter_policy t), (''quota_policy'', rc_quota_policy t),
       (''approval_policy'', rc_approval_policy t)]"

record capability_resolution =
  rn_agent_version_id :: string
  rn_format_version :: int
  rn_legacy :: bool
  rn_tools :: "resolved_capability list"
  rn_issues :: "preflight_issue list"
  rn_resolution_digest :: string
  rn_runtime_features :: json

definition ready :: "capability_resolution \<Rightarrow> bool" where
  "ready r \<longleftrightarrow> \<not> list_ex (\<lambda>i. pi_severity i = ''error'') (rn_issues r)"

definition issue_json :: "preflight_issue \<Rightarrow> json" where
  "issue_json i =
     JObj [(''code'', JStr (pi_code i)), (''path'', JStr (pi_path i)), (''message'', JStr (pi_message i)),
       (''severity'', JStr (pi_severity i))]"

definition resolution_json :: "capability_resolution \<Rightarrow> json" where
  "resolution_json r =
     JObj [(''agent_version_id'', JStr (rn_agent_version_id r)), (''format_version'', JInt (rn_format_version r)),
       (''legacy'', JBool (rn_legacy r)), (''state'', JStr (if ready r then ''READY'' else ''NEEDS_CONFIGURATION'')),
       (''tools'', JArr (map tool_json (rn_tools r))), (''issues'', JArr (map issue_json (rn_issues r))),
       (''resolution_digest'', JStr (rn_resolution_digest r)), (''runtime_features'', rn_runtime_features r)]"

section \<open>The runtime\<close>

text \<open>\<open>v.get(key)\<close>.\<close>

definition json_get :: "json \<Rightarrow> string \<Rightarrow> py_error + json" where
  "json_get v key = (case v of JObj d \<Rightarrow> Inr (dget d key) | _ \<Rightarrow> Inl Attribute_error)"

fun missing_features :: "(json \<Rightarrow> string) \<Rightarrow> json \<Rightarrow> json list \<Rightarrow> py_error + preflight_issue list" where
  "missing_features rep features [] = Inr []"
| "missing_features rep features (name # names) =
     rbind (json_get features (py_str rep name)) (\<lambda>v.
     rbind (missing_features rep features names) (\<lambda>is.
     Inr ((if truthy v then []
           else [issue ''RUNTIME_FEATURE_MISMATCH'' (''runtime.required_features.'' @ py_str rep name)
             (utf8 [0xE5, 0xBD, 0x93, 0xE5, 0x89, 0x8D, 0x20, 0x52, 0x75, 0x6E, 0x74, 0x69, 0x6D, 0x65, 0x20, 0xE4, 0xB8, 0x8D, 0xE6, 0x94, 0xAF, 0xE6, 0x8C, 0x81, 0x20] @ py_str rep name)]) @ is)))"

text \<open>The latest profile that was observed of the version of the runtime.\<close>

definition latest_profile :: "agent_runtime \<Rightarrow> capability_store \<Rightarrow> feature_profile option" where
  "latest_profile r cs =
     first_by (\<lambda>p. - fp_observed_at p)
       (filter (\<lambda>p. fp_runtime_registry_id p = rt_id r \<and> fp_runtime_version p = rt_version r) (cs_profiles cs))"

definition runtime_features ::
  "(json \<Rightarrow> string) \<Rightarrow> capability_store \<Rightarrow> dict \<Rightarrow> py_error + preflight_issue list \<times> json"
where
  "runtime_features rep cs snapshot =
     (let runtime = as_obj (dget snapshot ''runtime'');
          raw = dget runtime ''runtime_id'';
          required = as_arr (dget runtime ''required_features'') in
      if \<not> truthy raw then Inr ([issue ''RUNTIME_REQUIRED'' ''runtime'' (utf8 [0xE8, 0xAF, 0xB7, 0xE9, 0x80, 0x89, 0xE6, 0x8B, 0xA9, 0xE5, 0x8F, 0xAF, 0xE7, 0x94, 0xA8, 0x20, 0x52, 0x75, 0x6E, 0x74, 0x69, 0x6D, 0x65])], JObj [])
      else case parse_uuid (py_str rep raw) of
        None \<Rightarrow> Inr ([issue ''RUNTIME_REQUIRED'' ''runtime.runtime_id'' (utf8 [0x52, 0x75, 0x6E, 0x74, 0x69, 0x6D, 0x65, 0x20, 0x49, 0x44, 0x20, 0xE6, 0x97, 0xA0, 0xE6, 0x95, 0x88])], JObj [])
      | Some u \<Rightarrow>
          (case row_get rt_id u (cs_runtimes cs) of
             None \<Rightarrow> Inr ([issue ''RUNTIME_UNAVAILABLE'' ''runtime'' (utf8 [0xE5, 0xBD, 0x93, 0xE5, 0x89, 0x8D, 0x20, 0x52, 0x75, 0x6E, 0x74, 0x69, 0x6D, 0x65, 0x20, 0xE4, 0xB8, 0x8D, 0xE5, 0x8F, 0xAF, 0xE7, 0x94, 0xA8])], JObj [])
           | Some r \<Rightarrow>
               if rt_status r \<in> {''offline'', ''disabled''}
               then Inr ([issue ''RUNTIME_UNAVAILABLE'' ''runtime'' (utf8 [0xE5, 0xBD, 0x93, 0xE5, 0x89, 0x8D, 0x20, 0x52, 0x75, 0x6E, 0x74, 0x69, 0x6D, 0x65, 0x20, 0xE4, 0xB8, 0x8D, 0xE5, 0x8F, 0xAF, 0xE7, 0x94, 0xA8])], JObj [])
               else let features = (case latest_profile r cs of None \<Rightarrow> JObj [] | Some p \<Rightarrow> fp_features p) in
                 rbind (missing_features rep features required) (\<lambda>is. Inr (is, features))))"

section \<open>Requirements of Skills\<close>

fun skill_versions :: "(json \<Rightarrow> string) \<Rightarrow> json list \<Rightarrow> preflight_issue list \<times> uuid list" where
  "skill_versions rep [] = ([], [])"
| "skill_versions rep (item # items) =
     (case skill_versions rep items of (is, us) \<Rightarrow>
        let raw = dget (as_obj item) ''skill_version_id'' in
        if \<not> truthy raw then (is, us)
        else case parse_uuid (py_str rep raw) of
          Some u \<Rightarrow> (is, u # us)
        | None \<Rightarrow> (issue ''SKILL_VERSION_INVALID'' ''skills'' (utf8 [0x53, 0x6B, 0x69, 0x6C, 0x6C, 0x20, 0x56, 0x65, 0x72, 0x73, 0x69, 0x6F, 0x6E, 0x20, 0x49, 0x44, 0x20, 0xE6, 0x97, 0xA0, 0xE6, 0x95, 0x88]) # is, us))"

text \<open>
  \<open>{capability.key: binding ...}.get(key)\<close> and \<open>{binding.tool_alias: binding ...}.get(alias)\<close>: the
  last row of a key counts.
\<close>

definition by_alias :: "bound list \<Rightarrow> string \<Rightarrow> bound option" where
  "by_alias rows a = find (\<lambda>b. cb_tool_alias (bb_binding b) = a) (rev rows)"

definition by_capability :: "bound list \<Rightarrow> string \<Rightarrow> bound option" where
  "by_capability rows k = find (\<lambda>b. cp_key (bb_capability b) = k) (rev rows)"

definition required_binding :: "bound list \<Rightarrow> skill_requirement \<Rightarrow> capability_binding option" where
  "required_binding rows q =
     map_option bb_binding
       (case by_alias rows (sq_alias q) of Some b \<Rightarrow> Some b | None \<Rightarrow> by_capability rows (sq_capability_key q))"

definition requirement_issues :: "capability_store \<Rightarrow> bound list \<Rightarrow> skill_requirement \<Rightarrow> preflight_issue list" where
  "requirement_issues cs rows q =
     (if \<not> sq_required q then []
      else case required_binding rows q of
        None \<Rightarrow> [issue ''CAPABILITY_NOT_BOUND'' (''skills.capability_requirements.'' @ sq_alias q)
          (utf8 [0xE7, 0xBC, 0xBA, 0xE5, 0xB0, 0x91, 0xE6, 0x89, 0x80, 0xE9, 0x9C, 0x80, 0xE8, 0x83, 0xBD, 0xE5, 0x8A, 0x9B, 0x20] @ sq_capability_key q)]
      | Some b \<Rightarrow>
          (case row_get cv_id (cb_capability_version_id b) (cs_versions cs) of
             Some v \<Rightarrow>
               (if version_satisfies (cv_version v) (sq_version_range q) then []
                else [issue ''CONTRACT_VERSION_MISMATCH'' (''skills.capability_requirements.'' @ sq_alias q)
                  (utf8 [0xE8, 0x83, 0xBD, 0xE5, 0x8A, 0x9B, 0x20] @ sq_capability_key q @ utf8 [0x20, 0xE7, 0x89, 0x88, 0xE6, 0x9C, 0xAC, 0xE4, 0xB8, 0x8D, 0xE6, 0xBB, 0xA1, 0xE8, 0xB6, 0xB3, 0x20] @ sq_version_range q)])
           | None \<Rightarrow> [issue ''CONTRACT_VERSION_MISMATCH'' (''skills.capability_requirements.'' @ sq_alias q)
               (utf8 [0xE8, 0x83, 0xBD, 0xE5, 0x8A, 0x9B, 0x20] @ sq_capability_key q @ utf8 [0x20, 0xE7, 0x89, 0x88, 0xE6, 0x9C, 0xAC, 0xE4, 0xB8, 0x8D, 0xE6, 0xBB, 0xA1, 0xE8, 0xB6, 0xB3, 0x20] @ sq_version_range q)]))"

definition skill_issues ::
  "(json \<Rightarrow> string) \<Rightarrow> capability_store \<Rightarrow> dict \<Rightarrow> bound list \<Rightarrow> preflight_issue list"
where
  "skill_issues rep cs snapshot rows =
     (case skill_versions rep (as_arr (dget snapshot ''skills'')) of (is, us) \<Rightarrow>
        is @ concat (map (requirement_issues cs rows)
               (filter (\<lambda>q. sq_skill_version_id q \<in> set us) (cs_requirements cs))))"

section \<open>Tools\<close>

definition resolver_implementation :: "capability_binding \<Rightarrow> uuid \<Rightarrow> capability_store \<Rightarrow> capability_implementation option" where
  "resolver_implementation b version_id cs =
     (case cb_implementation_id b of
        Some i \<Rightarrow>
          (case row_get im_id i (cs_implementations cs) of
             Some m \<Rightarrow> if im_status m = ''active'' then Some m else None
           | None \<Rightarrow> None)
      | None \<Rightarrow>
          first_by (\<lambda>m. (im_priority m, im_created_at m))
            (filter (\<lambda>m. im_capability_version_id m = version_id \<and> im_status m = ''active'') (cs_implementations cs)))"

definition binding_path :: "capability_binding \<Rightarrow> string" where
  "binding_path b = ''capability_bindings.'' @ cb_tool_alias b"

definition scope_issues ::
  "(json \<Rightarrow> string) \<Rightarrow> capability_store \<Rightarrow> bound \<Rightarrow> connector_operation \<Rightarrow> connector_revision \<Rightarrow>
     py_error + preflight_issue list"
where
  "scope_issues rep cs b op r =
     (let path = binding_path (bb_binding b) @ ''.resource_scope_revision_id''; key = cp_key (bb_capability b) in
      case row_get cn_id (co_connector_id op) (cs_connectors cs) of
        None \<Rightarrow> Inr []
      | Some c \<Rightarrow>
          if cn_type c \<notin> set database_types then Inr []
          else case Option.bind (cb_resource_scope_revision_id (bb_binding b)) (\<lambda>s. row_get sr_id s (cs_scopes cs)) of
            None \<Rightarrow> Inr [issue ''RESOURCE_SCOPE_REQUIRED'' path
              (utf8 [0xE6, 0x95, 0xB0, 0xE6, 0x8D, 0xAE, 0xE5, 0xBA, 0x93, 0xE8, 0x83, 0xBD, 0xE5, 0x8A, 0x9B, 0x20] @ key @ utf8 [0x20, 0xE5, 0xBF, 0x85, 0xE9, 0xA1, 0xBB, 0xE7, 0xBB, 0x91, 0xE5, 0xAE, 0x9A, 0xE5, 0x8D, 0x95, 0xE6, 0x95, 0xB0, 0xE6, 0x8D, 0xAE, 0xE5, 0xBA, 0x93, 0x20, 0x53, 0x63, 0x6F, 0x70, 0x65, 0x20, 0x52, 0x65, 0x76, 0x69, 0x73, 0x69, 0x6F, 0x6E])]
          | Some s \<Rightarrow>
              rbind (json_get (py_or (sr_scope_definition s) (JObj [])) ''connector_revision_id'') (\<lambda>v.
              Inr (if py_str rep v \<noteq> uuid_str (cr_id r)
                   then [issue ''RESOURCE_SCOPE_MISMATCH'' path
                     (utf8 [0xE6, 0x95, 0xB0, 0xE6, 0x8D, 0xAE, 0xE5, 0xBA, 0x93, 0xE8, 0x83, 0xBD, 0xE5, 0x8A, 0x9B, 0x20] @ key @ utf8 [0x20, 0xE7, 0x9A, 0x84, 0x20, 0x53, 0x63, 0x6F, 0x70, 0x65, 0x20, 0xE4, 0xB8, 0x8E, 0x20, 0x43, 0x6F, 0x6E, 0x6E, 0x65, 0x63, 0x74, 0x6F, 0x72, 0x20, 0x52, 0x65, 0x76, 0x69, 0x73, 0x69, 0x6F, 0x6E, 0x20, 0xE4, 0xB8, 0x8D, 0xE5, 0x8C, 0xB9, 0xE9, 0x85, 0x8D])]
                   else [])))"

definition resolved_tool ::
  "bound \<Rightarrow> capability_implementation \<Rightarrow> connector_operation \<Rightarrow> connector_revision \<Rightarrow> resolved_capability"
where
  "resolved_tool b m op r =
     \<lparr>rc_binding_id = uuid_str (cb_id (bb_binding b)), rc_tool_name = cb_tool_alias (bb_binding b),
      rc_capability_key = cp_key (bb_capability b), rc_capability_version = cv_version (bb_version b),
      rc_description = (case cp_description (bb_capability b) of Some (x # xs) \<Rightarrow> x # xs | _ \<Rightarrow> cp_display_name (bb_capability b)),
      rc_input_schema = py_or (cv_input_schema (bb_version b)) (JObj []),
      rc_output_schema = py_or (cv_output_schema (bb_version b)) (JObj []),
      rc_implementation_id = uuid_str (im_id m), rc_connector_operation_id = uuid_str (co_id op),
      rc_connector_instance_revision_id = uuid_str (cr_id r),
      rc_resource_scope_revision_id = map_option uuid_str (cb_resource_scope_revision_id (bb_binding b)),
      rc_parameter_policy = py_or (cb_parameter_policy (bb_binding b)) (JObj []),
      rc_quota_policy = py_or (cb_quota_policy (bb_binding b)) (JObj []),
      rc_approval_policy = py_or (cb_approval_policy (bb_binding b)) (JObj [])\<rparr>"

definition resolve_binding ::
  "(json \<Rightarrow> string) \<Rightarrow> capability_store \<Rightarrow> bound \<Rightarrow> py_error + preflight_issue list \<times> resolved_capability list"
where
  "resolve_binding rep cs b =
     (let path = binding_path (bb_binding b); key = cp_key (bb_capability b) in
      if cv_status (bb_version b) \<notin> {''published'', ''deprecated''}
      then Inr ([issue ''CONTRACT_VERSION_MISMATCH'' path
             (utf8 [0xE8, 0x83, 0xBD, 0xE5, 0x8A, 0x9B, 0x20] @ key @ ''@'' @ cv_version (bb_version b) @ utf8 [0x20, 0xE5, 0xB0, 0x9A, 0xE6, 0x9C, 0xAA, 0xE5, 0x8F, 0x91, 0xE5, 0xB8, 0x83])], [])
      else case resolver_implementation (bb_binding b) (cv_id (bb_version b)) cs of
        None \<Rightarrow> Inr ([issue ''CAPABILITY_IMPLEMENTATION_MISSING'' path (utf8 [0xE8, 0x83, 0xBD, 0xE5, 0x8A, 0x9B, 0x20] @ key @ utf8 [0x20, 0xE6, 0xB2, 0xA1, 0xE6, 0x9C, 0x89, 0xE5, 0x8F, 0xAF, 0xE7, 0x94, 0xA8, 0xE5, 0xAE, 0x9E, 0xE7, 0x8E, 0xB0])], [])
      | Some m \<Rightarrow>
          (case (row_get co_id (im_connector_operation_id m) (cs_operations cs),
                 row_get cr_id (im_connector_instance_revision_id m) (cs_revisions cs)) of
             (Some op, Some r) \<Rightarrow>
               let health =
                 (case row_get ci_id (cr_connector_instance_id r) (cs_instances cs) of
                    Some i \<Rightarrow> if ci_enabled i \<and> ci_health_status i \<noteq> ''offline'' then []
                      else [issue ''PROVIDER_UNHEALTHY'' path (utf8 [0xE8, 0x83, 0xBD, 0xE5, 0x8A, 0x9B, 0x20] @ key @ utf8 [0x20, 0xE7, 0x9A, 0x84, 0xE8, 0xBF, 0x9E, 0xE6, 0x8E, 0xA5, 0xE5, 0xBD, 0x93, 0xE5, 0x89, 0x8D, 0xE4, 0xB8, 0x8D, 0xE5, 0x8F, 0xAF, 0xE7, 0x94, 0xA8])]
                  | None \<Rightarrow> [issue ''PROVIDER_UNHEALTHY'' path (utf8 [0xE8, 0x83, 0xBD, 0xE5, 0x8A, 0x9B, 0x20] @ key @ utf8 [0x20, 0xE7, 0x9A, 0x84, 0xE8, 0xBF, 0x9E, 0xE6, 0x8E, 0xA5, 0xE5, 0xBD, 0x93, 0xE5, 0x89, 0x8D, 0xE4, 0xB8, 0x8D, 0xE5, 0x8F, 0xAF, 0xE7, 0x94, 0xA8])]) in
               rbind (scope_issues rep cs b op r) (\<lambda>is. Inr (health @ is, [resolved_tool b m op r]))
           | _ \<Rightarrow> Inr ([issue ''CAPABILITY_IMPLEMENTATION_MISSING'' path (utf8 [0xE8, 0x83, 0xBD, 0xE5, 0x8A, 0x9B, 0x20] @ key @ utf8 [0x20, 0xE7, 0x9A, 0x84, 0xE8, 0xBF, 0x9E, 0xE6, 0x8E, 0xA5, 0xE5, 0xAE, 0x9E, 0xE7, 0x8E, 0xB0, 0xE4, 0xB8, 0x8D, 0xE5, 0xAE, 0x8C, 0xE6, 0x95, 0xB4])], [])))"

fun resolve_bindings ::
  "(json \<Rightarrow> string) \<Rightarrow> capability_store \<Rightarrow> bound list \<Rightarrow> py_error + preflight_issue list \<times> resolved_capability list"
where
  "resolve_bindings rep cs [] = Inr ([], [])"
| "resolve_bindings rep cs (b # bs) =
     rbind (resolve_binding rep cs b) (\<lambda>(is, ts).
     rbind (resolve_bindings rep cs bs) (\<lambda>(js, us). Inr (is @ js, ts @ us)))"

section \<open>The resolution\<close>

definition resolution_digest :: "(json \<Rightarrow> string) \<Rightarrow> (string \<Rightarrow> string) \<Rightarrow> json \<Rightarrow> string" where
  "resolution_digest dumps sha256 v = ''sha256:'' @ sha256 (dumps v)"

definition bound_rows :: "agent_version \<Rightarrow> capability_store \<Rightarrow> bound list" where
  "bound_rows v cs =
     sort_key (cb_tool_alias \<circ> bb_binding)
       (filter (\<lambda>b. cb_agent_version_id (bb_binding b) = av_id v \<and> cb_enabled (bb_binding b)) (joined_bindings cs))"

text \<open>The runtime must have the dispatcher when there is anything to call.\<close>

definition gateway_issues :: "(json \<Rightarrow> string) \<Rightarrow> json \<Rightarrow> bound list \<Rightarrow> py_error + preflight_issue list" where
  "gateway_issues rep features rows =
     (if rows = [] then Inr []
      else rbind (json_get features ''capability_gateway'') (\<lambda>g.
        if truthy g then Inr []
        else rbind (json_get features ''runtime_type'') (\<lambda>t.
          Inr [issue ''RUNTIME_FEATURE_MISMATCH'' ''runtime.required_features.capability_gateway''
            (py_str rep (py_or t (JStr (utf8 [0xE5, 0xBD, 0x93, 0xE5, 0x89, 0x8D]))) @ utf8 [0x20, 0x52, 0x75, 0x6E, 0x74, 0x69, 0x6D, 0x65, 0x20, 0xE5, 0xB0, 0x9A, 0xE6, 0x9C, 0xAA, 0xE6, 0x8F, 0x90, 0xE4, 0xBE, 0x9B, 0xE4, 0xB8, 0x8D, 0xE5, 0x90, 0x91, 0xE6, 0xA8, 0xA1, 0xE5, 0x9E, 0x8B, 0xE6, 0x9A, 0xB4, 0xE9, 0x9C, 0xB2, 0x20, 0x54, 0x6F, 0x6B, 0x65, 0x6E, 0x20, 0xE7, 0x9A, 0x84, 0xE5, 0x8A, 0xA8, 0xE6, 0x80, 0x81, 0x20, 0x43, 0x61, 0x70, 0x61, 0x62, 0x69, 0x6C, 0x69, 0x74, 0x79, 0x20, 0x44, 0x69, 0x73, 0x70, 0x61, 0x74, 0x63, 0x68, 0x65, 0x72])])))"

definition resolve_agent_capabilities ::
  "(json \<Rightarrow> string) \<Rightarrow> (json \<Rightarrow> string) \<Rightarrow> (string \<Rightarrow> string) \<Rightarrow> capability_store \<Rightarrow> agent_version \<Rightarrow>
     py_error + capability_resolution"
where
  "resolve_agent_capabilities rep dumps sha256 cs v =
     (let snapshot = av_snapshot v; id = uuid_str (av_id v) in
      rbind (py_int rep (py_or (py_or (dget snapshot ''format_version'') (JInt (av_snapshot_format_version v))) (JInt 1)))
        (\<lambda>format_version.
      if format_version = 1
      then Inr \<lparr>rn_agent_version_id = id, rn_format_version = 1, rn_legacy = True, rn_tools = [], rn_issues = [],
             rn_resolution_digest = resolution_digest dumps sha256
               (JObj [(''format_version'', JInt 1), (''agent_version_id'', JStr id)]),
             rn_runtime_features = JObj []\<rparr>
      else let rows = bound_rows v cs in
      rbind (runtime_features rep cs snapshot) (\<lambda>(is1, features).
      rbind (gateway_issues rep features rows) (\<lambda>is2.
      rbind (resolve_bindings rep cs rows) (\<lambda>(is4, tools).
      Inr \<lparr>rn_agent_version_id = id, rn_format_version = 2, rn_legacy = False, rn_tools = tools,
           rn_issues = is1 @ is2 @ skill_issues rep cs snapshot rows @ is4,
           rn_resolution_digest = resolution_digest dumps sha256
             (JObj [(''agent_version_id'', JStr id), (''runtime_features'', features), (''tools'', JArr (map tool_json tools))]),
           rn_runtime_features = features\<rparr>)))))"

end
