(* ===== verification/Capability_Gateway.thy ===== *)
theory Capability_Gateway
  imports Gateway_Steps
begin

text \<open>
  The Capability Gateway (\<open>services/mcp-gateway/hermes_mcp_gateway/capability_gateway.py\<close>): what
  \<open>resolve_capabilities\<close> and \<open>invoke_capability\<close> do from the bearer token to the response. The
  transaction under advisory locks, which checks the quotas and inserts the row of the
  invocation, is one step.
\<close>

section \<open>Listing the tools of an execution\<close>

definition tool_entry :: "bound \<Rightarrow> json" where
  "tool_entry b =
     (let v = bb_version b; c = bb_capability b in
      JObj [(''binding_id'', JStr (uuid_str (cb_id (bb_binding b)))), (''tool_name'', JStr (cb_tool_alias (bb_binding b))),
        (''capability'', JStr (cp_key c)), (''version'', JStr (cv_version v)),
        (''description'', JStr (case cp_description c of Some (x # xs) \<Rightarrow> x # xs | _ \<Rightarrow> cp_display_name c)),
        (''input_schema'', JObj (as_obj (cv_input_schema v))), (''output_schema'', JObj (as_obj (cv_output_schema v))),
        (''side_effect'', JStr (cv_side_effect v)), (''idempotency'', JStr (cv_idempotency v))])"

definition resolve_body :: "gateway_env \<Rightarrow> string option \<Rightarrow> json option \<Rightarrow> gateway \<Rightarrow> gateway_exn + response" where
  "resolve_body E header body w =
     rbind (bearer header) (\<lambda>token.
     rbind (verified_claims E token w) (\<lambda>claims.
     rbind (ensure_not_revoked E claims w) (\<lambda>_.
     rbind (request_object body) (\<lambda>payload.
     let execution_id = request_text E payload ''execution_id'' in
     if JStr execution_id \<noteq> dget claims ''execution_id''
     then Inl (Gateway_error ''INVALID_ARGUMENT'' (''execution_id '' @ utf8 [0xE4, 0xB8, 0x8E, 0x20, 0x45, 0x78, 0x65, 0x63, 0x75, 0x74, 0x69, 0x6F, 0x6E, 0x20, 0x54, 0x6F, 0x6B, 0x65, 0x6E, 0x20, 0xE4, 0xB8, 0x8D, 0xE5, 0x8C, 0xB9, 0xE9, 0x85, 0x8D]))
     else
     rbind (authorized_execution E execution_id claims w) (\<lambda>_.
     case ge_cast E (as_str (dget claims ''agent_version_id'')) of
       None \<Rightarrow> Inl Other_exn
     | Some v \<Rightarrow>
         let rows = sort_key (cb_tool_alias \<circ> bb_binding)
               (filter (\<lambda>b. cb_agent_version_id (bb_binding b) = v \<and> cb_enabled (bb_binding b) \<and> binding_allowed claims b)
                  (joined_bindings (gw_cap w))) in
         Inr (200, JObj [(''status'', JStr ''SUCCEEDED''), (''execution_id'', JStr execution_id),
           (''resolution_digest'', dget claims ''resolution_digest''), (''tools'', JArr (map tool_entry rows)),
           (''metadata'', JObj [(''token_renewal'', renewal E claims w)])]))))))"

definition internal_message :: string where
  "internal_message = ''Capability Gateway '' @ utf8 [0xE5, 0x86, 0x85, 0xE9, 0x83, 0xA8, 0xE9, 0x94, 0x99, 0xE8, 0xAF, 0xAF]"

definition resolve_capabilities :: "gateway_env \<Rightarrow> string option \<Rightarrow> json option \<Rightarrow> response gw" where
  "resolve_capabilities E header body w =
     (case resolve_body E header body w of
        Inr r \<Rightarrow> (Inr r, w)
      | Inl (Access_denied m) \<Rightarrow> (Inr (error_response ''PERMISSION_DENIED'' m None), w)
      | Inl (Gateway_error c m) \<Rightarrow> (Inr (error_response c m None), w)
      | Inl Task_cancelled \<Rightarrow> (Inl Task_cancelled, w)
      | Inl _ \<Rightarrow> (Inr (error_response ''INTERNAL_ERROR'' internal_message None), w))"

section \<open>Invoking a tool\<close>

text \<open>From the token to the payload and the execution.\<close>

definition admit_request :: "gateway_env \<Rightarrow> string option \<Rightarrow> json option \<Rightarrow> (string \<times> dict \<times> execution_log) gw" where
  "admit_request E header body =
     abind (gread (\<lambda>w. bearer header)) (\<lambda>token.
     abind (gread (verified_claims E token)) (\<lambda>claims.
     abind (gset (\<lambda>l. l\<lparr>lv_claims := Some claims\<rparr>)) (\<lambda>_.
     abind (gread (ensure_not_revoked E claims)) (\<lambda>_.
     abind (gread (\<lambda>w. request_object body)) (\<lambda>payload.
     let execution_id = request_text E payload ''execution_id''; tool = request_text E payload ''tool_name'' in
     abind (gset (\<lambda>l. l\<lparr>lv_execution_id := execution_id, lv_tool_name := tool\<rparr>)) (\<lambda>_.
     if JStr execution_id \<noteq> dget claims ''execution_id'' \<or> tool = [] \<or> \<not> is_obj (dget payload ''arguments'')
     then araise (Gateway_error ''INVALID_ARGUMENT'' (utf8 [0x65, 0x78, 0x65, 0x63, 0x75, 0x74, 0x69, 0x6F, 0x6E, 0x5F, 0x69, 0x64, 0xE3, 0x80, 0x81, 0x74, 0x6F, 0x6F, 0x6C, 0x5F, 0x6E, 0x61, 0x6D, 0x65, 0x20, 0xE6, 0x88, 0x96, 0x20, 0x61, 0x72, 0x67, 0x75, 0x6D, 0x65, 0x6E, 0x74, 0x73, 0x20, 0xE6, 0x97, 0xA0, 0xE6, 0x95, 0x88]))
     else
     abind (gset (\<lambda>l. l\<lparr>lv_arguments := as_obj (dget payload ''arguments'')\<rparr>)) (\<lambda>_.
     abind (gread (authorized_execution E execution_id claims)) (\<lambda>e.
     abind (gset (\<lambda>l. l\<lparr>lv_authorized := True\<rparr>)) (\<lambda>_.
     aret (token, claims, e))))))))))"

text \<open>The binding, its implementation and its provider.\<close>

definition find_target :: "gateway_env \<Rightarrow> dict \<Rightarrow> (bound \<times> capability_implementation \<times> provider) gw" where
  "find_target E claims =
     abind (\<lambda>w. gread (find_binding E claims (lv_tool_name (gw_vars w))) w) (\<lambda>found.
     abind (gset (\<lambda>l. l\<lparr>lv_binding := found\<rparr>)) (\<lambda>_.
     case found of
       None \<Rightarrow> araise (denied (utf8 [0xE5, 0xBD, 0x93, 0xE5, 0x89, 0x8D, 0x20, 0x41, 0x67, 0x65, 0x6E, 0x74, 0x20, 0x56, 0x65, 0x72, 0x73, 0x69, 0x6F, 0x6E, 0x20, 0xE6, 0x9C, 0xAA, 0xE7, 0xBB, 0x91, 0xE5, 0xAE, 0x9A, 0xE8, 0xAF, 0xA5, 0xE8, 0x83, 0xBD, 0xE5, 0x8A, 0x9B]))
     | Some b \<Rightarrow>
         if \<not> binding_allowed claims b then araise (denied (utf8 [0xE5, 0xBD, 0x93, 0xE5, 0x89, 0x8D, 0x20, 0x41, 0x67, 0x65, 0x6E, 0x74, 0x20, 0x56, 0x65, 0x72, 0x73, 0x69, 0x6F, 0x6E, 0x20, 0xE6, 0x9C, 0xAA, 0xE7, 0xBB, 0x91, 0xE5, 0xAE, 0x9A, 0xE8, 0xAF, 0xA5, 0xE8, 0x83, 0xBD, 0xE5, 0x8A, 0x9B]))
         else
         abind (\<lambda>w. (Inr (implementation_of (bb_binding b) (gw_cap w)), w)) (\<lambda>impl.
         abind (gset (\<lambda>l. l\<lparr>lv_implementation := impl\<rparr>)) (\<lambda>_.
         case impl of
           None \<Rightarrow> araise (Gateway_error ''PROVIDER_UNAVAILABLE'' (utf8 [0xE8, 0x83, 0xBD, 0xE5, 0x8A, 0x9B, 0xE6, 0xB2, 0xA1, 0xE6, 0x9C, 0x89, 0xE5, 0x8F, 0xAF, 0xE7, 0x94, 0xA8, 0xE5, 0xAE, 0x9E, 0xE7, 0x8E, 0xB0]))
         | Some m \<Rightarrow>
             abind (\<lambda>w. (Inr (provider_of m (bb_binding b) (gw_cap w)), w)) (\<lambda>provider.
             case provider of
               None \<Rightarrow> araise (Gateway_error ''PROVIDER_UNAVAILABLE'' (''Connector '' @ utf8 [0xE5, 0xBD, 0x93, 0xE5, 0x89, 0x8D, 0xE4, 0xB8, 0x8D, 0xE5, 0x8F, 0xAF, 0xE7, 0x94, 0xA8]))
             | Some p \<Rightarrow>
                 if \<not> ci_enabled (pv_instance p) \<or> ci_health_status (pv_instance p) = ''offline''
                 then araise (Gateway_error ''PROVIDER_UNAVAILABLE'' (''Connector '' @ utf8 [0xE5, 0xBD, 0x93, 0xE5, 0x89, 0x8D, 0xE4, 0xB8, 0x8D, 0xE5, 0x8F, 0xAF, 0xE7, 0x94, 0xA8]))
                 else aret (b, m, p))))))"

definition lift_policy :: "policy_error + 'a \<Rightarrow> gateway_exn + 'a" where
  "lift_policy r =
     (case r of
        Inr x \<Rightarrow> Inr x
      | Inl (Policy_denied m) \<Rightarrow> Inl (denied m)
      | Inl (Policy_invalid m) \<Rightarrow> Inl (Gateway_error ''INVALID_ARGUMENT'' m)
      | Inl (Policy_crash e) \<Rightarrow> Inl Other_exn)"

text \<open>Approval, the schema of the input and the parameter policy.\<close>

definition checked_arguments ::
  "gateway_env \<Rightarrow> bound \<Rightarrow> provider \<Rightarrow> execution_log \<Rightarrow> dict \<Rightarrow> gateway_exn + dict"
where
  "checked_arguments E b p e arguments =
     rbind (enforce_approval E (bb_binding b) e) (\<lambda>_.
     case ge_validate E (JObj arguments) (as_obj (cv_input_schema (bb_version b))) of
       Bad_schema \<Rightarrow> Inl Other_exn
     | Invalid m \<Rightarrow> Inl (Gateway_error ''INVALID_ARGUMENT'' (''Capability '' @ utf8 [0xE8, 0xBE, 0x93, 0xE5, 0x85, 0xA5, 0xE4, 0xB8, 0x8D, 0xE7, 0xAC, 0xA6, 0xE5, 0x90, 0x88, 0xE5, 0xA5, 0x91, 0xE7, 0xBA, 0xA6, 0xEF, 0xBC, 0x9A] @ m))
     | Valid \<Rightarrow>
         lift_policy (gateway_policy (ge_rep E) arguments (as_obj (cb_parameter_policy (bb_binding b)))
           (case pv_scope p of None \<Rightarrow> [] | Some s \<Rightarrow> as_obj (sr_scope_definition s))))"

text \<open>The transaction: quotas, then the row of the invocation.\<close>

definition admit_invocation ::
  "gateway_env \<Rightarrow> dict \<Rightarrow> bound \<Rightarrow> capability_implementation \<Rightarrow> provider \<Rightarrow> dict \<Rightarrow> uuid gw"
where
  "admit_invocation E claims b m p arguments =
     abind new_invocation_id (\<lambda>u.
     abind (gset (\<lambda>l. l\<lparr>lv_invocation_id := Some u\<rparr>)) (\<lambda>_.
     abind (gread (\<lambda>w. case ge_cast E (lv_execution_id (gw_vars w)) of None \<Rightarrow> Inl Other_exn | Some x \<Rightarrow> Inr x)) (\<lambda>x.
     abind (gread (\<lambda>w. enforce_quota E (bb_binding b) p x (gw_now w) (cs_invocations (gw_cap w)))) (\<lambda>_ w.
     abind (gchange (add_invocation (pending_row claims b m x (lv_tool_name (gw_vars w))
        (summary (JObj arguments)) (gw_now w) u))) (\<lambda>_. aret u) w))))"

definition answer_from_cache ::
  "gateway_env \<Rightarrow> dict \<Rightarrow> bound \<Rightarrow> capability_implementation \<Rightarrow> uuid \<Rightarrow> json \<Rightarrow> response gw"
where
  "answer_from_cache E claims b m u v =
     abind (finish E u I_succeeded (summary v) None True) (\<lambda>_.
     abind (trace E ''capability_cache_hit'' u b) (\<lambda>_.
     gread (\<lambda>w. Inr (success_response E claims b m u v True w))))"

definition provider_secret :: "gateway_env \<Rightarrow> provider \<Rightarrow> gateway_exn + string option" where
  "provider_secret E p =
     (case pv_credential p of
        None \<Rightarrow> Inr None
      | Some c \<Rightarrow>
          if cd_encrypted_payload c = [] \<or> cn_type (pv_connector p) \<in> set database_types then Inr None
          else (case ge_master_key E of
                  None \<Rightarrow> Inl (Gateway_error ''PROVIDER_UNAVAILABLE'' (''Connector '' @ utf8 [0xE5, 0x87, 0xAD, 0xE6, 0x8D, 0xAE, 0xE5, 0x8A, 0xA0, 0xE5, 0xAF, 0x86, 0xE4, 0xB8, 0xBB, 0xE5, 0xAF, 0x86, 0xE9, 0x92, 0xA5, 0xE6, 0x9C, 0xAA, 0xE9, 0x85, 0x8D, 0xE7, 0xBD, 0xAE]))
                | Some k \<Rightarrow>
                    (case ge_decrypt E k (cd_encrypted_payload c) of
                       None \<Rightarrow> Inl (Gateway_error ''PROVIDER_UNAVAILABLE'' (''Connector '' @ utf8 [0xE5, 0x87, 0xAD, 0xE6, 0x8D, 0xAE, 0xE6, 0x97, 0xA0, 0xE6, 0xB3, 0x95, 0xE8, 0xA7, 0xA3, 0xE5, 0xAF, 0x86]))
                     | Some s \<Rightarrow> Inr (Some s))))"

definition provider_step :: "gateway_env \<Rightarrow> string \<Rightarrow> bound \<Rightarrow> provider \<Rightarrow> dict \<Rightarrow> json gw" where
  "provider_step E token b p arguments =
     abind (gread (\<lambda>w. provider_secret E p)) (\<lambda>secret w.
     (case invoke_provider E p arguments secret
        \<lparr>cc_token = token, cc_execution_id = lv_execution_id (gw_vars w), cc_binding_id = uuid_str (cb_id (bb_binding b)),
         cc_scope_revision_id = map_option uuid_str (cb_resource_scope_revision_id (bb_binding b)),
         cc_idempotency = cv_idempotency (bb_version b)\<rparr> (gw_sent w) of
        (r, sent) \<Rightarrow> (r, w\<lparr>gw_sent := sent\<rparr>)))"

definition answer_from_provider ::
  "gateway_env \<Rightarrow> string \<Rightarrow> dict \<Rightarrow> bound \<Rightarrow> capability_implementation \<Rightarrow> provider \<Rightarrow> dict \<Rightarrow> uuid \<Rightarrow> response gw"
where
  "answer_from_provider E token claims b m p arguments u =
     abind (provider_step E token b p arguments) (\<lambda>result.
     let mapped = map_response E result (as_obj (co_response_mapping (pv_operation p))) in
     abind (gread (\<lambda>w. case ge_validate E mapped (as_obj (cv_output_schema (bb_version b))) of
         Bad_schema \<Rightarrow> Inl Other_exn
       | Invalid msg \<Rightarrow> Inl (Gateway_error ''OUTPUT_INVALID'' (''Connector '' @ utf8 [0xE8, 0xBE, 0x93, 0xE5, 0x87, 0xBA, 0xE4, 0xB8, 0x8D, 0xE7, 0xAC, 0xA6, 0xE5, 0x90, 0x88, 0xE5, 0xA5, 0x91, 0xE7, 0xBA, 0xA6, 0xEF, 0xBC, 0x9A] @ msg))
       | Valid \<Rightarrow> Inr ())) (\<lambda>_.
     abind (cache_set E b m claims arguments mapped) (\<lambda>_.
     abind (finish E u I_succeeded (summary mapped) None False) (\<lambda>_.
     abind (trace E ''connector_invoked'' u b) (\<lambda>_.
     gread (\<lambda>w. Inr (success_response E claims b m u mapped False w)))))))"

definition usable_cache :: "gateway_env \<Rightarrow> bound \<Rightarrow> json option \<Rightarrow> gateway_exn + json option" where
  "usable_cache E b cached =
     (case cached of
        None \<Rightarrow> Inr None
      | Some v \<Rightarrow>
          (case ge_validate E v (as_obj (cv_output_schema (bb_version b))) of
             Bad_schema \<Rightarrow> Inl Other_exn
           | Invalid _ \<Rightarrow> Inr None
           | Valid \<Rightarrow> Inr (Some v)))"

definition invoke_body :: "gateway_env \<Rightarrow> string option \<Rightarrow> json option \<Rightarrow> response gw" where
  "invoke_body E header body =
     abind (admit_request E header body) (\<lambda>(token, claims, e).
     abind (find_target E claims) (\<lambda>(b, m, p).
     abind (\<lambda>w. gread (\<lambda>_. checked_arguments E b p e (lv_arguments (gw_vars w))) w) (\<lambda>arguments.
     abind (admit_invocation E claims b m p arguments) (\<lambda>u.
     abind (gread (\<lambda>w. usable_cache E b (cache_get E b m claims arguments w))) (\<lambda>cached.
     case cached of
       Some v \<Rightarrow> answer_from_cache E claims b m u v
     | None \<Rightarrow> answer_from_provider E token claims b m p arguments u)))))"

text \<open>The \<open>except\<close> clauses. A cancelled request passes all of them.\<close>

definition audited :: "gateway \<Rightarrow> bool" where
  "audited w \<longleftrightarrow> lv_claims (gw_vars w) \<noteq> None \<and> lv_execution_id (gw_vars w) \<noteq> [] \<and> lv_authorized (gw_vars w)"

definition respond_error :: "gateway_env \<Rightarrow> string \<Rightarrow> string \<Rightarrow> response gw" where
  "respond_error E code message w =
     (if audited w
      then abind (audit_failure E code) (\<lambda>u. aret (error_response code message (Some u))) w
      else (Inr (error_response code message (lv_invocation_id (gw_vars w))), w))"

definition respond_http_error :: "gateway_env \<Rightarrow> string \<Rightarrow> string \<Rightarrow> response gw" where
  "respond_http_error E code message w =
     (case lv_invocation_id (gw_vars w) of
        None \<Rightarrow> (Inr (error_response code message None), w)
      | Some u \<Rightarrow>
          abind (finish E u I_failed (JObj []) (Some code) False) (\<lambda>_. aret (error_response code message (Some u))) w)"

definition invoke_capability :: "gateway_env \<Rightarrow> string option \<Rightarrow> json option \<Rightarrow> response gw" where
  "invoke_capability E header body w =
     (case invoke_body E header body (w\<lparr>gw_vars := no_vars\<rparr>) of
        (Inr r, w') \<Rightarrow> (Inr r, w')
      | (Inl e, w') \<Rightarrow>
          (case e of
             Access_denied m \<Rightarrow> (Inr (error_response ''PERMISSION_DENIED'' m None), w')
           | Gateway_error c m \<Rightarrow> respond_error E c m w'
           | Http_timeout \<Rightarrow> respond_http_error E ''TIMEOUT'' (''Connector '' @ utf8 [0xE8, 0xB0, 0x83, 0xE7, 0x94, 0xA8, 0xE8, 0xB6, 0x85, 0xE6, 0x97, 0xB6]) w'
           | Http_failure \<Rightarrow> respond_http_error E ''PROVIDER_UNAVAILABLE'' (''Connector '' @ utf8 [0xE8, 0xB0, 0x83, 0xE7, 0x94, 0xA8, 0xE5, 0xA4, 0xB1, 0xE8, 0xB4, 0xA5]) w'
           | Other_exn \<Rightarrow> respond_error E ''INTERNAL_ERROR'' internal_message w'
           | Task_cancelled \<Rightarrow> (Inl Task_cancelled, w')))"

end
