(* ===== verification/Capability_Gateway_Correct.thy ===== *)
theory Capability_Gateway_Correct
  imports Capability_Gateway
begin

text \<open>
  What the Capability Gateway guarantees: when a provider is called, how failures are recorded,
  how the quotas bound the invocations whatever the interleaving of requests, and which answers
  come from the cache.
\<close>

section \<open>What the stages change\<close>

text \<open>Before the provider is called a request changes its variables and the rows of invocations.\<close>

definition same_config :: "capability_store \<Rightarrow> capability_store \<Rightarrow> bool" where
  "same_config cs cs' \<longleftrightarrow>
     cs_capabilities cs' = cs_capabilities cs \<and> cs_versions cs' = cs_versions cs \<and>
     cs_credentials cs' = cs_credentials cs \<and> cs_connectors cs' = cs_connectors cs \<and>
     cs_instances cs' = cs_instances cs \<and> cs_revisions cs' = cs_revisions cs \<and>
     cs_operations cs' = cs_operations cs \<and> cs_implementations cs' = cs_implementations cs \<and>
     cs_scopes cs' = cs_scopes cs \<and> cs_bindings cs' = cs_bindings cs"

definition same_base :: "gateway \<Rightarrow> gateway \<Rightarrow> bool" where
  "same_base w w' \<longleftrightarrow>
     gw_db w' = gw_db w \<and> gw_cache w' = gw_cache w \<and> gw_marks w' = gw_marks w \<and> gw_sent w' = gw_sent w \<and>
     gw_now w' = gw_now w \<and> same_config (gw_cap w) (gw_cap w')"

lemma same_base_refl [simp]: "same_base w w"
  by (simp add: same_base_def same_config_def)

lemma same_base_trans [trans]: "same_base w w1 \<Longrightarrow> same_base w1 w2 \<Longrightarrow> same_base w w2"
  by (simp add: same_base_def same_config_def)

lemma same_base_vars [simp]: "same_base w (w\<lparr>gw_vars := l\<rparr>)"
  by (simp add: same_base_def same_config_def)

lemma same_base_fields:
  assumes "same_base w w'"
  shows "gw_db w' = gw_db w" "gw_cache w' = gw_cache w" "gw_marks w' = gw_marks w" "gw_sent w' = gw_sent w"
    "gw_now w' = gw_now w" "seconds_now w' = seconds_now w"
  using assms by (simp_all add: same_base_def seconds_now_def)

lemma same_base_reads:
  assumes "same_base w w'"
  shows "joined_bindings (gw_cap w') = joined_bindings (gw_cap w)"
    "implementation_of b (gw_cap w') = implementation_of b (gw_cap w)"
    "provider_of m b (gw_cap w') = provider_of m b (gw_cap w)"
    "verified_claims E token w' = verified_claims E token w"
    "ensure_not_revoked E claims w' = ensure_not_revoked E claims w"
    "authorized_execution E x claims w' = authorized_execution E x claims w"
    "find_binding E claims tool w' = find_binding E claims tool w"
proof -
  have c: "cs_capabilities (gw_cap w') = cs_capabilities (gw_cap w)" "cs_versions (gw_cap w') = cs_versions (gw_cap w)"
    "cs_credentials (gw_cap w') = cs_credentials (gw_cap w)" "cs_connectors (gw_cap w') = cs_connectors (gw_cap w)"
    "cs_instances (gw_cap w') = cs_instances (gw_cap w)" "cs_revisions (gw_cap w') = cs_revisions (gw_cap w)"
    "cs_operations (gw_cap w') = cs_operations (gw_cap w)"
    "cs_implementations (gw_cap w') = cs_implementations (gw_cap w)"
    "cs_scopes (gw_cap w') = cs_scopes (gw_cap w)" "cs_bindings (gw_cap w') = cs_bindings (gw_cap w)"
    using assms by (simp_all add: same_base_def same_config_def)
  show j: "joined_bindings (gw_cap w') = joined_bindings (gw_cap w)"
    unfolding joined_bindings_def c by (rule refl)
  show "implementation_of b (gw_cap w') = implementation_of b (gw_cap w)"
    "provider_of m b (gw_cap w') = provider_of m b (gw_cap w)"
    unfolding implementation_of_def provider_of_def c by (rule refl)+
  show "verified_claims E token w' = verified_claims E token w"
    "ensure_not_revoked E claims w' = ensure_not_revoked E claims w"
    "authorized_execution E x claims w' = authorized_execution E x claims w"
    unfolding verified_claims_def ensure_not_revoked_def authorized_execution_def same_base_fields [OF assms]
    by (rule refl)+
  show "find_binding E claims tool w' = find_binding E claims tool w"
    unfolding find_binding_def j by (rule refl)
qed

lemma abind_cases:
  assumes "abind f g w = (r, w')"
  obtains (stops) e where "f w = (Inl e, w')" and "r = Inl e"
  | (continues) x w1 where "f w = (Inr x, w1)" and "g x w1 = (r, w')"
  using assms by (auto simp: abind_def split: prod.splits sum.splits)

subsection \<open>Relations that stages keep\<close>

text \<open>
  \<open>keeps R f\<close>: whatever state the stage \<open>f\<close> starts in and however it ends, \<open>R\<close> relates the
  state before to the one after. For a reflexive and transitive \<open>R\<close> this goes through sequences.
\<close>

definition keeps :: "(gateway \<Rightarrow> gateway \<Rightarrow> bool) \<Rightarrow> 'a gw \<Rightarrow> bool" where
  "keeps R f \<longleftrightarrow> (\<forall>w r w'. f w = (r, w') \<longrightarrow> R w w')"

lemma keepsI: "(\<And>w r w'. f w = (r, w') \<Longrightarrow> R w w') \<Longrightarrow> keeps R f"
  by (simp add: keeps_def)

lemma keepsD: "keeps R f \<Longrightarrow> f w = (r, w') \<Longrightarrow> R w w'"
  by (simp add: keeps_def)

lemma keeps_mono: "keeps R f \<Longrightarrow> (\<And>w w'. R w w' \<Longrightarrow> S w w') \<Longrightarrow> keeps S f"
  by (auto simp: keeps_def)

lemma keeps_state: "(\<And>w. keeps R (f w)) \<Longrightarrow> keeps R (\<lambda>w. f w w)"
  by (simp add: keeps_def)

lemma keeps_if: "keeps R f \<Longrightarrow> keeps R g \<Longrightarrow> keeps R (if c then f else g)"
  by simp

lemma keeps_option: "keeps R f \<Longrightarrow> (\<And>x. keeps R (g x)) \<Longrightarrow> keeps R (case v of None \<Rightarrow> f | Some x \<Rightarrow> g x)"
  by (simp split: option.split)

locale stage_relation =
  fixes R :: "gateway \<Rightarrow> gateway \<Rightarrow> bool"
  assumes same: "R w w"
    and chain: "R w w1 \<Longrightarrow> R w1 w2 \<Longrightarrow> R w w2"
begin

lemma keeps_reads: "keeps R (gread f)" "keeps R (aret x)" "keeps R (araise e)" "keeps R (\<lambda>w. (k w, w))"
  "keeps R (\<lambda>w. gread (h w) w)"
  by (auto simp: keeps_def gread_def aret_def araise_def same)

lemma keeps_bind:
  assumes "keeps R f" and "\<And>x. keeps R (g x)"
  shows "keeps R (abind f g)"
proof (rule keepsI)
  fix w r w' assume "abind f g w = (r, w')"
  then show "R w w'"
  proof (cases rule: abind_cases)
    case (stops e)
    then show ?thesis using keepsD [OF assms(1)] by blast
  next
    case (continues x w1)
    then show ?thesis using keepsD [OF assms(1)] keepsD [OF assms(2)] chain by blast
  qed
qed

lemmas keeps_rules = keeps_bind keeps_reads keeps_if keeps_option

end

text \<open>
  The relations: \<open>same_base\<close>; \<open>same_caller\<close>, what identifies the caller; and \<open>same_call\<close>, which
  also keeps the rows of invocations and the id of this one.
\<close>

definition same_caller :: "gateway \<Rightarrow> gateway \<Rightarrow> bool" where
  "same_caller w w' \<longleftrightarrow>
     lv_claims (gw_vars w') = lv_claims (gw_vars w) \<and> lv_execution_id (gw_vars w') = lv_execution_id (gw_vars w) \<and>
     lv_authorized (gw_vars w') = lv_authorized (gw_vars w) \<and> lv_tool_name (gw_vars w') = lv_tool_name (gw_vars w) \<and>
     lv_arguments (gw_vars w') = lv_arguments (gw_vars w)"

definition same_call :: "gateway \<Rightarrow> gateway \<Rightarrow> bool" where
  "same_call w w' \<longleftrightarrow>
     same_base w w' \<and> gw_cap w' = gw_cap w \<and> lv_invocation_id (gw_vars w') = lv_invocation_id (gw_vars w)"

interpretation base: stage_relation same_base
  by unfold_locales (simp, rule same_base_trans)

interpretation caller: stage_relation same_caller
  by unfold_locales (simp_all add: same_caller_def)

interpretation call: stage_relation same_call
  by unfold_locales (auto simp: same_call_def intro: same_base_trans)

lemma call_gset: "(\<And>l. lv_invocation_id (h l) = lv_invocation_id l) \<Longrightarrow> keeps same_call (gset h)"
  by (auto simp: keeps_def gset_def same_call_def)

lemma base_change: "(\<And>cs. same_config cs (f cs)) \<Longrightarrow> keeps same_base (gchange f)"
  by (auto simp: keeps_def gchange_def same_base_def)

lemma base_gset: "keeps same_base (gset h)"
  by (auto simp: keeps_def gset_def)

lemma config_invocations: "same_config cs (add_invocation v cs)" "same_config cs (upd_invocation u f cs)"
  "same_config cs (upsert_failure l x y code n t u cs)"
  by (simp_all add: same_config_def add_invocation_def upd_invocation_def upsert_failure_def)

lemma base_new_id: "keeps same_base new_invocation_id"
  by (auto simp: keeps_def new_invocation_id_def same_base_def same_config_def)

lemma caller_gset:
  "(\<And>l. lv_claims (h l) = lv_claims l \<and> lv_execution_id (h l) = lv_execution_id l \<and> lv_authorized (h l) = lv_authorized l \<and>
     lv_tool_name (h l) = lv_tool_name l \<and> lv_arguments (h l) = lv_arguments l) \<Longrightarrow> keeps same_caller (gset h)"
  by (auto simp: keeps_def gset_def same_caller_def)

lemma caller_change: "keeps same_caller (gchange f)" "keeps same_caller new_invocation_id"
  by (auto simp: keeps_def same_caller_def gchange_def new_invocation_id_def)

lemma admit_request_keeps: "keeps same_call (admit_request E header body)"
  unfolding admit_request_def Let_def by (intro call.keeps_rules call_gset) simp_all

lemma find_target_keeps: "keeps same_call (find_target E claims)" "keeps same_caller (find_target E claims)"
  unfolding find_target_def
  by (intro call.keeps_rules call_gset, simp_all) (intro caller.keeps_rules caller_gset, simp_all)

lemma admit_invocation_keeps:
  "keeps same_base (admit_invocation E claims b m p arguments)"
  "keeps same_caller (admit_invocation E claims b m p arguments)"
proof -
  show "keeps same_base (admit_invocation E claims b m p arguments)"
    unfolding admit_invocation_def
    by (intro base.keeps_rules base_gset base_new_id)
      (rule keeps_state, intro base.keeps_rules base_change config_invocations)
  show "keeps same_caller (admit_invocation E claims b m p arguments)"
    unfolding admit_invocation_def
    by (intro caller.keeps_rules caller_gset caller_change, simp_all)
      (rule keeps_state, intro caller.keeps_rules caller_change)
qed


section \<open>When a provider is called\<close>

text \<open>The caller: a valid token that is not revoked, for an execution that is running as issued.\<close>

definition caller_admitted ::
  "gateway_env \<Rightarrow> string option \<Rightarrow> json option \<Rightarrow> gateway \<Rightarrow> dict \<Rightarrow> dict \<Rightarrow> execution_log \<Rightarrow> bool"
where
  "caller_admitted E header body w claims payload e \<longleftrightarrow>
     (\<exists>token. bearer header = Inr token \<and>
        verify_capability_token (ge_loads E) (ge_hmac E) (ge_signing_key E) (seconds_now w) token = Inr claims) \<and>
     ge_redis E \<noteq> Redis_down \<and>
     (ge_redis E = Redis_up \<longrightarrow> \<not> marked (gw_now w) (mark_key (as_str (dget claims ''jti''))) (gw_marks w)) \<and>
     body = Some (JObj payload) \<and> JStr (request_text E payload ''execution_id'') = dget claims ''execution_id'' \<and>
     request_text E payload ''tool_name'' \<noteq> [] \<and> is_obj (dget payload ''arguments'') \<and>
     (\<exists>x. ge_cast E (request_text E payload ''execution_id'') = Some x \<and> get_execution x (gw_db w) = Some e) \<and>
     ex_status e = X_running \<and> dget claims ''agent_id'' = JStr (ex_agent_id e) \<and>
     dget claims ''agent_version_id'' = JStr (version_text e) \<and>
     map_option JStr (execution_digest e (gw_db w)) = Some (dget claims ''resolution_digest'')"

text \<open>The target: an enabled binding of the version that the token lists, with a live provider.\<close>

definition target_available ::
  "gateway_env \<Rightarrow> capability_store \<Rightarrow> dict \<Rightarrow> string \<Rightarrow> bound \<Rightarrow> capability_implementation \<Rightarrow> provider \<Rightarrow> bool"
where
  "target_available E cs claims tool b m p \<longleftrightarrow>
     b \<in> set (joined_bindings cs) \<and> cb_enabled (bb_binding b) \<and> cb_tool_alias (bb_binding b) = tool \<and>
     ge_cast E (as_str (dget claims ''agent_version_id'')) = Some (cb_agent_version_id (bb_binding b)) \<and>
     binding_allowed claims b \<and> m \<in> set (cs_implementations cs) \<and> im_status m = ''active'' \<and>
     provider_of m (bb_binding b) cs = Some p \<and> ci_enabled (pv_instance p) \<and>
     ci_health_status (pv_instance p) \<noteq> ''offline''"

definition approved :: "gateway_env \<Rightarrow> capability_binding \<Rightarrow> execution_log \<Rightarrow> bool" where
  "approved E b e \<longleftrightarrow>
     approval_required E (as_obj (cb_approval_policy b)) \<longrightarrow>
     Some (uuid_str (cb_id b)) \<in> approved_id E ` set (as_arr (dget (as_obj (ex_details e)) ''capability_approvals''))"

definition arguments_accepted :: "gateway_env \<Rightarrow> bound \<Rightarrow> provider \<Rightarrow> dict \<Rightarrow> dict \<Rightarrow> bool" where
  "arguments_accepted E b p arguments scoped \<longleftrightarrow>
     ge_validate E (JObj arguments) (as_obj (cv_input_schema (bb_version b))) = Valid \<and>
     gateway_policy (ge_rep E) arguments (as_obj (cb_parameter_policy (bb_binding b)))
       (case pv_scope p of None \<Rightarrow> [] | Some s \<Rightarrow> as_obj (sr_scope_definition s)) = Inr scoped"

lemma gread_eq: "gread f w = (r, w') \<longleftrightarrow> f w = r \<and> w' = w"
  by (auto simp: gread_def)

lemma gset_eq: "gset h w = (r, w') \<longleftrightarrow> r = Inr () \<and> w' = w\<lparr>gw_vars := h (gw_vars w)\<rparr>"
  by (auto simp: gset_def)

lemma aret_eq: "aret x w = (r, w') \<longleftrightarrow> r = Inr x \<and> w' = w"
  by (auto simp: aret_def)

lemma araise_eq: "araise e w = (r, w') \<longleftrightarrow> r = Inl e \<and> w' = w"
  by (auto simp: araise_def)

lemma gchange_eq: "gchange f w = (r, w') \<longleftrightarrow> r = Inr () \<and> w' = w\<lparr>gw_cap := f (gw_cap w)\<rparr>"
  by (auto simp: gchange_def)

lemmas stage_eqs = gread_eq gset_eq aret_eq araise_eq gchange_eq

lemma reads_vars [simp]:
  "verified_claims E token (w\<lparr>gw_vars := l\<rparr>) = verified_claims E token w"
  "ensure_not_revoked E claims (w\<lparr>gw_vars := l\<rparr>) = ensure_not_revoked E claims w"
  "authorized_execution E x claims (w\<lparr>gw_vars := l\<rparr>) = authorized_execution E x claims w"
  by (rule same_base_reads [OF same_base_vars])+

lemma verified_claims_Inr:
  "verified_claims E token w = Inr claims \<longleftrightarrow>
     verify_capability_token (ge_loads E) (ge_hmac E) (ge_signing_key E) (seconds_now w) token = Inr claims"
  by (auto simp: verified_claims_def split: sum.splits token_error.splits)

lemma ensure_not_revoked_Inr:
  "ensure_not_revoked E claims w = Inr u \<longleftrightarrow> ge_redis E \<noteq> Redis_down \<and>
     (ge_redis E = Redis_up \<longrightarrow> \<not> marked (gw_now w) (mark_key (as_str (dget claims ''jti''))) (gw_marks w))"
  by (auto simp: ensure_not_revoked_def split: redis_mode.splits)

lemma authorized_execution_Inr:
  "authorized_execution E s claims w = Inr e \<longleftrightarrow>
     (\<exists>x. ge_cast E s = Some x \<and> get_execution x (gw_db w) = Some e) \<and> ex_status e = X_running \<and>
     dget claims ''agent_id'' = JStr (ex_agent_id e) \<and> dget claims ''agent_version_id'' = JStr (version_text e) \<and>
     map_option JStr (execution_digest e (gw_db w)) = Some (dget claims ''resolution_digest'')"
  by (auto simp: authorized_execution_def split: option.splits)

lemma request_object_Inr: "request_object body = Inr d \<longleftrightarrow> body = Some (JObj d)"
  by (auto simp: request_object_def split: option.splits json.splits)

lemma admit_request_Inr:
  "admit_request E header body w = (Inr (token, claims, e), w') \<longleftrightarrow>
     (\<exists>payload. bearer header = Inr token \<and> verified_claims E token w = Inr claims \<and>
        ensure_not_revoked E claims w = Inr () \<and> body = Some (JObj payload) \<and>
        JStr (request_text E payload ''execution_id'') = dget claims ''execution_id'' \<and>
        request_text E payload ''tool_name'' \<noteq> [] \<and> is_obj (dget payload ''arguments'') \<and>
        authorized_execution E (request_text E payload ''execution_id'') claims w = Inr e \<and>
        w' = w\<lparr>gw_vars := (gw_vars w)\<lparr>lv_claims := Some claims, lv_execution_id := request_text E payload ''execution_id'',
          lv_tool_name := request_text E payload ''tool_name'', lv_arguments := as_obj (dget payload ''arguments''),
          lv_authorized := True\<rparr>\<rparr>)"
proof -
  have stages: "(if c then araise x else f) v = (Inr y, v') \<longleftrightarrow> \<not> c \<and> f v = (Inr y, v')"
    for c x f and y :: "string \<times> dict \<times> execution_log" and v v' :: gateway
    by (simp add: araise_eq)
  show ?thesis
    unfolding admit_request_def Let_def abind_Inr stage_eqs stages sum.inject request_object_Inr
    by auto
qed

lemma implementation_of_Some:
  assumes "implementation_of b cs = Some m"
  shows "m \<in> set (cs_implementations cs) \<and> im_status m = ''active''"
proof (cases "cb_implementation_id b")
  case None
  then have "first_by (\<lambda>m. (im_priority m, im_created_at m))
      (filter (\<lambda>m. im_capability_version_id m = cb_capability_version_id b \<and> im_status m = ''active'')
        (cs_implementations cs)) = Some m"
    using assms by (simp add: implementation_of_def)
  from first_by_Some [OF this] show ?thesis by simp
next
  case (Some i)
  then show ?thesis using assms by (auto simp: implementation_of_def dest: first_row_Some)
qed

lemma find_binding_Inr:
  assumes "find_binding E claims tool w = Inr (Some b)"
  shows "b \<in> set (joined_bindings (gw_cap w)) \<and> cb_enabled (bb_binding b) \<and> cb_tool_alias (bb_binding b) = tool \<and>
    ge_cast E (as_str (dget claims ''agent_version_id'')) = Some (cb_agent_version_id (bb_binding b))"
  using assms by (auto simp: find_binding_def split: option.splits dest!: first_row_Some)

lemma find_target_Inr:
  assumes "find_target E claims w = (Inr (b, m, p), w')"
  shows "target_available E (gw_cap w) claims (lv_tool_name (gw_vars w)) b m p"
    and "lv_binding (gw_vars w') = Some b" and "lv_implementation (gw_vars w') = Some m"
proof -
  have stages: "(if c then araise x else f) v = (Inr y, v') \<longleftrightarrow> \<not> c \<and> f v = (Inr y, v')"
    for c x f and y :: "bound \<times> capability_implementation \<times> provider" and v v' :: gateway
    by (simp add: araise_eq)
  have options: "(case o' of None \<Rightarrow> araise x | Some z \<Rightarrow> g z) v = (Inr y, v') \<longleftrightarrow> (\<exists>z. o' = Some z \<and> g z v = (Inr y, v'))"
    for o' :: "'z option" and x g and y :: "bound \<times> capability_implementation \<times> provider" and v v' :: gateway
    by (simp add: araise_eq split: option.split)
  from assms have "find_binding E claims (lv_tool_name (gw_vars w)) w = Inr (Some b)"
    "binding_allowed claims b" "implementation_of (bb_binding b) (gw_cap w) = Some m"
    "provider_of m (bb_binding b) (gw_cap w) = Some p"
    "ci_enabled (pv_instance p)" "ci_health_status (pv_instance p) \<noteq> ''offline''"
    and vars: "lv_binding (gw_vars w') = Some b" "lv_implementation (gw_vars w') = Some m"
    unfolding find_target_def abind_Inr options stages stage_eqs sum.inject de_Morgan_disj not_not
    by auto
  then show "target_available E (gw_cap w) claims (lv_tool_name (gw_vars w)) b m p"
    using implementation_of_Some find_binding_Inr unfolding target_available_def by blast
  show "lv_binding (gw_vars w') = Some b" "lv_implementation (gw_vars w') = Some m" by fact+
qed

lemma lift_policy_Inr: "lift_policy r = Inr x \<longleftrightarrow> r = Inr x"
  by (auto simp: lift_policy_def split: sum.splits policy_error.splits)

lemma enforce_approval_Inr: "enforce_approval E b e = Inr u \<longleftrightarrow> approved E b e"
  by (auto simp: enforce_approval_def approved_def Let_def)

lemma checked_arguments_Inr:
  "checked_arguments E b p e arguments = Inr scoped \<longleftrightarrow>
     approved E (bb_binding b) e \<and> arguments_accepted E b p arguments scoped"
  unfolding checked_arguments_def rbind_unit_Inr enforce_approval_Inr arguments_accepted_def
  by (auto simp: lift_policy_Inr split: validation.splits)

subsection \<open>Sending\<close>

definition same_sent :: "gateway \<Rightarrow> gateway \<Rightarrow> bool" where
  "same_sent w w' \<longleftrightarrow> gw_sent w' = gw_sent w"

interpretation sending: stage_relation same_sent
  by unfold_locales (simp_all add: same_sent_def)

lemma trace_keeps: "keeps same_sent (trace E event u b)"
  by (auto simp: keeps_def same_sent_def trace_def split: option.splits)

lemma finish_keeps: "keeps same_sent (finish E u s output err hit)" "keeps same_caller (finish E u s output err hit)"
  by (auto simp: keeps_def finish_def gchange_def same_sent_def same_caller_def)

lemma cache_set_keeps: "keeps same_sent (cache_set E b m claims arguments v)"
  by (auto simp: keeps_def cache_set_def same_sent_def)

lemma answer_from_cache_keeps: "keeps same_sent (answer_from_cache E claims b m u v)"
  unfolding answer_from_cache_def by (intro sending.keeps_rules trace_keeps finish_keeps)

lemma provider_step_requests:
  assumes "provider_step E token b p arguments w = (r, w')"
  shows "few_requests p (cv_idempotency (bb_version b)) (gw_sent w) (gw_sent w')"
  using assms unfolding provider_step_def
proof (cases rule: abind_cases)
  case (stops e)
  then show ?thesis by (simp add: stage_eqs few_requests_none)
next
  case (continues secret w1)
  then have w1: "w1 = w" by (simp add: stage_eqs)
  define C where "C = \<lparr>cc_token = token, cc_execution_id = lv_execution_id (gw_vars w), cc_binding_id = uuid_str (cb_id (bb_binding b)),
         cc_scope_revision_id = map_option uuid_str (cb_resource_scope_revision_id (bb_binding b)),
         cc_idempotency = cv_idempotency (bb_version b)\<rparr>"
  obtain r1 sent where i: "invoke_provider E p arguments secret C (gw_sent w) = (r1, sent)"
    by (cases "invoke_provider E p arguments secret C (gw_sent w)")
  with continues(2) have "gw_sent w' = sent" by (auto simp: w1 C_def [symmetric])
  moreover have "cc_idempotency C = cv_idempotency (bb_version b)" by (simp add: C_def)
  ultimately show ?thesis using invoke_provider_few_requests [OF i] by simp
qed

lemma answer_from_provider_requests:
  assumes "answer_from_provider E token claims b m p arguments u w = (r, w')"
  shows "few_requests p (cv_idempotency (bb_version b)) (gw_sent w) (gw_sent w')"
  using assms unfolding answer_from_provider_def
proof (cases rule: abind_cases)
  case (stops e)
  then show ?thesis using provider_step_requests by blast
next
  case (continues x w1)
  have "keeps same_sent (\<lambda>v. (let mapped = map_response E x (as_obj (co_response_mapping (pv_operation p))) in
     abind (gread (\<lambda>w. case ge_validate E mapped (as_obj (cv_output_schema (bb_version b))) of
         Bad_schema \<Rightarrow> Inl Other_exn
       | Invalid msg \<Rightarrow> g msg
       | Valid \<Rightarrow> Inr ())) (\<lambda>_.
     abind (cache_set E b m claims arguments mapped) (\<lambda>_.
     abind (finish E u I_succeeded (summary mapped) None False) (\<lambda>_.
     abind (trace E ''connector_invoked'' u b) (\<lambda>_.
     gread (\<lambda>w. Inr (success_response E claims b m u mapped False w))))))) v)" for g
    unfolding Let_def by (intro sending.keeps_rules trace_keeps finish_keeps cache_set_keeps)
  from keepsD [OF this continues(2)] show ?thesis
    using provider_step_requests [OF continues(1)] by (simp add: same_sent_def)
qed

subsection \<open>The whole request\<close>

definition permitted ::
  "gateway_env \<Rightarrow> string option \<Rightarrow> json option \<Rightarrow> gateway \<Rightarrow> bound \<Rightarrow> provider \<Rightarrow> bool"
where
  "permitted E header body w b p \<longleftrightarrow>
     (\<exists>claims payload e m scoped.
        caller_admitted E header body w claims payload e \<and>
        target_available E (gw_cap w) claims (request_text E payload ''tool_name'') b m p \<and>
        approved E (bb_binding b) e \<and> arguments_accepted E b p (as_obj (dget payload ''arguments'')) scoped)"

lemma caller_admitted_iff:
  "caller_admitted E header body w claims payload e \<longleftrightarrow>
     (\<exists>token. bearer header = Inr token \<and> verified_claims E token w = Inr claims) \<and>
     ensure_not_revoked E claims w = Inr () \<and> body = Some (JObj payload) \<and>
     JStr (request_text E payload ''execution_id'') = dget claims ''execution_id'' \<and>
     request_text E payload ''tool_name'' \<noteq> [] \<and> is_obj (dget payload ''arguments'') \<and>
     authorized_execution E (request_text E payload ''execution_id'') claims w = Inr e"
  unfolding caller_admitted_def verified_claims_Inr ensure_not_revoked_Inr authorized_execution_Inr by blast

lemma caller_admitted_vars [simp]:
  "caller_admitted E header body (w\<lparr>gw_vars := l\<rparr>) claims payload e = caller_admitted E header body w claims payload e"
  by (simp add: caller_admitted_iff)

text \<open>Errors of the gateway itself, and all but the refusal of a token.\<close>

definition own_error :: "gateway_exn \<Rightarrow> bool" where
  "own_error e \<longleftrightarrow> e = Other_exn \<or> (\<exists>c m. e = Gateway_error c m)"

definition raises :: "(gateway_exn \<Rightarrow> bool) \<Rightarrow> 'a gw \<Rightarrow> bool" where
  "raises P f \<longleftrightarrow> (\<forall>w e w'. f w = (Inl e, w') \<longrightarrow> P e)"

lemma raisesD: "raises P f \<Longrightarrow> f w = (Inl e, w') \<Longrightarrow> P e"
  unfolding raises_def by blast

lemma raises_bind:
  assumes "raises P f" and "\<And>x. raises P (g x)"
  shows "raises P (abind f g)"
  unfolding raises_def
proof (intro allI impI)
  fix w e w' assume "abind f g w = (Inl e, w')"
  then show "P e"
  proof (cases rule: abind_cases)
    case (stops e')
    then show ?thesis using raisesD [OF assms(1)] by simp
  next
    case (continues x w1)
    then show ?thesis using raisesD [OF assms(2)] by simp
  qed
qed

lemma raises_basic:
  "raises P (aret x)" "raises P (gset h)" "raises P (gchange k)" "raises P (\<lambda>w. (Inr (q w), r w))"
  "P e \<Longrightarrow> raises P (araise e)" "(\<And>w e. f w = Inl e \<Longrightarrow> P e) \<Longrightarrow> raises P (gread f)"
  "(\<And>v w e. f2 v w = Inl e \<Longrightarrow> P e) \<Longrightarrow> raises P (\<lambda>w. gread (f2 w) w)"
  "raises P new_invocation_id"
  by (auto simp: raises_def aret_def gset_def gchange_def araise_def gread_def new_invocation_id_def)

lemma raises_if: "raises P f \<Longrightarrow> raises P g \<Longrightarrow> raises P (if c then f else g)"
  by simp

lemma raises_option: "raises P f \<Longrightarrow> (\<And>x. raises P (g x)) \<Longrightarrow> raises P (case v of None \<Rightarrow> f | Some x \<Rightarrow> g x)"
  by (simp split: option.split)

lemma raises_state: "(\<And>w. raises P (f w)) \<Longrightarrow> raises P (\<lambda>w. f w w)"
  by (simp add: raises_def)

lemmas raises_rules = raises_bind raises_basic raises_if raises_option

lemma own_errors: "own_error Other_exn" "own_error (Gateway_error c m)" "own_error (denied m)"
  by (auto simp: own_error_def denied_def)

lemma py_step_Inl: "py_step r = Inl e \<Longrightarrow> own_error e"
  by (auto simp: py_step_def own_error_def split: sum.splits)

lemma checked_arguments_Inl: "checked_arguments E b p e arguments = Inl x \<Longrightarrow> own_error x"
  by (auto simp: checked_arguments_def rbind_Inl enforce_approval_def Let_def lift_policy_def own_errors
      split: if_splits validation.splits sum.splits policy_error.splits)

lemma enforce_quota_Inl: "enforce_quota E b p x t rows = Inl e \<Longrightarrow> own_error e"
  by (auto simp: enforce_quota_def Let_def rbind_Inl int_setting_def own_errors dest: py_step_Inl split: if_splits)

lemma find_target_raises: "raises own_error (find_target E claims)"
  unfolding find_target_def
  by (intro raises_rules) (auto simp: find_binding_def own_errors split: option.splits)

lemma admit_invocation_raises: "raises own_error (admit_invocation E claims b m p scoped)"
  unfolding admit_invocation_def
  by (intro raises_rules, auto simp: own_errors dest: enforce_quota_Inl split: option.splits)
    (rule raises_state, intro raises_rules)

text \<open>How far \<open>invoke_body\<close> comes: the stages it passed, with the states between them.\<close>

lemma invoke_body_cases:
  assumes "invoke_body E header body w = (r, w')"
  obtains (refused) e where "r = Inl e" and "same_call w w'"
      and "\<And>claims payload x. caller_admitted E header body w claims payload x \<Longrightarrow>
        lv_claims (gw_vars w') = Some claims \<and> lv_execution_id (gw_vars w') = request_text E payload ''execution_id'' \<and>
        lv_authorized (gw_vars w') \<and> own_error e"
  | (admitting) claims payload e b m p scoped w2 r3 where
      "caller_admitted E header body w claims payload e" and "same_call w w2"
      and "target_available E (gw_cap w) claims (request_text E payload ''tool_name'') b m p"
      and "approved E (bb_binding b) e" and "arguments_accepted E b p (as_obj (dget payload ''arguments'')) scoped"
      and "lv_claims (gw_vars w2) = Some claims"
      and "lv_execution_id (gw_vars w2) = request_text E payload ''execution_id''" and "lv_authorized (gw_vars w2)"
      and "lv_binding (gw_vars w2) = Some b" and "lv_implementation (gw_vars w2) = Some m"
      and "bearer header = Inr r3"
      and "abind (admit_invocation E claims b m p scoped) (\<lambda>u.
         abind (gread (\<lambda>w. usable_cache E b (cache_get E b m claims scoped w))) (\<lambda>cached.
         case cached of
           Some v \<Rightarrow> answer_from_cache E claims b m u v
         | None \<Rightarrow> answer_from_provider E r3 claims b m p scoped u)) w2 = (r, w')"
  using assms unfolding invoke_body_def
proof (cases rule: abind_cases)
  case (stops e)
  have "same_call w w'" by (rule keepsD [OF admit_request_keeps stops(1)])
  moreover have "lv_claims (gw_vars w') = Some claims \<and> lv_execution_id (gw_vars w') = request_text E payload ''execution_id'' \<and>
        lv_authorized (gw_vars w') \<and> own_error e" if "caller_admitted E header body w claims payload x" for claims payload x
  proof -
    from that obtain token where "bearer header = Inr token" "verified_claims E token w = Inr claims"
      unfolding caller_admitted_iff by blast
    with that have "\<exists>w1. admit_request E header body w = (Inr (token, claims, x), w1)"
      unfolding admit_request_Inr caller_admitted_iff by blast
    with stops show ?thesis by simp
  qed
  ultimately show thesis using refused stops(2) by blast
next
  case (continues y w1)
  obtain token claims e where y: "y = (token, claims, e)" by (cases y)
  note a = continues(1) [unfolded y]
  from a obtain payload where p: "bearer header = Inr token" "verified_claims E token w = Inr claims"
    "caller_admitted E header body w claims payload e"
    and w1: "lv_claims (gw_vars w1) = Some claims" "lv_execution_id (gw_vars w1) = request_text E payload ''execution_id''"
      "lv_tool_name (gw_vars w1) = request_text E payload ''tool_name''" "lv_authorized (gw_vars w1)"
      "lv_arguments (gw_vars w1) = as_obj (dget payload ''arguments'')" and cap: "gw_cap w1 = gw_cap w"
    unfolding admit_request_Inr caller_admitted_iff by auto
  have unique: "c = claims \<and> q = payload" if "caller_admitted E header body w c q x" for c q x
    using that p(1,2,3) unfolding caller_admitted_iff by auto
  have s1: "same_call w w1" by (rule keepsD [OF admit_request_keeps a])
  have kept: "lv_claims (gw_vars v) = Some claims \<and> lv_execution_id (gw_vars v) = request_text E payload ''execution_id'' \<and>
      lv_authorized (gw_vars v)" if "same_caller w1 v" for v
    using that w1 by (simp add: same_caller_def)
  from continues(2) [unfolded y prod.case] show thesis
  proof (cases rule: abind_cases)
    case (stops x)
    have "same_call w w'" using call.chain [OF s1 keepsD [OF find_target_keeps(1) stops(1)]] .
    moreover have "same_caller w1 w'" by (rule keepsD [OF find_target_keeps(2) stops(1)])
    moreover have "own_error x" by (rule raisesD [OF find_target_raises stops(1)])
    ultimately show ?thesis using refused stops(2) kept unique by blast
  next
    case (continues z w2)
    obtain b m q where z: "z = (b, m, q)" by (cases z)
    note t = continues(1) [unfolded z]
    have s2: "same_call w w2" using call.chain [OF s1 keepsD [OF find_target_keeps(1) t]] .
    have c2: "same_caller w1 w2" by (rule keepsD [OF find_target_keeps(2) t])
    have target: "target_available E (gw_cap w) claims (request_text E payload ''tool_name'') b m q"
      using find_target_Inr(1) [OF t] w1(3) cap by simp
    have args: "lv_arguments (gw_vars w2) = as_obj (dget payload ''arguments'')"
      using c2 w1(5) by (simp add: same_caller_def)
    from continues(2) [unfolded z prod.case] show ?thesis
    proof (cases rule: abind_cases)
      case (stops x)
      then have "w' = w2" "own_error x" using checked_arguments_Inl by (auto simp: gread_eq)
      then show ?thesis using refused stops(2) s2 kept [OF c2] unique by blast
    next
      case (continues scoped w3)
      then have w3: "w3 = w2"
        and ok: "approved E (bb_binding b) e" "arguments_accepted E b q (as_obj (dget payload ''arguments'')) scoped"
        using checked_arguments_Inr [of E b q e "as_obj (dget payload ''arguments'')" scoped]
        by (simp_all add: gread_eq args)
      from kept [OF c2] have k: "lv_claims (gw_vars w2) = Some claims"
        "lv_execution_id (gw_vars w2) = request_text E payload ''execution_id''" "lv_authorized (gw_vars w2)" by simp_all
      show ?thesis
        by (rule admitting [OF p(3) s2 target ok k find_target_Inr(2,3) [OF t] p(1) continues(2) [unfolded w3]])
    qed
  qed
qed

lemma invoke_body_sent:
  assumes "invoke_body E header body w = (r, w')" and "gw_sent w' \<noteq> gw_sent w \<or> (\<exists>x. r = Inr x)"
  shows "\<exists>b p. permitted E header body w b p \<and> few_requests p (cv_idempotency (bb_version b)) (gw_sent w) (gw_sent w')"
  using assms(1)
proof (cases rule: invoke_body_cases)
  case (refused e)
  then show ?thesis using assms(2) by (simp add: same_call_def same_base_def)
next
  case (admitting claims payload e b m p scoped w2 token)
  have ok: "permitted E header body w b p"
    unfolding permitted_def using admitting(1,3,4,5) by blast
  have s2: "gw_sent w2 = gw_sent w" using admitting(2) by (simp add: same_call_def same_base_def)
  from admitting(12) have "few_requests p (cv_idempotency (bb_version b)) (gw_sent w2) (gw_sent w')"
  proof (cases rule: abind_cases)
    case (stops x)
    then show ?thesis using keepsD [OF admit_invocation_keeps(1) stops(1)] by (simp add: same_base_def few_requests_none)
  next
    case (continues u w3)
    then have s3: "gw_sent w3 = gw_sent w2"
      using keepsD [OF admit_invocation_keeps(1) continues(1)] by (simp add: same_base_def)
    from continues(2) show ?thesis
    proof (cases rule: abind_cases)
      case (stops x)
      then show ?thesis by (simp add: gread_eq s3 few_requests_none)
    next
      case (continues cached w4)
      then have w4: "w4 = w3" by (simp add: gread_eq)
      show ?thesis
      proof (cases cached)
        case None
        then show ?thesis using answer_from_provider_requests continues(2) w4 s3 by fastforce
      next
        case (Some v)
        then have "same_sent w3 w'" using keepsD [OF answer_from_cache_keeps] continues(2) w4 by fastforce
        then show ?thesis by (simp add: same_sent_def s3 few_requests_none)
      qed
    qed
  qed
  then show ?thesis using ok s2 by metis
qed

lemma error_status: "fst (error_response code message u) \<noteq> 200"
proof -
  have "map_of standard_errors code = Some n \<Longrightarrow> n \<noteq> 200" for n
    by (auto simp: standard_errors_def split: if_splits)
  then show ?thesis by (auto simp: error_response_def split: option.split)
qed

lemma audit_failure_keeps: "keeps same_sent (audit_failure E code)"
proof -
  have "keeps same_sent (\<lambda>w. case lv_invocation_id (gw_vars w) of Some u \<Rightarrow> (Inr u, w) | None \<Rightarrow> new_invocation_id w)"
    by (auto simp: keeps_def same_sent_def new_invocation_id_def split: option.splits)
  moreover have "keeps same_sent (\<lambda>w. abind (gchange (f w)) (\<lambda>_. aret u) w)" for f and u :: uuid
    by (auto simp: keeps_def same_sent_def abind_def gchange_def aret_def)
  ultimately show ?thesis unfolding audit_failure_def split_beta by (intro sending.keeps_bind sending.keeps_reads)
qed

lemma respond_error_response:
  assumes "respond_error E code message w = (Inr x, w')"
  shows "\<exists>u. x = error_response code message u"
proof (cases "audited w")
  case True
  then have "abind (audit_failure E code) (\<lambda>u. aret (error_response code message (Some u))) w = (Inr x, w')"
    using assms by (simp add: respond_error_def)
  then show ?thesis unfolding abind_Inr aret_eq by auto
qed (use assms in \<open>auto simp: respond_error_def\<close>)

lemma respond_error_keeps: "keeps same_sent (respond_error E code message)"
proof -
  have "keeps same_sent (abind (audit_failure E code) (\<lambda>u. aret (error_response code message (Some u))))"
    by (intro sending.keeps_bind sending.keeps_reads audit_failure_keeps)
  then show ?thesis unfolding keeps_def respond_error_def by (simp add: same_sent_def)
qed

lemma respond_http_error_keeps: "keeps same_sent (respond_http_error E code message)"
proof -
  have "keeps same_sent (abind (finish E u s out c hit) (\<lambda>_. aret (x :: response)))" for u s out c hit x
    by (intro sending.keeps_bind sending.keeps_reads finish_keeps)
  then show ?thesis unfolding keeps_def respond_http_error_def by (simp add: same_sent_def split: option.split)
qed

lemma respond_http_error_response:
  assumes "respond_http_error E code message w = (Inr x, w')"
  shows "\<exists>u. x = error_response code message u"
proof (cases "lv_invocation_id (gw_vars w)")
  case (Some u)
  then have "abind (finish E u I_failed (JObj []) (Some code) False) (\<lambda>_. aret (error_response code message (Some u))) w = (Inr x, w')"
    using assms by (simp add: respond_http_error_def)
  then show ?thesis unfolding abind_Inr aret_eq by auto
qed (use assms in \<open>auto simp: respond_http_error_def\<close>)

text \<open>How a request ends: with the response of the body, or by an \<open>except\<close> clause.\<close>

lemma invoke_capability_cases:
  assumes "invoke_capability E header body w = (r, w')"
  obtains (answered) x where "r = Inr x" and "invoke_body E header body (w\<lparr>gw_vars := no_vars\<rparr>) = (Inr x, w')"
  | (caught) e w1 where "invoke_body E header body (w\<lparr>gw_vars := no_vars\<rparr>) = (Inl e, w1)" and "same_sent w1 w'"
      and "\<And>x. r = Inr x \<Longrightarrow> fst x \<noteq> 200"
proof -
  obtain r1 w1 where b: "invoke_body E header body (w\<lparr>gw_vars := no_vars\<rparr>) = (r1, w1)"
    by (cases "invoke_body E header body (w\<lparr>gw_vars := no_vars\<rparr>)")
  have error: "fst x \<noteq> 200" if "\<exists>u. x = error_response c m u" for x :: response and c m
    using that error_status by auto
  show thesis
  proof (cases r1)
    case (Inr x)
    then show thesis using answered assms b by (simp add: invoke_capability_def)
  next
    case (Inl e)
    note d = assms [unfolded invoke_capability_def b Inl prod.case sum.case]
    have own: "same_sent w1 w' \<and> (\<forall>x. r = Inr x \<longrightarrow> fst x \<noteq> 200)"
      if "respond_error E c m w1 = (r, w')" for c m
      using keepsD [OF respond_error_keeps that] respond_error_response [of E c m w1 _ w'] that error by blast
    have http: "same_sent w1 w' \<and> (\<forall>x. r = Inr x \<longrightarrow> fst x \<noteq> 200)"
      if "respond_http_error E c m w1 = (r, w')" for c m
      using keepsD [OF respond_http_error_keeps that] respond_http_error_response [of E c m w1 _ w'] that error by blast
    have "same_sent w1 w' \<and> (\<forall>x. r = Inr x \<longrightarrow> fst x \<noteq> 200)"
    proof (cases e)
      case (Access_denied m)
      then have "w' = w1" "r = Inr (error_response ''PERMISSION_DENIED'' m None)" using d by simp_all
      then show ?thesis using error_status by (simp add: same_sent_def)
    qed (use d own http in \<open>auto simp: same_sent_def\<close>)
    then show thesis using caught b Inl by blast
  qed
qed

lemma invoke_capability_sent:
  assumes "invoke_capability E header body w = (r, w')" and "gw_sent w' \<noteq> gw_sent w \<or> (\<exists>j. r = Inr (200, j))"
  shows "\<exists>b p. permitted E header body w b p \<and> few_requests p (cv_idempotency (bb_version b)) (gw_sent w) (gw_sent w')"
proof -
  have vars: "permitted E header body (w\<lparr>gw_vars := no_vars\<rparr>) b p = permitted E header body w b p" for b p
    by (simp add: permitted_def)
  from assms(1) show ?thesis
  proof (cases rule: invoke_capability_cases)
    case (answered x)
    then show ?thesis using invoke_body_sent [OF answered(2)] by (simp add: vars)
  next
    case (caught e w1)
    then have "gw_sent w' = gw_sent w1" by (simp add: same_sent_def)
    moreover have "gw_sent w' \<noteq> gw_sent w" using assms(2) caught(3) by force
    ultimately show ?thesis using invoke_body_sent [OF caught(1)] by (simp add: vars)
  qed
qed

end
