(* ===== verification/Gateway_Invocations.thy ===== *)
theory Gateway_Invocations
  imports Capability_Gateway_Correct
begin

text \<open>
  The rows of invocations under interleaved requests of the Capability Gateway: the steps that
  requests take on them, the bounds the quotas give, and how failures are recorded.
\<close>

section \<open>The rows of invocations\<close>

text \<open>
  What requests may do to the rows of invocations, whatever their interleaving: a call is
  admitted under the quotas, a refused call is recorded, a pending call succeeds, and any call may
  be marked as failed. The bindings \<open>B\<close> do not change meanwhile.
\<close>

definition same_identity :: "(capability_invocation \<Rightarrow> capability_invocation) \<Rightarrow> bool" where
  "same_identity f \<longleftrightarrow>
     (\<forall>v. iv_id (f v) = iv_id v \<and> iv_binding_id (f v) = iv_binding_id v \<and> iv_execution_id (f v) = iv_execution_id v \<and>
        iv_connector_instance_revision_id (f v) = iv_connector_instance_revision_id v \<and> iv_created_at (f v) = iv_created_at v)"

inductive invocation_step ::
  "gateway_env \<Rightarrow> capability_binding list \<Rightarrow> capability_invocation list \<Rightarrow> capability_invocation list \<Rightarrow> bool"
  for E B
where
  call_admitted:
    "b \<in> set B \<Longrightarrow> enforce_quota E b p x t rows = Inr () \<Longrightarrow> iv_id v \<notin> iv_id ` set rows \<Longrightarrow>
     iv_status v = I_pending \<Longrightarrow> iv_binding_id v = Some (cb_id b) \<Longrightarrow> iv_execution_id v = x \<Longrightarrow>
     iv_created_at v = t \<Longrightarrow> invocation_step E B rows (rows @ [v])"
| refusal_recorded:
    "iv_id v \<notin> iv_id ` set rows \<Longrightarrow> iv_status v \<in> {I_failed, I_denied} \<Longrightarrow> invocation_step E B rows (rows @ [v])"
| call_succeeded:
    "row_get iv_id u rows = Some v \<Longrightarrow> iv_status v = I_pending \<Longrightarrow> same_identity f \<Longrightarrow>
     invocation_step E B rows (row_upd iv_id u f rows)"
| call_failed:
    "same_identity f \<Longrightarrow> (\<And>v. iv_status (f v) \<in> {I_failed, I_denied}) \<Longrightarrow>
     invocation_step E B rows (row_upd iv_id u f rows)"

abbreviation invocation_steps where
  "invocation_steps E B \<equiv> (invocation_step E B)\<^sup>*\<^sup>*"

lemma finished_identity: "same_identity (finished_row s n out c hit t)" "same_identity (failed_row code n t)"
  by (simp_all add: same_identity_def finished_row_def failed_row_def)

lemma failed_row_status: "iv_status (failed_row code n t v) \<in> {I_failed, I_denied}"
  by (simp add: failed_row_def failure_status_def)

subsection \<open>The stages after the admission\<close>

text \<open>\<open>finish_at\<close>: at most the row \<open>u\<close> of a call is marked as succeeded.\<close>

definition same_rows :: "gateway \<Rightarrow> gateway \<Rightarrow> bool" where
  "same_rows w w' \<longleftrightarrow> gw_cap w' = gw_cap w \<and> gw_vars w' = gw_vars w"

definition finish_at :: "uuid \<Rightarrow> gateway \<Rightarrow> gateway \<Rightarrow> bool" where
  "finish_at u w w' \<longleftrightarrow> gw_vars w' = gw_vars w \<and>
     (gw_cap w' = gw_cap w \<or>
      (\<exists>n out hit t. gw_cap w' = upd_invocation u (finished_row I_succeeded n out None hit t) (gw_cap w)))"

interpretation rows: stage_relation same_rows
  by unfold_locales (simp_all add: same_rows_def)

lemma finish_at_before:
  assumes "keeps same_rows f" and "\<And>x. keeps (finish_at u) (g x)"
  shows "keeps (finish_at u) (abind f g)"
proof (rule keepsI)
  fix w r w' assume "abind f g w = (r, w')"
  then show "finish_at u w w'"
  proof (cases rule: abind_cases)
    case (stops e)
    then show ?thesis using keepsD [OF assms(1) stops(1)] by (simp add: same_rows_def finish_at_def)
  next
    case (continues x w1)
    then show ?thesis using keepsD [OF assms(1) continues(1)] keepsD [OF assms(2) continues(2)]
      by (simp add: same_rows_def finish_at_def)
  qed
qed

lemma finish_at_after:
  assumes "keeps (finish_at u) f" and "\<And>x. keeps same_rows (g x)"
  shows "keeps (finish_at u) (abind f g)"
proof (rule keepsI)
  fix w r w' assume "abind f g w = (r, w')"
  then show "finish_at u w w'"
  proof (cases rule: abind_cases)
    case (stops e)
    then show ?thesis using keepsD [OF assms(1) stops(1)] by simp
  next
    case (continues x w1)
    then show ?thesis using keepsD [OF assms(1) continues(1)] keepsD [OF assms(2) continues(2)]
      by (simp add: same_rows_def finish_at_def)
  qed
qed

lemma rows_trace: "keeps same_rows (trace E event u b)"
  by (auto simp: keeps_def same_rows_def trace_def split: option.splits)

lemma rows_cache_set: "keeps same_rows (cache_set E b m claims arguments v)"
  by (auto simp: keeps_def same_rows_def cache_set_def)

lemma rows_provider_step: "keeps same_rows (provider_step E token b p arguments)"
  unfolding provider_step_def
  by (intro rows.keeps_rules) (auto simp: keeps_def same_rows_def split: prod.splits)

lemma finish_at_finish: "keeps (finish_at u) (finish E u I_succeeded out None hit)"
  unfolding keeps_def finish_def gchange_def finish_at_def by auto

lemma finish_at_cache: "keeps (finish_at u) (answer_from_cache E claims b m u v)"
  unfolding answer_from_cache_def
  by (intro finish_at_after finish_at_finish rows.keeps_rules rows_trace)

lemma finish_at_provider: "keeps (finish_at u) (answer_from_provider E token claims b m p arguments u)"
  unfolding answer_from_provider_def Let_def
  by (intro finish_at_before [OF rows_provider_step] finish_at_before [OF rows_cache_set]
      finish_at_before [OF rows.keeps_reads(1)])
    (intro finish_at_after finish_at_finish rows.keeps_rules rows_trace)

lemma admit_invocation_rows:
  assumes "admit_invocation E claims b m p scoped w = (r, w')"
  shows "cs_next_id (gw_cap w') = Suc (cs_next_id (gw_cap w)) \<and>
    lv_invocation_id (gw_vars w') = Some (cs_next_id (gw_cap w)) \<and>
    (case r of
       Inl e \<Rightarrow> cs_invocations (gw_cap w') = cs_invocations (gw_cap w)
     | Inr u \<Rightarrow> u = cs_next_id (gw_cap w) \<and>
         (\<exists>x. ge_cast E (lv_execution_id (gw_vars w)) = Some x \<and>
            enforce_quota E (bb_binding b) p x (gw_now w) (cs_invocations (gw_cap w)) = Inr () \<and>
            cs_invocations (gw_cap w') = cs_invocations (gw_cap w) @
              [pending_row claims b m x (lv_tool_name (gw_vars w)) (summary (JObj scoped)) (gw_now w) u]))"
proof -
  let ?n = "cs_next_id (gw_cap w)"
  let ?v = "w\<lparr>gw_vars := (gw_vars w)\<lparr>lv_invocation_id := Some ?n\<rparr>, gw_cap := (gw_cap w)\<lparr>cs_next_id := Suc ?n\<rparr>\<rparr>"
  show ?thesis
  proof (cases "ge_cast E (lv_execution_id (gw_vars w))")
    case None
    then have "admit_invocation E claims b m p scoped w = (Inl Other_exn, ?v)"
      by (simp add: admit_invocation_def abind_def new_invocation_id_def gset_def gread_def)
    with assms show ?thesis by auto
  next
    case (Some x)
    show ?thesis
    proof (cases "enforce_quota E (bb_binding b) p x (gw_now w) (cs_invocations (gw_cap w))")
      case (Inl e)
      with Some have "admit_invocation E claims b m p scoped w = (Inl e, ?v)"
        by (simp add: admit_invocation_def abind_def new_invocation_id_def gset_def gread_def)
      with assms show ?thesis by auto
    next
      case (Inr u)
      with Some have "admit_invocation E claims b m p scoped w = (Inr ?n, ?v\<lparr>gw_cap := add_invocation
          (pending_row claims b m x (lv_tool_name (gw_vars w)) (summary (JObj scoped)) (gw_now w) ?n) (gw_cap ?v)\<rparr>)"
        by (simp add: admit_invocation_def abind_def new_invocation_id_def gset_def gread_def gchange_def aret_def)
      with assms Some Inr show ?thesis by (auto simp: add_invocation_def)
    qed
  qed
qed

lemma joined_binding_in: "b \<in> set (joined_bindings cs) \<Longrightarrow> bb_binding b \<in> set (cs_bindings cs)"
  by (auto simp: joined_bindings_def split: option.splits)

text \<open>What a request has done to the rows when its body ends.\<close>

lemma invoke_body_rows:
  assumes "invoke_body E header body w = (r, w')" and "lv_invocation_id (gw_vars w) = None"
  obtains (unrecorded) e where "r = Inl e" and "cs_invocations (gw_cap w') = cs_invocations (gw_cap w)"
      and "(lv_invocation_id (gw_vars w'), cs_next_id (gw_cap w')) \<in>
        {(None, cs_next_id (gw_cap w)), (Some (cs_next_id (gw_cap w)), Suc (cs_next_id (gw_cap w)))}"
  | (recorded) b p x v where "b \<in> set (cs_bindings (gw_cap w))"
      and "enforce_quota E b p x (gw_now w) (cs_invocations (gw_cap w)) = Inr ()"
      and "ge_cast E (lv_execution_id (gw_vars w')) = Some x"
      and "lv_invocation_id (gw_vars w') = Some (cs_next_id (gw_cap w))"
      and "cs_next_id (gw_cap w') = Suc (cs_next_id (gw_cap w))"
      and "iv_id v = cs_next_id (gw_cap w)" and "iv_status v = I_pending" and "iv_binding_id v = Some (cb_id b)"
      and "iv_execution_id v = x" and "iv_created_at v = gw_now w"
      and "cs_invocations (gw_cap w') = cs_invocations (gw_cap w) @ [v] \<or>
        (\<exists>n out hit t. cs_invocations (gw_cap w') =
           row_upd iv_id (iv_id v) (finished_row I_succeeded n out None hit t) (cs_invocations (gw_cap w) @ [v]))"
  using assms(1)
proof (cases rule: invoke_body_cases)
  case (refused e)
  then show thesis using unrecorded assms(2) by (simp add: same_call_def)
next
  case (admitting claims payload e b m p scoped w2 token)
  then have w2: "gw_cap w2 = gw_cap w" "lv_invocation_id (gw_vars w2) = None" "gw_now w2 = gw_now w"
    using assms(2) by (simp_all add: same_call_def same_base_def)
  have b: "bb_binding b \<in> set (cs_bindings (gw_cap w))"
    using admitting(3) joined_binding_in by (simp add: target_available_def)
  from admitting(12) show thesis
  proof (cases rule: abind_cases)
    case (stops x)
    then show thesis using unrecorded admit_invocation_rows [OF stops(1)] w2 by simp
  next
    case (continues u w3)
    note a = admit_invocation_rows [OF continues(1), unfolded sum.case w2]
    then obtain x where x: "ge_cast E (lv_execution_id (gw_vars w2)) = Some x"
      "enforce_quota E (bb_binding b) p x (gw_now w) (cs_invocations (gw_cap w)) = Inr ()"
      and rows3: "cs_invocations (gw_cap w3) = cs_invocations (gw_cap w) @
        [pending_row claims b m x (lv_tool_name (gw_vars w2)) (summary (JObj scoped)) (gw_now w) u]"
      and u: "u = cs_next_id (gw_cap w)" by blast
    define v where "v = pending_row claims b m x (lv_tool_name (gw_vars w2)) (summary (JObj scoped)) (gw_now w) u"
    have v: "iv_id v = cs_next_id (gw_cap w)" "iv_status v = I_pending" "iv_binding_id v = Some (cb_id (bb_binding b))"
      "iv_execution_id v = x" "iv_created_at v = gw_now w"
      by (simp_all add: v_def pending_row_def u)
    have end3: "finish_at u w3 w'"
      using continues(2)
    proof (cases rule: abind_cases)
      case (stops e)
      then show ?thesis by (simp add: gread_eq finish_at_def)
    next
      case (continues cached w4)
      then have "w4 = w3" by (simp add: gread_eq)
      with continues(2) show ?thesis
        using keepsD [OF finish_at_cache] keepsD [OF finish_at_provider] by (cases cached) auto
    qed
    have "same_caller w2 w3" by (rule keepsD [OF admit_invocation_keeps(2) continues(1)])
    then have cast: "ge_cast E (lv_execution_id (gw_vars w')) = Some x"
      using end3 x(1) by (simp add: same_caller_def finish_at_def)
    have ids: "lv_invocation_id (gw_vars w') = Some (cs_next_id (gw_cap w))" "cs_next_id (gw_cap w') = Suc (cs_next_id (gw_cap w))"
      using end3 a by (auto simp: finish_at_def upd_invocation_def)
    have "cs_invocations (gw_cap w') = cs_invocations (gw_cap w) @ [v] \<or>
        (\<exists>n out hit t. cs_invocations (gw_cap w') =
           row_upd iv_id (iv_id v) (finished_row I_succeeded n out None hit t) (cs_invocations (gw_cap w) @ [v]))"
      using end3 rows3 unfolding finish_at_def v_def [symmetric] v(1) u [symmetric]
      by (auto simp: upd_invocation_def) blast
    then show thesis by (rule recorded [OF b x(2) cast ids v])
  qed
qed

definition fresh_ids :: "capability_store \<Rightarrow> bool" where
  "fresh_ids cs \<longleftrightarrow> list_all (\<lambda>v. iv_id v < cs_next_id cs) (cs_invocations cs)"

lemma fresh_not_in: "fresh_ids cs \<Longrightarrow> cs_next_id cs \<le> u \<Longrightarrow> u \<notin> iv_id ` set (cs_invocations cs)"
  by (auto simp: fresh_ids_def list_all_iff)

text \<open>The body takes steps, and every row it leaves is older than the next id.\<close>

lemma invoke_body_steps:
  assumes "invoke_body E header body w = (r, w')" and "lv_invocation_id (gw_vars w) = None" and "fresh_ids (gw_cap w)"
  shows "invocation_steps E (cs_bindings (gw_cap w)) (cs_invocations (gw_cap w)) (cs_invocations (gw_cap w'))"
    and "fresh_ids (gw_cap w')" and "cs_next_id (gw_cap w) \<le> cs_next_id (gw_cap w')"
    and "\<And>u. lv_invocation_id (gw_vars w') = Some u \<Longrightarrow> u < cs_next_id (gw_cap w')"
proof -
  let ?rows = "cs_invocations (gw_cap w)"
  have "invocation_steps E (cs_bindings (gw_cap w)) ?rows (cs_invocations (gw_cap w')) \<and> fresh_ids (gw_cap w') \<and>
      cs_next_id (gw_cap w) \<le> cs_next_id (gw_cap w') \<and> (\<forall>u. lv_invocation_id (gw_vars w') = Some u \<longrightarrow> u < cs_next_id (gw_cap w'))"
    using assms(1,2)
  proof (cases rule: invoke_body_rows)
    case (unrecorded e)
    then show ?thesis using assms(3) by (auto simp: fresh_ids_def list_all_iff)
  next
    case (recorded b p x v)
    have new: "iv_id v \<notin> iv_id ` set ?rows" using fresh_not_in [OF assms(3)] recorded(6) by simp
    have admit: "invocation_step E (cs_bindings (gw_cap w)) ?rows (?rows @ [v])"
      by (rule call_admitted [OF recorded(1,2) new recorded(7,8,9,10)])
    have found: "row_get iv_id (iv_id v) (?rows @ [v]) = Some v"
      using new by (simp add: row_get_append_new row_get_None [THEN iffD2])
    have "invocation_steps E (cs_bindings (gw_cap w)) ?rows (cs_invocations (gw_cap w'))"
      using recorded(11)
    proof (elim disjE exE)
      assume "cs_invocations (gw_cap w') = ?rows @ [v]"
      then show ?thesis using admit by (simp add: r_into_rtranclp)
    next
      fix n out hit t
      assume "cs_invocations (gw_cap w') = row_upd iv_id (iv_id v) (finished_row I_succeeded n out None hit t) (?rows @ [v])"
      then show ?thesis
        using call_succeeded [OF found recorded(7) finished_identity(1)] admit
        by (metis converse_rtranclp_into_rtranclp r_into_rtranclp)
    qed
    moreover have "fresh_ids (gw_cap w')"
      using recorded(5,6,11) assms(3) less_SucI
      by (fastforce simp: fresh_ids_def list_all_iff set_row_upd finished_row_def)
    ultimately show ?thesis using recorded(4,5) by simp
  qed
  then show "invocation_steps E (cs_bindings (gw_cap w)) ?rows (cs_invocations (gw_cap w'))"
    "fresh_ids (gw_cap w')" "cs_next_id (gw_cap w) \<le> cs_next_id (gw_cap w')"
    "\<And>u. lv_invocation_id (gw_vars w') = Some u \<Longrightarrow> u < cs_next_id (gw_cap w')" by blast+
qed

subsection \<open>The except clauses\<close>

definition failure_id :: "gateway \<Rightarrow> uuid \<times> capability_store" where
  "failure_id w =
     (case lv_invocation_id (gw_vars w) of
        Some u \<Rightarrow> (u, gw_cap w)
      | None \<Rightarrow> (cs_next_id (gw_cap w), (gw_cap w)\<lparr>cs_next_id := Suc (cs_next_id (gw_cap w))\<rparr>))"

lemma audit_failure_eq:
  "audit_failure E code w =
     (case failure_casts E w of
        None \<Rightarrow> (Inl Other_exn, w\<lparr>gw_cap := snd (failure_id w)\<rparr>)
      | Some (x, v) \<Rightarrow> (Inr (fst (failure_id w)), w\<lparr>gw_cap :=
          upsert_failure (gw_vars w) x (Some v) code (max 0 (ge_latency E)) (gw_now w) (fst (failure_id w)) (snd (failure_id w))\<rparr>))"
proof -
  define w1 where "w1 = w\<lparr>gw_cap := snd (failure_id w)\<rparr>"
  have first: "(case lv_invocation_id (gw_vars w) of Some u \<Rightarrow> (Inr u, w) | None \<Rightarrow> new_invocation_id w) =
      (Inr (fst (failure_id w)) :: gateway_exn + uuid, w1)"
    by (cases "lv_invocation_id (gw_vars w)") (simp_all add: failure_id_def new_invocation_id_def w1_def)
  have casts: "failure_casts E w1 = failure_casts E w" "gw_vars w1 = gw_vars w" "gw_now w1 = gw_now w"
    "gw_cap w1 = snd (failure_id w)" "w1\<lparr>gw_cap := c\<rparr> = w\<lparr>gw_cap := c\<rparr>" for c
    by (simp_all add: w1_def failure_casts_def)
  show ?thesis
    unfolding audit_failure_def abind_def first prod.case sum.case gread_def casts(1) w1_def [symmetric]
    by (cases "failure_casts E w") (simp_all add: gchange_def aret_def casts split_beta)
qed

lemma upsert_failure_step:
  assumes "fresh_ids cs" and "u < cs_next_id cs"
  shows "invocation_step E B (cs_invocations cs) (cs_invocations (upsert_failure l x v code n t u cs))"
    and "fresh_ids (upsert_failure l x v code n t u cs)"
proof -
  have row: "iv_id (failure_row l x v code n t u) = u" "iv_status (failure_row l x v code n t u) \<in> {I_failed, I_denied}"
    by (simp_all add: failure_row_def failure_status_def)
  show "invocation_step E B (cs_invocations cs) (cs_invocations (upsert_failure l x v code n t u cs))"
  proof (cases "row_get iv_id u (cs_invocations cs)")
    case None
    then show ?thesis using refusal_recorded [of "failure_row l x v code n t u" "cs_invocations cs"] row
      by (simp add: upsert_failure_def add_invocation_def row_get_None)
  next
    case (Some v')
    then show ?thesis using call_failed [OF finished_identity(2) failed_row_status]
      by (simp add: upsert_failure_def upd_invocation_def)
  qed
  show "fresh_ids (upsert_failure l x v code n t u cs)"
    using assms by (auto simp: fresh_ids_def list_all_iff upsert_failure_def add_invocation_def upd_invocation_def
        set_row_upd failed_row_def row)
qed

lemma failure_id_fresh:
  assumes "fresh_ids (gw_cap w)" and "\<And>u. lv_invocation_id (gw_vars w) = Some u \<Longrightarrow> u < cs_next_id (gw_cap w)"
  shows "fresh_ids (snd (failure_id w))" and "fst (failure_id w) < cs_next_id (snd (failure_id w))"
    and "cs_invocations (snd (failure_id w)) = cs_invocations (gw_cap w)"
  using assms by (auto simp: failure_id_def fresh_ids_def list_all_iff less_SucI split: option.split)

lemma respond_error_steps:
  assumes "respond_error E code m w = (r, w')" and "fresh_ids (gw_cap w)"
    and "\<And>u. lv_invocation_id (gw_vars w) = Some u \<Longrightarrow> u < cs_next_id (gw_cap w)"
  shows "invocation_steps E B (cs_invocations (gw_cap w)) (cs_invocations (gw_cap w')) \<and> fresh_ids (gw_cap w')"
proof -
  have "gw_cap w' = gw_cap w \<or> gw_cap w' = snd (failure_id w) \<or> (\<exists>x v. gw_cap w' =
      upsert_failure (gw_vars w) x v code (max 0 (ge_latency E)) (gw_now w) (fst (failure_id w)) (snd (failure_id w)))"
    using assms(1)
    by (auto simp: respond_error_def abind_def audit_failure_eq aret_def split: if_splits option.splits) blast
  then show ?thesis
  proof (elim disjE exE)
    fix x v
    assume "gw_cap w' = upsert_failure (gw_vars w) x v code (max 0 (ge_latency E)) (gw_now w) (fst (failure_id w)) (snd (failure_id w))"
    then show ?thesis
      using upsert_failure_step [OF failure_id_fresh(1,2) [OF assms(2,3)]] failure_id_fresh(3) [OF assms(2,3)]
      by (auto intro: r_into_rtranclp)
  qed (use assms(2) failure_id_fresh [OF assms(2,3)] in simp_all)
qed

lemma respond_http_error_steps:
  assumes "respond_http_error E code m w = (r, w')" and "fresh_ids (gw_cap w)"
  shows "invocation_steps E B (cs_invocations (gw_cap w)) (cs_invocations (gw_cap w')) \<and> fresh_ids (gw_cap w')"
proof -
  have "gw_cap w' = gw_cap w \<or> (\<exists>u n t. gw_cap w' = upd_invocation u (finished_row I_failed n (JObj []) (Some code) False t) (gw_cap w))"
    using assms(1)
    by (auto simp: respond_http_error_def abind_def finish_def gchange_def aret_def split: option.splits) blast
  then show ?thesis
  proof (elim disjE exE)
    fix u n t
    assume c: "gw_cap w' = upd_invocation u (finished_row I_failed n (JObj []) (Some code) False t) (gw_cap w)"
    have "invocation_step E B (cs_invocations (gw_cap w)) (cs_invocations (gw_cap w'))"
      unfolding c upd_invocation_def
      by (simp, rule call_failed [OF finished_identity(1)]) (simp add: finished_row_def)
    moreover have "fresh_ids (gw_cap w')"
      using assms(2) by (auto simp: c fresh_ids_def list_all_iff upd_invocation_def set_row_upd finished_row_def)
    ultimately show ?thesis by (simp add: r_into_rtranclp)
  qed (use assms(2) in simp)
qed

text \<open>A request is a sequence of steps on the rows of invocations.\<close>

lemma invoke_capability_steps:
  assumes "invoke_capability E header body w = (r, w')" and "fresh_ids (gw_cap w)"
  shows "invocation_steps E (cs_bindings (gw_cap w)) (cs_invocations (gw_cap w)) (cs_invocations (gw_cap w'))"
    and "fresh_ids (gw_cap w')"
proof -
  let ?B = "cs_bindings (gw_cap w)"
  obtain r1 w1 where b: "invoke_body E header body (w\<lparr>gw_vars := no_vars\<rparr>) = (r1, w1)"
    by (cases "invoke_body E header body (w\<lparr>gw_vars := no_vars\<rparr>)")
  note s = invoke_body_steps [OF b, simplified, OF _ assms(2)]
  have no: "lv_invocation_id no_vars = None" by (simp add: no_vars_def)
  note body = s(1) [OF no] s(2) [OF no] s(4) [OF no]
  have last: "invocation_steps E ?B (cs_invocations (gw_cap w1)) (cs_invocations (gw_cap w')) \<and> fresh_ids (gw_cap w')"
  proof (cases r1)
    case (Inr x)
    then show ?thesis using assms(1) b body by (simp add: invoke_capability_def)
  next
    case (Inl e)
    note d = assms(1) [unfolded invoke_capability_def b Inl prod.case sum.case]
    have own: ?thesis if "respond_error E c m w1 = (r, w')" for c m
      by (rule respond_error_steps [OF that body(2)]) (rule body(3))
    have http: ?thesis if "respond_http_error E c m w1 = (r, w')" for c m
      by (rule respond_http_error_steps [OF that body(2)])
    show ?thesis
    proof (cases e)
      case (Access_denied m)
      then have "w' = w1" using d by simp
      then show ?thesis using body by simp
    next
      case Task_cancelled
      then have "w' = w1" using d by simp
      then show ?thesis using body by simp
    qed (use d own http in simp_all)
  qed
  then show "invocation_steps E ?B (cs_invocations (gw_cap w)) (cs_invocations (gw_cap w'))" "fresh_ids (gw_cap w')"
    using body(1) by auto
qed

section \<open>Quotas\<close>

lemma enforce_quota_Inr:
  assumes "enforce_quota E b p x t rows = Inr u"
  shows "\<exists>n c. int_setting E (as_obj (cb_quota_policy b)) ''calls_per_execution'' 20 = Inr n \<and>
    int_setting E (as_obj (cb_quota_policy b)) ''max_concurrency'' 2 = Inr c \<and>
    count_where (\<lambda>v. iv_binding_id v = Some (cb_id b) \<and> iv_execution_id v = x) rows < n \<and>
    count_where (\<lambda>v. iv_binding_id v = Some (cb_id b) \<and> iv_status v = I_pending) rows < c"
  using assms by (auto simp: enforce_quota_def Let_def rbind_Inr count_where_def conj_commute split: if_splits)

lemma count_append: "count_where P (rows @ [v]) = count_where P rows + (if P v then 1 else 0)"
  by (simp add: count_where_def)

lemma count_upd:
  assumes "\<And>v. v \<in> set rows \<Longrightarrow> iv_id v = u \<Longrightarrow> P (f v) \<Longrightarrow> P v"
  shows "count_where P (row_upd iv_id u f rows) \<le> count_where P rows"
  using assms by (induction rows) (auto simp: count_where_def row_upd_def)

lemma count_mono: "(\<And>v. P v \<Longrightarrow> Q v) \<Longrightarrow> count_where P rows \<le> count_where Q rows"
  by (induction rows) (auto simp: count_where_def)

text \<open>
  Rows that count against a quota are pending or succeeded rows of a binding; only the admission
  makes more of them.
\<close>

definition counts_for :: "(capability_invocation \<Rightarrow> bool) \<Rightarrow> bool" where
  "counts_for P \<longleftrightarrow>
     (\<forall>v. P v \<longrightarrow> iv_status v \<in> {I_pending, I_succeeded}) \<and>
     (\<forall>v f. same_identity f \<longrightarrow> P (f v) \<longrightarrow> iv_status v = I_pending \<longrightarrow> P v)"

text \<open>The quotas admit a counted row only while there are fewer than the limit.\<close>

definition limited_by ::
  "gateway_env \<Rightarrow> capability_binding list \<Rightarrow> (capability_invocation \<Rightarrow> bool) \<Rightarrow> int \<Rightarrow> bool"
where
  "limited_by E B P limit \<longleftrightarrow>
     (\<forall>b p t v rows. b \<in> set B \<longrightarrow> P v \<longrightarrow> enforce_quota E b p (iv_execution_id v) t rows = Inr () \<longrightarrow>
        iv_binding_id v = Some (cb_id b) \<longrightarrow> count_where P rows < limit)"

lemma limited_byI:
  assumes "\<And>b p t v rows. b \<in> set B \<Longrightarrow> P v \<Longrightarrow> enforce_quota E b p (iv_execution_id v) t rows = Inr () \<Longrightarrow>
      iv_binding_id v = Some (cb_id b) \<Longrightarrow> count_where P rows < limit"
  shows "limited_by E B P limit"
  unfolding limited_by_def using assms by blast

lemma invocation_step_count:
  assumes "invocation_step E B rows rows'" and "counts_for P" and "distinct (map iv_id rows)"
    and "limited_by E B P limit"
    and "count_where P rows \<le> max 0 limit"
  shows "count_where P rows' \<le> max 0 limit" and "distinct (map iv_id rows')"
proof -
  have "count_where P rows' \<le> max 0 limit \<and> distinct (map iv_id rows')"
    using assms(1)
  proof cases
    case (call_admitted b p x t v)
    have "count_where P rows < limit" if "P v"
      using assms(4) call_admitted that unfolding limited_by_def by blast
    then show ?thesis using assms(3,5) call_admitted by (auto simp: count_append)
  next
    case (refusal_recorded v)
    then have "\<not> P v" using assms(2) unfolding counts_for_def by force
    then show ?thesis using assms(3,5) refusal_recorded by (auto simp: count_append)
  next
    case (call_succeeded u v f)
    have "P r" if "r \<in> set rows" "iv_id r = u" "P (f r)" for r
    proof -
      have "r = v" using that row_get_in [OF assms(3) that(1)] call_succeeded(2) by simp
      then show ?thesis using assms(2) that(3) call_succeeded(3,4) unfolding counts_for_def by blast
    qed
    moreover have "map iv_id rows' = map iv_id rows"
      using call_succeeded(1,4) invocation_rows.keys_upd [of f u rows] by (simp add: same_identity_def)
    ultimately show ?thesis using count_upd [of rows u P f] assms(3,5) call_succeeded(1) by simp
  next
    case (call_failed f u)
    have "\<not> P (f r)" for r using assms(2) call_failed(3) [of r] unfolding counts_for_def by force
    moreover have "map iv_id rows' = map iv_id rows"
      using call_failed(1,2) invocation_rows.keys_upd [of f u rows] by (simp add: same_identity_def)
    ultimately show ?thesis using count_upd [of rows u P f] assms(3,5) call_failed(1) by simp
  qed
  then show "count_where P rows' \<le> max 0 limit" "distinct (map iv_id rows')" by blast+
qed

lemma invocation_steps_count:
  assumes "invocation_steps E B [] rows" and "counts_for P" and "limited_by E B P limit"
  shows "count_where P rows \<le> max 0 limit"
proof -
  have "count_where P rows \<le> max 0 limit \<and> distinct (map iv_id rows)"
    using assms(1)
  proof (induction rule: rtranclp_induct)
    case base
    then show ?case by (simp add: count_where_def)
  next
    case (step rows rows')
    then show ?case using invocation_step_count [OF step.hyps(2) assms(2) _ assms(3)] by simp
  qed
  then show ?thesis ..
qed

lemma quota_of_binding:
  assumes "distinct (map cb_id B)" and "b \<in> set B" and "b' \<in> set B" and "cb_id b' = cb_id b"
  shows "b' = b"
  using assms by (simp add: eq_key_imp_eq_value distinct_map inj_on_def)

lemma pending_limited:
  assumes "distinct (map cb_id B)" and "b \<in> set B"
    and "int_setting E (as_obj (cb_quota_policy b)) ''max_concurrency'' 2 = Inr c"
  shows "limited_by E B (\<lambda>v. iv_binding_id v = Some (cb_id b) \<and> iv_status v = I_pending) c"
proof (rule limited_byI)
  fix b' p t v rows
  assume *: "b' \<in> set B" "iv_binding_id v = Some (cb_id b) \<and> iv_status v = I_pending"
    "enforce_quota E b' p (iv_execution_id v) t rows = Inr ()" "iv_binding_id v = Some (cb_id b')"
  then have "b' = b" using quota_of_binding [OF assms(1,2)] by simp
  with enforce_quota_Inr [OF *(3)] assms(3)
  show "count_where (\<lambda>v. iv_binding_id v = Some (cb_id b) \<and> iv_status v = I_pending) rows < c" by auto
qed

lemma calls_limited:
  assumes "distinct (map cb_id B)" and "b \<in> set B"
    and "int_setting E (as_obj (cb_quota_policy b)) ''calls_per_execution'' 20 = Inr n"
  shows "limited_by E B (\<lambda>v. iv_binding_id v = Some (cb_id b) \<and> iv_execution_id v = x \<and>
    iv_status v \<in> {I_pending, I_succeeded}) n"
proof (rule limited_byI)
  fix b' p t v rows
  assume *: "b' \<in> set B"
    "iv_binding_id v = Some (cb_id b) \<and> iv_execution_id v = x \<and> iv_status v \<in> {I_pending, I_succeeded}"
    "enforce_quota E b' p (iv_execution_id v) t rows = Inr ()" "iv_binding_id v = Some (cb_id b')"
  then have "b' = b" "iv_execution_id v = x" using quota_of_binding [OF assms(1,2)] by simp_all
  with enforce_quota_Inr [OF *(3)] assms(3)
  have "count_where (\<lambda>v. iv_binding_id v = Some (cb_id b) \<and> iv_execution_id v = x) rows < n" by auto
  moreover have "count_where (\<lambda>v. iv_binding_id v = Some (cb_id b) \<and> iv_execution_id v = x \<and>
      iv_status v \<in> {I_pending, I_succeeded}) rows \<le>
      count_where (\<lambda>v. iv_binding_id v = Some (cb_id b) \<and> iv_execution_id v = x) rows"
    by (rule count_mono) simp
  ultimately show "count_where (\<lambda>v. iv_binding_id v = Some (cb_id b) \<and> iv_execution_id v = x \<and>
      iv_status v \<in> {I_pending, I_succeeded}) rows < n"
    by linarith
qed

lemma quotas_bound_invocations_parts:
  assumes "invocation_steps E B [] rows" and "distinct (map cb_id B)" and "b \<in> set B"
    and "int_setting E (as_obj (cb_quota_policy b)) ''max_concurrency'' 2 = Inr c"
    and "int_setting E (as_obj (cb_quota_policy b)) ''calls_per_execution'' 20 = Inr n"
  shows "count_where (\<lambda>v. iv_binding_id v = Some (cb_id b) \<and> iv_status v = I_pending) rows \<le> max 0 c"
    and "count_where (\<lambda>v. iv_binding_id v = Some (cb_id b) \<and> iv_execution_id v = x \<and>
           iv_status v \<in> {I_pending, I_succeeded}) rows \<le> max 0 n"
proof -
  have "counts_for (\<lambda>v. iv_binding_id v = Some (cb_id b) \<and> iv_status v = I_pending)"
    "counts_for (\<lambda>v. iv_binding_id v = Some (cb_id b) \<and> iv_execution_id v = x \<and> iv_status v \<in> {I_pending, I_succeeded})"
    by (auto simp: counts_for_def same_identity_def)
  from invocation_steps_count [OF assms(1) this(1) pending_limited [OF assms(2,3,4)]]
    invocation_steps_count [OF assms(1) this(2) calls_limited [OF assms(2,3,5)]]
  show "count_where (\<lambda>v. iv_binding_id v = Some (cb_id b) \<and> iv_status v = I_pending) rows \<le> max 0 c"
    "count_where (\<lambda>v. iv_binding_id v = Some (cb_id b) \<and> iv_execution_id v = x \<and>
       iv_status v \<in> {I_pending, I_succeeded}) rows \<le> max 0 n" by simp_all
qed

text \<open>
  Nothing ends a call whose request was cancelled or whose gateway died: its row stays pending, and
  as many of them as the concurrency allows refuse every later call of the binding.
\<close>

lemma abandoned_calls_block_binding:
  assumes "int_setting E (as_obj (cb_quota_policy b)) ''calls_per_execution'' 20 = Inr n"
    and "int_setting E (as_obj (cb_quota_policy b)) ''calls_per_minute'' 60 = Inr k"
    and "int_setting E (as_obj (cb_quota_policy b)) ''max_concurrency'' 2 = Inr c"
    and "c \<le> count_where (\<lambda>v. iv_binding_id v = Some (cb_id b) \<and> iv_status v = I_pending) rows"
  shows "\<exists>m. enforce_quota E b p x t rows = Inl (Gateway_error ''RATE_LIMITED'' m)"
  using assms by (simp add: enforce_quota_def Let_def count_where_def conj_commute)

lemma cancelled_call_stays_pending:
  assumes "invoke_body E header body (w\<lparr>gw_vars := no_vars\<rparr>) = (Inl Task_cancelled, w')"
  shows "invoke_capability E header body w = (Inl Task_cancelled, w')"
  by (simp add: invoke_capability_def assms)

text \<open>Calls that were refused, also those refused by the quota, use it up.\<close>

lemma refused_calls_use_the_quota:
  assumes "int_setting E (as_obj (cb_quota_policy b)) ''calls_per_execution'' 20 = Inr n"
    and "int_setting E (as_obj (cb_quota_policy b)) ''calls_per_minute'' 60 = Inr k"
    and "int_setting E (as_obj (cb_quota_policy b)) ''max_concurrency'' 2 = Inr c"
    and "n \<le> count_where (\<lambda>v. iv_binding_id v = Some (cb_id b) \<and> iv_execution_id v = x \<and> iv_status v = I_denied) rows"
  shows "\<exists>m. enforce_quota E b p x t rows = Inl (Gateway_error ''RATE_LIMITED'' m)"
proof -
  have "n \<le> count_where (\<lambda>v. iv_execution_id v = x) (filter (\<lambda>v. iv_binding_id v = Some (cb_id b)) rows)"
    using assms(4) count_mono [of "\<lambda>v. iv_binding_id v = Some (cb_id b) \<and> iv_execution_id v = x \<and> iv_status v = I_denied"
        "\<lambda>v. iv_binding_id v = Some (cb_id b) \<and> iv_execution_id v = x" rows]
    by (simp add: count_where_def conj_commute)
  then show ?thesis using assms(1-3) by (simp add: enforce_quota_def Let_def)
qed

section \<open>Failures are recorded\<close>

definition no_denial :: "gateway_exn \<Rightarrow> bool" where
  "no_denial e \<longleftrightarrow> (\<forall>m. e \<noteq> Access_denied m)"

lemma own_no_denial: "own_error e \<Longrightarrow> no_denial e"
  by (auto simp: own_error_def no_denial_def)

lemma no_denial_simps [simp]: "no_denial Other_exn" "no_denial (Gateway_error c m)"
  by (simp_all add: no_denial_def)

lemma transport_no_denial: "no_denial (transport e)"
  by (cases e) (simp_all add: no_denial_def)

lemma first_refusal_Inl: "first_refusal zone as = Inl e \<Longrightarrow> own_error e"
  by (induction as) (auto simp: address_refused_def own_errors Let_def split: option.splits if_splits)

lemma validate_network_Inl: "validate_network E endpoint zone config = Inl e \<Longrightarrow> own_error e"
  by (auto simp: validate_network_def Let_def own_errors dest: first_refusal_Inl split: option.splits if_splits)

lemma operation_url_Inl: "operation_url E endpoint path = Inl e \<Longrightarrow> own_error e"
  by (auto simp: operation_url_def Let_def own_errors split: option.splits if_splits)

lemma provider_headers_Inl: "provider_headers E auth config secret = Inl e \<Longrightarrow> own_error e"
  by (auto simp: provider_headers_def Let_def own_errors split: option.splits if_splits)

lemma map_request_Inl: "map_request E arguments mapping = Inl e \<Longrightarrow> own_error e"
  by (auto simp: map_request_def Let_def rbind_Inl dest: py_step_Inl)

lemma float_setting_Inl: "float_setting E d k i = Inl e \<Longrightarrow> own_error e"
  by (auto simp: float_setting_def Let_def own_errors split: option.splits json.splits)

lemma prepare_call_Inl: "prepare_call E p arguments secret = Inl e \<Longrightarrow> own_error e"
  unfolding prepare_call_def Let_def rbind_Inl
  using provider_headers_Inl validate_network_Inl map_request_Inl float_setting_Inl by blast

lemma mcp_request_Inl: "mcp_request p C headers timeouts data = Inl e \<Longrightarrow> own_error e"
  by (auto simp: mcp_request_def Let_def own_errors split: if_splits)

lemma http_request_Inl: "http_request E p headers timeouts data = Inl e \<Longrightarrow> own_error e"
  by (auto simp: http_request_def Let_def rbind_Inl dest: operation_url_Inl validate_network_Inl)

lemma allowed_retries_Inl: "allowed_retries E op policy i = Inl e \<Longrightarrow> own_error e"
  by (auto simp: allowed_retries_def rbind_Inl int_setting_def dest: py_step_Inl)

lemma read_limited_Inl: "read_limited limit got chunks b = Inl e \<Longrightarrow> no_denial e"
  by (induction limit got chunks b rule: read_limited.induct)
    (auto simp: rbind_Inl transport_no_denial split: if_splits)

lemma http_attempts_Inl: "http_attempts E rq retries a n seen hist = (Inl e, hist') \<Longrightarrow> no_denial e"
  by (induction n arbitrary: a seen hist)
    (auto simp: transport_no_denial dest: read_limited_Inl split: http_outcome.splits sum.splits if_splits)

lemma http_result_Inl: "http_result E answer = Inl e \<Longrightarrow> own_error e"
  by (auto simp: http_result_def own_errors split: option.splits if_splits)

lemma mcp_result_Inl: "mcp_result E t r = Inl e \<Longrightarrow> no_denial e"
  by (auto simp: mcp_result_def mcp_failure_def transport_no_denial
      split: mcp_outcome.splits if_splits option.splits list.splits)

lemma invoke_provider_Inl: "invoke_provider E p arguments secret C hist = (Inl e, hist') \<Longrightarrow> no_denial e"
  unfolding invoke_provider_def
  by (auto split: sum.splits prod.splits if_splits
      dest: prepare_call_Inl mcp_request_Inl http_request_Inl allowed_retries_Inl http_attempts_Inl http_result_Inl
        mcp_result_Inl own_no_denial)

lemma trace_raises: "raises no_denial (trace E event u b)"
  by (auto simp: raises_def trace_def no_denial_def split: option.splits)

lemma finish_raises: "raises no_denial (finish E u s out c hit)" "raises no_denial (cache_set E b m claims arguments v)"
  by (auto simp: raises_def finish_def gchange_def cache_set_def)

lemma provider_step_raises: "raises no_denial (provider_step E token b p arguments)"
proof -
  have secret: "provider_secret E p = Inl e \<Longrightarrow> no_denial e" for e
    by (auto simp: provider_secret_def no_denial_def split: option.splits if_splits)
  show ?thesis unfolding provider_step_def
    by (intro raises_bind raises_basic secret) (auto simp: raises_def dest: invoke_provider_Inl split: prod.splits)
qed

lemma answers_raise:
  "raises no_denial (answer_from_cache E claims b m u v)"
  "raises no_denial (answer_from_provider E token claims b m p arguments u)"
  unfolding answer_from_cache_def answer_from_provider_def Let_def
  by (intro raises_rules trace_raises finish_raises, simp)
    (intro raises_rules trace_raises finish_raises provider_step_raises,
      auto simp: no_denial_def split: validation.splits)

lemma verified_text: "verify_capability_token loads hmac key t token = Inr c \<Longrightarrow> dget c ''execution_id'' \<noteq> JStr []"
  by (auto simp: verify_iff check_claims_def split: if_splits)

text \<open>What is known when the body of an admitted request has raised.\<close>

lemma invoke_body_raised:
  assumes "invoke_body E header body w = (Inl x, w')" and "caller_admitted E header body w claims payload e"
  shows "no_denial x" and "audited w'" and "lv_claims (gw_vars w') = Some claims"
    and "lv_execution_id (gw_vars w') = request_text E payload ''execution_id''"
    and "own_error x \<or> cs_invocations (gw_cap w') \<noteq> cs_invocations (gw_cap w)"
proof -
  have nonempty: "request_text E payload ''execution_id'' \<noteq> []"
    using assms(2) unfolding caller_admitted_def
    by (elim conjE exE) (auto dest: verified_text)
  have unique: "c = claims \<and> q = payload" if "caller_admitted E header body w c q y" for c q y
    using that assms(2) unfolding caller_admitted_iff by auto
  have "no_denial x \<and> audited w' \<and> lv_claims (gw_vars w') = Some claims \<and>
      lv_execution_id (gw_vars w') = request_text E payload ''execution_id'' \<and>
      (own_error x \<or> cs_invocations (gw_cap w') \<noteq> cs_invocations (gw_cap w))"
    using assms(1)
  proof (cases rule: invoke_body_cases)
    case (refused e')
    then show ?thesis using refused(3) [OF assms(2)] nonempty own_no_denial by (auto simp: audited_def)
  next
    case (admitting c q e' b m p scoped w2 token)
    note same = unique [OF admitting(1)]
    from admitting(12) show ?thesis
    proof (cases rule: abind_cases)
      case (stops y)
      have "same_caller w2 w'" by (rule keepsD [OF admit_invocation_keeps(2) stops(1)])
      moreover have "own_error x" using raisesD [OF admit_invocation_raises stops(1)] stops(2) by simp
      ultimately show ?thesis using admitting(6,7,8) same nonempty own_no_denial by (auto simp: same_caller_def audited_def)
    next
      case (continues u w3)
      have c3: "same_caller w2 w3" by (rule keepsD [OF admit_invocation_keeps(2) continues(1)])
      have rows3: "cs_invocations (gw_cap w3) \<noteq> cs_invocations (gw_cap w)"
        using admit_invocation_rows [OF continues(1)] admitting(2) by (auto simp: same_call_def)
      have "gw_vars w' = gw_vars w3 \<and> no_denial x \<and> length (cs_invocations (gw_cap w')) = length (cs_invocations (gw_cap w3))"
        using continues(2)
      proof (cases rule: abind_cases)
        case (stops y)
        then show ?thesis
          by (auto simp: gread_eq usable_cache_def split: option.splits validation.splits)
      next
        case (continues cached w4)
        then have w4: "w4 = w3" by (simp add: gread_eq)
        have "finish_at u w3 w'" "no_denial x"
          using continues(2) keepsD [OF finish_at_cache] keepsD [OF finish_at_provider]
            raisesD [OF answers_raise(1)] raisesD [OF answers_raise(2)] w4 by (cases cached; force)+
        then show ?thesis by (auto simp: finish_at_def upd_invocation_def)
      qed
      moreover have "length (cs_invocations (gw_cap w3)) \<noteq> length (cs_invocations (gw_cap w))"
        using admit_invocation_rows [OF continues(1)] admitting(2) by (auto simp: same_call_def)
      ultimately show ?thesis using c3 admitting(6,7,8) same nonempty
        by (auto simp: same_caller_def audited_def)
    qed
  qed
  then show "no_denial x" "audited w'" "lv_claims (gw_vars w') = Some claims"
    "lv_execution_id (gw_vars w') = request_text E payload ''execution_id''"
    "own_error x \<or> cs_invocations (gw_cap w') \<noteq> cs_invocations (gw_cap w)" by blast+
qed

text \<open>A row that records the failure \<open>code\<close> of the call \<open>u\<close> of the execution \<open>x\<close>.\<close>

definition records_failure :: "uuid \<Rightarrow> uuid \<Rightarrow> string \<Rightarrow> capability_invocation \<Rightarrow> bool" where
  "records_failure u x code v \<longleftrightarrow> iv_id v = u \<and> iv_execution_id v = x \<and> iv_error_code v = Some code \<and>
     iv_status v = (if code = ''PERMISSION_DENIED'' then I_denied else I_failed)"

text \<open>The row of a call in the state after the body: none, or one of the execution of the call.\<close>

lemma body_failure_row:
  assumes "invoke_body E header body w = (Inl e, w')" and "lv_invocation_id (gw_vars w) = None" and "fresh_ids (gw_cap w)"
    and "ge_cast E (lv_execution_id (gw_vars w')) = Some x"
  shows "fst (failure_id w') = cs_next_id (gw_cap w)" and "cs_invocations (snd (failure_id w')) = cs_invocations (gw_cap w')"
    and "(row_get iv_id (cs_next_id (gw_cap w)) (cs_invocations (gw_cap w')) = None \<and>
            cs_invocations (gw_cap w') = cs_invocations (gw_cap w)) \<or>
         (lv_invocation_id (gw_vars w') = Some (cs_next_id (gw_cap w)) \<and>
          (\<exists>v\<in>set (cs_invocations (gw_cap w')). iv_id v = cs_next_id (gw_cap w) \<and> iv_execution_id v = x))"
proof -
  have new: "row_get iv_id (cs_next_id (gw_cap w)) (cs_invocations (gw_cap w)) = None"
    using fresh_not_in [OF assms(3)] by (simp add: row_get_None)
  have "fst (failure_id w') = cs_next_id (gw_cap w) \<and> cs_invocations (snd (failure_id w')) = cs_invocations (gw_cap w') \<and>
     ((row_get iv_id (cs_next_id (gw_cap w)) (cs_invocations (gw_cap w')) = None \<and>
            cs_invocations (gw_cap w') = cs_invocations (gw_cap w)) \<or>
      (lv_invocation_id (gw_vars w') = Some (cs_next_id (gw_cap w)) \<and>
       (\<exists>v\<in>set (cs_invocations (gw_cap w')). iv_id v = cs_next_id (gw_cap w) \<and> iv_execution_id v = x)))"
    using assms(1,2)
  proof (cases rule: invoke_body_rows)
    case (unrecorded e')
    then show ?thesis using new by (auto simp: failure_id_def)
  next
    case (recorded b p y v)
    then have "y = x" using assms(4) by simp
    have "\<exists>v'\<in>set (cs_invocations (gw_cap w')). iv_id v' = iv_id v \<and> iv_execution_id v' = iv_execution_id v"
      using recorded(11) by (auto simp: set_row_upd finished_row_def)
    with recorded \<open>y = x\<close> show ?thesis by (auto simp: failure_id_def)
  qed
  then show "fst (failure_id w') = cs_next_id (gw_cap w)" "cs_invocations (snd (failure_id w')) = cs_invocations (gw_cap w')"
    "(row_get iv_id (cs_next_id (gw_cap w)) (cs_invocations (gw_cap w')) = None \<and>
            cs_invocations (gw_cap w') = cs_invocations (gw_cap w)) \<or>
     (lv_invocation_id (gw_vars w') = Some (cs_next_id (gw_cap w)) \<and>
      (\<exists>v\<in>set (cs_invocations (gw_cap w')). iv_id v = cs_next_id (gw_cap w) \<and> iv_execution_id v = x))"
    by blast+
qed

lemma upsert_failure_records:
  assumes "row_get iv_id u (cs_invocations cs) = None \<or> (\<exists>v\<in>set (cs_invocations cs). iv_id v = u \<and> iv_execution_id v = x)"
  shows "\<exists>v\<in>set (cs_invocations (upsert_failure l x ver code n t u cs)). records_failure u x code v"
proof (cases "row_get iv_id u (cs_invocations cs)")
  case None
  then show ?thesis
    by (simp add: upsert_failure_def add_invocation_def records_failure_def failure_row_def failure_status_def)
next
  case (Some r)
  then obtain v where "v \<in> set (cs_invocations cs)" "iv_id v = u" "iv_execution_id v = x" using assms by auto
  then show ?thesis using Some
    by (auto simp: upsert_failure_def upd_invocation_def set_row_upd intro!: bexI [of _ "failed_row code n t v"])
      (auto simp: records_failure_def failed_row_def failure_status_def)
qed

definition response_code :: "json \<Rightarrow> string" where
  "response_code j = as_str (dget (as_obj (dget (as_obj j) ''error'')) ''code'')"

definition response_id :: "json \<Rightarrow> json" where
  "response_id j = dget (as_obj j) ''invocation_id''"

lemma error_response_facts:
  "response_code (snd (error_response code m u)) = code" "response_id (snd (error_response code m u)) = opt_id u"
  by (simp_all add: error_response_def response_code_def response_id_def dget_def)

lemma respond_error_records:
  assumes "respond_error E code m w' = (Inr (n, j), w2)" and "audited w'"
    and body: "invoke_body E header body w = (Inl e, w')" "lv_invocation_id (gw_vars w) = None" "fresh_ids (gw_cap w)"
    and casts: "failure_casts E w' = Some (x, ver)"
  shows "(\<exists>v\<in>set (cs_invocations (gw_cap w2)). records_failure (cs_next_id (gw_cap w)) x code v) \<and>
    response_code j = code \<and> response_id j = JStr (uuid_str (cs_next_id (gw_cap w)))"
proof -
  have x: "ge_cast E (lv_execution_id (gw_vars w')) = Some x"
    using casts by (auto simp: failure_casts_def split: option.splits)
  note row = body_failure_row [OF body x]
  have "(n, j) = error_response code m (Some (cs_next_id (gw_cap w)))" and
    w2: "gw_cap w2 = upsert_failure (gw_vars w') x (Some ver) code (max 0 (ge_latency E)) (gw_now w')
      (cs_next_id (gw_cap w)) (snd (failure_id w'))"
    using assms(1,2) casts row(1) by (auto simp: respond_error_def abind_def audit_failure_eq aret_def)
  then have "j = snd (error_response code m (Some (cs_next_id (gw_cap w))))" by (metis snd_conv)
  moreover have "\<exists>v\<in>set (cs_invocations (gw_cap w2)). records_failure (cs_next_id (gw_cap w)) x code v"
    unfolding w2 by (rule upsert_failure_records) (use row(2,3) in auto)
  ultimately show ?thesis by (simp add: error_response_facts opt_id_def)
qed

lemma respond_http_error_records:
  assumes "respond_http_error E code m w' = (Inr (n, j), w2)" and "code \<noteq> ''PERMISSION_DENIED''"
    and "lv_invocation_id (gw_vars w') = Some u"
    and "\<exists>v\<in>set (cs_invocations (gw_cap w')). iv_id v = u \<and> iv_execution_id v = x"
  shows "(\<exists>v\<in>set (cs_invocations (gw_cap w2)). records_failure u x code v) \<and>
    response_code j = code \<and> response_id j = JStr (uuid_str u)"
proof -
  have "(n, j) = error_response code m (Some u)"
    and w2: "gw_cap w2 = upd_invocation u (finished_row I_failed (max 0 (ge_latency E)) (JObj []) (Some code) False (gw_now w')) (gw_cap w')"
    using assms(1,3) by (auto simp: respond_http_error_def abind_def finish_def gchange_def aret_def)
  then have "j = snd (error_response code m (Some u))" by (metis snd_conv)
  moreover obtain v where "v \<in> set (cs_invocations (gw_cap w'))" "iv_id v = u" "iv_execution_id v = x"
    using assms(4) by blast
  ultimately show ?thesis using assms(2)
    by (auto simp: error_response_facts opt_id_def w2 upd_invocation_def set_row_upd records_failure_def finished_row_def
        intro!: bexI [of _ "finished_row I_failed (max 0 (ge_latency E)) (JObj []) (Some code) False (gw_now w') v"])
qed

lemma invoke_body_answers:
  assumes "invoke_body E header body w = (Inr y, w')"
  shows "fst y = 200"
proof -
  have cached: "answer_from_cache E claims b m u v w0 = (Inr y, w') \<Longrightarrow> fst y = 200" for claims b m u v w0
    by (auto simp: answer_from_cache_def abind_Inr gread_eq success_response_def)
  have called: "answer_from_provider E token claims b m p arguments u w0 = (Inr y, w') \<Longrightarrow> fst y = 200"
    for token claims b m p arguments u w0
    by (auto simp: answer_from_provider_def abind_Inr gread_eq success_response_def Let_def)
  have choice: "(case found of Some v \<Rightarrow> answer_from_cache E claims b m u v
      | None \<Rightarrow> answer_from_provider E token claims b m p arguments u) w0 = (Inr y, w') \<Longrightarrow> fst y = 200"
    for found claims b m u token p arguments w0
    using cached called by (cases found) auto
  from assms show ?thesis
    unfolding invoke_body_def abind_Inr split_beta using choice by blast
qed

lemma failure_recorded_lemma:
  assumes "invoke_capability E header body w = (Inr (n, j), w2)" and "n \<noteq> 200"
    and "caller_admitted E header body w claims payload e" and "fresh_ids (gw_cap w)"
    and "ge_cast E (version_text e) \<noteq> None"
  shows "(\<exists>v\<in>set (cs_invocations (gw_cap w2)).
      records_failure (cs_next_id (gw_cap w)) (ex_id e) (response_code j) v) \<and>
    response_id j = JStr (uuid_str (cs_next_id (gw_cap w)))"
proof -
  let ?w = "w\<lparr>gw_vars := no_vars\<rparr>"
  obtain r1 w' where b: "invoke_body E header body ?w = (r1, w')" by (cases "invoke_body E header body ?w")
  have admitted: "caller_admitted E header body ?w claims payload e" using assms(3) by simp
  have start: "lv_invocation_id (gw_vars ?w) = None" "fresh_ids (gw_cap ?w)" using assms(4) by (simp_all add: no_vars_def)
  show ?thesis
  proof (cases r1)
    case (Inr y)
    then have "invoke_capability E header body w = (Inr y, w')" by (simp add: invoke_capability_def b)
    then have "y = (n, j)" using assms(1) by simp
    have "n = 200"
      using invoke_body_answers [OF b [unfolded Inr]] \<open>y = (n, j)\<close> by simp
    then show ?thesis using assms(2) by simp
  next
    case (Inl x)
    note raised = invoke_body_raised [OF b [unfolded Inl] admitted]
    note d = assms(1) [unfolded invoke_capability_def b Inl prod.case sum.case]
    obtain id where cast: "ge_cast E (request_text E payload ''execution_id'') = Some id" "get_execution id (gw_db w) = Some e"
      and ver: "dget claims ''agent_version_id'' = JStr (version_text e)"
      using assms(3) unfolding caller_admitted_def by auto
    have id: "id = ex_id e" using row_get_Some [OF cast(2)] by simp
    obtain v where v: "ge_cast E (version_text e) = Some v" using assms(5) by auto
    have casts: "failure_casts E w' = Some (ex_id e, v)"
      using raised(3,4) cast(1) ver v by (simp add: failure_casts_def id)
    have own: ?thesis if "respond_error E c m w' = (Inr (n, j), w2)" for c m
      using respond_error_records [OF that raised(2) b [unfolded Inl] start casts] by simp
    have http: ?thesis if "respond_http_error E c m w' = (Inr (n, j), w2)" and "c \<noteq> ''PERMISSION_DENIED''" and "\<not> own_error x" for c m
    proof -
      have lv: "ge_cast E (lv_execution_id (gw_vars w')) = Some (ex_id e)" using raised(4) cast(1) id by simp
      from body_failure_row(3) [OF b [unfolded Inl] start lv] raised(5) that(3)
      have "lv_invocation_id (gw_vars w') = Some (cs_next_id (gw_cap w))"
        "\<exists>v\<in>set (cs_invocations (gw_cap w')). iv_id v = cs_next_id (gw_cap w) \<and> iv_execution_id v = ex_id e"
        by auto
      from respond_http_error_records [OF that(1,2) this] show ?thesis by simp
    qed
    show ?thesis
    proof (cases x)
      case (Access_denied m)
      then show ?thesis using raised(1) by (simp add: no_denial_def)
    next
      case Http_timeout
      then show ?thesis using d http [of "''TIMEOUT''"] by (simp add: own_error_def)
    next
      case Http_failure
      then show ?thesis using d http [of "''PROVIDER_UNAVAILABLE''"] by (simp add: own_error_def)
    qed (use d own in simp_all)
  qed
qed

end
