(* ===== verification/Gateway_Claims.thy ===== *)
theory Gateway_Claims
  imports Gateway_Invocations "HOL-Library.Countable"
begin

text \<open>
  The properties of the Capability Gateway that rest on the theories of its components: who gets a
  provider called, what is recorded, what the quotas bound, where the requests go and which answers
  the cache gives.
\<close>

section \<open>The cache\<close>

text \<open>Two JSON values give the same text with sorted keys only if they agree up to the order of keys.\<close>

fun key_sorted :: "json \<Rightarrow> json" where
  "key_sorted (JArr xs) = JArr (map key_sorted xs)"
| "key_sorted (JObj d) = JObj (sort_key fst (map (\<lambda>(k, v). (k, key_sorted v)) d))"
| "key_sorted v = v"

lemma map_of_filter: "map_of xs k = (case filter (\<lambda>p. fst p = k) xs of [] \<Rightarrow> None | p # _ \<Rightarrow> Some (snd p))"
  by (induction xs) auto

lemma map_of_sorted: "map_of (sort_key fst xs) k = map_of xs k"
proof -
  have "filter (\<lambda>p. fst p = k) (sort_key fst xs) = filter (\<lambda>p. fst p = k) xs"
    using sort_key_stable [of fst k xs] by simp
  then show ?thesis unfolding map_of_filter by simp
qed

lemma map_of_key_sorted: "map_of (as_obj (key_sorted (JObj d))) k = map_option key_sorted (map_of d k)"
proof -
  have "map_of (map (\<lambda>(k, v). (k, key_sorted v)) d) k = map_option key_sorted (map_of d k)"
    by (rule map_of_map [THEN fun_cong, simplified comp_def])
  then show ?thesis unfolding key_sorted.simps as_obj.simps map_of_sorted .
qed

lemma cache_key_identifies:
  assumes "inj (ge_sha256 E)" and "\<And>x y. ge_sorted_dumps E x = ge_sorted_dumps E y \<Longrightarrow> key_sorted x = key_sorted y"
    and "cache_key E b m claims a = cache_key E b' m' claims' a'"
  shows "key_sorted (dget claims ''agent_id'') = key_sorted (dget claims' ''agent_id'')"
    and "uuid_str (cb_id (bb_binding b)) = uuid_str (cb_id (bb_binding b'))"
    and "cv_version (bb_version b) = cv_version (bb_version b')"
    and "key_sorted (JObj a) = key_sorted (JObj a')"
proof -
  have "key_sorted (cache_material b m claims a) = key_sorted (cache_material b' m' claims' a')"
  proof (rule assms(2))
    have "ge_sha256 E (ge_sorted_dumps E (cache_material b m claims a)) =
        ge_sha256 E (ge_sorted_dumps E (cache_material b' m' claims' a'))"
      using assms(3) by (simp add: cache_key_def)
    then show "ge_sorted_dumps E (cache_material b m claims a) = ge_sorted_dumps E (cache_material b' m' claims' a')"
      by (rule injD [OF assms(1)])
  qed
  then have same: "map_of (as_obj (key_sorted (cache_material b m claims a))) k =
      map_of (as_obj (key_sorted (cache_material b' m' claims' a'))) k" for k by simp
  note look = same [unfolded cache_material_def map_of_key_sorted]
  show "key_sorted (dget claims ''agent_id'') = key_sorted (dget claims' ''agent_id'')"
    using look [of "''agent_id''"] by simp
  show "uuid_str (cb_id (bb_binding b)) = uuid_str (cb_id (bb_binding b'))"
    using look [of "''binding_id''"] by simp
  show "cv_version (bb_version b) = cv_version (bb_version b')"
    using look [of "''version''"] by simp
  show "key_sorted (JObj a) = key_sorted (JObj a')"
    using look [of "''arguments''"] by (simp del: key_sorted.simps)
qed

lemma cache_round_trip:
  assumes "inj (ge_sha256 E)" and "\<And>x y. ge_sorted_dumps E x = ge_sorted_dumps E y \<Longrightarrow> key_sorted x = key_sorted y"
    and "ge_loads E (ge_dumps E v) = Some v"
    and "map_of (gw_cache w) (cache_key E b' m' claims' a') = None"
    and "cache_set E b m claims a v w = (Inr (), w1)"
    and "cache_get E b' m' claims' a' (w1\<lparr>gw_now := t\<rparr>) = Some x"
  shows "x = v" and "cache_key E b m claims a = cache_key E b' m' claims' a'" and "cv_side_effect (bb_version b) = ''READ_ONLY''"
    and "t < gw_now w + 3600 * 1000000"
proof -
  let ?k = "cache_key E b m claims a"
  have ttl: "cache_ttl E v' \<le> 3600" "0 < cache_ttl E v' \<Longrightarrow> cv_side_effect v' = ''READ_ONLY''" for v'
    by (auto simp: cache_ttl_def Let_def split: sum.splits if_splits)
  have up: "ge_redis E = Redis_up" and found: "map_of (gw_cache w1) (cache_key E b' m' claims' a') \<noteq> None"
    using assms(6) by (auto simp: cache_get_def split: if_splits option.splits)
  then have set: "0 < cache_ttl E (bb_version b)"
    "gw_cache w1 = AList.update ?k (ge_dumps E v, gw_now w + cache_ttl E (bb_version b) * 1000000) (gw_cache w)"
    using assms(4,5) by (auto simp: cache_set_def split: if_splits)
  then show key: "?k = cache_key E b' m' claims' a'"
    using found assms(4) by (auto simp: update_conv' split: if_splits)
  show "cv_side_effect (bb_version b) = ''READ_ONLY''" using ttl(2) set(1) by blast
  have entry: "map_of (gw_cache w1) (cache_key E b' m' claims' a') =
      Some (ge_dumps E v, gw_now w + cache_ttl E (bb_version b) * 1000000)"
    using set(2) key by (simp add: update_conv')
  with assms(6) have "t < gw_now w + cache_ttl E (bb_version b) * 1000000" and "ge_loads E (ge_dumps E v) = Some x"
    by (auto simp: cache_get_def split: if_splits json.splits option.splits)
  then show "t < gw_now w + 3600 * 1000000" "x = v" using ttl(1) [of "bb_version b"] assms(3) by auto
qed

section \<open>Settings and summaries\<close>

text \<open>A quota of zero counts as not set, and keys are redacted at the top level only.\<close>

lemma zero_quota_is_the_default:
  "int_setting E [(''max_concurrency'', JInt 0)] ''max_concurrency'' 2 = Inr 2"
  by (simp add: int_setting_def py_or_def dget_def py_int_def)

lemma nested_secret_kept:
  "summary (JObj [(''headers'', JObj [(''authorization_token'', JStr ''s'')])]) = JObj [(''headers'', JObj [(''authorization_token'', JStr ''s'')])]"
  by code_simp

section \<open>An example\<close>

text \<open>
  One execution of one Agent version with one binding to an MCP tool. The token is the one the
  example's HMAC gives; texts of UUIDs are read as in Python.
\<close>

definition sample_claims :: dict where
  "sample_claims =
     [(''execution_id'', JStr (uuid_str 1)), (''agent_id'', JStr ''a''), (''agent_version_id'', JStr (uuid_str 2)),
      (''resolution_digest'', JStr ''d''), (''jti'', JStr ''j''), (''exp'', JInt 1000),
      (''allowed_bindings'', JArr [JStr (uuid_str 3)])]"

definition sample_gateway_env :: gateway_env where
  "sample_gateway_env =
     \<lparr>ge_loads = (\<lambda>_. Some (JObj sample_claims)), ge_dumps = (\<lambda>_. ''{}''),
      ge_sorted_dumps = (\<lambda>x. replicate (to_nat (key_sorted x)) CHR ''a''), ge_rep = (\<lambda>_. []), ge_float = (\<lambda>_. None),
      ge_hmac = (\<lambda>_ _. ''A''), ge_signing_key = ''k'', ge_sha256 = (\<lambda>s. s), ge_validate = (\<lambda>_ _. Valid),
      ge_cast = parse_uuid, ge_master_key = None, ge_decrypt = (\<lambda>_ _. None), ge_renew_before = 120,
      ge_token_ttl = 600, ge_max_response = 100, ge_redis = Redis_up, ge_latency = 7, ge_isoformat = (\<lambda>_. []),
      ge_ipv6_text = (\<lambda>_. False), ge_resolve = (\<lambda>_ _. Some [V4 0x08080808]),
      ge_http = (\<lambda>_ _. No_answer T_timeout), ge_mcp = (\<lambda>_ _. Tool_result False [Text_item ''r''])\<rparr>"

definition sample_execution :: execution_log where
  "sample_execution =
     \<lparr>ex_id = 1, ex_agent_id = ''a'', ex_session_id = None, ex_status = X_running, ex_input = [], ex_input_json = JNull,
      ex_output = None, ex_output_json = JNull, ex_error = None, ex_details = JNull, ex_response_mode = ''sync'',
      ex_priority = None, ex_duration_ms = None, ex_token_usage = None, ex_runtime_type = ''hermes'', ex_runtime_id = None,
      ex_runtime_version = None, ex_retry_of_execution_id = None, ex_agent_version_id = Some 2, ex_started_at = 0,
      ex_finished_at = None\<rparr>"

definition sample_digest_version :: agent_version where
  "sample_digest_version =
     \<lparr>av_id = 2, av_agent_id = ''a'', av_version = ''v1'', av_snapshot = [], av_snapshot_format_version = 2,
      av_resolution_digest = Some ''d'', av_status = V_published, av_description = None, av_created_by = ''s'',
      av_created_at = 0, av_updated_at = 0, av_published_at = None, av_deprecated_at = None\<rparr>"

definition sample_capability_store :: capability_store where
  "sample_capability_store =
     \<lparr>cs_capabilities = [\<lparr>cp_id = 6, cp_namespace = ''platform'', cp_key = ''search'', cp_display_name = ''Search'',
         cp_description = None, cp_risk_level = ''LOW'', cp_status = ''published''\<rparr>],
      cs_versions = [\<lparr>cv_id = 5, cv_capability_id = 6, cv_version = ''1.0.0'', cv_input_schema = JObj [],
         cv_output_schema = JObj [], cv_side_effect = ''READ_ONLY'', cv_idempotency = ''SAFE_RETRY'',
         cv_cache_policy = JObj [(''enabled'', JBool True), (''ttl_seconds'', JInt 60)], cv_default_timeout_ms = 15000,
         cv_status = ''published''\<rparr>],
      cs_credentials = [],
      cs_connectors = [\<lparr>cn_id = 7, cn_key = ''c'', cn_type = ''mcp'', cn_status = ''published''\<rparr>],
      cs_instances = [\<lparr>ci_id = 8, ci_connector_id = 7, ci_current_revision_id = Some 9, ci_health_status = ''healthy'',
         ci_enabled = True\<rparr>],
      cs_revisions = [\<lparr>cr_id = 9, cr_connector_instance_id = 8, cr_revision = 1, cr_endpoint = ''http://h'',
         cr_auth_type = ''none'', cr_credential_ref = None, cr_network_zone = ''dmz'', cr_connection_config = JObj [],
         cr_timeout_policy = JObj [], cr_retry_policy = JObj []\<rparr>],
      cs_operations = [\<lparr>co_id = 10, co_connector_id = 7, co_operation_key = ''o'', co_protocol = ''mcp'', co_method = None,
         co_path_or_tool = ''search'', co_request_mapping = JObj [], co_response_mapping = JObj [],
         co_error_mapping = JObj [], co_side_effect = ''READ_ONLY'', co_status = ''published''\<rparr>],
      cs_implementations = [\<lparr>im_id = 4, im_capability_version_id = 5, im_connector_operation_id = 10,
         im_connector_instance_revision_id = 9, im_priority = 1, im_status = ''active'', im_created_at = 0\<rparr>],
      cs_scopes = [], cs_requirements = [], cs_runtimes = [], cs_profiles = [],
      cs_bindings = [\<lparr>cb_id = 3, cb_agent_version_id = 2, cb_tool_alias = ''search'', cb_capability_version_id = 5,
         cb_implementation_id = Some 4, cb_resource_scope_revision_id = None, cb_parameter_policy = JObj [],
         cb_quota_policy = JObj [], cb_approval_policy = JObj [], cb_enabled = True\<rparr>],
      cs_invocations = [], cs_next_id = 50\<rparr>"

definition sample_gateway :: gateway where
  "sample_gateway =
     \<lparr>gw_db = empty_store\<lparr>db_executions := [sample_execution],
        db_registry := empty_registry\<lparr>rg_versions := [sample_digest_version]\<rparr>\<rparr>,
      gw_cap = sample_capability_store, gw_cache = [], gw_marks = [], gw_sent = [], gw_now = 500000000, gw_vars = no_vars\<rparr>"

definition sample_header :: "string option" where
  "sample_header = Some ''Bearer cap1.eA.QQ''"

definition sample_payload :: "string \<Rightarrow> dict" where
  "sample_payload tool =
     [(''execution_id'', JStr (uuid_str 1)), (''tool_name'', JStr tool), (''arguments'', JObj [])]"

lemma sample_bearer: "bearer sample_header = Inr ''cap1.eA.QQ''"
  by code_simp

lemma sample_seal: "seal (\<lambda>_ _. ''A'') ''k'' ''cap1'' ''x'' = ''cap1.eA.QQ''"
  by code_simp

lemma small_uuid: "parse_uuid (uuid_str u) = Some u" if "u < 100"
  by (rule parse_uuid_str) (rule less_trans [OF that], simp)

lemma sample_uuids:
  "parse_uuid (uuid_str 1) = Some 1" "parse_uuid (uuid_str (Suc 0)) = Some 1" "parse_uuid (uuid_str 2) = Some 2"
  using small_uuid [of 1] small_uuid [of 2] by simp_all

lemma uuid_str_nonempty: "uuid_str u \<noteq> []"
  using length_uuid_str [of u] by (cases "uuid_str u") auto

lemma sample_verified: "verified_claims sample_gateway_env ''cap1.eA.QQ'' w = Inr sample_claims" if "gw_now w = 500000000" for w
proof -
  have "check_claims 500 sample_claims = Inr sample_claims"
    using uuid_str_nonempty by (simp add: check_claims_def sample_claims_def dget_def)
  then have "verify_capability_token (\<lambda>_. Some (JObj sample_claims)) (\<lambda>_ _. ''A'') ''k'' 500 ''cap1.eA.QQ'' = Inr sample_claims"
    using verify_sealed [of "\<lambda>_. Some (JObj sample_claims)" "''x''" sample_claims "\<lambda>_ _. ''A''" "''k''" 500 sample_claims]
    by (simp add: sample_seal)
  then show ?thesis using that by (simp add: verified_claims_Inr sample_gateway_env_def seconds_now_def)
qed

lemma sample_texts:
  "request_text sample_gateway_env (sample_payload tool) ''execution_id'' = uuid_str 1"
  "tool \<noteq> [] \<Longrightarrow> request_text sample_gateway_env (sample_payload tool) ''tool_name'' = tool"
  "as_obj (dget (sample_payload tool) ''arguments'') = []"
  using uuid_str_nonempty by (simp_all add: request_text_def sample_payload_def dget_def py_or_def)

lemma sample_admitted:
  assumes "tool \<noteq> []"
  shows "caller_admitted sample_gateway_env sample_header (Some (JObj (sample_payload tool))) sample_gateway sample_claims
     (sample_payload tool) sample_execution"
proof -
  have now: "gw_now sample_gateway = 500000000" by (simp add: sample_gateway_def)
  have "ensure_not_revoked sample_gateway_env sample_claims sample_gateway = Inr ()"
    by (simp add: ensure_not_revoked_def sample_gateway_env_def sample_gateway_def marked_def)
  moreover have "authorized_execution sample_gateway_env (uuid_str 1) sample_claims sample_gateway = Inr sample_execution"
    by (simp add: authorized_execution_Inr sample_gateway_env_def sample_uuids sample_gateway_def row_get_Cons
        sample_execution_def sample_claims_def dget_def version_text_def execution_digest_def sample_digest_version_def)
  moreover have "dget sample_claims ''execution_id'' = JStr (uuid_str 1)" "is_obj (dget (sample_payload tool) ''arguments'')"
    by (simp_all add: sample_claims_def sample_payload_def dget_def)
  ultimately show ?thesis
    unfolding caller_admitted_iff sample_texts(1) sample_texts(2) [OF assms]
    using sample_bearer sample_verified [OF now] assms by simp
qed

definition sample_vars :: "string \<Rightarrow> call_vars" where
  "sample_vars tool = no_vars\<lparr>lv_claims := Some sample_claims, lv_execution_id := uuid_str 1, lv_tool_name := tool,
     lv_authorized := True\<rparr>"

lemma sample_request:
  assumes "tool \<noteq> []"
  shows "admit_request sample_gateway_env sample_header (Some (JObj (sample_payload tool))) (sample_gateway\<lparr>gw_vars := no_vars\<rparr>) =
    (Inr (''cap1.eA.QQ'', sample_claims, sample_execution), sample_gateway\<lparr>gw_vars := sample_vars tool\<rparr>)"
  unfolding admit_request_Inr
  using sample_admitted [OF assms] sample_bearer
  by (auto simp: caller_admitted_iff sample_texts assms sample_vars_def no_vars_def)

definition sample_bound :: bound where
  "sample_bound =
     \<lparr>bb_binding = hd (cs_bindings sample_capability_store), bb_version = hd (cs_versions sample_capability_store),
      bb_capability = hd (cs_capabilities sample_capability_store)\<rparr>"

definition sample_implementation :: capability_implementation where
  "sample_implementation = hd (cs_implementations sample_capability_store)"

definition sample_provider :: provider where
  "sample_provider =
     \<lparr>pv_operation = hd (cs_operations sample_capability_store), pv_connector = hd (cs_connectors sample_capability_store),
      pv_revision = hd (cs_revisions sample_capability_store), pv_instance = hd (cs_instances sample_capability_store),
      pv_credential = None, pv_scope = None\<rparr>"

lemma sample_joined: "joined_bindings sample_capability_store = [sample_bound]"
  by (simp add: joined_bindings_def sample_capability_store_def sample_bound_def row_get_Cons)

lemma sample_bound_fields:
  "cb_agent_version_id (bb_binding sample_bound) = 2" "cb_tool_alias (bb_binding sample_bound) = ''search''"
  "cb_enabled (bb_binding sample_bound)" "cb_id (bb_binding sample_bound) = 3"
  by (simp_all add: sample_bound_def sample_capability_store_def)

lemma sample_target:
  "find_target sample_gateway_env sample_claims (sample_gateway\<lparr>gw_vars := sample_vars ''search''\<rparr>) =
     (Inr (sample_bound, sample_implementation, sample_provider), sample_gateway\<lparr>gw_vars :=
       (sample_vars ''search'')\<lparr>lv_binding := Some sample_bound, lv_implementation := Some sample_implementation\<rparr>\<rparr>)"
proof -
  have "find_binding sample_gateway_env sample_claims ''search'' (sample_gateway\<lparr>gw_vars := l\<rparr>) = Inr (Some sample_bound)" for l
  proof -
    have "parse_uuid (as_str (dget sample_claims ''agent_version_id'')) = Some 2"
      by (simp add: sample_claims_def dget_def sample_uuids)
    then show ?thesis
      by (simp add: find_binding_def sample_gateway_def sample_joined sample_gateway_env_def first_row_def sample_bound_fields)
  qed
  moreover have "binding_allowed sample_claims sample_bound"
    by (simp add: binding_allowed_def sample_claims_def dget_def sample_bound_def sample_capability_store_def)
  moreover have "implementation_of (bb_binding sample_bound) sample_capability_store = Some sample_implementation"
    by (simp add: implementation_of_def sample_bound_def sample_capability_store_def first_row_def sample_implementation_def)
  moreover have "provider_of sample_implementation (bb_binding sample_bound) sample_capability_store = Some sample_provider"
    by (simp add: provider_of_def sample_implementation_def sample_bound_def sample_capability_store_def row_get_Cons
        sample_provider_def)
  moreover have "ci_enabled (pv_instance sample_provider)" "ci_health_status (pv_instance sample_provider) \<noteq> ''offline''"
    by (simp_all add: sample_provider_def sample_capability_store_def)
  ultimately show ?thesis
    by (simp add: find_target_def abind_def gread_def gset_def aret_def sample_gateway_def sample_vars_def no_vars_def)
qed

lemma sample_checked: "checked_arguments sample_gateway_env sample_bound sample_provider sample_execution [] = Inr []"
proof -
  have fields: "cb_approval_policy (bb_binding sample_bound) = JObj []" "cb_parameter_policy (bb_binding sample_bound) = JObj []"
    "pv_scope sample_provider = None"
    by (simp_all add: sample_bound_def sample_capability_store_def sample_provider_def)
  have "gateway_policy (\<lambda>_. []) [] [] [] = Inr []" by code_simp
  moreover have "upper ''NONE'' = ''NONE''" by code_simp
  ultimately show ?thesis
    unfolding checked_arguments_Inr approved_def arguments_accepted_def fields
    by (simp add: sample_gateway_env_def approval_required_def dget_def py_or_def)
qed

lemma sample_quota: "enforce_quota sample_gateway_env (bb_binding sample_bound) sample_provider x t [] = Inr ()"
proof -
  have fields: "cb_quota_policy (bb_binding sample_bound) = JObj []"
    "cr_connection_config (pv_revision sample_provider) = JObj []"
    by (simp_all add: sample_bound_def sample_capability_store_def sample_provider_def)
  show ?thesis
    unfolding enforce_quota_def fields
    by (simp add: int_setting_def py_or_def dget_def py_int_def json_object_def as_update_def rbind_def py_step_def count_where_def)
qed

definition sample_host :: url where
  "sample_host = \<lparr>u_scheme = ''http'', u_netloc = ''h'', u_path = [], u_params = [], u_query = [], u_fragment = []\<rparr>"

lemma sample_url: "urlparse (\<lambda>_. False) ''http://h'' [] = Some sample_host"
  by code_simp

lemma sample_parts:
  "url_hostname sample_host = Some ''h''" "url_port sample_host = Some None" "u_scheme sample_host = ''http''"
  "userinfo (u_netloc sample_host) = (None, None)"
  by code_simp+

lemma sample_address: "address_refused ''dmz'' (V4 0x08080808) = None"
  unfolding address_accepted by (simp add: in_net_def) code_simp

lemma sample_network: "validate_network sample_gateway_env ''http://h'' ''dmz'' [] = Inr ()"
  by (simp add: validate_network_def sample_gateway_env_def sample_url sample_parts dget_def sample_address)

definition sample_sent :: sent where
  "sample_sent =
     \<lparr>sn_method = ''search'', sn_target = ''http://h'',
      sn_headers = [(''Accept'', ''application/json''), (''Content-Type'', ''application/json'')],
      sn_timeouts = (15, 5), sn_body = []\<rparr>"

lemma sample_provider_fields:
  "cr_auth_type (pv_revision sample_provider) = ''none''" "cr_connection_config (pv_revision sample_provider) = JObj []"
  "cr_timeout_policy (pv_revision sample_provider) = JObj []" "cr_endpoint (pv_revision sample_provider) = ''http://h''"
  "cr_network_zone (pv_revision sample_provider) = ''dmz''" "co_request_mapping (pv_operation sample_provider) = JObj []"
  "co_protocol (pv_operation sample_provider) = ''mcp''" "cn_type (pv_connector sample_provider) = ''mcp''"
  "co_path_or_tool (pv_operation sample_provider) = ''search''" "co_response_mapping (pv_operation sample_provider) = JObj []"
  "pv_credential sample_provider = None"
  by (simp_all add: sample_provider_def sample_capability_store_def)

lemma sample_call:
  "invoke_provider sample_gateway_env sample_provider [] None C [] = (Inr (JObj sample_claims), [sample_sent])"
proof -
  have settings: "float_setting sample_gateway_env [] k i = Inr (rat_of_int i)" if "i \<noteq> 0" for k i
    using that by (simp add: float_setting_def dget_def py_or_def)
  have "map_request sample_gateway_env [] [] = Inr []"
    by (simp add: map_request_def dget_def dget_default_def py_step_def rbind_def json_items_def dupdate_def)
  then have "prepare_call sample_gateway_env sample_provider [] None =
      Inr ([(''Accept'', ''application/json''), (''Content-Type'', ''application/json'')], (15, 5), [])"
    by (simp add: prepare_call_def sample_provider_fields provider_headers_def sample_network settings rbind_def)
  moreover have "mcp_request sample_provider C [(''Accept'', ''application/json''), (''Content-Type'', ''application/json'')]
      (15, 5) [] = Inr sample_sent"
    by (simp add: mcp_request_def sample_provider_fields database_types_def sample_sent_def)
  moreover have "mcp_result sample_gateway_env ''mcp'' (ge_mcp sample_gateway_env [] sample_sent) = Inr (JObj sample_claims)"
    by (simp add: mcp_result_def sample_gateway_env_def texts_of_def)
  ultimately show ?thesis
    by (simp add: invoke_provider_def sample_provider_fields)
qed

text \<open>The run of the example: the row is inserted, the tool called, and the answer given.\<close>

lemma sample_admit:
  "\<exists>w. admit_invocation sample_gateway_env sample_claims sample_bound sample_implementation sample_provider []
       (sample_gateway\<lparr>gw_vars := (sample_vars ''search'')\<lparr>lv_binding := Some sample_bound,
          lv_implementation := Some sample_implementation\<rparr>\<rparr>) = (Inr 50, w) \<and>
     gw_db w = gw_db sample_gateway \<and> gw_sent w = [] \<and> gw_cache w = [] \<and> lv_execution_id (gw_vars w) = uuid_str 1"
  by (simp add: admit_invocation_def abind_def new_invocation_id_def gset_def gread_def gchange_def aret_def
      sample_gateway_def sample_capability_store_def sample_quota [unfolded sample_gateway_env_def] sample_gateway_env_def
      sample_vars_def no_vars_def sample_uuids)

lemma sample_answer:
  assumes "gw_db w = gw_db sample_gateway" and "gw_sent w = []" and "lv_execution_id (gw_vars w) = uuid_str 1"
  shows "\<exists>j w'. answer_from_provider sample_gateway_env ''cap1.eA.QQ'' sample_claims sample_bound sample_implementation
     sample_provider [] 50 w = (Inr (200, j), w') \<and> gw_sent w' = [sample_sent]"
proof -
  have step: "provider_step sample_gateway_env ''cap1.eA.QQ'' sample_bound sample_provider [] w =
      (Inr (JObj sample_claims), w\<lparr>gw_sent := [sample_sent]\<rparr>)"
    by (simp add: provider_step_def provider_secret_def sample_provider_fields abind_def gread_def assms sample_call)
  have execution: "get_execution 1 (gw_db sample_gateway) = Some sample_execution" "ex_details sample_execution = JNull"
    by (simp_all add: sample_gateway_def sample_execution_def row_get_Cons)
  have cast: "ge_cast sample_gateway_env (uuid_str 1) = Some 1" "ge_redis sample_gateway_env = Redis_up"
    "ge_validate sample_gateway_env = (\<lambda>_ _. Valid)"
    by (simp_all add: sample_gateway_env_def sample_uuids)
  show ?thesis
    by (simp add: answer_from_provider_def step Let_def abind_def gread_def cast cache_set_def finish_def gchange_def trace_def assms execution append_events_def
        success_response_def del: One_nat_def)
qed

lemma sample_call_run:
  "\<exists>j w'. invoke_capability sample_gateway_env sample_header (Some (JObj (sample_payload ''search''))) sample_gateway =
     (Inr (200, j), w') \<and> gw_sent w' = [sample_sent]"
proof -
  let ?w = "sample_gateway\<lparr>gw_vars := no_vars\<rparr>"
  obtain w where admit: "admit_invocation sample_gateway_env sample_claims sample_bound sample_implementation sample_provider []
       (sample_gateway\<lparr>gw_vars := (sample_vars ''search'')\<lparr>lv_binding := Some sample_bound,
          lv_implementation := Some sample_implementation\<rparr>\<rparr>) = (Inr 50, w)"
    and w: "gw_db w = gw_db sample_gateway" "gw_sent w = []" "gw_cache w = []" "lv_execution_id (gw_vars w) = uuid_str 1"
    using sample_admit by blast
  obtain j w' where answer: "answer_from_provider sample_gateway_env ''cap1.eA.QQ'' sample_claims sample_bound
      sample_implementation sample_provider [] 50 w = (Inr (200, j), w')" and sent: "gw_sent w' = [sample_sent]"
    using sample_answer [OF w(1,2,4)] by blast
  have args: "lv_arguments (sample_vars ''search'') = []" by (simp add: sample_vars_def no_vars_def)
  have cache: "cache_get sample_gateway_env sample_bound sample_implementation sample_claims [] w = None"
    by (simp add: cache_get_def w)
  have "invoke_body sample_gateway_env sample_header (Some (JObj (sample_payload ''search''))) ?w = (Inr (200, j), w')"
    unfolding invoke_body_def
    by (simp add: abind_def sample_request sample_target gread_def args sample_checked admit cache usable_cache_def answer)
  then show ?thesis by (simp add: invoke_capability_def sent)
qed

lemma sample_refusal:
  "\<exists>j w'. invoke_capability sample_gateway_env sample_header (Some (JObj (sample_payload ''other''))) sample_gateway =
     (Inr (403, j), w')"
proof -
  have "find_binding sample_gateway_env sample_claims ''other'' (sample_gateway\<lparr>gw_vars := sample_vars ''other''\<rparr>) = Inr None"
  proof -
    have "parse_uuid (as_str (dget sample_claims ''agent_version_id'')) = Some 2"
      by (simp add: sample_claims_def dget_def sample_uuids)
    then show ?thesis
      by (simp add: find_binding_def sample_gateway_def sample_joined sample_gateway_env_def first_row_def sample_bound_fields)
  qed
  then have target: "\<exists>m w. find_target sample_gateway_env sample_claims (sample_gateway\<lparr>gw_vars := sample_vars ''other''\<rparr>) =
      (Inl (denied m), w) \<and> gw_vars w = sample_vars ''other''"
    by (simp add: find_target_def abind_def gread_def gset_def araise_def sample_vars_def no_vars_def) blast
  then obtain m w where target: "find_target sample_gateway_env sample_claims (sample_gateway\<lparr>gw_vars := sample_vars ''other''\<rparr>) =
      (Inl (denied m), w)" and w: "gw_vars w = sample_vars ''other''" by blast
  have "invoke_body sample_gateway_env sample_header (Some (JObj (sample_payload ''other''))) (sample_gateway\<lparr>gw_vars := no_vars\<rparr>) =
      (Inl (denied m), w)"
    unfolding invoke_body_def by (simp add: abind_def sample_request target)
  moreover have "failure_casts sample_gateway_env w \<noteq> None"
    using w by (simp add: failure_casts_def sample_vars_def no_vars_def sample_gateway_env_def sample_uuids sample_claims_def dget_def)
  ultimately show ?thesis
    using w by (auto simp: invoke_capability_def denied_def respond_error_def audited_def sample_vars_def no_vars_def
        abind_def audit_failure_eq aret_def error_response_def standard_errors_def uuid_str_nonempty split: option.splits)
qed

section \<open>The properties\<close>

text \<open>C15. A provider is asked, or a call answered with success, only for a valid and unrevoked token of an execution
  that runs as issued, an enabled binding that the token lists, with an active implementation on an
  enabled connector that is not offline, an approval where one is required, and arguments that the schema and the
  policy accept; and then at most three times, once for a write that may not be repeated.\<close>

theorem provider_called_only_when_permitted:
  assumes "invoke_capability E header body w = (r, w')" and "gw_sent w' \<noteq> gw_sent w \<or> (\<exists>j. r = Inr (200, j))"
  shows "\<exists>b p. permitted E header body w b p \<and> few_requests p (cv_idempotency (bb_version b)) (gw_sent w) (gw_sent w')"
  by (rule invoke_capability_sent [OF assms])

theorem provider_called_only_when_permitted_witness:
  "\<exists>r w' b p. invoke_capability sample_gateway_env sample_header (Some (JObj (sample_payload ''search''))) sample_gateway = (r, w') \<and>
     gw_sent w' \<noteq> gw_sent sample_gateway \<and>
     permitted sample_gateway_env sample_header (Some (JObj (sample_payload ''search''))) sample_gateway b p"
proof -
  obtain j w' where run: "invoke_capability sample_gateway_env sample_header (Some (JObj (sample_payload ''search'')))
      sample_gateway = (Inr (200, j), w')" and sent: "gw_sent w' = [sample_sent]"
    using sample_call_run by blast
  have "gw_sent w' \<noteq> gw_sent sample_gateway" using sent by (simp add: sample_gateway_def)
  then show ?thesis using run provider_called_only_when_permitted [OF run] by blast
qed

text \<open>C18. When a call of an admitted caller is answered with an error, there is a row of the invocation with the execution, the
  code of the response and the status for it, and the response names the row.\<close>

theorem failed_calls_recorded:
  assumes "invoke_capability E header body w = (Inr (n, j), w')" and "n \<noteq> 200"
    and "caller_admitted E header body w claims payload e" and "fresh_ids (gw_cap w)"
    and "ge_cast E (version_text e) \<noteq> None"
  shows "\<exists>u. response_id j = JStr (uuid_str u) \<and>
    (\<exists>v. v \<in> set (cs_invocations (gw_cap w')) \<and> records_failure u (ex_id e) (response_code j) v)"
  using failure_recorded_lemma [OF assms] by blast

theorem failed_calls_recorded_witness:
  "\<exists>n j w' v. invoke_capability sample_gateway_env sample_header (Some (JObj (sample_payload ''other''))) sample_gateway =
     (Inr (n, j), w') \<and> v \<in> set (cs_invocations (gw_cap w')) \<and> iv_execution_id v = 1"
proof -
  obtain j w' where run: "invoke_capability sample_gateway_env sample_header (Some (JObj (sample_payload ''other'')))
      sample_gateway = (Inr (403, j), w')"
    using sample_refusal by blast
  have cast: "ge_cast sample_gateway_env (version_text sample_execution) \<noteq> None"
    by (simp add: sample_gateway_env_def version_text_def sample_execution_def sample_uuids)
  have fresh: "fresh_ids (gw_cap sample_gateway)"
    by (simp add: fresh_ids_def sample_gateway_def sample_capability_store_def)
  have id: "ex_id sample_execution = 1" by (simp add: sample_execution_def)
  have "\<exists>u. response_id j = JStr (uuid_str u) \<and>
      (\<exists>v. v \<in> set (cs_invocations (gw_cap w')) \<and> records_failure u (ex_id sample_execution) (response_code j) v)"
    by (rule failed_calls_recorded [OF run _ sample_admitted fresh cast]) simp_all
  then show ?thesis using run unfolding id records_failure_def by blast
qed

text \<open>C17. However requests interleave, a binding never has more pending calls than its \<open>max_concurrency\<close>, nor an
  execution more pending and successful calls of it than its \<open>calls_per_execution\<close>.\<close>

theorem quotas_bound_invocations:
  assumes "invocation_steps E B [] rows" and "distinct (map cb_id B)" and "b \<in> set B"
    and "int_setting E (as_obj (cb_quota_policy b)) ''max_concurrency'' 2 = Inr c"
    and "int_setting E (as_obj (cb_quota_policy b)) ''calls_per_execution'' 20 = Inr n"
  shows "count_where (\<lambda>v. iv_binding_id v = Some (cb_id b) \<and> iv_status v = I_pending) rows \<le> max 0 c \<and>
    count_where (\<lambda>v. iv_binding_id v = Some (cb_id b) \<and> iv_execution_id v = x \<and>
      iv_status v \<in> {I_pending, I_succeeded}) rows \<le> max 0 n"
  by (intro conjI quotas_bound_invocations_parts [OF assms])

definition sample_row :: capability_invocation where
  "sample_row = pending_row sample_claims sample_bound sample_implementation 1 ''search'' (JObj []) 500000000 50"

theorem quotas_bound_invocations_witness:
  "invocation_steps sample_gateway_env [bb_binding sample_bound] [] [sample_row] \<and>
   count_where (\<lambda>v. iv_binding_id v = Some 3 \<and> iv_status v = I_pending) [sample_row] \<le> 2"
proof -
  have "invocation_step sample_gateway_env [bb_binding sample_bound] [] ([] @ [sample_row])"
    by (rule call_admitted [where b = "bb_binding sample_bound" and p = sample_provider and t = 500000000 and x = 1])
       (simp_all add: sample_quota sample_row_def pending_row_def sample_bound_fields)
  then have steps: "invocation_steps sample_gateway_env [bb_binding sample_bound] [] [sample_row]" by auto
  have policy: "as_obj (cb_quota_policy (bb_binding sample_bound)) = []"
    by (simp add: sample_bound_def sample_capability_store_def)
  have settings: "int_setting sample_gateway_env (as_obj (cb_quota_policy (bb_binding sample_bound))) k i = Inr i" if "i \<noteq> 0" for k i
    using that unfolding policy by (simp add: int_setting_def py_or_def dget_def py_int_def)
  show ?thesis
    using steps quotas_bound_invocations [where b = "bb_binding sample_bound" and x = 1, OF steps _ _ settings settings]
    by (simp add: sample_bound_fields)
qed

text \<open>C16. Every request is a sequence of the abstract steps on the rows of invocations: it admits a call under the quotas,
  ends it, or records a failure. Rows stay older than the next id.\<close>

theorem requests_refine_invocation_steps:
  assumes "invoke_capability E header body w = (r, w')" and "fresh_ids (gw_cap w)"
  shows "invocation_steps E (cs_bindings (gw_cap w)) (cs_invocations (gw_cap w)) (cs_invocations (gw_cap w')) \<and>
    fresh_ids (gw_cap w')"
  by (intro conjI invoke_capability_steps [OF assms])

theorem requests_refine_invocation_steps_witness:
  "\<exists>w'. snd (invoke_capability sample_gateway_env sample_header (Some (JObj (sample_payload ''search''))) sample_gateway) = w' \<and>
     gw_sent w' = [sample_sent] \<and>
     invocation_steps sample_gateway_env (cs_bindings sample_capability_store) [] (cs_invocations (gw_cap w'))"
proof -
  obtain j w' where run: "invoke_capability sample_gateway_env sample_header (Some (JObj (sample_payload ''search'')))
      sample_gateway = (Inr (200, j), w')" and sent: "gw_sent w' = [sample_sent]"
    using sample_call_run by blast
  have start: "gw_cap sample_gateway = sample_capability_store" "cs_invocations sample_capability_store = []"
    by (simp_all add: sample_gateway_def sample_capability_store_def)
  have "fresh_ids (gw_cap sample_gateway)" by (simp add: fresh_ids_def start)
  from requests_refine_invocation_steps [OF run this] show ?thesis using run sent by (simp add: start)
qed

text \<open>C19. A provider is called only at an HTTP address whose host resolved, just before the call, to addresses that are not
  link-local, multicast, unspecified or the metadata service, nor private or loopback from the DMZ.\<close>

theorem provider_target_checked:
  assumes "invoke_provider E p arguments secret C hist = (r, hist')" and "rq \<in> set hist'" and "rq \<notin> set hist"
  shows "\<exists>u host port addresses. urlparse (ge_ipv6_text E) (sn_target rq) [] = Some u \<and> u_scheme u \<in> {''http'', ''https''} \<and>
    url_hostname u = Some host \<and> ge_resolve E host port = Some addresses \<and>
    list_all (\<lambda>a. \<not> is_link_local a \<and> \<not> is_multicast a \<and> \<not> is_unspecified a \<and> a \<noteq> V4 0xA9FEA9FE \<and>
      (cr_network_zone (pv_revision p) = ''dmz'' \<longrightarrow> \<not> is_private a \<and> \<not> is_loopback a)) addresses"
  using validate_network_Inr [OF invoke_provider_target [OF assms]] unfolding address_accepted .

theorem provider_target_checked_witness:
  "\<exists>host port. url_hostname sample_host = Some host \<and> ge_resolve sample_gateway_env host port = Some [V4 0x08080808] \<and>
     \<not> is_private (V4 0x08080808)"
proof -
  have target: "sn_target sample_sent = ''http://h''" by (simp add: sample_sent_def)
  have env: "ge_ipv6_text sample_gateway_env = (\<lambda>_. False)" "ge_resolve sample_gateway_env = (\<lambda>_ _. Some [V4 0x08080808])"
    by (simp_all add: sample_gateway_env_def)
  from provider_target_checked [OF sample_call, of sample_sent, unfolded target env sample_url]
  show ?thesis unfolding env by (simp add: sample_provider_fields)
qed



end
