(* ===== verification/Capability_Resolver_Correct.thy ===== *)
theory Capability_Resolver_Correct
  imports Capability_Resolver Gateway_Claims
begin

text \<open>
  What the resolution of capabilities guarantees: the meaning of version ranges, when a resolution
  is ready, that it does not fail on rows of the declared types, and that the Capability Gateway
  finds a provider for each tool of a ready resolution.
\<close>

section \<open>Version ranges\<close>

datatype comparison = At_least | At_most | Above | Below | Exactly

fun comparison_text :: "comparison \<Rightarrow> string" where
  "comparison_text At_least = ''>=''"
| "comparison_text At_most = ''<=''"
| "comparison_text Above = ''>''"
| "comparison_text Below = ''<''"
| "comparison_text Exactly = ''=''"

fun meets :: "nat \<times> nat \<times> nat \<Rightarrow> comparison \<times> nat \<times> nat \<times> nat \<Rightarrow> bool" where
  "meets v (At_least, t) \<longleftrightarrow> t \<le> v"
| "meets v (At_most, t) \<longleftrightarrow> v \<le> t"
| "meets v (Above, t) \<longleftrightarrow> t < v"
| "meets v (Below, t) \<longleftrightarrow> v < t"
| "meets v (Exactly, t) \<longleftrightarrow> v = t"

fun triple_text :: "nat \<times> nat \<times> nat \<Rightarrow> string" where
  "triple_text (a, b, c) = nat_str a @ ''.'' @ nat_str b @ ''.'' @ nat_str c"

fun constraint_text :: "comparison \<times> nat \<times> nat \<times> nat \<Rightarrow> string" where
  "constraint_text (k, t) = comparison_text k @ triple_text t"

lemma split_on_first: "d \<notin> set a \<Longrightarrow> split_on d (a @ d # s) = a # split_on d s"
proof (induction a)
  case Nil
  then show ?case by (cases "split_on d s") simp_all
qed auto

lemma split_on_single: "d \<notin> set a \<Longrightarrow> split_on d a = [a]"
  by (induction a) auto

lemma no_dot: "CHR ''.'' \<notin> set (nat_str n)"
  using nat_str_digits by (fastforce simp: is_digit_def)

lemma semver_triple_text: "semver (triple_text (a, b, c)) = (int a, int b, int c)"
proof -
  have "split_on CHR ''.'' (triple_text (a, b, c)) = [nat_str a, nat_str b, nat_str c]"
    using split_on_first [OF no_dot, of a "nat_str b @ CHR ''.'' # nat_str c"] split_on_first [OF no_dot, of b "nat_str c"]
      split_on_single [OF no_dot, of c] by simp
  then show ?thesis by (simp add: semver_def parse_nat_str)
qed

lemma triple_text_chars: "c \<in> set (triple_text t) \<Longrightarrow> is_digit c \<or> c = CHR ''.''"
  by (cases t) (auto dest: nat_str_digits)

lemma triple_text_start: "\<exists>c s. triple_text t = c # s \<and> is_digit c"
proof -
  obtain a b d where t: "t = (a, b, d)" by (cases t)
  obtain c s where "nat_str a = c # s" by (metis nat_str_neq_Nil list.exhaust)
  then show ?thesis using nat_str_digits [of c a] t by auto
qed

lemma operator_of_constraint: "range_operator (constraint_text (k, t)) = (comparison_text k, triple_text t)"
proof -
  obtain c s where c: "triple_text t = c # s" "is_digit c" using triple_text_start by blast
  then have "c \<noteq> CHR ''=''" "c \<noteq> CHR ''>''" "c \<noteq> CHR ''<''" by (auto simp: is_digit_def)
  with c(1) show ?thesis by (cases k) (simp_all add: range_operator_def starts_with_def)
qed

lemma token_of_constraint: "token_satisfied (semver (triple_text v)) (constraint_text (k, t)) \<longleftrightarrow> meets v (k, t)"
proof -
  obtain a b c where v: "v = (a, b, c)" by (cases v)
  obtain x y z where t: "t = (x, y, z)" by (cases t)
  show ?thesis
    unfolding token_satisfied_def operator_of_constraint v t semver_triple_text Let_def prod.case
    by (cases k) (auto simp: less_eq_prod_def less_prod_def simp del: triple_text.simps)
qed

lemma constraint_chars: "c \<in> set (constraint_text q) \<Longrightarrow> \<not> is_space c \<and> c \<noteq> CHR ''*''"
proof -
  obtain k t where Pair: "q = (k, t)" by (cases q)
  assume "c \<in> set (constraint_text q)"
  then have "c \<in> {CHR ''>'', CHR ''<'', CHR ''=''} \<or> is_digit c \<or> c = CHR ''.''"
    using Pair triple_text_chars [of c t] by (cases k) auto
  then show ?thesis by (auto simp: is_space_def is_digit_def)
qed

lemma constraint_not_Nil: "constraint_text q \<noteq> []"
  by (cases q; cases "fst q") auto

lemma strip_id: "s = [] \<or> \<not> is_space (hd s) \<and> \<not> is_space (last s) \<Longrightarrow> strip s = s"
proof -
  assume "s = [] \<or> \<not> is_space (hd s) \<and> \<not> is_space (last s)"
  moreover from this have "dropWhile is_space s = s" by (cases s) auto
  ultimately show ?thesis by (cases s rule: rev_cases) (auto simp: strip_def)
qed

lemma spaces_kept: "(\<And>c. c \<in> set w \<Longrightarrow> \<not> is_space c) \<Longrightarrow> map (\<lambda>c. if is_space c then CHR '' '' else c) w = w"
  by (induction w) auto

lemma words_of_join:
  assumes "\<And>w. w \<in> set ws \<Longrightarrow> w \<noteq> [] \<and> (\<forall>c\<in>set w. \<not> is_space c)"
  shows "py_words (join '' '' ws) = ws"
  using assms
proof (induction ws)
  case (Cons w ws)
  have w: "w \<noteq> []" "\<And>c. c \<in> set w \<Longrightarrow> \<not> is_space c" using Cons.prems by auto
  have blank: "is_space CHR '' ''" by (simp add: is_space_def)
  then have none: "CHR '' '' \<notin> set w" using w(2) by blast
  show ?case
  proof (cases ws)
    case Nil
    then show ?thesis using w none by (simp add: py_words_def spaces_kept split_on_single)
  next
    case (Cons v vs)
    then have join: "join '' '' (w # ws) = w @ CHR '' '' # join '' '' ws" by simp
    have "py_words (w @ CHR '' '' # s) = w # py_words s" for s
      using w none blank by (simp add: py_words_def spaces_kept split_on_first)
    moreover have "py_words (join '' '' ws) = ws" using Cons.IH Cons.prems by (meson list.set_intros(2))
    ultimately show ?thesis unfolding join by simp
  qed
qed (simp add: py_words_def)

lemma join_last: "us \<noteq> [] \<Longrightarrow> [] \<notin> set us \<Longrightarrow> join '' '' us \<noteq> [] \<and> last (join '' '' us) = last (last us)"
proof (induction us)
  case (Cons u us)
  then show ?case by (cases us) auto
qed simp

lemma join_hd: "w \<noteq> [] \<Longrightarrow> hd (join '' '' (w # ws)) = hd w"
  by (cases ws) auto

lemma range_of_constraints:
  "version_satisfies (triple_text v) (join '' '' (map constraint_text qs)) \<longleftrightarrow> list_all (meets v) qs"
proof -
  let ?r = "join '' '' (map constraint_text qs)"
  have words: "py_words ?r = map constraint_text qs"
    by (rule words_of_join) (use constraint_chars constraint_not_Nil in auto)
  have tokens: "list_all (token_satisfied (semver (triple_text v))) (map constraint_text qs) \<longleftrightarrow> list_all (meets v) qs"
    using token_of_constraint [of v] by (auto simp: list_all_iff)
  show ?thesis
  proof (cases qs)
    case Nil
    then show ?thesis by (simp add: version_satisfies_def strip_def)
  next
    case (Cons q rest)
    have none: "[] \<notin> set (map constraint_text qs)" using constraint_not_Nil by (metis in_set_conv_nth length_map nth_map)
    have ends: "hd ?r = hd (constraint_text q)" "last ?r = last (last (map constraint_text qs))" "?r \<noteq> []"
      using join_hd [OF constraint_not_Nil, of q "map constraint_text rest"] join_last [OF _ none] Cons by simp_all
    have chars: "\<not> is_space (hd ?r)" "\<not> is_space (last ?r)" "hd ?r \<noteq> CHR ''*''"
      using ends(1,2) constraint_chars [of "hd (constraint_text q)" q] constraint_not_Nil [of q]
        constraint_chars [of "last (constraint_text (last qs))" "last qs"] constraint_not_Nil [of "last qs"] Cons
      by (auto simp: last_map)
    then have "strip ?r = ?r" by (intro strip_id) simp
    moreover have "?r \<noteq> ''*''" using chars(3) by auto
    ultimately show ?thesis using ends(3) words tokens by (simp add: version_satisfies_def)
  qed
qed

text \<open>A version meets a range written as comparisons exactly when it compares so with each of their
  versions, by the order of major, minor and patch number.\<close>

theorem version_satisfies_constraints:
  "version_satisfies (triple_text v) (join '' '' (map constraint_text qs)) \<longleftrightarrow> list_all (meets v) qs"
  by (rule range_of_constraints)

text \<open>A version that is not of three numbers counts as below all others.\<close>

lemma unversioned_below_any_bound: "version_satisfies ''latest'' ''<1.0.0''"
  by code_simp

section \<open>When a resolution is ready\<close>

definition requested_runtime :: "(json \<Rightarrow> string) \<Rightarrow> capability_store \<Rightarrow> dict \<Rightarrow> agent_runtime option" where
  "requested_runtime rep cs snapshot =
     (let raw = dget (as_obj (dget snapshot ''runtime'')) ''runtime_id'' in
      if truthy raw then Option.bind (parse_uuid (py_str rep raw)) (\<lambda>u. row_get rt_id u (cs_runtimes cs)) else None)"

definition required_features :: "(json \<Rightarrow> string) \<Rightarrow> dict \<Rightarrow> string list" where
  "required_features rep snapshot =
     map (py_str rep) (as_arr (dget (as_obj (dget snapshot ''runtime'')) ''required_features''))"

definition has_feature :: "json \<Rightarrow> string \<Rightarrow> bool" where
  "has_feature features name \<longleftrightarrow> truthy (dget (as_obj features) name)"

text \<open>The runtime is there, not offline, and its latest profile has what the snapshot asks for.\<close>

definition runtime_ready :: "(json \<Rightarrow> string) \<Rightarrow> capability_store \<Rightarrow> dict \<Rightarrow> json \<Rightarrow> bool" where
  "runtime_ready rep cs snapshot features \<longleftrightarrow>
     (\<exists>r. requested_runtime rep cs snapshot = Some r \<and> rt_status r \<notin> {''offline'', ''disabled''} \<and>
        features = (case latest_profile r cs of None \<Rightarrow> JObj [] | Some p \<Rightarrow> fp_features p)) \<and>
     list_all (has_feature features) (required_features rep snapshot)"

definition skill_ids_valid :: "(json \<Rightarrow> string) \<Rightarrow> dict \<Rightarrow> bool" where
  "skill_ids_valid rep snapshot \<longleftrightarrow>
     list_all (\<lambda>item. let raw = dget (as_obj item) ''skill_version_id'' in truthy raw \<longrightarrow> parse_uuid (py_str rep raw) \<noteq> None)
       (as_arr (dget snapshot ''skills''))"

definition requires_skill :: "(json \<Rightarrow> string) \<Rightarrow> dict \<Rightarrow> uuid \<Rightarrow> bool" where
  "requires_skill rep snapshot u \<longleftrightarrow>
     (\<exists>item\<in>set (as_arr (dget snapshot ''skills'')).
        truthy (dget (as_obj item) ''skill_version_id'') \<and>
        parse_uuid (py_str rep (dget (as_obj item) ''skill_version_id'')) = Some u)"

definition requirement_met :: "capability_store \<Rightarrow> bound list \<Rightarrow> skill_requirement \<Rightarrow> bool" where
  "requirement_met cs rows q \<longleftrightarrow>
     (\<exists>b v. required_binding rows q = Some b \<and> row_get cv_id (cb_capability_version_id b) (cs_versions cs) = Some v \<and>
        version_satisfies (cv_version v) (sq_version_range q))"

definition skills_ready :: "(json \<Rightarrow> string) \<Rightarrow> capability_store \<Rightarrow> dict \<Rightarrow> bound list \<Rightarrow> bool" where
  "skills_ready rep cs snapshot rows \<longleftrightarrow>
     skill_ids_valid rep snapshot \<and>
     (\<forall>q\<in>set (cs_requirements cs). sq_required q \<and> requires_skill rep snapshot (sq_skill_version_id q) \<longrightarrow>
        requirement_met cs rows q)"

definition scope_matches :: "(json \<Rightarrow> string) \<Rightarrow> capability_store \<Rightarrow> bound \<Rightarrow> connector_operation \<Rightarrow> connector_revision \<Rightarrow> bool"
where
  "scope_matches rep cs b op r \<longleftrightarrow>
     (\<forall>c. row_get cn_id (co_connector_id op) (cs_connectors cs) = Some c \<longrightarrow> cn_type c \<in> set database_types \<longrightarrow>
        (\<exists>k s. cb_resource_scope_revision_id (bb_binding b) = Some k \<and> row_get sr_id k (cs_scopes cs) = Some s \<and>
           py_str rep (dget (as_obj (sr_scope_definition s)) ''connector_revision_id'') = uuid_str (cr_id r)))"

definition binding_ready :: "(json \<Rightarrow> string) \<Rightarrow> capability_store \<Rightarrow> bound \<Rightarrow> bool" where
  "binding_ready rep cs b \<longleftrightarrow>
     cv_status (bb_version b) \<in> {''published'', ''deprecated''} \<and>
     (\<exists>m op r i. resolver_implementation (bb_binding b) (cv_id (bb_version b)) cs = Some m \<and>
        row_get co_id (im_connector_operation_id m) (cs_operations cs) = Some op \<and>
        row_get cr_id (im_connector_instance_revision_id m) (cs_revisions cs) = Some r \<and>
        row_get ci_id (cr_connector_instance_id r) (cs_instances cs) = Some i \<and> ci_enabled i \<and>
        ci_health_status i \<noteq> ''offline'' \<and> scope_matches rep cs b op r)"

text \<open>Every issue is an error, so that a resolution is ready when there is none.\<close>

definition errors :: "preflight_issue list \<Rightarrow> bool" where
  "errors is \<longleftrightarrow> list_all (\<lambda>i. pi_severity i = ''error'') is"

lemma errors_simps [simp]:
  "errors []" "errors (i # is) \<longleftrightarrow> pi_severity i = ''error'' \<and> errors is" "errors (is @ js) \<longleftrightarrow> errors is \<and> errors js"
  "pi_severity (issue c p m) = ''error''"
  by (simp_all add: errors_def issue_def)

lemma errors_concat: "errors (concat xss) \<longleftrightarrow> list_all errors xss"
  by (induction xss) auto

lemma ready_errors: "errors (rn_issues r) \<Longrightarrow> ready r \<longleftrightarrow> rn_issues r = []"
  by (cases "rn_issues r") (auto simp: ready_def errors_def list_ex_iff list_all_iff)

lemma missing_features_Inr:
  "missing_features rep features names = Inr is \<Longrightarrow>
     errors is \<and> (is = [] \<longleftrightarrow> list_all (has_feature features) (map (py_str rep) names))"
  by (induction names arbitrary: "is") (auto simp: rbind_Inr json_get_def has_feature_def split: json.splits if_splits)

lemma runtime_features_Inr:
  assumes "runtime_features rep cs snapshot = Inr (is, features)"
  shows "errors is" and "is = [] \<longleftrightarrow> runtime_ready rep cs snapshot features"
proof -
  note defs = runtime_features_def runtime_ready_def requested_runtime_def required_features_def Let_def
  show "errors is"
    using assms by (auto simp: defs rbind_Inr dest: missing_features_Inr split: if_splits option.splits)
  show "is = [] \<longleftrightarrow> runtime_ready rep cs snapshot features"
    using assms by (auto simp: defs rbind_Inr dest: missing_features_Inr split: if_splits option.splits)
qed

lemma gateway_issues_Inr:
  "gateway_issues rep features rows = Inr is \<Longrightarrow>
     errors is \<and> (is = [] \<longleftrightarrow> rows = [] \<or> has_feature features ''capability_gateway'')"
  by (auto simp: gateway_issues_def rbind_Inr json_get_def has_feature_def split: if_splits json.splits)

lemma skill_versions_issues:
  "skill_versions rep items = (is, us) \<Longrightarrow> errors is \<and>
     (is = [] \<longleftrightarrow> list_all (\<lambda>item. let raw = dget (as_obj item) ''skill_version_id'' in
        truthy raw \<longrightarrow> parse_uuid (py_str rep raw) \<noteq> None) items) \<and>
     set us = {u. \<exists>item\<in>set items. truthy (dget (as_obj item) ''skill_version_id'') \<and>
        parse_uuid (py_str rep (dget (as_obj item) ''skill_version_id'')) = Some u}"
proof (induction items arbitrary: "is" us)
  case (Cons item items)
  obtain js vs where rest: "skill_versions rep items = (js, vs)" by (cases "skill_versions rep items")
  show ?case
    using Cons.prems Cons.IH [OF rest] rest by (auto simp: Let_def split: if_splits option.splits)
qed simp

lemma requirement_issues_met:
  "errors (requirement_issues cs rows q)"
  "requirement_issues cs rows q = [] \<longleftrightarrow> (sq_required q \<longrightarrow> requirement_met cs rows q)"
  by (auto simp: requirement_issues_def requirement_met_def split: option.split)

lemma skill_issues_ready:
  "errors (skill_issues rep cs snapshot rows)"
  "skill_issues rep cs snapshot rows = [] \<longleftrightarrow> skills_ready rep cs snapshot rows"
proof -
  obtain js us where v: "skill_versions rep (as_arr (dget snapshot ''skills'')) = (js, us)"
    by (cases "skill_versions rep (as_arr (dget snapshot ''skills''))")
  note facts = skill_versions_issues [OF v]
  show "errors (skill_issues rep cs snapshot rows)"
    using facts by (auto simp: skill_issues_def v errors_concat list_all_iff requirement_issues_met)
  show "skill_issues rep cs snapshot rows = [] \<longleftrightarrow> skills_ready rep cs snapshot rows"
    using facts
    by (auto simp: skill_issues_def v skills_ready_def skill_ids_valid_def requires_skill_def requirement_issues_met)
qed

lemma scope_issues_Inr:
  assumes "scope_issues rep cs b op r = Inr is"
  shows "errors is" and "is = [] \<longleftrightarrow> scope_matches rep cs b op r"
proof -
  have scope: "as_obj (py_or (sr_scope_definition s) (JObj [])) = as_obj (sr_scope_definition s)" for s
    by (cases "sr_scope_definition s") (auto simp: py_or_def)
  have get: "json_get v k = Inr x \<Longrightarrow> x = dget (as_obj v) k" for v k x
    by (auto simp: json_get_def split: json.splits)
  show "errors is"
    using assms by (auto simp: scope_issues_def Let_def rbind_Inr split: option.splits if_splits)
  show "is = [] \<longleftrightarrow> scope_matches rep cs b op r"
    using assms
    by (auto simp: scope_issues_def scope_matches_def Let_def rbind_Inr scope bind_eq_Some_conv bind_eq_None_conv
        dest!: get split: option.splits if_splits)
qed

text \<open>The tool of a binding, with what it was made of.\<close>

definition tool_of ::
  "capability_store \<Rightarrow> bound \<Rightarrow> capability_implementation \<Rightarrow> connector_operation \<Rightarrow> connector_revision \<Rightarrow> bool"
where
  "tool_of cs b m op r \<longleftrightarrow>
     resolver_implementation (bb_binding b) (cv_id (bb_version b)) cs = Some m \<and>
     row_get co_id (im_connector_operation_id m) (cs_operations cs) = Some op \<and>
     row_get cr_id (im_connector_instance_revision_id m) (cs_revisions cs) = Some r"

lemma resolve_binding_Inr:
  assumes "resolve_binding rep cs b = Inr (is, ts)"
  shows "errors is" and "is = [] \<longleftrightarrow> binding_ready rep cs b"
    and "t \<in> set ts \<Longrightarrow> \<exists>m op r. t = resolved_tool b m op r \<and> tool_of cs b m op r"
    and "is = [] \<Longrightarrow> \<exists>t. ts = [t]"
proof -
  note defs = resolve_binding_def binding_ready_def Let_def rbind_Inr
  show "errors is"
    using assms by (auto simp: defs dest: scope_issues_Inr(1) split: if_splits option.splits)
  show "is = [] \<longleftrightarrow> binding_ready rep cs b"
    using assms by (auto simp: defs dest: scope_issues_Inr(2) split: if_splits option.splits)
  show "t \<in> set ts \<Longrightarrow> \<exists>m op r. t = resolved_tool b m op r \<and> tool_of cs b m op r"
    using assms by (auto simp: defs tool_of_def split: if_splits option.splits)
  show "is = [] \<Longrightarrow> \<exists>t. ts = [t]"
    using assms by (auto simp: defs split: if_splits option.splits)
qed

lemma resolve_bindings_Inr:
  assumes "resolve_bindings rep cs bs = Inr (is, ts)"
  shows "errors is" and "is = [] \<longleftrightarrow> list_all (binding_ready rep cs) bs"
    and "t \<in> set ts \<Longrightarrow> \<exists>b\<in>set bs. \<exists>m op r. t = resolved_tool b m op r \<and> tool_of cs b m op r"
    and "is = [] \<Longrightarrow> length ts = length bs"
proof -
  have "errors is \<and> (is = [] \<longleftrightarrow> list_all (binding_ready rep cs) bs) \<and>
      (\<forall>t\<in>set ts. \<exists>b\<in>set bs. \<exists>m op r. t = resolved_tool b m op r \<and> tool_of cs b m op r) \<and>
      (is = [] \<longrightarrow> length ts = length bs)"
    using assms
  proof (induction bs arbitrary: "is" ts)
    case (Cons b bs)
    then obtain is1 ts1 is2 ts2 where one: "resolve_binding rep cs b = Inr (is1, ts1)"
      and rest: "resolve_bindings rep cs bs = Inr (is2, ts2)" and eq: "is = is1 @ is2" "ts = ts1 @ ts2"
      by (auto simp: rbind_Inr)
    have "length ts1 = 1" if "is1 = []" using resolve_binding_Inr(4) [OF one that] by auto
    then show ?case
      using Cons.IH [OF rest] resolve_binding_Inr(1,2,3) [OF one] unfolding eq by fastforce
  qed simp
  then show "errors is" "is = [] \<longleftrightarrow> list_all (binding_ready rep cs) bs"
    "t \<in> set ts \<Longrightarrow> \<exists>b\<in>set bs. \<exists>m op r. t = resolved_tool b m op r \<and> tool_of cs b m op r"
    "is = [] \<Longrightarrow> length ts = length bs" by blast+
qed

lemma resolution_cases:
  assumes "resolve_agent_capabilities rep dumps sha256 cs v = Inr r" and "\<not> rn_legacy r"
  obtains is1 is2 is4 where
    "runtime_features rep cs (av_snapshot v) = Inr (is1, rn_runtime_features r)"
    and "gateway_issues rep (rn_runtime_features r) (bound_rows v cs) = Inr is2"
    and "resolve_bindings rep cs (bound_rows v cs) = Inr (is4, rn_tools r)"
    and "rn_issues r = is1 @ is2 @ skill_issues rep cs (av_snapshot v) (bound_rows v cs) @ is4"
  using assms by (auto simp: resolve_agent_capabilities_def Let_def rbind_Inr split: if_splits)

lemma ready_iff:
  assumes "resolve_agent_capabilities rep dumps sha256 cs v = Inr r" and "\<not> rn_legacy r"
  shows "ready r \<longleftrightarrow>
    runtime_ready rep cs (av_snapshot v) (rn_runtime_features r) \<and>
    (bound_rows v cs = [] \<or> has_feature (rn_runtime_features r) ''capability_gateway'') \<and>
    skills_ready rep cs (av_snapshot v) (bound_rows v cs) \<and> list_all (binding_ready rep cs) (bound_rows v cs)"
proof -
  from assms obtain is1 is2 is4 where parts: "runtime_features rep cs (av_snapshot v) = Inr (is1, rn_runtime_features r)"
    "gateway_issues rep (rn_runtime_features r) (bound_rows v cs) = Inr is2"
    "resolve_bindings rep cs (bound_rows v cs) = Inr (is4, rn_tools r)"
    and issues: "rn_issues r = is1 @ is2 @ skill_issues rep cs (av_snapshot v) (bound_rows v cs) @ is4"
    by (rule resolution_cases)
  have "errors (rn_issues r)"
    unfolding issues using runtime_features_Inr(1) [OF parts(1)] gateway_issues_Inr [OF parts(2)]
      resolve_bindings_Inr(1) [OF parts(3)] skill_issues_ready(1) by simp
  then have "ready r \<longleftrightarrow> rn_issues r = []" by (rule ready_errors)
  then show ?thesis
    unfolding issues using runtime_features_Inr(2) [OF parts(1)] gateway_issues_Inr [OF parts(2)]
      resolve_bindings_Inr(2) [OF parts(3)] skill_issues_ready(2) by simp
qed

text \<open>A binding under the alias of a requirement meets it also when it is of another capability.\<close>

lemma alias_of_other_capability_accepted:
  assumes "by_alias rows (sq_alias q) = Some b" and "cp_key (bb_capability b) \<noteq> sq_capability_key q"
    and "row_get cv_id (cb_capability_version_id (bb_binding b)) (cs_versions cs) = Some v"
    and "version_satisfies (cv_version v) (sq_version_range q)"
  shows "requirement_issues cs rows q = []"
  using assms by (simp add: requirement_issues_def required_binding_def)

section \<open>The tools of a ready resolution can be called\<close>

text \<open>What the tables promise: ids and aliases are keys, and an operation has its connector.\<close>

definition sound_rows :: "capability_store \<Rightarrow> bool" where
  "sound_rows cs \<longleftrightarrow>
     distinct (map im_id (cs_implementations cs)) \<and>
     distinct (map (\<lambda>b. (cb_agent_version_id b, cb_tool_alias b)) (cs_bindings cs)) \<and>
     list_all (\<lambda>op. row_get cn_id (co_connector_id op) (cs_connectors cs) \<noteq> None) (cs_operations cs)"

lemma implementations_agree:
  assumes "distinct (map im_id (cs_implementations cs))" and "cb_capability_version_id b = version_id"
  shows "implementation_of b cs = resolver_implementation b version_id cs"
proof (cases "cb_implementation_id b")
  case (Some i)
  show ?thesis
  proof (cases "row_get im_id i (cs_implementations cs)")
    case None
    then have "first_row (\<lambda>m. im_id m = i \<and> im_status m = ''active'') (cs_implementations cs) = None"
      by (auto simp: first_row_None row_get_None)
    then show ?thesis using Some None by (simp add: implementation_of_def resolver_implementation_def)
  next
    case (Some m)
    then have m: "m \<in> set (cs_implementations cs)" "im_id m = i" by (auto dest: row_get_Some)
    have "first_row (\<lambda>m. im_id m = i \<and> im_status m = ''active'') (cs_implementations cs) =
        (if im_status m = ''active'' then Some m else None)"
    proof (cases "first_row (\<lambda>m. im_id m = i \<and> im_status m = ''active'') (cs_implementations cs)")
      case None
      then show ?thesis using m by (auto simp: first_row_None)
    next
      case (Some n)
      then have n: "n \<in> set (cs_implementations cs)" "im_id n = i" "im_status n = ''active''"
        by (auto dest: first_row_Some)
      then have "n = m" using m assms(1) by (metis distinct_map inj_onD)
      then show ?thesis using Some n by simp
    qed
    then show ?thesis using Some \<open>cb_implementation_id b = Some i\<close>
      by (simp add: implementation_of_def resolver_implementation_def)
  qed
next
  case None
  then show ?thesis by (simp add: implementation_of_def resolver_implementation_def assms(2))
qed

lemma joined_fields:
  "b \<in> set (joined_bindings cs) \<Longrightarrow> bb_binding b \<in> set (cs_bindings cs) \<and>
     row_get cv_id (cb_capability_version_id (bb_binding b)) (cs_versions cs) = Some (bb_version b) \<and>
     row_get cp_id (cv_capability_id (bb_version b)) (cs_capabilities cs) = Some (bb_capability b)"
  by (auto simp: joined_bindings_def split: option.splits)

lemma binding_found:
  assumes "sound_rows (gw_cap w)" and "b \<in> set (joined_bindings (gw_cap w))" and "cb_enabled (bb_binding b)"
    and "ge_cast E (as_str (dget claims ''agent_version_id'')) = Some (cb_agent_version_id (bb_binding b))"
  shows "find_binding E claims (cb_tool_alias (bb_binding b)) w = Inr (Some b)"
proof -
  let ?p = "\<lambda>c. cb_agent_version_id (bb_binding c) = cb_agent_version_id (bb_binding b) \<and>
    cb_tool_alias (bb_binding c) = cb_tool_alias (bb_binding b) \<and> cb_enabled (bb_binding c)"
  have "first_row ?p (joined_bindings (gw_cap w)) \<noteq> None" using assms(2,3) by (auto simp: first_row_None)
  then obtain c where c: "first_row ?p (joined_bindings (gw_cap w)) = Some c" by blast
  then have found: "c \<in> set (joined_bindings (gw_cap w))" "?p c" by (auto dest: first_row_Some)
  note fields = joined_fields [OF found(1)] joined_fields [OF assms(2)]
  have "bb_binding c = bb_binding b"
    using assms(1) found(2) fields unfolding sound_rows_def distinct_map by (auto dest: inj_onD)
  then have "c = b" using fields by (cases c; cases b) simp
  then show ?thesis using c assms(4) by (simp add: find_binding_def)
qed

lemma tool_found:
  assumes "resolve_agent_capabilities rep dumps sha256 (gw_cap w) v = Inr r" and "ready r" and "t \<in> set (rn_tools r)"
    and "sound_rows (gw_cap w)" and "ge_cast E (as_str (dget claims ''agent_version_id'')) = Some (av_id v)"
    and "JStr (rc_binding_id t) \<in> set (as_arr (dget claims ''allowed_bindings''))"
    and "lv_tool_name (gw_vars w) = rc_tool_name t"
  shows "\<exists>b m p w'. find_target E claims w = (Inr (b, m, p), w') \<and> uuid_str (cb_id (bb_binding b)) = rc_binding_id t \<and>
    uuid_str (im_id m) = rc_implementation_id t \<and> uuid_str (co_id (pv_operation p)) = rc_connector_operation_id t \<and>
    uuid_str (cr_id (pv_revision p)) = rc_connector_instance_revision_id t"
proof -
  let ?cs = "gw_cap w"
  have fresh: "\<not> rn_legacy r" using assms(1,3) by (auto simp: resolve_agent_capabilities_def Let_def rbind_Inr split: if_splits)
  from resolution_cases [OF assms(1) fresh] obtain is4 where
    tools: "resolve_bindings rep ?cs (bound_rows v ?cs) = Inr (is4, rn_tools r)" by blast
  from resolve_bindings_Inr(3) [OF this assms(3)] obtain b m op rv where b: "b \<in> set (bound_rows v ?cs)"
    and t: "t = resolved_tool b m op rv" and made: "tool_of ?cs b m op rv" by blast
  have row: "b \<in> set (joined_bindings ?cs)" "cb_enabled (bb_binding b)" "cb_agent_version_id (bb_binding b) = av_id v"
    using b by (auto simp: bound_rows_def)
  have "binding_ready rep ?cs b" using ready_iff [OF assms(1) fresh] assms(2) b by (auto simp: list_all_iff)
  with made obtain i where i: "row_get ci_id (cr_connector_instance_id rv) (cs_instances ?cs) = Some i" "ci_enabled i"
    "ci_health_status i \<noteq> ''offline''" by (auto simp: binding_ready_def tool_of_def)
  note made = made [unfolded tool_of_def]
  have "op \<in> set (cs_operations ?cs)" using made by (auto dest: row_get_Some)
  then obtain c where c: "row_get cn_id (co_connector_id op) (cs_connectors ?cs) = Some c"
    using assms(4) by (auto simp: sound_rows_def list_all_iff)
  have version: "cb_capability_version_id (bb_binding b) = cv_id (bb_version b)"
    using joined_fields [OF row(1)] by (auto dest: row_get_Some)
  have impl: "implementation_of (bb_binding b) ?cs = Some m"
    using implementations_agree [OF _ version] assms(4) made by (simp add: sound_rows_def)
  obtain p where p: "provider_of m (bb_binding b) ?cs = Some p" and parts: "pv_operation p = op" "pv_revision p = rv"
    "pv_instance p = i"
    using made c i by (simp add: provider_of_def)
  have "binding_allowed claims b" using assms(6) by (simp add: binding_allowed_def t resolved_tool_def)
  moreover have "find_binding E claims (lv_tool_name (gw_vars w)) w = Inr (Some b)"
    using binding_found [OF assms(4) row(1,2)] assms(5,7) row(3) by (simp add: t resolved_tool_def)
  ultimately have "\<exists>w'. find_target E claims w = (Inr (b, m, p), w')"
    using impl p parts i by (simp add: find_target_def abind_def gread_def gset_def aret_def)
  then show ?thesis using parts by (auto simp: t resolved_tool_def)
qed

section \<open>Rows of the declared types do not make it fail\<close>

definition typed_rows :: "capability_store \<Rightarrow> bool" where
  "typed_rows cs \<longleftrightarrow>
     list_all (\<lambda>p. is_obj (fp_features p)) (cs_profiles cs) \<and> list_all (\<lambda>s. is_obj (sr_scope_definition s)) (cs_scopes cs)"

lemma json_get_obj: "is_obj v \<Longrightarrow> \<exists>x. json_get v k = Inr x"
  by (cases v) (auto simp: json_get_def)

lemma missing_features_total: "is_obj features \<Longrightarrow> \<exists>is. missing_features rep features names = Inr is"
  using json_get_obj by (induction names) (fastforce simp: rbind_Inr)+

lemma latest_profile_obj:
  "typed_rows cs \<Longrightarrow> latest_profile r cs = Some p \<Longrightarrow> is_obj (fp_features p)"
  by (auto simp: latest_profile_def typed_rows_def list_all_iff dest!: first_by_Some)

lemma runtime_features_total:
  assumes "typed_rows cs"
  shows "\<exists>is features. runtime_features rep cs snapshot = Inr (is, features) \<and> is_obj features"
proof -
  have "\<exists>is. missing_features rep (case latest_profile r cs of None \<Rightarrow> JObj [] | Some p \<Rightarrow> fp_features p) names = Inr is \<and>
      is_obj (case latest_profile r cs of None \<Rightarrow> JObj [] | Some p \<Rightarrow> fp_features p)" for r names
    using missing_features_total latest_profile_obj [OF assms] by (auto split: option.split)
  then show ?thesis
    unfolding runtime_features_def Let_def by (auto simp: rbind_Inr split: option.split)
qed

lemma scope_issues_total: "typed_rows cs \<Longrightarrow> \<exists>is. scope_issues rep cs b op r = Inr is"
proof -
  assume typed: "typed_rows cs"
  have "\<exists>x. json_get (py_or (sr_scope_definition s) (JObj [])) k = Inr x" if "row_get sr_id u (cs_scopes cs) = Some s" for u s k
    using typed that by (intro json_get_obj) (auto simp: typed_rows_def list_all_iff py_or_def dest: row_get_Some)
  then show ?thesis
    by (auto simp: scope_issues_def Let_def rbind_Inr bind_eq_Some_conv split: option.split)
qed

lemma resolve_bindings_total: "typed_rows cs \<Longrightarrow> \<exists>is ts. resolve_bindings rep cs bs = Inr (is, ts)"
proof (induction bs)
  case (Cons b bs)
  have "\<exists>is ts. resolve_binding rep cs b = Inr (is, ts)"
    using scope_issues_total [OF Cons.prems] by (fastforce simp: resolve_binding_def Let_def rbind_Inr split: option.split)
  then show ?case using Cons by (auto simp: rbind_Inr)
qed simp

lemma resolve_total:
  assumes "typed_rows cs" and "py_int rep (py_or (py_or (dget (av_snapshot v) ''format_version'')
      (JInt (av_snapshot_format_version v))) (JInt 1)) = Inr n"
  shows "\<exists>r. resolve_agent_capabilities rep dumps sha256 cs v = Inr r \<and> (rn_legacy r \<longleftrightarrow> n = 1)"
proof (cases "n = 1")
  case True
  then show ?thesis using assms(2) by (simp add: resolve_agent_capabilities_def Let_def)
next
  case False
  obtain is1 features where f: "runtime_features rep cs (av_snapshot v) = Inr (is1, features)" "is_obj features"
    using runtime_features_total [OF assms(1)] by blast
  obtain is2 where g: "gateway_issues rep features (bound_rows v cs) = Inr is2"
  proof -
    obtain d where "features = JObj d" using f(2) by (cases features) auto
    then have "\<exists>is2. gateway_issues rep features (bound_rows v cs) = Inr is2"
      unfolding gateway_issues_def json_get_def by simp
    then show thesis using that by blast
  qed
  obtain is4 ts where t: "resolve_bindings rep cs (bound_rows v cs) = Inr (is4, ts)"
    using resolve_bindings_total [OF assms(1)] by blast
  show ?thesis unfolding resolve_agent_capabilities_def Let_def assms(2) by (simp add: False f(1) g t)
qed

section \<open>The properties\<close>

text \<open>C22. On rows whose JSON columns hold objects the resolution of a version never raises, whatever its
  snapshot asks for, and is the legacy one exactly for the first format.\<close>

theorem resolution_never_raises:
  assumes "typed_rows cs" and "py_int rep (py_or (py_or (dget (av_snapshot v) ''format_version'')
      (JInt (av_snapshot_format_version v))) (JInt 1)) = Inr n"
  shows "\<exists>r. resolve_agent_capabilities rep dumps sha256 cs v = Inr r \<and> (rn_legacy r \<longleftrightarrow> n = 1)"
  by (rule resolve_total [OF assms])

text \<open>A resolution is ready exactly when its runtime is available with the features asked for, there is the
  dispatcher if anything is bound, every requirement of its Skills is bound in a version that meets the range, and
  every binding has a released version, an active implementation, a live provider and a matching scope.\<close>

theorem resolution_ready_iff:
  assumes "resolve_agent_capabilities rep dumps sha256 cs v = Inr r" and "\<not> rn_legacy r"
  shows "ready r \<longleftrightarrow>
    runtime_ready rep cs (av_snapshot v) (rn_runtime_features r) \<and>
    (bound_rows v cs = [] \<or> has_feature (rn_runtime_features r) ''capability_gateway'') \<and>
    skills_ready rep cs (av_snapshot v) (bound_rows v cs) \<and> list_all (binding_ready rep cs) (bound_rows v cs)"
  by (rule ready_iff [OF assms])

text \<open>C21. For a token that lists the bindings of a ready resolution, the Capability Gateway finds for every tool of it, on the
  same tables, the binding, implementation, operation and revision that the resolution names.\<close>

theorem ready_tools_are_found:
  assumes "resolve_agent_capabilities rep dumps sha256 (gw_cap w) v = Inr r" and "ready r" and "t \<in> set (rn_tools r)"
    and "sound_rows (gw_cap w)" and "ge_cast E (as_str (dget claims ''agent_version_id'')) = Some (av_id v)"
    and "JStr (rc_binding_id t) \<in> set (as_arr (dget claims ''allowed_bindings''))"
    and "lv_tool_name (gw_vars w) = rc_tool_name t"
  shows "\<exists>b m p w'. find_target E claims w = (Inr (b, m, p), w') \<and> uuid_str (cb_id (bb_binding b)) = rc_binding_id t \<and>
    uuid_str (im_id m) = rc_implementation_id t \<and> uuid_str (co_id (pv_operation p)) = rc_connector_operation_id t \<and>
    uuid_str (cr_id (pv_revision p)) = rc_connector_instance_revision_id t"
  by (rule tool_found [OF assms])

section \<open>The example\<close>

text \<open>The version of the example of the gateway, with a runtime that has the dispatcher.\<close>

definition sample_resolver_store :: capability_store where
  "sample_resolver_store = sample_capability_store\<lparr>
     cs_runtimes := [\<lparr>rt_id = 20, rt_type = ''hermes'', rt_version = ''1'', rt_endpoint = ''http://h'', rt_config = JObj [], rt_status = ''online'', rt_created_at = 0\<rparr>],
     cs_profiles := [\<lparr>fp_id = 21, fp_runtime_registry_id = 20, fp_runtime_version = ''1'',
       fp_features = JObj [(''capability_gateway'', JBool True)], fp_observed_at = 0\<rparr>]\<rparr>"

definition sample_bound_version :: agent_version where
  "sample_bound_version = sample_digest_version\<lparr>
     av_snapshot := [(''runtime'', JObj [(''runtime_id'', JStr (uuid_str 20))])]\<rparr>"

lemma sample_bound_rows: "bound_rows sample_bound_version sample_resolver_store = [sample_bound]"
proof -
  have same: "cs_versions sample_resolver_store = cs_versions sample_capability_store"
    "cs_capabilities sample_resolver_store = cs_capabilities sample_capability_store"
    "cs_bindings sample_resolver_store = cs_bindings sample_capability_store"
    by (simp_all add: sample_resolver_store_def)
  have "joined_bindings sample_resolver_store = [sample_bound]"
    using sample_joined unfolding joined_bindings_def same .
  then show ?thesis
    by (simp add: bound_rows_def sample_bound_version_def sample_digest_version_def sample_bound_fields)
qed

definition sample_tool :: resolved_capability where
  "sample_tool = resolved_tool sample_bound sample_implementation (pv_operation sample_provider) (pv_revision sample_provider)"

lemma sample_resolution:
  "\<exists>r. resolve_agent_capabilities rep dumps sha256 sample_resolver_store sample_bound_version = Inr r \<and> \<not> rn_legacy r \<and>
     rn_issues r = [] \<and> rn_tools r = [sample_tool]"
proof -
  have features: "runtime_features rep sample_resolver_store (av_snapshot sample_bound_version) =
      Inr ([], JObj [(''capability_gateway'', JBool True)])"
    using uuid_str_nonempty small_uuid [of 20]
    by (simp add: runtime_features_def Let_def sample_bound_version_def dget_def sample_resolver_store_def row_get_Cons
        latest_profile_def first_by_def)
  have tool: "resolve_binding rep sample_resolver_store sample_bound = Inr ([], [sample_tool])"
    by (simp add: resolve_binding_def Let_def sample_tool_def sample_bound_def sample_implementation_def sample_provider_def
        sample_resolver_store_def sample_capability_store_def resolver_implementation_def row_get_Cons scope_issues_def
        database_types_def)
  have skills: "skill_issues rep sample_resolver_store (av_snapshot sample_bound_version) rows = []" for rows
    by (simp add: skill_issues_def sample_bound_version_def dget_def sample_resolver_store_def sample_capability_store_def)
  show ?thesis
    using features tool skills
    by (simp add: resolve_agent_capabilities_def Let_def sample_bound_rows gateway_issues_def json_get_def dget_def py_or_def
        py_int_def) (simp add: sample_bound_version_def sample_digest_version_def)
qed

theorem resolution_never_raises_witness:
  "typed_rows sample_resolver_store \<and>
   (\<exists>r. resolve_agent_capabilities (\<lambda>_. []) (\<lambda>_. []) id sample_resolver_store sample_bound_version = Inr r \<and> \<not> rn_legacy r)"
proof -
  have typed: "typed_rows sample_resolver_store"
    by (simp add: typed_rows_def sample_resolver_store_def sample_capability_store_def)
  have format: "py_int (\<lambda>_. []) (py_or (py_or (dget (av_snapshot sample_bound_version) ''format_version'')
      (JInt (av_snapshot_format_version sample_bound_version))) (JInt 1)) = Inr 2"
    by (simp add: sample_bound_version_def sample_digest_version_def dget_def py_or_def py_int_def)
  show ?thesis using typed resolution_never_raises [OF typed format] by auto
qed

theorem resolution_ready_iff_witness:
  "\<exists>r. resolve_agent_capabilities (\<lambda>_. []) (\<lambda>_. []) id sample_resolver_store sample_bound_version = Inr r \<and> ready r \<and>
     binding_ready (\<lambda>_. []) sample_resolver_store sample_bound"
proof -
  obtain r where r: "resolve_agent_capabilities (\<lambda>_. []) (\<lambda>_. []) id sample_resolver_store sample_bound_version = Inr r"
    "\<not> rn_legacy r" "rn_issues r = []"
    using sample_resolution by blast
  have "ready r" using r(3) by (simp add: ready_def)
  then show ?thesis using resolution_ready_iff [OF r(1,2)] r(1) by (simp add: sample_bound_rows)
qed

theorem ready_tools_are_found_witness:
  "\<exists>r b m p w'. resolve_agent_capabilities (\<lambda>_. []) (\<lambda>_. []) id sample_resolver_store sample_bound_version = Inr r \<and>
     rn_tools r = [sample_tool] \<and>
     find_target sample_gateway_env sample_claims
       (sample_gateway\<lparr>gw_cap := sample_resolver_store, gw_vars := sample_vars ''search''\<rparr>) = (Inr (b, m, p), w') \<and>
     uuid_str (im_id m) = rc_implementation_id sample_tool"
proof -
  let ?w = "sample_gateway\<lparr>gw_cap := sample_resolver_store, gw_vars := sample_vars ''search''\<rparr>"
  obtain r where r: "resolve_agent_capabilities (\<lambda>_. []) (\<lambda>_. []) id sample_resolver_store sample_bound_version = Inr r"
    "rn_issues r = []" "rn_tools r = [sample_tool]"
    using sample_resolution by blast
  have resolved: "resolve_agent_capabilities (\<lambda>_. []) (\<lambda>_. []) id (gw_cap ?w) sample_bound_version = Inr r" using r(1) by simp
  have is_ready: "ready r" using r(2) by (simp add: ready_def)
  have tool: "sample_tool \<in> set (rn_tools r)" using r(3) by simp
  have sound: "sound_rows (gw_cap ?w)"
    by (simp add: sound_rows_def sample_resolver_store_def sample_capability_store_def row_get_Cons)
  have cast: "ge_cast sample_gateway_env (as_str (dget sample_claims ''agent_version_id'')) = Some (av_id sample_bound_version)"
    by (simp add: sample_gateway_env_def sample_claims_def dget_def sample_uuids sample_bound_version_def sample_digest_version_def)
  have allowed: "JStr (rc_binding_id sample_tool) \<in> set (as_arr (dget sample_claims ''allowed_bindings''))"
    by (simp add: sample_tool_def resolved_tool_def sample_bound_fields sample_claims_def dget_def)
  have name: "lv_tool_name (gw_vars ?w) = rc_tool_name sample_tool"
    by (simp add: sample_tool_def resolved_tool_def sample_bound_fields sample_vars_def no_vars_def)
  show ?thesis
    using ready_tools_are_found [where E = sample_gateway_env, OF resolved is_ready tool sound cast allowed name] r(1,3) by blast
qed

end
