(* ===== verification/Sql_Policy.thy ===== *)
theory Sql_Policy
  imports Python_Conversions
begin

text \<open>
  Which SQL the database tools accept and what they learn of it
  (\<open>services/postgres-mcp/hermes_postgres_mcp/sql_policy.py\<close>). The parsers, pglast for PostgreSQL
  and sqlglot for the other databases, are parameters that give trees; what is modelled is the
  walk over the trees and what it refuses and collects.
\<close>

section \<open>Errors and results\<close>

text \<open>\<open>SQLPolicyError\<close>, \<open>AccessDenied\<close>, another \<open>ValueError\<close>, and any other exception.\<close>

datatype db_exn = Policy_error string | Db_denied string | Db_value string | Db_crash

record query_analysis =
  qa_sql :: string
  qa_relations :: "(string option \<times> string) list"
  qa_functions :: "string list list"
  qa_uses_aggregate :: bool

definition aggregate_functions :: "string list" where
  "aggregate_functions =
     [''array_agg'', ''avg'', ''bit_and'', ''bit_or'', ''bool_and'', ''bool_or'', ''count'', ''every'',
      ''json_agg'', ''json_object_agg'', ''max'', ''min'', ''string_agg'', ''sum'', ''xmlagg'', ''jsonb_agg'',
      ''jsonb_object_agg'']"

definition generic_dialects :: "(string \<times> string) list" where
  "generic_dialects =
     [(''mysql'', ''mysql''), (''mariadb'', ''mysql''), (''doris'', ''mysql''), (''starrocks'', ''mysql''),
      (''sqlserver'', ''tsql''), (''oracle'', ''oracle''), (''dm'', ''oracle''), (''clickhouse'', ''clickhouse''),
      (''elasticsearch'', ''mysql''), (''sqlite'', ''sqlite'')]"

definition dangerous_functions :: "string list" where
  "dangerous_functions =
     [''benchmark'', ''dblink'', ''eval'', ''load_file'', ''pg_read_binary_file'', ''pg_read_file'', ''pg_ls_dir'',
      ''sleep'', ''sys_eval'', ''sys_exec'', ''utl_file'', ''xp_cmdshell'']"

definition disallowed_nodes :: "string list" where
  "disallowed_nodes =
     [''InsertStmt'', ''UpdateStmt'', ''DeleteStmt'', ''MergeStmt'', ''CopyStmt'', ''CallStmt'', ''TransactionStmt'',
      ''CreateStmt'', ''AlterTableStmt'', ''DropStmt'', ''TruncateStmt'', ''DoStmt'', ''VacuumStmt'', ''VariableSetStmt'',
      ''GrantStmt'', ''GrantRoleStmt'', ''CreateFunctionStmt'']"

section \<open>Trees of pglast\<close>

text \<open>A node has a class and attributes; an attribute is a node, a tuple, a text, another value, or None.\<close>

datatype ast = Node string "(string \<times> ast) list" | Items "ast list" | Text string | Value bool | Absent

fun node_class :: "ast \<Rightarrow> string" where
  "node_class (Node c as) = c"
| "node_class _ = []"

fun attr :: "ast \<Rightarrow> string \<Rightarrow> ast" where
  "attr (Node c as) a = (case map_of as a of None \<Rightarrow> Absent | Some v \<Rightarrow> v)"
| "attr _ a = Absent"

fun ast_truthy :: "ast \<Rightarrow> bool" where
  "ast_truthy (Node c as) = True"
| "ast_truthy (Items xs) = (xs \<noteq> [])"
| "ast_truthy (Text s) = (s \<noteq> [])"
| "ast_truthy (Value b) = b"
| "ast_truthy Absent = False"

text \<open>\<open>str(v or "")\<close> of an attribute that is a text or None.\<close>

fun ast_text :: "ast \<Rightarrow> string" where
  "ast_text (Text s) = s"
| "ast_text _ = []"

fun ast_items :: "ast \<Rightarrow> ast list" where
  "ast_items (Items xs) = xs"
| "ast_items _ = []"

text \<open>\<open>walk\<close>: the nodes of a tree, from the root, attributes in the order of the slots.\<close>

fun walk_tree :: "ast \<Rightarrow> ast list" where
  "walk_tree (Node c as) = Node c as # concat (map (\<lambda>(a, v). if starts_with ''_'' a then [] else walk_tree v) as)"
| "walk_tree (Items xs) = concat (map walk_tree xs)"
| "walk_tree _ = []"

definition string_value :: "ast \<Rightarrow> string" where
  "string_value v = (let s = ast_text (attr v ''sval'') in if s \<noteq> [] then s else ast_text (attr v ''str''))"

section \<open>PostgreSQL\<close>

definition rstrip :: "string \<Rightarrow> string" where
  "rstrip s = rev (dropWhile is_space (rev s))"

text \<open>The text without spaces around and one semicolon at the end.\<close>

definition normalized_sql :: "string \<Rightarrow> string" where
  "normalized_sql sql = (let s = strip sql in if ends_with '';'' s then rstrip (butlast s) else s)"

definition locks_or_writes :: "ast \<Rightarrow> bool" where
  "locks_or_writes n \<longleftrightarrow> attr n ''intoClause'' \<noteq> Absent \<or> ast_truthy (attr n ''lockingClause'')"

definition cte_names :: "ast list \<Rightarrow> string list" where
  "cte_names nodes = map (\<lambda>n. ast_text (attr n ''ctename'')) (filter (\<lambda>n. node_class n = ''CommonTableExpr'') nodes)"

text \<open>The schema and the name of a \<open>RangeVar\<close>.\<close>

definition table_of :: "ast \<Rightarrow> string option \<times> string" where
  "table_of n =
     (let s = ast_text (attr n ''schemaname'') in (if s = [] then None else Some s, ast_text (attr n ''relname'')))"

definition function_of :: "ast \<Rightarrow> string list" where
  "function_of n = map string_value (ast_items (attr n ''funcname''))"

definition aggregates :: "ast \<Rightarrow> bool" where
  "aggregates n \<longleftrightarrow> lower (last (function_of n)) \<in> set aggregate_functions \<or> ast_truthy (attr n ''over'')"

type_synonym scan = "(string option \<times> string) list \<times> string list list \<times> bool"

definition scan_node :: "string list \<Rightarrow> ast \<Rightarrow> scan \<Rightarrow> db_exn + scan" where
  "scan_node ctes n = (\<lambda>(relations, functions, aggregate).
     if node_class n \<in> set disallowed_nodes then Inl (Policy_error (utf8 [0xE6, 0x9F, 0xA5, 0xE8, 0xAF, 0xA2, 0xE5, 0x8C, 0x85, 0xE5, 0x90, 0xAB, 0xE5, 0x86, 0x99, 0xE6, 0x93, 0x8D, 0xE4, 0xBD, 0x9C, 0xE6, 0x88, 0x96, 0xE7, 0xAE, 0xA1, 0xE7, 0x90, 0x86, 0xE8, 0xAF, 0xAD, 0xE5, 0x8F, 0xA5]))
     else if node_class n = ''SelectStmt'' \<and> locks_or_writes n
     then Inl (Policy_error (utf8 [0xE6, 0x9F, 0xA5, 0xE8, 0xAF, 0xA2, 0xE5, 0x8C, 0x85, 0xE5, 0x90, 0xAB, 0x20, 0x53, 0x45, 0x4C, 0x45, 0x43, 0x54, 0x20, 0x49, 0x4E, 0x54, 0x4F, 0x20, 0xE6, 0x88, 0x96, 0xE9, 0x94, 0x81, 0xE5, 0xAE, 0x9A, 0xE8, 0xAF, 0xAD, 0xE5, 0x8F, 0xA5]))
     else if node_class n = ''RangeVar''
     then (if snd (table_of n) = [] then Inl (Policy_error (utf8 [0xE6, 0x9F, 0xA5, 0xE8, 0xAF, 0xA2, 0xE5, 0xAF, 0xB9, 0xE8, 0xB1, 0xA1, 0xE5, 0x90, 0x8D, 0xE7, 0xA7, 0xB0, 0xE6, 0x97, 0xA0, 0xE6, 0x95, 0x88]))
           else if fst (table_of n) = None \<and> snd (table_of n) \<in> set ctes then Inr (relations, functions, aggregate)
           else Inr (table_of n # relations, functions, aggregate))
     else if node_class n = ''FuncCall''
     then (if function_of n = [] \<or> [] \<in> set (function_of n) then Inl (Policy_error (utf8 [0xE5, 0x87, 0xBD, 0xE6, 0x95, 0xB0, 0xE5, 0x90, 0x8D, 0xE7, 0xA7, 0xB0, 0xE6, 0x97, 0xA0, 0xE6, 0x95, 0x88]))
           else Inr (relations, function_of n # functions, aggregate \<or> aggregates n))
     else Inr (relations, functions, aggregate))"

fun scan_nodes :: "string list \<Rightarrow> ast list \<Rightarrow> scan \<Rightarrow> db_exn + scan" where
  "scan_nodes ctes [] s = Inr s"
| "scan_nodes ctes (n # ns) s = rbind (scan_node ctes n s) (scan_nodes ctes ns)"

definition relation_key :: "string option \<times> string \<Rightarrow> string \<times> string" where
  "relation_key r = ((case fst r of None \<Rightarrow> [] | Some s \<Rightarrow> s), snd r)"

definition analyze_select :: "(string \<Rightarrow> ast list option) \<Rightarrow> string \<Rightarrow> db_exn + query_analysis" where
  "analyze_select parse_sql sql =
     (let normalized = normalized_sql sql in
      if normalized = [] \<or> CHR '';'' \<in> set normalized then Inl (Policy_error (utf8 [0xE5, 0x8F, 0xAA, 0xE5, 0x85, 0x81, 0xE8, 0xAE, 0xB8, 0xE4, 0xB8, 0x80, 0xE6, 0x9D, 0xA1, 0x20, 0x53, 0x45, 0x4C, 0x45, 0x43, 0x54, 0x20, 0xE8, 0xAF, 0xAD, 0xE5, 0x8F, 0xA5]))
      else case parse_sql normalized of
        None \<Rightarrow> Inl (Policy_error (utf8 [0x53, 0x51, 0x4C, 0x20, 0xE8, 0xAF, 0xAD, 0xE6, 0xB3, 0x95, 0xE6, 0x97, 0xA0, 0xE6, 0x95, 0x88]))
      | Some statements \<Rightarrow>
          (case statements of
             [stmt] \<Rightarrow>
               if node_class stmt \<noteq> ''SelectStmt'' then Inl (Policy_error (utf8 [0xE5, 0x8F, 0xAA, 0xE5, 0x85, 0x81, 0xE8, 0xAE, 0xB8, 0x20, 0x53, 0x45, 0x4C, 0x45, 0x43, 0x54, 0x20, 0xE6, 0x9F, 0xA5, 0xE8, 0xAF, 0xA2]))
               else if attr stmt ''intoClause'' \<noteq> Absent then Inl (Policy_error (utf8 [0xE7, 0xA6, 0x81, 0xE6, 0xAD, 0xA2, 0x20, 0x53, 0x45, 0x4C, 0x45, 0x43, 0x54, 0x20, 0x49, 0x4E, 0x54, 0x4F]))
               else if ast_truthy (attr stmt ''lockingClause'') then Inl (Policy_error (utf8 [0xE7, 0xA6, 0x81, 0xE6, 0xAD, 0xA2, 0xE9, 0x94, 0x81, 0xE5, 0xAE, 0x9A, 0xE6, 0x9F, 0xA5, 0xE8, 0xAF, 0xA2]))
               else rbind (scan_nodes (cte_names (walk_tree stmt)) (walk_tree stmt) ([], [], False)) (\<lambda>(relations, functions, aggregate).
                 Inr \<lparr>qa_sql = normalized, qa_relations = sort_key relation_key (remdups relations),
                      qa_functions = sort (remdups functions), qa_uses_aggregate = aggregate\<rparr>)
           | _ \<Rightarrow> Inl (Policy_error (utf8 [0xE5, 0x8F, 0xAA, 0xE5, 0x85, 0x81, 0xE8, 0xAE, 0xB8, 0x20, 0x53, 0x45, 0x4C, 0x45, 0x43, 0x54, 0x20, 0xE6, 0x9F, 0xA5, 0xE8, 0xAF, 0xA2]))))"

section \<open>Other databases\<close>

text \<open>
  A statement of sqlglot is the list of its nodes in the order of \<open>find_all\<close>, the root first. A
  node is known by the names of its classes, those it inherits from included, and by its texts.
\<close>

record generic_node =
  gn_classes :: "string list"
  gn_name :: string
  gn_db :: string
  gn_alias_or_name :: string
  gn_sql_name :: string

definition forbidden_classes :: "string list" where
  "forbidden_classes =
     [''Insert'', ''Update'', ''Delete'', ''Merge'', ''Create'', ''Drop'', ''Alter'', ''Command'', ''Transaction'',
      ''Commit'', ''Rollback'', ''Grant'', ''Revoke'', ''Copy'', ''Execute'']"

definition has_class :: "string list \<Rightarrow> generic_node \<Rightarrow> bool" where
  "has_class cs n \<longleftrightarrow> list_ex (\<lambda>c. c \<in> set (gn_classes n)) cs"

definition find_all :: "string list \<Rightarrow> generic_node list \<Rightarrow> generic_node list" where
  "find_all cs nodes = filter (has_class cs) nodes"

definition generic_relations :: "generic_node list \<Rightarrow> (string option \<times> string) list" where
  "generic_relations nodes =
     (let ctes = map gn_alias_or_name (find_all [''CTE''] nodes) in
      map (\<lambda>t. (if gn_db t = [] then None else Some (gn_db t), gn_name t))
        (filter (\<lambda>t. gn_name t \<noteq> [] \<and> \<not> (gn_db t = [] \<and> gn_name t \<in> set ctes)) (find_all [''Table''] nodes)))"

definition generic_function :: "generic_node \<Rightarrow> string" where
  "generic_function f = lower (if gn_sql_name f \<noteq> [] then gn_sql_name f else gn_name f)"

fun generic_functions :: "generic_node list \<Rightarrow> db_exn + string list list" where
  "generic_functions [] = Inr []"
| "generic_functions (f # fs) =
     (let name = generic_function f in
      if name = [] then generic_functions fs
      else if name \<in> set dangerous_functions then Inl (Policy_error (utf8 [0xE7, 0xA6, 0x81, 0xE6, 0xAD, 0xA2, 0xE8, 0xB0, 0x83, 0xE7, 0x94, 0xA8, 0xE5, 0x87, 0xBD, 0xE6, 0x95, 0xB0, 0x20] @ name))
      else rbind (generic_functions fs) (\<lambda>names. Inr ([name] # names)))"

definition analyze_generic :: "(string \<Rightarrow> generic_node list list option) \<Rightarrow> string \<Rightarrow> db_exn + query_analysis" where
  "analyze_generic parse sql =
     (let normalized = normalized_sql sql in
      if normalized = [] then Inl (Policy_error (utf8 [0xE5, 0x8F, 0xAA, 0xE5, 0x85, 0x81, 0xE8, 0xAE, 0xB8, 0xE4, 0xB8, 0x80, 0xE6, 0x9D, 0xA1, 0x20, 0x53, 0x45, 0x4C, 0x45, 0x43, 0x54, 0x20, 0xE8, 0xAF, 0xAD, 0xE5, 0x8F, 0xA5]))
      else case parse normalized of
        None \<Rightarrow> Inl (Policy_error (utf8 [0x53, 0x51, 0x4C, 0x20, 0xE8, 0xAF, 0xAD, 0xE6, 0xB3, 0x95, 0xE6, 0x97, 0xA0, 0xE6, 0x95, 0x88]))
      | Some statements \<Rightarrow>
          (case statements of
             [nodes] \<Rightarrow>
               if nodes = [] \<or> \<not> has_class [''Query'', ''Union'', ''Except'', ''Intersect''] (hd nodes)
               then Inl (Policy_error (utf8 [0xE5, 0x8F, 0xAA, 0xE5, 0x85, 0x81, 0xE8, 0xAE, 0xB8, 0x20, 0x53, 0x45, 0x4C, 0x45, 0x43, 0x54, 0x20, 0xE6, 0x9F, 0xA5, 0xE8, 0xAF, 0xA2]))
               else if find_all forbidden_classes nodes \<noteq> [] then Inl (Policy_error (utf8 [0xE6, 0x9F, 0xA5, 0xE8, 0xAF, 0xA2, 0xE5, 0x8C, 0x85, 0xE5, 0x90, 0xAB, 0xE5, 0x86, 0x99, 0xE6, 0x93, 0x8D, 0xE4, 0xBD, 0x9C, 0xE6, 0x88, 0x96, 0xE7, 0xAE, 0xA1, 0xE7, 0x90, 0x86, 0xE8, 0xAF, 0xAD, 0xE5, 0x8F, 0xA5]))
               else if find_all [''Into'', ''Lock''] nodes \<noteq> [] then Inl (Policy_error (utf8 [0xE6, 0x9F, 0xA5, 0xE8, 0xAF, 0xA2, 0xE5, 0x8C, 0x85, 0xE5, 0x90, 0xAB, 0x20, 0x53, 0x45, 0x4C, 0x45, 0x43, 0x54, 0x20, 0x49, 0x4E, 0x54, 0x4F, 0x20, 0xE6, 0x88, 0x96, 0xE9, 0x94, 0x81, 0xE5, 0xAE, 0x9A, 0xE8, 0xAF, 0xAD, 0xE5, 0x8F, 0xA5]))
               else rbind (generic_functions (find_all [''Func''] nodes)) (\<lambda>functions.
                 Inr \<lparr>qa_sql = normalized, qa_relations = sort_key relation_key (remdups (generic_relations nodes)),
                      qa_functions = sort (remdups functions),
                      qa_uses_aggregate = find_all [''AggFunc'', ''Window''] nodes \<noteq> []\<rparr>)
           | _ \<Rightarrow> Inl (Policy_error (utf8 [0xE5, 0x8F, 0xAA, 0xE5, 0x85, 0x81, 0xE8, 0xAE, 0xB8, 0xE4, 0xB8, 0x80, 0xE6, 0x9D, 0xA1, 0x20, 0x53, 0x45, 0x4C, 0x45, 0x43, 0x54, 0x20, 0xE8, 0xAF, 0xAD, 0xE5, 0x8F, 0xA5]))))"

definition analyze_read_query ::
  "(string \<Rightarrow> ast list option) \<Rightarrow> (string \<Rightarrow> string \<Rightarrow> generic_node list list option) \<Rightarrow> string \<Rightarrow> string \<Rightarrow>
     db_exn + query_analysis"
where
  "analyze_read_query parse_sql parse sql database_type =
     (if database_type = ''postgresql'' then analyze_select parse_sql sql
      else case map_of generic_dialects database_type of
        None \<Rightarrow> Inl (Policy_error (utf8 [0xE4, 0xB8, 0x8D, 0xE6, 0x94, 0xAF, 0xE6, 0x8C, 0x81, 0xE7, 0x9A, 0x84, 0xE6, 0x95, 0xB0, 0xE6, 0x8D, 0xAE, 0xE5, 0xBA, 0x93, 0xE7, 0xB1, 0xBB, 0xE5, 0x9E, 0x8B, 0x20] @ database_type))
      | Some dialect \<Rightarrow> analyze_generic (parse dialect) sql)"

section \<open>What an accepted query is\<close>

text \<open>The statement has no node that writes, and its relations and functions are those of its nodes.\<close>

definition harmless :: "ast \<Rightarrow> bool" where
  "harmless n \<longleftrightarrow> node_class n \<notin> set disallowed_nodes \<and> (node_class n = ''SelectStmt'' \<longrightarrow> \<not> locks_or_writes n)"

definition outside :: "string list \<Rightarrow> ast \<Rightarrow> bool" where
  "outside ctes n \<longleftrightarrow> node_class n = ''RangeVar'' \<and> \<not> (fst (table_of n) = None \<and> snd (table_of n) \<in> set ctes)"

definition read_only :: "ast \<Rightarrow> bool" where
  "read_only stmt \<longleftrightarrow> node_class stmt = ''SelectStmt'' \<and> list_all harmless (walk_tree stmt)"

lemma scan_node_Inr:
  assumes "scan_node ctes n (rs, fs, a) = Inr s"
  shows "harmless n" and "s = (if outside ctes n then table_of n # rs else rs,
      if node_class n = ''FuncCall'' then function_of n # fs else fs, a \<or> node_class n = ''FuncCall'' \<and> aggregates n)"
proof -
  show "harmless n"
    using assms unfolding scan_node_def harmless_def by (simp split: if_splits)
  show "s = (if outside ctes n then table_of n # rs else rs,
      if node_class n = ''FuncCall'' then function_of n # fs else fs, a \<or> node_class n = ''FuncCall'' \<and> aggregates n)"
    using assms unfolding scan_node_def outside_def prod.case
    by (cases "node_class n = ''RangeVar''"; cases "node_class n = ''FuncCall''") (auto split: if_splits)
qed

lemma scan_nodes_Inr:
  assumes "scan_nodes ctes ns (rs, fs, a) = Inr (rs', fs', a')"
  shows "list_all harmless ns"
    and "set rs' = set rs \<union> table_of ` {n \<in> set ns. outside ctes n}"
    and "set fs' = set fs \<union> function_of ` {n \<in> set ns. node_class n = ''FuncCall''}"
    and "a' \<longleftrightarrow> a \<or> (\<exists>n\<in>set ns. node_class n = ''FuncCall'' \<and> aggregates n)"
proof -
  have "list_all harmless ns \<and> set rs' = set rs \<union> table_of ` {n \<in> set ns. outside ctes n} \<and>
      set fs' = set fs \<union> function_of ` {n \<in> set ns. node_class n = ''FuncCall''} \<and>
      (a' \<longleftrightarrow> a \<or> (\<exists>n\<in>set ns. node_class n = ''FuncCall'' \<and> aggregates n))"
    using assms
  proof (induction ns arbitrary: rs fs a)
    case (Cons n ns)
    obtain s where one: "scan_node ctes n (rs, fs, a) = Inr s" and rest: "scan_nodes ctes ns s = Inr (rs', fs', a')"
      using Cons.prems by (auto simp: rbind_Inr)
    note s = scan_node_Inr [OF one]
    have insert: "f ` {m \<in> set (n # ns). P m} = (if P n then insert (f n) (f ` {m \<in> set ns. P m}) else f ` {m \<in> set ns. P m})"
      for f :: "ast \<Rightarrow> 'b" and P by auto
    show ?case using Cons.IH [OF rest [unfolded s(2)]] s(1) unfolding insert by simp
  qed auto
  then show "list_all harmless ns" "set rs' = set rs \<union> table_of ` {n \<in> set ns. outside ctes n}"
    "set fs' = set fs \<union> function_of ` {n \<in> set ns. node_class n = ''FuncCall''}"
    "a' \<longleftrightarrow> a \<or> (\<exists>n\<in>set ns. node_class n = ''FuncCall'' \<and> aggregates n)" by blast+
qed

lemma analyze_select_Inr:
  assumes "analyze_select parse_sql sql = Inr q"
  obtains stmt where "parse_sql (normalized_sql sql) = Some [stmt]" and "qa_sql q = normalized_sql sql"
    and "CHR '';'' \<notin> set (qa_sql q)" and "read_only stmt"
    and "set (qa_relations q) = table_of ` {n \<in> set (walk_tree stmt). outside (cte_names (walk_tree stmt)) n}"
    and "set (qa_functions q) = function_of ` {n \<in> set (walk_tree stmt). node_class n = ''FuncCall''}"
    and "qa_uses_aggregate q \<longleftrightarrow> (\<exists>n\<in>set (walk_tree stmt). node_class n = ''FuncCall'' \<and> aggregates n)"
proof -
  from assms obtain stmt rs fs a where parsed: "parse_sql (normalized_sql sql) = Some [stmt]"
    and stmt: "node_class stmt = ''SelectStmt''" "CHR '';'' \<notin> set (normalized_sql sql)"
    and scan: "scan_nodes (cte_names (walk_tree stmt)) (walk_tree stmt) ([], [], False) = Inr (rs, fs, a)"
    and q: "q = \<lparr>qa_sql = normalized_sql sql, qa_relations = sort_key relation_key (remdups rs),
       qa_functions = sort (remdups fs), qa_uses_aggregate = a\<rparr>"
    by (auto simp: analyze_select_def Let_def rbind_Inr split: option.splits list.splits if_splits)
  note facts = scan_nodes_Inr [OF scan]
  show thesis
  proof (rule that [OF parsed])
    show "read_only stmt" using stmt facts(1) by (simp add: read_only_def)
  qed (use stmt facts q in simp_all)
qed

text \<open>
  The names of common table expressions hold for the whole statement: a table of the same name
  outside the subquery that declares it is left out of the relations, and so of the check against
  the scope.
\<close>

definition table_node :: "string \<Rightarrow> ast" where
  "table_node t = Node ''RangeVar'' [(''relname'', Text t)]"

definition hiding_query :: ast where
  "hiding_query =
     Node ''SelectStmt''
       [(''fromClause'', Items
          [table_node ''salaries'',
           Node ''RangeSubselect''
             [(''subquery'', Node ''SelectStmt''
                [(''fromClause'', Items [table_node ''salaries'']),
                 (''withClause'', Node ''WithClause''
                    [(''ctes'', Items [Node ''CommonTableExpr''
                       [(''ctename'', Text ''salaries''), (''ctequery'', Node ''SelectStmt'' [])]])])])]])]"

lemma cte_hides_table:
  "map_option qa_relations (case analyze_select (\<lambda>_. Some [hiding_query]) ''q'' of Inr q \<Rightarrow> Some q | Inl _ \<Rightarrow> None) = Some []"
  by code_simp

end
