(* ===== verification/Database_Tools.thy ===== *)
theory Database_Tools
  imports Sql_Policy Gateway_Steps
begin

text \<open>
  The database tools (\<open>services/postgres-mcp/hermes_postgres_mcp/server.py\<close> and \<open>auth.py\<close>): who
  may call them, the scope a query is checked against, and what is sent to the target database. The
  drivers of the databases, the target itself, HMAC, Fernet, JSON text and the casts of UUIDs are
  parameters. A pool of connections is known by its key; making one opens no connection.
\<close>

section \<open>State\<close>

text \<open>
  What is sent to a PostgreSQL target. The settings and the query or the plan that follows them run
  in one read-only transaction.
\<close>

datatype command = Look_up string | Set_config string string | Run string | Explain string | Columns string string

type_synonym pool_key = "string \<times> string \<times> string"

record db_server =
  dv_db :: store
  dv_cap :: capability_store
  dv_marks :: marks
  dv_now :: int
  dv_pools :: "pool_key list"
  dv_commands :: "command list"

datatype adapter_request = Describe string string | Preview string string int | Select string int | Plan string

record db_runtime =
  dr_revision_id :: string
  dr_database :: string
  dr_database_type :: string
  dr_config :: dict
  dr_credential :: dict
  dr_credential_epoch :: string
  dr_scope :: dict

record db_env =
  de_loads :: "string \<Rightarrow> json option"
  de_dumps :: "json \<Rightarrow> string"
  de_rep :: "json \<Rightarrow> string"
  de_float :: "json \<Rightarrow> bool"
  de_hmac :: "string \<Rightarrow> string \<Rightarrow> string"
  de_signing_key :: string
  de_fernet :: "string \<Rightarrow> string option"
  de_isoformat :: "int \<Rightarrow> string"
  de_cast :: "string \<Rightarrow> uuid option"
  de_parse_sql :: "string \<Rightarrow> ast list option"
  de_parse :: "string \<Rightarrow> string \<Rightarrow> generic_node list list option"
  de_max_response :: int
  de_fetch :: "command list \<Rightarrow> command \<Rightarrow> db_exn + json list"
  de_adapter :: "db_runtime \<Rightarrow> adapter_request \<Rightarrow> db_exn + json"

type_synonym 'a db = "db_server \<Rightarrow> (db_exn + 'a) \<times> db_server"

definition dlift :: "db_exn + 'a \<Rightarrow> 'a db" where
  "dlift r w = (r, w)"

definition fetch :: "db_env \<Rightarrow> command \<Rightarrow> json list db" where
  "fetch E c w = (de_fetch E (dv_commands w) c, w\<lparr>dv_commands := dv_commands w @ [c]\<rparr>)"

section \<open>Values\<close>

definition db_object :: "json \<Rightarrow> db_exn + dict" where
  "db_object v = (case v of JObj d \<Rightarrow> Inr d | _ \<Rightarrow> Inl (Db_value (utf8 [0xE8, 0xAF, 0xB7, 0xE6, 0xB1, 0x82, 0xE5, 0xAF, 0xB9, 0xE8, 0xB1, 0xA1, 0xE6, 0xA0, 0xBC, 0xE5, 0xBC, 0x8F, 0xE6, 0x97, 0xA0, 0xE6, 0x95, 0x88])))"

text \<open>A JSONB column arrives as text, so that the value of the column \<open>v\<close> is the one that is parsed.\<close>

definition stored_object :: "json \<Rightarrow> db_exn + dict" where
  "stored_object v = (case v of JObj d \<Rightarrow> Inr d | _ \<Rightarrow> Inl (Db_value (utf8 [0xE5, 0xAD, 0x98, 0xE5, 0x82, 0xA8, 0xE5, 0xAF, 0xB9, 0xE8, 0xB1, 0xA1, 0xE6, 0xA0, 0xBC, 0xE5, 0xBC, 0x8F, 0xE6, 0x97, 0xA0, 0xE6, 0x95, 0x88])))"

definition required_text :: "dict \<Rightarrow> string \<Rightarrow> db_exn + string" where
  "required_text d field =
     (case dget d field of
        JStr s \<Rightarrow> if s \<noteq> [] then Inr s else Inl (Db_value (utf8 [0xE7, 0xBC, 0xBA, 0xE5, 0xB0, 0x91, 0xE5, 0xAD, 0x97, 0xE6, 0xAE, 0xB5, 0x20] @ field))
      | _ \<Rightarrow> Inl (Db_value (utf8 [0xE7, 0xBC, 0xBA, 0xE5, 0xB0, 0x91, 0xE5, 0xAD, 0x97, 0xE6, 0xAE, 0xB5, 0x20] @ field)))"

definition db_py :: "py_error + 'a \<Rightarrow> db_exn + 'a" where
  "db_py r = (case r of Inr x \<Rightarrow> Inr x | Inl (Value_error m) \<Rightarrow> Inl (Db_value m) | Inl _ \<Rightarrow> Inl Db_crash)"

text \<open>\<open>int(d.get(key) or default)\<close>.\<close>

definition db_int :: "db_env \<Rightarrow> dict \<Rightarrow> string \<Rightarrow> int \<Rightarrow> db_exn + int" where
  "db_int E d key initial = db_py (py_int (de_rep E) (py_or (dget d key) (JInt initial)))"

text \<open>\<open>_identifier\<close>: quotes around the text, and those inside doubled.\<close>

fun double_quotes :: "string \<Rightarrow> string" where
  "double_quotes [] = []"
| "double_quotes (c # cs) = (if c = CHR 0x22 then CHR 0x22 # CHR 0x22 # double_quotes cs else c # double_quotes cs)"

definition quoted_identifier :: "string \<Rightarrow> string" where
  "quoted_identifier value = CHR 0x22 # double_quotes value @ [CHR 0x22]"

section \<open>Who may call\<close>

definition db_bearer :: "string option \<Rightarrow> db_exn + string" where
  "db_bearer header =
     (case header of
        Some h \<Rightarrow> if starts_with ''Bearer '' h then Inr (strip (drop 7 h)) else Inl (Db_denied (utf8 [0xE7, 0xBC, 0xBA, 0xE5, 0xB0, 0x91, 0x20, 0x45, 0x78, 0x65, 0x63, 0x75, 0x74, 0x69, 0x6F, 0x6E, 0x20, 0x54, 0x6F, 0x6B, 0x65, 0x6E]))
      | None \<Rightarrow> Inl (Db_denied (utf8 [0xE7, 0xBC, 0xBA, 0xE5, 0xB0, 0x91, 0x20, 0x45, 0x78, 0x65, 0x63, 0x75, 0x74, 0x69, 0x6F, 0x6E, 0x20, 0x54, 0x6F, 0x6B, 0x65, 0x6E])))"

definition db_check_claims :: "int \<Rightarrow> json \<Rightarrow> db_exn + dict" where
  "db_check_claims current payload =
     (let d = as_obj payload in
      if \<not> is_obj payload \<or> \<not> is_int (dget d ''exp'') \<or> as_int (dget d ''exp'') \<le> current
      then Inl (Db_denied (utf8 [0x63, 0x61, 0x70, 0x61, 0x62, 0x69, 0x6C, 0x69, 0x74, 0x79, 0x20, 0x74, 0x6F, 0x6B, 0x65, 0x6E, 0x20, 0xE5, 0xB7, 0xB2, 0xE8, 0xBF, 0x87, 0xE6, 0x9C, 0x9F]))
      else if \<not> list_all (\<lambda>f. is_str (dget d f) \<and> dget d f \<noteq> JStr [])
                [''execution_id'', ''agent_id'', ''agent_version_id'', ''resolution_digest'', ''jti'']
      then Inl (Db_denied (utf8 [0x63, 0x61, 0x70, 0x61, 0x62, 0x69, 0x6C, 0x69, 0x74, 0x79, 0x20, 0x74, 0x6F, 0x6B, 0x65, 0x6E, 0x20, 0xE5, 0xA3, 0xB0, 0xE6, 0x98, 0x8E, 0xE4, 0xB8, 0x8D, 0xE5, 0xAE, 0x8C, 0xE6, 0x95, 0xB4]))
      else if \<not> (is_arr (dget d ''allowed_bindings'') \<and> list_all is_str (as_arr (dget d ''allowed_bindings'')))
      then Inl (Db_denied (utf8 [0x63, 0x61, 0x70, 0x61, 0x62, 0x69, 0x6C, 0x69, 0x74, 0x79, 0x20, 0x74, 0x6F, 0x6B, 0x65, 0x6E, 0x20, 0x42, 0x69, 0x6E, 0x64, 0x69, 0x6E, 0x67, 0x20, 0xE6, 0x97, 0xA0, 0xE6, 0x95, 0x88]))
      else Inr d)"

definition verify_db_token ::
  "(string \<Rightarrow> json option) \<Rightarrow> (string \<Rightarrow> string \<Rightarrow> string) \<Rightarrow> string \<Rightarrow> int \<Rightarrow> string \<Rightarrow> db_exn + dict"
where
  "verify_db_token loads hmac key current token =
     (case token_parts token of
        None \<Rightarrow> Inl (Db_denied (utf8 [0x63, 0x61, 0x70, 0x61, 0x62, 0x69, 0x6C, 0x69, 0x74, 0x79, 0x20, 0x74, 0x6F, 0x6B, 0x65, 0x6E, 0x20, 0xE6, 0xA0, 0xBC, 0xE5, 0xBC, 0x8F, 0xE6, 0x97, 0xA0, 0xE6, 0x95, 0x88]))
      | Some (prefix, encoded, signature) \<Rightarrow>
          if prefix \<noteq> ''cap1'' then Inl (Db_denied (utf8 [0x63, 0x61, 0x70, 0x61, 0x62, 0x69, 0x6C, 0x69, 0x74, 0x79, 0x20, 0x74, 0x6F, 0x6B, 0x65, 0x6E, 0x20, 0xE7, 0xB1, 0xBB, 0xE5, 0x9E, 0x8B, 0xE6, 0x97, 0xA0, 0xE6, 0x95, 0x88]))
          else if \<not> list_all is_ascii encoded then Inl (Db_value ''ascii'')
          else case (base64url_decode True signature, Option.bind (base64url_decode True encoded) loads) of
            (Some actual, Some payload) \<Rightarrow>
              if actual \<noteq> hmac key (prefix @ ''.'' @ encoded) then Inl (Db_denied (utf8 [0x63, 0x61, 0x70, 0x61, 0x62, 0x69, 0x6C, 0x69, 0x74, 0x79, 0x20, 0x74, 0x6F, 0x6B, 0x65, 0x6E, 0x20, 0xE7, 0xAD, 0xBE, 0xE5, 0x90, 0x8D, 0xE6, 0x97, 0xA0, 0xE6, 0x95, 0x88]))
              else db_check_claims current payload
          | _ \<Rightarrow> Inl (Db_denied (utf8 [0x63, 0x61, 0x70, 0x61, 0x62, 0x69, 0x6C, 0x69, 0x74, 0x79, 0x20, 0x74, 0x6F, 0x6B, 0x65, 0x6E, 0x20, 0xE7, 0xBC, 0x96, 0xE7, 0xA0, 0x81, 0xE6, 0x97, 0xA0, 0xE6, 0x95, 0x88])))"

definition db_header :: "(string \<Rightarrow> string option) \<Rightarrow> string \<Rightarrow> db_exn + string" where
  "db_header headers name =
     (case headers name of
        Some v \<Rightarrow> if v \<noteq> [] then Inr v else Inl (Db_denied (utf8 [0xE7, 0xBC, 0xBA, 0xE5, 0xB0, 0x91, 0xE5, 0x86, 0x85, 0xE9, 0x83, 0xA8, 0x20, 0x48, 0x65, 0x61, 0x64, 0x65, 0x72, 0x20] @ name))
      | None \<Rightarrow> Inl (Db_denied (utf8 [0xE7, 0xBC, 0xBA, 0xE5, 0xB0, 0x91, 0xE5, 0x86, 0x85, 0xE9, 0x83, 0xA8, 0x20, 0x48, 0x65, 0x61, 0x64, 0x65, 0x72, 0x20] @ name)))"

text \<open>The row of the join.\<close>

record access_row =
  ar_execution :: execution_log
  ar_digest :: "string option"
  ar_binding :: capability_binding
  ar_operation :: connector_operation
  ar_revision :: connector_revision
  ar_instance :: connector_instance
  ar_credential :: connector_credential
  ar_scope :: scope_revision

definition access_row_of :: "store \<Rightarrow> capability_store \<Rightarrow> uuid \<Rightarrow> uuid \<Rightarrow> access_row option" where
  "access_row_of db cs execution_id binding_id =
     Option.bind (get_execution execution_id db) (\<lambda>e.
     Option.bind (Option.bind (ex_agent_version_id e) (\<lambda>v. row_get av_id v (rg_versions (db_registry db)))) (\<lambda>av.
     Option.bind (first_row (\<lambda>b. cb_id b = binding_id \<and> cb_agent_version_id b = av_id av \<and> cb_enabled b) (cs_bindings cs)) (\<lambda>b.
     Option.bind (Option.bind (cb_implementation_id b) (\<lambda>i.
       first_row (\<lambda>m. im_id m = i \<and> im_status m = ''active'') (cs_implementations cs))) (\<lambda>m.
     Option.bind (row_get co_id (im_connector_operation_id m) (cs_operations cs)) (\<lambda>op.
     Option.bind (first_row (\<lambda>c. cn_id c = co_connector_id op \<and> cn_type c \<in> set database_types) (cs_connectors cs)) (\<lambda>_.
     Option.bind (row_get cr_id (im_connector_instance_revision_id m) (cs_revisions cs)) (\<lambda>r.
     Option.bind (row_get ci_id (cr_connector_instance_id r) (cs_instances cs)) (\<lambda>i.
     Option.bind (Option.bind (cr_credential_ref r) (\<lambda>k.
       first_row (\<lambda>c. cd_id c = k \<and> cd_rotation_status c = ''active'') (cs_credentials cs))) (\<lambda>c.
     Option.bind (Option.bind (cb_resource_scope_revision_id b) (\<lambda>s. row_get sr_id s (cs_scopes cs))) (\<lambda>s.
     Some \<lparr>ar_execution = e, ar_digest = av_resolution_digest av, ar_binding = b, ar_operation = op, ar_revision = r,
           ar_instance = i, ar_credential = c, ar_scope = s\<rparr>))))))))))"

definition db_decrypt :: "db_env \<Rightarrow> string \<Rightarrow> db_exn + dict" where
  "db_decrypt E payload =
     (case Option.bind (de_fernet E payload) (de_loads E) of
        None \<Rightarrow> Inl (Db_value (utf8 [0xE6, 0x95, 0xB0, 0xE6, 0x8D, 0xAE, 0xE5, 0xBA, 0x93, 0xE5, 0x87, 0xAD, 0xE6, 0x8D, 0xAE, 0xE6, 0x97, 0xA0, 0xE6, 0xB3, 0x95, 0xE8, 0xA7, 0xA3, 0xE5, 0xAF, 0x86]))
      | Some v \<Rightarrow>
          rbind (db_object v) (\<lambda>d.
          if is_str (dget_default d ''username'' (JStr [])) \<and> is_str (dget_default d ''password'' (JStr [])) then Inr d
          else Inl (Db_value (utf8 [0xE6, 0x95, 0xB0, 0xE6, 0x8D, 0xAE, 0xE5, 0xBA, 0x93, 0xE5, 0x87, 0xAD, 0xE6, 0x8D, 0xAE, 0xE6, 0xA0, 0xBC, 0xE5, 0xBC, 0x8F, 0xE6, 0x97, 0xA0, 0xE6, 0x95, 0x88]))))"

text \<open>The row is that of the token and of the headers, and the connection is in use.\<close>

definition row_matches :: "dict \<Rightarrow> string \<Rightarrow> string \<Rightarrow> string \<Rightarrow> access_row \<Rightarrow> bool" where
  "row_matches claims revision_id scope_id tool a \<longleftrightarrow>
     ex_status (ar_execution a) = X_running \<and> JStr (ex_agent_id (ar_execution a)) = dget claims ''agent_id'' \<and>
     JStr (version_text (ar_execution a)) = dget claims ''agent_version_id'' \<and>
     map_option JStr (ar_digest a) = Some (dget claims ''resolution_digest'') \<and>
     uuid_str (cr_id (ar_revision a)) = revision_id \<and> uuid_str (sr_id (ar_scope a)) = scope_id \<and>
     co_path_or_tool (ar_operation a) = tool \<and> ci_enabled (ar_instance a)"

definition authorize :: "db_env \<Rightarrow> (string \<Rightarrow> string option) \<Rightarrow> string \<Rightarrow> db_server \<Rightarrow> db_exn + db_runtime" where
  "authorize E headers tool w =
     rbind (db_bearer (headers ''authorization'')) (\<lambda>token.
     rbind (verify_db_token (de_loads E) (de_hmac E) (de_signing_key E) (dv_now w div 1000000) token) (\<lambda>claims.
     rbind (db_header headers ''x-hermes-execution-id'') (\<lambda>execution_id.
     rbind (db_header headers ''x-hermes-binding-id'') (\<lambda>binding_id.
     rbind (db_header headers ''x-hermes-connector-revision-id'') (\<lambda>revision_id.
     rbind (db_header headers ''x-hermes-scope-revision-id'') (\<lambda>scope_id.
     if JStr execution_id \<noteq> dget claims ''execution_id'' \<or>
        JStr binding_id \<notin> set (as_arr (dget claims ''allowed_bindings''))
     then Inl (Db_denied (utf8 [0x45, 0x78, 0x65, 0x63, 0x75, 0x74, 0x69, 0x6F, 0x6E, 0x20, 0xE6, 0x88, 0x96, 0x20, 0x42, 0x69, 0x6E, 0x64, 0x69, 0x6E, 0x67, 0x20, 0xE4, 0xB8, 0x8E, 0x20, 0x54, 0x6F, 0x6B, 0x65, 0x6E, 0x20, 0xE4, 0xB8, 0x8D, 0xE5, 0x8C, 0xB9, 0xE9, 0x85, 0x8D]))
     else if marked (dv_now w) (mark_key (as_str (dget claims ''jti''))) (dv_marks w)
     then Inl (Db_denied (utf8 [0x45, 0x78, 0x65, 0x63, 0x75, 0x74, 0x69, 0x6F, 0x6E, 0x20, 0x54, 0x6F, 0x6B, 0x65, 0x6E, 0x20, 0xE5, 0xB7, 0xB2, 0xE6, 0x92, 0xA4, 0xE9, 0x94, 0x80]))
     else case (de_cast E execution_id, de_cast E binding_id) of
       (Some x, Some b) \<Rightarrow>
         (case access_row_of (dv_db w) (dv_cap w) x b of
            None \<Rightarrow> Inl (Db_denied (utf8 [0xE6, 0x95, 0xB0, 0xE6, 0x8D, 0xAE, 0xE5, 0xBA, 0x93, 0xE8, 0x83, 0xBD, 0xE5, 0x8A, 0x9B, 0x20, 0x42, 0x69, 0x6E, 0x64, 0x69, 0x6E, 0x67, 0x20, 0xE4, 0xB8, 0x8D, 0xE5, 0xAD, 0x98, 0xE5, 0x9C, 0xA8]))
          | Some a \<Rightarrow>
              if \<not> row_matches claims revision_id scope_id tool a
              then Inl (Db_denied (utf8 [0xE6, 0x95, 0xB0, 0xE6, 0x8D, 0xAE, 0xE5, 0xBA, 0x93, 0xE8, 0x83, 0xBD, 0xE5, 0x8A, 0x9B, 0xE8, 0xBF, 0x90, 0xE8, 0xA1, 0x8C, 0xE4, 0xB8, 0x8A, 0xE4, 0xB8, 0x8B, 0xE6, 0x96, 0x87, 0xE4, 0xB8, 0x8D, 0xE5, 0x8C, 0xB9, 0xE9, 0x85, 0x8D, 0xE6, 0x88, 0x96, 0xE8, 0xBF, 0x9E, 0xE6, 0x8E, 0xA5, 0xE5, 0xB7, 0xB2, 0xE5, 0x81, 0x9C, 0xE7, 0x94, 0xA8]))
              else
              rbind (stored_object (sr_scope_definition (ar_scope a))) (\<lambda>scope.
              if dget scope ''connector_revision_id'' \<noteq> JStr revision_id
              then Inl (Db_denied (utf8 [0x53, 0x63, 0x6F, 0x70, 0x65, 0x20, 0xE6, 0x9C, 0xAA, 0xE7, 0xBB, 0x91, 0xE5, 0xAE, 0x9A, 0xE5, 0xBD, 0x93, 0xE5, 0x89, 0x8D, 0x20, 0x43, 0x6F, 0x6E, 0x6E, 0x65, 0x63, 0x74, 0x6F, 0x72, 0x20, 0x52, 0x65, 0x76, 0x69, 0x73, 0x69, 0x6F, 0x6E]))
              else
              rbind (required_text scope ''database'') (\<lambda>database.
              rbind (stored_object (cr_connection_config (ar_revision a))) (\<lambda>config.
              rbind (db_decrypt E (cd_encrypted_payload (ar_credential a))) (\<lambda>credential.
              Inr \<lparr>dr_revision_id = revision_id, dr_database = database,
                   dr_database_type = py_str (de_rep E) (py_or (dget config ''database_type'') (JStr ''postgresql'')),
                   dr_config = config, dr_credential = credential,
                   dr_credential_epoch = de_isoformat E (cd_last_rotated_at (ar_credential a)), dr_scope = scope\<rparr>)))))
     | _ \<Rightarrow> Inl Db_crash))))))"

section \<open>The scope\<close>

definition require_permission :: "dict \<Rightarrow> string \<Rightarrow> db_exn + unit" where
  "require_permission scope permission =
     rbind (db_object (dget scope ''permissions'')) (\<lambda>d.
     if truthy (dget_default d permission (JBool False)) then Inr ()
     else Inl (Db_denied (utf8 [0xE5, 0xBD, 0x93, 0xE5, 0x89, 0x8D, 0x20, 0x53, 0x63, 0x6F, 0x70, 0x65, 0x20, 0xE7, 0xA6, 0x81, 0xE6, 0xAD, 0xA2, 0x20] @ permission)))"

definition schema_scope :: "dict \<Rightarrow> string \<Rightarrow> db_exn + dict" where
  "schema_scope schemas schema =
     (case dget schemas schema of
        JObj d \<Rightarrow> Inr d
      | _ \<Rightarrow> Inl (Db_denied (''Schema '' @ schema @ utf8 [0x20, 0xE4, 0xB8, 0x8D, 0xE5, 0x9C, 0xA8, 0x20, 0x53, 0x63, 0x6F, 0x70, 0x65])))"

text \<open>\<open>[*definition.get("tables", []), *definition.get("views", [])]\<close>.\<close>

definition listed_objects :: "dict \<Rightarrow> db_exn + json list" where
  "listed_objects d =
     rbind (db_py (json_items (dget_default d ''tables'' (JArr [])))) (\<lambda>ts.
     rbind (db_py (json_items (dget_default d ''views'' (JArr [])))) (\<lambda>vs. Inr (ts @ vs)))"

definition require_object :: "dict \<Rightarrow> string \<Rightarrow> string \<Rightarrow> db_exn + unit" where
  "require_object scope schema table =
     rbind (db_object (dget scope ''schemas'')) (\<lambda>schemas.
     rbind (schema_scope schemas schema) (\<lambda>d.
     rbind (listed_objects d) (\<lambda>names.
     if JStr table \<in> set names then Inr ()
     else Inl (Db_denied (utf8 [0xE5, 0xAF, 0xB9, 0xE8, 0xB1, 0xA1, 0x20] @ schema @ ''.'' @ table @ utf8 [0x20, 0xE4, 0xB8, 0x8D, 0xE5, 0x9C, 0xA8, 0x20, 0x53, 0x63, 0x6F, 0x70, 0x65])))))"

definition case_insensitive :: "string \<Rightarrow> bool" where
  "case_insensitive database_type \<longleftrightarrow> database_type \<in> {''oracle'', ''dm'', ''sqlserver''}"

definition folded :: "bool \<Rightarrow> string \<Rightarrow> string" where
  "folded ci s = (if ci then lower s else s)"

definition normalized_schemas :: "bool \<Rightarrow> dict \<Rightarrow> dict" where
  "normalized_schemas ci schemas = dupdate [] (map (\<lambda>(k, v). (folded ci k, v)) schemas)"

text \<open>Each schema with the names of its objects.\<close>

fun scope_index :: "(json \<Rightarrow> string) \<Rightarrow> bool \<Rightarrow> dict \<Rightarrow> db_exn + (string \<times> string list) list" where
  "scope_index rep ci [] = Inr []"
| "scope_index rep ci ((schema, v) # ss) =
     rbind (db_object v) (\<lambda>d.
     rbind (listed_objects d) (\<lambda>names.
     rbind (scope_index rep ci ss) (\<lambda>rest. Inr ((schema, map (folded ci \<circ> py_str rep) names) # rest))))"

definition schemas_with :: "string \<Rightarrow> (string \<times> string list) list \<Rightarrow> string list" where
  "schemas_with table index = concat (map (\<lambda>(s, names). map (\<lambda>_. s) (filter (\<lambda>n. n = table) names)) index)"

definition relation_allowed :: "bool \<Rightarrow> (string \<times> string list) list \<Rightarrow> string option \<times> string \<Rightarrow> db_exn + unit" where
  "relation_allowed ci index = (\<lambda>(schema, relation).
     case schema of
       None \<Rightarrow>
         if length (schemas_with (folded ci relation) index) = 1 then Inr ()
         else Inl (Db_denied (utf8 [0xE6, 0x9C, 0xAA, 0xE9, 0x99, 0x90, 0xE5, 0xAE, 0x9A, 0x20, 0x53, 0x63, 0x68, 0x65, 0x6D, 0x61, 0x20, 0xE7, 0x9A, 0x84, 0xE5, 0xAF, 0xB9, 0xE8, 0xB1, 0xA1, 0x20] @ relation @ utf8 [0x20, 0xE4, 0xB8, 0x8D, 0xE5, 0x94, 0xAF, 0xE4, 0xB8, 0x80, 0xE6, 0x88, 0x96, 0xE4, 0xB8, 0x8D, 0xE5, 0x9C, 0xA8, 0x20, 0x53, 0x63, 0x6F, 0x70, 0x65]))
     | Some s \<Rightarrow>
         (case map_of index (folded ci s) of
            Some names \<Rightarrow>
              if folded ci relation \<in> set names then Inr ()
              else Inl (Db_denied (utf8 [0xE5, 0xAF, 0xB9, 0xE8, 0xB1, 0xA1, 0x20] @ s @ ''.'' @ relation @ utf8 [0x20, 0xE4, 0xB8, 0x8D, 0xE5, 0x9C, 0xA8, 0x20, 0x53, 0x63, 0x6F, 0x70, 0x65]))
          | None \<Rightarrow> Inl (Db_denied (utf8 [0xE5, 0xAF, 0xB9, 0xE8, 0xB1, 0xA1, 0x20] @ s @ ''.'' @ relation @ utf8 [0x20, 0xE4, 0xB8, 0x8D, 0xE5, 0x9C, 0xA8, 0x20, 0x53, 0x63, 0x6F, 0x70, 0x65]))))"

fun relations_allowed :: "bool \<Rightarrow> (string \<times> string list) list \<Rightarrow> (string option \<times> string) list \<Rightarrow> db_exn + unit" where
  "relations_allowed ci index [] = Inr ()"
| "relations_allowed ci index (r # rs) = rbind (relation_allowed ci index r) (\<lambda>_. relations_allowed ci index rs)"

section \<open>The target\<close>

text \<open>The pool of a target; pools of the same target under older credentials are closed.\<close>

definition pool_key :: "db_runtime \<Rightarrow> pool_key" where
  "pool_key R = (dr_revision_id R, dr_database R, dr_credential_epoch R)"

definition pool_arguments :: "db_env \<Rightarrow> db_runtime \<Rightarrow> db_exn + unit" where
  "pool_arguments E R =
     rbind (required_text (dr_config R) ''host'') (\<lambda>_.
     rbind (db_int E (dr_config R) ''port'' 5432) (\<lambda>_.
     rbind (required_text (dr_credential R) ''username'') (\<lambda>_.
     rbind (required_text (dr_credential R) ''password'') (\<lambda>_.
     if de_float E (py_or (dget (dr_config R) ''connect_timeout_seconds'') (JInt 5)) then Inr () else Inl Db_crash))))"

definition target_pool :: "db_env \<Rightarrow> db_runtime \<Rightarrow> unit db" where
  "target_pool E R w =
     (if pool_key R \<in> set (dv_pools w) then (Inr (), w)
      else case pool_arguments E R of
        Inl e \<Rightarrow> (Inl e, w)
      | Inr _ \<Rightarrow>
          (Inr (), w\<lparr>dv_pools := filter (\<lambda>k. (fst k, fst (snd k)) \<noteq> (dr_revision_id R, dr_database R)) (dv_pools w) @ [pool_key R]\<rparr>))"

definition invalidate_pools :: "string \<Rightarrow> db_server \<Rightarrow> db_server" where
  "invalidate_pools revision_id w = w\<lparr>dv_pools := filter (\<lambda>k. fst k \<noteq> revision_id) (dv_pools w)\<rparr>"

text \<open>A function must be one of \<open>pg_catalog\<close> that is neither volatile nor a security definer.\<close>

fun functions_safe :: "db_env \<Rightarrow> string list list \<Rightarrow> unit db" where
  "functions_safe E [] = aret ()"
| "functions_safe E (f # fs) =
     abind (fetch E (Look_up (last f))) (\<lambda>rows.
     if rows \<noteq> [] \<and> hd rows = JBool True then functions_safe E fs
     else araise (Db_denied (utf8 [0xE5, 0x87, 0xBD, 0xE6, 0x95, 0xB0, 0x20] @ join ''.'' f @ utf8 [0x20, 0xE4, 0xB8, 0x8D, 0xE5, 0x9C, 0xA8, 0xE5, 0x8F, 0xAA, 0xE8, 0xAF, 0xBB, 0xE5, 0x85, 0x81, 0xE8, 0xAE, 0xB8, 0xE8, 0x8C, 0x83, 0xE5, 0x9B, 0xB4])))"

definition custom_function :: "string list \<Rightarrow> bool" where
  "custom_function f \<longleftrightarrow> 1 < length f \<and> lower (f ! (length f - 2)) \<noteq> ''pg_catalog''"

definition check_scope :: "db_env \<Rightarrow> db_runtime \<Rightarrow> query_analysis \<Rightarrow> db_exn + unit" where
  "check_scope E R q =
     (let ci = case_insensitive (dr_database_type R) in
      rbind (db_object (dget (dr_scope R) ''schemas'')) (\<lambda>schemas.
      rbind (scope_index (de_rep E) ci (normalized_schemas ci schemas)) (\<lambda>index.
      rbind (relations_allowed ci index (qa_relations q)) (\<lambda>_.
      if qa_uses_aggregate q
      then rbind (db_object (dget (dr_scope R) ''permissions'')) (\<lambda>d.
        if truthy (dget_default d ''aggregate'' (JBool True)) then Inr ()
        else Inl (Db_denied (utf8 [0xE5, 0xBD, 0x93, 0xE5, 0x89, 0x8D, 0x20, 0x53, 0x63, 0x6F, 0x70, 0x65, 0x20, 0xE7, 0xA6, 0x81, 0xE6, 0xAD, 0xA2, 0xE8, 0x81, 0x9A, 0xE5, 0x90, 0x88, 0xE6, 0x9F, 0xA5, 0xE8, 0xAF, 0xA2])))
      else Inr ()))))"

definition validate_analysis :: "db_env \<Rightarrow> db_runtime \<Rightarrow> query_analysis \<Rightarrow> unit db" where
  "validate_analysis E R q =
     abind (dlift (check_scope E R q)) (\<lambda>_.
     if dr_database_type R \<noteq> ''postgresql'' \<or> qa_functions q = [] then aret ()
     else case filter custom_function (qa_functions q) of
       f # _ \<Rightarrow> araise (Db_denied (utf8 [0xE7, 0xA6, 0x81, 0xE6, 0xAD, 0xA2, 0xE8, 0xB0, 0x83, 0xE7, 0x94, 0xA8, 0xE8, 0x87, 0xAA, 0xE5, 0xAE, 0x9A, 0xE4, 0xB9, 0x89, 0xE5, 0x87, 0xBD, 0xE6, 0x95, 0xB0, 0x20] @ join ''.'' f))
     | [] \<Rightarrow> abind (target_pool E R) (\<lambda>_. functions_safe E (qa_functions q)))"

text \<open>\<open>_timeouts\<close>: the two limits, and a search path of \<open>pg_catalog\<close> and the schemas of the scope.\<close>

definition timeouts :: "db_env \<Rightarrow> dict \<Rightarrow> dict \<Rightarrow> unit db" where
  "timeouts E limits scope =
     abind (dlift (db_int E limits ''statement_timeout_ms'' 5000)) (\<lambda>statement.
     abind (dlift (db_int E limits ''lock_timeout_ms'' 1000)) (\<lambda>lock.
     abind (fetch E (Set_config ''statement_timeout'' (int_str statement @ ''ms''))) (\<lambda>_.
     abind (fetch E (Set_config ''lock_timeout'' (int_str lock @ ''ms''))) (\<lambda>_.
     abind (dlift (db_object (dget scope ''schemas''))) (\<lambda>schemas.
     abind (fetch E (Set_config ''search_path'' (join '', '' (map quoted_identifier (''pg_catalog'' # sort (map fst schemas)))))) (\<lambda>_.
     aret ()))))))"

definition require_response_size :: "db_env \<Rightarrow> json \<Rightarrow> int \<Rightarrow> db_exn + unit" where
  "require_response_size E v maximum =
     (if maximum < int (length (de_dumps E v)) then Inl (Db_value (utf8 [0xE6, 0x9F, 0xA5, 0xE8, 0xAF, 0xA2, 0xE7, 0xBB, 0x93, 0xE6, 0x9E, 0x9C, 0xE8, 0xB6, 0x85, 0xE8, 0xBF, 0x87, 0xE5, 0x93, 0x8D, 0xE5, 0xBA, 0x94, 0xE5, 0xA4, 0xA7, 0xE5, 0xB0, 0x8F, 0xE9, 0x99, 0x90, 0xE5, 0x88, 0xB6])) else Inr ())"

definition response_limit :: "db_env \<Rightarrow> dict \<Rightarrow> db_exn + int" where
  "response_limit E limits = db_int E limits ''max_response_bytes'' (de_max_response E)"

text \<open>\<open>rows[:n]\<close>.\<close>

definition py_upto :: "int \<Rightarrow> 'a list \<Rightarrow> 'a list" where
  "py_upto n xs = (if 0 \<le> n then take (nat n) xs else take (length xs - nat (- n)) xs)"

definition sized :: "db_env \<Rightarrow> dict \<Rightarrow> json \<Rightarrow> json db" where
  "sized E limits v =
     abind (dlift (response_limit E limits)) (\<lambda>maximum.
     abind (dlift (require_response_size E v maximum)) (\<lambda>_. aret v))"

definition wrapped_sql :: "string \<Rightarrow> int \<Rightarrow> string" where
  "wrapped_sql sql maximum = ''SELECT * FROM ('' @ sql @ '') AS hermes_scoped_query LIMIT '' @ int_str (maximum + 1)"

definition execute_query :: "db_env \<Rightarrow> db_runtime \<Rightarrow> string \<Rightarrow> int \<Rightarrow> json db" where
  "execute_query E R sql maximum =
     (if dr_database_type R \<noteq> ''postgresql''
      then abind (dlift (de_adapter E R (Select sql maximum))) (\<lambda>v.
           abind (dlift (db_object (dget (dr_scope R) ''limits''))) (\<lambda>limits. sized E limits v))
      else
      abind (target_pool E R) (\<lambda>_.
      abind (dlift (db_object (dget (dr_scope R) ''limits''))) (\<lambda>limits.
      abind (timeouts E limits (dr_scope R)) (\<lambda>_.
      abind (fetch E (Run (wrapped_sql sql maximum))) (\<lambda>rows.
      let shown = py_upto maximum rows in
      sized E limits (JObj [(''database'', JStr (dr_database R)), (''rows'', JArr shown), (''row_count'', JInt (int (length shown))),
        (''truncated'', JBool (maximum < int (length rows)))]))))))"

section \<open>The tools\<close>

text \<open>\<open>runtime["scope"]["limits"]\<close> and \<open>int(limits["max_rows"])\<close>: a missing key raises.\<close>

definition scope_limits :: "db_runtime \<Rightarrow> db_exn + dict" where
  "scope_limits R = (case dget (dr_scope R) ''limits'' of JObj d \<Rightarrow> Inr d | _ \<Rightarrow> Inl Db_crash)"

definition max_rows :: "db_env \<Rightarrow> db_runtime \<Rightarrow> db_exn + int" where
  "max_rows E R =
     rbind (scope_limits R) (\<lambda>limits.
     if dhas limits ''max_rows'' then db_py (py_int (de_rep E) (dget limits ''max_rows'')) else Inl Db_crash)"

definition authorized :: "db_env \<Rightarrow> (string \<Rightarrow> string option) \<Rightarrow> string \<Rightarrow> db_runtime db" where
  "authorized E headers tool w = (authorize E headers tool w, w)"

text \<open>A scope whose schemas are not an object is malformed.\<close>

definition scope_schemas :: "db_runtime \<Rightarrow> db_exn + dict" where
  "scope_schemas R = (case dget (dr_scope R) ''schemas'' of JObj d \<Rightarrow> Inr d | _ \<Rightarrow> Inl Db_crash)"

definition db_list_schemas :: "db_env \<Rightarrow> (string \<Rightarrow> string option) \<Rightarrow> json db" where
  "db_list_schemas E headers =
     abind (authorized E headers ''db_list_schemas'') (\<lambda>R.
     abind (dlift (scope_schemas R)) (\<lambda>schemas.
     aret (JObj [(''database'', JStr (dr_database R)), (''schemas'', str_list (sort (map fst schemas)))])))"

definition schema_entry :: "string \<Rightarrow> json \<Rightarrow> db_exn + json" where
  "schema_entry name v = (case v of JObj d \<Rightarrow> Inr (JObj (dupdate [(''name'', JStr name)] d)) | _ \<Rightarrow> Inl Db_crash)"

fun schema_entries :: "dict \<Rightarrow> db_exn + json list" where
  "schema_entries [] = Inr []"
| "schema_entries ((k, v) # ss) =
     rbind (schema_entry k v) (\<lambda>e. rbind (schema_entries ss) (\<lambda>es. Inr (e # es)))"

definition db_list_tables :: "db_env \<Rightarrow> (string \<Rightarrow> string option) \<Rightarrow> string option \<Rightarrow> json db" where
  "db_list_tables E headers schema =
     abind (authorized E headers ''db_list_tables'') (\<lambda>R.
     abind (dlift (scope_schemas R)) (\<lambda>schemas.
     abind (dlift (case schema of
         Some s \<Rightarrow> rbind (schema_scope schemas s) (\<lambda>d. rbind (schema_entry s (JObj d)) (\<lambda>e. Inr [e]))
       | None \<Rightarrow> schema_entries (sort_key fst schemas))) (\<lambda>entries.
     aret (JObj [(''database'', JStr (dr_database R)), (''schemas'', JArr entries)]))))"

definition db_describe_table :: "db_env \<Rightarrow> (string \<Rightarrow> string option) \<Rightarrow> string \<Rightarrow> string \<Rightarrow> json db" where
  "db_describe_table E headers schema table =
     abind (authorized E headers ''db_describe_table'') (\<lambda>R.
     abind (dlift (require_permission (dr_scope R) ''describe'')) (\<lambda>_.
     abind (dlift (require_object (dr_scope R) schema table)) (\<lambda>_.
     if dr_database_type R \<noteq> ''postgresql''
     then abind (dlift (de_adapter E R (Describe schema table))) (\<lambda>v.
          abind (dlift (scope_limits R)) (\<lambda>limits. sized E limits v))
     else
     abind (target_pool E R) (\<lambda>_.
     abind (fetch E (Columns schema table)) (\<lambda>rows.
     aret (JObj [(''database'', JStr (dr_database R)), (''schema'', JStr schema), (''table'', JStr table),
       (''columns'', JArr rows)]))))))"

definition db_preview_table :: "db_env \<Rightarrow> (string \<Rightarrow> string option) \<Rightarrow> string \<Rightarrow> string \<Rightarrow> int \<Rightarrow> json db" where
  "db_preview_table E headers schema table limit =
     abind (authorized E headers ''db_preview_table'') (\<lambda>R.
     abind (dlift (require_permission (dr_scope R) ''preview'')) (\<lambda>_.
     abind (dlift (require_object (dr_scope R) schema table)) (\<lambda>_.
     abind (dlift (max_rows E R)) (\<lambda>most.
     let maximum = min (max 1 limit) most in
     if dr_database_type R \<noteq> ''postgresql''
     then abind (dlift (de_adapter E R (Preview schema table maximum))) (\<lambda>v.
          abind (dlift (scope_limits R)) (\<lambda>limits. sized E limits v))
     else execute_query E R
       (''SELECT * FROM '' @ quoted_identifier schema @ ''.'' @ quoted_identifier table @ '' LIMIT '' @ int_str (maximum + 1))
       maximum))))"

definition db_select :: "db_env \<Rightarrow> (string \<Rightarrow> string option) \<Rightarrow> string \<Rightarrow> json db" where
  "db_select E headers sql =
     abind (authorized E headers ''db_select'') (\<lambda>R.
     abind (dlift (require_permission (dr_scope R) ''query'')) (\<lambda>_.
     abind (dlift (analyze_read_query (de_parse_sql E) (de_parse E) sql (dr_database_type R))) (\<lambda>q.
     abind (validate_analysis E R q) (\<lambda>_.
     abind (dlift (max_rows E R)) (\<lambda>maximum.
     execute_query E R (qa_sql q) maximum)))))"

definition explain_text :: "string \<Rightarrow> string" where
  "explain_text sql = ''EXPLAIN (FORMAT JSON, ANALYZE FALSE, VERBOSE FALSE) '' @ sql"

definition db_explain :: "db_env \<Rightarrow> (string \<Rightarrow> string option) \<Rightarrow> string \<Rightarrow> json db" where
  "db_explain E headers sql =
     abind (authorized E headers ''db_explain'') (\<lambda>R.
     abind (dlift (require_permission (dr_scope R) ''query'')) (\<lambda>_.
     abind (dlift (analyze_read_query (de_parse_sql E) (de_parse E) sql (dr_database_type R))) (\<lambda>q.
     abind (validate_analysis E R q) (\<lambda>_.
     if dr_database_type R \<noteq> ''postgresql''
     then abind (dlift (de_adapter E R (Plan (qa_sql q)))) (\<lambda>v.
          abind (dlift (scope_limits R)) (\<lambda>limits. sized E limits v))
     else
     abind (target_pool E R) (\<lambda>_.
     abind (dlift (scope_limits R)) (\<lambda>limits.
     abind (timeouts E limits (dr_scope R)) (\<lambda>_.
     abind (fetch E (Explain (explain_text (qa_sql q)))) (\<lambda>plan.
     sized E limits (JObj [(''database'', JStr (dr_database R)),
       (''plan'', case plan of v # _ \<Rightarrow> v | [] \<Rightarrow> JNull)])))))))))"

end
