(* ===== verification/Database_Claims.thy ===== *)
theory Database_Claims
  imports Database_Tools Gateway_Claims
begin

text \<open>
  What the database tools guarantee: which queries reach the target, how much of it comes back, how
  names are quoted, whose tokens are accepted, and that a call the Capability Gateway sends finds
  its scope.
\<close>

section \<open>Tokens\<close>

lemma db_check_claims_iff: "db_check_claims t (JObj d) = Inr c \<longleftrightarrow> check_claims t d = Inr c"
  by (auto simp: db_check_claims_def check_claims_def Let_def)

lemma db_token_iff: "verify_db_token loads hmac key t token = Inr d \<longleftrightarrow> verify_capability_token loads hmac key t token = Inr d"
proof -
  have claims: "db_check_claims t v = Inr d \<longleftrightarrow> (\<exists>c. v = JObj c \<and> check_claims t c = Inr d)" for v
    by (cases v) (auto simp: db_check_claims_iff, simp_all add: db_check_claims_def)
  show ?thesis
    unfolding verify_db_token_def verify_capability_token_def
    by (auto simp: claims split: option.splits json.splits if_splits)
qed

text \<open>The database tools accept exactly the tokens the gateway accepts, with the same claims.\<close>

lemma same_tokens_accepted:
  "verify_db_token loads hmac key t token = Inr d \<longleftrightarrow> verify_capability_token loads hmac key t token = Inr d"
  by (rule db_token_iff)

section \<open>Names\<close>

text \<open>How PostgreSQL reads a quoted identifier: up to a quote that is not doubled.\<close>

fun read_quoted :: "string \<Rightarrow> (string \<times> string) option" where
  "read_quoted [] = None"
| "read_quoted (c # cs) =
     (if c \<noteq> CHR 0x22 then map_option (\<lambda>(s, r). (c # s, r)) (read_quoted cs)
      else case cs of
        d # ds \<Rightarrow> if d = CHR 0x22 then map_option (\<lambda>(s, r). (d # s, r)) (read_quoted ds) else Some ([], cs)
      | [] \<Rightarrow> Some ([], []))"

definition read_identifier :: "string \<Rightarrow> (string \<times> string) option" where
  "read_identifier s = (case s of c # cs \<Rightarrow> if c = CHR 0x22 then read_quoted cs else None | [] \<Rightarrow> None)"

lemma read_doubled: "rest = [] \<or> hd rest \<noteq> CHR 0x22 \<Longrightarrow> read_quoted (double_quotes s @ CHR 0x22 # rest) = Some (s, rest)"
  by (induction s) (auto split: list.split)

lemma read_quoted_identifier: "rest = [] \<or> hd rest \<noteq> CHR 0x22 \<Longrightarrow> read_identifier (quoted_identifier s @ rest) = Some (s, rest)"
  using read_doubled [of rest s] by (simp add: read_identifier_def quoted_identifier_def)

text \<open>The text of a preview names the schema and the table it is for, whatever characters they have: PostgreSQL reads the
  two quoted identifiers back as they are, and then the limit.\<close>

theorem preview_names_read_back:
  "read_identifier (quoted_identifier schema @ ''.'' @ quoted_identifier table @ '' LIMIT '' @ n) =
     Some (schema, ''.'' @ quoted_identifier table @ '' LIMIT '' @ n) \<and>
   read_identifier (quoted_identifier table @ '' LIMIT '' @ n) = Some (table, '' LIMIT '' @ n)"
  by (simp add: read_quoted_identifier)

section \<open>What reaches the target\<close>

definition is_query :: "command \<Rightarrow> bool" where
  "is_query c \<longleftrightarrow> (\<exists>s. c = Run s \<or> c = Explain s)"

definition queries :: "db_server \<Rightarrow> command list" where
  "queries w = filter is_query (dv_commands w)"

text \<open>A quiet stage sends no query.\<close>

definition quiet :: "'a db \<Rightarrow> bool" where
  "quiet f \<longleftrightarrow> (\<forall>w r w'. f w = (r, w') \<longrightarrow> queries w' = queries w)"

lemma quietD: "quiet f \<Longrightarrow> f w = (r, w') \<Longrightarrow> queries w' = queries w"
  by (simp add: quiet_def)

lemma quiet_bind:
  assumes "quiet f" and "\<And>x. quiet (g x)"
  shows "quiet (abind f g)"
  unfolding quiet_def
proof (intro allI impI)
  fix w r w'
  assume "abind f g w = (r, w')"
  then show "queries w' = queries w"
    by (cases rule: abind_cases) (use quietD [OF assms(1)] quietD [OF assms(2)] in auto)
qed

lemma quiet_basic:
  "quiet (dlift r)" "quiet (aret x)" "quiet (araise e)" "quiet (authorized E headers tool)"
  "\<not> is_query c \<Longrightarrow> quiet (fetch E c)" "quiet (target_pool E R)"
  by (auto simp: quiet_def dlift_def aret_def araise_def authorized_def fetch_def queries_def target_pool_def split: if_splits sum.splits)

lemma quiet_if: "quiet f \<Longrightarrow> quiet g \<Longrightarrow> quiet (if b then f else g)"
  by simp

lemma quiet_stages:
  "quiet (functions_safe E fs)" "quiet (timeouts E limits scope)" "quiet (sized E limits v)"
proof -
  show "quiet (functions_safe E fs)"
    by (induction fs) (auto intro!: quiet_bind quiet_basic simp: is_query_def)
  show "quiet (timeouts E limits scope)" "quiet (sized E limits v)"
    unfolding timeouts_def sized_def by (intro quiet_bind quiet_basic; simp add: is_query_def)+
qed

lemma quiet_validate: "quiet (validate_analysis E R q)"
  unfolding validate_analysis_def
  by (intro quiet_bind quiet_basic quiet_if) (auto split: list.split intro: quiet_bind quiet_basic quiet_stages)

text \<open>A successful check of the scope, spelt out.\<close>

definition in_scope :: "db_env \<Rightarrow> db_runtime \<Rightarrow> string option \<times> string \<Rightarrow> bool" where
  "in_scope E R r \<longleftrightarrow>
     (\<exists>schemas s d names. dget (dr_scope R) ''schemas'' = JObj schemas \<and> (s, JObj d) \<in> set schemas \<and>
        listed_objects d = Inr names \<and> snd r \<in> py_str (de_rep E) ` set names \<and> (fst r = None \<or> fst r = Some s))"

lemma scope_index_Inr:
  "scope_index rep ci ss = Inr index \<Longrightarrow> (s, ns) \<in> set index \<Longrightarrow>
     \<exists>d names. (s, JObj d) \<in> set ss \<and> listed_objects d = Inr names \<and> ns = map (folded ci \<circ> py_str rep) names"
proof (induction ss arbitrary: index)
  case (Cons p ss)
  obtain k v where p: "p = (k, v)" by (cases p)
  show ?case
    using Cons unfolding p by (fastforce simp: rbind_Inr db_object_def split: json.splits)
qed simp

lemma dset_subset: "set (dset k v d) \<subseteq> insert (k, v) (set d)"
  by (induction d) (auto simp: dset_def)

lemma dupdate_subset: "set (dupdate d xs) \<subseteq> set d \<union> set xs"
proof (induction xs arbitrary: d)
  case (Cons x xs)
  obtain k v where x: "x = (k, v)" by (cases x)
  have "dupdate d (x # xs) = dupdate (dset k v d) xs" by (simp add: dupdate_def x)
  then show ?case using Cons.IH [of "dset k v d"] dset_subset [of k v d] x by auto
qed (simp add: dupdate_def)

lemma relations_allowed_Inr: "relations_allowed ci index rs = Inr u \<Longrightarrow> r \<in> set rs \<Longrightarrow> relation_allowed ci index r = Inr ()"
  by (induction rs) (auto simp: rbind_Inr)

lemma check_scope_Inr:
  assumes "check_scope E R q = Inr u" and "dr_database_type R = ''postgresql''" and "r \<in> set (qa_relations q)"
  shows "in_scope E R r"
proof -
  have ci: "\<not> case_insensitive (dr_database_type R)" using assms(2) by (simp add: case_insensitive_def)
  obtain schemas index where schemas: "dget (dr_scope R) ''schemas'' = JObj schemas"
    and index: "scope_index (de_rep E) False (normalized_schemas False schemas) = Inr index"
    and allowed: "relations_allowed False index (qa_relations q) = Inr ()"
    using assms(1) ci by (auto simp: check_scope_def Let_def rbind_Inr db_object_def split: json.splits)
  have one: "relation_allowed False index r = Inr ()"
    by (rule relations_allowed_Inr [OF allowed assms(3)])
  have listed: "\<exists>d names. (s, JObj d) \<in> set schemas \<and> listed_objects d = Inr names \<and> ns = map (py_str (de_rep E)) names"
    if "(s, ns) \<in> set index" for s ns
  proof -
    have "set (normalized_schemas False schemas) \<subseteq> set schemas"
      using dupdate_subset [of "[]"] by (force simp: normalized_schemas_def folded_def)
    then show ?thesis using scope_index_Inr [OF index that] by (fastforce simp: folded_def comp_def)
  qed
  obtain schema t where r: "r = (schema, t)" by (cases r)
  show ?thesis
  proof (cases schema)
    case None
    then have "schemas_with t index \<noteq> []" using one r by (auto simp: relation_allowed_def folded_def split: if_splits)
    then obtain s ns where "(s, ns) \<in> set index" "t \<in> set ns"
      by (auto simp: schemas_with_def filter_empty_conv split: prod.splits)
    with listed [of s ns] show ?thesis using schemas None r by (fastforce simp: in_scope_def)
  next
    case (Some s)
    then obtain ns where "map_of index s = Some ns" "t \<in> set ns"
      using one r by (auto simp: relation_allowed_def folded_def split: option.splits if_splits)
    then have "(s, ns) \<in> set index" "t \<in> set ns" by (auto dest: map_of_SomeD)
    with listed [of s ns] show ?thesis using schemas Some r by (fastforce simp: in_scope_def)
  qed
qed

text \<open>The catalogue says of a function that no overload of it is volatile or a security definer.\<close>

definition function_safe :: "db_env \<Rightarrow> string list \<Rightarrow> bool" where
  "function_safe E f \<longleftrightarrow>
     \<not> custom_function f \<and> (\<exists>h rows. de_fetch E h (Look_up (last f)) = Inr rows \<and> rows \<noteq> [] \<and> hd rows = JBool True)"

lemma functions_safe_Inr:
  "functions_safe E fs w = (Inr u, w') \<Longrightarrow> f \<in> set fs \<Longrightarrow>
     \<exists>h rows. de_fetch E h (Look_up (last f)) = Inr rows \<and> rows \<noteq> [] \<and> hd rows = JBool True"
proof (induction fs arbitrary: w)
  case (Cons g fs)
  from Cons.prems(1) obtain rows w1 where one: "de_fetch E (dv_commands w) (Look_up (last g)) = Inr rows" "rows \<noteq> []"
    "hd rows = JBool True" and rest: "functions_safe E fs w1 = (Inr u, w')"
    by (auto simp: abind_Inr fetch_def araise_def split: if_splits)
  then show ?case using Cons.IH [OF rest] Cons.prems(2) by auto
qed simp

lemma validate_analysis_Inr:
  assumes "validate_analysis E R q w = (Inr u, w')" and "dr_database_type R = ''postgresql''"
  shows "check_scope E R q = Inr ()" and "f \<in> set (qa_functions q) \<Longrightarrow> function_safe E f"
proof -
  show "check_scope E R q = Inr ()" using assms(1) by (auto simp: validate_analysis_def abind_Inr dlift_def)
  assume f: "f \<in> set (qa_functions q)"
  then have some: "qa_functions q \<noteq> []" by auto
  show "function_safe E f"
  proof (cases "filter custom_function (qa_functions q)")
    case Nil
    then have "\<not> custom_function f" using f by (auto simp: filter_empty_conv)
    moreover obtain w1 where "functions_safe E (qa_functions q) w1 = (Inr u, w')"
      using assms Nil some by (auto simp: validate_analysis_def abind_Inr dlift_def)
    ultimately show ?thesis using functions_safe_Inr f by (fastforce simp: function_safe_def)
  next
    case (Cons g gs)
    then show ?thesis using assms some by (auto simp: validate_analysis_def abind_Inr dlift_def araise_def)
  qed
qed

lemma execute_query_sent:
  assumes "execute_query E R sql maximum w = (r, w')" and "queries w' \<noteq> queries w"
  shows "dr_database_type R = ''postgresql''" and "queries w' = queries w @ [Run (wrapped_sql sql maximum)]"
proof -
  have adapter: "quiet (execute_query E R sql maximum)" if "dr_database_type R \<noteq> ''postgresql''"
    using that unfolding execute_query_def by (auto intro!: quiet_bind quiet_basic quiet_stages)
  show type: "dr_database_type R = ''postgresql''" using adapter quietD assms by blast
  have sent: "queries w2 = queries w1 @ [Run s]" if "fetch E (Run s) w1 = (x, w2)" for s w1 x w2
    using that by (auto simp: fetch_def queries_def is_query_def)
  have "queries w' = queries w \<or> queries w' = queries w @ [Run (wrapped_sql sql maximum)]"
    using assms(1) type unfolding execute_query_def
    by (auto elim!: abind_cases simp: Let_def dest!: sent quietD [OF quiet_basic(6)] quietD [OF quiet_basic(1)] quietD [OF quiet_stages(2)]
        quietD [OF quiet_stages(3)])
  with assms(2) show "queries w' = queries w @ [Run (wrapped_sql sql maximum)]" by blast
qed

lemma db_select_sent:
  assumes "db_select E headers sql w = (r, w')" and "queries w' \<noteq> queries w"
  obtains R q maximum w1 where "authorize E headers ''db_select'' w = Inr R" and "dr_database_type R = ''postgresql''"
    and "require_permission (dr_scope R) ''query'' = Inr ()" and "analyze_select (de_parse_sql E) sql = Inr q"
    and "validate_analysis E R q w = (Inr (), w1)" and "queries w' = queries w @ [Run (wrapped_sql (qa_sql q) maximum)]"
    and "execute_query E R (qa_sql q) maximum w1 = (r, w')" and "max_rows E R = Inr maximum"
proof -
  from assms(1) have "queries w' = queries w \<or> (\<exists>R q maximum w1. authorize E headers ''db_select'' w = Inr R \<and>
      require_permission (dr_scope R) ''query'' = Inr () \<and>
      analyze_read_query (de_parse_sql E) (de_parse E) sql (dr_database_type R) = Inr q \<and>
      validate_analysis E R q w = (Inr (), w1) \<and> max_rows E R = Inr maximum \<and>
      execute_query E R (qa_sql q) maximum w1 = (r, w'))"
    unfolding db_select_def authorized_def dlift_def
    by (elim abind_cases) (auto dest: quietD [OF quiet_validate])
  then obtain R q maximum w1 where run: "authorize E headers ''db_select'' w = Inr R"
    "require_permission (dr_scope R) ''query'' = Inr ()"
    "analyze_read_query (de_parse_sql E) (de_parse E) sql (dr_database_type R) = Inr q"
    "validate_analysis E R q w = (Inr (), w1)" "max_rows E R = Inr maximum" "execute_query E R (qa_sql q) maximum w1 = (r, w')"
    using assms(2) by blast
  have same: "queries w1 = queries w" using quietD [OF quiet_validate run(4)] .
  with assms(2) have "queries w' \<noteq> queries w1" by simp
  note sent = execute_query_sent [OF run(6) this]
  show thesis
    using run sent same by (intro that [of R q w1 maximum]) (simp_all add: analyze_read_query_def)
qed

lemma db_select_scoped:
  assumes "db_select E headers sql w = (r, w')" and "queries w' \<noteq> queries w"
  shows "\<exists>R stmt maximum. authorize E headers ''db_select'' w = Inr R \<and> require_permission (dr_scope R) ''query'' = Inr () \<and>
    de_parse_sql E (normalized_sql sql) = Some [stmt] \<and> read_only stmt \<and>
    (\<forall>n\<in>set (walk_tree stmt). (outside (cte_names (walk_tree stmt)) n \<longrightarrow> in_scope E R (table_of n)) \<and>
       (node_class n = ''FuncCall'' \<longrightarrow> function_safe E (function_of n))) \<and>
    queries w' = queries w @ [Run (wrapped_sql (normalized_sql sql) maximum)]"
proof -
  from db_select_sent [OF assms] obtain R q maximum w1 where run: "authorize E headers ''db_select'' w = Inr R"
    "dr_database_type R = ''postgresql''" "require_permission (dr_scope R) ''query'' = Inr ()"
    "analyze_select (de_parse_sql E) sql = Inr q" "validate_analysis E R q w = (Inr (), w1)"
    "queries w' = queries w @ [Run (wrapped_sql (qa_sql q) maximum)]" by metis
  obtain stmt where stmt: "de_parse_sql E (normalized_sql sql) = Some [stmt]" "qa_sql q = normalized_sql sql"
    "CHR '';'' \<notin> set (qa_sql q)" "read_only stmt"
    "set (qa_relations q) = table_of ` {n \<in> set (walk_tree stmt). outside (cte_names (walk_tree stmt)) n}"
    "set (qa_functions q) = function_of ` {n \<in> set (walk_tree stmt). node_class n = ''FuncCall''}"
    "qa_uses_aggregate q \<longleftrightarrow> (\<exists>n\<in>set (walk_tree stmt). node_class n = ''FuncCall'' \<and> aggregates n)"
    by (rule analyze_select_Inr [OF run(4)])
  note valid = validate_analysis_Inr [OF run(5,2)]
  have relations: "in_scope E R (table_of n)" if "n \<in> set (walk_tree stmt)" "outside (cte_names (walk_tree stmt)) n" for n
  proof (rule check_scope_Inr [OF valid(1) run(2)])
    show "table_of n \<in> set (qa_relations q)" unfolding stmt(5) using that by (intro imageI) simp
  qed
  have called: "function_safe E (function_of n)" if "n \<in> set (walk_tree stmt)" "node_class n = ''FuncCall''" for n
  proof (rule valid(2))
    show "function_of n \<in> set (qa_functions q)" unfolding stmt(6) using that by (intro imageI) simp
  qed
  show ?thesis
  proof (intro exI conjI ballI impI)
    show "authorize E headers ''db_select'' w = Inr R" "require_permission (dr_scope R) ''query'' = Inr ()" by (rule run)+
    show "de_parse_sql E (normalized_sql sql) = Some [stmt]" "read_only stmt" by (rule stmt)+
    show "queries w' = queries w @ [Run (wrapped_sql (normalized_sql sql) maximum)]" using run(6) unfolding stmt(2) .
  qed (use relations called in blast)+
qed

section \<open>How much comes back\<close>

lemma sized_Inr:
  "sized E limits v w = (Inr x, w') \<Longrightarrow>
     \<exists>maximum. x = v \<and> response_limit E limits = Inr maximum \<and> int (length (de_dumps E v)) \<le> maximum"
  by (auto simp: sized_def abind_Inr dlift_def aret_def require_response_size_def split: if_splits)

lemma py_upto_length: "0 \<le> n \<Longrightarrow> int (length (py_upto n xs)) \<le> n"
  by (simp add: py_upto_def)

lemma execute_query_bounds:
  assumes "execute_query E R sql maximum w = (Inr v, w')"
  shows "\<exists>limits most. dget (dr_scope R) ''limits'' = JObj limits \<and> response_limit E limits = Inr most \<and>
    int (length (de_dumps E v)) \<le> most"
    and "dr_database_type R = ''postgresql'' \<Longrightarrow> 0 \<le> maximum \<Longrightarrow>
      int (length (as_arr (dget (as_obj v) ''rows''))) \<le> maximum"
  using assms
  by (auto simp: execute_query_def abind_Inr dlift_def db_object_def Let_def dget_def py_upto_length
      dest!: sized_Inr split: if_splits json.splits)

lemma db_select_bounds:
  assumes "db_select E headers sql w = (Inr v, w')" and "authorize E headers ''db_select'' w = Inr R"
  shows "\<exists>limits most. dget (dr_scope R) ''limits'' = JObj limits \<and> response_limit E limits = Inr most \<and>
    int (length (de_dumps E v)) \<le> most"
    and "dr_database_type R = ''postgresql'' \<Longrightarrow> max_rows E R = Inr m \<Longrightarrow> 0 \<le> m \<Longrightarrow>
      int (length (as_arr (dget (as_obj v) ''rows''))) \<le> m"
proof -
  from assms have "\<exists>s maximum w1. max_rows E R = Inr maximum \<and> execute_query E R s maximum w1 = (Inr v, w')"
    by (auto simp: db_select_def abind_Inr authorized_def dlift_def)
  then obtain s maximum w1 where run: "max_rows E R = Inr maximum" "execute_query E R s maximum w1 = (Inr v, w')"
    by blast
  note bounds = execute_query_bounds [OF run(2)]
  show "\<exists>limits most. dget (dr_scope R) ''limits'' = JObj limits \<and> response_limit E limits = Inr most \<and>
    int (length (de_dumps E v)) \<le> most" by (rule bounds(1))
  show "dr_database_type R = ''postgresql'' \<Longrightarrow> max_rows E R = Inr m \<Longrightarrow> 0 \<le> m \<Longrightarrow>
      int (length (as_arr (dget (as_obj v) ''rows''))) \<le> m" using bounds(2) run(1) by simp
qed

section \<open>The pools\<close>

text \<open>There is at most one pool per revision and database: taking one for new credentials closes the old.\<close>

definition one_pool_each :: "db_server \<Rightarrow> bool" where
  "one_pool_each w \<longleftrightarrow> distinct (map (\<lambda>k. (fst k, fst (snd k))) (dv_pools w))"

lemma target_pool_keeps: "one_pool_each w \<Longrightarrow> target_pool E R w = (r, w') \<Longrightarrow> one_pool_each w'"
  by (auto simp: one_pool_each_def target_pool_def pool_key_def distinct_map_filter split: if_splits sum.splits)

lemma invalidate_keeps: "one_pool_each w \<Longrightarrow> one_pool_each (invalidate_pools u w)"
  by (simp add: one_pool_each_def invalidate_pools_def distinct_map_filter)

section \<open>Calls from the gateway\<close>

lemma strip_strip: "strip (strip s) = strip s"
proof -
  let ?t = "strip s"
  have front: "dropWhile is_space ?t = ?t"
  proof (cases "?t")
    case (Cons c cs)
    let ?u = "dropWhile is_space s"
    have "\<exists>v. ?u = ?t @ v"
      unfolding strip_def by (metis append.assoc rev_append rev_rev_ident takeWhile_dropWhile_id)
    then obtain v where u: "?u = c # cs @ v" using Cons by auto
    have "\<not> is_space c" using hd_dropWhile [of is_space s] unfolding u by simp
    then show ?thesis using Cons by simp
  qed simp
  have "dropWhile is_space (rev ?t) = rev ?t"
    unfolding strip_def by (simp add: dropWhile_idem)
  then show ?thesis using front by (simp add: strip_def [of ?t])
qed

text \<open>The headers of a request, whose names do not depend on case.\<close>

definition headers_of :: "(string \<times> string) list \<Rightarrow> string \<Rightarrow> string option" where
  "headers_of hs name = map_of (map (\<lambda>(k, v). (lower k, v)) hs) name"

lemma database_header_values:
  "headers_of (database_headers C r scope) ''authorization'' = Some (''Bearer '' @ cc_token C)"
  "headers_of (database_headers C r scope) ''x-hermes-execution-id'' = Some (cc_execution_id C)"
  "headers_of (database_headers C r scope) ''x-hermes-binding-id'' = Some (cc_binding_id C)"
  "headers_of (database_headers C r scope) ''x-hermes-connector-revision-id'' = Some (uuid_str (cr_id r))"
  "headers_of (database_headers C r scope) ''x-hermes-scope-revision-id'' = Some scope"
proof -
  have keys: "lower ''Authorization'' = ''authorization''" "lower ''X-Hermes-Execution-Id'' = ''x-hermes-execution-id''"
    "lower ''X-Hermes-Binding-Id'' = ''x-hermes-binding-id''"
    "lower ''X-Hermes-Connector-Revision-Id'' = ''x-hermes-connector-revision-id''"
    "lower ''X-Hermes-Scope-Revision-Id'' = ''x-hermes-scope-revision-id''" by code_simp+
  show "headers_of (database_headers C r scope) ''authorization'' = Some (''Bearer '' @ cc_token C)"
    "headers_of (database_headers C r scope) ''x-hermes-execution-id'' = Some (cc_execution_id C)"
    "headers_of (database_headers C r scope) ''x-hermes-binding-id'' = Some (cc_binding_id C)"
    "headers_of (database_headers C r scope) ''x-hermes-connector-revision-id'' = Some (uuid_str (cr_id r))"
    "headers_of (database_headers C r scope) ''x-hermes-scope-revision-id'' = Some scope"
    by (simp_all add: headers_of_def database_headers_def keys)
qed

text \<open>The server reads the registry the gateway reads, with the same key, marks and clock.\<close>

definition same_registry :: "gateway_env \<Rightarrow> gateway \<Rightarrow> db_env \<Rightarrow> db_server \<Rightarrow> bool" where
  "same_registry G w E v \<longleftrightarrow>
     ge_redis G = Redis_up \<and> de_loads E = ge_loads G \<and> de_hmac E = ge_hmac G \<and> de_signing_key E = ge_signing_key G \<and>
     de_cast E = ge_cast G \<and> dv_db v = gw_db w \<and> dv_cap v = gw_cap w \<and> dv_marks v = gw_marks w \<and> dv_now v = gw_now w"

text \<open>Ids are keys, and the id of a row is read back from its text.\<close>

definition keyed_registry :: "gateway_env \<Rightarrow> capability_store \<Rightarrow> bool" where
  "keyed_registry G cs \<longleftrightarrow>
     distinct (map cb_id (cs_bindings cs)) \<and> distinct (map im_id (cs_implementations cs)) \<and>
     distinct (map cn_id (cs_connectors cs)) \<and> distinct (map cd_id (cs_credentials cs)) \<and>
     list_all (\<lambda>b. ge_cast G (uuid_str (cb_id b)) = Some (cb_id b)) (cs_bindings cs)"

lemma first_row_key:
  assumes "distinct (map key rows)" and "r \<in> set rows" and "P r"
  shows "first_row (\<lambda>s. key s = key r \<and> P s) rows = Some r"
proof (cases "first_row (\<lambda>s. key s = key r \<and> P s) rows")
  case None
  then show ?thesis using assms(2,3) by (auto simp: first_row_None)
next
  case (Some s)
  then have "s \<in> set rows" "key s = key r" by (auto dest: first_row_Some)
  then have "s = r" using assms(1,2) by (metis distinct_map inj_onD)
  then show ?thesis using Some by simp
qed

lemma first_row_get:
  assumes "row_get key k rows = Some r" and "distinct (map key rows)" and "P r"
  shows "first_row (\<lambda>s. key s = k \<and> P s) rows = Some r"
  using first_row_key [OF assms(2), of r P] row_get_Some [OF assms(1)] assms(3) by simp

text \<open>The parts of the provider that database tools need: a pinned implementation, an active credential, a scope of the revision.\<close>

definition database_target ::
  "db_env \<Rightarrow> bound \<Rightarrow> capability_implementation \<Rightarrow> provider \<Rightarrow> scope_revision \<Rightarrow> dict \<Rightarrow> bool"
where
  "database_target E b m p s scope \<longleftrightarrow>
     cn_type (pv_connector p) \<in> set database_types \<and> cb_implementation_id (bb_binding b) = Some (im_id m) \<and>
     (\<exists>c cred. pv_credential p = Some c \<and> cd_rotation_status c = ''active'' \<and>
        db_decrypt E (cd_encrypted_payload c) = Inr cred) \<and>
     pv_scope p = Some s \<and> sr_scope_definition s = JObj scope \<and>
     dget scope ''connector_revision_id'' = JStr (uuid_str (cr_id (pv_revision p))) \<and>
     (\<exists>database. required_text scope ''database'' = Inr database) \<and> is_obj (cr_connection_config (pv_revision p))"

lemma provider_row:
  assumes "target_available G cs claims tool b m p" and "database_target E b m p s scope" and "keyed_registry G cs"
    and "get_execution x db = Some e" and "ex_agent_version_id e = Some (av_id av)"
    and "row_get av_id (av_id av) (rg_versions (db_registry db)) = Some av"
    and "cb_agent_version_id (bb_binding b) = av_id av"
  shows "\<exists>c cred. access_row_of db cs x (cb_id (bb_binding b)) =
      Some \<lparr>ar_execution = e, ar_digest = av_resolution_digest av, ar_binding = bb_binding b, ar_operation = pv_operation p,
        ar_revision = pv_revision p, ar_instance = pv_instance p, ar_credential = c, ar_scope = s\<rparr> \<and>
      db_decrypt E (cd_encrypted_payload c) = Inr cred"
proof -
  note t = assms(1) [unfolded target_available_def] and d = assms(2) [unfolded database_target_def]
    and k = assms(3) [unfolded keyed_registry_def]
  have "b \<in> set (joined_bindings cs)" using t by blast
  then have "bb_binding b \<in> set (cs_bindings cs)" by (auto simp: joined_bindings_def split: option.splits)
  then have binding: "first_row (\<lambda>c. cb_id c = cb_id (bb_binding b) \<and> cb_agent_version_id c = av_id av \<and> cb_enabled c) (cs_bindings cs) =
      Some (bb_binding b)"
    using first_row_key [where key = cb_id and P = "\<lambda>c. cb_agent_version_id c = av_id av \<and> cb_enabled c"] t k assms(7) by blast
  have impl: "first_row (\<lambda>i. im_id i = im_id m \<and> im_status i = ''active'') (cs_implementations cs) = Some m"
    using first_row_key [where key = im_id and P = "\<lambda>i. im_status i = ''active''"] t k by blast
  have parts: "row_get co_id (im_connector_operation_id m) (cs_operations cs) = Some (pv_operation p)"
    "row_get cn_id (co_connector_id (pv_operation p)) (cs_connectors cs) = Some (pv_connector p)"
    "row_get cr_id (im_connector_instance_revision_id m) (cs_revisions cs) = Some (pv_revision p)"
    "row_get ci_id (cr_connector_instance_id (pv_revision p)) (cs_instances cs) = Some (pv_instance p)"
    "pv_credential p = Option.bind (cr_credential_ref (pv_revision p)) (\<lambda>k. row_get cd_id k (cs_credentials cs))"
    "pv_scope p = Option.bind (cb_resource_scope_revision_id (bb_binding b)) (\<lambda>k. row_get sr_id k (cs_scopes cs))"
    using t by (auto simp: provider_of_def bind_eq_Some_conv)
  have connector: "first_row (\<lambda>c. cn_id c = co_connector_id (pv_operation p) \<and> cn_type c \<in> set database_types) (cs_connectors cs) =
      Some (pv_connector p)"
    by (rule first_row_get [OF parts(2)]) (use d k in simp_all)
  obtain c cred where c: "pv_credential p = Some c" "cd_rotation_status c = ''active''"
    "db_decrypt E (cd_encrypted_payload c) = Inr cred" using d by blast
  obtain k' where k': "cr_credential_ref (pv_revision p) = Some k'" "row_get cd_id k' (cs_credentials cs) = Some c"
    using parts(5) [symmetric] unfolding c(1) by (auto simp: bind_eq_Some_conv)
  have credential: "first_row (\<lambda>c. cd_id c = k' \<and> cd_rotation_status c = ''active'') (cs_credentials cs) = Some c"
    by (rule first_row_get [OF k'(2)]) (use c(2) k in simp_all)
  have "Option.bind (cb_resource_scope_revision_id (bb_binding b)) (\<lambda>k. row_get sr_id k (cs_scopes cs)) = Some s"
    using parts(6) d by simp
  then obtain k2 where scope: "cb_resource_scope_revision_id (bb_binding b) = Some k2" "row_get sr_id k2 (cs_scopes cs) = Some s"
    by (auto simp: bind_eq_Some_conv)
  have pinned: "cb_implementation_id (bb_binding b) = Some (im_id m)" using d by blast
  show ?thesis
    unfolding access_row_of_def
    using c(3) by (auto simp: assms(4,5,6) binding pinned impl parts(1,3,4) connector k'(1) credential scope)
qed

lemma authorize_result:
  assumes "db_bearer (headers ''authorization'') = Inr token"
    and "verify_db_token (de_loads E) (de_hmac E) (de_signing_key E) (dv_now v div 1000000) token = Inr claims"
    and "db_header headers ''x-hermes-execution-id'' = Inr execution_id"
    and "db_header headers ''x-hermes-binding-id'' = Inr binding_id"
    and "db_header headers ''x-hermes-connector-revision-id'' = Inr revision_id"
    and "db_header headers ''x-hermes-scope-revision-id'' = Inr scope_id"
    and "dget claims ''execution_id'' = JStr execution_id" and "JStr binding_id \<in> set (as_arr (dget claims ''allowed_bindings''))"
    and "\<not> marked (dv_now v) (mark_key (as_str (dget claims ''jti''))) (dv_marks v)"
    and "de_cast E execution_id = Some x" and "de_cast E binding_id = Some b"
    and "access_row_of (dv_db v) (dv_cap v) x b = Some a" and "row_matches claims revision_id scope_id tool a"
    and "sr_scope_definition (ar_scope a) = JObj scope" and "dget scope ''connector_revision_id'' = JStr revision_id"
    and "required_text scope ''database'' = Inr database" and "cr_connection_config (ar_revision a) = JObj config"
    and "db_decrypt E (cd_encrypted_payload (ar_credential a)) = Inr credential"
  shows "authorize E headers tool v = Inr \<lparr>dr_revision_id = revision_id, dr_database = database,
    dr_database_type = py_str (de_rep E) (py_or (dget config ''database_type'') (JStr ''postgresql'')), dr_config = config,
    dr_credential = credential, dr_credential_epoch = de_isoformat E (cd_last_rotated_at (ar_credential a)), dr_scope = scope\<rparr>"
  unfolding authorize_def by (simp add: assms stored_object_def)

lemma gateway_call_row:
  assumes "caller_admitted G header body w claims payload e"
    and "target_available G (gw_cap w) claims (request_text G payload ''tool_name'') b m p"
    and "database_target E b m p s scope" and "keyed_registry G (gw_cap w)" and "same_registry G w E v"
    and "ge_cast G (version_text e) = ex_agent_version_id e"
    and "bearer header = Inr token" and "cc_token C = token" and "cc_execution_id C = request_text G payload ''execution_id''"
    and "cc_binding_id C = uuid_str (cb_id (bb_binding b))"
  shows "\<exists>R. authorize E (headers_of (database_headers C (pv_revision p) (uuid_str (sr_id s)))) (co_path_or_tool (pv_operation p)) v =
      Inr R \<and> dr_scope R = scope \<and> dr_revision_id R = uuid_str (cr_id (pv_revision p))"
proof -
  note caller = assms(1) [unfolded caller_admitted_def] and same = assms(5) [unfolded same_registry_def]
    and t = assms(2) [unfolded target_available_def] and d = assms(3) [unfolded database_target_def]
    and keys = assms(4) [unfolded keyed_registry_def]
  let ?x = "request_text G payload ''execution_id''"
  have verified: "verify_capability_token (ge_loads G) (ge_hmac G) (ge_signing_key G) (seconds_now w) token = Inr claims"
    using caller assms(7) by auto
  obtain x where x: "ge_cast G ?x = Some x" "get_execution x (gw_db w) = Some e" using caller by blast
  have digest: "map_option JStr (execution_digest e (gw_db w)) = Some (dget claims ''resolution_digest'')" using caller by blast
  then obtain u av where av: "ex_agent_version_id e = Some u" "row_get av_id u (rg_versions (db_registry (gw_db w))) = Some av"
    by (auto simp: execution_digest_def bind_eq_Some_conv)
  have "av_id av = u" using row_get_Some [OF av(2)] by simp
  note av = av [folded this]
  have version: "cb_agent_version_id (bb_binding b) = av_id av"
    using t caller assms(6) av(1) by auto
  obtain c cred where row: "access_row_of (gw_db w) (gw_cap w) x (cb_id (bb_binding b)) =
      Some \<lparr>ar_execution = e, ar_digest = av_resolution_digest av, ar_binding = bb_binding b, ar_operation = pv_operation p,
        ar_revision = pv_revision p, ar_instance = pv_instance p, ar_credential = c, ar_scope = s\<rparr>"
    and cred: "db_decrypt E (cd_encrypted_payload c) = Inr cred"
    using provider_row [OF assms(2,3,4) x(2) av version] by blast
  have token: "db_bearer (Some (''Bearer '' @ token)) = Inr token"
  proof -
    obtain h where "token = strip (drop 7 h)"
      using assms(7) by (auto simp: bearer_def split: option.splits if_splits)
    then show ?thesis by (simp add: db_bearer_def starts_with_def strip_strip)
  qed
  have verified': "verify_db_token (de_loads E) (de_hmac E) (de_signing_key E) (dv_now v div 1000000) token = Inr claims"
    using verified same unfolding db_token_iff by (simp add: seconds_now_def)
  have nonempty: "?x \<noteq> []" using verified_text [OF verified] caller by auto
  have binding: "JStr (uuid_str (cb_id (bb_binding b))) \<in> set (as_arr (dget claims ''allowed_bindings''))"
    using t by (simp add: binding_allowed_def)
  have cast: "ge_cast G (uuid_str (cb_id (bb_binding b))) = Some (cb_id (bb_binding b))"
    using t keys by (auto simp: list_all_iff joined_bindings_def split: option.splits)
  have matches: "row_matches claims (uuid_str (cr_id (pv_revision p))) (uuid_str (sr_id s)) (co_path_or_tool (pv_operation p))
      \<lparr>ar_execution = e, ar_digest = av_resolution_digest av, ar_binding = bb_binding b, ar_operation = pv_operation p,
        ar_revision = pv_revision p, ar_instance = pv_instance p, ar_credential = c, ar_scope = s\<rparr>"
    using caller t digest av by (simp add: row_matches_def execution_digest_def)
  obtain database config where more: "required_text scope ''database'' = Inr database" "cr_connection_config (pv_revision p) = JObj config"
    using d by (cases "cr_connection_config (pv_revision p)") auto
  have scope: "sr_scope_definition s = JObj scope" "dget scope ''connector_revision_id'' = JStr (uuid_str (cr_id (pv_revision p)))"
    using d by blast+
  have unmarked: "\<not> marked (dv_now v) (mark_key (as_str (dget claims ''jti''))) (dv_marks v)" using caller same by simp
  have execution: "JStr ?x = dget claims ''execution_id''" using caller by simp
  have header: "db_header hs name = Inr t" if "hs name = Some t" "t \<noteq> []" for hs name t
    using that by (simp add: db_header_def)
  let ?R = "\<lparr>dr_revision_id = uuid_str (cr_id (pv_revision p)), dr_database = database,
    dr_database_type = py_str (de_rep E) (py_or (dget config ''database_type'') (JStr ''postgresql'')), dr_config = config,
    dr_credential = cred, dr_credential_epoch = de_isoformat E (cd_last_rotated_at c), dr_scope = scope\<rparr>"
  have "authorize E (headers_of (database_headers C (pv_revision p) (uuid_str (sr_id s)))) (co_path_or_tool (pv_operation p)) v = Inr ?R"
  proof (rule authorize_result [where token = token and claims = claims and execution_id = ?x and x = x and config = config
        and binding_id = "uuid_str (cb_id (bb_binding b))" and scope_id = "uuid_str (sr_id s)" and b = "cb_id (bb_binding b)"
        and database = database and credential = cred
        and a = "\<lparr>ar_execution = e, ar_digest = av_resolution_digest av, ar_binding = bb_binding b, ar_operation = pv_operation p,
          ar_revision = pv_revision p, ar_instance = pv_instance p, ar_credential = c, ar_scope = s\<rparr>", simplified access_row.simps])
    show "db_bearer (headers_of (database_headers C (pv_revision p) (uuid_str (sr_id s))) ''authorization'') = Inr token"
      unfolding database_header_values assms(8) by (rule token)
  qed (use verified' execution binding unmarked same x(1) cast row matches scope more cred nonempty assms(9,10) in
      \<open>simp_all add: header database_header_values uuid_str_nonempty\<close>)
  then show ?thesis by auto
qed

text \<open>A binding that names no implementation is refused, although the gateway would choose one.\<close>

lemma unpinned_binding_refused: "access_row_of db cs x b = Some a \<Longrightarrow> cb_implementation_id (ar_binding a) \<noteq> None"
  by (auto simp: access_row_of_def bind_eq_Some_conv)


text \<open>The result of \<open>db_select\<close> is no longer than the scope allows, and from PostgreSQL it has at most
  \<open>max_rows\<close> rows, whatever the database sends.\<close>

theorem select_result_bounded:
  assumes "db_select E headers sql w = (Inr v, w')" and "authorize E headers ''db_select'' w = Inr R"
    and "dr_database_type R = ''postgresql''" and "max_rows E R = Inr m" and "0 \<le> m"
  shows "int (length (as_arr (dget (as_obj v) ''rows''))) \<le> m \<and>
    (\<exists>limits most. dget (dr_scope R) ''limits'' = JObj limits \<and> response_limit E limits = Inr most \<and>
       int (length (de_dumps E v)) \<le> most)"
  using db_select_bounds [OF assms(1,2)] assms(3-5) by blast


section \<open>An example\<close>

text \<open>
  The version of the example of the gateway with one binding to the tool \<open>db_select\<close> of a PostgreSQL
  database, whose scope has one table.
\<close>

definition sample_db_scope :: dict where
  "sample_db_scope =
     [(''connector_revision_id'', JStr (uuid_str 9)), (''database'', JStr ''sales''),
      (''schemas'', JObj [(''public'', JObj [(''tables'', JArr [JStr ''orders''])])]),
      (''permissions'', JObj [(''query'', JBool True)]), (''limits'', JObj [(''max_rows'', JInt 2)])]"

definition sample_db_store :: capability_store where
  "sample_db_store = sample_capability_store\<lparr>
     cs_connectors := [\<lparr>cn_id = 7, cn_key = ''c'', cn_type = ''postgresql_mcp'', cn_status = ''published''\<rparr>],
     cs_credentials := [\<lparr>cd_id = 11, cd_encrypted_payload = ''p'', cd_rotation_status = ''active'', cd_last_rotated_at = 0\<rparr>],
     cs_revisions := [\<lparr>cr_id = 9, cr_connector_instance_id = 8, cr_revision = 1, cr_endpoint = ''http://h'',
       cr_auth_type = ''none'', cr_credential_ref = Some 11, cr_network_zone = ''dmz'',
       cr_connection_config = JObj [(''host'', JStr ''h'')], cr_timeout_policy = JObj [], cr_retry_policy = JObj []\<rparr>],
     cs_operations := [\<lparr>co_id = 10, co_connector_id = 7, co_operation_key = ''o'', co_protocol = ''mcp'', co_method = None,
       co_path_or_tool = ''db_select'', co_request_mapping = JObj [], co_response_mapping = JObj [],
       co_error_mapping = JObj [], co_side_effect = ''READ_ONLY'', co_status = ''published''\<rparr>],
     cs_scopes := [\<lparr>sr_id = 12, sr_resource_scope_id = 13, sr_revision = 1, sr_scope_definition = JObj sample_db_scope\<rparr>],
     cs_bindings := [\<lparr>cb_id = 3, cb_agent_version_id = 2, cb_tool_alias = ''search'', cb_capability_version_id = 5,
       cb_implementation_id = Some 4, cb_resource_scope_revision_id = Some 12, cb_parameter_policy = JObj [],
       cb_quota_policy = JObj [], cb_approval_policy = JObj [], cb_enabled = True\<rparr>]\<rparr>"

definition sample_credential :: dict where
  "sample_credential = [(''username'', JStr ''u''), (''password'', JStr ''p'')]"

definition sample_loads :: "string \<Rightarrow> json option" where
  "sample_loads s = Some (JObj (if s = ''p'' then sample_credential else sample_claims))"

definition sample_db_gateway_env :: gateway_env where
  "sample_db_gateway_env = sample_gateway_env\<lparr>ge_loads := sample_loads\<rparr>"

definition sample_db_gateway :: gateway where
  "sample_db_gateway = sample_gateway\<lparr>gw_cap := sample_db_store\<rparr>"

definition sample_select :: ast where
  "sample_select = Node ''SelectStmt'' [(''fromClause'', Items [table_node ''orders''])]"

definition sample_db_env :: db_env where
  "sample_db_env =
     \<lparr>de_loads = sample_loads, de_dumps = (\<lambda>_. ''{}''), de_rep = (\<lambda>_. []), de_float = (\<lambda>_. True),
      de_hmac = (\<lambda>_ _. ''A''), de_signing_key = ''k'', de_fernet = Some, de_isoformat = (\<lambda>_. ''t''), de_cast = parse_uuid,
      de_parse_sql = (\<lambda>_. Some [sample_select]), de_parse = (\<lambda>_ _. None), de_max_response = 100,
      de_fetch = (\<lambda>_ c. case c of Run _ \<Rightarrow> Inr [JInt 1, JInt 2, JInt 3] | _ \<Rightarrow> Inr []),
      de_adapter = (\<lambda>_ _. Inl Db_crash)\<rparr>"

definition sample_db_server :: db_server where
  "sample_db_server =
     \<lparr>dv_db = gw_db sample_gateway, dv_cap = sample_db_store, dv_marks = [], dv_now = 500000000, dv_pools = [], dv_commands = []\<rparr>"

definition sample_db_bound :: bound where
  "sample_db_bound = sample_bound\<lparr>bb_binding := hd (cs_bindings sample_db_store)\<rparr>"

definition sample_db_provider :: provider where
  "sample_db_provider =
     \<lparr>pv_operation = hd (cs_operations sample_db_store), pv_connector = hd (cs_connectors sample_db_store),
      pv_revision = hd (cs_revisions sample_db_store), pv_instance = hd (cs_instances sample_capability_store),
      pv_credential = Some (hd (cs_credentials sample_db_store)), pv_scope = Some (hd (cs_scopes sample_db_store))\<rparr>"

lemma sample_db_verified: "verify_capability_token sample_loads (\<lambda>_ _. ''A'') ''k'' 500 ''cap1.eA.QQ'' = Inr sample_claims"
proof -
  have "check_claims 500 sample_claims = Inr sample_claims"
    using uuid_str_nonempty by (simp add: check_claims_def sample_claims_def dget_def)
  then show ?thesis
    using verify_sealed [of sample_loads "''x''" sample_claims "\<lambda>_ _. ''A''" "''k''" 500 sample_claims]
    by (simp add: sample_seal sample_loads_def)
qed

lemma sample_db_admitted:
  "caller_admitted sample_db_gateway_env sample_header (Some (JObj (sample_payload ''search''))) sample_db_gateway sample_claims
     (sample_payload ''search'') sample_execution"
proof -
  have old: "caller_admitted sample_gateway_env sample_header (Some (JObj (sample_payload ''search''))) sample_gateway sample_claims
     (sample_payload ''search'') sample_execution" by (rule sample_admitted) simp
  have texts: "request_text sample_db_gateway_env = request_text sample_gateway_env"
    by (simp add: request_text_def sample_db_gateway_env_def fun_eq_iff)
  have same: "ge_redis sample_db_gateway_env = ge_redis sample_gateway_env" "ge_cast sample_db_gateway_env = ge_cast sample_gateway_env"
    "gw_db sample_db_gateway = gw_db sample_gateway" "gw_marks sample_db_gateway = gw_marks sample_gateway"
    "gw_now sample_db_gateway = gw_now sample_gateway"
    by (simp_all add: sample_db_gateway_env_def sample_db_gateway_def)
  have "\<exists>token. bearer sample_header = Inr token \<and> verify_capability_token (ge_loads sample_db_gateway_env)
      (ge_hmac sample_db_gateway_env) (ge_signing_key sample_db_gateway_env) (seconds_now sample_db_gateway) token = Inr sample_claims"
    using sample_bearer sample_db_verified
    by (simp add: sample_db_gateway_env_def sample_gateway_env_def seconds_now_def sample_db_gateway_def sample_gateway_def)
  then show ?thesis using old unfolding caller_admitted_def texts same by blast
qed

lemma sample_db_joined: "joined_bindings sample_db_store = [sample_db_bound]"
  by (simp add: joined_bindings_def sample_db_store_def sample_capability_store_def sample_bound_def sample_db_bound_def row_get_Cons)

lemma sample_db_target:
  "target_available sample_db_gateway_env (gw_cap sample_db_gateway) sample_claims ''search'' sample_db_bound
     sample_implementation sample_db_provider"
proof -
  have "provider_of sample_implementation (bb_binding sample_db_bound) sample_db_store = Some sample_db_provider"
    by (simp add: provider_of_def sample_implementation_def sample_db_bound_def sample_db_store_def sample_capability_store_def
        row_get_Cons sample_db_provider_def)
  then show ?thesis
    unfolding target_available_def
    by (simp add: sample_db_gateway_def sample_db_joined, simp add: sample_db_bound_def sample_db_store_def sample_capability_store_def
        sample_db_gateway_env_def sample_gateway_env_def sample_claims_def dget_def sample_uuids binding_allowed_def
        sample_implementation_def sample_db_provider_def)
qed

lemma sample_db_conditions:
  "database_target sample_db_env sample_db_bound sample_implementation sample_db_provider (hd (cs_scopes sample_db_store)) sample_db_scope"
  "keyed_registry sample_db_gateway_env (gw_cap sample_db_gateway)"
  "same_registry sample_db_gateway_env sample_db_gateway sample_db_env sample_db_server"
proof -
  show "database_target sample_db_env sample_db_bound sample_implementation sample_db_provider (hd (cs_scopes sample_db_store)) sample_db_scope"
    by (simp add: database_target_def sample_db_bound_def sample_implementation_def sample_db_provider_def sample_db_store_def
        sample_capability_store_def database_types_def sample_db_env_def db_decrypt_def sample_loads_def db_object_def
        sample_credential_def dget_default_def sample_db_scope_def dget_def required_text_def)
  show "keyed_registry sample_db_gateway_env (gw_cap sample_db_gateway)"
    using small_uuid [of 3]
    by (simp add: keyed_registry_def sample_db_gateway_def sample_db_store_def sample_capability_store_def sample_db_gateway_env_def
        sample_gateway_env_def)
  show "same_registry sample_db_gateway_env sample_db_gateway sample_db_env sample_db_server"
    by (simp add: same_registry_def sample_db_gateway_env_def sample_gateway_env_def sample_db_env_def sample_db_server_def
        sample_db_gateway_def sample_gateway_def)
qed

definition sample_db_context :: call_context where
  "sample_db_context =
     \<lparr>cc_token = ''cap1.eA.QQ'', cc_execution_id = uuid_str 1, cc_binding_id = uuid_str 3,
      cc_scope_revision_id = Some (uuid_str 12), cc_idempotency = ''SAFE_RETRY''\<rparr>"

definition sample_db_headers :: "string \<Rightarrow> string option" where
  "sample_db_headers = headers_of (database_headers sample_db_context (pv_revision sample_db_provider) (uuid_str 12))"

definition sample_db_runtime :: db_runtime where
  "sample_db_runtime =
     \<lparr>dr_revision_id = uuid_str 9, dr_database = ''sales'', dr_database_type = ''postgresql'', dr_config = [(''host'', JStr ''h'')],
      dr_credential = sample_credential, dr_credential_epoch = ''t'', dr_scope = sample_db_scope\<rparr>"

lemma sample_db_row:
  "access_row_of (dv_db sample_db_server) (dv_cap sample_db_server) 1 3 =
     Some \<lparr>ar_execution = sample_execution, ar_digest = Some ''d'', ar_binding = hd (cs_bindings sample_db_store),
       ar_operation = hd (cs_operations sample_db_store), ar_revision = hd (cs_revisions sample_db_store),
       ar_instance = hd (cs_instances sample_capability_store), ar_credential = hd (cs_credentials sample_db_store),
       ar_scope = hd (cs_scopes sample_db_store)\<rparr>"
  by (simp add: access_row_of_def sample_db_server_def sample_db_store_def sample_capability_store_def sample_gateway_def
      sample_execution_def sample_digest_version_def row_get_Cons first_row_def database_types_def)

lemma sample_db_authorized: "authorize sample_db_env sample_db_headers ''db_select'' sample_db_server = Inr sample_db_runtime"
proof -
  have plain: "py_str rep (py_or (dget [(''host'', JStr ''h'')] ''database_type'') (JStr ''postgresql'')) = ''postgresql''" for rep
    by (simp add: dget_def py_or_def)
  let ?E = "sample_db_env" and ?v = "sample_db_server"
  have credential: "db_decrypt ?E ''p'' = Inr sample_credential"
    by (simp add: db_decrypt_def sample_db_env_def sample_loads_def db_object_def sample_credential_def dget_default_def)
  have verified: "verify_db_token (de_loads ?E) (de_hmac ?E) (de_signing_key ?E) (dv_now ?v div 1000000) ''cap1.eA.QQ'' =
      Inr sample_claims"
    unfolding db_token_iff using sample_db_verified by (simp add: sample_db_env_def sample_db_server_def)
  have header: "db_header sample_db_headers ''x-hermes-execution-id'' = Inr (uuid_str 1)"
    "db_header sample_db_headers ''x-hermes-binding-id'' = Inr (uuid_str 3)"
    "db_header sample_db_headers ''x-hermes-connector-revision-id'' = Inr (uuid_str 9)"
    "db_header sample_db_headers ''x-hermes-scope-revision-id'' = Inr (uuid_str 12)"
    using uuid_str_nonempty
    by (simp_all add: sample_db_headers_def db_header_def database_header_values, simp_all add: sample_db_context_def
        sample_db_provider_def sample_db_store_def)
  have token: "db_bearer (sample_db_headers ''authorization'') = Inr ''cap1.eA.QQ''"
    unfolding sample_db_headers_def database_header_values by (simp add: sample_db_context_def) code_simp
  have cast: "de_cast ?E (uuid_str 1) = Some 1" "de_cast ?E (uuid_str 3) = Some 3"
    using small_uuid [of 1] small_uuid [of 3] by (simp_all add: sample_db_env_def)
  have claims: "dget sample_claims ''execution_id'' = JStr (uuid_str 1)"
    "JStr (uuid_str 3) \<in> set (as_arr (dget sample_claims ''allowed_bindings''))"
    by (simp_all add: sample_claims_def dget_def)
  have unmarked: "\<not> marked (dv_now ?v) (mark_key (as_str (dget sample_claims ''jti''))) (dv_marks ?v)"
    by (simp add: sample_db_server_def marked_def)
  have scope: "dget sample_db_scope ''connector_revision_id'' = JStr (uuid_str 9)" "required_text sample_db_scope ''database'' = Inr ''sales''"
    by (simp_all add: sample_db_scope_def dget_def required_text_def)
  have row: "row_matches sample_claims (uuid_str 9) (uuid_str 12) ''db_select''
     \<lparr>ar_execution = sample_execution, ar_digest = Some ''d'', ar_binding = hd (cs_bindings sample_db_store),
       ar_operation = hd (cs_operations sample_db_store), ar_revision = hd (cs_revisions sample_db_store),
       ar_instance = hd (cs_instances sample_capability_store), ar_credential = hd (cs_credentials sample_db_store),
       ar_scope = hd (cs_scopes sample_db_store)\<rparr>"
    by (simp add: row_matches_def sample_execution_def sample_claims_def dget_def version_text_def sample_db_store_def
        sample_capability_store_def)
  note result = authorize_result [where config = "[(''host'', JStr ''h'')]" and scope = sample_db_scope,
      OF token verified header claims unmarked cast sample_db_row row _ scope _ _]
  show ?thesis
    by (subst result) (simp_all add: sample_db_store_def credential plain sample_db_runtime_def, simp add: sample_db_env_def)
qed

lemma sample_db_analysis:
  "analyze_select (de_parse_sql sample_db_env) ''q'' =
     Inr \<lparr>qa_sql = ''q'', qa_relations = [(None, ''orders'')], qa_functions = [], qa_uses_aggregate = False\<rparr>"
proof -
  have "normalized_sql ''q'' = ''q''" by code_simp
  moreover have "scan_nodes (cte_names (walk_tree sample_select)) (walk_tree sample_select) ([], [], False) =
      Inr ([(None, ''orders'')], [], False)" by code_simp
  ultimately show ?thesis
    by (simp add: analyze_select_def sample_db_env_def, simp add: sample_select_def)
qed

lemma sample_db_valid:
  "validate_analysis sample_db_env sample_db_runtime
     \<lparr>qa_sql = ''q'', qa_relations = [(None, ''orders'')], qa_functions = [], qa_uses_aggregate = False\<rparr> w = (Inr (), w)"
proof -
  have "scope_index rep False (normalized_schemas False [(''public'', JObj [(''tables'', JArr [JStr ''orders''])])]) =
      Inr [(''public'', [''orders''])]" for rep
    by (simp add: normalized_schemas_def folded_def dupdate_def dset_def db_object_def listed_objects_def dget_default_def db_py_def json_items_def)
  then show ?thesis
    by (simp add: validate_analysis_def check_scope_def sample_db_runtime_def case_insensitive_def db_object_def sample_db_scope_def
        dget_def abind_def dlift_def aret_def relation_allowed_def schemas_with_def folded_def)
qed

lemma sample_db_select:
  obtains v w' where "db_select sample_db_env sample_db_headers ''q'' sample_db_server = (Inr v, w')" and "queries w' \<noteq> []"
    and "max_rows sample_db_env sample_db_runtime = Inr 2"
proof -
  have permission: "require_permission (dr_scope sample_db_runtime) ''query'' = Inr ()"
    by (simp add: require_permission_def sample_db_runtime_def sample_db_scope_def dget_def db_object_def dget_default_def)
  have most: "max_rows sample_db_env sample_db_runtime = Inr 2"
    by (simp add: max_rows_def scope_limits_def sample_db_runtime_def sample_db_scope_def dget_def dhas_def db_py_def py_int_def)
  have type: "dr_database_type sample_db_runtime = ''postgresql''" by (simp add: sample_db_runtime_def)
  have limits: "db_object (dget (dr_scope sample_db_runtime) ''limits'') = Inr [(''max_rows'', JInt 2)]"
    by (simp add: sample_db_runtime_def sample_db_scope_def dget_def db_object_def)
  have unset: "db_int sample_db_env d k i = Inr i" if "dget d k = JNull" for d k i
    using that by (cases "i = 0") (simp_all add: db_int_def py_or_def db_py_def py_int_def)
  have "pool_arguments sample_db_env sample_db_runtime = Inr ()"
    by (simp add: pool_arguments_def sample_db_runtime_def required_text_def dget_def unset py_or_def sample_credential_def)
      (simp add: sample_db_env_def)
  then have pool: "target_pool sample_db_env sample_db_runtime sample_db_server =
      (Inr (), sample_db_server\<lparr>dv_pools := [pool_key sample_db_runtime]\<rparr>)"
    by (simp add: target_pool_def, simp add: sample_db_server_def)
  have schemas: "db_object (dget (dr_scope sample_db_runtime) ''schemas'') = Inr [(''public'', JObj [(''tables'', JArr [JStr ''orders''])])]"
    by (simp add: sample_db_runtime_def sample_db_scope_def dget_def db_object_def)
  have sent: "de_fetch sample_db_env c (Run s) = Inr [JInt 1, JInt 2, JInt 3]" "de_fetch sample_db_env c (Set_config n s) = Inr []" for c s n
    by (simp_all add: sample_db_env_def)
  have most_bytes: "response_limit sample_db_env [(''max_rows'', JInt 2)] = Inr 100"
    unfolding response_limit_def by (subst unset) (simp_all add: dget_def sample_db_env_def)
  have absent: "dget [(''max_rows'', JInt 2)] ''statement_timeout_ms'' = JNull" "dget [(''max_rows'', JInt 2)] ''lock_timeout_ms'' = JNull"
    by (simp_all add: dget_def)
  have "dv_commands sample_db_server = []" by (simp add: sample_db_server_def)
  note select = db_select_def analyze_read_query_def abind_def authorized_def sample_db_authorized dlift_def permission type
      sample_db_analysis sample_db_valid most execute_query_def pool limits schemas unset [OF absent(1)] unset [OF absent(2)] timeouts_def sized_def fetch_def sent most_bytes aret_def
      require_response_size_def
  have "\<exists>v w'. db_select sample_db_env sample_db_headers ''q'' sample_db_server = (Inr v, w') \<and> queries w' \<noteq> []"
    by (simp add: select) (simp add: sample_db_env_def queries_def is_query_def Let_def abind_def dlift_def aret_def)
  then show thesis using most that by blast
qed


theorem select_result_bounded_witness:
  "\<exists>v w'. db_select sample_db_env sample_db_headers ''q'' sample_db_server = (Inr v, w') \<and>
     length (as_arr (dget (as_obj v) ''rows'')) \<le> 2"
proof -
  obtain v w' where run: "db_select sample_db_env sample_db_headers ''q'' sample_db_server = (Inr v, w')"
    and most: "max_rows sample_db_env sample_db_runtime = Inr 2"
    by (rule sample_db_select)
  have "dr_database_type sample_db_runtime = ''postgresql''" by (simp add: sample_db_runtime_def)
  from select_result_bounded [OF run sample_db_authorized this most] run show ?thesis by auto
qed


end
