(* ===== verification/Agent_Memory.thy ===== *)
theory Agent_Memory
  imports Agent_Contract "HOL-Library.AList" "HOL-Library.Countable"
begin

text \<open>
  The memory of Agents (\<open>backend/app/memory/store.py\<close>): namespaces, the providers in Redis,
  PostgreSQL and PostgreSQL with vectors, and \<open>AgentMemoryStore\<close>, which keeps the last turns of a
  conversation. The interface of a provider is the locale \<open>memory_provider\<close>. The JSON codec, the
  clock and the reachability of Redis are part of the state of a provider; embeddings are a parameter.
\<close>

section \<open>Namespaces\<close>

text \<open>\<open>AgentMemoryError\<close>, and any other exception.\<close>

datatype mem_exn = Memory_error string | Memory_crash

definition namespace_part :: "string \<Rightarrow> bool" where
  "namespace_part s \<longleftrightarrow>
     (case s of
        [] \<Rightarrow> False
      | c # cs \<Rightarrow> (is_alpha c \<or> is_digit c) \<and>
          list_all (\<lambda>d. is_alpha d \<or> is_digit d \<or> d \<in> {CHR ''.'', CHR ''_'', CHR ''-''}) cs)"

record namespace =
  ns_agent_id :: string
  ns_session_id :: string
  ns_memory_type :: string

definition part_ok :: "nat \<Rightarrow> string \<Rightarrow> bool" where
  "part_ok limit s \<longleftrightarrow> py_len s \<le> limit \<and> namespace_part s"

definition make_namespace :: "string \<Rightarrow> string \<Rightarrow> string \<Rightarrow> mem_exn + namespace" where
  "make_namespace agent_id session_id memory_type =
     (if \<not> part_ok 64 agent_id then Inl (Memory_error ''invalid memory namespace agent_id'')
      else if \<not> part_ok 128 session_id then Inl (Memory_error ''invalid memory namespace session_id'')
      else if \<not> part_ok 64 memory_type then Inl (Memory_error ''invalid memory namespace memory_type'')
      else Inr \<lparr>ns_agent_id = agent_id, ns_session_id = session_id, ns_memory_type = memory_type\<rparr>)"

definition namespace_value :: "namespace \<Rightarrow> string" where
  "namespace_value ns = ns_agent_id ns @ ''/'' @ ns_session_id ns @ ''/'' @ ns_memory_type ns"

definition namespace_ok :: "namespace \<Rightarrow> bool" where
  "namespace_ok ns \<longleftrightarrow> part_ok 64 (ns_agent_id ns) \<and> part_ok 128 (ns_session_id ns) \<and> part_ok 64 (ns_memory_type ns)"

lemma make_namespace_Inr:
  "make_namespace a s t = Inr ns \<longleftrightarrow>
     ns = \<lparr>ns_agent_id = a, ns_session_id = s, ns_memory_type = t\<rparr> \<and> namespace_ok ns"
  by (auto simp: make_namespace_def namespace_ok_def)

section \<open>Redis\<close>

record redis =
  rd_values :: "(string \<times> string \<times> int) list"
  rd_lists :: "(string \<times> string list) list"
  rd_now :: int
  rd_up :: bool
  rd_loads :: "string \<Rightarrow> json option"
  rd_dumps :: "json \<Rightarrow> string"

definition key_prefix :: string where
  "key_prefix = ''hermes:agent-memory:v2''"

definition redis_key :: "namespace \<Rightarrow> string \<Rightarrow> string" where
  "redis_key ns key =
     key_prefix @ '':'' @ ns_agent_id ns @ '':'' @ ns_session_id ns @ '':'' @ ns_memory_type ns @ '':'' @ key"

definition legacy_key :: "string \<Rightarrow> string \<Rightarrow> string" where
  "legacy_key agent_id session_id = ''hermes:agent-memory:v1:'' @ agent_id @ '':'' @ session_id"

text \<open>A value that has not expired.\<close>

definition redis_value :: "string \<Rightarrow> redis \<Rightarrow> string option" where
  "redis_value key m =
     (case map_of (rd_values m) key of Some (t, e) \<Rightarrow> if rd_now m < e then Some t else None | None \<Rightarrow> None)"

definition legacy_items :: "string \<Rightarrow> redis \<Rightarrow> string list" where
  "legacy_items key m = (case map_of (rd_lists m) key of Some xs \<Rightarrow> xs | None \<Rightarrow> [])"

definition redis_set :: "namespace \<Rightarrow> string \<Rightarrow> json \<Rightarrow> int \<Rightarrow> redis \<Rightarrow> (mem_exn + unit) \<times> redis" where
  "redis_set ns key v ttl m =
     (if \<not> rd_up m then (Inl (Memory_error ''Redis memory value could not be persisted''), m)
      else (Inr (), m\<lparr>rd_values := AList.update (redis_key ns key) (rd_dumps m v, rd_now m + ttl) (rd_values m)\<rparr>))"

text \<open>\<open>None\<close> is the JSON null; a conversation of the first layout is moved when it is read.\<close>

definition redis_get :: "namespace \<Rightarrow> string \<Rightarrow> redis \<Rightarrow> (mem_exn + json) \<times> redis" where
  "redis_get ns key m =
     (let failed = Inl (Memory_error ''Redis memory value could not be loaded'') in
      if \<not> rd_up m then (failed, m)
      else case redis_value (redis_key ns key) m of
        Some t \<Rightarrow> (case rd_loads m t of None \<Rightarrow> (failed, m) | Some v \<Rightarrow> (Inr v, m))
      | None \<Rightarrow>
          (let legacy = legacy_items (legacy_key (ns_agent_id ns) (ns_session_id ns)) m in
           if key \<noteq> ''messages'' \<or> legacy = [] then (Inr JNull, m)
           else case those (map (rd_loads m) legacy) of
             None \<Rightarrow> (failed, m)
           | Some migrated \<Rightarrow>
               (case redis_set ns key (JArr migrated) 2592000 m of
                  (Inl e, m') \<Rightarrow> (Inl e, m') | (Inr _, m') \<Rightarrow> (Inr (JArr migrated), m'))))"

definition redis_delete :: "namespace \<Rightarrow> string \<Rightarrow> redis \<Rightarrow> (mem_exn + unit) \<times> redis" where
  "redis_delete ns key m =
     (if \<not> rd_up m then (Inl (Memory_error ''Redis memory value could not be deleted''), m)
      else (Inr (), m\<lparr>rd_values := AList.delete (redis_key ns key) (rd_values m)\<rparr>))"

text \<open>A pattern of \<open>SCAN\<close> in which only the star is special; the parts of a namespace have no other special character.\<close>

fun glob :: "string \<Rightarrow> string \<Rightarrow> bool" where
  "glob [] s = (s = [])"
| "glob (c # p) [] = (c = CHR ''*'' \<and> glob p [])"
| "glob (c # p) (x # s) =
     (if c = CHR ''*'' then glob p (x # s) \<or> glob (c # p) s else c = x \<and> glob p s)"

definition or_star :: "string option \<Rightarrow> string" where
  "or_star v = (case v of Some s \<Rightarrow> if s = [] then ''*'' else s | None \<Rightarrow> ''*'')"

definition redis_clear ::
  "string \<Rightarrow> string option \<Rightarrow> string option \<Rightarrow> redis \<Rightarrow> (mem_exn + unit) \<times> redis" where
  "redis_clear agent_id session_id memory_type m =
     (if \<not> rd_up m then (Inl (Memory_error ''Redis memory namespace could not be cleared''), m)
      else (Inr (), m\<lparr>
        rd_values := filter (\<lambda>p. \<not> glob (join '':'' [key_prefix, agent_id, or_star session_id, or_star memory_type, ''*'']) (fst p))
          (rd_values m),
        rd_lists := filter (\<lambda>p. \<not> glob (legacy_key agent_id (or_star session_id)) (fst p)) (rd_lists m)\<rparr>))"

section \<open>PostgreSQL\<close>

record memory_row =
  mr_id :: uuid
  mr_namespace :: namespace
  mr_key :: string
  mr_value :: json
  mr_expires_at :: "instant option"

record pg_memory =
  pm_rows :: "memory_row list"
  pm_vectors :: "(uuid \<times> string) list"
  pm_now :: instant
  pm_next_id :: uuid
  pm_embed :: "json \<Rightarrow> string"

abbreviation memory_key :: "memory_row \<Rightarrow> namespace \<times> string" where
  "memory_key r \<equiv> (mr_namespace r, mr_key r)"

definition row_live :: "instant \<Rightarrow> memory_row \<Rightarrow> bool" where
  "row_live t r \<longleftrightarrow> (case mr_expires_at r of None \<Rightarrow> True | Some e \<Rightarrow> t < e)"

definition pg_get :: "namespace \<Rightarrow> string \<Rightarrow> pg_memory \<Rightarrow> (mem_exn + json) \<times> pg_memory" where
  "pg_get ns key m =
     (case row_get memory_key (ns, key) (pm_rows m) of
        None \<Rightarrow> (Inr JNull, m)
      | Some r \<Rightarrow> (Inr (if row_live (pm_now m) r then mr_value r else JNull), m))"

text \<open>The insertion or the update on the unique key, with the id of the row.\<close>

definition pg_upsert :: "namespace \<Rightarrow> string \<Rightarrow> json \<Rightarrow> int \<Rightarrow> pg_memory \<Rightarrow> uuid \<times> pg_memory" where
  "pg_upsert ns key v ttl m =
     (let expires = Some (pm_now m + ttl * 1000000) in
      case row_get memory_key (ns, key) (pm_rows m) of
        Some r \<Rightarrow> (mr_id r, m\<lparr>pm_rows := row_upd memory_key (ns, key) (\<lambda>r. r\<lparr>mr_value := v, mr_expires_at := expires\<rparr>) (pm_rows m)\<rparr>)
      | None \<Rightarrow>
          (pm_next_id m, m\<lparr>pm_rows := pm_rows m @ [\<lparr>mr_id = pm_next_id m, mr_namespace = ns, mr_key = key, mr_value = v,
             mr_expires_at = expires\<rparr>], pm_next_id := Suc (pm_next_id m)\<rparr>))"

definition pg_set :: "namespace \<Rightarrow> string \<Rightarrow> json \<Rightarrow> int \<Rightarrow> pg_memory \<Rightarrow> (mem_exn + unit) \<times> pg_memory" where
  "pg_set ns key v ttl m = (Inr (), snd (pg_upsert ns key v ttl m))"

definition vector_set :: "namespace \<Rightarrow> string \<Rightarrow> json \<Rightarrow> int \<Rightarrow> pg_memory \<Rightarrow> (mem_exn + unit) \<times> pg_memory" where
  "vector_set ns key v ttl m =
     (case pg_upsert ns key v ttl m of
        (i, m') \<Rightarrow> (Inr (), m'\<lparr>pm_vectors := AList.update i (pm_embed m v) (pm_vectors m')\<rparr>))"

definition remove_rows :: "(memory_row \<Rightarrow> bool) \<Rightarrow> pg_memory \<Rightarrow> pg_memory" where
  "remove_rows P m = m\<lparr>pm_rows := filter (\<lambda>r. \<not> P r) (pm_rows m)\<rparr>"

definition pg_delete :: "namespace \<Rightarrow> string \<Rightarrow> pg_memory \<Rightarrow> (mem_exn + unit) \<times> pg_memory" where
  "pg_delete ns key m = (Inr (), remove_rows (\<lambda>r. memory_key r = (ns, key)) m)"

definition pg_clear ::
  "string \<Rightarrow> string option \<Rightarrow> string option \<Rightarrow> pg_memory \<Rightarrow> (mem_exn + unit) \<times> pg_memory" where
  "pg_clear agent_id session_id memory_type m =
     (Inr (), remove_rows (\<lambda>r. ns_agent_id (mr_namespace r) = agent_id \<and>
        (session_id = None \<or> session_id = Some (ns_session_id (mr_namespace r))) \<and>
        (memory_type = None \<or> memory_type = Some (ns_memory_type (mr_namespace r)))) m)"

section \<open>The store\<close>

record memory_settings =
  ms_max_turns :: nat
  ms_ttl :: int
  ms_max_chars :: nat
  ms_memory_type :: string

definition max_messages :: "memory_settings \<Rightarrow> nat" where
  "max_messages S = ms_max_turns S * 2"

text \<open>\<open>xs[-n:]\<close>.\<close>

definition py_last :: "nat \<Rightarrow> 'a list \<Rightarrow> 'a list" where
  "py_last n xs = (if n = 0 then xs else drop (length xs - n) xs)"

definition parse_message :: "json \<Rightarrow> mem_exn + (string \<times> string)" where
  "parse_message item =
     (let invalid = Inl (Memory_error ''Agent memory contains an invalid message'') in
      case item of
        JObj d \<Rightarrow>
          (case dget d ''role'' of
             JStr r \<Rightarrow>
               if r \<in> {''user'', ''assistant''} then (case dget d ''content'' of JStr c \<Rightarrow> Inr (r, c) | _ \<Rightarrow> invalid) else invalid
           | JArr _ \<Rightarrow> Inl Memory_crash
           | JObj _ \<Rightarrow> Inl Memory_crash
           | _ \<Rightarrow> invalid)
      | _ \<Rightarrow> invalid)"

fun parse_messages :: "json list \<Rightarrow> mem_exn + (string \<times> string) list" where
  "parse_messages [] = Inr []"
| "parse_messages (x # xs) = rbind (parse_message x) (\<lambda>m. rbind (parse_messages xs) (\<lambda>ms. Inr (m # ms)))"

definition collection :: "json \<Rightarrow> mem_exn + json list" where
  "collection v =
     (case v of
        JNull \<Rightarrow> Inr []
      | JArr xs \<Rightarrow> Inr xs
      | _ \<Rightarrow> Inl (Memory_error ''Agent memory contains an invalid message collection''))"

type_synonym 'm mem_get = "namespace \<Rightarrow> string \<Rightarrow> 'm \<Rightarrow> (mem_exn + json) \<times> 'm"
type_synonym 'm mem_set = "namespace \<Rightarrow> string \<Rightarrow> json \<Rightarrow> int \<Rightarrow> 'm \<Rightarrow> (mem_exn + unit) \<times> 'm"

definition memory_load ::
  "'m mem_get \<Rightarrow> memory_settings \<Rightarrow> string \<Rightarrow> string \<Rightarrow> 'm \<Rightarrow> (mem_exn + (string \<times> string) list) \<times> 'm" where
  "memory_load get S agent_id session_id m =
     (case make_namespace agent_id session_id (ms_memory_type S) of
        Inl e \<Rightarrow> (Inl e, m)
      | Inr ns \<Rightarrow>
          (case get ns ''messages'' m of
             (Inl e, m') \<Rightarrow> (Inl e, m')
           | (Inr v, m') \<Rightarrow> (rbind (collection v) (\<lambda>xs. parse_messages (py_last (max_messages S) xs)), m')))"

definition message_json :: "string \<times> string \<Rightarrow> json" where
  "message_json = (\<lambda>(r, c). JObj [(''role'', JStr r), (''content'', JStr c)])"

definition turn_messages :: "memory_settings \<Rightarrow> string \<Rightarrow> string \<Rightarrow> (string \<times> string) list" where
  "turn_messages S user_input assistant_output =
     [(''user'', py_take (ms_max_chars S) user_input), (''assistant'', py_take (ms_max_chars S) assistant_output)]"

definition append_turn ::
  "'m mem_get \<Rightarrow> 'm mem_set \<Rightarrow> memory_settings \<Rightarrow> string \<Rightarrow> string \<Rightarrow> string \<Rightarrow> string \<Rightarrow> 'm \<Rightarrow> (mem_exn + unit) \<times> 'm"
where
  "append_turn get put S agent_id session_id user_input assistant_output m =
     (case make_namespace agent_id session_id (ms_memory_type S) of
        Inl e \<Rightarrow> (Inl e, m)
      | Inr ns \<Rightarrow>
          (case get ns ''messages'' m of
             (Inl e, m') \<Rightarrow> (Inl e, m')
           | (Inr v, m') \<Rightarrow>
               (case collection v of
                  Inl e \<Rightarrow> (Inl e, m')
                | Inr xs \<Rightarrow>
                    put ns ''messages''
                      (JArr (py_last (max_messages S) (xs @ map message_json (turn_messages S user_input assistant_output))))
                      (ms_ttl S) m')))"

definition memory_item_key :: "string \<Rightarrow> mem_exn + string" where
  "memory_item_key key = (if 128 < py_len key \<or> \<not> namespace_part key then Inl (Memory_error ''invalid memory key'') else Inr key)"

definition clear_agent ::
  "(string \<Rightarrow> string option \<Rightarrow> string option \<Rightarrow> 'm \<Rightarrow> (mem_exn + unit) \<times> 'm) \<Rightarrow> memory_settings \<Rightarrow> string \<Rightarrow> 'm \<Rightarrow>
     (mem_exn + unit) \<times> 'm"
where
  "clear_agent clear S agent_id m =
     (case make_namespace agent_id ''validation'' (ms_memory_type S) of
        Inl e \<Rightarrow> (Inl e, m)
      | Inr _ \<Rightarrow> clear agent_id None None m)"


definition conversation_namespace :: "memory_settings \<Rightarrow> string \<Rightarrow> string \<Rightarrow> namespace" where
  "conversation_namespace S a s = \<lparr>ns_agent_id = a, ns_session_id = s, ns_memory_type = ms_memory_type S\<rparr>"

text \<open>The turns of several conversations, one after the other, and those of one of them.\<close>

type_synonym turn = "string \<times> string \<times> string \<times> string"

fun append_turns :: "'m mem_get \<Rightarrow> 'm mem_set \<Rightarrow> memory_settings \<Rightarrow> turn list \<Rightarrow> 'm \<Rightarrow> (mem_exn + unit) \<times> 'm" where
  "append_turns get put S [] = aret ()"
| "append_turns get put S ((a, s, i, out) # ts) = abind (append_turn get put S a s i out) (\<lambda>_. append_turns get put S ts)"

definition conversation_of :: "memory_settings \<Rightarrow> string \<Rightarrow> string \<Rightarrow> turn list \<Rightarrow> (string \<times> string) list" where
  "conversation_of S a s ts = concat (map (\<lambda>(a', s', i, out). if a' = a \<and> s' = s then turn_messages S i out else []) ts)"

lemma py_last_map: "py_last n (map f xs) = map f (py_last n xs)"
  by (simp add: py_last_def drop_map)

lemma py_last_append: "0 < n \<Longrightarrow> py_last n (py_last n xs @ ys) = py_last n (xs @ ys)"
  by (cases "n \<le> length xs") (auto simp: py_last_def intro: arg_cong2 [where f = drop])

lemma py_last_length: "0 < n \<Longrightarrow> length (py_last n xs) \<le> n"
  by (simp add: py_last_def)

lemma parse_message_json: "r \<in> {''user'', ''assistant''} \<Longrightarrow> parse_message (message_json (r, c)) = Inr (r, c)"
  by (auto simp: parse_message_def message_json_def dget_def)

lemma parse_messages_json: "list_all (\<lambda>p. fst p \<in> {''user'', ''assistant''}) ms \<Longrightarrow> parse_messages (map message_json ms) = Inr ms"
  by (induction ms) (auto simp: parse_message_json)

lemma conversation_roles: "list_all (\<lambda>p. fst p \<in> {''user'', ''assistant''}) (conversation_of S a s ts)"
  by (auto simp: conversation_of_def list_all_iff turn_messages_def split: if_splits)

section \<open>What a provider promises\<close>

text \<open>
  What is held under a namespace and a key is what was put there last, and putting one value leaves
  the others alone. Reading changes nothing that can be read; what is readable stays so.
\<close>

locale memory_provider =
  fixes get :: "namespace \<Rightarrow> string \<Rightarrow> 'm \<Rightarrow> (mem_exn + json) \<times> 'm"
    and put :: "namespace \<Rightarrow> string \<Rightarrow> json \<Rightarrow> int \<Rightarrow> 'm \<Rightarrow> (mem_exn + unit) \<times> 'm"
    and valid :: "'m \<Rightarrow> bool"
    and held :: "'m \<Rightarrow> namespace \<Rightarrow> string \<Rightarrow> json"
    and readable :: "'m \<Rightarrow> namespace \<Rightarrow> string \<Rightarrow> bool"
  assumes get_held: "valid m \<Longrightarrow> namespace_ok ns \<Longrightarrow> get ns k m = (Inr v, m') \<Longrightarrow> v = held m ns k"
    and get_valid: "valid m \<Longrightarrow> namespace_ok ns \<Longrightarrow> get ns k m = (r, m') \<Longrightarrow> valid m'"
    and get_keeps: "valid m \<Longrightarrow> namespace_ok ns \<Longrightarrow> get ns k m = (r, m') \<Longrightarrow> namespace_ok n \<Longrightarrow> held m' n j = held m n j"
    and put_valid: "valid m \<Longrightarrow> namespace_ok ns \<Longrightarrow> put ns k v ttl m = (q, m') \<Longrightarrow> valid m'"
    and put_held: "valid m \<Longrightarrow> namespace_ok ns \<Longrightarrow> 0 < ttl \<Longrightarrow> put ns k v ttl m = (Inr u, m') \<Longrightarrow> namespace_ok n \<Longrightarrow>
      held m' n j = (if n = ns \<and> j = k then v else held m n j)"
    and get_readable: "valid m \<Longrightarrow> namespace_ok ns \<Longrightarrow> readable m ns k \<Longrightarrow> \<exists>v m'. get ns k m = (Inr v, m')"
    and get_keeps_readable: "valid m \<Longrightarrow> namespace_ok ns \<Longrightarrow> get ns k m = (r, m') \<Longrightarrow> namespace_ok n \<Longrightarrow> readable m n j \<Longrightarrow>
      readable m' n j"
    and put_keeps_readable: "valid m \<Longrightarrow> namespace_ok ns \<Longrightarrow> 0 < ttl \<Longrightarrow> put ns k v ttl m = (Inr u, m') \<Longrightarrow> namespace_ok n \<Longrightarrow>
      readable m n j \<Longrightarrow> readable m' n j"
begin

text \<open>The conversation of an Agent and a session, and what appending a turn and loading do to it.\<close>

lemma append_turn_held:
  assumes "valid m" and "0 < ms_ttl S" and "append_turn get put S a s i out m = (Inr u, m')"
  shows "valid m'" and "namespace_ok (conversation_namespace S a s)"
    and "\<exists>xs. collection (held m (conversation_namespace S a s) ''messages'') = Inr xs \<and>
      held m' (conversation_namespace S a s) ''messages'' =
        JArr (py_last (max_messages S) (xs @ map message_json (turn_messages S i out)))"
    and "namespace_ok n \<Longrightarrow> n \<noteq> conversation_namespace S a s \<Longrightarrow> held m' n j = held m n j"
    and "namespace_ok n \<Longrightarrow> readable m n j \<Longrightarrow> readable m' n j"
proof -
  let ?ns = "conversation_namespace S a s"
  obtain v xs m1 where ns: "make_namespace a s (ms_memory_type S) = Inr ?ns" and one: "get ?ns ''messages'' m = (Inr v, m1)"
    and xs: "collection v = Inr xs"
    and two: "put ?ns ''messages'' (JArr (py_last (max_messages S) (xs @ map message_json (turn_messages S i out)))) (ms_ttl S) m1 = (Inr u, m')"
    using assms(3) by (auto simp: append_turn_def make_namespace_Inr conversation_namespace_def split: sum.splits prod.splits)
  show ok: "namespace_ok ?ns" using ns make_namespace_Inr by blast
  note valid = get_valid [OF assms(1) ok one]
  show "valid m'" by (rule put_valid [OF valid ok two])
  have v: "v = held m ?ns ''messages''" by (rule get_held [OF assms(1) ok one])
  note put = put_held [OF valid ok assms(2) two] and keeps = get_keeps [OF assms(1) ok one]
  show "\<exists>xs. collection (held m ?ns ''messages'') = Inr xs \<and>
      held m' ?ns ''messages'' = JArr (py_last (max_messages S) (xs @ map message_json (turn_messages S i out)))"
    using put [OF ok] xs v by auto
  show "held m' n j = held m n j" if "namespace_ok n" "n \<noteq> ?ns" using put [OF that(1)] keeps [OF that(1)] that(2) by simp
  show "readable m' n j" if "namespace_ok n" "readable m n j"
    using put_keeps_readable [OF valid ok assms(2) two that(1)] get_keeps_readable [OF assms(1) ok one that(1)] that(2) by blast
qed

lemma load_held:
  assumes "valid m" and "namespace_ok (conversation_namespace S a s)" and "readable m (conversation_namespace S a s) ''messages''"
  shows "fst (memory_load get S a s m) =
    rbind (collection (held m (conversation_namespace S a s) ''messages'')) (\<lambda>xs. parse_messages (py_last (max_messages S) xs))"
proof -
  obtain v m' where "get (conversation_namespace S a s) ''messages'' m = (Inr v, m')" using get_readable [OF assms] by blast
  moreover from get_held [OF assms(1,2) this] have "v = held m (conversation_namespace S a s) ''messages''" .
  moreover have "make_namespace a s (ms_memory_type S) = Inr (conversation_namespace S a s)"
    using assms(2) by (simp add: make_namespace_Inr conversation_namespace_def)
  ultimately show ?thesis by (simp add: memory_load_def)
qed

text \<open>The messages of a conversation are the last ones of its turns, whatever the other conversations do.\<close>

lemma turns_held:
  assumes "valid m" and "0 < ms_ttl S" and "0 < ms_max_turns S" and "append_turns get put S ts m = (Inr u, m')"
    and "namespace_ok (conversation_namespace S a s)" and "readable m (conversation_namespace S a s) ''messages''"
    and "collection (held m (conversation_namespace S a s) ''messages'') = Inr (map message_json old)"
  shows "valid m' \<and> readable m' (conversation_namespace S a s) ''messages'' \<and>
    (\<exists>xs. collection (held m' (conversation_namespace S a s) ''messages'') = Inr (map message_json xs) \<and>
      py_last (max_messages S) xs = py_last (max_messages S) (old @ conversation_of S a s ts))"
  using assms(1,4,6,7)
proof (induction ts arbitrary: m old)
  case Nil
  then show ?case by (auto simp: aret_def conversation_of_def)
next
  case (Cons t ts)
  obtain a' s' i out where t: "t = (a', s', i, out)" by (cases t) auto
  let ?n = "conversation_namespace S a s" and ?n' = "conversation_namespace S a' s'"
  obtain m1 v where one: "append_turn get put S a' s' i out m = (Inr v, m1)" and rest: "append_turns get put S ts m1 = (Inr u, m')"
    using Cons.prems(2) by (auto simp: t abind_Inr)
  note step = append_turn_held [OF Cons.prems(1) assms(2) one]
  have same: "?n = ?n' \<longleftrightarrow> a = a' \<and> s = s'" by (auto simp: conversation_namespace_def)
  note readable = step(5) [OF assms(5) Cons.prems(3)]
  show ?case
  proof (cases "a = a' \<and> s = s'")
    case True
    then have "collection (held m1 ?n ''messages'') =
        Inr (map message_json (py_last (max_messages S) (old @ turn_messages S i out)))"
      using step(3) Cons.prems(4) unfolding py_last_map [symmetric] map_append by (auto simp: collection_def)
    from Cons.IH [OF step(1) rest readable this] show ?thesis
      using True assms(3) by (simp add: t conversation_of_def max_messages_def py_last_append)
  next
    case False
    then have "held m1 ?n ''messages'' = held m ?n ''messages''" using step(4) [OF assms(5)] same by blast
    then have "collection (held m1 ?n ''messages'') = Inr (map message_json old)" using Cons.prems(4) by simp
    from Cons.IH [OF step(1) rest readable this] show ?thesis using False by (auto simp: t conversation_of_def)
  qed
qed

end

lemma colon_free: "namespace_part s \<Longrightarrow> CHR '':'' \<notin> set s"
  by (cases s) (auto simp: namespace_part_def list_all_iff is_alpha_def is_lower_def is_upper_def is_digit_def)

lemma cut_first: "c \<notin> set a \<Longrightarrow> c \<notin> set b \<Longrightarrow> a @ c # x = b @ c # y \<longleftrightarrow> a = b \<and> x = y"
proof (induction a arbitrary: b)
  case Nil
  then show ?case by (cases b) auto
next
  case (Cons d a)
  then show ?case by (cases b) auto
qed

lemma redis_key_inject:
  assumes "namespace_ok n" and "namespace_ok ns"
  shows "redis_key n j = redis_key ns k \<longleftrightarrow> n = ns \<and> j = k"
proof -
  have free: "CHR '':'' \<notin> set (ns_agent_id x) \<and> CHR '':'' \<notin> set (ns_session_id x) \<and> CHR '':'' \<notin> set (ns_memory_type x)"
    if "namespace_ok x" for x
    using that colon_free by (auto simp: namespace_ok_def part_ok_def)
  have "redis_key n j = redis_key ns k \<longleftrightarrow> ns_agent_id n = ns_agent_id ns \<and> ns_session_id n = ns_session_id ns \<and>
      ns_memory_type n = ns_memory_type ns \<and> j = k"
    using free [OF assms(1)] free [OF assms(2)] by (simp add: redis_key_def cut_first)
  also have "\<dots> \<longleftrightarrow> n = ns \<and> j = k" by (cases n; cases ns) auto
  finally show ?thesis .
qed

definition redis_valid :: "redis \<Rightarrow> bool" where
  "redis_valid m \<longleftrightarrow> (\<forall>v. rd_loads m (rd_dumps m v) = Some v)"

definition redis_held :: "redis \<Rightarrow> namespace \<Rightarrow> string \<Rightarrow> json" where
  "redis_held m ns key =
     (case redis_value (redis_key ns key) m of
        Some t \<Rightarrow> (case rd_loads m t of None \<Rightarrow> JNull | Some v \<Rightarrow> v)
      | None \<Rightarrow>
          (let legacy = legacy_items (legacy_key (ns_agent_id ns) (ns_session_id ns)) m in
           if key \<noteq> ''messages'' \<or> legacy = [] then JNull
           else case those (map (rd_loads m) legacy) of None \<Rightarrow> JNull | Some migrated \<Rightarrow> JArr migrated))"

lemma redis_set_effect:
  assumes "0 < ttl" and "redis_set ns k v ttl m = (Inr u, m')"
  shows "redis_value key m' = (if key = redis_key ns k then Some (rd_dumps m v) else redis_value key m)"
    and "legacy_items l m' = legacy_items l m" and "rd_loads m' = rd_loads m" and "rd_up m' = rd_up m"
proof -
  have m': "m' = m\<lparr>rd_values := AList.update (redis_key ns k) (rd_dumps m v, rd_now m + ttl) (rd_values m)\<rparr>"
    using assms(2) by (auto simp: redis_set_def split: if_splits)
  show "redis_value key m' = (if key = redis_key ns k then Some (rd_dumps m v) else redis_value key m)"
    using assms(1) by (cases "map_of (rd_values m) key") (simp_all add: redis_value_def m' update_conv')
  show "legacy_items l m' = legacy_items l m" "rd_loads m' = rd_loads m" "rd_up m' = rd_up m"
    by (simp_all add: m' legacy_items_def)
qed

lemma redis_set_held:
  assumes "redis_valid m" and "namespace_ok ns" and "0 < ttl" and "redis_set ns k v ttl m = (Inr u, m')" and "namespace_ok n"
  shows "redis_held m' n j = (if n = ns \<and> j = k then v else redis_held m n j)"
  using assms(1) unfolding redis_held_def redis_valid_def redis_set_effect [OF assms(3,4)] redis_key_inject [OF assms(5,2)]
  by simp

lemma redis_set_valid: "redis_valid m \<Longrightarrow> redis_set ns k v ttl m = (r, m') \<Longrightarrow> redis_valid m'"
  by (auto simp: redis_valid_def redis_set_def split: if_splits)

lemma redis_get_cases:
  assumes "redis_get ns k m = (r, m')"
  shows "m' = m \<and> (\<forall>v. r = Inr v \<longrightarrow> v = redis_held m ns k) \<or>
    (\<exists>u. redis_set ns k (redis_held m ns k) 2592000 m = (Inr u, m') \<and> r = Inr (redis_held m ns k))"
  using assms
  by (auto simp: redis_get_def redis_held_def Let_def split: if_splits option.splits sum.splits prod.splits)
     (auto simp: redis_set_def split: if_splits)

definition redis_readable :: "redis \<Rightarrow> namespace \<Rightarrow> string \<Rightarrow> bool" where
  "redis_readable m ns key \<longleftrightarrow> rd_up m \<and>
     (case redis_value (redis_key ns key) m of
        Some t \<Rightarrow> rd_loads m t \<noteq> None
      | None \<Rightarrow> key \<noteq> ''messages'' \<or>
          those (map (rd_loads m) (legacy_items (legacy_key (ns_agent_id ns) (ns_session_id ns)) m)) \<noteq> None)"

lemma redis_get_readable: "redis_readable m ns k \<Longrightarrow> \<exists>v m'. redis_get ns k m = (Inr v, m')"
  by (auto simp: redis_readable_def redis_get_def redis_set_def Let_def split: option.splits)

lemma redis_set_readable:
  assumes "redis_valid m" and "namespace_ok ns" and "0 < ttl" and "redis_set ns k v ttl m = (Inr u, m')" and "namespace_ok n"
    and "redis_readable m n j"
  shows "redis_readable m' n j"
  using assms(1,6) unfolding redis_readable_def redis_valid_def redis_set_effect [OF assms(3,4)] redis_key_inject [OF assms(5,2)]
  by simp

interpretation redis_memory: memory_provider redis_get redis_set redis_valid redis_held redis_readable
proof (unfold_locales, goal_cases)
  case (1 m ns k v m') then show ?case using redis_get_cases [of ns k m "Inr v" m'] by auto
next
  case (2 m ns k r m') then show ?case using redis_get_cases [of ns k m r m'] redis_set_valid by blast
next
  case (3 m ns k r m' n j)
  from redis_get_cases [OF 3(3)] show ?case
    using redis_set_held [OF 3(1,2) _ _ 3(4), of 2592000] by fastforce
next
  case 4 then show ?case using redis_set_valid by blast
next
  case (5 m ns ttl k v u m' n j) show ?case by (rule redis_set_held [OF 5(1,2,3,4,5)])
next
  case 6 show ?case by (rule redis_get_readable [OF 6(3)])
next
  case (7 m ns k r m' n j)
  from redis_get_cases [OF 7(3)] show ?case
  proof
    assume "\<exists>u. redis_set ns k (redis_held m ns k) 2592000 m = (Inr u, m') \<and> r = Inr (redis_held m ns k)"
    then obtain u where "redis_set ns k (redis_held m ns k) 2592000 m = (Inr u, m')" by blast
    from redis_set_readable [OF 7(1,2) _ this 7(4,5)] show ?case by simp
  qed (use 7(5) in simp)
next
  case (8 m ns ttl k v u m' n j) show ?case by (rule redis_set_readable [OF 8(1-6)])
qed

interpretation memory_rows: keyed_rows memory_key "row_get memory_key" "row_upd memory_key"
  by (rule keyed_rows_list)

definition pg_valid :: "pg_memory \<Rightarrow> bool" where
  "pg_valid m \<longleftrightarrow> distinct (map memory_key (pm_rows m))"

definition pg_held :: "pg_memory \<Rightarrow> namespace \<Rightarrow> string \<Rightarrow> json" where
  "pg_held m ns key =
     (case row_get memory_key (ns, key) (pm_rows m) of
        None \<Rightarrow> JNull | Some r \<Rightarrow> if row_live (pm_now m) r then mr_value r else JNull)"

lemma pg_upsert_held:
  assumes "0 < ttl"
  shows "pg_held (snd (pg_upsert ns k v ttl m)) n j = (if n = ns \<and> j = k then v else pg_held m n j)"
proof (cases "row_get memory_key (ns, k) (pm_rows m)")
  case None
  then have rows: "pm_rows (snd (pg_upsert ns k v ttl m)) = pm_rows m @ [\<lparr>mr_id = pm_next_id m, mr_namespace = ns, mr_key = k,
      mr_value = v, mr_expires_at = Some (pm_now m + ttl * 1000000)\<rparr>]" "pm_now (snd (pg_upsert ns k v ttl m)) = pm_now m"
    by (simp_all add: pg_upsert_def)
  show ?thesis
    using assms None by (cases "row_get memory_key (n, j) (pm_rows m)") (auto simp: pg_held_def rows row_live_def row_get_append_new)
next
  case (Some r)
  let ?f = "\<lambda>r. r\<lparr>mr_value := v, mr_expires_at := Some (pm_now m + ttl * 1000000)\<rparr>"
  have rows: "pm_rows (snd (pg_upsert ns k v ttl m)) = row_upd memory_key (ns, k) ?f (pm_rows m)"
    "pm_now (snd (pg_upsert ns k v ttl m)) = pm_now m"
    using Some by (simp_all add: pg_upsert_def)
  have get: "row_get memory_key (n, j) (row_upd memory_key (ns, k) ?f (pm_rows m)) =
      (if (n, j) = (ns, k) then map_option ?f (row_get memory_key (n, j) (pm_rows m)) else row_get memory_key (n, j) (pm_rows m))"
    by (rule memory_rows.get_upd) simp
  have live: "row_live (pm_now m) (?f r)" using assms by (simp add: row_live_def)
  show ?thesis
  proof (cases "(n, j) = (ns, k)")
    case True
    then show ?thesis unfolding pg_held_def rows get using Some live by simp
  next
    case False
    then show ?thesis unfolding pg_held_def rows get by auto
  qed
qed

lemma pg_upsert_valid: "pg_valid m \<Longrightarrow> pg_valid (snd (pg_upsert ns k v ttl m))"
  using memory_rows.keys_upd [of "\<lambda>r. r\<lparr>mr_value := v, mr_expires_at := Some (pm_now m + ttl * 1000000)\<rparr>" "(ns, k)" "pm_rows m"]
  by (auto simp: pg_valid_def pg_upsert_def Let_def row_get_None split: option.splits)

lemma pg_get_held: "pg_get ns k m = (r, m') \<Longrightarrow> r = Inr (pg_held m ns k) \<and> m' = m"
  by (auto simp: pg_get_def pg_held_def split: option.splits)

lemma pg_get_total: "\<exists>v m'. pg_get ns k m = (Inr v, m')"
  by (simp add: pg_get_def split: option.split)

interpretation postgres_memory: memory_provider pg_get pg_set pg_valid pg_held "\<lambda>_ _ _. True"
proof (unfold_locales, goal_cases)
  case (5 m ns ttl k v u m' n j)
  then have "m' = snd (pg_upsert ns k v ttl m)" by (simp add: pg_set_def)
  then show ?case by (simp only: pg_upsert_held [OF 5(3)])
next
  case (6 m ns k) show ?case by (rule pg_get_total)
qed (auto dest: pg_get_held simp: pg_set_def intro: pg_upsert_valid)

lemma vector_held: "pg_held (m\<lparr>pm_vectors := vs\<rparr>) = pg_held m" "pg_valid (m\<lparr>pm_vectors := vs\<rparr>) = pg_valid m"
  by (auto simp: pg_held_def pg_valid_def fun_eq_iff split: option.split)

interpretation vector_memory: memory_provider pg_get vector_set pg_valid pg_held "\<lambda>_ _ _. True"
proof (unfold_locales, goal_cases)
  case (5 m ns ttl k v u m' n j)
  then have m': "m' = (snd (pg_upsert ns k v ttl m))\<lparr>pm_vectors := pm_vectors m'\<rparr>" by (auto simp: vector_set_def split: prod.splits)
  show ?case by (subst m') (simp only: vector_held pg_upsert_held [OF 5(3)])
next
  case (4 m ns k v ttl q m')
  then show ?case using pg_upsert_valid [OF 4(1), of ns k v ttl] by (auto simp: vector_set_def vector_held split: prod.splits)
next
  case (6 m ns k) show ?case by (rule pg_get_total)
qed (auto dest: pg_get_held simp: vector_set_def split: prod.splits)


section \<open>What is remembered and what is forgotten\<close>

lemma messages_parse:
  "list_all (\<lambda>p. fst p \<in> {''user'', ''assistant''}) ms \<Longrightarrow> py_last n xs = py_last n ms \<Longrightarrow>
     parse_messages (py_last n (map message_json xs)) = Inr (py_last n ms)"
  unfolding py_last_map by (simp, rule parse_messages_json) (auto simp: list_all_iff py_last_def dest: in_set_dropD)

lemma redis_turns_remembered:
  assumes "redis_valid m" and "0 < ms_ttl S" and "0 < ms_max_turns S" and "append_turns redis_get redis_set S ts m = (Inr u, m')"
    and "namespace_ok (conversation_namespace S a s)" and "redis_readable m (conversation_namespace S a s) ''messages''"
    and "redis_held m (conversation_namespace S a s) ''messages'' = JNull"
  shows "fst (memory_load redis_get S a s m') = Inr (py_last (max_messages S) (conversation_of S a s ts))"
proof -
  have "collection (redis_held m (conversation_namespace S a s) ''messages'') = Inr (map message_json [])"
    using assms(7) by (simp add: collection_def)
  from redis_memory.turns_held [OF assms(1-6) this] obtain xs where held: "redis_valid m'"
    "redis_readable m' (conversation_namespace S a s) ''messages''"
    "collection (redis_held m' (conversation_namespace S a s) ''messages'') = Inr (map message_json xs)"
    "py_last (max_messages S) xs = py_last (max_messages S) (conversation_of S a s ts)" by auto
  then show ?thesis
    using messages_parse [OF conversation_roles held(4)] by (simp add: redis_memory.load_held [OF held(1) assms(5) held(2)])
qed

lemma postgres_turns_remembered:
  assumes "pg_valid m" and "0 < ms_ttl S" and "0 < ms_max_turns S" and "append_turns pg_get pg_set S ts m = (Inr u, m')"
    and "namespace_ok (conversation_namespace S a s)" and "pg_held m (conversation_namespace S a s) ''messages'' = JNull"
  shows "fst (memory_load pg_get S a s m') = Inr (py_last (max_messages S) (conversation_of S a s ts))"
proof -
  have "collection (pg_held m (conversation_namespace S a s) ''messages'') = Inr (map message_json [])"
    using assms(6) by (simp add: collection_def)
  from postgres_memory.turns_held [OF assms(1-5) TrueI this] obtain xs where held: "pg_valid m'"
    "collection (pg_held m' (conversation_namespace S a s) ''messages'') = Inr (map message_json xs)"
    "py_last (max_messages S) xs = py_last (max_messages S) (conversation_of S a s ts)" by auto
  then show ?thesis
    using messages_parse [OF conversation_roles held(3)] by (simp add: postgres_memory.load_held [OF held(1) assms(5) TrueI])
qed

lemma glob_literal: "CHR ''*'' \<notin> set p \<Longrightarrow> glob (p @ q) s \<longleftrightarrow> (\<exists>r. s = p @ r \<and> glob q r)"
proof (induction p arbitrary: s)
  case (Cons c p)
  then show ?case by (cases s) auto
qed simp

lemma glob_star: "glob (CHR ''*'' # q) s \<longleftrightarrow> (\<exists>u v. s = u @ v \<and> glob q v)"
proof (induction s)
  case Nil
  then show ?case by auto
next
  case (Cons x s)
  have "(\<exists>u v. x # s = u @ v \<and> glob q v) \<longleftrightarrow> glob q (x # s) \<or> (\<exists>u v. s = u @ v \<and> glob q v)"
    by (metis (no_types, lifting) Cons_eq_append_conv append_Nil)
  then show ?case using Cons by simp
qed

lemma star_free: "namespace_part s \<Longrightarrow> CHR ''*'' \<notin> set s"
  by (cases s) (auto simp: namespace_part_def list_all_iff is_alpha_def is_lower_def is_upper_def is_digit_def)

lemma clear_pattern:
  assumes "namespace_part a" and "namespace_ok n"
  shows "glob (join '':'' [key_prefix, a, ''*'', ''*'', ''*'']) (redis_key n k) \<longleftrightarrow> ns_agent_id n = a"
    and "glob (legacy_key a ''*'') (legacy_key (ns_agent_id n) (ns_session_id n)) \<longleftrightarrow> ns_agent_id n = a"
proof -
  have free: "CHR '':'' \<notin> set a" "CHR '':'' \<notin> set (ns_agent_id n)" "CHR ''*'' \<notin> set a"
    using assms colon_free star_free by (auto simp: namespace_ok_def part_ok_def)
  have skip: "glob (CHR ''*'' # CHR '':'' # q) (t @ CHR '':'' # s)" if "glob q s" for q t s
    unfolding glob_star using that by (intro exI [of _ t] exI [of _ "CHR '':'' # s"]) simp
  have any: "glob ''*'' s" for s by (auto simp: glob_star)
  have three: "glob ''*:*:*'' (u @ CHR '':'' # t @ CHR '':'' # s)" for u t s by (intro skip any)
  have pattern: "join '':'' [key_prefix, a, ''*'', ''*'', ''*''] = (key_prefix @ '':'' @ a @ '':'') @ ''*:*:*''" by simp
  have "CHR ''*'' \<notin> set (key_prefix @ '':'' @ a @ '':'')" using free by (auto simp: key_prefix_def)
  note literal = glob_literal [OF this]
  show "glob (join '':'' [key_prefix, a, ''*'', ''*'', ''*'']) (redis_key n k) \<longleftrightarrow> ns_agent_id n = a"
    unfolding pattern literal using free three by (auto simp: redis_key_def cut_first)
  have legacy: "legacy_key a ''*'' = (''hermes:agent-memory:v1:'' @ a @ '':'') @ ''*''" by (simp add: legacy_key_def)
  have "CHR ''*'' \<notin> set (''hermes:agent-memory:v1:'' @ a @ '':'')" using free by auto
  note literal = glob_literal [OF this]
  show "glob (legacy_key a ''*'') (legacy_key (ns_agent_id n) (ns_session_id n)) \<longleftrightarrow> ns_agent_id n = a"
    unfolding legacy literal using free any by (auto simp: legacy_key_def cut_first)
qed

lemma map_of_filter_keys: "map_of (filter (\<lambda>p. P (fst p)) xs) k = (if P k then map_of xs k else None)"
  by (induction xs) auto

lemma redis_clear_forgets:
  assumes "clear_agent redis_clear S a m = (Inr u, m')" and "namespace_ok n"
  shows "redis_held m' n k = (if ns_agent_id n = a then JNull else redis_held m n k)"
proof -
  have a: "namespace_part a" and up: "rd_up m"
    and m': "m' = m\<lparr>rd_values := filter (\<lambda>p. \<not> glob (join '':'' [key_prefix, a, ''*'', ''*'', ''*'']) (fst p)) (rd_values m),
      rd_lists := filter (\<lambda>p. \<not> glob (legacy_key a ''*'') (fst p)) (rd_lists m)\<rparr>"
    using assms(1)
    by (auto simp: clear_agent_def redis_clear_def or_star_def make_namespace_Inr namespace_ok_def part_ok_def
        split: sum.splits if_splits)
  note pattern = clear_pattern [OF a assms(2)]
  have kept: "map_of (rd_values m') (redis_key n k) = (if ns_agent_id n = a then None else map_of (rd_values m) (redis_key n k))"
    unfolding m' using pattern(1) map_of_filter_keys [of "\<lambda>k. \<not> glob (join '':'' [key_prefix, a, ''*'', ''*'', ''*'']) k" "rd_values m"] by simp
  have legacy: "map_of (rd_lists m') (legacy_key (ns_agent_id n) (ns_session_id n)) =
      (if ns_agent_id n = a then None else map_of (rd_lists m) (legacy_key (ns_agent_id n) (ns_session_id n)))"
    unfolding m' using pattern(2) map_of_filter_keys [of "\<lambda>k. \<not> glob (legacy_key a ''*'') k" "rd_lists m"] by simp
  have same: "rd_now m' = rd_now m" "rd_loads m' = rd_loads m" by (simp_all add: m')
  show ?thesis
    unfolding redis_held_def redis_value_def legacy_items_def same kept legacy by (cases "ns_agent_id n = a") simp_all
qed

text \<open>
  A conversation of the first layout is not removed when it is moved, so it is back as it was then
  when the messages are deleted, and likewise when they expire.
\<close>

lemma deleted_conversation_returns:
  assumes "redis_delete ns ''messages'' m = (Inr u, m')"
    and "those (map (rd_loads m) (legacy_items (legacy_key (ns_agent_id ns) (ns_session_id ns)) m)) = Some (x # xs)"
  shows "redis_held m' ns ''messages'' = JArr (x # xs)"
proof -
  have m': "m' = m\<lparr>rd_values := AList.delete (redis_key ns ''messages'') (rd_values m)\<rparr>"
    using assms(1) by (auto simp: redis_delete_def split: if_splits)
  have "redis_value (redis_key ns ''messages'') m' = None" "legacy_items l m' = legacy_items l m" "rd_loads m' = rd_loads m" for l
    by (simp_all add: m' redis_value_def legacy_items_def delete_conv')
  then show ?thesis using assms(2) unfolding redis_held_def Let_def by auto
qed


text \<open>C25. In Redis, the provider by default, a conversation is remembered: after any sequence of turns of any conversations
  that were stored, loading gives the last turns of this one, up to the limits of the settings, and nothing else.\<close>

theorem turns_are_remembered:
  assumes "redis_valid m" and "0 < ms_ttl S" and "0 < ms_max_turns S" and "append_turns redis_get redis_set S ts m = (Inr u, m')"
    and "namespace_ok (conversation_namespace S a s)" and "redis_readable m (conversation_namespace S a s) ''messages''"
    and "redis_held m (conversation_namespace S a s) ''messages'' = JNull"
  shows "fst (memory_load redis_get S a s m') = Inr (py_last (max_messages S) (conversation_of S a s ts))"
  by (rule redis_turns_remembered [OF assms])

definition sample_settings :: memory_settings where
  "sample_settings = \<lparr>ms_max_turns = 8, ms_ttl = 60, ms_max_chars = 256, ms_memory_type = ''short-term''\<rparr>"

definition sample_redis :: redis where
  "sample_redis =
     \<lparr>rd_values = [], rd_lists = [], rd_now = 0, rd_up = True, rd_loads = (\<lambda>s. Some (from_nat (length s))),
      rd_dumps = (\<lambda>v. replicate (to_nat v) CHR ''a'')\<rparr>"

lemma sample_redis_facts:
  "redis_valid sample_redis" "namespace_ok (conversation_namespace sample_settings ''a'' ''s'')"
  "redis_readable sample_redis n k" "redis_held sample_redis n k = JNull"
proof -
  have "part_ok 64 ''a''" "part_ok 128 ''s''" "part_ok 64 ''short-term''" by code_simp+
  then show "namespace_ok (conversation_namespace sample_settings ''a'' ''s'')"
    by (simp add: namespace_ok_def conversation_namespace_def sample_settings_def)
qed (simp_all add: redis_valid_def sample_redis_def redis_readable_def redis_held_def redis_value_def legacy_items_def)

lemma sample_turn:
  "\<exists>m. append_turns redis_get redis_set sample_settings [(''a'', ''s'', ''hi'', ''ho'')] sample_redis = (Inr (), m)"
proof -
  let ?n = "conversation_namespace sample_settings ''a'' ''s''"
  have "make_namespace ''a'' ''s'' (ms_memory_type sample_settings) = Inr ?n"
    using sample_redis_facts(2) make_namespace_Inr by (simp add: conversation_namespace_def)
  moreover have "redis_get ?n ''messages'' sample_redis = (Inr JNull, sample_redis)"
    by (simp add: redis_get_def sample_redis_def redis_value_def legacy_items_def)
  moreover obtain m where "redis_set ?n ''messages''
      (JArr (py_last (max_messages sample_settings) (map message_json (turn_messages sample_settings ''hi'' ''ho''))))
      (ms_ttl sample_settings) sample_redis = (Inr (), m)"
    by (simp add: redis_set_def sample_redis_def)
  ultimately have "append_turn redis_get redis_set sample_settings ''a'' ''s'' ''hi'' ''ho'' sample_redis = (Inr (), m)"
    by (simp add: append_turn_def collection_def)
  then show ?thesis by (simp add: abind_def aret_def)
qed

theorem turns_are_remembered_witness:
  "\<exists>m. append_turns redis_get redis_set sample_settings [(''a'', ''s'', ''hi'', ''ho'')] sample_redis = (Inr (), m) \<and>
     fst (memory_load redis_get sample_settings ''a'' ''s'' m) = Inr [(''user'', ''hi''), (''assistant'', ''ho'')]"
proof -
  obtain m where run: "append_turns redis_get redis_set sample_settings [(''a'', ''s'', ''hi'', ''ho'')] sample_redis = (Inr (), m)"
    using sample_turn by blast
  have "0 < ms_ttl sample_settings" "0 < ms_max_turns sample_settings" by (simp_all add: sample_settings_def)
  moreover have "py_last (max_messages sample_settings) (conversation_of sample_settings ''a'' ''s'' [(''a'', ''s'', ''hi'', ''ho'')]) =
      [(''user'', ''hi''), (''assistant'', ''ho'')]" by code_simp
  ultimately show ?thesis
    using turns_are_remembered [OF sample_redis_facts(1) _ _ run sample_redis_facts(2-4)] run by auto
qed

text \<open>Clearing an Agent, as its deletion does, removes everything held in Redis for its namespaces, also in the first layout,
  and nothing of any other Agent.\<close>

theorem cleared_agent_is_forgotten:
  assumes "clear_agent redis_clear S a m = (Inr u, m')" and "namespace_ok n"
  shows "redis_held m' n k = (if ns_agent_id n = a then JNull else redis_held m n k)"
  by (rule redis_clear_forgets [OF assms])

theorem cleared_agent_is_forgotten_witness:
  "\<exists>m. clear_agent redis_clear sample_settings ''a'' sample_redis = (Inr (), m) \<and>
     redis_held m (conversation_namespace sample_settings ''a'' ''s'') ''messages'' = JNull"
proof -
  have "make_namespace ''a'' ''validation'' (ms_memory_type sample_settings) \<noteq> Inl e" for e by (cases e) code_simp+
  then obtain ns where "make_namespace ''a'' ''validation'' (ms_memory_type sample_settings) = Inr ns"
    by (cases "make_namespace ''a'' ''validation'' (ms_memory_type sample_settings)") auto
  then obtain m where run: "clear_agent redis_clear sample_settings ''a'' sample_redis = (Inr (), m)"
    by (auto simp: clear_agent_def redis_clear_def sample_redis_def)
  then show ?thesis
    using cleared_agent_is_forgotten [OF run sample_redis_facts(2)] by (auto simp: conversation_namespace_def)
qed

end
