(* ===== verification/Run_Parts.thy ===== *)
theory Run_Parts
  imports Capability_Resolver Agent_Contract Capability_Profile
begin

text \<open>
  The parts of a run of an Agent that have no effects (\<open>backend/app/api/agents.py\<close>,
  \<open>runtime/events.py\<close>, \<open>runtime/router.py\<close>, \<open>schemas/schema_validation.py\<close>): the request, what the
  prompts say of the tools, the runtime that is chosen, trace events, the output and the artifacts.
  JSON text, the errors of a JSON Schema and the construction of an adapter are parameters.
\<close>

section \<open>The request\<close>

record agent_request =
  rq_input :: string
  rq_session_id :: string
  rq_parameters :: "dict option"
  rq_temperature :: "rat option"

text \<open>\<open>loads\<close> is None for a text that is no JSON.\<close>

definition input_values :: "(string \<Rightarrow> json option) \<Rightarrow> agent_request \<Rightarrow> dict" where
  "input_values loads q =
     (case rq_parameters q of
        Some d \<Rightarrow> d
      | None \<Rightarrow> (case loads (rq_input q) of Some (JObj d) \<Rightarrow> d | _ \<Rightarrow> []))"

definition runtime_options :: "agent_request \<Rightarrow> dict" where
  "runtime_options q = (case rq_temperature q of Some t \<Rightarrow> [(''temperature'', JFloat t)] | None \<Rightarrow> [])"

text \<open>\<open>_bounded_int\<close>.\<close>

definition bounded_int :: "(json \<Rightarrow> string) \<Rightarrow> json \<Rightarrow> int \<Rightarrow> int \<Rightarrow> int \<Rightarrow> int" where
  "bounded_int rep v initial minimum maximum =
     (case v of
        JBool _ \<Rightarrow> initial
      | _ \<Rightarrow> (case py_int rep v of Inl _ \<Rightarrow> initial | Inr i \<Rightarrow> max minimum (min i maximum)))"

section \<open>Skills\<close>

text \<open>A bound Skill, and what the loader reads of it; an empty schema is no schema.\<close>

record skill_link =
  sl_id :: string
  sl_runtime_support :: "string list"

record loaded_skill =
  ld_id :: string
  ld_document :: string
  ld_config :: dict
  ld_output_schema :: dict

definition supports_runtime :: "string \<Rightarrow> skill_link \<Rightarrow> bool" where
  "supports_runtime runtime_type s \<longleftrightarrow>
     runtime_type \<in> set (if sl_runtime_support s = [] then [''hermes''] else sl_runtime_support s)"

definition skill_output_schema :: "loaded_skill list \<Rightarrow> string + dict" where
  "skill_output_schema skills =
     (case filter (\<lambda>d. d \<noteq> []) (map ld_output_schema skills) of
        [] \<Rightarrow> Inr []
      | first # rest \<Rightarrow>
          if list_ex (\<lambda>d. \<not> py_eq (JObj d) (JObj first)) rest
          then Inl ''multiple bound Skills define different output schemas; configure the Agent output schema''
          else Inr first)"

record recall_settings =
  rs_lookback_days :: int
  rs_limit :: int

fun recall_of_skills :: "(json \<Rightarrow> string) \<Rightarrow> recall_settings \<Rightarrow> loaded_skill list \<Rightarrow> recall_settings option" where
  "recall_of_skills rep initial [] = None"
| "recall_of_skills rep initial (s # ss) =
     (case dget (ld_config s) ''source_recall'' of
        JObj d \<Rightarrow>
          if dget d ''enabled'' \<noteq> JBool True then recall_of_skills rep initial ss
          else Some \<lparr>rs_lookback_days = bounded_int rep (dget d ''lookback_days'') (rs_lookback_days initial) 1 36500,
                     rs_limit = bounded_int rep (dget d ''limit'') (rs_limit initial) 1 20\<rparr>
      | _ \<Rightarrow> recall_of_skills rep initial ss)"

definition source_recall_options ::
  "(json \<Rightarrow> string) \<Rightarrow> recall_settings \<Rightarrow> loaded_skill list \<Rightarrow> dict \<Rightarrow> recall_settings option"
where
  "source_recall_options rep initial skills parameters =
     (let override = dget parameters ''source_recall'' in
      if override = JBool False \<or> (is_obj override \<and> dget (as_obj override) ''enabled'' = JBool False) then None
      else recall_of_skills rep initial skills)"

section \<open>Prompts\<close>

text \<open>A granted MCP server: its kind, its id and the permission of the binding.\<close>

record mcp_link =
  ml_id :: string
  ml_kind :: string
  ml_permission :: "string option"

definition mcp_capabilities :: "mcp_link list \<Rightarrow> dict" where
  "mcp_capabilities servers =
     dupdate [] (map (\<lambda>s. (ml_kind s, JObj [(''mcp_id'', JStr (ml_id s)),
       (''permission'', JStr (case ml_permission s of Some p \<Rightarrow> p | None \<Rightarrow> ''read_only''))])) servers)"

definition capability_line :: "string \<times> json \<Rightarrow> string" where
  "capability_line p =
     ''- '' @ fst p @ '': registry id '' @ as_str (dget (as_obj (snd p)) ''mcp_id'') @ ''; permission='' @
       as_str (dget (as_obj (snd p)) ''permission'')"

definition render_mcp_prompt :: "dict \<Rightarrow> string \<Rightarrow> string \<Rightarrow> string" where
  "render_mcp_prompt capabilities access_token runtime_type =
     (if capabilities = [] then ''No MCP tools are authorized for this run. Do not call MCP tools.''
      else join newline
        (''Only the following MCP capabilities are authorized for this run:'' #
         map capability_line (sort_key fst capabilities) @
         (if runtime_type = ''hermes''
          then [''Legacy Hermes MCP access_token for this execution: '' @ access_token,
                ''Use it only as the access_token tool argument and never include it in the answer.'']
          else [''The Runtime injects the per-execution credential after model tool selection. '' @
                ''Never request, provide, or print an access_token argument.''])))"

definition render_capability_prompt :: "resolved_capability list \<Rightarrow> string" where
  "render_capability_prompt tools =
     join newline
       (''The following platform capabilities are available. Call them by tool name when needed:'' #
        map (\<lambda>t. ''- '' @ rc_tool_name t @ '': '' @ rc_description t) tools @
        [''Connector endpoints, credentials, implementation ids, resource scopes, and authorization tokens '' @
         ''are injected by the platform and must never be requested or supplied as tool arguments.''])"

section \<open>The runtime\<close>

definition configured_runtime :: "uuid option \<Rightarrow> dict \<Rightarrow> json" where
  "configured_runtime runtime_id config =
     py_or (case runtime_id of Some u \<Rightarrow> JStr (uuid_str u) | None \<Rightarrow> JNull) (dget config ''runtime_id'')"

text \<open>Online runtimes first, then the oldest.\<close>

definition resolve_runtime ::
  "(json \<Rightarrow> string) \<Rightarrow> string \<Rightarrow> uuid option \<Rightarrow> dict \<Rightarrow> agent_runtime list \<Rightarrow> agent_runtime option"
where
  "resolve_runtime rep runtime_type runtime_id config rows =
     (let configured = configured_runtime runtime_id config in
      if truthy configured
      then (case parse_uuid (py_str rep configured) of
              None \<Rightarrow> None
            | Some u \<Rightarrow>
                (case row_get rt_id u rows of
                   None \<Rightarrow> None
                 | Some r \<Rightarrow> if rt_type r = runtime_type then Some r else None))
      else first_by (\<lambda>r. (rt_status r \<noteq> ''online'', rt_created_at r))
        (filter (\<lambda>r. rt_type r = runtime_type \<and> rt_status r \<in> {''online'', ''unknown''}) rows))"

text \<open>\<open>RuntimeRouter.resolve\<close>: the runtime, if one is registered, for the adapter; the errors are texts
  of a \<open>RuntimeAdapterError\<close>.\<close>

definition route ::
  "(json \<Rightarrow> string) \<Rightarrow> (string \<Rightarrow> agent_runtime option \<Rightarrow> dict \<Rightarrow> string option) \<Rightarrow> string \<Rightarrow> uuid option \<Rightarrow> dict \<Rightarrow>
     agent_runtime list \<Rightarrow> string + agent_runtime option"
where
  "route rep adapter_refused runtime_type runtime_id config rows =
     (let found = resolve_runtime rep runtime_type runtime_id config rows in
      if truthy (configured_runtime runtime_id config) \<and> found = None
      then Inl ''configured Runtime is missing or has a different type''
      else if (case found of Some r \<Rightarrow> rt_status r \<in> {''offline'', ''disabled''} | None \<Rightarrow> False)
      then Inl (''configured Runtime is '' @ rt_status (the found))
      else if runtime_type = ''deepseek'' \<and> found = None
      then Inl ''DeepSeek Runtime has no registered online instance''
      else case adapter_refused runtime_type found config of
        Some m \<Rightarrow> Inl m
      | None \<Rightarrow> Inr found)"

definition requires_fresh_runtime_session :: "string \<Rightarrow> nat \<Rightarrow> bool" where
  "requires_fresh_runtime_session runtime_type trace_attempt \<longleftrightarrow> runtime_type = ''deepseek'' \<and> 0 < trace_attempt"

section \<open>Trace events\<close>

definition trace_step_types :: "(string \<times> string) list" where
  "trace_step_types =
     [(''start'', ''runtime''), (''plan'', ''plan''), (''skill_load'', ''skill''), (''tool_call'', ''mcp''),
      (''tool_started'', ''mcp''), (''tool_completed'', ''mcp''), (''tool_result'', ''mcp''), (''model_call'', ''model''),
      (''artifact'', ''artifact''), (''artifact_save'', ''artifact''), (''repository_scan'', ''repository''),
      (''code_edit'', ''code''), (''test_run'', ''test''), (''git_diff'', ''git''), (''end'', ''runtime'')]"

definition trace_status :: "string \<Rightarrow> step_status" where
  "trace_status s =
     (if s \<in> {''failed'', ''error''} then P_failed
      else if s \<in> {''cancelled'', ''canceled''} then P_cancelled
      else if s \<in> {''running'', ''started'', ''pending''} then P_running
      else P_succeeded)"

definition normalize_trace_event :: "(json \<Rightarrow> string) \<Rightarrow> dict \<Rightarrow> string \<times> string \<times> step_status" where
  "normalize_trace_event rep raw =
     (let event_type = lower (py_str rep (py_or (py_or (dget raw ''event'') (dget raw ''type'')) (JStr ''runtime_event'')));
          normalized = map (\<lambda>c. if c = CHR ''.'' then CHR ''_'' else c) event_type in
      (event_type, (case map_of trace_step_types normalized of Some t \<Rightarrow> t | None \<Rightarrow> ''runtime''),
       trace_status (lower (py_str rep (py_or (dget raw ''status'') (JStr ''succeeded''))))))"

definition mapped_event :: "string \<Rightarrow> dict \<Rightarrow> (string \<times> dict) option" where
  "mapped_event event d = Some (event, (''event'', JStr event) # d)"

text \<open>\<open>_map_hermes_event\<close>.\<close>

definition map_hermes_event :: "(json \<Rightarrow> string) \<Rightarrow> dict \<Rightarrow> (string \<times> dict) option" where
  "map_hermes_event rep event =
     (let event_type = py_str rep (dget_default event ''event'' (JStr [])) in
      if event_type = ''_keepalive'' then mapped_event ''keepalive'' []
      else if event_type = ''message.delta''
      then mapped_event ''token'' [(''text'', JStr (py_str rep (py_or (dget event ''delta'') (JStr []))))]
      else if starts_with ''tool.'' event_type
      then mapped_event ''tool'' [(''type'', JStr (drop 5 event_type)), (''name'', dget event ''tool''),
        (''duration'', dget event ''duration''), (''error'', dget_default event ''error'' (JBool False))]
      else if event_type \<in> {''run.created'', ''reasoning.available''} \<or> starts_with ''subagent.'' event_type
      then mapped_event ''trace'' [(''type'', JStr event_type), (''data'', JObj event)]
      else if event_type = ''run.completed'' then None
      else mapped_event ''trace'' [(''type'', JStr (if event_type = [] then ''runtime'' else event_type)), (''data'', JObj event)])"

definition sse :: "(json \<Rightarrow> string) \<Rightarrow> string \<Rightarrow> dict \<Rightarrow> string" where
  "sse dumps event payload = ''event: '' @ event @ newline @ ''data: '' @ dumps (JObj payload) @ newline @ newline"

section \<open>Output\<close>

text \<open>
  \<open>validate_instance\<close>: the errors come sorted, as the path and the message; ten are
  told.
\<close>

definition instance_message :: "string \<Rightarrow> string list \<times> string \<Rightarrow> string" where
  "instance_message label = (\<lambda>(path, message).
     label @ '' does not match schema'' @
       (let p = join ''.'' path in if p = [] then [] else '' at '' @ p) @ '': '' @ message)"

definition validate_instance ::
  "(dict \<Rightarrow> json \<Rightarrow> (string list \<times> string) list) \<Rightarrow> dict \<Rightarrow> json \<Rightarrow> string \<Rightarrow> string + unit"
where
  "validate_instance errors_of schema v label =
     (if schema = [] then Inr ()
      else let errors = errors_of schema v in
        if errors = [] then Inr ()
        else Inl (join ''; '' (map (instance_message label) (take 10 errors) @
          (if 10 < length errors then [nat_str (length errors - 10) @ '' additional schema errors omitted''] else []))))"

text \<open>The text between the marks of a fenced block, which may be marked as JSON.\<close>

definition unfenced :: "string \<Rightarrow> string" where
  "unfenced s =
     (if starts_with ''```'' s \<and> ends_with ''```'' s \<and> 6 \<le> length s
      then let body = take (length s - 6) (drop 3 s) in
        strip (if lower (take 4 body) = ''json'' then drop 4 body else body)
      else s)"

text \<open>\<open>invalid\<close> describes a text that is no JSON.\<close>

definition parse_and_validate_output ::
  "(string \<Rightarrow> json option) \<Rightarrow> (string \<Rightarrow> string) \<Rightarrow> (dict \<Rightarrow> json \<Rightarrow> (string list \<times> string) list) \<Rightarrow> dict \<Rightarrow> string \<Rightarrow>
     string + json"
where
  "parse_and_validate_output loads invalid errors_of schema output =
     (if schema = [] then Inr (JStr output)
      else let candidate = unfenced (strip output) in
        case loads candidate of
          None \<Rightarrow> Inl (''Agent output is not valid JSON: '' @ invalid candidate)
        | Some v \<Rightarrow> rbind (validate_instance errors_of schema v ''Agent output'') (\<lambda>_. Inr v))"

record runtime_artifact =
  ra_filename :: string
  ra_content :: string
  ra_content_type :: string
  ra_artifact_type :: string

record run_result =
  rr_output :: string
  rr_run_id :: "string option"
  rr_status :: string
  rr_token_usage :: "int option"
  rr_trace :: "dict list"
  rr_artifacts :: "runtime_artifact list"

record artifact_payload =
  ap_filename :: string
  ap_content :: string
  ap_content_type :: string
  ap_artifact_type :: string
  ap_source :: string

text \<open>\<open>_execution_artifact_payloads\<close>; the JSON null stands for an output that is None.\<close>

definition primary_payload :: "(json \<Rightarrow> string) \<Rightarrow> run_result \<Rightarrow> json \<Rightarrow> artifact_payload" where
  "primary_payload dumps r v =
     (if v \<noteq> JNull
      then \<lparr>ap_filename = ''result.json'', ap_content = dumps v, ap_content_type = ''application/json; charset=utf-8'',
            ap_artifact_type = ''json'', ap_source = ''platform''\<rparr>
      else \<lparr>ap_filename = ''result.txt'', ap_content = rr_output r, ap_content_type = ''text/plain; charset=utf-8'',
            ap_artifact_type = ''text'', ap_source = ''platform''\<rparr>)"

definition report_payload :: "json \<Rightarrow> artifact_payload list" where
  "report_payload v =
     (case dget (as_obj v) ''report_markdown'' of
        JStr s \<Rightarrow>
          if strip s = [] then []
          else [\<lparr>ap_filename = ''report.md'', ap_content = s, ap_content_type = ''text/markdown; charset=utf-8'',
                 ap_artifact_type = ''markdown'', ap_source = ''platform''\<rparr>]
      | _ \<Rightarrow> [])"

definition execution_artifact_payloads :: "(json \<Rightarrow> string) \<Rightarrow> string \<Rightarrow> run_result \<Rightarrow> json \<Rightarrow> artifact_payload list" where
  "execution_artifact_payloads dumps source r v =
     primary_payload dumps r v # report_payload v @
     map (\<lambda>a. \<lparr>ap_filename = ra_filename a, ap_content = ra_content a, ap_content_type = ra_content_type a,
               ap_artifact_type = ra_artifact_type a, ap_source = source\<rparr>) (rr_artifacts r)"

text \<open>
  Without a schema the output is a text, not None: it is stored as a JSON string in \<open>result.json\<close>,
  and \<open>result.txt\<close> is never written for it.
\<close>

lemma plain_text_stored_as_json:
  "parse_and_validate_output loads invalid errors_of [] output = Inr v \<Longrightarrow>
     ap_filename (hd (execution_artifact_payloads dumps source r v)) = ''result.json'' \<and>
     ap_content (hd (execution_artifact_payloads dumps source r v)) = dumps (JStr output)"
  by (auto simp: parse_and_validate_output_def execution_artifact_payloads_def primary_payload_def)

end
