(* ===== verification/Agent_Runs.thy ===== *)
theory Agent_Runs
  imports Run_Parts Agent_Memory Execution_Steps Capability_Token
begin

text \<open>
  A run of an Agent (\<open>backend/app/api/agents.py\<close>) once it is prepared: the session of the runtime, the
  result, its trace and artifacts, and how an execution is completed, failed or cancelled. The runtime adapters,
  the Skill files, the knowledge service and the source recall are parameters. The adapters are
  arbitrary functions of the world, so that a call may change any row, as other processes do while
  the runtime works; between such calls the handler is one sequence of commits.
\<close>

section \<open>Errors\<close>

text \<open>
  The exceptions by what catches them, with their texts: \<open>AgentMemoryError\<close>,
  \<open>RuntimeCancelledError\<close>, \<open>HermesRuntimeError\<close>, \<open>RuntimeAdapterError\<close>, \<open>ValueError\<close>,
  \<open>KnowledgeServiceError\<close>, \<open>SkillLoadError\<close>, \<open>ArtifactStorageError\<close>, \<open>HTTPException\<close>, and any other.
\<close>

datatype run_exn =
    Memory_failed string
  | Run_cancelled string
  | Runtime_failed string
  | Adapter_failed string
  | Value_failed string
  | Knowledge_failed string
  | Skill_failed string
  | Storage_failed string
  | Http_error nat json
  | Other_exn string

definition memory_exn :: "mem_exn \<Rightarrow> run_exn" where
  "memory_exn e = (case e of Memory_error m \<Rightarrow> Memory_failed m | Memory_crash \<Rightarrow> Other_exn ''TypeError'')"

definition python_exn :: "py_error \<Rightarrow> run_exn" where
  "python_exn e = (case e of Value_error m \<Rightarrow> Value_failed m | Type_error \<Rightarrow> Other_exn ''TypeError'' | Attribute_error \<Rightarrow> Other_exn ''AttributeError'')"

definition file_exn :: "fs_error \<Rightarrow> run_exn" where
  "file_exn e = (case e of Boundary_error m \<Rightarrow> Value_failed m | _ \<Rightarrow> Other_exn ''OSError'')"

definition storage_exn :: "fs_error \<Rightarrow> run_exn" where
  "storage_exn e = Storage_failed (case e of Artifact_error m \<Rightarrow> m | _ \<Rightarrow> ''artifact storage is unavailable'')"

definition map_error :: "('e \<Rightarrow> 'f) \<Rightarrow> 'e + 'a \<Rightarrow> 'f + 'a" where
  "map_error f r = (case r of Inl e \<Rightarrow> Inl (f e) | Inr x \<Rightarrow> Inr x)"

section \<open>State\<close>

record ('m, 'o) run_world =
  rw_db :: store
  rw_cap :: capability_store
  rw_fs :: filesystem
  rw_memory :: 'm
  rw_objects :: 'o
  rw_marks :: marks
  rw_now :: instant

type_synonym ('m, 'o, 'a) run = "('m, 'o) run_world \<Rightarrow> (run_exn + 'a) \<times> ('m, 'o) run_world"

record agent_links =
  al_skills :: "skill_link list"
  al_mcp :: "mcp_link list"
  al_knowledge :: "(string \<times> bool) list"

record knowledge_hit =
  kh_source_id :: string
  kh_document_id :: string
  kh_chunk_id :: string
  kh_chunk_index :: int
  kh_filename :: string
  kh_content :: string
  kh_score :: rat

text \<open>What \<open>SourceRecallClient.recall\<close> gives: the summary that is kept and the part of the prompt.\<close>

record recall_result =
  rl_summary :: dict
  rl_envelope :: dict
  rl_has_sources :: bool

record run_context =
  cx_agent :: agent
  cx_execution :: uuid
  cx_details :: json
  cx_session :: uuid
  cx_messages :: "(string \<times> string) list"
  cx_skills :: "string list"
  cx_mcp_servers :: "string list"
  cx_knowledge :: "string list"
  cx_knowledge_summary :: json
  cx_memory_scope :: dict
  cx_mcp_token :: string
  cx_mcp_capabilities :: dict
  cx_capability_token :: string
  cx_resolution :: "capability_resolution option"
  cx_output_schema :: dict
  cx_validator :: "dict option"
  cx_attempt :: nat
  cx_workspace :: session_workspace

record ('m, 'o) run_env =
  rx_root :: path
  rx_memory_type :: string
  rx_load :: "string \<Rightarrow> string \<Rightarrow> 'm \<Rightarrow> (mem_exn + (string \<times> string) list) \<times> 'm"
  rx_append :: "string \<Rightarrow> string \<Rightarrow> string \<Rightarrow> string \<Rightarrow> 'm \<Rightarrow> (mem_exn + unit) \<times> 'm"
  rx_save :: "string \<Rightarrow> uuid \<Rightarrow> string \<Rightarrow> bytes \<Rightarrow> string \<Rightarrow> 'o \<Rightarrow> fs_error + stored_artifact \<times> 'o"
  rx_links :: "string \<Rightarrow> agent_links"
  rx_skills :: "skill_link list \<Rightarrow> string + loaded_skill list"
  rx_search :: "string \<Rightarrow> string list \<Rightarrow> string + knowledge_hit list"
  rx_recall :: "string \<Rightarrow> recall_settings \<Rightarrow> string + recall_result"
  rx_recall_initial :: recall_settings
  rx_legacy_recall :: bool
  rx_platform :: bool
  rx_gateway :: bool
  rx_adapter_refused :: "string \<Rightarrow> agent_runtime option \<Rightarrow> dict \<Rightarrow> string option"
  rx_new_session :: "run_context \<Rightarrow> ('m, 'o, string) run"
  rx_execute :: "run_context \<Rightarrow> string \<Rightarrow> ('m, 'o, run_result) run"
  rx_loads :: "string \<Rightarrow> json option"
  rx_dumps :: "json \<Rightarrow> string"
  rx_sorted_dumps :: "json \<Rightarrow> string"
  rx_indented :: "json \<Rightarrow> string"
  rx_rep :: "json \<Rightarrow> string"
  rx_isoformat :: "instant \<Rightarrow> string"
  rx_round :: "rat \<Rightarrow> rat"
  rx_invalid_json :: "string \<Rightarrow> string"
  rx_schema_errors :: "dict \<Rightarrow> json \<Rightarrow> (string list \<times> string) list"
  rx_hmac :: "string \<Rightarrow> string \<Rightarrow> string"
  rx_signing_key :: string
  rx_sha256 :: "string \<Rightarrow> string"
  rx_token_ttl :: nat
  rx_redis_up :: bool
  rx_flushed :: bool

definition rlift :: "run_exn + 'a \<Rightarrow> ('m, 'o, 'a) run" where
  "rlift r w = (r, w)"

definition rread :: "(('m, 'o) run_world \<Rightarrow> 'a) \<Rightarrow> ('m, 'o, 'a) run" where
  "rread f w = (Inr (f w), w)"

definition rchange :: "(instant \<Rightarrow> store \<Rightarrow> store) \<Rightarrow> ('m, 'o, unit) run" where
  "rchange f w = (Inr (), w\<lparr>rw_db := f (rw_now w) (rw_db w)\<rparr>)"

text \<open>\<open>uuid4()\<close>.\<close>

definition new_uuid :: "('m, 'o, uuid) run" where
  "new_uuid w = (Inr (db_next_id (rw_db w)), w\<lparr>rw_db := (rw_db w)\<lparr>db_next_id := Suc (db_next_id (rw_db w))\<rparr>\<rparr>)"

section \<open>The trace\<close>

definition attempt_key :: "string \<Rightarrow> nat \<Rightarrow> string" where
  "attempt_key base attempt = (if attempt = 0 then base else base @ ''_'' @ nat_str attempt)"

definition log_step ::
  "uuid \<Rightarrow> string \<Rightarrow> int \<Rightarrow> string \<Rightarrow> string \<Rightarrow> step_status \<Rightarrow> dict \<Rightarrow> dict \<Rightarrow> string option \<Rightarrow> int option \<Rightarrow> ('m, 'o, unit) run"
where
  "log_step x key sequence ty name status input_data output_data err latency =
     rchange (\<lambda>t db. snd (record_step t x key sequence ty name status (Some input_data) (Some output_data) err latency db))"

section \<open>The end of an execution\<close>

definition ended_session :: "exec_status \<Rightarrow> instant \<Rightarrow> agent_session \<Rightarrow> agent_session" where
  "ended_session st t s = s\<lparr>ss_status := st, ss_finished_at := Some t\<rparr>"

definition end_session :: "execution_log \<Rightarrow> exec_status \<Rightarrow> instant \<Rightarrow> store \<Rightarrow> store" where
  "end_session e st t db = (case ex_session_id e of None \<Rightarrow> db | Some s \<Rightarrow> upd_session s (ended_session st t) db)"

definition run_failed :: "instant \<Rightarrow> string \<Rightarrow> execution_log \<Rightarrow> execution_log" where
  "run_failed t message e =
     e\<lparr>ex_status := X_failed, ex_error := Some (py_take 2000 message), ex_finished_at := Some t,
       ex_duration_ms := Some (elapsed_ms (ex_started_at e) t)\<rparr>"

text \<open>\<open>_fail_execution\<close>; a row that is gone cannot be refreshed.\<close>

definition fail_execution :: "uuid \<Rightarrow> string \<Rightarrow> ('m, 'o, unit) run" where
  "fail_execution x message w =
     (case get_execution x (rw_db w) of
        None \<Rightarrow> (Inl (Other_exn ''InvalidRequestError''), w)
      | Some e \<Rightarrow>
          if ex_status e = X_cancelled then rchange (\<lambda>t. cancel_running_steps t x) w
          else rchange (\<lambda>t db. fail_running_steps t x message
                 (end_session e X_failed t (upd_execution x (run_failed t message) db))) w)"

definition run_cancelled :: "instant \<Rightarrow> execution_log \<Rightarrow> execution_log" where
  "run_cancelled t e =
     e\<lparr>ex_status := X_cancelled, ex_error := None, ex_finished_at := Some t,
       ex_duration_ms := Some (elapsed_ms (ex_started_at e) t)\<rparr>"

text \<open>\<open>_cancel_execution\<close>: the token is revoked between the commit and the end of the steps.\<close>

definition cancel_execution :: "('m, 'o) run_env \<Rightarrow> uuid \<Rightarrow> ('m, 'o, unit) run" where
  "cancel_execution E x w =
     (case get_execution x (rw_db w) of
        None \<Rightarrow> (Inl (Other_exn ''InvalidRequestError''), w)
      | Some e \<Rightarrow>
          let w1 = snd (rchange (\<lambda>t db. end_session e X_cancelled t (upd_execution x (run_cancelled t) db)) w);
              named = (case dget (as_obj (ex_details e)) ''capability_token_jti'' of JStr j \<Rightarrow> j \<noteq> [] | _ \<Rightarrow> False) in
          if named \<and> \<not> rx_redis_up E then (Inl (Other_exn ''RedisError''), w1)
          else rchange (\<lambda>t. cancel_running_steps t x)
            (w1\<lparr>rw_marks := snd (revoke_execution_capability_token (rx_token_ttl E) (rw_now w1) (JObj (as_obj (ex_details e))) (rw_marks w1))\<rparr>))"

section \<open>Artifacts\<close>

definition artifact_row :: "uuid \<Rightarrow> instant \<Rightarrow> string \<Rightarrow> uuid \<Rightarrow> artifact_payload \<Rightarrow> stored_artifact \<Rightarrow> artifact" where
  "artifact_row i t agent_id session_id p st =
     \<lparr>ar_id = i, ar_agent_id = agent_id, ar_session_id = session_id, ar_filename = ap_filename p,
      ar_storage_type = sa_storage_type st, ar_storage_path = sa_storage_path st, ar_content_type = ap_content_type p,
      ar_artifact_type = ap_artifact_type p, ar_runtime_source = ap_source p, ar_size_bytes = int (size_bytes st),
      ar_sha256 = sa_sha256 st, ar_created_at = t\<rparr>"

definition stored_again :: "artifact_payload \<Rightarrow> stored_artifact \<Rightarrow> artifact \<Rightarrow> artifact" where
  "stored_again p st a =
     a\<lparr>ar_storage_type := sa_storage_type st, ar_storage_path := sa_storage_path st, ar_content_type := ap_content_type p,
       ar_artifact_type := ap_artifact_type p, ar_runtime_source := ap_source p, ar_size_bytes := int (size_bytes st),
       ar_sha256 := sa_sha256 st\<rparr>"

text \<open>The row of a file of a session is made or updated; its id is the result.\<close>

definition register_artifact ::
  "instant \<Rightarrow> string \<Rightarrow> uuid \<Rightarrow> artifact_payload \<Rightarrow> stored_artifact \<Rightarrow> store \<Rightarrow> uuid \<times> store"
where
  "register_artifact t agent_id session_id p st db =
     (case first_row (\<lambda>a. ar_session_id a = session_id \<and> ar_filename a = ap_filename p) (db_artifacts db) of
        None \<Rightarrow>
          (db_next_id db, db\<lparr>db_artifacts := db_artifacts db @ [artifact_row (db_next_id db) t agent_id session_id p st],
             db_next_id := Suc (db_next_id db)\<rparr>)
      | Some a \<Rightarrow> (ar_id a, db\<lparr>db_artifacts := row_upd ar_id (ar_id a) (stored_again p st) (db_artifacts db)\<rparr>))"

definition allowed_artifacts :: "json \<Rightarrow> json list" where
  "allowed_artifacts profile = as_arr (dget (as_obj profile) ''artifact_types'')"

text \<open>The artifacts in order; an error leaves what was written before it.\<close>

fun save_artifacts ::
  "('m, 'o) run_env \<Rightarrow> run_context \<Rightarrow> artifact_payload list \<Rightarrow> ('m, 'o, (uuid \<times> artifact_payload \<times> nat) list) run"
where
  "save_artifacts E C [] w = (Inr [], w)"
| "save_artifacts E C (p # ps) w =
     (let allowed = allowed_artifacts (ag_capability_profile (cx_agent C)) in
      if ap_source p \<noteq> ''platform'' \<and> allowed \<noteq> [] \<and> JStr (ap_artifact_type p) \<notin> set allowed
      then (Inl (Other_exn (''Runtime artifact type is not allowed: '' @ ap_artifact_type p)), w)
      else case write_output (rx_root E) (cx_workspace C) (ap_filename p) (ap_content p) (rw_fs w) of
        Inl e \<Rightarrow> (Inl (file_exn e), w)
      | Inr (_, fs) \<Rightarrow>
          (case rx_save E (ag_id (cx_agent C)) (cx_session C) (ap_filename p) (ap_content p) (ap_content_type p) (rw_objects w) of
             Inl e \<Rightarrow> (Inl (storage_exn e), w\<lparr>rw_fs := fs\<rparr>)
           | Inr (st, objects) \<Rightarrow>
               (case register_artifact (rw_now w) (ag_id (cx_agent C)) (cx_session C) p st (rw_db w) of
                  (i, db) \<Rightarrow>
                    (case save_artifacts E C ps (w\<lparr>rw_fs := fs, rw_objects := objects, rw_db := db\<rparr>) of
                       (Inl e, w') \<Rightarrow> (Inl e, w')
                     | (Inr is, w') \<Rightarrow> (Inr ((i, p, size_bytes st) # is), w')))))"

section \<open>Completing\<close>

definition completed_details :: "run_context \<Rightarrow> run_result \<Rightarrow> json \<Rightarrow> json" where
  "completed_details C r details =
     (let a = cx_agent C; d = as_obj details;
          opt = (\<lambda>v. case v of Some s \<Rightarrow> JStr s | None \<Rightarrow> JNull);
          common = dupdate d
            [(''phase'', JStr ''runtime_complete''), (''skills_loaded'', str_list (cx_skills C)),
             (''mcp_loaded'', str_list (cx_mcp_servers C)), (''mcp_calls'', dget_default d ''mcp_calls'' (JArr [])),
             (''knowledge_loaded'', str_list (cx_knowledge C)), (''knowledge_hits'', cx_knowledge_summary C),
             (''memory_scope'', JObj (cx_memory_scope C)), (''runtime_type'', JStr (ag_runtime_type a)),
             (''runtime_run_id'', opt (rr_run_id r)), (''runtime_status'', JStr (rr_status r)),
             (''token_usage'', case rr_token_usage r of Some n \<Rightarrow> JInt n | None \<Rightarrow> JNull), (''model'', JStr (ag_model a)),
             (''model_adapter'', JStr (ag_model_adapter a))] in
      JObj (if ag_runtime_type a = ''hermes''
            then dupdate common [(''hermes_run_id'', opt (rr_run_id r)), (''hermes_status'', JStr (rr_status r))]
            else common))"

definition completed :: "run_context \<Rightarrow> run_result \<Rightarrow> json \<Rightarrow> instant \<Rightarrow> execution_log \<Rightarrow> execution_log" where
  "completed C r v t e =
     e\<lparr>ex_status := X_succeeded, ex_output := Some (rr_output r), ex_output_json := (if is_str v then JNull else v),
       ex_details := completed_details C r (ex_details e), ex_finished_at := Some t,
       ex_duration_ms := Some (elapsed_ms (ex_started_at e) t), ex_token_usage := rr_token_usage r\<rparr>"

definition succeeded_session :: "run_result \<Rightarrow> instant \<Rightarrow> agent_session \<Rightarrow> agent_session" where
  "succeeded_session r t s = s\<lparr>ss_status := X_succeeded, ss_output := Some (rr_output r), ss_finished_at := Some t\<rparr>"

text \<open>One step for each call of an MCP tool that the details tell of.\<close>

definition log_mcp_call :: "('m, 'o) run_env \<Rightarrow> run_context \<Rightarrow> nat \<times> json \<Rightarrow> ('m, 'o, unit) run" where
  "log_mcp_call E C = (\<lambda>(i, call).
     case call of
       JObj d \<Rightarrow>
         (let status = py_str (rx_rep E) (py_or (dget d ''status'') (JStr ''succeeded'')) in
          log_step (cx_execution C)
            (if cx_attempt C = 0 then ''mcp_call_'' @ nat_str i else ''mcp_call_'' @ nat_str (cx_attempt C) @ ''_'' @ nat_str i)
            (int (cx_attempt C) * 1000 + 710 + int i) ''mcp''
            (''MCP Call: '' @ py_str (rx_rep E) (py_or (dget d ''tool'') (JStr ''unknown'')))
            (if status \<in> {''success'', ''succeeded''} then P_succeeded else P_failed)
            (as_obj (dget d ''input'')) [(''mcp_id'', dget d ''mcp_id''), (''result'', dget d ''result'')]
            (if truthy (dget d ''error'') then Some (py_str (rx_rep E) (dget d ''error'')) else None) None)
     | _ \<Rightarrow> aret ())"

definition log_artifact :: "run_context \<Rightarrow> nat \<times> uuid \<times> artifact_payload \<times> nat \<Rightarrow> ('m, 'o, unit) run" where
  "log_artifact C = (\<lambda>(i, a, p, size).
     abind (rchange (\<lambda>t. link_artifact (cx_execution C) a)) (\<lambda>_.
     log_step (cx_execution C)
       (if cx_attempt C = 0 then ''artifact_save_'' @ nat_str i else ''artifact_save_'' @ nat_str (cx_attempt C) @ ''_'' @ nat_str i)
       (int (cx_attempt C) * 1000 + 900 + int i) ''artifact'' ''Artifact Created'' P_succeeded []
       [(''artifact_id'', JStr (uuid_str a)), (''filename'', JStr (ap_filename p)), (''artifact_type'', JStr (ap_artifact_type p)),
        (''runtime_source'', JStr (ap_source p)), (''size_bytes'', JInt (int size))] None None))"

text \<open>
  \<open>_complete_execution\<close>. What is written before the commit is lost with an error, but for the error of
  the storage: failing the execution commits then what the session has sent to the database, which it
  has after the first artifact, and before it as \<open>rx_flushed\<close> says.
\<close>

definition complete_execution :: "('m, 'o) run_env \<Rightarrow> run_context \<Rightarrow> run_result \<Rightarrow> json \<Rightarrow> ('m, 'o, unit) run" where
  "complete_execution E C r v w =
     (let x = cx_execution C in
      case get_execution x (rw_db w) of
        None \<Rightarrow> (Inl (Other_exn ''InvalidRequestError''), w)
      | Some e \<Rightarrow>
          if ex_status e = X_cancelled then (Inl (Run_cancelled ''Agent Runtime execution was cancelled''), w)
          else if get_session (cx_session C) (rw_db w) = None
          then (Inl (Other_exn ''orchestration Session disappeared during execution''), w)
          else
            let w1 = w\<lparr>rw_db := upd_execution x (completed C r v (rw_now w)) (rw_db w)\<rparr> in
            (case save_artifacts E C (execution_artifact_payloads (rx_indented E) (ag_runtime_type (cx_agent C)) r v) w1 of
               (Inl (Storage_failed m), w2) \<Rightarrow>
                 (Inl (Storage_failed m),
                  if rx_flushed E \<or> db_artifacts (rw_db w2) \<noteq> db_artifacts (rw_db w) then w2 else w2\<lparr>rw_db := rw_db w\<rparr>)
             | (Inl e', w2) \<Rightarrow> (Inl e', w2\<lparr>rw_db := rw_db w\<rparr>)
             | (Inr saved, w2) \<Rightarrow>
                 abind (rchange (\<lambda>t. upd_session (cx_session C) (succeeded_session r t))) (\<lambda>_.
                 abind (rlift (map_error python_exn (json_items (dget_default (as_obj (ex_details e)) ''mcp_calls'' (JArr []))))) (\<lambda>calls.
                 abind (afor (log_mcp_call E C) (enumerate 0 calls)) (\<lambda>_.
                 afor (log_artifact C) (enumerate 0 saved)))) w2))"

section \<open>The runtime\<close>

definition session_of_runtime :: "string \<Rightarrow> string \<Rightarrow> agent_session \<Rightarrow> agent_session" where
  "session_of_runtime ty i s = s\<lparr>ss_runtime_type := ty, ss_runtime_session_id := Some i\<rparr>"

definition forgotten_session :: "agent_session \<Rightarrow> agent_session" where
  "forgotten_session s = s\<lparr>ss_runtime_session_id := None\<rparr>"

definition runtime_details :: "string \<Rightarrow> string \<Rightarrow> agent_runtime option \<Rightarrow> dict" where
  "runtime_details ty i found =
     [(''runtime_type'', JStr ty), (''runtime_session_id'', JStr i),
      (''runtime_id'', case found of Some r \<Rightarrow> JStr (uuid_str (rt_id r)) | None \<Rightarrow> JNull),
      (''runtime_version'', case found of Some r \<Rightarrow> JStr (rt_version r) | None \<Rightarrow> JNull)]"

definition on_runtime ::
  "string \<Rightarrow> agent_runtime option \<Rightarrow> json option \<Rightarrow> execution_log \<Rightarrow> execution_log" where
  "on_runtime ty found details e =
     e\<lparr>ex_runtime_type := ty, ex_runtime_id := map_option rt_id found, ex_runtime_version := map_option rt_version found,
       ex_details := (case details of Some d \<Rightarrow> d | None \<Rightarrow> ex_details e)\<rparr>"

text \<open>
  \<open>_execution_runtime\<close>: a session of the runtime is made when there is none, when it is of another
  type, or for another attempt on the DeepSeek runtime. The details written are those of the
  preparation, with what is added here; nothing is written when nothing is added.
\<close>

definition made_session :: "('m, 'o) run_env \<Rightarrow> run_context \<Rightarrow> agent_session \<Rightarrow> ('m, 'o, string option) run" where
  "made_session E C s w =
     (let a = cx_agent C; ty = ag_runtime_type a;
          fresh = requires_fresh_runtime_session ty (cx_attempt C);
          forget = (if fresh then upd_session (cx_session C) forgotten_session else id) in
      if \<not> fresh \<and> ss_runtime_session_id s \<noteq> None \<and> ss_runtime_session_id s \<noteq> Some [] \<and> ss_runtime_type s = ty
      then (Inr None, w)
      else case rx_new_session E C w of
        (Inl (Runtime_failed m), w1) \<Rightarrow> (Inl (Runtime_failed m), w1\<lparr>rw_db := forget (rw_db w1)\<rparr>)
      | (Inl (Adapter_failed m), w1) \<Rightarrow> (Inl (Adapter_failed m), w1\<lparr>rw_db := forget (rw_db w1)\<rparr>)
      | (Inl (Run_cancelled m), w1) \<Rightarrow> (Inl (Run_cancelled m), w1\<lparr>rw_db := forget (rw_db w1)\<rparr>)
      | (Inl (Value_failed m), w1) \<Rightarrow> (Inl (Value_failed m), w1\<lparr>rw_db := forget (rw_db w1)\<rparr>)
      | (Inl e, w1) \<Rightarrow> (Inl e, w1)
      | (Inr i, w1) \<Rightarrow> (Inr (Some i), w1\<lparr>rw_db := upd_session (cx_session C) (session_of_runtime ty i) (rw_db w1)\<rparr>))"

definition execution_runtime :: "('m, 'o) run_env \<Rightarrow> run_context \<Rightarrow> ('m, 'o, string) run" where
  "execution_runtime E C w =
     (let a = cx_agent C; ty = ag_runtime_type a in
      case route (rx_rep E) (rx_adapter_refused E) ty (ag_runtime_id a) (as_obj (ag_runtime_config a)) (cs_runtimes (rw_cap w)) of
        Inl m \<Rightarrow> (Inl (Adapter_failed m), w)
      | Inr found \<Rightarrow>
          (case get_session (cx_session C) (rw_db w) of
             None \<Rightarrow> (Inl (Adapter_failed ''platform Runtime session was not found''), w)
           | Some s \<Rightarrow>
               abind (made_session E C s) (\<lambda>made.
                 let d1 = (case made of Some i \<Rightarrow> Some (dupdate (as_obj (cx_details C)) (runtime_details ty i found)) | None \<Rightarrow> None);
                     d2 = (if ty = ''pi''
                           then Some (dupdate (case d1 of Some d \<Rightarrow> d | None \<Rightarrow> as_obj (cx_details C))
                             [(''runtime_run_id'', JStr (uuid_str (cx_execution C)))])
                           else d1) in
                 abind (rchange (\<lambda>t. upd_execution (cx_execution C) (on_runtime ty found (map_option JObj d2)))) (\<lambda>_.
                 aret (case made of Some i \<Rightarrow> i | None \<Rightarrow> the (ss_runtime_session_id s)))) w))"

text \<open>\<open>str.title()\<close>.\<close>

fun title_from :: "bool \<Rightarrow> string \<Rightarrow> string" where
  "title_from inside_word [] = []"
| "title_from inside_word (c # cs) =
     (if inside_word then lower_char c else upper_char c) # title_from (is_lower (lower_char c)) cs"

definition event_latency :: "dict \<Rightarrow> int option" where
  "event_latency raw =
     (case py_or (dget raw ''latency_ms'') (dget raw ''duration_ms'') of
        JInt i \<Rightarrow> if 0 \<le> i then Some i else None
      | JFloat r \<Rightarrow> if 0 \<le> r then Some \<lfloor>r\<rfloor> else None
      | _ \<Rightarrow> None)"

text \<open>\<open>_record_runtime_trace\<close>: a step for each of the first hundred events.\<close>

definition record_trace_event :: "('m, 'o) run_env \<Rightarrow> run_context \<Rightarrow> nat \<times> dict \<Rightarrow> ('m, 'o, unit) run" where
  "record_trace_event E C = (\<lambda>(i, raw).
     case normalize_trace_event (rx_rep E) raw of (event_type, step_type, status) \<Rightarrow>
       (let ty = ag_runtime_type (cx_agent C) in
        log_step (cx_execution C) (ty @ ''_trace_'' @ nat_str (cx_attempt C) @ ''_'' @ nat_str i)
          (int (cx_attempt C) * 1000 + 710 + int i) step_type (title_from False ty @ '' Trace: '' @ event_type) status
          (as_obj (dget raw ''input''))
          [(''runtime'', JStr ty), (''event'', JStr event_type), (''data'', py_or (dget raw ''output'') (dget raw ''data''))]
          (if truthy (dget raw ''error'') then Some (py_str (rx_rep E) (dget raw ''error'')) else None)
          (event_latency raw)))"

definition record_runtime_trace :: "('m, 'o) run_env \<Rightarrow> run_context \<Rightarrow> run_result \<Rightarrow> ('m, 'o, unit) run" where
  "record_runtime_trace E C r = afor (record_trace_event E C) (enumerate 0 (take 100 (rr_trace r)))"

section \<open>Running\<close>

text \<open>\<open>_validate_output\<close>: the validator a caller gives checks against a schema of its own.\<close>

definition output_contract :: "run_context \<Rightarrow> dict" where
  "output_contract C = (case cx_validator C of Some schema \<Rightarrow> schema | None \<Rightarrow> cx_output_schema C)"

definition validate_output :: "('m, 'o) run_env \<Rightarrow> dict \<Rightarrow> string \<Rightarrow> run_exn + json" where
  "validate_output E schema output =
     map_error Value_failed (parse_and_validate_output (rx_loads E) (rx_invalid_json E) (rx_schema_errors E) schema output)"

text \<open>A result of the runtime is traced, validated and remembered.\<close>

definition accept_result ::
  "('m, 'o) run_env \<Rightarrow> run_context \<Rightarrow> agent_request \<Rightarrow> execution_step \<Rightarrow> run_result \<Rightarrow> ('m, 'o, json) run"
where
  "accept_result E C q runtime_step r =
     abind (rchange (\<lambda>t db. snd (finish_step t runtime_step P_succeeded
       (Some [(''run_id'', opt_str (rr_run_id r)), (''status'', JStr (rr_status r))]) None db))) (\<lambda>_.
     abind (record_runtime_trace E C r) (\<lambda>_.
     abind (rlift (validate_output E (output_contract C) (rr_output r))) (\<lambda>v.
     abind (log_step (cx_execution C) (attempt_key ''output_schema_validate'' (cx_attempt C))
       (int (cx_attempt C) * 1000 + 800) ''schema'' ''Output Schema Validate''
       (if cx_output_schema C \<noteq> [] then P_succeeded else P_skipped)
       [] [(''validated'', JBool (cx_output_schema C \<noteq> []))] None None) (\<lambda>_.
     abind (\<lambda>w. case rx_append E (ag_id (cx_agent C)) (rq_session_id q) (rq_input q) (rr_output r) (rw_memory w) of
        (x, m) \<Rightarrow> (map_error memory_exn x, w\<lparr>rw_memory := m\<rparr>)) (\<lambda>_.
     aret v)))))"

definition start_runtime_step :: "run_context \<Rightarrow> ('m, 'o, execution_step) run" where
  "start_runtime_step C w =
     (let a = cx_agent C; ty = ag_runtime_type a in
      case start_step (rw_now w) (cx_execution C) (attempt_key (ty @ ''_runtime'') (cx_attempt C))
          (int (cx_attempt C) * 1000 + 700) ''runtime'' (title_from False ty @ '' Runtime'')
          (Some [(''runtime'', JStr ty), (''model'', JStr (ag_model a)), (''adapter'', JStr (ag_model_adapter a))]) False
          (rw_db w) of
        (s, db) \<Rightarrow> (Inr s, w\<lparr>rw_db := db\<rparr>))"

text \<open>An error that ends the execution: it is failed or cancelled, and another error is told.\<close>

definition failed_with :: "uuid \<Rightarrow> string \<Rightarrow> nat \<Rightarrow> string \<Rightarrow> ('m, 'o, 'a) run" where
  "failed_with x message code detail = abind (fail_execution x message) (\<lambda>_. araise (Http_error code (JStr detail)))"

definition cancelled_with :: "('m, 'o) run_env \<Rightarrow> uuid \<Rightarrow> ('m, 'o, 'a) run" where
  "cancelled_with E x =
     abind (cancel_execution E x) (\<lambda>_. araise (Http_error 409 (JStr ''Agent Runtime execution cancelled'')))"

definition runtime_part :: "('m, 'o) run_env \<Rightarrow> run_context \<Rightarrow> agent_request \<Rightarrow> execution_step \<Rightarrow> ('m, 'o, run_result \<times> json) run" where
  "runtime_part E C q s =
     abind (execution_runtime E C) (\<lambda>session_id.
     abind (rx_execute E C session_id) (\<lambda>r.
     abind (accept_result E C q s r) (\<lambda>v. aret (r, v))))"

definition finish_run :: "('m, 'o) run_env \<Rightarrow> run_context \<Rightarrow> run_result \<Rightarrow> json \<Rightarrow> ('m, 'o, run_result) run" where
  "finish_run E C r v w =
     (case complete_execution E C r v w of
        (Inl (Run_cancelled m), w') \<Rightarrow> cancelled_with E (cx_execution C) w'
      | (Inl (Storage_failed m), w') \<Rightarrow> failed_with (cx_execution C) m 503 ''Artifact storage is unavailable'' w'
      | (Inl e, w') \<Rightarrow> (Inl e, w')
      | (Inr _, w') \<Rightarrow> (Inr r, w'))"

text \<open>\<open>execute_agent_sync\<close> once the execution is prepared.\<close>

definition run_prepared :: "('m, 'o) run_env \<Rightarrow> run_context \<Rightarrow> agent_request \<Rightarrow> ('m, 'o, run_result) run" where
  "run_prepared E C q =
     abind (start_runtime_step C) (\<lambda>s w.
       case runtime_part E C q s w of
         (Inl (Memory_failed m), w') \<Rightarrow> failed_with (cx_execution C) m 503 ''Agent memory is unavailable'' w'
       | (Inl (Run_cancelled m), w') \<Rightarrow> cancelled_with E (cx_execution C) w'
       | (Inl (Runtime_failed m), w') \<Rightarrow> failed_with (cx_execution C) m 502 ''Agent Runtime execution failed'' w'
       | (Inl (Adapter_failed m), w') \<Rightarrow> failed_with (cx_execution C) m 502 ''Agent Runtime execution failed'' w'
       | (Inl (Value_failed m), w') \<Rightarrow> failed_with (cx_execution C) m 502 m w'
       | (Inl e, w') \<Rightarrow> (Inl e, w')
       | (Inr (r, v), w') \<Rightarrow> finish_run E C r v w')"

end
