(* ===== verification/Agent_Runs_Correct.thy ===== *)
theory Agent_Runs_Correct
  imports Run_Preparation
begin

text \<open>
  What a run guarantees: a result that is returned has been validated, recorded and linked with its
  artifacts; a refused run has ended, with none of its steps left running; a run that is cancelled
  while the runtime works stays cancelled; and the token that is prepared is accepted for exactly the
  bindings that were resolved.
\<close>

section \<open>Frames\<close>

lemma record_step_frame:
  "record_step t x key n ty name status d od err latency db = (s, db') \<Longrightarrow>
     db_executions db' = db_executions db \<and> db_sessions db' = db_sessions db \<and>
     db_artifacts db' = db_artifacts db \<and> db_execution_artifacts db' = db_execution_artifacts db"
  by (auto simp: record_step_def start_step_def finish_step_def upd_step_def Let_def
      split: prod.splits option.splits if_splits)

text \<open>The rows other than the steps, as a whole.\<close>

definition rows_of :: "('m, 'o) run_world \<Rightarrow> execution_log list \<times> agent_session list \<times> artifact list" where
  "rows_of w = (db_executions (rw_db w), db_sessions (rw_db w), db_artifacts (rw_db w))"

definition links_of :: "('m, 'o) run_world \<Rightarrow> (uuid \<times> uuid) set" where
  "links_of w = set (db_execution_artifacts (rw_db w))"

lemma log_step_frame:
  "log_step x key n ty name status d od err latency w = (r, w') \<Longrightarrow> r = Inr () \<and> rows_of w' = rows_of w \<and> links_of w' = links_of w"
  by (cases "record_step (rw_now w) x key n ty name status (Some d) (Some od) err latency (rw_db w)")
    (auto simp: log_step_def rchange_def rows_of_def links_of_def dest: record_step_frame)

lemma log_mcp_call_frame:
  "log_mcp_call E C p w = (r, w') \<Longrightarrow> rows_of w' = rows_of w \<and> links_of w' = links_of w"
  by (cases p; cases "snd p") (auto simp: log_mcp_call_def Let_def aret_def dest: log_step_frame)

lemma record_trace_event_frame:
  "record_trace_event E C p w = (r, w') \<Longrightarrow> rows_of w' = rows_of w \<and> links_of w' = links_of w"
  by (cases p) (auto simp: record_trace_event_def Let_def split: prod.splits dest: log_step_frame)

lemma log_artifact_frame:
  assumes "log_artifact C p w = (r, w')"
  shows "r = Inr () \<and> rows_of w' = rows_of w \<and> links_of w' = insert (cx_execution C, fst (snd p)) (links_of w)"
proof -
  obtain i a q size where p: "p = (i, a, q, size)" by (cases p) auto
  define w1 where "w1 = w\<lparr>rw_db := link_artifact (cx_execution C) a (rw_db w)\<rparr>"
  have "rows_of w1 = rows_of w" "links_of w1 = insert (cx_execution C, a) (links_of w)"
    by (auto simp: w1_def rows_of_def links_of_def link_artifact_def)
  moreover have "r = Inr () \<and> rows_of w' = rows_of w1 \<and> links_of w' = links_of w1"
    using assms by (auto simp: log_artifact_def p abind_def rchange_def w1_def dest: log_step_frame)
  ultimately show ?thesis by (simp add: p)
qed

lemma log_artifacts:
  "afor (log_artifact C) ps w = (r, w') \<Longrightarrow>
     r = Inr () \<and> rows_of w' = rows_of w \<and> links_of w' = (\<lambda>p. (cx_execution C, fst (snd p))) ` set ps \<union> links_of w"
proof (induction ps arbitrary: w)
  case (Cons p ps)
  obtain r1 w1 where f: "log_artifact C p w = (r1, w1)" by (cases "log_artifact C p w")
  show ?case using log_artifact_frame [OF f] Cons.prems f Cons.IH [of w1] by auto
qed simp

section \<open>Artifacts\<close>

definition has_artifact :: "uuid \<Rightarrow> uuid \<Rightarrow> artifact_payload \<Rightarrow> artifact list \<Rightarrow> bool" where
  "has_artifact i session_id p rows \<longleftrightarrow>
     (\<exists>a\<in>set rows. ar_id a = i \<and> ar_session_id a = session_id \<and> ar_filename a = ap_filename p)"

lemma stored_again_keys [simp]:
  "ar_id (stored_again p st a) = ar_id a" "ar_session_id (stored_again p st a) = ar_session_id a"
  "ar_filename (stored_again p st a) = ar_filename a"
  by (simp_all add: stored_again_def)

lemma has_artifact_upd:
  "has_artifact j s q (row_upd ar_id k (stored_again p st) rows) \<longleftrightarrow> has_artifact j s q rows"
proof -
  let ?f = "\<lambda>a. if ar_id a = k then stored_again p st a else a"
  have f: "ar_id (?f a) = ar_id a" "ar_session_id (?f a) = ar_session_id a" "ar_filename (?f a) = ar_filename a" for a
    by simp_all
  show ?thesis unfolding has_artifact_def set_row_upd bex_simps(7) f ..
qed

lemma register_artifact_rows:
  assumes "register_artifact t agent_id session_id p st db = (i, db')"
  shows "has_artifact i session_id p (db_artifacts db')"
    and "has_artifact j s' q (db_artifacts db) \<Longrightarrow> has_artifact j s' q (db_artifacts db')"
    and "db_executions db' = db_executions db" and "db_sessions db' = db_sessions db"
    and "db_execution_artifacts db' = db_execution_artifacts db"
proof -
  have "has_artifact i session_id p (db_artifacts db') \<and>
      (has_artifact j s' q (db_artifacts db) \<longrightarrow> has_artifact j s' q (db_artifacts db')) \<and>
      db_executions db' = db_executions db \<and> db_sessions db' = db_sessions db \<and>
      db_execution_artifacts db' = db_execution_artifacts db"
  proof (cases "first_row (\<lambda>a. ar_session_id a = session_id \<and> ar_filename a = ap_filename p) (db_artifacts db)")
    case None
    then show ?thesis using assms by (auto simp: register_artifact_def has_artifact_def artifact_row_def)
  next
    case (Some a)
    note a = first_row_Some [OF Some]
    have "has_artifact k s1 q1 (db_artifacts db')" if "has_artifact k s1 q1 (db_artifacts db)" for k s1 q1
      using that assms Some by (auto simp: register_artifact_def has_artifact_upd)
    moreover have "has_artifact i session_id p (db_artifacts db)"
      using a assms Some by (auto simp: register_artifact_def has_artifact_def)
    ultimately show ?thesis using assms Some by (auto simp: register_artifact_def)
  qed
  then show "has_artifact i session_id p (db_artifacts db')"
    "has_artifact j s' q (db_artifacts db) \<Longrightarrow> has_artifact j s' q (db_artifacts db')"
    "db_executions db' = db_executions db" "db_sessions db' = db_sessions db"
    "db_execution_artifacts db' = db_execution_artifacts db"
    by blast+
qed

lemma save_artifacts_rows:
  assumes "save_artifacts E C ps w = (r, w')"
  shows "db_executions (rw_db w') = db_executions (rw_db w) \<and> db_sessions (rw_db w') = db_sessions (rw_db w) \<and>
      links_of w' = links_of w \<and>
      (\<forall>j s q. has_artifact j s q (db_artifacts (rw_db w)) \<longrightarrow> has_artifact j s q (db_artifacts (rw_db w'))) \<and>
      (\<forall>saved. r = Inr saved \<longrightarrow> map (fst \<circ> snd) saved = ps \<and>
         (\<forall>(i, p, size)\<in>set saved. has_artifact i (cx_session C) p (db_artifacts (rw_db w'))))"
  using assms
proof (induction ps arbitrary: w r w')
  case Nil
  then show ?case by auto
next
  case (Cons p ps)
  let ?refused = "ap_source p \<noteq> ''platform'' \<and> allowed_artifacts (ag_capability_profile (cx_agent C)) \<noteq> [] \<and>
    JStr (ap_artifact_type p) \<notin> set (allowed_artifacts (ag_capability_profile (cx_agent C)))"
  show ?case
  proof (cases ?refused)
    case True
    then show ?thesis using Cons.prems by (auto simp: Let_def)
  next
    case False
    note refused = False
    show ?thesis
    proof (cases "write_output (rx_root E) (cx_workspace C) (ap_filename p) (ap_content p) (rw_fs w)")
      case (Inl e)
      then show ?thesis using Cons.prems refused by (auto simp: Let_def)
    next
      case (Inr t)
      note written = Inr
      obtain tp fs where t: "t = (tp, fs)" by (cases t)
      show ?thesis
      proof (cases "rx_save E (ag_id (cx_agent C)) (cx_session C) (ap_filename p) (ap_content p) (ap_content_type p) (rw_objects w)")
        case (Inl e)
        then show ?thesis using Cons.prems refused written t by (auto simp: Let_def links_of_def)
      next
        case (Inr u)
        obtain st objects where u: "u = (st, objects)" by (cases u)
        obtain i db where g: "register_artifact (rw_now w) (ag_id (cx_agent C)) (cx_session C) p st (rw_db w) = (i, db)"
          by (cases "register_artifact (rw_now w) (ag_id (cx_agent C)) (cx_session C) p st (rw_db w)")
        define w1 where "w1 = w\<lparr>rw_fs := fs, rw_objects := objects, rw_db := db\<rparr>"
        obtain r2 w2 where rest: "save_artifacts E C ps w1 = (r2, w2)" by (cases "save_artifacts E C ps w1")
        note rows = register_artifact_rows [OF g]
        have step: "(r, w') = (case r2 of Inl e \<Rightarrow> (Inl e, w2) | Inr is \<Rightarrow> (Inr ((i, p, size_bytes st) # is), w2))"
          using Cons.prems refused written t Inr u g rest by (auto simp: Let_def w1_def split: sum.splits)
        have w1: "rw_db w1 = db" "links_of w1 = links_of w" by (simp_all add: w1_def links_of_def rows)
        have w2: "w' = w2" using step by (cases r2) auto
        note ih = Cons.IH [OF rest, unfolded w1]
        have keep: "has_artifact j s q (db_artifacts (rw_db w'))" if "has_artifact j s q (db_artifacts (rw_db w))" for j s q
          using ih rows(2) [OF that] w2 by blast
        have new: "has_artifact i (cx_session C) p (db_artifacts (rw_db w'))" using ih rows(1) w2 by blast
        show ?thesis using ih step w2 rows(3,4) keep new by (cases r2) auto
      qed
    qed
  qed
qed

section \<open>Completing\<close>

lemma completed_id [simp]: "ex_id (completed C r v t e) = ex_id e"
  by (simp add: completed_def)

lemma succeeded_session_id [simp]: "ss_id (succeeded_session r t s) = ss_id s"
  by (simp add: succeeded_session_def)

definition recorded :: "('m, 'o) run_env \<Rightarrow> run_context \<Rightarrow> run_result \<Rightarrow> json \<Rightarrow> ('m, 'o) run_world \<Rightarrow> bool" where
  "recorded E C r v w \<longleftrightarrow>
     (\<exists>e s. get_execution (cx_execution C) (rw_db w) = Some e \<and> ex_status e = X_succeeded \<and>
        ex_output e = Some (rr_output r) \<and> get_session (cx_session C) (rw_db w) = Some s \<and>
        ss_status s = X_succeeded \<and> ss_output s = Some (rr_output r)) \<and>
     (\<forall>p\<in>set (execution_artifact_payloads (rx_indented E) (ag_runtime_type (cx_agent C)) r v).
        \<exists>a\<in>set (db_artifacts (rw_db w)). ar_session_id a = cx_session C \<and> ar_filename a = ap_filename p \<and>
          (cx_execution C, ar_id a) \<in> set (db_execution_artifacts (rw_db w)))"

lemma complete_execution_recorded:
  assumes "complete_execution E C r v w = (Inr u, w')"
  shows "recorded E C r v w'"
proof -
  let ?x = "cx_execution C"
  let ?ps = "execution_artifact_payloads (rx_indented E) (ag_runtime_type (cx_agent C)) r v"
  define w1 where "w1 = w\<lparr>rw_db := upd_execution ?x (completed C r v (rw_now w)) (rw_db w)\<rparr>"
  obtain e where e: "get_execution ?x (rw_db w) = Some e"
    using assms by (cases "get_execution ?x (rw_db w)") (auto simp: complete_execution_def)
  obtain s where s: "get_session (cx_session C) (rw_db w) = Some s"
    using assms e by (cases "get_session (cx_session C) (rw_db w)") (auto simp: complete_execution_def Let_def split: if_splits)
  obtain r2 w2 where save: "save_artifacts E C ?ps w1 = (r2, w2)" by (cases "save_artifacts E C ?ps w1")
  note rows = save_artifacts_rows [OF save]
  define w3 where "w3 = w2\<lparr>rw_db := upd_session (cx_session C) (succeeded_session r (rw_now w2)) (rw_db w2)\<rparr>"
  obtain saved calls w4 where saved: "r2 = Inr saved"
    and calls: "afor (log_mcp_call E C) (enumerate 0 calls) w3 = (Inr (), w4)"
    and linked: "afor (log_artifact C) (enumerate 0 saved) w4 = (Inr u, w')"
  proof -
    have "\<exists>saved. r2 = Inr saved"
    proof (cases r2)
      case (Inl e')
      then have False using assms e s save by (cases e') (auto simp: complete_execution_def Let_def w1_def split: if_splits)
      then show ?thesis ..
    qed simp
    then obtain saved where r2: "r2 = Inr saved" ..
    then have "abind (rchange (\<lambda>t. upd_session (cx_session C) (succeeded_session r t))) (\<lambda>_.
        abind (rlift (map_error python_exn (json_items (dget_default (as_obj (ex_details e)) ''mcp_calls'' (JArr []))))) (\<lambda>calls.
        abind (afor (log_mcp_call E C) (enumerate 0 calls)) (\<lambda>_.
        afor (log_artifact C) (enumerate 0 saved)))) w2 = (Inr u, w')"
      using assms e s save by (auto simp: complete_execution_def Let_def w1_def split: if_splits)
    then show thesis
      using that r2 by (auto simp: abind_Inr rchange_def rlift_def w3_def)
  qed
  have mcp: "rows_of w4 = rows_of w3 \<and> links_of w4 = links_of w3"
    using afor_inv [OF calls, where P = "\<lambda>w. rows_of w = rows_of w3 \<and> links_of w = links_of w3"] log_mcp_call_frame by metis
  note l = log_artifacts [OF linked]
  have final: "rows_of w' = rows_of w3" using l mcp by simp
  have x': "get_execution ?x (rw_db w') = Some (completed C r v (rw_now w) e)"
    using final e rows by (simp add: rows_of_def w3_def w1_def execution_rows.get_upd_same)
  have s': "get_session (cx_session C) (rw_db w') = Some (succeeded_session r (rw_now w2) s)"
    using final s rows by (simp add: rows_of_def w3_def w1_def session_rows.get_upd_same)
  have art: "db_artifacts (rw_db w') = db_artifacts (rw_db w2)" using final by (simp add: rows_of_def w3_def)
  have link: "(?x, i) \<in> set (db_execution_artifacts (rw_db w'))" if "(i, p, size) \<in> set saved" for i p size
  proof -
    have "(i, p, size) \<in> set (map snd (enumerate 0 saved))" using that by simp
    then obtain z where z: "z \<in> set (enumerate 0 saved)" "snd z = (i, p, size)" unfolding set_map by auto
    have "(?x, fst (snd z)) \<in> links_of w'" using l z(1) by blast
    then show ?thesis using z(2) by (simp add: links_of_def)
  qed
  have "\<exists>a\<in>set (db_artifacts (rw_db w')). ar_session_id a = cx_session C \<and> ar_filename a = ap_filename p \<and>
      (?x, ar_id a) \<in> set (db_execution_artifacts (rw_db w'))" if p: "p \<in> set ?ps" for p
  proof -
    have "p \<in> set (map (fst \<circ> snd) saved)" using rows saved p by simp
    then obtain i size where m: "(i, p, size) \<in> set saved" by auto
    then have "has_artifact i (cx_session C) p (db_artifacts (rw_db w2))" using rows saved by auto
    then show ?thesis using link [OF m] art by (auto simp: has_artifact_def)
  qed
  then show ?thesis
    unfolding recorded_def x' s' by (simp add: completed_def succeeded_session_def)
qed

section \<open>A run that returns\<close>

lemma failed_with_error: "fst (failed_with x m c d w) \<noteq> Inr y" "fst (cancelled_with E x w) \<noteq> Inr y"
  by (cases "fail_execution x m w"; cases "fst (fail_execution x m w)";
      cases "cancel_execution E x w"; cases "fst (cancel_execution E x w)";
      simp add: failed_with_def cancelled_with_def abind_def araise_def)+

lemma failed_with_not_Inr [simp]:
  "failed_with x m c d w \<noteq> (Inr y, w')" "cancelled_with E x w \<noteq> (Inr y, w')"
  by (metis failed_with_error fst_conv)+

lemma start_runtime_step_Inr:
  "\<exists>s db. start_runtime_step C w = (Inr s, w\<lparr>rw_db := db\<rparr>) \<and> rows_of (w\<lparr>rw_db := db\<rparr>) = rows_of w"
  by (auto simp: start_runtime_step_def start_step_def upd_step_def rows_of_def Let_def
      split: prod.splits option.splits if_splits)

lemma finish_run_Inr:
  assumes "finish_run E C r v w = (Inr r', w')"
  shows "r' = r \<and> complete_execution E C r v w = (Inr (), w')"
proof -
  obtain x w1 where c: "complete_execution E C r v w = (x, w1)" by (cases "complete_execution E C r v w")
  show ?thesis
  proof (cases x)
    case (Inl e)
    have "False"
      using assms c Inl by (cases e) (auto simp: finish_run_def)
    then show ?thesis ..
  next
    case (Inr u)
    then show ?thesis using assms c by (simp add: finish_run_def)
  qed
qed

lemma run_prepared_Inr:
  assumes "run_prepared E C q w = (Inr r, w')"
  obtains s w1 v w2 where "start_runtime_step C w = (Inr s, w1)" and "runtime_part E C q s w1 = (Inr (r, v), w2)"
    and "complete_execution E C r v w2 = (Inr (), w')"
proof -
  obtain s w1 where s: "start_runtime_step C w = (Inr s, w1)"
    using start_runtime_step_Inr by blast
  obtain x w2 where x: "runtime_part E C q s w1 = (x, w2)" by (cases "runtime_part E C q s w1")
  have run: "run_prepared E C q w = (case (x, w2) of
         (Inl (Memory_failed m), w') \<Rightarrow> failed_with (cx_execution C) m 503 ''Agent memory is unavailable'' w'
       | (Inl (Run_cancelled m), w') \<Rightarrow> cancelled_with E (cx_execution C) w'
       | (Inl (Runtime_failed m), w') \<Rightarrow> failed_with (cx_execution C) m 502 ''Agent Runtime execution failed'' w'
       | (Inl (Adapter_failed m), w') \<Rightarrow> failed_with (cx_execution C) m 502 ''Agent Runtime execution failed'' w'
       | (Inl (Value_failed m), w') \<Rightarrow> failed_with (cx_execution C) m 502 m w'
       | (Inl e, w') \<Rightarrow> (Inl e, w')
       | (Inr (r, v), w') \<Rightarrow> finish_run E C r v w')"
    using s x by (simp add: run_prepared_def)
  show thesis
  proof (cases x)
    case (Inl e)
    have "fst (run_prepared E C q w) \<noteq> Inr r"
      unfolding run Inl by (cases e) (simp_all add: failed_with_error)
    then show thesis using assms by simp
  next
    case (Inr p)
    obtain r0 v where p: "p = (r0, v)" by (cases p)
    have "finish_run E C r0 v w2 = (Inr r, w')" using run assms Inr p by simp
    from finish_run_Inr [OF this] show thesis using that s x Inr p by simp
  qed
qed

lemma runtime_part_Inr:
  assumes "runtime_part E C q s w = (Inr (r, v), w')"
  shows "validate_output E (output_contract C) (rr_output r) = Inr v"
  using assms by (auto simp: runtime_part_def accept_result_def abind_Inr rlift_def aret_def)

section \<open>A run that is refused\<close>

definition ended_execution :: "uuid \<Rightarrow> ('m, 'o) run_world \<Rightarrow> bool" where
  "ended_execution x w \<longleftrightarrow>
     (\<exists>e. get_execution x (rw_db w) = Some e \<and> ex_status e \<in> {X_failed, X_cancelled}) \<and>
     list_all (not_running x) (db_steps (rw_db w))"

lemma run_failed_id [simp]: "ex_id (run_failed t m e) = ex_id e" "ex_id (run_cancelled t e) = ex_id e"
  by (simp_all add: run_failed_def run_cancelled_def)

lemma end_session_frame [simp]:
  "db_executions (end_session e st t db) = db_executions db" "db_steps (end_session e st t db) = db_steps db"
  by (simp_all add: end_session_def split: option.splits)

lemma running_steps_frame:
  "db_executions (fail_running_steps t x m db) = db_executions db"
  "db_executions (cancel_running_steps t x db) = db_executions db"
  "list_all (not_running x) (db_steps (fail_running_steps t x m db))"
  "list_all (not_running x) (db_steps (cancel_running_steps t x db))"
  using end_running_steps_rows(1) [of "failed_step t m" x "db_steps db"]
    end_running_steps_rows(1) [of "cancelled_step t" x "db_steps db"]
  by (simp_all add: fail_running_steps_def cancel_running_steps_def ended_step_facts)

lemma fail_execution_ended:
  assumes "fail_execution x m w = (Inr u, w')"
  shows "ended_execution x w'"
proof (cases "get_execution x (rw_db w)")
  case None
  then show ?thesis using assms by (simp add: fail_execution_def)
next
  case (Some e)
  have g: "get_execution x (upd_execution x (run_failed t m) (rw_db w)) = Some (run_failed t m e)" for t
    using Some by (simp add: execution_rows.get_upd_same)
  show ?thesis using assms Some g
    by (auto simp: fail_execution_def rchange_def ended_execution_def running_steps_frame split: if_splits)
      (simp_all add: run_failed_def)
qed

lemma cancel_execution_row:
  assumes "cancel_execution E x w = (r, w')" and "get_execution x (rw_db w) = Some e"
  shows "get_execution x (rw_db w') = Some (run_cancelled (rw_now w) e)"
    and "r = Inr () \<Longrightarrow> list_all (not_running x) (db_steps (rw_db w'))"
proof -
  have g: "row_get ex_id x (row_upd ex_id x (run_cancelled t) (db_executions (rw_db w))) = Some (run_cancelled t e)" for t
    using assms(2) by (simp add: execution_rows.get_upd_same)
  show "get_execution x (rw_db w') = Some (run_cancelled (rw_now w) e)"
    using assms g by (auto simp: cancel_execution_def rchange_def Let_def running_steps_frame split: if_splits)
  show "list_all (not_running x) (db_steps (rw_db w'))" if "r = Inr ()"
    using assms g that by (auto simp: cancel_execution_def rchange_def Let_def running_steps_frame split: if_splits)
qed

lemma cancel_execution_ended:
  assumes "cancel_execution E x w = (Inr u, w')"
  shows "ended_execution x w'"
proof (cases "get_execution x (rw_db w)")
  case None
  then show ?thesis using assms by (simp add: cancel_execution_def)
next
  case (Some e)
  show ?thesis using cancel_execution_row [OF assms Some] by (simp add: ended_execution_def run_cancelled_def)
qed

lemma failed_with_ended: "failed_with x m c d w = (Inl (Http_error c' d'), w') \<Longrightarrow> ended_execution x w'"
proof -
  assume a: "failed_with x m c d w = (Inl (Http_error c' d'), w')"
  obtain r w1 where f: "fail_execution x m w = (r, w1)" by (cases "fail_execution x m w")
  show ?thesis
  proof (cases r)
    case (Inl e)
    then have "e \<noteq> Http_error c' d'" using f by (auto simp: fail_execution_def rchange_def split: option.splits if_splits)
    then show ?thesis using a f Inl by (simp add: failed_with_def)
  next
    case (Inr u)
    then show ?thesis using a f fail_execution_ended [of x m w u w1] by (simp add: failed_with_def araise_def)
  qed
qed

lemma cancelled_with_ended: "cancelled_with E x w = (Inl (Http_error c' d'), w') \<Longrightarrow> ended_execution x w'"
proof -
  assume a: "cancelled_with E x w = (Inl (Http_error c' d'), w')"
  obtain r w1 where f: "cancel_execution E x w = (r, w1)" by (cases "cancel_execution E x w")
  show ?thesis
  proof (cases r)
    case (Inl e)
    then have "e \<noteq> Http_error c' d'"
      using f by (auto simp: cancel_execution_def rchange_def Let_def split: option.splits if_splits)
    then show ?thesis using a f Inl by (simp add: cancelled_with_def)
  next
    case (Inr u)
    then show ?thesis using a f cancel_execution_ended [of E x w u w1] by (simp add: cancelled_with_def araise_def)
  qed
qed

text \<open>What raises no HTTP error of its own.\<close>

definition no_http :: "('m, 'o, 'a) run \<Rightarrow> bool" where
  "no_http m \<longleftrightarrow> (\<forall>w c d. fst (m w) \<noteq> Inl (Http_error c d))"

lemma no_httpD: "no_http m \<Longrightarrow> m w \<noteq> (Inl (Http_error c d), w')"
  unfolding no_http_def by (metis fst_conv)

lemma no_http_bind: "no_http m \<Longrightarrow> (\<And>x. no_http (f x)) \<Longrightarrow> no_http (abind m f)"
  by (auto simp: no_http_def abind_def split: prod.splits sum.splits) (metis fst_conv)+

lemma no_http_parts:
  "no_http (rchange f)" "no_http (rread g)" "no_http (aret x)" "no_http (log_step i key n ty name status d od err latency)"
  "no_http (rlift (map_error python_exn r1))" "no_http (rlift (map_error Value_failed r2))"
  by (auto simp: no_http_def rchange_def rread_def aret_def log_step_def rlift_def map_error_def python_exn_def
      split: sum.splits py_error.splits)

lemma no_http_for: "(\<And>x. no_http (f x)) \<Longrightarrow> no_http (afor f xs)"
proof (induction xs)
  case Nil
  then show ?case by (simp add: no_http_def)
next
  case (Cons x xs)
  have "afor f (x # xs) = abind (f x) (\<lambda>_. afor f xs)" by (auto simp: abind_def split: prod.splits sum.splits)
  then show ?case using no_http_bind [OF Cons.prems Cons.IH [OF Cons.prems]] by simp
qed

lemma no_http_save: "fst (save_artifacts E C ps w) \<noteq> Inl (Http_error c d)"
proof (induction ps arbitrary: w)
  case (Cons p ps)
  have errors: "file_exn e \<noteq> Http_error c d" "storage_exn e \<noteq> Http_error c d" for e
    by (cases e; simp add: file_exn_def storage_exn_def)+
  show ?case
    using Cons.IH errors
    by (auto simp: Let_def split: sum.splits prod.splits) (metis fst_conv)+
qed simp

lemma no_http_complete:
  fixes E :: "('m, 'o) run_env"
  shows "no_http (complete_execution E C r v)"
proof -
  let ?ps = "execution_artifact_payloads (rx_indented E) (ag_runtime_type (cx_agent C)) r v"
  have part: "no_http (abind (rchange f) (\<lambda>_. abind (rlift (map_error python_exn i)) (\<lambda>calls.
      abind (afor (log_mcp_call E C) (enumerate 0 calls)) (\<lambda>_. afor (log_artifact C) saved))))" for f i saved
  proof (intro no_http_bind no_http_parts no_http_for)
    show "no_http (log_mcp_call E C x)" for x
      by (cases x; cases "snd x") (auto simp: log_mcp_call_def Let_def no_http_parts)
    show "no_http (log_artifact C x)" for x
      by (cases x) (auto simp: log_artifact_def intro!: no_http_bind no_http_parts)
  qed
  show ?thesis
    unfolding no_http_def
  proof (intro allI)
    fix w :: "('m, 'o) run_world" and c d
    define w1 where "w1 = w\<lparr>rw_db := upd_execution (cx_execution C) (completed C r v (rw_now w)) (rw_db w)\<rparr>"
    obtain x w2 where s: "save_artifacts E C ?ps w1 = (x, w2)" by (cases "save_artifacts E C ?ps w1")
    have h: "x \<noteq> Inl (Http_error c d)" using no_http_save [of E C ?ps w1 c d] s by simp
    show "fst (complete_execution E C r v w) \<noteq> Inl (Http_error c d)"
    proof (cases x)
      case (Inl e)
      then show ?thesis using s h
        by (cases e) (auto simp: complete_execution_def Let_def w1_def [symmetric] split: option.splits)
    next
      case (Inr saved)
      then show ?thesis using s part
        by (auto simp: complete_execution_def Let_def w1_def [symmetric] no_http_def split: option.splits)
    qed
  qed
qed

lemma no_http_accept: "no_http (accept_result E C q s r)"
  unfolding accept_result_def record_runtime_trace_def validate_output_def
proof (intro no_http_bind no_http_parts no_http_for)
  show "no_http (record_trace_event E C x)" for x
    by (cases x) (auto simp: record_trace_event_def Let_def no_http_parts split: prod.splits)
  show "no_http (\<lambda>w. case rx_append E (ag_id (cx_agent C)) (rq_session_id q) (rq_input q) (rr_output r) (rw_memory w) of
      (x, m) \<Rightarrow> (map_error memory_exn x, w\<lparr>rw_memory := m\<rparr>))"
    by (auto simp: no_http_def map_error_def memory_exn_def split: prod.splits sum.splits mem_exn.splits)
qed

lemma no_http_runtime:
  fixes E :: "('m, 'o) run_env"
  assumes "no_http (rx_new_session E C)"
  shows "no_http (execution_runtime E C)"
proof -
  have made: "no_http (made_session E C s)" for s
    unfolding no_http_def
  proof (intro allI)
    fix w :: "('m, 'o) run_world" and c d
    obtain x w1 where n: "rx_new_session E C w = (x, w1)" by (cases "rx_new_session E C w")
    have "x \<noteq> Inl (Http_error c d)" using no_httpD [OF assms, of w c d w1] n by auto
    then show "fst (made_session E C s w) \<noteq> Inl (Http_error c d)"
      using n by (cases x; cases "projl x") (auto simp: made_session_def Let_def)
  qed
  show ?thesis
    unfolding no_http_def
  proof (intro allI)
    fix w :: "('m, 'o) run_world" and c d
    let ?a = "cx_agent C"
    show "fst (execution_runtime E C w) \<noteq> Inl (Http_error c d)"
    proof (cases "route (rx_rep E) (rx_adapter_refused E) (ag_runtime_type ?a) (ag_runtime_id ?a) (as_obj (ag_runtime_config ?a))
        (cs_runtimes (rw_cap w))")
      case (Inl m)
      then show ?thesis by (simp add: execution_runtime_def)
    next
      case (Inr found)
      note found = Inr
      show ?thesis
      proof (cases "get_session (cx_session C) (rw_db w)")
        case None
        then show ?thesis using found by (simp add: execution_runtime_def)
      next
        case (Some s)
        have "no_http (abind (made_session E C s) (\<lambda>made. abind (rchange (g made)) (\<lambda>_. aret (h made))))"
          for g and h :: "string option \<Rightarrow> string"
          by (intro no_http_bind made no_http_parts)
        then show ?thesis using found Some by (simp add: execution_runtime_def Let_def no_http_def)
      qed
    qed
  qed
qed

lemma runtime_part_no_http:
  assumes "no_http (rx_new_session E C)" and "\<And>i. no_http (rx_execute E C i)"
  shows "no_http (runtime_part E C q s)"
  unfolding runtime_part_def
  by (intro no_http_bind no_http_parts no_http_runtime no_http_accept assms)

lemma finish_run_http:
  assumes "finish_run E C r v w = (Inl (Http_error c d), w')"
  shows "ended_execution (cx_execution C) w'"
proof -
  obtain x w1 where k: "complete_execution E C r v w = (x, w1)" by (cases "complete_execution E C r v w")
  have h: "x \<noteq> Inl (Http_error c d)" using no_httpD [OF no_http_complete, of E C r v w c d w1] k by auto
  show ?thesis
  proof (cases x)
    case (Inl e)
    then show ?thesis using assms k h
      by (cases e) (auto simp: finish_run_def intro: failed_with_ended cancelled_with_ended)
  next
    case (Inr u)
    then show ?thesis using assms k by (simp add: finish_run_def)
  qed
qed

lemma run_prepared_http:
  assumes "no_http (rx_new_session E C)" and "\<And>i. no_http (rx_execute E C i)"
    and "run_prepared E C q w = (Inl (Http_error c d), w')"
  shows "ended_execution (cx_execution C) w'"
proof -
  obtain s w1 where s: "start_runtime_step C w = (Inr s, w1)" using start_runtime_step_Inr by blast
  obtain x w2 where x: "runtime_part E C q s w1 = (x, w2)" by (cases "runtime_part E C q s w1")
  have h: "x \<noteq> Inl (Http_error c d)"
    using no_httpD [OF runtime_part_no_http [OF assms(1,2)], of q s w1 c d w2] x by auto
  show ?thesis
  proof (cases x)
    case (Inl e)
    then show ?thesis using assms(3) s x h
      by (cases e) (auto simp: run_prepared_def intro: failed_with_ended cancelled_with_ended)
  next
    case (Inr p)
    obtain r v where "p = (r, v)" by (cases p)
    then have "finish_run E C r v w2 = (Inl (Http_error c d), w')" using assms(3) s x Inr by (simp add: run_prepared_def)
    then show ?thesis by (rule finish_run_http)
  qed
qed

section \<open>A run that is cancelled\<close>

definition cancelled_in :: "uuid \<Rightarrow> ('m, 'o) run_world \<Rightarrow> bool" where
  "cancelled_in x w \<longleftrightarrow> (\<exists>e. get_execution x (rw_db w) = Some e \<and> ex_status e = X_cancelled)"

lemma fail_execution_cancelled:
  assumes "fail_execution x m w = (r, w')" and "cancelled_in x w"
  shows "cancelled_in x w'"
  using assms by (auto simp: fail_execution_def cancelled_in_def rchange_def running_steps_frame split: if_splits)

lemma cancel_execution_cancelled:
  assumes "cancel_execution E x w = (r, w')" and "cancelled_in x w"
  shows "cancelled_in x w'"
  using assms cancel_execution_row(1) [OF assms(1)] by (auto simp: cancelled_in_def run_cancelled_def)

lemma ended_with_cancelled:
  "failed_with x m c d w = (r, w') \<Longrightarrow> cancelled_in x w \<Longrightarrow> cancelled_in x w'"
  "cancelled_with E x w = (r, w') \<Longrightarrow> cancelled_in x w \<Longrightarrow> cancelled_in x w'"
  by (auto simp: failed_with_def cancelled_with_def abind_def araise_def split: prod.splits sum.splits
      dest: fail_execution_cancelled cancel_execution_cancelled)

text \<open>What leaves the executions as they are.\<close>

definition same_executions :: "('m, 'o, 'a) run \<Rightarrow> bool" where
  "same_executions m \<longleftrightarrow> (\<forall>w. db_executions (rw_db (snd (m w))) = db_executions (rw_db w))"

lemma same_executionsD: "same_executions m \<Longrightarrow> m w = (r, w') \<Longrightarrow> db_executions (rw_db w') = db_executions (rw_db w)"
  unfolding same_executions_def by (metis snd_conv)

lemma same_executions_bind: "same_executions m \<Longrightarrow> (\<And>x. same_executions (f x)) \<Longrightarrow> same_executions (abind m f)"
  by (auto simp: same_executions_def abind_def split: prod.splits sum.splits) (metis snd_conv)+

lemma same_executions_parts:
  "same_executions (rlift r)" "same_executions (aret x)"
  "same_executions (log_step i key n ty name status d od err latency)"
  by (auto simp: same_executions_def rlift_def aret_def log_step_def rchange_def record_step_frame [OF prod.collapse [symmetric]])

lemma same_executions_for: "(\<And>x. same_executions (f x)) \<Longrightarrow> same_executions (afor f xs)"
proof (induction xs)
  case Nil
  then show ?case by (simp add: same_executions_def)
next
  case (Cons x xs)
  have "afor f (x # xs) = abind (f x) (\<lambda>_. afor f xs)" by (auto simp: abind_def split: prod.splits sum.splits)
  then show ?case using same_executions_bind [OF Cons.prems Cons.IH [OF Cons.prems]] by simp
qed

lemma same_executions_accept: "same_executions (accept_result E C q s r)"
  unfolding accept_result_def record_runtime_trace_def
proof (intro same_executions_bind same_executions_parts same_executions_for)
  show "same_executions (rchange (\<lambda>t db. snd (finish_step t s st od err db)))" for st od err
    by (simp add: same_executions_def rchange_def finish_step_def upd_step_def)
  show "same_executions (record_trace_event E C x)" for x
    by (cases x) (auto simp: record_trace_event_def Let_def same_executions_parts split: prod.splits)
  show "same_executions (\<lambda>w. case rx_append E (ag_id (cx_agent C)) (rq_session_id q) (rq_input q) (rr_output r) (rw_memory w) of
      (x, m) \<Rightarrow> (map_error memory_exn x, w\<lparr>rw_memory := m\<rparr>))"
    by (auto simp: same_executions_def split: prod.splits)
qed

lemma finish_run_cancelled:
  assumes "finish_run E C r v w = (x, w')" and "cancelled_in (cx_execution C) w"
  shows "cancelled_in (cx_execution C) w' \<and> isl x"
proof -
  have "complete_execution E C r v w = (Inl (Run_cancelled ''Agent Runtime execution was cancelled''), w)"
    using assms(2) by (auto simp: complete_execution_def cancelled_in_def)
  then have "cancelled_with E (cx_execution C) w = (x, w')" using assms(1) by (simp add: finish_run_def)
  then show ?thesis using ended_with_cancelled(2) [OF _ assms(2)] by (cases x) auto
qed

section \<open>A prepared run\<close>

lemma prepared_or_failed_http:
  assumes "prepared_or_failed x (r, w) = (Inl (Http_error c d), w')" and "r \<noteq> Inl (Http_error c d)"
  shows "ended_execution x w'"
proof (cases r)
  case (Inl e)
  then show ?thesis using assms by (cases e) (auto simp: prepared_or_failed_def intro: failed_with_ended)
next
  case (Inr C)
  then show ?thesis using assms by (simp add: prepared_or_failed_def)
qed

lemma prepared_or_failed_Inr: "prepared_or_failed x (r, w) = (Inr C, w') \<Longrightarrow> r = Inr C \<and> w' = w"
  by (auto simp: prepared_or_failed_def split: sum.splits run_exn.splits)

lemma authorize_run_http:
  assumes "authorize_run E a R x w = (Inl (Http_error c d), w')"
  shows "ended_execution x w'"
proof -
  have f: "ended_execution x w'"
    if "abind (fail_execution x m) (\<lambda>_. araise (Http_error c1 d1)) w = (Inl (Http_error c d), w')" for m c1 d1
  proof -
    obtain r w1 where f: "fail_execution x m w = (r, w1)" by (cases "fail_execution x m w")
    show ?thesis
    proof (cases r)
      case (Inl e)
      then have "e \<noteq> Http_error c d" using f by (auto simp: fail_execution_def rchange_def split: option.splits if_splits)
      then show ?thesis using that f Inl by simp
    next
      case (Inr u)
      then show ?thesis using that f fail_execution_ended [of x m w u w1] by (simp add: araise_def)
    qed
  qed
  have p: "python_exn e \<noteq> Http_error c d" for e by (cases e) (simp_all add: python_exn_def)
  have g: "granted E a x v n w \<noteq> (Inl (Http_error c d), w')" for v n
    by (simp add: granted_def Let_def abind_def new_uuid_def)
  show ?thesis
    using assms p g
    by (auto simp: authorize_run_def failed_with_def split: option.splits sum.splits if_splits intro: f)
qed

lemma no_http_gather_parts:
  "no_http (rlift (map_error Skill_failed r1))" "no_http (rlift (map_error Knowledge_failed r2))"
  "no_http (rlift (map_error profile_exn r3))" "no_http (rlift (map_error token_exn r4))"
  "no_http (rlift (Inr y))" "no_http (araise (Value_failed m))" "no_http (araise (Skill_failed m))"
  by (auto simp: no_http_def rlift_def map_error_def profile_exn_def token_exn_def araise_def
      split: sum.splits token_error.splits)

lemma no_http_prepare_step: "no_http (prepare_step x R base offset ty name st i d)"
  by (simp add: prepare_step_def no_http_parts)

lemma no_http_pair: "(\<And>y z. no_http (f y z)) \<Longrightarrow> no_http (case p of (y, z) \<Rightarrow> f y z)"
  by (cases p) simp

lemma no_http_gather: "no_http (gather E a x R profile resolved)"
proof -
  have 1: "no_http (check_input E x R schema vs)" for schema vs
    by (auto simp: check_input_def split: sum.splits
        intro!: no_http_bind no_http_parts no_http_gather_parts no_http_prepare_step)
  have m: "no_http (\<lambda>w. case rx_load E (ag_id a) (rq_session_id (ru_payload R)) (rw_memory w) of
       (r, m) \<Rightarrow> (map_error memory_exn r, w\<lparr>rw_memory := m\<rparr>))"
    by (auto simp: no_http_def map_error_def memory_exn_def split: prod.splits sum.splits mem_exn.splits)
  have 2: "no_http (load_memory E a x R)"
    unfolding load_memory_def by (intro no_http_bind m no_http_parts no_http_prepare_step)
  have 3: "no_http (load_skills E a x R schema links)" for schema links
    unfolding load_skills_def Let_def
    by (cases "schema = []")
      (auto intro!: no_http_bind no_http_parts no_http_gather_parts no_http_prepare_step)
  have 4: "no_http (load_mcp x R profile links)" for links
    unfolding load_mcp_def Let_def
    by (intro no_http_bind no_http_parts no_http_gather_parts no_http_prepare_step)
  have 5: "no_http (retrieve_knowledge E x R sources)" for sources
    unfolding retrieve_knowledge_def
    by (cases "sources = []")
      (auto intro!: no_http_bind no_http_parts no_http_gather_parts no_http_prepare_step)
  have 6: "no_http (recall_sources E x R skills vs resolved)" for skills vs
    unfolding recall_sources_def Let_def
    by (auto split: option.splits intro!: no_http_bind no_http_parts no_http_prepare_step)
  show ?thesis
    unfolding gather_def Let_def
    by (intro no_http_bind no_http_pair 1 2 3 4 5 6 no_http_parts)
qed

lemma no_http_build: "no_http (build_context E a x s R ns ws profile capabilities)"
proof -
  have t: "no_http (rlift (token_jti E token t))" for token t
    by (cases "token = []") (simp_all add: token_jti_def no_http_gather_parts)
  show ?thesis
    unfolding build_context_def Let_def write_details_def
    by (cases capabilities)
      (auto intro!: no_http_bind no_http_gather t no_http_parts no_http_prepare_step)
qed

lemma build_context_Inr:
  assumes "build_context E a x s R ns ws profile (n, token) w = (Inr C, w')"
  shows "cx_execution C = x \<and> cx_session C = s \<and> cx_agent C = a \<and> cx_resolution C = n \<and> cx_capability_token C = token"
  using assms by (auto simp: build_context_def Let_def abind_Inr aret_def)

lemma open_run_Inr_prepared:
  assumes "open_run E a R w = (Inr (x, s, ns, ws, profile), w1)" and "prepare_agent_execution E a R w = (r, w')"
  shows "(\<exists>c d. r = Inl (Http_error c d)) \<Longrightarrow> ended_execution x w'" and "r = Inr C \<Longrightarrow> cx_execution C = x"
proof -
  have p: "prepare_agent_execution E a R w =
      abind (authorize_run E a R x) (\<lambda>capabilities.
      abind (prepare_step x R ''request_received'' 0 ''request'' ''Request Received'' P_succeeded
        [(''response_mode'', JStr (ru_response_mode R)), (''session_id'', JStr (rq_session_id (ru_payload R)))] []) (\<lambda>_ w.
      prepared_or_failed x (build_context E a x s R ns ws profile capabilities w))) w1"
    using assms(1) by (simp add: prepare_agent_execution_def)
  obtain r1 w2 where a: "authorize_run E a R x w1 = (r1, w2)" by (cases "authorize_run E a R x w1")
  have main: "((\<exists>c d. r = Inl (Http_error c d)) \<longrightarrow> ended_execution x w') \<and> (\<forall>C. r = Inr C \<longrightarrow> cx_execution C = x)"
  proof (cases r1)
    case (Inl e)
    then show ?thesis using assms(2) a authorize_run_http [of E a R x w1] by (auto simp: p)
  next
    case (Inr n)
    obtain w3 where s: "prepare_step x R ''request_received'' 0 ''request'' ''Request Received'' P_succeeded
        [(''response_mode'', JStr (ru_response_mode R)), (''session_id'', JStr (rq_session_id (ru_payload R)))] [] w2 = (Inr (), w3)"
      by (simp add: prepare_step_def log_step_def rchange_def)
    obtain r4 w4 where b: "build_context E a x s R ns ws profile n w3 = (r4, w4)"
      by (cases "build_context E a x s R ns ws profile n w3")
    have r4: "r4 \<noteq> Inl (Http_error c d)" for c d
      using no_httpD [OF no_http_build, of E a x s R ns ws profile n w3 c d w4] b by auto
    have "prepared_or_failed x (r4, w4) = (r, w')" using assms(2) a Inr s b by (simp add: p)
    note pf = this
    have "ended_execution x w'" if "r = Inl (Http_error c d)" for c d
      using prepared_or_failed_http [OF pf [unfolded that] r4] .
    moreover have "cx_execution C = x" if "r = Inr C" for C
      using prepared_or_failed_Inr [OF pf [unfolded that]] b
        build_context_Inr [of E a x s R ns ws profile "fst n" "snd n" w3 C w4] by simp
    ultimately show ?thesis by blast
  qed
  show "(\<exists>c d. r = Inl (Http_error c d)) \<Longrightarrow> ended_execution x w'" "r = Inr C \<Longrightarrow> cx_execution C = x"
    using main by blast+
qed

section \<open>Errors that nothing catches\<close>

text \<open>
  A file name that the workspace refuses, or an artifact type that the profile of the Agent does not
  allow, is an error that \<open>execute_agent_sync\<close> does not catch after the runtime: the execution is left
  running.
\<close>

lemma artifact_error_leaves_running:
  assumes "get_execution (cx_execution C) (rw_db w) = Some e" and "ex_status e = X_running"
    and "get_session (cx_session C) (rw_db w) = Some s"
    and "save_artifacts E C (execution_artifact_payloads (rx_indented E) (ag_runtime_type (cx_agent C)) r v)
           (w\<lparr>rw_db := upd_execution (cx_execution C) (completed C r v (rw_now w)) (rw_db w)\<rparr>) = (Inl x, w2)"
    and "x = Value_failed m \<or> x = Other_exn m"
  shows "\<exists>w'. finish_run E C r v w = (Inl x, w') \<and> get_execution (cx_execution C) (rw_db w') = Some e"
  using assms by (auto simp: finish_run_def complete_execution_def Let_def)

text \<open>The turn is in the memory before the execution is completed, and no error takes it back.\<close>

lemma turn_kept_when_cancelled:
  assumes "accept_result E C q s r w = (Inr v, w1)" and "cancelled_in (cx_execution C) w"
  shows "\<exists>u m' m0. rx_append E (ag_id (cx_agent C)) (rq_session_id q) (rq_input q) (rr_output r) m0 = (Inr u, m') \<and>
     rw_memory w1 = m' \<and> rw_memory (snd (finish_run E C r v w1)) = m'"
proof -
  obtain w0 where b: "(case rx_append E (ag_id (cx_agent C)) (rq_session_id q) (rq_input q) (rr_output r) (rw_memory w0) of
      (x, m) \<Rightarrow> (map_error memory_exn x, w0\<lparr>rw_memory := m\<rparr>)) = (Inr (), w1)"
    using assms(1) by (auto simp: accept_result_def abind_Inr aret_def)
  obtain u m' where p: "rx_append E (ag_id (cx_agent C)) (rq_session_id q) (rq_input q) (rr_output r) (rw_memory w0) = (u, m')"
    by (cases "rx_append E (ag_id (cx_agent C)) (rq_session_id q) (rq_input q) (rr_output r) (rw_memory w0)")
  have a: "u = Inr ()" "rw_memory w1 = m'" using b p by (cases u; auto simp: map_error_def)+
  have c: "cancelled_in (cx_execution C) w1"
    using assms(2) same_executionsD [OF same_executions_accept assms(1)] by (simp add: cancelled_in_def)
  then have "complete_execution E C r v w1 = (Inl (Run_cancelled ''Agent Runtime execution was cancelled''), w1)"
    by (auto simp: complete_execution_def cancelled_in_def)
  then have "rw_memory (snd (finish_run E C r v w1)) = rw_memory w1"
    by (auto simp: finish_run_def cancelled_with_def cancel_execution_def rchange_def abind_def araise_def Let_def
        split: option.splits if_splits)
  then have "rw_memory (snd (finish_run E C r v w1)) = m'" using a(2) by simp
  with p [unfolded a(1)] a(2) show ?thesis by blast
qed

end
