(* ===== verification/Agent_Run_Claims.thy ===== *)
theory Agent_Run_Claims
  imports Agent_Runs_Correct Agent_Versions_Correct Capability_Resolver_Correct
begin

text \<open>
  The properties of a run, and sample runs to which they apply: the adapter answers at once, the stores
  keep what they are given, and the version of the example of the resolver is granted its tool.
\<close>

section \<open>Properties\<close>

text \<open>C26. When a run returns a result, the output has passed the output schema of the run, the execution and
  its session are succeeded with this output, and every artifact of the result has its row in the
  session, linked to the execution.\<close>

theorem returned_run_recorded:
  assumes "run_prepared E C q w = (Inr r, w')"
  shows "\<exists>v. validate_output E (output_contract C) (rr_output r) = Inr v \<and> recorded E C r v w'"
proof -
  obtain s w1 v w2 where "runtime_part E C q s w1 = (Inr (r, v), w2)" "complete_execution E C r v w2 = (Inr (), w')"
    by (rule run_prepared_Inr [OF assms])
  then show ?thesis using runtime_part_Inr complete_execution_recorded by blast
qed

text \<open>C28. An execution that was cancelled while the runtime worked on it stays cancelled, and its run returns no
  result, whatever the runtime came to.\<close>

theorem cancelled_run_stays_cancelled:
  assumes "start_runtime_step C w = (Inr s, w1)" and "execution_runtime E C w1 = (Inr i, w2)"
    and "rx_execute E C i w2 = (r, w3)" and "cancelled_in (cx_execution C) w3"
    and "run_prepared E C q w = (x, w')"
  shows "cancelled_in (cx_execution C) w' \<and> isl x"
proof (cases r)
  case (Inl e)
  then have "runtime_part E C q s w1 = (Inl e, w3)" using assms(2,3) by (simp add: runtime_part_def)
  then show ?thesis using assms(1,4,5)
    by (cases e; cases x) (auto simp: run_prepared_def dest: ended_with_cancelled)
next
  case (Inr res)
  obtain y w4 where a: "accept_result E C q s res w3 = (y, w4)" by (cases "accept_result E C q s res w3")
  then have c: "cancelled_in (cx_execution C) w4"
    using assms(4) same_executionsD [OF same_executions_accept a] by (simp add: cancelled_in_def)
  show ?thesis
  proof (cases y)
    case (Inl e)
    then have "runtime_part E C q s w1 = (Inl e, w4)" using assms(2,3) Inr a by (simp add: runtime_part_def)
    then show ?thesis using assms(1,5) c
      by (cases e; cases x) (auto simp: run_prepared_def dest: ended_with_cancelled)
  next
    case (Inr v)
    then have "runtime_part E C q s w1 = (Inr (res, v), w4)"
      using assms(2,3) \<open>r = Inr res\<close> a by (simp add: runtime_part_def aret_def)
    then have "finish_run E C res v w4 = (x, w')" using assms(1,5) by (simp add: run_prepared_def)
    then show ?thesis by (rule finish_run_cancelled [OF _ c])
  qed
qed

text \<open>C27. When a run of an Agent that has an execution is answered by an HTTP error, from the preparation as
  from the runtime, the execution has failed or is cancelled, and none of its steps is left running.\<close>

theorem refused_run_ended:
  assumes "open_run E a R w = (Inr (x, s, ns, ws, profile), w1)"
    and "execute_agent_sync E a R w = (Inl (Http_error c d), w')"
    and "\<And>C. no_http (rx_new_session E C)" and "\<And>C i. no_http (rx_execute E C i)"
  shows "ended_execution x w'"
proof -
  obtain r w2 where p: "prepare_agent_execution E a R w = (r, w2)" by (cases "prepare_agent_execution E a R w")
  note opened = open_run_Inr_prepared [OF assms(1) p]
  show ?thesis
  proof (cases r)
    case (Inl e)
    then show ?thesis using assms(2) p opened(1) by (simp add: execute_agent_sync_def)
  next
    case (Inr C)
    then have "run_prepared E C (ru_payload R) w2 = (Inl (Http_error c d), w')"
      using assms(2) p by (simp add: execute_agent_sync_def)
    from run_prepared_http [OF assms(3,4) this] show ?thesis using opened(2) [OF Inr] by simp
  qed
qed

text \<open>C35. The token a run is given for the capabilities of its version is accepted, until it expires, for
  exactly the bindings of the tools that were resolved, and a version that is not ready gets none.\<close>

theorem run_token_grants_resolution:
  assumes "authorize_run E a R x w = (Inr (Some n, token), w')"
    and "\<And>d. rx_loads E (rx_dumps E (JObj d)) = Some (JObj d)"
    and "ag_id a \<noteq> []" and "rn_resolution_digest n \<noteq> []"
  shows "\<exists>v n0 claims.
     resolve_agent_capabilities (rx_rep E) (rx_sorted_dumps E) (rx_sha256 E) (rw_cap w) v = Inr n0 \<and>
     ru_version R = Some (av_id v) \<and> ready n0 \<and> rn_tools n = rn_tools n0 \<and>
     dget claims ''execution_id'' = JStr (uuid_str x) \<and> dget claims ''agent_id'' = JStr (ag_id a) \<and>
     dget claims ''allowed_bindings'' = str_list (sort (remdups (map rc_binding_id (rn_tools n)))) \<and>
     dget claims ''resolution_digest'' = JStr (rn_resolution_digest n) \<and>
     (\<forall>t. verify_capability_token (rx_loads E) (rx_hmac E) (rx_signing_key E) t token = Inr claims
        \<longleftrightarrow> t < rw_now w div 1000000 + int (rx_token_ttl E))"
proof -
  obtain u where u: "rx_platform E" "ru_version R = Some u"
    using assms(1) by (cases "ru_version R"; cases "rx_platform E") (simp_all add: authorize_run_def)
  obtain v where v: "row_get av_id u (rg_versions (db_registry (rw_db w))) = Some v"
    using assms(1) u by (cases "row_get av_id u (rg_versions (db_registry (rw_db w)))") (simp_all add: authorize_run_def)
  have id: "av_id v = u" using row_get_Some [OF v] by simp
  obtain n0 where n0: "resolve_agent_capabilities (rx_rep E) (rx_sorted_dumps E) (rx_sha256 E) (rw_cap w) v = Inr n0"
    "ready n0" "granted E a x v n0 w = (Inr (Some n, token), w')"
  proof -
    obtain i where i: "py_int (rx_rep E) (py_or (dget (av_snapshot v) ''format_version'') (JInt 1)) = Inr i"
      using assms(1) u v by (cases "py_int (rx_rep E) (py_or (dget (av_snapshot v) ''format_version'') (JInt 1))")
        (simp_all add: authorize_run_def)
    have "i = 2" using assms(1) u v i by (cases "i = 2") (simp_all add: authorize_run_def)
    then show thesis
      using that assms(1) u v i
      by (cases "resolve_agent_capabilities (rx_rep E) (rx_sorted_dumps E) (rx_sha256 E) (rw_cap w) v")
        (auto simp: authorize_run_def failed_with_not_Inr abind_Inr araise_def split: if_splits)
  qed
  define c where "c = execution_claims (rx_token_ttl E) (uuid_str x) (ag_id a) (uuid_str (av_id v)) (runtime_name a)
    (map rc_binding_id (rn_tools n)) (rn_resolution_digest n) (rw_now w div 1000000) (uuid_str (db_next_id (rw_db w)))"
  have tools: "rn_tools n = rn_tools n0"
    and token: "token = issue_execution_capability_token (rx_dumps E) (rx_hmac E) (rx_signing_key E) c"
    using n0(3) by (auto simp: granted_def new_uuid_def Let_def c_def abind_def split: if_splits)
  note g = execution_claims_get [OF c_def]
  have filled: "uuid_str y \<noteq> []" for y using uuid_str_plain by (metis length_greater_0_conv length_uuid_str zero_less_numeral)
  have "check_claims t c = Inr c \<longleftrightarrow> t < rw_now w div 1000000 + int (rx_token_ttl E)" for t
    using assms(3,4) filled by (auto simp: check_claims_def g str_list_def list_all_iff)
  then have "verify_capability_token (rx_loads E) (rx_hmac E) (rx_signing_key E) t token = Inr c
      \<longleftrightarrow> t < rw_now w div 1000000 + int (rx_token_ttl E)" for t
    unfolding token issue_execution_capability_token_def verify_sealed [where loads = "rx_loads E", OF assms(2)] by simp
  then show ?thesis using n0 u id tools g by blast
qed

section \<open>Sample runs\<close>

definition sample_result :: run_result where
  "sample_result = \<lparr>rr_output = ''ok'', rr_run_id = Some ''r'', rr_status = ''completed'', rr_token_usage = None, rr_trace = [],
     rr_artifacts = []\<rparr>"

definition sample_stored :: stored_artifact where
  "sample_stored = \<lparr>sa_storage_type = ''file'', sa_storage_path = ''result.json'', sa_content = ''hi'', sa_sha256 = []\<rparr>"

definition run_dumps :: "json \<Rightarrow> string" where
  "run_dumps j = replicate (to_nat j) CHR ''x''"

definition sample_env :: "(unit, unit) run_env" where
  "sample_env = \<lparr>rx_root = [''srv''], rx_memory_type = ''short-term'', rx_load = (\<lambda>_ _ m. (Inr [], m)),
     rx_append = (\<lambda>_ _ _ _ m. (Inr (), m)), rx_save = (\<lambda>_ _ _ _ _ ob. Inr (sample_stored, ob)),
     rx_links = (\<lambda>_. \<lparr>al_skills = [], al_mcp = [], al_knowledge = []\<rparr>), rx_skills = (\<lambda>_. Inr []), rx_search = (\<lambda>_ _. Inr []),
     rx_recall = (\<lambda>_ _. Inl []), rx_recall_initial = \<lparr>rs_lookback_days = 1, rs_limit = 1\<rparr>, rx_legacy_recall = False,
     rx_platform = True, rx_gateway = True, rx_adapter_refused = (\<lambda>_ _ _. None), rx_new_session = (\<lambda>_ w. (Inr ''rs'', w)),
     rx_execute = (\<lambda>_ _ w. (Inr sample_result, w)), rx_loads = (\<lambda>s. Some (from_nat (length s))), rx_dumps = run_dumps,
     rx_sorted_dumps = run_dumps, rx_indented = run_dumps, rx_rep = (\<lambda>_. []), rx_isoformat = (\<lambda>_. []), rx_round = id,
     rx_invalid_json = (\<lambda>_. []), rx_schema_errors = (\<lambda>_ _. [([], ''refused'')]), rx_hmac = (\<lambda>k m. m),
     rx_signing_key = ''key'', rx_sha256 = (\<lambda>_. ''d''), rx_token_ttl = 600, rx_redis_up = True, rx_flushed = False\<rparr>"

definition sample_run_context :: run_context where
  "sample_run_context = \<lparr>cx_agent = sample_agent, cx_execution = 9, cx_details = JObj [], cx_session = 5, cx_messages = [],
     cx_skills = [], cx_mcp_servers = [], cx_knowledge = [], cx_knowledge_summary = JArr [], cx_memory_scope = [],
     cx_mcp_token = [], cx_mcp_capabilities = [], cx_capability_token = [], cx_resolution = None, cx_output_schema = [],
     cx_validator = None, cx_attempt = 0, cx_workspace = linked_ws\<rparr>"

definition sample_request :: agent_request where
  "sample_request = \<lparr>rq_input = ''hi'', rq_session_id = ''s'', rq_parameters = Some [], rq_temperature = None\<rparr>"

definition sample_run_request :: prepared_request where
  "sample_run_request = \<lparr>ru_payload = sample_request, ru_orchestration = Some 5, ru_schema = None, ru_existing = None,
     ru_response_mode = ''sync'', ru_attempt = 0, ru_version = None, ru_validator = None\<rparr>"

definition run_fs :: filesystem where
  "run_fs = \<lparr>fs_files = (\<lambda>p. None), fs_dirs = (\<lambda>p. p \<in> {[], [''srv''], [''srv'', ''output'']}), fs_links = (\<lambda>p. None),
     fs_max_links = 40\<rparr>"

definition sample_run_session :: agent_session where
  "sample_run_session = (run_session_row sample_agent sample_run_request ''document'' ''w'' 5 100)\<lparr>ss_runtime_session_id := Some ''rs''\<rparr>"

definition sample_run_world :: "(unit, unit) run_world" where
  "sample_run_world = \<lparr>rw_db = empty_store\<lparr>db_sessions := [sample_run_session],
       db_executions := [run_execution_row sample_env sample_agent sample_run_request [] 9 5 100], db_next_id := 20\<rparr>,
     rw_cap = sample_resolver_store, rw_fs = run_fs, rw_memory = (), rw_objects = (), rw_marks = [], rw_now = 200\<rparr>"

lemma sample_written:
  "\<exists>fs'. write_output [''srv''] linked_ws ''result.json'' c run_fs = Inr ([''srv'', ''output'', ''result.json''], fs')"
proof -
  have "safe_filename ''result.json''" by code_simp
  then show ?thesis
    by (auto simp: write_output_def linked_ws_def inside_def resolve_def run_fs_def under_def atomic_write_def os_write_def
        os_replace_def temporary_name_def)
qed

lemma sample_agent_runs: "ag_runtime_type sample_agent = ''hermes''" "ag_runtime_id sample_agent = None"
    "ag_runtime_config sample_agent = JObj []" "ag_capability_profile sample_agent = JObj []"
  by (simp_all add: sample_agent_def)

definition sample_started :: "execution_step \<times> (unit, unit) run_world" where
  "sample_started = (projl (case start_runtime_step sample_run_context sample_run_world of (Inr s, w) \<Rightarrow> Inl (s, w) | (Inl e, w) \<Rightarrow> Inr e))"

lemma sample_runtime:
  "start_runtime_step sample_run_context sample_run_world = (Inr (fst sample_started), snd sample_started)"
  "execution_runtime sample_env sample_run_context (snd sample_started) =
     (Inr ''rs'', (snd sample_started)\<lparr>rw_db := upd_execution 9 (on_runtime ''hermes'' (Some (hd (cs_runtimes sample_resolver_store))) None)
        (rw_db (snd sample_started))\<rparr>)"
proof -
  obtain s w1 where s: "start_runtime_step sample_run_context sample_run_world = (Inr s, w1)"
    "rows_of w1 = rows_of sample_run_world" "rw_cap w1 = rw_cap sample_run_world"
    using start_runtime_step_Inr [of sample_run_context sample_run_world] by auto
  then have w1: "sample_started = (s, w1)" by (simp add: sample_started_def)
  show "start_runtime_step sample_run_context sample_run_world = (Inr (fst sample_started), snd sample_started)"
    unfolding w1 using s(1) by simp
  have cap: "rw_cap w1 = sample_resolver_store"
    using s(3) by (simp add: sample_run_world_def)
  have session: "get_session 5 (rw_db w1) = Some sample_run_session"
    using s(2) by (simp add: rows_of_def sample_run_world_def row_get_Cons sample_run_session_def run_session_row_def)
  have rts: "route (\<lambda>_. []) (\<lambda>_ _ _. None) ''hermes'' None [] (cs_runtimes sample_resolver_store) =
      Inr (Some (hd (cs_runtimes sample_resolver_store)))"
    by (simp add: route_def resolve_runtime_def configured_runtime_def dget_def sample_resolver_store_def first_by_def Let_def py_or_def)
  show "execution_runtime sample_env sample_run_context (snd sample_started) =
     (Inr ''rs'', (snd sample_started)\<lparr>rw_db := upd_execution 9 (on_runtime ''hermes'' (Some (hd (cs_runtimes sample_resolver_store))) None)
        (rw_db (snd sample_started))\<rparr>)"
    using rts session cap
    by (simp add: w1 execution_runtime_def Let_def sample_run_context_def sample_agent_runs sample_env_def made_session_def
        requires_fresh_runtime_session_def sample_run_session_def run_session_row_def rchange_def abind_def aret_def)
qed

lemma sample_completes:
  assumes "get_execution 9 (rw_db w) = Some e" and "ex_status e = X_running" and "ex_details e = JObj d"
    and "dget_default d ''mcp_calls'' (JArr []) = JArr []"
    and "get_session 5 (rw_db w) \<noteq> None" and "rw_fs w = run_fs"
  shows "\<exists>w'. complete_execution sample_env sample_run_context sample_result (JStr ''ok'') w = (Inr (), w')"
proof -
  let ?w1 = "w\<lparr>rw_db := upd_execution 9 (completed sample_run_context sample_result (JStr ''ok'') (rw_now w)) (rw_db w)\<rparr>"
  have payloads: "execution_artifact_payloads run_dumps ''hermes'' sample_result (JStr ''ok'') =
      [primary_payload run_dumps sample_result (JStr ''ok'')]"
    by (simp add: execution_artifact_payloads_def report_payload_def sample_result_def dget_def)
  obtain fs' where fs: "write_output [''srv''] linked_ws ''result.json'' (run_dumps (JStr ''ok'')) run_fs =
      Inr ([''srv'', ''output'', ''result.json''], fs')"
    using sample_written by blast
  have "\<exists>saved w2. save_artifacts sample_env sample_run_context [primary_payload run_dumps sample_result (JStr ''ok'')] ?w1 =
      (Inr saved, w2)"
    using fs assms(6)
    by (auto simp: sample_env_def sample_run_context_def primary_payload_def Let_def split: prod.splits)
  then obtain saved w2 where saved: "save_artifacts sample_env sample_run_context
      [primary_payload run_dumps sample_result (JStr ''ok'')] ?w1 = (Inr saved, w2)" by blast
  obtain r w3 where r: "afor (log_artifact sample_run_context) (enumerate 0 saved)
      (w2\<lparr>rw_db := upd_session 5 (succeeded_session sample_result (rw_now w2)) (rw_db w2)\<rparr>) = (r, w3)"
    by (cases "afor (log_artifact sample_run_context) (enumerate 0 saved)
      (w2\<lparr>rw_db := upd_session 5 (succeeded_session sample_result (rw_now w2)) (rw_db w2)\<rparr>)")
  have env: "rx_indented sample_env = run_dumps" "cx_execution sample_run_context = 9" "cx_session sample_run_context = 5"
    "ag_runtime_type (cx_agent sample_run_context) = ''hermes''"
    by (simp_all add: sample_env_def sample_run_context_def sample_agent_runs)
  show ?thesis
    using assms saved r log_artifacts [OF r]
    by (auto simp: complete_execution_def Let_def env payloads abind_def rchange_def rlift_def map_error_def json_items_def)
qed

lemma sample_accepts:
  "\<exists>w'. accept_result sample_env sample_run_context sample_request s sample_result w = (Inr (JStr ''ok''), w') \<and>
     rw_fs w' = rw_fs w \<and> rows_of w' = rows_of w"
proof -
  have "validate_output sample_env (output_contract sample_run_context) (rr_output sample_result) = Inr (JStr ''ok'')"
    by (simp add: validate_output_def output_contract_def parse_and_validate_output_def map_error_def sample_run_context_def sample_result_def)
  moreover have "record_runtime_trace sample_env sample_run_context sample_result w = (Inr (), w)" for w
    by (simp add: record_runtime_trace_def sample_result_def)
  moreover have "rx_append sample_env a b c d m = (Inr (), m)" for a b c d m by (simp add: sample_env_def)
  ultimately show ?thesis
    by (simp add: accept_result_def abind_def rchange_def rlift_def log_step_def aret_def map_error_def rows_of_def
        finish_step_def upd_step_def record_step_frame [OF prod.collapse [symmetric]])
qed

abbreviation sample_running :: "(unit, unit) run_world" where
  "sample_running \<equiv> (snd sample_started)\<lparr>rw_db := upd_execution 9 (on_runtime ''hermes'' (Some (hd (cs_runtimes sample_resolver_store))) None)
        (rw_db (snd sample_started))\<rparr>"

lemma sample_result_stored:
  "\<exists>w4 w'. accept_result sample_env sample_run_context sample_request (fst sample_started) sample_result sample_running =
       (Inr (JStr ''ok''), w4) \<and>
     complete_execution sample_env sample_run_context sample_result (JStr ''ok'') w4 = (Inr (), w')"
proof -
  obtain w4 where w4: "accept_result sample_env sample_run_context sample_request (fst sample_started) sample_result sample_running =
      (Inr (JStr ''ok''), w4)" "rw_fs w4 = rw_fs sample_running" "rows_of w4 = rows_of sample_running"
    using sample_accepts by blast
  have start: "rows_of (snd sample_started) = rows_of sample_run_world" "rw_fs (snd sample_started) = run_fs"
    using sample_runtime(1) start_runtime_step_Inr [of sample_run_context sample_run_world]
    by (auto simp: sample_run_world_def)
  have "\<exists>w'. complete_execution sample_env sample_run_context sample_result (JStr ''ok'') w4 = (Inr (), w')"
  proof (rule sample_completes [where d = "preparing []"])
    show "get_execution 9 (rw_db w4) = Some (on_runtime ''hermes'' (Some (hd (cs_runtimes sample_resolver_store))) None
        (run_execution_row sample_env sample_agent sample_run_request [] 9 5 100))"
      using w4(3) start(1)
      by (simp add: rows_of_def sample_run_world_def row_upd_def row_get_Cons run_execution_row_def on_runtime_def)
    show "get_session 5 (rw_db w4) \<noteq> None"
      using w4(3) start(1)
      by (simp add: rows_of_def sample_run_world_def row_get_Cons sample_run_session_def run_session_row_def)
    show "rw_fs w4 = run_fs" using w4(2) start(2) by simp
  qed (simp_all add: run_execution_row_def on_runtime_def preparing_def dget_default_def)
  then show ?thesis using w4(1) by blast
qed

lemma sample_returns:
  "\<exists>w'. run_prepared sample_env sample_run_context sample_request sample_run_world = (Inr sample_result, w')"
proof -
  have run: "rx_execute sample_env sample_run_context ''rs'' sample_running = (Inr sample_result, sample_running)" by (simp add: sample_env_def)
  obtain w4 w' where "accept_result sample_env sample_run_context sample_request (fst sample_started) sample_result sample_running =
      (Inr (JStr ''ok''), w4)" "complete_execution sample_env sample_run_context sample_result (JStr ''ok'') w4 = (Inr (), w')"
    using sample_result_stored by blast
  then have "run_prepared sample_env sample_run_context sample_request sample_run_world = (Inr sample_result, w')"
    using sample_runtime run by (simp add: run_prepared_def runtime_part_def finish_run_def abind_def aret_def)
  then show ?thesis by blast
qed

theorem returned_run_recorded_witness:
  "\<exists>v w'. run_prepared sample_env sample_run_context sample_request sample_run_world = (Inr sample_result, w') \<and>
     recorded sample_env sample_run_context sample_result v w'"
  using sample_returns returned_run_recorded by blast

text \<open>The adapter of a run that another process cancels while the runtime works.\<close>

definition cancelling_env :: "(unit, unit) run_env" where
  "cancelling_env = sample_env\<lparr>rx_execute := (\<lambda>_ _ w. (Inr sample_result,
     w\<lparr>rw_db := upd_execution 9 (\<lambda>e. e\<lparr>ex_status := X_cancelled\<rparr>) (rw_db w)\<rparr>))\<rparr>"

theorem cancelled_run_stays_cancelled_witness:
  "\<exists>x w'. run_prepared cancelling_env sample_run_context sample_request sample_run_world = (x, w') \<and>
     cancelled_in 9 w' \<and> isl x"
proof -
  let ?w2 = "(snd sample_started)\<lparr>rw_db := upd_execution 9 (on_runtime ''hermes'' (Some (hd (cs_runtimes sample_resolver_store))) None)
        (rw_db (snd sample_started))\<rparr>"
  have fields: "rx_rep cancelling_env = rx_rep sample_env" "rx_adapter_refused cancelling_env = rx_adapter_refused sample_env"
    "rx_new_session cancelling_env = rx_new_session sample_env"
    by (simp_all add: cancelling_env_def)
  have made: "made_session cancelling_env C t = made_session sample_env C t" for C t
    by (intro ext) (simp only: made_session_def fields)
  have runtime: "execution_runtime cancelling_env sample_run_context w = execution_runtime sample_env sample_run_context w" for w
    unfolding execution_runtime_def fields made ..
  obtain w3 where w3: "rx_execute cancelling_env sample_run_context ''rs'' ?w2 = (Inr sample_result, w3)"
      "w3 = ?w2\<lparr>rw_db := upd_execution 9 (\<lambda>e. e\<lparr>ex_status := X_cancelled\<rparr>) (rw_db ?w2)\<rparr>"
    by (simp add: cancelling_env_def)
  have start: "rows_of (snd sample_started) = rows_of sample_run_world"
    using sample_runtime(1) start_runtime_step_Inr [of sample_run_context sample_run_world] by auto
  have "cancelled_in (cx_execution sample_run_context) w3"
    using start
    by (simp add: w3(2) rows_of_def sample_run_world_def cancelled_in_def sample_run_context_def row_upd_def row_get_Cons
        run_execution_row_def on_runtime_def)
  moreover obtain x w' where "run_prepared cancelling_env sample_run_context sample_request sample_run_world = (x, w')"
    by (cases "run_prepared cancelling_env sample_run_context sample_request sample_run_world")
  ultimately show ?thesis
    using cancelled_run_stays_cancelled [OF sample_runtime(1) _ w3(1)] sample_runtime(2) runtime
    by (auto simp: sample_run_context_def)
qed

subsection \<open>A token\<close>

definition run_version :: agent_version where
  "run_version = sample_bound_version\<lparr>
     av_snapshot := [(''format_version'', JInt 2), (''runtime'', JObj [(''runtime_id'', JStr (uuid_str 20))])],
     av_resolution_digest := Some ''frozen''\<rparr>"

lemma run_resolution:
  "\<exists>n. resolve_agent_capabilities rep dumps sha256 sample_resolver_store run_version = Inr n \<and>
     rn_issues n = [] \<and> rn_tools n = [sample_tool]"
proof -
  have rows: "bound_rows run_version sample_resolver_store = [sample_bound]"
    using sample_bound_rows by (simp add: bound_rows_def run_version_def)
  have features: "runtime_features rep sample_resolver_store (av_snapshot run_version) =
      Inr ([], JObj [(''capability_gateway'', JBool True)])"
    using uuid_str_nonempty small_uuid [of 20]
    by (simp add: runtime_features_def Let_def run_version_def dget_def sample_resolver_store_def row_get_Cons
        latest_profile_def first_by_def)
  have tool: "resolve_binding rep sample_resolver_store sample_bound = Inr ([], [sample_tool])"
    by (simp add: resolve_binding_def Let_def sample_tool_def sample_bound_def sample_implementation_def sample_provider_def
        sample_resolver_store_def sample_capability_store_def resolver_implementation_def row_get_Cons scope_issues_def
        database_types_def)
  have format: "py_int rep (py_or (py_or (dget (av_snapshot run_version) ''format_version'')
      (JInt (av_snapshot_format_version run_version))) (JInt 1)) = Inr 2"
    by (simp add: run_version_def dget_def py_or_def py_int_def)
  have gateway: "gateway_issues rep (JObj [(''capability_gateway'', JBool True)]) [sample_bound] = Inr []"
    by (simp add: gateway_issues_def json_get_def dget_def)
  have skills: "skill_issues rep sample_resolver_store (av_snapshot run_version) rows = []" for rows
    by (simp add: skill_issues_def run_version_def dget_def sample_resolver_store_def sample_capability_store_def)
  show ?thesis
    using features tool skills rows format gateway by (simp add: resolve_agent_capabilities_def Let_def)
qed

definition granting_world :: "(unit, unit) run_world" where
  "granting_world = sample_run_world\<lparr>rw_db := empty_store\<lparr>db_registry := empty_registry\<lparr>rg_versions := [run_version]\<rparr>\<rparr>\<rparr>"

theorem run_token_grants_resolution_witness:
  "\<exists>n token w' claims.
     authorize_run sample_env sample_agent (sample_run_request\<lparr>ru_version := Some (av_id run_version)\<rparr>) 9 granting_world =
       (Inr (Some n, token), w') \<and> rn_tools n = [sample_tool] \<and>
     dget claims ''allowed_bindings'' = str_list [rc_binding_id sample_tool] \<and>
     verify_capability_token (rx_loads sample_env) (rx_hmac sample_env) (rx_signing_key sample_env) 0 token = Inr claims"
proof -
  let ?R = "sample_run_request\<lparr>ru_version := Some (av_id run_version)\<rparr>"
  obtain n0 where n0: "resolve_agent_capabilities (rx_rep sample_env) (rx_sorted_dumps sample_env) (rx_sha256 sample_env)
      sample_resolver_store run_version = Inr n0" "rn_issues n0 = []" "rn_tools n0 = [sample_tool]"
    using run_resolution by blast
  have frozen: "frozen_digest sample_env run_version = ''frozen''" by (simp add: frozen_digest_def run_version_def)
  have format: "py_int (rx_rep sample_env) (py_or (dget (av_snapshot run_version) ''format_version'') (JInt 1)) = Inr 2"
    by (simp add: run_version_def dget_def py_or_def py_int_def)
  have world: "rw_cap granting_world = sample_resolver_store" "rg_versions (db_registry (rw_db granting_world)) = [run_version]"
    "rx_platform sample_env" "rx_gateway sample_env"
    by (simp_all add: granting_world_def sample_run_world_def sample_env_def)
  have "\<exists>token w'. authorize_run sample_env sample_agent ?R 9 granting_world = (Inr (Some (n0\<lparr>rn_resolution_digest := ''frozen''\<rparr>), token), w')"
    using n0 by (simp add: authorize_run_def world row_get_Cons format ready_def granted_def Let_def frozen abind_def new_uuid_def)
  then obtain token w' where a: "authorize_run sample_env sample_agent ?R 9 granting_world =
      (Inr (Some (n0\<lparr>rn_resolution_digest := ''frozen''\<rparr>), token), w')" by blast
  have loads: "rx_loads sample_env (rx_dumps sample_env (JObj d)) = Some (JObj d)" for d
    by (simp add: sample_env_def run_dumps_def)
  have ids: "ag_id sample_agent \<noteq> []" "rn_resolution_digest (n0\<lparr>rn_resolution_digest := ''frozen''\<rparr>) \<noteq> []"
    by (simp_all add: sample_agent_def)
  have now: "0 < rw_now granting_world div 1000000 + int (rx_token_ttl sample_env)"
    by (simp add: granting_world_def sample_run_world_def sample_env_def)
  obtain claims where c: "dget claims ''allowed_bindings'' =
      str_list (sort (remdups (map rc_binding_id (rn_tools (n0\<lparr>rn_resolution_digest := ''frozen''\<rparr>)))))"
    "\<forall>t. verify_capability_token (rx_loads sample_env) (rx_hmac sample_env) (rx_signing_key sample_env) t token = Inr claims
       \<longleftrightarrow> t < rw_now granting_world div 1000000 + int (rx_token_ttl sample_env)"
    using run_token_grants_resolution [OF a loads ids] by blast
  have tools: "rn_tools (n0\<lparr>rn_resolution_digest := ''frozen''\<rparr>) = [sample_tool]" using n0(3) by simp
  have "verify_capability_token (rx_loads sample_env) (rx_hmac sample_env) (rx_signing_key sample_env) 0 token = Inr claims"
    using c(2) now by blast
  moreover have "dget claims ''allowed_bindings'' = str_list [rc_binding_id sample_tool]" using c(1) tools by simp
  ultimately show ?thesis using a tools by blast
qed

subsection \<open>A refused run\<close>

definition strict_agent :: agent where
  "strict_agent = sample_agent\<lparr>ag_input_schema := JObj [(''type'', JStr ''string'')]\<rparr>"

definition opening_world :: "(unit, unit) run_world" where
  "opening_world = sample_run_world\<lparr>rw_fs := sample_fs\<rparr>"

lemma sample_workspace:
  "\<exists>ws fs1 p fs2. create_session [''srv''] ''helper'' 5 ''document'' sample_fs = Inr (ws, fs1) \<and>
     write_input [''srv''] ws ''request.txt'' c fs1 = Inr (p, fs2)"
proof -
  have names: "agent_id_pattern ''helper''" "safe_filename ''request.txt''" by code_simp+
  note base = sample_base_ok [unfolded sample_base_def]
  obtain ws fs1 where c: "create_session [''srv''] ''helper'' 5 ''document'' sample_fs = Inr (ws, fs1)"
    using create_session_ok [where s = 5 and wt = "''document''", OF base names(1)] by (auto simp: sample_fs_def)
  note f = create_session_paths [OF base c]
  let ?d = "[''helper'', ''sessions'', uuid_str 5, ''input'']"
  have base1: "real_path (fs_links fs1) [''srv'']" "no_links_below fs1 [''srv'']"
    using base f(6) by (simp_all add: no_links_below_def)
  have dirs: "\<not> fs_dirs fs1 p" if "length p > 5" for p
    using create_session_dirs [OF base c, of p] that by (auto simp: sample_fs_def)
  have "uuid_str u \<noteq> ''..''" for u using uuid_str_plain(2) [of u] by force
  from this [of 5] have dots: "''..'' \<notin> set ?d" by simp
  have input: "ws_input ws = [''srv''] @ ?d" using f(3) by (simp add: session_root_def)
  have "\<exists>fs2. write_output [''srv''] (ws\<lparr>ws_output := ws_input ws\<rparr>) ''request.txt'' c fs1 =
      Inr ([''srv''] @ ?d @ [''request.txt''], fs2)"
    by (rule write_output_ok [OF base1 dots _ names(2)]) (use input f(9) dirs in \<open>auto simp: temporary_name_def\<close>)
  then have "\<exists>p fs2. write_input [''srv''] ws ''request.txt'' c fs1 = Inr (p, fs2)"
    by (auto simp: write_output_def write_input_def rbind_Inr split: if_splits)
  with c show ?thesis by blast
qed

theorem refused_run_ended_witness:
  "\<exists>x d w'. execute_agent_sync sample_env strict_agent sample_run_request opening_world = (Inl (Http_error 422 d), w') \<and>
     ended_execution x w'"
proof -
  let ?R = sample_run_request
  let ?p = "default_capability_profile ''hermes''"
  let ?ns = "\<lparr>ns_agent_id = ''helper'', ns_session_id = ''s'', ns_memory_type = ''short-term''\<rparr>"
  have profile: "normalize_capability_profile (JObj []) ''hermes'' = Inr ?p" "pr_workspace_type ?p = ''document''"
    by code_simp+
  have ns: "make_namespace ''helper'' ''s'' ''short-term'' = Inr ?ns" by code_simp
  obtain ws fs1 p fs2 where files: "create_session [''srv''] ''helper'' 5 ''document'' sample_fs = Inr (ws, fs1)"
    "write_input [''srv''] ws ''request.txt'' ''hi'' fs1 = Inr (p, fs2)"
    using sample_workspace by blast
  have agent: "ag_id strict_agent = ''helper''" "ag_runtime_type strict_agent = ''hermes''"
    "ag_capability_profile strict_agent = JObj []" "as_obj (ag_input_schema strict_agent) = [(''type'', JStr ''string'')]"
    by (simp_all add: strict_agent_def sample_agent_def)
  have request: "ru_orchestration ?R = Some 5" "ru_payload ?R = sample_request" "rq_session_id sample_request = ''s''"
    "rq_input sample_request = ''hi''" "ru_existing ?R = None" "ru_schema ?R = None" "ru_version ?R = None" "ru_attempt ?R = 0"
    by (simp_all add: sample_run_request_def sample_request_def)
  have env: "rx_root sample_env = [''srv'']" "rx_memory_type sample_env = ''short-term''"
    "rx_schema_errors sample_env = (\<lambda>_ _. [([], ''refused'')])"
    by (simp_all add: sample_env_def)
  have fs: "rw_fs opening_world = sample_fs" by (simp add: opening_world_def)
  have workspace: "open_workspace sample_env strict_agent ?R 5 ''document'' opening_world =
      (Inr ws, opening_world\<lparr>rw_fs := fs2\<rparr>)"
    by (simp add: open_workspace_def Let_def env agent request files fs)
  have "\<exists>x w1. open_run sample_env strict_agent ?R opening_world = (Inr (x, 5, ?ns, ws, ?p), w1) \<and> get_execution x (rw_db w1) \<noteq> None"
    using workspace ns profile
    by (simp add: open_run_def py_or_def agent request env rlift_def map_error_def aret_def rread_def abind_def rchange_def
        start_execution_def new_uuid_def run_execution_row_def row_get_append_new split: option.splits)
  then obtain x w1 where opened: "open_run sample_env strict_agent ?R opening_world = (Inr (x, 5, ?ns, ws, ?p), w1)"
    and row: "get_execution x (rw_db w1) \<noteq> None" by blast
  have authorized: "authorize_run sample_env strict_agent ?R x w1 = (Inr (None, []), w1)"
    by (simp add: authorize_run_def request)
  obtain w2 where step: "prepare_step x ?R ''request_received'' 0 ''request'' ''Request Received'' P_succeeded
      [(''response_mode'', JStr (ru_response_mode ?R)), (''session_id'', JStr (rq_session_id (ru_payload ?R)))] [] w1 = (Inr (), w2)"
    and w2: "rows_of w2 = rows_of w1"
    using log_step_frame by (auto simp: prepare_step_def log_step_def rchange_def rows_of_def
        record_step_frame [OF prod.collapse [symmetric]])
  obtain m w3 where gathered: "gather sample_env strict_agent x ?R ?p False w2 = (Inl (Value_failed m), w3)"
    and w3: "rows_of w3 = rows_of w2"
    by (simp add: gather_def Let_def check_input_def agent request env validate_instance_def abind_def araise_def
        log_step_def rchange_def rows_of_def record_step_frame [OF prod.collapse [symmetric]])
  have row3: "get_execution x (rw_db w3) \<noteq> None" using row w2 w3 by (simp add: rows_of_def)
  then have "fst (fail_execution x m w3) = Inr ()" by (auto simp: fail_execution_def rchange_def)
  then obtain w4 where "fail_execution x m w3 = (Inr (), w4)" by (cases "fail_execution x m w3") simp
  then have "execute_agent_sync sample_env strict_agent ?R opening_world = (Inl (Http_error 422 (JStr m)), w4)"
    using opened authorized step gathered
    by (simp add: execute_agent_sync_def prepare_agent_execution_def build_context_def prepared_or_failed_def failed_with_def
        araise_def)
  then have "\<exists>d w'. execute_agent_sync sample_env strict_agent ?R opening_world = (Inl (Http_error 422 d), w')" by blast
  moreover have "no_http (rx_new_session sample_env C)" "no_http (rx_execute sample_env C i)" for C i
    by (simp_all add: no_http_def sample_env_def)
  ultimately show ?thesis using refused_run_ended [OF opened] by blast
qed

end
