(* ===== verification/Execution_Api.thy ===== *)
theory Execution_Api
  imports Agent_Runs Task_Store
begin

text \<open>
  The handlers of executions (\<open>backend/app/api/executions.py\<close>): the summary and the trace of an execution,
  its retry as a new task, and stopping it on its runtime.
\<close>

section \<open>Reading\<close>

text \<open>The rows that belong to an execution; a list attribute is in the order of the rows.\<close>

record execution_view =
  vw_execution :: execution_log
  vw_agent_name :: string
  vw_memory_session_id :: "string option"
  vw_version :: "string option"
  vw_steps :: "execution_step list"
  vw_artifacts :: "artifact list"

definition artifacts_of :: "uuid \<Rightarrow> store \<Rightarrow> artifact list" where
  "artifacts_of x db = filter (\<lambda>a. (x, ar_id a) \<in> set (db_execution_artifacts db)) (db_artifacts db)"

definition view_execution :: "execution_log \<Rightarrow> store \<Rightarrow> execution_view" where
  "view_execution e db =
     \<lparr>vw_execution = e,
      vw_agent_name = (case get_agent (ex_agent_id e) db of Some a \<Rightarrow> ag_name a | None \<Rightarrow> ex_agent_id e),
      vw_memory_session_id = map_option ss_memory_session_id (Option.bind (ex_session_id e) (\<lambda>s. get_session s db)),
      vw_version = map_option av_version (Option.bind (ex_agent_version_id e) (\<lambda>u. row_get av_id u (rg_versions (db_registry db)))),
      vw_steps = sort_key sp_sequence (filter (\<lambda>s. sp_execution_id s = ex_id e) (db_steps db)),
      vw_artifacts = artifacts_of (ex_id e) db\<rparr>"

text \<open>\<open>needle in s\<close>.\<close>

fun contains_text :: "string \<Rightarrow> string \<Rightarrow> bool" where
  "contains_text needle [] = (needle = [])"
| "contains_text needle (c # cs) = (starts_with needle (c # cs) \<or> contains_text needle cs)"

definition is_mcp_call :: "execution_step \<Rightarrow> bool" where
  "is_mcp_call s \<longleftrightarrow> sp_step_type s = ''mcp'' \<and> starts_with ''mcp_call_'' (sp_step_key s)"

definition is_model_call :: "execution_step \<Rightarrow> bool" where
  "is_model_call s \<longleftrightarrow>
     sp_step_type s = ''runtime'' \<or> starts_with ''hermes_runtime'' (sp_step_key s) \<or> starts_with ''pi_runtime'' (sp_step_key s) \<or>
     (sp_step_type s = ''model'' \<and> contains_text ''call'' (lower (sp_step_name s)))"

definition text_of :: "(json \<Rightarrow> string) \<Rightarrow> json \<Rightarrow> string option" where
  "text_of rep v = (if v = JNull then None else Some (py_str rep v))"

text \<open>\<open>int(memory_scope.get("history_messages_loaded") or 0)\<close>, when the scope is an object.\<close>

definition history_loaded :: "(json \<Rightarrow> string) \<Rightarrow> dict \<Rightarrow> py_error + int" where
  "history_loaded rep details =
     (case dget details ''memory_scope'' of
        JObj scope \<Rightarrow> py_int rep (py_or (dget scope ''history_messages_loaded'') (JInt 0))
      | _ \<Rightarrow> Inr 0)"

definition list_count :: "json \<Rightarrow> nat" where
  "list_count v = (case v of JArr xs \<Rightarrow> length xs | _ \<Rightarrow> 0)"

record execution_summary =
  su_view :: execution_view
  su_task :: string
  su_skill_count :: nat
  su_mcp_call_count :: nat
  su_memory_read_count :: int
  su_artifact_count :: nat
  su_trace_step_count :: nat
  su_failed_step_count :: nat
  su_model_call_count :: nat

definition execution_summary :: "(json \<Rightarrow> string) \<Rightarrow> execution_view \<Rightarrow> py_error + execution_summary" where
  "execution_summary rep v =
     (let e = vw_execution v; details = as_obj (ex_details e); steps = vw_steps v in
      rbind (history_loaded rep details) (\<lambda>history. Inr
        \<lparr>su_view = v,
         su_task = (case dget (as_obj (ex_input_json e)) ''task'' of JStr t \<Rightarrow> t | _ \<Rightarrow> ex_input e),
         su_skill_count = list_count (dget details ''skills_loaded''),
         su_mcp_call_count = list_count (dget details ''mcp_calls''),
         su_memory_read_count = history,
         su_artifact_count = length (vw_artifacts v),
         su_trace_step_count = length steps,
         su_failed_step_count = length (filter (\<lambda>s. sp_status s = P_failed) steps),
         su_model_call_count = length (filter is_model_call steps)\<rparr>))"

record trace_metrics =
  tr_total_nodes :: nat
  tr_failed_nodes :: nat
  tr_history_messages_loaded :: int
  tr_skill_nodes :: nat
  tr_mcp_calls :: nat
  tr_model_calls :: nat
  tr_artifact_nodes :: nat
  tr_total_latency_ms :: int
  tr_slowest_node_ms :: "int option"

definition trace_metrics :: "(json \<Rightarrow> string) \<Rightarrow> execution_view \<Rightarrow> py_error + trace_metrics" where
  "trace_metrics rep v =
     (let steps = vw_steps v; latencies = List.map_filter sp_latency_ms steps in
      rbind (history_loaded rep (as_obj (ex_details (vw_execution v)))) (\<lambda>history. Inr
        \<lparr>tr_total_nodes = length steps,
         tr_failed_nodes = length (filter (\<lambda>s. sp_status s = P_failed) steps),
         tr_history_messages_loaded = history,
         tr_skill_nodes = length (filter (\<lambda>s. sp_step_type s = ''skill'') steps),
         tr_mcp_calls = length (filter is_mcp_call steps),
         tr_model_calls = length (filter is_model_call steps),
         tr_artifact_nodes = length (filter (\<lambda>s. sp_step_type s = ''artifact'') steps),
         tr_total_latency_ms = sum_list latencies,
         tr_slowest_node_ms = (if latencies = [] then None else Some (Max (set latencies)))\<rparr>))"

text \<open>
  The trace of an execution: its identity, the runtime and the model, the nodes, the artifacts and the
  metrics. \<open>dt_model\<close> and \<open>dt_adapter\<close> come from the details.
\<close>

record execution_trace =
  dt_view :: execution_view
  dt_model :: "string option"
  dt_adapter :: "string option"
  dt_metrics :: trace_metrics

definition execution_trace :: "(json \<Rightarrow> string) \<Rightarrow> execution_view \<Rightarrow> py_error + execution_trace" where
  "execution_trace rep v =
     (let details = as_obj (ex_details (vw_execution v)) in
      rbind (trace_metrics rep v) (\<lambda>m. Inr
        \<lparr>dt_view = v, dt_model = text_of rep (dget details ''model''), dt_adapter = text_of rep (dget details ''model_adapter''),
         dt_metrics = m\<rparr>))"

definition get_execution_trace :: "(json \<Rightarrow> string) \<Rightarrow> uuid \<Rightarrow> store \<Rightarrow> exc + execution_trace" where
  "get_execution_trace rep x db =
     (case get_execution x db of
        None \<Rightarrow> Inl (Http_exc 404 ''execution not found'')
      | Some e \<Rightarrow> (case execution_trace rep (view_execution e db) of Inl _ \<Rightarrow> Inl (Python_exc ''ValueError'') | Inr t \<Rightarrow> Inr t))"

record execution_detail =
  xd_summary :: execution_summary
  xd_model :: "string option"
  xd_model_adapter :: "string option"
  xd_schema_version :: "string option"
  xd_queue_task :: "agent_task option"

definition execution_detail :: "(json \<Rightarrow> string) \<Rightarrow> uuid \<Rightarrow> store \<Rightarrow> exc + execution_detail" where
  "execution_detail rep x db =
     (case get_execution x db of
        None \<Rightarrow> Inl (Http_exc 404 ''execution not found'')
      | Some e \<Rightarrow>
          (case execution_summary rep (view_execution e db) of
             Inl _ \<Rightarrow> Inl (Python_exc ''ValueError'')
           | Inr s \<Rightarrow>
               let details = as_obj (ex_details e) in
               Inr \<lparr>xd_summary = s, xd_model = text_of rep (dget details ''model''),
                    xd_model_adapter = text_of rep (dget details ''model_adapter''),
                    xd_schema_version = text_of rep (dget details ''schema_version''),
                    xd_queue_task = get_task_for_execution x db\<rparr>))"

definition success_rate :: "(rat \<Rightarrow> rat) \<Rightarrow> execution_counts \<Rightarrow> rat option" where
  "success_rate rounded c =
     (let completed = xc_succeeded c + xc_failed c in
      if completed = 0 then None else Some (rounded (of_nat (xc_succeeded c) / of_nat completed * 100)))"

record execution_page =
  xp_items :: "execution_summary list"
  xp_total :: nat
  xp_metrics :: execution_counts
  xp_success_rate :: "rat option"

fun summaries :: "(json \<Rightarrow> string) \<Rightarrow> store \<Rightarrow> execution_log list \<Rightarrow> py_error + execution_summary list" where
  "summaries rep db [] = Inr []"
| "summaries rep db (e # es) =
     rbind (execution_summary rep (view_execution e db)) (\<lambda>s. rbind (summaries rep db es) (\<lambda>ss. Inr (s # ss)))"

definition list_execution_page ::
  "(json \<Rightarrow> string) \<Rightarrow> (rat \<Rightarrow> rat) \<Rightarrow> execution_filter \<Rightarrow> nat \<Rightarrow> nat \<Rightarrow> store \<Rightarrow> py_error + execution_page"
where
  "list_execution_page rep rounded f limit offset db =
     (case list_executions f limit offset db of
        (items, n) \<Rightarrow>
          rbind (summaries rep db items) (\<lambda>ss. Inr
            \<lparr>xp_items = ss, xp_total = n, xp_metrics = get_execution_metrics f db,
             xp_success_rate = success_rate rounded (get_execution_metrics f db)\<rparr>))"

section \<open>Retry\<close>

record retry_request =
  ry_session_id :: "string option"
  ry_priority :: "int option"

definition retry_task :: "('q, 'b) env \<Rightarrow> execution_log \<Rightarrow> agent \<Rightarrow> retry_request \<Rightarrow> store \<Rightarrow> uuid \<Rightarrow> string \<Rightarrow> string \<Rightarrow> new_task" where
  "retry_task E source a r db s workspace_path workspace_type =
     \<lparr>nt_agent_id = ex_agent_id source, nt_input_text = ex_input source,
      nt_memory_session_id =
        (case ry_session_id r of
           Some (c # cs) \<Rightarrow> c # cs
         | _ \<Rightarrow> (case Option.bind (ex_session_id source) (\<lambda>s. get_session s db) of
                    Some k \<Rightarrow> ss_memory_session_id k
                  | None \<Rightarrow> ''retry-'' @ take 12 (uuid_hex (ex_id source)))),
      nt_user_id = None,
      nt_priority = (case ry_priority r of Some p \<Rightarrow> p | None \<Rightarrow> (case ex_priority source of Some p \<Rightarrow> p | None \<Rightarrow> 5)),
      nt_max_attempts = env_task_max_attempts E, nt_workspace_path = workspace_path, nt_session_id = s,
      nt_input_json = ex_input_json source, nt_retry_of_execution_id = Some (ex_id source),
      nt_agent_version_id = ex_agent_version_id source, nt_runtime_type = ag_runtime_type a,
      nt_workspace_type = workspace_type, nt_parent_task_id = None, nt_workflow_id = None, nt_workflow_run_id = None,
      nt_node_key = None, nt_node_type = ''agent'', nt_depends_on = [], nt_task_input_data = [], nt_initial_status = Pending\<rparr>"

text \<open>The rows of a task that the queue did not take.\<close>

definition fail_unqueued :: "agent_task \<Rightarrow> store \<Rightarrow> store" where
  "fail_unqueued k db =
     upd_task_execution k (\<lambda>e. e\<lparr>ex_status := X_failed, ex_error := Some ''task queue unavailable''\<rparr>)
       (upd_session (tk_session_id k) (\<lambda>s. s\<lparr>ss_status := X_failed\<rparr>)
         (upd_task (tk_id k) (\<lambda>t. t\<lparr>tk_status := Failed, tk_error := Some ''task queue unavailable''\<rparr>) db))"

definition retry_execution_request :: "('q, 'b) env \<Rightarrow> uuid \<Rightarrow> retry_request \<Rightarrow> ('q, 'b, agent_task) act" where
  "retry_execution_request E x r w =
     (case get_execution x (w_db w) of
        None \<Rightarrow> (Inl (Http_exc 404 ''execution not found''), w)
      | Some source \<Rightarrow>
          if ex_status source \<in> {X_queued, X_running} then (Inl (Http_exc 409 ''active execution cannot be retried''), w)
          else (case get_agent (ex_agent_id source) (w_db w) of
            None \<Rightarrow> (Inl (Http_exc 409 ''Agent is not active''), w)
          | Some a \<Rightarrow>
              if ag_status a \<noteq> A_active then (Inl (Http_exc 409 ''Agent is not active''), w)
              else let s = db_next_id (w_db w); w1 = upd_db (\<lambda>db. db\<lparr>db_next_id := Suc s\<rparr>) w in
                (case normalize_capability_profile (py_or (ag_capability_profile a) (JObj [])) (ag_runtime_type a) of
                   Inl e \<Rightarrow> (Inl (Profile_exc e), w1)
                 | Inr profile \<Rightarrow>
                     (case create_session (env_workspace_root E) (ex_agent_id source) s (pr_workspace_type profile) (w_fs w1) of
                        Inl Symlink_loop \<Rightarrow> (Inl (Fs_exc Symlink_loop), w1)
                      | Inl _ \<Rightarrow> (Inl (Http_exc 500 ''workspace creation failed''), w1)
                      | Inr (ws, fs) \<Rightarrow>
                          let w2 = w1\<lparr>w_fs := fs\<rparr> in
                          (case relative (env_workspace_root E) fs (ws_root ws) of
                             Inl e \<Rightarrow> (Inl (Fs_exc e), w2)
                           | Inr workspace_path \<Rightarrow>
                               abind (db_call (create_task (now w2)
                                 (retry_task E source a r (w_db w) s workspace_path (pr_workspace_type profile)))) (\<lambda>task w3.
                                 case enqueue_task E (tk_id task) (tk_priority task) w3 of
                                   (Inl (Queue_exc e), w4) \<Rightarrow>
                                     (Inl (Http_exc 503 ''task queue unavailable''), upd_db (fail_unqueued task) w4)
                                 | (Inl e, w4) \<Rightarrow> (Inl e, w4)
                                 | (Inr _, w4) \<Rightarrow> (Inr task, w4)) w2)))))"

section \<open>Stop\<close>

text \<open>The adapter refuses with a \<open>RuntimeAdapterError\<close>, or fails otherwise.\<close>

datatype stop_error = Adapter_refused string | Stop_crashed string

definition runtime_of_execution :: "(json \<Rightarrow> string) \<Rightarrow> execution_log \<Rightarrow> agent option \<Rightarrow> agent_runtime list \<Rightarrow> agent_runtime option" where
  "runtime_of_execution rep e a rows =
     (case ex_runtime_id e of
        Some u \<Rightarrow> row_get rt_id u rows
      | None \<Rightarrow> resolve_runtime rep (ex_runtime_type e) None
          (case a of Some g \<Rightarrow> as_obj (ag_runtime_config g) | None \<Rightarrow> []) rows)"

definition runtime_run_id :: "(json \<Rightarrow> string) \<Rightarrow> execution_log \<Rightarrow> string" where
  "runtime_run_id rep e = py_str rep (py_or (dget (as_obj (ex_details e)) ''runtime_run_id'') (JStr (uuid_str (ex_id e))))"

definition stopped_task :: "instant \<Rightarrow> agent_task \<Rightarrow> agent_task" where
  "stopped_task t k = k\<lparr>tk_status := Cancelled, tk_error := None, tk_finished_at := Some t\<rparr>"

definition cancel_task_of :: "uuid \<Rightarrow> instant \<Rightarrow> store \<Rightarrow> store" where
  "cancel_task_of x t db =
     (case get_task_for_execution x db of
        Some k \<Rightarrow> if tk_status k \<in> {Pending, Retrying, Running} then upd_task (tk_id k) (stopped_task t) db else db
      | None \<Rightarrow> db)"

definition stopped :: "instant \<Rightarrow> int \<Rightarrow> execution_log \<Rightarrow> execution_log" where
  "stopped t duration e = e\<lparr>ex_status := X_cancelled, ex_finished_at := Some t, ex_duration_ms := Some duration\<rparr>"

text \<open>
  \<open>stop_execution\<close>: the row is read before the runtime is asked to stop and not again after it. Only
  what changes is written: the error, unless there was one.
\<close>

definition stop_execution ::
  "('m, 'o) run_env \<Rightarrow> (string \<Rightarrow> agent_runtime option \<Rightarrow> string \<Rightarrow> ('m, 'o) run_world \<Rightarrow> (stop_error + unit) \<times> ('m, 'o) run_world) \<Rightarrow>
     uuid \<Rightarrow> ('m, 'o, string) run"
where
  "stop_execution E stop x w =
     (case get_execution x (rw_db w) of
        None \<Rightarrow> (Inl (Http_error 404 (JStr ''execution not found'')), w)
      | Some e \<Rightarrow>
          if ex_status e \<noteq> X_running then (Inl (Http_error 409 (JStr ''only running executions can be stopped'')), w)
          else let run_id = runtime_run_id (rx_rep E) e in
            (case stop (ex_runtime_type e)
                (runtime_of_execution (rx_rep E) e (get_agent (ex_agent_id e) (rw_db w)) (cs_runtimes (rw_cap w))) run_id w of
               (Inl (Adapter_refused m), w1) \<Rightarrow> (Inl (Http_error 502 (JStr ''Runtime stop failed'')), w1)
             | (Inl (Stop_crashed m), w1) \<Rightarrow> (Inl (Other_exn m), w1)
             | (Inr _, w1) \<Rightarrow>
                 let t = rw_now w1;
                     w2 = w1\<lparr>rw_db := cancel_task_of x t (end_session e X_cancelled t (upd_execution x
                       (\<lambda>row. (stopped t (elapsed_ms (ex_started_at e) t) row)
                          \<lparr>ex_error := (if ex_error e = None then ex_error row else None)\<rparr>) (rw_db w1)))\<rparr>;
                     named = (case dget (as_obj (ex_details e)) ''capability_token_jti'' of JStr j \<Rightarrow> j \<noteq> [] | _ \<Rightarrow> False) in
                 if named \<and> \<not> rx_redis_up E then (Inl (Other_exn ''RedisError''), w2)
                 else (Inr run_id, w2\<lparr>rw_marks := snd (revoke_execution_capability_token (rx_token_ttl E) t (JObj (as_obj (ex_details e))) (rw_marks w2)),
                        rw_db := cancel_running_steps t x (rw_db w2)\<rparr>)))"

end
