(* ===== verification/Execution_Api_Correct.thy ===== *)
theory Execution_Api_Correct
  imports Execution_Api Agent_Run_Claims
begin

text \<open>
  What the handlers of executions guarantee: a stopped execution is over, with its steps and its token;
  and how a stop and the end of the run it stops can cross.
\<close>

section \<open>Stop\<close>

lemma stopped_keys [simp]:
  "ex_id (stopped t d e) = ex_id e" "ex_status (stopped t d e) = X_cancelled"
  "tk_id (stopped_task t k) = tk_id k"
  by (simp_all add: stopped_def stopped_task_def)

lemma cancel_task_of_frame [simp]:
  "db_executions (cancel_task_of x t db) = db_executions db" "db_steps (cancel_task_of x t db) = db_steps db"
  by (simp_all add: cancel_task_of_def split: option.splits)

lemma end_session_executions: "get_execution x (cancel_task_of x t (end_session e st t db)) = get_execution x db"
  by simp

text \<open>The world after the runtime has stopped, and the one that \<open>stop_execution\<close> leaves.\<close>

lemma stop_execution_Inr:
  assumes "stop_execution E stop x w = (Inr i, w')" and "get_execution x (rw_db w) = Some e"
  obtains w1 rt where "stop (ex_runtime_type e) rt i w = (Inr (), w1)"
    and "rw_now w' = rw_now w1"
    and "get_execution x (rw_db w1) \<noteq> None \<Longrightarrow> cancelled_in x w'"
    and "list_all (not_running x) (db_steps (rw_db w'))"
    and "rw_marks w' = snd (revoke_execution_capability_token (rx_token_ttl E) (rw_now w1) (JObj (as_obj (ex_details e))) (rw_marks w1))"
proof -
  define rt where "rt = runtime_of_execution (rx_rep E) e (get_agent (ex_agent_id e) (rw_db w)) (cs_runtimes (rw_cap w))"
  define run_id where "run_id = runtime_run_id (rx_rep E) e"
  have running: "ex_status e = X_running" using assms by (simp add: stop_execution_def split: if_splits)
  obtain r w1 where s: "stop (ex_runtime_type e) rt run_id w = (r, w1)" by (cases "stop (ex_runtime_type e) rt run_id w")
  show thesis
  proof (cases r)
    case (Inl er)
    then show thesis using assms running s
      by (cases er) (simp_all add: stop_execution_def rt_def [symmetric] run_id_def [symmetric])
  next
    case (Inr u)
    define f where "f = (\<lambda>row. (stopped (rw_now w1) (elapsed_ms (ex_started_at e) (rw_now w1)) row)
        \<lparr>ex_error := (if ex_error e = None then ex_error row else None)\<rparr>)"
    define db2 where "db2 = cancel_task_of x (rw_now w1) (end_session e X_cancelled (rw_now w1) (upd_execution x f (rw_db w1)))"
    define m2 where "m2 = snd (revoke_execution_capability_token (rx_token_ttl E) (rw_now w1) (JObj (as_obj (ex_details e))) (rw_marks w1))"
    have w': "i = run_id \<and> w' = w1\<lparr>rw_db := cancel_running_steps (rw_now w1) x db2, rw_marks := m2\<rparr>"
      using assms running s Inr
      by (auto simp: stop_execution_def rt_def [symmetric] run_id_def [symmetric] Let_def f_def [symmetric] db2_def [symmetric]
          m2_def [symmetric] split: if_splits json.splits)
    have f: "ex_id (f row) = ex_id row" "ex_status (f row) = X_cancelled" for row by (simp_all add: f_def)
    have "get_execution x db2 = map_option f (get_execution x (rw_db w1))"
      by (simp add: db2_def execution_rows.get_upd_same f)
    then have c: "cancelled_in x w'" if "get_execution x (rw_db w1) \<noteq> None"
      using that w' f by (auto simp: cancelled_in_def running_steps_frame)
    have n: "list_all (not_running x) (db_steps (rw_db w'))" using w' by (simp add: running_steps_frame)
    have stop_call: "stop (ex_runtime_type e) rt i w = (Inr (), w1)" using s Inr w' by simp
    show thesis by (rule that [OF stop_call _ c n]) (simp_all add: w' m2_def)
  qed
qed


text \<open>C36. Stopping: when a stop is answered, the execution is cancelled and has no running step left, and
  a capability token with the identifier that its details name is refused from then on, as long as it
  was made before with at most the configured time to live, provided the runtime keeps the row.\<close>

theorem stopped_execution_is_over:
  assumes "stop_execution E stop x w = (Inr i, w')" and "get_execution x (rw_db w) = Some e"
    and "\<And>t rt i. get_execution x (rw_db (snd (stop t rt i w))) \<noteq> None"
    and "rx_loads E (rx_dumps E (JObj c)) = Some (JObj c)"
    and "dget c ''jti'' = JStr (b # j)" and "dget (as_obj (ex_details e)) ''capability_token_jti'' = JStr (b # j)"
    and "dget c ''exp'' = JInt (s + int life)" and "s \<le> rw_now w' div 1000000" and "life \<le> rx_token_ttl E"
  shows "cancelled_in x w' \<and> list_all (not_running x) (db_steps (rw_db w')) \<and>
    (\<exists>er. accept_token (rx_loads E) (rx_hmac E) (rx_signing_key E) t (rw_marks w')
       (seal (rx_hmac E) (rx_signing_key E) ''cap1'' (rx_dumps E (JObj c))) = Inl er)"
proof -
  obtain w1 rt where w1: "stop (ex_runtime_type e) rt i w = (Inr (), w1)" "rw_now w' = rw_now w1"
      "get_execution x (rw_db w1) \<noteq> None \<Longrightarrow> cancelled_in x w'" "list_all (not_running x) (db_steps (rw_db w'))"
      "rw_marks w' = snd (revoke_execution_capability_token (rx_token_ttl E) (rw_now w1) (JObj (as_obj (ex_details e))) (rw_marks w1))"
    using stop_execution_Inr [OF assms(1,2)] by blast
  have "cancelled_in x w'" using w1(1,3) assms(3) [of "ex_runtime_type e" rt i] by simp
  moreover have revoked: "revoke_execution_capability_token (rx_token_ttl E) (rw_now w1) (JObj (as_obj (ex_details e))) (rw_marks w1) =
      (True, rw_marks w')"
    using w1(5) assms(6) by (simp add: revoke_execution_capability_token_def)
  have same: "dget c ''jti'' = dget (as_obj (JObj (as_obj (ex_details e)))) ''capability_token_jti''"
    using assms(5,6) by simp
  have made: "s \<le> rw_now w1 div 1000000" using assms(8) w1(2) by simp
  ultimately show ?thesis
    using w1(4) revoked_refused [where loads = "rx_loads E" and dumps = "rx_dumps E" and c = c, OF revoked assms(4) same assms(7) made assms(9)]
    by blast
qed

text \<open>A sample: a running execution whose details name a token; the runtime stops at once.\<close>

definition stopping_world :: "(unit, unit) run_world" where
  "stopping_world = sample_run_world\<lparr>rw_db := (rw_db sample_run_world)\<lparr>db_executions :=
     [(run_execution_row sample_env sample_agent sample_run_request [] 9 5 100)
        \<lparr>ex_status := X_running, ex_details := JObj [(''capability_token_jti'', JStr ''j'')]\<rparr>]\<rparr>\<rparr>"

definition stops :: "string \<Rightarrow> agent_runtime option \<Rightarrow> string \<Rightarrow> (unit, unit) run_world \<Rightarrow> (stop_error + unit) \<times> (unit, unit) run_world" where
  "stops t rt i w = (Inr (), w)"

lemma stopping_row:
  "\<exists>e. get_execution 9 (rw_db stopping_world) = Some e \<and> ex_status e = X_running \<and>
     as_obj (ex_details e) = [(''capability_token_jti'', JStr ''j'')]"
  by (simp add: stopping_world_def sample_run_world_def row_get_Cons run_execution_row_def)

lemma stopping_stops: "\<exists>i w'. stop_execution sample_env stops 9 stopping_world = (Inr i, w') \<and> rw_now w' = 200"
proof -
  obtain e where e: "get_execution 9 (rw_db stopping_world) = Some e" "ex_status e = X_running"
    "as_obj (ex_details e) = [(''capability_token_jti'', JStr ''j'')]"
    using stopping_row by blast
  have up: "rx_redis_up sample_env" by (simp add: sample_env_def)
  have now: "rw_now stopping_world = 200" by (simp add: stopping_world_def sample_run_world_def)
  show ?thesis using e up now by (simp add: stop_execution_def stops_def Let_def)
qed

theorem stopped_execution_is_over_witness:
  "\<exists>i w'. stop_execution sample_env stops 9 stopping_world = (Inr i, w') \<and> cancelled_in 9 w'"
proof -
  obtain e where e: "get_execution 9 (rw_db stopping_world) = Some e" "ex_status e = X_running"
    "as_obj (ex_details e) = [(''capability_token_jti'', JStr ''j'')]"
    using stopping_row by blast
  obtain i w' where s: "stop_execution sample_env stops 9 stopping_world = (Inr i, w')" "rw_now w' = 200"
    using stopping_stops by blast
  let ?c = "execution_claims 600 ''e'' ''a'' ''v'' ''r'' [''b''] ''d'' 0 ''j''"
  have "cancelled_in 9 w' \<and> list_all (not_running 9) (db_steps (rw_db w')) \<and>
    (\<exists>er. accept_token (rx_loads sample_env) (rx_hmac sample_env) (rx_signing_key sample_env) 300 (rw_marks w')
       (seal (rx_hmac sample_env) (rx_signing_key sample_env) ''cap1'' (rx_dumps sample_env (JObj ?c))) = Inl er)"
  proof (rule stopped_execution_is_over [OF s(1) e(1)])
    show "get_execution 9 (rw_db (snd (stops t rt i stopping_world))) \<noteq> None" for t rt i using e(1) by (simp add: stops_def)
    show "rx_loads sample_env (rx_dumps sample_env (JObj ?c)) = Some (JObj ?c)" by (simp add: sample_env_def run_dumps_def)
    show "dget ?c ''jti'' = JStr (CHR ''j'' # [])" by (simp add: execution_claims_def dget_def)
    show "dget (as_obj (ex_details e)) ''capability_token_jti'' = JStr (CHR ''j'' # [])" using e(3) by (simp add: dget_def)
    show "dget ?c ''exp'' = JInt (0 + int 600)" by (simp add: execution_claims_def dget_def)
    show "0 \<le> rw_now w' div 1000000" by (simp add: s(2))
    show "600 \<le> rx_token_ttl sample_env" by (simp add: sample_env_def)
  qed
  then show ?thesis using s(1) by blast
qed

section \<open>A stop and the end of the run\<close>

text \<open>
  The row is not read again after the runtime was asked to stop: a run that has succeeded in the
  meantime is set to cancelled, with the output it has stored.
\<close>

definition succeeds_while_stopping ::
  "string \<Rightarrow> agent_runtime option \<Rightarrow> string \<Rightarrow> (unit, unit) run_world \<Rightarrow> (stop_error + unit) \<times> (unit, unit) run_world"
where
  "succeeds_while_stopping t rt i w =
     (Inr (), w\<lparr>rw_db := upd_execution 9 (\<lambda>e. e\<lparr>ex_status := X_succeeded, ex_output := Some ''ok''\<rparr>) (rw_db w)\<rparr>)"

lemma stop_overwrites_success:
  "\<exists>i w' e. stop_execution sample_env succeeds_while_stopping 9 stopping_world = (Inr i, w') \<and>
     get_execution 9 (rw_db w') = Some e \<and> ex_status e = X_cancelled \<and> ex_output e = Some ''ok''"
proof -
  obtain e where e: "get_execution 9 (rw_db stopping_world) = Some e" "ex_status e = X_running"
    "as_obj (ex_details e) = [(''capability_token_jti'', JStr ''j'')]"
    using stopping_row by blast
  have up: "rx_redis_up sample_env" by (simp add: sample_env_def)
  show ?thesis
    using e up by (simp add: stop_execution_def succeeds_while_stopping_def Let_def execution_rows.get_upd_same running_steps_frame
        stopped_def)
qed

end
