(* ===== verification/Skill_Packages.thy ===== *)
theory Skill_Packages
  imports Run_Parts Workspace Parameter_Policy "HOL-Library.Word"
begin

text \<open>
  Skill packages (\<open>backend/app/skills/package.py\<close>): what an uploaded archive may contain, its extraction
  into a staging directory, the manifest and its contract, and the installation; and the loader of
  installed Skills (\<open>skills/loader.py\<close>). The formats ZIP and YAML, SHA-256 and Unicode case folding are
  parameters, as is the name of the staging directory. A key of a YAML mapping is taken as its text.
\<close>

section \<open>Errors and settings\<close>

text \<open>\<open>SkillLoadError\<close>, \<open>FileExistsError\<close>, other errors of the system, and errors of Python.\<close>

datatype skill_error =
    Skill_error string
  | Path_exists string
  | System_error
  | Python_failed py_error

record skill_settings =
  sk_root :: path
  sk_max_upload :: nat
  sk_max_extracted :: nat
  sk_max_entries :: nat
  sk_max_document :: nat

text \<open>An entry as \<open>zipfile\<close> lists it; the content is None when it cannot be read as told.\<close>

record zip_entry =
  ze_filename :: string
  ze_external_attr :: nat
  ze_file_size :: nat
  ze_content :: "bytes option"

text \<open>What is used of other libraries.\<close>

record skill_env =
  se_unzip :: "bytes \<Rightarrow> zip_entry list option"
  se_yaml :: "bytes \<Rightarrow> string + json"
  se_dump :: "json \<Rightarrow> bytes"
  se_loads :: "bytes \<Rightarrow> string + json"
  se_fold :: "string \<Rightarrow> string"
  se_sha256 :: "bytes \<Rightarrow> string"
  se_rep :: "json \<Rightarrow> string"

definition os_failure :: "fs_error + 'a \<Rightarrow> skill_error + 'a" where
  "os_failure r = (case r of Inl _ \<Rightarrow> Inl System_error | Inr x \<Rightarrow> Inr x)"

section \<open>Extraction\<close>

definition normalized_name :: "zip_entry \<Rightarrow> string" where
  "normalized_name z = map (\<lambda>c. if c = CHR 0x5C then CHR ''/'' else c) (ze_filename z)"

definition unsafe_name :: "string \<Rightarrow> bool" where
  "unsafe_name s \<longleftrightarrow> s = [] \<or> is_absolute s \<or> ''..'' \<in> set (path_parts s)"

text \<open>The type bits of the mode: 10 is a link, 8 a regular file, 4 a directory.\<close>

definition entry_type :: "zip_entry \<Rightarrow> nat" where
  "entry_type z = ze_external_attr z div 2 ^ 28 mod 16"

definition is_directory_entry :: "zip_entry \<Rightarrow> bool" where
  "is_directory_entry z \<longleftrightarrow> ends_with ''/'' (ze_filename z)"

text \<open>\<open>open("xb")\<close>.\<close>

definition os_create :: "path \<Rightarrow> bytes \<Rightarrow> filesystem \<Rightarrow> skill_error + filesystem" where
  "os_create p b fs =
     (if fs_files fs p \<noteq> None \<or> fs_dirs fs p \<or> fs_links fs p \<noteq> None then Inl (Path_exists [])
      else os_failure (os_write p b fs))"

record extraction =
  xt_seen :: "string list"
  xt_total :: nat
  xt_extracted :: nat
  xt_fs :: filesystem

definition expands_beyond :: "skill_settings \<Rightarrow> string" where
  "expands_beyond S = ''Skill ZIP expands beyond '' @ nat_str (sk_max_extracted S) @ '' bytes''"

type_synonym 'a extracting = "extraction \<Rightarrow> (skill_error + 'a) \<times> extraction"

text \<open>The content is read and written in chunks of 64 KiB: those before the limit are written.\<close>

definition chunk_size :: nat where
  "chunk_size = 65536"

definition write_file :: "skill_settings \<Rightarrow> path \<Rightarrow> zip_entry \<Rightarrow> unit extracting" where
  "write_file S target z x =
     (let left = sk_max_extracted S - xt_extracted x;
          (result, written) = (case ze_content z of
             None \<Rightarrow> (Inl (Skill_error ''uploaded file is not a valid ZIP archive''), [])
           | Some b \<Rightarrow> if left < length b then (Inl (Skill_error (expands_beyond S)), take (left div chunk_size * chunk_size) b)
                       else (Inr (), b)) in
      case os_create target written (xt_fs x) of
        Inl e \<Rightarrow> (Inl e, x)
      | Inr fs \<Rightarrow> (result, x\<lparr>xt_fs := fs, xt_extracted := xt_extracted x + length written\<rparr>))"

definition make_directories :: "path \<Rightarrow> unit extracting" where
  "make_directories p x =
     (case os_failure (os_mkdirs p (xt_fs x)) of Inl e \<Rightarrow> (Inl e, x) | Inr fs \<Rightarrow> (Inr (), x\<lparr>xt_fs := fs\<rparr>))"

definition write_entry :: "skill_settings \<Rightarrow> path \<Rightarrow> zip_entry \<Rightarrow> unit extracting" where
  "write_entry S target z =
     (if is_directory_entry z then make_directories target
      else abind (make_directories (butlast target)) (\<lambda>_. write_file S target z))"

definition extract_entry :: "skill_env \<Rightarrow> skill_settings \<Rightarrow> path \<Rightarrow> zip_entry \<Rightarrow> unit extracting" where
  "extract_entry V S base z x =
     (let s = normalized_name z; parts = path_parts s; canonical = join ''/'' parts; key = se_fold V canonical;
          total = xt_total x + ze_file_size z in
      if unsafe_name s then (Inl (Skill_error (''unsafe archive path: '' @ ze_filename z)), x)
      else if key \<in> set (xt_seen x) then (Inl (Skill_error (''duplicate archive path: '' @ canonical)), x)
      else if entry_type z = 10 then (Inl (Skill_error (''symbolic links are not allowed: '' @ canonical)), x)
      else if entry_type z \<notin> {0, 8, 4} then (Inl (Skill_error (''special files are not allowed: '' @ canonical)), x)
      else if sk_max_extracted S < total then (Inl (Skill_error (expands_beyond S)), x)
      else write_entry S (base @ parts) z (x\<lparr>xt_seen := key # xt_seen x, xt_total := total\<rparr>))"

type_synonym 'a staging = "filesystem \<Rightarrow> (skill_error + 'a) \<times> filesystem"

definition extract_archive :: "skill_env \<Rightarrow> skill_settings \<Rightarrow> bytes \<Rightarrow> path \<Rightarrow> zip_entry list staging" where
  "extract_archive V S package base fs =
     (case se_unzip V package of
        None \<Rightarrow> (Inl (Skill_error ''uploaded file is not a valid ZIP archive''), fs)
      | Some zs \<Rightarrow>
          if zs = [] \<or> sk_max_entries S < length zs
          then (Inl (Skill_error (''Skill ZIP must contain 1 to '' @ nat_str (sk_max_entries S) @ '' entries'')), fs)
          else (case afor (extract_entry V S base) zs \<lparr>xt_seen = [], xt_total = 0, xt_extracted = 0, xt_fs = fs\<rparr> of
             (Inl e, x) \<Rightarrow> (Inl e, xt_fs x)
           | (Inr _, x) \<Rightarrow> (Inr zs, xt_fs x)))"

text \<open>\<open>_package_root\<close>: the only directory at the top of the archive, or the archive itself.\<close>

definition top_names :: "zip_entry list \<Rightarrow> string list" where
  "top_names zs = remdups (filter (\<lambda>n. n \<noteq> ''__MACOSX'')
     (map hd (filter (\<lambda>p. p \<noteq> []) (map (path_parts \<circ> normalized_name) zs))))"

definition package_root :: "path \<Rightarrow> zip_entry list \<Rightarrow> filesystem \<Rightarrow> path" where
  "package_root base zs fs =
     (case top_names zs of [n] \<Rightarrow> if fs_dirs fs (base @ [n]) then base @ [n] else base | _ \<Rightarrow> base)"

section \<open>The manifest\<close>

definition read_manifest :: "skill_env \<Rightarrow> path \<Rightarrow> filesystem \<Rightarrow> skill_error + dict" where
  "read_manifest V base fs =
     (case fs_files fs (base @ [''skill.yaml'']) of
        None \<Rightarrow> Inl (Skill_error ''Skill ZIP must contain skill.yaml'')
      | Some b \<Rightarrow>
          (case se_yaml V b of
             Inl m \<Rightarrow> Inl (Skill_error (''skill.yaml could not be read: '' @ m))
           | Inr (JObj d) \<Rightarrow> Inr d
           | Inr _ \<Rightarrow> Inl (Skill_error ''skill.yaml must contain an object'')))"

definition version_pattern :: "string \<Rightarrow> bool" where
  "version_pattern s =
     (case s of [] \<Rightarrow> False
      | c # cs \<Rightarrow> (is_digit c \<or> is_lower c \<or> is_upper c) \<and> length cs \<le> 63 \<and>
          list_all (\<lambda>c. is_digit c \<or> is_lower c \<or> is_upper c \<or> c \<in> {CHR ''.'', CHR ''+'', CHR ''-''}) cs)"

text \<open>\<open>item not in {...}\<close> hashes the item: a list or a dict is a \<open>TypeError\<close>.\<close>

definition missing_in :: "string list \<Rightarrow> json \<Rightarrow> skill_error + bool" where
  "missing_in names v =
     (case v of JArr _ \<Rightarrow> Inl (Python_failed Type_error) | JObj _ \<Rightarrow> Inl (Python_failed Type_error)
      | _ \<Rightarrow> Inr (v \<notin> JStr ` set names))"

fun any_missing :: "string list \<Rightarrow> json list \<Rightarrow> skill_error + bool" where
  "any_missing names [] = Inr False"
| "any_missing names (v # vs) = rbind (missing_in names v) (\<lambda>b. if b then Inr True else any_missing names vs)"

record skill_head =
  sh_id :: string
  sh_name :: string
  sh_description :: "string option"
  sh_version :: string
  sh_runtime_support :: "string list"

definition support_message :: string where
  "support_message = ''skill.yaml runtime_support must contain hermes, pi, and/or deepseek''"

definition manifest_entry :: "dict \<Rightarrow> json" where
  "manifest_entry manifest =
     (case dget_default manifest ''entry'' (JStr ''SKILL.md'') of JObj d \<Rightarrow> dget d ''file'' | v \<Rightarrow> v)"

definition validate_manifest :: "dict \<Rightarrow> skill_error + skill_head" where
  "validate_manifest manifest =
     (let raw_id = dget_default manifest ''id'' (dget manifest ''name'');
          raw_name = dget_default manifest ''display_name'' (dget manifest ''name'');
          raw_version = dget manifest ''version''; raw_description = dget manifest ''description'';
          raw_support = dget_default manifest ''runtime_support'' (str_list [''hermes'']) in
      if \<not> (is_str raw_id \<and> agent_id_pattern (as_str raw_id))
      then Inl (Skill_error ''skill.yaml id/name must be a lowercase hyphenated identifier'')
      else if \<not> (is_str raw_name \<and> strip (as_str raw_name) \<noteq> [] \<and> py_len (as_str raw_name) \<le> 255)
      then Inl (Skill_error ''skill.yaml name/display_name must contain 1 to 255 characters'')
      else if \<not> (is_str raw_version \<and> version_pattern (as_str raw_version))
      then Inl (Skill_error ''skill.yaml version is required and invalid'')
      else if raw_description \<noteq> JNull \<and> \<not> is_str raw_description
      then Inl (Skill_error ''skill.yaml description must be a string'')
      else if manifest_entry manifest \<noteq> JStr ''SKILL.md''
      then Inl (Skill_error ''first-stage Skill entry must be SKILL.md'')
      else if \<not> is_arr raw_support \<or> raw_support = JArr [] then Inl (Skill_error support_message)
      else rbind (any_missing [''hermes'', ''pi'', ''deepseek''] (as_arr raw_support)) (\<lambda>missing.
        if missing then Inl (Skill_error support_message)
        else Inr \<lparr>sh_id = as_str raw_id, sh_name = strip (as_str raw_name),
          sh_description = (case raw_description of JStr s \<Rightarrow> Some s | _ \<Rightarrow> None), sh_version = as_str raw_version,
          sh_runtime_support = dedupe (map as_str (as_arr raw_support))\<rparr>))"

subsection \<open>The contract\<close>

definition spec_of :: "dict \<Rightarrow> dict" where
  "spec_of manifest = (case dget manifest ''spec'' of JObj d \<Rightarrow> d | _ \<Rightarrow> manifest)"

definition contract_char :: "char \<Rightarrow> bool" where
  "contract_char c \<longleftrightarrow> is_lower c \<or> is_digit c \<or> c \<in> {CHR ''_'', CHR ''.'', CHR ''-''}"

definition alias_pattern :: "string \<Rightarrow> bool" where
  "alias_pattern s = (case s of [] \<Rightarrow> False | c # cs \<Rightarrow> is_lower c \<and> length cs \<le> 127 \<and> list_all contract_char cs)"

definition capability_pattern :: "string \<Rightarrow> bool" where
  "capability_pattern s =
     (case s of [] \<Rightarrow> False | c # cs \<Rightarrow> is_lower c \<and> cs \<noteq> [] \<and> length cs \<le> 254 \<and> list_all contract_char cs)"

definition at_index :: "nat \<Rightarrow> string \<Rightarrow> string" where
  "at_index i m = ''capability_requirements['' @ nat_str i @ '']'' @ m"

definition check_requirement :: "nat \<Rightarrow> json \<Rightarrow> string list \<Rightarrow> skill_error + string list" where
  "check_requirement i r aliases =
     (case r of
        JObj d \<Rightarrow>
          (let alias = dget d ''alias''; capability = dget d ''capability''; range = dget_default d ''version'' (JStr ''*'');
               calls = dget_default d ''minimum_calls'' (JInt 0) in
           if \<not> (is_str alias \<and> alias_pattern (as_str alias)) then Inl (Skill_error (at_index i ''.alias is invalid''))
           else if as_str alias \<in> set aliases
           then Inl (Skill_error (''duplicate capability requirement alias: '' @ as_str alias))
           else if \<not> (is_str capability \<and> capability_pattern (as_str capability))
           then Inl (Skill_error (at_index i ''.capability is invalid''))
           else if \<not> (is_str range \<and> strip (as_str range) \<noteq> []) then Inl (Skill_error (at_index i ''.version is invalid''))
           else rbind (missing_in [''fail_closed'', ''continue_with_warning''] (dget_default d ''failure_policy'' (JStr ''fail_closed''))) (\<lambda>missing.
             if missing then Inl (Skill_error (at_index i ''.failure_policy is invalid''))
             else if (case calls of JInt n \<Rightarrow> n < 0 | _ \<Rightarrow> True)
             then Inl (Skill_error (at_index i ''.minimum_calls is invalid''))
             else Inr (as_str alias # aliases)))
      | _ \<Rightarrow> Inl (Skill_error (at_index i '' must be an object'')))"

fun check_requirements :: "nat \<Rightarrow> json list \<Rightarrow> string list \<Rightarrow> skill_error + string list" where
  "check_requirements i [] aliases = Inr aliases"
| "check_requirements i (r # rs) aliases = rbind (check_requirement i r aliases) (check_requirements (Suc i) rs)"

definition sensitive_names :: "string list" where
  "sensitive_names = [''api_key'', ''token'', ''password'', ''secret'', ''private_key'', ''connection_string'']"

definition plaintext_secret :: "string \<Rightarrow> json \<Rightarrow> bool" where
  "plaintext_secret key v \<longleftrightarrow>
     map (\<lambda>c. if c = CHR ''-'' then CHR ''_'' else c) (lower key) \<in> set sensitive_names \<and>
     v \<notin> {JNull, JStr [], JStr (CHR 0x24 # ''{CREDENTIAL_REF}'')}"

lemma rfor_cong [fundef_cong]: "xs = ys \<Longrightarrow> (\<And>x. x \<in> set ys \<Longrightarrow> f x = g x) \<Longrightarrow> rfor f xs = rfor g ys"
proof -
  have "(\<And>x. x \<in> set ys \<Longrightarrow> f x = g x) \<Longrightarrow> rfor f ys = rfor g ys" by (induction ys) auto
  then show "xs = ys \<Longrightarrow> (\<And>x. x \<in> set ys \<Longrightarrow> f x = g x) \<Longrightarrow> rfor f xs = rfor g ys" by simp
qed

function reject_plaintext_secrets :: "string \<Rightarrow> json \<Rightarrow> skill_error + unit" where
  "reject_plaintext_secrets path (JObj d) =
     rfor (\<lambda>(k, v).
       if plaintext_secret k v then Inl (Skill_error (path @ ''.'' @ k @ '' must not contain a plaintext credential''))
       else reject_plaintext_secrets (path @ ''.'' @ k) v) d"
| "reject_plaintext_secrets path (JArr xs) =
     rfor (\<lambda>(i, v). reject_plaintext_secrets (path @ ''['' @ nat_str i @ '']'') v) (enumerate 0 xs)"
| "reject_plaintext_secrets path JNull = Inr ()"
| "reject_plaintext_secrets path (JBool b) = Inr ()"
| "reject_plaintext_secrets path (JInt i) = Inr ()"
| "reject_plaintext_secrets path (JFloat r) = Inr ()"
| "reject_plaintext_secrets path (JStr s) = Inr ()"
  by pat_completeness auto

termination reject_plaintext_secrets
  by (relation "measure (\<lambda>(p, v). size v)") (auto dest: size_in_dict size_in_enumerate)

definition validate_skill_contract :: "dict \<Rightarrow> skill_error + unit" where
  "validate_skill_contract manifest =
     (let spec = spec_of manifest in
      rbind (missing_in [''autonomous'', ''workflow'', ''hybrid''] (dget_default spec ''execution_mode'' (JStr ''autonomous''))) (\<lambda>missing.
      if missing then Inl (Skill_error ''skill.yaml execution_mode must be autonomous, workflow, or hybrid'')
      else case dget_default spec ''runtime_requirements'' (JObj []) of
        JObj runtime \<Rightarrow>
          (case dget_default runtime ''required_features'' (JArr []) of
             JArr features \<Rightarrow>
               if list_ex (\<lambda>f. \<not> is_str f \<or> strip (as_str f) = []) features
               then Inl (Skill_error ''skill.yaml required_features must be a string array'')
               else (case dget_default spec ''capability_requirements'' (JArr []) of
                 JArr requirements \<Rightarrow>
                   rbind (check_requirements 0 requirements []) (\<lambda>_. reject_plaintext_secrets ''skill.yaml'' (JObj manifest))
               | _ \<Rightarrow> Inl (Skill_error ''skill.yaml capability_requirements must be an array''))
           | _ \<Rightarrow> Inl (Skill_error ''skill.yaml required_features must be a string array''))
      | _ \<Rightarrow> Inl (Skill_error ''skill.yaml runtime_requirements must be an object'')))"

text \<open>\<open>skill_contract\<close>: the features, the requirements and the mode.\<close>

definition skill_contract :: "(json \<Rightarrow> string) \<Rightarrow> dict \<Rightarrow> string list \<times> dict list \<times> string" where
  "skill_contract rep manifest =
     (let spec = spec_of manifest; runtime = as_obj (dget spec ''runtime_requirements'') in
      (map (py_str rep) (as_arr (dget_default runtime ''required_features'' (JArr []))),
       map as_obj (filter is_obj (as_arr (dget_default spec ''capability_requirements'' (JArr [])))),
       py_str rep (py_or (dget spec ''execution_mode'') (JStr ''autonomous''))))"

section \<open>The files of the runtime\<close>

text \<open>
  \<open>_normalize_runtime_files\<close>: the configuration gets what the manifest says. \<open>config.yaml\<close> is written
  where it may be missing.
\<close>

definition read_config :: "skill_env \<Rightarrow> path \<Rightarrow> string \<Rightarrow> filesystem \<Rightarrow> skill_error + dict" where
  "read_config V base skill_id fs =
     (if fs_dirs fs (base @ [''config.yaml'']) then Inl (Skill_error ''config.yaml could not be read: Is a directory'')
      else case fs_files fs (base @ [''config.yaml'']) of
        None \<Rightarrow> Inr []
      | Some b \<Rightarrow>
          (case se_yaml V b of
             Inl m \<Rightarrow> Inl (Skill_error (''config.yaml could not be read: '' @ m))
           | Inr (JObj d) \<Rightarrow>
               (case dget d ''id'' of
                  JArr _ \<Rightarrow> Inl (Python_failed Type_error)
                | JObj _ \<Rightarrow> Inl (Python_failed Type_error)
                | v \<Rightarrow> if v \<in> {JNull, JStr skill_id} then Inr d
                    else Inl (Skill_error ''config.yaml id does not match skill.yaml''))
           | Inr _ \<Rightarrow> Inl (Skill_error ''config.yaml must contain an object'')))"

definition runtime_config :: "skill_head \<Rightarrow> dict \<Rightarrow> dict \<Rightarrow> dict" where
  "runtime_config h manifest config =
     dupdate config
       [(''id'', JStr (sh_id h)), (''name'', JStr (sh_name h)), (''description'', opt_str (sh_description h)),
        (''version'', JStr (sh_version h)), (''entry'', JStr ''SKILL.md''),
        (''tools'', dget_default manifest ''tools'' (JArr [])), (''runtime_support'', str_list (sh_runtime_support h))]"

definition normalize_runtime_files ::
  "skill_env \<Rightarrow> path \<Rightarrow> skill_head \<Rightarrow> dict \<Rightarrow> filesystem \<Rightarrow> skill_error + filesystem"
where
  "normalize_runtime_files V base h manifest fs =
     (if fs_files fs (base @ [''SKILL.md'']) = None
      then Inl (Skill_error ''Skill ZIP entry does not exist: SKILL.md'')
      else rbind (read_config V base (sh_id h) fs) (\<lambda>config.
        os_failure (os_write (base @ [''config.yaml'']) (se_dump V (JObj (runtime_config h manifest config))) fs)))"

section \<open>The loader\<close>

definition resolve_directory :: "skill_settings \<Rightarrow> string \<Rightarrow> filesystem \<Rightarrow> skill_error + path" where
  "resolve_directory S relative_path fs =
     (if is_absolute relative_path then Inl (Skill_error ''skill paths must be relative to SKILLS_ROOT'')
      else case resolve fs (sk_root S @ path_parts relative_path) of
        Inl _ \<Rightarrow> Inl System_error
      | Inr q \<Rightarrow>
          if \<not> under (sk_root S) q then Inl (Skill_error ''skill path escapes SKILLS_ROOT'')
          else if \<not> fs_dirs fs q then Inl (Skill_error (''skill directory does not exist: '' @ relative_path))
          else Inr q)"

definition output_schema_reference :: "dict \<Rightarrow> string option" where
  "output_schema_reference d =
     (case dget (as_obj (dget d ''schemas'')) ''output'' of
        JStr s \<Rightarrow> Some s
      | _ \<Rightarrow> (case dget (as_obj (dget (as_obj (dget d ''output'')) ''response'')) ''schema'' of JStr s \<Rightarrow> Some s | _ \<Rightarrow> None))"

text \<open>An empty reference is no reference of the manifest, and the directory for the configuration.\<close>

definition schema_reference :: "dict \<Rightarrow> dict \<Rightarrow> string option" where
  "schema_reference manifest config =
     (case output_schema_reference manifest of
        Some (c # cs) \<Rightarrow> Some (c # cs)
      | _ \<Rightarrow> output_schema_reference config)"

text \<open>The file a path leads to, links followed.\<close>

definition file_at :: "path \<Rightarrow> filesystem \<Rightarrow> bytes option" where
  "file_at p fs = (case resolve fs p of Inl _ \<Rightarrow> None | Inr q \<Rightarrow> if fs_dirs fs q then None else fs_files fs q)"

definition load_output_schema ::
  "skill_env \<Rightarrow> skill_settings \<Rightarrow> path \<Rightarrow> string \<Rightarrow> dict \<Rightarrow> dict \<Rightarrow> filesystem \<Rightarrow> skill_error + dict option"
where
  "load_output_schema V S directory skill_id manifest config fs =
     (let fail = (\<lambda>m. Inl (Skill_error (''skill '' @ skill_id @ '' output schema '' @ m))) in
      case schema_reference manifest config of
        None \<Rightarrow> Inr None
      | Some r \<Rightarrow>
          if is_absolute r then fail ''path must be relative''
          else (case resolve fs (directory @ path_parts r) of
            Inl _ \<Rightarrow> Inl System_error
          | Inr q \<Rightarrow>
              if \<not> under directory q then fail ''escapes the skill directory''
              else (case file_at q fs of
                None \<Rightarrow> fail ''does not exist''
              | Some b \<Rightarrow>
                  if sk_max_document S < length b then fail ''exceeds the size limit''
                  else (case se_loads V b of
                    Inl m \<Rightarrow> fail (''could not be read: '' @ m)
                  | Inr (JObj d) \<Rightarrow> Inr (Some d)
                  | Inr _ \<Rightarrow> fail ''must contain an object''))))"

definition render_skill :: "string \<Rightarrow> string \<Rightarrow> string \<Rightarrow> string" where
  "render_skill skill_id name instructions =
     ''<skill id='' @ [CHR 0x22] @ skill_id @ [CHR 0x22] @ '' name='' @ [CHR 0x22] @ name @ [CHR 0x22] @ ''>'' @ newline @
       instructions @ newline @ ''</skill>''"

definition load_definition ::
  "skill_env \<Rightarrow> skill_settings \<Rightarrow> string \<Rightarrow> string \<Rightarrow> string \<Rightarrow> dict \<Rightarrow> filesystem \<Rightarrow> skill_error + loaded_skill"
where
  "load_definition V S skill_id name relative_path manifest fs =
     (let fail = (\<lambda>m. Inl (Skill_error (''skill '' @ skill_id @ m))) in
      rbind (resolve_directory S relative_path fs) (\<lambda>directory.
      case (file_at (directory @ [''SKILL.md'']) fs, file_at (directory @ [''config.yaml'']) fs) of
        (Some document, Some config_text) \<Rightarrow>
          if sk_max_document S < length document then fail '' SKILL.md exceeds the size limit''
          else (case se_yaml V config_text of
            Inl m \<Rightarrow> fail ('' could not be read: '' @ m)
          | Inr v \<Rightarrow>
              if strip document = [] then fail '' SKILL.md is empty''
              else (case v of
                JObj config \<Rightarrow>
                  if dget config ''id'' \<noteq> JStr skill_id then fail '' config id does not match the registry''
                  else rbind (load_output_schema V S directory skill_id manifest config fs) (\<lambda>schema.
                    Inr \<lparr>ld_id = skill_id, ld_document = render_skill skill_id name (strip document), ld_config = config,
                         ld_output_schema = (case schema of Some d \<Rightarrow> d | None \<Rightarrow> [])\<rparr>)
              | _ \<Rightarrow> fail '' config.yaml must contain an object''))
      | _ \<Rightarrow> fail '' must contain SKILL.md and config.yaml''))"

text \<open>A registered Skill: its row has the id, the name, the path and the manifest.\<close>

record skill_row =
  sr_id :: string
  sr_name :: string
  sr_path :: string
  sr_manifest :: dict

fun load_all :: "skill_env \<Rightarrow> skill_settings \<Rightarrow> skill_row list \<Rightarrow> filesystem \<Rightarrow> skill_error + loaded_skill list" where
  "load_all V S [] fs = Inr []"
| "load_all V S (r # rs) fs =
     rbind (load_definition V S (sr_id r) (sr_name r) (sr_path r) (sr_manifest r) fs) (\<lambda>l.
     rbind (load_all V S rs fs) (\<lambda>ls. Inr (l # ls)))"

definition load_many :: "skill_env \<Rightarrow> skill_settings \<Rightarrow> skill_row list \<Rightarrow> filesystem \<Rightarrow> skill_error + loaded_skill list" where
  "load_many V S rows fs = load_all V S (sort_key sr_id rows) fs"

section \<open>Import and removal\<close>

text \<open>A tree is moved: the files and directories below the source stand below the destination.\<close>

definition move_tree :: "path \<Rightarrow> path \<Rightarrow> filesystem \<Rightarrow> filesystem" where
  "move_tree src dst fs =
     fs\<lparr>fs_files := (\<lambda>p. if under dst p then fs_files fs (src @ drop (length dst) p) else fs_files fs p),
        fs_dirs := (\<lambda>p. if under dst p then fs_dirs fs (src @ drop (length dst) p) else fs_dirs fs p)\<rparr>"

definition remove_tree :: "path \<Rightarrow> filesystem \<Rightarrow> filesystem" where
  "remove_tree base fs =
     fs\<lparr>fs_files := (\<lambda>p. if under base p then None else fs_files fs p),
        fs_dirs := (\<lambda>p. \<not> under base p \<and> fs_dirs fs p),
        fs_links := (\<lambda>p. if under base p then None else fs_links fs p)\<rparr>"

definition exists_at :: "path \<Rightarrow> filesystem \<Rightarrow> bool" where
  "exists_at p fs =
     (case resolve fs p of Inl _ \<Rightarrow> False | Inr q \<Rightarrow> fs_dirs fs q \<or> fs_files fs q \<noteq> None)"

record imported_skill =
  is_head :: skill_head
  is_manifest :: dict
  is_sha256 :: string

text \<open>
  What happens in the staging directory, up to the copy that is put in place: the head, the manifest
  and the package with its files.
\<close>

definition checked :: "skill_error + 'a \<Rightarrow> 'a staging" where
  "checked r fs = (r, fs)"

definition stage_package ::
  "skill_env \<Rightarrow> skill_settings \<Rightarrow> bytes \<Rightarrow> path \<Rightarrow> (skill_head \<times> dict \<times> path) staging"
where
  "stage_package V S package stage =
     (let base = stage @ [''extracted''] in
      abind (\<lambda>fs. case os_mkdirs base fs of Inl _ \<Rightarrow> (Inl System_error, fs) | Inr fs' \<Rightarrow> (Inr (), fs')) (\<lambda>_.
      abind (extract_archive V S package base) (\<lambda>zs fs2.
      let source = package_root base zs fs2 in
      abind (checked (read_manifest V source fs2)) (\<lambda>manifest.
      abind (checked (validate_manifest manifest)) (\<lambda>h.
      abind (checked (validate_skill_contract manifest)) (\<lambda>_ fs.
      case normalize_runtime_files V source h manifest fs of
        Inl e \<Rightarrow> (Inl e, fs)
      | Inr fs3 \<Rightarrow> (Inr (h, manifest, source), fs3)))) fs2)))"

text \<open>
  The package is put in place. A Skill that cannot be loaded is removed again. A link in the place of
  the Skill that leads nowhere cannot be replaced by a directory.
\<close>

definition install_package :: "skill_env \<Rightarrow> skill_settings \<Rightarrow> skill_head \<Rightarrow> path \<Rightarrow> unit staging" where
  "install_package V S h source fs =
     (let destination = sk_root S @ [sh_id h] in
      if exists_at destination fs then (Inl (Path_exists (''skill path already exists: '' @ sh_id h)), fs)
      else if fs_links fs destination \<noteq> None then (Inl System_error, fs)
      else let fs' = move_tree source destination fs in
        (case load_definition V S (sh_id h) (sh_name h) (sh_id h) [] fs' of
           Inl e \<Rightarrow> (Inl e, remove_tree destination fs')
         | Inr _ \<Rightarrow> (Inr (), fs')))"

text \<open>\<open>import_zip\<close>: the staging directory is removed in any case.\<close>

definition import_zip :: "skill_env \<Rightarrow> skill_settings \<Rightarrow> bytes \<Rightarrow> string \<Rightarrow> imported_skill staging" where
  "import_zip V S package temporary fs =
     (if package = [] then (Inl (Skill_error ''Skill ZIP is empty''), fs)
      else if sk_max_upload S < length package
      then (Inl (Skill_error (''Skill ZIP exceeds '' @ nat_str (sk_max_upload S) @ '' bytes'')), fs)
      else case os_mkdirs (sk_root S) fs of
        Inl _ \<Rightarrow> (Inl System_error, fs)
      | Inr fs0 \<Rightarrow>
          let stage = sk_root S @ [temporary] in
          (case stage_package V S package stage fs0 of
             (Inl e, fs1) \<Rightarrow> (Inl e, remove_tree stage fs1)
           | (Inr (h, manifest, source), fs1) \<Rightarrow>
               (case install_package V S h source fs1 of
                  (Inl e, fs2) \<Rightarrow> (Inl e, remove_tree stage fs2)
                | (Inr _, fs2) \<Rightarrow>
                    (Inr \<lparr>is_head = h, is_manifest = manifest, is_sha256 = se_sha256 V package\<rparr>, remove_tree stage fs2))))"

definition validate_managed_path :: "skill_settings \<Rightarrow> string \<Rightarrow> filesystem \<Rightarrow> skill_error + path" where
  "validate_managed_path S relative_path fs =
     (case path_parts relative_path of
        [n] \<Rightarrow>
          if is_absolute relative_path \<or> \<not> agent_id_pattern n
          then Inl (Skill_error ''only managed uploaded Skill paths can be removed'')
          else (case resolve fs (sk_root S @ [n]) of
            Inl _ \<Rightarrow> Inl System_error
          | Inr q \<Rightarrow> if under (sk_root S) q then Inr q else Inl (Skill_error ''skill path escapes SKILLS_ROOT''))
      | _ \<Rightarrow> Inl (Skill_error ''only managed uploaded Skill paths can be removed''))"

definition remove_skill :: "skill_settings \<Rightarrow> string \<Rightarrow> filesystem \<Rightarrow> (skill_error + unit) \<times> filesystem" where
  "remove_skill S relative_path fs =
     (case validate_managed_path S relative_path fs of
        Inl e \<Rightarrow> (Inl e, fs)
      | Inr q \<Rightarrow> (Inr (), if fs_dirs fs q then remove_tree q fs else fs))"

text \<open>\<open>remove_staged\<close>: only what was set aside for deletion.\<close>

definition remove_staged :: "skill_settings \<Rightarrow> path \<Rightarrow> filesystem \<Rightarrow> (skill_error + unit) \<times> filesystem" where
  "remove_staged S p fs =
     (case resolve fs p of
        Inl _ \<Rightarrow> (Inl System_error, fs)
      | Inr q \<Rightarrow>
          if \<not> under (sk_root S) q then (Inl (Skill_error ''staged Skill path escapes SKILLS_ROOT''), fs)
          else (Inr (),
            if q \<noteq> [] \<and> starts_with ''.'' (last q) \<and> ends_with ''.deleting'' (last q) \<and> fs_dirs fs q then remove_tree q fs
            else fs))"

end
