(* ===== verification/Skill_Packages_Correct.thy ===== *)
theory Skill_Packages_Correct
  imports Skill_Packages
begin

text \<open>
  What the import of Skill packages guarantees: it changes nothing outside the directory of the Skill, a
  package that is refused leaves nothing behind, and an accepted manifest holds no credential at any
  depth and has a contract with distinct aliases.
\<close>

section \<open>Changes below a directory\<close>

definition same_outside :: "path \<Rightarrow> filesystem \<Rightarrow> filesystem \<Rightarrow> bool" where
  "same_outside base fs fs' \<longleftrightarrow>
     (\<forall>p. \<not> under base p \<longrightarrow> fs_files fs' p = fs_files fs p \<and> fs_dirs fs' p = fs_dirs fs p) \<and> fs_links fs' = fs_links fs"

lemma same_outside_refl [simp]: "same_outside base fs fs"
  by (simp add: same_outside_def)

lemma same_outside_trans: "same_outside base fs fs1 \<Longrightarrow> same_outside base fs1 fs2 \<Longrightarrow> same_outside base fs fs2"
  by (simp add: same_outside_def)

definition grounded :: "path \<Rightarrow> filesystem \<Rightarrow> bool" where
  "grounded p fs \<longleftrightarrow> (\<forall>q\<in>set (prefixes_of p). fs_dirs fs q)"

lemma prefixes_of_append:
  assumes "q \<in> set (prefixes_of (p @ r))"
  shows "q \<in> set (prefixes_of p) \<or> under p q"
proof -
  obtain i where i: "q = take i (p @ r)" using assms unfolding prefixes_of_def set_map by blast
  show ?thesis
  proof (cases "i \<le> length p")
    case True
    then have "q = take i p" using i by simp
    then show ?thesis using True by (auto simp: prefixes_of_def)
  next
    case False
    then show ?thesis using i by (simp add: under_def)
  qed
qed

lemma mkdirs_below:
  assumes "os_mkdirs p fs = Inr fs'" and "\<forall>q\<in>set (prefixes_of p). under base q \<or> fs_dirs fs q"
  shows "same_outside base fs fs'"
  using assms by (auto simp: os_mkdirs_def same_outside_def split: if_splits)

lemma write_below:
  assumes "os_write p b fs = Inr fs'" and "real_path (fs_links fs) p" and "under base p"
  shows "same_outside base fs fs'"
  using assms walk_id [of "fs_links fs" "[]" p]
  by (auto simp: os_write_def same_outside_def split: if_splits)

lemma create_below:
  assumes "os_create p b fs = Inr fs'" and "real_path (fs_links fs) p" and "under base p"
  shows "same_outside base fs fs'"
  using assms write_below [OF _ assms(2,3)]
  by (auto simp: os_create_def os_failure_def split: if_splits sum.splits)

text \<open>
  The staging directory: a real path whose parent exists, with no link below; what is done in it keeps
  this, with the links of the start.
\<close>

definition staged :: "path \<Rightarrow> string \<Rightarrow> filesystem \<Rightarrow> filesystem \<Rightarrow> bool" where
  "staged base t fs fs' \<longleftrightarrow> same_outside (base @ [t]) fs fs' \<and> grounded base fs"

definition stage_ok :: "path \<Rightarrow> string \<Rightarrow> filesystem \<Rightarrow> bool" where
  "stage_ok base t fs \<longleftrightarrow>
     real_path (fs_links fs) (base @ [t]) \<and> no_links_below fs (base @ [t]) \<and> grounded base fs"

lemma stage_ok_same:
  assumes "stage_ok base t fs" and "same_outside (base @ [t]) fs fs'"
  shows "stage_ok base t fs'"
proof -
  have "fs_dirs fs' q = fs_dirs fs q" if q: "q \<in> set (prefixes_of base)" for q
  proof -
    have "length q \<le> length base" using q by (auto simp: prefixes_of_def)
    then have "\<not> under (base @ [t]) q" by (auto simp: under_iff)
    then show ?thesis using assms(2) by (simp add: same_outside_def)
  qed
  then show ?thesis using assms by (auto simp: stage_ok_def same_outside_def grounded_def no_links_below_def)
qed

lemma stage_mkdirs:
  assumes "stage_ok base t fs" and "os_mkdirs p fs = Inr fs'" and "under (base @ [t]) p \<or> p = base @ [t]"
  shows "same_outside (base @ [t]) fs fs'"
proof (rule mkdirs_below [OF assms(2)])
  obtain r where p: "p = base @ (t # r)" using assms(3) by (auto simp: under_iff)
  show "\<forall>q\<in>set (prefixes_of p). under (base @ [t]) q \<or> fs_dirs fs q"
  proof
    fix q assume q: "q \<in> set (prefixes_of p)"
    have "p = (base @ [t]) @ r" by (simp add: p)
    from prefixes_of_append [OF q [unfolded this]] have "q \<in> set (prefixes_of (base @ [t])) \<or> under (base @ [t]) q" .
    moreover have "q \<in> set (prefixes_of base) \<or> q = base @ [t]" if "q \<in> set (prefixes_of (base @ [t]))"
      using that by (auto simp: prefixes_of_def le_Suc_eq)
    ultimately show "under (base @ [t]) q \<or> fs_dirs fs q"
      using assms(1) by (auto simp: stage_ok_def grounded_def under_def)
  qed
qed

lemma stage_real:
  assumes "stage_ok base t fs" and "''..'' \<notin> set r"
  shows "real_path (fs_links fs) (base @ [t] @ r)"
  using real_path_below [of fs "base @ [t]" r] assms by (simp add: stage_ok_def)

section \<open>Extraction\<close>

definition in_stage :: "path \<Rightarrow> string \<Rightarrow> filesystem \<Rightarrow> extraction \<Rightarrow> bool" where
  "in_stage base t fs x \<longleftrightarrow> stage_ok base t (xt_fs x) \<and> same_outside (base @ [t]) fs (xt_fs x)"

lemma in_stage_step:
  assumes "in_stage base t fs x" and "same_outside (base @ [t]) (xt_fs x) fs'" and "xt_fs y = fs'"
  shows "in_stage base t fs y"
  using assms stage_ok_same [of base t "xt_fs x" fs'] same_outside_trans [of "base @ [t]" fs "xt_fs x" fs']
  by (simp add: in_stage_def)

lemma make_directories_in_stage:
  assumes "make_directories p x = (r, x')" and "in_stage base t fs x" and "under (base @ [t]) p \<or> p = base @ [t]"
  shows "in_stage base t fs x'"
proof (cases "os_mkdirs p (xt_fs x)")
  case (Inl e)
  then show ?thesis using assms by (simp add: make_directories_def os_failure_def)
next
  case (Inr fs')
  have "same_outside (base @ [t]) (xt_fs x) fs'"
    using stage_mkdirs [OF _ Inr assms(3)] assms(2) by (simp add: in_stage_def)
  moreover have "xt_fs x' = fs'" using assms(1) Inr by (auto simp: make_directories_def os_failure_def)
  ultimately show ?thesis using in_stage_step [OF assms(2)] by blast
qed

lemma write_file_in_stage:
  assumes "write_file S target z x = (r, x')" and "in_stage base t fs x"
    and "target = base @ [t] @ d" and "''..'' \<notin> set d"
  shows "in_stage base t fs x'"
proof -
  obtain result written where c: "(case ze_content z of
      None \<Rightarrow> (Inl (Skill_error ''uploaded file is not a valid ZIP archive''), [])
    | Some b \<Rightarrow> if sk_max_extracted S - xt_extracted x < length b
        then (Inl (Skill_error (expands_beyond S)), take ((sk_max_extracted S - xt_extracted x) div chunk_size * chunk_size) b)
        else (Inr (), b)) = (result, written)"
    by fastforce
  show ?thesis
  proof (cases "os_create target written (xt_fs x)")
    case (Inl e)
    then have "x' = x" using assms(1) c by (simp add: write_file_def Let_def)
    then show ?thesis using assms(2) by simp
  next
    case (Inr fs')
    then have fs': "xt_fs x' = fs'" using assms(1) c by (auto simp: write_file_def Let_def)
    have real: "real_path (fs_links (xt_fs x)) target"
      using stage_real [of base t "xt_fs x" d] assms(2-4) by (simp add: in_stage_def)
    have below: "under (base @ [t]) target" using assms(3) by (simp add: under_iff)
    show ?thesis by (rule in_stage_step [OF assms(2) create_below [OF Inr real below] fs'])
  qed
qed

lemma extract_entry_in_stage:
  assumes "extract_entry V S (base @ [t, u]) z x = (r, x')" and "in_stage base t fs x" and "u \<noteq> ''..''"
  shows "in_stage base t fs x'" and "r = Inr () \<Longrightarrow> \<not> unsafe_name (normalized_name z)"
proof -
  let ?d = "path_parts (normalized_name z)"
  let ?y = "x\<lparr>xt_seen := se_fold V (join ''/'' ?d) # xt_seen x, xt_total := xt_total x + ze_file_size z\<rparr>"
  have y: "in_stage base t fs ?y" using assms(2) by (simp add: in_stage_def)
  have both: "in_stage base t fs x' \<and> (r = Inr () \<longrightarrow> \<not> unsafe_name (normalized_name z))"
  proof (cases "write_entry S ((base @ [t, u]) @ ?d) z ?y = (r, x') \<and> \<not> unsafe_name (normalized_name z)")
    case False
    then have "x' = x \<and> isl r" using assms(1) by (auto simp: extract_entry_def Let_def split: if_splits)
    then show ?thesis using assms(2) by auto
  next
    case True
    then have dots: "''..'' \<notin> set (u # ?d)" using assms(3) by (auto simp: unsafe_name_def)
    have target: "(base @ [t, u]) @ ?d = base @ [t] @ (u # ?d)" by simp
    have w: "write_entry S ((base @ [t, u]) @ ?d) z ?y = (r, x')" using True by simp
    have "in_stage base t fs x'"
    proof (cases "is_directory_entry z")
      case True
      then show ?thesis
        using w make_directories_in_stage [OF _ y, of "(base @ [t, u]) @ ?d" r x']
        by (simp add: write_entry_def under_iff)
    next
      case False
      obtain r1 x1 where m: "make_directories (butlast ((base @ [t, u]) @ ?d)) ?y = (r1, x1)"
        by (cases "make_directories (butlast ((base @ [t, u]) @ ?d)) ?y")
      have parent: "under (base @ [t]) (butlast ((base @ [t, u]) @ ?d)) \<or> butlast ((base @ [t, u]) @ ?d) = base @ [t]"
        by (auto simp: butlast_append under_iff)
      have x1: "in_stage base t fs x1" by (rule make_directories_in_stage [OF m y parent])
      show ?thesis
      proof (cases r1)
        case (Inl e)
        then have "x' = x1" using w False m by (simp add: write_entry_def)
        then show ?thesis using x1 by simp
      next
        case (Inr v)
        then have "write_file S ((base @ [t, u]) @ ?d) z x1 = (r, x')" using w False m by (simp add: write_entry_def)
        then show ?thesis by (rule write_file_in_stage [OF _ x1 target dots])
      qed
    qed
    then show ?thesis using True by simp
  qed
  then show "in_stage base t fs x'" "r = Inr () \<Longrightarrow> \<not> unsafe_name (normalized_name z)" by simp_all
qed

lemma extract_entries_in_stage:
  assumes "afor (extract_entry V S (base @ [t, u])) zs x = (r, x')" and "in_stage base t fs x" and "u \<noteq> ''..''"
  shows "in_stage base t fs x' \<and> (r = Inr () \<longrightarrow> (\<forall>z\<in>set zs. \<not> unsafe_name (normalized_name z)))"
  using assms(1,2)
proof (induction zs arbitrary: x)
  case (Cons z zs)
  obtain r1 x1 where e: "extract_entry V S (base @ [t, u]) z x = (r1, x1)"
    by (cases "extract_entry V S (base @ [t, u]) z x")
  note step = extract_entry_in_stage [OF e Cons.prems(2) assms(3)]
  show ?case
  proof (cases r1)
    case (Inl er)
    then show ?thesis using Cons.prems(1) e step(1) by auto
  next
    case (Inr v)
    then have "afor (extract_entry V S (base @ [t, u])) zs x1 = (r, x')" using Cons.prems(1) e by simp
    then show ?thesis using Cons.IH [OF _ step(1)] step(2) Inr by simp
  qed
qed simp

section \<open>Staging\<close>

lemma package_root_below:
  assumes "\<forall>z\<in>set zs. \<not> unsafe_name (normalized_name z)"
  shows "\<exists>d. package_root base zs fs = base @ d \<and> ''..'' \<notin> set d"
proof -
  have "n \<noteq> ''..''" if "n \<in> set (top_names zs)" for n
  proof -
    have "\<exists>z\<in>set zs. path_parts (normalized_name z) \<noteq> [] \<and> n = hd (path_parts (normalized_name z))"
      using that by (auto simp: top_names_def)
    then obtain z where "z \<in> set zs" "path_parts (normalized_name z) \<noteq> []" "n = hd (path_parts (normalized_name z))"
      by blast
    then show ?thesis using assms hd_in_set by (fastforce simp: unsafe_name_def)
  qed
  then show ?thesis by (auto simp: package_root_def split: list.splits)
qed

lemma validate_manifest_id: "validate_manifest m = Inr h \<Longrightarrow> agent_id_pattern (sh_id h)"
  by (auto simp: validate_manifest_def Let_def rbind_Inr split: if_splits)

lemma stage_package_in_stage:
  assumes "stage_package V S package (base @ [t]) fs = (r, fs')" and "stage_ok base t fs"
  shows "same_outside (base @ [t]) fs fs'"
    and "r = Inr (h, manifest, source) \<Longrightarrow> validate_manifest manifest = Inr h \<and> validate_skill_contract manifest = Inr () \<and>
      under (base @ [t]) source"
proof -
  have ext: "(base @ [t]) @ [''extracted''] = base @ [t, ''extracted'']" by simp
  have both: "same_outside (base @ [t]) fs fs' \<and> (\<forall>h manifest source. r = Inr (h, manifest, source) \<longrightarrow>
      validate_manifest manifest = Inr h \<and> validate_skill_contract manifest = Inr () \<and> under (base @ [t]) source)"
  proof (cases "os_mkdirs (base @ [t, ''extracted'']) fs")
    case (Inl e)
    then show ?thesis using assms(1) by (auto simp: stage_package_def ext abind_def Let_def)
  next
    case (Inr fs1)
    have s1: "same_outside (base @ [t]) fs fs1"
      by (rule stage_mkdirs [OF assms(2) Inr]) (simp add: under_iff)
    have ok1: "stage_ok base t fs1" by (rule stage_ok_same [OF assms(2) s1])
    obtain r2 fs2 where a: "extract_archive V S package (base @ [t, ''extracted'']) fs1 = (r2, fs2)"
      by (cases "extract_archive V S package (base @ [t, ''extracted'']) fs1")
    have x: "same_outside (base @ [t]) fs fs2 \<and> stage_ok base t fs2 \<and>
        (\<forall>zs. r2 = Inr zs \<longrightarrow> (\<forall>z\<in>set zs. \<not> unsafe_name (normalized_name z)))"
    proof (cases "\<exists>zs. se_unzip V package = Some zs \<and> \<not> (zs = [] \<or> sk_max_entries S < length zs)")
      case False
      then have "fs2 = fs1 \<and> isl r2" using a by (auto simp: extract_archive_def split: option.splits if_splits)
      then show ?thesis using s1 ok1 by auto
    next
      case True
      then obtain zs where zs: "se_unzip V package = Some zs" "\<not> (zs = [] \<or> sk_max_entries S < length zs)" by blast
      define x0 where "x0 = \<lparr>xt_seen = [], xt_total = 0, xt_extracted = 0, xt_fs = fs1\<rparr>"
      obtain r3 x3 where f: "afor (extract_entry V S (base @ [t, ''extracted''])) zs x0 = (r3, x3)"
        by (cases "afor (extract_entry V S (base @ [t, ''extracted''])) zs x0")
      have x0: "in_stage base t fs x0" using s1 ok1 by (simp add: in_stage_def x0_def)
      have i: "in_stage base t fs x3 \<and> (r3 = Inr () \<longrightarrow> (\<forall>z\<in>set zs. \<not> unsafe_name (normalized_name z)))"
        by (rule extract_entries_in_stage [OF f x0]) simp
      have "fs2 = xt_fs x3 \<and> (\<forall>zs'. r2 = Inr zs' \<longrightarrow> r3 = Inr () \<and> zs' = zs)"
        using a zs f by (auto simp: extract_archive_def x0_def [symmetric] split: sum.splits)
      then show ?thesis using i by (auto simp: in_stage_def)
    qed
    show ?thesis
    proof (cases r2)
      case (Inl e)
      then show ?thesis using assms(1) Inr a x by (auto simp: stage_package_def ext abind_def Let_def)
    next
      case r2: (Inr zs)
      define source where "source = package_root (base @ [t, ''extracted'']) zs fs2"
      obtain d where d: "source = base @ [t] @ (''extracted'' # d)" "''..'' \<notin> set (''extracted'' # d)"
        using package_root_below [of zs "base @ [t, ''extracted'']" fs2] x r2 by (auto simp: source_def)
      have rest: "abind (checked (read_manifest V source fs2)) (\<lambda>manifest.
          abind (checked (validate_manifest manifest)) (\<lambda>h.
          abind (checked (validate_skill_contract manifest)) (\<lambda>_ fs.
          case normalize_runtime_files V source h manifest fs of
            Inl e \<Rightarrow> (Inl e, fs)
          | Inr fs3 \<Rightarrow> (Inr (h, manifest, source), fs3)))) fs2 = (r, fs')"
        using assms(1) Inr a r2 unfolding source_def by (simp add: stage_package_def ext Let_def abind_def)
      have wr: "same_outside (base @ [t]) fs fs3" if "normalize_runtime_files V source h manifest fs2 = Inr fs3" for h manifest fs3
      proof -
        have "\<exists>b. os_write (source @ [''config.yaml'']) b fs2 = Inr fs3"
          using that unfolding normalize_runtime_files_def rbind_Inr os_failure_def
          by (auto split: if_splits simp: rbind_Inr) (auto split: sum.splits)
        then obtain b where w: "os_write (source @ [''config.yaml'']) b fs2 = Inr fs3" by blast
        have eq: "source @ [''config.yaml''] = base @ [t] @ (''extracted'' # d @ [''config.yaml''])" by (simp add: d)
        have real: "real_path (fs_links fs2) (source @ [''config.yaml''])"
          unfolding eq using stage_real [of base t fs2 "''extracted'' # d @ [''config.yaml'']"] x d(2) by simp
        have "under (base @ [t]) (source @ [''config.yaml''])" by (simp add: d under_iff)
        from write_below [OF w real this] show ?thesis using x same_outside_trans by blast
      qed
      show ?thesis
        using rest x wr d
        by (auto simp: abind_def checked_def under_iff split: sum.splits)
    qed
  qed
  then show "same_outside (base @ [t]) fs fs'"
    "r = Inr (h, manifest, source) \<Longrightarrow> validate_manifest manifest = Inr h \<and> validate_skill_contract manifest = Inr () \<and>
      under (base @ [t]) source"
    by blast+
qed

section \<open>Installation\<close>

text \<open>Nothing lies below what is not a directory.\<close>

definition present :: "filesystem \<Rightarrow> path \<Rightarrow> bool" where
  "present fs p \<longleftrightarrow> fs_files fs p \<noteq> None \<or> fs_dirs fs p \<or> fs_links fs p \<noteq> None"

definition tree_shaped :: "filesystem \<Rightarrow> bool" where
  "tree_shaped fs \<longleftrightarrow> (\<forall>p q. present fs p \<longrightarrow> under q p \<longrightarrow> p = q \<or> fs_dirs fs q)"

definition vacant :: "path \<Rightarrow> filesystem \<Rightarrow> bool" where
  "vacant base fs \<longleftrightarrow> (\<forall>p. under base p \<longrightarrow> \<not> present fs p)"

lemma vacant_at:
  assumes "tree_shaped fs" and "\<not> present fs base"
  shows "vacant base fs"
proof -
  have "fs_dirs fs base \<or> p = base" if "present fs p" "under base p" for p
    using assms(1) that unfolding tree_shaped_def by blast
  moreover have "\<not> fs_dirs fs base" using assms(2) by (simp add: present_def)
  ultimately show ?thesis using assms(2) unfolding vacant_def by blast
qed

lemma vacantD:
  "vacant base fs \<Longrightarrow> under base p \<Longrightarrow> fs_files fs p = None \<and> \<not> fs_dirs fs p \<and> fs_links fs p = None"
  by (simp add: vacant_def present_def)

lemma remove_tree_simps [simp]:
  "fs_files (remove_tree base fs) p = (if under base p then None else fs_files fs p)"
  "fs_dirs (remove_tree base fs) p = (\<not> under base p \<and> fs_dirs fs p)"
  "fs_links (remove_tree base fs) p = (if under base p then None else fs_links fs p)"
  by (simp_all add: remove_tree_def)

lemma move_tree_outside: "same_outside dst fs (move_tree src dst fs)"
  by (simp add: move_tree_def same_outside_def)

lemma remove_moved:
  assumes "vacant dst fs"
  shows "remove_tree dst (move_tree src dst fs) = fs"
  using vacantD [OF assms] by (cases fs) (auto simp: remove_tree_def move_tree_def fun_eq_iff)

lemma exists_at_real: "real_path (fs_links fs) p \<Longrightarrow> exists_at p fs \<longleftrightarrow> fs_dirs fs p \<or> fs_files fs p \<noteq> None"
  by (simp add: exists_at_def resolve_id)

lemma loaded_files:
  assumes "load_definition V S i name i m fs = Inr l" and "agent_id_pattern i"
    and "real_path (fs_links fs) (sk_root S @ [i])" and "no_links_below fs (sk_root S @ [i])"
  shows "fs_files fs (sk_root S @ [i, ''SKILL.md'']) \<noteq> None \<and> fs_files fs (sk_root S @ [i, ''config.yaml'']) \<noteq> None"
proof -
  have plain: "path_parts i = [i]" using path_join_agent [OF assms(2), of "[]"] agent_id_facts [OF assms(2)] plain_component [of i] by force
  have real: "real_path (fs_links fs) ((sk_root S @ [i]) @ [n])" if "n \<noteq> ''..''" for n
    using real_path_below [OF assms(3,4), of "[n]"] that by simp
  have found: "fs_files fs (sk_root S @ [i, n]) \<noteq> None" if "n \<noteq> ''..''" "file_at ((sk_root S @ [i]) @ [n]) fs \<noteq> None" for n
    using that resolve_id [OF real [OF that(1)]] by (auto simp: file_at_def split: if_splits)
  obtain d where d: "resolve_directory S i fs = Inr d" "file_at (d @ [''SKILL.md'']) fs \<noteq> None" "file_at (d @ [''config.yaml'']) fs \<noteq> None"
    using assms(1) by (auto simp: load_definition_def Let_def rbind_Inr split: option.splits)
  have "d = sk_root S @ [i]"
    using d(1) resolve_id [OF assms(3)] by (auto simp: resolve_directory_def plain split: if_splits)
  then show ?thesis using d(2,3) found by simp
qed

lemma install_package_effect:
  assumes "install_package V S h source fs = (r, fs')" and "agent_id_pattern (sh_id h)"
    and "real_path (fs_links fs) (sk_root S)"
    and "\<And>p. under (sk_root S @ [sh_id h]) p \<Longrightarrow> p \<noteq> sk_root S @ [sh_id h] \<Longrightarrow> present fs p \<Longrightarrow> fs_dirs fs (sk_root S @ [sh_id h])"
  shows "isl r \<Longrightarrow> fs' = fs"
    and "\<not> isl r \<Longrightarrow> vacant (sk_root S @ [sh_id h]) fs \<and> same_outside (sk_root S @ [sh_id h]) fs fs' \<and>
      fs_files fs' (sk_root S @ [sh_id h, ''SKILL.md'']) \<noteq> None \<and> fs_files fs' (sk_root S @ [sh_id h, ''config.yaml'']) \<noteq> None"
proof -
  let ?d = "sk_root S @ [sh_id h]"
  have dots: "sh_id h \<noteq> ''..''" using agent_id_facts(3) [OF assms(2)] by force
  have both: "(isl r \<longrightarrow> fs' = fs) \<and> (\<not> isl r \<longrightarrow> vacant ?d fs \<and> same_outside ?d fs fs' \<and>
      fs_files fs' (sk_root S @ [sh_id h, ''SKILL.md'']) \<noteq> None \<and> fs_files fs' (sk_root S @ [sh_id h, ''config.yaml'']) \<noteq> None)"
  proof (cases "exists_at ?d fs \<or> fs_links fs ?d \<noteq> None")
    case True
    then show ?thesis using assms(1) by (auto simp: install_package_def Let_def split: if_splits)
  next
    case False
    have real: "real_path (fs_links fs) ?d" using assms(3) dots False by (simp add: real_path_snoc)
    have none: "\<not> present fs ?d" using False exists_at_real [OF real] by (simp add: present_def)
    have vacant: "vacant ?d fs"
      unfolding vacant_def
    proof (intro allI impI notI)
      fix p assume p: "under ?d p" "present fs p"
      then have "p \<noteq> ?d" using none by auto
      then have "fs_dirs fs ?d" using assms(4) p by blast
      then show False using none by (simp add: present_def)
    qed
    let ?fs = "move_tree source ?d fs"
    have links: "fs_links ?fs = fs_links fs" by (simp add: move_tree_def)
    have nolinks: "no_links_below ?fs ?d" using vacantD [OF vacant] by (simp add: no_links_below_def links)
    show ?thesis
    proof (cases "load_definition V S (sh_id h) (sh_name h) (sh_id h) [] ?fs")
      case (Inl e)
      then show ?thesis
        using assms(1) False remove_moved [OF vacant] by (auto simp: install_package_def Let_def)
    next
      case (Inr l)
      have "real_path (fs_links ?fs) ?d" by (simp add: links real)
      from loaded_files [OF Inr assms(2) this nolinks] show ?thesis
        using assms(1) False Inr vacant move_tree_outside by (auto simp: install_package_def Let_def)
    qed
  qed
  then show "isl r \<Longrightarrow> fs' = fs"
    "\<not> isl r \<Longrightarrow> vacant ?d fs \<and> same_outside ?d fs fs' \<and>
      fs_files fs' (sk_root S @ [sh_id h, ''SKILL.md'']) \<noteq> None \<and> fs_files fs' (sk_root S @ [sh_id h, ''config.yaml'']) \<noteq> None"
    by blast+
qed

section \<open>Import\<close>

text \<open>What an import changes: nothing but the directory of the Skill, and the root where it is missing.\<close>

definition unchanged_but :: "(path \<Rightarrow> bool) \<Rightarrow> path \<Rightarrow> filesystem \<Rightarrow> filesystem \<Rightarrow> bool" where
  "unchanged_but inner base fs fs' \<longleftrightarrow>
     (\<forall>p. \<not> inner p \<longrightarrow> fs_files fs' p = fs_files fs p \<and> fs_links fs' p = fs_links fs p \<and>
        fs_dirs fs' p = (fs_dirs fs p \<or> p \<in> set (prefixes_of base) \<and> fs_dirs fs' base))"

definition within_skill :: "path \<Rightarrow> skill_error + imported_skill \<Rightarrow> path \<Rightarrow> bool" where
  "within_skill base r p \<longleftrightarrow> (case r of Inl e \<Rightarrow> False | Inr i \<Rightarrow> under (base @ [sh_id (is_head i)]) p)"

lemma prefix_under: "q \<in> set (prefixes_of p) \<Longrightarrow> under q p"
  unfolding prefixes_of_def set_map under_iff by (metis append_take_drop_id imageE)

lemma child_not_prefix: "\<not> under (base @ [t]) base" "p \<in> set (prefixes_of base) \<Longrightarrow> \<not> under (base @ [t]) p"
  by (auto simp: under_iff prefixes_of_def dest: arg_cong [where f = length])

lemma unchanged_same:
  assumes "tree_shaped fs"
  shows "unchanged_but inner base fs fs"
  using assms prefix_under by (fastforce simp: unchanged_but_def tree_shaped_def present_def)

lemma unchanged_after_cleaning:
  assumes "os_mkdirs base fs = Inr fs0" and "vacant (base @ [t]) fs" and "\<not> inner base"
    and "\<And>p. \<not> inner p \<Longrightarrow> \<not> under (base @ [t]) p \<Longrightarrow> fs_files fs2 p = fs_files fs0 p \<and> fs_dirs fs2 p = fs_dirs fs0 p"
    and "fs_links fs2 = fs_links fs0"
  shows "unchanged_but inner base fs (remove_tree (base @ [t]) fs2)"
proof -
  have fs0: "fs_files fs0 = fs_files fs" "fs_links fs0 = fs_links fs" "fs_dirs fs0 p = (fs_dirs fs p \<or> p \<in> set (prefixes_of base))" for p
    using assms(1) by (auto simp: os_mkdirs_def split: if_splits)
  have base: "base \<in> set (prefixes_of base)" by (auto simp: prefixes_of_def)
  have top: "fs_dirs fs2 base" using assms(4) [OF assms(3) child_not_prefix(1)] base fs0(3) by simp
  show ?thesis
    unfolding unchanged_but_def
  proof (intro allI impI)
    fix p assume p: "\<not> inner p"
    show "fs_files (remove_tree (base @ [t]) fs2) p = fs_files fs p \<and> fs_links (remove_tree (base @ [t]) fs2) p = fs_links fs p \<and>
        fs_dirs (remove_tree (base @ [t]) fs2) p =
          (fs_dirs fs p \<or> p \<in> set (prefixes_of base) \<and> fs_dirs (remove_tree (base @ [t]) fs2) base)"
    proof (cases "under (base @ [t]) p")
      case True
      then show ?thesis using vacantD [OF assms(2) True] child_not_prefix(2) [of p base t] by auto
    next
      case False
      then show ?thesis using assms(4) [OF p False] assms(5) fs0 top child_not_prefix(1) by simp
    qed
  qed
qed

lemma import_zip_effect:
  assumes "import_zip V S package t fs = (r, fs')" and "real_path (fs_links fs) (sk_root S)" and "tree_shaped fs"
    and "vacant (sk_root S @ [t]) fs" and "t = CHR ''.'' # u" and "u \<noteq> ''.''"
  shows "unchanged_but (within_skill (sk_root S) r) (sk_root S) fs fs'"
    and "r = Inr i \<Longrightarrow> validate_manifest (is_manifest i) = Inr (is_head i) \<and> validate_skill_contract (is_manifest i) = Inr () \<and>
      vacant (sk_root S @ [sh_id (is_head i)]) fs \<and> fs_files fs' (sk_root S @ [sh_id (is_head i), ''SKILL.md'']) \<noteq> None \<and>
      fs_files fs' (sk_root S @ [sh_id (is_head i), ''config.yaml'']) \<noteq> None"
proof -
  let ?root = "sk_root S" and ?stage = "sk_root S @ [t]"
  have both: "unchanged_but (within_skill ?root r) ?root fs fs' \<and>
      (\<forall>i. r = Inr i \<longrightarrow> validate_manifest (is_manifest i) = Inr (is_head i) \<and> validate_skill_contract (is_manifest i) = Inr () \<and>
        vacant (?root @ [sh_id (is_head i)]) fs \<and> fs_files fs' (?root @ [sh_id (is_head i), ''SKILL.md'']) \<noteq> None \<and>
        fs_files fs' (?root @ [sh_id (is_head i), ''config.yaml'']) \<noteq> None)"
  proof (cases "package = [] \<or> sk_max_upload S < length package \<or> isl (os_mkdirs ?root fs)")
    case True
    then have "fs' = fs \<and> isl r" using assms(1) by (auto simp: import_zip_def split: if_splits sum.splits)
    then show ?thesis using unchanged_same [OF assms(3)] by auto
  next
    case False
    then obtain fs0 where fs0: "os_mkdirs ?root fs = Inr fs0" by (cases "os_mkdirs ?root fs") auto
    have f0: "fs_files fs0 = fs_files fs" "fs_links fs0 = fs_links fs" "fs_dirs fs0 p = (fs_dirs fs p \<or> p \<in> set (prefixes_of ?root))" for p
      using fs0 by (auto simp: os_mkdirs_def split: if_splits)
    have "fs_links fs ?stage = None" using vacantD [OF assms(4), of ?stage] by (simp add: under_iff)
    then have ok: "stage_ok ?root t fs0"
      using assms(2,5,6) vacantD [OF assms(4)]
      by (auto simp: stage_ok_def f0 real_path_snoc no_links_below_def grounded_def)
    obtain r1 fs1 where s: "stage_package V S package ?stage fs0 = (r1, fs1)" by (cases "stage_package V S package ?stage fs0")
    note staged = stage_package_in_stage [OF s ok]
    have links1: "fs_links fs1 = fs_links fs" using staged(1) f0 by (simp add: same_outside_def)
    show ?thesis
    proof (cases r1)
      case (Inl e)
      then have r: "r = Inl e" "fs' = remove_tree ?stage fs1" using assms(1) False fs0 s by (simp_all add: import_zip_def)
      have "unchanged_but (within_skill ?root r) ?root fs fs'"
        unfolding r(2) by (rule unchanged_after_cleaning [OF fs0 assms(4)]) (use staged(1) r in \<open>auto simp: within_skill_def same_outside_def\<close>)
      then show ?thesis using r by simp
    next
      case (Inr triple)
      obtain h manifest source where triple: "triple = (h, manifest, source)" by (cases triple)
      have valid: "validate_manifest manifest = Inr h" "validate_skill_contract manifest = Inr ()"
        using staged(2) Inr triple by auto
      note ident = validate_manifest_id [OF valid(1)]
      let ?d = "?root @ [sh_id h]"
      have apart: "sh_id h \<noteq> t" using agent_id_facts(3) [OF ident] assms(5) by auto
      have outside: "\<not> under ?stage p" if "under ?d p" for p using that apart by (auto simp: under_iff)
      have same: "fs_files fs1 p = fs_files fs p \<and> fs_dirs fs1 p = fs_dirs fs p" if "under ?d p" for p
        using staged(1) outside [OF that] f0 child_not_prefix(2) [of p ?root "sh_id h"] that by (auto simp: same_outside_def)
      have pres: "present fs1 p = present fs p" if "under ?d p" for p using same [OF that] links1 by (simp add: present_def)
      have d: "under ?d ?d" by (simp add: under_iff)
      have parents: "fs_dirs fs1 ?d" if "under ?d p" "p \<noteq> ?d" "present fs1 p" for p
        using that pres [OF that(1)] same [OF d] assms(3) by (auto simp: tree_shaped_def)
      obtain r2 fs2 where inst: "install_package V S h source fs1 = (r2, fs2)" by (cases "install_package V S h source fs1")
      have real1: "real_path (fs_links fs1) ?root" using assms(2) links1 by simp
      note eff = install_package_effect [OF inst ident real1 parents]
      show ?thesis
      proof (cases r2)
        case (Inl e)
        then have r: "r = Inl e" "fs' = remove_tree ?stage fs1"
          using assms(1) False fs0 s Inr triple inst eff(1) by (simp_all add: import_zip_def)
        have "unchanged_but (within_skill ?root r) ?root fs fs'"
          unfolding r(2) by (rule unchanged_after_cleaning [OF fs0 assms(4)]) (use staged(1) r in \<open>auto simp: within_skill_def same_outside_def\<close>)
        then show ?thesis using r by simp
      next
        case r2: (Inr v)
        then have r: "r = Inr \<lparr>is_head = h, is_manifest = manifest, is_sha256 = se_sha256 V package\<rparr>" "fs' = remove_tree ?stage fs2"
          using assms(1) False fs0 s Inr triple inst by (simp_all add: import_zip_def)
        have e: "vacant ?d fs1" "same_outside ?d fs1 fs2"
          "fs_files fs2 (?root @ [sh_id h, ''SKILL.md'']) \<noteq> None" "fs_files fs2 (?root @ [sh_id h, ''config.yaml'']) \<noteq> None"
          using eff(2) r2 by simp_all
        have "unchanged_but (within_skill ?root r) ?root fs fs'"
          unfolding r(2)
          by (rule unchanged_after_cleaning [OF fs0 assms(4)])
            (use staged(1) e(2) r child_not_prefix(1) in \<open>auto simp: within_skill_def same_outside_def\<close>)
        moreover have "vacant ?d fs" using e(1) pres by (simp add: vacant_def)
        moreover have "\<not> under ?stage (?root @ [sh_id h, n])" for n using apart by (simp add: under_iff)
        ultimately show ?thesis using r e(3,4) valid by simp
      qed
    qed
  qed
  then show "unchanged_but (within_skill ?root r) ?root fs fs'"
    "r = Inr i \<Longrightarrow> validate_manifest (is_manifest i) = Inr (is_head i) \<and> validate_skill_contract (is_manifest i) = Inr () \<and>
      vacant (?root @ [sh_id (is_head i)]) fs \<and> fs_files fs' (?root @ [sh_id (is_head i), ''SKILL.md'']) \<noteq> None \<and>
      fs_files fs' (?root @ [sh_id (is_head i), ''config.yaml'']) \<noteq> None"
    by blast+
qed

section \<open>Credentials\<close>

text \<open>A key with its value occurs at some depth of a document.\<close>

inductive occurs :: "string \<Rightarrow> json \<Rightarrow> json \<Rightarrow> bool" where
  "(k, v) \<in> set d \<Longrightarrow> occurs k v (JObj d)"
| "(k', u) \<in> set d \<Longrightarrow> occurs k v u \<Longrightarrow> occurs k v (JObj d)"
| "u \<in> set us \<Longrightarrow> occurs k v u \<Longrightarrow> occurs k v (JArr us)"

inductive_simps occurs_obj: "occurs k v (JObj d)"
inductive_simps occurs_arr: "occurs k v (JArr us)"
inductive_cases occurs_atom: "occurs k v JNull" "occurs k v (JBool b)" "occurs k v (JInt n)" "occurs k v (JFloat q)" "occurs k v (JStr s)"

lemma rfor_unit_Inr: "rfor f xs = Inr () \<longleftrightarrow> (\<forall>x\<in>set xs. f x = Inr ())"
  by (induction xs) (auto simp: rbind_Inr)

lemma enumerated_values: "(\<forall>x\<in>set (enumerate n xs). P (snd x)) \<longleftrightarrow> (\<forall>y\<in>set xs. P y)"
  by (induction xs arbitrary: n) simp_all

lemma no_plaintext:
  "reject_plaintext_secrets path j = Inr () \<longleftrightarrow> \<not> (\<exists>k v. occurs k v j \<and> plaintext_secret k v)"
proof (induction path j rule: reject_plaintext_secrets.induct)
  case (1 path d)
  have "reject_plaintext_secrets path (JObj d) = Inr () \<longleftrightarrow>
      (\<forall>x\<in>set d. \<not> plaintext_secret (fst x) (snd x) \<and> \<not> (\<exists>k v. occurs k v (snd x) \<and> plaintext_secret k v))"
    unfolding reject_plaintext_secrets.simps(1) rfor_unit_Inr
  proof (intro ball_cong refl, clarify)
    fix k v assume x: "(k, v) \<in> set d"
    show "(if plaintext_secret k v then Inl (Skill_error (path @ ''.'' @ k @ '' must not contain a plaintext credential''))
        else reject_plaintext_secrets (path @ ''.'' @ k) v) = Inr () \<longleftrightarrow>
      \<not> plaintext_secret (fst (k, v)) (snd (k, v)) \<and> \<not> (\<exists>k' v'. occurs k' v' (snd (k, v)) \<and> plaintext_secret k' v')"
      using 1 [OF x refl] by simp
  qed
  moreover have "(\<exists>k v. occurs k v (JObj d) \<and> plaintext_secret k v) \<longleftrightarrow>
      (\<exists>x\<in>set d. plaintext_secret (fst x) (snd x) \<or> (\<exists>k v. occurs k v (snd x) \<and> plaintext_secret k v))"
    unfolding occurs_obj Bex_def split_paired_Ex fst_conv snd_conv by blast
  ultimately show ?case by blast
next
  case (2 path xs)
  have "reject_plaintext_secrets path (JArr xs) = Inr () \<longleftrightarrow>
      (\<forall>x\<in>set (enumerate 0 xs). \<not> (\<exists>k v. occurs k v (snd x) \<and> plaintext_secret k v))"
    unfolding reject_plaintext_secrets.simps(2) rfor_unit_Inr
  proof (intro ball_cong refl, clarify)
    fix i v assume x: "(i, v) \<in> set (enumerate 0 xs)"
    show "reject_plaintext_secrets (path @ ''['' @ nat_str i @ '']'') v = Inr () \<longleftrightarrow>
      \<not> (\<exists>k' v'. occurs k' v' (snd (i, v)) \<and> plaintext_secret k' v')"
      using 2 [OF x refl] by simp
  qed
  also have "\<dots> \<longleftrightarrow> (\<forall>y\<in>set xs. \<not> (\<exists>k v. occurs k v y \<and> plaintext_secret k v))"
    by (rule enumerated_values)
  finally show ?case unfolding occurs_arr by blast
qed (auto elim: occurs_atom)

section \<open>The contract\<close>

definition alias_of :: "json \<Rightarrow> string" where
  "alias_of r = as_str (dget (as_obj r) ''alias'')"

lemma check_requirement_Inr:
  assumes "check_requirement i r aliases = Inr aliases'"
  shows "is_obj r \<and> alias_pattern (alias_of r) \<and> alias_of r \<notin> set aliases \<and>
    capability_pattern (as_str (dget (as_obj r) ''capability'')) \<and> aliases' = alias_of r # aliases"
  using assms by (cases r) (auto simp: check_requirement_def alias_of_def Let_def rbind_Inr split: if_splits)

lemma check_requirements_Inr:
  assumes "check_requirements i rs aliases = Inr aliases'" and "distinct aliases"
  shows "distinct (map alias_of rs) \<and> set (map alias_of rs) \<inter> set aliases = {} \<and>
    (\<forall>r\<in>set rs. is_obj r \<and> alias_pattern (alias_of r) \<and> capability_pattern (as_str (dget (as_obj r) ''capability'')))"
  using assms
proof (induction rs arbitrary: i aliases)
  case (Cons r rs)
  obtain a where a: "check_requirement i r aliases = Inr a" "check_requirements (Suc i) rs a = Inr aliases'"
    using Cons.prems(1) by (auto simp: rbind_Inr)
  note r = check_requirement_Inr [OF a(1)]
  have "distinct a" using r Cons.prems(2) by simp
  from Cons.IH [OF a(2) this] show ?case using r by auto
qed simp

lemma accepted_contract:
  assumes "validate_skill_contract manifest = Inr ()" and "skill_contract rep manifest = (features, rs, mode)"
  shows "distinct (map (\<lambda>r. as_str (dget r ''alias'')) rs)"
    and "\<forall>r\<in>set rs. alias_pattern (as_str (dget r ''alias'')) \<and> capability_pattern (as_str (dget r ''capability''))"
    and "\<not> (\<exists>k v. occurs k v (JObj manifest) \<and> plaintext_secret k v)"
proof -
  obtain requirements out where q: "dget_default (spec_of manifest) ''capability_requirements'' (JArr []) = JArr requirements"
    "check_requirements 0 requirements [] = Inr out" "reject_plaintext_secrets ''skill.yaml'' (JObj manifest) = Inr ()"
    using assms(1) by (auto simp: validate_skill_contract_def Let_def rbind_Inr split: json.splits if_splits)
  note ok = check_requirements_Inr [OF q(2)]
  have objs: "\<forall>r\<in>set requirements. is_obj r" using ok by simp
  then have "filter is_obj requirements = requirements" by (simp add: filter_id_conv)
  then have rs: "rs = map as_obj requirements" using assms(2) q(1) by (auto simp: skill_contract_def Let_def)
  show "distinct (map (\<lambda>r. as_str (dget r ''alias'')) rs)"
    using ok by (simp add: rs alias_of_def [abs_def] comp_def)
  show "\<forall>r\<in>set rs. alias_pattern (as_str (dget r ''alias'')) \<and> capability_pattern (as_str (dget r ''capability''))"
    using ok by (auto simp: rs alias_of_def)
  show "\<not> (\<exists>k v. occurs k v (JObj manifest) \<and> plaintext_secret k v)"
    using q(3) unfolding no_plaintext .
qed

text \<open>A value that cannot be hashed is an error of Python instead of a refusal.\<close>

lemma unhashable_mode_raises:
  "map_of (spec_of manifest) ''execution_mode'' = Some (JArr xs) \<Longrightarrow> validate_skill_contract manifest = Inl (Python_failed Type_error)"
  by (simp add: validate_skill_contract_def Let_def dget_default_def missing_in_def)

section \<open>The properties\<close>

text \<open>C37. An import is confined: whatever the archive holds, it changes no file, link or directory
  outside the directory of the Skill it installs (but for creating the root), and none at all where it
  is refused. An installed Skill stands where there was nothing, with its two documents, and its
  manifest is valid. The root is a real path, and the name of the staging directory is new.\<close>

theorem import_is_confined:
  assumes "import_zip V S package t fs = (r, fs')" and "real_path (fs_links fs) (sk_root S)" and "tree_shaped fs"
    and "vacant (sk_root S @ [t]) fs" and "t = CHR ''.'' # u" and "u \<noteq> ''.''"
  shows "unchanged_but (within_skill (sk_root S) r) (sk_root S) fs fs' \<and>
    (case r of Inl e \<Rightarrow> True
     | Inr i \<Rightarrow> validate_manifest (is_manifest i) = Inr (is_head i) \<and> vacant (sk_root S @ [sh_id (is_head i)]) fs \<and>
         fs_files fs' (sk_root S @ [sh_id (is_head i), ''SKILL.md'']) \<noteq> None \<and>
         fs_files fs' (sk_root S @ [sh_id (is_head i), ''config.yaml'']) \<noteq> None)"
  using import_zip_effect(1) [OF assms] import_zip_effect(2) [OF assms] by (cases r) simp_all

text \<open>C38. What a manifest that passed the contract declares: the requirements that are installed with the
  Skill have distinct aliases and well-formed names, and no key of the manifest, at any depth, that
  names a credential has a value of its own.\<close>

theorem accepted_contract_is_sound:
  assumes "validate_skill_contract manifest = Inr ()" and "skill_contract rep manifest = (features, rs, mode)"
  shows "distinct (map (\<lambda>r. as_str (dget r ''alias'')) rs) \<and>
    (\<forall>r\<in>set rs. alias_pattern (as_str (dget r ''alias'')) \<and> capability_pattern (as_str (dget r ''capability''))) \<and>
    \<not> (\<exists>k v. occurs k v (JObj manifest) \<and> plaintext_secret k v)"
  using accepted_contract [OF assms] by blast

section \<open>A sample package\<close>

definition sample_requirements :: json where
  "sample_requirements = JArr [JObj [(''alias'', JStr ''orders''), (''capability'', JStr ''database.query'')],
     JObj [(''alias'', JStr ''stock''), (''capability'', JStr ''database.query'')]]"

definition sample_skill_manifest :: dict where
  "sample_skill_manifest = [(''id'', JStr ''report''), (''name'', JStr ''report''), (''version'', JStr ''1.0''),
     (''capability_requirements'', sample_requirements), (''api_key'', JStr [])]"

theorem accepted_contract_is_sound_witness:
  "map (\<lambda>r. as_str (dget r ''alias'')) (fst (snd (skill_contract (\<lambda>_. []) sample_skill_manifest))) = [''orders'', ''stock''] \<and>
     \<not> (\<exists>k v. occurs k v (JObj sample_skill_manifest) \<and> plaintext_secret k v)"
proof -
  have ok: "validate_skill_contract sample_skill_manifest = Inr ()" by code_simp
  have c: "map (\<lambda>r. as_str (dget r ''alias'')) (fst (snd (skill_contract (\<lambda>_. []) sample_skill_manifest))) = [''orders'', ''stock'']"
    by code_simp
  obtain fs rs m where "skill_contract (\<lambda>_. []) sample_skill_manifest = (fs, rs, m)"
    by (cases "skill_contract (\<lambda>_. []) sample_skill_manifest")
  from accepted_contract_is_sound [OF ok this] show ?thesis using c by blast
qed

definition sample_skill_settings :: skill_settings where
  "sample_skill_settings = \<lparr>sk_root = [''srv''], sk_max_upload = 100, sk_max_extracted = 100, sk_max_entries = 10,
     sk_max_document = 100\<rparr>"

definition sample_archive :: "zip_entry list" where
  "sample_archive = [\<lparr>ze_filename = ''r/'', ze_external_attr = 0, ze_file_size = 0, ze_content = Some []\<rparr>,
     \<lparr>ze_filename = ''r/skill.yaml'', ze_external_attr = 0, ze_file_size = 1, ze_content = Some ''m''\<rparr>,
     \<lparr>ze_filename = ''r/SKILL.md'', ze_external_attr = 0, ze_file_size = 4, ze_content = Some ''Text''\<rparr>]"

definition sample_skill_env :: skill_env where
  "sample_skill_env = \<lparr>se_unzip = (\<lambda>_. Some sample_archive), se_yaml = (\<lambda>_. Inr (JObj sample_skill_manifest)),
     se_dump = (\<lambda>_. ''c''), se_loads = (\<lambda>_. Inr JNull), se_fold = lower, se_sha256 = (\<lambda>b. b), se_rep = (\<lambda>_. [])\<rparr>"

theorem import_is_confined_witness:
  "\<exists>r fs'. import_zip sample_skill_env
       sample_skill_settings ''zip'' ''.upload'' sample_fs = (r, fs') \<and>
     unchanged_but (within_skill [''srv''] r) [''srv''] sample_fs fs'"
proof -
  let ?V = "sample_skill_env"
  obtain r fs' where i: "import_zip ?V sample_skill_settings ''zip'' ''.upload'' sample_fs = (r, fs')"
    by (cases "import_zip ?V sample_skill_settings ''zip'' ''.upload'' sample_fs")
  have root: "sk_root sample_skill_settings = [''srv'']" by (simp add: sample_skill_settings_def)
  have real: "real_path (fs_links sample_fs) (sk_root sample_skill_settings)"
    by (simp add: root sample_fs_def real_path_def)
  have tree: "tree_shaped sample_fs"
    by (auto simp: tree_shaped_def present_def sample_fs_def under_iff Cons_eq_append_conv)
  have fresh: "vacant (sk_root sample_skill_settings @ [''.upload'']) sample_fs"
    by (auto simp: vacant_def present_def sample_fs_def root under_iff)
  have name: "''upload'' \<noteq> ''.''" by simp
  show ?thesis using import_is_confined [OF i real tree fresh refl name] i by (simp add: root)
qed

end
