(* ===== verification/Run_Stream.thy ===== *)
theory Run_Stream
  imports Run_Preparation
begin

text \<open>
  Runs whose events are passed on while the runtime works (\<open>stream_prepared_agent\<close>,
  \<open>_internal_sse_events\<close>, \<open>run_agent\<close>). The events of the runtime come one by one, each from an
  arbitrary function of the world, as a list of any length; the reader gets every event, can fail or leave,
  and what it does comes between the events. A cancelled task is the exception \<open>CancelledError\<close>.
\<close>

section \<open>Events\<close>

definition event_type :: "(json \<Rightarrow> string) \<Rightarrow> dict \<Rightarrow> string" where
  "event_type rep ev = py_str rep (dget_default ev ''event'' (JStr []))"

text \<open>\<open>HermesClient._extract_token_usage\<close>.\<close>

definition counted_tokens :: "json \<Rightarrow> int option" where
  "counted_tokens v = (case v of JInt n \<Rightarrow> if n < 0 then None else Some n | _ \<Rightarrow> None)"

definition extract_token_usage :: "dict \<Rightarrow> int option" where
  "extract_token_usage ev = (case dget ev ''usage'' of JObj u \<Rightarrow> counted_tokens (dget u ''total_tokens'') | _ \<Rightarrow> None)"

text \<open>\<open>result_artifacts\<close>: only the DeepSeek adapter takes artifacts from an event.\<close>

definition artifact_filename :: "string \<Rightarrow> bool" where
  "artifact_filename s =
     (case s of [] \<Rightarrow> False
      | c # cs \<Rightarrow> (is_lower c \<or> is_upper c \<or> is_digit c) \<and> length cs \<le> 254 \<and>
          list_all (\<lambda>c. is_lower c \<or> is_upper c \<or> is_digit c \<or> c \<in> {CHR ''.'', CHR ''_'', CHR ''-''}) cs)"

fun coding_artifacts :: "(json \<Rightarrow> string) \<Rightarrow> string list \<Rightarrow> json list \<Rightarrow> run_exn + runtime_artifact list" where
  "coding_artifacts rep seen [] = Inr []"
| "coding_artifacts rep seen (JObj raw # rest) =
     (let filename = py_str rep (py_or (dget raw ''filename'') (JStr []));
          artifact_type = py_str rep (py_or (dget raw ''artifact_type'') (JStr [])) in
      if \<not> artifact_filename filename \<or> filename \<in> {''result.json'', ''result.txt'', ''report.md''} \<or> filename \<in> set seen
      then Inl (Adapter_failed ''DeepSeek Runtime returned an unsafe artifact filename'')
      else if artifact_type \<notin> {''code_patch'', ''git_diff'', ''test_report''}
      then Inl (Adapter_failed ''DeepSeek Runtime returned an unsupported artifact type'')
      else case dget raw ''content'' of
        JStr content \<Rightarrow>
          rbind (coding_artifacts rep (filename # seen) rest) (\<lambda>as. Inr
            (\<lparr>ra_filename = filename, ra_content = content,
              ra_content_type = py_str rep (py_or (dget raw ''content_type'') (JStr ''text/plain; charset=utf-8'')),
              ra_artifact_type = artifact_type\<rparr> # as))
      | _ \<Rightarrow> Inl (Adapter_failed ''DeepSeek Runtime artifact content must be text''))"
| "coding_artifacts rep seen (v # rest) = Inl (Adapter_failed ''DeepSeek Runtime returned an invalid artifact'')"

definition result_artifacts :: "(json \<Rightarrow> string) \<Rightarrow> string \<Rightarrow> dict \<Rightarrow> run_exn + runtime_artifact list" where
  "result_artifacts rep runtime_type ev =
     (if runtime_type \<noteq> ''deepseek'' then Inr []
      else case py_or (dget ev ''artifacts'') (JArr []) of
        JArr raws \<Rightarrow> coding_artifacts rep [] raws
      | _ \<Rightarrow> Inl (Adapter_failed ''DeepSeek Runtime artifacts must be an array''))"

section \<open>The stream\<close>

record stream_state =
  sg_run_id :: "string option"
  sg_parts :: "string list"
  sg_trace :: "dict list"
  sg_completed :: bool

definition stream_started :: stream_state where
  "stream_started = \<lparr>sg_run_id = None, sg_parts = [], sg_trace = [], sg_completed = False\<rparr>"

definition noted :: "(json \<Rightarrow> string) \<Rightarrow> dict \<Rightarrow> stream_state \<Rightarrow> stream_state" where
  "noted rep ev g =
     (let ty = event_type rep ev in
      g\<lparr>sg_trace := (if ty \<in> {''_keepalive'', ''message.delta'', ''run.created'', ''run.completed''} then sg_trace g else sg_trace g @ [ev]),
        sg_run_id := (if truthy (dget ev ''run_id'') then Some (py_str rep (dget ev ''run_id'')) else sg_run_id g),
        sg_parts := (case dget ev ''delta'' of
           JStr s \<Rightarrow> if ty = ''message.delta'' then sg_parts g @ [s] else sg_parts g
         | _ \<Rightarrow> sg_parts g)\<rparr>)"

definition runtime_title :: "run_context \<Rightarrow> string" where
  "runtime_title C = title_from False (ag_runtime_type (cx_agent C))"

definition told_error :: "(json \<Rightarrow> string) \<Rightarrow> dict \<Rightarrow> string \<Rightarrow> string" where
  "told_error rep ev otherwise = py_str rep (py_or (dget ev ''error'') (JStr otherwise))"

text \<open>
  Completing inside the stream, whose handler commits after a refused workspace path as after a failing
  storage what the session has sent to the database.
\<close>

definition sent_before_error :: "('m, 'o) run_env \<Rightarrow> run_context \<Rightarrow> run_result \<Rightarrow> json \<Rightarrow> ('m, 'o) run_world \<Rightarrow> store" where
  "sent_before_error E C r v w =
     (let db1 = upd_execution (cx_execution C) (completed C r v (rw_now w)) (rw_db w);
          w2 = snd (save_artifacts E C (execution_artifact_payloads (rx_indented E) (ag_runtime_type (cx_agent C)) r v) (w\<lparr>rw_db := db1\<rparr>)) in
      if rx_flushed E \<or> db_artifacts (rw_db w2) \<noteq> db_artifacts (rw_db w) then rw_db w2 else rw_db w)"

definition complete_streamed :: "('m, 'o) run_env \<Rightarrow> run_context \<Rightarrow> run_result \<Rightarrow> json \<Rightarrow> ('m, 'o, unit) run" where
  "complete_streamed E C r v w =
     (case complete_execution E C r v w of
        (Inl (Value_failed m), w1) \<Rightarrow> (Inl (Value_failed m), w1\<lparr>rw_db := sent_before_error E C r v w\<rparr>)
      | x \<Rightarrow> x)"

text \<open>An event, up to where it is passed to the reader: a completion is stored before it is told.\<close>

definition stream_event ::
  "('m, 'o) run_env \<Rightarrow> run_context \<Rightarrow> agent_request \<Rightarrow> execution_step \<Rightarrow> stream_state \<Rightarrow> dict \<Rightarrow> ('m, 'o, stream_state \<times> dict) run"
where
  "stream_event E C q s g0 ev =
     (let rep = rx_rep E; ty = event_type rep ev; g = noted rep ev g0 in
      if ty \<in> {''run.cancelled'', ''run.canceled''}
      then araise (Run_cancelled (told_error rep ev (runtime_title C @ '' Runtime execution cancelled'')))
      else if ty = ''run.failed''
      then araise (Runtime_failed (told_error rep ev (runtime_title C @ '' Runtime execution failed'')))
      else if ty = ''run.completed''
      then
        let output = py_str rep (py_or (dget ev ''output'') (JStr (concat (sg_parts g)))) in
        abind (rlift (result_artifacts rep (ag_runtime_type (cx_agent C)) ev)) (\<lambda>artifacts.
        let r = \<lparr>rr_output = output, rr_run_id = sg_run_id g, rr_status = ''completed'',
              rr_token_usage = extract_token_usage ev, rr_trace = take 100 (sg_trace g), rr_artifacts = artifacts\<rparr> in
        abind (accept_result E C q s r) (\<lambda>v.
        abind (complete_streamed E C r v) (\<lambda>_.
        aret (g\<lparr>sg_completed := True\<rparr>, dset ''output'' (JStr output) ev))))
      else aret (g, ev))"

text \<open>The exceptions that end the execution; an error while it is ended takes the place of the first.\<close>

definition stream_failed :: "('m, 'o) run_env \<Rightarrow> uuid \<Rightarrow> run_exn \<Rightarrow> ('m, 'o) run_world \<Rightarrow> run_exn \<times> ('m, 'o) run_world" where
  "stream_failed E x e w =
     (let ended = (\<lambda>(r, w'). (case r of Inl e' \<Rightarrow> e' | Inr _ \<Rightarrow> e, w')) in
      case e of
        Memory_failed m \<Rightarrow> ended (fail_execution x m w)
      | Storage_failed m \<Rightarrow> ended (fail_execution x m w)
      | Run_cancelled m \<Rightarrow> ended (cancel_execution E x w)
      | Runtime_failed m \<Rightarrow> ended (fail_execution x m w)
      | Adapter_failed m \<Rightarrow> ended (fail_execution x m w)
      | Value_failed m \<Rightarrow> ended (fail_execution x m w)
      | Other_exn m \<Rightarrow> if m = ''CancelledError'' then ended (fail_execution x ''stream client disconnected'' w) else (e, w)
      | _ \<Rightarrow> (e, w))"

text \<open>How the reading of a stream ends: at its end, by the reader, or by an exception of either.\<close>

datatype stream_end =
    Stream_over
  | Reader_left
  | Stream_raised run_exn
  | Reader_raised run_exn

type_synonym ('m, 'o, 'c) reader = "'c \<Rightarrow> dict \<Rightarrow> ('m, 'o, 'c \<times> bool) run"

definition ended_by :: "('m, 'o) run_env \<Rightarrow> uuid \<Rightarrow> 'c \<Rightarrow> run_exn \<Rightarrow> ('m, 'o) run_world \<Rightarrow> ('c \<times> stream_end) \<times> ('m, 'o) run_world" where
  "ended_by E x c e w = (case stream_failed E x e w of (e', w') \<Rightarrow> ((c, Stream_raised e'), w'))"

fun stream_loop ::
  "('m, 'o) run_env \<Rightarrow> run_context \<Rightarrow> agent_request \<Rightarrow> execution_step \<Rightarrow> ('m, 'o, 'c) reader \<Rightarrow> ('m, 'o, dict) run list \<Rightarrow>
     stream_state \<Rightarrow> 'c \<Rightarrow> ('m, 'o) run_world \<Rightarrow> ('c \<times> stream_end) \<times> ('m, 'o) run_world"
where
  "stream_loop E C q s eat [] g c w =
     (if sg_completed g then ((c, Stream_over), w)
      else ended_by E (cx_execution C) c
        (Runtime_failed (runtime_title C @ '' Runtime event stream ended without a completion event'')) w)"
| "stream_loop E C q s eat (p # ps) g c w =
     (case p w of
        (Inl e, w1) \<Rightarrow> ended_by E (cx_execution C) c e w1
      | (Inr ev, w1) \<Rightarrow>
          (case stream_event E C q s g ev w1 of
             (Inl e, w2) \<Rightarrow> ended_by E (cx_execution C) c e w2
           | (Inr (g', ev'), w2) \<Rightarrow>
               (case eat c ev' w2 of
                  (Inl e, w3) \<Rightarrow> ((c, Reader_raised e), w3)
                | (Inr (c', True), w3) \<Rightarrow> stream_loop E C q s eat ps g' c' w3
                | (Inr (c', False), w3) \<Rightarrow> ((c', Reader_left), w3))))"

definition stream_prepared_agent ::
  "('m, 'o) run_env \<Rightarrow> (run_context \<Rightarrow> string \<Rightarrow> ('m, 'o, dict) run list) \<Rightarrow> run_context \<Rightarrow> agent_request \<Rightarrow>
     ('m, 'o, 'c) reader \<Rightarrow> 'c \<Rightarrow> ('m, 'o) run_world \<Rightarrow> ('c \<times> stream_end) \<times> ('m, 'o) run_world"
where
  "stream_prepared_agent E events C q eat c w =
     (case start_runtime_step C w of
        (Inl e, w1) \<Rightarrow> ((c, Stream_raised e), w1)
      | (Inr s, w1) \<Rightarrow>
          (case execution_runtime E C w1 of
             (Inl e, w2) \<Rightarrow> ended_by E (cx_execution C) c e w2
           | (Inr i, w2) \<Rightarrow> stream_loop E C q s eat (events C i) stream_started c w2))"

section \<open>Server-sent events\<close>

text \<open>\<open>_sse\<close> writes the name and the payload, which are kept apart here.\<close>

type_synonym sse = "string \<times> dict"

definition sse_start :: "run_context \<Rightarrow> sse" where
  "sse_start C = (''start'', [(''event'', JStr ''start''), (''agent_id'', JStr (ag_id (cx_agent C))),
     (''execution_id'', JStr (uuid_str (cx_execution C)))])"

definition sse_end :: "run_context \<Rightarrow> string \<Rightarrow> sse" where
  "sse_end C status = (''end'', [(''event'', JStr ''end''), (''status'', JStr status),
     (''execution_id'', JStr (uuid_str (cx_execution C)))])"

definition sse_error :: "string \<Rightarrow> sse" where
  "sse_error message = (''error'', [(''event'', JStr ''error''), (''status'', JStr ''failed''), (''message'', JStr message)])"

text \<open>The internal stream: all events are read; only some exceptions become an event.\<close>

definition append_event :: "('m, 'o) run_env \<Rightarrow> ('m, 'o, sse list) reader" where
  "append_event E out ev = aret (out @ (case map_hermes_event (rx_rep E) ev of Some s \<Rightarrow> [s] | None \<Rightarrow> []), True)"

definition internal_sse_events ::
  "('m, 'o) run_env \<Rightarrow> (run_context \<Rightarrow> string \<Rightarrow> ('m, 'o, dict) run list) \<Rightarrow> run_context \<Rightarrow> agent_request \<Rightarrow>
     ('m, 'o) run_world \<Rightarrow> (sse list \<times> run_exn option) \<times> ('m, 'o) run_world"
where
  "internal_sse_events E events C q w =
     (if get_execution (cx_execution C) (rw_db w) = None
      then (([sse_start C, sse_error ''execution log not found''], None), w)
      else case stream_prepared_agent E events C q (append_event E) [sse_start C] w of
        ((out, Stream_over), w') \<Rightarrow> ((out @ [sse_end C ''success''], None), w')
      | ((out, Reader_left), w') \<Rightarrow> ((out, None), w')
      | ((out, Stream_raised e), w') \<Rightarrow>
          ((case e of
              Run_cancelled m \<Rightarrow> (out @ [sse_end C ''cancelled''], None)
            | Memory_failed m \<Rightarrow> (out @ [sse_error m], None)
            | Storage_failed m \<Rightarrow> (out @ [sse_error m], None)
            | Runtime_failed m \<Rightarrow> (out @ [sse_error m], None)
            | Adapter_failed m \<Rightarrow> (out @ [sse_error m], None)
            | Value_failed m \<Rightarrow> (out @ [sse_error m], None)
            | _ \<Rightarrow> (out, Some e)), w')
      | ((out, Reader_raised e), w') \<Rightarrow> ((out, Some e), w'))"

section \<open>Running an Agent\<close>

definition active_agent :: "string \<Rightarrow> store \<Rightarrow> run_exn + agent" where
  "active_agent agent_id db =
     (case get_agent agent_id db of
        None \<Rightarrow> Inl (Http_error 404 (JStr ''agent not found''))
      | Some a \<Rightarrow> if ag_status a \<noteq> A_active then Inl (Http_error 409 (JStr ''Agent is not active'')) else Inr a)"

text \<open>The parameters of a call from the API: a new session and execution for the current version.\<close>

definition api_request :: "agent \<Rightarrow> agent_request \<Rightarrow> string \<Rightarrow> prepared_request" where
  "api_request a q mode =
     \<lparr>ru_payload = q, ru_orchestration = None, ru_schema = None, ru_existing = None, ru_response_mode = mode,
      ru_attempt = 0, ru_version = ag_current_version_id a, ru_validator = None\<rparr>"

datatype run_answer = Answered run_result | Streamed "sse list"

text \<open>\<open>run_agent\<close>; an exception that ends the stream is told after the events before it.\<close>

definition run_agent ::
  "('m, 'o) run_env \<Rightarrow> (run_context \<Rightarrow> string \<Rightarrow> ('m, 'o, dict) run list) \<Rightarrow> string \<Rightarrow> agent_request \<Rightarrow> string option \<Rightarrow>
     ('m, 'o, run_answer) run"
where
  "run_agent E events agent_id q mode =
     abind (rread rw_db) (\<lambda>db.
     abind (rlift (active_agent agent_id db)) (\<lambda>a.
     if (case mode of Some m \<Rightarrow> m | None \<Rightarrow> ag_response_mode a) = ''stream''
     then abind (prepare_agent_execution E a (api_request a q ''stream'')) (\<lambda>C w.
       case internal_sse_events E events C q w of
         ((out, None), w') \<Rightarrow> (Inr (Streamed out), w')
       | ((out, Some e), w') \<Rightarrow> (Inl e, w'))
     else abind (execute_agent_sync E a (api_request a q ''sync'')) (\<lambda>r. aret (Answered r))))"

end
