(* ===== verification/Run_Stream_Correct.thy ===== *)
theory Run_Stream_Correct
  imports Run_Stream Agent_Run_Claims
begin

text \<open>
  What a streamed run guarantees: a completion is told only once it is recorded, and an error that ends
  the stream has ended the execution; with a sample stream.
\<close>

section \<open>Completion\<close>

lemma complete_streamed_Inr: "complete_streamed E C r v w = (Inr u, w') \<Longrightarrow> complete_execution E C r v w = (Inr u, w')"
  by (auto simp: complete_streamed_def split: prod.splits sum.splits run_exn.splits)

lemma accept_result_validated:
  "accept_result E C q s r w = (Inr v, w') \<Longrightarrow> validate_output E (output_contract C) (rr_output r) = Inr v"
  by (auto simp: accept_result_def abind_Inr rlift_def aret_def)

lemma stream_event_completed:
  assumes "stream_event E C q s g ev w = (Inr (g', ev'), w')" and "event_type (rx_rep E) ev = ''run.completed''"
  shows "\<exists>r v. validate_output E (output_contract C) (rr_output r) = Inr v \<and> recorded E C r v w' \<and>
    dget ev' ''output'' = JStr (rr_output r) \<and> sg_completed g'"
  using assms complete_execution_recorded [OF complete_streamed_Inr] accept_result_validated
  by (fastforce simp: stream_event_def Let_def abind_Inr aret_def)

section \<open>The end of a stream\<close>

text \<open>The exceptions whose handler ends the execution.\<close>

definition ending :: "run_exn \<Rightarrow> bool" where
  "ending e =
     (case e of Other_exn m \<Rightarrow> m = ''CancelledError'' | Http_error n d \<Rightarrow> False | Knowledge_failed m \<Rightarrow> False | Skill_failed m \<Rightarrow> False
      | _ \<Rightarrow> True)"

lemma fail_execution_error: "fail_execution x m w = (Inl e, w') \<Longrightarrow> e = Other_exn ''InvalidRequestError''"
  by (auto simp: fail_execution_def rchange_def split: option.splits if_splits)

lemma cancel_execution_error:
  "cancel_execution E x w = (Inl e, w') \<Longrightarrow> e \<in> {Other_exn ''InvalidRequestError'', Other_exn ''RedisError''}"
  by (auto simp: cancel_execution_def rchange_def Let_def split: option.splits if_splits)

lemma stream_failed_ended:
  assumes "stream_failed E x e w = (e', w')" and "ending e'"
  shows "ended_execution x w'"
proof -
  have f: "ended_execution x w'"
    if "(case fail_execution x m w of (r, w') \<Rightarrow> (case r of Inl e' \<Rightarrow> e' | Inr _ \<Rightarrow> e, w')) = (e', w')" for m
    using that assms(2) fail_execution_error fail_execution_ended
    by (fastforce simp: ending_def split: prod.splits sum.splits)
  have c: "ended_execution x w'"
    if "(case cancel_execution E x w of (r, w') \<Rightarrow> (case r of Inl e' \<Rightarrow> e' | Inr _ \<Rightarrow> e, w')) = (e', w')"
    using that assms(2) cancel_execution_error cancel_execution_ended
    by (fastforce simp: ending_def split: prod.splits sum.splits)
  show ?thesis
    using assms f c by (cases e) (auto simp: stream_failed_def Let_def ending_def split: if_splits)
qed

lemma ended_by_ended: "ended_by E x c e w = ((c', Stream_raised e'), w') \<Longrightarrow> ending e' \<Longrightarrow> ended_execution x w'"
  by (auto simp: ended_by_def split: prod.splits dest: stream_failed_ended)

lemma ended_by_raised: "ended_by E x c e w = ((c', h), w') \<Longrightarrow> \<exists>e'. h = Stream_raised e' \<and> c' = c"
  by (auto simp: ended_by_def split: prod.splits)

lemma stream_loop_ended:
  "stream_loop E C q s eat ps g c w = ((c', Stream_raised e), w') \<Longrightarrow> ending e \<Longrightarrow> ended_execution (cx_execution C) w'"
proof (induction ps arbitrary: g c w)
  case Nil
  then show ?case by (auto split: if_splits intro: ended_by_ended)
next
  case (Cons p ps)
  then show ?case
    by (auto split: prod.splits sum.splits bool.splits if_splits intro: ended_by_ended)
qed

lemma stream_prepared_ended:
  assumes "stream_prepared_agent E events C q eat c w = ((c', Stream_raised e), w')" and "ending e"
  shows "ended_execution (cx_execution C) w'"
proof -
  obtain s w1 where s: "start_runtime_step C w = (Inr s, w1)"
    using start_runtime_step_Inr by blast
  obtain r w2 where r: "execution_runtime E C w1 = (r, w2)" by (cases "execution_runtime E C w1")
  show ?thesis
    using assms s r by (cases r) (auto simp: stream_prepared_agent_def intro: ended_by_ended stream_loop_ended)
qed

section \<open>Properties\<close>


text \<open>C31. A completion that a reader is told is recorded: its output has passed the output contract, and the
  execution, its session and its artifacts are stored with it.\<close>

theorem told_completion_is_recorded:
  assumes "stream_event E C q s g ev w = (Inr (g', ev'), w')" and "event_type (rx_rep E) ev = ''run.completed''"
  shows "\<exists>r v. validate_output E (output_contract C) (rr_output r) = Inr v \<and> recorded E C r v w' \<and>
    dget ev' ''output'' = JStr (rr_output r)"
  using stream_event_completed [OF assms] by blast

section \<open>Samples\<close>

definition failing_events :: "run_context \<Rightarrow> string \<Rightarrow> (unit, unit, dict) run list" where
  "failing_events C i = [\<lambda>w. (Inr [(''event'', JStr ''message.delta''), (''delta'', JStr ''o'')], w),
     \<lambda>w. (Inr [(''event'', JStr ''run.failed''), (''error'', JStr ''no'')], w)]"


definition completion_event :: dict where
  "completion_event = [(''event'', JStr ''run.completed''), (''output'', JStr ''ok''), (''run_id'', JStr ''r'')]"

theorem told_completion_is_recorded_witness:
  "\<exists>s w g' ev' w' r v. stream_event sample_env sample_run_context sample_request s stream_started completion_event w = (Inr (g', ev'), w') \<and>
     recorded sample_env sample_run_context r v w' \<and> dget ev' ''output'' = JStr (rr_output r)"
proof -
  obtain w4 w' where w4: "accept_result sample_env sample_run_context sample_request (fst sample_started) sample_result sample_running =
      (Inr (JStr ''ok''), w4)" "complete_execution sample_env sample_run_context sample_result (JStr ''ok'') w4 = (Inr (), w')"
    using sample_result_stored by blast
  then have w': "complete_streamed sample_env sample_run_context sample_result (JStr ''ok'') w4 = (Inr (), w')"
    by (simp add: complete_streamed_def)
  have result: "\<lparr>rr_output = ''ok'', rr_run_id = Some ''r'', rr_status = ''completed'', rr_token_usage = None, rr_trace = [],
      rr_artifacts = []\<rparr> = sample_result"
    by (simp add: sample_result_def)
  have runtime: "ag_runtime_type (cx_agent sample_run_context) = ''hermes''"
    by (simp add: sample_run_context_def sample_agent_runs)
  have ty: "event_type rep completion_event = ''run.completed''" for rep
    by (simp add: event_type_def completion_event_def dget_default_def)
  have "\<exists>g' ev'. stream_event sample_env sample_run_context sample_request (fst sample_started) stream_started completion_event sample_running =
      (Inr (g', ev'), w')"
    using w4(1) w'
    by (simp add: stream_event_def Let_def ty ty [unfolded completion_event_def] noted_def completion_event_def dget_def py_or_def stream_started_def
        result_artifacts_def runtime rlift_def extract_token_usage_def result abind_def aret_def)
  then obtain g' ev' where s: "stream_event sample_env sample_run_context sample_request (fst sample_started) stream_started
      completion_event sample_running = (Inr (g', ev'), w')" by blast
  show ?thesis using told_completion_is_recorded [OF s ty] s by blast
qed

end
