(* ===== verification/Public_Calls.thy ===== *)
theory Public_Calls
  imports Run_Stream Api_Keys
begin

text \<open>
  The public API of published Agents (\<open>backend/app/api/publications.py\<close>): who may call, the audit of every
  call, the run of a call with the contract of its API version, and its stream of events. The counters of
  the rate limit are the state of Redis, which answers or not as for the runs; pydantic's text of an
  invalid envelope and the random parts of the ids are parameters or ids of the store.
\<close>

section \<open>The audit of a call\<close>

record audit_context =
  ac_request_id :: string
  ac_started_at :: instant
  ac_agent_id :: "string option"
  ac_client_id :: "uuid option"
  ac_api_key_id :: "uuid option"

text \<open>\<open>round\<close> of microseconds to milliseconds, half to even.\<close>

definition rounded_ms :: "int \<Rightarrow> int" where
  "rounded_ms n =
     (let q = n div 1000; r = n mod 1000 in if r < 500 \<or> (r = 500 \<and> even q) then q else q + 1)"

definition call_of :: "audit_context \<Rightarrow> instant \<Rightarrow> audit_status \<Rightarrow> int option \<Rightarrow> int \<Rightarrow> string option \<Rightarrow> public_call" where
  "call_of A t status token_usage mcp_call_count error_code =
     \<lparr>pc_request_id = ac_request_id A, pc_client_id = ac_client_id A, pc_agent_id = ac_agent_id A, pc_status = status,
      pc_latency_ms = max 0 (rounded_ms (t - ac_started_at A)), pc_token_usage = token_usage,
      pc_mcp_call_count = mcp_call_count, pc_api_key_id = ac_api_key_id A, pc_error_code = error_code,
      pc_increment_publication = (status = U_succeeded)\<rparr>"

definition version_exn :: "version_error \<Rightarrow> run_exn" where
  "version_exn e = (case e of Python_error p \<Rightarrow> python_exn p | Profile_error p \<Rightarrow> Value_failed (profile_message p) | Constraint_error \<Rightarrow> Other_exn ''IntegrityError'')"

text \<open>\<open>_record_public_audit\<close>: the flag says whether the call has been recorded.\<close>

definition record_public_audit ::
  "audit_context \<Rightarrow> audit_status \<Rightarrow> int option \<Rightarrow> int \<Rightarrow> string option \<Rightarrow> bool \<Rightarrow> ('m, 'o, bool) run"
where
  "record_public_audit A status token_usage mcp_call_count error_code recorded w =
     (if recorded then (Inr True, w)
      else case record_public_call (rw_now w) (call_of A (rw_now w) status token_usage mcp_call_count error_code) (rw_db w) of
        Inl e \<Rightarrow> (Inl (version_exn e), w)
      | Inr (_, db) \<Rightarrow> (Inr True, w\<lparr>rw_db := db\<rparr>))"

section \<open>The state of a call\<close>

record ('m, 'o, 'r) public_world =
  pw_run :: "('m, 'o) run_world"
  pw_rates :: 'r
  pw_recorded :: bool

type_synonym ('m, 'o, 'r, 'a) public = "('m, 'o, 'r) public_world \<Rightarrow> (run_exn + 'a) \<times> ('m, 'o, 'r) public_world"

definition in_run :: "('m, 'o, 'a) run \<Rightarrow> ('m, 'o, 'r, 'a) public" where
  "in_run m p = (case m (pw_run p) of (r, w) \<Rightarrow> (r, p\<lparr>pw_run := w\<rparr>))"

definition audit_once :: "audit_context \<Rightarrow> audit_status \<Rightarrow> int option \<Rightarrow> int \<Rightarrow> string option \<Rightarrow> ('m, 'o, 'r, unit) public" where
  "audit_once A status token_usage mcp_call_count error_code p =
     (case record_public_audit A status token_usage mcp_call_count error_code (pw_recorded p) (pw_run p) of
        (Inl e, w) \<Rightarrow> (Inl e, p\<lparr>pw_run := w\<rparr>)
      | (Inr b, w) \<Rightarrow> (Inr (), p\<lparr>pw_run := w, pw_recorded := b\<rparr>))"

text \<open>\<open>_reject_public_call\<close>, and the same for a status and a cause of its own.\<close>

definition told :: "audit_context \<Rightarrow> audit_status \<Rightarrow> string \<Rightarrow> run_exn \<Rightarrow> ('m, 'o, 'r, 'a) public" where
  "told A status error_code e = abind (audit_once A status None 0 (Some error_code)) (\<lambda>_. araise e)"

definition reject_public_call :: "audit_context \<Rightarrow> nat \<Rightarrow> string \<Rightarrow> string \<Rightarrow> ('m, 'o, 'r, 'a) public" where
  "reject_public_call A code detail error_code = told A U_rejected error_code (Http_error code (JStr detail))"

section \<open>The request\<close>

definition bearer_token :: "string option \<Rightarrow> string option" where
  "bearer_token value = (case value of Some s \<Rightarrow> if starts_with ''Bearer '' s then Some (drop 7 s) else None | None \<Rightarrow> None)"

text \<open>The values pydantic takes for a boolean.\<close>

definition lax_bool :: "json \<Rightarrow> bool option" where
  "lax_bool v =
     (case v of
        JBool b \<Rightarrow> Some b
      | JInt n \<Rightarrow> if n = 0 then Some False else if n = 1 then Some True else None
      | JFloat q \<Rightarrow> if q = 0 then Some False else if q = 1 then Some True else None
      | JStr s \<Rightarrow>
          if lower s \<in> {''0'', ''off'', ''f'', ''false'', ''n'', ''no''} then Some False
          else if lower s \<in> {''1'', ''on'', ''t'', ''true'', ''y'', ''yes''} then Some True else None
      | _ \<Rightarrow> None)"

definition is_envelope :: "dict \<Rightarrow> bool" where
  "is_envelope payload \<longleftrightarrow>
     dhas payload ''stream'' \<or> dhas payload ''session_id'' \<or>
     (set (map fst payload) = {''input''} \<and> is_obj (dget payload ''input''))"

text \<open>\<open>PublicAgentRunRequest\<close>: no other keys, an object as input, a boolean or null, a session id or null.\<close>

definition envelope :: "dict \<Rightarrow> (dict \<times> bool option \<times> string option) option" where
  "envelope payload =
     (if \<not> set (map fst payload) \<subseteq> {''input'', ''stream'', ''session_id''} then None
      else case dget payload ''input'' of
        JObj input \<Rightarrow>
          (case (case dget payload ''stream'' of JNull \<Rightarrow> Some None | v \<Rightarrow> map_option Some (lax_bool v),
                 case dget payload ''session_id'' of
                   JNull \<Rightarrow> Some None
                 | JStr s \<Rightarrow> if part_ok 128 s then Some (Some s) else None
                 | _ \<Rightarrow> None) of
             (Some stream, Some session_id) \<Rightarrow> Some (input, stream, session_id)
           | _ \<Rightarrow> None)
      | _ \<Rightarrow> None)"

definition public_payload :: "dict \<Rightarrow> (dict \<times> string option \<times> string option) option" where
  "public_payload payload =
     (if is_envelope payload
      then map_option (\<lambda>(input, stream, session_id).
        (input, map_option (\<lambda>b. if b then ''stream'' else ''sync'') stream, session_id)) (envelope payload)
      else Some (payload, None, None))"

record public_request =
  pr_agent_id :: string
  pr_api_version :: string
  pr_payload :: dict
  pr_response_mode :: "string option"
  pr_forced_mode :: "string option"
  pr_api_key :: "string option"
  pr_authorization :: "string option"

record ('m, 'o, 'r) public_env =
  px_run :: "('m, 'o) run_env"
  px_events :: "run_context \<Rightarrow> string \<Rightarrow> ('m, 'o, dict) run list"
  px_incr :: "string \<Rightarrow> 'r \<Rightarrow> nat \<times> 'r"
  px_sha256 :: "string \<Rightarrow> string"
  px_compact :: "json \<Rightarrow> string"
  px_envelope_errors :: "dict \<Rightarrow> json"

section \<open>Admission\<close>

definition get_publication :: "string \<Rightarrow> store \<Rightarrow> publication option" where
  "get_publication agent_id db = row_get pb_agent_id agent_id (rg_publications (db_registry db))"

text \<open>The Agent, as long as it is published.\<close>

definition published_agent :: "string \<Rightarrow> audit_context \<Rightarrow> ('m, 'o, 'r, agent) public" where
  "published_agent agent_id A p =
     (let db = rw_db (pw_run p); refuse = reject_public_call in
      case get_agent agent_id db of
        None \<Rightarrow> refuse A 404 ''published Agent not found'' ''agent_not_found'' p
      | Some a \<Rightarrow>
          let A1 = A\<lparr>ac_agent_id := Some (ag_id a)\<rparr> in
          if \<not> callable a then refuse A1 404 ''published Agent not found'' ''agent_not_published'' p
          else if (case get_publication agent_id db of Some b \<Rightarrow> pb_status b \<noteq> B_published | None \<Rightarrow> True)
          then refuse A1 404 ''published Agent not found'' ''publication_not_published'' p
          else (Inr a, p))"

definition presented_key :: "public_request \<Rightarrow> string option" where
  "presented_key R = (case pr_api_key R of Some (c # cs) \<Rightarrow> Some (c # cs) | _ \<Rightarrow> bearer_token (pr_authorization R))"

text \<open>The client and its key, and the audit with their ids.\<close>

definition authenticated ::
  "('m, 'o, 'r) public_env \<Rightarrow> public_request \<Rightarrow> audit_context \<Rightarrow> ('m, 'o, 'r, api_client \<times> audit_context) public"
where
  "authenticated X R A p =
     (case presented_key R of
        Some (b # bs) \<Rightarrow>
          let w = pw_run p; found = (\<lambda>(c, k). A\<lparr>ac_client_id := Some (cl_id c), ac_api_key_id := Some (ky_id k)\<rparr>) in
          (case authenticate_api_key (px_sha256 X) (rw_now w) (pr_agent_id R) (b # bs) (rw_db w) of
             (Some (c, k), db) \<Rightarrow> (Inr (c, found (c, k)), p\<lparr>pw_run := w\<lparr>rw_db := db\<rparr>\<rparr>)
           | (None, db) \<Rightarrow>
               (case authenticate_client_key (px_sha256 X) (rw_now w) (b # bs) (rw_db w) of
                  None \<Rightarrow> reject_public_call A 401 ''invalid API Key'' ''invalid_api_key'' p
                | Some (c, k) \<Rightarrow>
                    if \<not> has_invoke_permission (cl_id c) (pr_agent_id R) (rw_db w)
                    then reject_public_call (found (c, k)) 403 ''API Client is not authorized for this Agent'' ''invoke_permission_denied'' p
                    else (Inr (c, found (c, k)), p)))
      | _ \<Rightarrow> reject_public_call A 401 ''invalid API Key'' ''invalid_api_key'' p)"

definition within_rate ::
  "('m, 'o, 'r) public_env \<Rightarrow> api_client \<Rightarrow> audit_context \<Rightarrow> ('m, 'o, 'r, unit) public"
where
  "within_rate X c A p =
     (if \<not> rx_redis_up (px_run X)
      then told A U_failed ''rate_limit_unavailable'' (Http_error 503 (JStr ''rate limit service is unavailable'')) p
      else case enforce_rate_limit (px_incr X) (cl_id c) (cl_rate_limit_per_minute c) (rw_now (pw_run p)) (pw_rates p) of
        ((allowed, _, _), rates) \<Rightarrow>
          if allowed then (Inr (), p\<lparr>pw_rates := rates\<rparr>)
          else told A U_rejected ''rate_limit_exceeded'' (Http_error 429 (JStr ''API Client rate limit exceeded'')) (p\<lparr>pw_rates := rates\<rparr>))"

text \<open>The contract of the API version.\<close>

definition open_contract :: "contract_status \<Rightarrow> bool" where
  "open_contract s \<longleftrightarrow> s \<in> {C_published, C_deprecated}"

definition contract_of :: "public_request \<Rightarrow> audit_context \<Rightarrow> ('m, 'o, 'r, schema_version) public" where
  "contract_of R A p =
     (let db = rw_db (pw_run p) in
      case find_api (pr_agent_id R) (pr_api_version R) db of
        None \<Rightarrow> reject_public_call A 404 ''published API version not found'' ''api_version_not_published'' p
      | Some b \<Rightarrow>
          if \<not> open_contract (aw_status b)
          then reject_public_call A 404 ''published API version not found'' ''api_version_not_published'' p
          else case row_get sv_id (aw_schema_version_id b) (rg_schemas (db_registry db)) of
            None \<Rightarrow> (Inl (Other_exn ''AttributeError''), p)
          | Some s \<Rightarrow>
              if \<not> open_contract (sv_status s)
              then reject_public_call A 409 ''API Schema version is unavailable'' ''schema_version_unavailable'' p
              else (Inr s, p))"

definition checked_payload ::
  "('m, 'o, 'r) public_env \<Rightarrow> public_request \<Rightarrow> schema_version \<Rightarrow> audit_context \<Rightarrow>
     ('m, 'o, 'r, dict \<times> string option \<times> string option) public"
where
  "checked_payload X R s A p =
     (case public_payload (pr_payload R) of
        None \<Rightarrow> told A U_rejected ''invalid_request_envelope'' (Http_error 422 (px_envelope_errors X (pr_payload R))) p
      | Some (input, mode, session_id) \<Rightarrow>
          (case validate_instance (rx_schema_errors (px_run X)) (as_obj (sv_input_schema s)) (JObj input) ''request'' of
             Inl m \<Rightarrow> told A U_rejected ''input_schema_validation'' (Http_error 422 (JStr m)) p
           | Inr _ \<Rightarrow> (Inr (input, mode, session_id), p)))"

text \<open>\<open>AgentRunRequest\<close>, outside every try: an input that is too long is pydantic's error.\<close>

definition agent_request_of :: "('m, 'o, 'r) public_env \<Rightarrow> dict \<Rightarrow> string option \<Rightarrow> ('m, 'o, 'r, agent_request) public" where
  "agent_request_of X input session_id =
     abind (case session_id of
        Some (b # bs) \<Rightarrow> aret (b # bs)
      | _ \<Rightarrow> abind (in_run new_uuid) (\<lambda>u. aret (''public-'' @ uuid_hex u))) (\<lambda>s.
     let body = px_compact X (JObj input) in
     if body = [] \<or> 100000 < py_len body \<or> \<not> part_ok 128 s then araise (Value_failed ''ValidationError'')
     else aret \<lparr>rq_input = body, rq_session_id = s, rq_parameters = None, rq_temperature = None\<rparr>)"

section \<open>Running\<close>

definition explicit_token_usage :: "dict \<Rightarrow> int option" where
  "explicit_token_usage details =
     (case counted_tokens (dget details ''token_usage'') of
        Some n \<Rightarrow> Some n
      | None \<Rightarrow>
          (case counted_tokens (dget details ''total_tokens'') of
             Some n \<Rightarrow> Some n
           | None \<Rightarrow> (case dget details ''usage'' of JObj u \<Rightarrow> counted_tokens (dget u ''total_tokens'') | _ \<Rightarrow> None)))"

definition execution_observability :: "uuid \<Rightarrow> store \<Rightarrow> int option \<times> int" where
  "execution_observability x db =
     (case get_execution x db of
        None \<Rightarrow> (None, 0)
      | Some e \<Rightarrow>
          let details = as_obj (ex_details e) in
          (explicit_token_usage details, case dget details ''mcp_calls'' of JArr xs \<Rightarrow> int (length xs) | _ \<Rightarrow> 0))"

definition validate_public_output :: "('m, 'o) run_env \<Rightarrow> dict \<Rightarrow> string \<Rightarrow> run_exn + json" where
  "validate_public_output E schema output =
     (case parse_and_validate_output (rx_loads E) (rx_invalid_json E) (rx_schema_errors E) schema output of
        Inl m \<Rightarrow> Inl (Value_failed (''Agent output schema validation failed: '' @ m))
      | Inr v \<Rightarrow> Inr v)"

definition public_run :: "agent \<Rightarrow> agent_request \<Rightarrow> schema_version \<Rightarrow> string \<Rightarrow> dict option \<Rightarrow> prepared_request" where
  "public_run a q s mode validator =
     \<lparr>ru_payload = q, ru_orchestration = None, ru_schema = Some s, ru_existing = None, ru_response_mode = mode,
      ru_attempt = 0, ru_version = ag_current_version_id a, ru_validator = validator\<rparr>"

text \<open>\<open>execute_agent_sync\<close> with the id of its execution, which its response tells.\<close>

definition execute_with_id :: "('m, 'o) run_env \<Rightarrow> agent \<Rightarrow> prepared_request \<Rightarrow> ('m, 'o, uuid \<times> run_result) run" where
  "execute_with_id E a R =
     abind (prepare_agent_execution E a R) (\<lambda>C. abind (run_prepared E C (ru_payload R)) (\<lambda>r. aret (cx_execution C, r)))"

datatype public_answer =
    Public_result string uuid json "string option"
  | Public_stream run_context agent_request dict audit_context

definition http_code :: "string \<Rightarrow> string \<Rightarrow> run_exn \<Rightarrow> string" where
  "http_code prefix otherwise e = (case e of Http_error n d \<Rightarrow> prefix @ nat_str n | _ \<Rightarrow> otherwise)"

text \<open>An exception is recorded and raised again, but for the cancellation of the task.\<close>

definition or_failed :: "audit_context \<Rightarrow> (run_exn \<Rightarrow> string) \<Rightarrow> ('m, 'o, 'r, 'a) public \<Rightarrow> ('m, 'o, 'r, 'a) public" where
  "or_failed A code m p =
     (case m p of
        (Inl e, p') \<Rightarrow> if e = Other_exn ''CancelledError'' then (Inl e, p') else told A U_failed (code e) e p'
      | (Inr x, p') \<Rightarrow> (Inr x, p'))"

definition run_public ::
  "('m, 'o, 'r) public_env \<Rightarrow> agent \<Rightarrow> schema_version \<Rightarrow> agent_request \<Rightarrow> audit_context \<Rightarrow> ('m, 'o, 'r, public_answer) public"
where
  "run_public X a s q A =
     (let E = px_run X; schema = as_obj (sv_output_schema s) in
      abind (or_failed A (http_code ''execution_http_'' ''execution_failed'')
        (in_run (abind (execute_with_id E a (public_run a q s ''sync'' (Some schema))) (\<lambda>(x, r).
           abind (rlift (validate_public_output E schema (rr_output r))) (\<lambda>v. aret (x, r, v)))))) (\<lambda>(x, r, v).
      abind (in_run (rread (\<lambda>w. execution_observability x (rw_db w)))) (\<lambda>(tokens, calls).
      abind (audit_once A U_succeeded tokens calls None) (\<lambda>_.
      aret (Public_result (ag_id a) x v (rr_run_id r))))))"

definition prepare_public_stream ::
  "('m, 'o, 'r) public_env \<Rightarrow> agent \<Rightarrow> schema_version \<Rightarrow> agent_request \<Rightarrow> audit_context \<Rightarrow> ('m, 'o, 'r, public_answer) public"
where
  "prepare_public_stream X a s q A =
     abind (or_failed A (http_code ''execution_prepare_http_'' ''execution_prepare_failed'')
       (in_run (prepare_agent_execution (px_run X) a (public_run a q s ''stream'' None)))) (\<lambda>C.
     aret (Public_stream C q (as_obj (sv_output_schema s)) A))"

text \<open>\<open>_execute_public_agent\<close>.\<close>

definition execute_public_agent ::
  "('m, 'o, 'r) public_env \<Rightarrow> public_request \<Rightarrow> ('m, 'o, 'r, public_answer) public"
where
  "execute_public_agent X R =
     abind (in_run new_uuid) (\<lambda>u.
     abind (in_run (rread rw_now)) (\<lambda>t.
     let A0 = \<lparr>ac_request_id = ''public-'' @ uuid_hex u, ac_started_at = t, ac_agent_id = None, ac_client_id = None,
           ac_api_key_id = None\<rparr> in
     abind (published_agent (pr_agent_id R) A0) (\<lambda>a.
     let A1 = A0\<lparr>ac_agent_id := Some (ag_id a)\<rparr> in
     abind (authenticated X R A1) (\<lambda>(c, A).
     abind (within_rate X c A) (\<lambda>_.
     abind (contract_of R A) (\<lambda>s.
     abind (checked_payload X R s A) (\<lambda>(input, body_mode, session_id).
     abind (agent_request_of X input session_id) (\<lambda>q.
     let mode = (case pr_forced_mode R of Some m \<Rightarrow> m | None \<Rightarrow>
           (case pr_response_mode R of Some m \<Rightarrow> m | None \<Rightarrow> (case body_mode of Some m \<Rightarrow> m | None \<Rightarrow> ag_response_mode a))) in
     if mode = ''stream'' then prepare_public_stream X a s q A else run_public X a s q A))))))))"

section \<open>The public stream\<close>

definition failed_sse :: sse where
  "failed_sse = (''error'', [(''event'', JStr ''error''), (''status'', JStr ''failed''), (''message'', JStr ''Agent execution failed'')])"

text \<open>The reader of the stream: its state has the events told and whether the call is recorded.\<close>

definition read_public_event ::
  "('m, 'o) run_env \<Rightarrow> run_context \<Rightarrow> dict \<Rightarrow> audit_context \<Rightarrow> ('m, 'o, sse list \<times> bool) reader"
where
  "read_public_event E C schema A = (\<lambda>(out, recorded) ev.
     if event_type (rx_rep E) ev = ''run.completed''
     then
       abind (rlift (validate_public_output E schema (py_str (rx_rep E) (py_or (dget ev ''output'') (JStr []))))) (\<lambda>v.
       abind (rread (\<lambda>w. execution_observability (cx_execution C) (rw_db w))) (\<lambda>(tokens, calls).
       abind (record_public_audit A U_succeeded tokens calls None recorded) (\<lambda>b.
       aret ((out @ [(''trace'', [(''event'', JStr ''trace''), (''type'', JStr ''schema_output''), (''status'', JStr ''succeeded'')]),
           (''end'', [(''event'', JStr ''end''), (''status'', JStr ''success''), (''agent_id'', JStr (ag_id (cx_agent C))),
             (''execution_id'', JStr (uuid_str (cx_execution C))), (''result'', v)])], b), False))))
     else aret ((out @ (case map_hermes_event (rx_rep E) ev of Some s \<Rightarrow> [s] | None \<Rightarrow> []), recorded), True))"

text \<open>The except clauses of \<open>_public_sse_events\<close>.\<close>

definition public_stream_error ::
  "run_context \<Rightarrow> audit_context \<Rightarrow> run_exn \<Rightarrow> sse list \<times> bool \<Rightarrow> ('m, 'o) run_world \<Rightarrow>
     (sse list \<times> run_exn option) \<times> ('m, 'o) run_world"
where
  "public_stream_error C A e = (\<lambda>(out, recorded) w.
     let tell = (\<lambda>tokens calls code. case record_public_audit A U_failed tokens calls (Some code) recorded w of
           (Inl e', w') \<Rightarrow> ((out, Some e'), w')
         | (Inr _, w') \<Rightarrow> ((out @ [failed_sse], None), w'));
         observed = (case execution_observability (cx_execution C) (rw_db w) of (tokens, calls) \<Rightarrow>
           tell tokens calls ''stream_execution_failed'') in
     case e of
       Other_exn m \<Rightarrow>
         if m = ''CancelledError''
         then (case record_public_audit A U_failed None 0 (Some ''stream_disconnected'') recorded w of
             (Inl e', w') \<Rightarrow> ((out, Some e'), w')
           | (Inr _, w') \<Rightarrow> ((out, Some e), w'))
         else tell None 0 ''stream_internal_error''
     | Runtime_failed m \<Rightarrow> observed
     | Value_failed m \<Rightarrow> observed
     | Memory_failed m \<Rightarrow> tell None 0 ''stream_dependency_failed''
     | Storage_failed m \<Rightarrow> tell None 0 ''stream_dependency_failed''
     | _ \<Rightarrow> tell None 0 ''stream_internal_error'')"

definition public_sse_events ::
  "('m, 'o, 'r) public_env \<Rightarrow> run_context \<Rightarrow> agent_request \<Rightarrow> dict \<Rightarrow> audit_context \<Rightarrow> bool \<Rightarrow> ('m, 'o) run_world \<Rightarrow>
     (sse list \<times> run_exn option) \<times> ('m, 'o) run_world"
where
  "public_sse_events X C q schema A recorded w =
     (let E = px_run X;
          out = [sse_start C, (''trace'', [(''event'', JStr ''trace''), (''type'', JStr ''schema_input''), (''status'', JStr ''succeeded'')])];
          contract = (if schema \<noteq> [] then schema else as_obj (ag_output_schema (cx_agent C))) in
      if get_execution (cx_execution C) (rw_db w) = None
      then (case record_public_audit A U_failed None 0 (Some ''execution_log_missing'') recorded w of
          (Inl e, w') \<Rightarrow> ((out, Some e), w')
        | (Inr _, w') \<Rightarrow> ((out @ [sse_error ''execution log not found''], None), w'))
      else case stream_prepared_agent E (px_events X) (C\<lparr>cx_validator := Some contract\<rparr>) q (read_public_event E C contract A) (out, recorded) w of
        ((c, Stream_over), w') \<Rightarrow>
          public_stream_error C A (Runtime_failed ''Hermes event stream ended without a completion event'') c w'
      | ((c, Reader_left), w') \<Rightarrow> ((fst c, None), w')
      | ((c, Stream_raised e), w') \<Rightarrow> public_stream_error C A e c w'
      | ((c, Reader_raised e), w') \<Rightarrow> public_stream_error C A e c w')"

text \<open>The two stream endpoints and the two that may stream.\<close>

definition stream_public_agent ::
  "('m, 'o, 'r) public_env \<Rightarrow> public_request \<Rightarrow> ('m, 'o, 'r, public_answer) public"
where
  "stream_public_agent X R =
     abind (execute_public_agent X (R\<lparr>pr_response_mode := None, pr_forced_mode := Some ''stream''\<rparr>)) (\<lambda>a.
     case a of
       Public_stream C q schema A \<Rightarrow> aret a
     | _ \<Rightarrow> araise (Other_exn ''RuntimeError''))"

definition run_public_agent ::
  "('m, 'o, 'r) public_env \<Rightarrow> public_request \<Rightarrow> ('m, 'o, 'r, public_answer) public"
where
  "run_public_agent X R = execute_public_agent X (R\<lparr>pr_forced_mode := None\<rparr>)"

section \<open>The management of publications\<close>

definition list_publications :: "store \<Rightarrow> publication list" where
  "list_publications db = sort_key (\<lambda>b. (pb_created_at b, pb_agent_id b)) (rg_publications (db_registry db))"

definition rotate_api_key ::
  "('m, 'o, 'r) public_env \<Rightarrow> string \<Rightarrow> string \<Rightarrow> ('m, 'o, publication \<times> string) run"
where
  "rotate_api_key X token agent_id w =
     (if get_agent agent_id (rw_db w) = None then (Inl (Http_error 404 (JStr ''agent not found'')), w)
      else case rotate_legacy_publication_key (px_sha256 X) token (rw_now w) agent_id (rw_db w) of
        Inl (Python_error (Value_error m)) \<Rightarrow> (Inl (Http_error 409 (JStr m)), w)
      | Inl Constraint_error \<Rightarrow> (Inl (Http_error 503 (JStr ''could not generate API Key'')), w)
      | Inl e \<Rightarrow> (Inl (version_exn e), w)
      | Inr ((b, k, plain), db) \<Rightarrow> (Inr (b, plain), w\<lparr>rw_db := db\<rparr>))"

end
