(* ===== verification/Run_Frames.thy ===== *)
theory Run_Frames
  imports Run_Preparation
begin

text \<open>
  What a run leaves as it is: the registry and the Agents, whatever its stages do, as long as the runtime
  does not touch them. One rule per kind of step, collected for the composition.
\<close>

section \<open>Frames\<close>

text \<open>A run leaves the registry and the Agents as they are, as long as the runtime does.\<close>

definition registry_of :: "('m, 'o) run_world \<Rightarrow> registry \<times> agent list" where
  "registry_of w = (db_registry (rw_db w), db_agents (rw_db w))"

definition keeps_rows :: "('m, 'o, 'a) run \<Rightarrow> bool" where
  "keeps_rows m \<longleftrightarrow> (\<forall>w. registry_of (snd (m w)) = registry_of w)"

named_theorems rows_rules

lemma rowsD: "keeps_rows m \<Longrightarrow> m w = (r, w') \<Longrightarrow> registry_of w' = registry_of w"
  unfolding keeps_rows_def by (metis snd_conv)

lemma rows_bind [rows_rules]: "keeps_rows m \<Longrightarrow> (\<And>x. keeps_rows (f x)) \<Longrightarrow> keeps_rows (abind m f)"
  by (auto simp: keeps_rows_def abind_def split: prod.splits sum.splits) (metis snd_conv)+

lemma run_registry_frames [simp]:
  "db_registry (upd_execution k f db) = db_registry db" "db_registry (upd_session k' f' db) = db_registry db"
  "db_registry (end_session e st t db) = db_registry db" "db_agents (end_session e st t db) = db_agents db"
  "db_registry (cancel_running_steps t x db) = db_registry db" "db_agents (cancel_running_steps t x db) = db_agents db"
  "db_registry (fail_running_steps t x m db) = db_registry db" "db_agents (fail_running_steps t x m db) = db_agents db"
  "db_registry (link_artifact x a db) = db_registry db" "db_agents (link_artifact x a db) = db_agents db"
  by (simp_all add: upd_execution_def upd_session_def end_session_def cancel_running_steps_def fail_running_steps_def
      link_artifact_def split: option.splits)

lemma step_frames:
  "db_registry (snd (record_step t x key n ty name status d od err latency db)) = db_registry db"
  "db_agents (snd (record_step t x key n ty name status d od err latency db)) = db_agents db"
  "db_registry (snd (start_step t x key n ty name d b db)) = db_registry db"
  "db_agents (snd (start_step t x key n ty name d b db)) = db_agents db"
  "db_registry (snd (finish_step t s st od err db)) = db_registry db"
  "db_agents (snd (finish_step t s st od err db)) = db_agents db"
  by (auto simp: record_step_def start_step_def finish_step_def upd_step_def Let_def split: prod.splits option.splits if_splits)

lemma rows_change [rows_rules]:
  "(\<And>t db. db_registry (f t db) = db_registry db) \<Longrightarrow> (\<And>t db. db_agents (f t db) = db_agents db) \<Longrightarrow> keeps_rows (rchange f)"
  by (simp add: keeps_rows_def rchange_def registry_of_def)

lemma rows_parts [rows_rules]:
  "keeps_rows (rlift r)" "keeps_rows (aret x)" "keeps_rows (araise e)" "keeps_rows (rread g)" "keeps_rows new_uuid"
  "keeps_rows (log_step i key n ty name status d od err latency)" "keeps_rows (prepare_step i' R base offset ty name st input output)"
  by (simp_all add: keeps_rows_def rlift_def aret_def araise_def rread_def new_uuid_def log_step_def prepare_step_def rchange_def
      registry_of_def step_frames)

lemma rows_for [rows_rules]: "(\<And>x. keeps_rows (f x)) \<Longrightarrow> keeps_rows (afor f xs)"
proof (induction xs)
  case Nil
  then show ?case by (simp add: keeps_rows_def)
next
  case (Cons x xs)
  have "afor f (x # xs) = abind (f x) (\<lambda>_. afor f xs)" by (auto simp: abind_def split: prod.splits sum.splits)
  then show ?case using rows_bind [OF Cons.prems Cons.IH [OF Cons.prems]] by simp
qed

lemma rows_fail: "keeps_rows (fail_execution x m)" "keeps_rows (cancel_execution E x)"
  by (auto simp: keeps_rows_def fail_execution_def cancel_execution_def rchange_def registry_of_def Let_def split: option.splits)

lemma rows_ended: "keeps_rows (failed_with x m c d)" "keeps_rows (cancelled_with E x)"
  unfolding failed_with_def cancelled_with_def by (intro rows_rules rows_fail)+

lemma rows_frame: "keeps_rows m \<Longrightarrow> registry_of (snd (m w)) = registry_of w"
  by (simp add: keeps_rows_def)

lemma ended_frames [simp]:
  "registry_of (snd (failed_with x m c d w)) = registry_of w" "registry_of (snd (cancelled_with E x w)) = registry_of w"
  by (rule rows_frame [OF rows_ended(1)], rule rows_frame [OF rows_ended(2)])

lemma refused_frame [simp]: "registry_of (snd (abind (fail_execution x m) (\<lambda>_. araise e) w)) = registry_of w"
  by (intro rows_frame rows_bind rows_fail rows_parts)

lemma rowsI: "(\<And>w r w'. m w = (r, w') \<Longrightarrow> registry_of w' = registry_of w) \<Longrightarrow> keeps_rows m"
  unfolding keeps_rows_def by (metis prod.collapse)

subsection \<open>The run\<close>

lemma registry_of_parts [simp]:
  "registry_of (w\<lparr>rw_fs := fs, rw_objects := objects, rw_db := snd (register_artifact t a s p st (rw_db w))\<rparr>) = registry_of w"
  "registry_of (w\<lparr>rw_fs := fs\<rparr>) = registry_of w"
  by (simp_all add: registry_of_def register_artifact_def split: option.splits)

lemma rows_save: "registry_of (snd (save_artifacts E C ps w)) = registry_of w"
proof (induction ps arbitrary: w)
  case (Cons p ps)
  have "registry_of w' = registry_of w"
    if "save_artifacts E C ps (w\<lparr>rw_fs := fs, rw_objects := objects, rw_db := snd (register_artifact t a s p st (rw_db w))\<rparr>) = (r, w')"
    for fs objects t a s st r w'
    using Cons.IH [of "w\<lparr>rw_fs := fs, rw_objects := objects, rw_db := snd (register_artifact t a s p st (rw_db w))\<rparr>"] that
    by simp
  then show ?case
    by (auto simp: Let_def case_prod_beta split: sum.splits) (metis prod.collapse)+
qed simp

lemma rows_complete: "keeps_rows (complete_execution E C r v)"
proof -
  let ?ps = "execution_artifact_payloads (rx_indented E) (ag_runtime_type (cx_agent C)) r v"
  have part: "keeps_rows (abind (rchange (\<lambda>t. upd_session (cx_session C) (succeeded_session r t))) (\<lambda>_. abind (rlift (map_error python_exn i)) (\<lambda>calls.
      abind (afor (log_mcp_call E C) (enumerate 0 calls)) (\<lambda>_. afor (log_artifact C) saved))))" for i saved
  proof (intro rows_rules)
    show "keeps_rows (log_mcp_call E C x)" for x
      by (cases x; cases "snd x") (auto simp: log_mcp_call_def Let_def intro: rows_rules)
    show "keeps_rows (log_artifact C x)" for x
      by (cases x) (auto simp: log_artifact_def intro!: rows_rules)
  qed simp_all
  show ?thesis
    unfolding keeps_rows_def
  proof
    fix w :: "('a, 'b) run_world"
    define w1 where "w1 = w\<lparr>rw_db := upd_execution (cx_execution C) (completed C r v (rw_now w)) (rw_db w)\<rparr>"
    obtain x w2 where s: "save_artifacts E C ?ps w1 = (x, w2)" by (cases "save_artifacts E C ?ps w1")
    have w2: "registry_of w2 = registry_of w" using rows_save [of E C ?ps w1] s by (simp add: w1_def registry_of_def)
    show "registry_of (snd (complete_execution E C r v w)) = registry_of w"
    proof (cases x)
      case (Inl e)
      then show ?thesis using s w2
        by (cases e) (auto simp: complete_execution_def Let_def w1_def [symmetric] registry_of_def split: option.splits)
    next
      case (Inr saved)
      then show ?thesis using s w2 part
        by (auto simp: complete_execution_def Let_def w1_def [symmetric] keeps_rows_def split: option.splits)
    qed
  qed
qed

lemma rows_accept: "keeps_rows (accept_result E C q s r)"
  unfolding accept_result_def record_runtime_trace_def
proof (intro rows_rules)
  show "keeps_rows (record_trace_event E C x)" for x
    by (cases x) (auto simp: record_trace_event_def Let_def split: prod.splits intro: rows_rules)
  show "keeps_rows (\<lambda>w. case rx_append E (ag_id (cx_agent C)) (rq_session_id q) (rq_input q) (rr_output r) (rw_memory w) of
      (x, m) \<Rightarrow> (map_error memory_exn x, w\<lparr>rw_memory := m\<rparr>))"
    by (auto simp: keeps_rows_def registry_of_def split: prod.splits)
qed (simp_all add: step_frames)

lemma rows_runtime:
  assumes "keeps_rows (rx_new_session E C)"
  shows "keeps_rows (execution_runtime E C)"
proof -
  have "keeps_rows (made_session E C s)" for s
    unfolding keeps_rows_def
  proof
    fix w :: "('a, 'b) run_world"
    obtain x w1 where n: "rx_new_session E C w = (x, w1)" by (cases "rx_new_session E C w")
    have w1: "registry_of w1 = registry_of w" by (rule rowsD [OF assms n])
    show "registry_of (snd (made_session E C s w)) = registry_of w"
    proof (cases x)
      case (Inl e)
      then show ?thesis using n w1 by (cases e) (auto simp: made_session_def Let_def registry_of_def)
    next
      case (Inr i)
      then show ?thesis using n w1 by (auto simp: made_session_def Let_def registry_of_def)
    qed
  qed
  then have body: "keeps_rows (abind (made_session E C s) (\<lambda>made.
      abind (rchange (\<lambda>t. upd_execution (cx_execution C) (g made))) (\<lambda>_. aret (h made))))" for s g h
    by (intro rows_rules) simp_all
  show ?thesis
  proof (rule rowsI)
    fix w :: "('a, 'b) run_world" and r w'
    assume "execution_runtime E C w = (r, w')"
    then show "registry_of w' = registry_of w"
      unfolding execution_runtime_def Let_def
      by (auto split: sum.splits option.splits dest: rowsD [OF body])
  qed
qed

definition quiet_runtime :: "('m, 'o) run_env \<Rightarrow> bool" where
  "quiet_runtime E \<longleftrightarrow> (\<forall>C i. keeps_rows (rx_new_session E C) \<and> keeps_rows (rx_execute E C i))"

lemma rows_run_prepared:
  assumes "quiet_runtime E"
  shows "keeps_rows (run_prepared E C q)"
proof -
  have start: "keeps_rows (start_runtime_step C)"
    using step_frames(3,4) by (auto simp: keeps_rows_def start_runtime_step_def Let_def registry_of_def split: prod.splits) (metis snd_conv)+
  have part: "keeps_rows (runtime_part E C q s)" for s
    unfolding runtime_part_def using assms by (auto simp: quiet_runtime_def intro!: rows_rules rows_runtime rows_accept)
  have finish: "keeps_rows (finish_run E C r v)" for r v
    unfolding keeps_rows_def
  proof
    fix w :: "('a, 'b) run_world"
    obtain x w' where c: "complete_execution E C r v w = (x, w')" by (cases "complete_execution E C r v w")
    have w': "registry_of w' = registry_of w" by (rule rowsD [OF rows_complete c])
    show "registry_of (snd (finish_run E C r v w)) = registry_of w"
    proof (cases x)
      case (Inl e)
      then show ?thesis using c w' by (cases e) (auto simp: finish_run_def)
    next
      case (Inr u)
      then show ?thesis using c w' by (simp add: finish_run_def)
    qed
  qed
  have body: "keeps_rows (\<lambda>w. case runtime_part E C q s w of
         (Inl (Memory_failed m), w') \<Rightarrow> failed_with (cx_execution C) m 503 ''Agent memory is unavailable'' w'
       | (Inl (Run_cancelled m), w') \<Rightarrow> cancelled_with E (cx_execution C) w'
       | (Inl (Runtime_failed m), w') \<Rightarrow> failed_with (cx_execution C) m 502 ''Agent Runtime execution failed'' w'
       | (Inl (Adapter_failed m), w') \<Rightarrow> failed_with (cx_execution C) m 502 ''Agent Runtime execution failed'' w'
       | (Inl (Value_failed m), w') \<Rightarrow> failed_with (cx_execution C) m 502 m w'
       | (Inl e, w') \<Rightarrow> (Inl e, w')
       | (Inr (r, v), w') \<Rightarrow> finish_run E C r v w')" for s
    unfolding keeps_rows_def
  proof
    fix w :: "('a, 'b) run_world"
    obtain x w' where p: "runtime_part E C q s w = (x, w')" by (cases "runtime_part E C q s w")
    have w': "registry_of w' = registry_of w" by (rule rowsD [OF part p])
    show "registry_of (snd (case runtime_part E C q s w of
         (Inl (Memory_failed m), w') \<Rightarrow> failed_with (cx_execution C) m 503 ''Agent memory is unavailable'' w'
       | (Inl (Run_cancelled m), w') \<Rightarrow> cancelled_with E (cx_execution C) w'
       | (Inl (Runtime_failed m), w') \<Rightarrow> failed_with (cx_execution C) m 502 ''Agent Runtime execution failed'' w'
       | (Inl (Adapter_failed m), w') \<Rightarrow> failed_with (cx_execution C) m 502 ''Agent Runtime execution failed'' w'
       | (Inl (Value_failed m), w') \<Rightarrow> failed_with (cx_execution C) m 502 m w'
       | (Inl e, w') \<Rightarrow> (Inl e, w')
       | (Inr (r, v), w') \<Rightarrow> finish_run E C r v w')) = registry_of w"
    proof (cases x)
      case (Inl e)
      then show ?thesis using p w' by (cases e) auto
    next
      case (Inr rv)
      then show ?thesis using p w' finish by (cases rv) (auto simp: keeps_rows_def)
    qed
  qed
  show ?thesis unfolding run_prepared_def by (intro rows_bind start body)
qed

subsection \<open>The preparation\<close>

lemma rows_gather: "keeps_rows (gather E a x R profile resolved)"
proof -
  have 1: "keeps_rows (check_input E x R schema vs)" for schema vs
    by (auto simp: check_input_def split: sum.splits intro!: rows_rules)
  have "keeps_rows (\<lambda>w. case rx_load E (ag_id a) (rq_session_id (ru_payload R)) (rw_memory w) of
       (r, m) \<Rightarrow> (map_error memory_exn r, w\<lparr>rw_memory := m\<rparr>))"
    by (auto simp: keeps_rows_def registry_of_def split: prod.splits)
  then have 2: "keeps_rows (load_memory E a x R)"
    unfolding load_memory_def by (intro rows_rules)
  have 3: "keeps_rows (load_skills E a x R schema links)" for schema links
    unfolding load_skills_def Let_def by (auto intro!: rows_rules)
  have 4: "keeps_rows (load_mcp x R profile links)" for links
    unfolding load_mcp_def Let_def by (intro rows_rules)
  have 5: "keeps_rows (retrieve_knowledge E x R sources)" for sources
    unfolding retrieve_knowledge_def by (intro rows_rules)
  have 6: "keeps_rows (recall_sources E x R skills vs resolved)" for skills vs
    unfolding recall_sources_def Let_def by (auto split: option.splits intro!: rows_rules)
  have pair: "(\<And>y z. keeps_rows (f y z)) \<Longrightarrow> keeps_rows (case p of (y, z) \<Rightarrow> f y z)" for f :: "'x \<Rightarrow> 'y \<Rightarrow> ('m, 'o, gathered) run" and p
    by (cases p) simp
  show ?thesis
    unfolding gather_def Let_def
    by (intro rows_bind pair 1 2 3 4 5 6 rows_parts)
qed

lemma rows_open: "keeps_rows (open_run E a R)"
proof -
  have workspace: "keeps_rows (open_workspace E a R i ty)" for i ty
    by (auto simp: keeps_rows_def open_workspace_def Let_def registry_of_def session_failed_def split: sum.splits option.splits)
  have session: "db_registry (start_session a R ty path i t db) = db_registry db"
    "db_agents (start_session a R ty path i t db) = db_agents db" for ty path i t db
    by (simp_all add: start_session_def split: option.splits)
  have execution: "keeps_rows (start_execution E a R scope i)" for scope i
    unfolding start_execution_def by (auto split: option.splits intro!: rows_rules)
  show ?thesis
    unfolding open_run_def
    by (auto intro!: rows_rules workspace execution simp: session split: option.splits)
qed

lemma granted_frame [simp]: "registry_of (snd (granted E a x v n w)) = registry_of w"
  unfolding granted_def Let_def by (intro rows_frame rows_bind rows_parts) (simp add: keeps_rows_def)

lemma rows_authorize: "keeps_rows (authorize_run E a R x)"
  by (simp add: keeps_rows_def authorize_run_def split: option.splits sum.splits)

lemma rows_prepare: "keeps_rows (prepare_agent_execution E a R)"
proof -
  have build: "keeps_rows (build_context E a x s R ns ws profile capabilities)" for x s ns ws profile capabilities
    unfolding build_context_def Let_def write_details_def
    by (cases capabilities) (auto intro!: rows_rules rows_gather)
  have failed: "keeps_rows (\<lambda>w. prepared_or_failed x (build_context E a x s R ns ws profile capabilities w))"
    for x s ns ws profile capabilities
    unfolding keeps_rows_def
  proof
    fix w
    obtain r w' where b: "build_context E a x s R ns ws profile capabilities w = (r, w')"
      by (cases "build_context E a x s R ns ws profile capabilities w")
    have w': "registry_of w' = registry_of w" by (rule rowsD [OF build b])
    show "registry_of (snd (prepared_or_failed x (build_context E a x s R ns ws profile capabilities w))) = registry_of w"
      using b w' by (cases r) (auto simp: prepared_or_failed_def split: run_exn.splits)
  qed
  have pair: "(\<And>x s ns ws profile. keeps_rows (f x s ns ws profile)) \<Longrightarrow> keeps_rows (case y of (x, s, ns, ws, profile) \<Rightarrow> f x s ns ws profile)"
    for f :: "uuid \<Rightarrow> uuid \<Rightarrow> namespace \<Rightarrow> session_workspace \<Rightarrow> profile \<Rightarrow> ('m, 'o, run_context) run" and y
    by (cases y) simp
  show ?thesis
    unfolding prepare_agent_execution_def
    by (intro rows_bind pair rows_open rows_authorize rows_parts failed)
qed

end
