(* ===== verification/Public_Calls_Correct.thy ===== *)
theory Public_Calls_Correct
  imports Public_Calls Run_Frames Run_Stream_Correct Api_Keys_Correct
begin

text \<open>
  What the public API guarantees: a call runs an Agent only after its admission, and every call leaves
  exactly one record in the audit log, which tells whether it succeeded; with a sample client.
\<close>

section \<open>One record\<close>

lemma rows_execute:
  assumes "quiet_runtime E"
  shows "keeps_rows (execute_with_id E a R)"
  unfolding execute_with_id_def by (intro rows_bind rows_prepare rows_run_prepared rows_parts assms)

abbreviation db_of :: "('m, 'o, 'r) public_world \<Rightarrow> store" where
  "db_of p \<equiv> rw_db (pw_run p)"

text \<open>The ids of an audit stand for rows, and its request id is new.\<close>

definition known_call :: "audit_context \<Rightarrow> store \<Rightarrow> bool" where
  "known_call A db \<longleftrightarrow>
     ac_request_id A \<notin> au_request_id ` set (audits db) \<and>
     (case ac_agent_id A of None \<Rightarrow> True | Some x \<Rightarrow> x \<in> ag_id ` set (db_agents db)) \<and>
     (case ac_client_id A of None \<Rightarrow> True | Some c \<Rightarrow> c \<in> cl_id ` set (clients db)) \<and>
     (case ac_api_key_id A of None \<Rightarrow> True | Some k \<Rightarrow> k \<in> ky_id ` set (keys db))"

definition auditable :: "audit_context \<Rightarrow> ('m, 'o, 'r) public_world \<Rightarrow> bool" where
  "auditable A p \<longleftrightarrow> \<not> pw_recorded p \<and> known_call A (db_of p)"

definition one_record :: "audit_context \<Rightarrow> ('m, 'o, 'r) public_world \<Rightarrow> ('m, 'o, 'r) public_world \<Rightarrow> bool \<Rightarrow> bool" where
  "one_record A p p' succeeded \<longleftrightarrow>
     pw_recorded p' \<and> (\<exists>u. audits (db_of p') = audits (db_of p) @ [u] \<and> (au_status u = U_succeeded \<longleftrightarrow> succeeded) \<and>
       au_request_id u = ac_request_id A)"

lemma audits_frame: "registry_of w' = registry_of w \<Longrightarrow> audits (rw_db w') = audits (rw_db w)"
  by (simp add: registry_of_def audits_def)

lemma known_frame: "registry_of w' = registry_of w \<Longrightarrow> known_call A (rw_db w') = known_call A (rw_db w)"
  by (auto simp: registry_of_def known_call_def audits_def clients_def keys_def split: option.splits)

lemma recorded_call:
  assumes "known_call A db" and "0 \<le> (case tokens of None \<Rightarrow> 0 | Some n \<Rightarrow> n)" and "st = U_succeeded \<Longrightarrow> ac_agent_id A \<noteq> None"
  shows "\<exists>u db'. record_public_call t (call_of A t st tokens calls code) db = Inr (u, db') \<and>
    audits db' = audits db @ [u] \<and> au_status u = st \<and> au_request_id u = ac_request_id A"
proof -
  let ?c = "call_of A t st tokens calls code"
  have ok: "call_rows_ok ?c db"
    using assms(1,2) by (simp add: call_rows_ok_def call_of_def known_call_def tokens_of_def)
  obtain i db1 where n: "new_id db = (i, db1)" by (cases "new_id db")
  let ?u = "new_audit t i ?c"
  let ?db2 = "upd_registry (\<lambda>r. r\<lparr>rg_audits := rg_audits r @ [?u]\<rparr>) db1"
  let ?db3 = "case pc_agent_id ?c of None \<Rightarrow> ?db2 | Some x \<Rightarrow> count_call t x ?c ?db2"
  have "audits db1 = audits db" using n by (auto simp: new_id_def audits_def)
  then have "audits ?db2 = audits db @ [?u]" by (simp add: audits_def upd_registry_def)
  then have a: "audits ?db3 = audits db @ [?u]"
    by (simp add: count_call_audits split: option.splits)
  have st: "au_status ?u = st" "au_request_id ?u = ac_request_id A" "pc_status ?c = st" "pc_agent_id ?c = ac_agent_id A" "pc_increment_publication ?c = (st = U_succeeded)"
    by (simp_all add: new_audit_def call_of_def)
  show ?thesis
  proof (cases "st = U_succeeded")
    case False
    then have "record_public_call t ?c db = Inr (?u, ?db3)" using ok n st by (simp add: record_public_call_def Let_def)
    then show ?thesis using a st(1,2) by (intro exI [of _ ?u] exI [of _ ?db3]) simp
  next
    case True
    then obtain x where x: "ac_agent_id A = Some x" using assms(3) by blast
    let ?f = "\<lambda>q. q\<lparr>pb_call_count := pb_call_count q + 1, pb_last_called_at := Some t\<rparr>"
    let ?db4 = "upd_registry (\<lambda>r. r\<lparr>rg_publications := row_upd pb_agent_id x ?f (rg_publications r)\<rparr>) ?db3"
    have "record_public_call t ?c db = Inr (?u, ?db4)" using ok n st x True by (simp add: record_public_call_def Let_def)
    moreover have "audits ?db4 = audits ?db3" by (simp add: audits_def upd_registry_def)
    ultimately show ?thesis using a st(1,2) by (intro exI [of _ ?u] exI [of _ ?db4]) simp
  qed
qed

lemma audited_record:
  assumes "auditable A p" and "0 \<le> (case tokens of None \<Rightarrow> 0 | Some n \<Rightarrow> n)" and "st = U_succeeded \<Longrightarrow> ac_agent_id A \<noteq> None"
    and "audit_once A st tokens calls code p = (r, p')"
  shows "r = Inr () \<and> one_record A p p' (st = U_succeeded)"
proof -
  obtain u db where "record_public_call (rw_now (pw_run p)) (call_of A (rw_now (pw_run p)) st tokens calls code) (db_of p) = Inr (u, db)"
    "audits db = audits (db_of p) @ [u]" "au_status u = st" "au_request_id u = ac_request_id A"
    using recorded_call [where A = A and db = "db_of p" and tokens = tokens and st = st and t = "rw_now (pw_run p)"
        and calls = calls and code = code, OF _ assms(2,3)] assms(1)
    unfolding auditable_def by blast
  then show ?thesis
    using assms(1,4) by (auto simp: audit_once_def record_public_audit_def auditable_def one_record_def)
qed

lemma told_record:
  assumes "auditable A p" and "st \<noteq> U_succeeded" and "told A st code e p = (r, p')"
  shows "r = Inl e \<and> one_record A p p' False"
proof -
  obtain r1 p1 where a: "audit_once A st None 0 (Some code) p = (r1, p1)" by (cases "audit_once A st None 0 (Some code) p")
  have "r1 = Inr () \<and> one_record A p p1 (st = U_succeeded)"
    by (rule audited_record [OF assms(1) _ _ a]) (use assms(2) in simp_all)
  then show ?thesis using assms(2,3) a by (simp add: told_def araise_def)
qed

lemma same_world_record:
  "audits (db_of q) = audits (db_of p) \<Longrightarrow> one_record A q p' b \<Longrightarrow> one_record A p p' b"
  by (simp add: one_record_def)

section \<open>The stages of admission\<close>

lemma generated_session: "part_ok 128 (''public-'' @ uuid_hex u)"
proof -
  have "is_alpha c \<or> is_digit c \<or> c \<in> {CHR ''.'', CHR ''_'', CHR ''-''}" if "c \<in> set (uuid_hex u)" for c
    using uuid_hex_chars [of u] that by (auto simp: list_all_iff is_hex_or_dash_def is_alpha_def)
  then have "namespace_part (''public-'' @ uuid_hex u)"
    by (simp add: namespace_part_def list_all_iff is_alpha_def is_lower_def is_upper_def is_digit_def)
  moreover have "py_len s \<le> length s" for s by (simp add: py_len_def)
  then have "py_len (''public-'' @ uuid_hex u) \<le> 128" by (rule order_trans) simp
  ultimately show ?thesis by (simp add: part_ok_def)
qed

text \<open>
  A stage either ends the call with its record, or goes on with the rows as they were, but for the time
  a key was last used.
\<close>

definition same_public :: "('m, 'o, 'r) public_world \<Rightarrow> ('m, 'o, 'r) public_world \<Rightarrow> bool" where
  "same_public p q \<longleftrightarrow> audits (db_of q) = audits (db_of p) \<and> pw_recorded q = pw_recorded p \<and>
     (\<forall>A. known_call A (db_of q) = known_call A (db_of p)) \<and> db_executions (db_of q) = db_executions (db_of p) \<and>
     db_agents (db_of q) = db_agents (db_of p) \<and> rg_apis (db_registry (db_of q)) = rg_apis (db_registry (db_of p)) \<and>
     rg_schemas (db_registry (db_of q)) = rg_schemas (db_registry (db_of p)) \<and>
     rg_publications (db_registry (db_of q)) = rg_publications (db_registry (db_of p)) \<and> rw_now (pw_run q) = rw_now (pw_run p)"

lemma same_public_refl [simp]: "same_public p p"
  by (simp add: same_public_def)

lemma same_public_trans: "same_public p q \<Longrightarrow> same_public q q' \<Longrightarrow> same_public p q'"
  by (simp add: same_public_def)

lemma same_public_auditable: "same_public p q \<Longrightarrow> auditable A q = auditable A p"
  by (simp add: same_public_def auditable_def)

lemma told_executions: "told A st code e p = (r, p') \<Longrightarrow> db_executions (db_of p') = db_executions (db_of p)"
proof -
  assume t: "told A st code e p = (r, p')"
  have "db_executions db' = db_executions db" if "record_public_call t c db = Inr (u, db')" for t c db u db'
    using that
    by (auto simp: record_public_call_def new_id_def count_call_def upd_registry_def Let_def value_error_def
        split: if_splits option.splits prod.splits)
  then show ?thesis using t
    by (auto simp: told_def audit_once_def record_public_audit_def abind_def araise_def
        split: prod.splits sum.splits if_splits)
qed

lemma told_Inl: "told A st code e p = (r, p') \<Longrightarrow> isl r"
  by (auto simp: told_def abind_def araise_def split: prod.splits sum.splits)

lemma told_Inr [simp]: "told A st code e p \<noteq> (Inr x, q)"
  using told_Inl by fastforce

text \<open>
  What a stage does: a result, or the end of the call, which is recorded unless its cause is one the
  handler does not record.
\<close>

definition ends_call :: "bool \<Rightarrow> audit_context \<Rightarrow> ('m, 'o, 'r) public_world \<Rightarrow> ('m, 'o, 'r) public_world \<Rightarrow> bool" where
  "ends_call h A p q \<longleftrightarrow> db_executions (db_of q) = db_executions (db_of p) \<and> (h \<and> auditable A p \<longrightarrow> one_record A p q False)"

definition stage :: "bool \<Rightarrow> audit_context \<Rightarrow> ('m, 'o, 'r) public_world \<Rightarrow> (run_exn + 'a) \<times> ('m, 'o, 'r) public_world \<Rightarrow> bool" where
  "stage h A p out \<longleftrightarrow> (case out of (Inr x, q) \<Rightarrow> same_public p q | (Inl e, q) \<Rightarrow> ends_call h A p q)"

lemma stage_told:
  fixes q :: "('m, 'o, 'r) public_world"
  assumes "st \<noteq> U_succeeded" and "same_public p q" and "ac_request_id A' = ac_request_id A"
    and "known_call A (db_of p) \<Longrightarrow> known_call A' (db_of p)"
  shows "stage h A p (told A' st code e q :: (run_exn + 'a) \<times> ('m, 'o, 'r) public_world)"
proof -
  obtain r :: "run_exn + 'a" and p' where t: "told A' st code e q = (r, p')" by fastforce
  obtain e' where e': "r = Inl e'" using told_Inl [OF t] by (cases r) auto
  have "one_record A p p' False" if a: "auditable A p"
  proof -
    have "auditable A' q" using a assms(2,4) by (auto simp: auditable_def same_public_def)
    then have "one_record A' q p' False" using told_record [OF _ assms(1) t] by blast
    then show ?thesis using assms(2,3) by (simp add: one_record_def same_public_def)
  qed
  then show ?thesis using told_executions [OF t] assms(2) by (simp add: stage_def ends_call_def t e' same_public_def)
qed

lemma stage_Inr: "same_public p q \<Longrightarrow> stage h A p (Inr x, q)"
  by (simp add: stage_def)

lemma ends_call_later:
  "same_public p q \<Longrightarrow> ac_request_id A' = ac_request_id A \<Longrightarrow> (known_call A (db_of p) \<Longrightarrow> known_call A' (db_of p)) \<Longrightarrow>
     ends_call h A' q q' \<Longrightarrow> ends_call h A p q'"
  by (auto simp: ends_call_def same_public_def auditable_def one_record_def)

lemma stage_abind:
  assumes "stage h A p (m p)" and "\<And>x q. m p = (Inr x, q) \<Longrightarrow> same_public p q \<Longrightarrow> stage h A q (f x q)"
  shows "stage h A p (abind m f p)"
proof (cases "m p")
  case (Pair r q)
  show ?thesis
  proof (cases r)
    case (Inl e)
    then show ?thesis using Pair assms(1) by (simp add: abind_def stage_def)
  next
    case (Inr x)
    then have s: "same_public p q" using Pair assms(1) by (simp add: stage_def)
    have f: "stage h A q (f x q)" using assms(2) Pair Inr s by blast
    show ?thesis
      using f ends_call_later [OF s, of A A] same_public_trans [OF s] Pair Inr
      by (auto simp: abind_def stage_def split: prod.splits sum.splits)
  qed
qed

lemma stage_later:
  "stage h A' p out \<Longrightarrow> ac_request_id A' = ac_request_id A \<Longrightarrow> (known_call A (db_of p) \<Longrightarrow> known_call A' (db_of p)) \<Longrightarrow> stage h A p out"
  using ends_call_later [OF same_public_refl] by (fastforce simp: stage_def split: prod.splits sum.splits)

definition of_agent :: "agent \<Rightarrow> audit_context \<Rightarrow> audit_context" where
  "of_agent a A = A\<lparr>ac_agent_id := Some (ag_id a)\<rparr>"

definition of_caller :: "api_client \<Rightarrow> api_key \<Rightarrow> audit_context \<Rightarrow> audit_context" where
  "of_caller c k A = A\<lparr>ac_client_id := Some (cl_id c), ac_api_key_id := Some (ky_id k)\<rparr>"

lemma known_of_agent: "a \<in> set (db_agents db) \<Longrightarrow> known_call A db \<Longrightarrow> known_call (of_agent a A) db"
  by (simp add: known_call_def of_agent_def)

lemma known_of_caller:
  "cl_id c \<in> cl_id ` set (clients db) \<Longrightarrow> ky_id k \<in> ky_id ` set (keys db) \<Longrightarrow> known_call A db \<Longrightarrow> known_call (of_caller c k A) db"
  by (simp add: known_call_def of_caller_def)

lemma of_parts [simp]:
  "ac_request_id (of_agent a A) = ac_request_id A" "ac_request_id (of_caller c k A) = ac_request_id A"
  "ac_agent_id (of_agent a A) = Some (ag_id a)" "ac_agent_id (of_caller c k A) = ac_agent_id A"
  by (simp_all add: of_agent_def of_caller_def)

lemma published_stage: "stage h A p (published_agent x A p)"
proof (cases "get_agent x (db_of p)")
  case None
  then show ?thesis by (simp add: published_agent_def Let_def reject_public_call_def stage_told)
next
  case (Some a)
  then have a: "a \<in> set (db_agents (db_of p))" by (auto dest: row_get_Some)
  show ?thesis
    using Some known_of_agent [OF a]
    by (auto simp: published_agent_def Let_def reject_public_call_def of_agent_def intro!: stage_told stage_Inr split: option.split)
qed

lemma published_Inr:
  "published_agent x A p = (Inr a, q) \<Longrightarrow> q = p \<and> get_agent x (db_of p) = Some a \<and> callable a \<and>
     (\<exists>b. get_publication x (db_of p) = Some b \<and> pb_status b = B_published)"
  by (auto simp: published_agent_def Let_def reject_public_call_def split: option.splits if_splits)

lemma valid_pair_rows:
  assumes "(c, k) \<in> set (valid_pairs sha256 t b db)"
  shows "c \<in> set (clients db)" and "k \<in> set (keys db)" and "key_valid sha256 t b c k"
  using assms by (auto simp: valid_pairs_def)

lemma client_key_rows:
  "authenticate_client_key sha256 t b db = Some (c, k) \<Longrightarrow> (c, k) \<in> set (valid_pairs sha256 t b db)"
  by (auto simp: authenticate_client_key_def split: list.splits)

lemma api_key_rows:
  assumes "authenticate_api_key sha256 t x b db = (Some (c, k), db')"
  obtains k0 where "(c, k0) \<in> set (valid_pairs sha256 t b db)" and "has_invoke_permission (cl_id c) x db" and "ky_id k = ky_id k0"
proof -
  obtain k0 rest where f: "filter (\<lambda>(c, k). has_invoke_permission (cl_id c) x db) (valid_pairs sha256 t b db) = (c, k0) # rest"
    and k: "k = k0\<lparr>ky_last_used_at := Some t\<rparr>"
    using assms by (auto simp: authenticate_api_key_def Let_def split: list.splits)
  have "(c, k0) \<in> set (filter (\<lambda>(c, k). has_invoke_permission (cl_id c) x db) (valid_pairs sha256 t b db))"
    unfolding f by simp
  then show thesis using that k by auto
qed

lemma used_key_same:
  assumes "authenticate_api_key sha256 t x b (db_of p) = (r, db')"
  shows "same_public p (p\<lparr>pw_run := (pw_run p)\<lparr>rw_db := db'\<rparr>\<rparr>)"
proof -
  have k: "ky_id ` set (row_upd ky_id i (\<lambda>r. r\<lparr>ky_last_used_at := Some t\<rparr>) ks) = ky_id ` set ks" for i ks
  proof -
    have "map ky_id (row_upd ky_id i (\<lambda>r. r\<lparr>ky_last_used_at := Some t\<rparr>) ks) = map ky_id ks" by (simp add: row_upd_def)
    then show ?thesis by (metis list.set_map)
  qed
  have "known_call A (upd_registry (\<lambda>r. r\<lparr>rg_keys := row_upd ky_id i (\<lambda>r. r\<lparr>ky_last_used_at := Some t\<rparr>) (rg_keys r)\<rparr>) db) =
      known_call A db" for A i db
    by (simp add: known_call_def audits_def clients_def keys_def upd_registry_def k split: option.split)
  then show ?thesis
    using assms
    by (auto simp: authenticate_api_key_def Let_def same_public_def audits_def split: list.splits) (simp_all add: upd_registry_def)
qed

lemma authenticated_stage: "stage h A p (authenticated X R A p)"
proof (cases "presented_key R")
  case None
  then show ?thesis by (simp add: authenticated_def reject_public_call_def stage_told)
next
  case (Some s)
  show ?thesis
  proof (cases s)
    case Nil
    then show ?thesis using Some by (simp add: authenticated_def reject_public_call_def stage_told)
  next
    case (Cons b bs)
    obtain found db' where f: "authenticate_api_key (px_sha256 X) (rw_now (pw_run p)) (pr_agent_id R) (b # bs) (db_of p) = (found, db')"
      by (cases "authenticate_api_key (px_sha256 X) (rw_now (pw_run p)) (pr_agent_id R) (b # bs) (db_of p)")
    show ?thesis
    proof (cases found)
      case (Some ck)
      then show ?thesis using f \<open>presented_key R = Some s\<close> Cons used_key_same [OF f]
        by (cases ck) (simp add: authenticated_def Let_def stage_def)
    next
      case None
      show ?thesis
      proof (cases "authenticate_client_key (px_sha256 X) (rw_now (pw_run p)) (b # bs) (db_of p)")
        case c: None
        show ?thesis using f None c \<open>presented_key R = Some s\<close> Cons
          by (simp add: authenticated_def Let_def reject_public_call_def stage_told)
      next
        case c: (Some ck)
        obtain c1 k1 where ck: "ck = (c1, k1)" by (cases ck)
        note rows = valid_pair_rows [OF client_key_rows [OF c [unfolded ck]]]
        have "known_call A (db_of p) \<Longrightarrow> known_call (of_caller c1 k1 A) (db_of p)"
          by (rule known_of_caller) (use rows in auto)
        then show ?thesis using f None c ck \<open>presented_key R = Some s\<close> Cons
          by (auto simp: authenticated_def Let_def reject_public_call_def of_caller_def intro!: stage_told stage_Inr)
      qed
    qed
  qed
qed

lemma authenticated_Inr:
  assumes "authenticated X R A p = (Inr (c, A'), q)"
  shows "pw_rates q = pw_rates p \<and> (\<exists>secret k. presented_key R = Some secret \<and> secret \<noteq> [] \<and>
    (c, k) \<in> set (valid_pairs (px_sha256 X) (rw_now (pw_run p)) secret (db_of p)) \<and>
    has_invoke_permission (cl_id c) (pr_agent_id R) (db_of p) \<and> A' = of_caller c k A)"
proof -
  obtain b bs where b: "presented_key R = Some (b # bs)"
    using assms by (auto simp: authenticated_def reject_public_call_def split: option.splits list.splits)
  let ?t = "rw_now (pw_run p)"
  obtain found db' where f: "authenticate_api_key (px_sha256 X) ?t (pr_agent_id R) (b # bs) (db_of p) = (found, db')"
    by (cases "authenticate_api_key (px_sha256 X) ?t (pr_agent_id R) (b # bs) (db_of p)")
  show ?thesis
  proof (cases found)
    case (Some ck)
    obtain c1 k1 where ck: "ck = (c1, k1)" by (cases ck)
    obtain k0 where "(c1, k0) \<in> set (valid_pairs (px_sha256 X) ?t (b # bs) (db_of p))"
      "has_invoke_permission (cl_id c1) (pr_agent_id R) (db_of p)" "ky_id k1 = ky_id k0"
      by (rule api_key_rows [OF f [unfolded Some ck]])
    then show ?thesis using assms f Some ck b
      by (auto simp: authenticated_def Let_def of_caller_def intro!: exI [of _ k0])
  next
    case None
    then show ?thesis using assms f b client_key_rows [of "px_sha256 X" ?t "b # bs" "db_of p"]
      by (auto simp: authenticated_def Let_def of_caller_def reject_public_call_def split: option.splits if_splits)
  qed
qed

lemma within_rate_stage: "stage h A p (within_rate X c A p)"
proof -
  have "same_public p (p\<lparr>pw_rates := r\<rparr>)" for r by (simp add: same_public_def)
  then show ?thesis
    by (auto simp: within_rate_def intro!: stage_told stage_Inr split: prod.splits)
qed

lemma within_rate_Inr:
  assumes "within_rate X c A p = (Inr u, q)"
  shows "rx_redis_up (px_run X) \<and>
    int (fst (px_incr X (rate_key (cl_id c) (rw_now (pw_run p))) (pw_rates p))) \<le> cl_rate_limit_per_minute c"
  using assms
  by (auto simp: within_rate_def enforce_rate_limit_def Let_def split: prod.splits if_splits)

definition schemas_known :: "store \<Rightarrow> bool" where
  "schemas_known db \<longleftrightarrow> (\<forall>b\<in>set (rg_apis (db_registry db)). row_get sv_id (aw_schema_version_id b) (rg_schemas (db_registry db)) \<noteq> None)"

lemma contract_stage: "(h \<Longrightarrow> schemas_known (db_of p)) \<Longrightarrow> stage h A p (contract_of R A p)"
proof -
  assume k: "h \<Longrightarrow> schemas_known (db_of p)"
  have "stage h A p (Inl (Other_exn m) :: run_exn + schema_version, p)"
    if "find_api (pr_agent_id R) (pr_api_version R) (db_of p) = Some b"
      "row_get sv_id (aw_schema_version_id b) (rg_schemas (db_registry (db_of p))) = None" for b m
  proof -
    have "b \<in> set (rg_apis (db_registry (db_of p)))"
      using that(1) by (auto simp: find_api_def first_row_def find_Some_iff)
    then have "\<not> h" using k that(2) unfolding schemas_known_def by blast
    then show ?thesis by (simp add: stage_def ends_call_def)
  qed
  then show ?thesis
    by (auto simp: contract_of_def Let_def reject_public_call_def intro!: stage_told stage_Inr split: option.splits)
qed

lemma contract_Inr:
  assumes "contract_of R A p = (Inr s, q)"
  shows "q = p \<and> (\<exists>b. find_api (pr_agent_id R) (pr_api_version R) (db_of p) = Some b \<and> open_contract (aw_status b) \<and>
    row_get sv_id (aw_schema_version_id b) (rg_schemas (db_registry (db_of p))) = Some s \<and> open_contract (sv_status s))"
  using assms by (auto simp: contract_of_def Let_def reject_public_call_def split: option.splits if_splits)

lemma payload_stage: "stage h A p (checked_payload X R s A p)"
  by (auto simp: checked_payload_def intro!: stage_told stage_Inr split: option.splits sum.splits)

lemma payload_Inr:
  assumes "checked_payload X R s A p = (Inr (d, m, i), q)"
  shows "q = p \<and> public_payload (pr_payload R) = Some (d, m, i) \<and>
    validate_instance (rx_schema_errors (px_run X)) (as_obj (sv_input_schema s)) (JObj d) ''request'' = Inr ()"
  using assms by (auto simp: checked_payload_def split: option.splits sum.splits)

definition short_input :: "('m, 'o, 'r) public_env \<Rightarrow> public_request \<Rightarrow> bool" where
  "short_input X R \<longleftrightarrow> (case public_payload (pr_payload R) of None \<Rightarrow> True
     | Some (d, _, _) \<Rightarrow> px_compact X (JObj d) \<noteq> [] \<and> py_len (px_compact X (JObj d)) \<le> 100000)"

lemma public_payload_session:
  "public_payload d0 = Some (d, m, Some i) \<Longrightarrow> part_ok 128 i"
proof -
  assume "public_payload d0 = Some (d, m, Some i)"
  then obtain m' where "envelope d0 = Some (d, m', Some i)"
    by (auto simp: public_payload_def split: if_splits)
  then show ?thesis
    by (cases "dget d0 ''input''"; cases "dget d0 ''session_id''") (auto simp: envelope_def split: if_splits option.splits)
qed

lemma same_run:
  assumes "registry_of w = registry_of (pw_run p)" and "db_executions (rw_db w) = db_executions (db_of p)" and "rw_now w = rw_now (pw_run p)"
  shows "same_public p (p\<lparr>pw_run := w\<rparr>)"
  using assms known_frame [OF assms(1)] by (simp add: same_public_def registry_of_def audits_def)

lemma id_stage: "stage h A p (in_run new_uuid p)" "stage h A p (in_run (rread g) p)"
  by (simp_all add: in_run_def new_uuid_def rread_def stage_def same_run registry_of_def)

definition started_call :: "('m, 'o, 'r) public_world \<Rightarrow> ('m, 'o, 'r) public_world" where
  "started_call p = snd (in_run new_uuid p)"

lemma started_same: "same_public p (started_call p)" "pw_rates (started_call p) = pw_rates p"
  "registry_of (pw_run (started_call p)) = registry_of (pw_run p)"
  by (simp_all add: started_call_def in_run_def new_uuid_def same_run registry_of_def)

definition sized_request :: "('m, 'o, 'r) public_env \<Rightarrow> dict \<Rightarrow> string \<Rightarrow> ('m, 'o, 'r, agent_request) public" where
  "sized_request X d s =
     (let body = px_compact X (JObj d) in
      if body = [] \<or> 100000 < py_len body \<or> \<not> part_ok 128 s then araise (Value_failed ''ValidationError'')
      else aret \<lparr>rq_input = body, rq_session_id = s, rq_parameters = None, rq_temperature = None\<rparr>)"

lemma agent_request_sized:
  "agent_request_of X d i p =
     (case i of
        Some (b # bs) \<Rightarrow> sized_request X d (b # bs) p
      | _ \<Rightarrow> sized_request X d (''public-'' @ uuid_hex (db_next_id (db_of p))) (started_call p))"
  unfolding agent_request_of_def sized_request_def
  by (simp add: Let_def abind_def in_run_def new_uuid_def aret_def started_call_def split: option.split list.split)

lemma sized_stage:
  assumes "h \<Longrightarrow> px_compact X (JObj d) \<noteq> [] \<and> py_len (px_compact X (JObj d)) \<le> 100000" and "h \<Longrightarrow> part_ok 128 s"
    and "same_public p q"
  shows "stage h A p (sized_request X d s q)"
  using assms by (auto simp: sized_request_def Let_def stage_def araise_def aret_def ends_call_def same_public_def)

lemma request_stage:
  assumes "h \<Longrightarrow> px_compact X (JObj d) \<noteq> [] \<and> py_len (px_compact X (JObj d)) \<le> 100000"
    and "h \<Longrightarrow> i = None \<or> (\<exists>b. i = Some b \<and> part_ok 128 b)"
  shows "stage h A p (agent_request_of X d i p)"
  unfolding agent_request_sized
  using assms generated_session [of "db_next_id (db_of p)"]
  by (auto intro!: sized_stage started_same split: option.split list.split)

section \<open>A call\<close>

text \<open>What admission asks of a call.\<close>

definition admitted :: "('m, 'o, 'r) public_env \<Rightarrow> public_request \<Rightarrow> ('m, 'o, 'r) public_world \<Rightarrow> agent \<Rightarrow> schema_version \<Rightarrow> bool" where
  "admitted X R p a s \<longleftrightarrow>
     get_agent (pr_agent_id R) (db_of p) = Some a \<and> callable a \<and>
     (\<exists>b. get_publication (pr_agent_id R) (db_of p) = Some b \<and> pb_status b = B_published) \<and>
     (\<exists>secret c k. presented_key R = Some secret \<and> secret \<noteq> [] \<and> c \<in> set (clients (db_of p)) \<and> k \<in> set (keys (db_of p)) \<and>
        key_valid (px_sha256 X) (rw_now (pw_run p)) secret c k \<and> has_invoke_permission (cl_id c) (pr_agent_id R) (db_of p) \<and>
        int (fst (px_incr X (rate_key (cl_id c) (rw_now (pw_run p))) (pw_rates p))) \<le> cl_rate_limit_per_minute c) \<and>
     (\<exists>b. find_api (pr_agent_id R) (pr_api_version R) (db_of p) = Some b \<and> open_contract (aw_status b) \<and>
        row_get sv_id (aw_schema_version_id b) (rg_schemas (db_registry (db_of p))) = Some s \<and> open_contract (sv_status s)) \<and>
     (\<exists>d m i. public_payload (pr_payload R) = Some (d, m, i) \<and>
        validate_instance (rx_schema_errors (px_run X)) (as_obj (sv_input_schema s)) (JObj d) ''request'' = Inr ())"

definition call_context :: "('m, 'o, 'r) public_world \<Rightarrow> audit_context" where
  "call_context p = \<lparr>ac_request_id = ''public-'' @ uuid_hex (db_next_id (db_of p)), ac_started_at = rw_now (pw_run p),
     ac_agent_id = None, ac_client_id = None, ac_api_key_id = None\<rparr>"

definition answer_mode :: "public_request \<Rightarrow> string option \<Rightarrow> agent \<Rightarrow> string" where
  "answer_mode R body_mode a =
     (case pr_forced_mode R of Some m \<Rightarrow> m | None \<Rightarrow>
        (case pr_response_mode R of Some m \<Rightarrow> m | None \<Rightarrow> (case body_mode of Some m \<Rightarrow> m | None \<Rightarrow> ag_response_mode a)))"

definition admit ::
  "('m, 'o, 'r) public_env \<Rightarrow> public_request \<Rightarrow> audit_context \<Rightarrow>
     ('m, 'o, 'r, agent \<times> schema_version \<times> agent_request \<times> audit_context \<times> string) public"
where
  "admit X R A0 =
     abind (published_agent (pr_agent_id R) A0) (\<lambda>a.
     abind (authenticated X R (of_agent a A0)) (\<lambda>(c, A).
     abind (within_rate X c A) (\<lambda>_.
     abind (contract_of R A) (\<lambda>s.
     abind (checked_payload X R s A) (\<lambda>(input, body_mode, session_id).
     abind (agent_request_of X input session_id) (\<lambda>q.
     aret (a, s, q, A, answer_mode R body_mode a)))))))"

lemma abind_assoc: "abind (abind m f) g = abind m (\<lambda>x. abind (f x) g)"
  by (auto simp: abind_def fun_eq_iff split: prod.splits sum.splits)

lemma abind_pair: "abind (case y of (a, b) \<Rightarrow> f a b) g = (case y of (a, b) \<Rightarrow> abind (f a b) g)"
  by (cases y) simp

lemma abind_aret: "abind (aret x) f = f x"
  by (rule ext) simp

lemma execute_admit:
  "execute_public_agent X R p = abind (admit X R (call_context p)) (\<lambda>(a, s, q, A, mode).
     if mode = ''stream'' then prepare_public_stream X a s q A else run_public X a s q A) (started_call p)"
proof -
  have 1: "abind (in_run new_uuid) f p = f (db_next_id (db_of p)) (started_call p)" for f :: "uuid \<Rightarrow> ('a, 'b, 'c, public_answer) public"
    by (simp add: abind_def in_run_def new_uuid_def started_call_def)
  have 2: "abind (in_run (rread rw_now)) f q = f (rw_now (pw_run q)) q" for f :: "instant \<Rightarrow> ('a, 'b, 'c, public_answer) public" and q
    by (simp add: abind_def in_run_def rread_def)
  have 3: "rw_now (pw_run (started_call p)) = rw_now (pw_run p)"
    using started_same(1) [of p] by (simp add: same_public_def)
  show ?thesis
    unfolding execute_public_agent_def 1 2 3 Let_def
    by (simp only: admit_def abind_assoc abind_pair abind_aret prod.case call_context_def of_agent_def answer_mode_def)
qed

lemma schemas_same: "same_public p q \<Longrightarrow> schemas_known (db_of q) = schemas_known (db_of p)"
  by (simp add: schemas_known_def same_public_def)

lemma caller_known:
  assumes "authenticated X R A p = (Inr (c, A'), q)" and "known_call A (db_of p)"
  shows "known_call A' (db_of p)"
proof -
  obtain k secret where r: "(c, k) \<in> set (valid_pairs (px_sha256 X) (rw_now (pw_run p)) secret (db_of p))" and A': "A' = of_caller c k A"
    using authenticated_Inr [OF assms(1)] by blast
  show ?thesis
    unfolding A' by (rule known_of_caller [OF _ _ assms(2)]) (use valid_pair_rows [OF r] in auto)
qed

lemma request_stages:
  assumes "h \<Longrightarrow> schemas_known (db_of p)" and "h \<Longrightarrow> short_input X R"
  shows "stage h A p (abind (contract_of R A) (\<lambda>s.
     abind (checked_payload X R s A) (\<lambda>(input, body_mode, session_id).
     abind (agent_request_of X input session_id) (\<lambda>q. aret (a, s, q, A, answer_mode R body_mode a)))) p)"
proof (rule stage_abind)
  show "stage h A p (contract_of R A p)" using assms(1) by (rule contract_stage)
next
  fix s q assume "contract_of R A p = (Inr s, q)"
  then have [simp]: "q = p" using contract_Inr by blast
  show "stage h A q (abind (checked_payload X R s A) (\<lambda>(input, body_mode, session_id).
     abind (agent_request_of X input session_id) (\<lambda>q. aret (a, s, q, A, answer_mode R body_mode a))) q)"
  proof (rule stage_abind [OF payload_stage])
    fix x q' assume c: "checked_payload X R s A q = (Inr x, q')"
    obtain d m i where x: "x = (d, m, i)" by (cases x)
    note pay = payload_Inr [OF c [unfolded x]]
    have "stage h A q' (agent_request_of X d i q')"
    proof (rule request_stage)
      show "px_compact X (JObj d) \<noteq> [] \<and> py_len (px_compact X (JObj d)) \<le> 100000" if h
        using assms(2) [OF that] pay by (simp add: short_input_def)
      show "i = None \<or> (\<exists>b. i = Some b \<and> part_ok 128 b)" if h
        using pay public_payload_session by (cases i) blast+
    qed
    then show "stage h A q' ((case x of (input, body_mode, session_id) \<Rightarrow>
       abind (agent_request_of X input session_id) (\<lambda>q. aret (a, s, q, A, answer_mode R body_mode a))) q')"
      by (auto simp: x aret_def intro!: stage_abind stage_Inr)
  qed
qed

lemma admit_stage:
  assumes "h \<Longrightarrow> schemas_known (db_of p)" and "h \<Longrightarrow> short_input X R"
  shows "stage h A p (admit X R A p)"
  unfolding admit_def
proof (rule stage_abind [OF published_stage])
  fix a q assume p: "published_agent (pr_agent_id R) A p = (Inr a, q)"
  note pub = published_Inr [OF p]
  have a: "a \<in> set (db_agents (db_of p))" using pub by (auto dest: row_get_Some)
  show "stage h A q (abind (authenticated X R (of_agent a A)) (\<lambda>(c, A).
     abind (within_rate X c A) (\<lambda>_.
     abind (contract_of R A) (\<lambda>s.
     abind (checked_payload X R s A) (\<lambda>(input, body_mode, session_id).
     abind (agent_request_of X input session_id) (\<lambda>q.
     aret (a, s, q, A, answer_mode R body_mode a)))))) q)"
  proof (rule stage_later [of h "of_agent a A"], rule stage_abind [OF authenticated_stage])
    fix x q1 assume x: "authenticated X R (of_agent a A) q = (Inr x, q1)" and s1: "same_public q q1"
    obtain c A' where ca: "x = (c, A')" by (cases x)
    have A': "ac_request_id A' = ac_request_id (of_agent a A)" using authenticated_Inr [OF x [unfolded ca]] by auto
    have "stage h A' q1 (abind (within_rate X c A') (\<lambda>_.
       abind (contract_of R A') (\<lambda>s.
       abind (checked_payload X R s A') (\<lambda>(input, body_mode, session_id).
       abind (agent_request_of X input session_id) (\<lambda>q. aret (a, s, q, A', answer_mode R body_mode a))))) q1)"
    proof (rule stage_abind [OF within_rate_stage])
      fix u q2 assume "same_public q1 q2"
      then have "schemas_known (db_of q2) = schemas_known (db_of p)" using pub s1 schemas_same by metis
      then show "stage h A' q2 (abind (contract_of R A') (\<lambda>s.
         abind (checked_payload X R s A') (\<lambda>(input, body_mode, session_id).
         abind (agent_request_of X input session_id) (\<lambda>q. aret (a, s, q, A', answer_mode R body_mode a)))) q2)"
        using assms by (intro request_stages) simp_all
    qed
    moreover have "known_call (of_agent a A) (db_of q1) \<Longrightarrow> known_call A' (db_of q1)"
      using caller_known [OF x [unfolded ca]] s1 by (simp add: same_public_def)
    ultimately show "stage h (of_agent a A) q1 ((case x of (c, A) \<Rightarrow>
       abind (within_rate X c A) (\<lambda>_.
       abind (contract_of R A) (\<lambda>s.
       abind (checked_payload X R s A) (\<lambda>(input, body_mode, session_id).
       abind (agent_request_of X input session_id) (\<lambda>q.
       aret (a, s, q, A, answer_mode R body_mode a)))))) q1)"
      unfolding ca prod.case by (rule stage_later [OF _ A'])
  qed (use pub known_of_agent [OF a] in auto)
qed

lemma admit_Inr:
  assumes "admit X R A p = (Inr (a, s, q, A', m), p')"
  shows "admitted X R p a s \<and> ac_request_id A' = ac_request_id A \<and> ac_agent_id A' \<noteq> None \<and>
    (known_call A (db_of p) \<longrightarrow> known_call A' (db_of p))"
proof -
  obtain q0 c A1 q1 q2 q3 d bm i q4 where
    p: "published_agent (pr_agent_id R) A p = (Inr a, q0)" and
    c: "authenticated X R (of_agent a A) q0 = (Inr (c, A'), q1)" and
    r: "within_rate X c A' q1 = (Inr (), q2)" and
    s: "contract_of R A' q2 = (Inr s, q3)" and
    y: "checked_payload X R s A' q3 = (Inr (d, bm, i), q4)"
    using assms by (auto simp: admit_def abind_Inr aret_def split: prod.splits)
  note pub = published_Inr [OF p] and auth = authenticated_Inr [OF c] and rate = within_rate_Inr [OF r] and con = contract_Inr [OF s]
    and pay = payload_Inr [OF y]
  have a: "a \<in> set (db_agents (db_of p))" using pub by (auto dest: row_get_Some)
  have 1: "same_public p q1" using authenticated_stage [of True "of_agent a A" q0 X R] c pub by (simp add: stage_def)
  have 2: "same_public q1 q2" using within_rate_stage [of True A' q1 X c] r by (simp add: stage_def)
  obtain secret k where k: "presented_key R = Some secret" "secret \<noteq> []"
    "(c, k) \<in> set (valid_pairs (px_sha256 X) (rw_now (pw_run p)) secret (db_of p))"
    "has_invoke_permission (cl_id c) (pr_agent_id R) (db_of p)" "A' = of_caller c k (of_agent a A)"
    using auth pub by blast
  have t: "rw_now (pw_run q1) = rw_now (pw_run p)" "pw_rates q1 = pw_rates p" using 1 auth pub by (simp_all add: same_public_def)
  have f: "find_api x v (db_of q2) = find_api x v (db_of p)" "rg_schemas (db_registry (db_of q2)) = rg_schemas (db_registry (db_of p))" for x v
    using 1 2 by (simp_all add: same_public_def find_api_def)
  have "admitted X R p a s"
    unfolding admitted_def
    using pub k(1,2,4) valid_pair_rows [OF k(3)] rate con pay unfolding t f by blast
  moreover have "known_call A (db_of p) \<longrightarrow> known_call A' (db_of p)"
    using known_of_agent [OF a] caller_known [OF c] pub by blast
  ultimately show ?thesis by (simp add: k(5))
qed

section \<open>Running\<close>

lemma in_run_frame:
  assumes "keeps_rows m" and "in_run m p = (r, q)"
  shows "audits (db_of q) = audits (db_of p)" and "known_call A (db_of q) = known_call A (db_of p)" and "pw_recorded q = pw_recorded p"
proof -
  obtain w where w: "m (pw_run p) = (r, w)" and q: "q = p\<lparr>pw_run := w\<rparr>"
    using assms(2) by (auto simp: in_run_def split: prod.splits)
  have f: "registry_of w = registry_of (pw_run p)" by (rule rowsD [OF assms(1) w])
  show "audits (db_of q) = audits (db_of p)" "known_call A (db_of q) = known_call A (db_of p)" "pw_recorded q = pw_recorded p"
    using audits_frame [OF f] known_frame [OF f] by (simp_all add: q)
qed

lemma in_run_auditable:
  assumes "keeps_rows m" and "in_run m p = (r, q)"
  shows "auditable A q = auditable A p"
  by (simp add: auditable_def in_run_frame [OF assms])

lemma or_failed_record:
  assumes "keeps_rows m" and "or_failed A code (in_run m) p = (out, q)" and "auditable A p"
  shows "case out of Inr x \<Rightarrow> auditable A q \<and> audits (db_of q) = audits (db_of p)
    | Inl e \<Rightarrow> e = Other_exn ''CancelledError'' \<or> one_record A p q False"
proof -
  obtain r q1 where m: "in_run m p = (r, q1)" by (cases "in_run m p")
  have a: "auditable A q1" and u: "audits (db_of q1) = audits (db_of p)"
    using in_run_auditable [OF assms(1) m] in_run_frame [OF assms(1) m] assms(3) by simp_all
  show ?thesis
  proof (cases r)
    case (Inr x)
    then show ?thesis using assms(2) m a u by (auto simp: or_failed_def)
  next
    case (Inl e)
    show ?thesis
    proof (cases "e = Other_exn ''CancelledError''")
      case True
      then show ?thesis using assms(2) m Inl by (auto simp: or_failed_def)
    next
      case False
      then have "told A U_failed (code e) e q1 = (out, q)" using assms(2) m Inl by (simp add: or_failed_def)
      then have "out = Inl e \<and> one_record A q1 q False" using told_record [OF a] by blast
      then show ?thesis using same_world_record [OF u] by simp
    qed
  qed
qed

lemma counted_nonneg: "counted_tokens v = Some n \<Longrightarrow> 0 \<le> n"
  by (auto simp: counted_tokens_def split: json.splits if_splits)

lemma observed_nonneg: "execution_observability x db = (tokens, calls) \<Longrightarrow> 0 \<le> (case tokens of None \<Rightarrow> 0 | Some n \<Rightarrow> n)"
  by (auto simp: execution_observability_def explicit_token_usage_def Let_def dest: counted_nonneg split: option.splits json.splits)

lemma run_public_record:
  assumes "run_public X a s q A p = (out, p')" and "quiet_runtime (px_run X)" and "auditable A p" and "ac_agent_id A \<noteq> None"
  shows "case out of Inr x \<Rightarrow> (\<exists>i x' v r. x = Public_result i x' v r) \<and> one_record A p p' True
    | Inl e \<Rightarrow> e = Other_exn ''CancelledError'' \<or> one_record A p p' False"
proof -
  define m where "m = abind (execute_with_id (px_run X) a (public_run a q s ''sync'' (Some (as_obj (sv_output_schema s))))) (\<lambda>(x, r).
    abind (rlift (validate_public_output (px_run X) (as_obj (sv_output_schema s)) (rr_output r))) (\<lambda>v. aret (x, r, v)))"
  have keep: "keeps_rows m"
    unfolding m_def
  proof (intro rows_bind rows_execute assms(2))
    show "keeps_rows (case x of (x, r) \<Rightarrow> abind (rlift (validate_public_output (px_run X) (as_obj (sv_output_schema s)) (rr_output r))) (\<lambda>v. aret (x, r, v)))" for x
      by (cases x) (simp add: rows_bind rows_parts)
  qed
  obtain r p1 where o: "or_failed A (http_code ''execution_http_'' ''execution_failed'') (in_run m) p = (r, p1)"
    by (cases "or_failed A (http_code ''execution_http_'' ''execution_failed'') (in_run m) p")
  note rec = or_failed_record [OF keep o assms(3)]
  show ?thesis
  proof (cases r)
    case (Inl e)
    then show ?thesis using assms(1) o rec by (auto simp: run_public_def Let_def m_def [symmetric])
  next
    case (Inr y)
    obtain x rr v where y: "y = (x, rr, v)" by (cases y)
    obtain tokens calls where t: "execution_observability x (db_of p1) = (tokens, calls)"
      by (cases "execution_observability x (db_of p1)")
    obtain b p2 where u: "audit_once A U_succeeded tokens calls None p1 = (b, p2)"
      by (cases "audit_once A U_succeeded tokens calls None p1")
    have a1: "auditable A p1" "audits (db_of p1) = audits (db_of p)" using rec Inr by simp_all
    have u': "b = Inr () \<and> one_record A p1 p2 True"
      using audited_record [OF a1(1) observed_nonneg [OF t] _ u] assms(4) by simp
    have "in_run (rread (\<lambda>w. execution_observability x (rw_db w))) p1 = (Inr (tokens, calls), p1)"
      using t by (simp add: in_run_def rread_def)
    then have "(out, p') = (Inr (Public_result (ag_id a) x v (rr_run_id rr)), p2)"
      using assms(1) o Inr y u u' by (auto simp: run_public_def Let_def m_def [symmetric] aret_def)
    then show ?thesis using u' same_world_record [OF a1(2)] by simp
  qed
qed

lemma prepare_stream_record:
  assumes "prepare_public_stream X a s q A p = (out, p')" and "auditable A p"
  shows "case out of Inr x \<Rightarrow> (\<exists>C q' d. x = Public_stream C q' d A) \<and> auditable A p' \<and> audits (db_of p') = audits (db_of p)
    | Inl e \<Rightarrow> e = Other_exn ''CancelledError'' \<or> one_record A p p' False"
proof -
  let ?m = "prepare_agent_execution (px_run X) a (public_run a q s ''stream'' None)"
  obtain r p1 where o: "or_failed A (http_code ''execution_prepare_http_'' ''execution_prepare_failed'') (in_run ?m) p = (r, p1)"
    by (cases "or_failed A (http_code ''execution_prepare_http_'' ''execution_prepare_failed'') (in_run ?m) p")
  note rec = or_failed_record [OF rows_prepare o assms(2)]
  show ?thesis
    using assms(1) o rec by (cases r) (auto simp: prepare_public_stream_def aret_def)
qed

section \<open>The whole call\<close>

lemma admitted_started: "admitted X R (started_call p) a s = admitted X R p a s"
proof -
  have r: "db_registry (db_of (started_call p)) = db_registry (db_of p)" "db_agents (db_of (started_call p)) = db_agents (db_of p)"
    using started_same(3) [of p] by (simp_all add: registry_of_def)
  have t: "rw_now (pw_run (started_call p)) = rw_now (pw_run p)"
    using started_same(1) [of p] by (simp add: same_public_def)
  show ?thesis
    by (simp add: admitted_def get_publication_def clients_def keys_def bindings_def find_api_def has_invoke_permission_def
        r t started_same(2))
qed

lemma call_admitted:
  assumes "execute_public_agent X R p = (out, p')"
  shows "isl out \<and> db_executions (db_of p') = db_executions (db_of p) \<or> (\<exists>a s. admitted X R p a s)"
proof -
  let ?q = "started_call p"
  obtain r q where a: "admit X R (call_context p) ?q = (r, q)" by (cases "admit X R (call_context p) ?q")
  show ?thesis
  proof (cases r)
    case (Inl e)
    then have "ends_call False (call_context p) ?q q"
      using admit_stage [of False ?q X R "call_context p"] a by (simp add: stage_def)
    moreover have "out = Inl e \<and> p' = q" using assms a Inl by (simp add: execute_admit)
    ultimately show ?thesis using started_same(1) [of p] by (simp add: ends_call_def same_public_def)
  next
    case (Inr x)
    then show ?thesis using admit_Inr a admitted_started by (cases x) blast
  qed
qed

lemma call_recorded:
  assumes "execute_public_agent X R p = (out, p')" and "auditable (call_context p) p" and "quiet_runtime (px_run X)"
    and "schemas_known (db_of p)" and "short_input X R"
  shows "case out of
      Inl e \<Rightarrow> e = Other_exn ''CancelledError'' \<or> one_record (call_context p) p p' False
    | Inr (Public_result i x v r) \<Rightarrow> one_record (call_context p) p p' True
    | Inr (Public_stream C q d A) \<Rightarrow> \<not> pw_recorded p' \<and> audits (db_of p') = audits (db_of p)"
proof -
  let ?q = "started_call p" and ?A = "call_context p"
  have s: "same_public p ?q" by (rule started_same)
  have aq: "auditable ?A ?q" using assms(2) same_public_auditable [OF s] by simp
  obtain r q where a: "admit X R ?A ?q = (r, q)" by (cases "admit X R ?A ?q")
  have st: "stage True ?A ?q (r, q)"
    using admit_stage [of True ?q X R ?A] a assms(4,5) schemas_same [OF s] by simp
  show ?thesis
  proof (cases r)
    case (Inl e)
    then have "one_record ?A ?q q False" using st aq by (simp add: stage_def ends_call_def)
    moreover have "out = Inl e \<and> p' = q" using assms(1) a Inl by (simp add: execute_admit)
    ultimately show ?thesis using s by (simp add: one_record_def same_public_def)
  next
    case (Inr x)
    obtain g sv rq A m where x: "x = (g, sv, rq, A, m)" by (cases x)
    have q: "same_public ?q q" using st Inr by (simp add: stage_def)
    note ad = admit_Inr [OF a [unfolded Inr x]]
    have A: "ac_request_id A = ac_request_id ?A" "ac_agent_id A \<noteq> None" and k: "auditable A q"
      using ad aq q by (auto simp: auditable_def same_public_def)
    have u: "audits (db_of q) = audits (db_of p)" using s q by (simp add: same_public_def)
    have one: "one_record A q p' b \<Longrightarrow> one_record ?A p p' b" for b using A(1) u by (simp add: one_record_def)
    have run: "(if m = ''stream'' then prepare_public_stream X g sv rq A else run_public X g sv rq A) q = (out, p')"
      using assms(1) a Inr by (simp add: execute_admit x)
    show ?thesis
    proof (cases "m = ''stream''")
      case True
      then show ?thesis using prepare_stream_record [OF _ k] run one u
        by (fastforce simp: auditable_def split: sum.splits)
    next
      case False
      then show ?thesis using run_public_record [OF _ assms(3) k A(2)] run one
        by (fastforce split: sum.splits)
    qed
  qed
qed

text \<open>An input that is too long for \<open>AgentRunRequest\<close> is raised outside every try: the admitted call has no record.\<close>

lemma oversized_call_not_audited:
  assumes "100000 < py_len (px_compact X (JObj d))"
  shows "\<exists>q. agent_request_of X d i p = (Inl (Value_failed ''ValidationError''), q) \<and>
    audits (db_of q) = audits (db_of p) \<and> pw_recorded q = pw_recorded p"
  using assms started_same(1) [of p]
  by (simp add: agent_request_sized sized_request_def Let_def araise_def same_public_def split: option.split list.split)

section \<open>Properties\<close>

text \<open>C30. A public call that changes an execution or gets a result was admitted: its Agent is active and
  published, the key presented is a valid key of a client that may call the Agent and has not used up the calls
  of the minute, the API version and its schema are open, and the input satisfies the schema.\<close>

theorem public_run_needs_admission:
  "case execute_public_agent X R p of (out, p') \<Rightarrow>
     isl out \<and> db_executions (db_of p') = db_executions (db_of p) \<or> (\<exists>a s. admitted X R p a s)"
  using call_admitted [of X R p] by (cases "execute_public_agent X R p") simp


section \<open>Samples\<close>

definition public_agent :: agent where
  "public_agent = sample_agent\<lparr>ag_current_version_id := Some 3\<rparr>"

definition public_env_sample :: "(unit, unit, nat) public_env" where
  "public_env_sample = \<lparr>px_run = sample_env, px_events = (\<lambda>_ _. []), px_incr = (\<lambda>_ n. (Suc n, Suc n)), px_sha256 = (\<lambda>s. s),
     px_compact = (\<lambda>_. ''x''), px_envelope_errors = (\<lambda>_. JNull)\<rparr>"

definition public_store :: store where
  "public_store = empty_store\<lparr>db_agents := [public_agent], db_registry := empty_registry\<lparr>rg_publications :=
     [\<lparr>pb_agent_id = ''helper'', pb_status = B_published, pb_api_key_hash = None, pb_api_key_prefix = None, pb_call_count = 0,
       pb_last_called_at = None, pb_created_at = 0\<rparr>]\<rparr>, db_next_id := 20\<rparr>"

definition public_world_sample :: "(unit, unit, nat) public_world" where
  "public_world_sample = \<lparr>pw_run = sample_run_world\<lparr>rw_db := public_store\<rparr>, pw_rates = 0, pw_recorded = False\<rparr>"

definition stranger_call :: public_request where
  "stranger_call = \<lparr>pr_agent_id = ''helper'', pr_api_version = ''v1'', pr_payload = [(''question'', JStr ''hi'')], pr_response_mode = None,
     pr_forced_mode = None, pr_api_key = Some ''hap_wrong'', pr_authorization = None\<rparr>"


end
