(* ===== verification/Production_Api.thy ===== *)
theory Production_Api
  imports Public_Calls Run_Preparation Skill_Packages
begin

text \<open>
  The handlers of production Agents (\<open>backend/app/api/production.py\<close>): lifecycle, health, versions, publication
  with the preflight of capabilities, API clients with their keys and Agents, audit and metrics; and the change
  of a publication (\<open>update_publication\<close> of \<open>api/publications.py\<close>). A handler that raises leaves the rows as they
  were, since its session ends without a commit. The probes of the model and of the servers are parameters.
\<close>

section \<open>Lookups and transactions\<close>

definition refuse_api :: "nat \<Rightarrow> string \<Rightarrow> run_exn" where
  "refuse_api code detail = Http_error code (JStr detail)"

definition known_agent :: "string \<Rightarrow> ('m, 'o, agent) run" where
  "known_agent agent_id w =
     ((case get_agent agent_id (rw_db w) of None \<Rightarrow> Inl (refuse_api 404 ''agent not found'') | Some a \<Rightarrow> Inr a), w)"

definition known_version :: "string \<Rightarrow> string \<Rightarrow> ('m, 'o, agent_version) run" where
  "known_version agent_id version w =
     ((case get_agent_version agent_id version (rw_db w) of
         None \<Rightarrow> Inl (refuse_api 404 ''Agent version not found'') | Some v \<Rightarrow> Inr v), w)"

definition known_client :: "uuid \<Rightarrow> ('m, 'o, api_client) run" where
  "known_client client_id w =
     ((case get_api_client client_id (rw_db w) of
         None \<Rightarrow> Inl (refuse_api 404 ''API Client not found'') | Some c \<Rightarrow> Inr c), w)"

definition known_key :: "uuid \<Rightarrow> uuid \<Rightarrow> ('m, 'o, api_key) run" where
  "known_key client_id key_id w =
     ((case get_api_key client_id key_id (rw_db w) of
         None \<Rightarrow> Inl (refuse_api 404 ''API Key not found'') | Some k \<Rightarrow> Inr k), w)"

text \<open>A transaction of the repository, and what the handlers make of its errors.\<close>

definition committed :: "(version_error \<Rightarrow> run_exn) \<Rightarrow> (instant \<Rightarrow> store \<Rightarrow> 'a tx) \<Rightarrow> ('m, 'o, 'a) run" where
  "committed h f w =
     (case f (rw_now w) (rw_db w) of
        Inl e \<Rightarrow> (Inl (h e), w)
      | Inr (x, db) \<Rightarrow> (Inr x, w\<lparr>rw_db := db\<rparr>))"

definition conflict_of :: "version_error \<Rightarrow> run_exn" where
  "conflict_of e =
     (case e of
        Python_error (Value_error m) \<Rightarrow> refuse_api 409 m
      | Profile_error p \<Rightarrow> refuse_api 409 (profile_message p)
      | _ \<Rightarrow> version_exn e)"

definition taken_name :: "string \<Rightarrow> version_error \<Rightarrow> run_exn" where
  "taken_name m e = (if e = Constraint_error then refuse_api 409 m else version_exn e)"

section \<open>Lifecycle\<close>

fun lifecycle_moves :: "agent_status \<Rightarrow> agent_status set" where
  "lifecycle_moves A_active = {A_inactive, A_archived}"
| "lifecycle_moves A_inactive = {A_active, A_archived}"
| "lifecycle_moves A_archived = {}"

definition update_agent_lifecycle :: "string \<Rightarrow> agent_status \<Rightarrow> ('m, 'o, agent) run" where
  "update_agent_lifecycle agent_id target =
     abind (known_agent agent_id) (\<lambda>a.
     if target = ag_status a then aret a
     else if target \<notin> lifecycle_moves (ag_status a)
     then araise (refuse_api 409 (''invalid Agent lifecycle transition: '' @ agent_status_str (ag_status a) @ '' -> '' @ agent_status_str target))
     else committed version_exn (\<lambda>t. transition_agent a target))"

section \<open>Health\<close>

record health_check =
  hk_healthy :: bool
  hk_detail :: string

record agent_health =
  hl_agent_id :: string
  hl_healthy :: bool
  hl_checks :: "(string \<times> health_check) list"

record probes =
  hp_chat :: "string \<Rightarrow> string \<Rightarrow> string \<Rightarrow> string + string \<times> string \<times> int"
  hp_skill_rows :: "string list \<Rightarrow> skill_row list"
  hp_skill_env :: skill_env
  hp_skill_settings :: skill_settings
  hp_initialize :: "string \<Rightarrow> (nat \<times> json option) option"
  hp_check_schema :: "json \<Rightarrow> string option"

definition valid_mcp_initialize_response :: "nat \<Rightarrow> json option \<Rightarrow> string \<Rightarrow> bool" where
  "valid_mcp_initialize_response status_code body request_id \<longleftrightarrow>
     200 \<le> status_code \<and> status_code < 300 \<and>
     (case body of
        Some (JObj d) \<Rightarrow>
          dget d ''jsonrpc'' = JStr ''2.0'' \<and> dget d ''id'' = JStr request_id \<and> is_obj (dget d ''result'') \<and> \<not> dhas d ''error''
      | _ \<Rightarrow> False)"

definition model_check :: "probes \<Rightarrow> string \<Rightarrow> string \<Rightarrow> string \<Rightarrow> health_check" where
  "model_check P adapter model agent_id =
     (case hp_chat P adapter model agent_id of
        Inl exception \<Rightarrow> \<lparr>hk_healthy = False, hk_detail = ''Model '' @ model @ '' unavailable: '' @ exception\<rparr>
      | Inr (st, output, microseconds) \<Rightarrow>
          if st \<in> {''completed'', ''succeeded''} \<and> output \<noteq> []
          then \<lparr>hk_healthy = True, hk_detail = ''Model '' @ model @ '' completed a probe ('' @ int_str (rounded_ms microseconds) @ '' ms)''\<rparr>
          else \<lparr>hk_healthy = False, hk_detail = ''Model '' @ model @ '' probe did not complete''\<rparr>)"

definition skills_check :: "probes \<Rightarrow> string list \<Rightarrow> filesystem \<Rightarrow> run_exn + health_check" where
  "skills_check P skills fs =
     (case load_many (hp_skill_env P) (hp_skill_settings P) (hp_skill_rows P skills) fs of
        Inr loaded \<Rightarrow> Inr \<lparr>hk_healthy = True, hk_detail = nat_str (length loaded) @ '' bound Skill package(s) loaded''\<rparr>
      | Inl (Skill_error m) \<Rightarrow> Inr \<lparr>hk_healthy = False, hk_detail = m\<rparr>
      | Inl (Python_failed e) \<Rightarrow> Inl (python_exn e)
      | Inl _ \<Rightarrow> Inl (Other_exn ''OSError''))"

definition mcp_check :: "probes \<Rightarrow> string list \<Rightarrow> string \<Rightarrow> health_check" where
  "mcp_check P servers agent_id =
     (let unavailable = filter (\<lambda>i. case hp_initialize P i of
             None \<Rightarrow> True | Some (code, body) \<Rightarrow> \<not> valid_mcp_initialize_response code body (''health-'' @ agent_id)) servers in
      if unavailable = []
      then \<lparr>hk_healthy = True, hk_detail = nat_str (length servers) @ '' bound MCP server(s) responded''\<rparr>
      else \<lparr>hk_healthy = False, hk_detail = ''MCP servers are unavailable: '' @ join '', '' (sort unavailable)\<rparr>)"

definition check_health ::
  "probes \<Rightarrow> string \<Rightarrow> string \<Rightarrow> string \<Rightarrow> string list \<Rightarrow> string list \<Rightarrow> filesystem \<Rightarrow> run_exn + agent_health"
where
  "check_health P agent_id adapter model skills servers fs =
     rbind (skills_check P skills fs) (\<lambda>s.
     let checks = [(''model'', model_check P adapter model agent_id), (''skills'', s), (''mcp'', mcp_check P servers agent_id)] in
     Inr \<lparr>hl_agent_id = agent_id, hl_healthy = list_all (\<lambda>(n, c). hk_healthy c) checks, hl_checks = checks\<rparr>)"

definition get_agent_health :: "probes \<Rightarrow> string \<Rightarrow> ('m, 'o, agent_health) run" where
  "get_agent_health P agent_id =
     abind (known_agent agent_id) (\<lambda>a w.
     (check_health P (ag_id a) (ag_model_adapter a) (ag_model a) (agent_skill_ids (ag_id a) (rw_db w))
        (agent_mcp_ids (ag_id a) (rw_db w)) (rw_fs w), w))"

section \<open>Versions\<close>

definition list_versions :: "string \<Rightarrow> ('m, 'o, agent_version list) run" where
  "list_versions agent_id = abind (known_agent agent_id) (\<lambda>a. rread (\<lambda>w. list_agent_versions agent_id (rw_db w)))"

definition read_version :: "string \<Rightarrow> string \<Rightarrow> ('m, 'o, agent_version) run" where
  "read_version agent_id version = abind (known_agent agent_id) (\<lambda>a. known_version agent_id version)"

text \<open>The search for a free name always ends (\<open>next_agent_version_free\<close>).\<close>

definition add_version :: "string \<Rightarrow> string option \<Rightarrow> string option \<Rightarrow> string \<Rightarrow> ('m, 'o, agent_version) run" where
  "add_version agent_id version description created_by =
     abind (known_agent agent_id) (\<lambda>a.
     if ag_status a = A_archived then araise (refuse_api 409 ''archived Agents are immutable'')
     else abind (\<lambda>w. ((case version of
           Some (c # cs) \<Rightarrow> Inr (c # cs)
         | _ \<Rightarrow> (case next_agent_version agent_id (rw_db w) of Some n \<Rightarrow> Inr n | None \<Rightarrow> Inl (Other_exn ''RuntimeError''))), w)) (\<lambda>name.
     committed (taken_name ''Agent version already exists'') (\<lambda>t. create_agent_version t a name description created_by)))"

definition edit_version ::
  "(json \<Rightarrow> string) \<Rightarrow> (json \<Rightarrow> string option) \<Rightarrow> string \<Rightarrow> string \<Rightarrow> dict option \<Rightarrow> string option \<Rightarrow> bool \<Rightarrow> ('m, 'o, agent_version) run"
where
  "edit_version rep check agent_id version snapshot description description_set =
     abind (known_agent agent_id) (\<lambda>a. abind (known_version agent_id version) (\<lambda>v.
     committed conflict_of (\<lambda>t. update_agent_version rep check t v snapshot description description_set)))"

definition move_version :: "string \<Rightarrow> string \<Rightarrow> version_status \<Rightarrow> ('m, 'o, agent_version) run" where
  "move_version agent_id version target =
     abind (known_agent agent_id) (\<lambda>a. abind (known_version agent_id version) (\<lambda>v.
     committed conflict_of (\<lambda>t. transition_agent_version t v target)))"

definition rollback_agent :: "(json \<Rightarrow> string) \<Rightarrow> string \<Rightarrow> string \<Rightarrow> ('m, 'o, agent) run" where
  "rollback_agent rep agent_id version =
     abind (known_agent agent_id) (\<lambda>a.
     if ag_status a \<noteq> A_active then araise (refuse_api 409 ''only active Agents can be rolled back'')
     else abind (known_version agent_id version) (\<lambda>v. committed conflict_of (\<lambda>t. rollback_agent_version rep t a v)))"

section \<open>Publishing\<close>

definition chosen_version :: "string \<Rightarrow> string option \<Rightarrow> store \<Rightarrow> run_exn + agent_version" where
  "chosen_version agent_id version db =
     rbind (case version of
         Some (c # cs) \<Rightarrow>
           (case get_agent_version agent_id (c # cs) db of
              None \<Rightarrow> Inl (refuse_api 404 ''Agent version not found'') | Some v \<Rightarrow> Inr v)
       | _ \<Rightarrow>
           (case first_row (\<lambda>v. av_status v = V_release_candidate) (list_agent_versions agent_id db) of
              None \<Rightarrow> Inl (refuse_api 409 ''no Release Candidate Agent version is available'') | Some v \<Rightarrow> Inr v)) (\<lambda>v.
     if av_status v \<noteq> V_release_candidate then Inl (refuse_api 409 ''only a Release Candidate Agent version can be published'')
     else Inr v)"

text \<open>The resolution of a version of format 2 is frozen in its snapshot.\<close>

definition frozen :: "capability_resolution \<Rightarrow> agent_version \<Rightarrow> agent_version" where
  "frozen n v =
     v\<lparr>av_snapshot := dupdate (av_snapshot v)
         [(''capability_bindings'', JArr (map tool_json (rn_tools n))),
          (''resource_scope_revisions'', JArr (map JStr (sort (remdups (filter (\<lambda>s. s \<noteq> [])
             (concat (map (\<lambda>t. case rc_resource_scope_revision_id t of Some s \<Rightarrow> [s] | None \<Rightarrow> []) (rn_tools n)))))))),
          (''resolution_digest'', JStr (rn_resolution_digest n))],
       av_snapshot_format_version := 2, av_resolution_digest := Some (rn_resolution_digest n)\<rparr>"

definition preflight :: "('m, 'o) run_env \<Rightarrow> capability_store \<Rightarrow> agent_version \<Rightarrow> run_exn + capability_resolution option" where
  "preflight E cs v =
     rbind (map_error python_exn (py_int (rx_rep E)
       (py_or (py_or (dget (av_snapshot v) ''format_version'') (JInt (av_snapshot_format_version v))) (JInt 1)))) (\<lambda>i.
     if i \<noteq> 2 then Inr None
     else rbind (map_error python_exn (resolve_agent_capabilities (rx_rep E) (rx_sorted_dumps E) (rx_sha256 E) cs v)) (\<lambda>n.
     if \<not> ready n then Inl (Http_error 409 (refused_preflight n)) else Inr (Some n)))"

definition freeze :: "capability_resolution option \<Rightarrow> agent_version \<Rightarrow> agent_version" where
  "freeze n = (case n of Some n \<Rightarrow> frozen n | None \<Rightarrow> id)"

definition healthy_version :: "probes \<Rightarrow> runtime_agent \<Rightarrow> filesystem \<Rightarrow> run_exn + unit" where
  "healthy_version P r fs =
     rbind (check_health P (ra_id r) (ra_model_adapter r) (ra_model r) (ra_skills r) (ra_mcp_servers r) fs) (\<lambda>h.
     if \<not> hl_healthy h
     then Inl (refuse_api 409 (''Agent Version health checks failed: '' @
       join '', '' (map fst (filter (\<lambda>(n, c). \<not> hk_healthy c) (hl_checks h)))))
     else Inr ())"

text \<open>\<open>publish_agent\<close>: the version with its frozen resolution is checked and released in one transaction.\<close>

definition publish_request ::
  "('m, 'o) run_env \<Rightarrow> probes \<Rightarrow> string \<Rightarrow> string option \<Rightarrow> ('m, 'o, agent_version) run"
where
  "publish_request E P agent_id version =
     abind (known_agent agent_id) (\<lambda>a.
     if ag_status a \<noteq> A_active then araise (refuse_api 409 ''only active Agents can publish a Version'')
     else abind (rread (\<lambda>w. w)) (\<lambda>w.
     abind (rlift (chosen_version agent_id version (rw_db w))) (\<lambda>v0.
     abind (rlift (preflight E (rw_cap w) v0)) (\<lambda>n.
     let v = freeze n v0; db = upd_version (av_id v0) (freeze n) (rw_db w) in
     abind (rlift (map_error conflict_of (build_version_runtime_agent (rx_rep E) (hp_check_schema P) a v db))) (\<lambda>(r, s).
     abind (rlift (healthy_version P r (rw_fs w))) (\<lambda>_.
     committed conflict_of (\<lambda>t _. publish_agent (rx_rep E) t a v db)))))))"

section \<open>Publications\<close>

definition update_publication ::
  "('m, 'o) run_env \<Rightarrow> probes \<Rightarrow> string \<Rightarrow> publication_status \<Rightarrow> ('m, 'o, publication) run"
where
  "update_publication E P agent_id target =
     (let set_status = abind (rchange (\<lambda>t. set_publication_status t agent_id target)) (\<lambda>_ w.
            ((case get_publication agent_id (rw_db w) of Some b \<Rightarrow> Inr b | None \<Rightarrow> Inl (Other_exn ''InvalidRequestError'')), w)) in
      abind (known_agent agent_id) (\<lambda>a.
      if target = B_published
      then
        if callable a
        then (\<lambda>w. ((case get_publication agent_id (rw_db w) of Some b \<Rightarrow> Inr b | None \<Rightarrow> Inl (refuse_api 409 ''published Agent has no publication record'')), w))
        else if ag_status a \<noteq> A_active then araise (refuse_api 409 ''only active Agents can publish a Version'')
        else abind (publish_request E P agent_id None) (\<lambda>_. set_status)
      else if target = B_disabled \<and> ag_status a = A_active
      then abind (committed version_exn (\<lambda>t. transition_agent a A_inactive)) (\<lambda>_. set_status)
      else set_status))"

section \<open>Clients, keys and bindings\<close>

text \<open>A client is told with the counts of its keys, Agents and calls, a key with that of its calls.\<close>

definition client_read :: "api_client \<Rightarrow> ('m, 'o, api_client \<times> client_counts) run" where
  "client_read c = rread (\<lambda>w. (c, api_client_counts (cl_id c) (rw_db w)))"

definition key_read :: "api_key \<Rightarrow> ('m, 'o, api_key \<times> nat) run" where
  "key_read k = rread (\<lambda>w. (k, api_key_call_count (ky_id k) (rw_db w)))"

definition add_client :: "string \<Rightarrow> string \<Rightarrow> int \<Rightarrow> ('m, 'o, api_client \<times> client_counts) run" where
  "add_client name owner rate_limit =
     abind (committed (taken_name ''API Client name already exists'') (\<lambda>t. create_api_client t name owner rate_limit)) client_read"

definition read_clients :: "('m, 'o, (api_client \<times> client_counts) list) run" where
  "read_clients = rread (\<lambda>w. map (\<lambda>c. (c, api_client_counts (cl_id c) (rw_db w))) (list_api_clients (rw_db w)))"

definition read_client :: "uuid \<Rightarrow> ('m, 'o, api_client \<times> client_counts) run" where
  "read_client client_id = abind (known_client client_id) client_read"

definition edit_client :: "uuid \<Rightarrow> client_update \<Rightarrow> ('m, 'o, api_client \<times> client_counts) run" where
  "edit_client client_id u =
     abind (known_client client_id) (\<lambda>c.
     abind (committed (taken_name ''API Client name already exists'') (\<lambda>t. update_api_client c u)) client_read)"

definition remove_client :: "uuid \<Rightarrow> ('m, 'o, unit) run" where
  "remove_client client_id = abind (known_client client_id) (\<lambda>c. rchange (\<lambda>t. delete_api_client c))"

definition add_key ::
  "(string \<Rightarrow> string) \<Rightarrow> string \<Rightarrow> uuid \<Rightarrow> string \<Rightarrow> instant option \<Rightarrow> ('m, 'o, (api_key \<times> nat) \<times> string) run"
where
  "add_key sha256 token client_id name expires_at =
     abind (known_client client_id) (\<lambda>c.
     if cl_status c \<noteq> K_active then araise (refuse_api 409 ''API Client is not active'')
     else abind (rread rw_now) (\<lambda>now.
     if (case expires_at of Some e \<Rightarrow> e \<le> now | None \<Rightarrow> False) then araise (refuse_api 422 ''expires_at must be future'')
     else abind (committed version_exn (\<lambda>t. create_api_key sha256 token t c name expires_at)) (\<lambda>(k, plain).
     abind (key_read k) (\<lambda>r. aret (r, plain)))))"

definition read_keys :: "uuid \<Rightarrow> ('m, 'o, (api_key \<times> nat) list) run" where
  "read_keys client_id =
     abind (known_client client_id) (\<lambda>c.
     rread (\<lambda>w. map (\<lambda>k. (k, api_key_call_count (ky_id k) (rw_db w))) (list_api_keys client_id (rw_db w))))"

text \<open>\<open>update_api_key\<close> and \<open>revoke_api_key\<close>: the only status a key is given is revoked.\<close>

definition revoke_key :: "uuid \<Rightarrow> uuid \<Rightarrow> ('m, 'o, api_key \<times> nat) run" where
  "revoke_key client_id key_id =
     abind (known_key client_id key_id) (\<lambda>k.
     abind (committed version_exn (\<lambda>t db. Inr (revoke_api_key t k db))) key_read)"

definition read_bindings :: "uuid \<Rightarrow> ('m, 'o, api_binding list) run" where
  "read_bindings client_id =
     abind (known_client client_id) (\<lambda>c. rread (\<lambda>w. list_agent_bindings client_id (rw_db w)))"

definition bind_client_agent :: "uuid \<Rightarrow> string \<Rightarrow> ('m, 'o, api_binding) run" where
  "bind_client_agent client_id agent_id =
     abind (known_client client_id) (\<lambda>c. abind (known_agent agent_id) (\<lambda>a.
     committed version_exn (\<lambda>t db. Inr (bind_agent t client_id agent_id db))))"

definition unbind_client_agent :: "uuid \<Rightarrow> string \<Rightarrow> ('m, 'o, unit) run" where
  "unbind_client_agent client_id agent_id =
     abind (known_client client_id) (\<lambda>c.
     abind (committed version_exn (\<lambda>t db. Inr (unbind_agent client_id agent_id db))) (\<lambda>found.
     if found then aret () else araise (refuse_api 404 ''Agent binding not found'')))"

section \<open>Audit and metrics\<close>

definition audit_words :: "(string \<times> audit_status) list" where
  "audit_words = [(''succeeded'', U_succeeded), (''failed'', U_failed), (''rejected'', U_rejected)]"

definition read_audit_logs ::
  "string option \<Rightarrow> uuid option \<Rightarrow> string option \<Rightarrow> nat \<Rightarrow> nat \<Rightarrow> ('m, 'o, audit_log list) run"
where
  "read_audit_logs agent_id client_id status limit offset =
     (case status of
        None \<Rightarrow> rread (\<lambda>w. list_audit_logs agent_id client_id None limit offset (rw_db w))
      | Some s \<Rightarrow>
          (case map_of audit_words s of
             None \<Rightarrow> araise (refuse_api 422 ''invalid audit status'')
           | Some st \<Rightarrow> rread (\<lambda>w. list_audit_logs agent_id client_id (Some st) limit offset (rw_db w))))"

definition read_summary :: "('m, 'o, metrics_totals) run" where
  "read_summary = rread (\<lambda>w. metrics_summary (rw_now w) (rw_db w))"

definition read_metrics :: "('m, 'o, metric_read list) run" where
  "read_metrics = rread (\<lambda>w. list_agent_metrics (rw_db w))"

definition read_agent_metrics :: "string \<Rightarrow> ('m, 'o, metric_read) run" where
  "read_agent_metrics agent_id =
     abind (known_agent agent_id) (\<lambda>a w.
     ((case get_agent_metrics agent_id (rw_db w) of
         None \<Rightarrow> Inl (refuse_api 404 ''Agent metrics not found'') | Some m \<Rightarrow> Inr m), w))"

end
