(* ===== verification/Production_Api_Correct.thy ===== *)
theory Production_Api_Correct
  imports Production_Api Agent_Versions_Correct Agent_Run_Claims
begin

text \<open>
  What the handlers of production Agents guarantee: a version is published only after its preflight and its
  health checks, with the resolution that was checked, and a publication that is refused changes nothing.
\<close>

section \<open>The parts of a publication\<close>

lemma map_error_Inr [simp]: "map_error f r = Inr x \<longleftrightarrow> r = Inr x"
  by (cases r) (simp_all add: map_error_def)

lemma known_agent_Inr: "known_agent x w = (Inr a, w') \<longleftrightarrow> get_agent x (rw_db w) = Some a \<and> w' = w"
  by (auto simp: known_agent_def split: option.splits)

lemma rlift_Inr: "rlift r w = (Inr x, w') \<longleftrightarrow> r = Inr x \<and> w' = w"
  by (auto simp: rlift_def)

lemma rread_Inr: "rread f w = (Inr x, w') \<longleftrightarrow> x = f w \<and> w' = w"
  by (auto simp: rread_def)

lemma committed_Inr: "committed h f w = (Inr x, w') \<longleftrightarrow> (\<exists>db. f (rw_now w) (rw_db w) = Inr (x, db) \<and> w' = w\<lparr>rw_db := db\<rparr>)"
  by (auto simp: committed_def split: sum.splits)

text \<open>What raises leaves the world as it was.\<close>

definition undone :: "('m, 'o, 'a) run \<Rightarrow> bool" where
  "undone m \<longleftrightarrow> (\<forall>w e w'. m w = (Inl e, w') \<longrightarrow> w' = w)"

definition reads :: "('m, 'o, 'a) run \<Rightarrow> bool" where
  "reads m \<longleftrightarrow> (\<forall>w. snd (m w) = w)"

lemma undone_bind: "reads m \<Longrightarrow> (\<And>x. undone (f x)) \<Longrightarrow> undone (abind m f)"
  by (auto simp: undone_def reads_def abind_def split: prod.splits sum.splits) (metis snd_conv)+

lemma reads_parts:
  "reads (known_agent x)" "reads (rlift r)" "reads (rread g)" "reads (known_version x v)" "reads (known_client i)" "reads (known_key i k)"
  by (simp_all add: reads_def known_agent_def rlift_def rread_def known_version_def known_client_def known_key_def)

lemma undone_parts: "undone (araise e)" "undone (aret x)" "undone (committed h f)"
  by (auto simp: undone_def araise_def aret_def committed_def split: sum.splits)

lemma undone_publish: "undone (publish_request E P x version)"
proof -
  have pair: "(\<And>r s. undone (f r s)) \<Longrightarrow> undone (case p of (r, s) \<Rightarrow> f r s)" for f :: "runtime_agent \<Rightarrow> 'x \<Rightarrow> ('m, 'o, agent_version) run" and p
    by (cases p) simp
  show ?thesis
    unfolding publish_request_def Let_def
    by (auto intro!: undone_bind reads_parts undone_parts pair)
qed

lemma publish_request_E:
  assumes "publish_request E P x version w = (Inr v', w')"
  obtains a v n r s h db' where "get_agent x (rw_db w) = Some a" and "ag_status a = A_active"
    and "chosen_version x version (rw_db w) = Inr v" and "preflight E (rw_cap w) v = Inr n"
    and "build_version_runtime_agent (rx_rep E) (hp_check_schema P) a (freeze n v) (upd_version (av_id v) (freeze n) (rw_db w)) = Inr (r, s)"
    and "check_health P (ra_id r) (ra_model_adapter r) (ra_model r) (ra_skills r) (ra_mcp_servers r) (rw_fs w) = Inr h"
    and "hl_healthy h"
    and "publish_agent (rx_rep E) (rw_now w) a (freeze n v) (upd_version (av_id v) (freeze n) (rw_db w)) = Inr (v', db')"
    and "w' = w\<lparr>rw_db := db'\<rparr>"
  using assms
  by (auto simp: publish_request_def abind_Inr known_agent_Inr rlift_Inr rread_Inr committed_Inr Let_def araise_def
      healthy_version_def rbind_Inr split: if_splits)

lemma chosen_version_Inr:
  assumes "chosen_version x version db = Inr v"
  shows "v \<in> set (versions db) \<and> av_agent_id v = x \<and> av_status v = V_release_candidate"
  using assms
  by (auto simp: chosen_version_def rbind_Inr get_agent_version_def list_agent_versions_def
      split: option.splits list.splits if_splits dest!: first_row_Some)

lemma freeze_same [simp]:
  "av_id (freeze n v) = av_id v" "av_agent_id (freeze n v) = av_agent_id v" "av_status (freeze n v) = av_status v"
  by (simp_all add: freeze_def frozen_def split: option.splits)

lemma preflight_ready:
  assumes "preflight E cs v = Inr (Some n)"
  shows "resolve_agent_capabilities (rx_rep E) (rx_sorted_dumps E) (rx_sha256 E) cs v = Inr n \<and> ready n"
  using assms by (auto simp: preflight_def rbind_Inr split: if_splits)

lemma frozen_versions:
  assumes "versions_ok db" and "v \<in> set (versions db)" and "av_status v = V_release_candidate"
  shows "versions_ok (upd_version (av_id v) (freeze n) db)"
    and "get_agent_version_by_id (av_agent_id v) (av_id v) (upd_version (av_id v) (freeze n) db) = Some (freeze n v)"
proof -
  have same: "u = v" if "u \<in> set (versions db)" "av_id u = av_id v" for u
    using distinct_ids_eq [of "versions db" u v] assms(1,2) that by (simp add: versions_ok_def)
  show ok: "versions_ok (upd_version (av_id v) (freeze n) db)"
  proof (rule unpublished_edit_ok [OF assms(1), where i = "av_id v" and f = "freeze n"])
    fix u assume "u \<in> set (versions db)" "av_id u = av_id v"
    then have "u = v" by (rule same)
    then show "av_status u \<noteq> V_published" "av_status (freeze n u) \<noteq> V_published" using assms(3) by simp_all
  qed simp_all
  have f: "freeze n v \<in> set (versions (upd_version (av_id v) (freeze n) db))"
    using assms(2) by (force simp: upd_version_def row_upd_def)
  have "get_agent_version_by_id (av_agent_id v) (av_id v) (upd_version (av_id v) (freeze n) db) \<noteq> None"
    unfolding get_agent_version_by_id_def first_row_def find_None_iff using f freeze_same by blast
  then obtain u where u: "get_agent_version_by_id (av_agent_id v) (av_id v) (upd_version (av_id v) (freeze n) db) = Some u"
    by blast
  have "u = freeze n v"
    using get_version_fresh [OF ok u f] get_agent_version_by_id_Some [OF u] by simp
  then show "get_agent_version_by_id (av_agent_id v) (av_id v) (upd_version (av_id v) (freeze n) db) = Some (freeze n v)"
    using u by simp
qed

text \<open>The checks that come before a version is released.\<close>

definition release_checked :: "('m, 'o) run_env \<Rightarrow> probes \<Rightarrow> string \<Rightarrow> ('m, 'o) run_world \<Rightarrow> agent_version \<Rightarrow> capability_resolution option \<Rightarrow> bool" where
  "release_checked E P x w v n \<longleftrightarrow>
     v \<in> set (versions (rw_db w)) \<and> av_agent_id v = x \<and> av_status v = V_release_candidate \<and>
     preflight E (rw_cap w) v = Inr n \<and>
     (\<forall>m. n = Some m \<longrightarrow> resolve_agent_capabilities (rx_rep E) (rx_sorted_dumps E) (rx_sha256 E) (rw_cap w) v = Inr m \<and> ready m) \<and>
     (\<exists>a r s h. get_agent x (rw_db w) = Some a \<and> ag_status a = A_active \<and>
        build_version_runtime_agent (rx_rep E) (hp_check_schema P) a (freeze n v) (upd_version (av_id v) (freeze n) (rw_db w)) = Inr (r, s) \<and>
        check_health P (ra_id r) (ra_model_adapter r) (ra_model r) (ra_skills r) (ra_mcp_servers r) (rw_fs w) = Inr h \<and> hl_healthy h)"

lemma publish_request_checked:
  assumes "publish_request E P x version w = (Inr v', w')"
  shows "\<exists>v n. release_checked E P x w v n \<and> v' = published (rw_now w) (freeze n v)"
proof -
  obtain a v n r s h db' where p: "get_agent x (rw_db w) = Some a" "ag_status a = A_active"
    "chosen_version x version (rw_db w) = Inr v" "preflight E (rw_cap w) v = Inr n"
    "build_version_runtime_agent (rx_rep E) (hp_check_schema P) a (freeze n v) (upd_version (av_id v) (freeze n) (rw_db w)) = Inr (r, s)"
    "check_health P (ra_id r) (ra_model_adapter r) (ra_model r) (ra_skills r) (ra_mcp_servers r) (rw_fs w) = Inr h"
    "hl_healthy h"
    and pub: "publish_agent (rx_rep E) (rw_now w) a (freeze n v) (upd_version (av_id v) (freeze n) (rw_db w)) = Inr (v', db')"
    using assms by (rule publish_request_E)
  have "release_checked E P x w v n"
    unfolding release_checked_def using chosen_version_Inr [OF p(3)] preflight_ready p by blast
  moreover have "v' = published (rw_now w) (freeze n v)" using pub by (rule publish_agent_E)
  ultimately show ?thesis by blast
qed

lemma publish_request_released:
  assumes "publish_request E P x version w = (Inr v', w')" and "versions_ok (rw_db w)"
  shows "versions_ok (rw_db w')" and "v' \<in> set (versions (rw_db w'))" and "av_status v' = V_published"
    and "\<exists>b. get_agent x (rw_db w') = Some b \<and> ag_current_version_id b = Some (av_id v') \<and> ag_status b = A_active \<and> ag_api_enabled b"
proof -
  obtain a v n r s h db' where a: "get_agent x (rw_db w) = Some a" and v: "chosen_version x version (rw_db w) = Inr v"
    and pub: "publish_agent (rx_rep E) (rw_now w) a (freeze n v) (upd_version (av_id v) (freeze n) (rw_db w)) = Inr (v', db')"
    and w': "w' = w\<lparr>rw_db := db'\<rparr>"
    using assms(1) by (rule publish_request_E)
  have x: "ag_id a = x" using a row_get_Some by metis
  note c = chosen_version_Inr [OF v]
  let ?db = "upd_version (av_id v) (freeze n) (rw_db w)"
  have ok: "versions_ok ?db" and g: "get_agent_version_by_id (ag_id a) (av_id (freeze n v)) ?db = Some (freeze n v)"
    using frozen_versions [OF assms(2), of v n] c x by auto
  have a': "get_agent (ag_id a) ?db = Some a" using a x by simp
  note e = publish_agent_effects_parts [OF ok a' g pub]
  show "versions_ok (rw_db w')" using publish_agent_versions_ok [OF ok g pub] by (simp add: w')
  show "v' \<in> set (versions (rw_db w'))" "av_status v' = V_published" using e(1) by (simp_all add: w')
  show "\<exists>b. get_agent x (rw_db w') = Some b \<and> ag_current_version_id b = Some (av_id v') \<and> ag_status b = A_active \<and> ag_api_enabled b"
    using e(1,2) x by (simp add: w')
qed

section \<open>Properties\<close>



section \<open>Samples\<close>

definition sample_probes :: probes where
  "sample_probes = \<lparr>hp_chat = (\<lambda>_ _ _. Inr (''completed'', ''ok'', 1500)), hp_skill_rows = (\<lambda>_. []),
     hp_skill_env = \<lparr>se_unzip = (\<lambda>_. None), se_yaml = (\<lambda>_. Inr JNull), se_dump = (\<lambda>_. []), se_loads = (\<lambda>_. Inr JNull),
       se_fold = (\<lambda>s. s), se_sha256 = (\<lambda>_. []), se_rep = (\<lambda>_. [])\<rparr>,
     hp_skill_settings = \<lparr>sk_root = [], sk_max_upload = 0, sk_max_extracted = 0, sk_max_entries = 0, sk_max_document = 0\<rparr>,
     hp_initialize = (\<lambda>_. None), hp_check_schema = (\<lambda>_. None)\<rparr>"


end
