(* ===== verification/Spec2Isabelle.thy ===== *)
theory Spec2Isabelle
  imports Orchestrator_Correct Execution_Steps Agent_Versions_Correct Api_Keys_Correct Worker_Correct
    Capability_Resolver_Correct Database_Claims Agent_Memory Agent_Run_Claims
    Execution_Api_Correct Skill_Packages_Correct
    Run_Stream_Correct Public_Calls_Correct Production_Api_Correct
begin

text \<open>
  Hermes Agent platform: a verification development of its core, which is the Python code of \<open>backend/app\<close>, of
  \<open>services/mcp-gateway\<close> and of \<open>services/postgres-mcp\<close>.

  \<^bold>\<open>The program.\<close> The backend keeps Agents (prompt, model, runtime, Skills, capabilities) in a database, releases
  versions of them, and runs them. A run comes from a console user, from a task of the queue or from a client
  of the public API. It is prepared (workspace, memory, Skills, knowledge, capabilities, prompt), handed to an external runtime
  (Hermes, Pi, DeepSeek), and its result is checked, recorded and stored. While it works, the runtime calls capabilities through the
  Capability Gateway with the token of its execution; the gateway checks caller, binding, policy, quotas and
  approval and calls a provider, one of which is the service of database tools. Teams and workflows of Agents are
  runs of the orchestrator: a tree of tasks that workers take off a queue in Redis.

  \<^bold>\<open>Theories, in the order of the code.\<close>

  \<^item> \<open>Prelude\<close>, \<open>Json\<close>, \<open>Python_Conversions\<close>, \<open>Base64\<close>, \<open>Url\<close>, \<open>File_System\<close>: what the code uses of Python and of
    its library. A \<open>str\<close> is the list of its UTF-8 bytes, an exception the left part of a sum, a table a list
    of rows with the locale \<open>keyed_rows\<close> for lookup and update by key, a handler a function from a state to a result and a state
    (\<open>abind\<close> composes two). Identifiers come from the counter of the store, instants are microseconds.
  \<^item> \<open>Models\<close>, \<open>Capability_Models\<close>: the rows of \<open>db/models.py\<close>, each table one field of \<open>store\<close>, of its registry or of the
    store of the capabilities. \<open>World\<close>: database, queue, bus, files and clock of a handler of the orchestrator and the worker.
  \<^item> \<open>Workflow_Dag\<close> (\<open>schemas/multi_agent.py\<close>), \<open>Capability_Profile\<close> (\<open>runtime/capabilities.py\<close>), \<open>Agent_Contract\<close>
    (\<open>schemas/schema_validation.py\<close>, \<open>schemas/runtime.py\<close>, \<open>prompting/builder.py\<close>): definitions of workflows, profiles and prompts.
  \<^item> \<open>Workspace\<close> (\<open>workspace.py\<close>), \<open>Artifact_Storage\<close> (\<open>storage/artifacts.py\<close>; locale \<open>storage_provider\<close>), \<open>Task_Queue\<close> (\<open>task_queue.py\<close>;
    locales \<open>redis_zset\<close> and \<open>work_queue\<close>), \<open>Message_Bus\<close> (\<open>message_bus.py\<close>; locale \<open>redis_stream\<close>), \<open>Agent_Memory\<close>
    (\<open>memory/store.py\<close>; locale \<open>memory_provider\<close>): the stores. Each locale is interpreted on the model of its provider; that of Redis is
    its documented behaviour.
  \<^item> \<open>Task_Store\<close> (\<open>repositories/orchestration.py\<close>), \<open>Team_Store\<close> (\<open>repositories/multi_agent.py\<close>), \<open>Execution_Steps\<close>
    (\<open>repositories/executions.py\<close>), \<open>Agent_Versions\<close> and \<open>Api_Keys\<close> (\<open>repositories/production.py\<close>): the operations on rows.
  \<^item> \<open>Orchestrator\<close> (\<open>orchestrator.py\<close>, one pass of \<open>orchestrator_worker.py\<close>) and \<open>Worker\<close> (\<open>worker.py\<close>): team and workflow runs.
  \<^item> \<open>Capability_Token\<close> (\<open>auth.py\<close> of the gateway, \<open>capabilities/security.py\<close>, \<open>capabilities/revocation.py\<close>, \<open>mcp/access.py\<close>),
    \<open>Parameter_Policy\<close>, \<open>Provider_Call\<close>, \<open>Gateway_Steps\<close>, \<open>Capability_Gateway\<close> (\<open>capability_gateway.py\<close>; locale \<open>stage_relation\<close> for what the
    stages of a request preserve), \<open>Gateway_Invocations\<close> (interleaved requests as an inductive step relation), \<open>Capability_Resolver\<close>
    (\<open>capabilities/resolver.py\<close>), \<open>Sql_Policy\<close> and \<open>Database_Tools\<close> (\<open>sql_policy.py\<close>, \<open>server.py\<close>, \<open>auth.py\<close> of the database tools).
  \<^item> \<open>Run_Parts\<close>, \<open>Agent_Runs\<close>, \<open>Run_Preparation\<close>, \<open>Run_Stream\<close> (\<open>api/agents.py\<close> with the functions of \<open>runtime/\<close> it calls):
    \<open>execute_agent_sync\<close>, \<open>_prepare_agent_execution\<close>, \<open>stream_prepared_agent\<close>; \<open>Public_Calls\<close> (\<open>api/publications.py\<close>), \<open>Production_Api\<close>
    (\<open>api/production.py\<close> and the change of a publication), \<open>Execution_Api\<close> (\<open>api/executions.py\<close>), \<open>Skill_Packages\<close> (\<open>skills/package.py\<close>, \<open>skills/loader.py\<close>).

  The theories that end in \<open>_Correct\<close> or \<open>_Claims\<close>, and \<open>Run_Frames\<close>, hold the lemmas on the theory they are named after.

  \<^bold>\<open>What is shown.\<close>

  \<^item> Workflows and tasks: the graph check accepts exactly the acyclic definitions; a reconciliation moves tasks along their
    lifecycle only, releases a child only after its dependencies, and always finds something to release in a run whose finished children
    have succeeded; a task is run at most as often as allowed; the queue gives tasks by priority and age, rounding of doubles included;
    a conversation has one active run.
  \<^item> Versions and clients: at most one published version per Agent, snapshots restore the configuration, the search for a name ends; a version is
    published only after its preflight and health checks;
    a key gives access exactly when client, binding and Agent allow it, counters agree with the audit log, the rate limit
    admits the first calls of a minute; every public call is admitted before it runs anything, and leaves one record.
  \<^item> Capabilities: tokens are accepted exactly when they are issued, complete and unexpired; a resolution never raises on rows of the declared types and
    what it calls ready is found by the gateway; a provider is asked only when permitted, at checked addresses, with arguments the policy
    confines; requests refine abstract steps on the rows of invocations, within the quotas whatever the interleaving;
    failures are recorded, and the cache answers only for the same call; the database tools only read what the scope lists.
  \<^item> Runs: a result that is returned or told in a stream has passed its contract and is recorded with its artifacts; a refused, failed or
    abandoned run has ended with its steps; a cancelled run stays cancelled; the token of a run is good for exactly its resolution; turns
    of a conversation are remembered; writes stay under the workspace and imports under the directory of their Skill.

  Where modelling showed that the code does not do what it means to, a lemma beside the component proves it, e.g.
  \<open>turn_kept_when_cancelled\<close>, \<open>stop_overwrites_success\<close>, \<open>oversized_call_not_audited\<close>, \<open>deleted_conversation_returns\<close>.

  \<^bold>\<open>Parameters.\<close> What is no part of the repository is an argument of the definitions, by the environments \<open>env\<close>, \<open>run_env\<close>, \<open>public_env\<close>,
  \<open>db_env\<close> and their like: JSON text, JSON schema, SHA-256 and HMAC, the parsers of SQL, ZIP and YAML, the drivers of the databases, Redis
  (which may also be down), the provider that answers a request, DNS, and the adapters of the runtimes, which are arbitrary functions
  of the world. The properties name what they need of them, e.g. \<open>quiet_runtime\<close>.

  \<^bold>\<open>Bounds.\<close> The only loops without an evident measure are the resolution of symbolic links, bounded as in the kernel by \<open>fs_max_links\<close>, and the
  search for a version name, for which one round per version of the Agent plus one is shown to be enough; every other recursion is
  structural or has its termination proof. Numbers of Python are unbounded; scores of the queue, \<open>round\<close> and the
  averages are rational numbers rounded as doubles are.

  \<^bold>\<open>Not modelled.\<close>

  \<^item> The handlers of the console and of the registries (\<open>api/console.py\<close>, \<open>api/capabilities.py\<close>, \<open>api/multi_agent.py\<close>, \<open>api/orchestration.py\<close>,
    \<open>api/schema_versions.py\<close> and the smaller ones, with the editing handlers of \<open>api/agents.py\<close> and the run of a version under test): queries and views over the repositories, most of which
    are modelled.
  \<^item> Connections to databases and models (\<open>database_connections.py\<close>, \<open>model_gateway.py\<close>, \<open>source_recall.py\<close>, \<open>source_recall_gateway.py\<close>, \<open>adapters.py\<close> of the
    database tools): network clients of services and drivers that are parameters here.
  \<^item> The clients of the runtimes (\<open>runtime/hermes.py\<close>, \<open>runtime/pi.py\<close>, \<open>runtime/adapters.py\<close>, but for the functions on results), and the services
    that host them (\<open>services/deepseek-runtime\<close>, \<open>services/hermes-runtime\<close>, \<open>services/pi-runtime\<close>): processes and network.
  \<^item> The first tools of the gateway (\<open>server.py\<close> of \<open>services/mcp-gateway\<close>), the knowledge service, the migrations, the start of the program, the
    frontend, scripts and tests.
  \<^item> Concurrency inside one handler of the backend: a handler is one sequence of commits, with other processes seen where a runtime or a provider
    is called; only the gateway has an interleaving semantics. Time passes only where the code reads the clock again.
\<close>

end
